(* ===== verification/PO_Prelude.thy ===== *)
theory PO_Prelude
  imports Complex_Main "HOL-Library.AList" "HOL-Library.Sublist"
begin

text \<open>
  Shared base of the PaymentOps development: results with errors as values, Python's
  dictionaries as association lists in insertion order, Python's truth value of an optional
  string, and the generic lemmas about lists and maps that the component theories use.
  The collections \<open>dict_simps\<close>, \<open>res_simps\<close> and \<open>tenant_simps\<close> gather the facts that
  carry the proofs about dictionaries, about results and about tenant-scoped lookups.
\<close>

named_theorems dict_simps
named_theorems res_simps
named_theorems tenant_simps

section \<open>Errors and results\<close>

text \<open>
  Every exception the modelled code raises, as a value. The text carried by a constructor is
  the message of the exception; the XML taxonomy of \<open>xml_errors.py\<close> is one constructor per
  class.
\<close>

datatype py_error =
    ValueError string
  | ValidationError string
  | OverflowError string
  | LookupError string
  | PermissionError string
  | TypeError string
  | MalformedXmlError string
  | PayloadTooLargeError string
  | ProhibitedEntityError string
  | UnsupportedMessageTypeError string
  | EncodingError string
  | UnsupportedMessageError string
  | AuthenticationError string
  | AccountDisabledError string
  | AttributeError string
  | KeyError string
  | IndexError string
  | FileNotFoundError string
  | RuntimeError string
  | BatchLimitError string
  | CsvError string
  | ArithmeticError string
  | XPathEvalError string
  | StatementError string
  | IntegrityError string
  | MultipleResultsFound
  | HTTPException nat string

type_synonym 'a res = "py_error + 'a"

definition bindR :: "'a res \<Rightarrow> ('a \<Rightarrow> 'b res) \<Rightarrow> 'b res" where
  "bindR m f = (case m of Inl e \<Rightarrow> Inl e | Inr x \<Rightarrow> f x)"

text \<open>A Python loop or comprehension whose body can raise: the first error ends it.\<close>

fun mapR :: "('a \<Rightarrow> 'b res) \<Rightarrow> 'a list \<Rightarrow> 'b list res" where
  "mapR f [] = Inr []"
| "mapR f (x # xs) =
     (case f x of Inl e \<Rightarrow> Inl e
      | Inr y \<Rightarrow> (case mapR f xs of Inl e \<Rightarrow> Inl e | Inr ys \<Rightarrow> Inr (y # ys)))"

lemma bindR_simps [simp, res_simps]:
  "bindR (Inl e) f = Inl e" "bindR (Inr x) f = f x"
  by (simp_all add: bindR_def)

lemma bindR_Inr [res_simps]: "bindR m f = Inr y \<longleftrightarrow> (\<exists>x. m = Inr x \<and> f x = Inr y)"
  by (cases m) auto

lemma bindR_Inl [res_simps]: "bindR m f = Inl e \<longleftrightarrow> m = Inl e \<or> (\<exists>x. m = Inr x \<and> f x = Inl e)"
  by (cases m) auto

lemma mapR_Inr_length: "mapR f xs = Inr ys \<Longrightarrow> length ys = length xs"
  by (induction xs arbitrary: ys) (auto split: sum.splits)

lemma mapR_Inr_nth: "mapR f xs = Inr ys \<Longrightarrow> i < length xs \<Longrightarrow> f (xs ! i) = Inr (ys ! i)"
proof (induction xs arbitrary: ys i)
  case Nil
  then show ?case by simp
next
  case (Cons x xs)
  then show ?case by (cases i) (auto split: sum.splits)
qed

lemma mapR_total: "(\<And>x. x \<in> set xs \<Longrightarrow> f x = Inr (g x)) \<Longrightarrow> mapR f xs = Inr (map g xs)"
  by (induction xs) auto

lemma mapR_Inl: "mapR f xs = Inl e \<Longrightarrow> \<exists>x\<in>set xs. f x = Inl e"
  by (induction xs) (auto split: sum.splits)

lemma mapR_Inr_iff: "(\<exists>ys. mapR f xs = Inr ys) \<longleftrightarrow> (\<forall>x\<in>set xs. \<exists>y. f x = Inr y)"
proof (induction xs)
  case Nil
  then show ?case by simp
next
  case (Cons x xs)
  then show ?case by (cases "f x"; cases "mapR f xs") auto
qed

section \<open>Truth values and \<open>or\<close> on optional strings\<close>

text \<open>
  A Python value of type \<open>str | None\<close> is true unless it is \<open>None\<close> or empty, and
  \<open>a or b\<close> is \<open>a\<close> when \<open>a\<close> is true and \<open>b\<close> otherwise.
\<close>

definition truthy :: "string option \<Rightarrow> bool" where
  "truthy x = (case x of None \<Rightarrow> False | Some s \<Rightarrow> s \<noteq> [])"

definition por :: "string option \<Rightarrow> string option \<Rightarrow> string option" where
  "por a b = (if truthy a then a else b)"

text \<open>The Python idiom \<open>s or None\<close>.\<close>

definition or_none :: "string \<Rightarrow> string option" where
  "or_none s = (if s = [] then None else Some s)"

text \<open>\<open>str(x or "")\<close>\<close>

definition dget_opt :: "string option \<Rightarrow> string" where
  "dget_opt x = (case x of None \<Rightarrow> [] | Some s \<Rightarrow> s)"

lemma truthy_simps [simp]: "\<not> truthy None" "truthy (Some s) \<longleftrightarrow> s \<noteq> []"
  by (simp_all add: truthy_def)

lemma truthy_iff: "truthy x \<longleftrightarrow> (\<exists>s. x = Some s \<and> s \<noteq> [])"
  by (cases x) auto

lemma por_simps [simp]: "por None b = b" "s \<noteq> [] \<Longrightarrow> por (Some s) b = Some s" "por (Some []) b = b"
  by (simp_all add: por_def)

lemma or_none_simps [simp]: "or_none [] = None" "s \<noteq> [] \<Longrightarrow> or_none s = Some s"
  by (simp_all add: or_none_def)

lemma or_none_eq_Some [simp]: "or_none s = Some t \<longleftrightarrow> s = t \<and> t \<noteq> []"
  by (auto simp: or_none_def)

lemma or_none_eq_None [simp]: "or_none s = None \<longleftrightarrow> s = []"
  by (auto simp: or_none_def)

lemma truthy_or_none [simp]: "truthy (or_none s) \<longleftrightarrow> s \<noteq> []"
  by (auto simp: or_none_def)

section \<open>Dictionaries\<close>

text \<open>
  A Python dictionary is an association list in insertion order: reading a key is
  \<open>map_of\<close>, storing replaces the value of a present key in its place and appends a new
  key at the end, which is what \<open>AList.update\<close> does.
\<close>

type_synonym ('k, 'v) dict = "('k \<times> 'v) list"

definition dget :: "('k, 'v) dict \<Rightarrow> 'k \<Rightarrow> 'v \<Rightarrow> 'v" where
  "dget d k v = (case map_of d k of None \<Rightarrow> v | Some x \<Rightarrow> x)"

lemma dget_simps [simp, dict_simps]:
  "dget [] k v = v" "dget ((k', x) # d) k v = (if k = k' then x else dget d k v)"
  by (auto simp: dget_def)

lemma map_of_update [simp, dict_simps]: "map_of (AList.update k v d) = (map_of d)(k \<mapsto> v)"
  by (simp add: update_conv')

lemma dget_update [simp, dict_simps]:
  "dget (AList.update k v d) k' w = (if k' = k then v else dget d k' w)"
  by (simp add: dget_def)

lemma map_of_map_keyed:
  "map_of (map (\<lambda>(k, v). (k, f k v)) d) k = map_option (f k) (map_of d k)"
  by (induction d) auto

lemma dget_in_set: "dget d k v = v \<or> (k, dget d k v) \<in> set d"
  by (auto simp: dget_def split: option.splits dest: map_of_SomeD)

text \<open>JSON values, the model of \<open>Any\<close> where the sources carry free-form metadata.\<close>

datatype jval = JNull | JBool bool | JInt int | JFloat rat | JStr string | JList "jval list"
  | JObj "(string \<times> jval) list"

section \<open>Lists\<close>

text \<open>\<open>[t for t in (f(x) for x in xs) if t]\<close>: the true results, in order.\<close>

fun collect_some :: "('a \<Rightarrow> 'b option) \<Rightarrow> 'a list \<Rightarrow> 'b list" where
  "collect_some f [] = []"
| "collect_some f (x # xs) =
     (case f x of None \<Rightarrow> collect_some f xs | Some y \<Rightarrow> y # collect_some f xs)"

lemma set_collect_some: "set (collect_some f xs) = {y. \<exists>x\<in>set xs. f x = Some y}"
  by (induction xs) (auto split: option.splits)

lemma length_collect_some_le: "length (collect_some f xs) \<le> length xs"
  by (induction xs) (auto split: option.splits)

text \<open>Appending a value only if it is not there yet, keeping the first occurrence.\<close>

fun dedup_onto :: "'a list \<Rightarrow> 'a list \<Rightarrow> 'a list" where
  "dedup_onto acc [] = acc"
| "dedup_onto acc (x # xs) = dedup_onto (if x \<in> set acc then acc else acc @ [x]) xs"

lemma set_dedup_onto [simp]: "set (dedup_onto acc xs) = set acc \<union> set xs"
  by (induction xs arbitrary: acc) auto

lemma distinct_dedup_onto: "distinct acc \<Longrightarrow> distinct (dedup_onto acc xs)"
  by (induction xs arbitrary: acc) auto

text \<open>
  Python's \<open>list.sort(key=f, reverse=True)\<close> is stable: equal elements keep their order.
  Insertion from the right, placing an element before the first strictly smaller or equal one.
\<close>

fun insort_desc :: "('a \<Rightarrow> 'b::linorder) \<Rightarrow> 'a \<Rightarrow> 'a list \<Rightarrow> 'a list" where
  "insort_desc f x [] = [x]"
| "insort_desc f x (y # ys) = (if f y \<le> f x then x # y # ys else y # insort_desc f x ys)"

definition sort_desc :: "('a \<Rightarrow> 'b::linorder) \<Rightarrow> 'a list \<Rightarrow> 'a list" where
  "sort_desc f xs = foldr (insort_desc f) xs []"

lemma set_insort_desc [simp]: "set (insort_desc f x xs) = insert x (set xs)"
  by (induction xs) auto

lemma length_insort_desc [simp]: "length (insort_desc f x xs) = Suc (length xs)"
  by (induction xs) auto

lemma sort_desc_Nil [simp]: "sort_desc f [] = []"
  by (simp add: sort_desc_def)

lemma sort_desc_Cons [simp]: "sort_desc f (x # xs) = insort_desc f x (sort_desc f xs)"
  by (simp add: sort_desc_def)

lemma set_sort_desc [simp]: "set (sort_desc f xs) = set xs"
  by (induction xs) auto

lemma length_sort_desc [simp]: "length (sort_desc f xs) = length xs"
  by (induction xs) auto

lemma sorted_wrt_insort_desc:
  "sorted_wrt (\<lambda>a b. f b \<le> f a) xs \<Longrightarrow> sorted_wrt (\<lambda>a b. f b \<le> f a) (insort_desc f x xs)"
  by (induction xs) (auto intro: order_trans)

lemma sorted_sort_desc: "sorted_wrt (\<lambda>a b. f b \<le> f a) (sort_desc f xs)"
  by (induction xs) (auto intro: sorted_wrt_insort_desc)

lemma sort_desc_eq_Nil [simp]: "sort_desc f xs = [] \<longleftrightarrow> xs = []"
proof -
  have "length (sort_desc f xs) = 0 \<longleftrightarrow> length xs = 0" by simp
  then show ?thesis by blast
qed

lemma hd_sort_desc_max: "x \<in> set xs \<Longrightarrow> f x \<le> f (hd (sort_desc f xs))"
proof -
  assume x: "x \<in> set xs"
  then obtain y ys where s: "sort_desc f xs = y # ys"
    by (metis empty_iff empty_set neq_Nil_conv set_sort_desc)
  have "sorted_wrt (\<lambda>a b. f b \<le> f a) (y # ys)"
    using sorted_sort_desc[of f xs] by (simp add: s)
  moreover have "x \<in> set (y # ys)"
    using x s by (metis set_sort_desc)
  ultimately show "f x \<le> f (hd (sort_desc f xs))"
    by (auto simp: s)
qed

lemma filter_insort_desc:
  "filter (\<lambda>y. f y = k) (insort_desc f x xs) = filter (\<lambda>y. f y = k) (x # xs)"
  by (induction xs) auto

lemma sort_desc_stable: "filter (\<lambda>y. f y = k) (sort_desc f xs) = filter (\<lambda>y. f y = k) xs"
  by (induction xs) (simp_all add: filter_insort_desc)

end
