(* ===== verification/PO_Text.thy ===== *)
theory PO_Text
  imports PO_Prelude
begin

text \<open>
  The string operations of Python that the sources use, on lists of code points. The model
  covers ASCII text: on it Unicode normalization NFKC is the identity and upper, lower and
  casefold change only the letters A-Z and a-z. Characters above 127 are carried through
  unchanged, so nothing is stated about their case or compatibility forms. The lemmas are the
  ones normalization proofs need: what each operation leaves in a string, and which of them
  do nothing when applied again.
\<close>

named_theorems text_simps

section \<open>Whitespace\<close>

text \<open>\<open>str.isspace\<close>, which is also the class \<open>\\s\<close> of \<open>re\<close>: 9-13, 28-31, space, 133 and 160.\<close>

definition is_space :: "char \<Rightarrow> bool" where
  "is_space c = (let n = (of_char c :: nat) in
     (9 \<le> n \<and> n \<le> 13) \<or> (28 \<le> n \<and> n \<le> 32) \<or> n = 133 \<or> n = 160)"

definition lstrip :: "string \<Rightarrow> string" where
  "lstrip s = dropWhile is_space s"

definition rstrip :: "string \<Rightarrow> string" where
  "rstrip s = rev (dropWhile is_space (rev s))"

definition strip :: "string \<Rightarrow> string" where
  "strip s = rstrip (lstrip s)"

text \<open>\<open>re.sub(r"\\s+", " ", s)\<close>: every run of whitespace becomes one space.\<close>

fun sub_ws :: "string \<Rightarrow> string" where
  "sub_ws [] = []"
| "sub_ws (c # s) =
     (if is_space c
      then (case sub_ws s of [] \<Rightarrow> [CHR '' ''] | d # r \<Rightarrow> (if d = CHR '' '' then d # r else CHR '' '' # d # r))
      else c # sub_ws s)"

text \<open>\<open>s.split()\<close>: the maximal runs of characters that are not whitespace.\<close>

fun split_ws_aux :: "string \<Rightarrow> string \<Rightarrow> string list" where
  "split_ws_aux w [] = (if w = [] then [] else [rev w])"
| "split_ws_aux w (c # s) =
     (if is_space c then (if w = [] then split_ws_aux [] s else rev w # split_ws_aux [] s)
      else split_ws_aux (c # w) s)"

definition split_ws :: "string \<Rightarrow> string list" where
  "split_ws s = split_ws_aux [] s"

text \<open>\<open>sep.join(ws)\<close>\<close>

fun join :: "string \<Rightarrow> string list \<Rightarrow> string" where
  "join sep [] = []"
| "join sep [w] = w"
| "join sep (w # v # ws) = w @ sep @ join sep (v # ws)"

text \<open>\<open>s.split(c)\<close> for a single character, and the same with at most one split.\<close>

fun split_char :: "char \<Rightarrow> string \<Rightarrow> string list" where
  "split_char c [] = [[]]"
| "split_char c (d # s) =
     (if d = c then [] # split_char c s
      else (case split_char c s of [] \<Rightarrow> [[d]] | w # ws \<Rightarrow> (d # w) # ws))"

definition before_char :: "char \<Rightarrow> string \<Rightarrow> string" where
  "before_char c s = takeWhile (\<lambda>d. d \<noteq> c) s"

definition after_char :: "char \<Rightarrow> string \<Rightarrow> string" where
  "after_char c s = tl (dropWhile (\<lambda>d. d \<noteq> c) s)"

text \<open>\<open>s.rsplit(c, 1)[1]\<close> for a string that contains \<open>c\<close>: what follows the last \<open>c\<close>.\<close>

definition after_last_char :: "char \<Rightarrow> string \<Rightarrow> string" where
  "after_last_char c s = rev (takeWhile (\<lambda>d. d \<noteq> c) (rev s))"

section \<open>Case, replacement, slices\<close>

definition upper_char :: "char \<Rightarrow> char" where
  "upper_char c = (let n = (of_char c :: nat) in if 97 \<le> n \<and> n \<le> 122 then char_of (n - 32) else c)"

definition lower_char :: "char \<Rightarrow> char" where
  "lower_char c = (let n = (of_char c :: nat) in if 65 \<le> n \<and> n \<le> 90 then char_of (n + 32) else c)"

definition upper :: "string \<Rightarrow> string" where
  "upper s = map upper_char s"

definition lower :: "string \<Rightarrow> string" where
  "lower s = map lower_char s"

text \<open>On ASCII text \<open>casefold\<close> is \<open>lower\<close>.\<close>

definition casefold :: "string \<Rightarrow> string" where
  "casefold s = lower s"

text \<open>\<open>s.replace(c, "")\<close> and \<open>s.replace(c, d)\<close> for single characters.\<close>

definition remove_char :: "char \<Rightarrow> string \<Rightarrow> string" where
  "remove_char c s = filter (\<lambda>d. d \<noteq> c) s"

definition replace_char :: "char \<Rightarrow> char \<Rightarrow> string \<Rightarrow> string" where
  "replace_char c d s = map (\<lambda>x. if x = c then d else x) s"

definition is_upper :: "char \<Rightarrow> bool" where
  "is_upper c = (let n = (of_char c :: nat) in 65 \<le> n \<and> n \<le> 90)"

definition is_digit :: "char \<Rightarrow> bool" where
  "is_digit c = (let n = (of_char c :: nat) in 48 \<le> n \<and> n \<le> 57)"

definition is_alnum :: "char \<Rightarrow> bool" where
  "is_alnum c = (let n = (of_char c :: nat) in
     (48 \<le> n \<and> n \<le> 57) \<or> (65 \<le> n \<and> n \<le> 90) \<or> (97 \<le> n \<and> n \<le> 122))"

definition starts_with :: "string \<Rightarrow> string \<Rightarrow> bool" where
  "starts_with p s = prefix p s"

definition contains :: "string \<Rightarrow> string \<Rightarrow> bool" where
  "contains p s = sublist p s"

text \<open>\<open>str(n)\<close> for an integer.\<close>

definition digit_char :: "nat \<Rightarrow> char" where
  "digit_char d = char_of (48 + d)"

fun show_nat :: "nat \<Rightarrow> string" where
  "show_nat n = (if n < 10 then [digit_char n] else show_nat (n div 10) @ [digit_char (n mod 10)])"

declare show_nat.simps [simp del]

definition show_int :: "int \<Rightarrow> string" where
  "show_int i = (if i < 0 then CHR ''-'' # show_nat (nat (- i)) else show_nat (nat i))"

text \<open>An f-string prints \<open>None\<close> for a missing value.\<close>

definition show_opt :: "string option \<Rightarrow> string" where
  "show_opt x = (case x of None \<Rightarrow> ''None'' | Some s \<Rightarrow> s)"

text \<open>A name between single quotes, as the messages print it.\<close>

definition quote_name :: "string \<Rightarrow> string" where
  "quote_name s = CHR 0x27 # s @ [CHR 0x27]"

section \<open>Facts about characters\<close>

lemma char_code_iff: "c = d \<longleftrightarrow> (of_char c :: nat) = of_char d"
  by simp

lemma of_char_upper: "(of_char (upper_char c) :: nat) =
    (if 97 \<le> (of_char c :: nat) \<and> (of_char c :: nat) \<le> 122 then of_char c - 32 else of_char c)"
  using nat_of_char_less_256[of c] by (auto simp: upper_char_def Let_def)

lemma of_char_lower: "(of_char (lower_char c) :: nat) =
    (if 65 \<le> (of_char c :: nat) \<and> (of_char c :: nat) \<le> 90 then of_char c + 32 else of_char c)"
  using nat_of_char_less_256[of c] by (auto simp: lower_char_def Let_def)

lemma is_space_space [simp]: "is_space CHR '' ''"
  by (simp add: is_space_def)

lemma upper_char_idem [simp]: "upper_char (upper_char c) = upper_char c"
  by (auto simp: char_code_iff of_char_upper simp del: of_char_eq_iff)

lemma lower_char_idem [simp]: "lower_char (lower_char c) = lower_char c"
  by (auto simp: char_code_iff of_char_lower simp del: of_char_eq_iff)

lemma is_space_upper [simp]: "is_space (upper_char c) \<longleftrightarrow> is_space c"
  by (auto simp: is_space_def Let_def of_char_upper)

lemma is_space_lower [simp]: "is_space (lower_char c) \<longleftrightarrow> is_space c"
  by (auto simp: is_space_def Let_def of_char_lower)

text \<open>A character outside \<open>A-Z\<close> and \<open>a-z\<close> is produced by case mapping only from itself.\<close>

lemma upper_char_eq_iff:
  "(of_char d :: nat) < 65 \<Longrightarrow> upper_char c = d \<longleftrightarrow> c = d"
  by (auto simp: char_code_iff of_char_upper simp del: of_char_eq_iff)

lemma upper_char_eq_space [simp]: "upper_char c = CHR '' '' \<longleftrightarrow> c = CHR '' ''"
  by (rule upper_char_eq_iff) simp

lemma lower_char_eq_space [simp]: "lower_char c = CHR '' '' \<longleftrightarrow> c = CHR '' ''"
  by (auto simp: char_code_iff of_char_lower simp del: of_char_eq_iff)

lemma case_space [simp]: "upper_char CHR '' '' = CHR '' ''" "lower_char CHR '' '' = CHR '' ''"
  by simp_all

section \<open>Facts about case and removal\<close>

lemma upper_simps [simp]: "upper [] = []" "upper (c # s) = upper_char c # upper s"
  "upper s = [] \<longleftrightarrow> s = []" "length (upper s) = length s" "upper (upper s) = upper s"
  by (simp_all add: upper_def)

lemma lower_simps [simp]: "lower [] = []" "lower (c # s) = lower_char c # lower s"
  "lower s = [] \<longleftrightarrow> s = []" "length (lower s) = length s" "lower (lower s) = lower s"
  by (simp_all add: lower_def)

lemma remove_char_idem [simp]: "remove_char c (remove_char c s) = remove_char c s"
  by (simp add: remove_char_def)

lemma remove_char_notin [simp]: "c \<notin> set s \<Longrightarrow> remove_char c s = s"
  by (induction s) (auto simp: remove_char_def)

lemma set_remove_char [simp]: "set (remove_char c s) = set s - {c}"
  by (auto simp: remove_char_def)

lemma remove_char_commute: "remove_char c (remove_char d s) = remove_char d (remove_char c s)"
  by (simp add: remove_char_def conj_commute)

lemma notin_upper: "(of_char d :: nat) < 65 \<Longrightarrow> d \<notin> set s \<Longrightarrow> d \<notin> set (upper s)"
  unfolding upper_def by (metis image_iff list.set_map upper_char_eq_iff)

lemma remove_char_upper:
  "(of_char d :: nat) < 65 \<Longrightarrow> remove_char d (upper s) = upper (remove_char d s)"
  by (induction s) (auto simp: remove_char_def upper_char_eq_iff)

section \<open>Facts about whitespace\<close>

lemma strip_Nil [simp]: "strip [] = []"
  by (simp add: strip_def lstrip_def rstrip_def)

text \<open>\<open>strip\<close> keeps an inner part of the string and drops whitespace on both sides.\<close>

lemma rstrip_decomp: "\<exists>b. s = rstrip s @ b \<and> (\<forall>c\<in>set b. is_space c)"
proof -
  have "rev s = takeWhile is_space (rev s) @ dropWhile is_space (rev s)" by simp
  then have "s = rstrip s @ rev (takeWhile is_space (rev s))"
    unfolding rstrip_def by (metis rev_append rev_rev_ident)
  then show ?thesis by (metis set_rev set_takeWhileD)
qed

lemma lstrip_decomp: "\<exists>a. s = a @ lstrip s \<and> (\<forall>c\<in>set a. is_space c)"
  unfolding lstrip_def by (metis set_takeWhileD takeWhile_dropWhile_id)

lemma strip_decomp:
  "\<exists>a b. s = a @ strip s @ b \<and> (\<forall>c\<in>set a. is_space c) \<and> (\<forall>c\<in>set b. is_space c)"
  using lstrip_decomp[of s] rstrip_decomp[of "lstrip s"] unfolding strip_def by metis

lemma set_strip_subset: "set (strip s) \<subseteq> set s"
  using strip_decomp[of s] by (metis Un_iff set_append subsetI)

lemma hd_lstrip: "lstrip s \<noteq> [] \<Longrightarrow> \<not> is_space (hd (lstrip s))"
  unfolding lstrip_def by (rule hd_dropWhile)

lemma last_rstrip: "rstrip s \<noteq> [] \<Longrightarrow> \<not> is_space (last (rstrip s))"
  unfolding rstrip_def by (simp add: last_rev hd_dropWhile)

lemma lstrip_id: "(s = [] \<or> \<not> is_space (hd s)) \<Longrightarrow> lstrip s = s"
  unfolding lstrip_def by (cases s) auto

lemma rstrip_id: "(s = [] \<or> \<not> is_space (last s)) \<Longrightarrow> rstrip s = s"
  unfolding rstrip_def by (cases s rule: rev_cases) auto

lemma strip_id_iff: "strip s = s \<longleftrightarrow> s = [] \<or> (\<not> is_space (hd s) \<and> \<not> is_space (last s))"
proof
  assume st: "strip s = s"
  show "s = [] \<or> (\<not> is_space (hd s) \<and> \<not> is_space (last s))"
  proof (cases "s = []")
    case False
    obtain b where b: "lstrip s = rstrip (lstrip s) @ b"
      using rstrip_decomp[of "lstrip s"] by blast
    obtain a where a: "s = a @ lstrip s"
      using lstrip_decomp[of s] by blast
    have "length (lstrip s) \<le> length s" by (metis a le_add2 length_append)
    then have "b = []" and "a = []"
      using st b a unfolding strip_def
      by (metis append_self_conv length_append le_add1 le_antisym append_eq_conv_conj)
        (metis st strip_def a b append_Nil append_assoc append_self_conv2 length_append
          add_cancel_left_left add_is_0 length_0_conv le_add1 le_add2 le_antisym nat_le_linear)
    then have "lstrip s = s" and "rstrip s = s"
      using a st unfolding strip_def by auto
    then show ?thesis using hd_lstrip[of s] last_rstrip[of s] False by auto
  qed simp
next
  assume "s = [] \<or> (\<not> is_space (hd s) \<and> \<not> is_space (last s))"
  then show "strip s = s" unfolding strip_def by (auto simp: lstrip_id rstrip_id)
qed

lemma strip_idem [simp]: "strip (strip s) = strip s"
proof -
  have "strip s = [] \<or> (\<not> is_space (hd (strip s)) \<and> \<not> is_space (last (strip s)))"
  proof (cases "strip s = []")
    case False
    obtain b where b: "lstrip s = strip s @ b"
      using rstrip_decomp[of "lstrip s"] unfolding strip_def by blast
    then have "hd (lstrip s) = hd (strip s)" "lstrip s \<noteq> []"
      using False by auto
    then show ?thesis
      using hd_lstrip[of s] last_rstrip[of "lstrip s"] False unfolding strip_def by auto
  qed simp
  then show ?thesis by (simp add: strip_id_iff)
qed

lemma strip_upper: "strip (upper s) = upper (strip s)"
proof -
  have d: "dropWhile is_space (map upper_char t) = map upper_char (dropWhile is_space t)" for t
    by (induction t) auto
  show ?thesis
    by (simp add: strip_def lstrip_def rstrip_def upper_def d rev_map)
qed

lemma strip_lower: "strip (lower s) = lower (strip s)"
proof -
  have d: "dropWhile is_space (map lower_char t) = map lower_char (dropWhile is_space t)" for t
    by (induction t) auto
  show ?thesis
    by (simp add: strip_def lstrip_def rstrip_def lower_def d rev_map)
qed

lemma sub_ws_upper: "sub_ws (upper s) = upper (sub_ws s)"
  by (induction s) (auto split: list.splits)

lemma sub_ws_lower: "sub_ws (lower s) = lower (sub_ws s)"
  by (induction s) (auto split: list.splits)

text \<open>
  A string is squeezed when its only whitespace is single spaces. \<open>sub_ws\<close> produces squeezed
  strings and leaves them alone.
\<close>

definition squeezed :: "string \<Rightarrow> bool" where
  "squeezed s \<longleftrightarrow> (\<forall>c\<in>set s. is_space c \<longrightarrow> c = CHR '' '') \<and>
     successively (\<lambda>c d. \<not> (is_space c \<and> is_space d)) s"

lemma squeezed_Nil [simp]: "squeezed []"
  by (simp add: squeezed_def)

lemma squeezed_Cons:
  "squeezed (c # s) \<longleftrightarrow> (is_space c \<longrightarrow> c = CHR '' '') \<and>
     (s = [] \<or> \<not> (is_space c \<and> is_space (hd s))) \<and> squeezed s"
  by (auto simp: squeezed_def successively_Cons)

lemma squeezed_appendD: "squeezed (a @ b) \<Longrightarrow> squeezed a \<and> squeezed b"
  by (auto simp: squeezed_def successively_append_iff)

lemma squeezed_sub_ws: "squeezed (sub_ws s)"
proof (induction s)
  case (Cons c s)
  show ?case
  proof (cases "sub_ws s")
    case Nil
    then show ?thesis by (simp add: squeezed_Cons)
  next
    case (Cons d r)
    have "squeezed (d # r)" using Cons.IH Cons by simp
    then show ?thesis by (cases "is_space c"; cases "d = CHR '' ''") (simp_all add: Cons squeezed_Cons)
  qed
qed simp

lemma sub_ws_squeezed: "squeezed s \<Longrightarrow> sub_ws s = s"
proof (induction s)
  case (Cons c s)
  then show ?case
    by (cases s) (auto simp: squeezed_Cons split: list.splits)
qed simp

lemma squeezed_strip: "squeezed s \<Longrightarrow> squeezed (strip s)"
proof -
  assume s: "squeezed s"
  obtain a b where "s = a @ strip s @ b" using strip_decomp[of s] by blast
  with s have "squeezed (strip s @ b)" using squeezed_appendD[of a "strip s @ b"] by simp
  then show "squeezed (strip s)" using squeezed_appendD[of "strip s" b] by simp
qed

text \<open>\<open>_collapse\<close> of the matching engine: one space per run of whitespace, none at the ends.\<close>

definition collapse :: "string \<Rightarrow> string" where
  "collapse s = strip (sub_ws s)"

lemma collapse_idem [simp]: "collapse (collapse s) = collapse s"
  unfolding collapse_def
  by (simp add: sub_ws_squeezed squeezed_strip squeezed_sub_ws)

lemma collapse_upper: "collapse (upper s) = upper (collapse s)"
  by (simp add: collapse_def sub_ws_upper strip_upper)

lemma collapse_lower: "collapse (lower s) = lower (collapse s)"
  by (simp add: collapse_def sub_ws_lower strip_lower)

lemma collapse_Nil [simp]: "collapse [] = []"
  by (simp add: collapse_def)

lemma strip_collapse [simp]: "strip (collapse s) = collapse s"
  by (simp add: collapse_def)

section \<open>Facts about splitting\<close>

lemma split_char_notin: "c \<notin> set s \<Longrightarrow> split_char c s = [s]"
  by (induction s) auto

lemma split_char_neq_Nil [simp]: "split_char c s \<noteq> []"
  by (induction s) (auto split: list.splits)

lemma split_char_append:
  "c \<notin> set a \<Longrightarrow> split_char c (a @ c # b) = a # split_char c b"
  by (induction a) auto

lemma split_char_parts: "w \<in> set (split_char c s) \<Longrightarrow> c \<notin> set w \<and> set w \<subseteq> set s"
proof (induction s arbitrary: w)
  case (Cons d s)
  show ?case
  proof (cases "d = c")
    case True
    with Cons show ?thesis by auto
  next
    case False
    obtain v vs where v: "split_char c s = v # vs"
      by (cases "split_char c s") auto
    with False Cons.prems have "w = d # v \<or> w \<in> set vs" by auto
    with Cons.IH[of v] Cons.IH[of w] v False show ?thesis by auto
  qed
qed simp

lemma before_char_notin [simp]: "c \<notin> set s \<Longrightarrow> before_char c s = s"
  unfolding before_char_def by (induction s) auto

lemma before_char_append [simp]: "c \<notin> set a \<Longrightarrow> before_char c (a @ c # b) = a"
  unfolding before_char_def by (induction a) auto

lemma after_char_append [simp]: "c \<notin> set a \<Longrightarrow> after_char c (a @ c # b) = b"
  unfolding after_char_def by (induction a) auto

lemma after_last_char_append [simp]: "c \<notin> set b \<Longrightarrow> after_last_char c (a @ c # b) = b"
proof -
  assume "c \<notin> set b"
  then have "takeWhile (\<lambda>d. d \<noteq> c) (rev b @ c # rev a) = rev b"
    by (subst takeWhile_append2) auto
  then show ?thesis by (simp add: after_last_char_def)
qed

end
