(* ===== verification/PO_Date.thy ===== *)
theory PO_Date
  imports PO_Text
begin

text \<open>
  Python's \<open>date\<close> and \<open>datetime\<close> as the sources use them: calendar dates with their proleptic
  Gregorian ordinals (\<open>(a - b).days\<close> is the difference of two ordinals), \<open>date.fromisoformat\<close>
  and \<open>datetime.fromisoformat\<close> of Python 3.11 and later, \<open>str(d)\<close> and \<open>strftime("%Y-%m-%d")\<close>
  (whose \<open>%Y\<close> is not padded on Linux, so years below 1000 print fewer than four digits).
  The lemmas show that the ordinal orders valid dates, and that printing and reading a date
  with a four-digit year gives the date back.
\<close>

section \<open>Dates\<close>

record pydate =
  d_year :: nat
  d_month :: nat
  d_day :: nat

definition mk_date :: "nat \<Rightarrow> nat \<Rightarrow> nat \<Rightarrow> pydate" where
  "mk_date y m d = \<lparr>d_year = y, d_month = m, d_day = d\<rparr>"

definition leap :: "nat \<Rightarrow> bool" where
  "leap y \<longleftrightarrow> y mod 4 = 0 \<and> (y mod 100 \<noteq> 0 \<or> y mod 400 = 0)"

fun days_in_month :: "nat \<Rightarrow> nat \<Rightarrow> nat" where
  "days_in_month y m =
     (if m = 2 then (if leap y then 29 else 28)
      else if m = 4 \<or> m = 6 \<or> m = 9 \<or> m = 11 then 30 else 31)"

definition valid_date :: "pydate \<Rightarrow> bool" where
  "valid_date d \<longleftrightarrow> 1 \<le> d_year d \<and> d_year d \<le> 9999 \<and> 1 \<le> d_month d \<and> d_month d \<le> 12 \<and>
     1 \<le> d_day d \<and> d_day d \<le> days_in_month (d_year d) (d_month d)"

definition days_before_year :: "nat \<Rightarrow> nat" where
  "days_before_year y = (y - 1) * 365 + (y - 1) div 4 - (y - 1) div 100 + (y - 1) div 400"

fun days_before_month :: "nat \<Rightarrow> nat \<Rightarrow> nat" where
  "days_before_month y 0 = 0"
| "days_before_month y (Suc m) = (if m = 0 then 0 else days_before_month y m + days_in_month y m)"

definition ordinal :: "pydate \<Rightarrow> nat" where
  "ordinal d = days_before_year (d_year d) + days_before_month (d_year d) (d_month d) + d_day d"

text \<open>\<open>(a - b).days\<close>\<close>

definition date_diff_days :: "pydate \<Rightarrow> pydate \<Rightarrow> int" where
  "date_diff_days a b = int (ordinal a) - int (ordinal b)"

section \<open>Printing\<close>

definition two_digits :: "nat \<Rightarrow> string" where
  "two_digits n = [digit_char (n div 10), digit_char (n mod 10)]"

definition four_digits :: "nat \<Rightarrow> string" where
  "four_digits n = [digit_char (n div 1000), digit_char (n div 100 mod 10),
     digit_char (n div 10 mod 10), digit_char (n mod 10)]"

definition show_date :: "pydate \<Rightarrow> string" where
  "show_date d = four_digits (d_year d) @ ''-'' @ two_digits (d_month d) @ ''-'' @ two_digits (d_day d)"

definition strftime_date :: "pydate \<Rightarrow> string" where
  "strftime_date d = show_nat (d_year d) @ ''-'' @ two_digits (d_month d) @ ''-'' @ two_digits (d_day d)"

section \<open>Reading\<close>

definition digit_val :: "char \<Rightarrow> nat" where
  "digit_val c = (of_char c :: nat) - 48"

definition digits_val :: "string \<Rightarrow> nat" where
  "digits_val s = foldl (\<lambda>n c. 10 * n + digit_val c) 0 s"

text \<open>\<open>parse_digits\<close>: exactly \<open>k\<close> digits, and the rest of the string.\<close>

definition parse_digits :: "nat \<Rightarrow> string \<Rightarrow> (nat \<times> string) option" where
  "parse_digits k s =
     (if k \<le> length s \<and> list_all is_digit (take k s)
      then Some (digits_val (take k s), drop k s) else None)"

text \<open>The day of an ordinal within a year is found by walking through the months.\<close>

fun month_of_yday :: "nat \<Rightarrow> nat \<Rightarrow> nat \<Rightarrow> nat \<Rightarrow> nat \<times> nat" where
  "month_of_yday 0 y m n = (m, n)"
| "month_of_yday (Suc k) y m n =
     (if n \<le> days_in_month y m then (m, n) else month_of_yday k y (Suc m) (n - days_in_month y m))"

text \<open>
  \<open>iso_to_ymd\<close>: the first ISO week of a year is the one with its first Thursday. The ordinal of
  day \<open>d\<close> of week \<open>w\<close> is computed from the Monday of week 1; year 53-week checks as in
  \<open>_datetimemodule.c\<close>.
\<close>

definition iso_week1_monday :: "nat \<Rightarrow> int" where
  "iso_week1_monday y = (let first = int (ordinal (mk_date y 1 1));
     wd = (first + 6) mod 7; monday = first - wd
   in if wd > 3 then monday + 7 else monday)"

definition iso_to_date :: "nat \<Rightarrow> nat \<Rightarrow> nat \<Rightarrow> pydate option" where
  "iso_to_date y w d =
     (if y < 1 \<or> 9999 < y \<or> d < 1 \<or> 7 < d then None
      else if w < 1 \<or> 53 < w \<or> (w = 53 \<and>
        (let wd = (ordinal (mk_date y 1 1) + 6) mod 7 in \<not> (wd = 3 \<or> (wd = 2 \<and> leap y)))) then None
      else (let n = iso_week1_monday y + int ((w - 1) * 7 + (d - 1));
                y' = (if n < int (days_before_year y + 1) then y - 1
                      else if int (days_before_year (Suc y)) < n then Suc y else y);
                md = month_of_yday 12 y' 1 (nat (n - int (days_before_year y')))
            in if n < 1 then None else Some (mk_date y' (fst md) (snd md))))"

definition checked :: "pydate \<Rightarrow> pydate option" where
  "checked d = (if valid_date d then Some d else None)"

text \<open>\<open>parse_isoformat_date\<close>: calendar dates with or without separators, and week dates.\<close>

definition parse_iso_date :: "string \<Rightarrow> pydate option" where
  "parse_iso_date s = (case parse_digits 4 s of None \<Rightarrow> None | Some (y, r) \<Rightarrow>
     (let sep = (r \<noteq> [] \<and> hd r = CHR ''-''); r1 = (if sep then tl r else r) in
      if r1 \<noteq> [] \<and> hd r1 = CHR ''W'' then
        (case parse_digits 2 (tl r1) of None \<Rightarrow> None | Some (w, r2) \<Rightarrow>
          if r2 = [] then Option.bind (iso_to_date y w 1) checked
          else if sep \<and> hd r2 \<noteq> CHR ''-'' then None
          else (case parse_digits 1 (if sep then tl r2 else r2) of None \<Rightarrow> None | Some (d, _) \<Rightarrow>
             Option.bind (iso_to_date y w d) checked))
      else (case parse_digits 2 r1 of None \<Rightarrow> None | Some (m, r2) \<Rightarrow>
        if sep \<and> (r2 = [] \<or> hd r2 \<noteq> CHR ''-'') then None
        else (case parse_digits 2 (if sep then tl r2 else r2) of None \<Rightarrow> None | Some (d, r3) \<Rightarrow>
          if r3 = [] then checked (mk_date y m d) else None))))"

text \<open>\<open>date.fromisoformat\<close>\<close>

definition date_fromisoformat :: "string \<Rightarrow> pydate option" where
  "date_fromisoformat s = (if length s \<in> {7, 8, 10} then parse_iso_date s else None)"

section \<open>Datetimes\<close>

text \<open>A datetime keeps its UTC offset in seconds, or \<open>None\<close> when it is naive.\<close>

record pydatetime =
  t_date :: pydate
  t_hour :: nat
  t_minute :: nat
  t_second :: nat
  t_micro :: nat
  t_offset :: "int option"

text \<open>\<open>_find_isoformat_datetime_separator\<close>: how many characters the date part has.\<close>

definition iso_date_length :: "string \<Rightarrow> nat option" where
  "iso_date_length s =
     (let n = length s in
      if n < 7 then None else if n = 7 then Some 7
      else if s ! 4 = CHR ''-'' then
        (if s ! 5 = CHR ''W'' then
           (if n > 8 \<and> s ! 8 = CHR ''-'' then
              (if n = 9 then None else if n > 10 \<and> is_digit (s ! 10) then Some 8 else Some 10)
            else Some 8)
         else Some 10)
      else if s ! 4 = CHR ''W'' then
        (let k = 7 + length (takeWhile is_digit (drop 7 s)) in
         if k < 9 then Some k else if k mod 2 = 0 then Some 7 else Some 8)
      else Some 8)"

text \<open>The fraction of a second: up to six digits count, further ones are dropped.\<close>

definition parse_fraction :: "string \<Rightarrow> nat option" where
  "parse_fraction s =
     (if s \<noteq> [] \<and> list_all is_digit s
      then Some (digits_val (take 6 s) * 10 ^ (6 - length (take 6 s))) else None)"

text \<open>\<open>HH[:MM[:SS[.ffffff]]]\<close> with colons everywhere or nowhere.\<close>

definition parse_hms :: "string \<Rightarrow> (nat \<times> nat \<times> nat \<times> nat) option" where
  "parse_hms s = (case parse_digits 2 s of None \<Rightarrow> None | Some (h, r1) \<Rightarrow>
     if r1 = [] then Some (h, 0, 0, 0) else
     (let sep = (hd r1 = CHR '':'') in
      case parse_digits 2 (if sep then tl r1 else r1) of None \<Rightarrow> None | Some (m, r2) \<Rightarrow>
      if r2 = [] then Some (h, m, 0, 0)
      else if sep \<and> hd r2 \<noteq> CHR '':'' then None else
      (case parse_digits 2 (if sep then tl r2 else r2) of None \<Rightarrow> None | Some (sec, r3) \<Rightarrow>
       if r3 = [] then Some (h, m, sec, 0)
       else if hd r3 = CHR ''.'' \<or> hd r3 = CHR '','' then
         (case parse_fraction (tl r3) of None \<Rightarrow> None | Some us \<Rightarrow> Some (h, m, sec, us))
       else None)))"

definition is_tz_start :: "char \<Rightarrow> bool" where
  "is_tz_start c \<longleftrightarrow> c = CHR ''+'' \<or> c = CHR ''-'' \<or> c = CHR ''Z''"

definition parse_offset :: "string \<Rightarrow> int option option" where
  "parse_offset s = (case s of [] \<Rightarrow> Some None
     | c # r \<Rightarrow> if c = CHR ''Z'' then (if r = [] then Some (Some 0) else None)
         else (case parse_hms r of None \<Rightarrow> None | Some (h, m, sec, us) \<Rightarrow>
           (let o_abs = int (h * 3600 + m * 60 + sec) in
            if o_abs < 86400 then Some (Some (if c = CHR ''-'' then - o_abs else o_abs)) else None)))"

definition datetime_fromisoformat :: "string \<Rightarrow> pydatetime option" where
  "datetime_fromisoformat s = (case iso_date_length s of None \<Rightarrow> None | Some k \<Rightarrow>
     (case parse_iso_date (take k s) of None \<Rightarrow> None | Some d \<Rightarrow>
       (let r = drop (Suc k) s;
            clock = takeWhile (\<lambda>c. \<not> is_tz_start c) r; zone = dropWhile (\<lambda>c. \<not> is_tz_start c) r in
        if length s \<le> k then Some \<lparr>t_date = d, t_hour = 0, t_minute = 0, t_second = 0, t_micro = 0, t_offset = None\<rparr>
        else (case parse_hms clock of None \<Rightarrow> None | Some (h, m, sec, us) \<Rightarrow>
          (case parse_offset zone of None \<Rightarrow> None | Some off \<Rightarrow>
            if h < 24 \<and> m < 60 \<and> sec < 60
            then Some \<lparr>t_date = d, t_hour = h, t_minute = m, t_second = sec, t_micro = us, t_offset = off\<rparr>
            else None)))))"

section \<open>The ordinal orders valid dates\<close>

lemma days_in_month_bounds: "28 \<le> days_in_month y m \<and> days_in_month y m \<le> 31"
  by auto

lemma days_before_month_mono:
  "m < m' \<Longrightarrow> 1 \<le> m \<Longrightarrow> days_before_month y m + days_in_month y m \<le> days_before_month y m'"
  by (induction m') (auto simp: less_Suc_eq)

lemma days_before_month_13: "days_before_month y 13 = (if leap y then 366 else 365)"
  by (simp add: eval_nat_numeral)

lemma leap_count:
  fixes a b c z :: nat
  assumes "b \<le> z * 365" "q \<Longrightarrow> p" "r \<Longrightarrow> q"
  shows "Suc z * 365 + (a + (if p then 1 else 0)) - (b + (if q then 1 else 0)) + (c + (if r then 1 else 0))
    = z * 365 + a - b + c + (if p \<and> (\<not> q \<or> r) then 366 else 365)"
  using assms by (cases p; cases q; cases r) simp_all

lemma div_Suc_if: "Suc z div k = z div k + (if Suc z mod k = 0 then 1 else 0)"
  by (simp add: div_Suc)

lemma days_before_year_Suc:
  "1 \<le> y \<Longrightarrow> days_before_year (Suc y) = days_before_year y + (if leap y then 366 else 365)"
proof -
  assume y: "1 \<le> y"
  then obtain z where z: "y = Suc z" by (cases y) auto
  have 4: "Suc z mod 100 = 0 \<Longrightarrow> Suc z mod 4 = 0" and 5: "Suc z mod 400 = 0 \<Longrightarrow> Suc z mod 100 = 0"
    by (auto simp: mod_eq_0_iff_dvd dest: dvd_trans[of 4 100] dvd_trans[of 100 400])
  have 6: "z div 100 \<le> z * 365" by (rule order_trans[OF div_le_dividend]) simp
  show ?thesis
    unfolding z days_before_year_def leap_def diff_Suc_1
      div_Suc_if[of z 4] div_Suc_if[of z 100] div_Suc_if[of z 400]
    by (rule leap_count[OF 6 4 5])
qed

lemma days_before_year_mono:
  "1 \<le> y \<Longrightarrow> y < y' \<Longrightarrow> days_before_year y + days_before_month y 13 \<le> days_before_year y'"
proof (induction y')
  case (Suc y')
  show ?case
  proof (cases "y = y'")
    case True
    then show ?thesis using Suc.prems days_before_year_Suc[of y] by (simp add: days_before_month_13)
  next
    case False
    then show ?thesis using Suc days_before_year_Suc[of y'] by (auto split: if_splits)
  qed
qed simp

definition date_less :: "pydate \<Rightarrow> pydate \<Rightarrow> bool" where
  "date_less a b \<longleftrightarrow> d_year a < d_year b \<or> (d_year a = d_year b \<and>
     (d_month a < d_month b \<or> (d_month a = d_month b \<and> d_day a < d_day b)))"

lemma yday_le: "valid_date d \<Longrightarrow>
    days_before_month (d_year d) (d_month d) + d_day d \<le> days_before_month (d_year d) 13"
  using days_before_month_mono[of "d_month d" 13 "d_year d"] by (simp add: valid_date_def)

lemma ordinal_strict_mono:
  "valid_date a \<Longrightarrow> valid_date b \<Longrightarrow> date_less a b \<Longrightarrow> ordinal a < ordinal b"
proof -
  assume a: "valid_date a" and b: "valid_date b" and l: "date_less a b"
  from l consider "d_year a < d_year b" | "d_year a = d_year b" "d_month a < d_month b"
    | "d_year a = d_year b" "d_month a = d_month b" "d_day a < d_day b"
    unfolding date_less_def by blast
  then show "ordinal a < ordinal b"
  proof cases
    case 1
    then show ?thesis
      using days_before_year_mono[of "d_year a" "d_year b"] yday_le[OF a] a b
      by (simp add: ordinal_def valid_date_def)
  next
    case 2
    then show ?thesis
      using days_before_month_mono[of "d_month a" "d_month b" "d_year a"] a b
      by (simp add: ordinal_def valid_date_def)
  next
    case 3
    then show ?thesis by (simp add: ordinal_def)
  qed
qed

lemma date_less_linear: "a \<noteq> b \<Longrightarrow> date_less a b \<or> date_less b (a :: pydate)"
  by (cases a; cases b) (auto simp: date_less_def)

lemma ordinal_inj: "valid_date a \<Longrightarrow> valid_date b \<Longrightarrow> ordinal a = ordinal b \<longleftrightarrow> a = b"
  using ordinal_strict_mono[of a b] ordinal_strict_mono[of b a] date_less_linear[of a b]
  by (metis less_irrefl)

lemma date_diff_zero: "valid_date a \<Longrightarrow> valid_date b \<Longrightarrow> date_diff_days a b = 0 \<longleftrightarrow> a = b"
  using ordinal_inj by (simp add: date_diff_days_def)

section \<open>Printing and reading\<close>

lemma of_char_digit: "n < 10 \<Longrightarrow> (of_char (digit_char n) :: nat) = 48 + n"
  by (simp add: digit_char_def)

lemma is_digit_digit_char [simp]: "n < 10 \<Longrightarrow> is_digit (digit_char n)"
  by (simp add: is_digit_def of_char_digit)

lemma digit_val_digit_char [simp]: "n < 10 \<Longrightarrow> digit_val (digit_char n) = n"
  by (simp add: digit_val_def of_char_digit)

lemma digit_char_neq [simp]: "n < 10 \<Longrightarrow> digit_char n \<noteq> CHR ''-''" "n < 10 \<Longrightarrow> digit_char n \<noteq> CHR ''W''"
  using of_char_digit[of n] by auto

lemma digit_sum:
  "a * 10 + d = n \<Longrightarrow> b * 10 + e = a \<Longrightarrow> c * 10 + f = b \<Longrightarrow>
     1000 * c + 100 * f + 10 * e + d = (n :: nat)"
  by simp

lemma parse_digit_chars:
  "a < 10 \<Longrightarrow> b < 10 \<Longrightarrow> parse_digits 2 (digit_char a # digit_char b # r) = Some (10 * a + b, r)"
  "a < 10 \<Longrightarrow> b < 10 \<Longrightarrow> c < 10 \<Longrightarrow> d < 10 \<Longrightarrow>
     parse_digits 4 (digit_char a # digit_char b # digit_char c # digit_char d # r) =
       Some (1000 * a + 100 * b + 10 * c + d, r)"
  by (simp_all add: parse_digits_def digits_val_def)

lemma parse_four: "n < 10000 \<Longrightarrow> parse_digits 4 (four_digits n @ r) = Some (n, r)"
proof -
  assume n: "n < 10000"
  have "1000 * (n div 1000) + 100 * (n div 100 mod 10) + 10 * (n div 10 mod 10) + n mod 10 = n"
  proof -
    have "n div 10 * 10 + n mod 10 = n" "n div 100 * 10 + n div 10 mod 10 = n div 10"
      "n div 1000 * 10 + n div 100 mod 10 = n div 100"
      using div_mult_mod_eq[of n 10] div_mult_mod_eq[of "n div 10" 10] div_mult_mod_eq[of "n div 100" 10]
      by (simp_all only: div_mult2_eq[symmetric]) simp_all
    then show ?thesis by (rule digit_sum)
  qed
  moreover have "n div 1000 < 10" using n by (simp add: less_mult_imp_div_less)
  ultimately show ?thesis
    unfolding four_digits_def append.simps by (subst parse_digit_chars) simp_all
qed

lemma parse_two: "n < 100 \<Longrightarrow> parse_digits 2 (two_digits n @ r) = Some (n, r)"
  unfolding two_digits_def append.simps
  by (subst parse_digit_chars) (simp_all add: less_mult_imp_div_less)

lemma parse_two_Nil: "n < 100 \<Longrightarrow> parse_digits 2 (two_digits n) = Some (n, [])"
  using parse_two[of n "[]"] by simp

lemma valid_date_bounds: "valid_date d \<Longrightarrow> d_year d < 10000 \<and> d_month d < 100 \<and> d_day d < 100"
  using days_in_month_bounds[of "d_year d" "d_month d"] unfolding valid_date_def by linarith

theorem date_roundtrip: "valid_date d \<Longrightarrow> date_fromisoformat (show_date d) = Some d"
proof -
  assume v: "valid_date d"
  note b = valid_date_bounds[OF v]
  have l: "length (show_date d) = 10"
    by (simp add: show_date_def four_digits_def two_digits_def)
  have W: "two_digits (d_month d) \<noteq> [] \<and> hd (two_digits (d_month d)) \<noteq> CHR ''W''"
    using b by (simp add: two_digits_def less_mult_imp_div_less)
  have "parse_iso_date (show_date d) = checked (mk_date (d_year d) (d_month d) (d_day d))"
    using b W by (simp add: parse_iso_date_def show_date_def parse_four parse_two parse_two_Nil Let_def)
  also have "mk_date (d_year d) (d_month d) (d_day d) = d"
    by (simp add: mk_date_def)
  finally show ?thesis using v l by (simp add: date_fromisoformat_def checked_def)
qed

lemma show_nat_four: "1000 \<le> n \<Longrightarrow> n < 10000 \<Longrightarrow> show_nat n = four_digits n"
proof -
  assume n: "1000 \<le> n" "n < 10000"
  have d: "n div 10 div 10 = n div 100" "n div 10 div 10 div 10 = n div 1000"
    by (simp_all add: div_mult2_eq[symmetric])
  have "show_nat n = show_nat (n div 10) @ [digit_char (n mod 10)]"
    using n by (simp add: show_nat.simps[of n])
  moreover have "show_nat (n div 10) = show_nat (n div 100) @ [digit_char (n div 10 mod 10)]"
    using n by (simp add: show_nat.simps[of "n div 10"] d)
  moreover have "show_nat (n div 100) = show_nat (n div 1000) @ [digit_char (n div 100 mod 10)]"
    using n d by (subst show_nat.simps) (simp add: div_mult2_eq[symmetric])
  moreover have "show_nat (n div 1000) = [digit_char (n div 1000)]"
    using n by (simp add: show_nat.simps[of "n div 1000"] less_mult_imp_div_less)
  ultimately show ?thesis by (simp add: four_digits_def)
qed

lemma strftime_show: "valid_date d \<Longrightarrow> 1000 \<le> d_year d \<Longrightarrow> strftime_date d = show_date d"
  using valid_date_bounds[of d] by (simp add: strftime_date_def show_date_def show_nat_four)

end
