(* ===== verification/PO_Num.thy ===== *)
theory PO_Num
  imports PO_Date
begin

text \<open>
  The two number systems of the sources. A Python float is the rational it denotes, and every
  float operation is the exact operation followed by \<open>fl\<close>, which rounds to 53 binary digits,
  half to even. A \<open>Decimal\<close> is a sign, a coefficient and an exponent; arithmetic on it is exact
  arithmetic on its value followed by \<open>dec28\<close>, the default context's 28 decimal digits, half to
  even. The exponent ranges are not modelled (scores and amounts stay far inside them) except
  where the source meets them: \<open>float("1e400")\<close> is infinite. Both roundings are instances of
  \<open>round_digits\<close>, and the locale \<open>relative_rounding\<close> holds what the components rely on: the
  relative error of one operation and of a running sum.
\<close>

section \<open>Rounding\<close>

text \<open>Round half to even, to an integer.\<close>

definition rhe :: "rat \<Rightarrow> int" where
  "rhe x = (let f = \<lfloor>x\<rfloor>; d = x - of_int f in
     if d < 1 / 2 then f else if 1 / 2 < d then f + 1 else if even f then f else f + 1)"

definition pw :: "nat \<Rightarrow> int \<Rightarrow> rat" where
  "pw b e = (if 0 \<le> e then of_nat b ^ nat e else 1 / of_nat b ^ nat (- e))"

text \<open>The exponent of the leading digit of \<open>x\<close> in base \<open>b\<close>.\<close>

function ilog :: "nat \<Rightarrow> rat \<Rightarrow> int" where
  "ilog b x = (if b < 2 \<or> x \<le> 0 then 0
     else if x < 1 then ilog b (x * of_nat b) - 1
     else if of_nat b \<le> x then ilog b (x / of_nat b) + 1 else 0)"
  by pat_completeness auto

text \<open>Below one the reciprocal shrinks, above the base the value does.\<close>

definition ilog_measure :: "nat \<Rightarrow> rat \<Rightarrow> nat" where
  "ilog_measure b x = (if x < 1 then nat \<lceil>1 / x\<rceil> + 1 else if of_nat b \<le> x then nat \<lfloor>x\<rfloor> else 0)"

lemma half_le_ceiling_pred: "r \<le> q / 2 \<Longrightarrow> 2 \<le> \<lceil>q\<rceil> \<Longrightarrow> r \<le> of_int (\<lceil>q\<rceil> - 1)"
  for q r :: rat
proof -
  assume h: "r \<le> q / 2" and c: "2 \<le> \<lceil>q\<rceil>"
  have "(2::rat) \<le> of_int \<lceil>q\<rceil>" using c by (metis of_int_le_iff of_int_numeral)
  then show ?thesis using h ceiling_correct[of q] unfolding of_int_diff of_int_1 by linarith
qed

lemma ilog_measure_up:
  assumes "2 \<le> b" "0 < x" "x < 1"
  shows "ilog_measure b (x * of_nat b) < ilog_measure b x"
proof -
  have b: "(2::rat) \<le> of_nat b" using assms(1) by (metis of_nat_le_iff of_nat_numeral)
  have x1: "1 < 1 / x" using assms by simp
  have c2: "2 \<le> \<lceil>1 / x\<rceil>" using x1 by linarith
  show ?thesis
  proof (cases "x * of_nat b < 1")
    case True
    have "1 / (x * of_nat b) \<le> 1 / (x * 2)"
      using assms b by (intro divide_left_mono mult_left_mono) auto
    also have "\<dots> = (1 / x) / 2" by simp
    finally have h: "1 / (x * of_nat b) \<le> (1 / x) / 2" .
    have "1 / (x * of_nat b) \<le> of_int (\<lceil>1 / x\<rceil> - 1)"
      by (rule half_le_ceiling_pred[OF h c2])
    then have "\<lceil>1 / (x * of_nat b)\<rceil> \<le> \<lceil>1 / x\<rceil> - 1" by (simp only: ceiling_le_iff)
    with True assms c2 show ?thesis by (simp add: ilog_measure_def)
  next
    case False
    have "x * of_nat b < of_nat b" using assms by simp
    with False assms show ?thesis by (simp add: ilog_measure_def)
  qed
qed

lemma ilog_measure_down:
  assumes "2 \<le> b" "of_nat b \<le> x"
  shows "ilog_measure b (x / of_nat b) < ilog_measure b x"
proof -
  have b: "(2::rat) \<le> of_nat b" using assms(1) by (metis of_nat_le_iff of_nat_numeral)
  have n: "\<not> x / of_nat b < 1" and x1: "\<not> x < 1" using assms b by simp_all
  have "x / of_nat b \<le> x / 2" using b assms by (intro divide_left_mono) auto
  moreover have f2: "2 \<le> \<lfloor>x\<rfloor>" using assms b by linarith
  ultimately have "x / of_nat b < of_int \<lfloor>x\<rfloor>"
    using floor_correct[of x] by linarith
  then have "\<lfloor>x / of_nat b\<rfloor> < \<lfloor>x\<rfloor>" by (simp only: floor_less_iff)
  with n x1 assms f2 show ?thesis by (simp add: ilog_measure_def)
qed

termination ilog
  by (relation "measure (\<lambda>(b, x). ilog_measure b x)")
    (auto simp: ilog_measure_up ilog_measure_down)

declare ilog.simps [simp del]

definition round_digits :: "nat \<Rightarrow> nat \<Rightarrow> rat \<Rightarrow> rat" where
  "round_digits b p x = (if x = 0 then 0 else
     (let s = pw b (ilog b \<bar>x\<bar> - int (p - 1)) in of_int (rhe (x / s)) * s))"

definition fl :: "rat \<Rightarrow> rat" where
  "fl x = round_digits 2 53 x"

definition dec28 :: "rat \<Rightarrow> rat" where
  "dec28 x = round_digits 10 28 x"

text \<open>\<open>round(x, 2)\<close> of a float: the exact value to two places, half to even, then to a float.\<close>

definition fround2 :: "rat \<Rightarrow> rat" where
  "fround2 x = fl (of_int (rhe (x * 100)) / 100)"

section \<open>The error of a rounding\<close>

lemma rhe_error: "\<bar>of_int (rhe x) - x\<bar> \<le> 1 / 2"
  using floor_correct[of x] by (auto simp: rhe_def Let_def)

lemma rhe_of_int [simp]: "rhe (of_int k) = k"
  by (simp add: rhe_def)

lemma rhe_unique: "\<bar>of_int k - x\<bar> < 1 / 2 \<Longrightarrow> rhe x = k"
proof -
  assume k: "\<bar>of_int k - x\<bar> < 1 / 2"
  have "\<bar>(of_int (rhe x) :: rat) - of_int k\<bar> < 1"
    using k rhe_error[of x] by linarith
  then have "\<bar>rhe x - k\<bar> < 1" by linarith
  then show ?thesis by simp
qed

lemma rhe_0 [simp]: "rhe 0 = 0"
  using rhe_of_int[of 0] by simp

lemma rhe_minus: "rhe (- x) = - rhe x"
proof (cases "x = of_int \<lfloor>x\<rfloor>")
  case True
  then show ?thesis by (metis of_int_minus rhe_of_int)
next
  case False
  then have f: "\<lfloor>- x\<rfloor> = - \<lfloor>x\<rfloor> - 1"
    using floor_correct[of x] by (intro floor_unique) (auto simp: less_le)
  show ?thesis by (auto simp: rhe_def Let_def f)
qed

lemma rhe_mono: "x \<le> y \<Longrightarrow> rhe x \<le> rhe y"
proof -
  assume xy: "x \<le> y"
  consider "\<lfloor>x\<rfloor> = \<lfloor>y\<rfloor>" | "\<lfloor>x\<rfloor> + 1 \<le> \<lfloor>y\<rfloor>"
    using floor_mono[OF xy] by linarith
  then show ?thesis
  proof cases
    case 1
    with xy show ?thesis by (auto simp: rhe_def Let_def)
  next
    case 2
    have "rhe x \<le> \<lfloor>x\<rfloor> + 1" "\<lfloor>y\<rfloor> \<le> rhe y" by (auto simp: rhe_def Let_def)
    with 2 show ?thesis by linarith
  qed
qed

lemma rhe_nonneg: "0 \<le> x \<Longrightarrow> 0 \<le> rhe x"
  using rhe_mono[of 0 x] by simp

lemma pw_pos: "0 < b \<Longrightarrow> 0 < pw b e"
  by (simp add: pw_def)

lemma pw_add1: "0 < b \<Longrightarrow> pw b (e + 1) = of_nat b * pw b e"
proof (cases "0 \<le> e")
  case True
  then show ?thesis by (simp add: pw_def nat_add_distrib)
next
  case False
  assume b: "0 < b"
  from False obtain n where n: "nat (- e) = Suc n" "e = - int (Suc n)"
    by (metis nat_0_iff not_less0 not0_implies_Suc neg_0_le_iff_le minus_minus nat_eq_iff2 linorder_not_le less_imp_le zero_less_nat_eq)
  show ?thesis
  proof (cases n)
    case 0
    then show ?thesis using n b by (simp add: pw_def)
  next
    case (Suc k)
    then have "\<not> 0 \<le> e + 1" "nat (- (e + 1)) = n" using n by auto
    then show ?thesis using n b False by (simp add: pw_def)
  qed
qed

lemma pw_add: "0 < b \<Longrightarrow> pw b (e + int n) = of_nat b ^ n * pw b e"
proof (induction n)
  case (Suc n)
  have "pw b (e + int (Suc n)) = pw b ((e + int n) + 1)" by (simp add: algebra_simps)
  also have "\<dots> = of_nat b ^ Suc n * pw b e" using Suc pw_add1[of b "e + int n"] by simp
  finally show ?case .
qed simp

lemma ilog_lower: "2 \<le> b \<Longrightarrow> 0 < x \<Longrightarrow> pw b (ilog b x) \<le> x"
proof (induction b x rule: ilog.induct)
  case (1 b x)
  have b: "(0::rat) < of_nat b" "0 < b" "1 \<le> (of_nat b :: rat)" using 1 by simp_all
  consider "x < 1" | "1 \<le> x" "of_nat b \<le> x" | "1 \<le> x" "x < of_nat b" by linarith
  then show ?case
  proof cases
    case 1
    have "of_nat b * pw b (ilog b (x * of_nat b) - 1) \<le> x * of_nat b"
      using "1.IH"(1) 1 "1.prems" b pw_add1[of b "ilog b (x * of_nat b) - 1"] by simp
    then have "pw b (ilog b (x * of_nat b) - 1) \<le> x" using b by (simp add: mult.commute)
    moreover have "ilog b x = ilog b (x * of_nat b) - 1"
      using 1 "1.prems" by (subst ilog.simps) simp
    ultimately show ?thesis by simp
  next
    case 2
    have "pw b (ilog b (x / of_nat b)) \<le> x / of_nat b"
      using "1.IH"(2) 2 "1.prems" b by simp
    then have "pw b (ilog b (x / of_nat b) + 1) \<le> x"
      using b by (subst pw_add1) (simp_all add: field_simps)
    moreover have "ilog b x = ilog b (x / of_nat b) + 1"
      using 2 "1.prems" by (subst ilog.simps) simp
    ultimately show ?thesis by simp
  next
    case 3
    then have "ilog b x = 0" using "1.prems" by (subst ilog.simps) simp
    then show ?thesis using 3 by (simp add: pw_def)
  qed
qed

lemma round_digits_error:
  "2 \<le> b \<Longrightarrow> \<bar>round_digits b p x - x\<bar> \<le> \<bar>x\<bar> / (2 * of_nat b ^ (p - 1))"
proof (cases "x = 0")
  case True
  then show ?thesis by (simp add: round_digits_def)
next
  case False
  assume b: "2 \<le> b"
  define s where "s = pw b (ilog b \<bar>x\<bar> - int (p - 1))"
  have s: "0 < s" using b by (simp add: s_def pw_pos)
  have r: "round_digits b p x = of_int (rhe (x / s)) * s"
    using False by (simp add: round_digits_def s_def Let_def)
  have "of_nat b ^ (p - 1) * s = pw b (ilog b \<bar>x\<bar>)"
    using b pw_add[of b "ilog b \<bar>x\<bar> - int (p - 1)" "p - 1"] by (simp add: s_def)
  also have "\<dots> \<le> \<bar>x\<bar>" using ilog_lower[OF b] False by simp
  finally have sx: "of_nat b ^ (p - 1) * s \<le> \<bar>x\<bar>" .
  have "\<bar>of_int (rhe (x / s)) * s - x\<bar> = \<bar>of_int (rhe (x / s)) - x / s\<bar> * s"
    using s by (simp add: abs_mult_pos left_diff_distrib)
  also have "\<dots> \<le> (1 / 2) * s" using rhe_error[of "x / s"] s by (intro mult_right_mono) auto
  also have "\<dots> \<le> \<bar>x\<bar> / (2 * of_nat b ^ (p - 1))"
    using sx b by (simp add: field_simps)
  finally show ?thesis by (simp add: r)
qed

section \<open>What components rely on\<close>

text \<open>
  A rounding with relative error \<open>u\<close>. The consequences are proved once here: the sign and zero
  are kept, and a rounded running sum of products of nonnegative numbers stays within a power
  of \<open>1 + u\<close> and \<open>1 - u\<close> of the exact sum.
\<close>

definition rsum :: "(rat \<Rightarrow> rat) \<Rightarrow> rat list \<Rightarrow> rat" where
  "rsum rnd xs = foldl (\<lambda>a x. rnd (a + x)) 0 xs"

locale relative_rounding =
  fixes rnd :: "rat \<Rightarrow> rat" and u :: rat
  assumes u_pos: "0 \<le> u" and u_lt_1: "u < 1"
    and rnd_error: "\<bar>rnd x - x\<bar> \<le> u * \<bar>x\<bar>"
begin

lemma rnd_zero: "rnd 0 = 0"
  using rnd_error[of 0] by simp

lemma rnd_bounds: "0 \<le> x \<Longrightarrow> (1 - u) * x \<le> rnd x \<and> rnd x \<le> (1 + u) * x"
  using rnd_error[of x] by (auto simp: abs_le_iff algebra_simps)

lemma rnd_nonneg: "0 \<le> x \<Longrightarrow> 0 \<le> rnd x"
proof -
  assume x: "0 \<le> x"
  have "0 \<le> (1 - u) * x" using x u_lt_1 by simp
  with rnd_bounds[OF x] show ?thesis by linarith
qed

lemma rnd_pos: "0 < x \<Longrightarrow> 0 < rnd x"
proof -
  assume x: "0 < x"
  have "0 < (1 - u) * x" using x u_lt_1 by simp
  with rnd_bounds[of x] x show ?thesis by linarith
qed

lemma rsum_from_bounds:
  "0 \<le> a \<Longrightarrow> \<forall>x\<in>set xs. 0 \<le> x \<Longrightarrow>
     (1 - u) ^ length xs * (a + sum_list xs) \<le> foldl (\<lambda>a x. rnd (a + x)) a xs \<and>
     foldl (\<lambda>a x. rnd (a + x)) a xs \<le> (1 + u) ^ length xs * (a + sum_list xs)"
proof (induction xs arbitrary: a)
  case Nil
  then show ?case by simp
next
  case (Cons x xs)
  have ax: "0 \<le> a + x" and sx: "0 \<le> sum_list xs"
    using Cons.prems by (simp_all add: sum_list_nonneg)
  note b = rnd_bounds[OF ax]
  note IH = Cons.IH[OF rnd_nonneg[OF ax]]
  have k: "0 \<le> (1 - u) ^ length xs" "0 \<le> (1 + u) ^ length xs" using u_pos u_lt_1 by simp_all
  have us: "0 \<le> u * sum_list xs" using sx u_pos by simp
  have "(1 - u) * (a + x + sum_list xs) = (1 - u) * (a + x) + sum_list xs - u * sum_list xs"
    by (simp add: algebra_simps)
  then have "(1 - u) * (a + x + sum_list xs) \<le> rnd (a + x) + sum_list xs"
    using b us by linarith
  moreover have "(1 + u) * (a + x + sum_list xs) = (1 + u) * (a + x) + sum_list xs + u * sum_list xs"
    by (simp add: algebra_simps)
  then have "rnd (a + x) + sum_list xs \<le> (1 + u) * (a + x + sum_list xs)"
    using b us by linarith
  ultimately have "(1 - u) ^ length xs * ((1 - u) * (a + x + sum_list xs)) \<le> foldl (\<lambda>a x. rnd (a + x)) (rnd (a + x)) xs"
    and "foldl (\<lambda>a x. rnd (a + x)) (rnd (a + x)) xs \<le> (1 + u) ^ length xs * ((1 + u) * (a + x + sum_list xs))"
    using IH Cons.prems k by (meson list.set_intros(2) mult_left_mono order_trans)+
  then show ?case by (simp add: algebra_simps)
qed

lemma rsum_bounds:
  "\<forall>x\<in>set xs. 0 \<le> x \<Longrightarrow>
     (1 - u) ^ length xs * sum_list xs \<le> rsum rnd xs \<and> rsum rnd xs \<le> (1 + u) ^ length xs * sum_list xs"
  using rsum_from_bounds[of 0 xs] by (simp add: rsum_def)

lemma rsum_nonneg: "\<forall>x\<in>set xs. 0 \<le> x \<Longrightarrow> 0 \<le> rsum rnd xs"
proof -
  assume xs: "\<forall>x\<in>set xs. 0 \<le> x"
  have "0 \<le> (1 - u) ^ length xs * sum_list xs"
    using xs u_lt_1 by (intro mult_nonneg_nonneg) (auto intro: sum_list_nonneg)
  with rsum_bounds[OF xs] show ?thesis by linarith
qed

end

interpretation flr: relative_rounding fl "1 / 2 ^ 53"
proof
  show "\<bar>fl x - x\<bar> \<le> 1 / 2 ^ 53 * \<bar>x\<bar>" for x
    using round_digits_error[of 2 53 x] by (simp add: fl_def)
qed simp_all

interpretation decr: relative_rounding dec28 "1 / (2 * 10 ^ 27)"
proof
  show "\<bar>dec28 x - x\<bar> \<le> 1 / (2 * 10 ^ 27) * \<bar>x\<bar>" for x
    using round_digits_error[of 10 28 x] by (simp add: dec28_def)
qed simp_all

lemma fround2_nonneg: "0 \<le> x \<Longrightarrow> 0 \<le> fround2 x"
  unfolding fround2_def by (rule flr.rnd_nonneg) (simp add: rhe_nonneg)

text \<open>A value not far above 100 is at most 100 after \<open>round(x, 2)\<close>.\<close>

lemma fl_100 [simp]: "fl 100 = 100"
  by (simp add: fl_def round_digits_def ilog.simps pw_def rhe_def)

lemma fround2_le_100: "x < 100 + 1 / 200 \<Longrightarrow> fround2 x \<le> 100"
proof -
  assume x: "x < 100 + 1 / 200"
  have "rhe (x * 100) \<le> 10000"
  proof (rule ccontr)
    assume "\<not> ?thesis"
    then have "(10001::rat) \<le> of_int (rhe (x * 100))" by (metis linorder_not_le of_int_le_iff of_int_numeral int_one_le_iff_zero_less zless_imp_add1_zle numeral_plus_one semiring_norm(5) semiring_norm(2) order_refl numeral_One add.commute)
    then show False using rhe_error[of "x * 100"] x by linarith
  qed
  then consider "rhe (x * 100) = 10000" | "rhe (x * 100) \<le> 9999" "0 \<le> rhe (x * 100)"
    | "rhe (x * 100) < 0" by linarith
  then show ?thesis
  proof cases
    case 1
    then show ?thesis by (simp add: fround2_def)
  next
    case 2
    have "fl (of_int (rhe (x * 100)) / 100) \<le> (1 + 1 / 2 ^ 53) * (of_int (rhe (x * 100)) / 100)"
      using flr.rnd_bounds[of "of_int (rhe (x * 100)) / 100"] 2 by simp
    also have "\<dots> \<le> (1 + 1 / 2 ^ 53) * (9999 / 100)" using 2 by (intro mult_left_mono) simp_all
    also have "\<dots> \<le> 100" by simp
    finally show ?thesis by (simp add: fround2_def)
  next
    case 3
    have "fl (of_int (rhe (x * 100)) / 100) \<le> 0"
      using flr.rnd_error[of "of_int (rhe (x * 100)) / 100"] 3 by (simp add: abs_le_iff)
    then show ?thesis by (simp add: fround2_def)
  qed
qed

end
