(* ===== verification/PO_Decimal.thy ===== *)
theory PO_Decimal
  imports PO_Num
begin

text \<open>
  Python's \<open>Decimal\<close> as sign, coefficient and exponent, the constructors \<open>Decimal(text)\<close> and
  \<open>float(text)\<close> with the forms they accept, and \<open>str\<close> of a decimal. The text \<open>"12.34"\<close> with
  two digits after the point has the value of its cents divided by 100, which the lemmas at
  the end state for every number of cents.
\<close>

section \<open>Decimals\<close>

record pydec =
  dec_neg :: bool
  dec_coeff :: nat
  dec_exp :: int

definition mk_dec :: "bool \<Rightarrow> nat \<Rightarrow> int \<Rightarrow> pydec" where
  "mk_dec s c e = \<lparr>dec_neg = s, dec_coeff = c, dec_exp = e\<rparr>"

definition dval :: "pydec \<Rightarrow> rat" where
  "dval d = (if dec_neg d then -1 else 1) * of_nat (dec_coeff d) * pw 10 (dec_exp d)"

text \<open>What the constructors give: a finite number, an infinity, or not a number.\<close>

datatype 'a number = Finite 'a | Infinite bool | NotANumber

section \<open>Reading\<close>

text \<open>\<open>[digits][.[digits]][E[sign]digits]\<close> with at least one digit before the exponent.\<close>

definition parse_exponent :: "string \<Rightarrow> int option" where
  "parse_exponent s = (case s of [] \<Rightarrow> Some 0
     | c # r \<Rightarrow> if lower_char c \<noteq> CHR ''e'' then None
        else (let neg = (r \<noteq> [] \<and> hd r = CHR ''-'');
                  ds = (if r \<noteq> [] \<and> (hd r = CHR ''-'' \<or> hd r = CHR ''+'') then tl r else r) in
          if ds \<noteq> [] \<and> list_all is_digit ds
          then Some (if neg then - int (digits_val ds) else int (digits_val ds)) else None))"

definition parse_unsigned :: "string \<Rightarrow> (nat \<times> int) option" where
  "parse_unsigned s =
     (let ip = takeWhile is_digit s; r = dropWhile is_digit s;
          dot = (r \<noteq> [] \<and> hd r = CHR ''.'');
          fp = (if dot then takeWhile is_digit (tl r) else []);
          r' = (if dot then dropWhile is_digit (tl r) else r) in
      if ip = [] \<and> fp = [] then None
      else (case parse_exponent r' of None \<Rightarrow> None
        | Some e \<Rightarrow> Some (digits_val (ip @ fp), e - int (length fp))))"

definition split_sign :: "string \<Rightarrow> bool \<times> string" where
  "split_sign s = (case s of [] \<Rightarrow> (False, [])
     | c # r \<Rightarrow> if c = CHR ''-'' then (True, r) else if c = CHR ''+'' then (False, r) else (False, s))"

text \<open>\<open>nan\<close> and \<open>snan\<close> take diagnostic digits in a decimal, not in a float.\<close>

definition parse_number :: "bool \<Rightarrow> string \<Rightarrow> pydec number option" where
  "parse_number is_decimal s = (let (neg, r) = split_sign s; l = lower r in
     if l = ''inf'' \<or> l = ''infinity'' then Some (Infinite neg)
     else if l = ''nan'' then Some NotANumber
     else if is_decimal \<and> ((take 3 l = ''nan'' \<and> list_all is_digit (drop 3 l)) \<or>
             (take 4 l = ''snan'' \<and> list_all is_digit (drop 4 l))) then Some NotANumber
     else (case parse_unsigned r of None \<Rightarrow> None
       | Some (c, e) \<Rightarrow> Some (Finite (mk_dec neg c e))))"

text \<open>\<open>Decimal(text)\<close>; \<open>None\<close> is \<open>InvalidOperation\<close>. Underscores are dropped wherever they are.\<close>

definition decimal_of_text :: "string \<Rightarrow> pydec number option" where
  "decimal_of_text s = parse_number True (remove_char CHR ''_'' (strip s))"

text \<open>In a float literal an underscore stands only between two digits.\<close>

fun underscores_ok :: "string \<Rightarrow> bool" where
  "underscores_ok (a # b # r) =
     ((b = CHR ''_'' \<longrightarrow> is_digit a \<and> r \<noteq> [] \<and> is_digit (hd r)) \<and> a \<noteq> CHR ''_'' \<and>
      underscores_ok (if b = CHR ''_'' then r else b # r))"
| "underscores_ok [a] = (a \<noteq> CHR ''_'')"
| "underscores_ok [] = True"

text \<open>\<open>float(text)\<close>; \<open>None\<close> is \<open>ValueError\<close>. A value beyond the largest double is infinite.\<close>

definition float_of_text :: "string \<Rightarrow> rat number option" where
  "float_of_text s = (let t = strip s in
     if \<not> underscores_ok t then None
     else (case parse_number False (remove_char CHR ''_'' t) of None \<Rightarrow> None
       | Some (Infinite n) \<Rightarrow> Some (Infinite n)
       | Some NotANumber \<Rightarrow> Some NotANumber
       | Some (Finite d) \<Rightarrow> (let v = fl (dval d) in
           if 1023 < ilog 2 \<bar>v\<bar> then Some (Infinite (dec_neg d)) else Some (Finite v))))"

text \<open>\<open>int(text)\<close>: an optional sign and digits, with single underscores between digits.\<close>

definition int_of_text :: "string \<Rightarrow> int option" where
  "int_of_text s = (let t = strip s; (neg, r) = split_sign t; ds = remove_char CHR ''_'' r in
     if underscores_ok t \<and> ds \<noteq> [] \<and> list_all is_digit ds
     then Some (if neg then - int (digits_val ds) else int (digits_val ds)) else None)"

section \<open>Printing\<close>

definition dec_str :: "pydec \<Rightarrow> string" where
  "dec_str d =
     (let ds = show_nat (dec_coeff d); n = int (length ds); left = dec_exp d + n;
          place = (if dec_exp d \<le> 0 \<and> left > -6 then left else 1);
          body = (if place \<le> 0 then ''0.'' @ replicate (nat (- place)) CHR ''0'' @ ds
                  else if n \<le> place then ds @ replicate (nat (place - n)) CHR ''0''
                  else take (nat place) ds @ ''.'' @ drop (nat place) ds);
          ex = (if left = place then []
                else CHR ''E'' # (if place \<le> left then [CHR ''+''] else []) @ show_int (left - place)) in
      (if dec_neg d then ''-'' else []) @ body @ ex)"

section \<open>Amounts with two decimals\<close>

text \<open>The text \<open>"12.34"\<close> of a number of cents.\<close>

definition cents_text :: "nat \<Rightarrow> string" where
  "cents_text c = show_nat (c div 100) @ ''.'' @ two_digits (c mod 100)"

lemma list_all_show_nat: "list_all is_digit (show_nat n)"
proof (induction n rule: show_nat.induct)
  case (1 n)
  then show ?case by (simp add: show_nat.simps[of n])
qed

lemma show_nat_neq_Nil [simp]: "show_nat n \<noteq> []"
  by (simp add: show_nat.simps[of n])

lemma digits_val_append: "digits_val (s @ t) = digits_val s * 10 ^ length t + digits_val t"
proof (induction t rule: rev_induct)
  case Nil
  then show ?case by (simp add: digits_val_def)
next
  case (snoc c t)
  have "digits_val (s @ t @ [c]) = 10 * digits_val (s @ t) + digit_val c" for s
    by (simp add: digits_val_def)
  from this[of s] this[of "[]"] snoc show ?case by (simp add: algebra_simps)
qed

lemma digits_val_show_nat [simp]: "digits_val (show_nat n) = n"
proof (induction n rule: show_nat.induct)
  case (1 n)
  show ?case
  proof (cases "n < 10")
    case True
    then show ?thesis by (simp add: show_nat.simps[of n] digits_val_def)
  next
    case False
    then have "digits_val (show_nat n) = digits_val (show_nat (n div 10)) * 10 + n mod 10"
      by (subst show_nat.simps) (simp add: digits_val_append, simp add: digits_val_def)
    also have "\<dots> = n div 10 * 10 + n mod 10" using 1 False by simp
    finally show ?thesis by simp
  qed
qed

lemma digits_val_two: "n < 100 \<Longrightarrow> digits_val (two_digits n) = n"
  by (simp add: digits_val_def two_digits_def less_mult_imp_div_less)

lemma list_all_two_digits: "n < 100 \<Longrightarrow> list_all is_digit (two_digits n)"
  by (simp add: two_digits_def less_mult_imp_div_less)

lemma is_digit_facts:
  "is_digit c \<Longrightarrow> \<not> is_space c" "is_digit c \<Longrightarrow> c \<noteq> CHR ''_''" "is_digit c \<Longrightarrow> c \<noteq> CHR ''-''"
  "is_digit c \<Longrightarrow> c \<noteq> CHR ''+''" "is_digit c \<Longrightarrow> lower_char c = c" "\<not> is_digit CHR ''.''"
  by (auto simp: is_digit_def is_space_def lower_char_def Let_def)

lemma cents_digits: "c \<in> set (cents_text n) \<Longrightarrow> is_digit c \<or> c = CHR ''.''"
  using list_all_show_nat[of "n div 100"] list_all_two_digits[of "n mod 100"]
  by (auto simp: cents_text_def list_all_iff)

lemma hd_cents_text: "is_digit (hd (cents_text n)) \<and> cents_text n \<noteq> []"
  using list_all_show_nat[of "n div 100"] by (auto simp: cents_text_def list_all_iff hd_append)

lemma takeWhile_digits_dot:
  "list_all is_digit s \<Longrightarrow> takeWhile is_digit (s @ CHR ''.'' # r) = s \<and>
     dropWhile is_digit (s @ CHR ''.'' # r) = CHR ''.'' # r"
  by (induction s) (auto simp: is_digit_facts)

lemma parse_unsigned_cents: "parse_unsigned (cents_text c) = Some (c, -2)"
proof -
  have t: "takeWhile is_digit (two_digits (c mod 100)) = two_digits (c mod 100)"
    "dropWhile is_digit (two_digits (c mod 100)) = []"
    using list_all_two_digits[of "c mod 100"] by (simp_all add: list_all_iff)
  have v: "digits_val (show_nat (c div 100) @ two_digits (c mod 100)) = c"
    by (simp add: digits_val_append digits_val_two) (simp add: two_digits_def)
  have l: "length (two_digits (c mod 100)) = 2" by (simp add: two_digits_def)
  show ?thesis
    using takeWhile_digits_dot[OF list_all_show_nat, of "c div 100" "two_digits (c mod 100)"]
    by (simp add: parse_unsigned_def cents_text_def Let_def parse_exponent_def t v l
        del: dropWhile_eq_Nil_conv takeWhile_eq_all_conv)
qed

lemma strip_no_space: "(\<And>c. c \<in> set s \<Longrightarrow> \<not> is_space c) \<Longrightarrow> strip s = s"
  by (cases "s = []") (auto simp: strip_id_iff)

lemma cents_no_space: "c \<in> set (cents_text n) \<Longrightarrow> \<not> is_space c"
  using cents_digits[of c n] is_digit_facts(1)[of c] by (auto simp: is_space_def)

lemma cents_no_underscore: "CHR ''_'' \<notin> set (cents_text n)"
  using cents_digits[of "CHR ''_''" n] by (auto simp: is_digit_def)

lemma split_sign_cents: "split_sign (cents_text n) = (False, cents_text n)"
  using hd_cents_text[of n] is_digit_facts(3,4)[of "hd (cents_text n)"]
  by (cases "cents_text n") (auto simp: split_sign_def)

lemma lower_cents: "lower (cents_text n) = cents_text n"
proof -
  have "lower_char c = c" if "c \<in> set (cents_text n)" for c
    using cents_digits[OF that] is_digit_facts(5)[of c] by (auto simp: lower_char_def)
  then show ?thesis by (simp add: lower_def map_idI)
qed

lemma hd_digit_not_word:
  "is_digit (hd s) \<Longrightarrow> s \<noteq> ''inf'' \<and> s \<noteq> ''infinity'' \<and> s \<noteq> ''nan'' \<and> take 3 s \<noteq> ''nan'' \<and> take 4 s \<noteq> ''snan''"
  by (cases s) (auto simp: is_digit_def)

lemma parse_number_cents: "parse_number b (cents_text c) = Some (Finite (mk_dec False c (-2)))"
  using hd_cents_text[of c] hd_digit_not_word[of "cents_text c"]
  by (simp add: parse_number_def split_sign_cents lower_cents parse_unsigned_cents Let_def)

lemma decimal_of_cents: "decimal_of_text (cents_text c) = Some (Finite (mk_dec False c (-2)))"
  by (simp add: decimal_of_text_def strip_no_space cents_no_space cents_no_underscore parse_number_cents)

lemma dval_cents: "dval (mk_dec False c (-2)) = of_nat c / 100"
  by (simp add: dval_def mk_dec_def pw_def)

lemma underscores_ok_notin: "CHR ''_'' \<notin> set s \<Longrightarrow> underscores_ok s"
  by (induction s rule: underscores_ok.induct) auto

lemma int_of_show_nat: "int_of_text (show_nat n) = Some (int n)"
proof -
  have d: "list_all is_digit (show_nat n)" by (rule list_all_show_nat)
  have ne: "show_nat n \<noteq> []" by (rule show_nat_neq_Nil)
  have c: "c \<noteq> CHR ''_'' \<and> c \<noteq> CHR ''-'' \<and> c \<noteq> CHR ''+'' \<and> \<not> is_space c" if "c \<in> set (show_nat n)" for c
    using d that is_digit_facts by (auto simp: list_all_iff)
  have s: "strip (show_nat n) = show_nat n" using c by (intro strip_no_space) (auto simp: list_all_iff)
  have u: "underscores_ok (show_nat n)" "remove_char CHR ''_'' (show_nat n) = show_nat n"
    using c by (auto intro!: underscores_ok_notin remove_char_notin)
  have sg: "split_sign (show_nat n) = (False, show_nat n)"
    using c ne by (cases "show_nat n") (auto simp: split_sign_def)
  show ?thesis using d ne by (simp add: int_of_text_def s u sg Let_def digits_val_show_nat)
qed

lemma ilog_upper: "2 \<le> b \<Longrightarrow> 1 \<le> x \<Longrightarrow> x < of_nat b ^ n \<Longrightarrow> ilog b x < int n"
proof (induction n arbitrary: x)
  case (Suc n)
  show ?case
  proof (cases "of_nat b \<le> x")
    case True
    have b: "(0::rat) < of_nat b" using Suc.prems by simp
    have "ilog b (x / of_nat b) < int n"
      using Suc.IH[of "x / of_nat b"] True Suc.prems b by (simp add: field_simps)
    moreover have "ilog b x = ilog b (x / of_nat b) + 1"
      using True Suc.prems by (subst ilog.simps) simp
    ultimately show ?thesis by simp
  next
    case False
    then have "ilog b x = 0" using Suc.prems by (subst ilog.simps) simp
    then show ?thesis by simp
  qed
qed simp

lemma ilog_le_0: "x < 1 \<Longrightarrow> ilog b x \<le> 0"
proof (induction b x rule: ilog.induct)
  case (1 b x)
  show ?case
  proof (cases "b < 2 \<or> x \<le> 0")
    case True
    then show ?thesis by (subst ilog.simps) simp
  next
    case False
    have "ilog b (x * of_nat b) \<le> 1"
    proof (cases "x * of_nat b < 1")
      case True
      then show ?thesis using 1 False by fastforce
    next
      case False2: False
      have "x * of_nat b < of_nat b ^ 1" using "1.prems" False by simp
      then have "ilog b (x * of_nat b) < int 1"
        using ilog_upper[of b "x * of_nat b" 1] False False2 by simp
      then show ?thesis by simp
    qed
    then show ?thesis using False "1.prems" by (subst ilog.simps) simp
  qed
qed

lemma ilog_less: "2 \<le> b \<Longrightarrow> 0 < n \<Longrightarrow> x < of_nat b ^ n \<Longrightarrow> ilog b x < int n"
  using ilog_upper[of b x n] ilog_le_0[of x b] by (cases "1 \<le> x") auto

lemma float_of_cents:
  assumes "c < 2 ^ 51"
  shows "float_of_text (cents_text c) = Some (Finite (fl (of_nat c / 100)))"
proof -
  have c: "of_nat c \<le> (2 ^ 51 :: rat)" using assms by (metis less_imp_le of_nat_le_iff of_nat_numeral of_nat_power)
  have "0 \<le> fl (of_nat c / 100)" by (rule flr.rnd_nonneg) simp
  moreover have "fl (of_nat c / 100) \<le> (1 + 1 / 2 ^ 53) * (of_nat c / 100)"
    using flr.rnd_bounds[of "of_nat c / 100"] by simp
  ultimately have "\<bar>fl (of_nat c / 100)\<bar> < of_nat 2 ^ 52" using c by simp
  then have "ilog 2 \<bar>fl (of_nat c / 100)\<bar> < int 52" by (intro ilog_less) simp_all
  then show ?thesis
    by (simp add: float_of_text_def strip_no_space cents_no_space cents_no_underscore
        underscores_ok_notin parse_number_cents dval_cents Let_def)
qed

text \<open>The float product with 100 rounds back to the cents.\<close>

lemma float_cents_round:
  assumes "c < 2 ^ 51"
  shows "rhe (fl (fl (of_nat c / 100) * 100)) = int c"
proof (rule rhe_unique)
  define x :: rat where "x = of_nat c / 100"
  define y where "y = fl x"
  have c: "of_nat c \<le> (2 ^ 51 - 1 :: rat)"
    using assms by (metis Suc_leI add_le_imp_le_diff of_nat_Suc of_nat_le_iff of_nat_numeral of_nat_power add.commute)
  have x: "0 \<le> x" "x * 100 = of_nat c" by (simp_all add: x_def)
  have yx: "\<bar>y - x\<bar> \<le> x / 2 ^ 53" using flr.rnd_error[of x] x by (simp add: y_def)
  have y: "0 \<le> y" unfolding y_def by (rule flr.rnd_nonneg[OF x(1)])
  have zy: "\<bar>fl (y * 100) - y * 100\<bar> \<le> y * 100 / 2 ^ 53"
    using flr.rnd_error[of "y * 100"] y by simp
  have "\<bar>fl (y * 100) - x * 100\<bar> < 1 / 2"
  proof -
    have "x \<le> (2 ^ 51 - 1) / 100" using c x by simp
    moreover have "y - x \<le> x / 2 ^ 53" "x - y \<le> x / 2 ^ 53" using yx by linarith+
    moreover have "fl (y * 100) - y * 100 \<le> y * 100 / 2 ^ 53" "y * 100 - fl (y * 100) \<le> y * 100 / 2 ^ 53"
      using zy by linarith+
    ultimately have "fl (y * 100) - x * 100 < 1 / 2" "x * 100 - fl (y * 100) < 1 / 2"
      by (simp_all add: field_simps)
    then show ?thesis unfolding abs_less_iff by linarith
  qed
  then show "\<bar>of_int (int c) - fl (fl (of_nat c / 100) * 100)\<bar> < 1 / 2"
    using x by (simp add: y_def x_def abs_minus_commute)
qed

end
