(* ===== verification/PO_Domain.thy ===== *)
theory PO_Domain
  imports PO_Decimal
begin

text \<open>
  The canonical payment model of \<open>packages/payment_domain\<close>: one record per pydantic model, one
  datatype per enumeration, in the order of \<open>models.py\<close>, and the country reference data of
  \<open>countries.py\<close>. Field names carry the initials of their model. The lemmas are about what
  the models compute: redaction in \<open>__repr__\<close>, field evidence of an address, the counts of a
  report bundle, and the country tables.
\<close>

section \<open>Enumerations\<close>

datatype PaymentIntent = CREDIT_TRANSFER | DIRECT_DEBIT | UNSPECIFIED

datatype ValidationStatus = VS_PENDING | VS_VALID | VS_INVALID | VS_CONSTRUCTION | VS_REJECTED

datatype SourceFormat = XML_PACS_008 | XML_PACS_009 | XML_PAIN_001 | XML_CAMT_053 | XML_CAMT_054
  | JSON_FORMAT | CSV_FORMAT | API_FORMAT | UNKNOWN_FORMAT

datatype AddressReadiness = READY | REPAIRABLE | AR_REVIEW_REQUIRED | UNRESOLVED

datatype EvidenceLevel = HIGH | MEDIUM | LOW

datatype FieldOrigin = FO_SOURCE | FO_NORMALIZED | FO_REPAIRED

datatype FieldStatus = FS_ORIGINAL | FS_NORMALIZED | FS_REPAIRED

datatype CandidateStatus = PROPOSED | VALIDATED | CS_REVIEW_REQUIRED | CS_UNRESOLVED

section \<open>Redaction in \<open>__repr__\<close>\<close>

definition PII_AND_FINANCIAL_FIELDS :: "string list" where
  "PII_AND_FINANCIAL_FIELDS =
    [''account_number'', ''iban'', ''debtor_account'', ''creditor_account'', ''debtor_name'',
     ''creditor_name'', ''amount'', ''amount_minor'', ''currency'', ''address'', ''street_name'',
     ''building_number'', ''postcode'', ''town_name'', ''country'', ''country_name'', ''bic'',
     ''swift'', ''payload'', ''raw_payload'', ''account'', ''debtor'', ''creditor'',
     ''financial_institution'', ''account_id'', ''account_servicer_reference'']"

definition REDACTED :: string where
  "REDACTED = ''[REDACTED]''"

text \<open>
  A model instance is its \<open>__dict__\<close>: the field names with their values. \<open>rp\<close> is Python's \<open>repr\<close>
  of a value.
\<close>

definition public_values :: "(string \<Rightarrow> 'v) \<Rightarrow> (string \<times> 'v) list \<Rightarrow> (string \<times> 'v) list" where
  "public_values str_value d =
     map (\<lambda>(key, v). (key, if key \<in> set PII_AND_FINANCIAL_FIELDS then str_value REDACTED else v)) d"

definition model_repr :: "(string \<Rightarrow> 'v) \<Rightarrow> ('v \<Rightarrow> string) \<Rightarrow> string \<Rightarrow> (string \<times> 'v) list \<Rightarrow> string" where
  "model_repr str_value rp cls d =
     cls @ ''('' @ join '', '' (map (\<lambda>(k, v). k @ ''='' @ rp v) (public_values str_value d)) @ '')''"

section \<open>Payment data\<close>

record FieldValue =
  fv_original :: "string option"
  fv_normalized :: "string option"
  fv_status :: FieldStatus
  fv_source_path :: "string option"

definition field_value :: "FieldValue \<Rightarrow> string option" where
  "field_value f = (case fv_normalized f of None \<Rightarrow> fv_original f | Some x \<Rightarrow> Some x)"

record MonetaryAmount =
  ma_amount_minor :: int
  ma_currency :: string

text \<open>
  The constructor validates: a currency has exactly three characters. Anything else is a
  pydantic \<open>ValidationError\<close>.
\<close>

definition mk_amount :: "int \<Rightarrow> string \<Rightarrow> MonetaryAmount res" where
  "mk_amount minor ccy =
     (if length ccy = 3 then Inr \<lparr>ma_amount_minor = minor, ma_currency = ccy\<rparr>
      else Inl (ValidationError ''currency''))"

record PostalAddress =
  pa_street_name :: "string option"
  pa_building_number :: "string option"
  pa_postcode :: "string option"
  pa_town_name :: "string option"
  pa_country :: "string option"
  pa_country_name :: "string option"
  pa_address_lines :: "string list"
  pa_source_path :: "string option"
  pa_readiness :: AddressReadiness
  pa_evidence_level :: EvidenceLevel
  pa_original_fields :: "(string, string) dict"
  pa_normalized_fields :: "(string, string) dict"

text \<open>\<open>getattr(self, name, None)\<close> for the names of the structured fields.\<close>

definition address_attr :: "PostalAddress \<Rightarrow> string \<Rightarrow> string option" where
  "address_attr a name =
     (if name = ''street_name'' then pa_street_name a
      else if name = ''building_number'' then pa_building_number a
      else if name = ''postcode'' then pa_postcode a
      else if name = ''town_name'' then pa_town_name a
      else if name = ''country'' then pa_country a
      else if name = ''country_name'' then pa_country_name a
      else if name = ''source_path'' then pa_source_path a
      else None)"

definition to_field_value :: "PostalAddress \<Rightarrow> string \<Rightarrow> FieldValue option" where
  "to_field_value a name =
     (if map_of (pa_original_fields a) name = None \<and> \<not> truthy (address_attr a name) then None
      else Some \<lparr>fv_original = map_of (pa_original_fields a) name,
                 fv_normalized = address_attr a name,
                 fv_status = (if map_of (pa_normalized_fields a) name \<noteq> None then FS_NORMALIZED
                              else FS_ORIGINAL),
                 fv_source_path = None\<rparr>)"

record Account =
  ac_iban :: "string option"
  ac_other_identification :: "string option"
  ac_currency :: "string option"
  ac_name :: "string option"
  ac_source_path :: "string option"

record FinancialInstitution =
  fi_bic :: "string option"
  fi_clearing_system_member :: "string option"
  fi_name :: "string option"
  fi_postal_address :: "PostalAddress option"
  fi_source_path :: "string option"

record Party =
  py_name :: "string option"
  py_identification :: "string list"
  py_postal_address :: "PostalAddress option"
  py_account :: "Account option"
  py_financial_institution :: "FinancialInstitution option"
  py_source_path :: "string option"

record RemittanceInformation =
  ri_unstructured :: "string list"
  ri_reference :: "string option"
  ri_source_path :: "string option"

record PaymentTransaction =
  tx_instruction_id :: "string option"
  tx_end_to_end_id :: "string option"
  tx_transaction_id :: "string option"
  tx_amount :: "MonetaryAmount option"
  tx_debtor :: "Party option"
  tx_creditor :: "Party option"
  tx_debtor_account :: "Account option"
  tx_creditor_account :: "Account option"
  tx_debtor_agent :: "FinancialInstitution option"
  tx_creditor_agent :: "FinancialInstitution option"
  tx_remittance :: "RemittanceInformation option"
  tx_requested_execution_date :: "pydatetime option"
  tx_source_path :: "string option"

definition debtor_name :: "PaymentTransaction \<Rightarrow> string option" where
  "debtor_name t = Option.bind (tx_debtor t) py_name"

definition creditor_name :: "PaymentTransaction \<Rightarrow> string option" where
  "creditor_name t = Option.bind (tx_creditor t) py_name"

record PaymentMessage =
  pm_message_type :: "string option"
  pm_message_id :: "string option"
  pm_creation_datetime :: "pydatetime option"
  pm_transactions :: "PaymentTransaction list"
  pm_source_format :: SourceFormat
  pm_received_at :: pydatetime
  pm_validation_status :: ValidationStatus
  pm_ruleset_version :: "string option"
  pm_address_provider :: "string option"
  pm_address_provider_version :: "string option"
  pm_source_metadata :: "(string, string) dict"

record 'p PaymentEnvelope =
  pe_payment_id :: "string option"
  pe_source_format :: SourceFormat
  pe_received_at :: pydatetime
  pe_raw_payload :: "'p option"
  pe_intent :: PaymentIntent
  pe_debtor :: "Party option"
  pe_creditor :: "Party option"
  pe_amount :: "MonetaryAmount option"
  pe_validation_status :: ValidationStatus

section \<open>Lifecycle\<close>

datatype LifecycleEventType = LE_INITIATED | LE_INTERBANK_TRANSFER | LE_FI_TRANSFER
  | LE_STATUS_RECEIVED | LE_ACCEPTED | LE_REJECTED | LE_PENDING | LE_PROCESSING
  | LE_UNKNOWN_STATUS | LE_ACCOUNT_NOTIFICATION | LE_ACCOUNT_STATEMENT_ENTRY
  | LE_DEBIT_RECORDED | LE_CREDIT_RECORDED | LE_ACCOUNT_EVENT_CONFIRMED
  | LE_ACCOUNT_EVENT_UNRESOLVED

datatype PaymentStatus = PS_ACCEPTED | PS_REJECTED | PS_PENDING | PS_PROCESSING
  | PS_PARTIALLY_ACCEPTED | PS_UNKNOWN

datatype CorrelationStatus = CORRELATED | POSSIBLE_CORRELATION | CORR_UNRESOLVED | CONFLICT
  | AMBIGUOUS

record StatusReason =
  sr_code :: "string option"
  sr_proprietary_code :: "string option"
  sr_additional_information :: "string option"
  sr_originator :: "string option"
  sr_normalized_category :: "string option"

record RelatedPaymentReference =
  rr_message_id :: "string option"
  rr_message_definition :: "string option"
  rr_message_version :: "string option"
  rr_instruction_id :: "string option"
  rr_end_to_end_id :: "string option"
  rr_transaction_id :: "string option"
  rr_amount :: "MonetaryAmount option"
  rr_uetr :: "string option"

record TransactionStatus =
  ts_original_instruction_id :: "string option"
  ts_original_end_to_end_id :: "string option"
  ts_original_transaction_id :: "string option"
  ts_raw_iso_status :: "string option"
  ts_normalized_status :: PaymentStatus
  ts_reasons :: "StatusReason list"
  ts_amount :: "MonetaryAmount option"
  ts_reference :: "RelatedPaymentReference option"

record LifecycleStatusReport =
  lr_message_family :: "string option"
  lr_message_definition :: "string option"
  lr_message_version :: "string option"
  lr_namespace :: "string option"
  lr_message_id :: "string option"
  lr_creation_datetime :: "pydatetime option"
  lr_original_message_id :: "string option"
  lr_original_message_definition :: "string option"
  lr_group_status_raw :: "string option"
  lr_group_status :: PaymentStatus
  lr_transaction_statuses :: "TransactionStatus list"

definition referenced_references :: "LifecycleStatusReport \<Rightarrow> RelatedPaymentReference list" where
  "referenced_references r = collect_some ts_reference (lr_transaction_statuses r)"

record PaymentLifecycleEvent =
  ev_event_type :: LifecycleEventType
  ev_message_family :: "string option"
  ev_message_definition :: "string option"
  ev_message_version :: "string option"
  ev_message_id :: "string option"
  ev_timestamp :: "pydatetime option"
  ev_status :: PaymentStatus
  ev_raw_status_code :: "string option"
  ev_reasons :: "StatusReason list"
  ev_correlation_evidence :: "string list"
  ev_source_hash :: "string option"

record PaymentLifecycle =
  pl_lifecycle_id :: string
  pl_organization_id :: string
  pl_primary_reference :: "string option"
  pl_end_to_end_id :: "string option"
  pl_instruction_id :: "string option"
  pl_transaction_id :: "string option"
  pl_uetr :: "string option"
  pl_original_message_id :: "string option"
  pl_amount :: "MonetaryAmount option"
  pl_debtor :: "Party option"
  pl_creditor :: "Party option"
  pl_events :: "PaymentLifecycleEvent list"
  pl_current_status :: PaymentStatus
  pl_created_at :: pydatetime
  pl_updated_at :: pydatetime

section \<open>Account reporting\<close>

datatype CreditDebitIndicator = CRDT | DBIT

datatype AccountReportType = STATEMENT | NOTIFICATION

datatype BalanceType = OPENING | CLOSING | INTERIM | AVAILABLE | FORWARD_AVAILABLE

datatype AccountReconciliationStatus = RECONCILED | POSSIBLE_RECONCILIATION
  | UNMATCHED_ACCOUNT_ENTRY | MISSING_ACCOUNT_EVENT | AMOUNT_MISMATCH | CURRENCY_MISMATCH
  | ACCOUNT_MISMATCH | REFERENCE_MISMATCH | DUPLICATE_ACCOUNT_ENTRY | ARS_REVIEW_REQUIRED

text \<open>The values of the enumerations that are read from or hashed into text.\<close>

definition cdi_value :: "CreditDebitIndicator \<Rightarrow> string" where
  "cdi_value c = (case c of CRDT \<Rightarrow> ''CRDT'' | DBIT \<Rightarrow> ''DBIT'')"

definition BalanceType_of :: "string \<Rightarrow> BalanceType option" where
  "BalanceType_of s =
     (if s = ''OPBD'' then Some OPENING else if s = ''CLBD'' then Some CLOSING
      else if s = ''ITBD'' then Some INTERIM else if s = ''AVLB'' then Some AVAILABLE
      else if s = ''FWAV'' then Some FORWARD_AVAILABLE else None)"

record AccountReference =
  ar_iban :: "string option"
  ar_other_identification :: "string option"
  ar_currency :: "string option"
  ar_name :: "string option"
  ar_servicer_bic :: "string option"

record AccountBalance =
  ab_type :: BalanceType
  ab_amount :: MonetaryAmount
  ab_credit_debit :: CreditDebitIndicator

record BankTransactionCode =
  bt_code :: "string option"
  bt_proprietary :: "string option"
  bt_family :: "string option"
  bt_sub_family :: "string option"

record EntryTransactionDetail =
  ed_transaction_id :: "string option"
  ed_instruction_id :: "string option"
  ed_end_to_end_id :: "string option"
  ed_uetr :: "string option"
  ed_amount :: "MonetaryAmount option"
  ed_remittance_reference :: "string option"

record AccountEntry =
  ae_entry_reference :: "string option"
  ae_account_servicer_reference :: "string option"
  ae_transaction_id :: "string option"
  ae_instruction_id :: "string option"
  ae_end_to_end_id :: "string option"
  ae_uetr :: "string option"
  ae_amount :: "MonetaryAmount option"
  ae_currency :: "string option"
  ae_credit_debit :: "CreditDebitIndicator option"
  ae_booking_date :: "pydate option"
  ae_value_date :: "pydate option"
  ae_status :: "string option"
  ae_bank_transaction_code :: "BankTransactionCode option"
  ae_remittance_reference :: "string option"
  ae_debtor :: "Party option"
  ae_creditor :: "Party option"
  ae_related_agents :: "string list"
  ae_original_message_reference :: "string option"
  ae_source_message_id :: "string option"
  ae_source_hash :: "string option"
  ae_reconciliation_status :: "AccountReconciliationStatus option"
  ae_match_score :: "rat option"
  ae_evidence :: "string list"
  ae_conflicts :: "string list"

text \<open>
  The text that is hashed into the identity of an entry; \<open>sha256\<close> is a parameter of
  \<open>identity_hash\<close>.
\<close>

definition identity_parts :: "AccountEntry \<Rightarrow> string list" where
  "identity_parts e =
     [dget_opt (ae_account_servicer_reference e), dget_opt (ae_transaction_id e),
      dget_opt (ae_end_to_end_id e), dget_opt (ae_uetr e), dget_opt (ae_instruction_id e),
      dget_opt (ae_entry_reference e),
      (case ae_amount e of None \<Rightarrow> '''' | Some a \<Rightarrow> show_int (ma_amount_minor a)),
      dget_opt (ae_currency e),
      (case ae_credit_debit e of None \<Rightarrow> '''' | Some c \<Rightarrow> cdi_value c)]"

definition identity_hash :: "(string \<Rightarrow> string) \<Rightarrow> AccountEntry \<Rightarrow> string" where
  "identity_hash sha256 e = sha256 (join ''|'' (identity_parts e))"

record AccountReport =
  rp_message_family :: "string option"
  rp_message_definition :: "string option"
  rp_message_version :: "string option"
  rp_namespace :: "string option"
  rp_message_id :: "string option"
  rp_creation_datetime :: "pydatetime option"
  rp_report_type :: AccountReportType
  rp_account :: "AccountReference option"
  rp_statement_id :: "string option"
  rp_notification_id :: "string option"
  rp_period_start :: "pydate option"
  rp_period_end :: "pydate option"
  rp_balances :: "AccountBalance list"
  rp_entries :: "AccountEntry list"
  rp_source_hash :: "string option"

definition report_number_of_entries :: "AccountReport \<Rightarrow> nat" where
  "report_number_of_entries r = length (rp_entries r)"

record AccountReportBundle =
  bu_message_family :: "string option"
  bu_message_definition :: "string option"
  bu_message_version :: "string option"
  bu_namespace :: "string option"
  bu_message_id :: "string option"
  bu_creation_datetime :: "pydatetime option"
  bu_report_type :: AccountReportType
  bu_reports :: "AccountReport list"
  bu_source_hash :: "string option"

definition bundle_number_of_entries :: "AccountReportBundle \<Rightarrow> nat" where
  "bundle_number_of_entries b = sum_list (map report_number_of_entries (bu_reports b))"

section \<open>Countries\<close>

definition VALID_COUNTRY_CODES :: "string list" where
  "VALID_COUNTRY_CODES = [
    ''AD'', ''AE'', ''AR'', ''AT'', ''AU'', ''BE'', ''BG'', ''BR'', ''CA'', ''CH'', ''CN'',
    ''CY'', ''CZ'', ''DE'', ''DK'', ''EE'', ''ES'', ''FI'', ''FR'', ''GB'', ''GR'', ''HR'',
    ''HU'', ''IE'', ''IL'', ''IN'', ''IS'', ''IT'', ''JP'', ''KR'', ''LI'', ''LT'', ''LU'',
    ''LV'', ''MC'', ''MT'', ''MX'', ''NL'', ''NO'', ''NZ'', ''PL'', ''PT'', ''RO'', ''RS'',
    ''RU'', ''SE'', ''SI'', ''SK'', ''SM'', ''TR'', ''UA'', ''US'', ''ZA'']"

definition COUNTRY_NAME_TO_CODE :: "(string, string) dict" where
  "COUNTRY_NAME_TO_CODE = [
    (''AUSTRIA'', ''AT''), (''BELGIUM'', ''BE''), (''BULGARIA'', ''BG''), (''BRAZIL'', ''BR''),
    (''CANADA'', ''CA''), (''SWITZERLAND'', ''CH''), (''CHINA'', ''CN''), (''CYPRUS'', ''CY''),
    (''CZECHIA'', ''CZ''), (''CZECH REPUBLIC'', ''CZ''), (''GERMANY'', ''DE''),
    (''DENMARK'', ''DK''), (''ESTONIA'', ''EE''), (''SPAIN'', ''ES''), (''FINLAND'', ''FI''),
    (''FRANCE'', ''FR''), (''UNITED KINGDOM'', ''GB''), (''GREECE'', ''GR''),
    (''CROATIA'', ''HR''), (''HUNGARY'', ''HU''), (''IRELAND'', ''IE''), (''ISRAEL'', ''IL''),
    (''INDIA'', ''IN''), (''ICELAND'', ''IS''), (''ITALY'', ''IT''), (''JAPAN'', ''JP''),
    (''LIECHTENSTEIN'', ''LI''), (''LITHUANIA'', ''LT''), (''LUXEMBOURG'', ''LU''),
    (''LATVIA'', ''LV''), (''MONACO'', ''MC''), (''MALTA'', ''MT''), (''MEXICO'', ''MX''),
    (''NETHERLANDS'', ''NL''), (''NORWAY'', ''NO''), (''NEW ZEALAND'', ''NZ''),
    (''POLAND'', ''PL''), (''PORTUGAL'', ''PT''), (''ROMANIA'', ''RO''), (''SERBIA'', ''RS''),
    (''RUSSIA'', ''RU''), (''SWEDEN'', ''SE''), (''SLOVENIA'', ''SI''), (''SLOVAKIA'', ''SK''),
    (''SAN MARINO'', ''SM''), (''TURKEY'', ''TR''), (''UKRAINE'', ''UA''),
    (''UNITED STATES'', ''US''), (''UNITED STATES OF AMERICA'', ''US''),
    (''SOUTH AFRICA'', ''ZA'')]"

definition is_valid_country_code :: "string \<Rightarrow> bool" where
  "is_valid_country_code code = (code \<in> set VALID_COUNTRY_CODES)"

definition normalize_country_name :: "string \<Rightarrow> string option" where
  "normalize_country_name name = map_of COUNTRY_NAME_TO_CODE (upper (strip name))"

section \<open>What the models guarantee\<close>

text \<open>
  The text of a model depends only on its public fields: two instances with the same field
  names whose public fields agree have the same \<open>repr\<close>.
\<close>

definition same_public :: "(string \<times> 'v) list \<Rightarrow> (string \<times> 'v) list \<Rightarrow> bool" where
  "same_public d d' \<longleftrightarrow> list_all2 (\<lambda>(k, v) (k', v'). k = k' \<and>
     (k \<in> set PII_AND_FINANCIAL_FIELDS \<or> v = v')) d d'"

lemma public_values_same: "same_public d d' \<Longrightarrow> public_values sv d = public_values sv d'"
  unfolding same_public_def public_values_def
  by (induction rule: list_all2_induct) auto

lemma public_values_keys: "map fst (public_values sv d) = map fst d"
  by (induction d) (auto simp: public_values_def)

lemma mk_amount_simps [res_simps]:
  "mk_amount m c = Inr a \<longleftrightarrow> length c = 3 \<and> a = \<lparr>ma_amount_minor = m, ma_currency = c\<rparr>"
  "mk_amount m c = Inl e \<longleftrightarrow> length c \<noteq> 3 \<and> e = ValidationError ''currency''"
  by (auto simp: mk_amount_def)

lemma country_table_valid: "list_all (\<lambda>(n, c). is_valid_country_code c) COUNTRY_NAME_TO_CODE"
  by (simp add: COUNTRY_NAME_TO_CODE_def is_valid_country_code_def VALID_COUNTRY_CODES_def)

lemma country_codes_shape: "list_all (\<lambda>c. length c = 2 \<and> upper c = c) VALID_COUNTRY_CODES"
  by (simp add: VALID_COUNTRY_CODES_def upper_char_def)

lemma valid_country_code_shape: "is_valid_country_code c \<Longrightarrow> length c = 2 \<and> upper c = c \<and> c \<noteq> []"
  using country_codes_shape by (auto simp: is_valid_country_code_def list_all_iff)

lemma normalize_country_name_valid: "normalize_country_name n = Some c \<Longrightarrow> is_valid_country_code c"
  using country_table_valid
  by (auto simp: normalize_country_name_def list_all_iff dest: map_of_SomeD)

lemma normalize_country_name_case: "normalize_country_name (upper n) = normalize_country_name n"
  by (simp add: normalize_country_name_def strip_upper)

end
