(* ===== verification/PO_Matcher.thy ===== *)
theory PO_Matcher
  imports PO_MatchModels
begin

text \<open>
  \<open>packages/matching_engine/matcher.py\<close> and \<open>candidates.py\<close>: the comparison of two records field
  by field, the weighted score in float arithmetic, the critical conflicts, the classification
  by thresholds, and the criteria that narrow candidate retrieval. RapidFuzz is a parameter
  \<open>fz\<close>, a similarity for an algorithm name and two strings; its result is clamped by the code.
\<close>

section \<open>Fuzzy similarity\<close>

definition MAX_FUZZY_LEN :: nat where
  "MAX_FUZZY_LEN = 512"

definition NAME_MISMATCH_THRESHOLD :: rat where
  "NAME_MISMATCH_THRESHOLD = 70"

type_synonym scorer = "string \<Rightarrow> string \<Rightarrow> string \<Rightarrow> rat"

text \<open>\<open>_ALGORITHMS.get(algorithm, fuzz.token_sort_ratio)\<close>\<close>

definition ALGORITHMS :: "string list" where
  "ALGORITHMS = [''ratio'', ''partial_ratio'', ''token_sort_ratio'', ''token_set_ratio'']"

definition algorithm_of :: "string \<Rightarrow> string" where
  "algorithm_of a = (if a \<in> set ALGORITHMS then a else ''token_sort_ratio'')"

definition clamp_sim :: "rat \<Rightarrow> rat" where
  "clamp_sim v = min 100 (max 0 v)"

definition sim :: "scorer \<Rightarrow> string option \<Rightarrow> string option \<Rightarrow> string \<Rightarrow> rat" where
  "sim fz a b algorithm = (case (a, b) of
     (Some x, Some y) \<Rightarrow> if x = [] \<or> y = [] then 0
        else clamp_sim (fz (algorithm_of algorithm) (take MAX_FUZZY_LEN x) (take MAX_FUZZY_LEN y))
   | _ \<Rightarrow> 0)"

section \<open>One field\<close>

definition conflict_code :: "string \<Rightarrow> string" where
  "conflict_code field =
     dget [(''currency'', ''MATCH-CRITICAL-CURRENCY-CONFLICT''),
           (''transaction_id'', ''MATCH-CRITICAL-TXID-CONFLICT''),
           (''debtor_account'', ''MATCH-CRITICAL-IBAN-CONFLICT''),
           (''creditor_account'', ''MATCH-CRITICAL-IBAN-CONFLICT''),
           (''amount'', ''MATCH-CRITICAL-AMOUNT-CONFLICT'')] field ''MATCH-CRITICAL-CONFLICT''"

definition exact_code :: "string \<Rightarrow> string" where
  "exact_code field =
     dget [(''transaction_id'', ''MATCH-TXID-EXACT''), (''end_to_end_id'', ''MATCH-E2E-EXACT''),
           (''debtor_account'', ''MATCH-IBAN-EXACT''), (''creditor_account'', ''MATCH-IBAN-EXACT''),
           (''debtor_agent'', ''MATCH-BIC-EXACT''), (''creditor_agent'', ''MATCH-BIC-EXACT''),
           (''currency'', ''MATCH-CURRENCY-EXACT''), (''country'', ''MATCH-COUNTRY-EXACT''),
           (''remittance_reference'', ''MATCH-REF-EXACT''),
           (''external_reference'', ''MATCH-REF-EXACT''),
           (''debtor_name'', ''MATCH-NAME-HIGH-SIMILARITY''),
           (''creditor_name'', ''MATCH-NAME-HIGH-SIMILARITY'')] field ''MATCH-FIELD-EXACT''"

text \<open>All results share the field, the weight, the flag and the two values they report.\<close>

definition field_result ::
  "string \<Rightarrow> ComparisonType \<Rightarrow> nval option \<Rightarrow> nval option \<Rightarrow> rat \<Rightarrow> bool \<Rightarrow> rat \<Rightarrow>
     MatchFieldStatus \<Rightarrow> string \<Rightarrow> FieldMatchResult" where
  "field_result field kind na nb weight critical similarity status code =
     \<lparr>fr_field = field, fr_comparison_type = kind, fr_original_a = None,
      fr_original_b = None, fr_normalized_a = na, fr_normalized_b = nb,
      fr_similarity = similarity, fr_weight = weight, fr_critical = critical,
      fr_status = status, fr_explanation_code = Some code\<rparr>"

definition exact_result ::
  "string \<Rightarrow> nval option \<Rightarrow> nval option \<Rightarrow> rat \<Rightarrow> bool \<Rightarrow> string \<Rightarrow> FieldMatchResult" where
  "exact_result field na nb weight critical ok_code =
     (case (na, nb) of
        (Some a, Some b) \<Rightarrow>
          (let equal = (nval_str a = nval_str b) in
           field_result field CT_EXACT na nb weight critical (if equal then 100 else 0)
             (if equal then FM_EXACT else FM_MISMATCH)
             (if equal then ok_code else conflict_code field))
      | _ \<Rightarrow> field_result field CT_EXACT na nb weight critical 0 FM_MISSING ''MATCH-FIELD-MISSING'')"

text \<open>
  Decimals compare by value. \<open>abs\<close>, \<open>-\<close>, \<open>*\<close> and \<open>/\<close> round to the context, comparison and \<open>max\<close>
  do not.
\<close>

definition within_tolerance :: "pydec \<Rightarrow> pydec \<Rightarrow> pydec \<Rightarrow> bool" where
  "within_tolerance na nb tolerance =
     (let diff = dec28 \<bar>dec28 (dval na - dval nb)\<bar>;
          base = max (max (dec28 \<bar>dval na\<bar>) (dec28 \<bar>dval nb\<bar>)) 1
      in diff \<le> dec28 (base * dec28 (dval tolerance / 100)))"

definition amount_result ::
  "string \<Rightarrow> pydec option \<Rightarrow> pydec option \<Rightarrow> rat \<Rightarrow> bool \<Rightarrow> MatchingPolicy \<Rightarrow> FieldMatchResult" where
  "amount_result field na nb weight critical policy =
     (case (na, nb) of
        (Some a, Some b) \<Rightarrow>
          (let sa = Some (NStr (dec_str a)); sb = Some (NStr (dec_str b)) in
           if dval a = dval b then
             field_result field CT_RANGE sa sb weight critical 100 FM_EXACT ''MATCH-AMOUNT-EXACT''
           else if (case map_of (mp_amount_tolerances policy) field of
                      None \<Rightarrow> False | Some tol \<Rightarrow> within_tolerance a b tol) then
             field_result field CT_RANGE sa sb weight critical 100 FM_EXACT ''MATCH-AMOUNT-WITHIN-TOLERANCE''
           else
             field_result field CT_RANGE sa sb weight critical 0 FM_MISMATCH
               (if critical then ''MATCH-CRITICAL-AMOUNT-CONFLICT'' else ''MATCH-AMOUNT-MISMATCH''))
      | _ \<Rightarrow> field_result field CT_RANGE (map_option NDec na) (map_option NDec nb) weight critical 0
               FM_MISSING ''MATCH-FIELD-MISSING'')"

definition date_result ::
  "string \<Rightarrow> nval option \<Rightarrow> nval option \<Rightarrow> rat \<Rightarrow> bool \<Rightarrow> MatchingPolicy \<Rightarrow> FieldMatchResult" where
  "date_result field na nb weight critical policy =
     (case (na, nb) of
        (Some a, Some b) \<Rightarrow>
          (case (date_fromisoformat (take 10 (nval_str a)), date_fromisoformat (take 10 (nval_str b))) of
             (Some da, Some db) \<Rightarrow>
               (let tolerance = dget (mp_date_tolerances policy) field 0;
                    sa = Some (NStr (show_date da)); sb = Some (NStr (show_date db)) in
                if \<bar>date_diff_days da db\<bar> \<le> tolerance then
                  field_result field CT_RANGE sa sb weight critical 100 FM_EXACT ''MATCH-DATE-WITHIN-TOLERANCE''
                else
                  field_result field CT_RANGE sa sb weight critical 0 FM_MISMATCH ''MATCH-DATE-OUTSIDE-TOLERANCE'')
           | _ \<Rightarrow> field_result field CT_RANGE na nb weight critical 0 FM_MISMATCH ''MATCH-DATE-INVALID'')
      | _ \<Rightarrow> field_result field CT_RANGE na nb weight critical 0 FM_MISSING ''MATCH-FIELD-MISSING'')"

definition fuzzy_result ::
  "scorer \<Rightarrow> string \<Rightarrow> nval option \<Rightarrow> nval option \<Rightarrow> rat \<Rightarrow> bool \<Rightarrow> string \<Rightarrow> string \<Rightarrow> FieldMatchResult" where
  "fuzzy_result fz field na nb weight critical algorithm code =
     (case (na, nb) of
        (Some a, Some b) \<Rightarrow>
          if a = b then field_result field CT_FUZZY na nb weight critical 100 FM_EXACT code
          else (let s = sim fz (Some (nval_str a)) (Some (nval_str b)) algorithm in
            field_result field CT_FUZZY na nb weight critical s
              (if 85 \<le> s then FM_EXACT else FM_MISMATCH)
              (if 85 \<le> s then ''MATCH-NAME-HIGH-SIMILARITY''
               else if 60 \<le> s then ''MATCH-NAME-MEDIUM-SIMILARITY''
               else ''MATCH-NAME-LOW-SIMILARITY''))
      | _ \<Rightarrow> field_result field CT_FUZZY na nb weight critical 0 FM_MISSING ''MATCH-FIELD-MISSING'')"

section \<open>A pair of records\<close>

datatype kind = KExact | KAmount | KDate | KFuzzy

definition FIELD_SPECS :: "(string \<times> kind) list" where
  "FIELD_SPECS =
    [(''transaction_id'', KExact), (''end_to_end_id'', KExact), (''debtor_account'', KExact),
     (''creditor_account'', KExact), (''debtor_agent'', KExact), (''creditor_agent'', KExact),
     (''currency'', KExact), (''country'', KExact), (''amount'', KAmount),
     (''booking_date'', KDate), (''value_date'', KDate), (''remittance_reference'', KFuzzy),
     (''external_reference'', KFuzzy), (''debtor_name'', KFuzzy), (''creditor_name'', KFuzzy)]"

text \<open>\<open>values.get(key)\<close>, and the decimal in it for an amount.\<close>

definition value_get :: "NormalizedRecord \<Rightarrow> string \<Rightarrow> nval option" where
  "value_get n key = dget (nr_values n) key None"

definition as_decimal :: "nval option \<Rightarrow> pydec option" where
  "as_decimal v = (case v of Some (NDec d) \<Rightarrow> Some d | _ \<Rightarrow> None)"

definition compare_field ::
  "scorer \<Rightarrow> MatchingPolicy \<Rightarrow> NormalizedRecord \<Rightarrow> NormalizedRecord \<Rightarrow> string \<times> kind \<Rightarrow> FieldMatchResult" where
  "compare_field fz policy na nb spec = (case spec of (field, k) \<Rightarrow>
     (let weight = dget (mp_field_weights policy) field 0;
          critical = (field \<in> set (mp_critical_fields policy));
          va = value_get na field; vb = value_get nb field in
      case k of
        KExact \<Rightarrow> exact_result field va vb weight critical (exact_code field)
      | KAmount \<Rightarrow> amount_result field (as_decimal va) (as_decimal vb) weight critical policy
      | KDate \<Rightarrow> date_result field va vb weight critical policy
      | KFuzzy \<Rightarrow> fuzzy_result fz field va vb weight critical
                   (dget (mp_fuzzy_algorithms policy) field ''token_sort_ratio'') (exact_code field)))"

definition field_conflicts :: "string list \<Rightarrow> FieldMatchResult \<Rightarrow> CriticalConflict list" where
  "field_conflicts critical_fields fr =
     (if fr_field fr \<in> set critical_fields \<and> fr_status fr = FM_MISMATCH
      then [\<lparr>cc_code = conflict_code (fr_field fr), cc_field = fr_field fr,
             cc_detail = ''critical field '' @ quote_name (fr_field fr) @ '' mismatch''\<rparr>] else []) @
     (if fr_field fr \<in> {''debtor_name'', ''creditor_name''} \<and> fr_status fr = FM_MISMATCH \<and>
         fr_similarity fr < NAME_MISMATCH_THRESHOLD \<and>
         truthy (map_option nval_str (fr_normalized_a fr)) \<and>
         truthy (map_option nval_str (fr_normalized_b fr))
      then [\<lparr>cc_code = ''MATCH-CRITICAL-NAME-CONFLICT'', cc_field = fr_field fr,
             cc_detail = ''party name '' @ quote_name (fr_field fr) @ '' differs materially''\<rparr>] else [])"

definition critical_conflicts :: "FieldMatchResult list \<Rightarrow> string list \<Rightarrow> CriticalConflict list" where
  "critical_conflicts results critical_fields = concat (map (field_conflicts critical_fields) results)"

definition scored :: "FieldMatchResult \<Rightarrow> bool" where
  "scored fr = (0 < fr_weight fr \<and> fr_status fr \<noteq> FM_MISSING)"

text \<open>
  \<open>_score\<close>, with the sums, products and the quotient rounded to 53 bits by \<open>fl\<close>. The exponent of
  \<open>fl\<close> has no bounds; \<open>PO_MatchFloat\<close> computes the score with those of a double and says for which
  weights and similarities the two agree.
\<close>

definition match_score_of :: "FieldMatchResult list \<Rightarrow> rat" where
  "match_score_of results =
     (let rs = filter scored results;
          total_weight = rsum fl (map fr_weight rs);
          weighted = rsum fl (map (\<lambda>fr. fl (fr_weight fr * fr_similarity fr)) rs)
      in if total_weight \<le> 0 then 0 else fround2 (fl (weighted / total_weight)))"

definition match_classify :: "rat \<Rightarrow> CriticalConflict list \<Rightarrow> MatchingPolicy \<Rightarrow> MatchClassification" where
  "match_classify score conflicts policy =
     (let matched_t = dget (mp_thresholds policy) ''matched'' 85;
          possible_t = dget (mp_thresholds policy) ''possible_match'' 60;
          review_t = dget (mp_thresholds policy) ''review'' 40 in
      if conflicts \<noteq> [] then (if review_t \<le> score then REVIEW_REQUIRED else UNMATCHED)
      else if matched_t \<le> score then MATCHED
      else if possible_t \<le> score then POSSIBLE_MATCH
      else if review_t \<le> score then REVIEW_REQUIRED
      else UNMATCHED)"

definition explanation_codes :: "FieldMatchResult list \<Rightarrow> string list" where
  "explanation_codes results =
     dedup_onto [] (collect_some (\<lambda>fr. if truthy (fr_explanation_code fr) then fr_explanation_code fr else None) results)"

definition field_results_of ::
  "scorer \<Rightarrow> MatchRecord \<Rightarrow> MatchRecord \<Rightarrow> MatchingPolicy \<Rightarrow> FieldMatchResult list" where
  "field_results_of fz a b policy =
     map (compare_field fz policy (normalize_record a) (normalize_record b)) FIELD_SPECS"

definition evaluate_pair ::
  "scorer \<Rightarrow> MatchRecord \<Rightarrow> MatchRecord \<Rightarrow> MatchingPolicy \<Rightarrow> string \<Rightarrow> MatchDecision" where
  "evaluate_pair fz a b policy engine_version =
     (let field_results = field_results_of fz a b policy;
          conflicts = critical_conflicts field_results (mp_critical_fields policy);
          score = match_score_of field_results in
      \<lparr>md_record_a_id = mr_record_id a, md_record_b_id = mr_record_id b,
       md_classification = match_classify score conflicts policy, md_match_score = score,
       md_critical_conflicts = conflicts, md_field_results = field_results,
       md_explanation_codes = explanation_codes field_results,
       md_policy_version = Some (show_nat (mp_version policy)),
       md_engine_version = Some engine_version, md_integration_profile_version = None\<rparr>)"

section \<open>Candidate narrowing\<close>

definition DEFAULT_MAX_CANDIDATES :: nat where
  "DEFAULT_MAX_CANDIDATES = 20"

definition DEFAULT_DATE_WINDOW_DAYS :: nat where
  "DEFAULT_DATE_WINDOW_DAYS = 7"

definition DEFAULT_AMOUNT_PCT :: pydec where
  "DEFAULT_AMOUNT_PCT = mk_dec False 200 (-1)"

record Criteria =
  cr_organization_id :: string
  cr_record_type :: RecordType
  cr_max_candidates :: nat
  cr_currency :: "string option"
  cr_amount :: "(rat \<times> rat) option"
  cr_dates :: "(nat \<times> (string \<times> pydate) list) option"
  cr_reference_prefix :: "string option option"
  cr_account :: "string option"

text \<open>An absent key of the dictionary is an absent field; \<open>reference_prefix\<close> can be present and \<open>None\<close>.\<close>

definition amount_window :: "pydec \<Rightarrow> pydec \<Rightarrow> (rat \<times> rat) option" where
  "amount_window amount tolerance =
     (if dval tolerance = 0 then None
      else (let pct = dec28 (dval tolerance / 100); d = dec28 (dval amount * pct)
            in Some (dec28 (dval amount - d), dec28 (dval amount + d))))"

definition narrowing_criteria :: "MatchRecord \<Rightarrow> MatchingPolicy \<Rightarrow> nat \<Rightarrow> nat \<Rightarrow> pydec \<Rightarrow> Criteria" where
  "narrowing_criteria r policy max_candidates date_window_days amount_pct =
     (let date_fields = (case mr_booking_date r of None \<Rightarrow> [] | Some d \<Rightarrow> [(''booking_date'', d)]) @
                        (case mr_value_date r of None \<Rightarrow> [] | Some d \<Rightarrow> [(''value_date'', d)]);
          ref = por (mr_remittance_reference r) (mr_external_reference r);
          account = por (mr_debtor_account r) (mr_creditor_account r) in
      \<lparr>cr_organization_id = mr_organization_id r, cr_record_type = mr_record_type r,
       cr_max_candidates = max_candidates,
       cr_currency = (if truthy (mr_currency r) then mr_currency r else None),
       cr_amount = (case mr_amount r of None \<Rightarrow> None
          | Some a \<Rightarrow> amount_window a (dget (mp_amount_tolerances policy) ''amount'' amount_pct)),
       cr_dates = (if date_fields = [] then None else Some (date_window_days, date_fields)),
       cr_reference_prefix =
         (if truthy ref then Some (map_option (take 8) (normalize_reference (map_option RStr ref)))
          else None),
       cr_account = (if truthy account then account else None)\<rparr>)"

end
