(* ===== verification/PO_MatchFloat.thy ===== *)
theory PO_MatchFloat
  imports PO_Matcher
begin

text \<open>
  The score of \<open>matcher.py\<close> with the doubles of the machine. \<open>match_score_of\<close> rounds with \<open>fl\<close>, whose
  exponent is unbounded; here \<open>_score\<close> is computed with the exponents of a double, so that a sum or
  a product may become infinite and a quotient not a number. \<open>score_ieee_in_range\<close> says for which
  weights the two agree, and \<open>weight_overflows\<close> that they differ for others, which no policy is
  checked against.
\<close>

section \<open>Doubles\<close>

text \<open>Only non-negative values occur in the score, so there is one infinity.\<close>

datatype ieee = Fin rat | PInf | NaN

definition ieee_round :: "rat \<Rightarrow> ieee" where
  "ieee_round x = (if 2 ^ 1024 \<le> fl x then PInf
     else if \<bar>x\<bar> < 1 / 2 ^ 1022 then Fin (of_int (rhe (x * 2 ^ 1074)) / 2 ^ 1074)
     else Fin (fl x))"

fun ieee_add :: "ieee \<Rightarrow> ieee \<Rightarrow> ieee" where
  "ieee_add (Fin a) (Fin b) = ieee_round (a + b)"
| "ieee_add NaN _ = NaN"
| "ieee_add _ NaN = NaN"
| "ieee_add _ _ = PInf"

fun ieee_div :: "ieee \<Rightarrow> ieee \<Rightarrow> ieee" where
  "ieee_div (Fin a) (Fin b) = ieee_round (a / b)"
| "ieee_div NaN _ = NaN"
| "ieee_div _ NaN = NaN"
| "ieee_div (Fin a) PInf = Fin 0"
| "ieee_div PInf (Fin b) = PInf"
| "ieee_div PInf PInf = NaN"

fun ieee_round2 :: "ieee \<Rightarrow> ieee" where
  "ieee_round2 (Fin x) = Fin (fround2 x)"
| "ieee_round2 x = x"

section \<open>The score\<close>

definition total_ieee :: "FieldMatchResult list \<Rightarrow> ieee" where
  "total_ieee rs = foldl (\<lambda>a fr. ieee_add a (Fin (fr_weight fr))) (Fin 0) rs"

definition weighted_ieee :: "FieldMatchResult list \<Rightarrow> ieee" where
  "weighted_ieee rs = foldl (\<lambda>a fr. ieee_add a (ieee_round (fr_weight fr * fr_similarity fr))) (Fin 0) rs"

text \<open>\<open>_score\<close>; the test \<open>total_weight <= 0\<close> is false of an infinity and of no number.\<close>

definition score_ieee :: "FieldMatchResult list \<Rightarrow> ieee" where
  "score_ieee results =
     (let rs = filter scored results; total_weight = total_ieee rs in
      if (case total_weight of Fin t \<Rightarrow> t \<le> 0 | _ \<Rightarrow> False) then Fin 0
      else ieee_round2 (ieee_div (weighted_ieee rs) total_weight))"

section \<open>Values that are neither too large nor too small\<close>

definition between :: "rat \<Rightarrow> rat \<Rightarrow> rat \<Rightarrow> bool" where
  "between lo hi x \<longleftrightarrow> x = 0 \<or> lo \<le> x \<and> x \<le> hi"

lemma between_nonneg: "0 < lo \<Longrightarrow> between lo hi x \<Longrightarrow> 0 \<le> x"
  by (auto simp: between_def)

lemma between_mono: "between lo hi x \<Longrightarrow> lo' \<le> lo \<Longrightarrow> hi \<le> hi' \<Longrightarrow> between lo' hi' x"
  by (auto simp: between_def)

lemma fl_between: "0 < lo \<Longrightarrow> between lo hi x \<Longrightarrow> between (lo / 2) (2 * hi) (fl x)"
proof (cases "x = 0")
  case True
  then show ?thesis by (simp add: between_def flr.rnd_zero)
next
  case False
  assume lo: "0 < lo" and b: "between lo hi x"
  then have x: "lo \<le> x" "x \<le> hi" "0 < x" using False by (auto simp: between_def)
  have f: "(1 - 1 / 2 ^ 53) * x \<le> fl x" "fl x \<le> (1 + 1 / 2 ^ 53) * x" using flr.rnd_bounds[of x] x(3) by auto
  have "1 / 2 * x \<le> (1 - 1 / 2 ^ 53) * x" "(1 + 1 / 2 ^ 53) * x \<le> 2 * x"
    using x(3) by (auto intro!: mult_right_mono)
  with f x show ?thesis by (auto simp: between_def)
qed

lemma ieee_round_between:
  assumes "between (1 / 2 ^ 1022) hi x" "2 * hi < 2 ^ 1024"
  shows "ieee_round x = Fin (fl x)"
proof -
  have small: "\<not> 2 ^ 1024 \<le> fl x"
  proof (cases "x = 0")
    case True
    then show ?thesis by (simp add: flr.rnd_zero)
  next
    case False
    have p: "(0 :: rat) < 1 / 2 ^ 1022" by (rule divide_pos_pos) simp_all
    from fl_between[OF p assms(1)] have "fl x = 0 \<or> fl x \<le> 2 * hi" by (auto simp: between_def)
    moreover have "(0 :: rat) < 2 ^ 1024" by (rule zero_less_power) simp
    ultimately show ?thesis using assms(2) by linarith
  qed
  show ?thesis
  proof (cases "x = 0")
    case True
    moreover have "\<not> (2 :: rat) ^ 1024 \<le> 0" using zero_less_power[of "2 :: rat" 1024] by linarith
    ultimately show ?thesis by (simp add: ieee_round_def flr.rnd_zero del: power_numeral)
  next
    case False
    then have "\<not> \<bar>x\<bar> < 1 / 2 ^ 1022" using assms(1) by (auto simp: between_def)
    with small show ?thesis by (simp only: ieee_round_def if_False)
  qed
qed

lemma sum_between:
  assumes "0 < lo" "list_all (between lo hi) xs" "0 \<le> hi"
  shows "between lo (of_nat (length xs) * hi) (sum_list xs)"
  using assms(2)
proof (induction xs)
  case Nil
  then show ?case by (simp add: between_def)
next
  case (Cons x xs)
  have n: "0 \<le> sum_list xs" using Cons.prems between_nonneg[OF assms(1)] by (intro sum_list_nonneg) (auto simp: list_all_iff)
  have l: "0 \<le> of_nat (length xs) * hi" using assms(3) by simp
  have e: "of_nat (length (x # xs)) * hi = hi + of_nat (length xs) * hi" by (simp add: algebra_simps)
  have x: "x = 0 \<or> lo \<le> x \<and> x \<le> hi" and ih: "sum_list xs = 0 \<or> lo \<le> sum_list xs \<and> sum_list xs \<le> of_nat (length xs) * hi"
    using Cons by (auto simp: between_def)
  show ?case unfolding between_def e sum_list.Cons
    using n l x ih assms(1,3) by (elim disjE; linarith)
qed

lemma sum_list_positive: "xs \<noteq> [] \<Longrightarrow> \<forall>x\<in>set xs. 0 < x \<Longrightarrow> 0 < sum_list xs" for xs :: "rat list"
proof (induction xs)
  case (Cons x xs)
  then show ?case by (cases xs) (auto intro: add_pos_pos)
qed simp

lemma power_15:
  fixes n :: nat
  assumes "n \<le> 15"
  shows "1 / 2 \<le> (1 - 1 / 2 ^ 53 :: rat) ^ n" "(1 + 1 / 2 ^ 53 :: rat) ^ n \<le> 2"
proof -
  have "(1 / 2 :: rat) \<le> (1 - 1 / 64) ^ 15" "(1 + 1 / 64 :: rat) ^ 15 \<le> 2" by (simp_all add: power_divide)
  moreover have "(1 - 1 / 64 :: rat) ^ 15 \<le> (1 - 1 / 64) ^ n" "(1 + 1 / 64 :: rat) ^ n \<le> (1 + 1 / 64) ^ 15"
    using assms by (auto intro: power_decreasing power_increasing)
  moreover have "(1 - 1 / 64 :: rat) ^ n \<le> (1 - 1 / 2 ^ 53) ^ n" "(1 + 1 / 2 ^ 53 :: rat) ^ n \<le> (1 + 1 / 64) ^ n"
    by (auto intro!: power_mono)
  ultimately show "1 / 2 \<le> (1 - 1 / 2 ^ 53 :: rat) ^ n" "(1 + 1 / 2 ^ 53 :: rat) ^ n \<le> 2" by linarith+
qed

lemma rsum_between:
  assumes "0 < lo" "list_all (between lo hi) xs" "0 \<le> hi" "length xs \<le> 15"
  shows "between (lo / 2) (30 * hi) (rsum fl xs)"
proof -
  have nn: "\<forall>x\<in>set xs. 0 \<le> x" using assms(1,2) between_nonneg by (auto simp: list_all_iff)
  then have s0: "0 \<le> sum_list xs" by (simp add: sum_list_nonneg)
  have b: "1 / 2 * sum_list xs \<le> rsum fl xs" "rsum fl xs \<le> 2 * sum_list xs"
    using flr.rsum_bounds[OF nn] mult_right_mono[OF power_15(1)[OF assms(4)] s0]
      mult_right_mono[OF power_15(2)[OF assms(4)] s0] by linarith+
  have "of_nat (length xs) * hi \<le> 15 * hi"
    using assms(3,4) by (intro mult_right_mono) simp_all
  then have "between lo (15 * hi) (sum_list xs)" using between_mono[OF sum_between[OF assms(1-3)] order_refl] by simp
  with b show ?thesis by (auto simp: between_def)
qed

lemma foldl_ieee:
  assumes "2 * (1 / 2 ^ 1022) \<le> lo" "0 < hi" "124 * hi < 2 ^ 1024"
  shows "list_all (\<lambda>fr. \<exists>x. g fr = Fin x \<and> f fr = x \<and> between lo hi x) rs \<Longrightarrow> length rs \<le> 15 \<Longrightarrow>
    foldl (\<lambda>a fr. ieee_add a (g fr)) (Fin 0) rs = Fin (rsum fl (map f rs))"
proof (induction rs rule: rev_induct)
  case Nil
  then show ?case by (simp add: rsum_def)
next
  case (snoc r rs)
  have "(0 :: rat) < 2 * (1 / 2 ^ 1022)" by (intro mult_pos_pos divide_pos_pos zero_less_power) simp_all
  then have lo: "0 < lo" using assms(1) by linarith
  obtain x where x: "g r = Fin x" "f r = x" "between lo hi x" using snoc.prems by auto
  have "list_all (between lo hi) (map f rs)" using snoc.prems by (auto simp: list_all_iff)
  then have s: "between (lo / 2) (30 * hi) (rsum fl (map f rs))"
    using rsum_between[OF lo, of hi "map f rs"] snoc.prems(2) assms(2) by simp
  have "between (lo / 2) (31 * hi) (rsum fl (map f rs) + x)"
    using s x(3) lo assms(2) by (auto simp: between_def)
  moreover have "1 / 2 ^ 1022 \<le> lo / 2" using assms(1) by linarith
  ultimately have "between (1 / 2 ^ 1022) (31 * hi) (rsum fl (map f rs) + x)" by (rule between_mono) simp
  moreover have "2 * (31 * hi) < 2 ^ 1024" using assms(2,3) by linarith
  ultimately have "ieee_round (rsum fl (map f rs) + x) = Fin (fl (rsum fl (map f rs) + x))" by (rule ieee_round_between)
  with snoc x show ?case by (simp add: rsum_def)
qed

section \<open>When the machine's score is the modelled one\<close>

text \<open>Weights and similarities far from the ends of the range of doubles.\<close>

definition fits_double :: "FieldMatchResult \<Rightarrow> bool" where
  "fits_double fr \<longleftrightarrow> (0 < fr_weight fr \<longrightarrow> between (1 / 2 ^ 400) (2 ^ 400) (fr_weight fr)) \<and>
     between (1 / 2 ^ 100) 100 (fr_similarity fr)"

lemma between_mult:
  "0 < lo \<Longrightarrow> 0 < lo' \<Longrightarrow> between lo hi x \<Longrightarrow> between lo' hi' y \<Longrightarrow> between (lo * lo') (hi * hi') (x * y)"
  by (auto simp: between_def intro!: mult_mono)

lemma between_divide:
  assumes "0 < lo" "0 < lo'" "between lo hi x" "lo' \<le> y" "y \<le> hi'"
  shows "between (lo / hi') (hi / lo') (x / y)"
proof (cases "x = 0")
  case False
  then have "lo \<le> x" "x \<le> hi" "0 \<le> x" using assms(1,3) by (auto simp: between_def)
  then have "lo / hi' \<le> x / y" "x / y \<le> hi / lo'" using assms by (auto intro!: frac_le)
  then show ?thesis by (simp add: between_def)
qed (simp add: between_def)

lemma range_facts:
  "2 * (1 / 2 ^ 1022) \<le> (1 / 2 ^ 501 :: rat)" "2 * (1 / 2 ^ 1022) \<le> (1 / 2 ^ 400 :: rat)"
  "124 * 2 ^ 408 < (2 ^ 1024 :: rat)" "124 * 2 ^ 400 < (2 ^ 1024 :: rat)"
  "(1 / 2 ^ 1022 :: rat) \<le> 1 / 2 ^ 400 * (1 / 2 ^ 100)" "2 * (2 ^ 400 * 100) < (2 ^ 1024 :: rat)"
  "1 / 2 ^ 501 \<le> 1 / 2 ^ 400 * (1 / 2 ^ 100) / (2 :: rat)" "2 * (2 ^ 400 * 100) \<le> (2 ^ 408 :: rat)"
  "(1 / 2 ^ 1022 :: rat) \<le> 1 / 2 ^ 501 / 2 / (30 * 2 ^ 400)" "2 * (30 * 2 ^ 408 / (1 / 2 ^ 400 / 2)) < (2 ^ 1024 :: rat)"
  by simp_all

lemma score_ieee_in_range:
  assumes "length results \<le> 15" "list_all fits_double results"
  shows "score_ieee results = Fin (match_score_of results)"
proof (cases "filter scored results = []")
  case True
  then show ?thesis by (simp add: score_ieee_def match_score_of_def total_ieee_def rsum_def)
next
  case False
  let ?rs = "filter scored results" and ?p = "\<lambda>fr. fl (fr_weight fr * fr_similarity fr)"
  define T where "T = rsum fl (map fr_weight ?rs)"
  define P where "P = rsum fl (map ?p ?rs)"
  have len: "length ?rs \<le> 15" using assms(1) length_filter_le[of scored results] by linarith
  have pos: "(0 :: rat) < 1 / 2 ^ 400" "(0 :: rat) < 1 / 2 ^ 100" "(0 :: rat) < 1 / 2 ^ 501" "(0 :: rat) < 2 ^ 400" "(0 :: rat) < 2 ^ 408"
    by simp_all
  have w: "0 < fr_weight fr" "between (1 / 2 ^ 400) (2 ^ 400) (fr_weight fr)" "between (1 / 2 ^ 100) 100 (fr_similarity fr)"
    if "fr \<in> set ?rs" for fr
    using that assms(2) by (auto simp: list_all_iff fits_double_def scored_def)
  have prod: "between (1 / 2 ^ 400 * (1 / 2 ^ 100)) (2 ^ 400 * 100) (fr_weight fr * fr_similarity fr)" if "fr \<in> set ?rs" for fr
    by (rule between_mult[OF pos(1,2) w(2,3)[OF that]])
  have round: "ieee_round (fr_weight fr * fr_similarity fr) = Fin (?p fr)" if "fr \<in> set ?rs" for fr
    using ieee_round_between[OF between_mono[OF prod[OF that] range_facts(5) order_refl] range_facts(6)] .
  have pb: "between (1 / 2 ^ 501) (2 ^ 408) (?p fr)" if "fr \<in> set ?rs" for fr
    by (rule between_mono[OF fl_between[OF _ prod[OF that]] range_facts(7,8)]) simp
  have total: "total_ieee ?rs = Fin T"
    unfolding total_ieee_def T_def
    by (rule foldl_ieee[OF range_facts(2) pos(4) range_facts(4) _ len]) (use w(2) in \<open>auto simp: list_all_iff\<close>)
  have weighted: "weighted_ieee ?rs = Fin P"
    unfolding weighted_ieee_def P_def
    by (rule foldl_ieee[OF range_facts(1) pos(5) range_facts(3) _ len]) (use round pb in \<open>auto simp: list_all_iff\<close>)
  have "between (1 / 2 ^ 400 / 2) (30 * 2 ^ 400) T"
    unfolding T_def by (rule rsum_between[OF pos(1)]) (use w(2) len in \<open>auto simp: list_all_iff\<close>)
  moreover have "0 < T"
  proof -
    have "\<forall>x\<in>set (map fr_weight ?rs). 0 < x" using w(1) by auto
    then have "0 < sum_list (map fr_weight ?rs)" using False by (intro sum_list_positive) auto
    then have "0 < 1 / 2 * sum_list (map fr_weight ?rs)" by simp
    also have "\<dots> \<le> (1 - 1 / 2 ^ 53) ^ length (map fr_weight ?rs) * sum_list (map fr_weight ?rs)"
      using power_15(1)[of "length (map fr_weight ?rs)"] len \<open>0 < sum_list (map fr_weight ?rs)\<close>
      by (intro mult_right_mono) auto
    also have "\<dots> \<le> T" unfolding T_def
      using w(1) by (intro flr.rsum_bounds[THEN conjunct1]) (auto intro: less_imp_le)
    finally show ?thesis .
  qed
  ultimately have T: "0 < T" "1 / 2 ^ 400 / 2 \<le> T" "T \<le> 30 * 2 ^ 400" by (auto simp: between_def)
  have "between (1 / 2 ^ 501 / 2) (30 * 2 ^ 408) P"
    unfolding P_def by (rule rsum_between[OF pos(3)]) (use pb len in \<open>auto simp: list_all_iff\<close>)
  from between_divide[OF _ _ this T(2,3)]
  have "between (1 / 2 ^ 501 / 2 / (30 * 2 ^ 400)) (30 * 2 ^ 408 / (1 / 2 ^ 400 / 2)) (P / T)" by simp
  from ieee_round_between[OF between_mono[OF this range_facts(9) order_refl] range_facts(10)]
  have "ieee_round (P / T) = Fin (fl (P / T))" .
  with T(1) total weighted show ?thesis
    by (simp add: score_ieee_def match_score_of_def Let_def T_def[symmetric] P_def[symmetric])
qed

text \<open>A single field whose weight is the largest power of two below the largest double over 16.\<close>

lemma weight_overflows:
  assumes "fr_weight fr = 2 ^ 1020" "fr_similarity fr = 100" "fr_status fr \<noteq> FM_MISSING"
  shows "score_ieee [fr] = PInf"
proof -
  have z: "ieee_round x = PInf" if "2 ^ 1025 \<le> x" for x
  proof -
    have "(0 :: rat) \<le> 2 ^ 1025" by (rule zero_le_power) simp
    then have x: "0 \<le> x" using that by (rule order_trans)
    have "1 / 2 * 2 ^ 1025 \<le> (1 - 1 / 2 ^ 53) * x" using that by (intro mult_mono) auto
    then have "2 ^ 1024 \<le> fl x" using flr.rnd_bounds[OF x] by simp
    then show ?thesis by (simp only: ieee_round_def if_True)
  qed
  have t: "ieee_round (2 ^ 1020) = Fin (fl (2 ^ 1020))"
    by (rule ieee_round_between[where hi = "2 ^ 1020"]) (simp_all add: between_def)
  have "0 < fl (2 ^ 1020)" by (rule flr.rnd_pos) simp
  moreover have "ieee_round (2 ^ 1020 * 100) = PInf" by (rule z) simp
  ultimately show ?thesis using assms t
    by (simp add: score_ieee_def total_ieee_def weighted_ieee_def scored_def Let_def)
qed

end
