(* ===== verification/PO_MatchProps.thy ===== *)
theory PO_MatchProps
  imports PO_MatchFloat
begin

text \<open>
  What the matching engine guarantees: the range of the score in float arithmetic, the symmetry
  of a decision in its two records, the authority of a critical conflict over the score, and
  what a record compared with itself yields. The locale \<open>symmetric_comparison\<close> states what one
  field comparison promises when its operands are swapped.
\<close>

section \<open>The shape of a field result\<close>

lemmas result_defs = exact_result_def amount_result_def date_result_def fuzzy_result_def field_result_def

lemma field_result_simps [simp]:
  "fr_field (field_result f k a b w c s st e) = f"
  "fr_weight (field_result f k a b w c s st e) = w"
  "fr_similarity (field_result f k a b w c s st e) = s"
  "fr_status (field_result f k a b w c s st e) = st"
  "fr_critical (field_result f k a b w c s st e) = c"
  "fr_explanation_code (field_result f k a b w c s st e) = Some e"
  "fr_normalized_a (field_result f k a b w c s st e) = a"
  "fr_normalized_b (field_result f k a b w c s st e) = b"
  "fr_comparison_type (field_result f k a b w c s st e) = k"
  by (simp_all add: field_result_def)

lemma sim_range: "0 \<le> sim fz a b alg \<and> sim fz a b alg \<le> 100"
  by (auto simp: sim_def clamp_sim_def split: option.splits)

lemma result_field [simp]:
  "fr_field (exact_result f x y w c ok) = f" "fr_field (amount_result f a b w c p) = f"
  "fr_field (date_result f x y w c p) = f" "fr_field (fuzzy_result fz f x y w c alg ok) = f"
  by (simp_all add: exact_result_def amount_result_def date_result_def fuzzy_result_def Let_def
      split: option.splits)

lemma result_weight [simp]:
  "fr_weight (exact_result f x y w c ok) = w" "fr_weight (amount_result f a b w c p) = w"
  "fr_weight (date_result f x y w c p) = w" "fr_weight (fuzzy_result fz f x y w c alg ok) = w"
  by (simp_all add: exact_result_def amount_result_def date_result_def fuzzy_result_def Let_def
      split: option.splits)

lemma result_similarity:
  "fr_similarity (exact_result f x y w c ok) \<in> {0, 100}"
  "fr_similarity (amount_result f a b w c p) \<in> {0, 100}"
  "fr_similarity (date_result f x y w c p) \<in> {0, 100}"
  "fr_similarity (fuzzy_result fz f x y w c alg ok) \<in> {0 .. 100}"
  by (simp_all add: exact_result_def amount_result_def date_result_def fuzzy_result_def Let_def
      sim_range split: option.splits)

lemma compare_field_simps:
  "compare_field fz p na nb (f, KExact) = exact_result f (value_get na f) (value_get nb f)
     (dget (mp_field_weights p) f 0) (f \<in> set (mp_critical_fields p)) (exact_code f)"
  "compare_field fz p na nb (f, KAmount) = amount_result f (as_decimal (value_get na f))
     (as_decimal (value_get nb f)) (dget (mp_field_weights p) f 0) (f \<in> set (mp_critical_fields p)) p"
  "compare_field fz p na nb (f, KDate) = date_result f (value_get na f) (value_get nb f)
     (dget (mp_field_weights p) f 0) (f \<in> set (mp_critical_fields p)) p"
  "compare_field fz p na nb (f, KFuzzy) = fuzzy_result fz f (value_get na f) (value_get nb f)
     (dget (mp_field_weights p) f 0) (f \<in> set (mp_critical_fields p))
     (dget (mp_fuzzy_algorithms p) f ''token_sort_ratio'') (exact_code f)"
  by (simp_all add: compare_field_def)

lemma spec_cases:
  obtains f where "s = (f, KExact)" | f where "s = (f, KAmount)" | f where "s = (f, KDate)"
    | f where "s = (f, KFuzzy)"
  by (cases s; cases "snd s") auto

lemma in_range: "x \<in> {0, 100} \<Longrightarrow> 0 \<le> x \<and> x \<le> (100 :: rat)" "x \<in> {0 .. 100} \<Longrightarrow> 0 \<le> x \<and> x \<le> (100 :: rat)"
  by auto

lemma similarity_range:
  "0 \<le> fr_similarity (compare_field fz p na nb s) \<and> fr_similarity (compare_field fz p na nb s) \<le> 100"
  by (rule spec_cases[of s]; simp only: compare_field_simps)
    (rule in_range(1)[OF result_similarity(1)] in_range(1)[OF result_similarity(2)]
      in_range(1)[OF result_similarity(3)] in_range(2)[OF result_similarity(4)])+

lemma compare_field_field [simp]: "fr_field (compare_field fz p na nb s) = fst s"
  by (rule spec_cases[of s]) (simp_all add: compare_field_simps)

lemma compare_field_weight [simp]:
  "fr_weight (compare_field fz p na nb s) = dget (mp_field_weights p) (fst s) 0"
  by (rule spec_cases[of s]) (simp_all add: compare_field_simps)

lemma length_field_results [simp]: "length (field_results_of fz a b p) = 15"
  by (simp add: field_results_of_def FIELD_SPECS_def)

lemma field_results_iff:
  "fr \<in> set (field_results_of fz a b p) \<longleftrightarrow>
     (\<exists>s\<in>set FIELD_SPECS. fr = compare_field fz p (normalize_record a) (normalize_record b) s)"
  by (auto simp: field_results_of_def)

section \<open>The score\<close>

text \<open>A weighted mean of similarities between \<open>lo\<close> and 100, computed with at most 15 roundings a sum.\<close>

lemma sum_list_mono_scaled:
  "(\<And>x. x \<in> set xs \<Longrightarrow> f x \<le> c * g x) \<Longrightarrow> sum_list (map f xs) \<le> c * sum_list (map g xs)"
  for f g :: "'a \<Rightarrow> rat"
  by (induction xs) (auto simp: algebra_simps intro: add_mono)

lemma sum_list_mono_scaled_ge:
  "(\<And>x. x \<in> set xs \<Longrightarrow> c * g x \<le> f x) \<Longrightarrow> c * sum_list (map g xs) \<le> sum_list (map f xs)"
  for f g :: "'a \<Rightarrow> rat"
  by (induction xs) (auto simp: algebra_simps intro: add_mono)

lemma sum_list_pos: "xs \<noteq> [] \<Longrightarrow> (\<And>x. x \<in> set xs \<Longrightarrow> 0 < f x) \<Longrightarrow> 0 < sum_list (map f xs)"
  for f :: "'a \<Rightarrow> rat"
proof (induction xs)
  case (Cons x xs)
  then show ?case by (cases xs) (auto intro: add_pos_pos)
qed simp

text \<open>
  A float sum of float products \<open>w * s\<close> and the float sum of the weights, with at most 15 terms.
\<close>

lemma power_le_15:
  fixes u :: rat
  assumes "0 \<le> u" "u < 1" "n \<le> 15"
  shows "(1 + u) ^ n \<le> (1 + u) ^ 15" "(1 - u) ^ 15 \<le> (1 - u) ^ n"
  using assms by (auto intro: power_increasing power_decreasing)

lemma power_17: "a * (a ^ 15 * (a * h) / d) = a ^ 17 * h / (d :: rat)"
proof -
  have "a ^ 17 = a * a ^ 15 * a"
    using power_add[of a 1 16] power_add[of a 15 1] by simp
  then show ?thesis by simp
qed

context relative_rounding
begin

lemma rsum_15:
  assumes "length xs \<le> 15" "\<forall>x\<in>set xs. 0 \<le> x"
  shows "(1 - u) ^ 15 * sum_list xs \<le> rsum rnd xs \<and> rsum rnd xs \<le> (1 + u) ^ 15 * sum_list xs"
proof -
  have s: "0 \<le> sum_list xs" using assms(2) by (simp add: sum_list_nonneg)
  show ?thesis
    using rsum_bounds[OF assms(2)] power_le_15[OF u_pos u_lt_1 assms(1)] s
    by (meson mult_right_mono order_trans)
qed

lemma products_bounds:
  fixes w s :: "'a \<Rightarrow> rat"
  assumes w: "\<And>x. x \<in> set rs \<Longrightarrow> 0 \<le> w x"
    and s: "\<And>x. x \<in> set rs \<Longrightarrow> lo \<le> s x \<and> s x \<le> hi" and lo: "0 \<le> lo"
  shows "(1 - u) * lo * sum_list (map w rs) \<le> sum_list (map (\<lambda>x. rnd (w x * s x)) rs)"
    and "sum_list (map (\<lambda>x. rnd (w x * s x)) rs) \<le> (1 + u) * hi * sum_list (map w rs)"
proof -
  have ws: "0 \<le> w x * s x" if "x \<in> set rs" for x
    using w[OF that] s[OF that] lo by simp
  show "(1 - u) * lo * sum_list (map w rs) \<le> sum_list (map (\<lambda>x. rnd (w x * s x)) rs)"
  proof (rule sum_list_mono_scaled_ge)
    fix x assume x: "x \<in> set rs"
    have "(1 - u) * (w x * lo) \<le> (1 - u) * (w x * s x)"
      using w[OF x] s[OF x] u_lt_1 by (intro mult_left_mono) auto
    also have "\<dots> \<le> rnd (w x * s x)" using rnd_bounds[OF ws[OF x]] by simp
    finally show "(1 - u) * lo * w x \<le> rnd (w x * s x)" by (simp only: mult_ac)
  qed
  show "sum_list (map (\<lambda>x. rnd (w x * s x)) rs) \<le> (1 + u) * hi * sum_list (map w rs)"
  proof (rule sum_list_mono_scaled)
    fix x assume x: "x \<in> set rs"
    have "rnd (w x * s x) \<le> (1 + u) * (w x * s x)" using rnd_bounds[OF ws[OF x]] by simp
    also have "\<dots> \<le> (1 + u) * (w x * hi)"
      using w[OF x] s[OF x] u_pos by (intro mult_left_mono) auto
    finally show "rnd (w x * s x) \<le> (1 + u) * hi * w x" by (simp only: mult_ac)
  qed
qed

text \<open>The quotient of the two sums, rounded.\<close>

lemma mean_bounds:
  fixes w s :: "'a \<Rightarrow> rat"
  assumes rs: "rs \<noteq> []" "length rs \<le> 15"
    and w: "\<And>x. x \<in> set rs \<Longrightarrow> 0 < w x"
    and s: "\<And>x. x \<in> set rs \<Longrightarrow> lo \<le> s x \<and> s x \<le> hi" and lo: "0 \<le> lo"
  defines "T \<equiv> rsum rnd (map w rs)" and "P \<equiv> rsum rnd (map (\<lambda>x. rnd (w x * s x)) rs)"
  shows "0 < T" and "rnd (P / T) \<le> (1 + u) ^ 17 * hi / (1 - u) ^ 15"
    and "(1 - u) ^ 17 * lo / (1 + u) ^ 15 \<le> rnd (P / T)"
proof -
  define W where "W = sum_list (map w rs)"
  define S where "S = sum_list (map (\<lambda>x. rnd (w x * s x)) rs)"
  have W: "0 < W" unfolding W_def using rs(1) w by (rule sum_list_pos)
  have w0: "\<forall>x\<in>set (map w rs). 0 \<le> x" using w by (auto simp: less_imp_le)
  have p0: "\<forall>x\<in>set (map (\<lambda>x. rnd (w x * s x)) rs). 0 \<le> x"
    using w s lo by (auto intro!: rnd_nonneg mult_nonneg_nonneg simp: less_imp_le dest: order_trans[OF lo])
  have pu: "0 < (1 - u) ^ 15" "0 < (1 + u) ^ 15" "0 \<le> (1 - u) ^ 15" "0 \<le> (1 + u) ^ 15"
    using u_pos u_lt_1 by simp_all
  have T: "(1 - u) ^ 15 * W \<le> T" "T \<le> (1 + u) ^ 15 * W"
    using rsum_15[OF _ w0] rs(2) by (simp_all add: T_def W_def)
  have P: "(1 - u) ^ 15 * S \<le> P" "P \<le> (1 + u) ^ 15 * S"
    using rsum_15[OF _ p0] rs(2) by (simp_all add: P_def S_def)
  have S: "(1 - u) * lo * W \<le> S" "S \<le> (1 + u) * hi * W"
    using products_bounds[of rs w lo s hi] w s lo by (auto simp: S_def W_def less_imp_le)
  have lW: "0 < (1 - u) ^ 15 * W" using pu W by simp
  then show T0: "0 < T" using T by linarith
  have P0: "0 \<le> P" unfolding P_def by (rule rsum_nonneg[OF p0])
  have hi: "0 \<le> hi" using rs(1) s lo by (cases rs) (auto dest: order_trans)
  have PU: "P \<le> (1 + u) ^ 15 * ((1 + u) * hi * W)"
    using P(2) mult_left_mono[OF S(2) pu(4)] by linarith
  have PL: "(1 - u) ^ 15 * ((1 - u) * lo * W) \<le> P"
    using P(1) mult_left_mono[OF S(1) pu(3)] by linarith
  have "P / T \<le> ((1 + u) ^ 15 * ((1 + u) * hi * W)) / ((1 - u) ^ 15 * W)"
    using PU P0 by (intro frac_le[OF _ _ lW T(1)]) auto
  also have "\<dots> = (1 + u) ^ 15 * ((1 + u) * hi) / (1 - u) ^ 15" using W by simp
  finally have q: "P / T \<le> (1 + u) ^ 15 * ((1 + u) * hi) / (1 - u) ^ 15" .
  have "((1 - u) ^ 15 * ((1 - u) * lo * W)) / ((1 + u) ^ 15 * W) \<le> P / T"
    using PL P0 T(2) T0 by (intro frac_le) auto
  then have r: "(1 - u) ^ 15 * ((1 - u) * lo) / (1 + u) ^ 15 \<le> P / T" using W by simp
  have q0: "0 \<le> P / T" using P0 T0 by simp
  note b = rnd_bounds[OF q0]
  have "rnd (P / T) \<le> (1 + u) * ((1 + u) ^ 15 * ((1 + u) * hi) / (1 - u) ^ 15)"
    using b mult_left_mono[OF q, of "1 + u"] u_pos by linarith
  also have "\<dots> = (1 + u) ^ 17 * hi / (1 - u) ^ 15" by (rule power_17)
  finally show "rnd (P / T) \<le> (1 + u) ^ 17 * hi / (1 - u) ^ 15" .
  have "(1 - u) * ((1 - u) ^ 15 * ((1 - u) * lo) / (1 + u) ^ 15) \<le> rnd (P / T)"
    using b mult_left_mono[OF r, of "1 - u"] u_lt_1 by linarith
  then show "(1 - u) ^ 17 * lo / (1 + u) ^ 15 \<le> rnd (P / T)" by (simp only: power_17)
qed

end

text \<open>For doubles the bounds leave less than half a hundredth around 100.\<close>

lemma error_bound:
  "(1 + 1 / 2 ^ 53) ^ 17 * 100 / (1 - 1 / 2 ^ 53) ^ 15 < (100 + 1 / 200 :: rat)"
  "(100 - 1 / 200 :: rat) < (1 - 1 / 2 ^ 53) ^ 17 * 100 / (1 + 1 / 2 ^ 53) ^ 15"
  by (simp_all add: power_divide)

lemma match_score_range:
  assumes "length results \<le> 15"
    and "\<And>fr. fr \<in> set results \<Longrightarrow> 0 \<le> fr_similarity fr \<and> fr_similarity fr \<le> 100"
  shows "0 \<le> match_score_of results \<and> match_score_of results \<le> 100"
proof (cases "filter scored results = []")
  case True
  then show ?thesis by (simp add: match_score_of_def rsum_def)
next
  case False
  have l: "length (filter scored results) \<le> 15"
    using assms(1) length_filter_le[of scored results] by linarith
  have w: "0 < fr_weight x" if "x \<in> set (filter scored results)" for x
    using that by (simp add: scored_def)
  have s: "0 \<le> fr_similarity x \<and> fr_similarity x \<le> 100" if "x \<in> set (filter scored results)" for x
    using that assms(2) by simp
  note b = flr.mean_bounds[where w = fr_weight and s = fr_similarity and lo = 0 and hi = 100, OF False l w s]
  show ?thesis
    using b error_bound(1) by (auto simp: match_score_of_def Let_def intro!: fround2_nonneg fround2_le_100)
qed

text \<open>When every compared field agrees the score is exactly 100.\<close>

lemma rhe_10000: "\<bar>x - 100\<bar> < 1 / 200 \<Longrightarrow> fround2 x = 100"
proof -
  assume x: "\<bar>x - 100\<bar> < 1 / 200"
  have "rhe (x * 100) = 10000"
  proof (rule rhe_unique)
    show "\<bar>of_int 10000 - x * 100\<bar> < 1 / 2" using x unfolding abs_less_iff by simp
  qed
  then show ?thesis by (simp add: fround2_def)
qed

lemma match_score_all_100:
  assumes l15: "length results \<le> 15" and ne: "filter scored results \<noteq> []"
    and s: "\<And>fr. fr \<in> set results \<Longrightarrow> scored fr \<Longrightarrow> fr_similarity fr = 100"
  shows "match_score_of results = 100"
proof -
  have l: "length (filter scored results) \<le> 15"
    using l15 length_filter_le[of scored results] by linarith
  have w: "0 < fr_weight x" if "x \<in> set (filter scored results)" for x
    using that by (simp add: scored_def)
  have s': "100 \<le> fr_similarity x \<and> fr_similarity x \<le> 100" if "x \<in> set (filter scored results)" for x
    using that s by simp
  note b = flr.mean_bounds[where w = fr_weight and s = fr_similarity and lo = 100 and hi = 100, OF ne l w s']
  have "\<not> rsum fl (map fr_weight (filter scored results)) \<le> 0" using b(1) by simp
  moreover have "\<bar>fl (rsum fl (map (\<lambda>x. fl (fr_weight x * fr_similarity x)) (filter scored results)) /
      rsum fl (map fr_weight (filter scored results))) - 100\<bar> < 1 / 200"
    using le_less_trans[OF b(2) error_bound(1)] less_le_trans[OF error_bound(2) b(3)]
    unfolding abs_less_iff by linarith
  ultimately show ?thesis by (simp add: match_score_of_def Let_def rhe_10000)
qed

section \<open>Swapping the records\<close>

definition swap_result :: "FieldMatchResult \<Rightarrow> FieldMatchResult" where
  "swap_result fr = fr\<lparr>fr_normalized_a := fr_normalized_b fr, fr_normalized_b := fr_normalized_a fr\<rparr>"

lemma swap_result_simps [simp]:
  "fr_field (swap_result fr) = fr_field fr" "fr_weight (swap_result fr) = fr_weight fr"
  "fr_status (swap_result fr) = fr_status fr" "fr_similarity (swap_result fr) = fr_similarity fr"
  "fr_explanation_code (swap_result fr) = fr_explanation_code fr"
  "fr_normalized_a (swap_result fr) = fr_normalized_b fr"
  "fr_normalized_b (swap_result fr) = fr_normalized_a fr"
  "swap_result (field_result f k a b w c s st e) = field_result f k b a w c s st e"
  by (simp_all add: swap_result_def field_result_def)

text \<open>A comparison whose verdict does not depend on the order of its operands.\<close>

locale symmetric_comparison =
  fixes cmp :: "'v \<Rightarrow> 'v \<Rightarrow> FieldMatchResult"
  assumes swap: "cmp b a = swap_result (cmp a b)"
begin

lemma same_verdict:
  "fr_status (cmp b a) = fr_status (cmp a b)" "fr_similarity (cmp b a) = fr_similarity (cmp a b)"
  "fr_weight (cmp b a) = fr_weight (cmp a b)"
  "fr_explanation_code (cmp b a) = fr_explanation_code (cmp a b)"
  by (subst swap, simp)+

lemma swap_twice: "swap_result (swap_result (cmp a b)) = cmp a b"
  by (simp flip: swap)

end

lemma round_digits_minus: "round_digits b p (- x) = - round_digits b p x"
  by (simp add: round_digits_def Let_def rhe_minus flip: minus_divide_left)

lemma dec28_minus: "dec28 (- x) = - dec28 x"
  by (simp add: dec28_def round_digits_minus)

lemma within_tolerance_sym: "within_tolerance b a t = within_tolerance a b t"
proof -
  have "\<bar>dec28 (dval b - dval a)\<bar> = \<bar>dec28 (dval a - dval b)\<bar>"
    using dec28_minus[of "dval a - dval b"] by simp
  then show ?thesis by (simp add: within_tolerance_def Let_def max.commute)
qed

interpretation exact_sym: symmetric_comparison "\<lambda>a b. exact_result field a b w c ok" for field w c ok
  by unfold_locales (auto simp: exact_result_def Let_def split: option.splits)

interpretation amount_sym: symmetric_comparison "\<lambda>a b. amount_result field a b w c p" for field w c p
  by unfold_locales
    (auto simp: amount_result_def Let_def within_tolerance_sym[of b a for a b] split: option.splits)

lemma date_diff_days_swap: "\<bar>date_diff_days b a\<bar> = \<bar>date_diff_days a b\<bar>"
  by (simp add: date_diff_days_def)

interpretation date_sym: symmetric_comparison "\<lambda>a b. date_result field a b w c p" for field w c p
  by unfold_locales
    (auto simp: date_result_def Let_def date_diff_days_swap split: option.splits)

definition symmetric_scorer :: "scorer \<Rightarrow> bool" where
  "symmetric_scorer fz \<longleftrightarrow> (\<forall>alg x y. fz alg x y = fz alg y x)"

lemma sim_sym: "symmetric_scorer fz \<Longrightarrow> sim fz b a alg = sim fz a b alg"
  by (auto simp: sim_def symmetric_scorer_def split: option.splits)

lemma fuzzy_result_swap:
  "symmetric_scorer fz \<Longrightarrow>
     fuzzy_result fz f b a w c alg code = swap_result (fuzzy_result fz f a b w c alg code)"
  by (cases a; cases b) (auto simp: fuzzy_result_def Let_def sim_sym)

lemma compare_field_swap:
  "symmetric_scorer fz \<Longrightarrow> compare_field fz p nb na s = swap_result (compare_field fz p na nb s)"
  by (rule spec_cases[of s]; simp only: compare_field_simps)
    (rule exact_sym.swap amount_sym.swap date_sym.swap fuzzy_result_swap; assumption?)+

lemma field_results_swap:
  "symmetric_scorer fz \<Longrightarrow> field_results_of fz b a p = map swap_result (field_results_of fz a b p)"
  unfolding field_results_of_def map_map comp_def
  by (intro map_cong refl compare_field_swap)

lemma scored_swap [simp]: "scored (swap_result fr) = scored fr"
  by (simp add: scored_def)

lemma match_score_swap [simp]: "match_score_of (map swap_result rs) = match_score_of rs"
  by (simp add: match_score_of_def filter_map comp_def Let_def)

lemma critical_conflicts_swap [simp]:
  "critical_conflicts (map swap_result rs) cf = critical_conflicts rs cf"
  by (induction rs) (auto simp: critical_conflicts_def field_conflicts_def)

lemma explanation_codes_swap [simp]: "explanation_codes (map swap_result rs) = explanation_codes rs"
proof -
  have "collect_some (\<lambda>fr. if truthy (fr_explanation_code fr) then fr_explanation_code fr else None) (map swap_result rs)
      = collect_some (\<lambda>fr. if truthy (fr_explanation_code fr) then fr_explanation_code fr else None) rs"
    by (induction rs) (auto split: option.splits)
  then show ?thesis by (simp add: explanation_codes_def)
qed

section \<open>Critical conflicts\<close>

lemma no_conflicts_iff:
  "critical_conflicts rs cf = [] \<longleftrightarrow> (\<forall>fr\<in>set rs. field_conflicts cf fr = [])"
  by (simp add: critical_conflicts_def)

lemma critical_mismatch_conflict:
  "fr \<in> set rs \<Longrightarrow> fr_field fr \<in> set cf \<Longrightarrow> fr_status fr = FM_MISMATCH \<Longrightarrow> critical_conflicts rs cf \<noteq> []"
  by (auto simp: no_conflicts_iff field_conflicts_def)

lemma classify_conflict:
  "conflicts \<noteq> [] \<Longrightarrow> match_classify score conflicts p \<in> {REVIEW_REQUIRED, UNMATCHED}"
  by (simp add: match_classify_def Let_def)

lemma evaluate_pair_sel [simp]:
  "md_classification (evaluate_pair fz a b p v) =
     match_classify (match_score_of (field_results_of fz a b p))
       (critical_conflicts (field_results_of fz a b p) (mp_critical_fields p)) p"
  "md_match_score (evaluate_pair fz a b p v) = match_score_of (field_results_of fz a b p)"
  "md_field_results (evaluate_pair fz a b p v) = field_results_of fz a b p"
  "md_critical_conflicts (evaluate_pair fz a b p v) =
     critical_conflicts (field_results_of fz a b p) (mp_critical_fields p)"
  "md_explanation_codes (evaluate_pair fz a b p v) = explanation_codes (field_results_of fz a b p)"
  "md_record_a_id (evaluate_pair fz a b p v) = mr_record_id a"
  "md_record_b_id (evaluate_pair fz a b p v) = mr_record_id b"
  by (simp_all add: evaluate_pair_def Let_def)

lemma evaluate_score_range:
  "0 \<le> md_match_score (evaluate_pair fz a b p v) \<and> md_match_score (evaluate_pair fz a b p v) \<le> 100"
  unfolding evaluate_pair_sel
  by (rule match_score_range) (auto simp: field_results_iff similarity_range)

text \<open>
  The policies and scorers whose numbers stay far from the ends of the range of doubles. No schema or
  validator of the code enforces the first; the scorers of RapidFuzz are 0 or at least one part in
  the length of their arguments.
\<close>

definition sane_policy :: "MatchingPolicy \<Rightarrow> bool" where
  "sane_policy p \<longleftrightarrow> list_all (\<lambda>(f, w). w \<le> 0 \<or> 1 / 2 ^ 400 \<le> w \<and> w \<le> 2 ^ 400) (mp_field_weights p)"

definition sane_scorer :: "scorer \<Rightarrow> bool" where
  "sane_scorer fz \<longleftrightarrow> (\<forall>alg x y. fz alg x y \<le> 0 \<or> 1 / 2 ^ 100 \<le> fz alg x y)"

lemma between_percent: "between (1 / 2 ^ 100) 100 x" if "x \<in> {0, 100}" for x :: rat
  using that by (auto simp: between_def)

lemma sim_between:
  assumes "sane_scorer fz"
  shows "between (1 / 2 ^ 100) 100 (sim fz a b alg)"
proof -
  have "between (1 / 2 ^ 100) 100 (clamp_sim (fz al x y))" for al x y
  proof -
    have "fz al x y \<le> 0 \<or> 1 / 2 ^ 100 \<le> fz al x y" using assms by (simp add: sane_scorer_def)
    then show ?thesis
    proof
      assume "fz al x y \<le> 0"
      then show ?thesis by (simp add: between_def clamp_sim_def max_def)
    next
      assume h: "1 / 2 ^ 100 \<le> fz al x y"
      moreover have "(0 :: rat) < 1 / 2 ^ 100" "(1 / 2 ^ 100 :: rat) \<le> 100" by simp_all
      ultimately show ?thesis unfolding between_def clamp_sim_def by (simp only: min_def max_def) (simp split: if_splits)
    qed
  qed
  then show ?thesis by (auto simp: sim_def between_def split: option.splits)
qed

lemma similarity_between:
  assumes "sane_scorer fz"
  shows "between (1 / 2 ^ 100) 100 (fr_similarity (compare_field fz p na nb s))"
proof -
  have f: "between (1 / 2 ^ 100) 100 (fr_similarity (fuzzy_result fz f x y w c alg ok))" for f x y w c alg ok
    using sim_between[OF assms] between_percent by (simp add: fuzzy_result_def Let_def split: option.splits)
  show ?thesis
    by (rule spec_cases[of s]; simp only: compare_field_simps)
      (rule between_percent[OF result_similarity(1)] between_percent[OF result_similarity(2)]
        between_percent[OF result_similarity(3)] f)+
qed

lemma sane_weight: "sane_policy p \<Longrightarrow> 0 < dget (mp_field_weights p) f 0 \<Longrightarrow>
    between (1 / 2 ^ 400) (2 ^ 400) (dget (mp_field_weights p) f 0)"
  by (auto simp: sane_policy_def between_def dget_def list_all_iff split: option.splits dest!: map_of_SomeD)

lemma field_results_fit:
  "sane_policy p \<Longrightarrow> sane_scorer fz \<Longrightarrow> list_all fits_double (field_results_of fz a b p)"
proof -
  assume p: "sane_policy p" and fz: "sane_scorer fz"
  have "fits_double (compare_field fz p na nb s)" for na nb s
    unfolding fits_double_def compare_field_weight using sane_weight[OF p] similarity_between[OF fz] by blast
  then show ?thesis by (auto simp: list_all_iff field_results_iff)
qed

section \<open>The values a comparison sees\<close>

lemma value_get_normalized:
  "map_of (raw_fields r) f = Some v \<Longrightarrow> value_get (normalize_record r) f = normalize_field f v"
  by (simp add: value_get_def dget_def normalized_value)

text \<open>A field that is critical and compared exactly: without a mismatch, values present on both sides agree.\<close>

lemma exact_mismatch_iff:
  "fr_status (exact_result f a b w c ok) = FM_MISMATCH \<longleftrightarrow>
     (\<exists>x y. a = Some x \<and> b = Some y \<and> nval_str x \<noteq> nval_str y)"
  by (auto simp: exact_result_def Let_def split: option.splits)

lemma matched_exact_agree:
  assumes m: "md_classification (evaluate_pair fz a b p v) \<in> {MATCHED, POSSIBLE_MATCH}"
    and f: "(f, KExact) \<in> set FIELD_SPECS" "f \<in> set (mp_critical_fields p)"
    and v: "value_get (normalize_record a) f = Some x" "value_get (normalize_record b) f = Some y"
  shows "nval_str x = nval_str y"
proof (rule ccontr)
  assume n: "nval_str x \<noteq> nval_str y"
  let ?fr = "compare_field fz p (normalize_record a) (normalize_record b) (f, KExact)"
  have "fr_status ?fr = FM_MISMATCH"
    using v n by (simp add: compare_field_def exact_result_def Let_def)
  then have "critical_conflicts (field_results_of fz a b p) (mp_critical_fields p) \<noteq> []"
    using f by (intro critical_mismatch_conflict[of ?fr]) (auto simp: field_results_iff)
  from classify_conflict[OF this] m show False by (metis evaluate_pair_sel(1) empty_iff insert_iff
        MatchClassification.distinct(3,5,9,11))
qed

lemma amount_mismatch_iff:
  "fr_status (amount_result f a b w c p) = FM_MISMATCH \<longleftrightarrow>
     (\<exists>x y. a = Some x \<and> b = Some y \<and> dval x \<noteq> dval y \<and>
        \<not> (\<exists>t. map_of (mp_amount_tolerances p) f = Some t \<and> within_tolerance x y t))"
  by (auto simp: amount_result_def Let_def split: option.splits)

lemma matched_amount_agree:
  assumes m: "md_classification (evaluate_pair fz a b p v) \<in> {MATCHED, POSSIBLE_MATCH}"
    and c: "''amount'' \<in> set (mp_critical_fields p)"
    and v: "mr_amount a = Some x" "mr_amount b = Some y"
  shows "dval x = dval y \<or> (\<exists>t. map_of (mp_amount_tolerances p) ''amount'' = Some t \<and> within_tolerance x y t)"
proof (rule ccontr)
  assume n: "\<not> (dval x = dval y \<or> (\<exists>t. map_of (mp_amount_tolerances p) ''amount'' = Some t \<and> within_tolerance x y t))"
  let ?fr = "compare_field fz p (normalize_record a) (normalize_record b) (''amount'', KAmount)"
  have g: "value_get (normalize_record r) ''amount'' = normalize_field ''amount'' (map_option RDec (mr_amount r))" for r
    by (rule value_get_normalized) (simp add: raw_fields_def)
  have "fr_status ?fr = FM_MISMATCH"
    using v n c by (simp add: compare_field_def Let_def g normalize_field_def NORMALIZERS_def
        normalize_amount_value_def normalize_amount_def as_decimal_def amount_mismatch_iff)
  then have "critical_conflicts (field_results_of fz a b p) (mp_critical_fields p) \<noteq> []"
    using c by (intro critical_mismatch_conflict[of ?fr]) (auto simp: field_results_iff FIELD_SPECS_def)
  from classify_conflict[OF this] m show False by (metis evaluate_pair_sel(1) empty_iff insert_iff
        MatchClassification.distinct(3,5,9,11))
qed

section \<open>A record compared with itself\<close>

definition printable_dates :: "MatchRecord \<Rightarrow> bool" where
  "printable_dates r \<longleftrightarrow> (\<forall>d. mr_booking_date r = Some d \<or> mr_value_date r = Some d \<longrightarrow>
     valid_date d \<and> 1000 \<le> d_year d)"

lemma value_get_date:
  "value_get (normalize_record r) ''booking_date'' = map_option (NStr \<circ> strftime_date) (mr_booking_date r)"
  "value_get (normalize_record r) ''value_date'' = map_option (NStr \<circ> strftime_date) (mr_value_date r)"
proof -
  have b: "map_of (raw_fields r) ''booking_date'' = Some (map_option RDate (mr_booking_date r))"
    and v: "map_of (raw_fields r) ''value_date'' = Some (map_option RDate (mr_value_date r))"
    by (simp_all add: raw_fields_def)
  show "value_get (normalize_record r) ''booking_date'' = map_option (NStr \<circ> strftime_date) (mr_booking_date r)"
    unfolding value_get_normalized[OF b]
    by (cases "mr_booking_date r") (simp_all add: normalize_field_def NORMALIZERS_def normalize_date_def)
  show "value_get (normalize_record r) ''value_date'' = map_option (NStr \<circ> strftime_date) (mr_value_date r)"
    unfolding value_get_normalized[OF v]
    by (cases "mr_value_date r") (simp_all add: normalize_field_def NORMALIZERS_def normalize_date_def)
qed

lemma date_of_strftime:
  "valid_date d \<Longrightarrow> 1000 \<le> d_year d \<Longrightarrow> date_fromisoformat (take 10 (strftime_date d)) = Some d"
proof -
  assume v: "valid_date d" and y: "1000 \<le> d_year d"
  have "length (show_date d) = 10" by (simp add: show_date_def four_digits_def two_digits_def)
  then have "take 10 (strftime_date d) = show_date d" using strftime_show[OF v y] by simp
  then show ?thesis using date_roundtrip[OF v] by simp
qed

definition agrees :: "FieldMatchResult \<Rightarrow> bool" where
  "agrees fr \<longleftrightarrow> fr_status fr = FM_MISSING \<or> (fr_status fr = FM_EXACT \<and> fr_similarity fr = 100)"

lemma exact_self: "agrees (exact_result f a a w c ok)"
  by (cases a) (simp_all add: agrees_def exact_result_def)

lemma amount_self: "agrees (amount_result f a a w c p)"
  by (cases a) (simp_all add: agrees_def amount_result_def)

lemma fuzzy_self: "agrees (fuzzy_result fz f a a w c alg ok)"
  by (cases a) (simp_all add: agrees_def fuzzy_result_def)

lemma date_self:
  "0 \<le> dget (mp_date_tolerances p) f 0 \<Longrightarrow>
     (\<And>d. x = Some d \<Longrightarrow> valid_date d \<and> 1000 \<le> d_year d) \<Longrightarrow>
     agrees (date_result f (map_option (NStr \<circ> strftime_date) x) (map_option (NStr \<circ> strftime_date) x) w c p)"
  by (cases x) (simp_all add: agrees_def date_result_def nval_str_def date_of_strftime date_diff_days_def Let_def)

lemma compare_self:
  assumes "printable_dates r" "0 \<le> dget (mp_date_tolerances p) ''booking_date'' 0"
    "0 \<le> dget (mp_date_tolerances p) ''value_date'' 0" "s \<in> set FIELD_SPECS"
  shows "agrees (compare_field fz p (normalize_record r) (normalize_record r) s)"
proof (rule spec_cases[of s])
  fix f assume s: "s = (f, KDate)"
  with assms(4) consider "f = ''booking_date''" | "f = ''value_date''" by (auto simp: FIELD_SPECS_def)
  then show ?thesis
    using assms(1-3) by cases (auto simp: s compare_field_simps value_get_date printable_dates_def intro: date_self)
qed (simp_all add: compare_field_simps exact_self amount_self fuzzy_self)

lemma self_no_conflicts: "\<forall>fr\<in>set rs. agrees fr \<Longrightarrow> critical_conflicts rs cf = []"
  by (auto simp: no_conflicts_iff field_conflicts_def agrees_def)

section \<open>Spelling variants of a legal form\<close>

lemma split_char_append_gen: "split_char c (a @ c # b) = split_char c a @ split_char c b"
  by (induction a) (auto split: list.splits)

lemma last_n_append [simp]: "length ys = n \<Longrightarrow> last_n n (xs @ ys) = ys"
  by (simp add: last_n_def)

lemma but_last_n_append [simp]: "length ys = n \<Longrightarrow> but_last_n n (xs @ ys) = xs"
  by (simp add: but_last_n_def)

lemma join_suffix_3:
  "map_of COMPANY_SUFFIXES (lower [a, b, c]) = Some t \<Longrightarrow> join_suffix 3 (ws @ [[a], [b], [c]]) = ws @ [t]"
  using last_n_append[of "[[a], [b], [c]]" 3 ws] but_last_n_append[of "[[a], [b], [c]]" 3 ws]
  by (simp add: join_suffix_def)

lemma last_in_last_n: "0 < n \<Longrightarrow> n \<le> length (xs @ [t]) \<Longrightarrow> t \<in> set (last_n n (xs @ [t]))"
  by (simp add: last_n_def)

lemma join_suffix_long: "length t \<noteq> 1 \<Longrightarrow> 0 < n \<Longrightarrow> join_suffix n (ws @ [t]) = ws @ [t]"
  using last_in_last_n[of n ws t] by (auto simp: join_suffix_def list_all_iff)

definition tidy :: "string \<Rightarrow> bool" where
  "tidy n \<longleftrightarrow> n \<noteq> [] \<and> collapse n = n \<and> CHR ''.'' \<notin> set n \<and> CHR '','' \<notin> set n"

definition letter :: "char \<Rightarrow> bool" where
  "letter c \<longleftrightarrow> 65 \<le> (of_char c :: nat) \<and> (of_char c :: nat) \<le> 90"

lemma letter_facts:
  "letter c \<Longrightarrow> \<not> is_space c" "letter c \<Longrightarrow> c \<noteq> CHR ''.''" "letter c \<Longrightarrow> c \<noteq> CHR '',''"
  "letter c \<Longrightarrow> c \<noteq> CHR '' ''" "letter c \<Longrightarrow> upper_char c = c"
  by (auto simp: letter_def is_space_def upper_char_def Let_def)

lemma squeezed_collapsed: "collapse n = n \<Longrightarrow> squeezed n"
  by (metis collapse_def squeezed_strip squeezed_sub_ws)

lemma collapse_id: "squeezed n \<Longrightarrow> n = [] \<or> (\<not> is_space (hd n) \<and> \<not> is_space (last n)) \<Longrightarrow> collapse n = n"
  by (simp add: collapse_def sub_ws_squeezed strip_id_iff)

lemma squeezed_append:
  "squeezed a \<Longrightarrow> squeezed b \<Longrightarrow> a = [] \<or> b = [] \<or> \<not> (is_space (last a) \<and> is_space (hd b)) \<Longrightarrow> squeezed (a @ b)"
  by (auto simp: squeezed_def successively_append_iff)

lemma tidy_ends: "tidy n \<Longrightarrow> squeezed n \<and> \<not> is_space (hd n) \<and> \<not> is_space (last n)"
  using squeezed_collapsed[of n] strip_collapse[of n] strip_id_iff[of n] by (auto simp: tidy_def)

lemma tidy_append:
  assumes "tidy n" "squeezed b" "b \<noteq> []" "hd b = CHR '' ''" "\<not> is_space (last b)"
  shows "collapse (n @ b) = n @ b"
proof (rule collapse_id)
  show "squeezed (n @ b)" using assms tidy_ends[OF assms(1)] by (intro squeezed_append) auto
  show "n @ b = [] \<or> \<not> is_space (hd (n @ b)) \<and> \<not> is_space (last (n @ b))"
    using assms tidy_ends[OF assms(1)] by (auto simp: tidy_def)
qed

text \<open>The tokens of a tidy name followed by a suffix.\<close>

lemma suffix_tokens_spaced:
  assumes "tidy n" "letter a" "letter b" "letter c"
  shows "split_char CHR '' '' (upper (n @ '' '' @ [a] @ '' '' @ [b] @ '' '' @ [c])) =
     split_char CHR '' '' (upper n) @ [[a], [b], [c]]"
  using assms by (simp add: upper_def split_char_append_gen letter_facts)

lemma suffix_tokens_joined:
  assumes "letter a" "letter b" "letter c"
  shows "split_char CHR '' '' (upper (n @ '' '' @ [a, b, c])) = split_char CHR '' '' (upper n) @ [[a, b, c]]"
  using assms by (simp add: upper_def split_char_append_gen letter_facts)

lemma replace_tidy:
  "tidy n \<Longrightarrow> replace_char CHR ''.'' CHR '' '' n = n" "tidy n \<Longrightarrow> replace_char CHR '','' CHR '' '' n = n"
  unfolding tidy_def replace_char_def by (auto intro!: map_idI)

lemma replace_append: "replace_char c d (a @ b) = replace_char c d a @ replace_char c d b"
  by (simp add: replace_char_def)

lemma strip_append_space: "b \<noteq> [] \<Longrightarrow> \<not> is_space (hd (a @ b)) \<Longrightarrow> \<not> is_space (last b) \<Longrightarrow>
    strip (a @ b @ '' '') = a @ b"
proof -
  assume b: "b \<noteq> []" "\<not> is_space (hd (a @ b))" "\<not> is_space (last b)"
  have "lstrip (a @ b @ '' '') = a @ b @ '' ''"
    using b by (intro lstrip_id) (cases a; simp)
  moreover have "rstrip ((a @ b) @ '' '') = rstrip (a @ b)" by (simp add: rstrip_def)
  moreover have "rstrip (a @ b) = a @ b" using b by (intro rstrip_id) simp
  ultimately show ?thesis by (simp add: strip_def)
qed

lemma not_space_dot [simp]: "\<not> is_space CHR ''.''"
  by (simp add: is_space_def)

lemma normalize_suffix_variants:
  assumes n: "tidy n" and abc: "letter a" "letter b" "letter c"
    and t: "map_of COMPANY_SUFFIXES (lower [a, b, c]) = Some t"
  defines "spaced \<equiv> n @ '' '' @ [a] @ '' '' @ [b] @ '' '' @ [c]"
    and "dotted \<equiv> n @ '' '' @ [a] @ ''.'' @ [b] @ ''.'' @ [c] @ ''.''"
    and "joined \<equiv> n @ '' '' @ [a, b, c]"
  shows "normalize_company_suffix dotted = normalize_company_suffix spaced"
    and "t = [a, b, c] \<Longrightarrow> normalize_company_suffix joined = normalize_company_suffix spaced"
    and "collapse spaced = spaced" "collapse dotted = dotted" "collapse joined = joined"
proof -
  note e = tidy_ends[OF n]
  have ne: "n \<noteq> []" using n by (simp add: tidy_def)
  show cs: "collapse spaced = spaced"
    unfolding spaced_def using n abc
    by (intro tidy_append) (auto simp: squeezed_Cons letter_facts)
  show cd: "collapse dotted = dotted"
    unfolding dotted_def using n abc
    by (intro tidy_append) (auto simp: squeezed_Cons letter_facts)
  show cj: "collapse joined = joined"
    unfolding joined_def using n abc
    by (intro tidy_append) (auto simp: squeezed_Cons letter_facts)
  have rs: "strip (replace_char CHR '','' CHR '' '' (replace_char CHR ''.'' CHR '' '' spaced)) = spaced"
  proof -
    have "replace_char CHR '','' CHR '' '' (replace_char CHR ''.'' CHR '' '' spaced) = spaced"
      using n abc by (simp add: spaced_def replace_append replace_tidy)
        (simp add: replace_char_def letter_facts)
    then show ?thesis using cs by (metis strip_collapse)
  qed
  have rd: "strip (replace_char CHR '','' CHR '' '' (replace_char CHR ''.'' CHR '' '' dotted)) = spaced"
  proof -
    have "replace_char CHR '','' CHR '' '' (replace_char CHR ''.'' CHR '' '' dotted) =
        n @ ('' '' @ [a] @ '' '' @ [b] @ '' '' @ [c]) @ '' ''"
      using n abc by (simp add: dotted_def replace_append replace_tidy)
        (simp add: replace_char_def letter_facts)
    moreover have "strip (n @ ('' '' @ [a] @ '' '' @ [b] @ '' '' @ [c]) @ '' '') = spaced"
      unfolding spaced_def using ne e abc by (intro strip_append_space) (auto simp: letter_facts)
    ultimately show ?thesis by simp
  qed
  have rj: "strip (replace_char CHR '','' CHR '' '' (replace_char CHR ''.'' CHR '' '' joined)) = joined"
  proof -
    have "replace_char CHR '','' CHR '' '' (replace_char CHR ''.'' CHR '' '' joined) = joined"
      using n abc by (simp add: joined_def replace_append replace_tidy)
        (simp add: replace_char_def letter_facts)
    then show ?thesis using cj by (metis strip_collapse)
  qed
  show "normalize_company_suffix dotted = normalize_company_suffix spaced"
    by (simp only: normalize_company_suffix_def rs rd)
  have s3: "join_suffix 3 (split_char CHR '' '' (upper spaced)) = split_char CHR '' '' (upper n) @ [t]"
    unfolding spaced_def suffix_tokens_spaced[OF n abc] by (rule join_suffix_3[OF t])
  assume tt: "t = [a, b, c]"
  have j: "split_char CHR '' '' (upper joined) = split_char CHR '' '' (upper n) @ [t]"
    unfolding joined_def tt by (rule suffix_tokens_joined[OF abc])
  have long: "join_suffix k (split_char CHR '' '' (upper n) @ [t]) = split_char CHR '' '' (upper n) @ [t]"
    if "0 < k" for k using that tt by (intro join_suffix_long) simp_all
  show "normalize_company_suffix joined = normalize_company_suffix spaced"
    by (simp add: normalize_company_suffix_def rs rj cs cj s3 j long)
qed

section \<open>The amount window\<close>

lemma amount_window_default:
  assumes "amount_window a DEFAULT_AMOUNT_PCT = Some (lo, hi)"
  shows "0 \<le> dval a \<Longrightarrow> lo \<le> dval a \<and> dval a \<le> hi"
    and "dval a < 0 \<Longrightarrow> hi < lo"
proof -
  define v where "v = dval a"
  have t: "dval DEFAULT_AMOUNT_PCT = 20" by (simp add: DEFAULT_AMOUNT_PCT_def dval_def mk_dec_def pw_def)
  have pct: "dec28 (dval DEFAULT_AMOUNT_PCT / 100) = 1 / 5"
    by (simp add: t dec28_def round_digits_def ilog.simps pw_def rhe_def)
  have t0: "dval DEFAULT_AMOUNT_PCT \<noteq> 0" by (simp add: t)
  define d where "d = dec28 (v * (1 / 5))"
  have w: "lo = dec28 (v - d)" "hi = dec28 (v + d)"
    using assms by (simp_all add: amount_window_def t0 pct v_def d_def Let_def)
  define u :: rat where "u = 1 / (2 * 10 ^ 27)"
  have e: "\<bar>d - v / 5\<bar> \<le> u * \<bar>v / 5\<bar>" using decr.rnd_error[of "v * (1 / 5)"] by (simp add: d_def u_def)
  have l: "\<bar>lo - (v - d)\<bar> \<le> u * \<bar>v - d\<bar>" and h: "\<bar>hi - (v + d)\<bar> \<le> u * \<bar>v + d\<bar>"
    using decr.rnd_error w by (simp_all add: u_def)
  show "0 \<le> dval a \<Longrightarrow> lo \<le> dval a \<and> dval a \<le> hi"
  proof -
    assume "0 \<le> dval a"
    then have v: "0 \<le> v" by (simp add: v_def)
    have "\<bar>d - v / 5\<bar> \<le> v / 10" using e v by (simp add: u_def)
    then have d: "v / 10 \<le> d" "d \<le> v / 2" using v by linarith+
    have "\<bar>lo - (v - d)\<bar> \<le> v / 10" "\<bar>hi - (v + d)\<bar> \<le> v / 10" using l h v d by (simp_all add: u_def)
    then have "lo \<le> v" "v \<le> hi" using v d by linarith+
    then show ?thesis by (simp add: v_def)
  qed
  show "dval a < 0 \<Longrightarrow> hi < lo"
  proof -
    assume "dval a < 0"
    then have v: "v < 0" by (simp add: v_def)
    have "\<bar>d - v / 5\<bar> \<le> - v / 10" using e v by (simp add: u_def)
    then have d: "d \<le> v / 10" "v / 2 \<le> d" using v by linarith+
    have "\<bar>lo - (v - d)\<bar> \<le> - v / 100" "\<bar>hi - (v + d)\<bar> \<le> - v / 100" using l h v d by (simp_all add: u_def)
    then show ?thesis using v d by linarith
  qed
qed

section \<open>Properties\<close>

text \<open>A record with nothing but its identity, for the concrete instances.\<close>

definition empty_record :: "string \<Rightarrow> string \<Rightarrow> MatchRecord" where
  "empty_record rid org =
     \<lparr>mr_record_id = rid, mr_record_type = PAYMENT, mr_organization_id = org, mr_profile_id = None,
      mr_source_system = None, mr_message_type = None, mr_instruction_id = None,
      mr_end_to_end_id = None, mr_transaction_id = None, mr_amount = None, mr_currency = None,
      mr_booking_date = None, mr_value_date = None, mr_debtor_name = None, mr_creditor_name = None,
      mr_debtor_account = None, mr_creditor_account = None, mr_debtor_agent = None,
      mr_creditor_agent = None, mr_remittance_reference = None, mr_external_reference = None,
      mr_country = None, mr_source_hash = None, mr_metadata = []\<rparr>"

text \<open>C1: The score of a pair lies between 0 and 100, and it is the number the engine computes with
  doubles: when every weight of the policy is at most zero or lies between two to the power of -400
  and of 400, and every similarity is at most zero or at least two to the power of -100, no sum,
  product or quotient of \<open>_score\<close> overflows or loses precision to a subnormal, so that the score with
  the machine's exponents is the rounded mean of the model, for every pair of records and however
  unequal the weights. Policies outside this range exist, because no weight is validated:
  \<open>weight_overflows\<close> gives one.\<close>

theorem match_score_bounded:
  assumes "sane_policy p" "sane_scorer fz"
  shows "score_ieee (md_field_results (evaluate_pair fz a b p v)) = Fin (md_match_score (evaluate_pair fz a b p v)) \<and>
    0 \<le> md_match_score (evaluate_pair fz a b p v) \<and> md_match_score (evaluate_pair fz a b p v) \<le> 100"
  using evaluate_score_range[of fz a b p v] score_ieee_in_range[of "field_results_of fz a b p"] field_results_fit[OF assms]
  by simp

lemma default_policy_sane: "sane_policy (default_policy org n v)"
  by (simp add: sane_policy_def default_policy_def DEFAULT_FIELD_WEIGHTS_def)

lemma constant_scorer_sane: "sane_scorer (\<lambda>_ _ _. 50)"
  by (simp add: sane_scorer_def)

theorem match_score_bounded_witness:
  "score_ieee (md_field_results (evaluate_pair (\<lambda>_ _ _. 50) ((empty_record ''a'' ''o'')\<lparr>mr_debtor_name := Some ''ACME''\<rparr>)
       ((empty_record ''b'' ''o'')\<lparr>mr_debtor_name := Some ''ACME LTD''\<rparr>) (default_policy ''o'' ''n'' 1) ''0.1.0'')) =
   Fin (md_match_score (evaluate_pair (\<lambda>_ _ _. 50) ((empty_record ''a'' ''o'')\<lparr>mr_debtor_name := Some ''ACME''\<rparr>)
       ((empty_record ''b'' ''o'')\<lparr>mr_debtor_name := Some ''ACME LTD''\<rparr>) (default_policy ''o'' ''n'' 1) ''0.1.0''))"
  by (rule match_score_bounded[OF default_policy_sane constant_scorer_sane, THEN conjunct1])

text \<open>C3: Evaluating a pair is symmetric when the similarity scorer is: exchanging the two records
  leaves the classification, the score, the critical conflicts and the explanation codes as they
  are, and exchanges the two normalized values of every field result.\<close>

theorem evaluate_pair_symmetric:
  assumes "symmetric_scorer fz"
  shows "md_classification (evaluate_pair fz b a p v) = md_classification (evaluate_pair fz a b p v) \<and>
    md_match_score (evaluate_pair fz b a p v) = md_match_score (evaluate_pair fz a b p v) \<and>
    md_critical_conflicts (evaluate_pair fz b a p v) = md_critical_conflicts (evaluate_pair fz a b p v) \<and>
    md_explanation_codes (evaluate_pair fz b a p v) = md_explanation_codes (evaluate_pair fz a b p v) \<and>
    md_field_results (evaluate_pair fz b a p v) = map swap_result (md_field_results (evaluate_pair fz a b p v))"
  by (simp add: field_results_swap[OF assms, of b a p])

theorem evaluate_pair_symmetric_witness:
  "md_match_score (evaluate_pair (\<lambda>_ _ _. 50) (empty_record ''b'' ''o'')
       ((empty_record ''a'' ''o'')\<lparr>mr_debtor_name := Some ''ACME''\<rparr>) (default_policy ''o'' ''n'' 1) ''0.1.0'') =
   md_match_score (evaluate_pair (\<lambda>_ _ _. 50) ((empty_record ''a'' ''o'')\<lparr>mr_debtor_name := Some ''ACME''\<rparr>)
       (empty_record ''b'' ''o'') (default_policy ''o'' ''n'' 1) ''0.1.0'')"
  using evaluate_pair_symmetric[of "\<lambda>_ _ _. 50"
      "empty_record ''b'' ''o''" "(empty_record ''a'' ''o'')\<lparr>mr_debtor_name := Some ''ACME''\<rparr>"
      "default_policy ''o'' ''n'' 1" "''0.1.0''"]
  by (simp add: symmetric_scorer_def)

text \<open>C2: A critical field is never overridden by a high score. If a pair is classified as MATCHED
  or POSSIBLE_MATCH, then every identifier of the policy's critical fields that both records carry is
  equal after normalization; and where the amount is one of the critical fields, the two amounts are
  equal in value, or the policy has a tolerance for them and they lie within it, so that without a
  configured tolerance they are equal.\<close>

theorem matched_critical_fields_agree:
  assumes "md_classification (evaluate_pair fz a b p v) \<in> {MATCHED, POSSIBLE_MATCH}"
  shows "(\<forall>f x y. (f, KExact) \<in> set FIELD_SPECS \<longrightarrow> f \<in> set (mp_critical_fields p) \<longrightarrow>
      value_get (normalize_record a) f = Some x \<longrightarrow> value_get (normalize_record b) f = Some y \<longrightarrow>
      nval_str x = nval_str y) \<and>
    (\<forall>x y. ''amount'' \<in> set (mp_critical_fields p) \<longrightarrow> mr_amount a = Some x \<longrightarrow> mr_amount b = Some y \<longrightarrow>
      dval x = dval y \<or> (\<exists>t. map_of (mp_amount_tolerances p) ''amount'' = Some t \<and> within_tolerance x y t)) \<and>
    (\<forall>x y. ''amount'' \<in> set (mp_critical_fields p) \<longrightarrow> map_of (mp_amount_tolerances p) ''amount'' = None \<longrightarrow>
      mr_amount a = Some x \<longrightarrow> mr_amount b = Some y \<longrightarrow> dval x = dval y)"
  using matched_exact_agree[OF assms] matched_amount_agree[OF assms] by fastforce

text \<open>A record compared with itself has no critical conflict, and its score is exactly 100 as soon
  as one field with a positive weight is present, although the score is a quotient of two
  rounded float sums. Its dates must have four-digit years, because a year below 1000 is printed
  unpadded and then fails to parse.\<close>

theorem self_match_is_perfect:
  assumes "printable_dates r" "0 \<le> dget (mp_date_tolerances p) ''booking_date'' 0"
    "0 \<le> dget (mp_date_tolerances p) ''value_date'' 0"
    and "\<exists>fr\<in>set (md_field_results (evaluate_pair fz r r p v)). scored fr"
  shows "md_match_score (evaluate_pair fz r r p v) = 100 \<and> md_critical_conflicts (evaluate_pair fz r r p v) = []"
proof -
  have ag: "\<forall>fr\<in>set (field_results_of fz r r p). agrees fr"
    using compare_self[OF assms(1-3)] by (auto simp: field_results_iff)
  have "match_score_of (field_results_of fz r r p) = 100"
    using ag assms(4) by (intro match_score_all_100) (auto simp: filter_empty_conv agrees_def scored_def)
  then show ?thesis by (simp add: self_no_conflicts[OF ag])
qed

abbreviation sample_record :: MatchRecord where
  "sample_record \<equiv> (empty_record ''a'' ''o'')\<lparr>mr_currency := Some ''eur ''\<rparr>"

abbreviation sample_policy :: MatchingPolicy where
  "sample_policy \<equiv> default_policy ''o'' ''n'' 1"

lemma sample_facts:
  "printable_dates sample_record" "0 \<le> dget (mp_date_tolerances sample_policy) ''booking_date'' 0"
  "0 \<le> dget (mp_date_tolerances sample_policy) ''value_date'' 0"
  by (simp_all add: printable_dates_def empty_record_def default_policy_def DEFAULT_DATE_TOLERANCES_def)

lemma sample_self_scored:
  "\<exists>fr\<in>set (md_field_results (evaluate_pair fz sample_record
     sample_record (default_policy ''o'' ''n'' 1) v)). scored fr"
  by (simp add: field_results_of_def FIELD_SPECS_def compare_field_simps value_get_def
      normalize_record_def raw_fields_def empty_record_def normalize_field_def NORMALIZERS_def
      normalize_currency_def nfkc_def py_str_def collapse_def strip_def lstrip_def rstrip_def is_space_def
      exact_result_def scored_def default_policy_def DEFAULT_FIELD_WEIGHTS_def Let_def upper_char_def)

theorem self_match_is_perfect_witness:
  "md_match_score (evaluate_pair (\<lambda>_ _ _. 0) sample_record sample_record sample_policy ''0.1.0'') = 100"
  by (rule self_match_is_perfect[OF sample_facts sample_self_scored, THEN conjunct1])

text \<open>Two records whose currencies are written differently, with the amounts 1000.00 and 1000.0.\<close>

abbreviation sample_left :: MatchRecord where
  "sample_left \<equiv> (empty_record ''a'' ''o'')\<lparr>mr_currency := Some ''eur '', mr_amount := Some (mk_dec False 100000 (- 2))\<rparr>"

abbreviation sample_right :: MatchRecord where
  "sample_right \<equiv> (empty_record ''b'' ''o'')\<lparr>mr_currency := Some ''EUR'', mr_amount := Some (mk_dec False 10000 (- 1))\<rparr>"

lemma sample_currency_value: "normalize_field ''currency'' (Some (RStr ''eur '')) = Some (NStr ''EUR'')"
    "normalize_field ''currency'' (Some (RStr ''EUR'')) = Some (NStr ''EUR'')"
  by code_simp+

lemma sample_currencies:
  "value_get (normalize_record sample_left) ''currency'' = Some (NStr ''EUR'')"
  "value_get (normalize_record sample_right) ''currency'' = Some (NStr ''EUR'')"
  by (simp_all add: value_get_normalized[of _ "''currency''"] raw_fields_def empty_record_def sample_currency_value)

lemma sample_amounts:
  "value_get (normalize_record sample_left) ''amount'' = Some (NDec (mk_dec False 100000 (- 2)))"
  "value_get (normalize_record sample_right) ''amount'' = Some (NDec (mk_dec False 10000 (- 1)))"
  by (simp_all add: value_get_normalized[of _ "''amount''"] raw_fields_def empty_record_def
      normalize_field_def NORMALIZERS_def normalize_amount_value_def normalize_amount_def)

abbreviation absent_fields :: "string list" where
  "absent_fields \<equiv> [''transaction_id'', ''end_to_end_id'', ''debtor_account'', ''creditor_account'', ''debtor_agent'',
      ''creditor_agent'', ''country'', ''booking_date'', ''value_date'', ''remittance_reference'',
      ''external_reference'', ''debtor_name'', ''creditor_name'']"

lemma sample_absent_raw:
  "list_all (\<lambda>f. map_of (raw_fields sample_left) f = Some None) absent_fields"
  "list_all (\<lambda>f. map_of (raw_fields sample_right) f = Some None) absent_fields"
  by (simp_all add: raw_fields_def empty_record_def)

lemma normalize_absent: "list_all (\<lambda>f. normalize_field f None = None) absent_fields"
  by code_simp

lemma sample_absent:
  assumes "f \<in> set absent_fields"
  shows "value_get (normalize_record sample_left) f = None" "value_get (normalize_record sample_right) f = None"
  using assms sample_absent_raw normalize_absent value_get_normalized[of sample_left f None]
    value_get_normalized[of sample_right f None]
  unfolding list_all_iff by metis+

lemma missing_agrees: "fr_status fr = FM_MISSING \<Longrightarrow> agrees fr"
  by (simp add: agrees_def)

lemma absent_agrees:
  assumes "s \<in> set FIELD_SPECS" "fst s \<in> set absent_fields"
  shows "agrees (compare_field fz sample_policy (normalize_record sample_left) (normalize_record sample_right) s)"
  using sample_absent[OF assms(2)]
  by (intro missing_agrees, cases rule: spec_cases[of s])
    (simp_all only: compare_field_simps fst_conv exact_result_def amount_result_def date_result_def
      fuzzy_result_def as_decimal_def option.case prod.case field_result_simps)

lemma currency_agrees:
  "compare_field fz sample_policy (normalize_record sample_left) (normalize_record sample_right) (''currency'', KExact) =
     exact_result ''currency'' (Some (NStr ''EUR'')) (Some (NStr ''EUR'')) 10 True ''MATCH-CURRENCY-EXACT''"
  by (simp only: compare_field_simps sample_currencies)
    (simp add: default_policy_def DEFAULT_FIELD_WEIGHTS_def DEFAULT_CRITICAL_FIELDS_def exact_code_def dget_def)

lemma amount_agrees:
  "agrees (compare_field fz sample_policy (normalize_record sample_left) (normalize_record sample_right) (''amount'', KAmount))"
  by (simp only: compare_field_simps sample_amounts)
    (simp add: as_decimal_def amount_result_def agrees_def dval_def mk_dec_def pw_def)

lemma sample_specs:
  "list_all (\<lambda>s. fst s \<in> set absent_fields \<or> s = (''currency'', KExact) \<or> s = (''amount'', KAmount)) FIELD_SPECS"
  by code_simp

lemma sample_results_agree: "\<forall>fr\<in>set (field_results_of fz sample_left sample_right sample_policy). agrees fr"
proof
  fix fr assume "fr \<in> set (field_results_of fz sample_left sample_right sample_policy)"
  then obtain s where s: "s \<in> set FIELD_SPECS"
      "fr = compare_field fz sample_policy (normalize_record sample_left) (normalize_record sample_right) s"
    unfolding field_results_iff by blast
  from s(1) sample_specs have "fst s \<in> set absent_fields \<or> s = (''currency'', KExact) \<or> s = (''amount'', KAmount)"
    unfolding list_all_iff by blast
  then consider (absent) "fst s \<in> set absent_fields" | (currency) "s = (''currency'', KExact)" | (amount) "s = (''amount'', KAmount)"
    by blast
  then show "agrees fr"
  proof cases
    case absent
    then show ?thesis unfolding s(2) by (rule absent_agrees[OF s(1)])
  next
    case currency
    then show ?thesis unfolding s(2) by (simp only: currency_agrees exact_self)
  next
    case amount
    then show ?thesis unfolding s(2) by (simp only: amount_agrees)
  qed
qed

lemma sample_scored:
  "\<exists>fr\<in>set (field_results_of fz sample_left sample_right sample_policy). scored fr"
proof (rule bexI)
  show "scored (compare_field fz sample_policy (normalize_record sample_left) (normalize_record sample_right) (''currency'', KExact))"
    by (simp only: currency_agrees) (simp add: scored_def exact_result_def)
  show "compare_field fz sample_policy (normalize_record sample_left) (normalize_record sample_right) (''currency'', KExact)
      \<in> set (field_results_of fz sample_left sample_right sample_policy)"
    unfolding field_results_iff by (rule bexI[where x = "(''currency'', KExact)"], rule refl) (simp add: FIELD_SPECS_def)
qed

lemma sample_matched:
  "md_classification (evaluate_pair fz sample_left sample_right sample_policy v) \<in> {MATCHED, POSSIBLE_MATCH}"
proof -
  let ?fs = "field_results_of fz sample_left sample_right sample_policy"
  have "match_score_of ?fs = 100"
    using sample_results_agree sample_scored[of fz]
    by (intro match_score_all_100) (auto simp: filter_empty_conv agrees_def scored_def)
  moreover have "dget (mp_thresholds sample_policy) ''matched'' 85 = 85"
    by (simp add: default_policy_def DEFAULT_THRESHOLDS_def)
  ultimately show ?thesis
    unfolding evaluate_pair_sel by (simp only: self_no_conflicts[OF sample_results_agree] match_classify_def Let_def) simp
qed

theorem matched_critical_fields_agree_witness:
  "(\<exists>x y. value_get (normalize_record sample_left) ''currency'' = Some x \<and>
     value_get (normalize_record sample_right) ''currency'' = Some y \<and> nval_str x = nval_str y) \<and>
   dval (mk_dec False 100000 (- 2)) = dval (mk_dec False 10000 (- 1))"
proof -
  note agree = matched_critical_fields_agree[OF sample_matched[of "\<lambda>_ _ _. 0" "''0.1.0''"]]
  have c: "(''currency'', KExact) \<in> set FIELD_SPECS" "''currency'' \<in> set (mp_critical_fields sample_policy)"
    "''amount'' \<in> set (mp_critical_fields sample_policy)" "map_of (mp_amount_tolerances sample_policy) ''amount'' = None"
    "mr_amount sample_left = Some (mk_dec False 100000 (- 2))" "mr_amount sample_right = Some (mk_dec False 10000 (- 1))"
    by (simp_all add: FIELD_SPECS_def default_policy_def DEFAULT_CRITICAL_FIELDS_def DEFAULT_AMOUNT_TOLERANCES_def)
  from agree[THEN conjunct2, THEN conjunct2, rule_format, OF c(3-6)]
    agree[THEN conjunct1, rule_format, OF c(1,2) sample_currencies]
  show ?thesis using sample_currencies by blast
qed

text \<open>The spellings of a three-letter legal form are one name: for every tidy company name, the
  name followed by \<open>X.Y.Z.\<close>, \<open>X Y Z\<close> or \<open>XYZ\<close> normalizes to the same string when \<open>XYZ\<close> is one of
  the known forms (SPA, SRL, LTD, INC, LLC).\<close>

theorem legal_form_variants_agree:
  assumes "tidy n" "letter a" "letter b" "letter c"
    and "map_of COMPANY_SUFFIXES (lower [a, b, c]) = Some [a, b, c]"
  shows "normalize_name (Some (RStr (n @ '' '' @ [a] @ ''.'' @ [b] @ ''.'' @ [c] @ ''.''))) =
      normalize_name (Some (RStr (n @ '' '' @ [a, b, c]))) \<and>
    normalize_name (Some (RStr (n @ '' '' @ [a] @ '' '' @ [b] @ '' '' @ [c]))) =
      normalize_name (Some (RStr (n @ '' '' @ [a, b, c])))"
  using normalize_suffix_variants[OF assms] by (simp add: normalize_name_def py_str_def nfkc_def)

lemma acme_tidy: "tidy ''ACME''" "letter CHR ''S''" "letter CHR ''P''" "letter CHR ''A''"
  "map_of COMPANY_SUFFIXES (lower ''SPA'') = Some ''SPA''"
  by code_simp+

theorem legal_form_variants_agree_witness:
  "normalize_name (Some (RStr (''ACME'' @ '' '' @ ''S'' @ ''.'' @ ''P'' @ ''.'' @ ''A'' @ ''.''))) =
   normalize_name (Some (RStr (''ACME'' @ '' '' @ ''SPA'')))"
  by (rule legal_form_variants_agree[OF acme_tidy, THEN conjunct1])

text \<open>The legal form N.V. is not unified: the table's key is \<open>n.v.\<close>, and the dots are gone before
  any lookup, so "ACME N.V." and "ACME NV" keep different normalized names.\<close>

theorem nv_legal_form_not_unified:
  "normalize_name (Some (RStr ''ACME N.V.'')) = Some ''acme n v'' \<and>
   normalize_name (Some (RStr ''ACME NV'')) = Some ''acme nv''"
  by code_simp

lemmas stable_normalizers =
  conjI[OF ident.nonempty ident.idempotent] conjI[OF iban.nonempty iban.idempotent]
  conjI[OF bic.nonempty bic.idempotent] conjI[OF refn.nonempty refn.idempotent]
  conjI[OF ccy.nonempty ccy.idempotent] conjI[OF country.nonempty country.idempotent]
  conjI[OF free_text.nonempty free_text.idempotent]

text \<open>Normalization is stable: for identifiers, accounts, BICs, references, currencies, countries and
  free text, a normalized value is not empty and normalizing it again gives the same value.\<close>

theorem normalizers_idempotent:
  "nz \<in> {normalize_identifier, normalize_iban, normalize_bic, normalize_reference, normalize_currency,
     normalize_country, normalize_free_text} \<Longrightarrow> nz v = Some s \<Longrightarrow> s \<noteq> [] \<and> nz (Some (RStr s)) = Some s"
  by (elim insertE emptyE; hypsubst) (rule stable_normalizers, assumption+)+

theorem normalizers_idempotent_witness:
  "normalize_iban (Some (RStr ''IT60X'')) = Some ''IT60X''"
proof -
  have "normalize_iban (Some (RStr ''it60-x '')) = Some ''IT60X''" by code_simp
  then show ?thesis using normalizers_idempotent[of normalize_iban] by blast
qed

text \<open>The amount window of candidate retrieval contains the amount itself when it is not negative,
  but for a negative amount the lower bound exceeds the upper bound, so that no candidate can
  lie in it.\<close>

theorem amount_window_sign:
  assumes "mr_amount r = Some a" "map_of (mp_amount_tolerances p) ''amount'' = None"
    "cr_amount (narrowing_criteria r p n w DEFAULT_AMOUNT_PCT) = Some (lo, hi)"
  shows "if 0 \<le> dval a then lo \<le> dval a \<and> dval a \<le> hi else \<not> (\<exists>x. lo \<le> x \<and> x \<le> hi)"
proof -
  have "amount_window a DEFAULT_AMOUNT_PCT = Some (lo, hi)"
    using assms by (simp add: narrowing_criteria_def Let_def dget_def)
  from amount_window_default[OF this] show ?thesis by (auto simp: not_le)
qed

theorem amount_window_sign_witness:
  "\<exists>lo hi. cr_amount (narrowing_criteria ((empty_record ''a'' ''o'')\<lparr>mr_amount := Some (mk_dec True 100 0)\<rparr>)
      (default_policy ''o'' ''n'' 1) 20 7 DEFAULT_AMOUNT_PCT) = Some (lo, hi) \<and> \<not> (\<exists>x. lo \<le> x \<and> x \<le> hi)"
proof -
  let ?r = "(empty_record ''a'' ''o'')\<lparr>mr_amount := Some (mk_dec True 100 0)\<rparr>" and ?p = "default_policy ''o'' ''n'' 1"
  have t: "dval DEFAULT_AMOUNT_PCT \<noteq> 0" and a: "\<not> 0 \<le> dval (mk_dec True 100 0)"
    by (simp_all add: DEFAULT_AMOUNT_PCT_def dval_def mk_dec_def pw_def)
  have m: "mr_amount ?r = Some (mk_dec True 100 0)" and p: "map_of (mp_amount_tolerances ?p) ''amount'' = None"
    by (simp_all add: default_policy_def DEFAULT_AMOUNT_TOLERANCES_def)
  obtain lo hi where lh: "cr_amount (narrowing_criteria ?r ?p 20 7 DEFAULT_AMOUNT_PCT) = Some (lo, hi)"
    using t m p by (simp add: narrowing_criteria_def Let_def dget_def amount_window_def)
  then show ?thesis using amount_window_sign[OF m p lh] a by auto
qed

end
