(* ===== verification/PO_Xml.thy ===== *)
theory PO_Xml
  imports PO_MatchModels
begin

text \<open>
  XML trees as lxml presents them, the accessors of \<open>iso_engine/common.py\<close>, the secure ingestion
  of \<open>xml_security.py\<close> with the error taxonomy of \<open>xml_errors.py\<close>, and the shape of the schema
  validator of \<open>xsd_validator.py\<close>. lxml itself is a parameter: \<open>fromstring\<close> parses bytes with the
  hardened parser, \<open>docinfo\<close> reads the declared encoding, and a schema is a function from a
  tree to its verdict and log.
\<close>

section \<open>Trees\<close>

text \<open>
  A node has a tag in Clark notation (\<open>{namespace}local\<close>), attributes, text, children and tail.
  Comments and processing instructions are nodes whose tag is not a string.
\<close>

datatype xml = Node (x_tag: "string option") (x_attrs: "(string, string) dict")
  (x_text: "string option") (x_kids: "xml list") (x_tail: "string option")

definition extract_namespace :: "xml \<Rightarrow> string option" where
  "extract_namespace rt = (case x_tag rt of None \<Rightarrow> None
     | Some tag \<Rightarrow> if CHR ''}'' \<in> set tag then Some (before_char CHR ''}'' (tl tag)) else None)"

definition extract_localname :: "xml \<Rightarrow> string" where
  "extract_localname rt = (case x_tag rt of None \<Rightarrow> []
     | Some tag \<Rightarrow> if CHR ''}'' \<in> set tag then after_last_char CHR ''}'' tag else tag)"

definition child :: "xml option \<Rightarrow> string \<Rightarrow> xml option" where
  "child el name = (case el of None \<Rightarrow> None | Some e \<Rightarrow> find (\<lambda>c. extract_localname c = name) (x_kids e))"

definition children :: "xml option \<Rightarrow> string \<Rightarrow> xml list" where
  "children el name = (case el of None \<Rightarrow> [] | Some e \<Rightarrow> filter (\<lambda>c. extract_localname c = name) (x_kids e))"

definition text_of :: "xml option \<Rightarrow> string option" where
  "text_of el = (case el of None \<Rightarrow> None | Some e \<Rightarrow>
     (case x_text e of None \<Rightarrow> None | Some t \<Rightarrow> or_none (strip t)))"

definition child_text :: "xml option \<Rightarrow> string \<Rightarrow> string option" where
  "child_text el name = text_of (child el name)"

fun nested_text :: "xml option \<Rightarrow> string list \<Rightarrow> string option" where
  "nested_text el [] = text_of el"
| "nested_text el (n # ns) = (case child el n of None \<Rightarrow> None | Some c \<Rightarrow> nested_text (Some c) ns)"

text \<open>\<open>value.replace("Z", "+00:00")\<close>\<close>

definition replace_z :: "string \<Rightarrow> string" where
  "replace_z s = concat (map (\<lambda>c. if c = CHR ''Z'' then ''+00:00'' else [c]) s)"

definition parse_datetime :: "string option \<Rightarrow> pydatetime option" where
  "parse_datetime value = (if \<not> truthy value then None
     else datetime_fromisoformat (replace_z (dget_opt value)))"

definition attr :: "xml \<Rightarrow> string \<Rightarrow> string option" where
  "attr e k = map_of (x_attrs e) k"

definition amount_from_element :: "xml option \<Rightarrow> string option \<times> string option" where
  "amount_from_element el = (case el of None \<Rightarrow> (None, None)
     | Some e \<Rightarrow> (text_of el, por (attr e ''Ccy'') None))"

section \<open>The error taxonomy\<close>

text \<open>Code and status of each class of \<open>xml_errors.py\<close>; other exceptions carry neither.\<close>

definition xml_error_code :: "py_error \<Rightarrow> (string \<times> nat) option" where
  "xml_error_code e = (case e of
     MalformedXmlError _ \<Rightarrow> Some (''XML-001'', 400)
   | PayloadTooLargeError _ \<Rightarrow> Some (''XML-002'', 413)
   | ProhibitedEntityError _ \<Rightarrow> Some (''XML-003'', 400)
   | UnsupportedMessageTypeError _ \<Rightarrow> Some (''XML-004'', 422)
   | EncodingError _ \<Rightarrow> Some (''XML-005'', 400)
   | _ \<Rightarrow> None)"

section \<open>Secure ingestion\<close>

definition DEFAULT_MAX_PAYLOAD_BYTES :: nat where
  "DEFAULT_MAX_PAYLOAD_BYTES = 1048576"

definition DTD_MARKERS :: "string list" where
  "DTD_MARKERS = [''<!DOCTYPE'', ''<!ENTITY'']"

datatype parse_failure = XMLSyntaxError | ParseValueError

record SecureXmlDocument =
  sd_root :: xml
  sd_encoding :: string

text \<open>\<open>docinfo data\<close> is \<open>None\<close> when reading the encoding raises.\<close>

definition resolve_encoding :: "(string \<Rightarrow> string option option) \<Rightarrow> string \<Rightarrow> string" where
  "resolve_encoding docinfo data = (case docinfo data of None \<Rightarrow> ''UTF-8''
     | Some enc \<Rightarrow> if truthy enc then the enc else ''UTF-8'')"

definition secure_parse ::
  "(string \<Rightarrow> parse_failure + xml) \<Rightarrow> (string \<Rightarrow> string option option) \<Rightarrow> string option \<Rightarrow> nat \<Rightarrow>
     SecureXmlDocument res" where
  "secure_parse fromstring docinfo data max_bytes =
     (case data of None \<Rightarrow> Inl (MalformedXmlError ''Empty payload'')
      | Some d \<Rightarrow>
        if d = [] then Inl (MalformedXmlError ''Empty payload'')
        else if max_bytes < length d then
          Inl (PayloadTooLargeError (''Payload exceeds '' @ show_nat max_bytes @ '' bytes''))
        else if list_ex (\<lambda>m. contains m (upper d)) DTD_MARKERS then
          Inl (ProhibitedEntityError ''DTD or entity declarations are not permitted'')
        else (case fromstring d of
          Inl XMLSyntaxError \<Rightarrow> Inl (MalformedXmlError ''XML could not be parsed'')
        | Inl ParseValueError \<Rightarrow> Inl (EncodingError ''XML encoding could not be resolved'')
        | Inr rt \<Rightarrow> Inr \<lparr>sd_root = rt, sd_encoding = resolve_encoding docinfo d\<rparr>))"

text \<open>Whitespace of \<open>bytes\<close> methods, and the declaration reader over the first 256 bytes.\<close>

definition is_bspace :: "char \<Rightarrow> bool" where
  "is_bspace c = (let n = (of_char c :: nat) in (9 \<le> n \<and> n \<le> 13) \<or> n = 32)"

fun split_bws :: "string \<Rightarrow> string \<Rightarrow> string list" where
  "split_bws w [] = (if w = [] then [] else [rev w])"
| "split_bws w (c # s) =
     (if is_bspace c then (if w = [] then split_bws [] s else rev w # split_bws [] s)
      else split_bws (c # w) s)"

definition strip_quotes :: "string \<Rightarrow> string" where
  "strip_quotes s = (let q = (\<lambda>c. c = CHR 0x27 \<or> c = CHR 0x22) in
     rev (dropWhile q (rev (dropWhile q s))))"

definition parse_xml_declaration :: "string \<Rightarrow> string option" where
  "parse_xml_declaration data = (let head = take 256 data in
     if \<not> starts_with ''<?xml'' (dropWhile is_bspace head) then None
     else (case find (\<lambda>t. starts_with ''encoding='' (lower t)) (split_bws [] head) of
        None \<Rightarrow> None
      | Some t \<Rightarrow> Some (strip_quotes (after_char CHR ''='' t))))"

section \<open>Schema validation\<close>

definition ISSUE_CODE_INVALID :: string where
  "ISSUE_CODE_INVALID = ''ISO-XSD-001''"

record SchemaIssue =
  si_code :: string
  si_severity :: string
  si_path :: "string option"
  si_message :: string

record SchemaValidationResult =
  sv_valid :: bool
  sv_schema_version :: string
  sv_issues :: "SchemaIssue list"

record LogEntry =
  le_path :: "string option"
  le_line :: nat
  le_message :: "string option"

definition error_path :: "LogEntry \<Rightarrow> string option" where
  "error_path e = (if truthy (le_path e) then le_path e
     else Some (''[line '' @ show_nat (le_line e) @ '']''))"

definition safe_message :: "LogEntry \<Rightarrow> string" where
  "safe_message e = take 200 (strip (dget_opt (le_message e)))"

text \<open>A compiled schema gives its verdict on a tree and its error log.\<close>

definition xsd_validate :: "(xml \<Rightarrow> bool \<times> LogEntry list) \<Rightarrow> string \<Rightarrow> xml \<Rightarrow> SchemaValidationResult" where
  "xsd_validate schema schema_version rt =
     (let (ok, log) = schema rt in
      \<lparr>sv_valid = ok, sv_schema_version = schema_version,
       sv_issues = (if ok then [] else map (\<lambda>e. \<lparr>si_code = ISSUE_CODE_INVALID, si_severity = ''ERROR'',
          si_path = error_path e, si_message = safe_message e\<rparr>) log)\<rparr>)"

text \<open>\<open>load_validator\<close>: a bundled schema exists for a version or the load fails.\<close>

definition validate_message ::
  "(string \<Rightarrow> (xml \<Rightarrow> bool \<times> LogEntry list) option) \<Rightarrow> xml \<Rightarrow> string \<Rightarrow> SchemaValidationResult res" where
  "validate_message schemas rt version_identifier =
     (case schemas version_identifier of
        None \<Rightarrow> Inl (FileNotFoundError (''Bundled schema not found for '' @ version_identifier))
      | Some schema \<Rightarrow> Inr (xsd_validate schema version_identifier rt))"

section \<open>Facts\<close>

lemma child_in_children: "child el n = (case children el n of [] \<Rightarrow> None | c # _ \<Rightarrow> Some c)"
proof (cases el)
  case (Some e)
  have "find P xs = (case filter P xs of [] \<Rightarrow> None | c # _ \<Rightarrow> Some c)" for P and xs :: "xml list"
    by (induction xs) auto
  then show ?thesis by (simp add: child_def children_def Some)
qed (simp add: child_def children_def)

lemma child_localname: "child el n = Some c \<Longrightarrow> extract_localname c = n"
  by (auto simp: child_def find_Some_iff split: option.splits)

lemma text_of_nonempty: "text_of el = Some s \<Longrightarrow> s \<noteq> [] \<and> strip s = s"
  by (auto simp: text_of_def split: option.splits)

lemma child_text_nonempty: "child_text el n = Some s \<Longrightarrow> s \<noteq> []"
  using text_of_nonempty by (auto simp: child_text_def)

lemma extract_tag:
  "CHR ''}'' \<notin> set ns \<Longrightarrow> CHR ''}'' \<notin> set l \<Longrightarrow>
     extract_namespace (Node (Some (''{'' @ ns @ ''}'' @ l)) a t k w) = Some ns \<and>
     extract_localname (Node (Some (''{'' @ ns @ ''}'' @ l)) a t k w) = l"
  using after_last_char_append[of "CHR ''}''" l "CHR ''{'' # ns"]
  by (simp add: extract_namespace_def extract_localname_def)

text \<open>What a document that comes out of ingestion satisfies.\<close>

lemma secure_parse_Inr:
  "secure_parse fs di data n = Inr doc \<Longrightarrow>
     \<exists>d. data = Some d \<and> d \<noteq> [] \<and> length d \<le> n \<and> (\<forall>m\<in>set DTD_MARKERS. \<not> contains m (upper d)) \<and>
       fs d = Inr (sd_root doc)"
  by (auto simp: secure_parse_def list_ex_iff split: option.splits if_splits sum.splits parse_failure.splits)

lemma secure_parse_Inl:
  "secure_parse fs di data n = Inl e \<Longrightarrow> xml_error_code e \<noteq> None"
  by (auto simp: secure_parse_def xml_error_code_def split: option.splits if_splits sum.splits parse_failure.splits)

end
