(* ===== verification/PO_Parties.thy ===== *)
theory PO_Parties
  imports PO_Xml
begin

text \<open>
  The mapping of amounts, parties, accounts, agents, remittance and addresses: the shared helpers
  of \<open>iso_engine/parties.py\<close>, used by pain.001, pacs.009, pacs.002 and the camt messages, and the
  private ones of \<open>pacs008/adapter.py\<close>. They differ in the amount (binary floats against
  \<open>Decimal\<close>) and in the remittance; the rest is shown to agree.
\<close>

section \<open>Shared helpers\<close>

text \<open>
  \<open>int(round(Decimal(value) * 100))\<close>, or 0 when anything raises: a text that is no number, a
  value that is not finite, a product beyond the largest exponent of the context.
\<close>

definition minor_of_decimal :: "string \<Rightarrow> int" where
  "minor_of_decimal value = (case decimal_of_text value of
     Some (Finite d) \<Rightarrow> (let p = dec28 (dval d * 100) in if 999999 < ilog 10 \<bar>p\<bar> then 0 else rhe p)
   | _ \<Rightarrow> 0)"

definition map_amount :: "xml option \<Rightarrow> MonetaryAmount option res" where
  "map_amount el = (case el of None \<Rightarrow> Inr None | Some e \<Rightarrow>
     (case text_of el of None \<Rightarrow> Inr None
      | Some value \<Rightarrow> bindR (mk_amount (minor_of_decimal value) (dget_opt (por (attr e ''Ccy'') (Some ''EUR''))))
          (\<lambda>a. Inr (Some a))))"

definition address_field_names :: "string list" where
  "address_field_names = [''StrtNm'', ''BldgNb'', ''PstCd'', ''TwnNm'', ''Ctry'']"

definition original_fields_of :: "xml option \<Rightarrow> (string, string) dict" where
  "original_fields_of el = collect_some (\<lambda>n. map_option (Pair n) (child_text el n)) address_field_names"

definition map_address :: "xml option \<Rightarrow> string \<Rightarrow> PostalAddress option" where
  "map_address el path = (case el of None \<Rightarrow> None | Some e \<Rightarrow>
     (let original_fields = original_fields_of el in
      Some \<lparr>pa_street_name = map_of original_fields ''StrtNm'',
            pa_building_number = map_of original_fields ''BldgNb'',
            pa_postcode = map_of original_fields ''PstCd'',
            pa_town_name = map_of original_fields ''TwnNm'',
            pa_country = map_of original_fields ''Ctry'',
            pa_country_name = None,
            pa_address_lines = collect_some (\<lambda>x. text_of (Some x)) (children el ''AdrLine''),
            pa_source_path = Some path, pa_readiness = UNRESOLVED, pa_evidence_level = LOW,
            pa_original_fields = original_fields, pa_normalized_fields = []\<rparr>))"

definition map_party :: "xml option \<Rightarrow> string \<Rightarrow> Party option" where
  "map_party el path = (case el of None \<Rightarrow> None | Some _ \<Rightarrow>
     Some \<lparr>py_name = child_text el ''Nm'', py_identification = [],
           py_postal_address = map_address (child el ''PstlAdr'') (path @ ''/PstlAdr''),
           py_account = None, py_financial_institution = None, py_source_path = Some path\<rparr>)"

definition map_account :: "xml option \<Rightarrow> string \<Rightarrow> Account option" where
  "map_account el path = (case el of None \<Rightarrow> None | Some _ \<Rightarrow>
     (let id_el = child el ''Id'' in
      Some \<lparr>ac_iban = child_text id_el ''IBAN'',
            ac_other_identification = child_text (child id_el ''Othr'') ''Id'',
            ac_currency = None, ac_name = child_text el ''Nm'', ac_source_path = Some path\<rparr>))"

definition map_agent :: "xml option \<Rightarrow> string \<Rightarrow> FinancialInstitution option" where
  "map_agent el path = (case el of None \<Rightarrow> None | Some _ \<Rightarrow>
     (let fi = child el ''FinInstnId'' in
      Some \<lparr>fi_bic = child_text fi ''BICFI'',
            fi_clearing_system_member = child_text (child fi ''ClrSysMmbId'') ''MmbId'',
            fi_name = child_text fi ''Nm'',
            fi_postal_address = map_address (child fi ''PstlAdr'') (path @ ''/FinInstnId/PstlAdr''),
            fi_source_path = Some path\<rparr>))"

definition map_remittance :: "xml option \<Rightarrow> string \<Rightarrow> RemittanceInformation option" where
  "map_remittance el path = (case el of None \<Rightarrow> None | Some _ \<Rightarrow>
     Some \<lparr>ri_unstructured = collect_some (\<lambda>u. text_of (Some u)) (children el ''Ustrd''),
           ri_reference = child_text (child el ''Strd'') ''CdtrRefInf'',
           ri_source_path = Some path\<rparr>)"

section \<open>The private helpers of pacs.008\<close>

definition p8_local :: "string option \<Rightarrow> string" where
  "p8_local tag = (case tag of None \<Rightarrow> []
     | Some t \<Rightarrow> if CHR ''}'' \<in> set t then after_last_char CHR ''}'' t else t)"

definition p8_children :: "xml option \<Rightarrow> string \<Rightarrow> xml list" where
  "p8_children el name = (case el of None \<Rightarrow> [] | Some e \<Rightarrow> filter (\<lambda>c. p8_local (x_tag c) = name) (x_kids e))"

definition p8_child :: "xml option \<Rightarrow> string \<Rightarrow> xml option" where
  "p8_child el name = (case p8_children el name of [] \<Rightarrow> None | c # _ \<Rightarrow> Some c)"

definition p8_text :: "xml option \<Rightarrow> string option" where
  "p8_text el = (case el of None \<Rightarrow> None | Some e \<Rightarrow>
     (case x_text e of None \<Rightarrow> None | Some t \<Rightarrow> or_none (strip t)))"

text \<open>
  \<open>int(round(float(text) * 100))\<close>: only \<open>ValueError\<close> is caught, so an infinite value or product
  escapes as \<open>OverflowError\<close>.
\<close>

definition p8_minor :: "string \<Rightarrow> int res" where
  "p8_minor t = (case float_of_text t of
     None \<Rightarrow> Inr 0
   | Some NotANumber \<Rightarrow> Inr 0
   | Some (Infinite _) \<Rightarrow> Inl (OverflowError ''cannot convert float infinity to integer'')
   | Some (Finite v) \<Rightarrow> (let p = fl (v * 100) in
       if 1023 < ilog 2 \<bar>p\<bar> then Inl (OverflowError ''cannot convert float infinity to integer'')
       else Inr (rhe p)))"

definition p8_map_amount :: "xml option \<Rightarrow> MonetaryAmount option res" where
  "p8_map_amount el = (case el of None \<Rightarrow> Inr None | Some e \<Rightarrow>
     bindR (p8_minor (strip (dget_opt (por (x_text e) (Some ''0'')))))
       (\<lambda>minor. bindR (mk_amount minor (dget_opt (por (attr e ''Ccy'') (Some ''EUR'')))) (\<lambda>a. Inr (Some a))))"

definition p8_original_fields :: "xml option \<Rightarrow> (string, string) dict" where
  "p8_original_fields el = collect_some (\<lambda>n. map_option (Pair n) (p8_text (p8_child el n))) address_field_names"

definition p8_map_address :: "xml option \<Rightarrow> string \<Rightarrow> PostalAddress option" where
  "p8_map_address el path = (case el of None \<Rightarrow> None | Some e \<Rightarrow>
     (let original_fields = p8_original_fields el in
      Some \<lparr>pa_street_name = map_of original_fields ''StrtNm'',
            pa_building_number = map_of original_fields ''BldgNb'',
            pa_postcode = map_of original_fields ''PstCd'',
            pa_town_name = map_of original_fields ''TwnNm'',
            pa_country = map_of original_fields ''Ctry'',
            pa_country_name = None,
            pa_address_lines = collect_some (\<lambda>x. p8_text (Some x)) (p8_children el ''AdrLine''),
            pa_source_path = Some path, pa_readiness = UNRESOLVED, pa_evidence_level = LOW,
            pa_original_fields = original_fields, pa_normalized_fields = []\<rparr>))"

definition p8_map_party :: "xml option \<Rightarrow> string \<Rightarrow> Party option" where
  "p8_map_party el path = (case el of None \<Rightarrow> None | Some _ \<Rightarrow>
     Some \<lparr>py_name = p8_text (p8_child el ''Nm''), py_identification = [],
           py_postal_address = p8_map_address (p8_child el ''PstlAdr'') (path @ ''/PstlAdr''),
           py_account = None, py_financial_institution = None, py_source_path = Some path\<rparr>)"

definition p8_map_account :: "xml option \<Rightarrow> string \<Rightarrow> Account option" where
  "p8_map_account el path = (case el of None \<Rightarrow> None | Some _ \<Rightarrow>
     (let id_el = p8_child el ''Id'' in
      Some \<lparr>ac_iban = p8_text (p8_child id_el ''IBAN''),
            ac_other_identification = p8_text (p8_child (p8_child id_el ''Othr'') ''Id''),
            ac_currency = None, ac_name = p8_text (p8_child el ''Nm''), ac_source_path = Some path\<rparr>))"

definition p8_map_agent :: "xml option \<Rightarrow> string \<Rightarrow> FinancialInstitution option" where
  "p8_map_agent el path = (case el of None \<Rightarrow> None | Some _ \<Rightarrow>
     (let fi = p8_child el ''FinInstnId'' in
      Some \<lparr>fi_bic = p8_text (p8_child fi ''BICFI''),
            fi_clearing_system_member = p8_text (p8_child (p8_child fi ''ClrSysMmbId'') ''MmbId''),
            fi_name = p8_text (p8_child fi ''Nm''),
            fi_postal_address = p8_map_address (p8_child fi ''PstlAdr'') (path @ ''/FinInstnId/PstlAdr''),
            fi_source_path = Some path\<rparr>))"

definition p8_map_remittance :: "xml option \<Rightarrow> string \<Rightarrow> RemittanceInformation option" where
  "p8_map_remittance el path = (case el of None \<Rightarrow> None | Some _ \<Rightarrow>
     Some \<lparr>ri_unstructured = collect_some (\<lambda>u. p8_text (Some u)) (p8_children el ''Ustrd''),
           ri_reference = None, ri_source_path = Some path\<rparr>)"

definition p8_parse_datetime :: "string option \<Rightarrow> pydatetime option" where
  "p8_parse_datetime value = (if \<not> truthy value then None
     else datetime_fromisoformat (replace_z (dget_opt value)))"

section \<open>The private helpers agree with the shared ones\<close>

named_theorems p8_simps

lemma p8_local_eq [p8_simps]: "p8_local (x_tag c) = extract_localname c"
  by (simp add: p8_local_def extract_localname_def)

lemma p8_children_eq [p8_simps]: "p8_children = children"
  unfolding p8_children_def children_def p8_simps by (intro ext) simp

lemma p8_child_eq [p8_simps]: "p8_child = child"
  unfolding p8_child_def child_in_children p8_simps by (intro ext) simp

lemma p8_text_eq [p8_simps]: "p8_text = text_of"
  unfolding p8_text_def text_of_def by (intro ext) simp

lemma p8_address_eq [p8_simps]: "p8_map_address = map_address"
  unfolding p8_map_address_def map_address_def p8_original_fields_def original_fields_of_def child_text_def p8_simps by (intro ext) simp

lemma p8_party_eq: "p8_map_party = map_party"
  unfolding p8_map_party_def map_party_def child_text_def p8_simps by (intro ext) simp

lemma p8_account_eq: "p8_map_account = map_account"
  unfolding p8_map_account_def map_account_def child_text_def p8_simps by (intro ext) simp

lemma p8_agent_eq: "p8_map_agent = map_agent"
  unfolding p8_map_agent_def map_agent_def child_text_def p8_simps by (intro ext) simp

lemma p8_datetime_eq: "p8_parse_datetime = parse_datetime"
  unfolding p8_parse_datetime_def parse_datetime_def by (intro ext) simp

section \<open>Amounts\<close>

definition amount_node :: "string \<Rightarrow> string \<Rightarrow> xml" where
  "amount_node ccy t = Node (Some ''InstdAmt'') [(''Ccy'', ccy)] (Some t) [] None"

lemma cents_text_neq [simp]: "cents_text c \<noteq> []"
  using hd_cents_text[of c] by simp

lemma strip_cents: "strip (cents_text c) = cents_text c"
  by (rule strip_no_space) (rule cents_no_space)

lemma ilog_cents: "c < 2 ^ 51 \<Longrightarrow> \<not> 1023 < ilog 2 \<bar>fl (fl (of_nat c / 100) * 100)\<bar>"
proof -
  assume c51: "c < 2 ^ 51"
  have c: "of_nat c \<le> (2 ^ 51 :: rat)" using c51 by (metis less_imp_le of_nat_le_iff of_nat_numeral of_nat_power)
  have y0: "0 \<le> fl (of_nat c / 100)" by (rule flr.rnd_nonneg) simp
  have y: "fl (of_nat c / 100) \<le> 2 * (of_nat c / 100)"
    using flr.rnd_bounds[of "of_nat c / 100"] by simp
  have "0 \<le> fl (fl (of_nat c / 100) * 100)" using y0 by (intro flr.rnd_nonneg) simp
  moreover have "fl (fl (of_nat c / 100) * 100) \<le> 2 * (fl (of_nat c / 100) * 100)"
    using flr.rnd_bounds[of "fl (of_nat c / 100) * 100"] y0 by simp
  ultimately have "\<bar>fl (fl (of_nat c / 100) * 100)\<bar> < of_nat 2 ^ 60" using y c by simp
  then have "ilog 2 \<bar>fl (fl (of_nat c / 100) * 100)\<bar> < int 60" by (intro ilog_less) simp_all
  then show ?thesis by simp
qed

lemma p8_minor_cents: "c < 2 ^ 51 \<Longrightarrow> p8_minor (cents_text c) = Inr (int c)"
  by (simp add: p8_minor_def float_of_cents ilog_cents float_cents_round Let_def)

text \<open>An integer of at most 28 digits is a value of the decimal context.\<close>

lemma pw_neg: "0 < n \<Longrightarrow> pw 10 (- int n) = 1 / 10 ^ n"
  by (simp add: pw_def)

lemma ilog_nonneg: "1 \<le> x \<Longrightarrow> 0 \<le> ilog b x"
proof (induction b x rule: ilog.induct)
  case (1 b x)
  then show ?case
    by (cases "b < 2"; cases "of_nat b \<le> x"; subst ilog.simps) (auto simp: field_simps)
qed

lemma ilog_28: "c < 10 ^ 28 \<Longrightarrow> ilog 10 (of_nat c) < int 28"
proof -
  assume "c < 10 ^ 28"
  then have "(of_nat c :: rat) < of_nat (10 ^ 28)" by (simp only: of_nat_less_iff)
  then have "(of_nat c :: rat) < of_nat 10 ^ 28" by (simp only: of_nat_power)
  then show ?thesis by (intro ilog_less) simp_all
qed

lemma dec28_int: "c < 10 ^ 28 \<Longrightarrow> dec28 (of_nat c) = of_nat c"
proof (cases "c = 0")
  case False
  assume c: "c < 10 ^ 28"
  have x: "(1::rat) \<le> of_nat c" using False by (simp add: Suc_le_eq)
  have l: "ilog 10 (of_nat c) < int 28" by (rule ilog_28[OF c])
  define e where "e = ilog 10 (of_nat c) - 27"
  have e: "e \<le> 0" using l by (simp add: e_def)
  then have s: "pw 10 e = 1 / of_nat 10 ^ nat (- e)"
    by (cases "e = 0") (simp_all add: pw_def)
  have "of_nat c / pw 10 e = (of_int (int (c * 10 ^ nat (- e))) :: rat)" by (simp add: s)
  then have "rhe (of_nat c / pw 10 e) = int (c * 10 ^ nat (- e))" by (metis rhe_of_int)
  then show ?thesis using False by (simp add: dec28_def round_digits_def Let_def s flip: e_def)
qed (simp add: dec28_def round_digits_def)

lemma minor_of_cents: "c < 10 ^ 28 \<Longrightarrow> minor_of_decimal (cents_text c) = int c"
proof -
  assume c: "c < 10 ^ 28"
  have d: "dec28 (dval (mk_dec False c (-2)) * 100) = of_nat c"
    by (simp add: dval_cents dec28_int[OF c])
  have "ilog 10 (of_nat c) < int 28" by (rule ilog_28[OF c])
  then show ?thesis
    using rhe_of_int[of "int c"] by (simp add: minor_of_decimal_def decimal_of_cents d Let_def)
qed

end
