(* ===== verification/PO_Iso.thy ===== *)
theory PO_Iso
  imports PO_Parties
begin

text \<open>
  The ISO 20022 engine: supported versions and their identification, the adapters of pacs.008,
  pain.001, pacs.009, pacs.002, camt.053 and camt.054, and the registry that dispatches on the
  namespace. An adapter returns a result because the currency of an amount can be refused;
  \<open>now\<close> is the reception time that the canonical message records.
\<close>

section \<open>Supported versions\<close>

record SupportedVersion =
  ver_identifier :: string
  ver_message_name :: string
  ver_namespace :: string
  ver_root_element :: string

definition mk_version :: "string \<Rightarrow> string \<Rightarrow> string \<Rightarrow> string \<Rightarrow> SupportedVersion" where
  "mk_version i n ns r = \<lparr>ver_identifier = i, ver_message_name = n, ver_namespace = ns, ver_root_element = r\<rparr>"

definition SUPPORTED_PACS_008_VERSIONS :: "(string, SupportedVersion) dict" where
  "SUPPORTED_PACS_008_VERSIONS = [(''pacs.008.001.08'', mk_version ''pacs.008.001.08''
     ''FIToFICustomerCreditTransferV08'' ''urn:iso:std:iso:20022:tech:xsd:pacs.008.001.08''
     ''FIToFICstmrCdtTrf'')]"

definition KNOWN_PACS_008_NAMESPACES :: "string list" where
  "KNOWN_PACS_008_NAMESPACES =
    [''urn:iso:std:iso:20022:tech:xsd:pacs.008.001.02'', ''urn:iso:std:iso:20022:tech:xsd:pacs.008.001.04'',
     ''urn:iso:std:iso:20022:tech:xsd:pacs.008.001.05'', ''urn:iso:std:iso:20022:tech:xsd:pacs.008.001.09'',
     ''urn:iso:std:iso:20022:tech:xsd:pacs.008.001.11'', ''urn:iso:std:iso:20022:tech:xsd:pacs.008.001.12'']"

definition SUPPORTED_PAIN_001_VERSIONS :: "(string, SupportedVersion) dict" where
  "SUPPORTED_PAIN_001_VERSIONS = [(''pain.001.001.13'', mk_version ''pain.001.001.13''
     ''CustomerCreditTransferInitiationV13'' ''urn:iso:std:iso:20022:tech:xsd:pain.001.001.13''
     ''CstmrCdtTrfInitn'')]"

definition KNOWN_PAIN_001_NAMESPACES :: "string list" where
  "KNOWN_PAIN_001_NAMESPACES =
    [''urn:iso:std:iso:20022:tech:xsd:pain.001.001.03'', ''urn:iso:std:iso:20022:tech:xsd:pain.001.001.07'',
     ''urn:iso:std:iso:20022:tech:xsd:pain.001.001.09'', ''urn:iso:std:iso:20022:tech:xsd:pain.001.001.12'']"

definition SUPPORTED_PACS_009_VERSIONS :: "(string, SupportedVersion) dict" where
  "SUPPORTED_PACS_009_VERSIONS = [(''pacs.009.001.13'', mk_version ''pacs.009.001.13''
     ''FinancialInstitutionCreditTransferV13'' ''urn:iso:std:iso:20022:tech:xsd:pacs.009.001.13''
     ''FICdtTrf'')]"

definition KNOWN_PACS_009_NAMESPACES :: "string list" where
  "KNOWN_PACS_009_NAMESPACES =
    [''urn:iso:std:iso:20022:tech:xsd:pacs.009.001.08'', ''urn:iso:std:iso:20022:tech:xsd:pacs.009.001.10'']"

definition SUPPORTED_PACS_002_VERSIONS :: "(string, SupportedVersion) dict" where
  "SUPPORTED_PACS_002_VERSIONS = [(''pacs.002.001.16'', mk_version ''pacs.002.001.16''
     ''FIToFIPaymentStatusReportV16'' ''urn:iso:std:iso:20022:tech:xsd:pacs.002.001.16''
     ''FIToFIPmtStsRpt'')]"

definition KNOWN_PACS_002_NAMESPACES :: "string list" where
  "KNOWN_PACS_002_NAMESPACES =
    [''urn:iso:std:iso:20022:tech:xsd:pacs.002.001.10'', ''urn:iso:std:iso:20022:tech:xsd:pacs.002.001.12'']"

definition SUPPORTED_CAMT_053_VERSIONS :: "(string, SupportedVersion) dict" where
  "SUPPORTED_CAMT_053_VERSIONS = [(''camt.053.001.14'', mk_version ''camt.053.001.14''
     ''BankToCustomerStatementV14'' ''urn:iso:std:iso:20022:tech:xsd:camt.053.001.14'' ''Stmt'')]"

definition KNOWN_CAMT_053_NAMESPACES :: "string list" where
  "KNOWN_CAMT_053_NAMESPACES =
    [''urn:iso:std:iso:20022:tech:xsd:camt.053.001.08'', ''urn:iso:std:iso:20022:tech:xsd:camt.053.001.13'']"

definition SUPPORTED_CAMT_054_VERSIONS :: "(string, SupportedVersion) dict" where
  "SUPPORTED_CAMT_054_VERSIONS = [(''camt.054.001.14'', mk_version ''camt.054.001.14''
     ''BankToCustomerDebitCreditNotificationV14'' ''urn:iso:std:iso:20022:tech:xsd:camt.054.001.14''
     ''Ntfctn'')]"

definition KNOWN_CAMT_054_NAMESPACES :: "string list" where
  "KNOWN_CAMT_054_NAMESPACES =
    [''urn:iso:std:iso:20022:tech:xsd:camt.054.001.08'', ''urn:iso:std:iso:20022:tech:xsd:camt.054.001.13'']"

definition version_for_namespace :: "(string, SupportedVersion) dict \<Rightarrow> string \<Rightarrow> SupportedVersion option" where
  "version_for_namespace versions namespace = find (\<lambda>v. ver_namespace v = namespace) (map snd versions)"

section \<open>Identification\<close>

definition split_tag :: "string \<Rightarrow> string \<times> string" where
  "split_tag tag = (if CHR ''}'' \<in> set tag
     then (before_char CHR ''}'' (tl tag), after_char CHR ''}'' (tl tag)) else ([], tag))"

text \<open>The \<open>repr\<close> of the dictionary of versions, which one error message prints.\<close>

definition version_repr :: "SupportedVersion \<Rightarrow> string" where
  "version_repr v = ''SupportedVersion(identifier='' @ quote_name (ver_identifier v) @
     '', message_name='' @ quote_name (ver_message_name v) @ '', namespace='' @ quote_name (ver_namespace v) @
     '', root_element='' @ quote_name (ver_root_element v) @ '')''"

definition versions_repr :: "(string, SupportedVersion) dict \<Rightarrow> string" where
  "versions_repr d = ''{'' @ join '', '' (map (\<lambda>(k, v). quote_name k @ '': '' @ version_repr v) d) @ ''}''"

definition identify_message_version ::
  "xml \<Rightarrow> (string, SupportedVersion) dict \<Rightarrow> string list \<Rightarrow> SupportedVersion res" where
  "identify_message_version rt versions known_namespaces =
     (case x_tag rt of
        None \<Rightarrow> Inl (UnsupportedMessageTypeError ''Message root is not a namespaced XML element'')
      | Some tag \<Rightarrow> (case split_tag tag of (namespace, localname) \<Rightarrow>
          if localname \<noteq> ''Document'' then
            Inl (UnsupportedMessageTypeError ''Unexpected root element (not a Document)'')
          else (case version_for_namespace versions namespace of
              Some v \<Rightarrow> Inr v
            | None \<Rightarrow> if namespace \<in> set known_namespaces
                then Inl (UnsupportedMessageTypeError (''Unsupported '' @ versions_repr versions @ '' version: '' @ namespace))
                else Inl (UnsupportedMessageTypeError ''Unsupported message namespace''))))"

definition identify_pain001 :: "xml \<Rightarrow> SupportedVersion res" where
  "identify_pain001 rt = identify_message_version rt SUPPORTED_PAIN_001_VERSIONS KNOWN_PAIN_001_NAMESPACES"

definition identify_pacs009 :: "xml \<Rightarrow> SupportedVersion res" where
  "identify_pacs009 rt = identify_message_version rt SUPPORTED_PACS_009_VERSIONS KNOWN_PACS_009_NAMESPACES"

definition identify_pacs002 :: "xml \<Rightarrow> SupportedVersion res" where
  "identify_pacs002 rt = identify_message_version rt SUPPORTED_PACS_002_VERSIONS KNOWN_PACS_002_NAMESPACES"

definition identify_camt053 :: "xml \<Rightarrow> SupportedVersion res" where
  "identify_camt053 rt = identify_message_version rt SUPPORTED_CAMT_053_VERSIONS KNOWN_CAMT_053_NAMESPACES"

definition identify_camt054 :: "xml \<Rightarrow> SupportedVersion res" where
  "identify_camt054 rt = identify_message_version rt SUPPORTED_CAMT_054_VERSIONS KNOWN_CAMT_054_NAMESPACES"

definition identify_pacs008 :: "xml \<Rightarrow> SupportedVersion res" where
  "identify_pacs008 rt =
     (case x_tag rt of
        None \<Rightarrow> Inl (UnsupportedMessageTypeError ''Message root is not a namespaced XML element'')
      | Some tag \<Rightarrow> (case split_tag tag of (namespace, localname) \<Rightarrow>
          if localname \<noteq> ''Document'' then
            Inl (UnsupportedMessageTypeError ''Not a pacs.008 message (unexpected root element)'')
          else (case version_for_namespace SUPPORTED_PACS_008_VERSIONS namespace of
              Some v \<Rightarrow> Inr v
            | None \<Rightarrow> if namespace \<in> set KNOWN_PACS_008_NAMESPACES
                then Inl (UnsupportedMessageTypeError (''Unsupported pacs.008 version: '' @ namespace))
                else Inl (UnsupportedMessageTypeError ''Unsupported message namespace''))))"

definition root_namespace :: "xml \<Rightarrow> string option" where
  "root_namespace rt = (case x_tag rt of None \<Rightarrow> None
     | Some tag \<Rightarrow> if CHR ''}'' \<in> set tag then Some (before_char CHR ''}'' (tl tag)) else None)"

section \<open>Payment messages\<close>

definition mk_payment_message ::
  "SupportedVersion \<Rightarrow> pydatetime \<Rightarrow> string option \<Rightarrow> pydatetime option \<Rightarrow> PaymentTransaction list \<Rightarrow>
     SourceFormat \<Rightarrow> (string, string) dict \<Rightarrow> PaymentMessage" where
  "mk_payment_message version now message_id creation txs fmt meta =
     \<lparr>pm_message_type = Some (ver_identifier version), pm_message_id = message_id,
      pm_creation_datetime = creation, pm_transactions = txs, pm_source_format = fmt,
      pm_received_at = now, pm_validation_status = VS_PENDING, pm_ruleset_version = None,
      pm_address_provider = None, pm_address_provider_version = None, pm_source_metadata = meta\<rparr>"

text \<open>\<open>enumerate(xs)\<close>\<close>

definition enumerate_list :: "'a list \<Rightarrow> (nat \<times> 'a) list" where
  "enumerate_list xs = zip [0..<length xs] xs"

definition p8_map_transaction :: "nat \<times> xml \<Rightarrow> PaymentTransaction res" where
  "p8_map_transaction itx = (case itx of (index, tx) \<Rightarrow>
     (let path = ''/Document/FIToFICstmrCdtTrf/CdtTrfTxInf['' @ show_nat index @ '']'';
          pmt = p8_child (Some tx) ''PmtId'';
          amt = p8_child (p8_child (Some tx) ''Amt'') ''InstdAmt'' in
      bindR (p8_map_amount amt) (\<lambda>amount. Inr
        \<lparr>tx_instruction_id = p8_text (p8_child pmt ''InstrId''),
         tx_end_to_end_id = p8_text (p8_child pmt ''EndToEndId''),
         tx_transaction_id = p8_text (p8_child pmt ''TxId''),
         tx_amount = amount,
         tx_debtor = p8_map_party (p8_child (Some tx) ''Dbtr'') (path @ ''/Dbtr''),
         tx_creditor = p8_map_party (p8_child (Some tx) ''Cdtr'') (path @ ''/Cdtr''),
         tx_debtor_account = p8_map_account (p8_child (Some tx) ''DbtrAcct'') (path @ ''/DbtrAcct''),
         tx_creditor_account = p8_map_account (p8_child (Some tx) ''CdtrAcct'') (path @ ''/CdtrAcct''),
         tx_debtor_agent = p8_map_agent (p8_child (Some tx) ''DbtrAgt'') (path @ ''/DbtrAgt''),
         tx_creditor_agent = p8_map_agent (p8_child (Some tx) ''CdtrAgt'') (path @ ''/CdtrAgt''),
         tx_remittance = p8_map_remittance (p8_child (Some tx) ''RmtInf'') (path @ ''/RmtInf''),
         tx_requested_execution_date = None,
         tx_source_path = Some path\<rparr>)))"

definition map_pacs008_to_canonical :: "pydatetime \<Rightarrow> xml \<Rightarrow> SupportedVersion \<Rightarrow> PaymentMessage res" where
  "map_pacs008_to_canonical now rt version =
     (let msg_root = p8_child (Some rt) ''FIToFICstmrCdtTrf'';
          grp = p8_child msg_root ''GrpHdr'' in
      bindR (mapR p8_map_transaction (enumerate_list (p8_children msg_root ''CdtTrfTxInf'')))
        (\<lambda>txs. Inr (mk_payment_message version now (p8_text (p8_child grp ''MsgId''))
           (p8_parse_datetime (p8_text (p8_child grp ''CreDtTm''))) txs XML_PACS_008
           [(''message_name'', ver_message_name version)])))"

definition date_or_datetime :: "string option \<Rightarrow> pydatetime option" where
  "date_or_datetime value = (if \<not> truthy value then None else parse_datetime value)"

definition p1_map_transaction ::
  "string \<Rightarrow> Party option \<Rightarrow> Account option \<Rightarrow> FinancialInstitution option \<Rightarrow> string option \<Rightarrow> xml \<Rightarrow>
     PaymentTransaction res" where
  "p1_map_transaction pmt_inf_path debtor debtor_account debtor_agent reqd_exctn tx_el =
     (let path = pmt_inf_path @ ''/CdtTrfTxInf'';
          pmt_id = child (Some tx_el) ''PmtId'';
          amt = child (child (Some tx_el) ''Amt'') ''InstdAmt'' in
      bindR (map_amount amt) (\<lambda>amount. Inr
        \<lparr>tx_instruction_id = child_text pmt_id ''InstrId'',
         tx_end_to_end_id = child_text pmt_id ''EndToEndId'',
         tx_transaction_id = child_text pmt_id ''TxId'',
         tx_amount = amount,
         tx_debtor = debtor,
         tx_creditor = map_party (child (Some tx_el) ''Cdtr'') (path @ ''/Cdtr''),
         tx_debtor_account = debtor_account,
         tx_creditor_account = map_account (child (Some tx_el) ''CdtrAcct'') (path @ ''/CdtrAcct''),
         tx_debtor_agent = debtor_agent,
         tx_creditor_agent = map_agent (child (Some tx_el) ''CdtrAgt'') (path @ ''/CdtrAgt''),
         tx_remittance = map_remittance (child (Some tx_el) ''RmtInf'') (path @ ''/RmtInf''),
         tx_requested_execution_date = date_or_datetime reqd_exctn,
         tx_source_path = Some path\<rparr>))"

definition p1_map_block :: "xml \<Rightarrow> PaymentTransaction list res" where
  "p1_map_block pmt_inf =
     (let pmt_inf_path = ''/CstmrCdtTrfInitn/PmtInf'';
          debtor = map_party (child (Some pmt_inf) ''Dbtr'') (pmt_inf_path @ ''/Dbtr'');
          debtor_account = map_account (child (Some pmt_inf) ''DbtrAcct'') (pmt_inf_path @ ''/DbtrAcct'');
          debtor_agent = map_agent (child (Some pmt_inf) ''DbtrAgt'') (pmt_inf_path @ ''/DbtrAgt'');
          reqd_exctn = por (child_text (Some pmt_inf) ''ReqdExctnDt'') (child_text (Some pmt_inf) ''ReqdExctnDtTm'')
      in mapR (p1_map_transaction pmt_inf_path debtor debtor_account debtor_agent reqd_exctn)
           (children (Some pmt_inf) ''CdtTrfTxInf''))"

definition map_pain001_to_canonical :: "pydatetime \<Rightarrow> xml \<Rightarrow> SupportedVersion \<Rightarrow> PaymentMessage res" where
  "map_pain001_to_canonical now rt version =
     (let msg_root = child (Some rt) (ver_root_element version);
          grp = child msg_root ''GrpHdr'' in
      bindR (mapR p1_map_block (children msg_root ''PmtInf''))
        (\<lambda>blocks. Inr (mk_payment_message version now (child_text grp ''MsgId'')
           (parse_datetime (child_text grp ''CreDtTm'')) (concat blocks) XML_PAIN_001
           [(''message_name'', ver_message_name version)])))"

definition fi_party :: "xml option \<Rightarrow> string \<Rightarrow> Party option" where
  "fi_party el path = (case el of None \<Rightarrow> None | Some _ \<Rightarrow>
     (let fi_el = child el ''FinInstnId'' in
      Some \<lparr>py_name = child_text fi_el ''Nm'', py_identification = [], py_postal_address = None,
            py_account = None,
            py_financial_institution = Some \<lparr>fi_bic = child_text fi_el ''BICFI'',
              fi_clearing_system_member = None, fi_name = child_text fi_el ''Nm'',
              fi_postal_address = None, fi_source_path = Some path\<rparr>,
            py_source_path = Some path\<rparr>))"

text \<open>An lxml element is true when it has children.\<close>

definition element_true :: "xml option \<Rightarrow> bool" where
  "element_true el = (case el of None \<Rightarrow> False | Some e \<Rightarrow> x_kids e \<noteq> [])"

definition cov_indicator :: "xml \<Rightarrow> string" where
  "cov_indicator tx_el = (if element_true (child (Some tx_el) ''UndrlygCstmrCdtTrf'') then ''COV'' else ''CORE'')"

definition p9_map_transaction :: "xml \<Rightarrow> PaymentTransaction res" where
  "p9_map_transaction tx_el =
     (let path = ''/FICdtTrf/CdtTrfTxInf'';
          pmt_id = child (Some tx_el) ''PmtId'';
          amt = child (child (Some tx_el) ''Amt'') ''InstdAmt'' in
      bindR (map_amount amt) (\<lambda>amount. Inr
        \<lparr>tx_instruction_id = child_text pmt_id ''InstrId'',
         tx_end_to_end_id = child_text pmt_id ''EndToEndId'',
         tx_transaction_id = child_text pmt_id ''TxId'',
         tx_amount = amount,
         tx_debtor = fi_party (child (Some tx_el) ''Dbtr'') (path @ ''/Dbtr''),
         tx_creditor = fi_party (child (Some tx_el) ''Cdtr'') (path @ ''/Cdtr''),
         tx_debtor_account = map_account (child (Some tx_el) ''DbtrAcct'') (path @ ''/DbtrAcct''),
         tx_creditor_account = map_account (child (Some tx_el) ''CdtrAcct'') (path @ ''/CdtrAcct''),
         tx_debtor_agent = map_agent (child (Some tx_el) ''DbtrAgt'') (path @ ''/DbtrAgt''),
         tx_creditor_agent = map_agent (child (Some tx_el) ''CdtrAgt'') (path @ ''/CdtrAgt''),
         tx_remittance = None, tx_requested_execution_date = None,
         tx_source_path = Some path\<rparr>))"

definition map_pacs009_to_canonical :: "pydatetime \<Rightarrow> xml \<Rightarrow> SupportedVersion \<Rightarrow> PaymentMessage res" where
  "map_pacs009_to_canonical now rt version =
     (let msg_root = child (Some rt) (ver_root_element version);
          grp = child msg_root ''GrpHdr'';
          sttlm_mtd = child_text (child grp ''SttlmInf'') ''SttlmMtd'';
          tx_els = children msg_root ''CdtTrfTxInf'' in
      bindR (mapR p9_map_transaction tx_els)
        (\<lambda>txs. Inr (mk_payment_message version now (child_text grp ''MsgId'')
           (parse_datetime (child_text grp ''CreDtTm'')) txs XML_PACS_009
           [(''message_name'', ver_message_name version), (''settlement_method'', dget_opt sttlm_mtd),
            (''variants'', join '','' (map cov_indicator tx_els))])))"

definition intermediary_bics :: "xml \<Rightarrow> string list" where
  "intermediary_bics tx_el =
     collect_some (\<lambda>name. child_text (child (child (Some tx_el) name) ''FinInstnId'') ''BICFI'')
       [''IntrmyAgt1'', ''IntrmyAgt2'', ''IntrmyAgt3'']"

section \<open>Status reports\<close>

definition normalize_status :: "string option \<Rightarrow> PaymentStatus" where
  "normalize_status raw = (case raw of None \<Rightarrow> PS_UNKNOWN | Some r \<Rightarrow>
     if r \<in> {''ACCP'', ''ACSP'', ''ACWC'', ''ACSC'', ''ACCC''} then PS_ACCEPTED
     else if r = ''RCVD'' then PS_PROCESSING
     else if r = ''PDNG'' then PS_PENDING
     else if r = ''PART'' then PS_PARTIALLY_ACCEPTED
     else if r \<in> {''RJCT'', ''CANC''} then PS_REJECTED
     else PS_UNKNOWN)"

definition reasons_of :: "xml \<Rightarrow> StatusReason list" where
  "reasons_of tx_el = map (\<lambda>inf. let rsn = child (Some inf) ''Rsn'' in
       \<lparr>sr_code = child_text rsn ''Cd'', sr_proprietary_code = child_text rsn ''Prprtry'',
        sr_additional_information = child_text (Some inf) ''AddtlInf'',
        sr_originator = child_text (Some inf) ''Orgnl'', sr_normalized_category = None\<rparr>)
     (children (Some tx_el) ''StsRsnInf'')"

definition reference_of :: "xml option \<Rightarrow> RelatedPaymentReference option res" where
  "reference_of orgnl_tx_ref = (case orgnl_tx_ref of None \<Rightarrow> Inr None | Some _ \<Rightarrow>
     (let pmt_id = child orgnl_tx_ref ''PmtId'' in
      bindR (map_amount (child (child orgnl_tx_ref ''Amt'') ''InstdAmt'')) (\<lambda>amount. Inr (Some
        \<lparr>rr_message_id = None, rr_message_definition = None, rr_message_version = None,
         rr_instruction_id = child_text pmt_id ''InstrId'',
         rr_end_to_end_id = child_text pmt_id ''EndToEndId'',
         rr_transaction_id = child_text pmt_id ''TxId'', rr_amount = amount, rr_uetr = None\<rparr>))))"

definition map_transaction_status :: "xml \<Rightarrow> TransactionStatus res" where
  "map_transaction_status tx_el =
     (let raw = child_text (Some tx_el) ''TxSts'';
          orgnl_tx_ref = child (Some tx_el) ''OrgnlTxRef'' in
      bindR (map_amount (child (child orgnl_tx_ref ''Amt'') ''InstdAmt'')) (\<lambda>amount.
      bindR (reference_of orgnl_tx_ref) (\<lambda>ref. Inr
        \<lparr>ts_original_instruction_id = child_text (Some tx_el) ''OrgnlInstrId'',
         ts_original_end_to_end_id = child_text (Some tx_el) ''OrgnlEndToEndId'',
         ts_original_transaction_id = child_text (Some tx_el) ''OrgnlTxId'',
         ts_raw_iso_status = raw, ts_normalized_status = normalize_status raw,
         ts_reasons = reasons_of tx_el, ts_amount = amount, ts_reference = ref\<rparr>)))"

definition map_pacs002_to_status :: "xml \<Rightarrow> SupportedVersion \<Rightarrow> LifecycleStatusReport res" where
  "map_pacs002_to_status rt version =
     (let msg_root = child (Some rt) (ver_root_element version);
          grp = child msg_root ''GrpHdr''; orgnl_grp = child msg_root ''OrgnlGrpInfAndSts'';
          group_raw = child_text orgnl_grp ''GrpSts'' in
      bindR (mapR map_transaction_status (children msg_root ''TxInfAndSts'')) (\<lambda>statuses. Inr
        \<lparr>lr_message_family = Some (before_char CHR ''.'' (ver_identifier version)),
         lr_message_definition = Some (ver_message_name version),
         lr_message_version = Some (ver_identifier version),
         lr_namespace = Some (ver_namespace version),
         lr_message_id = child_text grp ''MsgId'',
         lr_creation_datetime = parse_datetime (child_text grp ''CreDtTm''),
         lr_original_message_id = child_text orgnl_grp ''OrgnlMsgId'',
         lr_original_message_definition = child_text orgnl_grp ''OrgnlMsgNmId'',
         lr_group_status_raw = group_raw, lr_group_status = normalize_status group_raw,
         lr_transaction_statuses = statuses\<rparr>))"

end
