(* ===== verification/PO_Camt.thy ===== *)
theory PO_Camt
  imports PO_Iso
begin

text \<open>
  Account reports: the entry mapping that camt.053 and camt.054 share (\<open>account/entries.py\<close>), the
  two adapters, and the message registry (\<open>registry.py\<close>) with the six registered messages.
\<close>

section \<open>Entries\<close>

definition map_account_reference :: "xml option \<Rightarrow> AccountReference option" where
  "map_account_reference el = (case el of None \<Rightarrow> None | Some _ \<Rightarrow>
     (let id_el = child el ''Id''; servicer = child el ''Svcr'' in
      Some \<lparr>ar_iban = child_text id_el ''IBAN'',
            ar_other_identification = child_text (child id_el ''Othr'') ''Id'',
            ar_currency = child_text el ''Ccy'', ar_name = child_text el ''Nm'',
            ar_servicer_bic = (if servicer \<noteq> None then child_text (child servicer ''FinInstnId'') ''BICFI'' else None)\<rparr>))"

definition cdi_of :: "string option \<Rightarrow> CreditDebitIndicator option" where
  "cdi_of s = (if s = Some ''CRDT'' then Some CRDT else if s = Some ''DBIT'' then Some DBIT else None)"

definition map_balance :: "xml option \<Rightarrow> AccountBalance option res" where
  "map_balance el = (case el of None \<Rightarrow> Inr None | Some _ \<Rightarrow>
     (let tp = child el ''Tp'';
          code = por (child_text (child tp ''CdOrPrtry'') ''Cd'') (child_text tp ''Cd'') in
      case code of None \<Rightarrow> Inr None | Some c \<Rightarrow>
      (case BalanceType_of c of None \<Rightarrow> Inr None | Some balance_type \<Rightarrow>
        bindR (map_amount (child el ''Amt'')) (\<lambda>amt. case amt of None \<Rightarrow> Inr None
        | Some a \<Rightarrow> Inr (Some \<lparr>ab_type = balance_type, ab_amount = a,
            ab_credit_debit = (case cdi_of (child_text el ''CdtDbtInd'') of Some i \<Rightarrow> i | None \<Rightarrow> CRDT)\<rparr>)))))"

definition bank_tx_code :: "xml option \<Rightarrow> BankTransactionCode option" where
  "bank_tx_code el = (case el of None \<Rightarrow> None | Some _ \<Rightarrow>
     (let domn = child el ''Domn''; fmly = child domn ''Fmly'' in
      Some \<lparr>bt_code = child_text domn ''Cd'', bt_proprietary = child_text (child el ''Prtry'') ''Cd'',
            bt_family = child_text fmly ''Cd'', bt_sub_family = child_text fmly ''SubFmlyCd''\<rparr>))"

definition entry_remittance :: "xml option \<Rightarrow> string option" where
  "entry_remittance tx = (case children (child tx ''RmtInf'') ''Ustrd'' of [] \<Rightarrow> None | l # _ \<Rightarrow> text_of (Some l))"

definition related_agents :: "xml option \<Rightarrow> string list" where
  "related_agents tx = (let agts = child tx ''RltdAgts'' in
     collect_some (\<lambda>name. let node = child agts name in
        if node \<noteq> None then child_text (child node ''FinInstnId'') ''BICFI'' else None)
      [''DbtrAgt'', ''CdtrAgt''])"

definition entry_date :: "xml option \<Rightarrow> pydate option" where
  "entry_date el = (case el of None \<Rightarrow> None | Some _ \<Rightarrow>
     (let value = por (child_text el ''Dt'') (child_text el ''DtTm'') in
      if \<not> truthy value then None else date_fromisoformat (take 10 (dget_opt value))))"

definition map_entry :: "xml \<Rightarrow> string \<Rightarrow> AccountEntry res" where
  "map_entry e path =
     (let el = Some e; amount_el = child el ''Amt'';
          tx = child (child el ''NtryDtls'') ''TxDtls''; refs = child tx ''Refs'';
          status_el = child el ''Sts'' in
      bindR (map_amount amount_el) (\<lambda>amount. Inr
        \<lparr>ae_entry_reference = child_text el ''NtryRef'',
         ae_account_servicer_reference = child_text el ''AcctSvcrRef'',
         ae_transaction_id = child_text refs ''TxId'',
         ae_instruction_id = child_text refs ''InstrId'',
         ae_end_to_end_id = child_text refs ''EndToEndId'',
         ae_uetr = child_text refs ''UETR'',
         ae_amount = amount,
         ae_currency = por (map_option ma_currency amount) (Option.bind amount_el (\<lambda>x. attr x ''Ccy'')),
         ae_credit_debit = cdi_of (child_text el ''CdtDbtInd''),
         ae_booking_date = entry_date (child el ''BookgDt''),
         ae_value_date = entry_date (child el ''ValDt''),
         ae_status = por (text_of status_el) (child_text status_el ''Cd''),
         ae_bank_transaction_code = bank_tx_code (child el ''BkTxCd''),
         ae_remittance_reference = entry_remittance tx,
         ae_debtor = map_party (child (child tx ''RltdPties'') ''Dbtr'') (path @ ''/NtryDtls/TxDtls/RltdPties/Dbtr''),
         ae_creditor = map_party (child (child tx ''RltdPties'') ''Cdtr'') (path @ ''/NtryDtls/TxDtls/RltdPties/Cdtr''),
         ae_related_agents = related_agents tx,
         ae_original_message_reference = child_text (child tx ''Refs'') ''AcctSvcrRef'',
         ae_source_message_id = None, ae_source_hash = None, ae_reconciliation_status = None,
         ae_match_score = None, ae_evidence = [], ae_conflicts = []\<rparr>))"

section \<open>Statements and notifications\<close>

definition statement_date :: "xml option \<Rightarrow> pydate option" where
  "statement_date el = (case el of None \<Rightarrow> None | Some e \<Rightarrow>
     (let value = strip (dget_opt (x_text e)) in
      if value = [] then None else date_fromisoformat (take 10 value)))"

definition or_date :: "pydate option \<Rightarrow> pydate option \<Rightarrow> pydate option" where
  "or_date a b = (case a of None \<Rightarrow> b | Some d \<Rightarrow> Some d)"

definition map_statement :: "SupportedVersion \<Rightarrow> xml option \<Rightarrow> xml \<Rightarrow> AccountReport res" where
  "map_statement version grp stmt =
     (let period = child (Some stmt) ''FrToDt'' in
      bindR (mapR (\<lambda>b. map_balance (Some b)) (children (Some stmt) ''Bal'')) (\<lambda>balances.
      bindR (mapR (\<lambda>e. map_entry e ''/BkToCstmrStmt/Stmt/Ntry'') (children (Some stmt) ''Ntry'')) (\<lambda>entries. Inr
        \<lparr>rp_message_family = Some ''camt'', rp_message_definition = Some (ver_message_name version),
         rp_message_version = Some (ver_identifier version), rp_namespace = Some (ver_namespace version),
         rp_message_id = child_text grp ''MsgId'',
         rp_creation_datetime = parse_datetime (child_text grp ''CreDtTm''),
         rp_report_type = STATEMENT, rp_account = map_account_reference (child (Some stmt) ''Acct''),
         rp_statement_id = child_text (Some stmt) ''Id'', rp_notification_id = None,
         rp_period_start = or_date (statement_date (child period ''FrDtTm'')) (statement_date (child period ''FrDt'')),
         rp_period_end = or_date (statement_date (child period ''ToDtTm'')) (statement_date (child period ''ToDt'')),
         rp_balances = collect_some id balances, rp_entries = entries, rp_source_hash = None\<rparr>)))"

definition mk_bundle ::
  "SupportedVersion \<Rightarrow> xml option \<Rightarrow> AccountReportType \<Rightarrow> AccountReport list \<Rightarrow> AccountReportBundle" where
  "mk_bundle version grp rtype reports =
     \<lparr>bu_message_family = Some ''camt'', bu_message_definition = Some (ver_message_name version),
      bu_message_version = Some (ver_identifier version), bu_namespace = Some (ver_namespace version),
      bu_message_id = child_text grp ''MsgId'',
      bu_creation_datetime = parse_datetime (child_text grp ''CreDtTm''),
      bu_report_type = rtype, bu_reports = reports, bu_source_hash = None\<rparr>"

definition map_camt053_to_account_report :: "xml \<Rightarrow> SupportedVersion \<Rightarrow> AccountReportBundle res" where
  "map_camt053_to_account_report rt version =
     (let msg_root = child (Some rt) ''BkToCstmrStmt''; grp = child msg_root ''GrpHdr'' in
      bindR (mapR (map_statement version grp) (children msg_root ''Stmt''))
        (\<lambda>reports. Inr (mk_bundle version grp STATEMENT reports)))"

definition map_notification :: "SupportedVersion \<Rightarrow> xml option \<Rightarrow> xml \<Rightarrow> AccountReport res" where
  "map_notification version grp n =
     bindR (mapR (\<lambda>e. map_entry e ''/BkToCstmrDbtCdtNtfctn/Ntfctn/Ntry'') (children (Some n) ''Ntry'')) (\<lambda>entries. Inr
       \<lparr>rp_message_family = Some ''camt'', rp_message_definition = Some (ver_message_name version),
        rp_message_version = Some (ver_identifier version), rp_namespace = Some (ver_namespace version),
        rp_message_id = child_text grp ''MsgId'',
        rp_creation_datetime = parse_datetime (child_text grp ''CreDtTm''),
        rp_report_type = NOTIFICATION, rp_account = map_account_reference (child (Some n) ''Acct''),
        rp_statement_id = None, rp_notification_id = child_text (Some n) ''Id'',
        rp_period_start = None, rp_period_end = None, rp_balances = [], rp_entries = entries,
        rp_source_hash = None\<rparr>)"

definition map_camt054_to_account_report :: "xml \<Rightarrow> SupportedVersion \<Rightarrow> AccountReportBundle res" where
  "map_camt054_to_account_report rt version =
     (let msg_root = child (Some rt) ''BkToCstmrDbtCdtNtfctn''; grp = child msg_root ''GrpHdr'' in
      bindR (mapR (map_notification version grp) (children msg_root ''Ntfctn''))
        (\<lambda>reports. Inr (mk_bundle version grp NOTIFICATION reports)))"

section \<open>The registry\<close>

datatype artifact = AMessage PaymentMessage | AStatus LifecycleStatusReport | AReport AccountReportBundle

record MessageDefinition =
  mdf_message_family :: string
  mdf_message_definition :: string
  mdf_version :: string
  mdf_namespace :: string
  mdf_adapter_version :: string
  mdf_root_element :: string

record RegisteredMessage =
  reg_definition :: MessageDefinition
  reg_adapter :: "pydatetime \<Rightarrow> xml \<Rightarrow> SupportedVersion \<Rightarrow> artifact res"
  reg_identifier :: "xml \<Rightarrow> SupportedVersion res"
  reg_version_obj :: SupportedVersion

record IsoMessageRegistry =
  by_identifier :: "(string, RegisteredMessage) dict"
  by_namespace :: "(string, RegisteredMessage) dict"

definition empty_registry :: IsoMessageRegistry where
  "empty_registry = \<lparr>by_identifier = [], by_namespace = []\<rparr>"

definition register_message :: "RegisteredMessage \<Rightarrow> IsoMessageRegistry \<Rightarrow> IsoMessageRegistry" where
  "register_message m reg =
     \<lparr>by_identifier = AList.update (mdf_version (reg_definition m)) m (by_identifier reg),
      by_namespace = AList.update (mdf_namespace (reg_definition m)) m (by_namespace reg)\<rparr>"

definition unsupported :: "string \<Rightarrow> py_error" where
  "unsupported identifier = UnsupportedMessageError (''unsupported ISO message/version: '' @ identifier)"

definition resolve :: "IsoMessageRegistry \<Rightarrow> string \<Rightarrow> RegisteredMessage res" where
  "resolve reg identifier = (case map_of (by_identifier reg) identifier of
     None \<Rightarrow> Inl (unsupported identifier) | Some m \<Rightarrow> Inr m)"

definition resolve_namespace :: "IsoMessageRegistry \<Rightarrow> string \<Rightarrow> RegisteredMessage res" where
  "resolve_namespace reg namespace = (case map_of (by_namespace reg) namespace of
     None \<Rightarrow> Inl (unsupported namespace) | Some m \<Rightarrow> Inr m)"

definition resolve_root :: "IsoMessageRegistry \<Rightarrow> xml \<Rightarrow> RegisteredMessage res" where
  "resolve_root reg rt = (if \<not> truthy (extract_namespace rt) then Inl (unsupported ''message has no namespace'')
     else resolve_namespace reg (dget_opt (extract_namespace rt)))"

definition supported_definitions :: "IsoMessageRegistry \<Rightarrow> MessageDefinition list" where
  "supported_definitions reg = map (reg_definition \<circ> snd) (by_identifier reg)"

definition registry_contains :: "IsoMessageRegistry \<Rightarrow> string \<Rightarrow> bool" where
  "registry_contains reg identifier = (map_of (by_identifier reg) identifier \<noteq> None)"

definition mk_registered ::
  "(pydatetime \<Rightarrow> xml \<Rightarrow> SupportedVersion \<Rightarrow> artifact res) \<Rightarrow> (xml \<Rightarrow> SupportedVersion res) \<Rightarrow> string \<Rightarrow>
     SupportedVersion \<Rightarrow> RegisteredMessage" where
  "mk_registered adapter identifier family v =
     \<lparr>reg_definition = \<lparr>mdf_message_family = family, mdf_message_definition = ver_message_name v,
        mdf_version = ver_identifier v, mdf_namespace = ver_namespace v,
        mdf_adapter_version = ''0.1.0'', mdf_root_element = ver_root_element v\<rparr>,
      reg_adapter = adapter, reg_identifier = identifier, reg_version_obj = v\<rparr>"

definition register_versions ::
  "(string, SupportedVersion) dict \<Rightarrow> (pydatetime \<Rightarrow> xml \<Rightarrow> SupportedVersion \<Rightarrow> artifact res) \<Rightarrow>
     (xml \<Rightarrow> SupportedVersion res) \<Rightarrow> string \<Rightarrow> IsoMessageRegistry \<Rightarrow> IsoMessageRegistry" where
  "register_versions versions adapter identifier family reg =
     fold (\<lambda>v. register_message (mk_registered adapter identifier family v)) (map snd versions) reg"

definition message_adapter ::
  "(pydatetime \<Rightarrow> xml \<Rightarrow> SupportedVersion \<Rightarrow> PaymentMessage res) \<Rightarrow> pydatetime \<Rightarrow> xml \<Rightarrow> SupportedVersion \<Rightarrow> artifact res" where
  "message_adapter f now rt v = bindR (f now rt v) (\<lambda>m. Inr (AMessage m))"

definition status_adapter :: "pydatetime \<Rightarrow> xml \<Rightarrow> SupportedVersion \<Rightarrow> artifact res" where
  "status_adapter now rt v = bindR (map_pacs002_to_status rt v) (\<lambda>s. Inr (AStatus s))"

definition report_adapter ::
  "(xml \<Rightarrow> SupportedVersion \<Rightarrow> AccountReportBundle res) \<Rightarrow> pydatetime \<Rightarrow> xml \<Rightarrow> SupportedVersion \<Rightarrow> artifact res" where
  "report_adapter f now rt v = bindR (f rt v) (\<lambda>b. Inr (AReport b))"

definition build_default_registry :: IsoMessageRegistry where
  "build_default_registry =
     register_versions SUPPORTED_CAMT_054_VERSIONS (report_adapter map_camt054_to_account_report) identify_camt054 ''camt''
    (register_versions SUPPORTED_CAMT_053_VERSIONS (report_adapter map_camt053_to_account_report) identify_camt053 ''camt''
    (register_versions SUPPORTED_PACS_009_VERSIONS (message_adapter map_pacs009_to_canonical) identify_pacs009 ''pacs''
    (register_versions SUPPORTED_PACS_002_VERSIONS status_adapter identify_pacs002 ''pacs''
    (register_versions SUPPORTED_PAIN_001_VERSIONS (message_adapter map_pain001_to_canonical) identify_pain001 ''pain''
    (register_versions SUPPORTED_PACS_008_VERSIONS (message_adapter map_pacs008_to_canonical) identify_pacs008 ''pacs''
      empty_registry)))))"

section \<open>Message metadata\<close>

record IsoMessageMetadata =
  im_message_family :: string
  im_message_definition :: string
  im_message_version :: string
  im_namespace :: string
  im_message_id :: "string option"
  im_creation_datetime :: "pydatetime option"
  im_source_adapter :: string
  im_adapter_version :: string
  im_schema_version :: string

definition build_metadata ::
  "MessageDefinition \<Rightarrow> string option \<Rightarrow> pydatetime option \<Rightarrow> string \<Rightarrow> string option \<Rightarrow> IsoMessageMetadata" where
  "build_metadata d message_id creation_datetime source_adapter schema_version =
     \<lparr>im_message_family = mdf_message_family d, im_message_definition = mdf_message_definition d,
      im_message_version = mdf_version d, im_namespace = mdf_namespace d, im_message_id = message_id,
      im_creation_datetime = creation_datetime, im_source_adapter = source_adapter,
      im_adapter_version = mdf_adapter_version d,
      im_schema_version = dget_opt (por schema_version (Some (mdf_version d)))\<rparr>"

section \<open>Facts about the registry\<close>

text \<open>A store of messages: what a lookup gives after a registration.\<close>

locale message_store =
  fixes store :: "RegisteredMessage \<Rightarrow> 's \<Rightarrow> 's" and lookup :: "'s \<Rightarrow> string \<Rightarrow> RegisteredMessage res"
    and key :: "RegisteredMessage \<Rightarrow> string"
  assumes lookup_store: "lookup (store m s) k = (if k = key m then Inr m else lookup s k)"
begin

lemma last_registration_wins: "lookup (store m (store m' s)) (key m) = Inr m"
  by (simp add: lookup_store)

lemma registration_keeps_others: "k \<noteq> key m \<Longrightarrow> lookup (store m s) k = lookup s k"
  by (simp add: lookup_store)

lemma lookup_fold_notin: "k \<notin> key ` set ms \<Longrightarrow> lookup (fold store ms s) k = lookup s k"
  by (induction ms arbitrary: s) (auto simp: lookup_store)

end

interpretation ids: message_store register_message resolve "\<lambda>m. mdf_version (reg_definition m)"
  by unfold_locales (auto simp: resolve_def register_message_def)

interpretation nss: message_store register_message resolve_namespace "\<lambda>m. mdf_namespace (reg_definition m)"
  by unfold_locales (auto simp: resolve_namespace_def register_message_def)

lemma mk_registered_simps [simp]:
  "mdf_version (reg_definition (mk_registered a i f v)) = ver_identifier v"
  "mdf_namespace (reg_definition (mk_registered a i f v)) = ver_namespace v"
  "reg_identifier (mk_registered a i f v) = i" "reg_version_obj (mk_registered a i f v) = v"
  "reg_adapter (mk_registered a i f v) = a"
  by (simp_all add: mk_registered_def)

lemma mk_version_simps [simp]:
  "ver_identifier (mk_version i n ns r) = i" "ver_namespace (mk_version i n ns r) = ns"
  "ver_root_element (mk_version i n ns r) = r" "ver_message_name (mk_version i n ns r) = n"
  by (simp_all add: mk_version_def)

lemmas version_tables = SUPPORTED_PACS_008_VERSIONS_def SUPPORTED_PAIN_001_VERSIONS_def
  SUPPORTED_PACS_002_VERSIONS_def SUPPORTED_PACS_009_VERSIONS_def SUPPORTED_CAMT_053_VERSIONS_def
  SUPPORTED_CAMT_054_VERSIONS_def

definition ns20022 :: "string \<Rightarrow> string" where
  "ns20022 v = ''urn:iso:std:iso:20022:tech:xsd:'' @ v"

text \<open>The registry built by \<open>build_default_registry\<close>, entry by entry.\<close>

definition default_entries :: "(string \<times> RegisteredMessage) list" where
  "default_entries = map (\<lambda>m. (mdf_version (reg_definition m), m))
    [mk_registered (message_adapter map_pacs008_to_canonical) identify_pacs008 ''pacs'' (snd (hd SUPPORTED_PACS_008_VERSIONS)),
     mk_registered (message_adapter map_pain001_to_canonical) identify_pain001 ''pain'' (snd (hd SUPPORTED_PAIN_001_VERSIONS)),
     mk_registered status_adapter identify_pacs002 ''pacs'' (snd (hd SUPPORTED_PACS_002_VERSIONS)),
     mk_registered (message_adapter map_pacs009_to_canonical) identify_pacs009 ''pacs'' (snd (hd SUPPORTED_PACS_009_VERSIONS)),
     mk_registered (report_adapter map_camt053_to_account_report) identify_camt053 ''camt'' (snd (hd SUPPORTED_CAMT_053_VERSIONS)),
     mk_registered (report_adapter map_camt054_to_account_report) identify_camt054 ''camt'' (snd (hd SUPPORTED_CAMT_054_VERSIONS))]"

lemma default_by_identifier: "by_identifier build_default_registry = default_entries"
  by (simp add: build_default_registry_def register_versions_def register_message_def empty_registry_def
      version_tables default_entries_def)

lemma default_by_namespace:
  "by_namespace build_default_registry = map (\<lambda>(k, m). (ns20022 k, m)) default_entries"
  by (simp add: build_default_registry_def register_versions_def register_message_def empty_registry_def
      version_tables default_entries_def ns20022_def)

lemma default_identifiers:
  "map fst default_entries =
     [''pacs.008.001.08'', ''pain.001.001.13'', ''pacs.002.001.16'', ''pacs.009.001.13'',
      ''camt.053.001.14'', ''camt.054.001.14'']"
  by (simp add: default_entries_def version_tables)

lemma default_entry_facts:
  "\<forall>(k, m)\<in>set default_entries. mdf_version (reg_definition m) = k \<and>
     mdf_namespace (reg_definition m) = ns20022 k \<and> ver_namespace (reg_version_obj m) = ns20022 k"
  by (simp add: default_entries_def version_tables ns20022_def)

end
