(* ===== verification/PO_IsoProps.thy ===== *)
theory PO_IsoProps
  imports PO_Camt
begin

text \<open>
  What ISO ingestion guarantees: amounts with two decimals are exact on both amount paths (and
  where the paths differ), the private pacs.008 mappers agree with the shared ones, dispatch is
  by exact version, adapters lose no transaction or entry, and every rejected payload has a
  code of the taxonomy.
\<close>

section \<open>Lemmas on the adapters\<close>

lemma mapR_concat_length:
  "mapR f xs = Inr ys \<Longrightarrow> (\<And>x y. x \<in> set xs \<Longrightarrow> f x = Inr y \<Longrightarrow> length y = n x) \<Longrightarrow>
     length (concat ys) = sum_list (map n xs)"
proof (induction xs arbitrary: ys)
  case (Cons x xs)
  from Cons.prems(1) obtain y zs where y: "f x = Inr y" and zs: "mapR f xs = Inr zs" "ys = y # zs"
    by (auto split: sum.splits)
  have "length (concat zs) = sum_list (map n xs)" using Cons zs by simp
  then show ?case using Cons.prems(2)[of x y] y zs by simp
qed simp

lemma mapR_in: "mapR f xs = Inr ys \<Longrightarrow> y \<in> set ys \<Longrightarrow> \<exists>x\<in>set xs. f x = Inr y"
  by (metis in_set_conv_nth mapR_Inr_length mapR_Inr_nth)

lemma p1_block_facts:
  "p1_map_block b = Inr txs \<Longrightarrow> length txs = length (children (Some b) ''CdtTrfTxInf'') \<and>
     (\<forall>t\<in>set txs. tx_debtor t = map_party (child (Some b) ''Dbtr'') ''/CstmrCdtTrfInitn/PmtInf/Dbtr'' \<and>
        tx_debtor_account t = map_account (child (Some b) ''DbtrAcct'') ''/CstmrCdtTrfInitn/PmtInf/DbtrAcct'')"
proof -
  assume b: "p1_map_block b = Inr txs"
  then have "length txs = length (children (Some b) ''CdtTrfTxInf'')"
    by (auto simp: p1_map_block_def Let_def dest: mapR_Inr_length)
  moreover have "tx_debtor t = map_party (child (Some b) ''Dbtr'') ''/CstmrCdtTrfInitn/PmtInf/Dbtr'' \<and>
        tx_debtor_account t = map_account (child (Some b) ''DbtrAcct'') ''/CstmrCdtTrfInitn/PmtInf/DbtrAcct''"
    if t: "t \<in> set txs" for t
  proof -
    from b obtain e where "p1_map_transaction ''/CstmrCdtTrfInitn/PmtInf''
       (map_party (child (Some b) ''Dbtr'') ''/CstmrCdtTrfInitn/PmtInf/Dbtr'')
       (map_account (child (Some b) ''DbtrAcct'') ''/CstmrCdtTrfInitn/PmtInf/DbtrAcct'')
       (map_agent (child (Some b) ''DbtrAgt'') ''/CstmrCdtTrfInitn/PmtInf/DbtrAgt'')
       (por (child_text (Some b) ''ReqdExctnDt'') (child_text (Some b) ''ReqdExctnDtTm'')) e = Inr t"
      using mapR_in[OF _ t] by (fastforce simp: p1_map_block_def Let_def)
    then show ?thesis by (auto simp: p1_map_transaction_def Let_def bindR_Inr)
  qed
  ultimately show ?thesis by blast
qed

lemma p8_transaction_path:
  "p8_map_transaction (i, tx) = Inr t \<Longrightarrow>
     tx_source_path t = Some (''/Document/FIToFICstmrCdtTrf/CdtTrfTxInf['' @ show_nat i @ '']'')"
  by (auto simp: p8_map_transaction_def Let_def bindR_Inr)

section \<open>Lemmas on identification\<close>

lemma version_lookup_single:
  "version_for_namespace [(k, mk_version i n ns r)] s = (if s = ns then Some (mk_version i n ns r) else None)"
  by (simp add: version_for_namespace_def mk_version_def)

lemma identify_generic:
  "identify_message_version rt [(k, mk_version i n ns r)] known = Inr v \<longleftrightarrow>
     v = mk_version i n ns r \<and> (\<exists>t. x_tag rt = Some t \<and> split_tag t = (ns, ''Document''))"
  by (auto simp: identify_message_version_def version_lookup_single split: option.splits prod.splits if_splits)

lemma identify_pacs008_iff:
  "identify_pacs008 rt = Inr v \<longleftrightarrow> v = snd (hd SUPPORTED_PACS_008_VERSIONS) \<and>
     (\<exists>t. x_tag rt = Some t \<and> split_tag t = (ver_namespace v, ''Document''))"
  unfolding identify_pacs008_def SUPPORTED_PACS_008_VERSIONS_def version_lookup_single
  by (auto simp: mk_version_def split: option.splits prod.splits if_splits)

lemma default_identify:
  "\<forall>(k, m)\<in>set default_entries. reg_identifier m rt = Inr v \<longleftrightarrow>
     v = reg_version_obj m \<and> (\<exists>t. x_tag rt = Some t \<and> split_tag t = (ns20022 k, ''Document''))"
  unfolding default_entries_def list.map list.set ball_simps prod.case mk_registered_simps
    identify_pain001_def identify_pacs002_def identify_pacs009_def identify_camt053_def identify_camt054_def
    identify_pacs008_iff version_tables identify_generic
  by (simp add: ns20022_def cong: conj_cong)

lemma default_identify_iff:
  "(k, m) \<in> set default_entries \<Longrightarrow> reg_identifier m rt = Inr v \<longleftrightarrow>
     v = reg_version_obj m \<and> (\<exists>t. x_tag rt = Some t \<and> split_tag t = (ns20022 k, ''Document''))"
  using default_identify[of rt v] by (auto dest!: bspec[where x = "(k, m)"])

lemma map_of_ns20022: "map_of (map (\<lambda>(k, m). (ns20022 k, m)) d) (ns20022 i) = map_of d i"
  by (induction d) (auto simp: ns20022_def)

lemma resolve_by_namespace: "resolve_namespace build_default_registry (ns20022 i) =
    (case map_of default_entries i of None \<Rightarrow> Inl (unsupported (ns20022 i)) | Some m \<Rightarrow> Inr m)"
  by (simp add: resolve_namespace_def default_by_namespace map_of_ns20022)

lemma default_entry_lookup: "(k, m) \<in> set default_entries \<Longrightarrow> map_of default_entries k = Some m"
  using default_identifiers by (intro map_of_is_SomeI) (simp_all del: map_of_eq_Some_iff)

lemma ns20022_inj: "ns20022 a = ns20022 b \<longleftrightarrow> a = b"
  by (simp add: ns20022_def)

lemma ccy_nonempty: "length ccy = 3 \<Longrightarrow> por (Some ccy) x = Some ccy"
  by (cases ccy) simp_all

lemma digit_char_lits:
  "digit_char 0 = CHR ''0''" "digit_char 1 = CHR ''1''" "digit_char (Suc 0) = CHR ''1''"
  "digit_char 2 = CHR ''2''" "digit_char 3 = CHR ''3''" "digit_char 4 = CHR ''4''" "digit_char 5 = CHR ''5''"
  "digit_char 6 = CHR ''6''" "digit_char 7 = CHR ''7''" "digit_char 8 = CHR ''8''" "digit_char 9 = CHR ''9''"
  by code_simp+

text \<open>The text 1.015 in both number systems.\<close>

lemma floor_rat_numeral: "\<lfloor>numeral a / numeral b :: rat\<rfloor> = numeral a div numeral b"
  using floor_divide_of_int_eq[of "numeral a" "numeral b", where 'a=rat] by simp

lemma fl_1015: "fl (203 / 200) = 4571153621781053 / 4503599627370496"
  by (simp add: fl_def round_digits_def ilog.simps pw_def rhe_def floor_rat_numeral Let_def)

lemma fl_10150: "fl (fl (203 / 200) * 100) = 7142427534032895 / 70368744177664"
  by (simp add: fl_1015 fl_def round_digits_def ilog.simps pw_def rhe_def floor_rat_numeral Let_def)

lemma parse_1015:
  "parse_number True ''1.015'' = Some (Finite (mk_dec False 1015 (-3)))"
  "parse_number False ''1.015'' = Some (Finite (mk_dec False 1015 (-3)))"
  "strip ''1.015'' = ''1.015''" "remove_char CHR ''_'' ''1.015'' = ''1.015''" "underscores_ok ''1.015''"
  by code_simp+

lemma dval_1015: "dval (mk_dec False 1015 (-3)) = 203 / 200"
  by (simp add: dval_def mk_dec_def pw_def)

lemma p8_minor_1015: "p8_minor ''1.015'' = Inr 101"
proof -
  have "float_of_text ''1.015'' = Some (Finite (fl (203 / 200)))"
    by (simp add: float_of_text_def parse_1015 dval_1015 fl_1015 ilog.simps)
  then show ?thesis
    by (simp add: p8_minor_def fl_10150 ilog.simps rhe_def floor_rat_numeral)
qed

lemma minor_of_1015: "minor_of_decimal ''1.015'' = 102"
proof -
  have d: "dec28 (203 / 2) = 203 / 2"
    by (simp add: dec28_def round_digits_def ilog.simps pw_def rhe_def Let_def)
  show ?thesis
    by (simp add: d minor_of_decimal_def decimal_of_text_def parse_1015 dval_1015 ilog.simps rhe_def floor_rat_numeral)
qed

section \<open>Properties\<close>

text \<open>C36: An amount text with two decimals is mapped to exactly its number of cents by the pacs.008
  adapter, although the adapter multiplies binary floats: for every number of cents below 2^51
  and every three-letter currency.\<close>

theorem pacs008_amount_exact:
  assumes "c < 2 ^ 51" "length ccy = 3"
  shows "p8_map_amount (Some (amount_node ccy (cents_text c))) =
     Inr (Some \<lparr>ma_amount_minor = int c, ma_currency = ccy\<rparr>)"
  using assms p8_minor_cents[OF assms(1)]
  by (simp add: p8_map_amount_def amount_node_def attr_def mk_amount_def strip_cents dget_opt_def ccy_nonempty)

theorem pacs008_amount_exact_witness:
  "p8_map_amount (Some (amount_node ''EUR'' ''123456789.29'')) =
     Inr (Some \<lparr>ma_amount_minor = 12345678929, ma_currency = ''EUR''\<rparr>)"
proof -
  have "cents_text 12345678929 = ''123456789.29''"
    by (simp add: cents_text_def show_nat.simps two_digits_def digit_char_lits)
  then show ?thesis using pacs008_amount_exact[of 12345678929 "''EUR''"] by simp
qed

text \<open>The shared amount mapper, which uses Decimal, gives the same cents for the same text, up to
  28 digits, so below 2^51 cents the pacs.008 adapter and the other adapters agree.\<close>

theorem amount_paths_agree:
  assumes "c < 10 ^ 28" "length ccy = 3"
  shows "map_amount (Some (amount_node ccy (cents_text c))) =
      Inr (Some \<lparr>ma_amount_minor = int c, ma_currency = ccy\<rparr>) \<and>
    (c \<ge> 2 ^ 51 \<or> p8_map_amount (Some (amount_node ccy (cents_text c))) =
       map_amount (Some (amount_node ccy (cents_text c))))"
proof -
  have m: "map_amount (Some (amount_node ccy (cents_text c))) =
      Inr (Some \<lparr>ma_amount_minor = int c, ma_currency = ccy\<rparr>)"
    using assms minor_of_cents[OF assms(1)]
    by (simp add: ccy_nonempty map_amount_def amount_node_def attr_def mk_amount_def strip_cents dget_opt_def text_of_def)
  have "p8_map_amount (Some (amount_node ccy (cents_text c))) =
      Inr (Some \<lparr>ma_amount_minor = int c, ma_currency = ccy\<rparr>)" if "c < 2 ^ 51"
    using assms(2) p8_minor_cents[OF that]
    by (simp add: ccy_nonempty p8_map_amount_def amount_node_def attr_def mk_amount_def strip_cents dget_opt_def)
  then show ?thesis using m by fastforce
qed

theorem amount_paths_agree_witness:
  "map_amount (Some (amount_node ''USD'' ''0.07'')) = Inr (Some \<lparr>ma_amount_minor = 7, ma_currency = ''USD''\<rparr>)"
proof -
  have "cents_text 7 = ''0.07''"
    by (simp add: cents_text_def show_nat.simps two_digits_def digit_char_lits)
  then show ?thesis using amount_paths_agree[of 7 "''USD''"] by simp
qed

text \<open>With a third decimal the two paths differ: for the text 1.015 the float path of pacs.008 yields
  101 minor units, the Decimal path 102.\<close>

theorem amount_paths_diverge:
  "p8_map_amount (Some (amount_node ''EUR'' ''1.015'')) = Inr (Some \<lparr>ma_amount_minor = 101, ma_currency = ''EUR''\<rparr>) \<and>
   map_amount (Some (amount_node ''EUR'' ''1.015'')) = Inr (Some \<lparr>ma_amount_minor = 102, ma_currency = ''EUR''\<rparr>)"
  by (simp add: p8_map_amount_def map_amount_def amount_node_def attr_def mk_amount_def text_of_def
      p8_minor_1015 minor_of_1015 parse_1015 dget_opt_def)

text \<open>The pacs.008 amount mapper does not return for an infinite amount: the text inf, which float
  accepts, makes it raise OverflowError, which its handler for ValueError does not catch, while
  the shared mapper turns the same text into 0.\<close>

theorem pacs008_amount_overflow_escapes:
  "p8_map_amount (Some (amount_node ''EUR'' ''inf'')) =
     Inl (OverflowError ''cannot convert float infinity to integer'') \<and>
   map_amount (Some (amount_node ''EUR'' ''inf'')) = Inr (Some \<lparr>ma_amount_minor = 0, ma_currency = ''EUR''\<rparr>)"
  by code_simp

text \<open>The private party, account, agent and address mappers of the pacs.008 adapter compute the same
  as the shared ones of parties.py, and its remittance differs only in leaving out the reference.\<close>

theorem pacs008_mappers_agree:
  "p8_map_party el path = map_party el path \<and> p8_map_account el path = map_account el path \<and>
   p8_map_agent el path = map_agent el path \<and> p8_map_address el path = map_address el path \<and>
   map_option ri_unstructured (p8_map_remittance el path) = map_option ri_unstructured (map_remittance el path)"
  by (cases el) (simp_all add: p8_party_eq p8_account_eq p8_agent_eq p8_address_eq p8_map_remittance_def
      map_remittance_def p8_text_eq p8_children_eq)

text \<open>The structured creditor reference is not read: when CdtrRefInf has only child elements (no text
  of its own, as in the ISO schema, where the reference is in its Ref child) the mapped reference
  is None.\<close>

theorem structured_reference_dropped:
  assumes "child (child (Some el) ''Strd'') ''CdtrRefInf'' = Some info" "strip (dget_opt (x_text info)) = []"
  shows "map_option ri_reference (map_remittance (Some el) path) = Some None"
  using assms by (auto simp: map_remittance_def child_text_def text_of_def dget_opt_def split: option.splits)

theorem structured_reference_dropped_witness:
  "map_option ri_reference (map_remittance (Some (Node (Some ''RmtInf'') [] None
     [Node (Some ''Strd'') [] None [Node (Some ''CdtrRefInf'') [] None
        [Node (Some ''Ref'') [] (Some ''RF18539007547034'') [] None] None] None] None)) ''/p'') = Some None"
  by (rule structured_reference_dropped[where info = "Node (Some ''CdtrRefInf'') [] None
        [Node (Some ''Ref'') [] (Some ''RF18539007547034'') [] None] None"])
    (simp_all add: child_def extract_localname_def dget_opt_def)

lemma document_namespace:
  "x_tag rt = Some t \<Longrightarrow> split_tag t = (ns20022 k, ''Document'') \<Longrightarrow> extract_namespace rt = Some (ns20022 k)"
  by (auto simp: extract_namespace_def split_tag_def ns20022_def split: if_splits)

text \<open>C37: Dispatch is by exact version. The default registry holds six messages. The identifier of each
  accepts a root element if and only if it is a Document in exactly the namespace of that version, and
  then answers that version; a document it accepts is dispatched to it, and no other registered message
  accepts that document. Whether or not there is a document, the lookups by identifier and by namespace
  both find the message.\<close>

theorem dispatch_exact_version:
  assumes "(k, m) \<in> set (by_identifier build_default_registry)"
  shows "map fst (by_identifier build_default_registry) = [''pacs.008.001.08'', ''pain.001.001.13'', ''pacs.002.001.16'',
      ''pacs.009.001.13'', ''camt.053.001.14'', ''camt.054.001.14''] \<and>
    mdf_version (reg_definition m) = k \<and> mdf_namespace (reg_definition m) = ns20022 k \<and>
    (reg_identifier m rt = Inr v \<longleftrightarrow>
      v = reg_version_obj m \<and> (\<exists>t. x_tag rt = Some t \<and> split_tag t = (ns20022 k, ''Document''))) \<and>
    (reg_identifier m rt = Inr v \<longrightarrow> resolve_root build_default_registry rt = Inr m) \<and>
    (\<forall>(k', m')\<in>set (by_identifier build_default_registry). \<forall>v'.
      reg_identifier m rt = Inr v \<longrightarrow> reg_identifier m' rt = Inr v' \<longrightarrow> k' = k \<and> m' = m \<and> v' = v) \<and>
    resolve build_default_registry k = Inr m \<and> resolve_namespace build_default_registry (ns20022 k) = Inr m"
proof -
  have km: "(k, m) \<in> set default_entries" using assms by (simp add: default_by_identifier)
  note accepts = default_identify_iff[OF km, of rt v]
  note lookup = default_entry_lookup[OF km]
  have ns: "resolve_namespace build_default_registry (ns20022 k) = Inr m" by (simp add: resolve_by_namespace lookup)
  have root: "resolve_root build_default_registry rt = Inr m" if "reg_identifier m rt = Inr v"
  proof -
    from that accepts obtain t where "x_tag rt = Some t" "split_tag t = (ns20022 k, ''Document'')" by auto
    then have "extract_namespace rt = Some (ns20022 k)" by (rule document_namespace)
    then show ?thesis using ns by (simp add: resolve_root_def dget_opt_def) (simp add: ns20022_def)
  qed
  have unique: "k' = k \<and> m' = m \<and> v' = v"
    if m': "(k', m') \<in> set default_entries" "reg_identifier m rt = Inr v" "reg_identifier m' rt = Inr v'" for k' m' v'
  proof -
    have "v' = reg_version_obj m'" and "\<exists>t. x_tag rt = Some t \<and> split_tag t = (ns20022 k', ''Document'')"
      using default_identify_iff[OF m'(1), of rt v'] m'(3) by auto
    with m'(2) accepts have "k' = k" and "v' = reg_version_obj m'" by (auto simp: ns20022_inj)
    then show ?thesis using lookup default_entry_lookup[OF m'(1)] m'(2) accepts by simp
  qed
  have d: "mdf_version (reg_definition m) = k" "mdf_namespace (reg_definition m) = ns20022 k"
    using default_entry_facts km by auto
  show ?thesis
    unfolding default_by_identifier default_identifiers
    using accepts root unique ns lookup d by (auto simp: resolve_def default_by_identifier)
qed

theorem dispatch_exact_version_witness:
  "\<exists>m. resolve build_default_registry ''pain.001.001.13'' = Inr m \<and>
     reg_identifier m (Node (Some ''{urn:iso:std:iso:20022:tech:xsd:pain.001.001.13}Document'') [] None [] None) =
       Inr (reg_version_obj m) \<and>
     resolve_root build_default_registry (Node (Some ''{urn:iso:std:iso:20022:tech:xsd:pain.001.001.13}Document'') [] None [] None) = Inr m"
proof -
  let ?rt = "Node (Some ''{urn:iso:std:iso:20022:tech:xsd:pain.001.001.13}Document'') [] None [] None"
  have "''pain.001.001.13'' \<in> set (map fst default_entries)" unfolding default_identifiers by simp
  then obtain m where "(''pain.001.001.13'', m) \<in> set default_entries" by auto
  then have m: "(''pain.001.001.13'', m) \<in> set (by_identifier build_default_registry)" by (simp add: default_by_identifier)
  have "split_tag ''{urn:iso:std:iso:20022:tech:xsd:pain.001.001.13}Document'' = (ns20022 ''pain.001.001.13'', ''Document'')"
    by code_simp
  with dispatch_exact_version[OF m, of ?rt "reg_version_obj m"] show ?thesis by (intro exI[of _ m]) simp
qed

text \<open>Ingestion is bounded and refuses entity declarations: a document that secure_parse returns came
  from a non-empty payload of at most max_bytes bytes without a DOCTYPE or ENTITY marker in any
  case, and every refusal carries a code of the XML taxonomy.\<close>

theorem secure_parse_safe:
  "case secure_parse fs di data n of
     Inr doc \<Rightarrow> (\<exists>d. data = Some d \<and> d \<noteq> [] \<and> length d \<le> n \<and> \<not> contains ''<!DOCTYPE'' (upper d) \<and>
        \<not> contains ''<!ENTITY'' (upper d) \<and> fs d = Inr (sd_root doc))
   | Inl e \<Rightarrow> xml_error_code e \<noteq> None"
  using secure_parse_Inr[of fs di data n] secure_parse_Inl[of fs di data n]
  by (auto simp: DTD_MARKERS_def split: sum.splits)

definition sample_now :: pydatetime where
  "sample_now = \<lparr>t_date = \<lparr>d_year = 2026, d_month = 1, d_day = 15\<rparr>, t_hour = 9, t_minute = 30, t_second = 0,
     t_micro = 0, t_offset = Some 0\<rparr>"

definition sample_pain :: xml where
  "sample_pain = Node (Some ''Document'') [] None [Node (Some ''CstmrCdtTrfInitn'') [] None
     [Node (Some ''PmtInf'') [] None [Node (Some ''CdtTrfTxInf'') [] None [] None,
        Node (Some ''CdtTrfTxInf'') [] None [] None] None] None] None"

text \<open>The pain.001 adapter flattens its payment blocks without losing a transaction: a mapped message
  has as many transactions as there are CdtTrfTxInf elements in all PmtInf blocks, and each one
  carries the debtor of one of the blocks.\<close>

theorem pain001_flattens_blocks:
  assumes "map_pain001_to_canonical now rt version = Inr msg"
  defines "blocks \<equiv> children (child (Some rt) (ver_root_element version)) ''PmtInf''"
  shows "length (pm_transactions msg) = sum_list (map (\<lambda>b. length (children (Some b) ''CdtTrfTxInf'')) blocks) \<and>
    (\<forall>t\<in>set (pm_transactions msg). \<exists>b\<in>set blocks.
       tx_debtor t = map_party (child (Some b) ''Dbtr'') ''/CstmrCdtTrfInitn/PmtInf/Dbtr'')"
proof -
  obtain bs where bs: "mapR p1_map_block blocks = Inr bs" and m: "pm_transactions msg = concat bs"
    using assms by (auto simp: map_pain001_to_canonical_def Let_def bindR_Inr mk_payment_message_def)
  have "length (concat bs) = sum_list (map (\<lambda>b. length (children (Some b) ''CdtTrfTxInf'')) blocks)"
    using p1_block_facts by (intro mapR_concat_length[OF bs]) auto
  moreover have "\<exists>b\<in>set blocks. tx_debtor t = map_party (child (Some b) ''Dbtr'') ''/CstmrCdtTrfInitn/PmtInf/Dbtr''"
    if t: "t \<in> set (concat bs)" for t
  proof -
    from t obtain txs where txs: "txs \<in> set bs" "t \<in> set txs" by auto
    from mapR_in[OF bs txs(1)] obtain b where "b \<in> set blocks" "p1_map_block b = Inr txs" by blast
    with p1_block_facts[of b txs] txs(2) show ?thesis by blast
  qed
  ultimately show ?thesis using m by simp
qed

theorem pain001_flattens_blocks_witness:
  "\<exists>msg. map_pain001_to_canonical sample_now sample_pain (snd (hd SUPPORTED_PAIN_001_VERSIONS)) = Inr msg \<and>
     length (pm_transactions msg) = 2"
proof -
  let ?v = "snd (hd SUPPORTED_PAIN_001_VERSIONS)"
  obtain msg where m: "map_pain001_to_canonical sample_now sample_pain ?v = Inr msg"
    by (simp add: map_pain001_to_canonical_def sample_pain_def version_tables child_def children_def
        extract_localname_def p1_map_block_def p1_map_transaction_def map_amount_def Let_def)
  have "sum_list (map (\<lambda>b. length (children (Some b) ''CdtTrfTxInf''))
      (children (child (Some sample_pain) (ver_root_element ?v)) ''PmtInf'')) = 2"
    by (simp add: sample_pain_def version_tables child_def children_def extract_localname_def)
  then show ?thesis using pain001_flattens_blocks[OF m] m by auto
qed

text \<open>The camt.053 adapter keeps every entry: a mapped statement message reports as many entries as
  there are Ntry elements in all of its statements.\<close>

theorem camt053_keeps_entries:
  assumes "map_camt053_to_account_report rt version = Inr bundle"
  shows "bundle_number_of_entries bundle =
    sum_list (map (\<lambda>s. length (children (Some s) ''Ntry'')) (children (child (Some rt) ''BkToCstmrStmt'') ''Stmt''))"
proof -
  obtain reports where r: "mapR (map_statement version (child (child (Some rt) ''BkToCstmrStmt'') ''GrpHdr''))
      (children (child (Some rt) ''BkToCstmrStmt'') ''Stmt'') = Inr reports" and b: "bu_reports bundle = reports"
    using assms by (auto simp: map_camt053_to_account_report_def Let_def bindR_Inr mk_bundle_def)
  have e: "length (rp_entries rep) = length (children (Some s) ''Ntry'')"
    if "map_statement v g s = Inr rep" for v g s rep
    using that by (auto simp: map_statement_def Let_def bindR_Inr dest: mapR_Inr_length)
  have "map (length \<circ> rp_entries) reports =
      map (\<lambda>s. length (children (Some s) ''Ntry'')) (children (child (Some rt) ''BkToCstmrStmt'') ''Stmt'')"
    using mapR_Inr_length[OF r] e[OF mapR_Inr_nth[OF r]] by (intro nth_equalityI) auto
  moreover have "report_number_of_entries = length \<circ> rp_entries" by (auto simp: report_number_of_entries_def)
  ultimately show ?thesis by (simp add: bundle_number_of_entries_def b)
qed

theorem camt053_keeps_entries_witness:
  "\<exists>b. map_camt053_to_account_report (Node (Some ''Document'') [] None [Node (Some ''BkToCstmrStmt'') [] None
     [Node (Some ''Stmt'') [] None [Node (Some ''Ntry'') [] None [] None] None] None] None)
       (snd (hd SUPPORTED_CAMT_053_VERSIONS)) = Inr b \<and> bundle_number_of_entries b = 1"
proof -
  let ?x = "Node (Some ''Document'') [] None [Node (Some ''BkToCstmrStmt'') [] None
     [Node (Some ''Stmt'') [] None [Node (Some ''Ntry'') [] None [] None] None] None] None"
  let ?v = "snd (hd SUPPORTED_CAMT_053_VERSIONS)"
  obtain b where b: "map_camt053_to_account_report ?x ?v = Inr b"
    by (simp add: map_camt053_to_account_report_def child_def children_def extract_localname_def
        map_statement_def map_entry_def map_amount_def Let_def)
  have "sum_list (map (\<lambda>s. length (children (Some s) ''Ntry'')) (children (child (Some ?x) ''BkToCstmrStmt'') ''Stmt'')) = 1"
    by (simp add: child_def children_def extract_localname_def)
  with camt053_keeps_entries[OF b] b show ?thesis by auto
qed

end
