(* ===== verification/PO_Correlation.thy ===== *)
theory PO_Correlation
  imports PO_MatchModels
begin

text \<open>
  \<open>iso_engine/lifecycle/correlation.py\<close> and \<open>iso_engine/account\<close>: whether two messages belong to
  one payment lifecycle, and whether an account entry settles a lifecycle. Both collect evidence
  and conflicts from identifiers and classify deterministically. Evidence and conflict codes
  are the strings of the source.
\<close>

section \<open>Lifecycle correlation\<close>

definition ORIGINAL_MESSAGE_ID_EXACT :: string where "ORIGINAL_MESSAGE_ID_EXACT = ''ORIGINAL_MESSAGE_ID_EXACT''"
definition MESSAGE_ID_EXACT :: string where "MESSAGE_ID_EXACT = ''MESSAGE_ID_EXACT''"
definition TRANSACTION_ID_EXACT :: string where "TRANSACTION_ID_EXACT = ''TRANSACTION_ID_EXACT''"
definition END_TO_END_ID_EXACT :: string where "END_TO_END_ID_EXACT = ''END_TO_END_ID_EXACT''"
definition INSTRUCTION_ID_EXACT :: string where "INSTRUCTION_ID_EXACT = ''INSTRUCTION_ID_EXACT''"
definition AMOUNT_EXACT :: string where "AMOUNT_EXACT = ''AMOUNT_EXACT''"
definition CURRENCY_EXACT :: string where "CURRENCY_EXACT = ''CURRENCY_EXACT''"
definition REFERENCE_EXACT :: string where "REFERENCE_EXACT = ''REFERENCE_EXACT''"
definition ACCOUNT_EXACT :: string where "ACCOUNT_EXACT = ''ACCOUNT_EXACT''"

lemmas correlation_codes = ORIGINAL_MESSAGE_ID_EXACT_def MESSAGE_ID_EXACT_def TRANSACTION_ID_EXACT_def
  END_TO_END_ID_EXACT_def INSTRUCTION_ID_EXACT_def AMOUNT_EXACT_def CURRENCY_EXACT_def
  REFERENCE_EXACT_def ACCOUNT_EXACT_def

record CorrelationProfile =
  cp_message_id :: "string option"
  cp_original_message_id :: "string option"
  cp_instruction_id :: "string option"
  cp_end_to_end_id :: "string option"
  cp_transaction_id :: "string option"
  cp_amount :: "int option"
  cp_currency :: "string option"
  cp_reference :: "string option"
  cp_account :: "string option"
  cp_debtor_account :: "string option"
  cp_creditor_account :: "string option"

record CorrelationResult =
  co_status :: CorrelationStatus
  co_evidence :: "string list"
  co_conflicts :: "string list"

definition account_iban :: "Account option \<Rightarrow> string option" where
  "account_iban a = Option.bind a ac_iban"

definition account_id :: "Account option \<Rightarrow> string option" where
  "account_id a = por (account_iban a) (Option.bind a ac_other_identification)"

definition profile_from_transaction :: "PaymentTransaction \<Rightarrow> string option \<Rightarrow> CorrelationProfile" where
  "profile_from_transaction tx message_id =
     \<lparr>cp_message_id = message_id, cp_original_message_id = None,
      cp_instruction_id = tx_instruction_id tx, cp_end_to_end_id = tx_end_to_end_id tx,
      cp_transaction_id = tx_transaction_id tx,
      cp_amount = map_option ma_amount_minor (tx_amount tx),
      cp_currency = map_option ma_currency (tx_amount tx),
      cp_reference = por (Option.bind (tx_remittance tx) ri_reference)
        (case tx_remittance tx of None \<Rightarrow> None
         | Some r \<Rightarrow> (case ri_unstructured r of [] \<Rightarrow> None | u # _ \<Rightarrow> Some u)),
      cp_account = por (account_iban (tx_creditor_account tx)) (account_iban (tx_debtor_account tx)),
      cp_debtor_account = account_id (tx_debtor_account tx),
      cp_creditor_account = account_id (tx_creditor_account tx)\<rparr>"

text \<open>For a status report the field \<open>account\<close> receives the transaction id of the reference.\<close>

definition profile_from_status :: "LifecycleStatusReport \<Rightarrow> TransactionStatus \<Rightarrow> CorrelationProfile" where
  "profile_from_status report tx =
     \<lparr>cp_message_id = lr_message_id report, cp_original_message_id = lr_original_message_id report,
      cp_instruction_id = ts_original_instruction_id tx,
      cp_end_to_end_id = ts_original_end_to_end_id tx,
      cp_transaction_id = ts_original_transaction_id tx,
      cp_amount = map_option ma_amount_minor (ts_amount tx),
      cp_currency = map_option ma_currency (ts_amount tx),
      cp_reference = Option.bind (ts_reference tx) rr_end_to_end_id,
      cp_account = Option.bind (ts_reference tx) rr_transaction_id,
      cp_debtor_account = None, cp_creditor_account = None\<rparr>"

definition profile_from_status_report :: "LifecycleStatusReport \<Rightarrow> CorrelationProfile list" where
  "profile_from_status_report report = map (profile_from_status report) (lr_transaction_statuses report)"

definition profile_from_message :: "PaymentMessage \<Rightarrow> CorrelationProfile list" where
  "profile_from_message m = map (\<lambda>tx. profile_from_transaction tx (pm_message_id m)) (pm_transactions m)"

text \<open>Two present identifiers agree or conflict; a missing one says nothing.\<close>

definition same_present :: "string option \<Rightarrow> string option \<Rightarrow> bool" where
  "same_present a b \<longleftrightarrow> truthy a \<and> truthy b \<and> a = b"

definition differ_present :: "string option \<Rightarrow> string option \<Rightarrow> bool" where
  "differ_present a b \<longleftrightarrow> truthy a \<and> truthy b \<and> a \<noteq> b"

definition message_link :: "CorrelationProfile \<Rightarrow> CorrelationProfile \<Rightarrow> string list" where
  "message_link a b =
     (if same_present (cp_message_id a) (cp_original_message_id b) then [ORIGINAL_MESSAGE_ID_EXACT]
      else if same_present (cp_original_message_id a) (cp_message_id b) then [ORIGINAL_MESSAGE_ID_EXACT]
      else if same_present (cp_message_id a) (cp_message_id b) then [MESSAGE_ID_EXACT]
      else [])"

definition identifier_evidence :: "string option \<Rightarrow> string option \<Rightarrow> string \<Rightarrow> string list" where
  "identifier_evidence a b code = (if same_present a b then [code] else [])"

definition identifier_conflict :: "string option \<Rightarrow> string option \<Rightarrow> string \<Rightarrow> string list" where
  "identifier_conflict a b label = (if differ_present a b then [upper label @ ''_CONFLICT''] else [])"

definition amount_evidence :: "CorrelationProfile \<Rightarrow> CorrelationProfile \<Rightarrow> string list" where
  "amount_evidence a b =
     (if cp_amount a \<noteq> None \<and> cp_amount b \<noteq> None \<and> cp_amount a = cp_amount b \<and>
         same_present (cp_currency a) (cp_currency b)
      then [AMOUNT_EXACT, CURRENCY_EXACT] else [])"

definition reference_evidence :: "CorrelationProfile \<Rightarrow> CorrelationProfile \<Rightarrow> string list" where
  "reference_evidence a b =
     (if truthy (cp_reference a) \<and> truthy (cp_reference b) then
        (let ra = normalize_reference (map_option RStr (cp_reference a));
             rb = normalize_reference (map_option RStr (cp_reference b)) in
         if truthy ra \<and> ra = rb then [REFERENCE_EXACT] else [])
      else [])"

definition account_evidence :: "CorrelationProfile \<Rightarrow> CorrelationProfile \<Rightarrow> string list" where
  "account_evidence a b =
     (if truthy (cp_account a) \<and> truthy (cp_account b) \<and>
         map_option (remove_char CHR '' '') (cp_account a) = map_option (remove_char CHR '' '') (cp_account b)
      then [ACCOUNT_EXACT] else [])"

definition correlation_evidence :: "CorrelationProfile \<Rightarrow> CorrelationProfile \<Rightarrow> string list" where
  "correlation_evidence a b = message_link a b @
     identifier_evidence (cp_transaction_id a) (cp_transaction_id b) TRANSACTION_ID_EXACT @
     identifier_evidence (cp_end_to_end_id a) (cp_end_to_end_id b) END_TO_END_ID_EXACT @
     identifier_evidence (cp_instruction_id a) (cp_instruction_id b) INSTRUCTION_ID_EXACT @
     amount_evidence a b @ reference_evidence a b @ account_evidence a b"

definition correlation_conflicts :: "CorrelationProfile \<Rightarrow> CorrelationProfile \<Rightarrow> string list" where
  "correlation_conflicts a b =
     identifier_conflict (cp_transaction_id a) (cp_transaction_id b) ''transaction_id'' @
     identifier_conflict (cp_end_to_end_id a) (cp_end_to_end_id b) ''end_to_end_id'' @
     identifier_conflict (cp_instruction_id a) (cp_instruction_id b) ''instruction_id''"

definition correlation_status :: "string list \<Rightarrow> string list \<Rightarrow> CorrelationStatus" where
  "correlation_status evidence conflicts =
     (if conflicts \<noteq> [] then CONFLICT
      else if list_ex (\<lambda>e. e \<in> set evidence) [ORIGINAL_MESSAGE_ID_EXACT, MESSAGE_ID_EXACT, TRANSACTION_ID_EXACT]
        then CORRELATED
      else if list_ex (\<lambda>e. e \<in> set evidence) [END_TO_END_ID_EXACT, INSTRUCTION_ID_EXACT]
        then POSSIBLE_CORRELATION
      else if AMOUNT_EXACT \<in> set evidence \<and> CURRENCY_EXACT \<in> set evidence then POSSIBLE_CORRELATION
      else CORR_UNRESOLVED)"

definition correlate_profiles :: "CorrelationProfile \<Rightarrow> CorrelationProfile \<Rightarrow> CorrelationResult" where
  "correlate_profiles a b =
     (let evidence = correlation_evidence a b; conflicts = correlation_conflicts a b in
      \<lparr>co_status = correlation_status evidence conflicts, co_evidence = evidence, co_conflicts = conflicts\<rparr>)"

section \<open>Account entries\<close>

record LifecycleAccountContext =
  lc_message_id :: "string option"
  lc_original_message_id :: "string option"
  lc_transaction_id :: "string option"
  lc_end_to_end_id :: "string option"
  lc_instruction_id :: "string option"
  lc_uetr :: "string option"
  lc_account_servicer_reference :: "string option"
  lc_reference :: "string option"
  lc_amount_minor :: "int option"
  lc_currency :: "string option"
  lc_debtor_account :: "string option"
  lc_creditor_account :: "string option"

record EntryIdentity =
  ei_uetr :: "string option"
  ei_transaction_id :: "string option"
  ei_end_to_end_id :: "string option"
  ei_instruction_id :: "string option"
  ei_account_servicer_reference :: "string option"
  ei_entry_reference :: "string option"
  ei_reference :: "string option"
  ei_amount_minor :: "int option"
  ei_currency :: "string option"
  ei_account :: "string option"

definition entry_identity :: "AccountEntry \<Rightarrow> AccountReference option \<Rightarrow> EntryIdentity" where
  "entry_identity e account =
     \<lparr>ei_uetr = ae_uetr e, ei_transaction_id = ae_transaction_id e,
      ei_end_to_end_id = ae_end_to_end_id e, ei_instruction_id = ae_instruction_id e,
      ei_account_servicer_reference = ae_account_servicer_reference e,
      ei_entry_reference = ae_entry_reference e, ei_reference = ae_remittance_reference e,
      ei_amount_minor = map_option ma_amount_minor (ae_amount e),
      ei_currency = por (ae_currency e) (map_option ma_currency (ae_amount e)),
      ei_account = por (Option.bind account ar_iban) (ae_account_servicer_reference e)\<rparr>"

definition normalize_ref :: "string option \<Rightarrow> string option" where
  "normalize_ref v = normalize_reference (map_option RStr v)"

definition RECON_UETR_EXACT :: string where "RECON_UETR_EXACT = ''RECON-UETR-EXACT''"
definition RECON_TXID_EXACT :: string where "RECON_TXID_EXACT = ''RECON-TXID-EXACT''"
definition RECON_E2E_EXACT :: string where "RECON_E2E_EXACT = ''RECON-E2E-EXACT''"
definition RECON_INSTR_EXACT :: string where "RECON_INSTR_EXACT = ''RECON-INSTR-EXACT''"
definition RECON_ACCOUNT_SERVICER_EXACT :: string where "RECON_ACCOUNT_SERVICER_EXACT = ''RECON-ACCOUNT-SERVICER-EXACT''"
definition RECON_AMOUNT_EXACT :: string where "RECON_AMOUNT_EXACT = ''RECON-AMOUNT-EXACT''"
definition RECON_CURRENCY_EXACT :: string where "RECON_CURRENCY_EXACT = ''RECON-CURRENCY-EXACT''"
definition RECON_ACCOUNT_EXACT :: string where "RECON_ACCOUNT_EXACT = ''RECON-ACCOUNT-EXACT''"
definition RECON_REFERENCE_NORMALIZED_EXACT :: string where "RECON_REFERENCE_NORMALIZED_EXACT = ''RECON-REFERENCE-NORMALIZED-EXACT''"
definition RECON_CREDIT_DEBIT_EXPECTED :: string where "RECON_CREDIT_DEBIT_EXPECTED = ''RECON-CREDITDEBIT-EXPECTED''"
definition RECON_AMOUNT_CONFLICT :: string where "RECON_AMOUNT_CONFLICT = ''RECON-AMOUNT-CONFLICT''"
definition RECON_CURRENCY_CONFLICT :: string where "RECON_CURRENCY_CONFLICT = ''RECON-CURRENCY-CONFLICT''"
definition RECON_ACCOUNT_CONFLICT :: string where "RECON_ACCOUNT_CONFLICT = ''RECON-ACCOUNT-CONFLICT''"
definition RECON_ID_CONFLICT :: string where "RECON_ID_CONFLICT = ''RECON-ID-CONFLICT''"
definition RECON_CREDIT_DEBIT_CONFLICT :: string where "RECON_CREDIT_DEBIT_CONFLICT = ''RECON-CREDITDEBIT-CONFLICT''"

lemmas recon_codes = RECON_UETR_EXACT_def RECON_TXID_EXACT_def RECON_E2E_EXACT_def RECON_INSTR_EXACT_def
  RECON_ACCOUNT_SERVICER_EXACT_def RECON_AMOUNT_EXACT_def RECON_CURRENCY_EXACT_def RECON_ACCOUNT_EXACT_def
  RECON_REFERENCE_NORMALIZED_EXACT_def RECON_CREDIT_DEBIT_EXPECTED_def RECON_AMOUNT_CONFLICT_def
  RECON_CURRENCY_CONFLICT_def RECON_ACCOUNT_CONFLICT_def RECON_ID_CONFLICT_def RECON_CREDIT_DEBIT_CONFLICT_def

definition STRONG_EXACT :: "string list" where
  "STRONG_EXACT = [RECON_UETR_EXACT, RECON_TXID_EXACT, RECON_E2E_EXACT, RECON_INSTR_EXACT]"

record AccountReconciliationResult =
  rr_classification :: AccountReconciliationStatus
  rr_evidence :: "string list"
  rr_conflicts :: "string list"
  rr_match_score :: rat

text \<open>\<open>_compare\<close> appends to the evidence or to the conflicts; a pair of lists carries both.\<close>

type_synonym findings = "string list \<times> string list"

definition recon_compare :: "string option \<Rightarrow> string option \<Rightarrow> string \<Rightarrow> findings \<Rightarrow> findings" where
  "recon_compare a b code f = (case f of (evidence, conflicts) \<Rightarrow>
     if \<not> truthy a \<or> \<not> truthy b then (evidence, conflicts)
     else if upper (strip (dget_opt a)) = upper (strip (dget_opt b)) then (evidence @ [code], conflicts)
     else (evidence, conflicts @ [RECON_ID_CONFLICT]))"

definition plain_account :: "string \<Rightarrow> string" where
  "plain_account a = upper (remove_char CHR ''-'' (remove_char CHR '' '' a))"

definition same_account :: "string \<Rightarrow> string \<Rightarrow> bool" where
  "same_account a b = (plain_account a = plain_account b)"

definition account_matches :: "string option \<Rightarrow> string option \<Rightarrow> bool" where
  "account_matches a b = (truthy a \<and> truthy b \<and> same_account (dget_opt a) (dget_opt b))"

definition expected_direction :: "string option \<Rightarrow> LifecycleAccountContext \<Rightarrow> CreditDebitIndicator option" where
  "expected_direction entry_account lc =
     (if \<not> truthy entry_account then None
      else if account_matches entry_account (lc_creditor_account lc) then Some CRDT
      else if account_matches entry_account (lc_debtor_account lc) then Some DBIT
      else None)"

definition RECON_WEIGHTS :: "(string, int) dict" where
  "RECON_WEIGHTS =
    [(RECON_UETR_EXACT, 40), (RECON_TXID_EXACT, 40), (RECON_E2E_EXACT, 30), (RECON_INSTR_EXACT, 20),
     (RECON_ACCOUNT_SERVICER_EXACT, 20), (RECON_ACCOUNT_EXACT, 15), (RECON_AMOUNT_EXACT, 20),
     (RECON_CURRENCY_EXACT, 10), (RECON_REFERENCE_NORMALIZED_EXACT, 15), (RECON_CREDIT_DEBIT_EXPECTED, 5)]"

definition recon_score :: "string list \<Rightarrow> rat" where
  "recon_score evidence =
     (let total = sum_list (map snd RECON_WEIGHTS);
          got = sum_list (map (\<lambda>code. dget RECON_WEIGHTS code 0) evidence)
      in if total = 0 then 0 else fround2 (fl (fl (100 * of_int got) / of_int total)))"

definition recon_classify :: "string list \<Rightarrow> string list \<Rightarrow> AccountReconciliationStatus" where
  "recon_classify evidence conflicts =
     (let has_strong = list_ex (\<lambda>e. e \<in> set STRONG_EXACT) evidence;
          has_amount = (RECON_AMOUNT_EXACT \<in> set evidence);
          has_currency = (RECON_CURRENCY_EXACT \<in> set evidence) in
      if RECON_CURRENCY_CONFLICT \<in> set conflicts then CURRENCY_MISMATCH
      else if RECON_AMOUNT_CONFLICT \<in> set conflicts then AMOUNT_MISMATCH
      else if RECON_ACCOUNT_CONFLICT \<in> set conflicts then ACCOUNT_MISMATCH
      else if RECON_CREDIT_DEBIT_CONFLICT \<in> set conflicts \<or> RECON_ID_CONFLICT \<in> set conflicts then ARS_REVIEW_REQUIRED
      else if has_strong \<and> has_amount \<and> has_currency then RECONCILED
      else if has_strong \<and> (has_amount \<or> has_currency) then POSSIBLE_RECONCILIATION
      else if has_amount \<and> has_currency then POSSIBLE_RECONCILIATION
      else if has_strong then POSSIBLE_RECONCILIATION
      else UNMATCHED_ACCOUNT_ENTRY)"

definition identifier_findings :: "EntryIdentity \<Rightarrow> LifecycleAccountContext \<Rightarrow> findings" where
  "identifier_findings ident lc =
     recon_compare (ei_account_servicer_reference ident) (lc_account_servicer_reference lc) RECON_ACCOUNT_SERVICER_EXACT
    (recon_compare (ei_instruction_id ident) (lc_instruction_id lc) RECON_INSTR_EXACT
    (recon_compare (ei_end_to_end_id ident) (lc_end_to_end_id lc) RECON_E2E_EXACT
    (recon_compare (ei_transaction_id ident) (lc_transaction_id lc) RECON_TXID_EXACT
    (recon_compare (ei_uetr ident) (lc_uetr lc) RECON_UETR_EXACT ([], [])))))"

definition add_when :: "bool \<Rightarrow> string \<Rightarrow> string list \<Rightarrow> string list" where
  "add_when b code xs = (if b then xs @ [code] else xs)"

definition amount_findings :: "EntryIdentity \<Rightarrow> LifecycleAccountContext \<Rightarrow> findings \<Rightarrow> findings" where
  "amount_findings ident lc f = (case (ei_amount_minor ident, lc_amount_minor lc) of
     (Some a, Some b) \<Rightarrow> (if a = b then (fst f @ [RECON_AMOUNT_EXACT], snd f) else (fst f, snd f @ [RECON_AMOUNT_CONFLICT]))
   | _ \<Rightarrow> f)"

definition currency_findings :: "EntryIdentity \<Rightarrow> LifecycleAccountContext \<Rightarrow> findings \<Rightarrow> findings" where
  "currency_findings ident lc f =
     (if truthy (ei_currency ident) \<and> truthy (lc_currency lc) then
        (if upper (dget_opt (ei_currency ident)) = upper (dget_opt (lc_currency lc))
         then (fst f @ [RECON_CURRENCY_EXACT], snd f) else (fst f, snd f @ [RECON_CURRENCY_CONFLICT]))
      else f)"

definition account_findings ::
  "string option \<Rightarrow> CreditDebitIndicator option \<Rightarrow> LifecycleAccountContext \<Rightarrow> findings \<Rightarrow> findings" where
  "account_findings entry_account credit_debit lc f =
     (let expected = expected_direction entry_account lc;
          ev = add_when (account_matches entry_account (lc_debtor_account lc)) RECON_ACCOUNT_EXACT
              (add_when (account_matches entry_account (lc_creditor_account lc)) RECON_ACCOUNT_EXACT (fst f)) in
      if expected \<noteq> None \<and> credit_debit \<noteq> None then
        (if credit_debit = expected then (ev @ [RECON_CREDIT_DEBIT_EXPECTED], snd f)
         else (ev, snd f @ [RECON_CREDIT_DEBIT_CONFLICT]))
      else if truthy entry_account \<and> truthy (lc_creditor_account lc) \<and> truthy (lc_debtor_account lc) then
        (ev, add_when (\<not> account_matches entry_account (lc_creditor_account lc) \<and>
                       \<not> account_matches entry_account (lc_debtor_account lc)) RECON_ACCOUNT_CONFLICT (snd f))
      else (ev, snd f))"

definition reference_findings :: "EntryIdentity \<Rightarrow> LifecycleAccountContext \<Rightarrow> findings \<Rightarrow> findings" where
  "reference_findings ident lc f =
     (add_when (truthy (ei_reference ident) \<and> truthy (lc_reference lc) \<and>
         normalize_ref (ei_reference ident) = normalize_ref (lc_reference lc)) RECON_REFERENCE_NORMALIZED_EXACT (fst f), snd f)"

definition reconcile_account_entry ::
  "AccountEntry \<Rightarrow> AccountReference option \<Rightarrow> LifecycleAccountContext \<Rightarrow> AccountReconciliationResult" where
  "reconcile_account_entry e account lc =
     (let ident = entry_identity e account;
          entry_account = por (Option.bind account ar_iban) (Option.bind account ar_other_identification);
          f = reference_findings ident lc (account_findings entry_account (ae_credit_debit e) lc
                (currency_findings ident lc (amount_findings ident lc (identifier_findings ident lc)))) in
      \<lparr>rr_classification = recon_classify (fst f) (snd f), rr_evidence = fst f, rr_conflicts = snd f,
       rr_match_score = recon_score (fst f)\<rparr>)"

section \<open>Facts about correlation\<close>

lemma same_present_sym: "same_present a b = same_present b a"
  by (auto simp: same_present_def)

lemma differ_present_sym: "differ_present a b = differ_present b a"
  by (auto simp: differ_present_def)

lemma message_link_sym: "message_link b a = message_link a b"
  by (simp add: message_link_def same_present_sym[of "cp_message_id b"] same_present_sym[of "cp_original_message_id b"])

lemma correlation_evidence_sym: "correlation_evidence b a = correlation_evidence a b"
proof -
  have i: "identifier_evidence x y c = identifier_evidence y x c" for x y c
    by (simp add: identifier_evidence_def same_present_sym[of x])
  have "amount_evidence b a = amount_evidence a b"
    by (auto simp: amount_evidence_def same_present_sym[of "cp_currency b"])
  moreover have "reference_evidence b a = reference_evidence a b"
    by (auto simp: reference_evidence_def Let_def)
  moreover have "account_evidence b a = account_evidence a b"
    by (auto simp: account_evidence_def)
  ultimately show ?thesis
    unfolding correlation_evidence_def message_link_sym[of b a] i[of "cp_transaction_id b"]
      i[of "cp_end_to_end_id b"] i[of "cp_instruction_id b"] by simp
qed

lemma correlation_conflicts_sym: "correlation_conflicts b a = correlation_conflicts a b"
proof -
  have "identifier_conflict x y c = identifier_conflict y x c" for x y c
    by (simp add: identifier_conflict_def differ_present_sym[of x])
  then show ?thesis unfolding correlation_conflicts_def by metis
qed

lemma correlate_sym: "correlate_profiles b a = correlate_profiles a b"
  by (simp add: correlate_profiles_def correlation_evidence_sym[of b a] correlation_conflicts_sym[of b a])

lemma conflict_iff:
  "co_status (correlate_profiles a b) = CONFLICT \<longleftrightarrow>
     differ_present (cp_transaction_id a) (cp_transaction_id b) \<or>
     differ_present (cp_end_to_end_id a) (cp_end_to_end_id b) \<or>
     differ_present (cp_instruction_id a) (cp_instruction_id b)"
  by (auto simp: correlate_profiles_def Let_def correlation_status_def correlation_conflicts_def identifier_conflict_def)

lemma evidence_iff:
  "ORIGINAL_MESSAGE_ID_EXACT \<in> set (correlation_evidence a b) \<or> MESSAGE_ID_EXACT \<in> set (correlation_evidence a b) \<longleftrightarrow>
     message_link a b \<noteq> []"
  "TRANSACTION_ID_EXACT \<in> set (correlation_evidence a b) \<longleftrightarrow> same_present (cp_transaction_id a) (cp_transaction_id b)"
  by (auto simp: correlation_evidence_def message_link_def identifier_evidence_def amount_evidence_def
      reference_evidence_def account_evidence_def correlation_codes Let_def)

lemma correlated_iff:
  "co_status (correlate_profiles a b) = CORRELATED \<longleftrightarrow> correlation_conflicts a b = [] \<and>
     (message_link a b \<noteq> [] \<or> same_present (cp_transaction_id a) (cp_transaction_id b))"
proof -
  have "co_status (correlate_profiles a b) = CORRELATED \<longleftrightarrow> correlation_conflicts a b = [] \<and>
      (ORIGINAL_MESSAGE_ID_EXACT \<in> set (correlation_evidence a b) \<or> MESSAGE_ID_EXACT \<in> set (correlation_evidence a b) \<or>
       TRANSACTION_ID_EXACT \<in> set (correlation_evidence a b))"
    by (simp add: correlate_profiles_def Let_def correlation_status_def)
  then show ?thesis using evidence_iff[of a b] by blast
qed

end
