(* ===== verification/PO_CorrelationProps.thy ===== *)
theory PO_CorrelationProps
  imports PO_Correlation
begin

text \<open>
  What correlation and account reconciliation guarantee: symmetry, the exact conditions of a
  conflict and of a correlation, what a reconciled entry has in common with its lifecycle, and
  the range of the reconciliation score.
\<close>

section \<open>Where evidence and conflicts come from\<close>

text \<open>What one stage of the reconciliation may add to the evidence and to the conflicts.\<close>

definition extends :: "findings \<Rightarrow> findings \<Rightarrow> string set \<Rightarrow> string set \<Rightarrow> bool" where
  "extends f g E C \<longleftrightarrow> (\<exists>e c. fst g = fst f @ e \<and> snd g = snd f @ c \<and> set e \<subseteq> E \<and> set c \<subseteq> C)"

lemma extends_trans: "extends f g E C \<Longrightarrow> extends g h E' C' \<Longrightarrow> extends f h (E \<union> E') (C \<union> C')"
  unfolding extends_def by (metis Un_mono append.assoc set_append)

lemma recon_compare_result:
  "recon_compare a b code f =
     (if truthy a \<and> truthy b then
        (if upper (strip (dget_opt a)) = upper (strip (dget_opt b)) then (fst f @ [code], snd f)
         else (fst f, snd f @ [RECON_ID_CONFLICT])) else f)"
  by (cases f) (simp add: recon_compare_def)

lemma amount_findings_result:
  "amount_findings i lc f =
     (if ei_amount_minor i \<noteq> None \<and> lc_amount_minor lc \<noteq> None then
        (if ei_amount_minor i = lc_amount_minor lc then (fst f @ [RECON_AMOUNT_EXACT], snd f)
         else (fst f, snd f @ [RECON_AMOUNT_CONFLICT])) else f)"
  by (cases f) (auto simp: amount_findings_def split: option.splits)

definition conflict_codes :: "string set" where
  "conflict_codes = {RECON_ID_CONFLICT, RECON_AMOUNT_CONFLICT, RECON_CURRENCY_CONFLICT, RECON_ACCOUNT_CONFLICT,
     RECON_CREDIT_DEBIT_CONFLICT}"

lemma recon_compare_conflicts:
  "set (snd (recon_compare a b code f)) \<subseteq> insert RECON_ID_CONFLICT (set (snd f))"
  by (auto simp: recon_compare_result)

lemma conflicts_known: "set (rr_conflicts (reconcile_account_entry e acc lc)) \<subseteq> conflict_codes"
proof -
  let ?i = "entry_identity e acc"
  have i: "set (snd (identifier_findings ?i lc)) \<subseteq> {RECON_ID_CONFLICT}"
    unfolding identifier_findings_def by (auto dest!: subsetD[OF recon_compare_conflicts])
  have a: "set (snd (amount_findings ?i lc f)) \<subseteq> insert RECON_AMOUNT_CONFLICT (set (snd f))" for f
    by (auto simp: amount_findings_result)
  have c: "set (snd (currency_findings ?i lc f)) \<subseteq> insert RECON_CURRENCY_CONFLICT (set (snd f))" for f
    by (auto simp: currency_findings_def)
  have d: "set (snd (account_findings x cd lc f)) \<subseteq>
      insert RECON_ACCOUNT_CONFLICT (insert RECON_CREDIT_DEBIT_CONFLICT (set (snd f)))" for x cd f
    by (auto simp: account_findings_def add_when_def Let_def)
  have r: "snd (reference_findings ?i lc f) = snd f" for f
    by (simp add: reference_findings_def)
  show ?thesis
    unfolding reconcile_account_entry_def Let_def conflict_codes_def
    using i by (auto simp: r dest!: subsetD[OF d] subsetD[OF c] subsetD[OF a])
qed

lemma classify_reconciled:
  "set conflicts \<subseteq> conflict_codes \<Longrightarrow> recon_classify evidence conflicts = RECONCILED \<Longrightarrow>
     conflicts = [] \<and> (\<exists>s\<in>set STRONG_EXACT. s \<in> set evidence) \<and>
     RECON_AMOUNT_EXACT \<in> set evidence \<and> RECON_CURRENCY_EXACT \<in> set evidence"
proof -
  assume c: "set conflicts \<subseteq> conflict_codes" and r: "recon_classify evidence conflicts = RECONCILED"
  from r have "set conflicts \<inter> conflict_codes = {}"
    by (auto simp: recon_classify_def Let_def conflict_codes_def split: if_splits)
  then have "set conflicts = {}" using c by (metis inf.absorb1)
  then have "conflicts = []" by simp
  with r show ?thesis by (auto simp: recon_classify_def Let_def list_ex_iff split: if_splits)
qed

text \<open>Amount and currency evidence is found only by their own stages.\<close>

lemma compare_code:
  "x \<in> set (fst (recon_compare a b code f)) \<Longrightarrow> x \<in> set (fst f) \<or>
     (x = code \<and> truthy a \<and> truthy b \<and> upper (strip (dget_opt a)) = upper (strip (dget_opt b)))"
  by (auto simp: recon_compare_result split: if_splits)

lemma identifier_evidence_codes:
  "x \<in> set (fst (identifier_findings i lc)) \<Longrightarrow>
     x = RECON_ACCOUNT_SERVICER_EXACT \<or>
     (\<exists>(a, b) \<in> {(ei_uetr i, lc_uetr lc), (ei_transaction_id i, lc_transaction_id lc),
        (ei_end_to_end_id i, lc_end_to_end_id lc), (ei_instruction_id i, lc_instruction_id lc)}.
        x \<in> set STRONG_EXACT \<and> truthy a \<and> truthy b \<and> upper (strip (dget_opt a)) = upper (strip (dget_opt b)))"
proof -
  let ?f1 = "recon_compare (ei_uetr i) (lc_uetr lc) RECON_UETR_EXACT ([], [])"
  let ?f2 = "recon_compare (ei_transaction_id i) (lc_transaction_id lc) RECON_TXID_EXACT ?f1"
  let ?f3 = "recon_compare (ei_end_to_end_id i) (lc_end_to_end_id lc) RECON_E2E_EXACT ?f2"
  let ?f4 = "recon_compare (ei_instruction_id i) (lc_instruction_id lc) RECON_INSTR_EXACT ?f3"
  let ?eq = "\<lambda>a b. truthy a \<and> truthy b \<and> upper (strip (dget_opt a)) = upper (strip (dget_opt b))"
  have st: "RECON_UETR_EXACT \<in> set STRONG_EXACT" "RECON_TXID_EXACT \<in> set STRONG_EXACT"
    "RECON_E2E_EXACT \<in> set STRONG_EXACT" "RECON_INSTR_EXACT \<in> set STRONG_EXACT"
    by (simp_all add: STRONG_EXACT_def)
  assume "x \<in> set (fst (identifier_findings i lc))"
  then have "x \<in> set (fst ?f4) \<or> x = RECON_ACCOUNT_SERVICER_EXACT"
    unfolding identifier_findings_def using compare_code by blast
  moreover have "x \<in> set (fst ?f3) \<or> (x = RECON_INSTR_EXACT \<and> ?eq (ei_instruction_id i) (lc_instruction_id lc))"
    if "x \<in> set (fst ?f4)" using compare_code[OF that] by blast
  moreover have "x \<in> set (fst ?f2) \<or> (x = RECON_E2E_EXACT \<and> ?eq (ei_end_to_end_id i) (lc_end_to_end_id lc))"
    if "x \<in> set (fst ?f3)" using compare_code[OF that] by blast
  moreover have "x \<in> set (fst ?f1) \<or> (x = RECON_TXID_EXACT \<and> ?eq (ei_transaction_id i) (lc_transaction_id lc))"
    if "x \<in> set (fst ?f2)" using compare_code[OF that] by blast
  moreover have "x = RECON_UETR_EXACT \<and> ?eq (ei_uetr i) (lc_uetr lc)"
    if "x \<in> set (fst ?f1)" using compare_code[OF that] by simp
  ultimately show ?thesis using st by fastforce
qed

lemma later_evidence:
  "x \<in> set (fst (amount_findings i lc f)) \<Longrightarrow> x \<in> set (fst f) \<or>
     (x = RECON_AMOUNT_EXACT \<and> ei_amount_minor i \<noteq> None \<and> ei_amount_minor i = lc_amount_minor lc)"
  "x \<in> set (fst (currency_findings i lc f)) \<Longrightarrow> x \<in> set (fst f) \<or>
     (x = RECON_CURRENCY_EXACT \<and> truthy (ei_currency i) \<and> truthy (lc_currency lc) \<and>
        upper (dget_opt (ei_currency i)) = upper (dget_opt (lc_currency lc)))"
  "x \<in> set (fst (account_findings ac cd lc f)) \<Longrightarrow> x \<in> set (fst f) \<or> x \<in> {RECON_ACCOUNT_EXACT, RECON_CREDIT_DEBIT_EXPECTED}"
  "x \<in> set (fst (reference_findings i lc f)) \<Longrightarrow> x \<in> set (fst f) \<or> x = RECON_REFERENCE_NORMALIZED_EXACT"
  by (auto simp: amount_findings_result currency_findings_def account_findings_def reference_findings_def
      add_when_def Let_def split: if_splits)

lemma reconciled_evidence:
  fixes e :: AccountEntry and acc :: "AccountReference option"
  defines "i \<equiv> entry_identity e acc"
  assumes x: "x \<in> set (rr_evidence (reconcile_account_entry e acc lc))"
  shows "x \<in> {RECON_ACCOUNT_EXACT, RECON_CREDIT_DEBIT_EXPECTED, RECON_REFERENCE_NORMALIZED_EXACT} \<or>
     (x = RECON_AMOUNT_EXACT \<and> ei_amount_minor i \<noteq> None \<and> ei_amount_minor i = lc_amount_minor lc) \<or>
     (x = RECON_CURRENCY_EXACT \<and> truthy (ei_currency i) \<and> truthy (lc_currency lc) \<and>
        upper (dget_opt (ei_currency i)) = upper (dget_opt (lc_currency lc))) \<or>
     x \<in> set (fst (identifier_findings i lc))"
proof -
  let ?a = "amount_findings i lc (identifier_findings i lc)"
  let ?c = "currency_findings i lc ?a"
  let ?d = "account_findings (por (Option.bind acc ar_iban) (Option.bind acc ar_other_identification)) (ae_credit_debit e) lc ?c"
  have "x \<in> set (fst (reference_findings i lc ?d))"
    using x by (simp add: reconcile_account_entry_def Let_def i_def)
  from later_evidence(4)[OF this] consider "x = RECON_REFERENCE_NORMALIZED_EXACT" | "x \<in> set (fst ?d)" by blast
  then show ?thesis
  proof cases
    case 2
    from later_evidence(3)[OF 2] consider "x \<in> {RECON_ACCOUNT_EXACT, RECON_CREDIT_DEBIT_EXPECTED}" | "x \<in> set (fst ?c)" by blast
    then show ?thesis
    proof cases
      case 2
      from later_evidence(2)[OF 2] later_evidence(1)[of x i lc "identifier_findings i lc"] show ?thesis by blast
    qed blast
  qed blast
qed

lemma code_distinct:
  "RECON_AMOUNT_EXACT \<notin> insert RECON_ACCOUNT_SERVICER_EXACT (set STRONG_EXACT)"
  "RECON_CURRENCY_EXACT \<notin> insert RECON_ACCOUNT_SERVICER_EXACT (set STRONG_EXACT)"
  "RECON_ACCOUNT_SERVICER_EXACT \<notin> set STRONG_EXACT"
  "set STRONG_EXACT \<inter> {RECON_ACCOUNT_EXACT, RECON_CREDIT_DEBIT_EXPECTED, RECON_REFERENCE_NORMALIZED_EXACT,
     RECON_AMOUNT_EXACT, RECON_CURRENCY_EXACT} = {}"
  "RECON_AMOUNT_EXACT \<notin> {RECON_ACCOUNT_EXACT, RECON_CREDIT_DEBIT_EXPECTED, RECON_REFERENCE_NORMALIZED_EXACT, RECON_CURRENCY_EXACT}"
  "RECON_CURRENCY_EXACT \<notin> {RECON_ACCOUNT_EXACT, RECON_CREDIT_DEBIT_EXPECTED, RECON_REFERENCE_NORMALIZED_EXACT, RECON_AMOUNT_EXACT}"
  by (simp_all add: STRONG_EXACT_def recon_codes)

section \<open>The score\<close>

definition weight :: "string \<Rightarrow> int" where
  "weight code = dget RECON_WEIGHTS code 0"

lemma weight_simps:
  "weight RECON_UETR_EXACT = 40" "weight RECON_TXID_EXACT = 40" "weight RECON_E2E_EXACT = 30"
  "weight RECON_INSTR_EXACT = 20" "weight RECON_ACCOUNT_SERVICER_EXACT = 20" "weight RECON_ACCOUNT_EXACT = 15"
  "weight RECON_AMOUNT_EXACT = 20" "weight RECON_CURRENCY_EXACT = 10"
  "weight RECON_REFERENCE_NORMALIZED_EXACT = 15" "weight RECON_CREDIT_DEBIT_EXPECTED = 5"
  by (simp_all add: weight_def RECON_WEIGHTS_def recon_codes)

definition points :: "string list \<Rightarrow> int" where
  "points evidence = sum_list (map weight evidence)"

lemma points_simps: "points [] = 0" "points (xs @ ys) = points xs + points ys" "points (c # xs) = weight c + points xs"
  by (simp_all add: points_def)

lemma recon_total: "sum_list (map snd RECON_WEIGHTS) = 215"
  by (simp add: RECON_WEIGHTS_def)

lemma recon_score_points: "recon_score evidence = fround2 (fl (fl (100 * of_int (points evidence)) / 215))"
proof -
  have "weight = (\<lambda>code. dget RECON_WEIGHTS code 0)" by (simp add: fun_eq_iff weight_def)
  then show ?thesis by (simp add: recon_score_def recon_total points_def Let_def)
qed

lemma points_compare:
  "points (fst f) \<le> points (fst (recon_compare a b code f)) \<and>
     points (fst (recon_compare a b code f)) \<le> points (fst f) + max 0 (weight code)" if "0 \<le> weight code"
  using that by (simp add: recon_compare_result points_simps)

lemma points_range:
  "0 \<le> points (rr_evidence (reconcile_account_entry e acc lc)) \<and>
     points (rr_evidence (reconcile_account_entry e acc lc)) \<le> 230"
proof -
  let ?i = "entry_identity e acc"
  have i: "0 \<le> points (fst (identifier_findings ?i lc)) \<and> points (fst (identifier_findings ?i lc)) \<le> 150"
    by (simp add: identifier_findings_def recon_compare_result points_simps weight_simps)
  have a: "points (fst f) \<le> points (fst (amount_findings ?i lc f)) \<and>
      points (fst (amount_findings ?i lc f)) \<le> points (fst f) + 20" for f
    by (simp add: amount_findings_result points_simps weight_simps)
  have c: "points (fst f) \<le> points (fst (currency_findings ?i lc f)) \<and>
      points (fst (currency_findings ?i lc f)) \<le> points (fst f) + 10" for f
    by (simp add: currency_findings_def points_simps weight_simps)
  have d: "points (fst f) \<le> points (fst (account_findings x cd lc f)) \<and>
      points (fst (account_findings x cd lc f)) \<le> points (fst f) + 35" for x cd f
    by (simp add: account_findings_def add_when_def Let_def points_simps weight_simps)
  have r: "points (fst f) \<le> points (fst (reference_findings ?i lc f)) \<and>
      points (fst (reference_findings ?i lc f)) \<le> points (fst f) + 15" for f
    by (simp add: reference_findings_def add_when_def points_simps weight_simps)
  let ?a = "amount_findings ?i lc (identifier_findings ?i lc)"
  let ?c = "currency_findings ?i lc ?a"
  let ?d = "account_findings (por (Option.bind acc ar_iban) (Option.bind acc ar_other_identification)) (ae_credit_debit e) lc ?c"
  have ev: "rr_evidence (reconcile_account_entry e acc lc) = fst (reference_findings ?i lc ?d)"
    by (simp add: reconcile_account_entry_def Let_def)
  show ?thesis unfolding ev
    using i a[of "identifier_findings ?i lc"] c[of ?a]
      d[of ?c "por (Option.bind acc ar_iban) (Option.bind acc ar_other_identification)" "ae_credit_debit e"] r[of ?d]
    by linarith
qed

lemma score_of_points:
  fixes p :: int
  assumes "0 \<le> p" "p \<le> 230"
  shows "0 \<le> fl (fl (100 * of_int p) / 215) \<and> fl (fl (100 * of_int p) / 215) * 100 < 10698 + 1 / 2"
proof -
  define a :: rat where "a = 100 * of_int p"
  have a: "0 \<le> a" "a \<le> 23000" using assms by (auto simp: a_def)
  have b: "0 \<le> fl a" "fl a \<le> (1 + 1 / 2 ^ 53) * a"
    using flr.rnd_bounds[OF a(1)] flr.rnd_nonneg[OF a(1)] by simp_all
  then have "fl a \<le> 23000 + 1 / 1000" using a by simp
  moreover have "0 \<le> fl (fl a / 215)" "fl (fl a / 215) \<le> (1 + 1 / 2 ^ 53) * (fl a / 215)"
    using b flr.rnd_bounds[of "fl a / 215"] flr.rnd_nonneg[of "fl a / 215"] by simp_all
  ultimately show ?thesis by (simp add: a_def)
qed

lemma fround2_le_10698:
  assumes "0 \<le> x" "x * 100 < 10698 + 1 / 2"
  shows "fround2 x \<le> fl (10698 / 100)"
proof -
  have "rhe (x * 100) < 10699"
  proof (rule ccontr)
    assume "\<not> ?thesis"
    then have "(10699::rat) \<le> of_int (rhe (x * 100))" by (metis linorder_not_le of_int_le_iff of_int_numeral)
    then show False using rhe_error[of "x * 100"] assms(2) by linarith
  qed
  moreover have "0 \<le> rhe (x * 100)" using assms(1) by (intro rhe_nonneg) simp
  ultimately consider "rhe (x * 100) = 10698" | "0 \<le> rhe (x * 100)" "rhe (x * 100) \<le> 10697" by linarith
  then show ?thesis
  proof cases
    case 1
    then show ?thesis by (simp add: fround2_def)
  next
    case 2
    define y :: rat where "y = of_int (rhe (x * 100)) / 100"
    have y: "0 \<le> y" "y \<le> 10697 / 100" using 2 by (simp_all add: y_def)
    have "fl y \<le> (1 + 1 / 2 ^ 53) * y" using flr.rnd_bounds[OF y(1)] by simp
    moreover have "(1 - 1 / 2 ^ 53) * (10698 / 100) \<le> fl (10698 / 100)"
      using flr.rnd_bounds[of "10698 / 100"] by simp
    ultimately have "fl y \<le> fl (10698 / 100)" using y by simp
    then show ?thesis by (simp add: fround2_def y_def)
  qed
qed

lemma score_of_230: "rhe (fl (fl (100 * of_int 230) / 215) * 100) = 10698"
proof (rule rhe_unique)
  define a where "a = fl 23000"
  have a: "(1 - 1 / 2 ^ 53) * 23000 \<le> a" "a \<le> (1 + 1 / 2 ^ 53) * 23000"
    using flr.rnd_bounds[of 23000] by (simp_all add: a_def)
  then have a0: "0 \<le> a / 215" by simp
  have "(1 - 1 / 2 ^ 53) * (a / 215) \<le> fl (a / 215)" "fl (a / 215) \<le> (1 + 1 / 2 ^ 53) * (a / 215)"
    using flr.rnd_bounds[OF a0] by simp_all
  then have "10698 - fl (a / 215) * 100 < 1 / 2" "fl (a / 215) * 100 - 10698 < 1 / 2" using a by simp_all
  then show "\<bar>of_int 10698 - fl (fl (100 * of_int 230) / 215) * 100\<bar> < 1 / 2"
    unfolding abs_less_iff a_def by simp
qed

lemma link_iff: "message_link a b \<noteq> [] \<longleftrightarrow> same_present (cp_message_id a) (cp_original_message_id b) \<or>
    same_present (cp_original_message_id a) (cp_message_id b) \<or> same_present (cp_message_id a) (cp_message_id b)"
  by (simp add: message_link_def)

section \<open>Properties\<close>

text \<open>Correlation is symmetric: the status, the evidence and the conflicts of two profiles do not
  depend on their order, although the message-id linkage is written as a directed chain of
  cases.\<close>

theorem correlation_symmetric: "correlate_profiles b a = correlate_profiles a b"
  by (rule correlate_sym)

text \<open>Identifiers decide correlation. Two profiles are in CONFLICT exactly when they carry different
  values of one of the three transaction-level identifiers, whatever else agrees (a linked
  message id included); and they are CORRELATED exactly when none conflicts and their message
  ids are linked or their transaction ids are equal.\<close>

theorem correlation_decided_by_identifiers:
  "(co_status (correlate_profiles a b) = CONFLICT \<longleftrightarrow>
      differ_present (cp_transaction_id a) (cp_transaction_id b) \<or>
      differ_present (cp_end_to_end_id a) (cp_end_to_end_id b) \<or>
      differ_present (cp_instruction_id a) (cp_instruction_id b)) \<and>
   (co_status (correlate_profiles a b) = CORRELATED \<longleftrightarrow>
      co_status (correlate_profiles a b) \<noteq> CONFLICT \<and>
      (same_present (cp_message_id a) (cp_original_message_id b) \<or>
       same_present (cp_original_message_id a) (cp_message_id b) \<or>
       same_present (cp_message_id a) (cp_message_id b) \<or>
       same_present (cp_transaction_id a) (cp_transaction_id b)))"
  using conflict_iff[of a b] correlated_iff[of a b] link_iff[of a b]
  by (auto simp: correlate_profiles_def Let_def correlation_status_def)

text \<open>C35: An entry is RECONCILED only on full agreement: there is no conflict of any kind, one of the four
  strong identifiers is present on both sides and equal up to case and outer blanks, the amounts
  are equal and the currencies are equal up to case.\<close>

theorem reconciled_means_agreement:
  assumes "rr_classification (reconcile_account_entry e acc lc) = RECONCILED"
  defines "i \<equiv> entry_identity e acc"
  shows "rr_conflicts (reconcile_account_entry e acc lc) = [] \<and>
    ei_amount_minor i \<noteq> None \<and> ei_amount_minor i = lc_amount_minor lc \<and>
    truthy (ei_currency i) \<and> upper (dget_opt (ei_currency i)) = upper (dget_opt (lc_currency lc)) \<and>
    (\<exists>(a, b) \<in> {(ei_uetr i, lc_uetr lc), (ei_transaction_id i, lc_transaction_id lc),
        (ei_end_to_end_id i, lc_end_to_end_id lc), (ei_instruction_id i, lc_instruction_id lc)}.
        truthy a \<and> truthy b \<and> upper (strip (dget_opt a)) = upper (strip (dget_opt b)))"
proof -
  let ?r = "reconcile_account_entry e acc lc"
  have "recon_classify (rr_evidence ?r) (rr_conflicts ?r) = RECONCILED"
    using assms(1) by (simp add: reconcile_account_entry_def Let_def)
  from classify_reconciled[OF conflicts_known this]
  obtain s where c: "rr_conflicts ?r = []" and s: "s \<in> set STRONG_EXACT" "s \<in> set (rr_evidence ?r)"
    and am: "RECON_AMOUNT_EXACT \<in> set (rr_evidence ?r)" and cu: "RECON_CURRENCY_EXACT \<in> set (rr_evidence ?r)"
    by blast
  note ev = reconciled_evidence[of _ e acc lc] and ids = identifier_evidence_codes[of _ "entry_identity e acc" lc]
  have "ei_amount_minor i \<noteq> None \<and> ei_amount_minor i = lc_amount_minor lc"
    using ev[OF am] ids[of RECON_AMOUNT_EXACT] code_distinct unfolding i_def by blast
  moreover have "truthy (ei_currency i) \<and> upper (dget_opt (ei_currency i)) = upper (dget_opt (lc_currency lc))"
    using ev[OF cu] ids[of RECON_CURRENCY_EXACT] code_distinct unfolding i_def by blast
  moreover have "s \<in> set (fst (identifier_findings i lc))"
    using ev[OF s(2)] s(1) code_distinct(4) unfolding i_def by blast
  ultimately show ?thesis using c ids[of s] s(1) code_distinct(3) unfolding i_def by blast
qed

definition empty_context :: LifecycleAccountContext where
  "empty_context = \<lparr>lc_message_id = None, lc_original_message_id = None, lc_transaction_id = None,
     lc_end_to_end_id = None, lc_instruction_id = None, lc_uetr = None, lc_account_servicer_reference = None,
     lc_reference = None, lc_amount_minor = None, lc_currency = None, lc_debtor_account = None,
     lc_creditor_account = None\<rparr>"

definition empty_entry :: AccountEntry where
  "empty_entry = \<lparr>ae_entry_reference = None, ae_account_servicer_reference = None, ae_transaction_id = None,
     ae_instruction_id = None, ae_end_to_end_id = None, ae_uetr = None, ae_amount = None, ae_currency = None,
     ae_credit_debit = None, ae_booking_date = None, ae_value_date = None, ae_status = None,
     ae_bank_transaction_code = None, ae_remittance_reference = None, ae_debtor = None, ae_creditor = None,
     ae_related_agents = [], ae_original_message_reference = None, ae_source_message_id = None,
     ae_source_hash = None, ae_reconciliation_status = None, ae_match_score = None, ae_evidence = [],
     ae_conflicts = []\<rparr>"

definition full_entry :: AccountEntry where
  "full_entry = empty_entry\<lparr>ae_uetr := Some ''U'', ae_transaction_id := Some ''T'', ae_end_to_end_id := Some ''E'',
     ae_instruction_id := Some ''I'', ae_account_servicer_reference := Some ''S'',
     ae_amount := Some \<lparr>ma_amount_minor = 100, ma_currency = ''EUR''\<rparr>, ae_currency := Some ''EUR'',
     ae_credit_debit := Some CRDT, ae_remittance_reference := Some ''R''\<rparr>"

definition full_context :: LifecycleAccountContext where
  "full_context = empty_context\<lparr>lc_uetr := Some ''U'', lc_transaction_id := Some ''T'', lc_end_to_end_id := Some ''E'',
     lc_instruction_id := Some ''I'', lc_account_servicer_reference := Some ''S'', lc_amount_minor := Some 100,
     lc_currency := Some ''eur'', lc_reference := Some ''r'', lc_debtor_account := Some ''A1'',
     lc_creditor_account := Some ''a 1''\<rparr>"

definition full_account :: AccountReference where
  "full_account = \<lparr>ar_iban = Some ''A1'', ar_other_identification = None, ar_currency = None, ar_name = None,
     ar_servicer_bic = None\<rparr>"

lemma full_points: "points (rr_evidence (reconcile_account_entry full_entry (Some full_account) full_context)) = 230"
  "rr_classification (reconcile_account_entry full_entry (Some full_account) full_context) = RECONCILED"
  by code_simp+

theorem reconciled_means_agreement_witness:
  "ei_amount_minor (entry_identity full_entry (Some full_account)) = lc_amount_minor full_context"
  using reconciled_means_agreement[OF full_points(2)] by blast

text \<open>The reconciliation score is never negative and at most 106.98, and this bound is reached: the
  account evidence is added twice when debtor and creditor account are the same, while the
  weights are summed once, so the score of a fully agreeing entry exceeds the documented 100.\<close>

theorem recon_score_range:
  "0 \<le> rr_match_score (reconcile_account_entry e acc lc) \<and>
   rr_match_score (reconcile_account_entry e acc lc) \<le> fl (10698 / 100) \<and>
   rr_match_score (reconcile_account_entry full_entry (Some full_account) full_context) = fl (10698 / 100) \<and>
   100 < fl (10698 / 100)"
proof -
  have sc: "rr_match_score (reconcile_account_entry e acc lc) =
      fround2 (fl (fl (100 * of_int (points (rr_evidence (reconcile_account_entry e acc lc)))) / 215))" for e acc lc
    by (simp add: reconcile_account_entry_def Let_def recon_score_points)
  have "0 \<le> fround2 (fl (fl (100 * of_int p) / 215)) \<and> fround2 (fl (fl (100 * of_int p) / 215)) \<le> fl (10698 / 100)"
    if "0 \<le> p" "p \<le> 230" for p :: int
    using score_of_points[OF that] fround2_le_10698 fround2_nonneg by blast
  then have "0 \<le> rr_match_score (reconcile_account_entry e acc lc) \<and>
      rr_match_score (reconcile_account_entry e acc lc) \<le> fl (10698 / 100)"
    unfolding sc using points_range[of e acc lc] by blast
  moreover have "fround2 (fl (fl (100 * of_int 230) / 215)) = fl (10698 / 100)"
    unfolding fround2_def using score_of_230 by simp
  ultimately show ?thesis
    using flr.rnd_bounds[of "10698 / 100"] by (simp add: sc full_points)
qed

end
