(* ===== verification/PO_Address.thy ===== *)
theory PO_Address
  imports PO_Domain PO_Num
begin

text \<open>
  The address engine (\<open>packages/address_engine\<close>): normalization, readiness, and the three
  providers. A provider is a function of its environment (clock readings and the outcomes of its
  HTTP attempts), the address and its own state; \<open>address_provider\<close> is the contract that the
  rest of the program relies on, and it is interpreted for CloudNova, for the Swift-derived client
  and for the fallback composition of any two providers.
\<close>

section \<open>Results\<close>

record AddressAnalysis =
  aa_provider :: string
  aa_provider_version :: string
  aa_country_code :: "string option"
  aa_country_name :: "string option"
  aa_town_name :: "string option"
  aa_postcode :: "string option"
  aa_street_name :: "string option"
  aa_building_number :: "string option"
  aa_normalized_fields :: "(string, string) dict"
  aa_readiness :: AddressReadiness
  aa_evidence_level :: EvidenceLevel
  aa_available :: bool
  aa_note :: "string option"
  aa_fallback :: bool
  aa_evidence :: "string list"

definition mk_analysis ::
  "string \<Rightarrow> string \<Rightarrow> string option \<Rightarrow> string option \<Rightarrow> string option \<Rightarrow> (string, string) dict \<Rightarrow>
     AddressReadiness \<Rightarrow> EvidenceLevel \<Rightarrow> bool \<Rightarrow> string option \<Rightarrow> string list \<Rightarrow> AddressAnalysis" where
  "mk_analysis provider version code country_name town normalized readiness level available note evidence =
     \<lparr>aa_provider = provider, aa_provider_version = version, aa_country_code = code,
      aa_country_name = country_name, aa_town_name = town, aa_postcode = None, aa_street_name = None,
      aa_building_number = None, aa_normalized_fields = normalized, aa_readiness = readiness,
      aa_evidence_level = level, aa_available = available, aa_note = note, aa_fallback = False,
      aa_evidence = evidence\<rparr>"

lemma mk_analysis_simps [simp]:
  "aa_provider (mk_analysis p v c cn t n r l a no ev) = p"
  "aa_country_code (mk_analysis p v c cn t n r l a no ev) = c"
  "aa_town_name (mk_analysis p v c cn t n r l a no ev) = t"
  "aa_normalized_fields (mk_analysis p v c cn t n r l a no ev) = n"
  "aa_readiness (mk_analysis p v c cn t n r l a no ev) = r"
  "aa_evidence_level (mk_analysis p v c cn t n r l a no ev) = l"
  "aa_available (mk_analysis p v c cn t n r l a no ev) = a"
  "aa_note (mk_analysis p v c cn t n r l a no ev) = no"
  "aa_fallback (mk_analysis p v c cn t n r l a no ev) = False"
  "aa_evidence (mk_analysis p v c cn t n r l a no ev) = ev"
  by (simp_all add: mk_analysis_def)

definition level_value :: "EvidenceLevel \<Rightarrow> string" where
  "level_value l = (case l of HIGH \<Rightarrow> ''HIGH'' | MEDIUM \<Rightarrow> ''MEDIUM'' | LOW \<Rightarrow> ''LOW'')"

text \<open>Levels are ordered by the strength of the evidence.\<close>

instantiation EvidenceLevel :: linorder
begin

definition rank :: "EvidenceLevel \<Rightarrow> nat" where
  "rank l = (case l of LOW \<Rightarrow> 0 | MEDIUM \<Rightarrow> 1 | HIGH \<Rightarrow> 2)"

definition less_eq_EvidenceLevel :: "EvidenceLevel \<Rightarrow> EvidenceLevel \<Rightarrow> bool" where
  "a \<le> b \<longleftrightarrow> rank a \<le> rank b"

definition less_EvidenceLevel :: "EvidenceLevel \<Rightarrow> EvidenceLevel \<Rightarrow> bool" where
  "a < b \<longleftrightarrow> rank a < rank b"

instance
proof
  fix a b :: EvidenceLevel
  show "a \<le> b \<Longrightarrow> b \<le> a \<Longrightarrow> a = b"
    by (cases a; cases b) (simp_all add: less_eq_EvidenceLevel_def rank_def)
qed (auto simp: less_eq_EvidenceLevel_def less_EvidenceLevel_def)

end

section \<open>Normalization\<close>

definition normalize_whitespace :: "string \<Rightarrow> string" where
  "normalize_whitespace value = join '' '' (split_ws value)"

text \<open>NFKC is the identity on ASCII text.\<close>

definition normalize_unicode :: "string \<Rightarrow> string" where
  "normalize_unicode value = value"

definition normalize_country_field :: "string option \<Rightarrow> string option \<times> EvidenceLevel \<times> string option" where
  "normalize_country_field raw =
     (if \<not> truthy raw then (None, LOW, Some ''no country value'')
      else let cleaned = upper (normalize_whitespace (normalize_unicode (dget_opt raw))) in
        if is_valid_country_code cleaned then (Some cleaned, HIGH, Some ''valid ISO alpha-2 code'')
        else (case normalize_country_name cleaned of
            Some code \<Rightarrow> (Some code, HIGH, Some (''normalised from name '' @ quote_name (dget_opt raw)))
          | None \<Rightarrow> (None, LOW, Some (''unknown country value '' @ quote_name (dget_opt raw)))))"

definition split_commas :: "string \<Rightarrow> string list" where
  "split_commas value = map strip (filter (\<lambda>part. strip part \<noteq> []) (split_char CHR '','' value))"

definition country_of_token :: "string \<Rightarrow> string option" where
  "country_of_token token =
     (let t = normalize_whitespace (normalize_unicode token) in
      if is_valid_country_code (upper t) then Some (upper t) else normalize_country_name t)"

definition extract_country_from_lines :: "string list \<Rightarrow> string option \<times> EvidenceLevel" where
  "extract_country_from_lines lines =
     (case collect_some country_of_token (concat (map split_commas lines)) of
        code # _ \<Rightarrow> (Some code, MEDIUM) | [] \<Rightarrow> (None, LOW))"

definition is_country_token :: "string \<Rightarrow> string option \<Rightarrow> bool" where
  "is_country_token token country_code =
     (let t = normalize_whitespace token in
      is_valid_country_code (upper t) \<or> normalize_country_name t \<noteq> None \<or>
        truthy country_code \<and> country_code = Some (upper t))"

definition town_shaped :: "string \<Rightarrow> bool" where
  "town_shaped candidate \<longleftrightarrow> 2 \<le> length candidate \<and> length candidate \<le> 35 \<and> is_upper (hd candidate)"

text \<open>The tokens of one line, each with the one before it.\<close>

fun town_in_tokens :: "string option \<Rightarrow> string option \<Rightarrow> string list \<Rightarrow> string option" where
  "town_in_tokens country_code before [] = None"
| "town_in_tokens country_code before (token # tokens) =
     (case before of
        Some candidate \<Rightarrow> if is_country_token token country_code \<and> town_shaped candidate then Some candidate
          else town_in_tokens country_code (Some token) tokens
      | None \<Rightarrow> town_in_tokens country_code (Some token) tokens)"

definition extract_town_from_lines :: "string list \<Rightarrow> string option \<Rightarrow> string option \<times> EvidenceLevel" where
  "extract_town_from_lines lines country_code =
     (case collect_some (\<lambda>line. town_in_tokens country_code None (split_commas line)) lines of
        town # _ \<Rightarrow> (Some town, MEDIUM) | [] \<Rightarrow> (None, LOW))"

section \<open>Readiness\<close>

definition classify_readiness :: "bool \<Rightarrow> bool \<Rightarrow> bool \<Rightarrow> bool \<Rightarrow> bool \<Rightarrow> AddressReadiness" where
  "classify_readiness country_ok town_ok country_repairable town_repairable has_signal =
     (if country_ok \<and> town_ok then READY
      else if country_repairable \<or> town_repairable then REPAIRABLE
      else if has_signal then AR_REVIEW_REQUIRED
      else UNRESOLVED)"

definition overall_level :: "bool \<Rightarrow> bool \<Rightarrow> bool \<Rightarrow> bool \<Rightarrow> EvidenceLevel" where
  "overall_level country_ok country_repairable town_ok town_repairable =
     (if (country_ok \<or> country_repairable) \<and> (town_ok \<or> town_repairable) then HIGH
      else if country_ok \<or> country_repairable \<or> town_ok \<or> town_repairable then MEDIUM
      else LOW)"

lemma overall_level_mono:
  "c \<le> c' \<Longrightarrow> cr \<le> cr' \<Longrightarrow> t \<le> t' \<Longrightarrow> tr \<le> tr' \<Longrightarrow>
     overall_level c cr t tr \<le> overall_level c' cr' t' tr'"
  by (auto simp: overall_level_def less_eq_EvidenceLevel_def rank_def)

definition resolved_fields :: "string option \<Rightarrow> string option \<Rightarrow> (string, string) dict" where
  "resolved_fields country_code town_name =
     (if truthy country_code then [(''country'', dget_opt country_code)] else []) @
     (if truthy town_name then [(''town_name'', dget_opt town_name)] else [])"

section \<open>CloudNova\<close>

text \<open>Country resolution: code, ok, repairable, note, evidence.\<close>

record country_resolution =
  cr_code :: "string option"
  cr_ok :: bool
  cr_repairable :: bool
  cr_note :: "string option"
  cr_evidence :: "string list"

definition resolve_country :: "PostalAddress \<Rightarrow> country_resolution" where
  "resolve_country address =
     (if truthy (pa_country address) then
        (let source = dget_opt (pa_country address) in
         if is_valid_country_code source then
           \<lparr>cr_code = Some (upper source), cr_ok = True, cr_repairable = False,
            cr_note = Some ''valid ISO alpha-2 code'',
            cr_evidence = [''country is a valid ISO alpha-2 code (HIGH)'']\<rparr>
         else (case normalize_country_name source of
             Some code \<Rightarrow> \<lparr>cr_code = Some code, cr_ok = False, cr_repairable = True,
               cr_note = Some (''normalised from name '' @ quote_name source),
               cr_evidence = [''country name '' @ quote_name source @ '' normalised to '' @ code @ '' (HIGH)'']\<rparr>
           | None \<Rightarrow> \<lparr>cr_code = None, cr_ok = False, cr_repairable = False,
               cr_note = Some (''unknown country value '' @ quote_name source),
               cr_evidence = [''country value '' @ quote_name source @ '' not recognised (LOW)'']\<rparr>))
      else (case extract_country_from_lines (pa_address_lines address) of
          (Some code, level) \<Rightarrow> \<lparr>cr_code = Some code, cr_ok = False, cr_repairable = True,
             cr_note = Some ''derived from address line'',
             cr_evidence = [''country derived from address line ('' @ level_value level @ '')'']\<rparr>
        | (None, _) \<Rightarrow> \<lparr>cr_code = None, cr_ok = False, cr_repairable = False, cr_note = None,
             cr_evidence = []\<rparr>))"

definition source_town :: "PostalAddress \<Rightarrow> string option" where
  "source_town address = (if truthy (pa_town_name address)
     then Some (normalize_whitespace (dget_opt (pa_town_name address))) else None)"

text \<open>Town resolution: name, ok, repairable, evidence.\<close>

definition resolve_town :: "PostalAddress \<Rightarrow> string option \<Rightarrow> string option \<times> bool \<times> bool \<times> string list" where
  "resolve_town address country_code =
     (if truthy (source_town address) then (source_town address, True, False, [''town present in source (HIGH)''])
      else (case extract_town_from_lines (pa_address_lines address) country_code of
          (Some town, level) \<Rightarrow> (Some town, False, True, [''town derived from address line ('' @ level_value level @ '')''])
        | (None, _) \<Rightarrow> (None, False, False, [])))"

definition cloudnova_analyze :: "PostalAddress \<Rightarrow> AddressAnalysis" where
  "cloudnova_analyze address =
     (let c = resolve_country address in
      case resolve_town address (cr_code c) of (town_name, town_ok, town_repairable, town_evidence) \<Rightarrow>
        mk_analysis ''cloudnova'' ''0.1.0'' (cr_code c)
          (if truthy (cr_code c) \<and> \<not> cr_ok c then cr_note c else None) town_name
          (resolved_fields (cr_code c) town_name)
          (classify_readiness (cr_ok c) town_ok (cr_repairable c) town_repairable
            (truthy (pa_country address) \<or> truthy (source_town address) \<or> pa_address_lines address \<noteq> []))
          (overall_level (cr_ok c) (cr_repairable c) town_ok town_repairable)
          True (cr_note c) (cr_evidence c @ town_evidence))"

section \<open>The Swift-derived client\<close>

text \<open>
  The payload of the structuring service (\<open>StructureResult.to_dict\<close>), the outcome of one HTTP
  attempt, and the exceptions that \<open>_post\<close> lets through. \<open>Raises\<close> stands for any exception
  other than a timeout, a transport error or an error status, such as a body that is no JSON.
\<close>

record StructureResponse =
  sr_town :: "string option"
  sr_country :: "string option"
  sr_town_confidence :: "rat option"
  sr_country_confidence :: "rat option"

datatype attempt = Responds StructureResponse | TimesOut | TransportFails | ErrorStatus | Raises py_error

datatype post_exception = TimeoutException | TransportError | HTTPStatusError | OtherException py_error

record swift_config =
  sw_endpoint :: string
  sw_max_retries :: int
  sw_circuit_threshold :: int
  sw_cooldown :: rat

record swift_state =
  sw_failures :: int
  sw_circuit_open_until :: rat

definition swift_init :: swift_state where
  "swift_init = \<lparr>sw_failures = 0, sw_circuit_open_until = 0\<rparr>"

text \<open>What one call reads: the clock before and after the request, and what each attempt meets.\<close>

record swift_env =
  se_clock :: rat
  se_clock_after :: rat
  se_attempt :: "nat \<Rightarrow> attempt"

fun post_loop :: "(nat \<Rightarrow> attempt) \<Rightarrow> nat \<Rightarrow> nat \<Rightarrow> post_exception option \<Rightarrow> post_exception + StructureResponse" where
  "post_loop out 0 i last_exc = Inl (case last_exc of None \<Rightarrow> TransportError | Some e \<Rightarrow> e)"
| "post_loop out (Suc n) i last_exc =
     (case out i of
        Responds r \<Rightarrow> Inr r
      | ErrorStatus \<Rightarrow> Inl HTTPStatusError
      | Raises e \<Rightarrow> Inl (OtherException e)
      | TimesOut \<Rightarrow> post_loop out n (i + 1) (Some TimeoutException)
      | TransportFails \<Rightarrow> post_loop out n (i + 1) (Some TransportError))"

definition swift_post :: "swift_config \<Rightarrow> (nat \<Rightarrow> attempt) \<Rightarrow> post_exception + StructureResponse" where
  "swift_post cfg out = post_loop out (nat (sw_max_retries cfg + 1)) 0 None"

definition circuit_open :: "rat \<Rightarrow> swift_state \<Rightarrow> bool" where
  "circuit_open clock s \<longleftrightarrow> clock < sw_circuit_open_until s"

definition record_failure :: "swift_config \<Rightarrow> rat \<Rightarrow> swift_state \<Rightarrow> swift_state" where
  "record_failure cfg clock s =
     (let failures = sw_failures s + 1 in
      if sw_circuit_threshold cfg \<le> failures
      then \<lparr>sw_failures = 0, sw_circuit_open_until = fl (clock + sw_cooldown cfg)\<rparr>
      else s\<lparr>sw_failures := failures\<rparr>)"

definition record_success :: "swift_state \<Rightarrow> swift_state" where
  "record_success s = s\<lparr>sw_failures := 0\<rparr>"

definition UPSTREAM_COMMIT :: string where
  "UPSTREAM_COMMIT = ''916deca20a2f3501c9b7befb11e21be3931887ba''"

definition FALLBACK_NOTE :: string where
  "FALLBACK_NOTE = ''ADDRESS_PROVIDER_FALLBACK''"

definition swift_unavailable :: "string \<Rightarrow> AddressAnalysis" where
  "swift_unavailable reason = mk_analysis ''swift_derived'' ''0.1.0'' None None None [] UNRESOLVED LOW
     False (Some FALLBACK_NOTE) [reason]"

definition swift_lines :: "PostalAddress \<Rightarrow> string list" where
  "swift_lines address =
     (if pa_address_lines address \<noteq> [] then pa_address_lines address
      else let parts = map dget_opt (filter truthy [pa_street_name address, pa_building_number address,
             pa_postcode address, pa_town_name address, pa_country address]) in
        if parts \<noteq> [] then [join '' '' parts] else [])"

definition swift_suggestion :: "PostalAddress \<Rightarrow> string option \<times> bool" where
  "swift_suggestion address =
     (if truthy (pa_country address) \<and> is_valid_country_code (dget_opt (pa_country address))
        then (pa_country address, True)
      else if truthy (pa_country address) then (pa_country address, False)
      else (None, False))"

definition conf_at_least :: "rat \<Rightarrow> rat option \<Rightarrow> bool" where
  "conf_at_least bound c = (case c of None \<Rightarrow> False | Some x \<Rightarrow> fl bound \<le> x)"

definition swift_classify :: "StructureResponse \<Rightarrow> AddressReadiness" where
  "swift_classify r =
     (if truthy (sr_country r) \<and> truthy (sr_town r) \<and> conf_at_least (15 / 100) (sr_country_confidence r) \<and>
         conf_at_least (15 / 100) (sr_town_confidence r) then READY
      else if truthy (sr_country r) \<or> truthy (sr_town r) then AR_REVIEW_REQUIRED
      else UNRESOLVED)"

definition swift_level :: "StructureResponse \<Rightarrow> EvidenceLevel" where
  "swift_level r =
     (if conf_at_least (1 / 2) (sr_country_confidence r) \<and> conf_at_least (1 / 2) (sr_town_confidence r) then HIGH
      else if sr_country_confidence r \<noteq> None \<or> sr_town_confidence r \<noteq> None then MEDIUM
      else LOW)"

definition swift_build :: "StructureResponse \<Rightarrow> AddressAnalysis" where
  "swift_build r = mk_analysis ''swift_derived'' ''0.1.0'' (por (sr_country r) None) None (por (sr_town r) None)
     (resolved_fields (sr_country r) (sr_town r)) (swift_classify r) (swift_level r) True
     (Some ''upstream engine'')
     [''upstream town/country inference'', ''upstream commit '' @ take 12 UPSTREAM_COMMIT]"

definition swift_analyze ::
  "swift_config \<Rightarrow> swift_env \<Rightarrow> PostalAddress \<Rightarrow> swift_state \<Rightarrow> AddressAnalysis res \<times> swift_state" where
  "swift_analyze cfg env address s =
     (if sw_endpoint cfg = [] \<or> circuit_open (se_clock env) s
        then (Inr (swift_unavailable ''not configured or circuit open''), s)
      else if swift_lines address = [] then (Inr (swift_unavailable ''no address lines to structure''), s)
      else (case swift_post cfg (se_attempt env) of
          Inr r \<Rightarrow> (Inr (swift_build r), record_success s)
        | Inl (OtherException e) \<Rightarrow> (Inl e, s)
        | Inl _ \<Rightarrow> (Inr (swift_unavailable ''provider call failed or timed out''),
            record_failure cfg (se_clock_after env) s)))"

section \<open>The fallback composition\<close>

type_synonym ('e, 's) provider = "'e \<Rightarrow> PostalAddress \<Rightarrow> 's \<Rightarrow> AddressAnalysis res \<times> 's"

definition as_fallback :: "AddressAnalysis \<Rightarrow> AddressAnalysis" where
  "as_fallback r = r\<lparr>aa_fallback := True, aa_note := Some FALLBACK_NOTE,
     aa_evidence := aa_evidence r @ [''primary provider unavailable; CloudNova fallback'']\<rparr>"

text \<open>The state holds both providers and the number of fallbacks.\<close>

definition fallback_analyze ::
  "('e, 's) provider \<Rightarrow> ('f, 't) provider \<Rightarrow> ('e \<times> 'f, 's \<times> 't \<times> nat) provider" where
  "fallback_analyze primary secondary env address st =
     (case (env, st) of ((e, f), (s, t, fallbacks)) \<Rightarrow>
        (case primary e address s of
           (Inl err, s') \<Rightarrow> (Inl err, (s', t, fallbacks))
         | (Inr r, s') \<Rightarrow> if aa_available r then (Inr r, (s', t, fallbacks))
             else (case secondary f address t of
                 (Inl err, t') \<Rightarrow> (Inl err, (s', t', fallbacks + 1))
               | (Inr q, t') \<Rightarrow> (Inr (as_fallback q), (s', t', fallbacks + 1)))))"

definition cloudnova_provider :: "(unit, unit) provider" where
  "cloudnova_provider env address s = (Inr (cloudnova_analyze address), s)"

section \<open>The provider contract\<close>

text \<open>
  What a caller may rely on, whatever the provider: an available result lists in its normalized
  fields exactly what it resolved; READY means that both country and town are resolved; an
  unavailable result claims nothing.
\<close>

locale address_provider =
  fixes analyze :: "('e, 's) provider"
  assumes fields_resolved: "fst (analyze e a s) = Inr r \<Longrightarrow>
      aa_normalized_fields r = resolved_fields (aa_country_code r) (aa_town_name r)"
    and ready_resolved: "fst (analyze e a s) = Inr r \<Longrightarrow> aa_readiness r = READY \<Longrightarrow>
      truthy (aa_country_code r) \<and> truthy (aa_town_name r)"
    and unavailable_empty: "fst (analyze e a s) = Inr r \<Longrightarrow> \<not> aa_available r \<Longrightarrow>
      \<not> truthy (aa_country_code r) \<and> \<not> truthy (aa_town_name r)"
begin

lemma country_field:
  "fst (analyze e a s) = Inr r \<Longrightarrow> map_of (aa_normalized_fields r) ''country'' = por (aa_country_code r) None"
  using fields_resolved[of e a s r] by (cases "aa_country_code r") (auto simp: resolved_fields_def por_def dget_opt_def)

lemma town_field:
  "fst (analyze e a s) = Inr r \<Longrightarrow> map_of (aa_normalized_fields r) ''town_name'' = por (aa_town_name r) None"
  using fields_resolved[of e a s r] by (cases "aa_town_name r") (auto simp: resolved_fields_def por_def dget_opt_def)

lemma ready_has_both_fields:
  assumes "fst (analyze e a s) = Inr r" "aa_readiness r = READY"
  shows "map_of (aa_normalized_fields r) ''country'' = aa_country_code r \<and>
    map_of (aa_normalized_fields r) ''town_name'' = aa_town_name r \<and> aa_available r"
  using ready_resolved[OF assms] unavailable_empty[OF assms(1)] country_field[OF assms(1)] town_field[OF assms(1)]
  by (auto simp: por_def)

lemma unavailable_fields:
  "fst (analyze e a s) = Inr r \<Longrightarrow> \<not> aa_available r \<Longrightarrow> aa_normalized_fields r = []"
  using fields_resolved[of e a s r] unavailable_empty[of e a s r] by (simp add: resolved_fields_def)

end

locale fallback_pair = primary: address_provider primary + secondary: address_provider secondary
  for primary :: "('e, 's) provider" and secondary :: "('f, 't) provider"
begin

lemma fallback_result:
  assumes "fst (fallback_analyze primary secondary (e, f) a (s, t, n)) = Inr r"
  obtains "fst (primary e a s) = Inr r" "aa_available r"
    | q p where "fst (primary e a s) = Inr p" "\<not> aa_available p" "fst (secondary f a t) = Inr q" "r = as_fallback q"
  using assms unfolding fallback_analyze_def
  by (auto split: prod.splits sum.splits if_splits)

end

lemma as_fallback_simps [simp]:
  "aa_normalized_fields (as_fallback q) = aa_normalized_fields q" "aa_country_code (as_fallback q) = aa_country_code q"
  "aa_town_name (as_fallback q) = aa_town_name q" "aa_readiness (as_fallback q) = aa_readiness q"
  "aa_available (as_fallback q) = aa_available q" "aa_fallback (as_fallback q)"
  by (simp_all add: as_fallback_def)

sublocale fallback_pair \<subseteq> composed: address_provider "fallback_analyze primary secondary"
proof unfold_locales
  fix e a s r
  assume r: "fst (fallback_analyze primary secondary e a s) = Inr r"
  obtain e1 e2 s1 s2 n where es: "e = (e1, e2)" "s = (s1, s2, n)" by (metis prod.exhaust)
  note res = fallback_result[OF r[unfolded es]]
  show "aa_normalized_fields r = resolved_fields (aa_country_code r) (aa_town_name r)"
    using res by (cases rule: res) (auto intro: primary.fields_resolved secondary.fields_resolved)
  show "aa_readiness r = READY \<Longrightarrow> truthy (aa_country_code r) \<and> truthy (aa_town_name r)"
    using primary.ready_resolved secondary.ready_resolved by (cases rule: res) auto
  show "\<not> aa_available r \<Longrightarrow> \<not> truthy (aa_country_code r) \<and> \<not> truthy (aa_town_name r)"
    using secondary.unavailable_empty by (cases rule: res) auto
qed

end
