(* ===== verification/PO_AddressProps.thy ===== *)
theory PO_AddressProps
  imports PO_Address
begin

text \<open>
  What the address engine guarantees: the three providers meet the contract, CloudNova derives
  nothing that the address does not hold, and the circuit breaker of the Swift-derived client
  opens after its threshold and stays shut until its time.
\<close>

section \<open>CloudNova\<close>

lemma collect_some_Cons: "collect_some f xs = y # ys \<Longrightarrow> \<exists>x\<in>set xs. f x = Some y"
proof -
  assume "collect_some f xs = y # ys"
  then have "y \<in> set (collect_some f xs)" by simp
  then show ?thesis by (auto simp: set_collect_some)
qed

lemma country_of_token_valid: "country_of_token t = Some c \<Longrightarrow> is_valid_country_code c"
  by (auto simp: country_of_token_def Let_def normalize_country_name_valid split: if_splits)

lemma town_in_tokens_from:
  "town_in_tokens cc b ts = Some t \<Longrightarrow> town_shaped t \<and> (b = Some t \<or> t \<in> set ts)"
  by (induction ts arbitrary: b) (auto split: option.splits if_splits)

lemma country_from_lines:
  "fst (extract_country_from_lines ls) = Some c \<Longrightarrow>
     is_valid_country_code c \<and> (\<exists>l\<in>set ls. \<exists>tok\<in>set (split_commas l). country_of_token tok = Some c)"
  using collect_some_Cons[of country_of_token "concat (map split_commas ls)"]
  by (auto simp: extract_country_from_lines_def dest: country_of_token_valid split: list.splits)

lemma town_from_lines:
  assumes "fst (extract_town_from_lines ls cc) = Some t"
  shows "town_shaped t \<and> (\<exists>l\<in>set ls. t \<in> set (split_commas l))"
proof -
  let ?f = "\<lambda>line. town_in_tokens cc None (split_commas line)"
  from assms obtain ys where "collect_some ?f ls = t # ys"
    by (auto simp: extract_town_from_lines_def split: list.splits)
  from collect_some_Cons[OF this] obtain l where l: "l \<in> set ls" "?f l = Some t" by blast
  from town_in_tokens_from[OF l(2)] l(1) show ?thesis by auto
qed

lemma resolve_country_cases:
  "cr_code (resolve_country a) = None \<and> \<not> cr_ok (resolve_country a) \<and> \<not> cr_repairable (resolve_country a) \<or>
   (\<exists>c. cr_code (resolve_country a) = Some c \<and> is_valid_country_code c \<and>
     (pa_country a = Some c \<and> cr_ok (resolve_country a) \<or>
      \<not> cr_ok (resolve_country a) \<and> cr_repairable (resolve_country a) \<and>
        (normalize_country_name (dget_opt (pa_country a)) = Some c \<or>
         (\<exists>l\<in>set (pa_address_lines a). \<exists>tok\<in>set (split_commas l). country_of_token tok = Some c))))"
proof (cases "truthy (pa_country a)")
  case True
  then obtain s where s: "pa_country a = Some s" "s \<noteq> []" by (auto simp: truthy_def split: option.splits)
  show ?thesis
  proof (cases "is_valid_country_code s")
    case True
    then show ?thesis using s valid_country_code_shape[OF True] by (simp add: resolve_country_def dget_opt_def)
  next
    case False
    then show ?thesis using s
      by (cases "normalize_country_name s") (auto simp: resolve_country_def dget_opt_def Let_def normalize_country_name_valid)
  qed
next
  case False
  then show ?thesis
    using country_from_lines[of "pa_address_lines a"]
    by (cases "extract_country_from_lines (pa_address_lines a)"; cases "fst (extract_country_from_lines (pa_address_lines a))")
      (auto simp: resolve_country_def)
qed

lemma country_ok_iff:
  "cr_ok (resolve_country a) \<longleftrightarrow> (\<exists>c. pa_country a = Some c \<and> is_valid_country_code c)"
proof -
  have "cr_ok (resolve_country a)" if "pa_country a = Some c" "is_valid_country_code c" for c
    using that valid_country_code_shape[OF that(2)] by (simp add: resolve_country_def dget_opt_def)
  then show ?thesis using resolve_country_cases[of a] by blast
qed

lemma resolve_town_cases:
  "resolve_town a cc = (source_town a, True, False, [''town present in source (HIGH)'']) \<and> truthy (source_town a) \<or>
   \<not> truthy (source_town a) \<and> (\<exists>t ev. resolve_town a cc = (Some t, False, True, ev) \<and> town_shaped t \<and>
     (\<exists>l\<in>set (pa_address_lines a). t \<in> set (split_commas l))) \<or>
   \<not> truthy (source_town a) \<and> resolve_town a cc = (None, False, False, [])"
proof (cases "truthy (source_town a)")
  case False
  then show ?thesis
    using town_from_lines[of "pa_address_lines a" cc]
    by (cases "extract_town_from_lines (pa_address_lines a) cc"; cases "fst (extract_town_from_lines (pa_address_lines a) cc)")
      (auto simp: resolve_town_def)
qed (simp add: resolve_town_def)

lemma town_shaped_nonempty: "town_shaped t \<Longrightarrow> t \<noteq> []"
  by (auto simp: town_shaped_def)

lemma cloudnova_simps:
  "aa_country_code (cloudnova_analyze a) = cr_code (resolve_country a)"
  "aa_town_name (cloudnova_analyze a) = fst (resolve_town a (cr_code (resolve_country a)))"
  "aa_normalized_fields (cloudnova_analyze a) =
     resolved_fields (cr_code (resolve_country a)) (fst (resolve_town a (cr_code (resolve_country a))))"
  "aa_available (cloudnova_analyze a)" "\<not> aa_fallback (cloudnova_analyze a)"
  "aa_provider (cloudnova_analyze a) = ''cloudnova''"
  by (simp_all add: cloudnova_analyze_def Let_def split_def)

lemma cloudnova_readiness:
  "aa_readiness (cloudnova_analyze a) =
     classify_readiness (cr_ok (resolve_country a)) (truthy (source_town a)) (cr_repairable (resolve_country a))
       (\<not> truthy (source_town a) \<and> fst (resolve_town a (cr_code (resolve_country a))) \<noteq> None)
       (truthy (pa_country a) \<or> truthy (source_town a) \<or> pa_address_lines a \<noteq> [])"
  using resolve_town_cases[of a "cr_code (resolve_country a)"]
  by (auto simp: cloudnova_analyze_def Let_def split_def)

lemma cloudnova_ready_iff:
  "aa_readiness (cloudnova_analyze a) = READY \<longleftrightarrow>
     (\<exists>c. pa_country a = Some c \<and> is_valid_country_code c) \<and> truthy (source_town a)"
  by (simp add: cloudnova_readiness classify_readiness_def country_ok_iff)

lemma cloudnova_unresolved_iff:
  "aa_readiness (cloudnova_analyze a) = UNRESOLVED \<longleftrightarrow>
     \<not> truthy (pa_country a) \<and> \<not> truthy (source_town a) \<and> pa_address_lines a = []"
proof -
  have "\<not> cr_ok (resolve_country a) \<and> \<not> cr_repairable (resolve_country a)"
    if "\<not> truthy (pa_country a)" "pa_address_lines a = []"
    using that by (simp add: resolve_country_def extract_country_from_lines_def)
  moreover have "fst (resolve_town a cc) = None" if "\<not> truthy (source_town a)" "pa_address_lines a = []" for cc
    using that by (simp add: resolve_town_def extract_town_from_lines_def)
  ultimately show ?thesis by (auto simp: cloudnova_readiness classify_readiness_def)
qed

interpretation cloudnova: address_provider cloudnova_provider
proof unfold_locales
  fix a r and e s :: unit
  assume r: "fst (cloudnova_provider e a s) = Inr r"
  then have r: "r = cloudnova_analyze a" by (simp add: cloudnova_provider_def)
  show "aa_normalized_fields r = resolved_fields (aa_country_code r) (aa_town_name r)"
    by (simp add: r cloudnova_simps)
  show "truthy (aa_country_code r) \<and> truthy (aa_town_name r)" if "aa_readiness r = READY"
  proof -
    from that obtain c where c: "pa_country a = Some c" "is_valid_country_code c" and t: "truthy (source_town a)"
      by (auto simp: r cloudnova_ready_iff)
    then have "cr_code (resolve_country a) = Some c"
      using valid_country_code_shape[OF c(2)] by (simp add: resolve_country_def dget_opt_def)
    then show ?thesis using t valid_country_code_shape[OF c(2)]
      by (simp add: r cloudnova_simps resolve_town_def)
  qed
  show "\<not> truthy (aa_country_code r) \<and> \<not> truthy (aa_town_name r)" if "\<not> aa_available r"
    using that by (simp add: r cloudnova_simps)
qed

section \<open>The Swift-derived client\<close>

lemma swift_result:
  "fst (swift_analyze cfg e a s) = Inr r \<Longrightarrow>
     (\<exists>reason. r = swift_unavailable reason) \<or> (\<exists>resp. swift_post cfg (se_attempt e) = Inr resp \<and> r = swift_build resp)"
  by (auto simp: swift_analyze_def split: if_splits sum.splits post_exception.splits)

lemma swift_analysis_simps:
  "aa_country_code (swift_build r) = por (sr_country r) None" "aa_town_name (swift_build r) = por (sr_town r) None"
  "aa_normalized_fields (swift_build r) = resolved_fields (sr_country r) (sr_town r)"
  "aa_readiness (swift_build r) = swift_classify r" "aa_available (swift_build r)"
  "aa_provider (swift_build r) = ''swift_derived''" "\<not> aa_fallback (swift_build r)"
  "aa_country_code (swift_unavailable x) = None" "aa_town_name (swift_unavailable x) = None"
  "aa_normalized_fields (swift_unavailable x) = []" "aa_readiness (swift_unavailable x) = UNRESOLVED"
  "\<not> aa_available (swift_unavailable x)"
  by (simp_all add: swift_build_def swift_unavailable_def)

lemma resolved_fields_por: "resolved_fields (por c None) (por t None) = resolved_fields c t"
  by (simp add: resolved_fields_def por_def)

lemma truthy_por_None: "truthy (por c None) = truthy c"
  by (simp add: por_def)

interpretation swift: address_provider "swift_analyze cfg"
proof unfold_locales
  fix e a s r
  assume "fst (swift_analyze cfg e a s) = Inr r"
  note r = swift_result[OF this]
  show "aa_normalized_fields r = resolved_fields (aa_country_code r) (aa_town_name r)"
    using r by (auto simp: swift_analysis_simps resolved_fields_por) (simp add: resolved_fields_def)
  show "aa_readiness r = READY \<Longrightarrow> truthy (aa_country_code r) \<and> truthy (aa_town_name r)"
    using r by (auto simp: swift_analysis_simps swift_classify_def truthy_por_None split: if_splits)
  show "\<not> aa_available r \<Longrightarrow> \<not> truthy (aa_country_code r) \<and> \<not> truthy (aa_town_name r)"
    using r by (auto simp: swift_analysis_simps)
qed

interpretation swift_or_cloudnova: fallback_pair "swift_analyze cfg" cloudnova_provider
  by unfold_locales

lemma post_loop_prefix:
  "(\<forall>k. i \<le> k \<and> k < i + n \<longrightarrow> out k = out' k) \<Longrightarrow> post_loop out n i x = post_loop out' n i x"
proof (induction n arbitrary: i x)
  case (Suc n)
  have "out i = out' i" using Suc.prems by simp
  moreover have "post_loop out n (i + 1) y = post_loop out' n (i + 1) y" for y
    using Suc.prems by (intro Suc.IH) auto
  ultimately show ?case by (simp split: attempt.split)
qed simp

definition transient :: "attempt \<Rightarrow> bool" where
  "transient x \<longleftrightarrow> x = TimesOut \<or> x = TransportFails"

lemma post_loop_retries:
  "\<forall>k<m. transient (out (i + k)) \<Longrightarrow> m < n \<Longrightarrow> out (i + m) = Responds r \<Longrightarrow> post_loop out n i x = Inr r"
proof (induction m arbitrary: i n x)
  case 0
  then show ?case by (cases n) auto
next
  case (Suc m)
  obtain n' where n: "n = Suc n'" using Suc.prems by (cases n) auto
  have t: "transient (out i)" using Suc.prems(1) by (metis add.right_neutral zero_less_Suc)
  have "post_loop out n' (i + 1) y = Inr r" for y
    using Suc.prems n by (intro Suc.IH) auto
  then show ?case using t by (auto simp: n transient_def)
qed

definition counted_failure :: "post_exception + StructureResponse \<Rightarrow> bool" where
  "counted_failure x \<longleftrightarrow> x = Inl TimeoutException \<or> x = Inl TransportError \<or> x = Inl HTTPStatusError"

lemma swift_failing_call:
  assumes "sw_endpoint cfg \<noteq> []" "sw_circuit_open_until s \<le> se_clock e" "swift_lines a \<noteq> []"
    "counted_failure (swift_post cfg (se_attempt e))"
  shows "swift_analyze cfg e a s =
    (Inr (swift_unavailable ''provider call failed or timed out''), record_failure cfg (se_clock_after e) s)"
  using assms by (auto simp: swift_analyze_def circuit_open_def counted_failure_def)

text \<open>The states of the client over any sequence of calls.\<close>

inductive swift_reachable :: "swift_config \<Rightarrow> swift_state \<Rightarrow> bool" for cfg where
  start: "swift_reachable cfg swift_init"
| call: "swift_reachable cfg s \<Longrightarrow> swift_reachable cfg (snd (swift_analyze cfg e a s))"

inductive_cases swift_reachableE: "swift_reachable cfg s"

lemma swift_state_step:
  "snd (swift_analyze cfg e a s) \<in> {s, record_success s, record_failure cfg (se_clock_after e) s}"
  by (auto simp: swift_analyze_def split: sum.splits post_exception.splits)

lemma swift_failures_bounded:
  assumes "swift_reachable cfg s" "0 < sw_circuit_threshold cfg"
  shows "0 \<le> sw_failures s \<and> sw_failures s < sw_circuit_threshold cfg"
  using assms
proof (induction rule: swift_reachable.induct)
  case start
  then show ?case by (simp add: swift_init_def)
next
  case (call s e a)
  then show ?case using swift_state_step[of cfg e a s]
    by (auto simp: record_success_def record_failure_def Let_def)
qed

fun swift_run :: "swift_config \<Rightarrow> (swift_env \<times> PostalAddress) list \<Rightarrow> swift_state \<Rightarrow> swift_state" where
  "swift_run cfg [] s = s"
| "swift_run cfg ((e, a) # calls) s = swift_run cfg calls (snd (swift_analyze cfg e a s))"

lemma swift_run_failures:
  assumes "sw_endpoint cfg \<noteq> []"
    "\<forall>(e, a)\<in>set calls. sw_circuit_open_until s \<le> se_clock e \<and> swift_lines a \<noteq> [] \<and>
       counted_failure (swift_post cfg (se_attempt e))"
    "calls \<noteq> []" "sw_failures s + int (length calls) = sw_circuit_threshold cfg"
  shows "swift_run cfg calls s =
    \<lparr>sw_failures = 0, sw_circuit_open_until = fl (se_clock_after (fst (last calls)) + sw_cooldown cfg)\<rparr>"
  using assms(2-)
proof (induction calls arbitrary: s)
  case (Cons x calls)
  obtain e a where x: "x = (e, a)" by force
  have s: "snd (swift_analyze cfg e a s) = record_failure cfg (se_clock_after e) s"
    using swift_failing_call[OF assms(1), of s e a] Cons.prems(1) x by simp
  show ?case
  proof (cases "calls = []")
    case True
    then show ?thesis using Cons.prems(3) by (simp add: x s record_failure_def Let_def)
  next
    case False
    then have r: "record_failure cfg (se_clock_after e) s = s\<lparr>sw_failures := sw_failures s + 1\<rparr>"
      using Cons.prems(3) by (cases calls) (auto simp: record_failure_def Let_def)
    have "swift_run cfg calls (s\<lparr>sw_failures := sw_failures s + 1\<rparr>) =
        \<lparr>sw_failures = 0, sw_circuit_open_until = fl (se_clock_after (fst (last calls)) + sw_cooldown cfg)\<rparr>"
      using Cons.prems False by (intro Cons.IH) auto
    then show ?thesis using False by (simp add: x s r)
  qed
qed simp

section \<open>Properties\<close>

text \<open>CloudNova fabricates nothing. The country it reports is a valid code that is the source value,
  the code of its name, or read off a comma part of an address line; the town is the source town
  or a capitalized comma part of 2 to 35 characters of an address line. An address is READY
  exactly when its own fields hold a valid country and a town that is not blank, and UNRESOLVED
  exactly when it has no country, no town and no lines.\<close>

theorem cloudnova_never_fabricates:
  "aa_country_code (cloudnova_analyze a) \<in> {None} \<union> Some ` {c. is_valid_country_code c \<and>
      (pa_country a = Some c \<or> normalize_country_name (dget_opt (pa_country a)) = Some c \<or>
       (\<exists>l\<in>set (pa_address_lines a). \<exists>tok\<in>set (split_commas l). country_of_token tok = Some c))} \<and>
   aa_town_name (cloudnova_analyze a) \<in> {None, source_town a} \<union> Some ` {t. 2 \<le> length t \<and> length t \<le> 35 \<and>
      is_upper (hd t) \<and> (\<exists>l\<in>set (pa_address_lines a). t \<in> set (split_commas l))} \<and>
   (aa_readiness (cloudnova_analyze a) = READY \<longleftrightarrow>
      (\<exists>c. pa_country a = Some c \<and> is_valid_country_code c) \<and> truthy (source_town a)) \<and>
   (aa_readiness (cloudnova_analyze a) = UNRESOLVED \<longleftrightarrow>
      pa_country a \<in> {None, Some []} \<and> source_town a \<in> {None, Some []} \<and> pa_address_lines a = [])"
proof -
  have "aa_country_code (cloudnova_analyze a) \<in> {None} \<union> Some ` {c. is_valid_country_code c \<and>
      (pa_country a = Some c \<or> normalize_country_name (dget_opt (pa_country a)) = Some c \<or>
       (\<exists>l\<in>set (pa_address_lines a). \<exists>tok\<in>set (split_commas l). country_of_token tok = Some c))}"
    using resolve_country_cases[of a] by (auto simp: cloudnova_simps)
  moreover have "aa_town_name (cloudnova_analyze a) \<in> {None, source_town a} \<union> Some ` {t. 2 \<le> length t \<and>
      length t \<le> 35 \<and> is_upper (hd t) \<and> (\<exists>l\<in>set (pa_address_lines a). t \<in> set (split_commas l))}"
    using resolve_town_cases[of a "cr_code (resolve_country a)"] by (auto simp: cloudnova_simps town_shaped_def)
  moreover have "(\<not> truthy x) = (x \<in> {None, Some []})" for x by (cases x) auto
  ultimately show ?thesis using cloudnova_ready_iff[of a] cloudnova_unresolved_iff[of a] by blast
qed

text \<open>The fallback composition of the Swift-derived client with CloudNova always answers with an
  available analysis when it answers: either the client's own, or CloudNova's marked as a
  fallback with its note; a READY answer carries country and town in its normalized fields; and
  a fallback is counted exactly when one is marked.\<close>

theorem fallback_always_available:
  assumes "fallback_analyze (swift_analyze cfg) cloudnova_provider env a st = (Inr r, st')"
  shows "aa_available r \<and>
    (r = as_fallback (cloudnova_analyze a) \<and> aa_note r = Some FALLBACK_NOTE \<and> snd (snd st') = snd (snd st) + 1 \<or>
     aa_provider r = ''swift_derived'' \<and> aa_fallback r = False \<and> snd (snd st') = snd (snd st)) \<and>
    (aa_readiness r = READY \<longrightarrow> map_of (aa_normalized_fields r) ''country'' = aa_country_code r \<and>
       map_of (aa_normalized_fields r) ''town_name'' = aa_town_name r \<and>
       truthy (aa_country_code r) \<and> truthy (aa_town_name r))"
proof -
  have r: "fst (fallback_analyze (swift_analyze cfg) cloudnova_provider env a st) = Inr r" using assms by simp
  obtain e f s t n where es: "env = (e, f)" "st = (s, t, n)" by (metis prod.exhaust)
  have "aa_available r \<and>
    (r = as_fallback (cloudnova_analyze a) \<and> aa_note r = Some FALLBACK_NOTE \<and> snd (snd st') = snd (snd st) + 1 \<or>
     aa_provider r = ''swift_derived'' \<and> aa_fallback r = False \<and> snd (snd st') = snd (snd st))"
  proof (cases "swift_analyze cfg e a s")
    case (Pair p s')
    show ?thesis
    proof (cases p)
      case (Inl err)
      then show ?thesis using assms Pair by (simp add: fallback_analyze_def es)
    next
      case (Inr q)
      then have q: "(\<exists>x. q = swift_unavailable x) \<or> (\<exists>x. q = swift_build x)" using swift_result[of cfg e a s] Pair by auto
      show ?thesis
      proof (cases "aa_available q")
        case True
        then have "r = q" "st' = (s', t, n)" using assms Pair Inr by (simp_all add: fallback_analyze_def es)
        then show ?thesis using q True by (auto simp: es swift_analysis_simps)
      next
        case False
        then have "r = as_fallback (cloudnova_analyze a)" "st' = (s', t, n + 1)"
          using assms Pair Inr by (simp_all add: fallback_analyze_def es cloudnova_provider_def)
        then show ?thesis by (simp add: es cloudnova_simps as_fallback_def)
      qed
    qed
  qed
  moreover have "map_of (aa_normalized_fields r) ''country'' = aa_country_code r \<and>
       map_of (aa_normalized_fields r) ''town_name'' = aa_town_name r \<and>
       truthy (aa_country_code r) \<and> truthy (aa_town_name r)" if "aa_readiness r = READY"
    using swift_or_cloudnova.composed.ready_has_both_fields[OF r that]
      swift_or_cloudnova.composed.ready_resolved[OF r that] by blast
  ultimately show ?thesis by blast
qed

definition sample_address :: PostalAddress where
  "sample_address = \<lparr>pa_street_name = None, pa_building_number = None, pa_postcode = None, pa_town_name = None,
     pa_country = None, pa_country_name = None, pa_address_lines = [''1 High St, London, GB''],
     pa_source_path = None, pa_readiness = UNRESOLVED, pa_evidence_level = LOW, pa_original_fields = [],
     pa_normalized_fields = []\<rparr>"

definition sample_config :: swift_config where
  "sample_config = \<lparr>sw_endpoint = ''http://structuring:8080'', sw_max_retries = 1, sw_circuit_threshold = 3,
     sw_cooldown = 30\<rparr>"

definition sample_env :: "rat \<Rightarrow> attempt \<Rightarrow> swift_env" where
  "sample_env clock x = \<lparr>se_clock = clock, se_clock_after = clock + 2, se_attempt = \<lambda>_. x\<rparr>"

theorem fallback_always_available_witness:
  "aa_available (as_fallback (cloudnova_analyze sample_address))"
proof -
  have "fallback_analyze (swift_analyze sample_config) cloudnova_provider (sample_env 100 TimesOut, ())
      sample_address (swift_init, (), 0) =
      (Inr (as_fallback (cloudnova_analyze sample_address)),
        record_failure sample_config 102 swift_init, (), 1)"
    by (simp add: fallback_analyze_def swift_analyze_def sample_config_def sample_env_def circuit_open_def swift_init_def
        swift_lines_def sample_address_def swift_post_def eval_nat_numeral swift_unavailable_def cloudnova_provider_def)
  from fallback_always_available[OF this] show ?thesis by blast
qed

text \<open>C38: The circuit breaker. From a state without counted failures, as many consecutive failed calls as
  the threshold open the circuit until the cooldown after the last one, with the counter back at
  zero; until then every call is refused at once, whatever the service would answer, and leaves
  the state as it is.\<close>

theorem circuit_breaker_opens:
  assumes "sw_endpoint cfg \<noteq> []" "0 < sw_circuit_threshold cfg" "sw_failures s = 0"
    "int (length calls) = sw_circuit_threshold cfg"
    "\<forall>(e, a)\<in>set calls. sw_circuit_open_until s \<le> se_clock e \<and> swift_lines a \<noteq> [] \<and>
       counted_failure (swift_post cfg (se_attempt e))"
  defines "s' \<equiv> swift_run cfg calls s"
  shows "sw_failures s' = 0 \<and>
    sw_circuit_open_until s' = fl (se_clock_after (fst (last calls)) + sw_cooldown cfg) \<and>
    (\<forall>e a. se_clock e < sw_circuit_open_until s' \<longrightarrow>
       swift_analyze cfg e a s' = (Inr (swift_unavailable ''not configured or circuit open''), s'))"
proof -
  have "calls \<noteq> []" using assms(2,4) by auto
  from swift_run_failures[OF assms(1,5) this] assms(3,4)
  have "s' = \<lparr>sw_failures = 0, sw_circuit_open_until = fl (se_clock_after (fst (last calls)) + sw_cooldown cfg)\<rparr>"
    by (simp add: s'_def)
  then show ?thesis by (simp add: swift_analyze_def circuit_open_def)
qed

theorem circuit_breaker_opens_witness:
  "sw_failures (swift_run sample_config (replicate 3 (sample_env 100 ErrorStatus, sample_address)) swift_init) = 0"
proof -
  have c: "int (length (replicate 3 (sample_env 100 ErrorStatus, sample_address))) = sw_circuit_threshold sample_config"
    by (simp add: sample_config_def)
  show ?thesis
    using circuit_breaker_opens[OF _ _ _ c, of swift_init]
    by (simp add: sample_config_def sample_env_def swift_init_def swift_lines_def sample_address_def swift_post_def
        eval_nat_numeral counted_failure_def)
qed

text \<open>The failure counter stays below the threshold in every state the client can reach by any
  sequence of calls, so the circuit opens at the threshold and never later.\<close>

theorem swift_failures_below_threshold:
  assumes "swift_reachable cfg s" "0 < sw_circuit_threshold cfg"
  shows "0 \<le> sw_failures s \<and> sw_failures s < sw_circuit_threshold cfg"
  using swift_failures_bounded[OF assms] .

theorem swift_failures_below_threshold_witness:
  "sw_failures (snd (swift_analyze sample_config (sample_env 100 TimesOut) sample_address swift_init)) < 3"
  using swift_failures_below_threshold[OF swift_reachable.call[OF swift_reachable.start],
      of sample_config "sample_env 100 TimesOut" sample_address]
  by (simp add: sample_config_def)

text \<open>Retries are bounded and effective: the outcome of a request depends only on its first
  max_retries + 1 attempts, and when one of these answers after timeouts or transport errors
  only, its answer is returned.\<close>

theorem swift_retries_bounded:
  assumes "\<forall>k < nat (sw_max_retries cfg + 1). out k = out' k"
  shows "swift_post cfg out = swift_post cfg out' \<and>
    (\<forall>m < nat (sw_max_retries cfg + 1). \<forall>r. out m = Responds r \<and> (\<forall>k<m. out k \<in> {TimesOut, TransportFails}) \<longrightarrow>
       swift_post cfg out = Inr r)"
proof -
  have "swift_post cfg out = Inr r"
    if "m < nat (sw_max_retries cfg + 1)" "out m = Responds r" "\<forall>k<m. out k \<in> {TimesOut, TransportFails}" for m r
    using that post_loop_retries[of m out 0 "nat (sw_max_retries cfg + 1)" r None]
    by (simp add: swift_post_def transient_def)
  moreover have "swift_post cfg out = swift_post cfg out'"
    unfolding swift_post_def using assms by (intro post_loop_prefix) simp
  ultimately show ?thesis by blast
qed

theorem swift_retries_bounded_witness:
  "swift_post sample_config (\<lambda>k. if k < 2 then TimesOut else ErrorStatus) = swift_post sample_config (\<lambda>_. TimesOut)"
proof -
  have "\<forall>k < nat (sw_max_retries sample_config + 1).
      (\<lambda>k. if k < 2 then TimesOut else ErrorStatus) k = (\<lambda>_. TimesOut) k"
    by (simp add: sample_config_def)
  from swift_retries_bounded[OF this] show ?thesis by blast
qed

text \<open>An answer that is no JSON defeats the fallback: the client catches timeouts, transport errors and
  error statuses only, so any other exception of the request, such as the ValueError of
  decoding the body, leaves the composed provider as that exception, no fallback is taken and no
  failure is counted.\<close>

theorem swift_bad_body_escapes:
  assumes "sw_endpoint cfg \<noteq> []" "0 \<le> sw_max_retries cfg" "sw_circuit_open_until s \<le> se_clock env"
    "swift_lines a \<noteq> []" "se_attempt env 0 = Raises e"
  shows "fallback_analyze (swift_analyze cfg) cloudnova_provider (env, ()) a (s, (), n) = (Inl e, (s, (), n))"
proof -
  obtain m where "nat (sw_max_retries cfg + 1) = Suc m" using assms(2) by (cases "nat (sw_max_retries cfg + 1)") auto
  then have "swift_post cfg (se_attempt env) = Inl (OtherException e)"
    using assms(5) by (simp add: swift_post_def)
  then show ?thesis using assms by (simp add: fallback_analyze_def swift_analyze_def circuit_open_def)
qed

theorem swift_bad_body_escapes_witness:
  "fallback_analyze (swift_analyze sample_config) cloudnova_provider
     (sample_env 100 (Raises (ValueError ''Expecting value'')), ()) sample_address (swift_init, (), 0) =
   (Inl (ValueError ''Expecting value''), (swift_init, (), 0))"
  by (rule swift_bad_body_escapes)
    (simp_all add: sample_config_def sample_env_def swift_init_def swift_lines_def sample_address_def)

end
