(* ===== verification/PO_Rules.thy ===== *)
theory PO_Rules
  imports PO_Domain
begin

text \<open>
  The built-in part of the rules engine (\<open>packages/rules_engine\<close>): findings, rules, the engine and
  the versioned ruleset. A rule is a record that carries its evaluation; \<open>rule_contract\<close> is what
  the engine relies on, and every rule of the ruleset is an interpretation of it.
\<close>

section \<open>Rules and findings\<close>

definition RULESET_VERSION :: string where
  "RULESET_VERSION = ''cloudnova-address-v1''"

datatype Severity = INFO | WARNING | ERROR | CRITICAL

definition Severity_value :: "Severity \<Rightarrow> string" where
  "Severity_value s = (case s of INFO \<Rightarrow> ''INFO'' | WARNING \<Rightarrow> ''WARNING'' | ERROR \<Rightarrow> ''ERROR'' | CRITICAL \<Rightarrow> ''CRITICAL'')"

definition Severity_of :: "string \<Rightarrow> Severity res" where
  "Severity_of s = (if s = ''INFO'' then Inr INFO else if s = ''WARNING'' then Inr WARNING
     else if s = ''ERROR'' then Inr ERROR else if s = ''CRITICAL'' then Inr CRITICAL
     else Inl (ValueError (quote_name s @ '' is not a valid Severity'')))"

lemma Severity_roundtrip: "Severity_of (Severity_value s) = Inr s"
  by (cases s) (simp_all add: Severity_of_def Severity_value_def)

record RuleFinding =
  rf_rule_id :: string
  rf_ruleset_version :: string
  rf_severity :: Severity
  rf_target :: string
  rf_message :: string
  rf_evidence :: "string list"
  rf_suggested_action :: "string option"

record Rule =
  rl_rule_id :: string
  rl_name :: string
  rl_category :: string
  rl_severity :: Severity
  rl_ruleset_version :: string
  rl_evaluate :: "PaymentTransaction \<Rightarrow> RuleFinding list"

text \<open>\<open>Rule._finding\<close>, for a rule given by its id and severity.\<close>

definition finding ::
  "string \<Rightarrow> Severity \<Rightarrow> PaymentTransaction \<Rightarrow> string \<Rightarrow> string \<Rightarrow> string list \<Rightarrow> string option \<Rightarrow> RuleFinding" where
  "finding rule_id severity tx target message evidence action =
     \<lparr>rf_rule_id = rule_id, rf_ruleset_version = RULESET_VERSION, rf_severity = severity,
      rf_target = dget_opt (por (Some target) (por (tx_source_path tx) None)), rf_message = message,
      rf_evidence = evidence, rf_suggested_action = action\<rparr>"

lemma finding_simps [simp]:
  "rf_rule_id (finding i s tx t m e a) = i" "rf_severity (finding i s tx t m e a) = s"
  "rf_ruleset_version (finding i s tx t m e a) = RULESET_VERSION"
  by (simp_all add: finding_def)

record RuleEngine =
  re_rules :: "Rule list"
  re_version :: string

definition engine_evaluate :: "RuleEngine \<Rightarrow> PaymentMessage \<Rightarrow> RuleFinding list" where
  "engine_evaluate engine message =
     concat (map (\<lambda>tx. concat (map (\<lambda>rule. rl_evaluate rule tx) (re_rules engine))) (pm_transactions message))"

section \<open>Structural rules\<close>

definition MissingInstructionIdRule :: Rule where
  "MissingInstructionIdRule = \<lparr>rl_rule_id = ''ISO-001'', rl_name = ''Instruction ID missing'',
     rl_category = ''ISO / structural'', rl_severity = WARNING, rl_ruleset_version = RULESET_VERSION,
     rl_evaluate = (\<lambda>tx.
       if \<not> truthy (tx_instruction_id tx)
       then [finding ''ISO-001'' WARNING tx (show_opt (tx_source_path tx) @ ''/PmtId'')
         ''Payment instruction ID (InstrId) is missing'' [''PmtId/InstrId is absent''] None]
       else [])\<rparr>"

definition MissingAmountRule :: Rule where
  "MissingAmountRule = \<lparr>rl_rule_id = ''ISO-002'', rl_name = ''Amount missing'',
     rl_category = ''ISO / structural'', rl_severity = ERROR, rl_ruleset_version = RULESET_VERSION,
     rl_evaluate = (\<lambda>tx.
       if (case tx_amount tx of None \<Rightarrow> True | Some amt \<Rightarrow> ma_amount_minor amt \<le> 0)
       then [finding ''ISO-002'' ERROR tx (show_opt (tx_source_path tx) @ ''/Amt'')
         ''Amount is missing or non-positive'' [''Amt/InstdAmt is absent or zero''] None]
       else [])\<rparr>"

definition MissingEndToEndIdRule :: Rule where
  "MissingEndToEndIdRule = \<lparr>rl_rule_id = ''ISO-003'', rl_name = ''End-to-end ID missing'',
     rl_category = ''ISO / structural'', rl_severity = INFO, rl_ruleset_version = RULESET_VERSION,
     rl_evaluate = (\<lambda>tx.
       if \<not> truthy (tx_end_to_end_id tx)
       then [finding ''ISO-003'' INFO tx (show_opt (tx_source_path tx) @ ''/PmtId'')
         ''End-to-end ID (EndToEndId) is missing'' [''PmtId/EndToEndId is absent''] None]
       else [])\<rparr>"

definition MissingDebtorAgentBicRule :: Rule where
  "MissingDebtorAgentBicRule = \<lparr>rl_rule_id = ''SEM-001'', rl_name = ''Debtor agent BIC missing'',
     rl_category = ''Basic semantic consistency'', rl_severity = WARNING, rl_ruleset_version = RULESET_VERSION,
     rl_evaluate = (\<lambda>tx.
       if (case tx_debtor_agent tx of None \<Rightarrow> False | Some ag \<Rightarrow> \<not> truthy (fi_bic ag))
       then [finding ''SEM-001'' WARNING tx (show_opt (tx_source_path tx) @ ''/DbtrAgt'')
         ''Debtor agent BIC is missing'' [''DbtrAgt/FinInstnId/BICFI is absent''] None]
       else [])\<rparr>"

definition MissingCreditorAgentBicRule :: Rule where
  "MissingCreditorAgentBicRule = \<lparr>rl_rule_id = ''SEM-002'', rl_name = ''Creditor agent BIC missing'',
     rl_category = ''Basic semantic consistency'', rl_severity = WARNING, rl_ruleset_version = RULESET_VERSION,
     rl_evaluate = (\<lambda>tx.
       if (case tx_creditor_agent tx of None \<Rightarrow> False | Some ag \<Rightarrow> \<not> truthy (fi_bic ag))
       then [finding ''SEM-002'' WARNING tx (show_opt (tx_source_path tx) @ ''/CdtrAgt'')
         ''Creditor agent BIC is missing'' [''CdtrAgt/FinInstnId/BICFI is absent''] None]
       else [])\<rparr>"

definition MissingCreditorAccountRule :: Rule where
  "MissingCreditorAccountRule = \<lparr>rl_rule_id = ''SEM-003'', rl_name = ''Creditor account missing'',
     rl_category = ''Basic semantic consistency'', rl_severity = WARNING, rl_ruleset_version = RULESET_VERSION,
     rl_evaluate = (\<lambda>tx.
       if (case tx_creditor_account tx of None \<Rightarrow> False | Some acc \<Rightarrow> \<not> (truthy (ac_iban acc) \<or> truthy (ac_other_identification acc)))
       then [finding ''SEM-003'' WARNING tx (show_opt (tx_source_path tx) @ ''/CdtrAcct'')
         ''Creditor account identification missing'' [''CdtrAcct/Id is empty''] None]
       else [])\<rparr>"

section \<open>Address rules\<close>

text \<open>The postal addresses of a transaction with their labels.\<close>

definition labelled :: "string \<Rightarrow> PostalAddress option \<Rightarrow> (string \<times> PostalAddress) list" where
  "labelled label a = (case a of None \<Rightarrow> [] | Some x \<Rightarrow> [(label, x)])"

definition addresses :: "PaymentTransaction \<Rightarrow> (string \<times> PostalAddress) list" where
  "addresses tx =
     labelled ''Dbtr'' (Option.bind (tx_debtor tx) py_postal_address) @
     labelled ''Cdtr'' (Option.bind (tx_creditor tx) py_postal_address) @
     labelled ''DbtrAgt'' (Option.bind (tx_debtor_agent tx) fi_postal_address) @
     labelled ''CdtrAgt'' (Option.bind (tx_creditor_agent tx) fi_postal_address)"

definition has_structured :: "PostalAddress \<Rightarrow> bool" where
  "has_structured a = list_ex truthy
     [pa_street_name a, pa_building_number a, pa_postcode a, pa_town_name a, pa_country a]"

text \<open>\<open>out.append(...)\<close> for every address that meets a condition.\<close>

definition address_findings ::
  "(PostalAddress \<Rightarrow> bool) \<Rightarrow> (string \<Rightarrow> PostalAddress \<Rightarrow> RuleFinding) \<Rightarrow> PaymentTransaction \<Rightarrow> RuleFinding list" where
  "address_findings p f tx = map (\<lambda>(label, a). f label a) (filter (\<lambda>(label, a). p a) (addresses tx))"

definition TownMissingRule :: Rule where
  "TownMissingRule = \<lparr>rl_rule_id = ''ADR-001'', rl_name = ''Town Name missing'',
     rl_category = ''Address readiness'', rl_severity = WARNING, rl_ruleset_version = RULESET_VERSION,
     rl_evaluate = (\<lambda>tx. address_findings
       (\<lambda>a. pa_town_name a = None \<and> pa_country a \<noteq> None)
       (\<lambda>label a. finding ''ADR-001'' WARNING tx (label @ ''/PstlAdr'') ''Town name is missing''
          [label @ ''/PstlAdr/TwnNm is absent''] (Some ''Provide TwnNm or derive from address lines'')) tx)\<rparr>"

definition CountryMissingRule :: Rule where
  "CountryMissingRule = \<lparr>rl_rule_id = ''ADR-002'', rl_name = ''Country missing'',
     rl_category = ''Address readiness'', rl_severity = ERROR, rl_ruleset_version = RULESET_VERSION,
     rl_evaluate = (\<lambda>tx. address_findings
       (\<lambda>a. pa_country a = None)
       (\<lambda>label a. finding ''ADR-002'' ERROR tx (label @ ''/PstlAdr'') ''Country is missing''
          [label @ ''/PstlAdr/Ctry is absent''] (Some ''Provide ISO 3166-1 alpha-2 Ctry'')) tx)\<rparr>"

definition InvalidCountryCodeRule :: Rule where
  "InvalidCountryCodeRule = \<lparr>rl_rule_id = ''ADR-003'', rl_name = ''Country code invalid'',
     rl_category = ''Country normalization'', rl_severity = ERROR, rl_ruleset_version = RULESET_VERSION,
     rl_evaluate = (\<lambda>tx. address_findings
       (\<lambda>a. (case pa_country a of None \<Rightarrow> False | Some c \<Rightarrow> \<not> is_valid_country_code c))
       (\<lambda>label a. finding ''ADR-003'' ERROR tx (label @ ''/PstlAdr'') ''Country code is not a valid ISO 3166-1 alpha-2 code''
          [''Ctry='' @ quote_name (dget_opt (pa_country a))] (Some ''Normalise to ISO alpha-2 code'')) tx)\<rparr>"

definition UnstructuredAddressRule :: Rule where
  "UnstructuredAddressRule = \<lparr>rl_rule_id = ''ADR-004'', rl_name = ''Address is unstructured'',
     rl_category = ''Address readiness'', rl_severity = WARNING, rl_ruleset_version = RULESET_VERSION,
     rl_evaluate = (\<lambda>tx. address_findings
       (\<lambda>a. \<not> has_structured a \<and> pa_address_lines a \<noteq> [])
       (\<lambda>label a. finding ''ADR-004'' WARNING tx (label @ ''/PstlAdr'') ''Address is unstructured and requires readiness review''
          [label @ ''/PstlAdr contains only AdrLine''] (Some ''Structure address from AdrLine'')) tx)\<rparr>"

definition HybridAddressRule :: Rule where
  "HybridAddressRule = \<lparr>rl_rule_id = ''ADR-005'', rl_name = ''Mixed/hybrid address candidate'',
     rl_category = ''Address readiness'', rl_severity = INFO, rl_ruleset_version = RULESET_VERSION,
     rl_evaluate = (\<lambda>tx. address_findings
       (\<lambda>a. has_structured a \<and> pa_address_lines a \<noteq> [])
       (\<lambda>label a. finding ''ADR-005'' INFO tx (label @ ''/PstlAdr'') ''Hybrid address (structured + AdrLine) requires evaluation''
          [label @ ''/PstlAdr has both structured fields and AdrLine''] (None)) tx)\<rparr>"

section \<open>The ruleset\<close>

definition ADDRESS_RULESET :: "Rule list" where
  "ADDRESS_RULESET = [MissingInstructionIdRule, MissingAmountRule, MissingEndToEndIdRule,
     MissingDebtorAgentBicRule, MissingCreditorAgentBicRule, MissingCreditorAccountRule,
     TownMissingRule, CountryMissingRule, InvalidCountryCodeRule,
     UnstructuredAddressRule, HybridAddressRule]"

definition build_address_ruleset :: RuleEngine where
  "build_address_ruleset = \<lparr>re_rules = ADDRESS_RULESET, re_version = RULESET_VERSION\<rparr>"

section \<open>The contract of a rule\<close>

text \<open>A rule signs its findings: they carry its id, its severity and its version.\<close>

locale rule_contract =
  fixes rule :: Rule
  assumes signed: "f \<in> set (rl_evaluate rule tx) \<Longrightarrow>
    rf_rule_id f = rl_rule_id rule \<and> rf_severity f = rl_severity rule \<and> rf_ruleset_version f = rl_ruleset_version rule"

text \<open>An engine all of whose rules sign: every finding of it names one of its rules.\<close>

locale rule_set =
  fixes engine :: RuleEngine
  assumes contracts: "r \<in> set (re_rules engine) \<Longrightarrow> rule_contract r"
begin

lemma finding_of_rule:
  assumes "f \<in> set (engine_evaluate engine m)"
  obtains r tx where "r \<in> set (re_rules engine)" "tx \<in> set (pm_transactions m)" "f \<in> set (rl_evaluate r tx)"
    "rf_rule_id f = rl_rule_id r" "rf_severity f = rl_severity r" "rf_ruleset_version f = rl_ruleset_version r"
proof -
  from assms obtain r tx where r: "r \<in> set (re_rules engine)" "tx \<in> set (pm_transactions m)" "f \<in> set (rl_evaluate r tx)"
    by (auto simp: engine_evaluate_def)
  with rule_contract.signed[OF contracts[OF r(1)] r(3)] show ?thesis using that by blast
qed

lemma severity_of_rule:
  "f \<in> set (engine_evaluate engine m) \<Longrightarrow> rf_severity f \<in> rl_severity ` set (re_rules engine)"
  by (erule finding_of_rule) auto

end

lemma set_address_findings: "set (address_findings p f tx) = {f l a |l a. (l, a) \<in> set (addresses tx) \<and> p a}"
  by (auto simp: address_findings_def)

lemma address_findings_Nil: "address_findings p f tx = [] \<longleftrightarrow> (\<forall>(l, a)\<in>set (addresses tx). \<not> p a)"
  by (auto simp: address_findings_def filter_empty_conv)

lemmas rule_defs = MissingInstructionIdRule_def MissingAmountRule_def MissingEndToEndIdRule_def MissingDebtorAgentBicRule_def MissingCreditorAgentBicRule_def MissingCreditorAccountRule_def TownMissingRule_def CountryMissingRule_def InvalidCountryCodeRule_def UnstructuredAddressRule_def HybridAddressRule_def

interpretation MissingInstructionIdRule: rule_contract MissingInstructionIdRule
  by unfold_locales (auto simp: MissingInstructionIdRule_def set_address_findings split: if_splits)

interpretation MissingAmountRule: rule_contract MissingAmountRule
  by unfold_locales (auto simp: MissingAmountRule_def set_address_findings split: if_splits)

interpretation MissingEndToEndIdRule: rule_contract MissingEndToEndIdRule
  by unfold_locales (auto simp: MissingEndToEndIdRule_def set_address_findings split: if_splits)

interpretation MissingDebtorAgentBicRule: rule_contract MissingDebtorAgentBicRule
  by unfold_locales (auto simp: MissingDebtorAgentBicRule_def set_address_findings split: if_splits)

interpretation MissingCreditorAgentBicRule: rule_contract MissingCreditorAgentBicRule
  by unfold_locales (auto simp: MissingCreditorAgentBicRule_def set_address_findings split: if_splits)

interpretation MissingCreditorAccountRule: rule_contract MissingCreditorAccountRule
  by unfold_locales (auto simp: MissingCreditorAccountRule_def set_address_findings split: if_splits)

interpretation TownMissingRule: rule_contract TownMissingRule
  by unfold_locales (auto simp: TownMissingRule_def set_address_findings split: if_splits)

interpretation CountryMissingRule: rule_contract CountryMissingRule
  by unfold_locales (auto simp: CountryMissingRule_def set_address_findings split: if_splits)

interpretation InvalidCountryCodeRule: rule_contract InvalidCountryCodeRule
  by unfold_locales (auto simp: InvalidCountryCodeRule_def set_address_findings split: if_splits)

interpretation UnstructuredAddressRule: rule_contract UnstructuredAddressRule
  by unfold_locales (auto simp: UnstructuredAddressRule_def set_address_findings split: if_splits)

interpretation HybridAddressRule: rule_contract HybridAddressRule
  by unfold_locales (auto simp: HybridAddressRule_def set_address_findings split: if_splits)

lemma ruleset_contracts: "list_all rule_contract ADDRESS_RULESET"
  by (simp add: ADDRESS_RULESET_def MissingInstructionIdRule.rule_contract_axioms 
    MissingAmountRule.rule_contract_axioms MissingEndToEndIdRule.rule_contract_axioms MissingDebtorAgentBicRule.rule_contract_axioms 
    MissingCreditorAgentBicRule.rule_contract_axioms MissingCreditorAccountRule.rule_contract_axioms TownMissingRule.rule_contract_axioms 
    CountryMissingRule.rule_contract_axioms InvalidCountryCodeRule.rule_contract_axioms UnstructuredAddressRule.rule_contract_axioms 
    HybridAddressRule.rule_contract_axioms)

interpretation cloudnova_rules: rule_set build_address_ruleset
proof (rule rule_set.intro)
  show "r \<in> set (re_rules build_address_ruleset) \<Longrightarrow> rule_contract r" for r
    using ruleset_contracts by (simp add: build_address_ruleset_def list_all_iff)
qed

end
