(* ===== verification/PO_Declarative.thy ===== *)
theory PO_Declarative
  imports PO_Rules PO_Decimal
begin

text \<open>
  Declarative customer rules (\<open>rules_engine/declarative.py\<close>): a rule is data, a field path, an
  operator of an allow-list and an expected value. Python objects that a path can reach are
  values of \<open>pyval\<close>; a model is a \<open>VModel\<close> with its fields and properties. Attributes that are no
  model field (the methods of strings, numbers and models) are given by the parameter
  \<open>member\<close>, and the \<open>repr\<close> and \<open>str\<close> of floats, lists, dictionaries, models and methods by \<open>repr_other\<close>.
  \<open>VOther\<close> is such an attribute: a bound method or another object.
\<close>

section \<open>Values\<close>

datatype pyval = VNone | VBool bool | VInt int | VFloat rat | VStr string | VList "pyval list"
  | VDict "(string \<times> pyval) list" | VModel string "(string \<times> pyval) list" | VDatetime pydatetime | VOther string

fun val_of_json :: "jval \<Rightarrow> pyval" where
  "val_of_json JNull = VNone"
| "val_of_json (JBool b) = VBool b"
| "val_of_json (JInt i) = VInt i"
| "val_of_json (JFloat x) = VFloat x"
| "val_of_json (JStr s) = VStr s"
| "val_of_json (JList xs) = VList (map val_of_json xs)"
| "val_of_json (JObj kvs) = VDict (map (\<lambda>(k, v). (k, val_of_json v)) kvs)"

definition opt_val :: "('a \<Rightarrow> pyval) \<Rightarrow> 'a option \<Rightarrow> pyval" where
  "opt_val f x = (case x of None \<Rightarrow> VNone | Some y \<Rightarrow> f y)"

abbreviation str_val :: "string option \<Rightarrow> pyval" where
  "str_val \<equiv> opt_val VStr"

definition readiness_value :: "AddressReadiness \<Rightarrow> string" where
  "readiness_value r = (case r of READY \<Rightarrow> ''READY'' | REPAIRABLE \<Rightarrow> ''REPAIRABLE''
     | AR_REVIEW_REQUIRED \<Rightarrow> ''REVIEW_REQUIRED'' | UNRESOLVED \<Rightarrow> ''UNRESOLVED'')"

definition evidence_value :: "EvidenceLevel \<Rightarrow> string" where
  "evidence_value l = (case l of HIGH \<Rightarrow> ''HIGH'' | MEDIUM \<Rightarrow> ''MEDIUM'' | LOW \<Rightarrow> ''LOW'')"

definition dict_val :: "(string, string) dict \<Rightarrow> pyval" where
  "dict_val d = VDict (map (\<lambda>(k, v). (k, VStr v)) d)"

text \<open>The enumerations are string enumerations, so their members are strings.\<close>

definition address_val :: "PostalAddress \<Rightarrow> pyval" where
  "address_val a = VModel ''PostalAddress''
     [(''street_name'', str_val (pa_street_name a)), (''building_number'', str_val (pa_building_number a)),
      (''postcode'', str_val (pa_postcode a)), (''town_name'', str_val (pa_town_name a)),
      (''country'', str_val (pa_country a)), (''country_name'', str_val (pa_country_name a)),
      (''address_lines'', VList (map VStr (pa_address_lines a))), (''source_path'', str_val (pa_source_path a)),
      (''readiness'', VStr (readiness_value (pa_readiness a))),
      (''evidence_level'', VStr (evidence_value (pa_evidence_level a))),
      (''original_fields'', dict_val (pa_original_fields a)), (''normalized_fields'', dict_val (pa_normalized_fields a))]"

definition account_val :: "Account \<Rightarrow> pyval" where
  "account_val a = VModel ''Account''
     [(''iban'', str_val (ac_iban a)), (''other_identification'', str_val (ac_other_identification a)),
      (''currency'', str_val (ac_currency a)), (''name'', str_val (ac_name a)), (''source_path'', str_val (ac_source_path a))]"

definition institution_val :: "FinancialInstitution \<Rightarrow> pyval" where
  "institution_val f = VModel ''FinancialInstitution''
     [(''bic'', str_val (fi_bic f)), (''clearing_system_member'', str_val (fi_clearing_system_member f)),
      (''name'', str_val (fi_name f)), (''postal_address'', opt_val address_val (fi_postal_address f)),
      (''source_path'', str_val (fi_source_path f))]"

definition party_val :: "Party \<Rightarrow> pyval" where
  "party_val p = VModel ''Party''
     [(''name'', str_val (py_name p)), (''identification'', VList (map VStr (py_identification p))),
      (''postal_address'', opt_val address_val (py_postal_address p)), (''account'', opt_val account_val (py_account p)),
      (''financial_institution'', opt_val institution_val (py_financial_institution p)),
      (''source_path'', str_val (py_source_path p))]"

definition amount_val :: "MonetaryAmount \<Rightarrow> pyval" where
  "amount_val a = VModel ''MonetaryAmount'' [(''amount_minor'', VInt (ma_amount_minor a)), (''currency'', VStr (ma_currency a))]"

definition remittance_val :: "RemittanceInformation \<Rightarrow> pyval" where
  "remittance_val r = VModel ''RemittanceInformation''
     [(''unstructured'', VList (map VStr (ri_unstructured r))), (''reference'', str_val (ri_reference r)),
      (''source_path'', str_val (ri_source_path r))]"

text \<open>A transaction with its two properties.\<close>

definition transaction_val :: "PaymentTransaction \<Rightarrow> pyval" where
  "transaction_val tx = VModel ''PaymentTransaction''
     [(''instruction_id'', str_val (tx_instruction_id tx)), (''end_to_end_id'', str_val (tx_end_to_end_id tx)),
      (''transaction_id'', str_val (tx_transaction_id tx)), (''amount'', opt_val amount_val (tx_amount tx)),
      (''debtor'', opt_val party_val (tx_debtor tx)), (''creditor'', opt_val party_val (tx_creditor tx)),
      (''debtor_account'', opt_val account_val (tx_debtor_account tx)),
      (''creditor_account'', opt_val account_val (tx_creditor_account tx)),
      (''debtor_agent'', opt_val institution_val (tx_debtor_agent tx)),
      (''creditor_agent'', opt_val institution_val (tx_creditor_agent tx)),
      (''remittance'', opt_val remittance_val (tx_remittance tx)),
      (''requested_execution_date'', opt_val VDatetime (tx_requested_execution_date tx)),
      (''source_path'', str_val (tx_source_path tx)),
      (''debtor_name'', str_val (debtor_name tx)), (''creditor_name'', str_val (creditor_name tx))]"

section \<open>Field paths\<close>

type_synonym members = "pyval \<Rightarrow> string \<Rightarrow> pyval option"

definition get_attr :: "members \<Rightarrow> pyval \<Rightarrow> string \<Rightarrow> pyval" where
  "get_attr member obj name =
     (case (case obj of VModel _ attrs \<Rightarrow> map_of attrs name | _ \<Rightarrow> None) of
        Some v \<Rightarrow> v
      | None \<Rightarrow> (case member obj name of Some v \<Rightarrow> v | None \<Rightarrow> VNone))"

fun walk :: "members \<Rightarrow> pyval \<Rightarrow> string list \<Rightarrow> pyval" where
  "walk member node [] = node"
| "walk member node (s # seg) = (if node = VNone then VNone else walk member (get_attr member node s) seg)"

definition resolve_field :: "members \<Rightarrow> PaymentTransaction \<Rightarrow> string \<Rightarrow> pyval" where
  "resolve_field member tx path =
     walk member (transaction_val tx) (filter (\<lambda>s. s \<noteq> []) (split_char CHR ''.'' path))"

section \<open>Operators\<close>

definition OPERATORS :: "string list" where
  "OPERATORS = [''in'', ''not_in'', ''equals'', ''not_equals'', ''is_empty'', ''not_empty'', ''greater_than'',
     ''less_than'', ''contains'', ''starts_with'']"

text \<open>Python's \<open>==\<close> between a reached value and a JSON value: numbers by value, booleans as 0 and 1,
  dictionaries as mappings. A model or a datetime never equals a JSON value.\<close>

definition num_val :: "pyval \<Rightarrow> rat option" where
  "num_val v = (case v of VBool b \<Rightarrow> Some (if b then 1 else 0) | VInt i \<Rightarrow> Some (of_int i)
     | VFloat x \<Rightarrow> Some x | _ \<Rightarrow> None)"

fun py_eq :: "pyval \<Rightarrow> pyval \<Rightarrow> bool" where
  "py_eq (VList xs) w = (case w of VList ys \<Rightarrow> list_all2 py_eq xs ys | _ \<Rightarrow> False)"
| "py_eq (VDict d) w = (case w of VDict d' \<Rightarrow> length d = length d' \<and>
     list_all (\<lambda>(k, v). case map_of d' k of None \<Rightarrow> False | Some v' \<Rightarrow> py_eq v v') d | _ \<Rightarrow> False)"
| "py_eq (VModel n d) w = False"
| "py_eq (VDatetime t) w = False"
| "py_eq (VOther n) w = False"
| "py_eq v w = (case num_val v of Some x \<Rightarrow> num_val w = Some x
     | None \<Rightarrow> (v = VNone \<and> w = VNone) \<or> (case v of VStr s \<Rightarrow> w = VStr s | _ \<Rightarrow> False))"

text \<open>\<open>float(str(value))\<close>, or \<open>None\<close> when that text is no number. The text of a boolean, of None and of a
  list, dictionary or model never is one.\<close>

definition num :: "pyval \<Rightarrow> rat number option" where
  "num v = (case v of VStr s \<Rightarrow> float_of_text s | VInt i \<Rightarrow> float_of_text (show_int i)
     | VFloat x \<Rightarrow> Some (Finite x) | _ \<Rightarrow> None)"

text \<open>\<open>a < b\<close> on floats, with the infinities and with every comparison of a NaN false.\<close>

definition num_less :: "rat number \<Rightarrow> rat number \<Rightarrow> bool" where
  "num_less a b = (case (a, b) of
     (Finite x, Finite y) \<Rightarrow> x < y
   | (Infinite neg, Finite y) \<Rightarrow> neg
   | (Finite x, Infinite neg) \<Rightarrow> \<not> neg
   | (Infinite n, Infinite n') \<Rightarrow> n \<and> \<not> n'
   | _ \<Rightarrow> False)"

text \<open>\<open>str\<close> of an expected value, for \<open>starts_with\<close>.\<close>

definition py_text :: "(pyval \<Rightarrow> string) \<Rightarrow> pyval \<Rightarrow> string" where
  "py_text repr_other v = (case v of VStr s \<Rightarrow> s | VNone \<Rightarrow> ''None'' | VBool b \<Rightarrow> if b then ''True'' else ''False''
     | VInt i \<Rightarrow> show_int i | _ \<Rightarrow> repr_other v)"

definition matches :: "(pyval \<Rightarrow> string) \<Rightarrow> pyval \<Rightarrow> string \<Rightarrow> pyval \<Rightarrow> bool" where
  "matches repr_other v operator expected =
     (if operator = ''in'' then (case expected of VList xs \<Rightarrow> list_ex (py_eq v) xs | _ \<Rightarrow> False)
      else if operator = ''not_in'' then (case expected of VList xs \<Rightarrow> \<not> list_ex (py_eq v) xs | _ \<Rightarrow> False)
      else if operator = ''equals'' then py_eq v expected
      else if operator = ''not_equals'' then \<not> py_eq v expected
      else if operator = ''is_empty'' then v = VNone \<or> v = VStr []
      else if operator = ''not_empty'' then v \<noteq> VNone \<and> v \<noteq> VStr []
      else if operator = ''greater_than'' then
        (case (num v, num expected) of (Some x, Some e) \<Rightarrow> num_less e x | _ \<Rightarrow> False)
      else if operator = ''less_than'' then
        (case (num v, num expected) of (Some x, Some e) \<Rightarrow> num_less x e | _ \<Rightarrow> False)
      else if operator = ''contains'' then
        (case (v, expected) of (VStr s, VStr t) \<Rightarrow> contains t s | _ \<Rightarrow> False)
      else if operator = ''starts_with'' then
        (case v of VStr s \<Rightarrow> starts_with (py_text repr_other expected) s | _ \<Rightarrow> False)
      else False)"

section \<open>Rules\<close>

definition SYSTEM_MANDATORY :: string where "SYSTEM_MANDATORY = ''SYSTEM_MANDATORY''"
definition CLOUDNOVA_DEFAULT :: string where "CLOUDNOVA_DEFAULT = ''CLOUDNOVA_DEFAULT''"
definition CUSTOMER_CONFIGURABLE :: string where "CUSTOMER_CONFIGURABLE = ''CUSTOMER_CONFIGURABLE''"

record RuleConfig =
  rc_rule_id :: string
  rc_field :: string
  rc_operator :: string
  rc_value :: pyval
  rc_severity :: Severity
  rc_message :: "string option"
  rc_category :: string
  rc_classification :: string
  rc_ruleset_version :: string

definition required_text :: "(pyval \<Rightarrow> string) \<Rightarrow> (string, jval) dict \<Rightarrow> string \<Rightarrow> string res" where
  "required_text repr_other d key = (case map_of d key of None \<Rightarrow> Inl (KeyError key)
     | Some v \<Rightarrow> Inr (py_text repr_other (val_of_json v)))"

definition optional_text :: "(pyval \<Rightarrow> string) \<Rightarrow> (string, jval) dict \<Rightarrow> string \<Rightarrow> string \<Rightarrow> string" where
  "optional_text repr_other d key dflt = (case map_of d key of None \<Rightarrow> dflt
     | Some v \<Rightarrow> py_text repr_other (val_of_json v))"

text \<open>The message is cast, not converted: it is text or None in a configuration that was validated as JSON.\<close>

definition rule_config_from_dict :: "(pyval \<Rightarrow> string) \<Rightarrow> (string, jval) dict \<Rightarrow> RuleConfig res" where
  "rule_config_from_dict repr_other d =
     bindR (required_text repr_other d ''rule_id'') (\<lambda>rule_id.
     bindR (required_text repr_other d ''field'') (\<lambda>field.
     bindR (required_text repr_other d ''operator'') (\<lambda>operator.
     bindR (Severity_of (optional_text repr_other d ''severity'' ''WARNING'')) (\<lambda>severity. Inr
       \<lparr>rc_rule_id = rule_id, rc_field = field, rc_operator = operator,
        rc_value = (case map_of d ''value'' of None \<Rightarrow> VNone | Some v \<Rightarrow> val_of_json v),
        rc_severity = severity,
        rc_message = (case map_of d ''message'' of Some (JStr s) \<Rightarrow> Some s | _ \<Rightarrow> None),
        rc_category = optional_text repr_other d ''category'' ''customer'',
        rc_classification = optional_text repr_other d ''classification'' CUSTOMER_CONFIGURABLE,
        rc_ruleset_version = optional_text repr_other d ''ruleset_version'' ''cloudnova-customer-v1''\<rparr>))))"

definition validate_rule_config :: "RuleConfig \<Rightarrow> string list" where
  "validate_rule_config config =
     (if rc_operator config \<notin> set OPERATORS then [''unsupported operator '' @ quote_name (rc_operator config)] else []) @
     (if rc_classification config = SYSTEM_MANDATORY then [''customer config cannot declare SYSTEM_MANDATORY''] else [])"

text \<open>Python's \<open>repr\<close> of a string of printable ASCII: double quotes only around a text with a single and
  no double quote; backslash, the quote itself, tab, newline and carriage return escaped.\<close>

definition repr_char :: "char \<Rightarrow> char \<Rightarrow> string" where
  "repr_char q c =
     (if c = q \<or> c = CHR 0x5C then [CHR 0x5C, c]
      else if c = CHR 0x09 then [CHR 0x5C, CHR ''t'']
      else if c = CHR 0x0A then [CHR 0x5C, CHR ''n'']
      else if c = CHR 0x0D then [CHR 0x5C, CHR ''r'']
      else [c])"

definition repr_str :: "string \<Rightarrow> string" where
  "repr_str s = (let q = (if CHR 0x27 \<in> set s \<and> CHR 0x22 \<notin> set s then CHR 0x22 else CHR 0x27) in
     q # concat (map (repr_char q) s) @ [q])"

definition py_repr :: "(pyval \<Rightarrow> string) \<Rightarrow> pyval \<Rightarrow> string" where
  "py_repr repr_other v = (case v of VStr s \<Rightarrow> repr_str s | _ \<Rightarrow> py_text repr_other v)"

definition declarative_evaluate ::
  "members \<Rightarrow> (pyval \<Rightarrow> string) \<Rightarrow> RuleConfig \<Rightarrow> PaymentTransaction \<Rightarrow> RuleFinding list" where
  "declarative_evaluate member repr_other config tx =
     (let resolved = resolve_field member tx (rc_field config) in
      if matches repr_other resolved (rc_operator config) (rc_value config)
      then [\<lparr>rf_rule_id = rc_rule_id config, rf_ruleset_version = rc_ruleset_version config,
             rf_severity = rc_severity config, rf_target = rc_field config,
             rf_message = dget_opt (por (rc_message config) (Some (''Rule '' @ rc_rule_id config @ '' triggered''))),
             rf_evidence = [''field='' @ quote_name (rc_field config) @ '' value='' @ py_repr repr_other resolved],
             rf_suggested_action = None\<rparr>]
      else [])"

definition DeclarativeRule :: "members \<Rightarrow> (pyval \<Rightarrow> string) \<Rightarrow> RuleConfig \<Rightarrow> Rule" where
  "DeclarativeRule member repr_other config =
     \<lparr>rl_rule_id = rc_rule_id config, rl_name = rc_rule_id config, rl_category = rc_category config,
      rl_severity = rc_severity config, rl_ruleset_version = rc_ruleset_version config,
      rl_evaluate = declarative_evaluate member repr_other config\<rparr>"

definition build_declarative_rules :: "members \<Rightarrow> (pyval \<Rightarrow> string) \<Rightarrow> RuleConfig list \<Rightarrow> Rule list" where
  "build_declarative_rules member repr_other = map (DeclarativeRule member repr_other)"

definition composite_engine :: "Rule list \<Rightarrow> string \<Rightarrow> Rule list option \<Rightarrow> Rule list option \<Rightarrow> RuleEngine" where
  "composite_engine baseline version org profile =
     \<lparr>re_rules = baseline @ (case org of None \<Rightarrow> [] | Some rs \<Rightarrow> rs) @ (case profile of None \<Rightarrow> [] | Some rs \<Rightarrow> rs),
      re_version = version\<rparr>"

interpretation declarative: rule_contract "DeclarativeRule member repr_other config"
  by unfold_locales (auto simp: DeclarativeRule_def declarative_evaluate_def Let_def split: if_splits)

lemma declarative_contracts: "list_all rule_contract (build_declarative_rules member repr_other cs)"
  by (simp add: build_declarative_rules_def list_all_iff declarative.rule_contract_axioms)

interpretation composite: rule_set "composite_engine ADDRESS_RULESET RULESET_VERSION
  (Some (build_declarative_rules member repr_other org)) (Some (build_declarative_rules member repr_other prof))"
proof (rule rule_set.intro)
  show "rule_contract r" if "r \<in> set (re_rules (composite_engine ADDRESS_RULESET RULESET_VERSION
      (Some (build_declarative_rules member repr_other org)) (Some (build_declarative_rules member repr_other prof))))" for r
    using that ruleset_contracts declarative_contracts[of member repr_other org]
      declarative_contracts[of member repr_other prof]
    by (auto simp: composite_engine_def list_all_iff)
qed

end
