(* ===== verification/PO_RulesProps.thy ===== *)
theory PO_RulesProps
  imports PO_Declarative "HOL-Library.Sublist"
begin

text \<open>
  What the rules engine guarantees: which transactions pass the built-in ruleset without an
  error, that the findings are exactly those the rules are about, that each address is judged once, and that customer rules add
  findings and take none away.
\<close>

section \<open>The ruleset\<close>

lemma evaluate_error_free:
  "list_all (\<lambda>f. rf_severity f \<noteq> ERROR) (rl_evaluate r tx) \<longleftrightarrow> rl_severity r \<noteq> ERROR \<or> rl_evaluate r tx = []"
  if "rule_contract r"
proof -
  have "\<forall>f\<in>set (rl_evaluate r tx). rf_severity f = rl_severity r" using rule_contract.signed[OF that] by blast
  then show ?thesis by (cases "rl_evaluate r tx") (auto simp: list_all_iff)
qed

lemma list_all_concat_map: "list_all P (concat (map f xs)) \<longleftrightarrow> list_all (\<lambda>x. list_all P (f x)) xs"
  by (induction xs) auto

lemma error_free_rules:
  "list_all (\<lambda>r. rl_severity r \<noteq> ERROR \<or> rl_evaluate r tx = []) ADDRESS_RULESET \<longleftrightarrow>
     rl_evaluate MissingAmountRule tx = [] \<and> rl_evaluate CountryMissingRule tx = [] \<and>
     rl_evaluate InvalidCountryCodeRule tx = []"
  by (simp add: ADDRESS_RULESET_def MissingInstructionIdRule_def MissingEndToEndIdRule_def MissingDebtorAgentBicRule_def
      MissingCreditorAgentBicRule_def MissingCreditorAccountRule_def TownMissingRule_def UnstructuredAddressRule_def
      HybridAddressRule_def MissingAmountRule_def[THEN arg_cong[of _ _ rl_severity]]
      CountryMissingRule_def[THEN arg_cong[of _ _ rl_severity]]
      InvalidCountryCodeRule_def[THEN arg_cong[of _ _ rl_severity]])

lemma amount_rule_silent:
  "rl_evaluate MissingAmountRule tx = [] \<longleftrightarrow> (\<exists>a. tx_amount tx = Some a \<and> 0 < ma_amount_minor a)"
  by (auto simp: MissingAmountRule_def split: option.splits)

lemma country_rules_silent:
  "rl_evaluate CountryMissingRule tx = [] \<and> rl_evaluate InvalidCountryCodeRule tx = [] \<longleftrightarrow>
     list_all (\<lambda>(l, a). \<exists>c. pa_country a = Some c \<and> is_valid_country_code c) (addresses tx)"
proof -
  have c: "rl_evaluate CountryMissingRule tx = [] \<longleftrightarrow> (\<forall>(l, a)\<in>set (addresses tx). pa_country a \<noteq> None)"
    by (simp add: CountryMissingRule_def address_findings_Nil)
  have i: "rl_evaluate InvalidCountryCodeRule tx = [] \<longleftrightarrow>
      (\<forall>(l, a)\<in>set (addresses tx). \<not> (case pa_country a of None \<Rightarrow> False | Some c \<Rightarrow> \<not> is_valid_country_code c))"
    by (simp add: InvalidCountryCodeRule_def address_findings_Nil)
  show ?thesis unfolding c i list_all_iff by (fastforce split: option.splits)
qed

lemma length_address_findings:
  "length (address_findings p f tx) = length (filter (\<lambda>(l, a). p a) (addresses tx))"
  by (simp add: address_findings_def)

lemma length_filter_split:
  "(\<And>x. x \<in> set xs \<Longrightarrow> (P x \<or> Q x) = R x \<and> \<not> (P x \<and> Q x)) \<Longrightarrow>
     length (filter P xs) + length (filter Q xs) = length (filter R xs)"
proof (induction xs)
  case (Cons x xs)
  have "length (filter P xs) + length (filter Q xs) = length (filter R xs)" using Cons.prems by (intro Cons.IH) simp
  moreover have "(P x \<or> Q x) = R x \<and> \<not> (P x \<and> Q x)" using Cons.prems by simp
  ultimately show ?case by auto
qed simp

lemma error_free_message:
  "list_all (\<lambda>f. rf_severity f \<noteq> ERROR) (engine_evaluate build_address_ruleset m) \<longleftrightarrow>
     list_all (\<lambda>tx. (\<exists>a. tx_amount tx = Some a \<and> 0 < ma_amount_minor a) \<and>
       list_all (\<lambda>(l, a). \<exists>c. pa_country a = Some c \<and> is_valid_country_code c) (addresses tx)) (pm_transactions m)"
proof -
  have s: "list_all (\<lambda>r. list_all (\<lambda>f. rf_severity f \<noteq> ERROR) (rl_evaluate r tx)) ADDRESS_RULESET \<longleftrightarrow>
      list_all (\<lambda>r. rl_severity r \<noteq> ERROR \<or> rl_evaluate r tx = []) ADDRESS_RULESET" for tx
    using ruleset_contracts evaluate_error_free by (simp add: list_all_iff)
  have "list_all (\<lambda>r. list_all (\<lambda>f. rf_severity f \<noteq> ERROR) (rl_evaluate r tx)) ADDRESS_RULESET \<longleftrightarrow>
      (\<exists>a. tx_amount tx = Some a \<and> 0 < ma_amount_minor a) \<and>
      list_all (\<lambda>(l, a). \<exists>c. pa_country a = Some c \<and> is_valid_country_code c) (addresses tx)" for tx
    unfolding s error_free_rules by (simp only: amount_rule_silent country_rules_silent)
  then show ?thesis by (simp add: engine_evaluate_def build_address_ruleset_def list_all_concat_map)
qed

section \<open>Composition\<close>

lemma subseq_concat_map:
  "(\<And>x. x \<in> set xs \<Longrightarrow> subseq (f x) (g x)) \<Longrightarrow> subseq (concat (map f xs)) (concat (map g xs))"
  by (induction xs) (auto intro: list_emb_append_mono)

lemma subseq_append_right: "subseq xs (xs @ ys)"
  by (rule subseq_rev_drop_many) simp

lemma composite_rules:
  "re_rules (composite_engine base v (Some org) (Some prof)) = base @ org @ prof"
  by (simp add: composite_engine_def)

section \<open>Paths\<close>

lemma path_segments:
  "filter (\<lambda>s. s \<noteq> []) (split_char CHR ''.'' ''creditor.postal_address.country'') =
     [''creditor'', ''postal_address'', ''country'']"
  "filter (\<lambda>s. s \<noteq> []) (split_char CHR ''.'' ''amount.amount_minor'') = [''amount'', ''amount_minor'']"
  by code_simp+

lemma num_less_asym: "\<not> (num_less a b \<and> num_less b a)"
  by (cases a; cases b) (auto simp: num_less_def)

section \<open>Properties\<close>

text \<open>C39: A message passes the built-in ruleset without an ERROR finding exactly when every transaction has
  a positive amount and every postal address of its parties and agents has a valid ISO country
  code; there are never CRITICAL findings.\<close>

theorem ruleset_error_free_iff:
  "(list_all (\<lambda>f. rf_severity f \<noteq> ERROR) (engine_evaluate build_address_ruleset m) \<longleftrightarrow>
     list_all (\<lambda>tx. (\<exists>a. tx_amount tx = Some a \<and> 0 < ma_amount_minor a) \<and>
       list_all (\<lambda>(l, a). \<exists>c. pa_country a = Some c \<and> is_valid_country_code c) (addresses tx)) (pm_transactions m)) \<and>
   list_all (\<lambda>f. rf_severity f \<noteq> CRITICAL) (engine_evaluate build_address_ruleset m)"
proof -
  have "rf_severity f \<noteq> CRITICAL" if "f \<in> set (engine_evaluate build_address_ruleset m)" for f
    using cloudnova_rules.severity_of_rule[OF that]
    by (auto simp: build_address_ruleset_def ADDRESS_RULESET_def rule_defs)
  then show ?thesis using error_free_message[of m] by (simp add: list_all_iff)
qed

text \<open>
  What each rule looks for: its id, its severity and how often it fires on a transaction. An
  identifier is absent when there is none or it is empty.
\<close>

definition no_text :: "string option \<Rightarrow> bool" where
  "no_text s \<longleftrightarrow> s = None \<or> s = Some []"

definition once_if :: "bool \<Rightarrow> nat" where
  "once_if b = (if b then 1 else 0)"

definition addresses_where :: "(PostalAddress \<Rightarrow> bool) \<Rightarrow> PaymentTransaction \<Rightarrow> nat" where
  "addresses_where P tx = length (filter (\<lambda>(l, a). P a) (addresses tx))"

definition has_fields :: "PostalAddress \<Rightarrow> bool" where
  "has_fields a \<longleftrightarrow> \<not> no_text (pa_street_name a) \<or> \<not> no_text (pa_building_number a) \<or> \<not> no_text (pa_postcode a) \<or>
     \<not> no_text (pa_town_name a) \<or> \<not> no_text (pa_country a)"

definition rule_table :: "(string \<times> Severity \<times> (PaymentTransaction \<Rightarrow> nat)) list" where
  "rule_table =
    [(''ISO-001'', WARNING, \<lambda>tx. once_if (no_text (tx_instruction_id tx))),
     (''ISO-002'', ERROR, \<lambda>tx. once_if (\<not> (\<exists>a. tx_amount tx = Some a \<and> 0 < ma_amount_minor a))),
     (''ISO-003'', INFO, \<lambda>tx. once_if (no_text (tx_end_to_end_id tx))),
     (''SEM-001'', WARNING, \<lambda>tx. once_if (\<exists>ag. tx_debtor_agent tx = Some ag \<and> no_text (fi_bic ag))),
     (''SEM-002'', WARNING, \<lambda>tx. once_if (\<exists>ag. tx_creditor_agent tx = Some ag \<and> no_text (fi_bic ag))),
     (''SEM-003'', WARNING, \<lambda>tx. once_if (\<exists>acc. tx_creditor_account tx = Some acc \<and> no_text (ac_iban acc) \<and>
        no_text (ac_other_identification acc))),
     (''ADR-001'', WARNING, addresses_where (\<lambda>a. pa_town_name a = None \<and> pa_country a \<noteq> None)),
     (''ADR-002'', ERROR, addresses_where (\<lambda>a. pa_country a = None)),
     (''ADR-003'', ERROR, addresses_where (\<lambda>a. \<exists>c. pa_country a = Some c \<and> \<not> is_valid_country_code c)),
     (''ADR-004'', WARNING, addresses_where (\<lambda>a. \<not> has_fields a \<and> pa_address_lines a \<noteq> [])),
     (''ADR-005'', INFO, addresses_where (\<lambda>a. has_fields a \<and> pa_address_lines a \<noteq> []))]"

lemma no_text_truthy: "no_text s \<longleftrightarrow> \<not> truthy s"
  by (cases s) (simp_all add: no_text_def truthy_iff)

lemma structured_fields: "has_structured a = has_fields a"
  by (auto simp: has_structured_def has_fields_def no_text_truthy)

lemma rule_signatures:
  "rl_rule_id MissingInstructionIdRule = ''ISO-001''" "rl_severity MissingInstructionIdRule = WARNING"
  "rl_rule_id MissingAmountRule = ''ISO-002''" "rl_severity MissingAmountRule = ERROR"
  "rl_rule_id MissingEndToEndIdRule = ''ISO-003''" "rl_severity MissingEndToEndIdRule = INFO"
  "rl_rule_id MissingDebtorAgentBicRule = ''SEM-001''" "rl_severity MissingDebtorAgentBicRule = WARNING"
  "rl_rule_id MissingCreditorAgentBicRule = ''SEM-002''" "rl_severity MissingCreditorAgentBicRule = WARNING"
  "rl_rule_id MissingCreditorAccountRule = ''SEM-003''" "rl_severity MissingCreditorAccountRule = WARNING"
  "rl_rule_id TownMissingRule = ''ADR-001''" "rl_severity TownMissingRule = WARNING"
  "rl_rule_id CountryMissingRule = ''ADR-002''" "rl_severity CountryMissingRule = ERROR"
  "rl_rule_id InvalidCountryCodeRule = ''ADR-003''" "rl_severity InvalidCountryCodeRule = ERROR"
  "rl_rule_id UnstructuredAddressRule = ''ADR-004''" "rl_severity UnstructuredAddressRule = WARNING"
  "rl_rule_id HybridAddressRule = ''ADR-005''" "rl_severity HybridAddressRule = INFO"
  by (simp_all add: rule_defs)

text \<open>How often each rule fires is what the table says.\<close>

lemma rule_hits:
  "length (rl_evaluate MissingInstructionIdRule tx) = once_if (no_text (tx_instruction_id tx))"
  "length (rl_evaluate MissingAmountRule tx) = once_if (\<not> (\<exists>a. tx_amount tx = Some a \<and> 0 < ma_amount_minor a))"
  "length (rl_evaluate MissingEndToEndIdRule tx) = once_if (no_text (tx_end_to_end_id tx))"
  "length (rl_evaluate MissingDebtorAgentBicRule tx) = once_if (\<exists>ag. tx_debtor_agent tx = Some ag \<and> no_text (fi_bic ag))"
  "length (rl_evaluate MissingCreditorAgentBicRule tx) = once_if (\<exists>ag. tx_creditor_agent tx = Some ag \<and> no_text (fi_bic ag))"
  "length (rl_evaluate MissingCreditorAccountRule tx) = once_if (\<exists>acc. tx_creditor_account tx = Some acc \<and>
     no_text (ac_iban acc) \<and> no_text (ac_other_identification acc))"
  by (auto simp: MissingInstructionIdRule_def MissingAmountRule_def MissingEndToEndIdRule_def MissingDebtorAgentBicRule_def
      MissingCreditorAgentBicRule_def MissingCreditorAccountRule_def once_if_def no_text_truthy split: option.splits)

lemma address_rule_hits:
  "length (rl_evaluate TownMissingRule tx) = addresses_where (\<lambda>a. pa_town_name a = None \<and> pa_country a \<noteq> None) tx"
  "length (rl_evaluate CountryMissingRule tx) = addresses_where (\<lambda>a. pa_country a = None) tx"
  "length (rl_evaluate InvalidCountryCodeRule tx) =
     addresses_where (\<lambda>a. \<exists>c. pa_country a = Some c \<and> \<not> is_valid_country_code c) tx"
  "length (rl_evaluate UnstructuredAddressRule tx) = addresses_where (\<lambda>a. \<not> has_fields a \<and> pa_address_lines a \<noteq> []) tx"
  "length (rl_evaluate HybridAddressRule tx) = addresses_where (\<lambda>a. has_fields a \<and> pa_address_lines a \<noteq> []) tx"
  by (auto simp: TownMissingRule_def CountryMissingRule_def InvalidCountryCodeRule_def UnstructuredAddressRule_def
      HybridAddressRule_def length_address_findings addresses_where_def structured_fields split: option.splits
      intro!: arg_cong[where f = length] filter_cong)

definition signed_as :: "string \<Rightarrow> Severity \<Rightarrow> RuleFinding \<Rightarrow> bool" where
  "signed_as i s f \<longleftrightarrow> rf_rule_id f = i \<and> rf_severity f = s"

lemma signed_by_rule:
  assumes "rule_contract r"
  shows "length (filter (signed_as i s) (rl_evaluate r tx)) =
    (if rl_rule_id r = i \<and> rl_severity r = s then length (rl_evaluate r tx) else 0)"
proof -
  have "signed_as i s f = (rl_rule_id r = i \<and> rl_severity r = s)" if "f \<in> set (rl_evaluate r tx)" for f
    using rule_contract.signed[OF assms that] by (simp add: signed_as_def)
  then have "filter (signed_as i s) (rl_evaluate r tx) =
      filter (\<lambda>_. rl_rule_id r = i \<and> rl_severity r = s) (rl_evaluate r tx)" by (intro filter_cong refl)
  then show ?thesis by simp
qed

lemma length_filter_concat: "length (filter P (concat (map f xs))) = sum_list (map (\<lambda>x. length (filter P (f x))) xs)"
  by (induction xs) simp_all

lemma signed_findings:
  "length (filter (signed_as i s) (engine_evaluate build_address_ruleset m)) =
     (\<Sum>tx\<leftarrow>pm_transactions m. \<Sum>r\<leftarrow>ADDRESS_RULESET.
        if rl_rule_id r = i \<and> rl_severity r = s then length (rl_evaluate r tx) else 0)"
proof -
  have "(\<Sum>r\<leftarrow>ADDRESS_RULESET. length (filter (signed_as i s) (rl_evaluate r tx))) =
      (\<Sum>r\<leftarrow>ADDRESS_RULESET. if rl_rule_id r = i \<and> rl_severity r = s then length (rl_evaluate r tx) else 0)" for tx
    using ruleset_contracts signed_by_rule by (intro arg_cong[where f = sum_list] map_cong refl) (auto simp: list_all_iff)
  then show ?thesis by (simp add: engine_evaluate_def build_address_ruleset_def length_filter_concat)
qed

text \<open>C40: The built-in ruleset reports exactly what its eleven rules are about. For every rule, the findings
  with its id and severity are as many as the transactions, or for the address rules the postal addresses
  of parties and agents, that meet its condition: an absent instruction or end-to-end id, an amount that
  is missing or not positive, an agent without BIC, a creditor account without identification, a
  missing town beside a country, a missing or invalid country, and address lines without or beside
  structured fields. There is no other finding, and every finding names the version of the ruleset.\<close>

theorem ruleset_fires_exactly:
  "list_all (\<lambda>(rule, severity, hits).
      length (filter (signed_as rule severity) (engine_evaluate build_address_ruleset m)) = sum_list (map hits (pm_transactions m)))
     rule_table \<and>
   list_all (\<lambda>f. list_ex (\<lambda>(rule, severity, hits). signed_as rule severity f) rule_table \<and>
      rf_ruleset_version f = ''cloudnova-address-v1'') (engine_evaluate build_address_ruleset m)"
proof
  show "list_all (\<lambda>(rule, severity, hits).
      length (filter (signed_as rule severity) (engine_evaluate build_address_ruleset m)) = sum_list (map hits (pm_transactions m)))
     rule_table"
    unfolding signed_findings
    by (simp add: rule_table_def ADDRESS_RULESET_def rule_signatures rule_hits address_rule_hits)
  have "(rf_rule_id f, rf_severity f) \<in> (\<lambda>r. (rl_rule_id r, rl_severity r)) ` set ADDRESS_RULESET \<and>
      rf_ruleset_version f \<in> rl_ruleset_version ` set ADDRESS_RULESET"
    if "f \<in> set (engine_evaluate build_address_ruleset m)" for f
    using that by (rule cloudnova_rules.finding_of_rule) (auto simp: build_address_ruleset_def)
  then show "list_all (\<lambda>f. list_ex (\<lambda>(rule, severity, hits). signed_as rule severity f) rule_table \<and>
      rf_ruleset_version f = ''cloudnova-address-v1'') (engine_evaluate build_address_ruleset m)"
    unfolding list_all_iff by (simp add: ADDRESS_RULESET_def rule_defs RULESET_VERSION_def rule_table_def signed_as_def)
qed

text \<open>Each address is judged once: an address with lines gets either the unstructured or the hybrid
  finding and not both, and an address without a valid country code gets either the
  missing-country or the invalid-country finding and not both.\<close>

theorem address_judged_once:
  "length (rl_evaluate UnstructuredAddressRule tx) + length (rl_evaluate HybridAddressRule tx) =
     length (filter (\<lambda>(l, a). pa_address_lines a \<noteq> []) (addresses tx)) \<and>
   length (rl_evaluate CountryMissingRule tx) + length (rl_evaluate InvalidCountryCodeRule tx) =
     length (filter (\<lambda>(l, a). \<not> (\<exists>c. pa_country a = Some c \<and> is_valid_country_code c)) (addresses tx))"
  unfolding UnstructuredAddressRule_def HybridAddressRule_def CountryMissingRule_def InvalidCountryCodeRule_def
    Rule.simps length_address_findings
  by (intro conjI length_filter_split) (auto split: option.splits)

definition customer_engine ::
  "members \<Rightarrow> (pyval \<Rightarrow> string) \<Rightarrow> RuleConfig list \<Rightarrow> RuleConfig list \<Rightarrow> RuleEngine" where
  "customer_engine member repr_other org prof = composite_engine ADDRESS_RULESET RULESET_VERSION
     (Some (build_declarative_rules member repr_other org)) (Some (build_declarative_rules member repr_other prof))"

text \<open>Customer rules only add. The findings of the built-in rules are a subsequence of the composite
  engine's, and the composite engine finds nothing that the built-in, the organization's or the
  profile's rules do not find; a customer rule signs with its own id, severity and version.\<close>

theorem composite_keeps_baseline:
  "subseq (engine_evaluate build_address_ruleset m) (engine_evaluate (customer_engine member repr_other org prof) m) \<and>
    set (engine_evaluate (customer_engine member repr_other org prof) m) = set (engine_evaluate build_address_ruleset m) \<union>
      (\<Union>c\<in>set (org @ prof). \<Union>tx\<in>set (pm_transactions m). set (declarative_evaluate member repr_other c tx)) \<and>
    rf_rule_id ` set (engine_evaluate (customer_engine member repr_other org prof) m) \<subseteq>
      rl_rule_id ` set ADDRESS_RULESET \<union> rc_rule_id ` set (org @ prof)"
proof -
  let ?e = "customer_engine member repr_other org prof"
  have e: "re_rules ?e = ADDRESS_RULESET @ build_declarative_rules member repr_other org @
      build_declarative_rules member repr_other prof"
    by (simp add: customer_engine_def composite_rules)
  have "subseq (engine_evaluate build_address_ruleset m) (engine_evaluate ?e m)"
    unfolding engine_evaluate_def e build_address_ruleset_def
    by (rule subseq_concat_map) (simp add: subseq_append_right)
  moreover have "set (engine_evaluate ?e m) = set (engine_evaluate build_address_ruleset m) \<union>
      (\<Union>c\<in>set (org @ prof). \<Union>tx\<in>set (pm_transactions m). set (declarative_evaluate member repr_other c tx))"
    unfolding engine_evaluate_def e build_address_ruleset_def
    by (auto simp: build_declarative_rules_def DeclarativeRule_def)
  moreover have "rf_rule_id ` set (engine_evaluate ?e m) \<subseteq> rl_rule_id ` set (re_rules ?e)"
    unfolding customer_engine_def by (auto elim!: composite.finding_of_rule)
  moreover have "rl_rule_id ` set (re_rules ?e) = rl_rule_id ` set ADDRESS_RULESET \<union> rc_rule_id ` set (org @ prof)"
    by (auto simp: e build_declarative_rules_def DeclarativeRule_def image_image image_Un)
  ultimately show ?thesis by auto
qed

text \<open>The operators are complementary where their names say so: not_equals is the negation of equals,
  not_empty of is_empty, not_in of in on a list of values (and neither holds on anything else);
  greater_than and less_than exclude each other, with a NaN on either side neither holds; an
  operator outside the allow-list matches nothing and is reported by the validation.\<close>

theorem operators_complement:
  "matches ro v ''not_equals'' e = (\<not> matches ro v ''equals'' e) \<and>
   matches ro v ''not_empty'' e = (\<not> matches ro v ''is_empty'' e) \<and>
   matches ro v ''not_in'' (VList es) = (\<not> matches ro v ''in'' (VList es)) \<and>
   \<not> matches ro v ''in'' (VStr s) \<and> \<not> matches ro v ''not_in'' (VStr s) \<and>
   \<not> (matches ro v ''greater_than'' e \<and> matches ro v ''less_than'' e) \<and>
   (rc_operator config \<in> set OPERATORS \<or>
      declarative_evaluate member ro config tx = [] \<and> length (validate_rule_config config) \<ge> 1)"
proof -
  have "\<not> (matches ro v ''greater_than'' e \<and> matches ro v ''less_than'' e)"
    using num_less_asym by (auto simp: matches_def split: option.splits)
  moreover have "declarative_evaluate member ro config tx = [] \<and> length (validate_rule_config config) \<ge> 1"
    if "rc_operator config \<notin> set OPERATORS"
    using that by (simp add: declarative_evaluate_def Let_def matches_def OPERATORS_def validate_rule_config_def)
  moreover have "matches ro v ''not_empty'' e = (\<not> matches ro v ''is_empty'' e)"
    by (simp add: matches_def)
  ultimately show ?thesis by (auto simp: matches_def)
qed

text \<open>A field path reads the field it names: on every transaction creditor.postal_address.country is the
  country of the creditor's address and amount.amount_minor its minor units, None where a part
  of the path is missing.\<close>

theorem path_reads_field:
  "resolve_field member tx ''creditor.postal_address.country'' =
     str_val (Option.bind (Option.bind (tx_creditor tx) py_postal_address) pa_country) \<and>
   resolve_field member tx ''amount.amount_minor'' = opt_val (\<lambda>a. VInt (ma_amount_minor a)) (tx_amount tx)"
proof -
  have "resolve_field member tx ''creditor.postal_address.country'' =
     str_val (Option.bind (Option.bind (tx_creditor tx) py_postal_address) pa_country)"
  proof (cases "tx_creditor tx")
    case (Some p)
    then show ?thesis
      by (cases "py_postal_address p")
        (simp_all add: resolve_field_def path_segments transaction_val_def get_attr_def opt_val_def party_val_def address_val_def)
  qed (simp add: resolve_field_def path_segments transaction_val_def get_attr_def opt_val_def)
  moreover have "resolve_field member tx ''amount.amount_minor'' = opt_val (\<lambda>a. VInt (ma_amount_minor a)) (tx_amount tx)"
    by (cases "tx_amount tx")
      (simp_all add: resolve_field_def path_segments transaction_val_def get_attr_def opt_val_def amount_val_def)
  ultimately show ?thesis by blast
qed

end
