(* ===== verification/PO_Repair.thy ===== *)
theory PO_Repair
  imports PO_Iso PO_Address PO_Rules
begin

text \<open>
  The repair engine (\<open>packages/repair_engine\<close>): proposed address changes, their application to the
  XML tree or to the canonical message, and the re-validation that decides the status of the
  candidate. A tree is changed at a position, the list of child indexes from the root; a deep
  copy followed by a mutation of the copy is the function that returns the changed tree.
\<close>

section \<open>Changes and candidates\<close>

datatype ChangeStatus = CH_PROPOSED | CH_VALIDATED | CH_REJECTED

datatype ChangeSource = SRC_ADDRESS_PROVIDER | SRC_RULE | SRC_NORMALIZATION | SRC_MANUAL

record DiffEntry =
  df_path :: string
  df_before :: "string option"
  df_after :: "string option"
  df_source :: ChangeSource
  df_status :: ChangeStatus

record RepairCandidate =
  cd_candidate_id :: string
  cd_changes :: "DiffEntry list"
  cd_xml :: "string option"
  cd_status :: CandidateStatus
  cd_xsd_result :: "SchemaValidationResult option"
  cd_rule_findings :: "RuleFinding list"
  cd_created_at :: pydatetime
  cd_note :: "string option"

section \<open>Positions in a tree\<close>

type_synonym position = "nat list"

fun node_at :: "xml \<Rightarrow> position \<Rightarrow> xml option" where
  "node_at t [] = Some t"
| "node_at t (i # p) = (if i < length (x_kids t) then node_at (x_kids t ! i) p else None)"

definition with_kids :: "xml \<Rightarrow> xml list \<Rightarrow> xml" where
  "with_kids t ks = (case t of Node tag a tx k w \<Rightarrow> Node tag a tx ks w)"

definition with_text :: "xml \<Rightarrow> string option \<Rightarrow> xml" where
  "with_text t v = (case t of Node tag a tx k w \<Rightarrow> Node tag a v k w)"

fun map_at :: "(xml \<Rightarrow> xml) \<Rightarrow> xml \<Rightarrow> position \<Rightarrow> xml" where
  "map_at f t [] = f t"
| "map_at f t (i # p) = (if i < length (x_kids t)
     then with_kids t ((x_kids t)[i := map_at f (x_kids t ! i) p]) else t)"

section \<open>XML reconstruction\<close>

definition POSTAL_ADDRESS_ORDER :: "string list" where
  "POSTAL_ADDRESS_ORDER = [''AdrTp'', ''Dept'', ''SubDept'', ''StrtNm'', ''BldgNb'', ''PstCd'', ''TwnNm'',
     ''Ctry'', ''AdrLine'']"

definition strip_index :: "string \<Rightarrow> string" where
  "strip_index segment = before_char CHR ''['' segment"

definition path_segments :: "string \<Rightarrow> string list" where
  "path_segments path = filter (\<lambda>s. s \<noteq> []) (split_char CHR ''/'' path)"

text \<open>The indexes of the children with a local name, and the one a segment such as \<open>CdtTrfTxInf[2]\<close> names.\<close>

definition matching_kids :: "xml \<Rightarrow> string \<Rightarrow> nat list" where
  "matching_kids node name = filter (\<lambda>i. extract_localname (x_kids node ! i) = name) [0..<length (x_kids node)]"

definition segment_index :: "string \<Rightarrow> int res" where
  "segment_index segment =
     (let index_str = (if CHR ''['' \<in> set segment then after_char CHR ''['' segment else []);
          digits = rev (dropWhile (\<lambda>c. c = CHR '']'') (rev index_str)) in
      if index_str = [] then Inr 0
      else (case int_of_text digits of
          None \<Rightarrow> Inl (ValueError (''invalid literal for int() with base 10: '' @ quote_name digits))
        | Some i \<Rightarrow> Inr i))"

text \<open>A negative index counts from the end, as Python lists do.\<close>

definition child_by_local :: "xml \<Rightarrow> string \<Rightarrow> nat option res" where
  "child_by_local node segment =
     bindR (segment_index segment) (\<lambda>index.
       let ms = matching_kids node (strip_index segment) in
       if int (length ms) \<le> index then Inr None
       else if 0 \<le> index then Inr (Some (ms ! nat index))
       else if 0 \<le> index + int (length ms) then Inr (Some (ms ! nat (index + int (length ms))))
       else Inl (IndexError ''list index out of range''))"

fun navigate_from :: "xml \<Rightarrow> string list \<Rightarrow> position option res" where
  "navigate_from node [] = Inr (Some [])"
| "navigate_from node (seg # segs) =
     bindR (child_by_local node seg) (\<lambda>c. case c of None \<Rightarrow> Inr None
       | Some i \<Rightarrow> bindR (navigate_from (x_kids node ! i) segs)
           (\<lambda>p. Inr (map_option (\<lambda>q. i # q) p)))"

definition navigate_segments :: "xml \<Rightarrow> string list \<Rightarrow> position option res" where
  "navigate_segments rt segments = (case segments of
     [] \<Rightarrow> Inr None
   | s # rest \<Rightarrow> navigate_from rt (if extract_localname rt = strip_index s then rest else segments))"

definition navigate :: "xml \<Rightarrow> string \<Rightarrow> position option res" where
  "navigate rt path = navigate_segments rt (path_segments path)"

definition schema_rank :: "xml \<Rightarrow> nat" where
  "schema_rank c = (let n = extract_localname c in length (takeWhile (\<lambda>x. x \<noteq> n) POSTAL_ADDRESS_ORDER))"

text \<open>\<open>sorted\<close> is stable.\<close>

definition reorder_children :: "xml list \<Rightarrow> xml list" where
  "reorder_children ks = sort_key schema_rank ks"

definition new_element :: "string \<Rightarrow> string \<Rightarrow> string option \<Rightarrow> xml" where
  "new_element ns leaf value =
     Node (Some (if ns = [] then leaf else ''{'' @ ns @ ''}'' @ leaf)) [] value [] None"

definition create_missing :: "xml \<Rightarrow> string \<Rightarrow> string option \<Rightarrow> xml option res" where
  "create_missing rt path value =
     (let segments = path_segments path in
      if length segments < 2 then Inr None
      else let leaf_name = strip_index (last segments) in
        bindR (navigate_segments rt (butlast segments)) (\<lambda>p. case p of None \<Rightarrow> Inr None
        | Some pos \<Rightarrow>
          if leaf_name \<notin> set POSTAL_ADDRESS_ORDER then Inr None
          else (case node_at rt pos of None \<Rightarrow> Inr None
            | Some parent \<Rightarrow> (case x_tag parent of
                None \<Rightarrow> Inl (TypeError ''argument of type builtin_function_or_method is not iterable'')
              | Some _ \<Rightarrow> Inr (Some (map_at (\<lambda>par. with_kids par (reorder_children
                    (x_kids par @ [new_element (dget_opt (extract_namespace par)) leaf_name value]))) rt pos))))))"

text \<open>The tree after one change and whether the change was applied.\<close>

definition apply_one :: "xml \<Rightarrow> DiffEntry \<Rightarrow> (xml \<times> bool) res" where
  "apply_one rt change =
     bindR (navigate rt (df_path change)) (\<lambda>p. case p of
       Some pos \<Rightarrow> Inr (map_at (\<lambda>e. with_text e (df_after change)) rt pos, True)
     | None \<Rightarrow> bindR (create_missing rt (df_path change) (df_after change)) (\<lambda>t. case t of
         None \<Rightarrow> Inr (rt, False) | Some rt' \<Rightarrow> Inr (rt', True)))"

fun apply_changes :: "xml \<Rightarrow> DiffEntry list \<Rightarrow> (xml \<times> DiffEntry list) res" where
  "apply_changes rt [] = Inr (rt, [])"
| "apply_changes rt (c # cs) =
     bindR (apply_one rt c) (\<lambda>(rt', ok). bindR (apply_changes rt' cs) (\<lambda>(rt'', applied).
       Inr (rt'', c\<lparr>df_status := (if ok then CH_VALIDATED else CH_REJECTED)\<rparr> # applied)))"

section \<open>Candidate generation\<close>

text \<open>An analyzer is a provider that finds its environment in its state.\<close>

type_synonym 's analyzer = "PostalAddress \<Rightarrow> 's \<Rightarrow> AddressAnalysis res \<times> 's"

definition mk_change :: "string \<Rightarrow> string option \<Rightarrow> string option \<Rightarrow> DiffEntry" where
  "mk_change path before after = \<lparr>df_path = path, df_before = before, df_after = after,
     df_source = SRC_ADDRESS_PROVIDER, df_status = CH_PROPOSED\<rparr>"

definition address_changes :: "PostalAddress \<Rightarrow> AddressAnalysis \<Rightarrow> DiffEntry list" where
  "address_changes addr analysis =
     (let base = dget_opt (pa_source_path addr);
          raw_country = por (map_of (pa_original_fields addr) ''Ctry'') (pa_country addr);
          raw_town = por (map_of (pa_original_fields addr) ''TwnNm'') (pa_town_name addr) in
      (if truthy (aa_country_code analysis) \<and> raw_country \<noteq> aa_country_code analysis
       then [mk_change (base @ ''/Ctry'') raw_country (aa_country_code analysis)] else []) @
      (if truthy (aa_town_name analysis) \<and> raw_town \<noteq> aa_town_name analysis
       then [mk_change (base @ ''/TwnNm'') raw_town (aa_town_name analysis)] else []))"

fun collect_changes :: "'s analyzer \<Rightarrow> PostalAddress list \<Rightarrow> 's \<Rightarrow> DiffEntry list res \<times> 's" where
  "collect_changes analyze [] s = (Inr [], s)"
| "collect_changes analyze (a # as) s =
     (if \<not> truthy (pa_source_path a) then collect_changes analyze as s
      else (case analyze a s of
          (Inl e, s') \<Rightarrow> (Inl e, s')
        | (Inr r, s') \<Rightarrow> (case collect_changes analyze as s' of
              (Inl e, s'') \<Rightarrow> (Inl e, s'')
            | (Inr cs, s'') \<Rightarrow> (Inr (address_changes a r @ cs), s''))))"

definition message_addresses :: "PaymentMessage \<Rightarrow> PostalAddress list" where
  "message_addresses m = map snd (concat (map addresses (pm_transactions m)))"

definition blocking_findings :: "RuleFinding list \<Rightarrow> bool" where
  "blocking_findings fs = list_ex (\<lambda>f. rf_severity f \<in> {ERROR, CRITICAL}) fs"

text \<open>The address fields of debtor and creditor are set in place; the model has no shared addresses.\<close>

definition set_party_address :: "(PostalAddress \<Rightarrow> PostalAddress) \<Rightarrow> Party option \<Rightarrow> Party option" where
  "set_party_address f p = map_option (\<lambda>x. x\<lparr>py_postal_address := map_option f (py_postal_address x)\<rparr>) p"

definition set_field :: "string \<Rightarrow> string option \<Rightarrow> PostalAddress \<Rightarrow> PostalAddress" where
  "set_field field after a =
     (if field = ''Ctry'' \<and> truthy after then a\<lparr>pa_country := after\<rparr>
      else if field = ''TwnNm'' \<and> truthy after then a\<lparr>pa_town_name := after\<rparr> else a)"

definition strip_brackets :: "string \<Rightarrow> string" where
  "strip_brackets s = (let q = (\<lambda>c. c = CHR ''['' \<or> c = CHR '']'') in rev (dropWhile q (rev (dropWhile q s))))"

definition apply_change_to_message :: "PaymentMessage \<Rightarrow> DiffEntry \<Rightarrow> PaymentMessage res" where
  "apply_change_to_message m change =
     (let segments = path_segments (df_path change) in
      if length segments < 4 then Inr m
      else (case int_of_text (strip_brackets (segments ! 1)) of
          None \<Rightarrow> Inr m
        | Some tx_index \<Rightarrow>
          (let n = int (length (pm_transactions m));
               i = (if tx_index < 0 then tx_index + n else tx_index) in
           if i < 0 \<or> n \<le> i then Inl (IndexError ''list index out of range'')
           else let tx = pm_transactions m ! nat i; f = set_field (last segments) (df_after change);
                    tx' = (if segments ! 2 = ''Cdtr'' then tx\<lparr>tx_creditor := set_party_address f (tx_creditor tx)\<rparr>
                           else if segments ! 2 = ''Dbtr'' then tx\<lparr>tx_debtor := set_party_address f (tx_debtor tx)\<rparr>
                           else tx) in
             Inr (m\<lparr>pm_transactions := (pm_transactions m)[nat i := tx']\<rparr>))))"

fun apply_to_message :: "PaymentMessage \<Rightarrow> DiffEntry list \<Rightarrow> PaymentMessage res" where
  "apply_to_message m [] = Inr m"
| "apply_to_message m (c # cs) = bindR (apply_change_to_message m c) (\<lambda>m'. apply_to_message m' cs)"

text \<open>
  What candidate generation takes from outside: the identifier and the time of the candidate,
  the compiled schemas, the serializer, and the reception time of the re-mapped message.
\<close>

record repair_env =
  rv_candidate_id :: string
  rv_now :: pydatetime
  rv_schemas :: "string \<Rightarrow> (xml \<Rightarrow> bool \<times> LogEntry list) option"
  rv_serialize :: "xml \<Rightarrow> string"

definition mk_candidate ::
  "repair_env \<Rightarrow> DiffEntry list \<Rightarrow> string option \<Rightarrow> CandidateStatus \<Rightarrow> SchemaValidationResult option \<Rightarrow>
     RuleFinding list \<Rightarrow> string option \<Rightarrow> RepairCandidate" where
  "mk_candidate env changes xml_text status xsd findings note =
     \<lparr>cd_candidate_id = ''RC-'' @ take 12 (rv_candidate_id env), cd_changes = changes, cd_xml = xml_text,
      cd_status = status, cd_xsd_result = xsd, cd_rule_findings = findings, cd_created_at = rv_now env,
      cd_note = note\<rparr>"

definition xml_candidate :: "repair_env \<Rightarrow> RuleEngine \<Rightarrow> xml \<Rightarrow> DiffEntry list \<Rightarrow> RepairCandidate res" where
  "xml_candidate env engine rt changes =
     bindR (apply_changes rt changes) (\<lambda>(new_root, applied).
     bindR (identify_pacs008 new_root) (\<lambda>version.
     bindR (validate_message (rv_schemas env) new_root (ver_identifier version)) (\<lambda>xsd.
     bindR (map_pacs008_to_canonical (rv_now env) new_root version) (\<lambda>m.
       let findings = engine_evaluate engine m in
       Inr (mk_candidate env applied (Some (rv_serialize env new_root))
         (if sv_valid xsd \<and> \<not> blocking_findings findings then VALIDATED else CS_REVIEW_REQUIRED)
         (Some xsd) findings None)))))"

definition model_candidate :: "repair_env \<Rightarrow> RuleEngine \<Rightarrow> PaymentMessage \<Rightarrow> DiffEntry list \<Rightarrow> RepairCandidate res" where
  "model_candidate env engine m changes =
     bindR (apply_to_message m changes) (\<lambda>m'.
       let findings = engine_evaluate engine m' in
       Inr (mk_candidate env changes None
         (if blocking_findings findings then CS_REVIEW_REQUIRED else VALIDATED) None findings None))"

definition generate_candidate ::
  "repair_env \<Rightarrow> 's analyzer \<Rightarrow> RuleEngine \<Rightarrow> PaymentMessage \<Rightarrow> SecureXmlDocument option \<Rightarrow> 's \<Rightarrow>
     RepairCandidate res \<times> 's" where
  "generate_candidate env analyze engine m doc s =
     (case collect_changes analyze (message_addresses m) s of
        (Inl e, s') \<Rightarrow> (Inl e, s')
      | (Inr changes, s') \<Rightarrow>
          (if changes = [] then
             Inr (mk_candidate env [] None VALIDATED None [] (Some ''No repair changes required''))
           else (case doc of
               Some d \<Rightarrow> if pm_source_format m = XML_PACS_008 then xml_candidate env engine (sd_root d) changes
                 else model_candidate env engine m changes
             | None \<Rightarrow> model_candidate env engine m changes), s'))"

end
