(* ===== verification/PO_Pipeline.thy ===== *)
theory PO_Pipeline
  imports PO_Camt PO_Correlation PO_Repair PO_Declarative
begin

text \<open>
  The analysis pipeline (\<open>packages/analysis\<close>): ingestion, dispatch, schema validation, mapping,
  rules, address analysis and repair candidate, composed into one structured result. The engines
  are those of the other theories; identifiers, hashes, JSON dumps and the clock are parameters
  (\<open>pipeline_env\<close>). The state that is threaded through is that of the address provider. Findings,
  reports and profiles are kept as the records they are serialized from.
\<close>

section \<open>Results\<close>

record AnalysisIssue =
  ai_code :: string
  ai_severity :: string
  ai_path :: "string option"
  ai_message :: string

record AnalysisAddress =
  ad_party :: "string option"
  ad_readiness :: "string option"
  ad_evidence_level :: "string option"
  ad_country_code :: "string option"
  ad_town_name :: "string option"
  ad_provider :: "string option"
  ad_provider_version :: "string option"
  ad_note :: "string option"
  ad_fallback :: bool

record AnalysisDiff =
  dd_path :: string
  dd_before :: "string option"
  dd_after :: "string option"
  dd_source :: "string option"
  dd_status :: "string option"

record AnalysisResult =
  ar_case_id :: string
  ar_message_type :: "string option"
  ar_message_version :: "string option"
  ar_original_validation_status :: string
  ar_schema_issues :: "AnalysisIssue list"
  ar_rule_findings :: "RuleFinding list"
  ar_address_analyses :: "AnalysisAddress list"
  ar_address_readiness :: "string option"
  ar_repair_status :: "string option"
  ar_candidate_diff :: "AnalysisDiff list"
  ar_candidate_validation_status :: "string option"
  ar_candidate_xml :: "string option"
  ar_ruleset_version :: "string option"
  ar_address_provider :: "string option"
  ar_address_provider_version :: "string option"
  ar_address_provider_fallback :: bool
  ar_address_provider_coverage :: "string option"
  ar_input_hash :: "string option"
  ar_output_hash :: "string option"
  ar_warnings :: "string list"
  ar_processed_at :: pydatetime

record IsoAnalysisResult =
  ir_case_id :: string
  ir_message_family :: "string option"
  ir_message_definition :: "string option"
  ir_message_version :: "string option"
  ir_namespace :: "string option"
  ir_message_id :: "string option"
  ir_adapter_version :: "string option"
  ir_schema_validation :: bool
  ir_schema_version :: "string option"
  ir_original_validation_status :: string
  ir_schema_issues :: "AnalysisIssue list"
  ir_rule_findings :: "RuleFinding list"
  ir_address_analyses :: "AnalysisAddress list"
  ir_address_readiness :: "string option"
  ir_address_provider_coverage :: "string option"
  ir_repair_status :: "string option"
  ir_candidate_diff :: "AnalysisDiff list"
  ir_candidate_validation_status :: "string option"
  ir_canonical_model_version :: "string option"
  ir_engine_version :: "string option"
  ir_input_hash :: "string option"
  ir_warnings :: "string list"
  ir_lifecycle_id :: "string option"
  ir_correlation_status :: "string option"
  ir_correlation_evidence :: "string list"
  ir_correlation_conflicts :: "string list"
  ir_lifecycle_events :: "PaymentLifecycleEvent list"
  ir_raw_status :: "string option"
  ir_normalized_status :: "string option"
  ir_correlation_profiles :: "CorrelationProfile list"
  ir_account_report_type :: "string option"
  ir_account_reports :: "AccountReport list"
  ir_account_report_ids :: "string list"
  ir_account_entry_count :: nat
  ir_processed_at :: pydatetime

section \<open>Values of enumerations\<close>

definition CandidateStatus_value :: "CandidateStatus \<Rightarrow> string" where
  "CandidateStatus_value c = (case c of PROPOSED \<Rightarrow> ''PROPOSED'' | VALIDATED \<Rightarrow> ''VALIDATED''
     | CS_REVIEW_REQUIRED \<Rightarrow> ''REVIEW_REQUIRED'' | CS_UNRESOLVED \<Rightarrow> ''UNRESOLVED'')"

definition ChangeStatus_value :: "ChangeStatus \<Rightarrow> string" where
  "ChangeStatus_value c = (case c of CH_PROPOSED \<Rightarrow> ''PROPOSED'' | CH_VALIDATED \<Rightarrow> ''VALIDATED'' | CH_REJECTED \<Rightarrow> ''REJECTED'')"

definition ChangeSource_value :: "ChangeSource \<Rightarrow> string" where
  "ChangeSource_value c = (case c of SRC_ADDRESS_PROVIDER \<Rightarrow> ''ADDRESS_PROVIDER'' | SRC_RULE \<Rightarrow> ''RULE''
     | SRC_NORMALIZATION \<Rightarrow> ''NORMALIZATION'' | SRC_MANUAL \<Rightarrow> ''MANUAL'')"

definition PaymentStatus_value :: "PaymentStatus \<Rightarrow> string" where
  "PaymentStatus_value s = (case s of PS_ACCEPTED \<Rightarrow> ''ACCEPTED'' | PS_REJECTED \<Rightarrow> ''REJECTED'' | PS_PENDING \<Rightarrow> ''PENDING''
     | PS_PROCESSING \<Rightarrow> ''PROCESSING'' | PS_PARTIALLY_ACCEPTED \<Rightarrow> ''PARTIALLY_ACCEPTED'' | PS_UNKNOWN \<Rightarrow> ''UNKNOWN'')"

definition AccountReportType_value :: "AccountReportType \<Rightarrow> string" where
  "AccountReportType_value t = (case t of STATEMENT \<Rightarrow> ''STATEMENT'' | NOTIFICATION \<Rightarrow> ''NOTIFICATION'')"

section \<open>The pipeline\<close>

definition ENGINE_VERSION :: string where
  "ENGINE_VERSION = ''0.3.0''"

record pipeline_env =
  pv_repair :: repair_env
  pv_case_id :: string
  pv_sha256 :: "string \<Rightarrow> string"
  pv_dump :: "artifact \<Rightarrow> string"
  pv_fromstring :: "string \<Rightarrow> parse_failure + xml"
  pv_docinfo :: "string \<Rightarrow> string option option"

record 's pipeline =
  pp_analyze :: "'s analyzer"
  pp_rules_engine :: RuleEngine
  pp_max_payload_bytes :: nat

definition new_case_id :: "pipeline_env \<Rightarrow> string" where
  "new_case_id env = ''case-'' @ take 16 (pv_case_id env)"

definition message_hash :: "pipeline_env \<Rightarrow> artifact \<Rightarrow> string" where
  "message_hash env a = pv_sha256 env (pv_dump env a)"

definition aggregate_readiness :: "AddressReadiness list \<Rightarrow> string" where
  "aggregate_readiness levels =
     (if levels = [] then ''UNRESOLVED''
      else if list_all (\<lambda>x. x = READY) levels then ''READY''
      else if UNRESOLVED \<in> set levels then ''UNRESOLVED''
      else if AR_REVIEW_REQUIRED \<in> set levels then ''REVIEW_REQUIRED''
      else ''REPAIRABLE'')"

definition XSD_WARNING :: string where
  "XSD_WARNING = ''Original message did not pass XSD validation''"

definition result_warnings :: "bool \<Rightarrow> RepairCandidate option \<Rightarrow> bool \<Rightarrow> string list" where
  "result_warnings xsd_valid candidate any_fallback =
     (if xsd_valid then [] else [XSD_WARNING]) @
     (case candidate of Some c \<Rightarrow>
        if cd_status c = CS_REVIEW_REQUIRED then [''Repair candidate requires human review''] else [] | None \<Rightarrow> []) @
     (if any_fallback then [''ADDRESS_PROVIDER_FALLBACK''] else [])"

definition schema_issues_of :: "SchemaValidationResult option \<Rightarrow> AnalysisIssue list" where
  "schema_issues_of x = map (\<lambda>i. \<lparr>ai_code = si_code i, ai_severity = si_severity i, ai_path = si_path i,
     ai_message = si_message i\<rparr>) (case x of None \<Rightarrow> [] | Some r \<Rightarrow> sv_issues r)"

text \<open>The loop over the addresses: the first exception of the provider ends the analysis.\<close>

fun analyze_addresses ::
  "'s analyzer \<Rightarrow> (string \<times> PostalAddress) list \<Rightarrow> 's \<Rightarrow> (string \<times> AddressAnalysis) list res \<times> 's" where
  "analyze_addresses analyze [] s = (Inr [], s)"
| "analyze_addresses analyze ((label, a) # as) s = (case analyze a s of
     (Inl e, s') \<Rightarrow> (Inl e, s')
   | (Inr r, s') \<Rightarrow> (case analyze_addresses analyze as s' of
       (Inl e, s'') \<Rightarrow> (Inl e, s'') | (Inr rs, s'') \<Rightarrow> (Inr ((label, r) # rs), s'')))"

definition analysis_address :: "string \<times> AddressAnalysis \<Rightarrow> AnalysisAddress" where
  "analysis_address x = (case x of (label, r) \<Rightarrow>
     \<lparr>ad_party = Some label, ad_readiness = Some (readiness_value (aa_readiness r)),
      ad_evidence_level = Some (level_value (aa_evidence_level r)), ad_country_code = aa_country_code r,
      ad_town_name = aa_town_name r, ad_provider = Some (aa_provider r), ad_provider_version = Some (aa_provider_version r),
      ad_note = aa_note r, ad_fallback = aa_fallback r\<rparr>)"

text \<open>The provider and version that the last available analysis names.\<close>

definition last_available :: "(AddressAnalysis \<Rightarrow> string) \<Rightarrow> AddressAnalysis list \<Rightarrow> string option" where
  "last_available f rs = fold (\<lambda>r acc. if aa_available r then Some (f r) else acc) rs None"

definition analysis_diff :: "DiffEntry \<Rightarrow> AnalysisDiff" where
  "analysis_diff c = \<lparr>dd_path = df_path c, dd_before = df_before c, dd_after = df_after c,
     dd_source = Some (ChangeSource_value (df_source c)), dd_status = Some (ChangeStatus_value (df_status c))\<rparr>"

definition analysis_result ::
  "pipeline_env \<Rightarrow> RuleEngine \<Rightarrow> PaymentMessage \<Rightarrow> SchemaValidationResult option \<Rightarrow> string option \<Rightarrow> string option \<Rightarrow>
     bool \<Rightarrow> (string \<times> AddressAnalysis) list \<Rightarrow> RepairCandidate option \<Rightarrow> AnalysisResult" where
  "analysis_result env engine m xsd message_type message_version include_xml analyses candidate =
     (let xsd_valid = (case xsd of None \<Rightarrow> True | Some x \<Rightarrow> sv_valid x);
          rs = map snd analyses;
          any_fallback = list_ex aa_fallback rs;
          status = map_option (\<lambda>c. CandidateStatus_value (cd_status c)) candidate;
          xml_text = Option.bind candidate (\<lambda>c. or_none (dget_opt (cd_xml c))) in
      \<lparr>ar_case_id = new_case_id env, ar_message_type = por message_type (pm_message_type m),
       ar_message_version = message_version,
       ar_original_validation_status = (if xsd_valid then ''valid'' else ''invalid''),
       ar_schema_issues = schema_issues_of xsd, ar_rule_findings = engine_evaluate engine m,
       ar_address_analyses = map analysis_address analyses,
       ar_address_readiness = Some (aggregate_readiness (map aa_readiness rs)),
       ar_repair_status = status,
       ar_candidate_diff = (case candidate of None \<Rightarrow> [] | Some c \<Rightarrow> map analysis_diff (cd_changes c)),
       ar_candidate_validation_status = status,
       ar_candidate_xml = (if include_xml then xml_text else None),
       ar_ruleset_version = Some (re_version engine),
       ar_address_provider = last_available aa_provider rs,
       ar_address_provider_version = last_available aa_provider_version rs,
       ar_address_provider_fallback = any_fallback, ar_address_provider_coverage = None,
       ar_input_hash = Some (message_hash env (AMessage m)),
       ar_output_hash = map_option (pv_sha256 env) xml_text,
       ar_warnings = result_warnings xsd_valid candidate any_fallback,
       ar_processed_at = rv_now (pv_repair env)\<rparr>)"

definition analyze_message ::
  "pipeline_env \<Rightarrow> 's pipeline \<Rightarrow> PaymentMessage \<Rightarrow> SecureXmlDocument option \<Rightarrow> SchemaValidationResult option \<Rightarrow>
     string option \<Rightarrow> string option \<Rightarrow> bool \<Rightarrow> bool \<Rightarrow> 's \<Rightarrow> AnalysisResult res \<times> 's" where
  "analyze_message env p m doc xsd message_type message_version repair include_xml s =
     (case analyze_addresses (pp_analyze p) (concat (map addresses (pm_transactions m))) s of
        (Inl e, s1) \<Rightarrow> (Inl e, s1)
      | (Inr analyses, s1) \<Rightarrow>
          (let result = analysis_result env (pp_rules_engine p) m xsd message_type message_version include_xml analyses in
           if repair then
             (case generate_candidate (pv_repair env) (pp_analyze p) (pp_rules_engine p) m doc s1 of
                (Inl e, s2) \<Rightarrow> (Inl e, s2) | (Inr c, s2) \<Rightarrow> (Inr (result (Some c)), s2))
           else (Inr (result None), s1)))"

definition with_status :: "SchemaValidationResult \<Rightarrow> PaymentMessage \<Rightarrow> PaymentMessage" where
  "with_status xsd m = m\<lparr>pm_validation_status := (if sv_valid xsd then VS_VALID else VS_INVALID)\<rparr>"

definition analyze ::
  "pipeline_env \<Rightarrow> 's pipeline \<Rightarrow> string option \<Rightarrow> bool \<Rightarrow> bool \<Rightarrow> 's \<Rightarrow> AnalysisResult res \<times> 's" where
  "analyze env p payload repair include_xml s =
     (case secure_parse (pv_fromstring env) (pv_docinfo env) payload (pp_max_payload_bytes p) of
        Inl e \<Rightarrow> (Inl e, s)
      | Inr doc \<Rightarrow> (case identify_pacs008 (sd_root doc) of Inl e \<Rightarrow> (Inl e, s)
      | Inr version \<Rightarrow> (case validate_message (rv_schemas (pv_repair env)) (sd_root doc) (ver_identifier version) of
          Inl e \<Rightarrow> (Inl e, s)
      | Inr xsd \<Rightarrow> (case map_pacs008_to_canonical (rv_now (pv_repair env)) (sd_root doc) version of
          Inl e \<Rightarrow> (Inl e, s)
      | Inr m \<Rightarrow> analyze_message env p (with_status xsd m) (Some doc) (Some xsd) (Some (ver_identifier version))
          (Some (ver_identifier version)) repair include_xml s))))"

section \<open>Any ISO message\<close>

text \<open>The fields every ISO result takes from the metadata and the schema verdict; the rest have their defaults.\<close>

definition iso_base :: "pipeline_env \<Rightarrow> string \<Rightarrow> IsoMessageMetadata \<Rightarrow> SchemaValidationResult \<Rightarrow> string \<Rightarrow> IsoAnalysisResult" where
  "iso_base env case_id meta xsd model_version =
     \<lparr>ir_case_id = case_id, ir_message_family = Some (im_message_family meta),
      ir_message_definition = Some (im_message_definition meta), ir_message_version = Some (im_message_version meta),
      ir_namespace = Some (im_namespace meta), ir_message_id = im_message_id meta,
      ir_adapter_version = Some (im_adapter_version meta), ir_schema_validation = sv_valid xsd,
      ir_schema_version = Some (im_schema_version meta),
      ir_original_validation_status = (if sv_valid xsd then ''valid'' else ''invalid''),
      ir_schema_issues = schema_issues_of (Some xsd), ir_rule_findings = [], ir_address_analyses = [],
      ir_address_readiness = None, ir_address_provider_coverage = None, ir_repair_status = None,
      ir_candidate_diff = [], ir_candidate_validation_status = None, ir_canonical_model_version = Some model_version,
      ir_engine_version = Some ENGINE_VERSION, ir_input_hash = None,
      ir_warnings = (if sv_valid xsd then [] else [XSD_WARNING]), ir_lifecycle_id = None, ir_correlation_status = None,
      ir_correlation_evidence = [], ir_correlation_conflicts = [], ir_lifecycle_events = [], ir_raw_status = None,
      ir_normalized_status = None, ir_correlation_profiles = [], ir_account_report_type = None, ir_account_reports = [],
      ir_account_report_ids = [], ir_account_entry_count = 0, ir_processed_at = rv_now (pv_repair env)\<rparr>"

definition iso_account_result ::
  "pipeline_env \<Rightarrow> AccountReportBundle \<Rightarrow> IsoMessageMetadata \<Rightarrow> SchemaValidationResult \<Rightarrow> nat \<Rightarrow> IsoAnalysisResult res" where
  "iso_account_result env bundle meta xsd max_entries =
     (if max_entries < bundle_number_of_entries bundle
      then Inl (PayloadTooLargeError (''message exceeds '' @ show_nat max_entries @ '' account entries''))
      else Inr ((iso_base env (new_case_id env) meta xsd ''payment_domain.v3'')
        \<lparr>ir_input_hash := Some (message_hash env (AReport bundle)),
         ir_account_report_type := Some (AccountReportType_value (bu_report_type bundle)),
         ir_account_reports := bu_reports bundle, ir_account_entry_count := bundle_number_of_entries bundle\<rparr>))"

definition iso_payment_result ::
  "pipeline_env \<Rightarrow> 's pipeline \<Rightarrow> PaymentMessage \<Rightarrow> IsoMessageMetadata \<Rightarrow> SchemaValidationResult \<Rightarrow> SecureXmlDocument \<Rightarrow>
     nat \<Rightarrow> 's \<Rightarrow> IsoAnalysisResult res \<times> 's" where
  "iso_payment_result env p m meta xsd doc max_transactions s =
     (if max_transactions < length (pm_transactions m)
      then (Inl (PayloadTooLargeError (''message exceeds '' @ show_nat max_transactions @ '' transactions'')), s)
      else (case analyze_message env p (with_status xsd m) (Some doc) (Some xsd) (Some (im_message_version meta))
            (Some (im_message_version meta)) True False s of
          (Inl e, s') \<Rightarrow> (Inl e, s')
        | (Inr r, s') \<Rightarrow> (Inr ((iso_base env (ar_case_id r) meta xsd ''payment_domain.v2'')
            \<lparr>ir_original_validation_status := ar_original_validation_status r, ir_schema_issues := ar_schema_issues r,
             ir_rule_findings := ar_rule_findings r, ir_address_analyses := ar_address_analyses r,
             ir_address_readiness := ar_address_readiness r, ir_repair_status := ar_repair_status r,
             ir_candidate_diff := ar_candidate_diff r,
             ir_candidate_validation_status := ar_candidate_validation_status r,
             ir_input_hash := ar_input_hash r, ir_warnings := ar_warnings r,
             ir_correlation_profiles := profile_from_message m\<rparr>), s')))"

definition iso_status_result ::
  "pipeline_env \<Rightarrow> LifecycleStatusReport \<Rightarrow> IsoMessageMetadata \<Rightarrow> SchemaValidationResult \<Rightarrow> IsoAnalysisResult" where
  "iso_status_result env report meta xsd =
     (iso_base env (new_case_id env) meta xsd ''payment_domain.v2'')
       \<lparr>ir_input_hash := Some (message_hash env (AStatus report)),
        ir_raw_status := (case lr_transaction_statuses report of [] \<Rightarrow> lr_group_status_raw report | t # _ \<Rightarrow> ts_raw_iso_status t),
        ir_normalized_status := Some (PaymentStatus_value (case lr_transaction_statuses report of
            [] \<Rightarrow> lr_group_status report | t # _ \<Rightarrow> ts_normalized_status t)),
        ir_correlation_profiles := profile_from_status_report report\<rparr>"

fun artifact_message_id :: "artifact \<Rightarrow> string option" where
  "artifact_message_id (AMessage m) = pm_message_id m"
| "artifact_message_id (AStatus r) = lr_message_id r"
| "artifact_message_id (AReport b) = bu_message_id b"

fun artifact_creation :: "artifact \<Rightarrow> pydatetime option" where
  "artifact_creation (AMessage m) = pm_creation_datetime m"
| "artifact_creation (AStatus r) = lr_creation_datetime r"
| "artifact_creation (AReport b) = bu_creation_datetime b"

text \<open>Adapters give one of three artifacts, so the final \<open>TypeError\<close> of the code has no case here.\<close>

definition analyze_iso ::
  "pipeline_env \<Rightarrow> 's pipeline \<Rightarrow> IsoMessageRegistry \<Rightarrow> string option \<Rightarrow> nat \<Rightarrow> 's \<Rightarrow> IsoAnalysisResult res \<times> 's" where
  "analyze_iso env p registry payload max_transactions s =
     (case secure_parse (pv_fromstring env) (pv_docinfo env) payload (pp_max_payload_bytes p) of
        Inl e \<Rightarrow> (Inl e, s)
      | Inr doc \<Rightarrow> (case resolve_root registry (sd_root doc) of Inl e \<Rightarrow> (Inl e, s)
      | Inr reg \<Rightarrow>
        (let d = reg_definition reg; version_id = mdf_version d in
         case validate_message (rv_schemas (pv_repair env)) (sd_root doc) version_id of Inl e \<Rightarrow> (Inl e, s)
       | Inr xsd \<Rightarrow> (case reg_adapter reg (rv_now (pv_repair env)) (sd_root doc) (reg_version_obj reg) of
           Inl e \<Rightarrow> (Inl e, s)
         | Inr a \<Rightarrow>
           (let meta = build_metadata d (artifact_message_id a) (artifact_creation a)
                  (mdf_message_family d @ ''_'' @ version_id) (Some version_id) in
            case a of
              AStatus report \<Rightarrow> (Inr (iso_status_result env report meta xsd), s)
            | AMessage m \<Rightarrow> iso_payment_result env p m meta xsd doc max_transactions s
            | AReport bundle \<Rightarrow> (iso_account_result env bundle meta xsd max_transactions, s))))))"

end
