(* ===== verification/PO_Mapping.thy ===== *)
theory PO_Mapping
  imports PO_Parties PO_MatchModels
begin

text \<open>
  The mapping engine (\<open>packages/mapping_engine\<close>): restricted JSON paths, the transforms, the
  validator of mapping definitions and the mapper from source records to the canonical message.
  The \<open>repr\<close> of floats, lists and dictionaries, the XPath evaluator and the clock are
  parameters (\<open>mapping_env\<close>). JSON numbers are finite; a dictionary has distinct keys.
\<close>

section \<open>Definitions, issues, results\<close>

datatype MappingFormat = MF_JSON | MF_CSV | MF_CUSTOM_XML

datatype FieldRequirement = REQUIRED | OPTIONAL | CONDITIONAL

datatype MappingSeverity = MS_INFO | MS_WARNING | MS_ERROR

record FieldMapping =
  fm_source :: string
  fm_target :: string
  fm_required :: FieldRequirement
  fm_transforms :: "string list"
  fm_default :: "string option"

record MappingDefinition =
  mp_version :: string
  mp_source_format :: MappingFormat
  mp_record_selector :: "string option"
  mp_fields :: "FieldMapping list"

record MappingIssue =
  mi_code :: string
  mi_severity :: MappingSeverity
  mi_message :: string
  mi_path :: "string option"

record MappingResult =
  mr_message :: PaymentMessage
  mr_version :: string
  mr_issues :: "MappingIssue list"

definition MappingFormat_value :: "MappingFormat \<Rightarrow> string" where
  "MappingFormat_value f = (case f of MF_JSON \<Rightarrow> ''json'' | MF_CSV \<Rightarrow> ''csv'' | MF_CUSTOM_XML \<Rightarrow> ''custom_xml'')"

text \<open>The values that flow through a mapping: JSON values, decimals and datetimes.\<close>

datatype mval = MJson jval | MDec "pydec number" | MTime pydatetime

section \<open>Selectors\<close>

datatype json_token = JKey string | JIndex nat | JWildcard

text \<open>The characters of \<open>[A-Za-z0-9_\\-]\<close>.\<close>

definition is_key_char :: "char \<Rightarrow> bool" where
  "is_key_char c \<longleftrightarrow> is_alnum c \<or> c = CHR ''_'' \<or> c = CHR ''-''"

text \<open>\<open>[(\\d+)]\<close> at the start of the text: the number and what follows.\<close>

definition bracket_index :: "string \<Rightarrow> (nat \<times> string) option" where
  "bracket_index s =
     (if s = [] \<or> hd s \<noteq> CHR ''['' then None
      else let ds = takeWhile is_digit (List.tl s); r = dropWhile is_digit (List.tl s) in
        if ds \<noteq> [] \<and> r \<noteq> [] \<and> hd r = CHR '']'' then Some (digits_val ds, List.tl r) else None)"

lemma bracket_index_shorter: "bracket_index s = Some (n, r) \<Longrightarrow> length r < length s"
proof -
  assume a: "bracket_index s = Some (n, r)"
  then obtain c s' where s: "s = c # s'" by (cases s) (auto simp: bracket_index_def)
  have "length (dropWhile is_digit s') \<le> length s'" by (rule length_dropWhile_le)
  then show ?thesis using a by (auto simp: s bracket_index_def Let_def split: if_splits)
qed

text \<open>
  \<open>re.findall\<close> scans from the left, skipping every character at which none of the three
  alternatives matches.
\<close>

function tokenize :: "string \<Rightarrow> json_token list" where
  "tokenize [] = []"
| "tokenize (c # s) =
     (if is_key_char c then JKey (takeWhile is_key_char (c # s)) # tokenize (dropWhile is_key_char (c # s))
      else if starts_with ''[*]'' (c # s) then JWildcard # tokenize (drop 3 (c # s))
      else (case bracket_index (c # s) of
          Some (n, r) \<Rightarrow> JIndex n # tokenize r
        | None \<Rightarrow> tokenize s))"
  by pat_completeness auto
termination
proof (relation "measure length")
  fix c s assume "is_key_char c"
  then show "(dropWhile is_key_char (c # s), c # s) \<in> measure length"
    using length_dropWhile_le[of is_key_char s] by simp
qed (auto dest: bracket_index_shorter)

fun step_token :: "json_token \<Rightarrow> jval \<Rightarrow> jval list" where
  "step_token (JKey k) item = (case item of JObj d \<Rightarrow> (case map_of d k of None \<Rightarrow> [] | Some v \<Rightarrow> [v]) | _ \<Rightarrow> [])"
| "step_token (JIndex n) item = (case item of JList xs \<Rightarrow> if n < length xs then [xs ! n] else [] | _ \<Rightarrow> [])"
| "step_token JWildcard item = (case item of JList xs \<Rightarrow> xs | JObj d \<Rightarrow> map snd d | _ \<Rightarrow> [])"

definition resolve_json_path :: "jval \<Rightarrow> string \<Rightarrow> jval list" where
  "resolve_json_path data path =
     fold (\<lambda>token current. concat (map (step_token token) current)) (tokenize path) [data]"

text \<open>What \<open>element.xpath\<close> gives: nodes (elements or text), one text, a number or boolean, or an XPath error.\<close>

datatype xnode = XElem xml | XOther string
datatype xpath_result = XNodes "xnode list" | XText string | XNumber | XFailure string

definition resolve_xpath :: "(xml \<Rightarrow> string \<Rightarrow> xpath_result) \<Rightarrow> xml \<Rightarrow> string \<Rightarrow> string list" where
  "resolve_xpath xpath element path = (case xpath element path of
     XNodes nodes \<Rightarrow> filter (\<lambda>v. v \<noteq> [])
       (map (\<lambda>n. case n of XElem e \<Rightarrow> strip (dget_opt (x_text e)) | XOther s \<Rightarrow> strip s) nodes)
   | _ \<Rightarrow> [])"

definition resolve_csv :: "(string, string) dict \<Rightarrow> string \<Rightarrow> string option" where
  "resolve_csv row column = map_of row column"

section \<open>Dates\<close>

text \<open>\<open>datetime.isoformat\<close> with its separator.\<close>

definition padded :: "nat \<Rightarrow> nat \<Rightarrow> string" where
  "padded k n = (let ds = show_nat n in replicate (k - length ds) CHR ''0'' @ ds)"

definition show_offset :: "int option \<Rightarrow> string" where
  "show_offset off = (case off of None \<Rightarrow> [] | Some z \<Rightarrow>
     (let a = nat \<bar>z\<bar> in (if z < 0 then ''-'' else ''+'') @ two_digits (a div 3600) @ '':'' @ two_digits (a div 60 mod 60) @
        (if a mod 60 = 0 then [] else '':'' @ two_digits (a mod 60))))"

definition isoformat :: "char \<Rightarrow> pydatetime \<Rightarrow> string" where
  "isoformat sep t = show_date (t_date t) @ [sep] @ two_digits (t_hour t) @ '':'' @ two_digits (t_minute t) @ '':'' @
     two_digits (t_second t) @ (if t_micro t = 0 then [] else CHR ''.'' # padded 6 (t_micro t)) @ show_offset (t_offset t)"

text \<open>
  The pattern \<open>strptime\<close> compiles for a format. An alternative of a directive is a list of
  character ranges; alternatives are tried in the order of the pattern, with backtracking, and
  letters match in either case.
\<close>

datatype directive = DirY | Dirm | Dird | DirH | DirM | DirS | Lit char

definition range_of :: "char \<Rightarrow> char \<Rightarrow> nat \<times> nat" where
  "range_of a b = (of_char a, of_char b)"

definition any_digit :: "nat \<times> nat" where
  "any_digit = range_of CHR ''0'' CHR ''9''"

fun alternatives :: "directive \<Rightarrow> (nat \<times> nat) list list" where
  "alternatives DirY = [[any_digit, any_digit, any_digit, any_digit]]"
| "alternatives Dirm = [[range_of CHR ''1'' CHR ''1'', range_of CHR ''0'' CHR ''2''],
     [range_of CHR ''0'' CHR ''0'', range_of CHR ''1'' CHR ''9''], [range_of CHR ''1'' CHR ''9'']]"
| "alternatives Dird = [[range_of CHR ''3'' CHR ''3'', range_of CHR ''0'' CHR ''1''],
     [range_of CHR ''1'' CHR ''2'', any_digit], [range_of CHR ''0'' CHR ''0'', range_of CHR ''1'' CHR ''9''],
     [range_of CHR ''1'' CHR ''9''], [range_of CHR '' '' CHR '' '', range_of CHR ''1'' CHR ''9'']]"
| "alternatives DirH = [[range_of CHR ''2'' CHR ''2'', range_of CHR ''0'' CHR ''3''],
     [range_of CHR ''0'' CHR ''1'', any_digit], [any_digit]]"
| "alternatives DirM = [[range_of CHR ''0'' CHR ''5'', any_digit], [any_digit]]"
| "alternatives DirS = [[range_of CHR ''6'' CHR ''6'', range_of CHR ''0'' CHR ''1''],
     [range_of CHR ''0'' CHR ''5'', any_digit], [any_digit]]"
| "alternatives (Lit c) = [[range_of (upper_char c) (upper_char c)], [range_of (lower_char c) (lower_char c)]]"

fun take_ranges :: "(nat \<times> nat) list \<Rightarrow> string \<Rightarrow> (string \<times> string) option" where
  "take_ranges [] s = Some ([], s)"
| "take_ranges (r # rs) [] = None"
| "take_ranges (r # rs) (c # s) =
     (if fst r \<le> of_char c \<and> of_char c \<le> snd r
      then map_option (\<lambda>(m, s'). (c # m, s')) (take_ranges rs s) else None)"

fun first_some :: "('a \<Rightarrow> 'b option) \<Rightarrow> 'a list \<Rightarrow> 'b option" where
  "first_some f [] = None"
| "first_some f (x # xs) = (case f x of None \<Rightarrow> first_some f xs | Some y \<Rightarrow> Some y)"

primrec match_format :: "directive list \<Rightarrow> string \<Rightarrow> ((directive \<times> string) list \<times> string) option" where
  "match_format [] s = Some ([], s)"
| "match_format (d # ds) s = first_some (\<lambda>alt. case take_ranges alt s of None \<Rightarrow> None
     | Some (m, r) \<Rightarrow> map_option (\<lambda>(groups, r'). ((d, m) # groups, r')) (match_format ds r)) (alternatives d)"

text \<open>\<open>datetime.strptime\<close>: the whole text must match and the fields must be a date and a time of day.\<close>

definition strptime :: "directive list \<Rightarrow> string \<Rightarrow> pydatetime option" where
  "strptime fmt s = (case match_format fmt s of None \<Rightarrow> None | Some (groups, rest) \<Rightarrow>
     (let g = (\<lambda>d dflt. case map_of groups d of None \<Rightarrow> dflt | Some m \<Rightarrow> digits_val (filter is_digit m));
          date = mk_date (g DirY 1900) (g Dirm 1) (g Dird 1) in
      if rest = [] \<and> valid_date date \<and> g DirH 0 < 24 \<and> g DirM 0 < 60 \<and> g DirS 0 < 60
      then Some \<lparr>t_date = date, t_hour = g DirH 0, t_minute = g DirM 0, t_second = g DirS 0, t_micro = 0, t_offset = None\<rparr>
      else None))"

definition DATE_FORMATS :: "directive list list" where
  "DATE_FORMATS = [[DirY, Lit CHR ''-'', Dirm, Lit CHR ''-'', Dird],
     [DirY, Lit CHR ''-'', Dirm, Lit CHR ''-'', Dird, Lit CHR ''T'', DirH, Lit CHR '':'', DirM, Lit CHR '':'', DirS],
     [DirY, Dirm, Dird], [Dird, Lit CHR ''/'', Dirm, Lit CHR ''/'', DirY]]"

end
