(* ===== verification/PO_Mapper.thy ===== *)
theory PO_Mapper
  imports PO_Mapping "HOL-Library.List_Lexorder" "HOL-Library.Char_ord"
begin

text \<open>
  The transforms of the mapping engine, the mapper (\<open>mapper.py\<close>) that stores transformed source
  values in a canonical transaction, and the validator of mapping definitions.
\<close>

section \<open>Transforms\<close>

text \<open>The transforms that act on text leave every other value alone.\<close>

definition on_text :: "(string \<Rightarrow> mval) \<Rightarrow> mval \<Rightarrow> mval" where
  "on_text f v = (case v of MJson (JStr s) \<Rightarrow> f s | _ \<Rightarrow> v)"

definition text_transform :: "(string \<Rightarrow> string) \<Rightarrow> mval \<Rightarrow> mval" where
  "text_transform f = on_text (\<lambda>s. MJson (JStr (f s)))"

definition collapse_whitespace :: "string \<Rightarrow> string" where
  "collapse_whitespace s = join '' '' (split_ws s)"

definition remove_punct :: "string \<Rightarrow> string" where
  "remove_punct s = filter (\<lambda>c. is_alnum c \<or> is_space c \<or> c = CHR ''-'') s"

definition country_iso2 :: "string \<Rightarrow> string" where
  "country_iso2 s = (case normalize_country_name s of None \<Rightarrow> s | Some code \<Rightarrow> code)"

definition decimal_point :: "string \<Rightarrow> string" where
  "decimal_point s = replace_char CHR '','' CHR ''.'' (strip s)"

definition parse_decimal :: "mval \<Rightarrow> mval" where
  "parse_decimal = on_text (\<lambda>s. case decimal_of_text (decimal_point s) of
     None \<Rightarrow> MJson (JStr s) | Some d \<Rightarrow> MDec d)"

definition parse_date :: "mval \<Rightarrow> mval" where
  "parse_date v = (case v of
     MTime t \<Rightarrow> MJson (JStr (isoformat CHR ''T'' t))
   | MJson (JStr s) \<Rightarrow> (case first_some (\<lambda>fmt. strptime fmt (strip s)) DATE_FORMATS of
         None \<Rightarrow> v | Some t \<Rightarrow> MJson (JStr (isoformat CHR ''T'' t)))
   | _ \<Rightarrow> v)"

definition iban_ws :: "string \<Rightarrow> string" where
  "iban_ws s = upper (filter (\<lambda>c. \<not> is_space c) s)"

definition COMPANY_SUFFIX_LIST :: "string list" where
  "COMPANY_SUFFIX_LIST = [''GmbH'', ''S.r.l.'', ''S.p.A.'', ''Ltd.'', ''LLC'', ''Inc.'', ''PLC'']"

text \<open>The loop returns the value at the first suffix it ends with, and the value after the loop.\<close>

fun suffix_loop :: "string \<Rightarrow> string list \<Rightarrow> string" where
  "suffix_loop v [] = v"
| "suffix_loop v (x # xs) = (if suffix (upper x) (upper v) then v else suffix_loop v xs)"

definition company_suffix :: "string \<Rightarrow> string" where
  "company_suffix s = suffix_loop (strip s) COMPANY_SUFFIX_LIST"

text \<open>The registry. No transform of it raises, so the fallback on an exception is never taken.\<close>

definition TRANSFORMS :: "(string \<times> (mval \<Rightarrow> mval)) list" where
  "TRANSFORMS = [
     (''trim'', text_transform strip), (''collapse_whitespace'', text_transform collapse_whitespace),
     (''upper'', text_transform upper), (''lower'', text_transform lower),
     (''normalize_unicode'', text_transform nfkc), (''remove_safe_punctuation'', text_transform remove_punct),
     (''country_to_iso2'', text_transform country_iso2), (''parse_decimal'', parse_decimal),
     (''parse_date'', parse_date), (''normalize_iban_whitespace'', text_transform iban_ws),
     (''normalize_bic_case'', text_transform upper), (''company_suffix_normalization'', text_transform company_suffix)]"

definition transform :: "string \<Rightarrow> mval \<Rightarrow> mval" where
  "transform name v = (case map_of TRANSFORMS name of None \<Rightarrow> v | Some f \<Rightarrow> f v)"

definition supported_transforms :: "string list" where
  "supported_transforms = sort (map fst TRANSFORMS)"

definition apply_transforms :: "mval \<Rightarrow> string list \<Rightarrow> mval" where
  "apply_transforms v transforms = fold transform transforms v"

section \<open>Values as text and as minor units\<close>

record mapping_env =
  me_repr :: "jval \<Rightarrow> string"
  me_xpath :: "xml \<Rightarrow> string \<Rightarrow> xpath_result"
  me_now :: pydatetime

text \<open>\<open>str(value)\<close>\<close>

fun text_of_value :: "(jval \<Rightarrow> string) \<Rightarrow> mval \<Rightarrow> string" where
  "text_of_value repr (MJson JNull) = ''None''"
| "text_of_value repr (MJson (JBool b)) = (if b then ''True'' else ''False'')"
| "text_of_value repr (MJson (JInt i)) = show_int i"
| "text_of_value repr (MJson (JStr s)) = s"
| "text_of_value repr (MJson (JFloat r)) = repr (JFloat r)"
| "text_of_value repr (MJson (JList xs)) = repr (JList xs)"
| "text_of_value repr (MJson (JObj d)) = repr (JObj d)"
| "text_of_value repr (MDec (Finite d)) = dec_str d"
| "text_of_value repr (MDec (Infinite neg)) = (if neg then ''-Infinity'' else ''Infinity'')"
| "text_of_value repr (MDec NotANumber) = ''NaN''"
| "text_of_value repr (MTime t) = isoformat CHR '' '' t"

text \<open>\<open>int(round(x * 100))\<close> in binary floats; a product beyond the largest double is infinite.\<close>

definition float_minor :: "rat \<Rightarrow> int res" where
  "float_minor x = (let p = fl (x * 100) in
     if 1023 < ilog 2 \<bar>p\<bar> then Inl (OverflowError ''cannot convert float infinity to integer'') else Inr (rhe p))"

definition int_minor :: "int \<Rightarrow> int res" where
  "int_minor i = (let x = fl (of_int i) in
     if 1023 < ilog 2 \<bar>x\<bar> then Inl (OverflowError ''int too large to convert to float'') else float_minor x)"

text \<open>
  Only the text branch catches exceptions. A decimal product beyond the largest exponent of the
  context is the trapped signal \<open>Overflow\<close>, an arithmetic error.
\<close>

definition decimal_minor :: "pydec number \<Rightarrow> int res" where
  "decimal_minor n = (case n of
     Finite d \<Rightarrow> (let p = dec28 (dval d * 100) in
       if 999999 < ilog 10 \<bar>p\<bar> then Inl (ArithmeticError ''Overflow'') else Inr (rhe p))
   | Infinite _ \<Rightarrow> Inl (OverflowError ''cannot convert Infinity to integer'')
   | NotANumber \<Rightarrow> Inl (ValueError ''cannot convert NaN to integer''))"

definition to_minor :: "mval \<Rightarrow> int res" where
  "to_minor v = (case v of
     MDec n \<Rightarrow> decimal_minor n
   | MJson (JInt i) \<Rightarrow> int_minor i
   | MJson (JBool b) \<Rightarrow> int_minor (if b then 1 else 0)
   | MJson (JFloat r) \<Rightarrow> float_minor r
   | MJson (JStr s) \<Rightarrow> Inr (minor_of_decimal (decimal_point s))
   | _ \<Rightarrow> Inr 0)"

section \<open>Storing a value in a transaction\<close>

text \<open>The models as their constructors make them.\<close>

definition new_address :: PostalAddress where
  "new_address = \<lparr>pa_street_name = None, pa_building_number = None, pa_postcode = None, pa_town_name = None,
     pa_country = None, pa_country_name = None, pa_address_lines = [], pa_source_path = None,
     pa_readiness = UNRESOLVED, pa_evidence_level = LOW, pa_original_fields = [], pa_normalized_fields = []\<rparr>"

definition new_party :: Party where
  "new_party = \<lparr>py_name = None, py_identification = [], py_postal_address = None, py_account = None,
     py_financial_institution = None, py_source_path = None\<rparr>"

definition new_account :: Account where
  "new_account = \<lparr>ac_iban = None, ac_other_identification = None, ac_currency = None, ac_name = None,
     ac_source_path = None\<rparr>"

definition new_agent :: FinancialInstitution where
  "new_agent = \<lparr>fi_bic = None, fi_clearing_system_member = None, fi_name = None, fi_postal_address = None,
     fi_source_path = None\<rparr>"

definition new_transaction :: PaymentTransaction where
  "new_transaction = \<lparr>tx_instruction_id = None, tx_end_to_end_id = None, tx_transaction_id = None, tx_amount = None,
     tx_debtor = None, tx_creditor = None, tx_debtor_account = None, tx_creditor_account = None,
     tx_debtor_agent = None, tx_creditor_agent = None, tx_remittance = None, tx_requested_execution_date = None,
     tx_source_path = None\<rparr>"

definition or_new :: "'a option \<Rightarrow> 'a \<Rightarrow> 'a" where
  "or_new x y = (case x of None \<Rightarrow> y | Some z \<Rightarrow> z)"

definition set_address :: "string list \<Rightarrow> string \<Rightarrow> string \<Rightarrow> PostalAddress \<Rightarrow> PostalAddress" where
  "set_address seg text path addr = (case seg of [] \<Rightarrow> addr
   | field # _ \<Rightarrow>
     (let a = addr\<lparr>pa_source_path := Some path\<rparr> in
      if field = ''street_name'' then a\<lparr>pa_street_name := Some text\<rparr>
      else if field = ''building_number'' then a\<lparr>pa_building_number := Some text\<rparr>
      else if field = ''postcode'' then a\<lparr>pa_postcode := Some text\<rparr>
      else if field = ''town_name'' then a\<lparr>pa_town_name := Some text\<rparr>
      else if field = ''country'' then
        a\<lparr>pa_country := Some text, pa_original_fields := AList.update ''Ctry'' text (pa_original_fields a)\<rparr>
      else if field = ''address_lines'' then a\<lparr>pa_address_lines := pa_address_lines a @ [text]\<rparr>
      else a))"

definition set_party :: "string list \<Rightarrow> string \<Rightarrow> string \<Rightarrow> Party option \<Rightarrow> Party option" where
  "set_party seg text path party = (case seg of [] \<Rightarrow> party
   | s # rest \<Rightarrow>
     (let p = or_new party new_party in
      Some (if s = ''name'' then p\<lparr>py_name := Some text\<rparr>
        else if s = ''postal_address'' then
          p\<lparr>py_postal_address := Some (set_address rest text path (or_new (py_postal_address p) new_address))\<rparr>
        else p)))"

definition set_account :: "string list \<Rightarrow> string \<Rightarrow> Account option \<Rightarrow> Account option" where
  "set_account seg text account =
     (let a = or_new account new_account in
      Some (case seg of [] \<Rightarrow> a
        | s # _ \<Rightarrow> if s = ''iban'' then a\<lparr>ac_iban := Some text\<rparr>
            else if s = ''name'' then a\<lparr>ac_name := Some text\<rparr>
            else if s = ''other_identification'' then a\<lparr>ac_other_identification := Some text\<rparr> else a))"

definition set_agent :: "string list \<Rightarrow> string \<Rightarrow> FinancialInstitution option \<Rightarrow> FinancialInstitution option" where
  "set_agent seg text agent =
     (let f = or_new agent new_agent in
      Some (case seg of [] \<Rightarrow> f
        | s # _ \<Rightarrow> if s = ''bic'' then f\<lparr>fi_bic := Some text\<rparr>
            else if s = ''name'' then f\<lparr>fi_name := Some text\<rparr> else f))"

definition set_remittance :: "string list \<Rightarrow> string \<Rightarrow> RemittanceInformation option \<Rightarrow> RemittanceInformation option" where
  "set_remittance seg text remittance =
     (let r = or_new remittance \<lparr>ri_unstructured = [], ri_reference = None, ri_source_path = None\<rparr> in
      Some (if seg \<noteq> [] \<and> hd seg = ''unstructured'' then r\<lparr>ri_unstructured := ri_unstructured r @ [text]\<rparr> else r))"

definition set_amount :: "(jval \<Rightarrow> string) \<Rightarrow> string \<Rightarrow> mval \<Rightarrow> MonetaryAmount option \<Rightarrow> MonetaryAmount option res" where
  "set_amount repr s v amount =
     (let a = or_new amount \<lparr>ma_amount_minor = 0, ma_currency = ''EUR''\<rparr> in
      if s = ''amount_minor'' then bindR (to_minor v) (\<lambda>m. Inr (Some (a\<lparr>ma_amount_minor := m\<rparr>)))
      else if s = ''currency'' then Inr (Some (a\<lparr>ma_currency := upper (take 3 (text_of_value repr v))\<rparr>))
      else Inr (Some a))"

definition target_segments :: "string \<Rightarrow> string list" where
  "target_segments target = filter (\<lambda>s. s \<noteq> []) (split_char CHR ''.'' target)"

definition set_text :: "string list \<Rightarrow> string \<Rightarrow> string \<Rightarrow> PaymentTransaction \<Rightarrow> PaymentTransaction" where
  "set_text seg text pre tx =
     (let rest = List.tl seg; s = hd seg in
      if s = ''instruction_id'' then tx\<lparr>tx_instruction_id := Some text\<rparr>
      else if s = ''end_to_end_id'' then tx\<lparr>tx_end_to_end_id := Some text\<rparr>
      else if s = ''transaction_id'' then tx\<lparr>tx_transaction_id := Some text\<rparr>
      else if s = ''debtor'' then tx\<lparr>tx_debtor := set_party rest text (pre @ ''/Dbtr/PstlAdr'') (tx_debtor tx)\<rparr>
      else if s = ''creditor'' then tx\<lparr>tx_creditor := set_party rest text (pre @ ''/Cdtr/PstlAdr'') (tx_creditor tx)\<rparr>
      else if s = ''debtor_account'' then tx\<lparr>tx_debtor_account := set_account rest text (tx_debtor_account tx)\<rparr>
      else if s = ''creditor_account'' then tx\<lparr>tx_creditor_account := set_account rest text (tx_creditor_account tx)\<rparr>
      else if s = ''debtor_agent'' then tx\<lparr>tx_debtor_agent := set_agent rest text (tx_debtor_agent tx)\<rparr>
      else if s = ''creditor_agent'' then tx\<lparr>tx_creditor_agent := set_agent rest text (tx_creditor_agent tx)\<rparr>
      else if s = ''remittance'' then tx\<lparr>tx_remittance := set_remittance rest text (tx_remittance tx)\<rparr>
      else tx)"

definition set_target ::
  "(jval \<Rightarrow> string) \<Rightarrow> string \<Rightarrow> string \<Rightarrow> mval \<Rightarrow> PaymentTransaction \<Rightarrow> PaymentTransaction res" where
  "set_target repr pre target v tx =
     (let seg = target_segments target in
      if seg = [] then Inr tx
      else if hd seg = ''amount'' \<and> 2 \<le> length seg then
        bindR (set_amount repr (seg ! 1) v (tx_amount tx)) (\<lambda>a. Inr (tx\<lparr>tx_amount := a\<rparr>))
      else Inr (set_text seg (text_of_value repr v) pre tx))"

section \<open>Records\<close>

datatype mrecord = RJson jval | RXml xml

type_synonym msource = mrecord

text \<open>
  \<open>list\<close> of an XPath result: nodes stay nodes, a text becomes its characters, a number has no
  iterator, and an XPath error is not caught here.
\<close>

definition xpath_records :: "xpath_result \<Rightarrow> mrecord list res" where
  "xpath_records r = (case r of
     XNodes ns \<Rightarrow> Inr (map (\<lambda>n. case n of XElem e \<Rightarrow> RXml e | XOther s \<Rightarrow> RJson (JStr s)) ns)
   | XText s \<Rightarrow> Inr (map (\<lambda>c. RJson (JStr [c])) s)
   | XNumber \<Rightarrow> Inl (TypeError ''object is not iterable'')
   | XFailure e \<Rightarrow> Inl (XPathEvalError e))"

definition extract_records :: "mapping_env \<Rightarrow> MappingDefinition \<Rightarrow> msource \<Rightarrow> mrecord list res" where
  "extract_records env def source = (case mp_source_format def of
     MF_CSV \<Rightarrow> (case source of RJson (JList xs) \<Rightarrow> Inr (map RJson xs) | _ \<Rightarrow> Inr [])
   | MF_JSON \<Rightarrow>
       (if truthy (mp_record_selector def) then
          (case source of RJson j \<Rightarrow> Inr (map RJson (resolve_json_path j (dget_opt (mp_record_selector def))))
           | RXml e \<Rightarrow> Inr (if tokenize (dget_opt (mp_record_selector def)) = [] then [RXml e] else []))
        else (case source of RJson (JObj d) \<Rightarrow> Inr [source] | _ \<Rightarrow> Inr []))
   | MF_CUSTOM_XML \<Rightarrow>
       (case source of RXml e \<Rightarrow>
          if truthy (mp_record_selector def) then xpath_records (me_xpath env e (dget_opt (mp_record_selector def))) else Inr []
        | _ \<Rightarrow> Inr []))"

text \<open>The first value a selector finds; a missing one is \<open>None\<close>.\<close>

definition get_value :: "mapping_env \<Rightarrow> mrecord \<Rightarrow> string \<Rightarrow> jval" where
  "get_value env record source = (case record of
     RJson (JObj d) \<Rightarrow>
       (if starts_with ''$'' source then
          (case resolve_json_path (JObj d) source of [] \<Rightarrow> JNull | v # _ \<Rightarrow> v)
        else dget d source JNull)
   | RXml e \<Rightarrow> (case resolve_xpath (me_xpath env) e source of [] \<Rightarrow> JNull | v # _ \<Rightarrow> JStr v)
   | _ \<Rightarrow> JNull)"

definition absent :: "jval \<Rightarrow> bool" where
  "absent v \<longleftrightarrow> v = JNull \<or> v = JStr []"

definition missing_issue :: "FieldMapping \<Rightarrow> MappingIssue" where
  "missing_issue fm = \<lparr>mi_code = ''MAP-001'', mi_severity = MS_ERROR, mi_message = ''Required source field missing'',
     mi_path = Some (fm_target fm)\<rparr>"

fun map_fields ::
  "mapping_env \<Rightarrow> string \<Rightarrow> mrecord \<Rightarrow> FieldMapping list \<Rightarrow> PaymentTransaction \<Rightarrow> (PaymentTransaction \<times> MappingIssue list) res" where
  "map_fields env pre record [] tx = Inr (tx, [])"
| "map_fields env pre record (fm # fms) tx =
     (let v = get_value env record (fm_source fm);
          store = (\<lambda>v. bindR (set_target (me_repr env) pre (fm_target fm) (apply_transforms (MJson v) (fm_transforms fm)) tx)
            (map_fields env pre record fms)) in
      if \<not> absent v then store v
      else if fm_required fm = REQUIRED then
        bindR (map_fields env pre record fms tx) (\<lambda>(t, issues). Inr (t, missing_issue fm # issues))
      else (case fm_default fm of Some d \<Rightarrow> store (JStr d) | None \<Rightarrow> map_fields env pre record fms tx))"

definition record_prefix :: "nat \<Rightarrow> string" where
  "record_prefix i = ''transactions['' @ show_nat i @ '']''"

definition source_format_of :: "MappingFormat \<Rightarrow> SourceFormat" where
  "source_format_of f = (case f of MF_JSON \<Rightarrow> JSON_FORMAT | MF_CSV \<Rightarrow> CSV_FORMAT | MF_CUSTOM_XML \<Rightarrow> XML_PAIN_001)"

definition mapped_message :: "mapping_env \<Rightarrow> MappingDefinition \<Rightarrow> PaymentTransaction list \<Rightarrow> PaymentMessage" where
  "mapped_message env def txs =
     \<lparr>pm_message_type = Some (MappingFormat_value (mp_source_format def)), pm_message_id = None, pm_creation_datetime = None,
      pm_transactions = txs, pm_source_format = source_format_of (mp_source_format def), pm_received_at = me_now env,
      pm_validation_status = VS_PENDING, pm_ruleset_version = None, pm_address_provider = None,
      pm_address_provider_version = None, pm_source_metadata = []\<rparr>"

definition map_to_canonical :: "mapping_env \<Rightarrow> MappingDefinition \<Rightarrow> msource \<Rightarrow> MappingResult res" where
  "map_to_canonical env def source =
     bindR (extract_records env def source) (\<lambda>records.
     bindR (mapR (\<lambda>(i, r). map_fields env (record_prefix i) r (mp_fields def) new_transaction) (enumerate 0 records)) (\<lambda>rs.
       Inr \<lparr>mr_message = mapped_message env def (map fst rs), mr_version = mp_version def,
            mr_issues = concat (map snd rs)\<rparr>))"

section \<open>Validation of definitions\<close>

definition ALLOWED_TARGETS :: "string list" where
  "ALLOWED_TARGETS = [''instruction_id'', ''end_to_end_id'', ''transaction_id'', ''amount.amount_minor'', ''amount.currency'',
     ''debtor.name'', ''creditor.name'', ''debtor.postal_address.street_name'', ''debtor.postal_address.building_number'',
     ''debtor.postal_address.postcode'', ''debtor.postal_address.town_name'', ''debtor.postal_address.country'',
     ''debtor.postal_address.address_lines'', ''creditor.postal_address.street_name'',
     ''creditor.postal_address.building_number'', ''creditor.postal_address.postcode'',
     ''creditor.postal_address.town_name'', ''creditor.postal_address.country'',
     ''creditor.postal_address.address_lines'', ''debtor_account.iban'', ''debtor_account.name'',
     ''debtor_account.other_identification'', ''creditor_account.iban'', ''creditor_account.name'',
     ''debtor_agent.bic'', ''debtor_agent.name'', ''creditor_agent.bic'', ''creditor_agent.name'',
     ''remittance.unstructured'']"

record MappingValidation =
  mvn_valid :: bool
  mvn_errors :: "MappingIssue list"
  mvn_warnings :: "MappingIssue list"

definition mapping_issue :: "string \<Rightarrow> MappingSeverity \<Rightarrow> string \<Rightarrow> string option \<Rightarrow> MappingIssue" where
  "mapping_issue code severity message path =
     \<lparr>mi_code = code, mi_severity = severity, mi_message = message, mi_path = path\<rparr>"

definition field_errors :: "string list \<Rightarrow> FieldMapping \<Rightarrow> MappingIssue list" where
  "field_errors seen fm =
     (let t = Some (fm_target fm) in
      (if fm_source fm = [] then [mapping_issue ''MAP-003'' MS_ERROR ''Empty source selector'' t] else []) @
      (if fm_target fm \<notin> set ALLOWED_TARGETS
       then [mapping_issue ''MAP-004'' MS_ERROR (''Unknown canonical target '' @ quote_name (fm_target fm)) t] else []) @
      (if fm_target fm \<in> set seen
       then [mapping_issue ''MAP-005'' MS_ERROR (''Duplicate target '' @ quote_name (fm_target fm)) t] else []) @
      map (\<lambda>x. mapping_issue ''MAP-006'' MS_ERROR (''Unsupported transform '' @ quote_name x) t)
        (filter (\<lambda>x. x \<notin> set supported_transforms) (fm_transforms fm)))"

fun fields_errors :: "string list \<Rightarrow> FieldMapping list \<Rightarrow> MappingIssue list" where
  "fields_errors seen [] = []"
| "fields_errors seen (fm # fms) = field_errors seen fm @ fields_errors (fm_target fm # seen) fms"

definition validate_mapping :: "MappingDefinition \<Rightarrow> MappingValidation" where
  "validate_mapping def =
     (let no_selector = (\<not> truthy (mp_record_selector def));
          errors = (if mp_fields def = [] then [mapping_issue ''MAP-002'' MS_ERROR ''Mapping has no field mappings'' None] else []) @
            (if mp_source_format def = MF_CUSTOM_XML \<and> no_selector
             then [mapping_issue ''MAP-011'' MS_ERROR ''Custom XML mapping requires record_selector'' None] else []) @
            fields_errors [] (mp_fields def);
          warnings = (if mp_source_format def = MF_JSON \<and> no_selector
             then [mapping_issue ''MAP-010'' MS_WARNING ''JSON mapping lacks record_selector'' None] else []) @
            map (\<lambda>fm. mapping_issue ''MAP-007'' MS_WARNING ''currency should not be decimal-parsed'' (Some (fm_target fm)))
              (filter (\<lambda>fm. fm_target fm = ''amount.currency'' \<and> ''parse_decimal'' \<in> set (fm_transforms fm)) (mp_fields def)) in
      \<lparr>mvn_valid = (errors = []), mvn_errors = errors, mvn_warnings = warnings\<rparr>)"

end
