(* ===== verification/PO_RepairFacts.thy ===== *)
theory PO_RepairFacts
  imports PO_Repair "HOL-Library.Multiset"
begin

text \<open>
  Facts about the repair engine's trees: positions and navigation, an applied change is found
  again at its path, every other element is kept, and the path of a creditor field names the
  element that the pacs.008 adapter reads.
\<close>

section \<open>Positions\<close>

lemma with_kids_sel [simp]:
  "x_kids (with_kids t ks) = ks" "x_tag (with_kids t ks) = x_tag t" "x_text (with_kids t ks) = x_text t"
  "x_attrs (with_kids t ks) = x_attrs t" "x_tail (with_kids t ks) = x_tail t"
  by (cases t; simp add: with_kids_def)+

lemma with_text_sel [simp]:
  "x_kids (with_text t v) = x_kids t" "x_tag (with_text t v) = x_tag t" "x_text (with_text t v) = v"
  "x_attrs (with_text t v) = x_attrs t" "x_tail (with_text t v) = x_tail t"
  by (cases t; simp add: with_text_def)+

lemma with_kids_same [simp]: "with_kids t (x_kids t) = t"
  by (cases t) (simp add: with_kids_def)

lemma localname_cong: "x_tag t = x_tag u \<Longrightarrow> extract_localname t = extract_localname u"
  by (simp add: extract_localname_def)

lemma localname_with_kids [simp]: "extract_localname (with_kids t ks) = extract_localname t"
  by (rule localname_cong) simp

lemma localname_with_text [simp]: "extract_localname (with_text t v) = extract_localname t"
  by (rule localname_cong) simp

lemma map_at_localname: "(\<And>x. x_tag (f x) = x_tag x) \<Longrightarrow> x_tag (map_at f t p) = x_tag t"
  by (cases p) auto

lemma node_map_at: "node_at t p = Some n \<Longrightarrow> node_at (map_at f t p) p = Some (f n)"
  by (induction f t p rule: map_at.induct) (auto split: if_splits)

lemma matching_kids_update:
  "i < length (x_kids t) \<Longrightarrow> extract_localname u = extract_localname (x_kids t ! i) \<Longrightarrow>
     matching_kids (with_kids t ((x_kids t)[i := u])) name = matching_kids t name"
  unfolding matching_kids_def by (auto simp: nth_list_update intro!: filter_cong)

lemma child_by_local_cong:
  "matching_kids t (strip_index s) = matching_kids u (strip_index s) \<Longrightarrow> child_by_local t s = child_by_local u s"
  by (simp add: child_by_local_def)

lemma child_by_local_Some:
  assumes "child_by_local t s = Inr (Some i)"
  shows "i < length (x_kids t) \<and> extract_localname (x_kids t ! i) = strip_index s"
proof -
  from assms have "i \<in> set (matching_kids t (strip_index s))"
    by (auto simp: child_by_local_def Let_def bindR_Inr split: if_splits intro!: nth_mem)
  then show ?thesis by (simp add: matching_kids_def)
qed

lemma navigate_from_node:
  "navigate_from t segs = Inr (Some p) \<Longrightarrow> \<exists>n. node_at t p = Some n"
proof (induction t segs arbitrary: p rule: navigate_from.induct)
  case (2 t seg segs)
  then show ?case by (auto simp: bindR_Inr split: option.splits dest!: child_by_local_Some)
qed auto

text \<open>Changing the node that a path names, without its tag, leaves the path naming it.\<close>

lemma navigate_from_map_at:
  assumes "\<And>x. x_tag (f x) = x_tag x" "navigate_from t segs = Inr (Some p)"
  shows "navigate_from (map_at f t p) segs = Inr (Some p)"
  using assms(2)
proof (induction t segs arbitrary: p rule: navigate_from.induct)
  case (1 t)
  then show ?case by simp
next
  case (2 t seg segs)
  from "2.prems" obtain i q where i: "child_by_local t seg = Inr (Some i)"
    and q: "navigate_from (x_kids t ! i) segs = Inr (Some q)" and p: "p = i # q"
    by (auto simp: bindR_Inr split: option.splits)
  have ik: "i < length (x_kids t)" using child_by_local_Some[OF i] by simp
  have l: "extract_localname (map_at f (x_kids t ! i) q) = extract_localname (x_kids t ! i)"
    by (intro localname_cong map_at_localname assms(1))
  have c: "child_by_local (map_at f t p) seg = Inr (Some i)"
    using child_by_local_cong[OF matching_kids_update[OF ik l]] i by (simp add: p ik)
  have "navigate_from (map_at f (x_kids t ! i) q) segs = Inr (Some q)" by (rule "2.IH"[OF q])
  then show ?case using c ik by (simp add: p bindR_Inr)
qed

lemma navigate_from_append:
  "navigate_from t (segs @ [leaf]) =
     bindR (navigate_from t segs) (\<lambda>r. case r of None \<Rightarrow> Inr None
       | Some p \<Rightarrow> bindR (child_by_local (the (node_at t p)) leaf)
           (\<lambda>c. case c of None \<Rightarrow> Inr None | Some i \<Rightarrow> Inr (Some (p @ [i]))))"
proof (induction t segs rule: navigate_from.induct)
  case (1 t)
  show ?case by (auto simp: bindR_def split: sum.splits option.splits)
next
  case (2 t seg segs)
  show ?case
  proof (cases "child_by_local t seg")
    case (Inr r)
    show ?thesis
    proof (cases r)
      case (Some i)
      have i: "i < length (x_kids t)" using child_by_local_Some[of t seg i] Inr Some by simp
      show ?thesis using "2.IH"[of i] i
        by (auto simp: Inr Some bindR_def split: sum.splits option.splits)
    qed (simp add: Inr bindR_def)
  qed (simp add: bindR_def)
qed

lemma node_at_append: "node_at t p = Some n \<Longrightarrow> node_at t (p @ q) = node_at n q"
  by (induction t p rule: node_at.induct) (auto split: if_splits)

section \<open>An applied change is found at its path\<close>

lemma order_names: "leaf \<in> set POSTAL_ADDRESS_ORDER \<Longrightarrow> CHR ''}'' \<notin> set leaf \<and> CHR ''['' \<notin> set leaf"
  by (auto simp: POSTAL_ADDRESS_ORDER_def)

lemma new_element_localname: "leaf \<in> set POSTAL_ADDRESS_ORDER \<Longrightarrow> extract_localname (new_element ns leaf v) = leaf"
  using order_names[of leaf] after_last_char_append[of "CHR ''}''" leaf "''{'' @ ns"]
  by (auto simp: new_element_def extract_localname_def)

lemma plain_segment: "CHR ''['' \<notin> set s \<Longrightarrow> segment_index s = Inr 0 \<and> strip_index s = s"
  by (auto simp: segment_index_def strip_index_def before_char_notin)

lemma plain_child: "CHR ''['' \<notin> set s \<Longrightarrow> child_by_local t s =
    Inr (case matching_kids t s of [] \<Rightarrow> None | i # _ \<Rightarrow> Some i)"
  by (simp add: child_by_local_def plain_segment bindR_def split: list.splits)

lemma matching_kids_Nil: "matching_kids t s = [] \<longleftrightarrow> (\<forall>c\<in>set (x_kids t). extract_localname c \<noteq> s)"
  unfolding matching_kids_def filter_empty_conv all_set_conv_all_nth by simp

definition insert_kid :: "string \<Rightarrow> string option \<Rightarrow> xml \<Rightarrow> xml" where
  "insert_kid leaf v par = with_kids par (reorder_children
     (x_kids par @ [new_element (dget_opt (extract_namespace par)) leaf v]))"

lemma insert_kid_tag [simp]: "x_tag (insert_kid leaf v par) = x_tag par"
  by (simp add: insert_kid_def)

lemma mset_insert_kid:
  "mset (x_kids (insert_kid leaf v par)) =
     mset (x_kids par) + {#new_element (dget_opt (extract_namespace par)) leaf v#}"
  by (simp add: insert_kid_def reorder_children_def)

lemma insert_kid_child:
  assumes leaf: "leaf \<in> set POSTAL_ADDRESS_ORDER" and none: "child_by_local par leaf = Inr None"
  shows "\<exists>k. child_by_local (insert_kid leaf v par) leaf = Inr (Some k) \<and> k < length (x_kids (insert_kid leaf v par)) \<and>
    x_text (x_kids (insert_kid leaf v par) ! k) = v"
proof -
  let ?new = "new_element (dget_opt (extract_namespace par)) leaf v" and ?ks = "x_kids (insert_kid leaf v par)"
  have plain: "CHR ''['' \<notin> set leaf" using order_names[OF leaf] by simp
  have old: "\<forall>c\<in>set (x_kids par). extract_localname c \<noteq> leaf"
    using none matching_kids_Nil[of par leaf] by (cases "matching_kids par leaf") (auto simp: plain_child[OF plain])
  have s: "set ?ks = insert ?new (set (x_kids par))"
    using arg_cong[OF mset_insert_kid[of leaf v par], of set_mset] by simp
  have "matching_kids (insert_kid leaf v par) leaf \<noteq> []"
    using s new_element_localname[OF leaf] by (auto simp: matching_kids_Nil)
  then obtain k ks where k: "matching_kids (insert_kid leaf v par) leaf = k # ks" by (cases "matching_kids (insert_kid leaf v par) leaf") auto
  then have c: "child_by_local (insert_kid leaf v par) leaf = Inr (Some k)" by (simp add: plain_child[OF plain])
  have "k < length ?ks" "extract_localname (?ks ! k) = leaf"
    using child_by_local_Some[OF c] plain_segment[OF plain] by simp_all
  moreover from this have "?ks ! k = ?new" using old s nth_mem[of k ?ks] by auto
  ultimately show ?thesis using c by (auto simp: new_element_def)
qed

declare navigate_from.simps [simp del]

lemma create_missing_Some:
  assumes "create_missing rt path v = Inr (Some rt')"
  defines "segs \<equiv> path_segments path"
  shows "2 \<le> length segs \<and> strip_index (last segs) \<in> set POSTAL_ADDRESS_ORDER \<and>
    (\<exists>pos par. navigate_segments rt (butlast segs) = Inr (Some pos) \<and> node_at rt pos = Some par \<and>
       rt' = map_at (insert_kid (strip_index (last segs)) v) rt pos)"
proof -
  note cm = assms(1)[unfolded create_missing_def Let_def, folded segs_def]
  have len: "\<not> length segs < 2" using cm by auto
  note cm = cm[unfolded if_not_P[OF len]]
  obtain r where r: "navigate_segments rt (butlast segs) = Inr r" using cm by (auto simp: bindR_Inr)
  obtain pos where pos: "r = Some pos" using cm r by (cases r) auto
  have leaf: "strip_index (last segs) \<in> set POSTAL_ADDRESS_ORDER" using cm r pos by (auto split: if_splits)
  obtain par where par: "node_at rt pos = Some par" using cm r pos leaf by (cases "node_at rt pos") auto
  have "rt' = map_at (insert_kid (strip_index (last segs)) v) rt pos"
    using cm r pos leaf par unfolding insert_kid_def[abs_def] by (cases "x_tag par") auto
  with len[unfolded not_less] leaf r pos par show ?thesis by blast
qed

lemma apply_one_cases:
  assumes "apply_one rt ch = Inr (rt', True)"
  obtains (found) pos where "navigate rt (df_path ch) = Inr (Some pos)" "rt' = map_at (\<lambda>e. with_text e (df_after ch)) rt pos"
    | (created) pos par leaf where "navigate rt (df_path ch) = Inr None" "2 \<le> length (path_segments (df_path ch))"
      "leaf = strip_index (last (path_segments (df_path ch)))" "leaf \<in> set POSTAL_ADDRESS_ORDER"
      "navigate_segments rt (butlast (path_segments (df_path ch))) = Inr (Some pos)"
      "node_at rt pos = Some par" "rt' = map_at (insert_kid leaf (df_after ch)) rt pos"
proof -
  from assms obtain r where r: "navigate rt (df_path ch) = Inr r" by (auto simp: apply_one_def bindR_Inr)
  consider pos where "navigate rt (df_path ch) = Inr (Some pos)" "rt' = map_at (\<lambda>e. with_text e (df_after ch)) rt pos"
    | "navigate rt (df_path ch) = Inr None" "create_missing rt (df_path ch) (df_after ch) = Inr (Some rt')"
    using assms r by (cases r) (auto simp: apply_one_def bindR_Inr split: option.splits)
  then show ?thesis
  proof cases
    case 1
    then show ?thesis by (rule found)
  next
    case 2
    then show ?thesis using create_missing_Some[OF 2(2)] created by blast
  qed
qed

definition nav_rest :: "xml \<Rightarrow> string list \<Rightarrow> string list" where
  "nav_rest t segs = (if extract_localname t = strip_index (hd segs) then List.tl segs else segs)"

lemma navigate_segments_rest:
  "navigate_segments t segs = (if segs = [] then Inr None else navigate_from t (nav_rest t segs))"
  by (cases segs) (simp_all add: navigate_segments_def nav_rest_def)

lemma navigate_segments_map_at:
  assumes "\<And>x. x_tag (f x) = x_tag x" "navigate_segments t segs = Inr (Some p)"
  shows "navigate_segments (map_at f t p) segs = Inr (Some p)"
proof -
  have "extract_localname (map_at f t p) = extract_localname t" by (intro localname_cong map_at_localname assms(1))
  then have "nav_rest (map_at f t p) segs = nav_rest t segs" by (simp add: nav_rest_def)
  then show ?thesis using assms(2) navigate_from_map_at[of f t "nav_rest t segs" p, OF assms(1)]
    by (simp add: navigate_segments_rest split: if_splits)
qed

lemma navigate_segments_node:
  assumes "navigate_segments t segs = Inr (Some p)"
  obtains n where "node_at t p = Some n"
  using assms navigate_from_node[of t "nav_rest t segs" p] by (auto simp: navigate_segments_rest split: if_splits)

lemma navigate_segments_snoc:
  assumes "segs \<noteq> []"
  shows "navigate_segments t (segs @ [leaf]) =
     bindR (navigate_segments t segs) (\<lambda>r. case r of None \<Rightarrow> Inr None
       | Some p \<Rightarrow> bindR (child_by_local (the (node_at t p)) leaf)
           (\<lambda>c. case c of None \<Rightarrow> Inr None | Some i \<Rightarrow> Inr (Some (p @ [i]))))"
proof -
  have "nav_rest t (segs @ [leaf]) = nav_rest t segs @ [leaf]" using assms by (simp add: nav_rest_def)
  then show ?thesis using assms navigate_from_append[of t "nav_rest t segs" leaf]
    by (simp add: navigate_segments_rest)
qed

lemma apply_one_found:
  assumes "apply_one rt ch = Inr (rt', True)" "CHR ''['' \<notin> set (last (path_segments (df_path ch)))"
  shows "\<exists>p e. navigate rt' (df_path ch) = Inr (Some p) \<and> node_at rt' p = Some e \<and> x_text e = df_after ch"
  using assms(1)
proof (cases rule: apply_one_cases)
  case (found pos)
  let ?f = "\<lambda>e. with_text e (df_after ch)"
  have n: "navigate rt' (df_path ch) = Inr (Some pos)"
    using found navigate_segments_map_at[of ?f] by (simp add: navigate_def)
  obtain e where "node_at rt pos = Some e" using navigate_segments_node[OF found(1)[unfolded navigate_def]] .
  then have "node_at rt' pos = Some (?f e)" using found(2) node_map_at[of rt pos e ?f] by simp
  with n show ?thesis by auto
next
  case (created pos par leaf)
  let ?f = "insert_kid leaf (df_after ch)" and ?segs = "path_segments (df_path ch)"
  have segs: "?segs = butlast ?segs @ [leaf]" "butlast ?segs \<noteq> []"
    using created(2,3) plain_segment[OF assms(2)] by (cases ?segs rule: rev_cases; force)+
  have p': "navigate_segments rt' (butlast ?segs) = Inr (Some pos)"
    using created navigate_segments_map_at[of ?f rt] by simp
  have n': "node_at rt' pos = Some (?f par)" using created node_map_at[of rt pos par ?f] by simp
  have "navigate rt (df_path ch) = navigate_segments rt (butlast ?segs @ [leaf])"
    using segs(1) by (simp add: navigate_def)
  then have "child_by_local par leaf = Inr None"
    using created(1,5,6) navigate_segments_snoc[OF segs(2), of rt leaf]
    by (auto simp: bindR_Inr bindR_def split: sum.splits option.splits)
  from insert_kid_child[OF created(4) this, of "df_after ch"] obtain k where
    k: "child_by_local (?f par) leaf = Inr (Some k)" "k < length (x_kids (?f par))" "x_text (x_kids (?f par) ! k) = df_after ch"
    by blast
  have "navigate_segments rt' (butlast ?segs @ [leaf]) = Inr (Some (pos @ [k]))"
    using navigate_segments_snoc[OF segs(2), of rt' leaf] p' n' k(1) by (simp add: bindR_def)
  then have "navigate rt' (df_path ch) = Inr (Some (pos @ [k]))" using segs(1) by (simp add: navigate_def)
  moreover have "node_at rt' (pos @ [k]) = Some (x_kids (?f par) ! k)"
    using node_at_append[OF n', of "[k]"] k(2) by simp
  ultimately show ?thesis using k(3) by blast
qed


section \<open>Nothing else changes\<close>

text \<open>Every element of a tree with the tags on the way to it, its attributes, text and tail.\<close>

type_synonym element = "string option list \<times> (string, string) dict \<times> string option \<times> string option"

fun elements :: "string option list \<Rightarrow> xml \<Rightarrow> element list" where
  "elements pre (Node tag a tx ks w) = (pre @ [tag], a, tx, w) # concat (map (elements (pre @ [tag])) ks)"

lemma elements_sel: "elements pre t = (pre @ [x_tag t], x_attrs t, x_text t, x_tail t) #
    concat (map (elements (pre @ [x_tag t])) (x_kids t))"
  by (cases t) simp

fun tags_along :: "xml \<Rightarrow> position \<Rightarrow> string option list" where
  "tags_along t [] = []"
| "tags_along t (i # p) = x_tag t # tags_along (x_kids t ! i) p"

lemma mset_concat_update:
  "i < length ks \<Longrightarrow> mset (concat (map g (ks[i := u]))) + mset (g (ks ! i)) = mset (concat (map g ks)) + mset (g u)"
  by (induction ks arbitrary: i) (auto simp: nth_Cons split: nat.splits)

lemma mset_exchange:
  fixes a :: "'a multiset"
  assumes "a + k = c + u" "u + n = k + l"
  shows "a + n = c + l"
proof -
  have "(a + n) + k = (a + k) + n" by (simp only: ac_simps)
  also have "\<dots> = c + (u + n)" by (simp only: assms(1) add.assoc)
  also have "\<dots> = c + (k + l)" by (simp only: assms(2))
  also have "\<dots> = (c + l) + k" by (simp only: ac_simps)
  finally show ?thesis by simp
qed

lemma mset_elements_map_at:
  assumes "\<And>x. x_tag (f x) = x_tag x" "node_at t p = Some n"
  shows "mset (elements pre (map_at f t p)) + mset (elements (pre @ tags_along t p) n) =
    mset (elements pre t) + mset (elements (pre @ tags_along t p) (f n))"
  using assms(2)
proof (induction t p arbitrary: pre rule: node_at.induct)
  case (1 t)
  then show ?case by simp
next
  case (2 t i p)
  let ?g = "elements (pre @ [x_tag t])" and ?u = "map_at f (x_kids t ! i) p"
  have i: "i < length (x_kids t)" "node_at (x_kids t ! i) p = Some n" using "2.prems" by (auto split: if_splits)
  have ih: "mset (?g ?u) + mset (elements ((pre @ [x_tag t]) @ tags_along (x_kids t ! i) p) n) =
      mset (?g (x_kids t ! i)) + mset (elements ((pre @ [x_tag t]) @ tags_along (x_kids t ! i) p) (f n))"
    by (rule "2.IH"[OF i])
  note mset_exchange[OF mset_concat_update[OF i(1), of ?g ?u] ih]
  then show ?case using i(1) by (simp add: elements_sel[of pre])
qed

lemma apply_one_elements:
  assumes "apply_one rt ch = Inr (rt', True)"
  shows "(\<exists>path a old w. mset (elements [] rt') + {#(path, a, old, w)#} =
      mset (elements [] rt) + {#(path, a, df_after ch, w)#}) \<or>
    (\<exists>path. mset (elements [] rt') = mset (elements [] rt) + {#(path, [], df_after ch, None)#} \<and>
      p8_local (last path) \<in> set POSTAL_ADDRESS_ORDER)"
  using assms
proof (cases rule: apply_one_cases)
  case (found pos)
  let ?f = "\<lambda>e. with_text e (df_after ch)"
  obtain e where e: "node_at rt pos = Some e" using navigate_segments_node[OF found(1)[unfolded navigate_def]] .
  let ?pre = "tags_along rt pos" and ?rest = "mset (concat (map (elements (tags_along rt pos @ [x_tag e])) (x_kids e)))"
  have "mset (elements [] rt') + mset (elements ?pre e) = mset (elements [] rt) + mset (elements ?pre (?f e))"
    using mset_elements_map_at[of ?f rt pos e "[]", OF _ e] found(2) by simp
  then have "mset (elements [] rt') + {#(?pre @ [x_tag e], x_attrs e, x_text e, x_tail e)#} + ?rest =
      mset (elements [] rt) + {#(?pre @ [x_tag e], x_attrs e, df_after ch, x_tail e)#} + ?rest"
    unfolding elements_sel[of ?pre] by simp
  then show ?thesis by (metis add_right_cancel)
next
  case (created pos par leaf)
  let ?f = "insert_kid leaf (df_after ch)" and ?pre = "tags_along rt pos"
  let ?new = "new_element (dget_opt (extract_namespace par)) leaf (df_after ch)"
  have k: "mset (concat (map g (x_kids (?f par)))) = mset (concat (map g (x_kids par))) + mset (g ?new)"
    for g :: "xml \<Rightarrow> element list"
    using mset_insert_kid[of leaf "df_after ch" par]
    by (simp add: mset_concat flip: sum_mset_sum_list)
  have sel: "x_attrs (?f par) = x_attrs par" "x_text (?f par) = x_text par" "x_tail (?f par) = x_tail par"
    by (simp_all add: insert_kid_def)
  have "mset (elements [] rt') + mset (elements ?pre par) = mset (elements [] rt) + mset (elements ?pre (?f par))"
    using mset_elements_map_at[of ?f rt pos par "[]", OF _ created(6)] created(7) by simp
  also have "mset (elements ?pre (?f par)) = mset (elements ?pre par) + mset (elements (?pre @ [x_tag par]) ?new)"
    unfolding elements_sel[of ?pre] by (simp add: k sel)
  also have "mset (elements [] rt) + (mset (elements ?pre par) + mset (elements (?pre @ [x_tag par]) ?new)) =
      (mset (elements [] rt) + mset (elements (?pre @ [x_tag par]) ?new)) + mset (elements ?pre par)"
    by (simp only: ac_simps)
  finally have "mset (elements [] rt') = mset (elements [] rt) + mset (elements (?pre @ [x_tag par]) ?new)"
    by (rule add_right_imp_eq)
  moreover have "elements (?pre @ [x_tag par]) ?new = [(?pre @ [x_tag par] @ [x_tag ?new], [], df_after ch, None)]"
    by (simp add: new_element_def)
  moreover have "p8_local (x_tag ?new) = leaf" using new_element_localname[OF created(4)] by (simp add: p8_local_eq)
  ultimately show ?thesis using created(4) by (intro disjI2 exI[of _ "?pre @ [x_tag par] @ [x_tag ?new]"]) simp
qed


section \<open>The re-mapped message\<close>

lemma filter_index_map: "filter P xs = map ((!) xs) (filter (\<lambda>i. P (xs ! i)) [0..<length xs])"
  using filter_map[of P "(!) xs" "[0..<length xs]"] by (simp add: map_nth comp_def)

lemma plain_child_element:
  assumes "child_by_local t s = Inr (Some k)" "CHR ''['' \<notin> set s"
  shows "child (Some t) s = Some (x_kids t ! k)"
proof -
  from assms obtain ks where k: "matching_kids t s = k # ks"
    by (auto simp: plain_child split: list.splits)
  have "filter (\<lambda>c. extract_localname c = s) (x_kids t) = map ((!) (x_kids t)) (matching_kids t s)"
    unfolding matching_kids_def by (rule filter_index_map)
  then show ?thesis by (simp add: child_in_children children_def k)
qed

lemma indexed_child_element:
  assumes "child_by_local t s = Inr (Some k)" "segment_index s = Inr (int i)"
  shows "i < length (children (Some t) (strip_index s)) \<and> children (Some t) (strip_index s) ! i = x_kids t ! k"
proof -
  have "filter (\<lambda>c. extract_localname c = strip_index s) (x_kids t) = map ((!) (x_kids t)) (matching_kids t (strip_index s))"
    unfolding matching_kids_def by (rule filter_index_map)
  moreover have "i < length (matching_kids t (strip_index s)) \<and> matching_kids t (strip_index s) ! i = k"
    using assms by (auto simp: child_by_local_def Let_def bindR_def split: if_splits)
  ultimately show ?thesis by (simp add: children_def)
qed

text \<open>The path of a field of the creditor's address, as the pacs.008 adapter writes it.\<close>

definition creditor_field_path :: "nat \<Rightarrow> string \<Rightarrow> string" where
  "creditor_field_path i field =
     ''/Document/FIToFICstmrCdtTrf/CdtTrfTxInf['' @ show_nat i @ '']/Cdtr/PstlAdr/'' @ field"

lemma split_char_Cons_append: "c \<notin> set xs \<Longrightarrow> split_char c (xs @ c # ys) = xs # split_char c ys"
  by (rule split_char_append)

lemma digits_no: "list_all is_digit xs \<Longrightarrow> c \<in> {CHR ''/'', CHR ''['', CHR '']''} \<Longrightarrow> c \<notin> set xs"
  by (auto simp: list_all_iff is_digit_def Let_def)

lemma creditor_path_segments:
  assumes "CHR ''/'' \<notin> set field" "field \<noteq> []"
  shows "path_segments (creditor_field_path i field) =
    [''Document'', ''FIToFICstmrCdtTrf'', ''CdtTrfTxInf['' @ show_nat i @ '']'', ''Cdtr'', ''PstlAdr'', field]"
proof -
  have n: "CHR ''/'' \<notin> set (show_nat i)" using digits_no[OF list_all_show_nat] by simp
  have e: "creditor_field_path i field = [] @ CHR ''/'' # ''Document'' @ CHR ''/'' # ''FIToFICstmrCdtTrf'' @ CHR ''/'' #
      (''CdtTrfTxInf['' @ show_nat i @ '']'') @ CHR ''/'' # ''Cdtr'' @ CHR ''/'' # ''PstlAdr'' @ CHR ''/'' # field"
    by (simp add: creditor_field_path_def)
  have "split_char CHR ''/'' (creditor_field_path i field) =
      [[], ''Document'', ''FIToFICstmrCdtTrf'', ''CdtTrfTxInf['' @ show_nat i @ '']'', ''Cdtr'', ''PstlAdr'', field]"
    unfolding e using n assms by (subst split_char_Cons_append, simp)+ (simp add: split_char_notin)
  then show ?thesis using assms by (simp add: path_segments_def)
qed

lemma tx_segment: "segment_index (''CdtTrfTxInf['' @ show_nat i @ '']'') = Inr (int i)"
  "strip_index (''CdtTrfTxInf['' @ show_nat i @ '']'') = ''CdtTrfTxInf''"
proof -
  have n: "CHR '']'' \<notin> set (show_nat i)" using digits_no[OF list_all_show_nat] by simp
  have r: "rev (dropWhile (\<lambda>c. c = CHR '']'') (rev (show_nat i))) = show_nat i"
    using n show_nat_neq_Nil[of i] by (cases "rev (show_nat i)") (auto simp: rev_swap)
  have a: "after_char CHR ''['' (''CdtTrfTxInf['' @ show_nat i @ '']'') = show_nat i @ '']''"
    by (simp add: after_char_def)
  show "segment_index (''CdtTrfTxInf['' @ show_nat i @ '']'') = Inr (int i)"
    unfolding segment_index_def a Let_def by (simp add: r int_of_show_nat)
  show "strip_index (''CdtTrfTxInf['' @ show_nat i @ '']'') = ''CdtTrfTxInf''"
    by (simp add: strip_index_def before_char_def)
qed

lemma navigate_from_Cons_Some:
  assumes "navigate_from t (s # segs) = Inr (Some p)" "node_at t p = Some e"
  obtains k q where "child_by_local t s = Inr (Some k)" "navigate_from (x_kids t ! k) segs = Inr (Some q)"
    "node_at (x_kids t ! k) q = Some e"
proof -
  from assms(1) obtain k q where k: "child_by_local t s = Inr (Some k)" "navigate_from (x_kids t ! k) segs = Inr (Some q)" "p = k # q"
    by (auto simp: navigate_from.simps bindR_Inr split: option.splits)
  have "node_at (x_kids t ! k) q = Some e" using assms(2) k(3) by (auto split: if_splits)
  with k that show ?thesis by blast
qed

lemma creditor_path_children:
  assumes "extract_localname rt = ''Document''" "field \<in> {''Ctry'', ''TwnNm''}"
    "navigate rt (creditor_field_path i field) = Inr (Some p)" "node_at rt p = Some e"
  defines "txs \<equiv> children (child (Some rt) ''FIToFICstmrCdtTrf'') ''CdtTrfTxInf''"
  shows "i < length txs \<and> (\<exists>cd adr. child (Some (txs ! i)) ''Cdtr'' = Some cd \<and> child (Some cd) ''PstlAdr'' = Some adr \<and>
    child (Some adr) field = Some e)"
proof -
  have f: "CHR ''/'' \<notin> set field" "field \<noteq> []" "CHR ''['' \<notin> set field" using assms(2) by auto
  have "navigate_from rt [''FIToFICstmrCdtTrf'', ''CdtTrfTxInf['' @ show_nat i @ '']'', ''Cdtr'', ''PstlAdr'', field] = Inr (Some p)"
    using assms(1,3) by (simp add: navigate_def creditor_path_segments[OF f(1,2)] navigate_segments_def strip_index_def before_char_def)
  then obtain k1 p1 where 1: "child_by_local rt ''FIToFICstmrCdtTrf'' = Inr (Some k1)" "node_at (x_kids rt ! k1) p1 = Some e"
    "navigate_from (x_kids rt ! k1) [''CdtTrfTxInf['' @ show_nat i @ '']'', ''Cdtr'', ''PstlAdr'', field] = Inr (Some p1)"
    using navigate_from_Cons_Some[OF _ assms(4)] by metis
  define b where "b = x_kids rt ! k1"
  obtain k2 p2 where 2: "child_by_local b (''CdtTrfTxInf['' @ show_nat i @ '']'') = Inr (Some k2)"
    "node_at (x_kids b ! k2) p2 = Some e" "navigate_from (x_kids b ! k2) [''Cdtr'', ''PstlAdr'', field] = Inr (Some p2)"
    using navigate_from_Cons_Some[OF 1(3,2)] unfolding b_def by metis
  define tx where "tx = x_kids b ! k2"
  obtain k3 p3 where 3: "child_by_local tx ''Cdtr'' = Inr (Some k3)"
    "node_at (x_kids tx ! k3) p3 = Some e" "navigate_from (x_kids tx ! k3) [''PstlAdr'', field] = Inr (Some p3)"
    using navigate_from_Cons_Some[OF 2(3,2)] unfolding tx_def by metis
  obtain k4 p4 where 4: "child_by_local (x_kids tx ! k3) ''PstlAdr'' = Inr (Some k4)"
    "node_at (x_kids (x_kids tx ! k3) ! k4) p4 = Some e" "navigate_from (x_kids (x_kids tx ! k3) ! k4) [field] = Inr (Some p4)"
    using navigate_from_Cons_Some[OF 3(3,2)] by metis
  obtain k5 p5 where 5: "child_by_local (x_kids (x_kids tx ! k3) ! k4) field = Inr (Some k5)"
    "node_at (x_kids (x_kids (x_kids tx ! k3) ! k4) ! k5) p5 = Some e"
    "navigate_from (x_kids (x_kids (x_kids tx ! k3) ! k4) ! k5) [] = Inr (Some p5)"
    using navigate_from_Cons_Some[OF 4(3,2)] by metis
  have e: "e = x_kids (x_kids (x_kids tx ! k3) ! k4) ! k5" using 5(2,3) by (simp add: navigate_from.simps)
  have "child (Some rt) ''FIToFICstmrCdtTrf'' = Some b" using plain_child_element[OF 1(1)] by (simp add: b_def)
  then have "i < length txs \<and> txs ! i = tx"
    using indexed_child_element[OF 2(1)] tx_segment by (simp add: txs_def tx_def)
  moreover have "child (Some tx) ''Cdtr'' = Some (x_kids tx ! k3)" using plain_child_element[OF 3(1)] by simp
  moreover have "child (Some (x_kids tx ! k3)) ''PstlAdr'' = Some (x_kids (x_kids tx ! k3) ! k4)"
    using plain_child_element[OF 4(1)] by simp
  moreover have "child (Some (x_kids (x_kids tx ! k3) ! k4)) field = Some e" using plain_child_element[OF 5(1) f(3)] e by simp
  ultimately show ?thesis by metis
qed

end
