(* ===== verification/PO_RepairProps.thy ===== *)
theory PO_RepairProps
  imports PO_RepairFacts PO_AddressProps PO_RulesProps
begin

text \<open>
  What the repair engine guarantees: an applied change is found again at its path and nothing
  else in the tree changes, the re-mapped message carries it, a validated candidate passed the
  schema and the rules, and the changes proposed for mapped sources are never applied.
\<close>

section \<open>Whitespace\<close>

definition word :: "string \<Rightarrow> bool" where
  "word w \<longleftrightarrow> w \<noteq> [] \<and> (\<forall>c\<in>set w. \<not> is_space c)"

lemma split_ws_aux_words: "\<forall>c\<in>set acc. \<not> is_space c \<Longrightarrow> w \<in> set (split_ws_aux acc s) \<Longrightarrow> word w"
proof (induction acc s rule: split_ws_aux.induct)
  case (1 acc)
  then show ?case by (cases "acc = []") (auto simp: word_def)
next
  case (2 acc c s)
  show ?case
  proof (cases "is_space c")
    case True
    then show ?thesis using 2 by (cases "acc = []") (auto simp: word_def)
  next
    case False
    then show ?thesis using 2 by simp
  qed
qed

lemma split_ws_aux_word: "\<forall>c\<in>set w. \<not> is_space c \<Longrightarrow> split_ws_aux acc (w @ s) = split_ws_aux (rev w @ acc) s"
  by (induction w arbitrary: acc) auto

lemma split_ws_join: "list_all word ws \<Longrightarrow> split_ws (join '' '' ws) = ws"
proof (induction ws rule: induct_list012)
  case (2 w)
  then show ?case using split_ws_aux_word[of w "[]" "[]"] by (auto simp: split_ws_def word_def)
next
  case (3 w v ws)
  then have "split_ws_aux [] (w @ '' '' @ join '' '' (v # ws)) = w # split_ws_aux [] (join '' '' (v # ws))"
    using split_ws_aux_word[of w "[]" "'' '' @ join '' '' (v # ws)"] by (simp add: word_def is_space_space)
  with 3 show ?case by (simp add: split_ws_def)
qed (simp add: split_ws_def)

lemma normalize_whitespace_idem: "normalize_whitespace (normalize_whitespace s) = normalize_whitespace s"
proof -
  have "list_all word (split_ws s)" using split_ws_aux_words[of "[]" _ s] by (auto simp: list_all_iff split_ws_def)
  then show ?thesis by (simp add: normalize_whitespace_def split_ws_join)
qed

section \<open>Changes of mapped sources\<close>

text \<open>A path whose second segment is not a transaction index.\<close>

definition unindexed :: "string \<Rightarrow> bool" where
  "unindexed p \<longleftrightarrow> int_of_text (strip_brackets (path_segments p ! 1)) = None"

lemma unindexed_change_ignored: "unindexed (df_path c) \<Longrightarrow> apply_change_to_message m c = Inr m"
  by (simp add: unindexed_def apply_change_to_message_def Let_def)

lemma unindexed_changes_ignored: "list_all (\<lambda>c. unindexed (df_path c)) cs \<Longrightarrow> apply_to_message m cs = Inr m"
  by (induction cs) (simp_all add: unindexed_change_ignored)

lemma path_segments_slash: "path_segments (CHR ''/'' # p) = path_segments p"
  by (simp add: path_segments_def)

lemma second_segment:
  assumes "CHR ''/'' \<notin> set x" "CHR ''/'' \<notin> set y" "x \<noteq> []" "y \<noteq> []"
  shows "path_segments (x @ CHR ''/'' # y @ CHR ''/'' # r) ! 1 = y"
  using assms by (simp add: path_segments_def split_char_Cons_append)

lemma unindexed_path:
  assumes "CHR ''/'' \<notin> set x" "CHR ''/'' \<notin> set y" "x \<noteq> []" "y \<noteq> []" "int_of_text (strip_brackets y) = None"
  shows "unindexed (x @ CHR ''/'' # y @ CHR ''/'' # r)" "unindexed (CHR ''/'' # x @ CHR ''/'' # y @ CHR ''/'' # r)"
  using second_segment[OF assms(1-4), of r] assms(5) by (simp_all add: unindexed_def path_segments_slash)

lemma int_of_element:
  "list_all (\<lambda>y. int_of_text (strip_brackets y) = None) [''Dbtr'', ''Cdtr'', ''PmtInf'', ''CdtTrfTxInf'']"
  by code_simp

section \<open>Candidates\<close>

lemma blocking_iff: "\<not> blocking_findings fs \<longleftrightarrow> list_all (\<lambda>f. rf_severity f \<noteq> ERROR) fs \<and> list_all (\<lambda>f. rf_severity f \<noteq> CRITICAL) fs"
  by (induction fs) (auto simp: blocking_findings_def)

lemma xml_candidate_validated:
  assumes "xml_candidate env engine rt changes = Inr c" "cd_status c = VALIDATED"
  shows "\<exists>rt' v m' x. apply_changes rt changes = Inr (rt', cd_changes c) \<and> identify_pacs008 rt' = Inr v \<and>
    validate_message (rv_schemas env) rt' (ver_identifier v) = Inr x \<and> map_pacs008_to_canonical (rv_now env) rt' v = Inr m' \<and>
    cd_xml c = Some (rv_serialize env rt') \<and> cd_xsd_result c = Some x \<and> sv_valid x \<and>
    cd_rule_findings c = engine_evaluate engine m' \<and> \<not> blocking_findings (engine_evaluate engine m')"
proof -
  from assms(1) obtain rt' applied v x m' where r: "apply_changes rt changes = Inr (rt', applied)" "identify_pacs008 rt' = Inr v"
    "validate_message (rv_schemas env) rt' (ver_identifier v) = Inr x" "map_pacs008_to_canonical (rv_now env) rt' v = Inr m'"
    and c: "c = mk_candidate env applied (Some (rv_serialize env rt'))
      (if sv_valid x \<and> \<not> blocking_findings (engine_evaluate engine m') then VALIDATED else CS_REVIEW_REQUIRED)
      (Some x) (engine_evaluate engine m') None"
    by (auto simp: xml_candidate_def bindR_Inr Let_def)
  have "sv_valid x \<and> \<not> blocking_findings (engine_evaluate engine m')"
    using assms(2) unfolding c by (simp add: mk_candidate_def split: if_splits)
  with r show ?thesis unfolding c by (auto simp: mk_candidate_def)
qed

lemma model_candidate_validated:
  assumes "model_candidate env engine m changes = Inr c" "cd_status c = VALIDATED"
  shows "\<exists>m'. apply_to_message m changes = Inr m' \<and> cd_changes c = changes \<and> cd_xml c = None \<and> cd_xsd_result c = None \<and>
    cd_rule_findings c = engine_evaluate engine m' \<and> \<not> blocking_findings (engine_evaluate engine m')"
  using assms by (auto simp: model_candidate_def bindR_Inr Let_def mk_candidate_def split: if_splits)

text \<open>A candidate with changes comes from one of the two branches, on the changes of the providers.\<close>

lemma candidate_branch:
  assumes "generate_candidate env analyze engine m doc s = (Inr c, s')" "cd_changes c \<noteq> []"
  obtains changes where "fst (collect_changes analyze (message_addresses m) s) = Inr changes"
    "(\<exists>d. doc = Some d \<and> pm_source_format m = XML_PACS_008 \<and> xml_candidate env engine (sd_root d) changes = Inr c) \<or>
     (doc = None \<or> pm_source_format m \<noteq> XML_PACS_008) \<and> model_candidate env engine m changes = Inr c"
  using assms by (auto simp: generate_candidate_def mk_candidate_def split: prod.splits sum.splits option.splits if_splits)

text \<open>An address whose source path has no transaction index in the second segment.\<close>

definition unindexed_source :: "PostalAddress \<Rightarrow> bool" where
  "unindexed_source a \<longleftrightarrow> \<not> truthy (pa_source_path a) \<or>
     unindexed (dget_opt (pa_source_path a) @ ''/Ctry'') \<and> unindexed (dget_opt (pa_source_path a) @ ''/TwnNm'')"

lemma unindexed_sourceI:
  assumes "pa_source_path a = Some (CHR ''/'' # x @ CHR ''/'' # y @ CHR ''/'' # r)"
    "CHR ''/'' \<notin> set x" "CHR ''/'' \<notin> set y" "x \<noteq> []" "y \<noteq> []" "int_of_text (strip_brackets y) = None"
  shows "unindexed_source a"
  using unindexed_path(2)[OF assms(2-6), of "r @ ''/Ctry''"] unindexed_path(2)[OF assms(2-6), of "r @ ''/TwnNm''"] assms(1)
  by (simp add: unindexed_source_def dget_opt_def)

lemma mapped_source:
  assumes "pa_source_path a = Some (''transactions['' @ show_nat i @ '']/'' @ lbl @ ''/PstlAdr'')" "lbl \<in> {''Dbtr'', ''Cdtr''}"
  shows "unindexed_source a"
proof -
  have n: "CHR ''/'' \<notin> set (show_nat i)" using digits_no[OF list_all_show_nat] by simp
  have l: "CHR ''/'' \<notin> set lbl" "lbl \<noteq> []" "int_of_text (strip_brackets lbl) = None" using assms(2) int_of_element by auto
  have e: "''transactions['' @ show_nat i @ '']/'' @ lbl @ ''/PstlAdr'' @ r =
      (''transactions['' @ show_nat i @ '']'') @ CHR ''/'' # lbl @ CHR ''/'' # ''PstlAdr'' @ r" for r by simp
  have "unindexed (''transactions['' @ show_nat i @ '']/'' @ lbl @ ''/PstlAdr'' @ r)" for r
    unfolding e using n l by (intro unindexed_path(1)) auto
  from this[of "''/Ctry''"] this[of "''/TwnNm''"] show ?thesis
    by (simp add: unindexed_source_def dget_opt_def assms(1))
qed

lemma unindexed_address_changes:
  "unindexed_source a \<Longrightarrow> truthy (pa_source_path a) \<Longrightarrow> list_all (\<lambda>c. unindexed (df_path c)) (address_changes a r)"
  by (simp add: unindexed_source_def address_changes_def mk_change_def Let_def)

lemma collect_changes_unindexed:
  "list_all unindexed_source as \<Longrightarrow> collect_changes analyze as s = (Inr cs, s') \<Longrightarrow> list_all (\<lambda>c. unindexed (df_path c)) cs"
proof (induction analyze as s arbitrary: cs s' rule: collect_changes.induct)
  case (2 analyze a as s)
  show ?case
  proof (cases "truthy (pa_source_path a)")
    case True
    with "2.prems" obtain r s1 cs1 where r: "analyze a s = (Inr r, s1)" "collect_changes analyze as s1 = (Inr cs1, s')"
      "cs = address_changes a r @ cs1"
      by (auto split: prod.splits sum.splits)
    have "list_all (\<lambda>c. unindexed (df_path c)) cs1" using "2.IH"(2)[of _ s1 r cs1 s'] "2.prems"(1) True r by auto
    then show ?thesis using unindexed_address_changes[of a r] "2.prems"(1) r(3) True by simp
  qed (use 2 in auto)
qed simp

text \<open>
  When no source path has the transaction index in its second segment, where the code looks for
  it, the changes proposed for a message that is not repaired as XML are never applied.
\<close>

lemma unindexed_candidate:
  assumes "list_all unindexed_source (message_addresses m)" "pm_source_format m \<noteq> XML_PACS_008"
    "generate_candidate env analyze engine m doc s = (Inr c, s')" "cd_changes c \<noteq> []"
  shows "apply_to_message m (cd_changes c) = Inr m" "cd_rule_findings c = engine_evaluate engine m"
proof -
  from assms(2-4) obtain cs s1 where cs: "collect_changes analyze (message_addresses m) s = (Inr cs, s1)"
    and mc: "model_candidate env engine m cs = Inr c"
    by (auto simp: generate_candidate_def mk_candidate_def split: prod.splits sum.splits if_splits option.splits)
  have "apply_to_message m cs = Inr m" by (rule unindexed_changes_ignored[OF collect_changes_unindexed[OF assms(1) cs]])
  then show "apply_to_message m (cd_changes c) = Inr m" "cd_rule_findings c = engine_evaluate engine m"
    using mc by (auto simp: model_candidate_def Let_def mk_candidate_def)
qed

section \<open>A sample document\<close>

definition sample_doc :: xml where
  "sample_doc = (let el = (\<lambda>n ks. Node (Some n) [] None ks None) in
     el ''Document'' [el ''FIToFICstmrCdtTrf'' [el ''CdtTrfTxInf'' [el ''Cdtr'' [el ''PstlAdr''
       [Node (Some ''Ctry'') [] (Some ''Germany'') [] None, Node (Some ''AdrLine'') [] (Some ''Unter den Linden'') [] None]]]]])"

definition sample_change :: DiffEntry where
  "sample_change = mk_change (creditor_field_path 0 ''Ctry'') (Some ''Germany'') (Some ''DE'')"

definition sample_town_change :: DiffEntry where
  "sample_town_change = mk_change (creditor_field_path 0 ''TwnNm'') None (Some ''Berlin'')"

definition sample_time :: pydatetime where
  "sample_time = \<lparr>t_date = \<lparr>d_year = 2026, d_month = 1, d_day = 15\<rparr>, t_hour = 9, t_minute = 30, t_second = 0,
     t_micro = 0, t_offset = Some 0\<rparr>"

definition sample_v8 :: SupportedVersion where
  "sample_v8 = snd (hd SUPPORTED_PACS_008_VERSIONS)"

lemma sample_applied:
  "case apply_one sample_doc sample_change of Inr (rt', ok) \<Rightarrow> ok \<and>
     (case map_pacs008_to_canonical sample_time rt' sample_v8 of Inr m \<Rightarrow> True | Inl e \<Rightarrow> False) | Inl e \<Rightarrow> False"
  "case apply_one sample_doc sample_town_change of Inr (rt', ok) \<Rightarrow> ok | Inl e \<Rightarrow> False"
  "CHR ''['' \<notin> set (last (PO_Repair.path_segments (df_path sample_town_change)))"
  "extract_localname sample_doc = ''Document''"
  by code_simp+

lemma mapped_creditor:
  assumes "p8_map_transaction (i, el) = Inr t"
  shows "\<exists>path. tx_creditor t = map_party (child (Some el) ''Cdtr'') path"
proof -
  from assms have "\<exists>path. t\<lparr>tx_creditor := map_party (child (Some el) ''Cdtr'') path\<rparr> = t"
    by (auto simp: p8_map_transaction_def Let_def bindR_Inr p8_party_eq p8_child_eq simp del: append.simps)
  then obtain path where "t\<lparr>tx_creditor := map_party (child (Some el) ''Cdtr'') path\<rparr> = t" by blast
  then have "tx_creditor (t\<lparr>tx_creditor := map_party (child (Some el) ''Cdtr'') path\<rparr>) = tx_creditor t" by simp
  then have "tx_creditor t = map_party (child (Some el) ''Cdtr'') path" by simp
  then show ?thesis by blast
qed

lemma map_of_collect_pairs:
  "map_of (collect_some (\<lambda>n. map_option (Pair n) (f n)) ns) k = (if k \<in> set ns then f k else None)"
  by (induction ns) (auto split: option.splits)

lemma mapped_party_address:
  assumes "child (Some cd) ''PstlAdr'' = Some adr" "child_text (Some adr) field = Some v" "field \<in> {''Ctry'', ''TwnNm''}"
  shows "\<exists>p a. map_party (Some cd) path = Some p \<and> py_postal_address p = Some a \<and>
    (if field = ''Ctry'' then pa_country a else pa_town_name a) = Some v"
proof -
  have "map_of (original_fields_of (Some adr)) field = Some v"
    unfolding original_fields_of_def map_of_collect_pairs using assms(2,3) by (auto simp: address_field_names_def)
  with assms show ?thesis by (auto simp: map_party_def map_address_def Let_def)
qed

section \<open>Properties\<close>

text \<open>A change that apply_changes reports as applied can be read back: its path leads, in the new
  tree, to an element whose text is the new value, whether the element was there before or was
  created and sorted into the schema's sequence.\<close>

theorem applied_change_found:
  assumes "apply_one rt ch = Inr (rt', True)" "CHR ''['' \<notin> set (last (PO_Repair.path_segments (df_path ch)))"
  shows "\<exists>p e. navigate rt' (df_path ch) = Inr (Some p) \<and> node_at rt' p = Some e \<and> x_text e = df_after ch"
  using assms by (rule apply_one_found)

theorem applied_change_found_witness:
  "\<exists>rt' p e. apply_one sample_doc sample_town_change = Inr (rt', True) \<and>
     navigate rt' (df_path sample_town_change) = Inr (Some p) \<and> node_at rt' p = Some e \<and> x_text e = Some ''Berlin''"
proof -
  obtain rt' where a: "apply_one sample_doc sample_town_change = Inr (rt', True)"
    using sample_applied(2) by (auto split: sum.splits prod.splits)
  from applied_change_found[OF a sample_applied(3)] a show ?thesis by (auto simp: sample_town_change_def mk_change_def)
qed

text \<open>C31: Unrelated fields are preserved: an applied change replaces the text of one element, with its place,
  attributes and tail kept, or adds one element of the postal address; every other element of the
  tree is there as before, in number, place, attributes, text and tail.\<close>

theorem other_elements_preserved:
  assumes "apply_one rt ch = Inr (rt', True)"
  shows "(\<exists>path a old w. mset (elements [] rt') + {#(path, a, old, w)#} =
      mset (elements [] rt) + {#(path, a, df_after ch, w)#}) \<or>
    (\<exists>path. mset (elements [] rt') = mset (elements [] rt) + {#(path, [], df_after ch, None)#} \<and>
      p8_local (last path) \<in> set POSTAL_ADDRESS_ORDER)"
  using assms by (rule apply_one_elements)

theorem other_elements_preserved_witness:
  "\<exists>rt'. apply_one sample_doc sample_change = Inr (rt', True) \<and>
     size (mset (elements [] rt')) \<ge> size (mset (elements [] sample_doc))"
proof -
  obtain rt' where a: "apply_one sample_doc sample_change = Inr (rt', True)"
    using sample_applied(1) by (auto split: sum.splits prod.splits)
  have "size (mset (elements [] rt')) \<ge> size (mset (elements [] sample_doc))"
    using other_elements_preserved[OF a]
  proof (elim disjE exE conjE)
    fix path t old w
    assume "mset (elements [] rt') + {#(path, t, old, w)#} = mset (elements [] sample_doc) + {#(path, t, df_after sample_change, w)#}"
    from arg_cong[OF this, of size] show ?thesis by simp
  next
    fix path
    assume "mset (elements [] rt') = mset (elements [] sample_doc) + {#(path, [], df_after sample_change, None)#}"
    from arg_cong[OF this, of size] show ?thesis by simp
  qed
  with a show ?thesis by blast
qed

text \<open>The repair reaches the canonical message: when a country or town change of the creditor of
  transaction i is applied to a pacs.008 document and the new document is mapped again, the
  creditor's address of transaction i has the new value in that field.\<close>

theorem repair_reaches_message:
  assumes "apply_one rt ch = Inr (rt', True)" "df_path ch = creditor_field_path i field" "field \<in> {''Ctry'', ''TwnNm''}"
    "df_after ch = Some v" "v \<noteq> []" "strip v = v" "extract_localname rt' = ''Document''"
    "map_pacs008_to_canonical now rt' version = Inr m"
  shows "i < length (pm_transactions m) \<and>
    (\<exists>cd a. tx_creditor (pm_transactions m ! i) = Some cd \<and> py_postal_address cd = Some a \<and>
       (if field = ''Ctry'' then pa_country a else pa_town_name a) = Some v)"
proof -
  have f: "CHR ''/'' \<notin> set field" "field \<noteq> []" "CHR ''['' \<notin> set field" using assms(3) by auto
  have "CHR ''['' \<notin> set (last (PO_Repair.path_segments (df_path ch)))"
    using f by (simp add: assms(2) creditor_path_segments)
  from apply_one_found[OF assms(1) this] obtain p e where
    e: "navigate rt' (creditor_field_path i field) = Inr (Some p)" "node_at rt' p = Some e" "x_text e = Some v"
    by (auto simp: assms(2,4))
  let ?txs = "children (child (Some rt') ''FIToFICstmrCdtTrf'') ''CdtTrfTxInf''"
  from creditor_path_children[OF assms(7,3) e(1,2)] obtain cd adr where i: "i < length ?txs"
    and c: "child (Some (?txs ! i)) ''Cdtr'' = Some cd" "child (Some cd) ''PstlAdr'' = Some adr" "child (Some adr) field = Some e"
    by blast
  have t: "child_text (Some adr) field = Some v" using c(3) e(3) assms(5,6) by (simp add: child_text_def text_of_def)
  obtain txs where txs: "mapR p8_map_transaction (enumerate_list ?txs) = Inr txs" and m: "pm_transactions m = txs"
    using assms(8) by (auto simp: map_pacs008_to_canonical_def Let_def bindR_Inr mk_payment_message_def p8_simps)
  have len: "length txs = length ?txs" using mapR_Inr_length[OF txs] by (simp add: enumerate_list_def)
  have "p8_map_transaction (i, ?txs ! i) = Inr (txs ! i)"
    using mapR_Inr_nth[OF txs, of i] i by (simp add: enumerate_list_def)
  from mapped_creditor[OF this] obtain path where cr: "tx_creditor (txs ! i) = map_party (Some cd) path"
    unfolding c(1) by blast
  obtain p a where "map_party (Some cd) path = Some p" "py_postal_address p = Some a"
    "(if field = ''Ctry'' then pa_country a else pa_town_name a) = Some v"
    using mapped_party_address[OF c(2) t assms(3)] by blast
  then have "\<exists>p a. tx_creditor (txs ! i) = Some p \<and> py_postal_address p = Some a \<and>
      (if field = ''Ctry'' then pa_country a else pa_town_name a) = Some v" unfolding cr by blast
  then show ?thesis using i len m by auto
qed

theorem repair_reaches_message_witness:
  "\<exists>rt' m cd a. apply_one sample_doc sample_change = Inr (rt', True) \<and>
     map_pacs008_to_canonical sample_time rt' sample_v8 = Inr m \<and>
     tx_creditor (pm_transactions m ! 0) = Some cd \<and> py_postal_address cd = Some a \<and> pa_country a = Some ''DE''"
proof -
  obtain rt' m where a: "apply_one sample_doc sample_change = Inr (rt', True)"
    and m: "map_pacs008_to_canonical sample_time rt' sample_v8 = Inr m"
    using sample_applied(1) by (auto split: sum.splits prod.splits)
  have "x_tag rt' = x_tag sample_doc"
    using a by (cases rule: apply_one_cases) (simp_all add: map_at_localname)
  then have "extract_localname rt' = ''Document''" using sample_applied(4) localname_cong by metis
  from repair_reaches_message[OF a _ _ _ _ _ this m, of 0 "''Ctry''" "''DE''"] a m show ?thesis
    by (auto simp: sample_change_def mk_change_def strip_def lstrip_def rstrip_def is_space_def)
qed

text \<open>C30: A VALIDATED candidate with changes passed on what it proposes. Let \<open>changes\<close> be what the address
  provider's analyses give for the addresses of the message. For a pacs.008 document, the candidate's
  XML is the serialization of the tree that applying exactly these changes to the document gives, the
  schema of the version identified in that tree finds it valid, and the message is mapped from that
  tree anew; otherwise the message is the given one with these changes applied. The candidate's findings
  are those of the built-in ruleset on that message, in which therefore every transaction has a positive
  amount and every address a valid country code.\<close>

theorem validated_candidate_passed:
  assumes "generate_candidate env analyze build_address_ruleset m doc s = (Inr c, s')" "cd_status c = VALIDATED" "cd_changes c \<noteq> []"
  shows "\<exists>changes m'. fst (collect_changes analyze (message_addresses m) s) = Inr changes \<and>
    cd_rule_findings c = engine_evaluate build_address_ruleset m' \<and>
    list_all (\<lambda>tx. (\<exists>a. tx_amount tx = Some a \<and> 0 < ma_amount_minor a) \<and>
      list_all (\<lambda>(l, a). \<exists>cc. pa_country a = Some cc \<and> is_valid_country_code cc) (addresses tx)) (pm_transactions m') \<and>
    ((\<exists>d rt' v x. doc = Some d \<and> pm_source_format m = XML_PACS_008 \<and>
        apply_changes (sd_root d) changes = Inr (rt', cd_changes c) \<and> cd_xml c = Some (rv_serialize env rt') \<and>
        identify_pacs008 rt' = Inr v \<and> validate_message (rv_schemas env) rt' (ver_identifier v) = Inr x \<and>
        sv_valid x \<and> cd_xsd_result c = Some x \<and> map_pacs008_to_canonical (rv_now env) rt' v = Inr m') \<or>
     (doc = None \<or> pm_source_format m \<noteq> XML_PACS_008) \<and> apply_to_message m changes = Inr m' \<and>
        cd_changes c = changes \<and> cd_xml c = None \<and> cd_xsd_result c = None)"
proof -
  obtain changes where ch: "fst (collect_changes analyze (message_addresses m) s) = Inr changes"
    and branch: "(\<exists>d. doc = Some d \<and> pm_source_format m = XML_PACS_008 \<and>
        xml_candidate env build_address_ruleset (sd_root d) changes = Inr c) \<or>
      (doc = None \<or> pm_source_format m \<noteq> XML_PACS_008) \<and> model_candidate env build_address_ruleset m changes = Inr c"
    by (rule candidate_branch[OF assms(1,3)])
  have ok: "list_all (\<lambda>tx. (\<exists>a. tx_amount tx = Some a \<and> 0 < ma_amount_minor a) \<and>
      list_all (\<lambda>(l, a). \<exists>cc. pa_country a = Some cc \<and> is_valid_country_code cc) (addresses tx)) (pm_transactions m')"
    if "\<not> blocking_findings (engine_evaluate build_address_ruleset m')" for m'
    using that unfolding blocking_iff error_free_message[symmetric] by blast
  from branch show ?thesis
  proof (elim disjE exE conjE)
    fix d assume d: "doc = Some d" "pm_source_format m = XML_PACS_008" "xml_candidate env build_address_ruleset (sd_root d) changes = Inr c"
    from xml_candidate_validated[OF d(3) assms(2)] show ?thesis using ch d(1,2) ok by blast
  next
    assume "model_candidate env build_address_ruleset m changes = Inr c"
    note v = model_candidate_validated[OF this assms(2)]
    assume "doc = None"
    with v show ?thesis using ch ok by blast
  next
    assume "model_candidate env build_address_ruleset m changes = Inr c"
    note v = model_candidate_validated[OF this assms(2)]
    assume "pm_source_format m \<noteq> XML_PACS_008"
    with v show ?thesis using ch ok by blast
  qed
qed

definition sample_party :: Party where
  "sample_party = \<lparr>py_name = Some ''ACME'', py_identification = [],
     py_postal_address = Some (sample_address\<lparr>pa_country := Some ''GB'', pa_source_path := Some ''transactions[0]/Cdtr/PstlAdr''\<rparr>),
     py_account = None, py_financial_institution = None, py_source_path = None\<rparr>"

definition sample_message :: PaymentMessage where
  "sample_message = mk_payment_message sample_v8 sample_time None None
     [\<lparr>tx_instruction_id = None, tx_end_to_end_id = None, tx_transaction_id = None,
       tx_amount = Some \<lparr>ma_amount_minor = 100, ma_currency = ''EUR''\<rparr>, tx_debtor = None,
       tx_creditor = Some sample_party, tx_debtor_account = None, tx_creditor_account = None, tx_debtor_agent = None,
       tx_creditor_agent = None, tx_remittance = None, tx_requested_execution_date = None, tx_source_path = None\<rparr>] JSON_FORMAT []"

definition sample_repair_env :: repair_env where
  "sample_repair_env = \<lparr>rv_candidate_id = ''0123456789abcdef'', rv_now = sample_time, rv_schemas = (\<lambda>_. None),
     rv_serialize = (\<lambda>_. [])\<rparr>"

definition cloudnova_analyzer :: "unit analyzer" where
  "cloudnova_analyzer a s = (Inr (cloudnova_analyze a), s)"

lemma sample_generated:
  "case fst (generate_candidate sample_repair_env cloudnova_analyzer build_address_ruleset sample_message None ()) of
     Inr c \<Rightarrow> cd_status c = VALIDATED \<and> map df_path (cd_changes c) = [''transactions[0]/Cdtr/PstlAdr/TwnNm''] | Inl e \<Rightarrow> False"
  by code_simp

theorem validated_candidate_passed_witness:
  "\<exists>c m'. fst (generate_candidate sample_repair_env cloudnova_analyzer build_address_ruleset sample_message None ()) = Inr c \<and>
     apply_to_message sample_message (cd_changes c) = Inr m' \<and> cd_rule_findings c = engine_evaluate build_address_ruleset m'"
proof -
  obtain c where c: "generate_candidate sample_repair_env cloudnova_analyzer build_address_ruleset sample_message None () = (Inr c, ())"
    "cd_status c = VALIDATED" "cd_changes c \<noteq> []"
    using sample_generated by (cases "generate_candidate sample_repair_env cloudnova_analyzer build_address_ruleset sample_message None ()")
      (auto split: sum.splits)
  from validated_candidate_passed[OF c] c(1) show ?thesis by auto
qed

end
