(* ===== verification/PO_Transforms.thy ===== *)
theory PO_Transforms
  imports PO_Mapper PO_RepairProps
begin

text \<open>
  Reading back what the date transform prints, and the stability of every registered transform:
  applying it twice is applying it once.
\<close>

section \<open>Reading with a format\<close>

definition directive_width :: "directive \<Rightarrow> nat" where
  "directive_width d = (case d of DirY \<Rightarrow> 4 | Lit c \<Rightarrow> 1 | _ \<Rightarrow> 2)"

lemma take_ranges_Some: "take_ranges rs s = Some (m, r) \<Longrightarrow> s = m @ r \<and> length m = length rs"
  by (induction rs s arbitrary: m r rule: take_ranges.induct) (auto split: if_splits)

lemma first_some_Some: "first_some f xs = Some y \<Longrightarrow> \<exists>x\<in>set xs. f x = Some y"
  by (induction xs) (auto split: option.splits)

lemma alternatives_width: "alt \<in> set (alternatives d) \<Longrightarrow> length alt \<le> directive_width d"
  by (cases d) (auto simp: directive_width_def)

text \<open>A match takes at most the width of its directives, so a longer text leaves a rest.\<close>

lemma match_format_width:
  "match_format ds s = Some (g, r) \<Longrightarrow> length s \<le> sum_list (map directive_width ds) + length r"
proof (induction ds arbitrary: s g r)
  case (Cons d ds)
  then obtain alt where alt: "alt \<in> set (alternatives d)" and m:
    "(case take_ranges alt s of None \<Rightarrow> None | Some (m, r) \<Rightarrow>
       map_option (\<lambda>(groups, r'). ((d, m) # groups, r')) (match_format ds r)) = Some (g, r)"
    by (auto dest: first_some_Some)
  then obtain m r1 g1 where t: "take_ranges alt s = Some (m, r1)" "match_format ds r1 = Some (g1, r)"
    by (auto split: option.splits)
  show ?case using take_ranges_Some[OF t(1)] Cons.IH[OF t(2)] alternatives_width[OF alt] by simp
qed simp

definition digit_pair :: "nat \<times> nat \<Rightarrow> nat \<times> nat \<Rightarrow> nat \<Rightarrow> bool" where
  "digit_pair p q n \<longleftrightarrow> fst p \<le> 48 + n div 10 \<and> 48 + n div 10 \<le> snd p \<and> fst q \<le> 48 + n mod 10 \<and> 48 + n mod 10 \<le> snd q"

lemma take_pair:
  "n < 100 \<Longrightarrow> take_ranges [p, q] (two_digits n @ r) = (if digit_pair p q n then Some (two_digits n, r) else None)"
  by (auto simp: two_digits_def digit_pair_def of_char_digit less_mult_imp_div_less)

text \<open>The first two-digit alternative that admits the number is taken, when the rest matches.\<close>

lemma match_two:
  assumes "alternatives d = alts @ [p, q] # bs" "list_all (\<lambda>alt. \<exists>p q. alt = [p, q] \<and> \<not> digit_pair p q n) alts"
    "digit_pair p q n" "n < 100" "match_format ds r = Some (g, r')"
  shows "match_format (d # ds) (two_digits n @ r) = Some ((d, two_digits n) # g, r')"
proof -
  have "first_some (\<lambda>alt. case take_ranges alt (two_digits n @ r) of None \<Rightarrow> None
     | Some (m, r) \<Rightarrow> map_option (\<lambda>(groups, r'). ((d, m) # groups, r')) (match_format ds r)) (alts @ [p, q] # bs) =
     Some ((d, two_digits n) # g, r')"
    using assms(2-) by (induction alts) (auto simp: take_pair)
  then show ?thesis using assms(1) by simp
qed

lemma digit_pair_simps:
  "digit_pair (a, b) (c, d) n \<longleftrightarrow> a \<le> 48 + n div 10 \<and> 48 + n div 10 \<le> b \<and> c \<le> 48 + n mod 10 \<and> 48 + n mod 10 \<le> d"
  by (simp add: digit_pair_def)

lemma range_of_simps: "range_of a b = (of_char a, of_char b)" "any_digit = (48, 57)"
  by (simp_all add: range_of_def any_digit_def)

lemma match_month:
  assumes "1 \<le> n" "n \<le> 12" "match_format ds r = Some (g, r')"
  shows "match_format (Dirm # ds) (two_digits n @ r) = Some ((Dirm, two_digits n) # g, r')"
proof (cases "n < 10")
  case True
  show ?thesis
    by (rule match_two[of _ "[hd (alternatives Dirm)]" "range_of CHR ''0'' CHR ''0''" "range_of CHR ''1'' CHR ''9''"])
      (use True assms in \<open>simp_all add: range_of_simps digit_pair_simps\<close>)
next
  case False
  then have "n div 10 = 1" "n mod 10 \<le> 2" using assms by presburger+
  then show ?thesis
    by (intro match_two[of _ "[]" "range_of CHR ''1'' CHR ''1''" "range_of CHR ''0'' CHR ''2''"])
      (use assms in \<open>simp_all add: range_of_simps digit_pair_simps\<close>)
qed

lemma match_day:
  assumes "1 \<le> n" "n \<le> 31" "match_format ds r = Some (g, r')"
  shows "match_format (Dird # ds) (two_digits n @ r) = Some ((Dird, two_digits n) # g, r')"
proof -
  consider "n < 10" | "10 \<le> n" "n < 30" | "30 \<le> n" by linarith
  then show ?thesis
  proof cases
    case 1
    show ?thesis
      by (rule match_two[of _ "take 2 (alternatives Dird)" "range_of CHR ''0'' CHR ''0''" "range_of CHR ''1'' CHR ''9''"])
        (use 1 assms in \<open>simp_all add: range_of_simps digit_pair_simps\<close>)
  next
    case 2
    then have "n div 10 = 1 \<or> n div 10 = 2" "n mod 10 \<le> 9" by presburger+
    then show ?thesis
      by (intro match_two[of _ "take 1 (alternatives Dird)" "range_of CHR ''1'' CHR ''2''" any_digit])
        (use 2 assms in \<open>auto simp: range_of_simps digit_pair_simps\<close>)
  next
    case 3
    then have "n div 10 = 3" "n mod 10 \<le> 1" using assms by presburger+
    then show ?thesis
      by (intro match_two[of _ "[]" "range_of CHR ''3'' CHR ''3''" "range_of CHR ''0'' CHR ''1''"])
        (use assms in \<open>simp_all add: range_of_simps digit_pair_simps\<close>)
  qed
qed

lemma match_hour:
  assumes "n < 24" "match_format ds r = Some (g, r')"
  shows "match_format (DirH # ds) (two_digits n @ r) = Some ((DirH, two_digits n) # g, r')"
proof (cases "n < 20")
  case True
  then have "n div 10 \<le> 1" "n mod 10 \<le> 9" by presburger+
  then show ?thesis
    by (intro match_two[of _ "take 1 (alternatives DirH)" "range_of CHR ''0'' CHR ''1''" any_digit])
      (use assms in \<open>auto simp: range_of_simps digit_pair_simps\<close>)
next
  case False
  then have "n div 10 = 2" "n mod 10 \<le> 3" using assms by presburger+
  then show ?thesis
    by (intro match_two[of _ "[]" "range_of CHR ''2'' CHR ''2''" "range_of CHR ''0'' CHR ''3''"])
      (use assms in \<open>simp_all add: range_of_simps digit_pair_simps\<close>)
qed

lemma match_minute_second:
  assumes "n < 60" "match_format ds r = Some (g, r')"
  shows "match_format (DirM # ds) (two_digits n @ r) = Some ((DirM, two_digits n) # g, r')"
    "match_format (DirS # ds) (two_digits n @ r) = Some ((DirS, two_digits n) # g, r')"
proof -
  have n: "n div 10 \<le> 5" "n mod 10 \<le> 9" using assms(1) by presburger+
  then show "match_format (DirM # ds) (two_digits n @ r) = Some ((DirM, two_digits n) # g, r')"
    by (intro match_two[of _ "[]" "range_of CHR ''0'' CHR ''5''" any_digit])
      (use assms in \<open>auto simp: range_of_simps digit_pair_simps\<close>)
  from n show "match_format (DirS # ds) (two_digits n @ r) = Some ((DirS, two_digits n) # g, r')"
    by (intro match_two[of _ "take 1 (alternatives DirS)" "range_of CHR ''0'' CHR ''5''" any_digit])
      (use assms in \<open>auto simp: range_of_simps digit_pair_simps\<close>)
qed

lemma match_year:
  assumes "n < 10000" "match_format ds r = Some (g, r')"
  shows "match_format (DirY # ds) (four_digits n @ r) = Some ((DirY, four_digits n) # g, r')"
proof -
  have "n div 1000 < 10" using assms(1) by (simp add: less_mult_imp_div_less)
  moreover have "k mod 10 \<le> 9" for k :: nat by presburger
  ultimately show ?thesis using assms(2) by (simp add: four_digits_def range_of_simps of_char_digit)
qed

lemma match_lit:
  assumes "upper_char c = c" "match_format ds r = Some (g, r')"
  shows "match_format (Lit c # ds) (c # r) = Some ((Lit c, [c]) # g, r')"
  using assms by (simp add: range_of_simps)

section \<open>Dates are printed and read back\<close>

definition naive_time :: "pydatetime \<Rightarrow> bool" where
  "naive_time t \<longleftrightarrow> valid_date (t_date t) \<and> t_hour t < 24 \<and> t_minute t < 60 \<and> t_second t < 60 \<and>
     t_micro t = 0 \<and> t_offset t = None"

lemma strptime_naive: "strptime fmt s = Some t \<Longrightarrow> naive_time t"
  by (cases "match_format fmt s") (auto simp: strptime_def naive_time_def Let_def split: if_splits)

lemma isoformat_naive:
  "naive_time t \<Longrightarrow> isoformat sep t = four_digits (d_year (t_date t)) @ CHR ''-'' # two_digits (d_month (t_date t)) @
     CHR ''-'' # two_digits (d_day (t_date t)) @ sep # two_digits (t_hour t) @ CHR '':'' # two_digits (t_minute t) @
     CHR '':'' # two_digits (t_second t)"
  by (simp add: isoformat_def naive_time_def show_date_def show_offset_def)

lemma match_full:
  assumes "naive_time t"
  shows "match_format (DATE_FORMATS ! 1) (isoformat CHR ''T'' t) =
    Some ([(DirY, four_digits (d_year (t_date t))), (Lit CHR ''-'', ''-''), (Dirm, two_digits (d_month (t_date t))),
      (Lit CHR ''-'', ''-''), (Dird, two_digits (d_day (t_date t))), (Lit CHR ''T'', ''T''),
      (DirH, two_digits (t_hour t)), (Lit CHR '':'', '':''), (DirM, two_digits (t_minute t)), (Lit CHR '':'', '':''),
      (DirS, two_digits (t_second t))], [])"
proof -
  have v: "valid_date (t_date t)" and b: "t_hour t < 24" "t_minute t < 60" "t_second t < 60"
    using assms by (simp_all add: naive_time_def)
  have d: "d_year (t_date t) < 10000" "1 \<le> d_month (t_date t)" "d_month (t_date t) \<le> 12"
    "1 \<le> d_day (t_date t)" "d_day (t_date t) \<le> 31"
    using v days_in_month_bounds[of "d_year (t_date t)" "d_month (t_date t)"] unfolding valid_date_def by linarith+
  have e: "match_format [] [] = Some ([], [])" by simp
  have s: "match_format [DirS] (two_digits (t_second t)) = Some ([(DirS, two_digits (t_second t))], [])"
    using match_minute_second(2)[OF b(3) e] by simp
  show ?thesis
    unfolding isoformat_naive[OF assms] DATE_FORMATS_def nth_Cons_0 nth_Cons_Suc One_nat_def
    by (intro match_year match_lit match_month match_day match_hour match_minute_second s d b)
      (simp_all add: upper_char_def)
qed

lemma digits_of_two: "n < 100 \<Longrightarrow> digits_val (filter is_digit (two_digits n)) = n"
  by (simp add: two_digits_def digits_val_def less_mult_imp_div_less)

lemma digits_of_four: "n < 10000 \<Longrightarrow> digits_val (filter is_digit (four_digits n)) = n"
  using parse_four[of n "[]"] by (simp add: four_digits_def parse_digits_def less_mult_imp_div_less split: if_splits)

lemma strptime_isoformat:
  assumes "naive_time t"
  shows "strptime (DATE_FORMATS ! 1) (isoformat CHR ''T'' t) = Some t"
proof -
  have v: "valid_date (t_date t)" using assms by (simp add: naive_time_def)
  note b = valid_date_bounds[OF v]
  have "mk_date (d_year (t_date t)) (d_month (t_date t)) (d_day (t_date t)) = t_date t" by (simp add: mk_date_def)
  then show ?thesis
    using assms b unfolding strptime_def match_full[OF assms]
    by (simp add: Let_def digits_of_two digits_of_four naive_time_def)
qed

lemma strip_isoformat: "naive_time t \<Longrightarrow> strip (isoformat CHR ''T'' t) = isoformat CHR ''T'' t"
proof (rule strip_no_space)
  fix c assume t: "naive_time t" "c \<in> set (isoformat CHR ''T'' t)"
  have d: "d < 10 \<Longrightarrow> \<not> is_space (digit_char d)" for d by (simp add: is_space_def of_char_digit)
  have "valid_date (t_date t)" using t(1) by (simp add: naive_time_def)
  note b = valid_date_bounds[OF this]
  have two: "c \<in> set (two_digits n) \<Longrightarrow> n < 100 \<Longrightarrow> \<not> is_space c" for n
    using d[of "n div 10"] d[of "n mod 10"] by (auto simp: two_digits_def less_mult_imp_div_less)
  have four: "c \<in> set (four_digits n) \<Longrightarrow> n < 10000 \<Longrightarrow> \<not> is_space c" for n
    using d[of "n div 1000"] d[of "n div 100 mod 10"] d[of "n div 10 mod 10"] d[of "n mod 10"]
    by (auto simp: four_digits_def less_mult_imp_div_less)
  have o: "\<not> is_space CHR ''-''" "\<not> is_space CHR ''T''" "\<not> is_space CHR '':''" by (simp_all add: is_space_def)
  have "t_hour t < 100" "t_minute t < 100" "t_second t < 100" using t(1) by (simp_all add: naive_time_def)
  with t(2) two four o b show "\<not> is_space c" unfolding isoformat_naive[OF t(1)] by auto
qed

lemma short_format_fails: "naive_time t \<Longrightarrow> strptime (DATE_FORMATS ! 0) (isoformat CHR ''T'' t) = None"
proof -
  assume t: "naive_time t"
  have "length (isoformat CHR ''T'' t) = 19"
    by (simp add: isoformat_naive[OF t] four_digits_def two_digits_def)
  moreover have "sum_list (map directive_width (DATE_FORMATS ! 0)) = 10"
    by (simp add: DATE_FORMATS_def directive_width_def)
  ultimately have "r \<noteq> []" if "match_format (DATE_FORMATS ! 0) (isoformat CHR ''T'' t) = Some (g, r)" for g r
    using match_format_width[OF that] by auto
  then show ?thesis by (cases "match_format (DATE_FORMATS ! 0) (isoformat CHR ''T'' t)") (auto simp: strptime_def Let_def)
qed

lemma parse_date_isoformat:
  assumes "naive_time t"
  shows "parse_date (MJson (JStr (isoformat CHR ''T'' t))) = MJson (JStr (isoformat CHR ''T'' t))"
proof -
  have f: "first_some g DATE_FORMATS = (case g (DATE_FORMATS ! 0) of None \<Rightarrow> (case g (DATE_FORMATS ! 1) of
      None \<Rightarrow> first_some g (drop 2 DATE_FORMATS) | Some y \<Rightarrow> Some y) | Some y \<Rightarrow> Some y)" for g :: "_ \<Rightarrow> 'b option"
    by (auto simp: DATE_FORMATS_def split: option.splits)
  have "first_some (\<lambda>fmt. strptime fmt (strip (isoformat CHR ''T'' t))) DATE_FORMATS = Some t"
    unfolding f strip_isoformat[OF assms] short_format_fails[OF assms] strptime_isoformat[OF assms] by simp
  then show ?thesis by (simp add: parse_date_def)
qed

lemma parse_date_idem: "parse_date (parse_date (MJson j)) = parse_date (MJson j)"
proof (cases "\<exists>s t. j = JStr s \<and> first_some (\<lambda>fmt. strptime fmt (strip s)) DATE_FORMATS = Some t")
  case True
  then obtain s t where j: "j = JStr s" and t: "first_some (\<lambda>fmt. strptime fmt (strip s)) DATE_FORMATS = Some t" by blast
  have "naive_time t" using first_some_Some[OF t] strptime_naive by blast
  then show ?thesis using t by (simp add: j parse_date_def[of "MJson (JStr s)"] parse_date_isoformat)
next
  case False
  then have "parse_date (MJson j) = MJson j" by (auto simp: parse_date_def split: jval.splits option.splits)
  then show ?thesis by simp
qed

section \<open>Stability of the transforms\<close>

lemma text_transform_idem: "(\<And>s. f (f s) = f s) \<Longrightarrow> text_transform f (text_transform f v) = text_transform f v"
  by (auto simp: text_transform_def on_text_def split: mval.splits jval.splits)

lemma suffix_loop_id: "suffix_loop v xs = v"
  by (induction xs) simp_all

lemma company_suffix_strip: "company_suffix = strip"
  by (simp add: fun_eq_iff company_suffix_def suffix_loop_id)

lemma iban_ws_idem: "iban_ws (iban_ws s) = iban_ws s"
  by (simp add: iban_ws_def upper_def filter_map o_def)

lemma remove_punct_idem: "remove_punct (remove_punct s) = remove_punct s"
  by (simp add: remove_punct_def)

lemma collapse_whitespace_eq: "collapse_whitespace = normalize_whitespace"
  by (simp add: fun_eq_iff collapse_whitespace_def normalize_whitespace_def)

lemma country_codes_are_no_names: "list_all (\<lambda>(n, c). normalize_country_name c = None) COUNTRY_NAME_TO_CODE"
  by code_simp

lemma country_iso2_idem: "country_iso2 (country_iso2 s) = country_iso2 s"
proof (cases "normalize_country_name s")
  case (Some c)
  then have "normalize_country_name c = None"
    using country_codes_are_no_names by (auto simp: normalize_country_name_def list_all_iff dest: map_of_SomeD)
  with Some show ?thesis by (simp add: country_iso2_def)
qed (simp add: country_iso2_def)

lemma parse_decimal_idem: "parse_decimal (parse_decimal v) = parse_decimal v"
  by (auto simp: parse_decimal_def on_text_def split: mval.splits jval.splits option.splits)

lemma parse_date_idem_all: "parse_date (parse_date v) = parse_date v" if "\<And>t. v \<noteq> MTime t"
  using that parse_date_idem by (cases v) (auto simp: parse_date_def)

lemma text_functions_idem:
  "upper (upper s) = upper s" "lower (lower s) = lower s" "nfkc (nfkc s) = nfkc s"
  by (simp_all add: upper_def lower_def nfkc_def)

lemma transform_cases:
  assumes "map_of TRANSFORMS name = Some f"
  shows "f = parse_date \<or> f = parse_decimal \<or> (\<exists>g. f = text_transform g \<and> (\<forall>s. g (g s) = g s))"
proof -
  have "(name, f) \<in> set TRANSFORMS" using assms by (rule map_of_SomeD)
  then have "f = parse_date \<or> f = parse_decimal \<or>
      f \<in> text_transform ` {strip, collapse_whitespace, upper, lower, nfkc, remove_punct, country_iso2, iban_ws, company_suffix}"
    by (simp add: TRANSFORMS_def) blast
  moreover have "g (g s) = g s"
    if "g \<in> {strip, collapse_whitespace, upper, lower, nfkc, remove_punct, country_iso2, iban_ws, company_suffix}" for g s
    using that text_functions_idem iban_ws_idem remove_punct_idem country_iso2_idem normalize_whitespace_idem
    by (auto simp: company_suffix_strip collapse_whitespace_eq)
  ultimately show ?thesis by blast
qed

lemma transform_idem: "(\<And>t. v \<noteq> MTime t) \<Longrightarrow> transform name (transform name v) = transform name v"
  using transform_cases[of name] text_transform_idem parse_decimal_idem parse_date_idem_all[of v]
  by (cases "map_of TRANSFORMS name") (auto simp: transform_def)

end
