(* ===== verification/PO_MapProps.thy ===== *)
theory PO_MapProps
  imports PO_Transforms
begin

text \<open>
  What the mapping engine guarantees: which definitions the validator accepts, that a missing
  required field is always reported, that a validated mapping stores every present value where
  its target says, that transforms are stable, and what becomes of a mapped message in the
  repair engine.
\<close>

section \<open>Paths\<close>

fun show_token :: "json_token \<Rightarrow> string" where
  "show_token (JKey k) = CHR ''.'' # k"
| "show_token (JIndex n) = CHR ''['' # show_nat n @ '']''"
| "show_token JWildcard = ''[*]''"

definition show_path :: "json_token list \<Rightarrow> string" where
  "show_path ts = CHR ''$'' # concat (map show_token ts)"

fun key_token :: "json_token \<Rightarrow> bool" where
  "key_token (JKey k) \<longleftrightarrow> k \<noteq> [] \<and> list_all is_key_char k"
| "key_token _ \<longleftrightarrow> True"

text \<open>The values at a path, read off the structure of the data.\<close>

fun values_at :: "json_token list \<Rightarrow> jval \<Rightarrow> jval list" where
  "values_at [] v = [v]"
| "values_at (t # ts) v = concat (map (values_at ts) (step_token t v))"

lemma key_char_not: "is_key_char c \<Longrightarrow> c \<noteq> CHR ''.'' \<and> c \<noteq> CHR ''['' \<and> c \<noteq> CHR '']'' \<and> c \<noteq> CHR ''$'' \<and> c \<noteq> CHR ''*''"
  by (auto simp: is_key_char_def is_alnum_def)

lemma shown_head: "ts = [] \<or> (\<exists>c r. concat (map show_token ts) = c # r \<and> \<not> is_key_char c)"
proof (cases ts)
  case (Cons t us)
  have "\<not> is_key_char CHR ''.''" "\<not> is_key_char CHR ''[''" by (simp_all add: is_key_char_def is_alnum_def)
  then show ?thesis by (cases t) (auto simp: Cons)
qed simp

lemma takeWhile_key:
  assumes "list_all is_key_char k"
  shows "takeWhile is_key_char (k @ concat (map show_token ts)) = k"
    "dropWhile is_key_char (k @ concat (map show_token ts)) = concat (map show_token ts)"
  using assms shown_head[of ts] by (auto simp: list_all_iff takeWhile_append dropWhile_append)

lemma bracket_index_show: "bracket_index (CHR ''['' # show_nat n @ CHR '']'' # r) = Some (n, r)"
proof -
  have d: "list_all is_digit (show_nat n)" by (rule list_all_show_nat)
  have nd: "\<not> is_digit CHR '']''" by (simp add: is_digit_def)
  have "takeWhile is_digit (show_nat n @ CHR '']'' # r) = show_nat n"
    "dropWhile is_digit (show_nat n @ CHR '']'' # r) = CHR '']'' # r"
    using d nd by (simp_all add: takeWhile_append dropWhile_append list_all_iff)
  then show ?thesis by (simp add: bracket_index_def Let_def)
qed

lemma tokenize_shown: "list_all key_token ts \<Longrightarrow> tokenize (concat (map show_token ts)) = ts"
proof (induction ts)
  case (Cons t ts)
  have n: "\<not> is_key_char CHR ''.''" "\<not> is_key_char CHR ''[''" by (simp_all add: is_key_char_def is_alnum_def)
  show ?case
  proof (cases t)
    case (JKey k)
    then obtain c k' where k: "k = c # k'" and kc: "list_all is_key_char k" using Cons.prems by (cases k) auto
    have b: "bracket_index (CHR ''.'' # x) = None" for x by (simp add: bracket_index_def)
    have "tokenize (CHR ''.'' # k @ concat (map show_token ts)) = tokenize (k @ concat (map show_token ts))"
      using n b by (simp add: starts_with_def)
    also have "\<dots> = JKey k # tokenize (concat (map show_token ts))"
      using takeWhile_key[OF kc, of ts] kc by (simp add: k)
    finally show ?thesis using Cons JKey by simp
  next
    case (JIndex i)
    obtain d r where s: "show_nat i = d # r" and dd: "is_digit d"
      using show_nat_neq_Nil[of i] list_all_show_nat[of i] by (cases "show_nat i") auto
    have "d \<noteq> CHR ''*''" using dd by (auto simp: is_digit_def)
    then have "\<not> starts_with ''[*]'' (CHR ''['' # show_nat i @ x)" for x
      by (simp add: starts_with_def s)
    then have "tokenize (CHR ''['' # show_nat i @ CHR '']'' # concat (map show_token ts)) =
        JIndex i # tokenize (concat (map show_token ts))"
      using n bracket_index_show[of i] by simp
    with Cons JIndex show ?thesis by simp
  next
    case JWildcard
    with Cons n show ?thesis by (simp add: starts_with_def)
  qed
qed simp

lemma fold_step_token:
  "fold (\<lambda>t current. concat (map (step_token t) current)) ts vs = concat (map (values_at ts) vs)"
proof (induction ts arbitrary: vs)
  case Nil
  then show ?case by (induction vs) auto
next
  case (Cons t ts)
  show ?case by (simp add: Cons.IH) (induction vs; simp)
qed

section \<open>Validation\<close>

lemma supported_transforms_set: "set supported_transforms = fst ` set TRANSFORMS"
  by (simp add: supported_transforms_def)

lemma field_errors_Nil: "field_errors seen fm = [] \<longleftrightarrow>
    fm_source fm \<noteq> [] \<and> fm_target fm \<in> set ALLOWED_TARGETS \<and> fm_target fm \<notin> set seen \<and>
    list_all (\<lambda>x. x \<in> fst ` set TRANSFORMS) (fm_transforms fm)"
  by (auto simp: field_errors_def Let_def supported_transforms_set filter_empty_conv list_all_iff)

lemma fields_errors_Nil: "fields_errors seen fms = [] \<longleftrightarrow>
    list_all (\<lambda>fm. fm_source fm \<noteq> [] \<and> fm_target fm \<in> set ALLOWED_TARGETS \<and>
      list_all (\<lambda>x. x \<in> fst ` set TRANSFORMS) (fm_transforms fm)) fms \<and>
    distinct (map fm_target fms) \<and> set (map fm_target fms) \<inter> set seen = {}"
  by (induction seen fms rule: fields_errors.induct) (auto simp: field_errors_Nil)

section \<open>Missing fields\<close>

definition required_missing :: "mapping_env \<Rightarrow> MappingDefinition \<Rightarrow> mrecord \<Rightarrow> FieldMapping list" where
  "required_missing env def record =
     filter (\<lambda>fm. fm_required fm = REQUIRED \<and> absent (get_value env record (fm_source fm))) (mp_fields def)"

lemma map_fields_issues: "map_fields env pre record fms tx = Inr (t, issues) \<Longrightarrow>
    issues = map missing_issue (filter (\<lambda>fm. fm_required fm = REQUIRED \<and> absent (get_value env record (fm_source fm))) fms)"
proof (induction fms arbitrary: tx t issues)
  case (Cons fm fms)
  then show ?case
    by (auto simp: Let_def bindR_Inr split: if_splits option.splits)
qed simp

lemma map_to_canonical_Inr: "map_to_canonical env def source = Inr r \<longleftrightarrow>
    (\<exists>records rs. extract_records env def source = Inr records \<and>
      mapR (\<lambda>(i, x). map_fields env (record_prefix i) x (mp_fields def) new_transaction) (enumerate 0 records) = Inr rs \<and>
      r = \<lparr>mr_message = mapped_message env def (map fst rs), mr_version = mp_version def, mr_issues = concat (map snd rs)\<rparr>)"
  by (auto simp: map_to_canonical_def bindR_Inr)

lemma mapped_records:
  assumes "map_to_canonical env def source = Inr r" "extract_records env def source = Inr records"
  shows "length (pm_transactions (mr_message r)) = length records"
    "i < length records \<Longrightarrow> \<exists>issues. map_fields env (record_prefix i) (records ! i) (mp_fields def) new_transaction =
       Inr (pm_transactions (mr_message r) ! i, issues)"
proof -
  obtain rs where rs: "mapR (\<lambda>(i, x). map_fields env (record_prefix i) x (mp_fields def) new_transaction) (enumerate 0 records) = Inr rs"
    and t: "pm_transactions (mr_message r) = map fst rs"
    using assms by (auto simp: map_to_canonical_Inr mapped_message_def)
  have l: "length rs = length records" using mapR_Inr_length[OF rs] by simp
  then show "length (pm_transactions (mr_message r)) = length records" by (simp add: t)
  assume i: "i < length records"
  have "map_fields env (record_prefix i) (records ! i) (mp_fields def) new_transaction = Inr (rs ! i)"
    using mapR_Inr_nth[OF rs, of i] i by (simp add: nth_enumerate_eq)
  then show "\<exists>issues. map_fields env (record_prefix i) (records ! i) (mp_fields def) new_transaction =
       Inr (pm_transactions (mr_message r) ! i, issues)"
    using i l by (cases "rs ! i") (auto simp: t)
qed

section \<open>Where addresses come from\<close>

definition address_from :: "string \<Rightarrow> PostalAddress option \<Rightarrow> bool" where
  "address_from path a \<longleftrightarrow> list_all (\<lambda>x. pa_source_path x \<in> {None, Some path}) (case a of None \<Rightarrow> [] | Some x \<Rightarrow> [x])"

definition tx_addresses_from :: "string \<Rightarrow> PaymentTransaction \<Rightarrow> bool" where
  "tx_addresses_from pre tx \<longleftrightarrow>
     address_from (pre @ ''/Dbtr/PstlAdr'') (Option.bind (tx_debtor tx) py_postal_address) \<and>
     address_from (pre @ ''/Cdtr/PstlAdr'') (Option.bind (tx_creditor tx) py_postal_address) \<and>
     Option.bind (tx_debtor_agent tx) fi_postal_address = None \<and>
     Option.bind (tx_creditor_agent tx) fi_postal_address = None"

lemma set_address_path: "pa_source_path (set_address seg tv path a) \<in> {pa_source_path a, Some path}"
  by (cases seg) (auto simp: set_address_def Let_def)

lemma set_party_from:
  "address_from path (Option.bind party py_postal_address) \<Longrightarrow>
     address_from path (Option.bind (set_party seg tv path party) py_postal_address)"
proof (cases seg)
  case (Cons s rest)
  assume a: "address_from path (Option.bind party py_postal_address)"
  let ?p = "or_new party new_party"
  have "pa_source_path (or_new (py_postal_address ?p) new_address) \<in> {None, Some path}"
    using a by (auto simp: or_new_def address_from_def new_party_def new_address_def split: option.splits)
  then have "address_from path (Some (set_address rest tv path (or_new (py_postal_address ?p) new_address)))"
    using set_address_path[of rest tv path "or_new (py_postal_address ?p) new_address"] by (auto simp: address_from_def)
  moreover have "address_from path (py_postal_address ?p)"
    using a by (auto simp: or_new_def address_from_def new_party_def split: option.splits)
  ultimately show ?thesis by (simp add: Cons set_party_def Let_def)
qed (simp add: set_party_def)

lemma set_agent_no_address:
  "Option.bind agent fi_postal_address = None \<Longrightarrow> Option.bind (set_agent seg tv agent) fi_postal_address = None"
  by (cases agent) (auto simp: set_agent_def or_new_def new_agent_def Let_def split: list.splits)

lemma set_target_from:
  assumes "set_target repr pre target v tx = Inr tx'" "tx_addresses_from pre tx"
  shows "tx_addresses_from pre tx'"
proof -
  have "tx_addresses_from pre (set_text seg tv pre tx)" for seg tv
    using assms(2) set_party_from set_agent_no_address by (auto simp: tx_addresses_from_def set_text_def Let_def)
  moreover have "tx_addresses_from pre (tx\<lparr>tx_amount := a\<rparr>)" for a
    using assms(2) by (simp add: tx_addresses_from_def)
  ultimately show ?thesis using assms by (auto simp: set_target_def Let_def bindR_Inr split: if_splits)
qed

lemma map_fields_from:
  "map_fields env pre record fms tx = Inr (t, issues) \<Longrightarrow> tx_addresses_from pre tx \<Longrightarrow> tx_addresses_from pre t"
proof (induction fms arbitrary: tx t issues)
  case (Cons fm fms)
  then show ?case
    by (auto simp: Let_def bindR_Inr split: if_splits option.splits dest: set_target_from)
qed simp

lemma address_sources:
  assumes "tx_addresses_from pre tx" "a \<in> snd ` set (addresses tx)"
  shows "pa_source_path a \<in> {None, Some (pre @ ''/Dbtr/PstlAdr''), Some (pre @ ''/Cdtr/PstlAdr'')}"
  using assms by (auto simp: tx_addresses_from_def address_from_def addresses_def labelled_def split: option.splits)

lemma message_from_mapping:
  assumes "map_to_canonical env def source = Inr r"
  shows "list_all unindexed_source (message_addresses (mr_message r))"
proof -
  obtain records where records: "extract_records env def source = Inr records" using assms by (auto simp: map_to_canonical_Inr)
  note mr = mapped_records[OF assms records]
  have tx: "tx_addresses_from (record_prefix i) (pm_transactions (mr_message r) ! i)" if i: "i < length records" for i
  proof -
    have "tx_addresses_from (record_prefix i) new_transaction"
      by (simp add: tx_addresses_from_def new_transaction_def address_from_def)
    then show ?thesis using mr(2)[OF i] map_fields_from by blast
  qed
  have "unindexed_source a" if "a \<in> set (message_addresses (mr_message r))" "truthy (pa_source_path a)" for a
  proof -
    from that(1) obtain tx where t: "tx \<in> set (pm_transactions (mr_message r))" and a: "a \<in> snd ` set (addresses tx)"
      by (auto simp: message_addresses_def)
    then obtain i where i: "i < length records" and ti: "tx = pm_transactions (mr_message r) ! i"
      using mr(1) by (auto simp: in_set_conv_nth)
    have "pa_source_path a \<in> {None, Some (record_prefix i @ ''/Dbtr/PstlAdr''), Some (record_prefix i @ ''/Cdtr/PstlAdr'')}"
      by (rule address_sources[OF tx[OF i]]) (use a ti in simp)
    then have "\<exists>lbl\<in>{''Dbtr'', ''Cdtr''}. pa_source_path a = Some (record_prefix i @ ''/'' @ lbl @ ''/PstlAdr'')"
      using that(2) by auto
    then obtain lbl where "lbl \<in> {''Dbtr'', ''Cdtr''}" "pa_source_path a = Some (record_prefix i @ ''/'' @ lbl @ ''/PstlAdr'')"
      by blast
    then show ?thesis using mapped_source[of a i lbl] by (simp add: record_prefix_def)
  qed
  moreover have "unindexed_source a" if "\<not> truthy (pa_source_path a)" for a using that by (simp add: unindexed_source_def)
  ultimately show ?thesis by (auto simp: list_all_iff)
qed

lemma mapped_format: "map_to_canonical env def source = Inr r \<Longrightarrow> pm_source_format (mr_message r) \<noteq> XML_PACS_008"
  by (auto simp: map_to_canonical_Inr mapped_message_def source_format_of_def split: MappingFormat.splits)

section \<open>Reading a target back\<close>

datatype reading = RText string | RMinor int | RLines "string list"

definition lines_reading :: "string list \<Rightarrow> reading option" where
  "lines_reading ls = (if ls = [] then None else Some (RLines ls))"

definition read_address :: "string \<Rightarrow> PostalAddress \<Rightarrow> reading option" where
  "read_address field a =
     (if field = ''street_name'' then map_option RText (pa_street_name a)
      else if field = ''building_number'' then map_option RText (pa_building_number a)
      else if field = ''postcode'' then map_option RText (pa_postcode a)
      else if field = ''town_name'' then map_option RText (pa_town_name a)
      else if field = ''country'' then map_option RText (pa_country a)
      else lines_reading (pa_address_lines a))"

definition read_party :: "string list \<Rightarrow> Party option \<Rightarrow> reading option" where
  "read_party seg p = Option.bind p (\<lambda>x. if hd seg = ''name'' then map_option RText (py_name x)
     else Option.bind (py_postal_address x) (read_address (seg ! 1)))"

definition read_account :: "string list \<Rightarrow> Account option \<Rightarrow> reading option" where
  "read_account seg a = map_option RText (Option.bind a (if hd seg = ''iban'' then ac_iban
     else if hd seg = ''name'' then ac_name else ac_other_identification))"

definition read_agent :: "string list \<Rightarrow> FinancialInstitution option \<Rightarrow> reading option" where
  "read_agent seg f = map_option RText (Option.bind f (if hd seg = ''bic'' then fi_bic else fi_name))"

definition read_target :: "string list \<Rightarrow> PaymentTransaction \<Rightarrow> reading option" where
  "read_target seg tx =
     (let rest = List.tl seg; s = hd seg in
      if s = ''amount'' then (if rest = [''amount_minor''] then map_option (RMinor \<circ> ma_amount_minor) (tx_amount tx)
        else map_option (RText \<circ> ma_currency) (tx_amount tx))
      else if s = ''instruction_id'' then map_option RText (tx_instruction_id tx)
      else if s = ''end_to_end_id'' then map_option RText (tx_end_to_end_id tx)
      else if s = ''transaction_id'' then map_option RText (tx_transaction_id tx)
      else if s = ''debtor'' then read_party rest (tx_debtor tx)
      else if s = ''creditor'' then read_party rest (tx_creditor tx)
      else if s = ''debtor_account'' then read_account rest (tx_debtor_account tx)
      else if s = ''creditor_account'' then read_account rest (tx_creditor_account tx)
      else if s = ''debtor_agent'' then read_agent rest (tx_debtor_agent tx)
      else if s = ''creditor_agent'' then read_agent rest (tx_creditor_agent tx)
      else Option.bind (tx_remittance tx) (\<lambda>r. lines_reading (ri_unstructured r)))"

text \<open>What a value is stored as.\<close>

definition written :: "(jval \<Rightarrow> string) \<Rightarrow> string list \<Rightarrow> mval \<Rightarrow> reading option" where
  "written repr seg v =
     (if seg = [''amount'', ''amount_minor''] then (case to_minor v of Inr m \<Rightarrow> Some (RMinor m) | Inl _ \<Rightarrow> None)
      else if seg = [''amount'', ''currency''] then Some (RText (upper (take 3 (text_of_value repr v))))
      else if last seg = ''address_lines'' \<or> last seg = ''unstructured'' then Some (RLines [text_of_value repr v])
      else Some (RText (text_of_value repr v)))"

definition ADDRESS_FIELDS :: "string list" where
  "ADDRESS_FIELDS = [''street_name'', ''building_number'', ''postcode'', ''town_name'', ''country'', ''address_lines'']"

definition PARTY_SEGMENTS :: "string list list" where
  "PARTY_SEGMENTS = [''name''] # map (\<lambda>f. [''postal_address'', f]) ADDRESS_FIELDS"

definition TARGET_GROUPS :: "(string \<times> string list list) list" where
  "TARGET_GROUPS = [(''instruction_id'', [[]]), (''end_to_end_id'', [[]]), (''transaction_id'', [[]]),
     (''amount'', [[''amount_minor''], [''currency'']]), (''debtor'', PARTY_SEGMENTS), (''creditor'', PARTY_SEGMENTS),
     (''debtor_account'', [[''iban''], [''name''], [''other_identification'']]),
     (''creditor_account'', [[''iban''], [''name''], [''other_identification'']]),
     (''debtor_agent'', [[''bic''], [''name'']]), (''creditor_agent'', [[''bic''], [''name'']]),
     (''remittance'', [[''unstructured'']])]"

definition TARGET_SEGMENTS :: "string list list" where
  "TARGET_SEGMENTS = concat (map (\<lambda>(h, ts). map (Cons h) ts) TARGET_GROUPS)"

lemma allowed_segments:
  "list_all (\<lambda>t. target_segments t \<in> set TARGET_SEGMENTS) ALLOWED_TARGETS"
  "list_all (\<lambda>t. join ''.'' (target_segments t) = t) ALLOWED_TARGETS"
  by code_simp+

lemma segments_inj: "t \<in> set ALLOWED_TARGETS \<Longrightarrow> u \<in> set ALLOWED_TARGETS \<Longrightarrow> target_segments t = target_segments u \<Longrightarrow> t = u"
proof -
  assume t: "t \<in> set ALLOWED_TARGETS" and u: "u \<in> set ALLOWED_TARGETS" and e: "target_segments t = target_segments u"
  have j: "join ''.'' (target_segments x) = x" if "x \<in> set ALLOWED_TARGETS" for x
    using allowed_segments(2) that by (simp only: list_all_iff)
  note a = j[OF t] and b = j[OF u]
  show "t = u" using a b unfolding e by (rule trans[OF sym])
qed

lemma set_address_sel:
  "pa_street_name (set_address [g] tv path a) = (if g = ''street_name'' then Some tv else pa_street_name a)"
  "pa_building_number (set_address [g] tv path a) = (if g = ''building_number'' then Some tv else pa_building_number a)"
  "pa_postcode (set_address [g] tv path a) = (if g = ''postcode'' then Some tv else pa_postcode a)"
  "pa_town_name (set_address [g] tv path a) = (if g = ''town_name'' then Some tv else pa_town_name a)"
  "pa_country (set_address [g] tv path a) = (if g = ''country'' then Some tv else pa_country a)"
  "pa_address_lines (set_address [g] tv path a) = (if g = ''address_lines'' then pa_address_lines a @ [tv] else pa_address_lines a)"
  by (auto simp: set_address_def Let_def)

lemma address_fields: "f \<in> set ADDRESS_FIELDS \<longleftrightarrow> f = ''street_name'' \<or> f = ''building_number'' \<or> f = ''postcode'' \<or>
    f = ''town_name'' \<or> f = ''country'' \<or> f = ''address_lines''"
  by (simp add: ADDRESS_FIELDS_def)

lemma read_set_address_other:
  assumes "f \<in> set ADDRESS_FIELDS" "f \<noteq> g"
  shows "read_address f (set_address [g] tv path a) = read_address f a"
  using assms(1)[unfolded address_fields] assms(2)
  by (elim disjE) (simp_all add: read_address_def set_address_sel)

lemma read_set_address:
  assumes "f \<in> set ADDRESS_FIELDS" "read_address f a = None"
  shows "read_address f (set_address [f] tv path a) = Some (if f = ''address_lines'' then RLines [tv] else RText tv)"
  using assms(1)[unfolded address_fields] assms(2)
  by (elim disjE) (simp_all add: read_address_def set_address_sel lines_reading_def split: if_splits)

lemma read_set_party:
  assumes "p \<in> set PARTY_SEGMENTS" "q \<in> set PARTY_SEGMENTS"
  shows "p \<noteq> q \<Longrightarrow> read_party p (set_party q tv path party) = read_party p party"
    "read_party p party = None \<Longrightarrow> read_party p (set_party p tv path party) =
       Some (if last p = ''address_lines'' then RLines [tv] else RText tv)"
proof -
  have new: "read_address f new_address = None" for f
    by (simp add: read_address_def new_address_def lines_reading_def)
  have p: "p = [''name''] \<or> (\<exists>f. f \<in> set ADDRESS_FIELDS \<and> p = [''postal_address'', f])"
    and q: "q = [''name''] \<or> (\<exists>f. f \<in> set ADDRESS_FIELDS \<and> q = [''postal_address'', f])"
    using assms by (auto simp: PARTY_SEGMENTS_def)
  have n: "f \<noteq> ''name''" if "f \<in> set ADDRESS_FIELDS" for f using that by (auto simp: address_fields)
  show "p \<noteq> q \<Longrightarrow> read_party p (set_party q tv path party) = read_party p party"
  proof -
    assume pq: "p \<noteq> q"
    consider "p = [''name'']" | "q = [''name'']" | f g where "f \<in> set ADDRESS_FIELDS" "p = [''postal_address'', f]"
      "q = [''postal_address'', g]" "f \<noteq> g"
      using p q pq by auto
    then show ?thesis
    proof cases
      case 3
      then show ?thesis using new read_set_address_other[of f g]
        by (auto simp: read_party_def set_party_def Let_def or_new_def new_party_def split: option.splits)
    qed (use p q pq new in \<open>auto simp: read_party_def set_party_def Let_def or_new_def new_party_def split: option.splits\<close>)
  qed
  show "read_party p party = None \<Longrightarrow> read_party p (set_party p tv path party) =
       Some (if last p = ''address_lines'' then RLines [tv] else RText tv)"
    using p new n by (auto simp: read_party_def set_party_def Let_def or_new_def new_party_def read_set_address split: option.splits)
qed

lemma target_segment: "seg \<in> set TARGET_SEGMENTS \<Longrightarrow> \<exists>h t ts. seg = h # t \<and> (h, ts) \<in> set TARGET_GROUPS \<and> t \<in> set ts"
  by (auto simp: TARGET_SEGMENTS_def)

lemma set_text_sel:
  "tx_instruction_id (set_text (h # t) tv pre tx) = (if h = ''instruction_id'' then Some tv else tx_instruction_id tx)"
  "tx_end_to_end_id (set_text (h # t) tv pre tx) = (if h = ''end_to_end_id'' then Some tv else tx_end_to_end_id tx)"
  "tx_transaction_id (set_text (h # t) tv pre tx) = (if h = ''transaction_id'' then Some tv else tx_transaction_id tx)"
  "tx_amount (set_text (h # t) tv pre tx) = tx_amount tx"
  "tx_debtor (set_text (h # t) tv pre tx) = (if h = ''debtor'' then set_party t tv (pre @ ''/Dbtr/PstlAdr'') (tx_debtor tx) else tx_debtor tx)"
  "tx_creditor (set_text (h # t) tv pre tx) = (if h = ''creditor'' then set_party t tv (pre @ ''/Cdtr/PstlAdr'') (tx_creditor tx) else tx_creditor tx)"
  "tx_debtor_account (set_text (h # t) tv pre tx) = (if h = ''debtor_account'' then set_account t tv (tx_debtor_account tx) else tx_debtor_account tx)"
  "tx_creditor_account (set_text (h # t) tv pre tx) = (if h = ''creditor_account'' then set_account t tv (tx_creditor_account tx) else tx_creditor_account tx)"
  "tx_debtor_agent (set_text (h # t) tv pre tx) = (if h = ''debtor_agent'' then set_agent t tv (tx_debtor_agent tx) else tx_debtor_agent tx)"
  "tx_creditor_agent (set_text (h # t) tv pre tx) = (if h = ''creditor_agent'' then set_agent t tv (tx_creditor_agent tx) else tx_creditor_agent tx)"
  "tx_remittance (set_text (h # t) tv pre tx) = (if h = ''remittance'' then set_remittance t tv (tx_remittance tx) else tx_remittance tx)"
  by (auto simp: set_text_def Let_def)

lemma group_cases:
  assumes "(h, ts) \<in> set TARGET_GROUPS"
  obtains "h = ''instruction_id''" "ts = [[]]" | "h = ''end_to_end_id''" "ts = [[]]" | "h = ''transaction_id''" "ts = [[]]"
  | "h = ''amount''" "ts = [[''amount_minor''], [''currency'']]"
  | "h = ''debtor''" "ts = PARTY_SEGMENTS" | "h = ''creditor''" "ts = PARTY_SEGMENTS"
  | "h = ''debtor_account''" "ts = [[''iban''], [''name''], [''other_identification'']]"
  | "h = ''creditor_account''" "ts = [[''iban''], [''name''], [''other_identification'']]"
  | "h = ''debtor_agent''" "ts = [[''bic''], [''name'']]" | "h = ''creditor_agent''" "ts = [[''bic''], [''name'']]"
  | "h = ''remittance''" "ts = [[''unstructured'']]"
  using assms unfolding TARGET_GROUPS_def list.set
  by (elim insertE emptyE) (erule Pair_inject, rule that, assumption, assumption)+

lemma group_unique: "(h, ts) \<in> set TARGET_GROUPS \<Longrightarrow> (h, us) \<in> set TARGET_GROUPS \<Longrightarrow> ts = us"
proof (rule eq_key_imp_eq_value)
  show "distinct (map fst TARGET_GROUPS)" by code_simp
qed

lemma read_set_account:
  "t \<in> set [[''iban''], [''name''], [''other_identification'']] \<Longrightarrow> read_account t (set_account t tv a) = Some (RText tv)"
  "t \<in> set [[''iban''], [''name''], [''other_identification'']] \<Longrightarrow> u \<in> set [[''iban''], [''name''], [''other_identification'']] \<Longrightarrow>
     t \<noteq> u \<Longrightarrow> read_account t (set_account u tv a) = read_account t a"
  unfolding list.set
  by (elim insertE emptyE; cases a; simp add: read_account_def set_account_def or_new_def new_account_def)+

lemma read_set_agent:
  "t \<in> set [[''bic''], [''name'']] \<Longrightarrow> read_agent t (set_agent t tv a) = Some (RText tv)"
  "t \<in> set [[''bic''], [''name'']] \<Longrightarrow> u \<in> set [[''bic''], [''name'']] \<Longrightarrow> t \<noteq> u \<Longrightarrow>
     read_agent t (set_agent u tv a) = read_agent t a"
  unfolding list.set
  by (elim insertE emptyE; cases a; simp add: read_agent_def set_agent_def or_new_def new_agent_def)+

lemma party_segment_last: "p \<in> set PARTY_SEGMENTS \<Longrightarrow> p \<noteq> [] \<and> last p \<noteq> ''unstructured''"
  by (auto simp: PARTY_SEGMENTS_def ADDRESS_FIELDS_def)

lemma read_set_text_head:
  assumes "(h, ts) \<in> set TARGET_GROUPS" "h \<noteq> k"
  shows "read_target (h # t) (set_text (k # u) tv pre tx) = read_target (h # t) tx"
  using assms(1) by (cases rule: group_cases) (use assms(2) in \<open>simp_all add: read_target_def set_text_sel\<close>)

lemma read_set_text_other:
  assumes "(h, ts) \<in> set TARGET_GROUPS" "t \<in> set ts" "u \<in> set ts" "t \<noteq> u"
  shows "read_target (h # t) (set_text (h # u) tv pre tx) = read_target (h # t) tx"
  using assms(1)
proof (cases rule: group_cases)
  case 7
  show ?thesis using read_set_account(2)[OF assms(2,3)[unfolded 7] assms(4)] 7 by (simp add: read_target_def set_text_sel)
next
  case 8
  show ?thesis using read_set_account(2)[OF assms(2,3)[unfolded 8] assms(4)] 8 by (simp add: read_target_def set_text_sel)
next
  case 9
  show ?thesis using read_set_agent(2)[OF assms(2,3)[unfolded 9] assms(4)] 9 by (simp add: read_target_def set_text_sel)
next
  case 10
  show ?thesis using read_set_agent(2)[OF assms(2,3)[unfolded 10] assms(4)] 10 by (simp add: read_target_def set_text_sel)
qed (use assms(2-4) in \<open>simp_all add: read_target_def set_text_sel read_set_party(1)\<close>)

lemma written_text: "h \<noteq> ''amount'' \<Longrightarrow> t = [] \<or> last t \<noteq> ''address_lines'' \<and> last t \<noteq> ''unstructured'' \<Longrightarrow>
    h \<noteq> ''address_lines'' \<Longrightarrow> h \<noteq> ''unstructured'' \<Longrightarrow> written repr (h # t) v = Some (RText (text_of_value repr v))"
  by (auto simp: written_def)

lemma account_tails: "t \<in> set [[''iban''], [''name''], [''other_identification'']] \<Longrightarrow> last t \<noteq> ''address_lines'' \<and> last t \<noteq> ''unstructured''"
  "t \<in> set [[''bic''], [''name'']] \<Longrightarrow> last t \<noteq> ''address_lines'' \<and> last t \<noteq> ''unstructured''"
  by auto

lemma read_set_text:
  assumes "(h, ts) \<in> set TARGET_GROUPS" "t \<in> set ts" "h \<noteq> ''amount''" "read_target (h # t) tx = None"
  shows "read_target (h # t) (set_text (h # t) (text_of_value repr v) pre tx) = written repr (h # t) v"
  using assms(1)
proof (cases rule: group_cases)
  case 5
  then have t: "t \<in> set PARTY_SEGMENTS" "read_party t (tx_debtor tx) = None" using assms(2,4) by (simp_all add: read_target_def)
  with read_set_party(2)[OF t(1) t(1) t(2)] party_segment_last[OF t(1)] show ?thesis
    using 5 by (simp add: read_target_def set_text_sel written_def)
next
  case 6
  then have t: "t \<in> set PARTY_SEGMENTS" "read_party t (tx_creditor tx) = None" using assms(2,4) by (simp_all add: read_target_def)
  with read_set_party(2)[OF t(1) t(1) t(2)] party_segment_last[OF t(1)] show ?thesis
    using 6 by (simp add: read_target_def set_text_sel written_def)
next
  case 7
  show ?thesis using read_set_account(1)[OF assms(2)[unfolded 7]] account_tails(1)[OF assms(2)[unfolded 7]] 7
    by (simp add: read_target_def set_text_sel written_text)
next
  case 8
  show ?thesis using read_set_account(1)[OF assms(2)[unfolded 8]] account_tails(1)[OF assms(2)[unfolded 8]] 8
    by (simp add: read_target_def set_text_sel written_text)
next
  case 9
  show ?thesis using read_set_agent(1)[OF assms(2)[unfolded 9]] account_tails(2)[OF assms(2)[unfolded 9]] 9
    by (simp add: read_target_def set_text_sel written_text)
next
  case 10
  show ?thesis using read_set_agent(1)[OF assms(2)[unfolded 10]] account_tails(2)[OF assms(2)[unfolded 10]] 10
    by (simp add: read_target_def set_text_sel written_text)
next
  case 11
  then show ?thesis using assms(2,4)
    by (cases "tx_remittance tx") (auto simp: read_target_def set_text_sel set_remittance_def or_new_def lines_reading_def written_def split: if_splits)
qed (use assms(2,3) in \<open>simp_all add: read_target_def set_text_sel written_text\<close>)

lemma allowed_segment: "t \<in> set ALLOWED_TARGETS \<Longrightarrow> target_segments t \<in> set TARGET_SEGMENTS"
  using allowed_segments(1) by (simp only: list_all_iff)

lemma amount_group: "(''amount'', ts) \<in> set TARGET_GROUPS \<Longrightarrow> ts = [[''amount_minor''], [''currency'']]"
  by (erule group_cases) simp_all

lemma set_target_amount:
  assumes "target_segments target = ''amount'' # t" "t \<in> set [[''amount_minor''], [''currency'']]"
    "set_target repr pre target v tx = Inr tx'"
  shows "\<exists>a. set_amount repr (hd t) v (tx_amount tx) = Inr a \<and> tx' = tx\<lparr>tx_amount := a\<rparr>"
  using assms by (auto simp: set_target_def Let_def bindR_Inr)

lemma set_target_text:
  "target_segments target = h # t \<Longrightarrow> h \<noteq> ''amount'' \<Longrightarrow> set_target repr pre target v tx = Inr (set_text (h # t) (text_of_value repr v) pre tx)"
  by (simp add: set_target_def)

text \<open>Setting a target stores the value there, and leaves every other target as it was.\<close>

lemma set_target_written:
  assumes "u \<in> set ALLOWED_TARGETS" "set_target repr pre u v tx = Inr tx'"
    "hd (target_segments u) = ''amount'' \<or> read_target (target_segments u) tx = None"
  shows "read_target (target_segments u) tx' = written repr (target_segments u) v"
proof -
  obtain h t ts where g: "target_segments u = h # t" "(h, ts) \<in> set TARGET_GROUPS" "t \<in> set ts"
    using target_segment[OF allowed_segment[OF assms(1)]] by blast
  show ?thesis
  proof (cases "h = ''amount''")
    case True
    then have t: "t \<in> set [[''amount_minor''], [''currency'']]" using g(2,3) amount_group by blast
    obtain a where "set_amount repr (hd t) v (tx_amount tx) = Inr a" "tx' = tx\<lparr>tx_amount := a\<rparr>"
      using set_target_amount[OF _ t assms(2)] g(1) True by auto
    then show ?thesis using t
      by (auto simp: g(1) True set_amount_def Let_def bindR_Inr read_target_def written_def)
  next
    case False
    have "tx' = set_text (h # t) (text_of_value repr v) pre tx" using assms(2) set_target_text[OF g(1) False] by simp
    then show ?thesis using read_set_text[OF g(2,3) False] assms(3) False by (simp add: g(1))
  qed
qed

lemma set_target_keeps:
  assumes "u \<in> set ALLOWED_TARGETS" "w \<in> set ALLOWED_TARGETS" "u \<noteq> w" "set_target repr pre w v tx = Inr tx'"
    "hd (target_segments u) \<noteq> ''amount'' \<or> tx_amount tx \<noteq> None"
  shows "read_target (target_segments u) tx' = read_target (target_segments u) tx"
proof -
  obtain h t ts where g: "target_segments u = h # t" "(h, ts) \<in> set TARGET_GROUPS" "t \<in> set ts"
    using target_segment[OF allowed_segment[OF assms(1)]] by blast
  obtain k r us where k: "target_segments w = k # r" "(k, us) \<in> set TARGET_GROUPS" "r \<in> set us"
    using target_segment[OF allowed_segment[OF assms(2)]] by blast
  have ne: "h # t \<noteq> k # r" using segments_inj[OF assms(1,2)] assms(3) g(1) k(1) by auto
  show ?thesis
  proof (cases "k = ''amount''")
    case True
    then have r: "r \<in> set [[''amount_minor''], [''currency'']]" using k(2,3) amount_group by blast
    obtain a where a: "set_amount repr (hd r) v (tx_amount tx) = Inr a" "tx' = tx\<lparr>tx_amount := a\<rparr>"
      using set_target_amount[OF _ r assms(4)] k(1) True by auto
    show ?thesis
    proof (cases "h = ''amount''")
      case False
      then show ?thesis by (simp add: g(1) a(2) read_target_def)
    next
      case h: True
      have t: "t \<in> set [[''amount_minor''], [''currency'']]" using g(2,3) h amount_group by blast
      obtain m where m: "tx_amount tx = Some m" using assms(5) g(1) h by auto
      from t r ne h True consider "t = [''amount_minor'']" "r = [''currency'']" | "t = [''currency'']" "r = [''amount_minor'']"
        unfolding list.set by (elim insertE emptyE) simp_all
      then show ?thesis
      proof cases
        case 1
        then have "tx_amount tx' = Some (m\<lparr>ma_currency := upper (take 3 (text_of_value repr v))\<rparr>)"
          using a m by (simp add: set_amount_def or_new_def)
        then show ?thesis using 1 m h by (simp add: g(1) read_target_def)
      next
        case 2
        then obtain n where "a = Some (m\<lparr>ma_amount_minor := n\<rparr>)"
          using a(1) m by (auto simp: set_amount_def or_new_def bindR_Inr)
        then show ?thesis using 2 m h by (simp add: g(1) a(2) read_target_def)
      qed
    qed
  next
    case False
    have tx': "tx' = set_text (k # r) (text_of_value repr v) pre tx" using assms(4) set_target_text[OF k(1) False] by simp
    show ?thesis
    proof (cases "h = k")
      case True
      then have "us = ts" using g(2) k(2) group_unique by blast
      then show ?thesis using read_set_text_other[OF g(2,3), of r] k(3) ne True by (simp add: g(1) tx')
    next
      case f: False
      then show ?thesis using read_set_text_head[OF g(2) f] by (simp add: g(1) tx')
    qed
  qed
qed

lemma read_Some_amount: "read_target (target_segments u) tx = Some x \<Longrightarrow>
    hd (target_segments u) \<noteq> ''amount'' \<or> tx_amount tx \<noteq> None"
  by (cases "tx_amount tx") (auto simp: read_target_def split: if_splits)

lemma map_fields_step:
  assumes "map_fields env pre record (fm # fms) tx = Inr (t, issues)"
  obtains issues' where "map_fields env pre record fms tx = Inr (t, issues')" "absent (get_value env record (fm_source fm))"
  | v tx' where "set_target (me_repr env) pre (fm_target fm) v tx = Inr tx'" "map_fields env pre record fms tx' = Inr (t, issues)"
      "\<not> absent (get_value env record (fm_source fm)) \<Longrightarrow>
         v = apply_transforms (MJson (get_value env record (fm_source fm))) (fm_transforms fm)"
  using assms by (auto simp: Let_def bindR_Inr split: if_splits option.splits prod.splits)

lemma map_fields_keeps:
  "map_fields env pre record fms tx = Inr (t, issues) \<Longrightarrow> u \<in> set ALLOWED_TARGETS \<Longrightarrow>
     list_all (\<lambda>fm. fm_target fm \<in> set ALLOWED_TARGETS \<and> fm_target fm \<noteq> u) fms \<Longrightarrow>
     read_target (target_segments u) tx = Some x \<Longrightarrow> read_target (target_segments u) t = Some x"
proof (induction fms arbitrary: tx issues)
  case (Cons fm fms)
  from Cons.prems(1) show ?case
  proof (cases rule: map_fields_step)
    case 1
    then show ?thesis using Cons by simp
  next
    case (2 v tx')
    have "read_target (target_segments u) tx' = Some x"
      using set_target_keeps[OF Cons.prems(2) _ _ 2(1) read_Some_amount[OF Cons.prems(4)]] Cons.prems(3,4) by auto
    then show ?thesis using Cons.IH[OF 2(2) Cons.prems(2)] Cons.prems(3) by simp
  qed
qed simp

lemma map_fields_stored:
  "map_fields env pre record fms tx = Inr (t, issues) \<Longrightarrow> list_all (\<lambda>fm. fm_target fm \<in> set ALLOWED_TARGETS) fms \<Longrightarrow>
     distinct (map fm_target fms) \<Longrightarrow> fm \<in> set fms \<Longrightarrow> \<not> absent (get_value env record (fm_source fm)) \<Longrightarrow>
     hd (target_segments (fm_target fm)) = ''amount'' \<or> read_target (target_segments (fm_target fm)) tx = None \<Longrightarrow>
     written (me_repr env) (target_segments (fm_target fm)) v \<noteq> None \<Longrightarrow>
     v = apply_transforms (MJson (get_value env record (fm_source fm))) (fm_transforms fm) \<Longrightarrow>
     read_target (target_segments (fm_target fm)) t = written (me_repr env) (target_segments (fm_target fm)) v"
proof (induction fms arbitrary: tx issues)
  case (Cons f fms)
  let ?seg = "target_segments (fm_target fm)"
  have fa: "fm_target f \<in> set ALLOWED_TARGETS" and fma: "fm_target fm \<in> set ALLOWED_TARGETS"
    using Cons.prems(2,4) by (auto simp: list_all_iff)
  from Cons.prems(1) show ?case
  proof (cases rule: map_fields_step)
    case 1
    then show ?thesis using Cons by auto
  next
    case (2 w tx')
    show ?thesis
    proof (cases "fm = f")
      case True
      then have "w = v" using 2(3) Cons.prems(5,8) by simp
      then have r: "read_target ?seg tx' = written (me_repr env) ?seg v"
        using set_target_written[OF fma, of "me_repr env" pre w tx tx'] 2(1) Cons.prems(6) True by simp
      obtain x where x: "written (me_repr env) ?seg v = Some x" using Cons.prems(7) by blast
      have "list_all (\<lambda>g. fm_target g \<in> set ALLOWED_TARGETS \<and> fm_target g \<noteq> fm_target fm) fms"
        using Cons.prems(2,3) True by (auto simp: list_all_iff image_iff)
      then show ?thesis using map_fields_keeps[OF 2(2) fma] r x by simp
    next
      case False
      then have i: "fm \<in> set fms" using Cons.prems(4) by simp
      then have "fm_target fm \<in> fm_target ` set fms" by (rule imageI)
      moreover have "fm_target f \<notin> fm_target ` set fms" using Cons.prems(3) by simp
      ultimately have ne: "fm_target fm \<noteq> fm_target f" by metis
      have "hd ?seg = ''amount'' \<or> read_target ?seg tx' = None"
      proof (cases "hd ?seg = ''amount''")
        case False
        then show ?thesis using set_target_keeps[OF fma fa ne 2(1)] Cons.prems(6) by simp
      qed simp
      then show ?thesis using Cons.IH[OF 2(2) _ _ i Cons.prems(5) _ Cons.prems(7,8)] Cons.prems(2,3) by simp
    qed
  qed
qed simp

lemma new_transaction_sel:
  "tx_instruction_id new_transaction = None" "tx_end_to_end_id new_transaction = None" "tx_transaction_id new_transaction = None"
  "tx_amount new_transaction = None" "tx_debtor new_transaction = None" "tx_creditor new_transaction = None"
  "tx_debtor_account new_transaction = None" "tx_creditor_account new_transaction = None"
  "tx_debtor_agent new_transaction = None" "tx_creditor_agent new_transaction = None" "tx_remittance new_transaction = None"
  by (simp_all add: new_transaction_def)

lemma new_transaction_unread: "read_target seg new_transaction = None"
  by (simp add: read_target_def new_transaction_sel read_party_def read_account_def read_agent_def Let_def)

lemma set_target_written_Some:
  "u \<in> set ALLOWED_TARGETS \<Longrightarrow> set_target repr pre u v tx = Inr tx' \<Longrightarrow> written repr (target_segments u) v \<noteq> None"
proof -
  assume u: "u \<in> set ALLOWED_TARGETS" and s: "set_target repr pre u v tx = Inr tx'"
  have "\<exists>m. to_minor v = Inr m" if e: "target_segments u = [''amount'', ''amount_minor'']"
    using set_target_amount[OF e _ s] by (auto simp: set_amount_def Let_def bindR_Inr)
  then show ?thesis by (auto simp: written_def)
qed

lemma map_fields_value_written:
  "map_fields env pre record fms tx = Inr (t, issues) \<Longrightarrow> list_all (\<lambda>fm. fm_target fm \<in> set ALLOWED_TARGETS) fms \<Longrightarrow>
     fm \<in> set fms \<Longrightarrow> \<not> absent (get_value env record (fm_source fm)) \<Longrightarrow>
     written (me_repr env) (target_segments (fm_target fm))
       (apply_transforms (MJson (get_value env record (fm_source fm))) (fm_transforms fm)) \<noteq> None"
proof (induction fms arbitrary: tx issues)
  case (Cons f fms)
  from Cons.prems(1) show ?case
  proof (cases rule: map_fields_step)
    case 1
    then show ?thesis using Cons by auto
  next
    case (2 w tx')
    then show ?thesis using Cons set_target_written_Some[OF _ 2(1)] by (cases "fm = f") auto
  qed
qed simp

lemma valid_definition:
  "mvn_valid (validate_mapping def) \<longleftrightarrow> mp_fields def \<noteq> [] \<and>
     \<not> (mp_source_format def = MF_CUSTOM_XML \<and> \<not> truthy (mp_record_selector def)) \<and>
     list_all (\<lambda>fm. fm_source fm \<noteq> [] \<and> fm_target fm \<in> set ALLOWED_TARGETS \<and>
       list_all (\<lambda>x. x \<in> fst ` set TRANSFORMS) (fm_transforms fm)) (mp_fields def) \<and>
     distinct (map fm_target (mp_fields def))"
proof -
  have n: "(if b then [x] else []) = [] \<longleftrightarrow> \<not> b" for b and x :: MappingIssue by simp
  show ?thesis by (auto simp: validate_mapping_def Let_def fields_errors_Nil n simp del: if_split)
qed

section \<open>A sample mapping\<close>

definition sample_field :: "string \<Rightarrow> string \<Rightarrow> FieldRequirement \<Rightarrow> string list \<Rightarrow> FieldMapping" where
  "sample_field source target required transforms =
     \<lparr>fm_source = source, fm_target = target, fm_required = required, fm_transforms = transforms, fm_default = None\<rparr>"

definition sample_mapping :: MappingDefinition where
  "sample_mapping = \<lparr>mp_version = ''1'', mp_source_format = MF_CSV, mp_record_selector = None,
     mp_fields = [sample_field ''ref'' ''end_to_end_id'' REQUIRED [''trim''],
       sample_field ''ccy'' ''amount.currency'' REQUIRED [''upper''],
       sample_field ''land'' ''creditor.postal_address.country'' OPTIONAL [''country_to_iso2''],
       sample_field ''line'' ''creditor.postal_address.address_lines'' OPTIONAL []]\<rparr>"

definition sample_source :: msource where
  "sample_source = RJson (JList [JObj [(''ref'', JStr '' E1 ''), (''ccy'', JStr ''eur''), (''land'', JStr ''Germany''),
     (''line'', JStr ''1 Main St, Berlin, DE'')], JObj [(''ccy'', JStr ''usd'')]])"

definition sample_mapping_env :: mapping_env where
  "sample_mapping_env = \<lparr>me_repr = (\<lambda>_. []), me_xpath = (\<lambda>_ _. XNumber), me_now = sample_time\<rparr>"

lemma sample_mapped:
  "case map_to_canonical sample_mapping_env sample_mapping sample_source of Inr r \<Rightarrow>
     (case fst (generate_candidate sample_repair_env cloudnova_analyzer build_address_ruleset (mr_message r) None ()) of
        Inr c \<Rightarrow> cd_changes c \<noteq> [] | Inl e \<Rightarrow> False) | Inl e \<Rightarrow> False"
  "extract_records sample_mapping_env sample_mapping sample_source = Inr
     [RJson (JObj [(''ref'', JStr '' E1 ''), (''ccy'', JStr ''eur''), (''land'', JStr ''Germany''), (''line'', JStr ''1 Main St, Berlin, DE'')]),
      RJson (JObj [(''ccy'', JStr ''usd'')])]"
  by code_simp+

lemma sample_valid: "mvn_valid (validate_mapping sample_mapping)"
  by code_simp

section \<open>Properties\<close>

text \<open>A mapping definition is accepted exactly when it has fields, a selector if it is XML, and every
  field a source, an allowed target used once, and registered transforms only.\<close>

theorem mapping_valid_iff:
  "mvn_valid (validate_mapping def) \<longleftrightarrow> mp_fields def \<noteq> [] \<and>
     \<not> (mp_source_format def = MF_CUSTOM_XML \<and> \<not> truthy (mp_record_selector def)) \<and>
     list_all (\<lambda>fm. fm_source fm \<noteq> [] \<and> fm_target fm \<in> set ALLOWED_TARGETS \<and>
       list_all (\<lambda>x. x \<in> fst ` set TRANSFORMS) (fm_transforms fm)) (mp_fields def) \<and>
     distinct (map fm_target (mp_fields def))"
  by (rule valid_definition)

text \<open>C32: A validated mapping loses nothing: for every record and every field whose source value is present,
  the transaction holds the transformed value at the field's target, whatever the other fields of
  the definition store before and after.\<close>

theorem mapped_values_stored:
  assumes "mvn_valid (validate_mapping def)" "map_to_canonical env def source = Inr r"
    "extract_records env def source = Inr records" "i < length records" "fm \<in> set (mp_fields def)"
    "\<not> absent (get_value env (records ! i) (fm_source fm))"
  shows "read_target (target_segments (fm_target fm)) (pm_transactions (mr_message r) ! i) =
    written (me_repr env) (target_segments (fm_target fm))
      (apply_transforms (MJson (get_value env (records ! i) (fm_source fm))) (fm_transforms fm)) \<and>
    read_target (target_segments (fm_target fm)) (pm_transactions (mr_message r) ! i) \<noteq> None"
proof -
  have v: "list_all (\<lambda>fm. fm_target fm \<in> set ALLOWED_TARGETS) (mp_fields def)" "distinct (map fm_target (mp_fields def))"
    using assms(1) unfolding valid_definition by (simp_all add: list_all_iff)
  obtain issues where m: "map_fields env (record_prefix i) (records ! i) (mp_fields def) new_transaction =
      Inr (pm_transactions (mr_message r) ! i, issues)"
    using mapped_records(2)[OF assms(2-4)] by blast
  have n: "read_target (target_segments (fm_target fm)) new_transaction = None"
    by (rule new_transaction_unread)
  note w = map_fields_value_written[OF m v(1) assms(5,6)]
  show ?thesis using map_fields_stored[OF m v assms(5,6) _ w refl] n w by simp
qed

theorem mapped_values_stored_witness:
  "\<exists>r. map_to_canonical sample_mapping_env sample_mapping sample_source = Inr r \<and>
     read_target [''end_to_end_id''] (pm_transactions (mr_message r) ! 0) = Some (RText ''E1'')"
proof -
  obtain r where r: "map_to_canonical sample_mapping_env sample_mapping sample_source = Inr r"
    using sample_mapped(1) by (auto split: sum.splits)
  let ?fm = "sample_field ''ref'' ''end_to_end_id'' REQUIRED [''trim'']"
  have f: "?fm \<in> set (mp_fields sample_mapping)" by (simp add: sample_mapping_def)
  have g: "get_value sample_mapping_env (RJson (JObj [(''ref'', JStr '' E1 ''), (''ccy'', JStr ''eur''), (''land'', JStr ''Germany''),
      (''line'', JStr ''1 Main St, Berlin, DE'')])) (fm_source ?fm) = JStr '' E1 ''" by code_simp
  have w: "written (me_repr sample_mapping_env) (target_segments (fm_target ?fm))
      (apply_transforms (MJson (JStr '' E1 '')) (fm_transforms ?fm)) = Some (RText ''E1'')" by code_simp
  have t: "target_segments (fm_target ?fm) = [''end_to_end_id'']" by code_simp
  show ?thesis
    using mapped_values_stored[OF sample_valid r sample_mapped(2) _ f, of 0] r w[unfolded t] by (simp add: g t absent_def)
qed

text \<open>A missing required field is always reported: the issues are one MAP-001 error per record and
  required field without a value, in order, and there is one transaction per record.\<close>

theorem required_fields_reported:
  assumes "map_to_canonical env def source = Inr r" "extract_records env def source = Inr records"
  shows "mr_issues r = concat (map (\<lambda>record. map missing_issue (required_missing env def record)) records) \<and>
    length (pm_transactions (mr_message r)) = length records"
proof -
  obtain rs where rs: "mapR (\<lambda>(i, x). map_fields env (record_prefix i) x (mp_fields def) new_transaction) (enumerate 0 records) = Inr rs"
    and r: "mr_issues r = concat (map snd rs)"
    using assms by (auto simp: map_to_canonical_Inr)
  have l: "length rs = length records" using mapR_Inr_length[OF rs] by simp
  have "snd (rs ! i) = map missing_issue (required_missing env def (records ! i))" if i: "i < length records" for i
  proof -
    have "map_fields env (record_prefix i) (records ! i) (mp_fields def) new_transaction = Inr (rs ! i)"
      using mapR_Inr_nth[OF rs, of i] i by (simp add: nth_enumerate_eq)
    then show ?thesis using map_fields_issues by (cases "rs ! i") (fastforce simp: required_missing_def)
  qed
  then have "map snd rs = map (\<lambda>record. map missing_issue (required_missing env def record)) records"
    using l by (intro nth_equalityI) simp_all
  then show ?thesis using r mapped_records(1)[OF assms] by simp
qed

theorem required_fields_reported_witness:
  "\<exists>r. map_to_canonical sample_mapping_env sample_mapping sample_source = Inr r \<and> length (pm_transactions (mr_message r)) = 2 \<and>
     length (mr_issues r) = 1"
proof -
  obtain r where r: "map_to_canonical sample_mapping_env sample_mapping sample_source = Inr r"
    using sample_mapped(1) by (auto split: sum.splits)
  have n: "length (concat (map (\<lambda>record. map missing_issue (required_missing sample_mapping_env sample_mapping record))
     [RJson (JObj [(''ref'', JStr '' E1 ''), (''ccy'', JStr ''eur''), (''land'', JStr ''Germany''), (''line'', JStr ''1 Main St, Berlin, DE'')]),
      RJson (JObj [(''ccy'', JStr ''usd'')])])) = 1"
    by code_simp
  from required_fields_reported[OF r sample_mapped(2)] r n show ?thesis by simp
qed

text \<open>Every transform, registered or not, is stable: applying it twice to a JSON or decimal value is
  applying it once.\<close>

theorem transforms_idempotent:
  "transform name (transform name (MJson j)) = transform name (MJson j) \<and>
   transform name (transform name (MDec d)) = transform name (MDec d)"
  by (simp add: transform_idem)

text \<open>A JSON path that is written from its tokens is read back as those tokens, and resolving it gives
  the values that the tokens reach in the data.\<close>

theorem json_path_roundtrip:
  assumes "list_all key_token ts"
  shows "tokenize (show_path ts) = ts \<and> resolve_json_path data (show_path ts) = values_at ts data"
proof -
  have "\<not> is_key_char CHR ''$''" "bracket_index (CHR ''$'' # x) = None" for x
    by (simp_all add: is_key_char_def is_alnum_def bracket_index_def)
  then have "tokenize (show_path ts) = ts"
    using tokenize_shown[OF assms] by (simp add: show_path_def starts_with_def)
  then show ?thesis by (simp add: resolve_json_path_def fold_step_token)
qed

theorem json_path_roundtrip_witness:
  "resolve_json_path (JObj [(''items'', JList [JInt 1, JObj [(''id'', JStr ''a'')]])]) ''$.items[1].id'' = [JStr ''a'']"
proof -
  have p: "show_path [JKey ''items'', JIndex 1, JKey ''id''] = ''$.items[1].id''" by code_simp
  have k: "list_all key_token [JKey ''items'', JIndex 1, JKey ''id'']" by code_simp
  from json_path_roundtrip[OF k, of "JObj [(''items'', JList [JInt 1, JObj [(''id'', JStr ''a'')]])]"] p
  show ?thesis by simp
qed

text \<open>An amount text that is not a number is stored as 0 when it is mapped as it is, but when the
  definition parses it as a decimal first, the text of a NaN or an infinity makes the whole mapping
  raise: only the text branch of the conversion catches exceptions.\<close>

theorem nan_amount_escapes:
  assumes "decimal_of_text (decimal_point t) = Some n" "n \<in> {NotANumber, Infinite False, Infinite True}"
  shows "\<exists>e. set_target repr pre ''amount.amount_minor'' (apply_transforms (MJson (JStr t)) [''parse_decimal'']) tx = Inl e \<and>
    (\<exists>tx' a. set_target repr pre ''amount.amount_minor'' (MJson (JStr t)) tx = Inr tx' \<and> tx_amount tx' = Some a \<and> ma_amount_minor a = 0)"
proof -
  have s: "target_segments ''amount.amount_minor'' = [''amount'', ''amount_minor'']" by code_simp
  have "apply_transforms (MJson (JStr t)) [''parse_decimal''] = MDec n"
    using assms(1) by (simp add: apply_transforms_def transform_def TRANSFORMS_def parse_decimal_def on_text_def)
  moreover have "minor_of_decimal (decimal_point t) = 0"
    using assms by (auto simp: minor_of_decimal_def)
  ultimately show ?thesis
    using assms(2) by (auto simp: set_target_def s set_amount_def to_minor_def decimal_minor_def Let_def)
qed

theorem nan_amount_escapes_witness:
  "\<exists>e. set_target (\<lambda>_. []) ''transactions[0]'' ''amount.amount_minor''
     (apply_transforms (MJson (JStr ''NaN'')) [''parse_decimal'']) new_transaction = Inl e"
proof -
  have "decimal_of_text (decimal_point ''NaN'') = Some NotANumber" by code_simp
  from nan_amount_escapes[OF this] show ?thesis by blast
qed

text \<open>Two-decimal amounts of a source are mapped to the exact number of cents below 10^28, written with
  a point or a comma and with or without the decimal transform.\<close>

theorem mapped_amount_exact:
  assumes "c < 10 ^ 28" "p \<in> {CHR ''.'', CHR '',''}"
  defines "t \<equiv> replace_char CHR ''.'' p (cents_text c)"
  shows "to_minor (MJson (JStr t)) = Inr (int c) \<and> to_minor (apply_transforms (MJson (JStr t)) [''parse_decimal'']) = Inr (int c)"
proof -
  have sp: "\<not> is_space x" if "x \<in> set t" for x
    using that assms(2) cents_no_space by (auto simp: t_def replace_char_def is_space_def split: if_splits)
  have "CHR '','' \<notin> set (cents_text c)" using cents_digits[of "CHR '',''" c] by (auto simp: is_digit_def)
  then have "replace_char CHR '','' CHR ''.'' t = cents_text c"
    using assms(2) by (auto simp: t_def replace_char_def intro!: map_idI)
  then have d: "decimal_point t = cents_text c" using sp by (simp add: decimal_point_def strip_no_space)
  have p: "dec28 (dval (mk_dec False c (-2)) * 100) = of_nat c" by (simp add: dval_cents dec28_int[OF assms(1)])
  have "\<not> 999999 < ilog 10 \<bar>of_nat c :: rat\<bar>" using ilog_28[OF assms(1)] by simp
  then have "decimal_minor (Finite (mk_dec False c (-2))) = Inr (int c)"
    using rhe_of_int[of "int c"] by (simp add: decimal_minor_def p Let_def)
  then show ?thesis
    using minor_of_cents[OF assms(1)]
    by (simp add: to_minor_def d apply_transforms_def transform_def TRANSFORMS_def parse_decimal_def on_text_def decimal_of_cents)
qed

theorem mapped_amount_exact_witness: "to_minor (MJson (JStr ''12,50'')) = Inr 1250"
proof -
  have "replace_char CHR ''.'' CHR '','' (cents_text 1250) = ''12,50''" by code_simp
  with mapped_amount_exact[of 1250 "CHR '',''"] show ?thesis by simp
qed

end
