(* ===== verification/PO_PipelineProps.thy ===== *)
theory PO_PipelineProps
  imports PO_Pipeline PO_MapProps PO_IsoProps
begin

text \<open>
  What the composition of the engines guarantees: both entry points agree on pacs.008 up to the time
  and the identifiers of their runs, the verdicts of a result are consistent, payments and reports
  are bounded, and only pacs.008 messages are ever repaired. A run takes its time and identifiers from
  one \<open>pipeline_env\<close>; \<open>rerun\<close> gives the environment of a second run.
\<close>

section \<open>Source paths of the adapters\<close>

lemma map_party_source: "map_party el path = Some p \<Longrightarrow> py_postal_address p = Some a \<Longrightarrow> pa_source_path a = Some (path @ ''/PstlAdr'')"
  by (auto simp: map_party_def map_address_def Let_def split: option.splits)

lemma map_agent_source: "map_agent el path = Some f \<Longrightarrow> fi_postal_address f = Some a \<Longrightarrow> pa_source_path a = Some (path @ ''/FinInstnId/PstlAdr'')"
  by (auto simp: map_agent_def map_address_def Let_def split: option.splits)

lemma snd_labelled: "a \<in> snd ` set (labelled l x) \<longleftrightarrow> x = Some a"
  by (auto simp: labelled_def split: option.splits)

text \<open>Every address of a transaction is that of a party or an agent.\<close>

lemma addresses_in:
  "a \<in> snd ` set (addresses tx) \<Longrightarrow>
     (\<exists>p. (tx_debtor tx = Some p \<or> tx_creditor tx = Some p) \<and> py_postal_address p = Some a) \<or>
     (\<exists>f. (tx_debtor_agent tx = Some f \<or> tx_creditor_agent tx = Some f) \<and> fi_postal_address f = Some a)"
  unfolding addresses_def set_append image_Un Un_iff snd_labelled bind_eq_Some_conv by blast

lemma element_segments:
  "CHR ''/'' \<notin> set ''CstmrCdtTrfInitn''" "CHR ''/'' \<notin> set ''FICdtTrf''" "CHR ''/'' \<notin> set ''PmtInf''" "CHR ''/'' \<notin> set ''CdtTrfTxInf''"
  "int_of_text (strip_brackets ''PmtInf'') = None" "int_of_text (strip_brackets ''CdtTrfTxInf'') = None"
  using int_of_element by simp_all

lemma pain001_source: "pa_source_path a = Some (''/CstmrCdtTrfInitn/PmtInf/'' @ r) \<Longrightarrow> unindexed_source a"
  by (rule unindexed_sourceI[of _ "''CstmrCdtTrfInitn''" "''PmtInf''" r]) (use element_segments in simp_all)

lemma pacs009_source: "pa_source_path a = Some (''/FICdtTrf/CdtTrfTxInf/'' @ r) \<Longrightarrow> unindexed_source a"
  by (rule unindexed_sourceI[of _ "''FICdtTrf''" "''CdtTrfTxInf''" r]) (use element_segments in simp_all)

lemma party_unindexed:
  assumes "map_party el path = Some p" "py_postal_address p = Some a"
    "path = ''/CstmrCdtTrfInitn/PmtInf/'' @ r \<or> path = ''/FICdtTrf/CdtTrfTxInf/'' @ r"
  shows "unindexed_source a"
  using map_party_source[OF assms(1,2)] assms(3) pain001_source[of a "r @ ''/PstlAdr''"] pacs009_source[of a "r @ ''/PstlAdr''"] by auto

lemma agent_unindexed:
  assumes "map_agent el path = Some f" "fi_postal_address f = Some a"
    "path = ''/CstmrCdtTrfInitn/PmtInf/'' @ r \<or> path = ''/FICdtTrf/CdtTrfTxInf/'' @ r"
  shows "unindexed_source a"
  using map_agent_source[OF assms(1,2)] assms(3) pain001_source[of a "r @ ''/FinInstnId/PstlAdr''"]
    pacs009_source[of a "r @ ''/FinInstnId/PstlAdr''"] by auto

definition no_index :: "PaymentTransaction \<Rightarrow> bool" where
  "no_index tx \<longleftrightarrow> (\<forall>a \<in> snd ` set (addresses tx). unindexed_source a)"

lemma no_indexI:
  assumes "\<And>p a. tx_debtor tx = Some p \<or> tx_creditor tx = Some p \<Longrightarrow> py_postal_address p = Some a \<Longrightarrow> unindexed_source a"
    "\<And>f a. tx_debtor_agent tx = Some f \<or> tx_creditor_agent tx = Some f \<Longrightarrow> fi_postal_address f = Some a \<Longrightarrow> unindexed_source a"
  shows "no_index tx"
  unfolding no_index_def using addresses_in assms by blast

lemma p1_transaction_sel:
  assumes "p1_map_transaction path debtor account agent reqd el = Inr tx"
  shows "tx_debtor tx = debtor" "tx_debtor_agent tx = agent"
    "tx_creditor tx = map_party (child (Some el) ''Cdtr'') (path @ ''/CdtTrfTxInf/Cdtr'')"
    "tx_creditor_agent tx = map_agent (child (Some el) ''CdtrAgt'') (path @ ''/CdtTrfTxInf/CdtrAgt'')"
  using assms by (auto simp: p1_map_transaction_def Let_def bindR_Inr)

lemma p9_transaction_sel:
  assumes "p9_map_transaction el = Inr tx"
  shows "tx_debtor tx = fi_party (child (Some el) ''Dbtr'') ''/FICdtTrf/CdtTrfTxInf/Dbtr''"
    "tx_creditor tx = fi_party (child (Some el) ''Cdtr'') ''/FICdtTrf/CdtTrfTxInf/Cdtr''"
    "tx_debtor_agent tx = map_agent (child (Some el) ''DbtrAgt'') ''/FICdtTrf/CdtTrfTxInf/DbtrAgt''"
    "tx_creditor_agent tx = map_agent (child (Some el) ''CdtrAgt'') ''/FICdtTrf/CdtTrfTxInf/CdtrAgt''"
  using assms by (auto simp: p9_map_transaction_def Let_def bindR_Inr)

lemma p1_block_no_index: "p1_map_block b = Inr txs \<Longrightarrow> tx \<in> set txs \<Longrightarrow> no_index tx"
proof -
  assume b: "p1_map_block b = Inr txs" and t: "tx \<in> set txs"
  let ?p = "''/CstmrCdtTrfInitn/PmtInf''"
  from b t obtain account reqd el where "p1_map_transaction ?p (map_party (child (Some b) ''Dbtr'') (?p @ ''/Dbtr''))
      account (map_agent (child (Some b) ''DbtrAgt'') (?p @ ''/DbtrAgt'')) reqd el = Inr tx"
    unfolding p1_map_block_def Let_def using mapR_in by fast
  note sel = p1_transaction_sel[OF this]
  show ?thesis
    by (rule no_indexI; unfold sel; elim disjE)
      (auto intro: party_unindexed[where r = "''Dbtr''"] party_unindexed[where r = "''CdtTrfTxInf/Cdtr''"]
        agent_unindexed[where r = "''DbtrAgt''"] agent_unindexed[where r = "''CdtTrfTxInf/CdtrAgt''"])
qed

lemma p9_no_index: "p9_map_transaction el = Inr tx \<Longrightarrow> no_index tx"
proof -
  assume t: "p9_map_transaction el = Inr tx"
  note sel = p9_transaction_sel[OF t]
  have "fi_party e path = Some p \<Longrightarrow> py_postal_address p = None" for e path p
    by (auto simp: fi_party_def Let_def split: option.splits)
  then show ?thesis
    by (intro no_indexI; unfold sel; elim disjE)
      (auto intro: agent_unindexed[where r = "''DbtrAgt''"] agent_unindexed[where r = "''CdtrAgt''"])
qed

lemma no_index_message: "list_all no_index (pm_transactions m) \<Longrightarrow> list_all unindexed_source (message_addresses m)"
  by (auto simp: message_addresses_def list_all_iff no_index_def)

lemma pain001_no_index:
  "map_pain001_to_canonical now rt v = Inr m \<Longrightarrow>
     list_all unindexed_source (message_addresses m) \<and> pm_source_format m = XML_PAIN_001"
proof -
  assume "map_pain001_to_canonical now rt v = Inr m"
  then obtain blocks where b: "mapR p1_map_block (children (child (Some rt) (ver_root_element v)) ''PmtInf'') = Inr blocks"
    and m: "pm_transactions m = concat blocks" "pm_source_format m = XML_PAIN_001"
    by (auto simp: map_pain001_to_canonical_def Let_def bindR_Inr mk_payment_message_def)
  have "no_index tx" if "tx \<in> set (concat blocks)" for tx
    using that mapR_in[OF b] p1_block_no_index by fastforce
  then show ?thesis using m by (intro conjI no_index_message) (auto simp: list_all_iff)
qed

lemma pacs009_no_index:
  "map_pacs009_to_canonical now rt v = Inr m \<Longrightarrow>
     list_all unindexed_source (message_addresses m) \<and> pm_source_format m = XML_PACS_009"
proof -
  assume "map_pacs009_to_canonical now rt v = Inr m"
  then obtain txs where b: "mapR p9_map_transaction (children (child (Some rt) (ver_root_element v)) ''CdtTrfTxInf'') = Inr txs"
    and m: "pm_transactions m = txs" "pm_source_format m = XML_PACS_009"
    by (auto simp: map_pacs009_to_canonical_def Let_def bindR_Inr mk_payment_message_def)
  have "no_index tx" if "tx \<in> set txs" for tx
    using that mapR_in[OF b] p9_no_index by fastforce
  then show ?thesis using m by (intro conjI no_index_message) (auto simp: list_all_iff)
qed

section \<open>Dispatch and results\<close>

lemma pacs008_resolved:
  assumes "identify_pacs008 rt = Inr v"
  shows "resolve_root build_default_registry rt = Inr (mk_registered (message_adapter map_pacs008_to_canonical) identify_pacs008 ''pacs'' v)"
    "ver_identifier v = ''pacs.008.001.08''"
proof -
  let ?m = "mk_registered (message_adapter map_pacs008_to_canonical) identify_pacs008 ''pacs'' v"
  from assms obtain t where v: "v = snd (hd SUPPORTED_PACS_008_VERSIONS)" and t: "x_tag rt = Some t"
    and st: "split_tag t = (ver_namespace v, ''Document'')" unfolding identify_pacs008_iff by blast
  have id: "ver_identifier v = ''pacs.008.001.08''" and ns: "ver_namespace v = ns20022 ''pacs.008.001.08''"
    by (simp_all add: v SUPPORTED_PACS_008_VERSIONS_def ns20022_def)
  then have "ver_namespace v \<noteq> []" by (simp add: ns20022_def)
  then have e: "extract_namespace rt = Some (ns20022 ''pacs.008.001.08'')"
    using t st ns by (auto simp: extract_namespace_def split_tag_def split: if_splits)
  have "map_of default_entries ''pacs.008.001.08'' = Some ?m"
    using id by (simp add: default_entries_def flip: v)
  then have "resolve_namespace build_default_registry (ns20022 ''pacs.008.001.08'') = Inr ?m"
    by (simp add: resolve_by_namespace)
  moreover have "ns20022 ''pacs.008.001.08'' \<noteq> []" by (simp add: ns20022_def)
  ultimately show "resolve_root build_default_registry rt = Inr ?m"
    by (simp add: resolve_root_def e dget_opt_def)
  show "ver_identifier v = ''pacs.008.001.08''" by (rule id)
qed

lemma xsd_issues: "validate_message schemas rt v = Inr x \<Longrightarrow> sv_valid x \<Longrightarrow> sv_issues x = []"
  by (auto simp: validate_message_def xsd_validate_def split: option.splits prod.splits if_splits)

lemma warnings_xsd: "XSD_WARNING \<in> set (result_warnings v c f) \<longleftrightarrow> \<not> v"
  by (auto simp: result_warnings_def XSD_WARNING_def split: option.splits)

lemma iso_base_sel:
  "ir_original_validation_status (iso_base env i meta xsd mv) = (if sv_valid xsd then ''valid'' else ''invalid'')"
  "ir_schema_validation (iso_base env i meta xsd mv) = sv_valid xsd"
  "ir_warnings (iso_base env i meta xsd mv) = (if sv_valid xsd then [] else [XSD_WARNING])"
  "ir_schema_issues (iso_base env i meta xsd mv) = schema_issues_of (Some xsd)"
  "ir_account_entry_count (iso_base env i meta xsd mv) = 0" "ir_account_reports (iso_base env i meta xsd mv) = []"
  "ir_address_analyses (iso_base env i meta xsd mv) = []" "ir_case_id (iso_base env i meta xsd mv) = i"
  "ir_message_version (iso_base env i meta xsd mv) = Some (im_message_version meta)"
  by (simp_all add: iso_base_def)

lemma analysis_result_sel:
  "ar_case_id (analysis_result env engine m xsd mt mv incl as c) = new_case_id env"
  "ar_message_version (analysis_result env engine m xsd mt mv incl as c) = mv"
  "ar_original_validation_status (analysis_result env engine m xsd mt mv incl as c) =
     (if (case xsd of None \<Rightarrow> True | Some x \<Rightarrow> sv_valid x) then ''valid'' else ''invalid'')"
  "ar_schema_issues (analysis_result env engine m xsd mt mv incl as c) = schema_issues_of xsd"
  "ar_warnings (analysis_result env engine m xsd mt mv incl as c) =
     result_warnings (case xsd of None \<Rightarrow> True | Some x \<Rightarrow> sv_valid x) c (list_ex aa_fallback (map snd as))"
  by (simp_all add: analysis_result_def Let_def)

lemma analyze_message_Inr:
  assumes "analyze_message env p m doc xsd mt mv rep incl s = (Inr r, s')"
  shows "\<exists>as c. r = analysis_result env (pp_rules_engine p) m xsd mt mv incl as c"
  using assms by (auto simp: analyze_message_def Let_def split: prod.splits sum.splits if_splits)

lemma analyze_Inr:
  assumes "analyze env p payload rep incl s = (Inr r, s')"
  shows "\<exists>doc v x m. secure_parse (pv_fromstring env) (pv_docinfo env) payload (pp_max_payload_bytes p) = Inr doc \<and>
    identify_pacs008 (sd_root doc) = Inr v \<and>
    validate_message (rv_schemas (pv_repair env)) (sd_root doc) (ver_identifier v) = Inr x \<and>
    map_pacs008_to_canonical (rv_now (pv_repair env)) (sd_root doc) v = Inr m \<and>
    analyze_message env p (with_status x m) (Some doc) (Some x) (Some (ver_identifier v)) (Some (ver_identifier v)) rep incl s = (Inr r, s')"
  using assms by (auto simp: analyze_def split: sum.splits)

lemma payment_result_Inr:
  assumes "iso_payment_result env p m meta x doc n s = (Inr i, s')"
  shows "\<exists>r. length (pm_transactions m) \<le> n \<and> analyze_message env p (with_status x m) (Some doc) (Some x)
      (Some (im_message_version meta)) (Some (im_message_version meta)) True False s = (Inr r, s') \<and>
    ir_case_id i = ar_case_id r \<and> ir_schema_validation i = sv_valid x \<and>
    ir_original_validation_status i = ar_original_validation_status r \<and> ir_schema_issues i = ar_schema_issues r \<and>
    ir_rule_findings i = ar_rule_findings r \<and> ir_address_analyses i = ar_address_analyses r \<and>
    ir_address_readiness i = ar_address_readiness r \<and> ir_repair_status i = ar_repair_status r \<and>
    ir_candidate_diff i = ar_candidate_diff r \<and> ir_candidate_validation_status i = ar_candidate_validation_status r \<and>
    ir_input_hash i = ar_input_hash r \<and> ir_warnings i = ar_warnings r \<and>
    ir_message_version i = Some (im_message_version meta) \<and>
    ir_correlation_profiles i = profile_from_message m \<and> ir_account_entry_count i = 0"
  using assms by (auto simp: iso_payment_result_def iso_base_sel split: if_splits prod.splits sum.splits)

lemma analyze_iso_Inr:
  assumes "analyze_iso env p registry payload n s = (Inr i, s')"
  obtains doc and reg :: RegisteredMessage and x a meta where
    "validate_message (rv_schemas (pv_repair env)) (sd_root doc) (mdf_version (reg_definition reg)) = Inr x"
    "(case a of AStatus report \<Rightarrow> (Inr (iso_status_result env report meta x), s)
      | AMessage m \<Rightarrow> iso_payment_result env p m meta x doc n s
      | AReport bundle \<Rightarrow> (iso_account_result env bundle meta x n, s)) = (Inr i, s')"
proof -
  obtain doc where d: "secure_parse (pv_fromstring env) (pv_docinfo env) payload (pp_max_payload_bytes p) = Inr doc"
    using assms by (cases "secure_parse (pv_fromstring env) (pv_docinfo env) payload (pp_max_payload_bytes p)") (auto simp: analyze_iso_def)
  obtain reg where r: "resolve_root registry (sd_root doc) = Inr reg"
    using assms d by (cases "resolve_root registry (sd_root doc)") (auto simp: analyze_iso_def)
  obtain x where x: "validate_message (rv_schemas (pv_repair env)) (sd_root doc) (mdf_version (reg_definition reg)) = Inr x"
    using assms d r by (cases "validate_message (rv_schemas (pv_repair env)) (sd_root doc) (mdf_version (reg_definition reg))")
      (auto simp: analyze_iso_def Let_def)
  obtain a where a: "reg_adapter reg (rv_now (pv_repair env)) (sd_root doc) (reg_version_obj reg) = Inr a"
    using assms d r x by (cases "reg_adapter reg (rv_now (pv_repair env)) (sd_root doc) (reg_version_obj reg)")
      (auto simp: analyze_iso_def Let_def)
  show ?thesis by (rule that[OF x]) (use assms d r x a in \<open>simp add: analyze_iso_def Let_def\<close>)
qed

section \<open>Two runs of one payload\<close>

text \<open>
  A second run draws its own time, case and candidate identifier; schemas, serializer, parser and hash
  function are the same.
\<close>

definition rerun :: "pydatetime \<Rightarrow> string \<Rightarrow> string \<Rightarrow> pipeline_env \<Rightarrow> pipeline_env" where
  "rerun now case_uuid candidate_uuid env = env\<lparr>pv_case_id := case_uuid,
     pv_repair := (pv_repair env)\<lparr>rv_now := now, rv_candidate_id := candidate_uuid\<rparr>\<rparr>"

lemma rerun_sel [simp]:
  "pv_fromstring (rerun now cu du env) = pv_fromstring env" "pv_docinfo (rerun now cu du env) = pv_docinfo env"
  "pv_sha256 (rerun now cu du env) = pv_sha256 env" "pv_dump (rerun now cu du env) = pv_dump env"
  "rv_schemas (pv_repair (rerun now cu du env)) = rv_schemas (pv_repair env)"
  "rv_serialize (pv_repair (rerun now cu du env)) = rv_serialize (pv_repair env)"
  "rv_now (pv_repair (rerun now cu du env)) = now" "pv_case_id (rerun now cu du env) = cu"
  by (simp_all add: rerun_def)

text \<open>The time of a run is in the mapped message and nowhere else.\<close>

lemma pacs008_other_time:
  "map_pacs008_to_canonical now rt v = Inr m \<Longrightarrow> map_pacs008_to_canonical now' rt v = Inr (m\<lparr>pm_received_at := now'\<rparr>)"
  by (auto simp: map_pacs008_to_canonical_def mk_payment_message_def Let_def bindR_Inr)

lemma pacs008_fails_anytime:
  "map_pacs008_to_canonical now rt v = Inl e \<Longrightarrow> map_pacs008_to_canonical now' rt v = Inl e"
  by (auto simp: map_pacs008_to_canonical_def Let_def bindR_Inl)

lemma received_ignored [simp]:
  "engine_evaluate engine (m\<lparr>pm_received_at := t\<rparr>) = engine_evaluate engine m"
  "message_addresses (m\<lparr>pm_received_at := t\<rparr>) = message_addresses m"
  by (simp_all add: engine_evaluate_def message_addresses_def)

lemma apply_change_received:
  "apply_change_to_message m c = Inr m' \<Longrightarrow>
     apply_change_to_message (m\<lparr>pm_received_at := t\<rparr>) c = Inr (m'\<lparr>pm_received_at := t\<rparr>)"
  by (auto simp: apply_change_to_message_def Let_def split: option.splits if_splits)

lemma apply_changes_received:
  "apply_to_message m cs = Inr m' \<Longrightarrow> apply_to_message (m\<lparr>pm_received_at := t\<rparr>) cs = Inr (m'\<lparr>pm_received_at := t\<rparr>)"
  by (induction m cs rule: apply_to_message.induct) (auto simp: bindR_Inr apply_change_received)

text \<open>Two candidates that differ at most in their identifier and time.\<close>

definition same_candidate :: "RepairCandidate \<Rightarrow> RepairCandidate \<Rightarrow> bool" where
  "same_candidate c d \<longleftrightarrow> d = c\<lparr>cd_candidate_id := cd_candidate_id d, cd_created_at := cd_created_at d\<rparr>"

lemma same_mk_candidate: "same_candidate (mk_candidate env ch x st sv fs n) (mk_candidate env' ch x st sv fs n)"
  by (simp add: same_candidate_def mk_candidate_def)

lemma xml_candidate_rerun:
  assumes "xml_candidate (pv_repair env) engine rt ch = Inr c"
  shows "\<exists>d. xml_candidate (pv_repair (rerun now cu du env)) engine rt ch = Inr d \<and> same_candidate c d"
proof -
  from assms obtain rt' applied v x m where r: "apply_changes rt ch = Inr (rt', applied)" "identify_pacs008 rt' = Inr v"
    "validate_message (rv_schemas (pv_repair env)) rt' (ver_identifier v) = Inr x"
    "map_pacs008_to_canonical (rv_now (pv_repair env)) rt' v = Inr m"
    and c: "c = mk_candidate (pv_repair env) applied (Some (rv_serialize (pv_repair env) rt'))
      (if sv_valid x \<and> \<not> blocking_findings (engine_evaluate engine m) then VALIDATED else CS_REVIEW_REQUIRED)
      (Some x) (engine_evaluate engine m) None"
    by (auto simp: xml_candidate_def bindR_Inr Let_def)
  show ?thesis
    unfolding c by (simp add: xml_candidate_def r pacs008_other_time[OF r(4)] Let_def same_mk_candidate del: if_split)
qed

lemma model_candidate_rerun:
  assumes "model_candidate (pv_repair env) engine m ch = Inr c"
  shows "\<exists>d. model_candidate (pv_repair (rerun now cu du env)) engine (m\<lparr>pm_received_at := t\<rparr>) ch = Inr d \<and> same_candidate c d"
proof -
  from assms obtain m' where m': "apply_to_message m ch = Inr m'"
    and c: "c = mk_candidate (pv_repair env) ch None
      (if blocking_findings (engine_evaluate engine m') then CS_REVIEW_REQUIRED else VALIDATED) None (engine_evaluate engine m') None"
    by (auto simp: model_candidate_def bindR_Inr Let_def)
  show ?thesis
    unfolding c by (simp add: model_candidate_def apply_changes_received[OF m'] Let_def same_mk_candidate del: if_split)
qed

lemma generate_candidate_rerun:
  assumes "generate_candidate (pv_repair env) an engine m doc s = (Inr c, s')"
  shows "\<exists>d. generate_candidate (pv_repair (rerun now cu du env)) an engine (m\<lparr>pm_received_at := t\<rparr>) doc s = (Inr d, s') \<and> same_candidate c d"
proof -
  obtain ch s1 where ch: "collect_changes an (message_addresses m) s = (Inr ch, s1)"
    using assms by (auto simp: generate_candidate_def split: prod.splits sum.splits)
  consider (none) "ch = []" | (xml) d where "ch \<noteq> []" "doc = Some d" "pm_source_format m = XML_PACS_008"
    | (model) "ch \<noteq> []" "doc = None \<or> pm_source_format m \<noteq> XML_PACS_008" by (cases doc) auto
  then show ?thesis
  proof cases
    case none
    then show ?thesis using assms ch by (auto simp: generate_candidate_def same_mk_candidate)
  next
    case xml
    then have "xml_candidate (pv_repair env) engine (sd_root d) ch = Inr c" "s' = s1"
      using assms ch by (auto simp: generate_candidate_def)
    with xml_candidate_rerun[OF this(1)] xml ch show ?thesis by (auto simp: generate_candidate_def)
  next
    case model
    then have "model_candidate (pv_repair env) engine m ch = Inr c" "s' = s1"
      using assms ch by (auto simp: generate_candidate_def split: option.splits if_splits)
    with model_candidate_rerun[OF this(1)] model ch show ?thesis by (auto simp: generate_candidate_def split: option.split)
  qed
qed

text \<open>Two results of one payload: they differ at most in the case, the time and the input hash.\<close>

definition same_analysis :: "AnalysisResult \<Rightarrow> AnalysisResult \<Rightarrow> bool" where
  "same_analysis r q \<longleftrightarrow>
     q = r\<lparr>ar_case_id := ar_case_id q, ar_processed_at := ar_processed_at q, ar_input_hash := ar_input_hash q\<rparr>"

lemma analysis_result_rerun:
  "rel_option same_candidate c d \<Longrightarrow>
     same_analysis (analysis_result env engine m xsd mt mv incl as c)
       (analysis_result (rerun now cu du env) engine (m\<lparr>pm_received_at := t\<rparr>) xsd mt mv incl as d)"
proof -
  have sel: "cd_status y = cd_status x \<and> cd_changes y = cd_changes x \<and> cd_xml y = cd_xml x" if "same_candidate x y" for x y
    by (subst that[unfolded same_candidate_def], simp)+
  assume "rel_option same_candidate c d"
  then consider "c = None" "d = None" | x y where "c = Some x" "d = Some y" "same_candidate x y" by (cases c; cases d) auto
  then show ?thesis
    by cases (use sel in \<open>simp_all add: same_analysis_def analysis_result_def result_warnings_def Let_def\<close>)
qed

lemma analyze_message_rerun:
  assumes "analyze_message env p m doc xsd mt mv rep incl s = (Inr r, s')"
  shows "\<exists>q. analyze_message (rerun now cu du env) p (m\<lparr>pm_received_at := t\<rparr>) doc xsd mt mv rep incl s = (Inr q, s') \<and>
    same_analysis r q \<and> ar_case_id q = ''case-'' @ take 16 cu \<and>
    ar_input_hash r = Some (message_hash env (AMessage m)) \<and>
    ar_input_hash q = Some (message_hash env (AMessage (m\<lparr>pm_received_at := t\<rparr>)))"
proof -
  obtain as s1 where as: "analyze_addresses (pp_analyze p) (concat (map addresses (pm_transactions m))) s = (Inr as, s1)"
    using assms by (auto simp: analyze_message_def split: prod.splits sum.splits)
  have hash: "ar_input_hash (analysis_result e engine k xsd mt mv incl as c) = Some (message_hash e (AMessage k))"
    and case_: "ar_case_id (analysis_result e engine k xsd mt mv incl as c) = ''case-'' @ take 16 (pv_case_id e)"
    for e engine k c by (simp_all add: analysis_result_def new_case_id_def Let_def)
  have msg: "message_hash (rerun now cu du env) a = message_hash env a" for a by (simp add: message_hash_def)
  show ?thesis
  proof (cases rep)
    case True
    then obtain c where c: "generate_candidate (pv_repair env) (pp_analyze p) (pp_rules_engine p) m doc s1 = (Inr c, s')"
      and r: "r = analysis_result env (pp_rules_engine p) m xsd mt mv incl as (Some c)"
      using assms as by (auto simp: analyze_message_def Let_def split: prod.splits sum.splits)
    from generate_candidate_rerun[OF c] obtain d where
      d: "generate_candidate (pv_repair (rerun now cu du env)) (pp_analyze p) (pp_rules_engine p) (m\<lparr>pm_received_at := t\<rparr>) doc s1 = (Inr d, s')"
      "same_candidate c d" by blast
    have "same_analysis r (analysis_result (rerun now cu du env) (pp_rules_engine p) (m\<lparr>pm_received_at := t\<rparr>) xsd mt mv incl as (Some d))"
      unfolding r by (rule analysis_result_rerun) (simp add: d(2))
    then show ?thesis using True as d(1) by (simp add: analyze_message_def r hash case_ msg)
  next
    case False
    then have r: "r = analysis_result env (pp_rules_engine p) m xsd mt mv incl as None" "s' = s1"
      using assms as by (auto simp: analyze_message_def Let_def)
    have "same_analysis r (analysis_result (rerun now cu du env) (pp_rules_engine p) (m\<lparr>pm_received_at := t\<rparr>) xsd mt mv incl as None)"
      unfolding r by (rule analysis_result_rerun) simp
    then show ?thesis using False as by (simp add: analyze_message_def r hash case_ msg)
  qed
qed

section \<open>A sample pipeline\<close>

definition sample_pacs008 :: xml where
  "sample_pacs008 = Node (Some (''{'' @ ns20022 ''pacs.008.001.08'' @ ''}Document'')) [] None (x_kids sample_doc) None"

definition sample_pipeline_env :: pipeline_env where
  "sample_pipeline_env = \<lparr>pv_repair = sample_repair_env\<lparr>rv_schemas := (\<lambda>_. Some (\<lambda>_. (True, [])))\<rparr>,
     pv_case_id = ''0123456789abcdef'', pv_sha256 = (\<lambda>_. []), pv_dump = (\<lambda>_. []),
     pv_fromstring = (\<lambda>_. Inr sample_pacs008), pv_docinfo = (\<lambda>_. None)\<rparr>"

definition sample_pipeline :: "unit pipeline" where
  "sample_pipeline = \<lparr>pp_analyze = cloudnova_analyzer, pp_rules_engine = build_address_ruleset, pp_max_payload_bytes = 1000\<rparr>"

lemma sample_analyzed:
  "case fst (analyze sample_pipeline_env sample_pipeline (Some ''x'') True False ()) of Inr r \<Rightarrow> True | Inl e \<Rightarrow> False"
  "case fst (analyze_iso sample_pipeline_env sample_pipeline build_default_registry (Some ''x'') 5 ()) of Inr r \<Rightarrow> True | Inl e \<Rightarrow> False"
  by code_simp+

text \<open>The same payload an hour later.\<close>

definition later_time :: pydatetime where
  "later_time = sample_time\<lparr>t_hour := 10\<rparr>"

lemma sample_analyzed_again:
  "case fst (analyze_iso (rerun later_time ''fedcba9876543210'' ''0'' sample_pipeline_env) sample_pipeline
     build_default_registry (Some ''x'') 5 ()) of Inr r \<Rightarrow> True | Inl e \<Rightarrow> False"
  by code_simp

lemma Inr_result: "case fst x of Inr r \<Rightarrow> True | Inl e \<Rightarrow> False \<Longrightarrow> \<exists>r. x = (Inr r, ())"
  by (cases x) (auto split: sum.splits)

section \<open>Properties\<close>

text \<open>Only pacs.008 messages are repaired: for a message of the mapping engine, a pain.001 or a pacs.009,
  whatever source, provider and rules, a candidate with changes applies none of them, because the
  source paths do not have the transaction index in the segment where the repair engine looks for
  it; the candidate is judged by the findings of the unchanged message.\<close>

theorem repair_only_pacs008:
  assumes "(\<exists>menv def source r. map_to_canonical menv def source = Inr r \<and> m = mr_message r) \<or>
      (\<exists>now rt v. map_pain001_to_canonical now rt v = Inr m) \<or> (\<exists>now rt v. map_pacs009_to_canonical now rt v = Inr m)"
    "generate_candidate env prov engine m doc s = (Inr c, s')" "cd_changes c \<noteq> []"
  shows "apply_to_message m (cd_changes c) = Inr m \<and> cd_rule_findings c = engine_evaluate engine m"
proof -
  have "list_all unindexed_source (message_addresses m) \<and> pm_source_format m \<noteq> XML_PACS_008"
    using assms(1)
  proof (elim disjE exE conjE)
    fix menv def source r assume "map_to_canonical menv def source = Inr r" "m = mr_message r"
    then show ?thesis using message_from_mapping mapped_format by simp
  next
    fix now rt v assume "map_pain001_to_canonical now rt v = Inr m"
    then show ?thesis using pain001_no_index by fastforce
  next
    fix now rt v assume "map_pacs009_to_canonical now rt v = Inr m"
    then show ?thesis using pacs009_no_index by fastforce
  qed
  then show ?thesis using unindexed_candidate[OF _ _ assms(2,3)] by blast
qed

theorem repair_only_pacs008_witness:
  "\<exists>r c. map_to_canonical sample_mapping_env sample_mapping sample_source = Inr r \<and>
     fst (generate_candidate sample_repair_env cloudnova_analyzer build_address_ruleset (mr_message r) None ()) = Inr c \<and>
     cd_changes c \<noteq> [] \<and> apply_to_message (mr_message r) (cd_changes c) = Inr (mr_message r)"
proof -
  obtain r c where r: "map_to_canonical sample_mapping_env sample_mapping sample_source = Inr r"
    and c: "fst (generate_candidate sample_repair_env cloudnova_analyzer build_address_ruleset (mr_message r) None ()) = Inr c"
    "cd_changes c \<noteq> []"
    using sample_mapped(1) by (auto split: sum.splits)
  then have g: "generate_candidate sample_repair_env cloudnova_analyzer build_address_ruleset (mr_message r) None () = (Inr c, ())"
    by (metis old.unit.exhaust prod.collapse)
  from repair_only_pacs008[OF _ g c(2)] r c show ?thesis by blast
qed

text \<open>C33: Both entry points agree on pacs.008, each run with its own time and its own identifiers: when the
  pacs.008 analysis with repair and the registry-based analysis both give a result for a payload and the
  same provider state, the provider ends in the same state and the verdicts, findings, address
  analyses, repair status, diff, warnings and message version are equal. The case identifiers are those
  each run drew. The input hashes are those of one message with the two reception times, so that they are
  equal when the times are and need not be otherwise.\<close>

theorem entry_points_agree:
  assumes "analyze env p payload True False s = (Inr r, s1)"
    "analyze_iso (rerun now case_uuid candidate_uuid env) p build_default_registry payload n s = (Inr i, s2)"
  shows "s2 = s1 \<and> ir_original_validation_status i = ar_original_validation_status r \<and>
    ir_schema_issues i = ar_schema_issues r \<and> ir_rule_findings i = ar_rule_findings r \<and>
    ir_address_analyses i = ar_address_analyses r \<and> ir_address_readiness i = ar_address_readiness r \<and>
    ir_repair_status i = ar_repair_status r \<and> ir_candidate_diff i = ar_candidate_diff r \<and>
    ir_candidate_validation_status i = ar_candidate_validation_status r \<and>
    ir_warnings i = ar_warnings r \<and> ir_message_version i = ar_message_version r \<and>
    ar_case_id r = ''case-'' @ take 16 (pv_case_id env) \<and> ir_case_id i = ''case-'' @ take 16 case_uuid \<and>
    (\<exists>m. pm_received_at m = rv_now (pv_repair env) \<and> ar_input_hash r = Some (message_hash env (AMessage m)) \<and>
       ir_input_hash i = Some (message_hash env (AMessage (m\<lparr>pm_received_at := now\<rparr>)))) \<and>
    (now = rv_now (pv_repair env) \<longrightarrow> ir_input_hash i = ar_input_hash r)"
proof -
  let ?env = "rerun now case_uuid candidate_uuid env"
  obtain doc v x m where a: "secure_parse (pv_fromstring env) (pv_docinfo env) payload (pp_max_payload_bytes p) = Inr doc"
      "identify_pacs008 (sd_root doc) = Inr v"
      "validate_message (rv_schemas (pv_repair env)) (sd_root doc) (ver_identifier v) = Inr x"
      "map_pacs008_to_canonical (rv_now (pv_repair env)) (sd_root doc) v = Inr m"
    and r: "analyze_message env p (with_status x m) (Some doc) (Some x) (Some (ver_identifier v)) (Some (ver_identifier v))
      True False s = (Inr r, s1)"
    using analyze_Inr[OF assms(1)] by blast
  have received: "pm_received_at (with_status x m) = rv_now (pv_repair env)"
    using a(4) by (auto simp: map_pacs008_to_canonical_def mk_payment_message_def with_status_def Let_def bindR_Inr)
  have later: "with_status x (m\<lparr>pm_received_at := now\<rparr>) = (with_status x m)\<lparr>pm_received_at := now\<rparr>" by (simp add: with_status_def)
  obtain meta where i: "iso_payment_result ?env p (m\<lparr>pm_received_at := now\<rparr>) meta x doc n s = (Inr i, s2)"
    and meta: "im_message_version meta = ver_identifier v"
    using assms(2)
    by (auto simp: analyze_iso_def a pacs008_other_time[OF a(4)] pacs008_resolved(1)[OF a(2)] mk_registered_def
        message_adapter_def Let_def build_metadata_def)
  obtain q where q: "analyze_message ?env p ((with_status x m)\<lparr>pm_received_at := now\<rparr>) (Some doc) (Some x) (Some (ver_identifier v))
      (Some (ver_identifier v)) True False s = (Inr q, s1)" "same_analysis r q" "ar_case_id q = ''case-'' @ take 16 case_uuid"
    and hash: "ar_input_hash r = Some (message_hash env (AMessage (with_status x m)))"
      "ar_input_hash q = Some (message_hash env (AMessage ((with_status x m)\<lparr>pm_received_at := now\<rparr>)))"
    using analyze_message_rerun[OF r] by blast
  have same: "ar_original_validation_status q = ar_original_validation_status r \<and> ar_schema_issues q = ar_schema_issues r \<and>
      ar_rule_findings q = ar_rule_findings r \<and> ar_address_analyses q = ar_address_analyses r \<and>
      ar_address_readiness q = ar_address_readiness r \<and> ar_repair_status q = ar_repair_status r \<and>
      ar_candidate_diff q = ar_candidate_diff r \<and> ar_candidate_validation_status q = ar_candidate_validation_status r \<and>
      ar_warnings q = ar_warnings r \<and> ar_message_version q = ar_message_version r"
    by (subst q(2)[unfolded same_analysis_def], simp)+
  have equal: "ar_input_hash q = ar_input_hash r" if "now = rv_now (pv_repair env)"
    unfolding hash that received[symmetric] by simp
  from payment_result_Inr[OF i] q(1) meta have iq: "s2 = s1" "ir_case_id i = ar_case_id q"
    "ir_original_validation_status i = ar_original_validation_status q"
    "ir_schema_issues i = ar_schema_issues q" "ir_rule_findings i = ar_rule_findings q"
    "ir_address_analyses i = ar_address_analyses q" "ir_address_readiness i = ar_address_readiness q"
    "ir_repair_status i = ar_repair_status q" "ir_candidate_diff i = ar_candidate_diff q"
    "ir_candidate_validation_status i = ar_candidate_validation_status q" "ir_input_hash i = ar_input_hash q"
    "ir_warnings i = ar_warnings q" "ir_message_version i = Some (ver_identifier v)"
    by (auto simp: later)
  have rv: "ar_message_version r = Some (ver_identifier v)" "ar_case_id r = ''case-'' @ take 16 (pv_case_id env)"
    using analyze_message_Inr[OF r] by (auto simp: analysis_result_sel new_case_id_def)
  show ?thesis using iq same rv q(3) hash received equal by auto
qed

theorem entry_points_agree_witness:
  "\<exists>r i. analyze sample_pipeline_env sample_pipeline (Some ''x'') True False () = (Inr r, ()) \<and>
     analyze_iso (rerun later_time ''fedcba9876543210'' ''0'' sample_pipeline_env) sample_pipeline build_default_registry
       (Some ''x'') 5 () = (Inr i, ()) \<and>
     ir_candidate_diff i = ar_candidate_diff r \<and> ir_case_id i = ''case-fedcba9876543210''"
proof -
  obtain r i where r: "analyze sample_pipeline_env sample_pipeline (Some ''x'') True False () = (Inr r, ())"
    and i: "analyze_iso (rerun later_time ''fedcba9876543210'' ''0'' sample_pipeline_env) sample_pipeline build_default_registry
      (Some ''x'') 5 () = (Inr i, ())"
    using Inr_result[OF sample_analyzed(1)] Inr_result[OF sample_analyzed_again] by blast
  from entry_points_agree[OF r i] r i show ?thesis by simp
qed

text \<open>The verdicts of a registry-based result are consistent and its size is bounded: the status is valid
  exactly when the schema verdict is, the schema warning is there exactly when it is not, a valid
  message has no schema issues, and there are at most max_transactions account entries, and as many
  correlation profiles when the message is a payment.\<close>

theorem iso_result_consistent:
  assumes "analyze_iso env p registry payload n s = (Inr i, s')"
  shows "(ir_original_validation_status i = ''valid'') = ir_schema_validation i \<and>
    (XSD_WARNING \<in> set (ir_warnings i)) = (\<not> ir_schema_validation i) \<and>
    (ir_schema_validation i \<longrightarrow> ir_schema_issues i = []) \<and>
    ir_account_entry_count i \<le> n \<and>
    (ir_repair_status i \<noteq> None \<longrightarrow> length (ir_correlation_profiles i) \<le> n)"
proof -
  obtain doc and reg :: RegisteredMessage and x a meta where x: "validate_message (rv_schemas (pv_repair env)) (sd_root doc) (mdf_version (reg_definition reg)) = Inr x"
    and c: "(case a of AStatus report \<Rightarrow> (Inr (iso_status_result env report meta x), s)
      | AMessage m \<Rightarrow> iso_payment_result env p m meta x doc n s
      | AReport bundle \<Rightarrow> (iso_account_result env bundle meta x n, s)) = (Inr i, s')"
    using analyze_iso_Inr[OF assms] by metis
  note si = xsd_issues[OF x]
  show ?thesis
  proof (cases a)
    case (AMessage m)
    then obtain r where r: "length (pm_transactions m) \<le> n" "analyze_message env p (with_status x m) (Some doc) (Some x)
        (Some (im_message_version meta)) (Some (im_message_version meta)) True False s = (Inr r, s')"
      "ir_schema_validation i = sv_valid x" "ir_original_validation_status i = ar_original_validation_status r"
      "ir_schema_issues i = ar_schema_issues r" "ir_warnings i = ar_warnings r"
      "ir_correlation_profiles i = profile_from_message m" "ir_account_entry_count i = 0"
      using c payment_result_Inr by fastforce
    from analyze_message_Inr[OF r(2)] r si show ?thesis
      by (auto simp: analysis_result_sel warnings_xsd schema_issues_of_def profile_from_message_def)
  next
    case (AStatus report)
    then have "i = iso_status_result env report meta x" using c by simp
    then show ?thesis using si by (simp add: iso_status_result_def iso_base_sel schema_issues_of_def) (simp add: iso_base_def)
  next
    case (AReport b)
    then have "iso_account_result env b meta x n = Inr i" using c by simp
    then show ?thesis using si
      by (auto simp: iso_account_result_def iso_base_sel schema_issues_of_def split: if_splits) (simp_all add: iso_base_def)
  qed
qed

theorem iso_result_consistent_witness:
  "\<exists>i. analyze_iso sample_pipeline_env sample_pipeline build_default_registry (Some ''x'') 5 () = (Inr i, ()) \<and>
     ir_account_entry_count i \<le> 5"
proof -
  obtain i where i: "analyze_iso sample_pipeline_env sample_pipeline build_default_registry (Some ''x'') 5 () = (Inr i, ())"
    using Inr_result[OF sample_analyzed(2)] by blast
  show ?thesis using iso_result_consistent[OF i] i by blast
qed

end
