(* ===== verification/PO_Store.thy ===== *)
theory PO_Store
  imports PO_Decimal "HOL-Library.Multiset"
begin

text \<open>
  What the services use of the database session (SQLAlchemy over PostgreSQL). A table is the
  list of its rows in the order of their insertion. The order in which a query without
  \<open>order_by\<close> returns rows is not defined by the sources: it is the parameter \<open>scan\<close>, which gives
  for a table of \<open>n\<close> rows the order of their positions; \<open>scan_ok\<close> says that it lists every
  position once. Primary keys are drawn from the parameter \<open>uid\<close>, the \<open>n\<close>-th value of \<open>uuid4\<close>.

  The locale \<open>tenant_get\<close> is the contract of the lookups of one row of a tenant: what is found
  belongs to the tenant, what is absent is a \<open>LookupError\<close>, and rows of other tenants change
  nothing. Every lookup of the services is an instance, through \<open>get_one_tenant\<close>.
\<close>

section \<open>Queries\<close>

type_synonym scan = "nat \<Rightarrow> nat list"

type_synonym uuids = "nat \<Rightarrow> string"

definition scan_ok :: "scan \<Rightarrow> bool" where
  "scan_ok scan \<longleftrightarrow> (\<forall>n. mset (scan n) = mset [0..<n])"

text \<open>The scan of a heap in insertion order.\<close>

definition heap_scan :: scan where
  "heap_scan n = [0..<n]"

definition table_rows :: "scan \<Rightarrow> 'a list \<Rightarrow> 'a list" where
  "table_rows scan rows = map ((!) rows) (scan (length rows))"

definition select_where :: "scan \<Rightarrow> ('a \<Rightarrow> bool) \<Rightarrow> 'a list \<Rightarrow> 'a list" where
  "select_where scan P rows = filter P (table_rows scan rows)"

text \<open>\<open>order_by(key.desc())\<close>; rows with equal keys keep the order of the scan.\<close>

definition order_by_desc :: "('a \<Rightarrow> 'b::linorder) \<Rightarrow> 'a list \<Rightarrow> 'a list" where
  "order_by_desc key rows = sort_desc key rows"

text \<open>\<open>scalar_one_or_none\<close> raises when the query returned more than one row.\<close>

definition scalar_one_or_none :: "'a list \<Rightarrow> 'a option res" where
  "scalar_one_or_none rows =
     (case rows of [] \<Rightarrow> Inr None | [r] \<Rightarrow> Inr (Some r) | _ \<Rightarrow> Inl MultipleResultsFound)"

definition scalars_first :: "'a list \<Rightarrow> 'a option" where
  "scalars_first rows = (case rows of [] \<Rightarrow> None | r # _ \<Rightarrow> Some r)"

text \<open>
  The lookup all services share: the one row with a property, or \<open>LookupError\<close> with a message.
\<close>

definition get_one :: "scan \<Rightarrow> ('a \<Rightarrow> bool) \<Rightarrow> string \<Rightarrow> 'a list \<Rightarrow> 'a res" where
  "get_one scan P msg rows =
     bindR (scalar_one_or_none (select_where scan P rows))
       (\<lambda>r. case r of None \<Rightarrow> Inl (LookupError msg) | Some row \<Rightarrow> Inr row)"

text \<open>Changing the attributes of a loaded row changes the rows with its primary key.\<close>

definition update_rows :: "('a \<Rightarrow> bool) \<Rightarrow> ('a \<Rightarrow> 'a) \<Rightarrow> 'a list \<Rightarrow> 'a list" where
  "update_rows P f rows = map (\<lambda>r. if P r then f r else r) rows"

text \<open>
  The parameters of one database: the scan order, the generated keys, and what storing a decimal
  in a \<open>NUMERIC(24, 6)\<close> column and reading it back gives (rounding, or a refusal).
\<close>

record Db =
  db_scan :: scan
  db_uid :: uuids
  db_numeric :: "pydec \<Rightarrow> pydec res"

text \<open>The instant of an aware datetime, in microseconds; the services always use UTC.\<close>

definition dt_instant :: "pydatetime \<Rightarrow> int" where
  "dt_instant t = (((int (ordinal (t_date t)) * 24 + int (t_hour t)) * 60 + int (t_minute t)) * 60
     + int (t_second t)) * 1000000 + int (t_micro t)
     - (case t_offset t of None \<Rightarrow> 0 | Some z \<Rightarrow> z * 1000000)"

section \<open>Facts about queries\<close>

lemma heap_scan_ok [simp]: "scan_ok heap_scan"
  by (simp add: scan_ok_def heap_scan_def)

lemma table_rows_heap [simp]: "table_rows heap_scan rows = rows"
  by (simp add: table_rows_def heap_scan_def map_nth)

lemma mset_table_rows: "scan_ok scan \<Longrightarrow> mset (table_rows scan rows) = mset rows"
proof -
  assume "scan_ok scan"
  then have "mset (table_rows scan rows) = image_mset ((!) rows) (mset [0..<length rows])"
    by (simp add: table_rows_def scan_ok_def)
  also have "\<dots> = mset rows"
    by (metis map_nth mset_map)
  finally show ?thesis .
qed

lemma mset_select_where:
  "scan_ok scan \<Longrightarrow> mset (select_where scan P rows) = mset (filter P rows)"
  by (simp add: select_where_def mset_table_rows)

lemma set_select_where: "scan_ok scan \<Longrightarrow> set (select_where scan P rows) = {r \<in> set rows. P r}"
  by (metis mset_select_where set_filter set_mset_mset)

lemma length_select_where:
  "scan_ok scan \<Longrightarrow> length (select_where scan P rows) = length (filter P rows)"
  by (metis mset_select_where size_mset)

lemma select_where_unique:
  "scan_ok scan \<Longrightarrow> filter P rows = [r] \<Longrightarrow> select_where scan P rows = [r]"
  using mset_select_where[of scan P rows] by simp

lemma select_where_none:
  "scan_ok scan \<Longrightarrow> filter P rows = [] \<Longrightarrow> select_where scan P rows = []"
  using mset_select_where[of scan P rows] by simp

lemma scalar_one_or_none_cases:
  "scalar_one_or_none rows = Inr None \<longleftrightarrow> rows = []"
  "scalar_one_or_none rows = Inr (Some r) \<longleftrightarrow> rows = [r]"
  "scalar_one_or_none rows = Inl e \<longleftrightarrow> 2 \<le> length rows \<and> e = MultipleResultsFound"
  by (auto simp: scalar_one_or_none_def split: list.splits)

lemma get_one_found: "scan_ok scan \<Longrightarrow> get_one scan P msg rows = Inr r \<longleftrightarrow> filter P rows = [r]"
proof -
  assume ok: "scan_ok scan"
  have "get_one scan P msg rows = Inr r \<longleftrightarrow> select_where scan P rows = [r]"
    by (auto simp: get_one_def bindR_Inr scalar_one_or_none_cases split: option.splits)
  also have "\<dots> \<longleftrightarrow> mset (select_where scan P rows) = {#r#}" by auto
  also have "\<dots> \<longleftrightarrow> mset (filter P rows) = {#r#}" by (simp only: mset_select_where[OF ok])
  also have "\<dots> \<longleftrightarrow> filter P rows = [r]" by (metis mset_single_iff_right)
  finally show ?thesis .
qed

lemma get_one_missing: "scan_ok scan \<Longrightarrow> filter P rows = [] \<Longrightarrow> get_one scan P msg rows = Inl (LookupError msg)"
  by (simp add: get_one_def select_where_none scalar_one_or_none_def)

lemma get_one_ambiguous: "scan_ok scan \<Longrightarrow> 2 \<le> length (filter P rows) \<Longrightarrow> get_one scan P msg rows = Inl MultipleResultsFound"
  using length_select_where[of scan P rows]
  by (simp add: get_one_def bindR_Inl scalar_one_or_none_cases(3))

text \<open>The result of a lookup depends only on the rows that the condition selects.\<close>

lemma get_one_cong:
  "scan_ok scan \<Longrightarrow> filter P rows = filter P rows' \<Longrightarrow> get_one scan P msg rows = get_one scan P msg rows'"
proof -
  assume ok: "scan_ok scan" and eq: "filter P rows = filter P rows'"
  consider "filter P rows = []" | r where "filter P rows = [r]" | "2 \<le> length (filter P rows)"
    by (cases "filter P rows" rule: remdups_adj.cases) auto
  then show ?thesis
    using eq ok by cases (metis get_one_missing get_one_found get_one_ambiguous)+
qed

lemma update_rows_simps [simp]:
  "update_rows P f [] = []" "update_rows P f (r # rs) = (if P r then f r else r) # update_rows P f rs"
  "update_rows P f (rs @ rs') = update_rows P f rs @ update_rows P f rs'"
  "length (update_rows P f rs) = length rs"
  by (simp_all add: update_rows_def)

lemma map_update_rows: "(\<And>r. g (f r) = g r) \<Longrightarrow> map g (update_rows P f rs) = map g rs"
  by (induction rs) auto

lemma set_update_rows: "set (update_rows P f rs) = (\<lambda>r. if P r then f r else r) ` set rs"
  by (simp add: update_rows_def)

lemma filter_update_rows:
  "(\<And>r. Q (f r) = Q r) \<Longrightarrow> filter Q (update_rows P f rs) = update_rows P f (filter Q rs)"
  by (induction rs) auto

lemma filter_update_other:
  "(\<And>r. Q (f r) = Q r) \<Longrightarrow> (\<And>r. r \<in> set rs \<Longrightarrow> Q r \<Longrightarrow> \<not> P r) \<Longrightarrow> filter Q (update_rows P f rs) = filter Q rs"
  by (induction rs) auto

section \<open>Lookups of a tenant\<close>

locale tenant_get =
  fixes get :: "scan \<Rightarrow> string \<Rightarrow> string \<Rightarrow> 'r list \<Rightarrow> 'r res"
    and org_of :: "'r \<Rightarrow> string" and id_of :: "'r \<Rightarrow> string"
  assumes found: "scan_ok scan \<Longrightarrow> get scan org i rows = Inr r \<longleftrightarrow> filter (\<lambda>r. id_of r = i \<and> org_of r = org) rows = [r]"
    and absent: "scan_ok scan \<Longrightarrow> filter (\<lambda>r. id_of r = i \<and> org_of r = org) rows = [] \<Longrightarrow>
      \<exists>m. get scan org i rows = Inl (LookupError m)"
    and ambiguous: "scan_ok scan \<Longrightarrow> 2 \<le> length (filter (\<lambda>r. id_of r = i \<and> org_of r = org) rows) \<Longrightarrow>
      get scan org i rows = Inl MultipleResultsFound"
    and local_: "scan_ok scan \<Longrightarrow> filter (\<lambda>r. org_of r = org) rows = filter (\<lambda>r. org_of r = org) rows' \<Longrightarrow>
      get scan org i rows = get scan org i rows'"
begin

lemma own_row: "scan_ok scan \<Longrightarrow> get scan org i rows = Inr r \<Longrightarrow> r \<in> set rows \<and> org_of r = org \<and> id_of r = i"
proof -
  assume "scan_ok scan" "get scan org i rows = Inr r"
  then have "r \<in> set (filter (\<lambda>r. id_of r = i \<and> org_of r = org) rows)" by (simp add: found)
  then show ?thesis by simp
qed

lemma foreign_rows_hidden:
  "scan_ok scan \<Longrightarrow> (\<And>r. r \<in> set rows \<Longrightarrow> id_of r = i \<Longrightarrow> org_of r \<noteq> org) \<Longrightarrow>
     \<exists>m. get scan org i rows = Inl (LookupError m)"
  by (rule absent) (auto simp: filter_empty_conv)

lemma foreign_insert: "scan_ok scan \<Longrightarrow> org_of r \<noteq> org \<Longrightarrow> get scan org i (rows @ [r]) = get scan org i rows"
  by (rule local_) auto

lemma after_insert:
  "scan_ok scan \<Longrightarrow> (\<And>r. r \<in> set rows \<Longrightarrow> id_of r \<noteq> id_of r') \<Longrightarrow>
     get scan (org_of r') (id_of r') (rows @ [r']) = Inr r'"
proof -
  assume ok: "scan_ok scan" and fresh: "\<And>r. r \<in> set rows \<Longrightarrow> id_of r \<noteq> id_of r'"
  from fresh have "filter (\<lambda>r. id_of r = id_of r' \<and> org_of r = org_of r') rows = []"
    by (auto simp: filter_empty_conv)
  then show ?thesis by (simp add: found[OF ok])
qed

end

text \<open>Every lookup written as \<open>get_one\<close> on the key and the tenant keeps the contract.\<close>

lemma get_one_tenant:
  "(\<And>scan org i rows. get scan org i rows = get_one scan (\<lambda>r. id_of r = i \<and> org_of r = org) msg rows) \<Longrightarrow>
     tenant_get get org_of id_of"
proof
  fix scan org i rows rows' r
  assume eq: "\<And>scan org i rows. get scan org i rows = get_one scan (\<lambda>r. id_of r = i \<and> org_of r = org) msg rows"
    and ok: "scan_ok scan"
  show "get scan org i rows = Inr r \<longleftrightarrow> filter (\<lambda>r. id_of r = i \<and> org_of r = org) rows = [r]"
    by (simp add: eq get_one_found[OF ok])
  show "filter (\<lambda>r. id_of r = i \<and> org_of r = org) rows = [] \<Longrightarrow> \<exists>m. get scan org i rows = Inl (LookupError m)"
    by (simp add: eq get_one_missing[OF ok])
  show "2 \<le> length (filter (\<lambda>r. id_of r = i \<and> org_of r = org) rows) \<Longrightarrow> get scan org i rows = Inl MultipleResultsFound"
    by (simp add: eq get_one_ambiguous[OF ok])
  have f: "filter (\<lambda>r. id_of r = i \<and> org_of r = org) xs = filter (\<lambda>r. id_of r = i) (filter (\<lambda>r. org_of r = org) xs)"
    for xs by (simp add: conj_commute)
  show "filter (\<lambda>r. org_of r = org) rows = filter (\<lambda>r. org_of r = org) rows' \<Longrightarrow> get scan org i rows = get scan org i rows'"
    unfolding eq by (rule get_one_cong[OF ok]) (simp add: f)
qed

text \<open>The action codes that operators use in decisions, with the statuses they lead to.\<close>

definition decision_status :: "string \<Rightarrow> string option" where
  "decision_status = map_of [(''confirm'', ''CONFIRMED''), (''reject'', ''REJECTED''),
     (''duplicate'', ''DUPLICATE''), (''review'', ''REVIEW_REQUIRED'')]"

definition unsupported_action :: "string \<Rightarrow> py_error" where
  "unsupported_action action = ValueError (''unsupported action '' @ quote_name action)"

section \<open>Generated keys\<close>

text \<open>The primary keys of a table are distinct and among the first \<open>n\<close> generated ones.\<close>

definition keys_used :: "uuids \<Rightarrow> nat \<Rightarrow> string list \<Rightarrow> bool" where
  "keys_used uid n ks \<longleftrightarrow> distinct ks \<and> set ks \<subseteq> uid ` {..<n}"

lemma keys_used_le: "keys_used uid m ks \<Longrightarrow> m \<le> n \<Longrightarrow> keys_used uid n ks"
  by (auto simp: keys_used_def)

lemma keys_used_grow: "keys_used uid n ks \<Longrightarrow> keys_used uid (Suc n) ks"
  by (auto simp: keys_used_def)

lemma keys_used_at:
  assumes "inj uid" "keys_used uid m ks" "m \<le> k" "k < n"
  shows "keys_used uid n (ks @ [uid k])"
proof -
  have "uid k \<notin> uid ` {..<m}" using assms(1,3) by (auto dest: injD)
  with assms(2-4) show ?thesis by (auto simp: keys_used_def)
qed

lemma keys_used_fresh: "inj uid \<Longrightarrow> keys_used uid n ks \<Longrightarrow> keys_used uid (Suc n) (ks @ [uid n])"
  using keys_used_at[of uid n ks n "Suc n"] by simp

text \<open>Changing one row by its key leaves the rows with other values of an attribute as they are.\<close>

lemma filter_update_by_key:
  assumes "distinct (map key rows)" "r \<in> set rows" "key r = k" "\<not> P r" "\<And>x. P (f x) = P x"
  shows "filter P (update_rows (\<lambda>x. key x = k) f rows) = filter P rows"
proof -
  have "key x \<noteq> k" if "x \<in> set rows" "P x" for x
    using that assms(1-4) by (metis distinct_map inj_onD)
  with assms(5) show ?thesis by (intro filter_update_other) auto
qed

end
