(* ===== verification/PO_MatchService.thy ===== *)
theory PO_MatchService
  imports PO_Matcher PO_Store "HOL-Library.Product_Lexorder"
begin

text \<open>
  \<open>apps/api/paymentops_api/services/matching_service.py\<close> with its tables
  (\<open>db/models/matching.py\<close>), the routes of \<open>routers/matching.py\<close> that hold logic, and the worker
  task \<open>reconciliation_tasks.py\<close>. The session is explicit state: a \<open>MatchStore\<close> is the committed
  content of the five tables. An operation that commits once returns the new store with its
  result; \<open>execute_reconciliation\<close> commits twice, so it returns the store also when it raises.
\<close>

section \<open>Tables\<close>

record MatchRecordRow =
  mw_id :: string
  mw_organization_id :: string
  mw_record_id :: string
  mw_record_type :: string
  mw_profile_id :: "string option"
  mw_source_system :: "string option"
  mw_message_type :: "string option"
  mw_instruction_id :: "string option"
  mw_end_to_end_id :: "string option"
  mw_transaction_id :: "string option"
  mw_amount :: "pydec option"
  mw_currency :: "string option"
  mw_booking_date :: "pydate option"
  mw_value_date :: "pydate option"
  mw_debtor_name :: "string option"
  mw_creditor_name :: "string option"
  mw_debtor_account :: "string option"
  mw_creditor_account :: "string option"
  mw_debtor_agent :: "string option"
  mw_creditor_agent :: "string option"
  mw_remittance_reference :: "string option"
  mw_external_reference :: "string option"
  mw_country :: "string option"
  mw_source_hash :: "string option"
  mw_metadata_json :: "(string, jval) dict"
  mw_created_at :: pydatetime

record MatchingPolicyRow =
  po_id :: string
  po_organization_id :: string
  po_name :: string
  po_status :: string
  po_created_at :: pydatetime
  po_published_at :: "pydatetime option"

record MatchingPolicyVersion =
  pv_id :: string
  pv_policy_id :: string
  pv_organization_id :: string
  pv_version_number :: nat
  pv_name :: string
  pv_field_weights :: "(string, rat) dict"
  pv_thresholds :: "(string, rat) dict"
  pv_date_tolerances :: "(string, int) dict"
  pv_amount_tolerances :: "(string, pydec) dict"
  pv_critical_fields :: "string list"
  pv_fuzzy_algorithms :: "(string, string) dict"
  pv_published_at :: pydatetime

text \<open>The dictionary \<open>counts\<close> of a run, which is also its \<open>report\<close>.\<close>

record RunCounts =
  ct_total :: nat
  ct_matched :: nat
  ct_possible_match :: nat
  ct_review_required :: nat
  ct_unmatched :: nat
  ct_duplicate_candidate :: nat
  ct_failed :: nat

text \<open>A dataset is \<open>{"record_ids": [...]}\<close>; the counters of the row are those of \<open>RunCounts\<close>.\<close>

record MatchRun =
  ru_id :: string
  ru_organization_id :: string
  ru_run_type :: string
  ru_status :: MatchStatus
  ru_policy_id :: "string option"
  ru_policy_version :: "string option"
  ru_source_dataset :: "(string, string list) dict"
  ru_candidate_dataset :: "(string, string list) dict"
  ru_counts :: RunCounts
  ru_report :: "RunCounts option"
  ru_created_at :: pydatetime
  ru_started_at :: "pydatetime option"
  ru_completed_at :: "pydatetime option"

record MatchCandidateRow =
  mc_id :: string
  mc_organization_id :: string
  mc_run_id :: string
  mc_source_record_id :: string
  mc_candidate_record_id :: string
  mc_match_score :: rat
  mc_classification :: MatchClassification
  mc_critical_conflicts :: "CriticalConflict list"
  mc_field_results :: "FieldMatchResult list"
  mc_explanation_codes :: "string list"
  mc_policy_version :: "string option"
  mc_engine_version :: "string option"
  mc_status :: string
  mc_operator :: "string option"
  mc_note :: "string option"
  mc_created_at :: pydatetime
  mc_decided_at :: "pydatetime option"

record MatchStore =
  st_policies :: "MatchingPolicyRow list"
  st_versions :: "MatchingPolicyVersion list"
  st_records :: "MatchRecordRow list"
  st_runs :: "MatchRun list"
  st_candidates :: "MatchCandidateRow list"
  st_uuids :: nat

definition fresh_id :: "Db \<Rightarrow> MatchStore \<Rightarrow> string" where
  "fresh_id db st = db_uid db (st_uuids st)"

definition ENGINE_VERSION_MATCHING :: string where
  "ENGINE_VERSION_MATCHING = ''0.2.0''"

section \<open>Policies\<close>

definition create_policy ::
  "Db \<Rightarrow> pydatetime \<Rightarrow> string \<Rightarrow> string \<Rightarrow> MatchStore \<Rightarrow> MatchingPolicyRow \<times> MatchStore" where
  "create_policy db now org name st =
     (let row = \<lparr>po_id = fresh_id db st, po_organization_id = org, po_name = name,
                 po_status = ''DRAFT'', po_created_at = now, po_published_at = None\<rparr>
      in (row, st\<lparr>st_policies := st_policies st @ [row], st_uuids := Suc (st_uuids st)\<rparr>))"

definition list_policies :: "Db \<Rightarrow> string \<Rightarrow> MatchStore \<Rightarrow> MatchingPolicyRow list" where
  "list_policies db org st = order_by_desc (\<lambda>r. dt_instant (po_created_at r))
     (select_where (db_scan db) (\<lambda>r. po_organization_id r = org) (st_policies st))"

definition get_policy_row :: "scan \<Rightarrow> string \<Rightarrow> string \<Rightarrow> MatchingPolicyRow list \<Rightarrow> MatchingPolicyRow res" where
  "get_policy_row scan org policy_id rows =
     get_one scan (\<lambda>r. po_id r = policy_id \<and> po_organization_id r = org) ''matching policy not found'' rows"

definition policy_versions :: "Db \<Rightarrow> string \<Rightarrow> string \<Rightarrow> MatchStore \<Rightarrow> MatchingPolicyVersion list" where
  "policy_versions db org policy_id st =
     select_where (db_scan db) (\<lambda>v. pv_policy_id v = policy_id \<and> pv_organization_id v = org) (st_versions st)"

definition next_version :: "Db \<Rightarrow> string \<Rightarrow> string \<Rightarrow> MatchStore \<Rightarrow> nat" where
  "next_version db org policy_id st = length (policy_versions db org policy_id st) + 1"

definition publish_policy ::
  "Db \<Rightarrow> pydatetime \<Rightarrow> string \<Rightarrow> string \<Rightarrow> MatchingPolicy \<Rightarrow> MatchStore \<Rightarrow>
     (MatchingPolicyVersion \<times> MatchStore) res" where
  "publish_policy db now org policy_id policy st =
     bindR (get_policy_row (db_scan db) org policy_id (st_policies st)) (\<lambda>row.
       let version = next_version db org policy_id st;
           policy = policy\<lparr>mp_id := Some policy_id, mp_organization_id := org, mp_version := version\<rparr>;
           pv = \<lparr>pv_id = fresh_id db st, pv_policy_id = po_id row, pv_organization_id = org,
                 pv_version_number = version, pv_name = mp_name policy,
                 pv_field_weights = mp_field_weights policy, pv_thresholds = mp_thresholds policy,
                 pv_date_tolerances = mp_date_tolerances policy,
                 pv_amount_tolerances = mp_amount_tolerances policy,
                 pv_critical_fields = mp_critical_fields policy,
                 pv_fuzzy_algorithms = mp_fuzzy_algorithms policy, pv_published_at = now\<rparr>
       in Inr (pv, st\<lparr>st_versions := st_versions st @ [pv],
            st_policies := update_rows (\<lambda>r. po_id r = po_id row)
              (\<lambda>r. r\<lparr>po_status := ''PUBLISHED'', po_published_at := Some now\<rparr>) (st_policies st),
            st_uuids := Suc (st_uuids st)\<rparr>))"

definition policy_of_version :: "string \<Rightarrow> MatchingPolicyVersion \<Rightarrow> MatchingPolicy" where
  "policy_of_version org pv =
     \<lparr>mp_id = Some (pv_policy_id pv), mp_organization_id = org, mp_name = pv_name pv,
      mp_version = pv_version_number pv, mp_status = MP_PUBLISHED,
      mp_field_weights = pv_field_weights pv, mp_thresholds = pv_thresholds pv,
      mp_date_tolerances = pv_date_tolerances pv, mp_amount_tolerances = pv_amount_tolerances pv,
      mp_critical_fields = pv_critical_fields pv, mp_fuzzy_algorithms = pv_fuzzy_algorithms pv,
      mp_created_at = None, mp_published_at = Some (pv_published_at pv)\<rparr>"

definition baseline_policy :: "string \<Rightarrow> MatchingPolicy" where
  "baseline_policy org = default_policy org ''Development Baseline'' 1"

definition get_published_policy :: "Db \<Rightarrow> string \<Rightarrow> string option \<Rightarrow> MatchStore \<Rightarrow> MatchingPolicy" where
  "get_published_policy db org policy_id st =
     (case policy_id of None \<Rightarrow> baseline_policy org
      | Some p \<Rightarrow>
          (case scalars_first (order_by_desc pv_version_number (policy_versions db org p st)) of
             None \<Rightarrow> baseline_policy org
           | Some pv \<Rightarrow> policy_of_version org pv))"

section \<open>Match records\<close>

text \<open>Storing the amount in its column; the other attributes are stored as they are.\<close>

definition stored_amount :: "Db \<Rightarrow> pydec option \<Rightarrow> pydec option res" where
  "stored_amount db a = (case a of None \<Rightarrow> Inr None | Some d \<Rightarrow> bindR (db_numeric db d) (\<lambda>x. Inr (Some x)))"

definition domain_to_row :: "string \<Rightarrow> pydatetime \<Rightarrow> string \<Rightarrow> pydec option \<Rightarrow> MatchRecord \<Rightarrow> MatchRecordRow" where
  "domain_to_row rid now org amount r =
     \<lparr>mw_id = rid, mw_organization_id = org, mw_record_id = mr_record_id r,
      mw_record_type = RecordType_value (mr_record_type r), mw_profile_id = mr_profile_id r,
      mw_source_system = mr_source_system r, mw_message_type = mr_message_type r,
      mw_instruction_id = mr_instruction_id r, mw_end_to_end_id = mr_end_to_end_id r,
      mw_transaction_id = mr_transaction_id r, mw_amount = amount, mw_currency = mr_currency r,
      mw_booking_date = mr_booking_date r, mw_value_date = mr_value_date r,
      mw_debtor_name = mr_debtor_name r, mw_creditor_name = mr_creditor_name r,
      mw_debtor_account = mr_debtor_account r, mw_creditor_account = mr_creditor_account r,
      mw_debtor_agent = mr_debtor_agent r, mw_creditor_agent = mr_creditor_agent r,
      mw_remittance_reference = mr_remittance_reference r,
      mw_external_reference = mr_external_reference r, mw_country = mr_country r,
      mw_source_hash = mr_source_hash r, mw_metadata_json = mr_metadata r, mw_created_at = now\<rparr>"

definition RecordType_of :: "string \<Rightarrow> RecordType option" where
  "RecordType_of s = map_of (map (\<lambda>t. (RecordType_value t, t))
     [PAYMENT, EXPECTED_PAYMENT, INVOICE, LEDGER_ENTRY, ACCOUNT_EVENT]) s"

text \<open>
  The keyword \<open>metadata_json\<close> is not a field of \<open>MatchRecord\<close> (whose configuration ignores extra
  keywords), so the metadata of the result is the default, the empty dictionary.
\<close>

definition row_to_domain :: "MatchRecordRow \<Rightarrow> MatchRecord res" where
  "row_to_domain row =
     (case RecordType_of (mw_record_type row) of
        None \<Rightarrow> Inl (ValueError (quote_name (mw_record_type row) @ '' is not a valid RecordType''))
      | Some t \<Rightarrow> Inr
         \<lparr>mr_record_id = mw_record_id row, mr_record_type = t,
          mr_organization_id = mw_organization_id row, mr_profile_id = mw_profile_id row,
          mr_source_system = mw_source_system row, mr_message_type = mw_message_type row,
          mr_instruction_id = mw_instruction_id row, mr_end_to_end_id = mw_end_to_end_id row,
          mr_transaction_id = mw_transaction_id row, mr_amount = mw_amount row,
          mr_currency = mw_currency row, mr_booking_date = mw_booking_date row,
          mr_value_date = mw_value_date row, mr_debtor_name = mw_debtor_name row,
          mr_creditor_name = mw_creditor_name row, mr_debtor_account = mw_debtor_account row,
          mr_creditor_account = mw_creditor_account row, mr_debtor_agent = mw_debtor_agent row,
          mr_creditor_agent = mw_creditor_agent row,
          mr_remittance_reference = mw_remittance_reference row,
          mr_external_reference = mw_external_reference row, mr_country = mw_country row,
          mr_source_hash = mw_source_hash row, mr_metadata = []\<rparr>)"

definition create_match_record ::
  "Db \<Rightarrow> pydatetime \<Rightarrow> string \<Rightarrow> MatchRecord \<Rightarrow> MatchStore \<Rightarrow> (MatchRecordRow \<times> MatchStore) res" where
  "create_match_record db now org r st =
     bindR (stored_amount db (mr_amount r)) (\<lambda>amount.
       let row = domain_to_row (fresh_id db st) now org amount r
       in Inr (row, st\<lparr>st_records := st_records st @ [row], st_uuids := Suc (st_uuids st)\<rparr>))"

definition get_match_record :: "scan \<Rightarrow> string \<Rightarrow> string \<Rightarrow> MatchRecordRow list \<Rightarrow> MatchRecordRow res" where
  "get_match_record scan org record_id rows =
     get_one scan (\<lambda>r. mw_record_id r = record_id \<and> mw_organization_id r = org) ''match record not found'' rows"

definition list_match_records :: "Db \<Rightarrow> string \<Rightarrow> nat \<Rightarrow> MatchStore \<Rightarrow> MatchRecordRow list" where
  "list_match_records db org limit st = take limit (order_by_desc (\<lambda>r. dt_instant (mw_created_at r))
     (select_where (db_scan db) (\<lambda>r. mw_organization_id r = org) (st_records st)))"

definition ensure_record ::
  "Db \<Rightarrow> pydatetime \<Rightarrow> string \<Rightarrow> MatchRecord \<Rightarrow> MatchStore \<Rightarrow> (MatchRecordRow \<times> MatchStore) res" where
  "ensure_record db now org r st =
     bindR (scalar_one_or_none (select_where (db_scan db)
              (\<lambda>w. mw_record_id w = mr_record_id r \<and> mw_organization_id w = org) (st_records st)))
       (\<lambda>found. case found of Some row \<Rightarrow> Inr (row, st)
                | None \<Rightarrow> create_match_record db now org r st)"

section \<open>Candidate retrieval\<close>

text \<open>The first and the last date Python can represent, as ordinals.\<close>

definition MAX_ORDINAL :: int where
  "MAX_ORDINAL = 3652059"

text \<open>\<open>(dval - timedelta(days=window), dval + timedelta(days=window))\<close>, as ordinals.\<close>

definition date_bounds :: "nat \<Rightarrow> string \<times> pydate \<Rightarrow> (string \<times> int \<times> int) res" where
  "date_bounds window fd = (case fd of (field, d) \<Rightarrow>
     let lo = int (ordinal d) - int window; hi = int (ordinal d) + int window in
     if lo < 1 \<or> MAX_ORDINAL < hi then Inl (OverflowError ''date value out of range'')
     else Inr (field, lo, hi))"

definition row_date :: "MatchRecordRow \<Rightarrow> string \<Rightarrow> pydate option" where
  "row_date row field = (if field = ''booking_date'' then mw_booking_date row else mw_value_date row)"

definition row_between :: "MatchRecordRow \<Rightarrow> string \<times> int \<times> int \<Rightarrow> bool" where
  "row_between row b = (case b of (field, lo, hi) \<Rightarrow>
     (case row_date row field of None \<Rightarrow> False
      | Some d \<Rightarrow> lo \<le> int (ordinal d) \<and> int (ordinal d) \<le> hi))"

text \<open>The \<open>where\<close> clauses; a comparison with a \<open>NULL\<close> column does not select the row.\<close>

definition sql_matches ::
  "string \<Rightarrow> string list \<Rightarrow> string option \<Rightarrow> Criteria \<Rightarrow> (string \<times> int \<times> int) list \<Rightarrow> MatchRecordRow \<Rightarrow> bool" where
  "sql_matches org candidate_types exclude_id crit bounds row \<longleftrightarrow>
     mw_organization_id row = org \<and>
     (candidate_types = [] \<or> mw_record_type row \<in> set candidate_types) \<and>
     (\<not> truthy exclude_id \<or> Some (mw_record_id row) \<noteq> exclude_id) \<and>
     (\<not> truthy (cr_currency crit) \<or> mw_currency row = cr_currency crit) \<and>
     (case cr_amount crit of None \<Rightarrow> True
      | Some (lo, hi) \<Rightarrow> (case mw_amount row of None \<Rightarrow> False | Some a \<Rightarrow> lo \<le> dval a \<and> dval a \<le> hi)) \<and>
     (bounds = [] \<or> list_ex (row_between row) bounds)"

definition criteria_bounds :: "Criteria \<Rightarrow> (string \<times> int \<times> int) list res" where
  "criteria_bounds crit = (case cr_dates crit of None \<Rightarrow> Inr []
     | Some (window, dfs) \<Rightarrow> mapR (date_bounds window) dfs)"

definition service_criteria :: "MatchRecord \<Rightarrow> MatchingPolicy \<Rightarrow> nat \<Rightarrow> Criteria" where
  "service_criteria r policy max_candidates =
     narrowing_criteria r policy max_candidates DEFAULT_DATE_WINDOW_DAYS DEFAULT_AMOUNT_PCT"

definition candidate_records ::
  "Db \<Rightarrow> string \<Rightarrow> MatchRecordRow \<Rightarrow> MatchingPolicy \<Rightarrow> nat \<Rightarrow> string option \<Rightarrow> string list \<Rightarrow> MatchStore \<Rightarrow>
     MatchRecordRow list res" where
  "candidate_records db org source policy max_candidates exclude_id candidate_types st =
     bindR (row_to_domain source) (\<lambda>domain.
       let crit = service_criteria domain policy max_candidates in
       bindR (criteria_bounds crit) (\<lambda>bounds.
         Inr (take max_candidates
           (select_where (db_scan db) (sql_matches org candidate_types exclude_id crit bounds) (st_records st)))))"

definition cand_date :: "MatchRecord \<Rightarrow> string \<Rightarrow> pydate option" where
  "cand_date cand field = (if field = ''booking_date'' then mr_booking_date cand else mr_value_date cand)"

definition date_within :: "MatchRecord \<Rightarrow> nat \<Rightarrow> string \<times> pydate \<Rightarrow> bool" where
  "date_within cand window fd = (case fd of (field, d) \<Rightarrow>
     (case cand_date cand field of None \<Rightarrow> False | Some cd \<Rightarrow> \<bar>date_diff_days cd d\<bar> \<le> int window))"

definition bare_account :: "string \<Rightarrow> string" where
  "bare_account a = upper (remove_char CHR ''-'' (remove_char CHR '' '' a))"

definition candidate_matches :: "MatchRecord \<Rightarrow> Criteria \<Rightarrow> bool" where
  "candidate_matches cand crit \<longleftrightarrow>
     (\<not> truthy (cr_currency crit) \<or> \<not> truthy (mr_currency cand) \<or> mr_currency cand = cr_currency crit) \<and>
     (case (cr_amount crit, mr_amount cand) of
        (Some (lo, hi), Some a) \<Rightarrow> lo \<le> dval a \<and> dval a \<le> hi | _ \<Rightarrow> True) \<and>
     (case cr_dates crit of None \<Rightarrow> True
      | Some (window, dfs) \<Rightarrow>
          mr_value_date cand = None \<and> mr_booking_date cand = None \<or> list_ex (date_within cand window) dfs) \<and>
     (case cr_reference_prefix crit of Some (Some p) \<Rightarrow>
          p = [] \<or> map_option (take 8) (normalize_reference
             (Some (RStr (dget_opt (por (mr_remittance_reference cand) (mr_external_reference cand)))))) = Some p
      | _ \<Rightarrow> True) \<and>
     (\<not> truthy (cr_account crit) \<or>
      bare_account (dget_opt (por (mr_debtor_account cand) (mr_creditor_account cand)))
        = bare_account (dget_opt (cr_account crit)))"

definition filter_candidates ::
  "MatchRecord \<Rightarrow> MatchRecord list \<Rightarrow> MatchingPolicy \<Rightarrow> nat \<Rightarrow> MatchRecord list" where
  "filter_candidates source candidates policy max_candidates =
     (let crit = service_criteria source policy max_candidates
      in take max_candidates (filter (\<lambda>c. mr_record_id c \<noteq> mr_record_id source \<and> candidate_matches c crit) candidates))"

section \<open>Evaluation\<close>

definition evaluate_records ::
  "scorer \<Rightarrow> string \<Rightarrow> MatchRecord \<Rightarrow> MatchRecord \<Rightarrow> MatchingPolicy \<Rightarrow> MatchDecision res" where
  "evaluate_records fz org a b policy =
     (if mr_organization_id a \<noteq> org \<or> mr_organization_id b \<noteq> org
      then Inl (PermissionError ''cross-tenant match evaluation denied'')
      else Inr (evaluate_pair fz a b policy ENGINE_VERSION_MATCHING))"

definition top_evidence :: "MatchDecision \<Rightarrow> nat \<Rightarrow> FieldMatchResult list" where
  "top_evidence decision limit =
     take limit (sort_desc (\<lambda>fr. (fr_similarity fr, fr_weight fr))
       (filter (\<lambda>fr. fr_status fr \<in> {FM_EXACT, FM_MISMATCH} \<and> (85 \<le> fr_similarity fr \<or> fr_status fr = FM_MISMATCH))
         (md_field_results decision)))"

definition candidate_match :: "MatchRecord \<Rightarrow> MatchDecision \<Rightarrow> CandidateMatch" where
  "candidate_match cand decision =
     \<lparr>cm_candidate_id = mr_record_id cand, cm_match_score = md_match_score decision,
      cm_classification = md_classification decision, cm_top_evidence = top_evidence decision 6,
      cm_critical_conflicts = md_critical_conflicts decision\<rparr>"

definition rank_candidates ::
  "scorer \<Rightarrow> MatchRecord \<Rightarrow> MatchRecord list \<Rightarrow> MatchingPolicy \<Rightarrow> nat \<Rightarrow> CandidateMatch list" where
  "rank_candidates fz source narrowed policy max_candidates =
     take max_candidates (sort_desc cm_match_score
       (collect_some (\<lambda>cand.
          let decision = evaluate_pair fz source cand policy ENGINE_VERSION_MATCHING in
          if md_match_score decision \<le> 0 then None else Some (candidate_match cand decision)) narrowed))"

text \<open>The record of the source may be stored before a later step raises.\<close>

definition search_candidates ::
  "scorer \<Rightarrow> Db \<Rightarrow> pydatetime \<Rightarrow> string \<Rightarrow> MatchRecord \<Rightarrow> MatchingPolicy \<Rightarrow> nat \<Rightarrow> MatchStore \<Rightarrow>
     CandidateMatch list res \<times> MatchStore" where
  "search_candidates fz db now org source policy max_candidates st =
     (case ensure_record db now org source st of
        Inl e \<Rightarrow> (Inl e, st)
      | Inr (source_row, st') \<Rightarrow>
          (bindR (candidate_records db org source_row policy max_candidates (Some (mr_record_id source)) [] st') (\<lambda>rows.
           bindR (mapR row_to_domain rows) (\<lambda>cands.
             Inr (rank_candidates fz source (filter_candidates source cands policy max_candidates) policy max_candidates))), st'))"

end
