(* ===== verification/PO_Reconcile.thy ===== *)
theory PO_Reconcile
  imports PO_MatchService
begin

text \<open>
  Reconciliation runs of \<open>matching_service.py\<close>: the run record, the loop over the source records
  with its counters and its one-to-one claims, the commit of the candidate rows, operator
  decisions, and the worker task that starts a run (\<open>reconciliation_tasks.py\<close>). The loop is
  stated for an arbitrary evaluation \<open>ev\<close> that may raise, because the code isolates a failing
  source with \<open>except Exception\<close>; the run uses \<open>evaluate_pair\<close>.
\<close>

section \<open>The loop over the sources\<close>

text \<open>A pending candidate row: source, best candidate, its decision, the final classification.\<close>

record Pending =
  pe_source :: MatchRecord
  pe_candidate :: MatchRecord
  pe_decision :: MatchDecision
  pe_classification :: MatchClassification

record LoopState =
  ls_counts :: RunCounts
  ls_claimed :: "(string, string) dict"
  ls_pending :: "Pending list"

type_synonym evaluation = "MatchRecord \<Rightarrow> MatchRecord \<Rightarrow> MatchDecision res"

definition counts_start :: "nat \<Rightarrow> RunCounts" where
  "counts_start n = \<lparr>ct_total = n, ct_matched = 0, ct_possible_match = 0, ct_review_required = 0,
     ct_unmatched = 0, ct_duplicate_candidate = 0, ct_failed = 0\<rparr>"

text \<open>Every candidate with its decision, or the first exception.\<close>

definition decisions_for :: "evaluation \<Rightarrow> MatchRecord \<Rightarrow> MatchRecord list \<Rightarrow> (MatchRecord \<times> MatchDecision) list res" where
  "decisions_for ev src candidates = mapR (\<lambda>c. bindR (ev src c) (\<lambda>d. Inr (c, d))) candidates"

definition strongest_first :: "(MatchRecord \<times> MatchDecision) list \<Rightarrow> (MatchRecord \<times> MatchDecision) list" where
  "strongest_first ds = sort_desc (\<lambda>x. md_match_score (snd x)) ds"

definition count_classification :: "MatchClassification \<Rightarrow> RunCounts \<Rightarrow> RunCounts" where
  "count_classification c ct =
     (if c = MATCHED then ct\<lparr>ct_matched := ct_matched ct + 1\<rparr>
      else if c = POSSIBLE_MATCH then ct\<lparr>ct_possible_match := ct_possible_match ct + 1\<rparr>
      else ct\<lparr>ct_review_required := ct_review_required ct + 1\<rparr>)"

text \<open>\<open>best[0].record_id in claimed and claimed[best[0].record_id] != src.record_id\<close>\<close>

definition claimed_by_other :: "(string, string) dict \<Rightarrow> string \<Rightarrow> string \<Rightarrow> bool" where
  "claimed_by_other claimed cand src = (case map_of claimed cand of None \<Rightarrow> False | Some s \<Rightarrow> s \<noteq> src)"

definition classify_best ::
  "(MatchRecord \<times> MatchDecision) list \<Rightarrow> (string, string) dict \<Rightarrow> string \<Rightarrow> RunCounts \<Rightarrow>
     MatchClassification \<times> RunCounts" where
  "classify_best decisions claimed src_id ct =
     (let best = hd decisions;
          strong = filter (\<lambda>d. md_classification (snd d) = MATCHED) decisions in
      if 1 < length strong then
        (DUPLICATE_CANDIDATE, ct\<lparr>ct_duplicate_candidate := ct_duplicate_candidate ct + 1\<rparr>)
      else if claimed_by_other claimed (mr_record_id (fst best)) src_id then
        (REVIEW_REQUIRED, ct\<lparr>ct_review_required := ct_review_required ct + 1\<rparr>)
      else (md_classification (snd best), count_classification (md_classification (snd best)) ct))"

definition reconcile_source ::
  "evaluation \<Rightarrow> MatchingPolicy \<Rightarrow> MatchRecord list \<Rightarrow> MatchRecord \<Rightarrow> LoopState \<Rightarrow> LoopState" where
  "reconcile_source ev policy candidate_list src ls =
     (let candidates = filter_candidates src candidate_list policy DEFAULT_MAX_CANDIDATES;
          ct = ls_counts ls in
      if candidates = [] then ls\<lparr>ls_counts := ct\<lparr>ct_unmatched := ct_unmatched ct + 1\<rparr>\<rparr>
      else (case decisions_for ev src candidates of
        Inl e \<Rightarrow> ls\<lparr>ls_counts := ct\<lparr>ct_failed := ct_failed ct + 1\<rparr>\<rparr>
      | Inr ds \<Rightarrow>
          (let decisions = strongest_first ds; best = hd decisions in
           if md_classification (snd best) = UNMATCHED then
             ls\<lparr>ls_counts := ct\<lparr>ct_unmatched := ct_unmatched ct + 1\<rparr>\<rparr>
           else (case classify_best decisions (ls_claimed ls) (mr_record_id src) ct of
             (classification, ct') \<Rightarrow>
               \<lparr>ls_counts = ct',
                ls_claimed = (if classification \<in> {MATCHED, POSSIBLE_MATCH}
                  then AList.update (mr_record_id (fst best)) (mr_record_id src) (ls_claimed ls)
                  else ls_claimed ls),
                ls_pending = ls_pending ls @
                  [\<lparr>pe_source = src, pe_candidate = fst best, pe_decision = snd best,
                    pe_classification = classification\<rparr>]\<rparr>))))"

definition loop_start :: "nat \<Rightarrow> LoopState" where
  "loop_start n = \<lparr>ls_counts = counts_start n, ls_claimed = [], ls_pending = []\<rparr>"

fun reconcile_loop ::
  "evaluation \<Rightarrow> MatchingPolicy \<Rightarrow> MatchRecord list \<Rightarrow> MatchRecord list \<Rightarrow> LoopState \<Rightarrow> LoopState" where
  "reconcile_loop ev policy candidate_list [] ls = ls"
| "reconcile_loop ev policy candidate_list (src # rest) ls =
     reconcile_loop ev policy candidate_list rest (reconcile_source ev policy candidate_list src ls)"

definition reconcile_all ::
  "evaluation \<Rightarrow> MatchingPolicy \<Rightarrow> MatchRecord list \<Rightarrow> MatchRecord list \<Rightarrow> LoopState" where
  "reconcile_all ev policy sources candidate_list =
     reconcile_loop ev policy candidate_list sources (loop_start (length sources))"

section \<open>Runs\<close>

definition create_reconciliation_run ::
  "Db \<Rightarrow> pydatetime \<Rightarrow> string \<Rightarrow> (string, string list) dict \<Rightarrow> (string, string list) dict \<Rightarrow> string option \<Rightarrow>
     MatchStore \<Rightarrow> MatchRun \<times> MatchStore" where
  "create_reconciliation_run db now org source_dataset candidate_dataset policy_id st =
     (let policy = (if truthy policy_id then get_published_policy db org policy_id st else baseline_policy org);
          row = \<lparr>ru_id = fresh_id db st, ru_organization_id = org, ru_run_type = ''RECONCILIATION'',
                 ru_status = QUEUED, ru_policy_id = policy_id,
                 ru_policy_version = Some (show_nat (mp_version policy)),
                 ru_source_dataset = source_dataset, ru_candidate_dataset = candidate_dataset,
                 ru_counts = counts_start 0, ru_report = None, ru_created_at = now,
                 ru_started_at = None, ru_completed_at = None\<rparr>
      in (row, st\<lparr>st_runs := st_runs st @ [row], st_uuids := Suc (st_uuids st)\<rparr>))"

definition get_run :: "scan \<Rightarrow> string \<Rightarrow> string \<Rightarrow> MatchRun list \<Rightarrow> MatchRun res" where
  "get_run scan org run_id rows =
     get_one scan (\<lambda>r. ru_id r = run_id \<and> ru_organization_id r = org) ''reconciliation run not found'' rows"

definition list_runs :: "Db \<Rightarrow> string \<Rightarrow> MatchStore \<Rightarrow> MatchRun list" where
  "list_runs db org st = order_by_desc (\<lambda>r. dt_instant (ru_created_at r))
     (select_where (db_scan db) (\<lambda>r. ru_organization_id r = org) (st_runs st))"

definition list_run_candidates :: "Db \<Rightarrow> string \<Rightarrow> string \<Rightarrow> MatchStore \<Rightarrow> MatchCandidateRow list" where
  "list_run_candidates db org run_id st =
     select_where (db_scan db) (\<lambda>c. mc_run_id c = run_id \<and> mc_organization_id c = org) (st_candidates st)"

text \<open>
  \<open>_persist_candidate\<close> adds a row to the session; its key is drawn when the session is flushed.
\<close>

definition persist_candidate :: "string \<Rightarrow> pydatetime \<Rightarrow> string \<Rightarrow> string \<Rightarrow> Pending \<Rightarrow> MatchCandidateRow" where
  "persist_candidate cid now org run_id p =
     \<lparr>mc_id = cid, mc_organization_id = org, mc_run_id = run_id,
      mc_source_record_id = mr_record_id (pe_source p),
      mc_candidate_record_id = mr_record_id (pe_candidate p),
      mc_match_score = md_match_score (pe_decision p), mc_classification = pe_classification p,
      mc_critical_conflicts = md_critical_conflicts (pe_decision p),
      mc_field_results = md_field_results (pe_decision p),
      mc_explanation_codes = md_explanation_codes (pe_decision p),
      mc_policy_version = md_policy_version (pe_decision p),
      mc_engine_version = md_engine_version (pe_decision p), mc_status = ''PENDING'',
      mc_operator = None, mc_note = None, mc_created_at = now, mc_decided_at = None\<rparr>"

text \<open>
  The field results are stored as \<open>JSONB\<close>. \<open>model_dump()\<close> keeps a \<open>Decimal\<close> as it is, and the JSON
  encoder raises on it; strings, numbers, booleans and \<open>None\<close> are encoded.
\<close>

definition json_value_ok :: "nval option \<Rightarrow> bool" where
  "json_value_ok v = (case v of Some (NDec d) \<Rightarrow> False | _ \<Rightarrow> True)"

definition json_result_ok :: "FieldMatchResult \<Rightarrow> bool" where
  "json_result_ok fr \<longleftrightarrow> json_value_ok (fr_original_a fr) \<and> json_value_ok (fr_original_b fr) \<and>
     json_value_ok (fr_normalized_a fr) \<and> json_value_ok (fr_normalized_b fr)"

definition flushable :: "Pending list \<Rightarrow> bool" where
  "flushable ps = list_all (\<lambda>p. list_all json_result_ok (md_field_results (pe_decision p))) ps"

definition candidate_rows :: "Db \<Rightarrow> pydatetime \<Rightarrow> string \<Rightarrow> string \<Rightarrow> Pending list \<Rightarrow> nat \<Rightarrow> MatchCandidateRow list" where
  "candidate_rows db now org run_id ps n =
     map (\<lambda>(i, p). persist_candidate (db_uid db i) now org run_id p) (zip [n..<n + length ps] ps)"

definition finished_run :: "RunCounts \<Rightarrow> pydatetime \<Rightarrow> MatchRun \<Rightarrow> MatchRun" where
  "finished_run counts now r =
     r\<lparr>ru_counts := counts, ru_report := Some counts,
       ru_status := (if ct_failed counts = 0 then COMPLETED else PARTIAL), ru_completed_at := Some now\<rparr>"

definition started_run :: "pydatetime \<Rightarrow> MatchRun \<Rightarrow> MatchRun" where
  "started_run now r = r\<lparr>ru_status := RUNNING, ru_started_at := Some now\<rparr>"

definition update_run :: "string \<Rightarrow> (MatchRun \<Rightarrow> MatchRun) \<Rightarrow> MatchStore \<Rightarrow> MatchStore" where
  "update_run run_id f st = st\<lparr>st_runs := update_rows (\<lambda>r. ru_id r = run_id) f (st_runs st)\<rparr>"

definition execute_reconciliation ::
  "scorer \<Rightarrow> Db \<Rightarrow> pydatetime \<Rightarrow> string \<Rightarrow> string \<Rightarrow> MatchRecord list \<Rightarrow> MatchRecord list \<Rightarrow> MatchingPolicy \<Rightarrow>
     MatchStore \<Rightarrow> MatchRun res \<times> MatchStore" where
  "execute_reconciliation fz db now org run_id sources candidate_list policy st =
     (case get_run (db_scan db) org run_id (st_runs st) of
        Inl e \<Rightarrow> (Inl e, st)
      | Inr run \<Rightarrow>
          (let st1 = update_run (ru_id run) (started_run now) st;
               ls = reconcile_all (\<lambda>a b. Inr (evaluate_pair fz a b policy ENGINE_VERSION_MATCHING))
                      policy sources candidate_list in
           if \<not> flushable (ls_pending ls)
           then (Inl (StatementError ''Object of type Decimal is not JSON serializable''), st1)
           else (Inr (finished_run (ls_counts ls) now (started_run now run)),
                 (update_run (ru_id run) (finished_run (ls_counts ls) now) st1)
                   \<lparr>st_candidates := st_candidates st1 @
                      candidate_rows db now org (ru_id run) (ls_pending ls) (st_uuids st1),
                    st_uuids := st_uuids st1 + length (ls_pending ls)\<rparr>)))"

section \<open>Operator decisions\<close>

definition get_candidate :: "scan \<Rightarrow> string \<Rightarrow> string \<Rightarrow> MatchCandidateRow list \<Rightarrow> MatchCandidateRow res" where
  "get_candidate scan org candidate_id rows =
     get_one scan (\<lambda>c. mc_id c = candidate_id \<and> mc_organization_id c = org) ''match candidate not found'' rows"

definition decide_candidate ::
  "Db \<Rightarrow> pydatetime \<Rightarrow> string \<Rightarrow> string \<Rightarrow> string \<Rightarrow> string option \<Rightarrow> string option \<Rightarrow> MatchStore \<Rightarrow>
     (MatchCandidateRow \<times> MatchStore) res" where
  "decide_candidate db now org candidate_id action operator note st =
     bindR (get_candidate (db_scan db) org candidate_id (st_candidates st)) (\<lambda>cand.
       case decision_status action of
         None \<Rightarrow> Inl (unsupported_action action)
       | Some status \<Rightarrow>
           (let decide = (\<lambda>c. c\<lparr>mc_status := status, mc_operator := operator, mc_note := note,
                               mc_decided_at := Some now\<rparr>)
            in Inr (decide cand,
                 st\<lparr>st_candidates := update_rows (\<lambda>c. mc_id c = mc_id cand) decide (st_candidates st)\<rparr>)))"

section \<open>The worker\<close>

text \<open>\<open>session.get\<close> finds a row by its primary key, whatever its tenant.\<close>

definition session_get :: "('a \<Rightarrow> string) \<Rightarrow> string \<Rightarrow> 'a list \<Rightarrow> 'a option" where
  "session_get key i rows = find (\<lambda>r. key r = i) rows"

definition load_records :: "Db \<Rightarrow> string \<Rightarrow> string list \<Rightarrow> MatchStore \<Rightarrow> MatchRecordRow list" where
  "load_records db org ids st =
     select_where (db_scan db) (\<lambda>r. mw_organization_id r = org \<and> mw_record_id r \<in> set ids) (st_records st)"

definition run_reconciliation ::
  "scorer \<Rightarrow> Db \<Rightarrow> pydatetime \<Rightarrow> string \<Rightarrow> MatchStore \<Rightarrow> MatchRun res \<times> MatchStore" where
  "run_reconciliation fz db now run_id st =
     (case session_get ru_id run_id (st_runs st) of
        None \<Rightarrow> (Inl (LookupError (''reconciliation run not found: '' @ run_id)), st)
      | Some run \<Rightarrow>
          (let org = ru_organization_id run;
               source_ids = dget (ru_source_dataset run) ''record_ids'' [];
               cand_ids = dget (ru_candidate_dataset run) ''record_ids'' [] in
           (case mapR row_to_domain (load_records db org source_ids st) of
              Inl e \<Rightarrow> (Inl e, st)
            | Inr source_records \<Rightarrow>
                (case mapR row_to_domain (load_records db org cand_ids st) of
                   Inl e \<Rightarrow> (Inl e, st)
                 | Inr candidate_list \<Rightarrow>
                     execute_reconciliation fz db now org run_id source_records candidate_list
                       (get_published_policy db org
                          (if truthy (ru_policy_id run) then ru_policy_id run else None) st) st))))"

section \<open>Routes\<close>

fun create_records ::
  "Db \<Rightarrow> pydatetime \<Rightarrow> string \<Rightarrow> MatchRecord list \<Rightarrow> MatchStore \<Rightarrow> unit res \<times> MatchStore" where
  "create_records db now org [] st = (Inr (), st)"
| "create_records db now org (r # rs) st =
     (case create_match_record db now org r st of
        Inl e \<Rightarrow> (Inl e, st) | Inr (row, st') \<Rightarrow> create_records db now org rs st')"

text \<open>\<open>start_reconciliation\<close>: the run is handed to the queue under its id.\<close>

definition start_reconciliation ::
  "Db \<Rightarrow> pydatetime \<Rightarrow> string \<Rightarrow> MatchRecord list \<Rightarrow> MatchRecord list \<Rightarrow> string option \<Rightarrow> MatchStore \<Rightarrow>
     MatchRun res \<times> MatchStore" where
  "start_reconciliation db now org sources candidate_list policy_id st =
     (if sources = [] \<and> candidate_list = [] then (Inl (HTTPException 422 ''no records provided''), st)
      else (case create_records db now org (sources @ candidate_list) st of
        (Inl e, st') \<Rightarrow> (Inl e, st')
      | (Inr _, st') \<Rightarrow>
          (case create_reconciliation_run db now org [(''record_ids'', map mr_record_id sources)]
                  [(''record_ids'', map mr_record_id candidate_list)] policy_id st' of
             (run, st'') \<Rightarrow> (Inr run, st''))))"

definition not_found :: "string \<Rightarrow> 'a res \<Rightarrow> 'a res" where
  "not_found detail m = (case m of Inl (LookupError e) \<Rightarrow> Inl (HTTPException 404 detail) | _ \<Rightarrow> m)"

definition route_policy :: "Db \<Rightarrow> string \<Rightarrow> string option \<Rightarrow> MatchStore \<Rightarrow> MatchingPolicy" where
  "route_policy db org policy_id st =
     (if truthy policy_id then get_published_policy db org policy_id st else baseline_policy org)"

definition get_record_domain :: "Db \<Rightarrow> string \<Rightarrow> string \<Rightarrow> MatchStore \<Rightarrow> MatchRecord res" where
  "get_record_domain db org record_id st =
     bindR (not_found ''match record not found'' (get_match_record (db_scan db) org record_id (st_records st))) row_to_domain"

record EvaluateRequest =
  eq_record_a_id :: "string option"
  eq_record_b_id :: "string option"
  eq_record_a :: "MatchRecord option"
  eq_record_b :: "MatchRecord option"
  eq_policy_id :: "string option"

definition resolve_pair :: "Db \<Rightarrow> string \<Rightarrow> EvaluateRequest \<Rightarrow> MatchStore \<Rightarrow> (MatchRecord \<times> MatchRecord) res" where
  "resolve_pair db org body st =
     (if truthy (eq_record_a_id body) \<and> truthy (eq_record_b_id body) then
        bindR (get_record_domain db org (dget_opt (eq_record_a_id body)) st) (\<lambda>a.
        bindR (get_record_domain db org (dget_opt (eq_record_b_id body)) st) (\<lambda>b. Inr (a, b)))
      else (case (eq_record_a body, eq_record_b body) of
        (Some a, Some b) \<Rightarrow> Inr (a, b)
      | _ \<Rightarrow> Inl (HTTPException 422 ''provide record_a_id/record_b_id or record_a/record_b'')))"

definition evaluate_route :: "scorer \<Rightarrow> Db \<Rightarrow> string \<Rightarrow> EvaluateRequest \<Rightarrow> MatchStore \<Rightarrow> MatchDecision res" where
  "evaluate_route fz db org body st =
     (let policy = route_policy db org (eq_policy_id body) st in
      bindR (resolve_pair db org body st) (\<lambda>(a, b). evaluate_records fz org a b policy))"

definition decide_route ::
  "Db \<Rightarrow> pydatetime \<Rightarrow> string \<Rightarrow> string option \<Rightarrow> string \<Rightarrow> string \<Rightarrow> string option \<Rightarrow> string option \<Rightarrow> MatchStore \<Rightarrow>
     (MatchCandidateRow \<times> MatchStore) res" where
  "decide_route db now org actor candidate_id action operator note st =
     (case decide_candidate db now org candidate_id action (por actor operator) note st of
        Inl (LookupError e) \<Rightarrow> Inl (HTTPException 404 ''match candidate not found'')
      | Inl (ValueError e) \<Rightarrow> Inl (HTTPException 409 e)
      | r \<Rightarrow> r)"

text \<open>\<open>_safe_csv\<close> on the values of the report, all of them strings.\<close>

definition safe_csv :: "string \<Rightarrow> string" where
  "safe_csv s = (case s of [] \<Rightarrow> s
     | c # _ \<Rightarrow> if c \<in> {CHR ''='', CHR ''+'', CHR ''-'', CHR ''@''} then CHR 0x27 # s else s)"

end
