(* ===== verification/PO_ReconcileProps.thy ===== *)
theory PO_ReconcileProps
  imports PO_Reconcile
begin

text \<open>
  Results on reconciliation runs: the loop invariant that ties the counters, the claims and the
  pending rows together, one candidate per claim, when a run commits, and what happens when the
  same records are submitted twice.
\<close>

section \<open>One source\<close>

text \<open>
  A source either adds one pending row, whose classification is counted, or is counted as
  unmatched or failed.
\<close>

definition counted :: "MatchClassification \<Rightarrow> Pending list \<Rightarrow> nat" where
  "counted c ps = length (filter (\<lambda>p. pe_classification p = c) ps)"

definition claims_ok :: "(string, string) dict \<Rightarrow> Pending list \<Rightarrow> bool" where
  "claims_ok claimed ps \<longleftrightarrow> (\<forall>p \<in> set ps. pe_classification p \<in> {MATCHED, POSSIBLE_MATCH} \<longrightarrow>
     map_of claimed (mr_record_id (pe_candidate p)) = Some (mr_record_id (pe_source p)))"

definition counts_ok :: "nat \<Rightarrow> RunCounts \<Rightarrow> Pending list \<Rightarrow> bool" where
  "counts_ok n ct ps \<longleftrightarrow>
     ct_matched ct = counted MATCHED ps \<and> ct_possible_match ct = counted POSSIBLE_MATCH ps \<and>
     ct_review_required ct = counted REVIEW_REQUIRED ps \<and>
     ct_duplicate_candidate ct = counted DUPLICATE_CANDIDATE ps \<and> counted UNMATCHED ps = 0 \<and>
     length ps + ct_unmatched ct + ct_failed ct = n"

lemma counted_Nil [simp]: "counted c [] = 0"
  by (simp add: counted_def)

lemma counted_append [simp]:
  "counted c (ps @ [p]) = counted c ps + (if pe_classification p = c then 1 else 0)"
  by (simp add: counted_def)

lemma length_counted:
  "length ps = counted MATCHED ps + counted POSSIBLE_MATCH ps + counted REVIEW_REQUIRED ps
     + counted DUPLICATE_CANDIDATE ps + counted UNMATCHED ps"
proof (induction ps)
  case (Cons p ps)
  then show ?case by (cases "pe_classification p") (auto simp: counted_def)
qed simp

text \<open>The three ways a source leaves the loop body.\<close>

lemma reconcile_source_cases:
  obtains (unmatched) "reconcile_source ev policy cs src ls =
      ls\<lparr>ls_counts := (ls_counts ls)\<lparr>ct_unmatched := ct_unmatched (ls_counts ls) + 1\<rparr>\<rparr>"
  | (failed) "reconcile_source ev policy cs src ls =
      ls\<lparr>ls_counts := (ls_counts ls)\<lparr>ct_failed := ct_failed (ls_counts ls) + 1\<rparr>\<rparr>"
  | (row) ds best c ct where
      "decisions_for ev src (filter_candidates src cs policy DEFAULT_MAX_CANDIDATES) = Inr ds"
      "ds \<noteq> []" "best = hd (strongest_first ds)" "md_classification (snd best) \<noteq> UNMATCHED"
      "classify_best (strongest_first ds) (ls_claimed ls) (mr_record_id src) (ls_counts ls) = (c, ct)"
      "reconcile_source ev policy cs src ls =
         \<lparr>ls_counts = ct,
          ls_claimed = (if c \<in> {MATCHED, POSSIBLE_MATCH}
            then AList.update (mr_record_id (fst best)) (mr_record_id src) (ls_claimed ls) else ls_claimed ls),
          ls_pending = ls_pending ls @ [\<lparr>pe_source = src, pe_candidate = fst best,
            pe_decision = snd best, pe_classification = c\<rparr>]\<rparr>"
proof -
  let ?fc = "filter_candidates src cs policy DEFAULT_MAX_CANDIDATES"
  show thesis
  proof (cases "?fc = []")
    case True
    then show ?thesis by (intro unmatched) (simp add: reconcile_source_def Let_def)
  next
    case False
    show ?thesis
    proof (cases "decisions_for ev src ?fc")
      case (Inl e)
      with False show ?thesis by (intro failed) (simp add: reconcile_source_def Let_def)
    next
      case (Inr ds)
      have ne: "ds \<noteq> []"
        using Inr False mapR_Inr_length[of _ ?fc ds] by (auto simp: decisions_for_def)
      show ?thesis
      proof (cases "md_classification (snd (hd (strongest_first ds))) = UNMATCHED")
        case True
        with Inr False show ?thesis by (intro unmatched) (simp add: reconcile_source_def Let_def)
      next
        case no: False
        obtain c ct where c: "classify_best (strongest_first ds) (ls_claimed ls) (mr_record_id src) (ls_counts ls) = (c, ct)"
          by fastforce
        show ?thesis
          by (rule row[OF Inr ne refl no c]) (use Inr False no c in \<open>simp add: reconcile_source_def Let_def\<close>)
      qed
    qed
  qed
qed

lemma classify_best_cases:
  assumes "classify_best decisions claimed src ct = (c, ct')" "md_classification (snd (hd decisions)) \<noteq> UNMATCHED"
    "md_classification (snd (hd decisions)) \<noteq> DUPLICATE_CANDIDATE"
  obtains (duplicate) "c = DUPLICATE_CANDIDATE" "ct' = ct\<lparr>ct_duplicate_candidate := ct_duplicate_candidate ct + 1\<rparr>"
      "1 < length (filter (\<lambda>d. md_classification (snd d) = MATCHED) decisions)"
  | (taken) "c = REVIEW_REQUIRED" "ct' = ct\<lparr>ct_review_required := ct_review_required ct + 1\<rparr>"
      "claimed_by_other claimed (mr_record_id (fst (hd decisions))) src"
  | (own) "c = md_classification (snd (hd decisions))" "ct' = count_classification c ct"
      "\<not> claimed_by_other claimed (mr_record_id (fst (hd decisions))) src"
      "length (filter (\<lambda>d. md_classification (snd d) = MATCHED) decisions) \<le> 1"
  using assms by (auto simp: classify_best_def Let_def split: if_splits)

section \<open>The loop invariant\<close>

text \<open>No evaluation yields \<open>DUPLICATE_CANDIDATE\<close>; only the run assigns it.\<close>

definition engine_like :: "evaluation \<Rightarrow> bool" where
  "engine_like ev \<longleftrightarrow> (\<forall>a b d. ev a b = Inr d \<longrightarrow> md_classification d \<noteq> DUPLICATE_CANDIDATE)"

definition run_evaluation :: "scorer \<Rightarrow> MatchingPolicy \<Rightarrow> evaluation" where
  "run_evaluation fz policy = (\<lambda>a b. Inr (evaluate_pair fz a b policy ENGINE_VERSION_MATCHING))"

lemma match_classify_not_duplicate: "match_classify s cs p \<noteq> DUPLICATE_CANDIDATE"
  by (simp add: match_classify_def Let_def)

lemma run_evaluation_engine_like: "engine_like (run_evaluation fz policy)"
  by (simp add: engine_like_def run_evaluation_def evaluate_pair_def Let_def match_classify_not_duplicate)

lemma best_in_decisions: "ds \<noteq> [] \<Longrightarrow> hd (strongest_first ds) \<in> set ds"
  using hd_in_set[of "strongest_first ds"] by (simp add: strongest_first_def)

lemma decision_of: "decisions_for ev src cs = Inr ds \<Longrightarrow> x \<in> set ds \<Longrightarrow> fst x \<in> set cs \<and> ev src (fst x) = Inr (snd x)"
proof -
  assume ds: "decisions_for ev src cs = Inr ds" and x: "x \<in> set ds"
  obtain i where i: "i < length ds" "x = ds ! i" using x by (metis in_set_conv_nth)
  have "i < length cs" using ds i mapR_Inr_length by (fastforce simp: decisions_for_def)
  moreover have "bindR (ev src (cs ! i)) (\<lambda>d. Inr (cs ! i, d)) = Inr (ds ! i)"
    using mapR_Inr_nth ds calculation unfolding decisions_for_def by fast
  ultimately obtain d where "ev src (cs ! i) = Inr d" "x = (cs ! i, d)" "i < length cs"
    using i by (auto simp: bindR_Inr)
  then show ?thesis by simp
qed

lemma best_not_duplicate:
  assumes "engine_like ev" "decisions_for ev src cs = Inr ds" "ds \<noteq> []"
  shows "md_classification (snd (hd (strongest_first ds))) \<noteq> DUPLICATE_CANDIDATE"
  using decision_of[OF assms(2) best_in_decisions[OF assms(3)]] assms(1) by (auto simp: engine_like_def)

lemma not_claimed_by_other: "\<not> claimed_by_other claimed c s \<longleftrightarrow> map_of claimed c \<in> {None, Some s}"
  by (auto simp: claimed_by_other_def split: option.splits)

lemma claims_step:
  assumes "engine_like ev" "claims_ok (ls_claimed ls) (ls_pending ls)"
  shows "claims_ok (ls_claimed (reconcile_source ev policy cs src ls)) (ls_pending (reconcile_source ev policy cs src ls))"
proof (cases rule: reconcile_source_cases[where ev = ev and policy = policy and cs = cs and src = src and ls = ls])
  case (row ds best c ct)
  have nd: "md_classification (snd best) \<noteq> DUPLICATE_CANDIDATE"
    using best_not_duplicate[OF assms(1) row(1,2)] row(3) by simp
  from row(5) have cb: "classify_best (strongest_first ds) (ls_claimed ls) (mr_record_id src) (ls_counts ls) = (c, ct)" .
  show ?thesis
  proof (cases rule: classify_best_cases[OF cb])
    case 1 then show ?case using row by simp
  next
    case 2 then show ?case using row nd by simp
  next
    case 3 then show ?thesis using assms(2) by (auto simp: row(6) claims_ok_def)
  next
    case 4 then show ?thesis using assms(2) by (auto simp: row(6) claims_ok_def)
  next
    case 5
    then show ?thesis using assms(2) row(3) by (auto simp: row(6) claims_ok_def not_claimed_by_other)
  qed
qed (use assms(2) in auto)

lemma counts_step:
  assumes "engine_like ev" "counts_ok n (ls_counts ls) (ls_pending ls)"
  shows "counts_ok (Suc n) (ls_counts (reconcile_source ev policy cs src ls)) (ls_pending (reconcile_source ev policy cs src ls))"
proof (cases rule: reconcile_source_cases[where ev = ev and policy = policy and cs = cs and src = src and ls = ls])
  case (row ds best c ct)
  have nd: "md_classification (snd best) \<noteq> DUPLICATE_CANDIDATE"
    using best_not_duplicate[OF assms(1) row(1,2)] row(3) by simp
  from row(5) have cb: "classify_best (strongest_first ds) (ls_claimed ls) (mr_record_id src) (ls_counts ls) = (c, ct)" .
  show ?thesis
  proof (cases rule: classify_best_cases[OF cb])
    case 1 then show ?case using row by simp
  next
    case 2 then show ?case using row nd by simp
  next
    case 3 then show ?thesis using assms(2) by (simp add: row(6) counts_ok_def)
  next
    case 4 then show ?thesis using assms(2) by (simp add: row(6) counts_ok_def)
  next
    case 5
    then show ?thesis using assms(2) row(3,4) nd
      by (cases c) (auto simp: row(6) counts_ok_def count_classification_def)
  qed
qed (use assms(2) in \<open>auto simp: counts_ok_def\<close>)

lemma reconcile_loop_invariant:
  assumes "engine_like ev" "claims_ok (ls_claimed ls) (ls_pending ls)" "counts_ok n (ls_counts ls) (ls_pending ls)"
  shows "claims_ok (ls_claimed (reconcile_loop ev policy cs srcs ls)) (ls_pending (reconcile_loop ev policy cs srcs ls)) \<and>
    counts_ok (n + length srcs) (ls_counts (reconcile_loop ev policy cs srcs ls)) (ls_pending (reconcile_loop ev policy cs srcs ls))"
  using assms
proof (induction srcs arbitrary: ls n)
  case (Cons s srcs)
  then show ?case using claims_step[OF Cons.prems(1,2)] counts_step[OF Cons.prems(1,3)] by fastforce
qed simp

lemma reconcile_all_invariant:
  assumes "engine_like ev"
  shows "claims_ok (ls_claimed (reconcile_all ev policy srcs cs)) (ls_pending (reconcile_all ev policy srcs cs))"
    and "counts_ok (length srcs) (ls_counts (reconcile_all ev policy srcs cs)) (ls_pending (reconcile_all ev policy srcs cs))"
  using reconcile_loop_invariant[OF assms, of "loop_start (length srcs)" 0 policy cs srcs]
  by (simp_all add: reconcile_all_def loop_start_def claims_ok_def counts_ok_def counts_start_def)

lemma reconcile_source_total [simp]:
  "ct_total (ls_counts (reconcile_source ev policy cs src ls)) = ct_total (ls_counts ls)"
  by (cases rule: reconcile_source_cases[where ev = ev and policy = policy and cs = cs and src = src and ls = ls])
    (auto simp: classify_best_def Let_def count_classification_def split: if_splits)

lemma reconcile_loop_total [simp]:
  "ct_total (ls_counts (reconcile_loop ev policy cs srcs ls)) = ct_total (ls_counts ls)"
  by (induction srcs arbitrary: ls) simp_all

text \<open>Every pending row comes from a source and a candidate that passes its narrowing.\<close>

definition pending_ok :: "evaluation \<Rightarrow> MatchingPolicy \<Rightarrow> MatchRecord list \<Rightarrow> MatchRecord list \<Rightarrow> Pending list \<Rightarrow> bool" where
  "pending_ok ev policy srcs cs ps \<longleftrightarrow> (\<forall>p \<in> set ps. pe_source p \<in> set srcs \<and>
     pe_candidate p \<in> set (filter_candidates (pe_source p) cs policy DEFAULT_MAX_CANDIDATES) \<and>
     ev (pe_source p) (pe_candidate p) = Inr (pe_decision p) \<and> md_classification (pe_decision p) \<noteq> UNMATCHED)"

lemma pending_step:
  assumes "pending_ok ev policy srcs cs (ls_pending ls)" "src \<in> set srcs"
  shows "pending_ok ev policy srcs cs (ls_pending (reconcile_source ev policy cs src ls))"
proof (cases rule: reconcile_source_cases[where ev = ev and policy = policy and cs = cs and src = src and ls = ls])
  case (row ds best c ct)
  have "fst best \<in> set (filter_candidates src cs policy DEFAULT_MAX_CANDIDATES) \<and> ev src (fst best) = Inr (snd best)"
    using decision_of[OF row(1) best_in_decisions[OF row(2)]] row(3) by simp
  then show ?thesis using assms row(4) by (auto simp: row(6) pending_ok_def)
qed (use assms in auto)

lemma pending_loop:
  "pending_ok ev policy all cs (ls_pending ls) \<Longrightarrow> set srcs \<subseteq> set all \<Longrightarrow>
     pending_ok ev policy all cs (ls_pending (reconcile_loop ev policy cs srcs ls))"
  by (induction srcs arbitrary: ls) (simp_all add: pending_step)

lemma pending_all: "pending_ok ev policy srcs cs (ls_pending (reconcile_all ev policy srcs cs))"
  unfolding reconcile_all_def by (rule pending_loop) (simp_all add: pending_ok_def loop_start_def)

section \<open>Copies of one source and one candidate\<close>

lemma insort_desc_replicate: "insort_desc f x (replicate n x) = x # replicate n x"
  by (cases n) simp_all

lemma sort_desc_replicate [simp]: "sort_desc f (replicate n x) = replicate n x"
  by (induction n) (simp_all add: insort_desc_replicate)

lemma mapR_replicate: "f x = Inr y \<Longrightarrow> mapR f (replicate n x) = Inr (replicate n y)"
  by (induction n) simp_all

definition matched_pair :: "evaluation \<Rightarrow> MatchingPolicy \<Rightarrow> MatchRecord \<Rightarrow> MatchRecord \<Rightarrow> MatchDecision \<Rightarrow> bool" where
  "matched_pair ev policy a b d \<longleftrightarrow> candidate_matches b (service_criteria a policy DEFAULT_MAX_CANDIDATES) \<and>
     mr_record_id b \<noteq> mr_record_id a \<and> ev a b = Inr d \<and> md_classification d = MATCHED"

definition copies_class :: "nat \<Rightarrow> MatchClassification" where
  "copies_class k = (if k < 2 then MATCHED else DUPLICATE_CANDIDATE)"

definition copies_count :: "nat \<Rightarrow> nat \<Rightarrow> RunCounts \<Rightarrow> RunCounts" where
  "copies_count k m ct = (if k < 2 then ct\<lparr>ct_matched := ct_matched ct + m\<rparr>
     else ct\<lparr>ct_duplicate_candidate := ct_duplicate_candidate ct + m\<rparr>)"

lemma reconcile_source_copies:
  assumes "matched_pair ev policy a b d" "0 < k" "\<not> claimed_by_other (ls_claimed ls) (mr_record_id b) (mr_record_id a)"
  shows "reconcile_source ev policy (replicate k b) a ls =
    \<lparr>ls_counts = copies_count k 1 (ls_counts ls),
     ls_claimed = (if k < 2 then AList.update (mr_record_id b) (mr_record_id a) (ls_claimed ls) else ls_claimed ls),
     ls_pending = ls_pending ls @ [\<lparr>pe_source = a, pe_candidate = b, pe_decision = d, pe_classification = copies_class k\<rparr>]\<rparr>"
proof -
  let ?n = "min DEFAULT_MAX_CANDIDATES k"
  have n: "0 < ?n" "?n < 2 \<longleftrightarrow> k < 2" using assms(2) by (auto simp: DEFAULT_MAX_CANDIDATES_def)
  have cands: "filter_candidates a (replicate k b) policy DEFAULT_MAX_CANDIDATES = replicate ?n b"
    using assms(1) by (simp add: filter_candidates_def matched_pair_def filter_replicate Let_def)
  have ds: "decisions_for ev a (replicate ?n b) = Inr (replicate ?n (b, d))"
    using assms(1) unfolding decisions_for_def by (intro mapR_replicate) (simp add: matched_pair_def)
  have hd: "hd (replicate ?n (b, d)) = (b, d)" using n(1) by simp
  show ?thesis
    using assms n cands ds hd
    by (auto simp: reconcile_source_def strongest_first_def classify_best_def matched_pair_def filter_replicate
        count_classification_def copies_class_def copies_count_def Let_def)
qed

lemma copies_count_add: "copies_count k m (copies_count k n ct) = copies_count k (n + m) ct"
  by (simp add: copies_count_def)

lemma copies_count_zero: "copies_count k 0 ct = ct"
  by (simp add: copies_count_def)

lemma reconcile_loop_copies:
  assumes "matched_pair ev policy a b d" "0 < k" "\<not> claimed_by_other (ls_claimed ls) (mr_record_id b) (mr_record_id a)"
  shows "ls_counts (reconcile_loop ev policy (replicate k b) (replicate m a) ls) = copies_count k m (ls_counts ls) \<and>
    ls_pending (reconcile_loop ev policy (replicate k b) (replicate m a) ls) = ls_pending ls @
      replicate m \<lparr>pe_source = a, pe_candidate = b, pe_decision = d, pe_classification = copies_class k\<rparr>"
  using assms(3)
proof (induction m arbitrary: ls)
  case 0
  then show ?case by (simp add: copies_count_zero)
next
  case (Suc m)
  let ?ls = "reconcile_source ev policy (replicate k b) a ls"
  note ls = reconcile_source_copies[OF assms(1,2) Suc.prems]
  have "\<not> claimed_by_other (ls_claimed ?ls) (mr_record_id b) (mr_record_id a)"
    using Suc.prems by (simp add: ls claimed_by_other_def)
  from Suc.IH[OF this] show ?case by (simp add: ls copies_count_add)
qed

text \<open>
  \<open>m\<close> copies of a source against \<open>k\<close> copies of its match: with one copy of the candidate they are
  matched, with more every source is a duplicate.
\<close>

lemma reconcile_copies:
  assumes "matched_pair ev policy a b d" "0 < k"
  shows "ls_counts (reconcile_all ev policy (replicate m a) (replicate k b)) = copies_count k m (counts_start m)"
    and "ls_pending (reconcile_all ev policy (replicate m a) (replicate k b)) =
      replicate m \<lparr>pe_source = a, pe_candidate = b, pe_decision = d, pe_classification = copies_class k\<rparr>"
  using reconcile_loop_copies[OF assms, of "loop_start m" m]
  by (simp_all add: reconcile_all_def loop_start_def claimed_by_other_def)

section \<open>Executing a run\<close>

lemma execute_committed:
  assumes "execute_reconciliation fz db now org rid srcs cs policy st = (Inr run, st')"
  obtains run0 where "get_run (db_scan db) org rid (st_runs st) = Inr run0"
    "flushable (ls_pending (reconcile_all (run_evaluation fz policy) policy srcs cs))"
    "run = finished_run (ls_counts (reconcile_all (run_evaluation fz policy) policy srcs cs)) now (started_run now run0)"
    "st_candidates st' = st_candidates st @ candidate_rows db now org (ru_id run0)
       (ls_pending (reconcile_all (run_evaluation fz policy) policy srcs cs)) (st_uuids st)"
  using assms
  by (auto simp: execute_reconciliation_def run_evaluation_def update_run_def Let_def split: sum.splits if_splits)

definition added_candidates :: "MatchStore \<Rightarrow> MatchStore \<Rightarrow> MatchCandidateRow list" where
  "added_candidates st st' = drop (length (st_candidates st)) (st_candidates st')"

lemma added_rows:
  assumes "execute_reconciliation fz db now org rid srcs cs policy st = (Inr run, st')"
  obtains run0 where "added_candidates st st' = candidate_rows db now org (ru_id run0)
      (ls_pending (reconcile_all (run_evaluation fz policy) policy srcs cs)) (st_uuids st)"
    "run = finished_run (ls_counts (reconcile_all (run_evaluation fz policy) policy srcs cs)) now (started_run now run0)"
  using execute_committed[OF assms] by (metis added_candidates_def append_eq_conv_conj)

lemma candidate_rows_from:
  "r \<in> set (candidate_rows db now org rid ps n) \<Longrightarrow>
     \<exists>p\<in>set ps. mc_classification r = pe_classification p \<and> mc_source_record_id r = mr_record_id (pe_source p) \<and>
       mc_candidate_record_id r = mr_record_id (pe_candidate p)"
  by (auto simp: candidate_rows_def persist_candidate_def dest: set_zip_rightD)

lemma candidate_rows_classes: "map mc_classification (candidate_rows db now org rid ps n) = map pe_classification ps"
  by (rule nth_equalityI) (simp_all add: candidate_rows_def persist_candidate_def)

lemma length_candidate_rows [simp]: "length (candidate_rows db now org rid ps n) = length ps"
  by (simp add: candidate_rows_def)

definition rows_classified :: "MatchClassification \<Rightarrow> MatchCandidateRow list \<Rightarrow> nat" where
  "rows_classified c rows = length (filter (\<lambda>r. mc_classification r = c) rows)"

lemma rows_classified_counted: "rows_classified c (candidate_rows db now org rid ps n) = counted c ps"
proof -
  have r: "rows_classified c rows = count_list (map mc_classification rows) c" for rows
    by (induction rows) (auto simp: rows_classified_def)
  have p: "counted c ps = count_list (map pe_classification ps) c"
    by (induction ps) (auto simp: counted_def)
  show ?thesis unfolding r p candidate_rows_classes ..
qed

text \<open>C23: In one run a candidate is never matched, not even possibly, with two different sources.\<close>

theorem reconciliation_one_to_one:
  assumes "execute_reconciliation fz db now org rid srcs cs policy st = (Inr run, st')"
    and "a \<in> set (added_candidates st st')" "b \<in> set (added_candidates st st')"
    and "mc_classification a \<in> {MATCHED, POSSIBLE_MATCH}" "mc_classification b \<in> {MATCHED, POSSIBLE_MATCH}"
    and "mc_candidate_record_id a = mc_candidate_record_id b"
  shows "mc_source_record_id a = mc_source_record_id b"
proof -
  let ?ls = "reconcile_all (run_evaluation fz policy) policy srcs cs"
  obtain run0 where rows: "added_candidates st st' = candidate_rows db now org (ru_id run0) (ls_pending ?ls) (st_uuids st)"
    and "run = finished_run (ls_counts ?ls) now (started_run now run0)"
    using added_rows[OF assms(1)] .
  have claims: "claims_ok (ls_claimed ?ls) (ls_pending ?ls)"
    by (rule reconcile_all_invariant(1)[OF run_evaluation_engine_like])
  obtain p where p: "p \<in> set (ls_pending ?ls)" "mc_classification a = pe_classification p"
      "mc_source_record_id a = mr_record_id (pe_source p)" "mc_candidate_record_id a = mr_record_id (pe_candidate p)"
    using candidate_rows_from[OF assms(2)[unfolded rows]] by blast
  obtain q where q: "q \<in> set (ls_pending ?ls)" "mc_classification b = pe_classification q"
      "mc_source_record_id b = mr_record_id (pe_source q)" "mc_candidate_record_id b = mr_record_id (pe_candidate q)"
    using candidate_rows_from[OF assms(3)[unfolded rows]] by blast
  have "Some (mc_source_record_id a) = Some (mc_source_record_id b)"
    using claims p q assms(4-6) unfolding claims_ok_def by metis
  then show ?thesis by simp
qed

text \<open>C24: The counters of a completed run describe its rows: each counter is the number of stored rows
  with its classification, sources without a row are unmatched or failed, and all add up to the
  number of sources.\<close>

theorem run_counters_describe_rows:
  assumes "execute_reconciliation fz db now org rid srcs cs policy st = (Inr run, st')"
  shows "ct_total (ru_counts run) = length srcs \<and>
    ct_matched (ru_counts run) = rows_classified MATCHED (added_candidates st st') \<and>
    ct_possible_match (ru_counts run) = rows_classified POSSIBLE_MATCH (added_candidates st st') \<and>
    ct_review_required (ru_counts run) = rows_classified REVIEW_REQUIRED (added_candidates st st') \<and>
    ct_duplicate_candidate (ru_counts run) = rows_classified DUPLICATE_CANDIDATE (added_candidates st st') \<and>
    length (added_candidates st st') + ct_unmatched (ru_counts run) + ct_failed (ru_counts run) = length srcs \<and>
    ct_total (ru_counts run) = ct_matched (ru_counts run) + ct_possible_match (ru_counts run) +
      ct_review_required (ru_counts run) + ct_unmatched (ru_counts run) +
      ct_duplicate_candidate (ru_counts run) + ct_failed (ru_counts run)"
proof -
  let ?ls = "reconcile_all (run_evaluation fz policy) policy srcs cs"
  obtain run0 where rows: "added_candidates st st' = candidate_rows db now org (ru_id run0) (ls_pending ?ls) (st_uuids st)"
    and run: "run = finished_run (ls_counts ?ls) now (started_run now run0)"
    using added_rows[OF assms] .
  have ok: "counts_ok (length srcs) (ls_counts ?ls) (ls_pending ?ls)"
    by (rule reconcile_all_invariant(2)[OF run_evaluation_engine_like])
  have total: "ct_total (ls_counts ?ls) = length srcs"
    by (simp add: reconcile_all_def loop_start_def counts_start_def)
  show ?thesis
    using ok total length_counted[of "ls_pending ?ls"]
    by (simp add: run rows finished_run_def rows_classified_counted counts_ok_def)
qed

section \<open>What a run can store\<close>

lemma json_value_simps [simp]:
  "json_value_ok None" "json_value_ok (Some (NStr s))" "\<not> json_value_ok (Some (NDec d))"
  "json_value_ok (map_option NStr x)"
  by (simp_all add: json_value_ok_def split: option.split)

lemma text_normalizers:
  "map_of NORMALIZERS f = Some nz \<Longrightarrow> f \<noteq> ''amount'' \<Longrightarrow> json_value_ok (nz v)"
proof -
  assume nz: "map_of NORMALIZERS f = Some nz" and f: "f \<noteq> ''amount''"
  have "\<forall>(g, n) \<in> set NORMALIZERS. g \<noteq> ''amount'' \<longrightarrow> (\<forall>v. json_value_ok (n v))"
    by (simp add: NORMALIZERS_def)
  with map_of_SomeD[OF nz] f show ?thesis by auto
qed

lemma normalize_field_text: "f \<noteq> ''amount'' \<Longrightarrow> json_value_ok (normalize_field f v)"
  by (auto simp: normalize_field_def text_normalizers json_value_ok_def split: option.splits
      dest: text_normalizers[where v = v])

lemma value_get_text: "f \<noteq> ''amount'' \<Longrightarrow> json_value_ok (value_get (normalize_record r) f)"
  by (auto simp: value_get_def normalize_record_def map_of_map_keyed dget_def normalize_field_text split: option.split)

lemma value_get_amount: "value_get (normalize_record r) ''amount'' = map_option NDec (mr_amount r)"
  by (cases "mr_amount r") (simp_all add: value_get_def normalize_record_def raw_fields_def normalize_field_def
      NORMALIZERS_def normalize_amount_value_def normalize_amount_def)

text \<open>A comparison can be stored unless it is the comparison of amounts with one of them absent.\<close>

lemma json_field_result [simp]:
  "json_result_ok (field_result f k a b w c s st code) \<longleftrightarrow> json_value_ok a \<and> json_value_ok b"
  by (simp add: json_result_ok_def field_result_def)

lemma json_exact: "json_value_ok a \<Longrightarrow> json_value_ok b \<Longrightarrow> json_result_ok (exact_result f a b w c code)"
  by (auto simp: exact_result_def Let_def split: option.split)

lemma json_date: "json_value_ok a \<Longrightarrow> json_value_ok b \<Longrightarrow> json_result_ok (date_result f a b w c p)"
  by (auto simp: date_result_def Let_def split: option.split)

lemma json_fuzzy: "json_value_ok a \<Longrightarrow> json_value_ok b \<Longrightarrow> json_result_ok (fuzzy_result fz f a b w c alg code)"
  by (auto simp: fuzzy_result_def Let_def split: option.split)

lemma json_amount: "json_result_ok (amount_result f a b w c p) \<longleftrightarrow> (a = None \<longleftrightarrow> b = None)"
  by (cases a; cases b) (simp_all add: amount_result_def Let_def)

lemma as_decimal_NDec [simp]: "as_decimal (map_option NDec x) = x"
  by (cases x) (simp_all add: as_decimal_def)

lemma json_compare:
  "sp \<in> set FIELD_SPECS \<Longrightarrow> json_result_ok (compare_field fz policy (normalize_record a) (normalize_record b) sp) \<longleftrightarrow>
     fst sp \<noteq> ''amount'' \<or> (mr_amount a = None \<longleftrightarrow> mr_amount b = None)"
proof (cases "fst sp = ''amount''")
  case True
  assume "sp \<in> set FIELD_SPECS"
  with True have "sp = (''amount'', KAmount)" by (auto simp: FIELD_SPECS_def)
  then show ?thesis by (simp add: compare_field_def Let_def value_get_amount json_amount)
next
  case False
  assume "sp \<in> set FIELD_SPECS"
  with False have "snd sp \<noteq> KAmount" by (auto simp: FIELD_SPECS_def)
  then show ?thesis
    by (cases sp; cases "snd sp")
      (use False in \<open>auto simp: compare_field_def Let_def json_exact json_date json_fuzzy value_get_text\<close>)
qed

lemma json_evaluation:
  "list_all json_result_ok (md_field_results (evaluate_pair fz a b policy v)) \<longleftrightarrow>
     (mr_amount a = None \<longleftrightarrow> mr_amount b = None)"
proof -
  have "\<exists>sp\<in>set FIELD_SPECS. fst sp = ''amount''" by (simp add: FIELD_SPECS_def)
  then show ?thesis
    by (auto simp: evaluate_pair_def Let_def field_results_of_def list_all_iff json_compare)
qed

lemma flushable_iff:
  "pending_ok (run_evaluation fz policy) policy srcs cs ps \<Longrightarrow>
     flushable ps \<longleftrightarrow> (\<forall>p\<in>set ps. mr_amount (pe_source p) = None \<longleftrightarrow> mr_amount (pe_candidate p) = None)"
proof -
  assume ok: "pending_ok (run_evaluation fz policy) policy srcs cs ps"
  have "list_all json_result_ok (md_field_results (pe_decision p)) \<longleftrightarrow>
      (mr_amount (pe_source p) = None \<longleftrightarrow> mr_amount (pe_candidate p) = None)" if "p \<in> set ps" for p
  proof -
    from that ok have "pe_decision p = evaluate_pair fz (pe_source p) (pe_candidate p) policy ENGINE_VERSION_MATCHING"
      by (simp add: pending_ok_def run_evaluation_def)
    then show ?thesis by (simp add: json_evaluation)
  qed
  then show ?thesis by (simp add: flushable_def list_all_iff[of _ ps])
qed

lemma run_never_fails:
  "ct_failed (ls_counts (reconcile_all (run_evaluation fz policy) policy srcs cs)) = 0"
proof -
  have "decisions_for (run_evaluation fz policy) src xs \<noteq> Inl e" for src xs e
    using mapR_Inl by (fastforce simp: decisions_for_def run_evaluation_def)
  then have step: "ct_failed (ls_counts (reconcile_source (run_evaluation fz policy) policy cs src ls)) = ct_failed (ls_counts ls)" for src ls
    by (auto simp: reconcile_source_def classify_best_def count_classification_def Let_def split: sum.splits)
  have "ct_failed (ls_counts (reconcile_loop (run_evaluation fz policy) policy cs srcs ls)) = ct_failed (ls_counts ls)" for ls
    by (induction srcs arbitrary: ls) (simp_all add: step)
  then show ?thesis by (simp add: reconcile_all_def loop_start_def counts_start_def)
qed

text \<open>A run commits, as \<open>COMPLETED\<close>, exactly when no persisted pair has an amount on one side only;
  otherwise it raises at the commit, stays \<open>RUNNING\<close>, and none of its rows is stored: the field
  results then hold a \<open>Decimal\<close>, which JSON cannot encode.\<close>

theorem run_commits_iff_amounts_paired:
  assumes "get_run (db_scan db) org rid (st_runs st) = Inr run"
  shows "if \<forall>p\<in>set (ls_pending (reconcile_all (run_evaluation fz policy) policy srcs cs)).
            mr_amount (pe_source p) = None \<longleftrightarrow> mr_amount (pe_candidate p) = None
    then \<exists>run' st'. execute_reconciliation fz db now org rid srcs cs policy st = (Inr run', st') \<and>
      ru_status run' = COMPLETED
    else execute_reconciliation fz db now org rid srcs cs policy st =
      (Inl (StatementError ''Object of type Decimal is not JSON serializable''),
       update_run (ru_id run) (started_run now) st)"
  using flushable_iff[OF pending_all, of fz policy srcs cs] run_never_fails[of fz policy srcs cs] assms
  by (simp add: execute_reconciliation_def run_evaluation_def Let_def finished_run_def)

section \<open>A concrete run\<close>

definition wit_record :: "string \<Rightarrow> string \<Rightarrow> pydec option \<Rightarrow> MatchRecord" where
  "wit_record rid tx amount =
     \<lparr>mr_record_id = rid, mr_record_type = PAYMENT, mr_organization_id = ''org'', mr_profile_id = None,
      mr_source_system = None, mr_message_type = None, mr_instruction_id = None,
      mr_end_to_end_id = None, mr_transaction_id = Some tx, mr_amount = amount, mr_currency = None,
      mr_booking_date = None, mr_value_date = None, mr_debtor_name = None, mr_creditor_name = None,
      mr_debtor_account = None, mr_creditor_account = None, mr_debtor_agent = None,
      mr_creditor_agent = None, mr_remittance_reference = None, mr_external_reference = None,
      mr_country = None, mr_source_hash = None, mr_metadata = []\<rparr>"

definition wit_time :: pydatetime where
  "wit_time = \<lparr>t_date = mk_date 2024 1 2, t_hour = 0, t_minute = 0, t_second = 0, t_micro = 0,
     t_offset = Some 0\<rparr>"

definition wit_db :: Db where
  "wit_db = \<lparr>db_scan = heap_scan, db_uid = (\<lambda>n. CHR ''k'' # show_nat n), db_numeric = Inr\<rparr>"

definition wit_empty :: MatchStore where
  "wit_empty = \<lparr>st_policies = [], st_versions = [], st_records = [], st_runs = [],
     st_candidates = [], st_uuids = 0\<rparr>"

text \<open>A store with one queued run, and the execution of the run on given records.\<close>

definition wit_store :: MatchStore where
  "wit_store = snd (create_reconciliation_run wit_db wit_time ''org'' [] [] None wit_empty)"

definition wit_exec :: "MatchRecord list \<Rightarrow> MatchRecord list \<Rightarrow> MatchRun res \<times> MatchStore" where
  "wit_exec srcs cs = execute_reconciliation (\<lambda>_ _ _. 0) wit_db wit_time ''org'' ''k0'' srcs cs
     (baseline_policy ''org'') wit_store"

lemma wit_committed:
  "\<not> isl (fst (wit_exec srcs cs)) \<Longrightarrow> wit_exec srcs cs = (Inr (projr (fst (wit_exec srcs cs))), snd (wit_exec srcs cs))"
  by (metis prod.collapse sum.collapse(2))

lemma wit_record_amount [simp]: "mr_amount (wit_record rid tx amount) = amount"
  by (simp add: wit_record_def)

lemma wit_matched:
  assumes "b = wit_record ''c'' ''T'' None" "a = wit_record ''s'' ''T'' amount"
    and "md_classification (evaluate_pair (\<lambda>_ _ _. 0) a b (baseline_policy ''org'') ENGINE_VERSION_MATCHING) = MATCHED"
  shows "matched_pair (run_evaluation (\<lambda>_ _ _. 0) (baseline_policy ''org'')) (baseline_policy ''org'') a b
     (evaluate_pair (\<lambda>_ _ _. 0) a b (baseline_policy ''org'') ENGINE_VERSION_MATCHING)"
  using assms by (simp add: matched_pair_def run_evaluation_def candidate_matches_def service_criteria_def
      narrowing_criteria_def wit_record_def Let_def split: option.split)

lemma wit_classes:
  "md_classification (evaluate_pair (\<lambda>_ _ _. 0) (wit_record ''s'' ''T'' None) (wit_record ''c'' ''T'' None)
     (baseline_policy ''org'') ENGINE_VERSION_MATCHING) = MATCHED"
  "md_classification (evaluate_pair (\<lambda>_ _ _. 0) (wit_record ''s'' ''T'' (Some (mk_dec False 100 0)))
     (wit_record ''c'' ''T'' None) (baseline_policy ''org'') ENGINE_VERSION_MATCHING) = MATCHED"
  by code_simp+

lemma wit_run: "get_run (db_scan wit_db) ''org'' ''k0'' (st_runs wit_store) = Inr (hd (st_runs wit_store))"
    "ru_id (hd (st_runs wit_store)) = ''k0''"
proof -
  have k: "show_nat 0 = ''0''" by code_simp
  have "filter (\<lambda>r. ru_id r = ''k0'' \<and> ru_organization_id r = ''org'') (st_runs wit_store) = [hd (st_runs wit_store)]"
    by (simp add: wit_store_def create_reconciliation_run_def fresh_id_def wit_db_def wit_empty_def Let_def k)
  then show "get_run (db_scan wit_db) ''org'' ''k0'' (st_runs wit_store) = Inr (hd (st_runs wit_store))"
    by (simp add: get_run_def wit_db_def get_one_found)
  show "ru_id (hd (st_runs wit_store)) = ''k0''"
    by (simp add: wit_store_def create_reconciliation_run_def fresh_id_def wit_db_def wit_empty_def Let_def k)
qed

text \<open>One source submitted twice in one run, against one candidate.\<close>

definition wit_twice :: "MatchRun res \<times> MatchStore" where
  "wit_twice = wit_exec (replicate 2 (wit_record ''s'' ''T'' None)) (replicate 1 (wit_record ''c'' ''T'' None))"

lemma wit_pending:
  "ls_pending (reconcile_all (run_evaluation (\<lambda>_ _ _. 0) (baseline_policy ''org'')) (baseline_policy ''org'')
     (replicate 2 (wit_record ''s'' ''T'' None)) (replicate 1 (wit_record ''c'' ''T'' None))) =
   replicate 2 \<lparr>pe_source = wit_record ''s'' ''T'' None, pe_candidate = wit_record ''c'' ''T'' None,
     pe_decision = evaluate_pair (\<lambda>_ _ _. 0) (wit_record ''s'' ''T'' None) (wit_record ''c'' ''T'' None)
       (baseline_policy ''org'') ENGINE_VERSION_MATCHING, pe_classification = MATCHED\<rparr>"
  using reconcile_copies(2)[OF wit_matched[OF refl refl wit_classes(1)], of 1 2]
  by (simp add: copies_class_def del: replicate.simps)

lemma execute_commits:
  assumes "get_run (db_scan db) org rid (st_runs st) = Inr run0"
    and "flushable (ls_pending (reconcile_all (run_evaluation fz policy) policy srcs cs))"
  shows "\<exists>run st'. execute_reconciliation fz db now org rid srcs cs policy st = (Inr run, st')"
  using assms by (simp add: execute_reconciliation_def run_evaluation_def Let_def)

lemma wit_twice_run:
  obtains run st' where "wit_twice = (Inr run, st')"
    "execute_reconciliation (\<lambda>_ _ _. 0) wit_db wit_time ''org'' ''k0'' (replicate 2 (wit_record ''s'' ''T'' None))
       (replicate 1 (wit_record ''c'' ''T'' None)) (baseline_policy ''org'') wit_store = (Inr run, st')"
    "map (\<lambda>r. (mc_source_record_id r, mc_candidate_record_id r, mc_classification r)) (added_candidates wit_store st')
       = [(''s'', ''c'', MATCHED), (''s'', ''c'', MATCHED)]"
proof -
  have "flushable (ls_pending (reconcile_all (run_evaluation (\<lambda>_ _ _. 0) (baseline_policy ''org'')) (baseline_policy ''org'')
     (replicate 2 (wit_record ''s'' ''T'' None)) (replicate 1 (wit_record ''c'' ''T'' None))))"
    unfolding wit_pending flushable_def by (simp add: numeral_2_eq_2 json_evaluation)
  from execute_commits[OF wit_run(1) this] obtain run st' where e:
    "execute_reconciliation (\<lambda>_ _ _. 0) wit_db wit_time ''org'' ''k0'' (replicate 2 (wit_record ''s'' ''T'' None))
       (replicate 1 (wit_record ''c'' ''T'' None)) (baseline_policy ''org'') wit_store = (Inr run, st')" by blast
  obtain run0 where rows: "added_candidates wit_store st' = candidate_rows wit_db wit_time ''org'' (ru_id run0)
      (ls_pending (reconcile_all (run_evaluation (\<lambda>_ _ _. 0) (baseline_policy ''org'')) (baseline_policy ''org'')
        (replicate 2 (wit_record ''s'' ''T'' None)) (replicate 1 (wit_record ''c'' ''T'' None)))) (st_uuids wit_store)"
    and "run = finished_run (ls_counts (reconcile_all (run_evaluation (\<lambda>_ _ _. 0) (baseline_policy ''org''))
      (baseline_policy ''org'') (replicate 2 (wit_record ''s'' ''T'' None)) (replicate 1 (wit_record ''c'' ''T'' None))))
      wit_time (started_run wit_time run0)"
    using added_rows[OF e] .
  show ?thesis
  proof (rule that)
    show "wit_twice = (Inr run, st')" using e by (simp add: wit_twice_def wit_exec_def)
    show "map (\<lambda>r. (mc_source_record_id r, mc_candidate_record_id r, mc_classification r)) (added_candidates wit_store st')
       = [(''s'', ''c'', MATCHED), (''s'', ''c'', MATCHED)]"
      unfolding rows wit_pending
      by (simp add: candidate_rows_def persist_candidate_def wit_record_def numeral_2_eq_2 upt_rec)
  qed (rule e)
qed

theorem reconciliation_one_to_one_witness:
  "mc_source_record_id (added_candidates wit_store (snd wit_twice) ! 0) =
     mc_source_record_id (added_candidates wit_store (snd wit_twice) ! 1)"
proof -
  obtain run st' where r: "wit_twice = (Inr run, st')"
    "execute_reconciliation (\<lambda>_ _ _. 0) wit_db wit_time ''org'' ''k0'' (replicate 2 (wit_record ''s'' ''T'' None))
       (replicate 1 (wit_record ''c'' ''T'' None)) (baseline_policy ''org'') wit_store = (Inr run, st')"
    "map (\<lambda>r. (mc_source_record_id r, mc_candidate_record_id r, mc_classification r)) (added_candidates wit_store st')
       = [(''s'', ''c'', MATCHED), (''s'', ''c'', MATCHED)]"
    using wit_twice_run .
  from r(3) obtain a b where "added_candidates wit_store st' = [a, b]"
    "mc_classification a = MATCHED" "mc_classification b = MATCHED"
    "mc_candidate_record_id a = ''c''" "mc_candidate_record_id b = ''c''"
    by (auto simp: map_eq_Cons_conv)
  with reconciliation_one_to_one[OF r(2), of a b] show ?thesis by (simp add: r(1))
qed

theorem run_counters_describe_rows_witness:
  "ct_matched (ru_counts (projr (fst wit_twice))) = rows_classified MATCHED (added_candidates wit_store (snd wit_twice))"
proof -
  obtain run st' where r: "wit_twice = (Inr run, st')"
    "execute_reconciliation (\<lambda>_ _ _. 0) wit_db wit_time ''org'' ''k0'' (replicate 2 (wit_record ''s'' ''T'' None))
       (replicate 1 (wit_record ''c'' ''T'' None)) (baseline_policy ''org'') wit_store = (Inr run, st')"
    using wit_twice_run .
  from run_counters_describe_rows[OF r(2)] show ?thesis by (simp add: r(1))
qed

theorem run_commits_iff_amounts_paired_witness:
  "wit_exec (replicate 1 (wit_record ''s'' ''T'' (Some (mk_dec False 100 0)))) (replicate 1 (wit_record ''c'' ''T'' None)) =
     (Inl (StatementError ''Object of type Decimal is not JSON serializable''),
      update_run ''k0'' (started_run wit_time) wit_store)"
proof -
  let ?a = "wit_record ''s'' ''T'' (Some (mk_dec False 100 0))" and ?b = "wit_record ''c'' ''T'' None"
  have "\<not> (\<forall>p\<in>set (ls_pending (reconcile_all (run_evaluation (\<lambda>_ _ _. 0) (baseline_policy ''org''))
      (baseline_policy ''org'') (replicate 1 ?a) (replicate 1 ?b))). mr_amount (pe_source p) = None \<longleftrightarrow> mr_amount (pe_candidate p) = None)"
    using reconcile_copies(2)[OF wit_matched[OF refl refl wit_classes(2)], of 1 1] by simp
  from run_commits_iff_amounts_paired[OF wit_run(1), of "\<lambda>_ _ _. 0" "baseline_policy ''org''"
      "replicate 1 ?a" "replicate 1 ?b" wit_time, unfolded if_not_P[OF this]]
  show ?thesis by (simp only: wit_exec_def wit_run(2))
qed

end
