(* ===== verification/PO_MatchStoreProps.thy ===== *)
theory PO_MatchStoreProps
  imports PO_ReconcileProps
begin

text \<open>
  Results on the store of the matching service: the lookups keep the contract of a tenant,
  what a record loses on its way through its row, published policies as a refinement of a list
  of policies per tenant and policy, and the effect of submitting the same records twice.
\<close>

section \<open>Lookups\<close>

interpretation policy_row: tenant_get get_policy_row po_organization_id po_id
  by (rule get_one_tenant) (simp add: get_policy_row_def)

interpretation match_record: tenant_get get_match_record mw_organization_id mw_record_id
  by (rule get_one_tenant) (simp add: get_match_record_def)

interpretation match_run: tenant_get get_run ru_organization_id ru_id
  by (rule get_one_tenant) (simp add: get_run_def)

interpretation match_candidate: tenant_get get_candidate mc_organization_id mc_id
  by (rule get_one_tenant) (simp add: get_candidate_def)

section \<open>Records and rows\<close>

lemma RecordType_roundtrip [simp]: "RecordType_of (RecordType_value t) = Some t"
  by (cases t) (simp_all add: RecordType_of_def RecordType_value_def)

lemma row_roundtrip:
  "row_to_domain (domain_to_row rid now org amount r) =
     Inr (r\<lparr>mr_organization_id := org, mr_amount := amount, mr_metadata := []\<rparr>)"
  by (simp add: row_to_domain_def domain_to_row_def)

text \<open>
  A record that the tenant had not stored before is read back by its id, with the tenant that
  stored it, the amount its column kept, and its metadata lost.
\<close>

theorem stored_record_reads_back:
  assumes "scan_ok (db_scan db)" "create_match_record db now org r st = Inr (row, st')"
    and "\<And>w. w \<in> set (st_records st) \<Longrightarrow> mw_organization_id w = org \<Longrightarrow> mw_record_id w \<noteq> mr_record_id r"
  shows "\<exists>amount. stored_amount db (mr_amount r) = Inr amount \<and>
    get_record_domain db org (mr_record_id r) st' =
      Inr (r\<lparr>mr_organization_id := org, mr_amount := amount, mr_metadata := []\<rparr>)"
proof -
  obtain amount where amount: "stored_amount db (mr_amount r) = Inr amount"
    and row: "row = domain_to_row (fresh_id db st) now org amount r"
    and st': "st_records st' = st_records st @ [row]"
    using assms(2) by (auto simp: create_match_record_def bindR_Inr Let_def)
  have "filter (\<lambda>w. mw_record_id w = mr_record_id r \<and> mw_organization_id w = org) (st_records st) = []"
    using assms(3) by (auto simp: filter_empty_conv)
  then have "filter (\<lambda>w. mw_record_id w = mr_record_id r \<and> mw_organization_id w = org) (st_records st') = [row]"
    by (simp add: st' row domain_to_row_def)
  then have "get_match_record (db_scan db) org (mr_record_id r) (st_records st') = Inr row"
    by (simp add: match_record.found[OF assms(1)])
  then have "get_record_domain db org (mr_record_id r) st' = row_to_domain row"
    by (simp add: get_record_domain_def not_found_def)
  then show ?thesis using amount by (simp add: row row_roundtrip)
qed

text \<open>
  Storing a record that the tenant has already stored makes the record unreadable by its id.
\<close>

theorem duplicate_record_unreadable:
  assumes "scan_ok (db_scan db)" "create_match_record db now org r st = Inr (row, st')"
    and "w \<in> set (st_records st)" "mw_organization_id w = org" "mw_record_id w = mr_record_id r"
  shows "get_record_domain db org (mr_record_id r) st' = Inl MultipleResultsFound"
proof -
  obtain amount where row: "row = domain_to_row (fresh_id db st) now org amount r"
    and st': "st_records st' = st_records st @ [row]"
    using assms(2) by (auto simp: create_match_record_def bindR_Inr Let_def)
  have "w \<in> set (filter (\<lambda>w. mw_record_id w = mr_record_id r \<and> mw_organization_id w = org) (st_records st))"
    using assms(3-5) by simp
  then have "1 \<le> length (filter (\<lambda>w. mw_record_id w = mr_record_id r \<and> mw_organization_id w = org) (st_records st))"
    by (cases "filter (\<lambda>w. mw_record_id w = mr_record_id r \<and> mw_organization_id w = org) (st_records st)") auto
  then have "2 \<le> length (filter (\<lambda>w. mw_record_id w = mr_record_id r \<and> mw_organization_id w = org) (st_records st'))"
    by (simp add: st' row domain_to_row_def)
  from match_record.ambiguous[OF assms(1) this] show ?thesis
    by (simp add: get_record_domain_def not_found_def)
qed

section \<open>Published policies\<close>

text \<open>
  The abstract store of policies: for a tenant and a policy, the list of what was published,
  oldest first. Publishing appends, and the published policy is the last one.
\<close>

definition version_rows :: "MatchStore \<Rightarrow> string \<Rightarrow> string \<Rightarrow> MatchingPolicyVersion list" where
  "version_rows st org pid = filter (\<lambda>v. pv_policy_id v = pid \<and> pv_organization_id v = org) (st_versions st)"

definition published_list :: "MatchStore \<Rightarrow> string \<Rightarrow> string \<Rightarrow> MatchingPolicy list" where
  "published_list st org pid = map (policy_of_version org) (version_rows st org pid)"

definition abstract_publish ::
  "string \<Rightarrow> string \<Rightarrow> MatchingPolicy \<Rightarrow> (string \<Rightarrow> string \<Rightarrow> MatchingPolicy list) \<Rightarrow> string \<Rightarrow> string \<Rightarrow> MatchingPolicy list" where
  "abstract_publish org pid policy spec o' p =
     (if o' = org \<and> p = pid then spec o' p @ [policy] else spec o' p)"

definition abstract_latest :: "(string \<Rightarrow> string \<Rightarrow> MatchingPolicy list) \<Rightarrow> string \<Rightarrow> string \<Rightarrow> MatchingPolicy" where
  "abstract_latest spec org pid = (if spec org pid = [] then baseline_policy org else last (spec org pid))"

text \<open>Versions are numbered from 1 without gaps, in the order of publication.\<close>

definition versions_numbered :: "MatchStore \<Rightarrow> bool" where
  "versions_numbered st \<longleftrightarrow> (\<forall>org pid. map pv_version_number (version_rows st org pid) =
     [1..<Suc (length (version_rows st org pid))])"

definition as_published :: "string \<Rightarrow> string \<Rightarrow> nat \<Rightarrow> pydatetime \<Rightarrow> MatchingPolicy \<Rightarrow> MatchingPolicy" where
  "as_published org pid version now policy =
     policy\<lparr>mp_id := Some pid, mp_organization_id := org, mp_version := version,
       mp_status := MP_PUBLISHED, mp_created_at := None, mp_published_at := Some now\<rparr>"

lemma next_version_length: "scan_ok (db_scan db) \<Longrightarrow> next_version db org pid st = Suc (length (version_rows st org pid))"
  by (simp add: next_version_def policy_versions_def length_select_where version_rows_def)

lemma sort_desc_unique_max:
  assumes "x \<in> set xs" "\<And>y. y \<in> set xs \<Longrightarrow> y \<noteq> x \<Longrightarrow> f y < f x"
  shows "hd (sort_desc f xs) = x"
proof -
  have "sort_desc f xs \<noteq> []" using assms(1) by auto
  then have "hd (sort_desc f xs) \<in> set xs" by (metis hd_in_set set_sort_desc)
  moreover have "f x \<le> f (hd (sort_desc f xs))" using assms(1) by (rule hd_sort_desc_max)
  ultimately show ?thesis using assms(2) by force
qed

lemma latest_version:
  assumes ok: "scan_ok (db_scan db)" and num: "versions_numbered st" and ne: "version_rows st org pid \<noteq> []"
  shows "scalars_first (order_by_desc pv_version_number (policy_versions db org pid st)) = Some (last (version_rows st org pid))"
proof -
  let ?vs = "version_rows st org pid"
  have nums: "map pv_version_number ?vs = [1..<Suc (length ?vs)]"
    using num unfolding versions_numbered_def by blast
  have mem: "set (policy_versions db org pid st) = set ?vs"
    by (auto simp: policy_versions_def set_select_where[OF ok] version_rows_def)
  have lst: "pv_version_number (last ?vs) = length ?vs"
  proof -
    have "pv_version_number (last ?vs) = last (map pv_version_number ?vs)" using ne by (simp add: last_map)
    also have "\<dots> = length ?vs" using ne by (subst nums) (simp add: Suc_le_eq)
    finally show ?thesis .
  qed
  have less: "pv_version_number y < pv_version_number (last ?vs)" if y: "y \<in> set ?vs" "y \<noteq> last ?vs" for y
  proof -
    obtain i where i: "i < length ?vs" "y = ?vs ! i"
      using y(1) unfolding in_set_conv_nth by blast
    have "pv_version_number y = map pv_version_number ?vs ! i" using i by simp
    also have "\<dots> = [1..<Suc (length ?vs)] ! i" by (simp only: nums)
    also have "\<dots> = Suc i" using i(1) by (subst nth_upt) simp_all
    finally have "pv_version_number y = Suc i" .
    moreover have "Suc i \<noteq> length ?vs" using i y(2) last_conv_nth[OF ne] by (metis diff_Suc_1)
    ultimately show ?thesis using lst i by simp
  qed
  have "hd (sort_desc pv_version_number (policy_versions db org pid st)) = last ?vs"
    using ne less by (intro sort_desc_unique_max) (auto simp: mem)
  moreover have "sort_desc pv_version_number (policy_versions db org pid st) \<noteq> []"
    using ne mem by (metis empty_set set_empty sort_desc_eq_Nil)
  ultimately show ?thesis
    by (cases "sort_desc pv_version_number (policy_versions db org pid st)") (simp_all add: order_by_desc_def scalars_first_def)
qed

lemma published_is_abstract_latest:
  assumes "scan_ok (db_scan db)" "versions_numbered st"
  shows "get_published_policy db org (Some pid) st = abstract_latest (published_list st) org pid"
proof (cases "version_rows st org pid = []")
  case True
  have "policy_versions db org pid st = []"
    using True unfolding policy_versions_def version_rows_def by (rule select_where_none[OF assms(1)])
  then show ?thesis
    using True by (simp add: get_published_policy_def order_by_desc_def scalars_first_def abstract_latest_def published_list_def)
next
  case False
  then show ?thesis
    by (simp add: get_published_policy_def latest_version[OF assms] abstract_latest_def published_list_def last_map)
qed

text \<open>C26: 
  Publishing refines appending to the abstract list of published policies of the tenant and the
  policy, leaves every other list alone, keeps versions numbered from 1 without gaps, and the
  policy matchers then use is the one just published.
\<close>

theorem publish_refines_append:
  assumes "scan_ok (db_scan db)" "versions_numbered st"
    and "publish_policy db now org pid policy st = Inr (pv, st')"
  shows "published_list st' = abstract_publish org pid
      (as_published org pid (length (published_list st org pid) + 1) now policy) (published_list st) \<and>
    versions_numbered st' \<and>
    get_published_policy db org (Some pid) st' =
      as_published org pid (length (published_list st org pid) + 1) now policy"
proof -
  let ?n = "length (version_rows st org pid)"
  obtain row where row: "get_policy_row (db_scan db) org pid (st_policies st) = Inr row"
    using assms(3) by (auto simp: publish_policy_def bindR_Inr)
  then have id: "po_id row = pid" using policy_row.own_row[OF assms(1)] by blast
  have pv: "pv_policy_id pv = pid" "pv_organization_id pv = org" "pv_version_number pv = Suc ?n"
      "policy_of_version org pv = as_published org pid (Suc ?n) now policy"
    and st': "st_versions st' = st_versions st @ [pv]"
    using assms(3) row id next_version_length[OF assms(1)]
    by (auto simp: publish_policy_def bindR_Inr Let_def policy_of_version_def as_published_def)
  have rows: "version_rows st' o' p = version_rows st o' p @ (if o' = org \<and> p = pid then [pv] else [])" for o' p
    using pv by (auto simp: version_rows_def st')
  have num: "versions_numbered st'"
    using assms(2) pv(3) by (auto simp: versions_numbered_def rows)
  have spec: "published_list st' = abstract_publish org pid (as_published org pid (Suc ?n) now policy) (published_list st)"
    using pv(4) by (intro ext) (simp add: published_list_def rows abstract_publish_def)
  have "get_published_policy db org (Some pid) st' = as_published org pid (Suc ?n) now policy"
    unfolding published_is_abstract_latest[OF assms(1) num] spec
    by (simp add: abstract_latest_def abstract_publish_def)
  with num spec show ?thesis by (simp add: published_list_def)
qed

section \<open>Concrete stores\<close>

lemma wit_created:
  "\<exists>row st'. create_match_record wit_db wit_time ''org'' (wit_record ''r'' ''T'' None) st = Inr (row, st') \<and>
     row \<in> set (st_records st') \<and> mw_organization_id row = ''org'' \<and> mw_record_id row = ''r''"
  by (simp add: create_match_record_def stored_amount_def Let_def domain_to_row_def wit_record_def)

theorem stored_record_reads_back_witness:
  "\<exists>row st'. create_match_record wit_db wit_time ''org'' (wit_record ''r'' ''T'' None) wit_empty = Inr (row, st') \<and>
     get_record_domain wit_db ''org'' ''r'' st' = Inr (wit_record ''r'' ''T'' None)"
proof -
  obtain row st' where c: "create_match_record wit_db wit_time ''org'' (wit_record ''r'' ''T'' None) wit_empty = Inr (row, st')"
    using wit_created by blast
  have "scan_ok (db_scan wit_db)" by (simp add: wit_db_def)
  from stored_record_reads_back[OF this c] c show ?thesis
    by (auto simp: wit_empty_def wit_record_def stored_amount_def)
qed

theorem duplicate_record_unreadable_witness:
  "\<exists>row st' row' st''. create_match_record wit_db wit_time ''org'' (wit_record ''r'' ''T'' None) wit_empty = Inr (row, st') \<and>
     create_match_record wit_db wit_time ''org'' (wit_record ''r'' ''T'' None) st' = Inr (row', st'') \<and>
     get_record_domain wit_db ''org'' ''r'' st'' = Inl MultipleResultsFound"
proof -
  obtain row st' where c: "create_match_record wit_db wit_time ''org'' (wit_record ''r'' ''T'' None) wit_empty = Inr (row, st')"
    "row \<in> set (st_records st')" "mw_organization_id row = ''org''" "mw_record_id row = ''r''"
    using wit_created by blast
  obtain row' st'' where c': "create_match_record wit_db wit_time ''org'' (wit_record ''r'' ''T'' None) st' = Inr (row', st'')"
    using wit_created by blast
  have rid: "mr_record_id (wit_record ''r'' ''T'' None) = ''r''" by (simp add: wit_record_def)
  have "scan_ok (db_scan wit_db)" by (simp add: wit_db_def)
  from duplicate_record_unreadable[OF this c' c(2,3)] c c' show ?thesis by (auto simp: rid)
qed

theorem publish_refines_append_witness:
  "\<exists>pv st'. publish_policy wit_db wit_time ''org'' ''k0'' (baseline_policy ''org'')
       (snd (create_policy wit_db wit_time ''org'' ''p'' wit_empty)) = Inr (pv, st') \<and>
     get_published_policy wit_db ''org'' (Some ''k0'') st' = as_published ''org'' ''k0'' 1 wit_time (baseline_policy ''org'')"
proof -
  let ?st = "snd (create_policy wit_db wit_time ''org'' ''p'' wit_empty)"
  have k: "show_nat 0 = ''0''" by code_simp
  have "filter (\<lambda>r. po_id r = ''k0'' \<and> po_organization_id r = ''org'') (st_policies ?st) = [hd (st_policies ?st)]"
    by (simp add: create_policy_def wit_empty_def Let_def fresh_id_def wit_db_def k)
  then have "get_policy_row (db_scan wit_db) ''org'' ''k0'' (st_policies ?st) = Inr (hd (st_policies ?st))"
    by (simp add: get_policy_row_def wit_db_def get_one_found)
  then obtain pv st' where p: "publish_policy wit_db wit_time ''org'' ''k0'' (baseline_policy ''org'') ?st = Inr (pv, st')"
    by (auto simp: publish_policy_def Let_def)
  have "scan_ok (db_scan wit_db)" "versions_numbered ?st" "published_list ?st ''org'' ''k0'' = []"
    by (simp_all add: wit_db_def versions_numbered_def version_rows_def published_list_def create_policy_def wit_empty_def Let_def)
  with publish_refines_append[OF this(1,2) p] p show ?thesis by simp
qed

end
