(* ===== verification/PO_Resubmit.thy ===== *)
theory PO_Resubmit
  imports PO_MatchStoreProps
begin

text \<open>
  Submitting the same reconciliation twice. The route stores a new row for every record of a
  request, and the worker loads every row with one of the record ids, so the second run sees
  each record twice. The lemmas follow the request from the route through the tables to the
  worker's run.
\<close>

section \<open>What a submission stores\<close>

definition storable :: "Db \<Rightarrow> string \<Rightarrow> MatchRecord \<Rightarrow> bool" where
  "storable db org r \<longleftrightarrow> mr_organization_id r = org \<and> mr_metadata r = [] \<and>
     stored_amount db (mr_amount r) = Inr (mr_amount r)"

definition row_of :: "Db \<Rightarrow> pydatetime \<Rightarrow> nat \<Rightarrow> MatchRecord \<Rightarrow> MatchRecordRow" where
  "row_of db now n r = domain_to_row (db_uid db n) now (mr_organization_id r) (mr_amount r) r"

lemma row_of_reads_back: "storable db org r \<Longrightarrow> row_to_domain (row_of db now n r) = Inr r"
  by (cases r) (simp add: row_of_def row_roundtrip storable_def)

lemma row_of_keys [simp]:
  "mw_record_id (row_of db now n r) = mr_record_id r" "mw_organization_id (row_of db now n r) = mr_organization_id r"
  by (simp_all add: row_of_def domain_to_row_def)

lemma submission:
  assumes "storable db org a" "storable db org b" "start_reconciliation db now org [a] [b] None st = (Inr run, st')"
  shows "st_records st' = st_records st @ [row_of db now (st_uuids st) a, row_of db now (Suc (st_uuids st)) b]"
    and "st_runs st' = st_runs st @ [run]" and "ru_id run = db_uid db (st_uuids st + 2)"
    and "ru_organization_id run = org" and "ru_policy_id run = None" and "st_uuids st' = st_uuids st + 3"
    and "ru_source_dataset run = [(''record_ids'', [mr_record_id a])]"
    and "ru_candidate_dataset run = [(''record_ids'', [mr_record_id b])]"
  using assms
  by (auto simp: start_reconciliation_def create_match_record_def storable_def row_of_def fresh_id_def
      create_reconciliation_run_def Let_def)

section \<open>What the worker loads\<close>

lemma mapR_const: "(\<And>x. x \<in> set xs \<Longrightarrow> f x = Inr y) \<Longrightarrow> mapR f xs = Inr (replicate (length xs) y)"
  by (induction xs) simp_all

definition copies_in :: "MatchStore \<Rightarrow> string \<Rightarrow> string \<Rightarrow> MatchRecordRow list" where
  "copies_in st org rid = filter (\<lambda>w. mw_organization_id w = org \<and> mw_record_id w \<in> set [rid]) (st_records st)"

lemma load_copies:
  assumes "scan_ok (db_scan db)" "\<And>w. w \<in> set (copies_in st org rid) \<Longrightarrow> row_to_domain w = Inr r"
  shows "mapR row_to_domain (load_records db org [rid] st) = Inr (replicate (length (copies_in st org rid)) r)"
proof -
  have len: "length (load_records db org [rid] st) = length (copies_in st org rid)"
    unfolding load_records_def copies_in_def by (rule length_select_where[OF assms(1)])
  have "set (load_records db org [rid] st) = set (copies_in st org rid)"
    by (auto simp: load_records_def copies_in_def set_select_where[OF assms(1)])
  with assms(2) have "mapR row_to_domain (load_records db org [rid] st) = Inr (replicate (length (load_records db org [rid] st)) r)"
    by (intro mapR_const) simp
  then show ?thesis by (simp only: len)
qed

lemma find_unique: "filter P xs = [x] \<Longrightarrow> find P xs = Some x"
  by (induction xs) (auto split: if_splits)

lemma execute_copies:
  assumes "get_run (db_scan db) org rid (st_runs st) = Inr run"
    and "matched_pair (run_evaluation fz policy) policy a b d" "0 < k"
    and "mr_amount a = None \<longleftrightarrow> mr_amount b = None"
  shows "\<exists>st'. execute_reconciliation fz db now org rid (replicate k a) (replicate k b) policy st =
    (Inr (finished_run (copies_count k k (counts_start k)) now (started_run now run)), st')"
proof -
  have d: "d = evaluate_pair fz a b policy ENGINE_VERSION_MATCHING"
    using assms(2) by (simp add: matched_pair_def run_evaluation_def)
  have "flushable (ls_pending (reconcile_all (run_evaluation fz policy) policy (replicate k a) (replicate k b)))"
    unfolding reconcile_copies(2)[OF assms(2,3)] flushable_def
    by (simp add: list_all_iff[of _ "replicate _ _"] d json_evaluation assms(4))
  then show ?thesis
    using assms(1) reconcile_copies(1)[OF assms(2,3), of k]
    by (simp add: execute_reconciliation_def run_evaluation_def Let_def)
qed

text \<open>The worker on a run whose source and candidate are stored \<open>k\<close> times each.\<close>

lemma run_copies:
  assumes ok: "scan_ok (db_scan db)" and unique: "filter (\<lambda>r. ru_id r = ru_id run) (st_runs st) = [run]"
    and run: "ru_policy_id run = None" "ru_source_dataset run = [(''record_ids'', [mr_record_id a])]"
      "ru_candidate_dataset run = [(''record_ids'', [mr_record_id b])]" "ru_organization_id run = org"
    and copies: "length (copies_in st org (mr_record_id a)) = k" "length (copies_in st org (mr_record_id b)) = k" "0 < k"
    and a: "\<And>w. w \<in> set (copies_in st org (mr_record_id a)) \<Longrightarrow> row_to_domain w = Inr a"
    and b: "\<And>w. w \<in> set (copies_in st org (mr_record_id b)) \<Longrightarrow> row_to_domain w = Inr b"
    and pair: "matched_pair (run_evaluation fz (baseline_policy org)) (baseline_policy org) a b d"
    and amounts: "mr_amount a = None \<longleftrightarrow> mr_amount b = None"
  shows "\<exists>st'. run_reconciliation fz db now (ru_id run) st =
    (Inr (finished_run (copies_count k k (counts_start k)) now (started_run now run)), st')"
proof -
  have get: "session_get ru_id (ru_id run) (st_runs st) = Some run"
    unfolding session_get_def by (rule find_unique[OF unique])
  have "filter (\<lambda>r. ru_id r = ru_id run \<and> ru_organization_id r = org) (st_runs st) =
      filter (\<lambda>r. ru_organization_id r = org) (filter (\<lambda>r. ru_id r = ru_id run) (st_runs st))"
    by (simp add: conj_commute)
  then have "get_run (db_scan db) org (ru_id run) (st_runs st) = Inr run"
    by (simp add: match_run.found[OF ok] unique run)
  from execute_copies[OF this pair copies(3) amounts] obtain st' where
    "execute_reconciliation fz db now org (ru_id run) (replicate k a) (replicate k b) (baseline_policy org) st =
      (Inr (finished_run (copies_count k k (counts_start k)) now (started_run now run)), st')" by blast
  then show ?thesis
    using load_copies[OF ok a] load_copies[OF ok b]
    by (simp add: run_reconciliation_def get run copies get_published_policy_def)
qed

section \<open>The second submission\<close>

text \<open>Keys that the database will still draw are not used by a run of the store.\<close>

definition runs_fresh :: "Db \<Rightarrow> MatchStore \<Rightarrow> bool" where
  "runs_fresh db st \<longleftrightarrow> (\<forall>r\<in>set (st_runs st). \<forall>n\<ge>st_uuids st. ru_id r \<noteq> db_uid db n)"

lemma run_unique:
  "runs_fresh db st \<Longrightarrow> ru_id run = db_uid db n \<Longrightarrow> st_uuids st \<le> n \<Longrightarrow>
     filter (\<lambda>r. ru_id r = ru_id run) (st_runs st @ [run]) = [run]"
  by (auto simp: runs_fresh_def filter_empty_conv)

text \<open>C25: 
  Submitting one source and its match as a reconciliation gives a matched source; submitting the
  same two records again gives a run of two sources, none matched, both reported as duplicate
  candidates of records that exist once.
\<close>

theorem resubmission_reports_duplicates:
  assumes ok: "scan_ok (db_scan db)" "inj (db_uid db)" and fresh: "runs_fresh db st"
    and new: "copies_in st org (mr_record_id a) = []" "copies_in st org (mr_record_id b) = []"
    and records: "storable db org a" "storable db org b" "mr_amount a = None \<longleftrightarrow> mr_amount b = None"
    and pair: "matched_pair (run_evaluation fz (baseline_policy org)) (baseline_policy org) a b d"
    and first: "start_reconciliation db now org [a] [b] None st = (Inr run1, st1)"
    and second: "start_reconciliation db now org [a] [b] None st1 = (Inr run2, st2)"
  shows "(\<exists>done1 st1'. run_reconciliation fz db now (ru_id run1) st1 = (Inr done1, st1') \<and>
      ct_total (ru_counts done1) = 1 \<and> ct_matched (ru_counts done1) = 1) \<and>
    (\<exists>done2 st2'. run_reconciliation fz db now (ru_id run2) st2 = (Inr done2, st2') \<and>
      ct_total (ru_counts done2) = 2 \<and> ct_matched (ru_counts done2) = 0 \<and>
      ct_duplicate_candidate (ru_counts done2) = 2)"
proof -
  note s1 = submission[OF records(1,2) first] and s2 = submission[OF records(1,2) second]
  have ids: "mr_record_id b \<noteq> mr_record_id a" using pair by (simp add: matched_pair_def)
  have orgs: "mr_organization_id a = org" "mr_organization_id b = org" using records by (simp_all add: storable_def)
  let ?n = "st_uuids st"
  have ca1: "copies_in st1 org (mr_record_id a) = [row_of db now ?n a]"
    and cb1: "copies_in st1 org (mr_record_id b) = [row_of db now (Suc ?n) b]"
    using new ids orgs by (simp_all add: copies_in_def s1(1))
  have ca2: "copies_in st2 org (mr_record_id a) = [row_of db now ?n a, row_of db now (?n + 3) a]"
    and cb2: "copies_in st2 org (mr_record_id b) = [row_of db now (Suc ?n) b, row_of db now (Suc (?n + 3)) b]"
    using ca1 cb1 ids orgs by (simp_all add: copies_in_def s2(1) s1(6))
  have fresh1: "runs_fresh db st1"
    using fresh injD[OF ok(2)] by (fastforce simp: runs_fresh_def s1(2,3,6))
  have u1: "filter (\<lambda>r. ru_id r = ru_id run1) (st_runs st1) = [run1]"
    unfolding s1(2) by (rule run_unique[OF fresh s1(3)]) simp
  have u2: "filter (\<lambda>r. ru_id r = ru_id run2) (st_runs st2) = [run2]"
    unfolding s2(2) by (rule run_unique[OF fresh1 s2(3)]) simp
  have "\<exists>st'. run_reconciliation fz db now (ru_id run1) st1 =
      (Inr (finished_run (copies_count 1 1 (counts_start 1)) now (started_run now run1)), st')"
    by (rule run_copies[OF ok(1) u1 s1(5,7,8,4) _ _ _ _ _ pair records(3)])
      (auto simp: ca1 cb1 row_of_reads_back[OF records(1)] row_of_reads_back[OF records(2)])
  moreover have "\<exists>st'. run_reconciliation fz db now (ru_id run2) st2 =
      (Inr (finished_run (copies_count 2 2 (counts_start 2)) now (started_run now run2)), st')"
    by (rule run_copies[OF ok(1) u2 s2(5,7,8,4) _ _ _ _ _ pair records(3)])
      (auto simp: ca2 cb2 row_of_reads_back[OF records(1)] row_of_reads_back[OF records(2)])
  ultimately show ?thesis
    by (auto simp: finished_run_def copies_count_def counts_start_def)
qed

lemma wit_uid_inj: "inj (db_uid wit_db)"
  by (rule injI) (auto simp: wit_db_def dest: arg_cong[where f = digits_val])

lemma submission_accepted:
  assumes "storable db org a" "storable db org b"
  obtains run st' where "start_reconciliation db now org [a] [b] None st = (Inr run, st')"
  using assms by (simp add: start_reconciliation_def create_match_record_def storable_def
      create_reconciliation_run_def Let_def)

theorem resubmission_reports_duplicates_witness:
  "\<exists>run1 st1 run2 st2 done2 st2'.
     start_reconciliation wit_db wit_time ''org'' [wit_record ''s'' ''T'' None] [wit_record ''c'' ''T'' None] None wit_empty = (Inr run1, st1) \<and>
     start_reconciliation wit_db wit_time ''org'' [wit_record ''s'' ''T'' None] [wit_record ''c'' ''T'' None] None st1 = (Inr run2, st2) \<and>
     run_reconciliation (\<lambda>_ _ _. 0) wit_db wit_time (ru_id run2) st2 = (Inr done2, st2') \<and>
     ct_duplicate_candidate (ru_counts done2) = 2"
proof -
  let ?a = "wit_record ''s'' ''T'' None" and ?b = "wit_record ''c'' ''T'' None"
  have store: "storable wit_db ''org'' ?a" "storable wit_db ''org'' ?b"
    by (simp_all add: storable_def wit_record_def stored_amount_def)
  obtain run1 st1 where r1: "start_reconciliation wit_db wit_time ''org'' [?a] [?b] None wit_empty = (Inr run1, st1)"
    using submission_accepted[OF store] .
  obtain run2 st2 where r2: "start_reconciliation wit_db wit_time ''org'' [?a] [?b] None st1 = (Inr run2, st2)"
    using submission_accepted[OF store] .
  have "scan_ok (db_scan wit_db)" "runs_fresh wit_db wit_empty"
      "copies_in wit_empty ''org'' (mr_record_id ?a) = []" "copies_in wit_empty ''org'' (mr_record_id ?b) = []"
    by (simp_all add: wit_db_def wit_empty_def runs_fresh_def copies_in_def)
  from resubmission_reports_duplicates[OF this(1) wit_uid_inj this(2-4) store _ wit_matched[OF refl refl wit_classes(1)] r1 r2]
  show ?thesis using r1 r2 by auto
qed

end
