(* ===== verification/PO_Audit.thy ===== *)
theory PO_Audit
  imports PO_Store
begin

text \<open>
  What leaves the platform as log, mask or audit entry: the redaction of log records
  (\<open>apps/api/paymentops_api/logging.py\<close>), the masking helpers (\<open>packages/masking\<close>) and the rows
  and the listing of the audit trail (\<open>db/models/analysis.py\<close>, \<open>routers/audit.py\<close>). Values of
  log records and metadata are JSON values.
\<close>

section \<open>Log redaction\<close>

definition SENSITIVE_FIELD_NAMES :: "string list" where
  "SENSITIVE_FIELD_NAMES =
    [''iban'', ''account'', ''account_number'', ''iban_number'', ''name'', ''customer_name'', ''address'',
     ''payload'', ''body'', ''creditor'', ''debtor'', ''raw'', ''raw_payload'', ''password'', ''secret'',
     ''token'', ''key'', ''credential'', ''bic'', ''swift'', ''pan'', ''card_number'', ''balance'']"

definition LOG_REDACTED :: string where
  "LOG_REDACTED = ''[REDACTED]''"

definition sensitive :: "string \<Rightarrow> bool" where
  "sensitive k = (lower k \<in> set SENSITIVE_FIELD_NAMES)"

definition is_container :: "jval \<Rightarrow> bool" where
  "is_container v = (case v of JObj _ \<Rightarrow> True | JList _ \<Rightarrow> True | _ \<Rightarrow> False)"

text \<open>
  \<open>_redact\<close>: containers are entered whatever their key; only other values are replaced. The
  parameter \<open>key\<close> of the source is passed along and never read.
\<close>

fun redact :: "jval \<Rightarrow> jval" where
  "redact (JObj kvs) = JObj (map (\<lambda>(k, v).
     (k, if is_container v then redact v else if sensitive k then JStr LOG_REDACTED else v)) kvs)"
| "redact (JList vs) = JList (map (\<lambda>v. if is_container v then redact v else v) vs)"
| "redact v = v"

definition redact_processor :: "(string \<times> jval) list \<Rightarrow> (string \<times> jval) list" where
  "redact_processor event = map (\<lambda>(k, v). (k, if sensitive k then JStr LOG_REDACTED else redact v)) event"

section \<open>Masking\<close>

definition mask_iban :: "string \<Rightarrow> string" where
  "mask_iban s = (if s = [] \<or> length s < 8 then ''[REDACTED]''
     else take 4 s @ ''...'' @ drop (length s - 4) s)"

definition mask_account :: "string \<Rightarrow> string" where
  "mask_account s = (if s = [] then ''[REDACTED]''
     else if length s \<le> 4 then replicate (length s) CHR ''*''
     else replicate (length s - 4) CHR ''*'' @ drop (length s - 4) s)"

section \<open>Audit events\<close>

record AuditEvent =
  au_id :: string
  au_organization_id :: "string option"
  au_case_id :: "string option"
  au_profile_id :: "string option"
  au_profile_version :: "string option"
  au_mapping_version :: "string option"
  au_ruleset_version :: "string option"
  au_event_type :: string
  au_user_identity :: "string option"
  au_input_hash :: "string option"
  au_output_hash :: "string option"
  au_action_metadata :: "(string \<times> jval) list option"
  au_created_at :: int

definition audit_event ::
  "string \<Rightarrow> int \<Rightarrow> string option \<Rightarrow> string option \<Rightarrow> string \<Rightarrow> string option \<Rightarrow> (string \<times> jval) list option \<Rightarrow> AuditEvent" where
  "audit_event aid now org case_id event_type identity metadata =
     \<lparr>au_id = aid, au_organization_id = org, au_case_id = case_id, au_profile_id = None,
      au_profile_version = None, au_mapping_version = None, au_ruleset_version = None,
      au_event_type = event_type, au_user_identity = identity, au_input_hash = None,
      au_output_hash = None, au_action_metadata = metadata, au_created_at = now\<rparr>"

definition list_audit_events :: "scan \<Rightarrow> string \<Rightarrow> int \<Rightarrow> string option \<Rightarrow> AuditEvent list \<Rightarrow> AuditEvent list" where
  "list_audit_events scan org limit case_id rows =
     take (nat (max 1 (min limit 1000))) (order_by_desc au_created_at
       (select_where scan (\<lambda>e. au_organization_id e = Some org \<and> (\<not> truthy case_id \<or> au_case_id e = case_id)) rows))"

section \<open>What redaction guarantees\<close>

text \<open>A value is clean when no value that is not a container stands under a sensitive key.\<close>

fun clean :: "jval \<Rightarrow> bool" where
  "clean (JObj kvs) = list_all (\<lambda>(k, v). if is_container v then clean v else sensitive k \<longrightarrow> v = JStr LOG_REDACTED) kvs"
| "clean (JList vs) = list_all clean vs"
| "clean v = True"

lemma is_container_simps [simp]:
  "is_container (JObj kvs)" "is_container (JList vs)" "\<not> is_container (JStr s)" "\<not> is_container JNull"
  "\<not> is_container (JBool b)" "\<not> is_container (JInt n)" "\<not> is_container (JFloat r)"
  by (simp_all add: is_container_def)

lemma redact_container [simp]: "is_container (redact v) = is_container v"
  by (cases v) simp_all

lemma redact_plain: "\<not> is_container v \<Longrightarrow> redact v = v"
  by (cases v) simp_all

lemma redact_clean: "clean (redact v)"
proof (induction v rule: redact.induct)
  case (2 vs)
  have "\<not> is_container v \<Longrightarrow> clean v" for v by (cases v) simp_all
  with 2 show ?case by (auto simp: list_all_iff)
qed (auto simp: list_all_iff)

lemma redact_idem: "redact (redact v) = redact v"
proof (induction v rule: redact.induct)
  case (1 kvs)
  have "is_container v \<Longrightarrow> redact (redact v) = redact v" if "(k, v) \<in> set kvs" for k v
    using 1[OF that refl] by simp
  then show ?case by auto
next
  case (2 vs)
  then show ?case by (simp add: redact_plain)
qed simp_all

lemma take_drop_mask: "mask_account s = s \<Longrightarrow> list_all (\<lambda>c. c = CHR ''*'') (take (length s - 4) s)"
proof -
  assume m: "mask_account s = s"
  show ?thesis
  proof (cases "length s \<le> 4")
    case False
    then have "replicate (length s - 4) CHR ''*'' @ drop (length s - 4) s = s"
      using m by (auto simp: mask_account_def split: if_splits)
    then have "take (length s - 4) s = replicate (length s - 4) CHR ''*''"
      by (metis append_eq_conv_conj length_replicate)
    then show ?thesis by (simp add: list_all_iff)
  qed simp
qed

end
