(* ===== verification/PO_Users.thy ===== *)
theory PO_Users
  imports PO_Audit
begin

text \<open>
  \<open>apps/api/paymentops_api/passwords.py\<close>, \<open>auth.py\<close>, \<open>services/user_service.py\<close> and the routes of
  \<open>routers/auth.py\<close> and \<open>routers/clients.py\<close>: password hashes, login with a lockout, revocable
  sessions, API clients. PBKDF2 and SHA-256 are parameters (the record \<open>Crypto\<close>); random salts
  and tokens, and the clock, are arguments of the operations that draw them. An instant is the
  number of its microseconds.
\<close>

section \<open>Password hashes\<close>

type_synonym instant = int

record Crypto =
  cr_pbkdf2 :: "string \<Rightarrow> string \<Rightarrow> int \<Rightarrow> string"
  cr_sha256 :: "string \<Rightarrow> string"

definition PBKDF2_ALGORITHM :: string where
  "PBKDF2_ALGORITHM = ''pbkdf2_sha256''"

definition PBKDF2_ITERATIONS :: nat where
  "PBKDF2_ITERATIONS = 600000"

text \<open>\<open>bytes.hex\<close> and \<open>bytes.fromhex\<close>, which skips ASCII white space between bytes.\<close>

definition hex_digit :: "nat \<Rightarrow> char" where
  "hex_digit n = (''0123456789abcdef'' ! n)"

definition hex_byte :: "char \<Rightarrow> string" where
  "hex_byte c = (let n = (of_char c :: nat) in [hex_digit (n div 16), hex_digit (n mod 16)])"

definition bytes_hex :: "string \<Rightarrow> string" where
  "bytes_hex s = concat (map hex_byte s)"

definition hex_value :: "char \<Rightarrow> nat option" where
  "hex_value c = (let n = (of_char c :: nat) in
     if 48 \<le> n \<and> n \<le> 57 then Some (n - 48)
     else if 97 \<le> n \<and> n \<le> 102 then Some (n - 87)
     else if 65 \<le> n \<and> n \<le> 70 then Some (n - 55) else None)"

fun bytes_fromhex :: "string \<Rightarrow> string option" where
  "bytes_fromhex [] = Some []"
| "bytes_fromhex (c # s) =
     (if is_space c then bytes_fromhex s
      else (case s of [] \<Rightarrow> None
        | d # r \<Rightarrow> (case (hex_value c, hex_value d, bytes_fromhex r) of
            (Some h, Some l, Some bs) \<Rightarrow> Some (char_of (16 * h + l) # bs) | _ \<Rightarrow> None)))"

definition hash_password :: "Crypto \<Rightarrow> string \<Rightarrow> string \<Rightarrow> string" where
  "hash_password cr salt password =
     PBKDF2_ALGORITHM @ ''$'' @ show_nat PBKDF2_ITERATIONS @ ''$'' @ bytes_hex salt @ ''$'' @
     bytes_hex (cr_pbkdf2 cr password salt (int PBKDF2_ITERATIONS))"

text \<open>\<open>stored.split("$", 3)\<close>\<close>

fun split_max :: "nat \<Rightarrow> char \<Rightarrow> string \<Rightarrow> string list" where
  "split_max 0 c s = [s]"
| "split_max (Suc n) c s =
     (if c \<in> set s then takeWhile (\<lambda>x. x \<noteq> c) s # split_max n c (tl (dropWhile (\<lambda>x. x \<noteq> c) s)) else [s])"

text \<open>\<open>pbkdf2_hmac\<close> raises \<open>ValueError\<close> for an iteration count below 1.\<close>

definition verify_password :: "Crypto \<Rightarrow> string \<Rightarrow> string \<Rightarrow> bool" where
  "verify_password cr password stored =
     (case split_max 3 CHR ''$'' stored of
        [algorithm, iterations, salt_hex, digest_hex] \<Rightarrow>
          (if algorithm \<noteq> PBKDF2_ALGORITHM then False
           else (case (bytes_fromhex salt_hex, bytes_fromhex digest_hex, int_of_text iterations) of
             (Some salt, Some expected, Some n) \<Rightarrow>
               1 \<le> n \<and> cr_pbkdf2 cr password salt n = expected
           | _ \<Rightarrow> False))
      | _ \<Rightarrow> False)"

definition hash_session_token :: "Crypto \<Rightarrow> string \<Rightarrow> string" where
  "hash_session_token cr token = cr_sha256 cr token"

section \<open>Users and sessions\<close>

datatype UserRole = ADMIN | OPERATOR | VIEWER

datatype UserStatus = ACTIVE | DISABLED

definition UserRole_value :: "UserRole \<Rightarrow> string" where
  "UserRole_value r = (case r of ADMIN \<Rightarrow> ''ADMIN'' | OPERATOR \<Rightarrow> ''OPERATOR'' | VIEWER \<Rightarrow> ''VIEWER'')"

record AppUser =
  us_id :: string
  us_organization_id :: string
  us_email :: string
  us_display_name :: string
  us_password_hash :: string
  us_role :: UserRole
  us_status :: UserStatus
  us_failed_login_count :: nat
  us_locked_until :: "instant option"
  us_last_login_at :: "instant option"
  us_created_at :: instant

record UserSession =
  se_id :: string
  se_user_id :: string
  se_organization_id :: string
  se_token_hash :: string
  se_created_at :: instant
  se_expires_at :: instant
  se_last_seen_at :: "instant option"
  se_revoked_at :: "instant option"

record ApiClient =
  cl_id :: string
  cl_client_id :: string
  cl_secret_hash :: string
  cl_organization_id :: string
  cl_allowed_profiles :: "string list"
  cl_status :: string
  cl_created_at :: instant
  cl_last_used_at :: "instant option"

record IdStore =
  id_organizations :: "string list"
  id_users :: "AppUser list"
  id_sessions :: "UserSession list"
  id_clients :: "ApiClient list"
  id_audit :: "AuditEvent list"
  id_uuids :: nat

definition MAX_FAILED_LOGINS :: nat where
  "MAX_FAILED_LOGINS = 5"

definition LOCKOUT_MINUTES :: int where
  "LOCKOUT_MINUTES = 15"

definition SESSION_TTL_HOURS :: int where
  "SESSION_TTL_HOURS = 8"

definition minutes :: "int \<Rightarrow> int" where
  "minutes n = n * 60 * 1000000"

definition normalize_email :: "string \<Rightarrow> string" where
  "normalize_email email = lower (strip email)"

definition set_user :: "string \<Rightarrow> (AppUser \<Rightarrow> AppUser) \<Rightarrow> IdStore \<Rightarrow> IdStore" where
  "set_user uid f st = st\<lparr>id_users := update_rows (\<lambda>u. us_id u = uid) f (id_users st)\<rparr>"

definition set_session :: "string \<Rightarrow> (UserSession \<Rightarrow> UserSession) \<Rightarrow> IdStore \<Rightarrow> IdStore" where
  "set_session sid f st = st\<lparr>id_sessions := update_rows (\<lambda>s. se_id s = sid) f (id_sessions st)\<rparr>"

text \<open>
  The columns \<open>email\<close>, \<open>token_hash\<close> and \<open>client_id\<close> are unique and \<open>organization_id\<close> is a foreign
  key: inserting a row that breaks a constraint raises.
\<close>

definition get_organization :: "string \<Rightarrow> IdStore \<Rightarrow> string option" where
  "get_organization org st = (if org \<in> set (id_organizations st) then Some org else None)"

definition create_user ::
  "Crypto \<Rightarrow> uuids \<Rightarrow> instant \<Rightarrow> string \<Rightarrow> string \<Rightarrow> string \<Rightarrow> string \<Rightarrow> string \<Rightarrow> UserRole \<Rightarrow> UserStatus \<Rightarrow> IdStore \<Rightarrow>
     (AppUser \<times> IdStore) res" where
  "create_user cr uid now salt org email display_name password role status st =
     (let row = \<lparr>us_id = uid (id_uuids st), us_organization_id = org, us_email = normalize_email email,
                 us_display_name = display_name, us_password_hash = hash_password cr salt password,
                 us_role = role, us_status = status, us_failed_login_count = 0, us_locked_until = None,
                 us_last_login_at = None, us_created_at = now\<rparr> in
      if us_email row \<in> us_email ` set (id_users st) \<or> get_organization org st = None then Inl (IntegrityError ''app_users'')
      else Inr (row, st\<lparr>id_users := id_users st @ [row], id_uuids := Suc (id_uuids st)\<rparr>))"

definition get_user_by_email :: "scan \<Rightarrow> string \<Rightarrow> IdStore \<Rightarrow> AppUser option res" where
  "get_user_by_email scan email st =
     scalar_one_or_none (select_where scan (\<lambda>u. us_email u = normalize_email email) (id_users st))"

definition failed_login :: "instant \<Rightarrow> AppUser \<Rightarrow> AppUser" where
  "failed_login now u =
     (let n = us_failed_login_count u + 1 in
      if MAX_FAILED_LOGINS \<le> n
      then u\<lparr>us_locked_until := Some (now + minutes LOCKOUT_MINUTES), us_failed_login_count := 0\<rparr>
      else u\<lparr>us_failed_login_count := n\<rparr>)"

definition successful_login :: "instant \<Rightarrow> AppUser \<Rightarrow> AppUser" where
  "successful_login now u =
     u\<lparr>us_failed_login_count := 0, us_locked_until := None, us_last_login_at := Some now\<rparr>"

definition is_locked :: "instant \<Rightarrow> AppUser \<Rightarrow> bool" where
  "is_locked now u = (case us_locked_until u of None \<Rightarrow> False | Some t \<Rightarrow> now < t)"

definition authenticate ::
  "Crypto \<Rightarrow> scan \<Rightarrow> instant \<Rightarrow> string \<Rightarrow> string \<Rightarrow> IdStore \<Rightarrow> AppUser res \<times> IdStore" where
  "authenticate cr scan now email password st =
     (case get_user_by_email scan email st of
        Inl e \<Rightarrow> (Inl e, st)
      | Inr None \<Rightarrow> (Inl (AuthenticationError ''invalid credentials''), st)
      | Inr (Some user) \<Rightarrow>
          if is_locked now user then (Inl (AuthenticationError ''account temporarily locked''), st)
          else if \<not> verify_password cr password (us_password_hash user) then
            (Inl (AuthenticationError ''invalid credentials''), set_user (us_id user) (failed_login now) st)
          else if us_status user \<noteq> ACTIVE then (Inl (AccountDisabledError ''account disabled''), st)
          else (Inr (successful_login now user), set_user (us_id user) (successful_login now) st))"

definition create_session ::
  "Crypto \<Rightarrow> uuids \<Rightarrow> instant \<Rightarrow> string \<Rightarrow> AppUser \<Rightarrow> IdStore \<Rightarrow> (string \<times> instant) res \<times> IdStore" where
  "create_session cr uid now token user st =
     (let expires_at = now + minutes (60 * SESSION_TTL_HOURS);
          row = \<lparr>se_id = uid (id_uuids st), se_user_id = us_id user,
                 se_organization_id = us_organization_id user,
                 se_token_hash = hash_session_token cr token, se_created_at = now,
                 se_expires_at = expires_at, se_last_seen_at = Some now, se_revoked_at = None\<rparr> in
      if se_token_hash row \<in> se_token_hash ` set (id_sessions st)
      then (Inl (IntegrityError ''user_sessions.token_hash''), st)
      else (Inr (token, expires_at), st\<lparr>id_sessions := id_sessions st @ [row], id_uuids := Suc (id_uuids st)\<rparr>))"

definition session_by_token :: "Crypto \<Rightarrow> scan \<Rightarrow> string \<Rightarrow> IdStore \<Rightarrow> UserSession option res" where
  "session_by_token cr scan token st =
     scalar_one_or_none (select_where scan (\<lambda>s. se_token_hash s = hash_session_token cr token) (id_sessions st))"

definition session_valid :: "instant \<Rightarrow> UserSession \<Rightarrow> bool" where
  "session_valid now s = (se_revoked_at s = None \<and> now < se_expires_at s)"

definition resolve_session ::
  "Crypto \<Rightarrow> scan \<Rightarrow> instant \<Rightarrow> string \<Rightarrow> IdStore \<Rightarrow> AppUser option res \<times> IdStore" where
  "resolve_session cr scan now token st =
     (case session_by_token cr scan token st of
        Inl e \<Rightarrow> (Inl e, st)
      | Inr None \<Rightarrow> (Inr None, st)
      | Inr (Some s) \<Rightarrow>
          if \<not> session_valid now s then (Inr None, st)
          else (case find (\<lambda>u. us_id u = se_user_id s) (id_users st) of
                  None \<Rightarrow> (Inr None, st)
                | Some user \<Rightarrow>
                    if us_status user \<noteq> ACTIVE then (Inr None, st)
                    else (Inr (Some user), set_session (se_id s) (\<lambda>s. s\<lparr>se_last_seen_at := Some now\<rparr>) st)))"

definition revoke_session :: "Crypto \<Rightarrow> scan \<Rightarrow> instant \<Rightarrow> string \<Rightarrow> IdStore \<Rightarrow> unit res \<times> IdStore" where
  "revoke_session cr scan now token st =
     (case session_by_token cr scan token st of
        Inl e \<Rightarrow> (Inl e, st)
      | Inr None \<Rightarrow> (Inr (), st)
      | Inr (Some s) \<Rightarrow>
          if se_revoked_at s = None
          then (Inr (), set_session (se_id s) (\<lambda>s. s\<lparr>se_revoked_at := Some now\<rparr>) st)
          else (Inr (), st))"

definition open_sessions :: "string \<Rightarrow> IdStore \<Rightarrow> UserSession list" where
  "open_sessions user_id st = filter (\<lambda>s. se_user_id s = user_id \<and> se_revoked_at s = None) (id_sessions st)"

definition revoke_all_sessions :: "instant \<Rightarrow> string \<Rightarrow> IdStore \<Rightarrow> nat \<times> IdStore" where
  "revoke_all_sessions now user_id st =
     (length (open_sessions user_id st),
      st\<lparr>id_sessions := update_rows (\<lambda>s. se_user_id s = user_id \<and> se_revoked_at s = None)
           (\<lambda>s. s\<lparr>se_revoked_at := Some now\<rparr>) (id_sessions st)\<rparr>)"

definition get_user :: "string \<Rightarrow> IdStore \<Rightarrow> AppUser option" where
  "get_user user_id st = find (\<lambda>u. us_id u = user_id) (id_users st)"

definition list_users :: "scan \<Rightarrow> string option \<Rightarrow> IdStore \<Rightarrow> AppUser list" where
  "list_users scan org st = sort_key us_created_at
     (select_where scan (\<lambda>u. \<not> truthy org \<or> Some (us_organization_id u) = org) (id_users st))"

text \<open>The changes of the loaded user are flushed with the commit of \<open>revoke_all_sessions\<close>.\<close>

definition set_password ::
  "Crypto \<Rightarrow> instant \<Rightarrow> string \<Rightarrow> string \<Rightarrow> string \<Rightarrow> IdStore \<Rightarrow> IdStore" where
  "set_password cr now salt user_id new_password st =
     snd (revoke_all_sessions now user_id
       (set_user user_id (\<lambda>u. u\<lparr>us_password_hash := hash_password cr salt new_password,
          us_failed_login_count := 0, us_locked_until := None\<rparr>) st))"

definition set_status :: "instant \<Rightarrow> string \<Rightarrow> UserStatus \<Rightarrow> IdStore \<Rightarrow> IdStore" where
  "set_status now user_id status st =
     (let st' = set_user user_id (\<lambda>u. u\<lparr>us_status := status\<rparr>) st in
      if status = DISABLED then snd (revoke_all_sessions now user_id st') else st')"

definition set_role :: "string \<Rightarrow> UserRole \<Rightarrow> IdStore \<Rightarrow> IdStore" where
  "set_role user_id role st = set_user user_id (\<lambda>u. u\<lparr>us_role := role\<rparr>) st"

section \<open>Routes\<close>

definition add_audit :: "AuditEvent \<Rightarrow> IdStore \<Rightarrow> IdStore" where
  "add_audit e st = st\<lparr>id_audit := id_audit st @ [e], id_uuids := Suc (id_uuids st)\<rparr>"

record LoginResponse =
  lo_session_token :: string
  lo_expires_at :: instant
  lo_user :: AppUser

definition login ::
  "Crypto \<Rightarrow> scan \<Rightarrow> uuids \<Rightarrow> instant \<Rightarrow> string \<Rightarrow> string \<Rightarrow> string \<Rightarrow> IdStore \<Rightarrow> LoginResponse res \<times> IdStore" where
  "login cr scan uid now token email password st =
     (case authenticate cr scan now email password st of
        (Inl (AccountDisabledError e), st1) \<Rightarrow>
          (Inl (HTTPException 403 ''Account disabled. Contact your administrator.''), st1)
      | (Inl (AuthenticationError e), st1) \<Rightarrow> (Inl (HTTPException 401 ''Invalid email or password.''), st1)
      | (Inl e, st1) \<Rightarrow> (Inl e, st1)
      | (Inr user, st1) \<Rightarrow>
          (case create_session cr uid now token user st1 of
             (Inl e, st2) \<Rightarrow> (Inl e, st2)
           | (Inr (tok, expires_at), st2) \<Rightarrow>
               (Inr \<lparr>lo_session_token = tok, lo_expires_at = expires_at, lo_user = user\<rparr>,
                add_audit (audit_event (uid (id_uuids st2)) now (Some (us_organization_id user)) None
                  ''auth.login'' (Some (us_email user)) (Some [(''role'', JStr (UserRole_value (us_role user)))])) st2)))"

definition session_info ::
  "Crypto \<Rightarrow> scan \<Rightarrow> instant \<Rightarrow> string \<Rightarrow> IdStore \<Rightarrow> AppUser res \<times> IdStore" where
  "session_info cr scan now token st =
     (case resolve_session cr scan now token st of
        (Inl e, st') \<Rightarrow> (Inl e, st')
      | (Inr None, st') \<Rightarrow> (Inl (HTTPException 401 ''Session invalid''), st')
      | (Inr (Some user), st') \<Rightarrow> (Inr user, st'))"

definition logout :: "Crypto \<Rightarrow> scan \<Rightarrow> uuids \<Rightarrow> instant \<Rightarrow> string \<Rightarrow> IdStore \<Rightarrow> unit res \<times> IdStore" where
  "logout cr scan uid now token st =
     (case resolve_session cr scan now token st of
        (Inl e, st1) \<Rightarrow> (Inl e, st1)
      | (Inr user, st1) \<Rightarrow>
          (case revoke_session cr scan now token st1 of
             (Inl e, st2) \<Rightarrow> (Inl e, st2)
           | (Inr _, st2) \<Rightarrow>
               (case user of None \<Rightarrow> (Inr (), st2)
                | Some u \<Rightarrow> (Inr (), add_audit (audit_event (uid (id_uuids st2)) now
                    (Some (us_organization_id u)) None ''auth.logout'' (Some (us_email u)) None) st2))))"

section \<open>API clients\<close>

definition CLIENT_ITERATIONS :: nat where
  "CLIENT_ITERATIONS = 200000"

definition hash_secret :: "Crypto \<Rightarrow> string \<Rightarrow> string \<Rightarrow> string" where
  "hash_secret cr salt secret =
     bytes_hex salt @ ''$'' @ bytes_hex (cr_pbkdf2 cr secret salt (int CLIENT_ITERATIONS))"

text \<open>Only the split is inside the \<open>try\<close>: an invalid hexadecimal text raises.\<close>

definition verify_secret :: "Crypto \<Rightarrow> string \<Rightarrow> string \<Rightarrow> bool res" where
  "verify_secret cr secret stored =
     (case split_max 1 CHR ''$'' stored of
        [salt_hex, digest_hex] \<Rightarrow>
          (case (bytes_fromhex salt_hex, bytes_fromhex digest_hex) of
             (Some salt, Some expected) \<Rightarrow> Inr (cr_pbkdf2 cr secret salt (int CLIENT_ITERATIONS) = expected)
           | _ \<Rightarrow> Inl (ValueError ''non-hexadecimal number found in fromhex() arg''))
      | _ \<Rightarrow> Inr False)"

record AuthenticatedClient =
  ac_client_id :: string
  ac_organization_id :: string
  ac_allowed_profiles :: "string list"
  ac_client_id_guid :: string

definition get_api_client ::
  "Crypto \<Rightarrow> scan \<Rightarrow> instant \<Rightarrow> string \<Rightarrow> string \<Rightarrow> IdStore \<Rightarrow> AuthenticatedClient res \<times> IdStore" where
  "get_api_client cr scan now x_client_id x_client_secret st =
     (case scalar_one_or_none (select_where scan (\<lambda>c. cl_client_id c = x_client_id) (id_clients st)) of
        Inl e \<Rightarrow> (Inl e, st)
      | Inr None \<Rightarrow> (Inl (HTTPException 401 ''invalid client''), st)
      | Inr (Some client) \<Rightarrow>
          if cl_status client \<noteq> ''ACTIVE'' then (Inl (HTTPException 403 ''client disabled''), st)
          else (case verify_secret cr x_client_secret (cl_secret_hash client) of
             Inl e \<Rightarrow> (Inl e, st)
           | Inr False \<Rightarrow> (Inl (HTTPException 401 ''invalid credentials''), st)
           | Inr True \<Rightarrow>
               (Inr \<lparr>ac_client_id = cl_client_id client, ac_organization_id = cl_organization_id client,
                     ac_allowed_profiles = cl_allowed_profiles client, ac_client_id_guid = cl_id client\<rparr>,
                st\<lparr>id_clients := update_rows (\<lambda>c. cl_id c = cl_id client)
                     (\<lambda>c. c\<lparr>cl_last_used_at := Some now\<rparr>) (id_clients st)\<rparr>)))"

definition get_optional_api_client ::
  "Crypto \<Rightarrow> scan \<Rightarrow> instant \<Rightarrow> string option \<Rightarrow> string option \<Rightarrow> IdStore \<Rightarrow> AuthenticatedClient option res \<times> IdStore" where
  "get_optional_api_client cr scan now x_client_id x_client_secret st =
     (if \<not> truthy x_client_id \<or> \<not> truthy x_client_secret then (Inr None, st)
      else (case get_api_client cr scan now (dget_opt x_client_id) (dget_opt x_client_secret) st of
        (Inl e, st') \<Rightarrow> (Inl e, st') | (Inr c, st') \<Rightarrow> (Inr (Some c), st')))"

definition get_actor_identity :: "string option \<Rightarrow> string option" where
  "get_actor_identity x = (case x of None \<Rightarrow> None | Some s \<Rightarrow> or_none (take 128 (strip s)))"

text \<open>\<open>generate_client_id\<close>: 20 of the 32 hexadecimal digits of a fresh key.\<close>

definition generate_client_id :: "string \<Rightarrow> string" where
  "generate_client_id hex = ''cn_'' @ take 20 hex"

text \<open>The route takes no credentials.\<close>

definition create_client ::
  "Crypto \<Rightarrow> uuids \<Rightarrow> instant \<Rightarrow> string \<Rightarrow> string \<Rightarrow> string \<Rightarrow> string \<Rightarrow> string list \<Rightarrow> IdStore \<Rightarrow>
     (string \<times> string) res \<times> IdStore" where
  "create_client cr uid now hex secret salt org allowed_profiles st =
     (let row = \<lparr>cl_id = uid (id_uuids st), cl_client_id = generate_client_id hex,
                 cl_secret_hash = hash_secret cr salt secret, cl_organization_id = org,
                 cl_allowed_profiles = allowed_profiles, cl_status = ''ACTIVE'',
                 cl_created_at = now, cl_last_used_at = None\<rparr> in
      if cl_client_id row \<in> cl_client_id ` set (id_clients st) \<or> get_organization org st = None then (Inl (IntegrityError ''api_clients''), st)
      else (Inr (cl_client_id row, secret), st\<lparr>id_clients := id_clients st @ [row], id_uuids := Suc (id_uuids st)\<rparr>))"

definition list_clients :: "scan \<Rightarrow> string \<Rightarrow> IdStore \<Rightarrow> ApiClient list" where
  "list_clients scan org st = select_where scan (\<lambda>c. cl_organization_id c = org) (id_clients st)"

end
