(* ===== verification/PO_Ops.thy ===== *)
theory PO_Ops
  imports PO_Pipeline PO_Users
begin

text \<open>
  The tables of the analysis, lifecycle and account services (\<open>db/models/analysis.py\<close>,
  \<open>lifecycle.py\<close>, \<open>account.py\<close> and \<open>CaseAction\<close>), and the operations on them as functions from a
  store to a result and a store. Every service commits after each of its changes: the store an
  operation returns is the last committed one, also when the operation raises. An operation reads
  the clock once.
\<close>

section \<open>Operations on a store\<close>

definition obind :: "('s \<Rightarrow> 'a res \<times> 's) \<Rightarrow> ('a \<Rightarrow> 's \<Rightarrow> 'b res \<times> 's) \<Rightarrow> 's \<Rightarrow> 'b res \<times> 's" where
  "obind m f st = (case m st of (Inl e, st') \<Rightarrow> (Inl e, st') | (Inr x, st') \<Rightarrow> f x st')"

text \<open>A loop whose body can raise.\<close>

fun oeach :: "('a \<Rightarrow> 's \<Rightarrow> unit res \<times> 's) \<Rightarrow> 'a list \<Rightarrow> 's \<Rightarrow> unit res \<times> 's" where
  "oeach f [] st = (Inr (), st)"
| "oeach f (x # xs) st = (case f x st of (Inl e, st') \<Rightarrow> (Inl e, st') | (Inr _, st') \<Rightarrow> oeach f xs st')"

text \<open>
  What relates a store to its successor statement by statement also relates it to the store after
  a composed operation: the interface of the proofs about whole services.
\<close>

locale step_relation =
  fixes R :: "'s \<Rightarrow> 's \<Rightarrow> bool"
  assumes stay: "R st st" and then_: "R a b \<Longrightarrow> R b c \<Longrightarrow> R a c"
begin

lemma bind_step:
  assumes "R st (snd (m st))" and "\<And>x st'. m st = (Inr x, st') \<Longrightarrow> R st' (snd (f x st'))"
  shows "R st (snd (obind m f st))"
proof (cases "m st")
  case (Pair r st')
  with assms show ?thesis by (cases r) (auto simp: obind_def intro: then_)
qed

lemma each_step: "(\<And>x st. R st (snd (f x st))) \<Longrightarrow> R st (snd (oeach f xs st))"
proof (induction xs arbitrary: st)
  case (Cons x xs)
  obtain r st' where f: "f x st = (r, st')" by force
  from Cons.prems[of st x] have "R st st'" by (simp add: f)
  with Cons f show ?case by (cases r) (auto intro: then_)
qed (simp add: stay)

end

section \<open>Cases\<close>

record PaymentCase =
  pc_id :: string
  pc_case_id :: string
  pc_organization_id :: "string option"
  pc_message_type :: "string option"
  pc_message_version :: "string option"
  pc_validation_status :: "string option"
  pc_address_readiness :: "string option"
  pc_repair_status :: "string option"
  pc_ruleset_version :: "string option"
  pc_mapping_version :: "string option"
  pc_integration_profile_version :: "string option"
  pc_engine_version :: "string option"
  pc_address_provider :: "string option"
  pc_address_provider_version :: "string option"
  pc_address_provider_coverage :: "string option"
  pc_input_hash :: "string option"
  pc_output_hash :: "string option"
  pc_status :: string
  pc_idempotency_key :: "string option"
  pc_created_at :: instant

record CaseAction =
  ca_id :: string
  ca_organization_id :: string
  ca_case_id :: string
  ca_action :: string
  ca_operator :: "string option"
  ca_note :: "string option"
  ca_created_at :: instant

record AnalysisRun =
  an_id :: string
  an_organization_id :: "string option"
  an_case_id :: string
  an_status :: string
  an_duration_ms :: "int option"
  an_created_at :: instant

record RuleFindingRow =
  fd_id :: string
  fd_organization_id :: "string option"
  fd_case_id :: string
  fd_rule_id :: string
  fd_severity :: string
  fd_target :: "string option"
  fd_message :: "string option"

record RepairCandidateRow =
  rk_id :: string
  rk_organization_id :: "string option"
  rk_case_id :: string
  rk_candidate_id :: string
  rk_status :: string
  rk_xml_sha256 :: "string option"
  rk_created_at :: instant

section \<open>Messages and lifecycles\<close>

record IsoMessage =
  ms_id :: string
  ms_organization_id :: string
  ms_message_id :: "string option"
  ms_message_family :: string
  ms_message_definition :: string
  ms_message_version :: string
  ms_namespace :: string
  ms_source_adapter :: string
  ms_adapter_version :: string
  ms_schema_version :: string
  ms_schema_validation :: bool
  ms_message_hash :: string
  ms_input_hash :: "string option"
  ms_canonical_model_version :: "string option"
  ms_engine_version :: "string option"
  ms_status :: string
  ms_raw_status :: "string option"
  ms_normalized_status :: "string option"
  ms_processed_at :: instant
  ms_created_at :: instant

record PaymentLifecycleRow =
  lf_id :: string
  lf_organization_id :: string
  lf_lifecycle_id :: string
  lf_primary_reference :: "string option"
  lf_end_to_end_id :: "string option"
  lf_instruction_id :: "string option"
  lf_transaction_id :: "string option"
  lf_uetr :: "string option"
  lf_original_message_id :: "string option"
  lf_debtor_account :: "string option"
  lf_creditor_account :: "string option"
  lf_amount_minor :: "int option"
  lf_currency :: "string option"
  lf_current_status :: string
  lf_created_at :: instant
  lf_updated_at :: instant

record PaymentLifecycleEventRow =
  lv_id :: string
  lv_organization_id :: string
  lv_lifecycle_id :: string
  lv_event_type :: string
  lv_message_family :: "string option"
  lv_message_definition :: "string option"
  lv_message_version :: "string option"
  lv_message_id :: "string option"
  lv_timestamp :: "instant option"
  lv_status :: string
  lv_raw_status_code :: "string option"
  lv_correlation_evidence :: "string list"
  lv_source_hash :: "string option"
  lv_created_at :: instant

record MessageCorrelation =
  mx_id :: string
  mx_organization_id :: string
  mx_lifecycle_id :: string
  mx_source_message_id :: "string option"
  mx_candidate_message_id :: "string option"
  mx_correlation_status :: string
  mx_evidence :: "string list"
  mx_conflicts :: "string list"
  mx_operator :: "string option"
  mx_note :: "string option"
  mx_created_at :: instant
  mx_decided_at :: "instant option"

section \<open>Account reports\<close>

record AccountReportRow =
  rw_id :: string
  rw_organization_id :: string
  rw_iso_message_id :: "string option"
  rw_message_id :: "string option"
  rw_message_definition :: string
  rw_message_version :: string
  rw_report_type :: string
  rw_account_iban :: "string option"
  rw_account_other_id :: "string option"
  rw_account_currency :: "string option"
  rw_servicer_bic :: "string option"
  rw_statement_id :: "string option"
  rw_notification_id :: "string option"
  rw_period_start :: "pydate option"
  rw_period_end :: "pydate option"
  rw_entry_count :: nat
  rw_source_hash :: "string option"
  rw_created_at :: instant

record AccountEntryRow =
  er_id :: string
  er_organization_id :: string
  er_report_id :: string
  er_entry_reference :: "string option"
  er_account_servicer_reference :: "string option"
  er_transaction_id :: "string option"
  er_instruction_id :: "string option"
  er_end_to_end_id :: "string option"
  er_uetr :: "string option"
  er_amount_minor :: "int option"
  er_currency :: "string option"
  er_credit_debit :: "string option"
  er_booking_date :: "pydate option"
  er_value_date :: "pydate option"
  er_status :: "string option"
  er_bank_tx_code :: "string option"
  er_bank_tx_family :: "string option"
  er_bank_tx_sub_family :: "string option"
  er_remittance_reference :: "string option"
  er_identity_hash :: string
  er_reconciliation_status :: "string option"
  er_match_score :: "rat option"
  er_lifecycle_id :: "string option"
  er_evidence :: "string list"
  er_conflicts :: "string list"
  er_source_hash :: "string option"
  er_created_at :: instant

record AccountBalanceRow =
  bw_id :: string
  bw_organization_id :: string
  bw_report_id :: string
  bw_balance_type :: string
  bw_amount_minor :: int
  bw_currency :: string
  bw_credit_debit :: string
  bw_created_at :: instant

record AccountReconciliationRow =
  rx_id :: string
  rx_organization_id :: string
  rx_account_entry_id :: string
  rx_lifecycle_id :: "string option"
  rx_classification :: string
  rx_match_score :: rat
  rx_evidence :: "string list"
  rx_conflicts :: "string list"
  rx_status :: string
  rx_operator :: "string option"
  rx_note :: "string option"
  rx_created_at :: instant
  rx_decided_at :: "instant option"

section \<open>The store\<close>

record Ops =
  op_cases :: "PaymentCase list"
  op_actions :: "CaseAction list"
  op_runs :: "AnalysisRun list"
  op_findings :: "RuleFindingRow list"
  op_candidates :: "RepairCandidateRow list"
  op_audit :: "AuditEvent list"
  op_messages :: "IsoMessage list"
  op_lifecycles :: "PaymentLifecycleRow list"
  op_events :: "PaymentLifecycleEventRow list"
  op_correlations :: "MessageCorrelation list"
  op_reports :: "AccountReportRow list"
  op_entries :: "AccountEntryRow list"
  op_balances :: "AccountBalanceRow list"
  op_reconciliations :: "AccountReconciliationRow list"
  op_uuids :: nat

text \<open>
  The parameters of the services: the scan order and the generated keys of the database, the hash
  function, and the account window.
\<close>

record OpsEnv =
  oe_scan :: scan
  oe_uid :: uuids
  oe_sha256 :: "string \<Rightarrow> string"

text \<open>The \<open>k\<close>-th key after those already drawn.\<close>

definition new_key :: "OpsEnv \<Rightarrow> Ops \<Rightarrow> string" where
  "new_key env st = oe_uid env (op_uuids st)"

text \<open>
  Columns of type \<open>Integer\<close> are 32 bits wide; the driver refuses other values. The column
  \<open>case_id\<close> is unique over all organizations.
\<close>

definition int4_ok :: "int \<Rightarrow> bool" where
  "int4_ok n \<longleftrightarrow> - (2 ^ 31) \<le> n \<and> n < 2 ^ 31"

definition int4_error :: py_error where
  "int4_error = StatementError ''value out of int32 range''"

definition add_case :: "PaymentCase \<Rightarrow> AuditEvent list \<Rightarrow> Ops \<Rightarrow> unit res \<times> Ops" where
  "add_case c events st =
     (if pc_case_id c \<in> pc_case_id ` set (op_cases st) then (Inl (IntegrityError ''payment_cases.case_id''), st)
      else (Inr (), st\<lparr>op_cases := op_cases st @ [c], op_audit := op_audit st @ events,
              op_uuids := op_uuids st + 1 + length events\<rparr>))"

text \<open>A case with the columns the services leave empty.\<close>

definition review_case :: "string \<Rightarrow> string \<Rightarrow> string \<Rightarrow> string \<Rightarrow> instant \<Rightarrow> PaymentCase" where
  "review_case key case_id org message_type now =
     \<lparr>pc_id = key, pc_case_id = case_id, pc_organization_id = Some org, pc_message_type = Some message_type,
      pc_message_version = None, pc_validation_status = None, pc_address_readiness = None,
      pc_repair_status = None, pc_ruleset_version = None, pc_mapping_version = None,
      pc_integration_profile_version = None, pc_engine_version = None, pc_address_provider = None,
      pc_address_provider_version = None, pc_address_provider_coverage = None, pc_input_hash = None,
      pc_output_hash = None, pc_status = ''REVIEW_REQUIRED'', pc_idempotency_key = None,
      pc_created_at = now\<rparr>"

definition select_cases :: "OpsEnv \<Rightarrow> string \<Rightarrow> string \<Rightarrow> Ops \<Rightarrow> PaymentCase list" where
  "select_cases env org case_id st =
     select_where (oe_scan env) (\<lambda>c. pc_case_id c = case_id \<and> pc_organization_id c = Some org) (op_cases st)"

end
