(* ===== verification/PO_Cases.thy ===== *)
theory PO_Cases
  imports PO_Ops
begin

text \<open>
  \<open>services/case_service.py\<close> with the routes of \<open>routers/cases.py\<close>, and the rows that
  \<open>services/analysis_service.py\<close> writes for an analysis, behind the route of \<open>routers/analyze.py\<close>.
\<close>

section \<open>Operator actions\<close>

datatype CaseStatus = CASE_NEW | CASE_ANALYZED | CASE_REPAIR_PROPOSED | CASE_REVIEW_REQUIRED
  | CASE_APPROVED | CASE_REJECTED | CASE_CLOSED

definition CaseStatus_value :: "CaseStatus \<Rightarrow> string" where
  "CaseStatus_value s = (case s of CASE_NEW \<Rightarrow> ''NEW'' | CASE_ANALYZED \<Rightarrow> ''ANALYZED''
     | CASE_REPAIR_PROPOSED \<Rightarrow> ''REPAIR_PROPOSED'' | CASE_REVIEW_REQUIRED \<Rightarrow> ''REVIEW_REQUIRED''
     | CASE_APPROVED \<Rightarrow> ''APPROVED'' | CASE_REJECTED \<Rightarrow> ''REJECTED'' | CASE_CLOSED \<Rightarrow> ''CLOSED'')"

definition ALLOWED_ACTIONS :: "(string, CaseStatus) dict" where
  "ALLOWED_ACTIONS = [(''approve'', CASE_APPROVED), (''reject'', CASE_REJECTED), (''close'', CASE_CLOSED)]"

definition get_case :: "OpsEnv \<Rightarrow> string \<Rightarrow> string \<Rightarrow> Ops \<Rightarrow> PaymentCase res" where
  "get_case env org case_id st =
     get_one (oe_scan env) (\<lambda>c. pc_case_id c = case_id \<and> pc_organization_id c = Some org)
       ''case not found'' (op_cases st)"

definition closed_status :: "string \<Rightarrow> bool" where
  "closed_status s \<longleftrightarrow> s \<in> {''APPROVED'', ''REJECTED'', ''CLOSED''}"

definition opt_json :: "string option \<Rightarrow> jval" where
  "opt_json x = (case x of None \<Rightarrow> JNull | Some s \<Rightarrow> JStr s)"

definition transition_case ::
  "OpsEnv \<Rightarrow> instant \<Rightarrow> string \<Rightarrow> string \<Rightarrow> string \<Rightarrow> string option \<Rightarrow> string option \<Rightarrow> Ops \<Rightarrow> PaymentCase res \<times> Ops" where
  "transition_case env now org case_id action operator note st =
     (case get_case env org case_id st of
        Inl e \<Rightarrow> (Inl e, st)
      | Inr c \<Rightarrow> (case map_of ALLOWED_ACTIONS action of
          None \<Rightarrow> (Inl (ValueError (''unsupported action '' @ [CHR 0x27] @ action @ [CHR 0x27])), st)
        | Some new_status \<Rightarrow>
            if closed_status (pc_status c) \<and> pc_status c \<noteq> CaseStatus_value new_status
            then (Inl (ValueError ''case already closed''), st)
            else (let c' = c\<lparr>pc_status := CaseStatus_value new_status\<rparr>;
                      act = \<lparr>ca_id = new_key env st, ca_organization_id = org, ca_case_id = case_id,
                             ca_action = action, ca_operator = operator, ca_note = note, ca_created_at = now\<rparr>;
                      ev = audit_event (oe_uid env (op_uuids st + 1)) now (Some org) (Some case_id)
                             (''case.'' @ action) operator
                             (Some [(''action'', JStr action), (''note'', opt_json note)]) in
              (Inr c', st\<lparr>op_cases := update_rows (\<lambda>r. pc_id r = pc_id c)
                            (\<lambda>r. r\<lparr>pc_status := CaseStatus_value new_status\<rparr>) (op_cases st),
                          op_actions := op_actions st @ [act], op_audit := op_audit st @ [ev],
                          op_uuids := op_uuids st + 2\<rparr>))))"

definition case_action ::
  "OpsEnv \<Rightarrow> instant \<Rightarrow> string \<Rightarrow> string option \<Rightarrow> string \<Rightarrow> string \<Rightarrow> string option \<Rightarrow> string option \<Rightarrow> Ops \<Rightarrow>
     (string \<times> string \<times> string) res \<times> Ops" where
  "case_action env now org actor case_id action operator note st =
     (case transition_case env now org case_id action (por actor operator) note st of
        (Inl (LookupError m), st') \<Rightarrow> (Inl (HTTPException 404 ''case not found''), st')
      | (Inl (ValueError m), st') \<Rightarrow> (Inl (HTTPException 409 m), st')
      | (Inl e, st') \<Rightarrow> (Inl e, st')
      | (Inr c, st') \<Rightarrow> (Inr (pc_case_id c, pc_status c, action), st'))"

definition list_cases :: "OpsEnv \<Rightarrow> string \<Rightarrow> nat \<Rightarrow> Ops \<Rightarrow> PaymentCase list" where
  "list_cases env org limit st = take limit (order_by_desc pc_created_at
     (select_where (oe_scan env) (\<lambda>c. pc_organization_id c = Some org) (op_cases st)))"

text \<open>The findings and the audit entries of a case are selected by the case id alone.\<close>

definition rule_findings :: "OpsEnv \<Rightarrow> string \<Rightarrow> Ops \<Rightarrow> RuleFindingRow list" where
  "rule_findings env case_id st = select_where (oe_scan env) (\<lambda>r. fd_case_id r = case_id) (op_findings st)"

definition audit_events :: "OpsEnv \<Rightarrow> string \<Rightarrow> Ops \<Rightarrow> AuditEvent list" where
  "audit_events env case_id st = sort_key au_created_at
     (select_where (oe_scan env) (\<lambda>e. au_case_id e = Some case_id) (op_audit st))"

definition case_detail ::
  "OpsEnv \<Rightarrow> string \<Rightarrow> string \<Rightarrow> Ops \<Rightarrow> (PaymentCase \<times> RuleFindingRow list \<times> AuditEvent list) res" where
  "case_detail env org case_id st =
     (case get_case env org case_id st of
        Inl (LookupError m) \<Rightarrow> Inl (HTTPException 404 ''case not found'')
      | Inl e \<Rightarrow> Inl e
      | Inr c \<Rightarrow> Inr (c, rule_findings env case_id st, audit_events env case_id st))"

section \<open>Rows of an analysis\<close>

text \<open>No row but the case carries the organization.\<close>

definition finding_row :: "string \<Rightarrow> string \<Rightarrow> string option \<Rightarrow> RuleFinding \<Rightarrow> RuleFindingRow" where
  "finding_row key case_id org f =
     \<lparr>fd_id = key, fd_organization_id = org, fd_case_id = case_id, fd_rule_id = rf_rule_id f,
      fd_severity = Severity_value (rf_severity f), fd_target = Some (take 256 (rf_target f)),
      fd_message = Some (take 256 (rf_message f))\<rparr>"

definition analysis_case :: "string \<Rightarrow> string option \<Rightarrow> instant \<Rightarrow> AnalysisResult \<Rightarrow> PaymentCase" where
  "analysis_case key org now r =
     \<lparr>pc_id = key, pc_case_id = ar_case_id r, pc_organization_id = org, pc_message_type = ar_message_type r,
      pc_message_version = ar_message_version r,
      pc_validation_status = Some (ar_original_validation_status r),
      pc_address_readiness = ar_address_readiness r, pc_repair_status = ar_repair_status r,
      pc_ruleset_version = ar_ruleset_version r, pc_mapping_version = None,
      pc_integration_profile_version = None, pc_engine_version = None,
      pc_address_provider = ar_address_provider r,
      pc_address_provider_version = ar_address_provider_version r,
      pc_address_provider_coverage = ar_address_provider_coverage r,
      pc_input_hash = ar_input_hash r, pc_output_hash = ar_output_hash r, pc_status = ''NEW'',
      pc_idempotency_key = None, pc_created_at = now\<rparr>"

definition persist_analysis :: "OpsEnv \<Rightarrow> instant \<Rightarrow> int \<Rightarrow> string option \<Rightarrow> AnalysisResult \<Rightarrow> Ops \<Rightarrow> unit res \<times> Ops" where
  "persist_analysis env now duration_ms org r st =
     (let case_id = ar_case_id r; k = op_uuids st; n = length (ar_rule_findings r);
          run = \<lparr>an_id = oe_uid env (k + 1), an_organization_id = None, an_case_id = case_id,
                 an_status = ''completed'', an_duration_ms = Some duration_ms, an_created_at = now\<rparr>;
          found = map (\<lambda>(i, f). finding_row (oe_uid env (k + 2 + i)) case_id None f)
                    (List.enumerate 0 (ar_rule_findings r));
          cand = (if truthy (ar_candidate_validation_status r)
                  then [\<lparr>rk_id = oe_uid env (k + 2 + n), rk_organization_id = None, rk_case_id = case_id,
                         rk_candidate_id = ''RC-'' @ case_id,
                         rk_status = dget_opt (ar_candidate_validation_status r),
                         rk_xml_sha256 = ar_output_hash r, rk_created_at = now\<rparr>] else []);
          ev = audit_event (oe_uid env (k + 3 + n)) now None (Some case_id) ''analysis_completed'' None None in
      if case_id \<in> pc_case_id ` set (op_cases st) then (Inl (IntegrityError ''payment_cases.case_id''), st)
      else (Inr (), st\<lparr>op_cases := op_cases st @ [analysis_case (oe_uid env k) org now r],
              op_runs := op_runs st @ [run], op_findings := op_findings st @ found,
              op_candidates := op_candidates st @ cand, op_audit := op_audit st @ [ev],
              op_uuids := k + 4 + n\<rparr>))"

text \<open>
  \<open>AnalysisService.analyze\<close>: the state is that of the address provider and the store. Metrics and
  the rendering of the response are left out.
\<close>

record AnalyzeRequest =
  aq_xml :: string
  aq_repair :: bool
  aq_persist :: bool
  aq_include_candidate_xml :: bool

definition service_analyze ::
  "OpsEnv \<Rightarrow> pipeline_env \<Rightarrow> 's pipeline \<Rightarrow> instant \<Rightarrow> int \<Rightarrow> AnalyzeRequest \<Rightarrow> string option \<Rightarrow> 's \<times> Ops \<Rightarrow>
     AnalysisResult res \<times> 's \<times> Ops" where
  "service_analyze oe env p now duration_ms req org = (\<lambda>(s, st).
     (case analyze env p (Some (aq_xml req)) (aq_repair req) (aq_include_candidate_xml req) s of
        (Inl e, s') \<Rightarrow> (Inl e, s', st)
      | (Inr r, s') \<Rightarrow>
          if aq_persist req then (case persist_analysis oe now duration_ms org r st of
              (Inl e, st') \<Rightarrow> (Inl e, s', st') | (Inr _, st') \<Rightarrow> (Inr r, s', st'))
          else (Inr r, s', st)))"

definition analyze_payment ::
  "OpsEnv \<Rightarrow> pipeline_env \<Rightarrow> 's pipeline \<Rightarrow> bool \<Rightarrow> AuthenticatedClient option \<Rightarrow> instant \<Rightarrow> int \<Rightarrow> AnalyzeRequest \<Rightarrow>
     's \<times> Ops \<Rightarrow> AnalysisResult res \<times> 's \<times> Ops" where
  "analyze_payment oe env p is_production client now duration_ms req st =
     (if is_production then (Inl (HTTPException 404 ''Legacy analysis endpoint is disabled in production''), st)
      else if aq_persist req \<and> client = None
        then (Inl (HTTPException 401 ''Authentication required to persist analysis''), st)
      else service_analyze oe env p now duration_ms req (map_option ac_organization_id client) st)"

end
