(* ===== verification/PO_Account.thy ===== *)
theory PO_Account
  imports PO_Ops
begin

text \<open>
  \<open>services/account_service.py\<close> with the routes of \<open>routers/account.py\<close> that hold logic and the
  worker task \<open>account_tasks.py\<close>: reports and their entries are stored, each entry is compared with
  the entries and the lifecycle it belongs to, exceptions become cases. Metrics are left out.
\<close>

section \<open>Values\<close>

definition DEFAULT_ACCOUNT_WINDOW_HOURS :: int where
  "DEFAULT_ACCOUNT_WINDOW_HOURS = 48"

definition ARS_value :: "AccountReconciliationStatus \<Rightarrow> string" where
  "ARS_value s = (case s of RECONCILED \<Rightarrow> ''RECONCILED'' | POSSIBLE_RECONCILIATION \<Rightarrow> ''POSSIBLE_RECONCILIATION''
     | UNMATCHED_ACCOUNT_ENTRY \<Rightarrow> ''UNMATCHED_ACCOUNT_ENTRY'' | MISSING_ACCOUNT_EVENT \<Rightarrow> ''MISSING_ACCOUNT_EVENT''
     | AMOUNT_MISMATCH \<Rightarrow> ''AMOUNT_MISMATCH'' | CURRENCY_MISMATCH \<Rightarrow> ''CURRENCY_MISMATCH''
     | ACCOUNT_MISMATCH \<Rightarrow> ''ACCOUNT_MISMATCH'' | REFERENCE_MISMATCH \<Rightarrow> ''REFERENCE_MISMATCH''
     | DUPLICATE_ACCOUNT_ENTRY \<Rightarrow> ''DUPLICATE_ACCOUNT_ENTRY'' | ARS_REVIEW_REQUIRED \<Rightarrow> ''REVIEW_REQUIRED'')"

definition BalanceType_value :: "BalanceType \<Rightarrow> string" where
  "BalanceType_value b = (case b of OPENING \<Rightarrow> ''OPBD'' | CLOSING \<Rightarrow> ''CLBD'' | INTERIM \<Rightarrow> ''ITBD''
     | AVAILABLE \<Rightarrow> ''AVLB'' | FORWARD_AVAILABLE \<Rightarrow> ''FWAV'')"

definition EXCEPTION_STATUSES :: "AccountReconciliationStatus list" where
  "EXCEPTION_STATUSES = [MISSING_ACCOUNT_EVENT, AMOUNT_MISMATCH, CURRENCY_MISMATCH, ACCOUNT_MISMATCH,
     DUPLICATE_ACCOUNT_ENTRY, ARS_REVIEW_REQUIRED]"

section \<open>Reports\<close>

definition report_row :: "string \<Rightarrow> string \<Rightarrow> AccountReport \<Rightarrow> string option \<Rightarrow> instant \<Rightarrow> AccountReportRow" where
  "report_row key org report iso_message_id now =
     \<lparr>rw_id = key, rw_organization_id = org, rw_iso_message_id = iso_message_id,
      rw_message_id = rp_message_id report,
      rw_message_definition = dget_opt (por (rp_message_definition report) (Some ''unknown'')),
      rw_message_version = dget_opt (por (rp_message_version report) (Some ''unknown'')),
      rw_report_type = AccountReportType_value (rp_report_type report),
      rw_account_iban = Option.bind (rp_account report) ar_iban,
      rw_account_other_id = Option.bind (rp_account report) ar_other_identification,
      rw_account_currency = Option.bind (rp_account report) ar_currency,
      rw_servicer_bic = Option.bind (rp_account report) ar_servicer_bic,
      rw_statement_id = rp_statement_id report, rw_notification_id = rp_notification_id report,
      rw_period_start = rp_period_start report, rw_period_end = rp_period_end report,
      rw_entry_count = report_number_of_entries report, rw_source_hash = rp_source_hash report,
      rw_created_at = now\<rparr>"

definition persist_report ::
  "OpsEnv \<Rightarrow> instant \<Rightarrow> string \<Rightarrow> AccountReport \<Rightarrow> string option \<Rightarrow> Ops \<Rightarrow> AccountReportRow res \<times> Ops" where
  "persist_report env now org report iso_message_id st =
     (let row = report_row (new_key env st) org report iso_message_id now in
      (Inr row, st\<lparr>op_reports := op_reports st @ [row], op_uuids := Suc (op_uuids st)\<rparr>))"

definition balance_row :: "string \<Rightarrow> string \<Rightarrow> string \<Rightarrow> instant \<Rightarrow> AccountBalance \<Rightarrow> AccountBalanceRow" where
  "balance_row key org report_id now b =
     \<lparr>bw_id = key, bw_organization_id = org, bw_report_id = report_id,
      bw_balance_type = BalanceType_value (ab_type b), bw_amount_minor = ma_amount_minor (ab_amount b),
      bw_currency = ma_currency (ab_amount b), bw_credit_debit = cdi_value (ab_credit_debit b),
      bw_created_at = now\<rparr>"

text \<open>The balances of a report are one commit: either all are stored or none.\<close>

definition persist_balances ::
  "OpsEnv \<Rightarrow> instant \<Rightarrow> string \<Rightarrow> AccountReport \<Rightarrow> AccountReportRow \<Rightarrow> Ops \<Rightarrow> unit res \<times> Ops" where
  "persist_balances env now org report row st =
     (if list_all (\<lambda>b. int4_ok (ma_amount_minor (ab_amount b))) (rp_balances report)
      then (Inr (), st\<lparr>op_balances := op_balances st @
              map (\<lambda>(i, b). balance_row (oe_uid env (op_uuids st + i)) org (rw_id row) now b)
                (List.enumerate 0 (rp_balances report)),
              op_uuids := op_uuids st + length (rp_balances report)\<rparr>)
      else (Inl int4_error, st))"

section \<open>Entries\<close>

definition entry_to_row ::
  "string \<Rightarrow> string \<Rightarrow> AccountEntry \<Rightarrow> AccountReportRow \<Rightarrow> string \<Rightarrow> instant \<Rightarrow> AccountEntryRow" where
  "entry_to_row key org e report ihash now =
     \<lparr>er_id = key, er_organization_id = org, er_report_id = rw_id report,
      er_entry_reference = ae_entry_reference e,
      er_account_servicer_reference = ae_account_servicer_reference e,
      er_transaction_id = ae_transaction_id e, er_instruction_id = ae_instruction_id e,
      er_end_to_end_id = ae_end_to_end_id e, er_uetr = ae_uetr e,
      er_amount_minor = map_option ma_amount_minor (ae_amount e),
      er_currency = por (ae_currency e) (map_option ma_currency (ae_amount e)),
      er_credit_debit = map_option cdi_value (ae_credit_debit e),
      er_booking_date = ae_booking_date e, er_value_date = ae_value_date e, er_status = ae_status e,
      er_bank_tx_code = Option.bind (ae_bank_transaction_code e) bt_code,
      er_bank_tx_family = Option.bind (ae_bank_transaction_code e) bt_family,
      er_bank_tx_sub_family = Option.bind (ae_bank_transaction_code e) bt_sub_family,
      er_remittance_reference = ae_remittance_reference e, er_identity_hash = ihash,
      er_reconciliation_status = None, er_match_score = None, er_lifecycle_id = None, er_evidence = [],
      er_conflicts = [], er_source_hash = ae_source_hash e, er_created_at = now\<rparr>"

definition add_entry :: "AccountEntryRow \<Rightarrow> Ops \<Rightarrow> AccountEntryRow res \<times> Ops" where
  "add_entry row st =
     (if (case er_amount_minor row of None \<Rightarrow> True | Some n \<Rightarrow> int4_ok n)
      then (Inr row, st\<lparr>op_entries := op_entries st @ [row], op_uuids := Suc (op_uuids st)\<rparr>)
      else (Inl int4_error, st))"

definition set_entry :: "string \<Rightarrow> (AccountEntryRow \<Rightarrow> AccountEntryRow) \<Rightarrow> Ops \<Rightarrow> Ops" where
  "set_entry key f st = st\<lparr>op_entries := update_rows (\<lambda>r. er_id r = key) f (op_entries st)\<rparr>"

definition find_entry_by_identity :: "OpsEnv \<Rightarrow> string \<Rightarrow> string \<Rightarrow> Ops \<Rightarrow> AccountEntryRow option" where
  "find_entry_by_identity env org ihash st = scalars_first
     (select_where (oe_scan env) (\<lambda>r. er_organization_id r = org \<and> er_identity_hash r = ihash) (op_entries st))"

definition report_type_of :: "OpsEnv \<Rightarrow> string \<Rightarrow> Ops \<Rightarrow> string option res" where
  "report_type_of env report_id st =
     bindR (scalar_one_or_none (select_where (oe_scan env) (\<lambda>r. rw_id r = report_id) (op_reports st)))
       (\<lambda>r. Inr (map_option rw_report_type r))"

text \<open>The conditions on the identifiers that are present, joined by \<open>or\<close>.\<close>

definition entry_conditions :: "AccountEntry \<Rightarrow> (PaymentLifecycleRow \<Rightarrow> bool) list" where
  "entry_conditions e =
     (if truthy (ae_uetr e) then [\<lambda>r. lf_uetr r = ae_uetr e] else []) @
     (if truthy (ae_transaction_id e) then [\<lambda>r. lf_transaction_id r = ae_transaction_id e] else []) @
     (if truthy (ae_end_to_end_id e) then [\<lambda>r. lf_end_to_end_id r = ae_end_to_end_id e] else []) @
     (if truthy (ae_instruction_id e) then [\<lambda>r. lf_instruction_id r = ae_instruction_id e] else [])"

definition find_lifecycle_where ::
  "OpsEnv \<Rightarrow> string \<Rightarrow> (PaymentLifecycleRow \<Rightarrow> bool) list \<Rightarrow> Ops \<Rightarrow> PaymentLifecycleRow option" where
  "find_lifecycle_where env org conds st =
     (if conds = [] then None
      else scalars_first (select_where (oe_scan env)
        (\<lambda>r. lf_organization_id r = org \<and> list_ex (\<lambda>c. c r) conds) (op_lifecycles st)))"

definition find_lifecycle_for_entry :: "OpsEnv \<Rightarrow> string \<Rightarrow> AccountEntry \<Rightarrow> Ops \<Rightarrow> PaymentLifecycleRow option" where
  "find_lifecycle_for_entry env org e st = find_lifecycle_where env org (entry_conditions e) st"

definition persist_reconciliation ::
  "OpsEnv \<Rightarrow> instant \<Rightarrow> string \<Rightarrow> AccountEntryRow \<Rightarrow> string option \<Rightarrow> AccountReconciliationStatus \<Rightarrow> rat \<Rightarrow>
     string list \<Rightarrow> string list \<Rightarrow> Ops \<Rightarrow> Ops" where
  "persist_reconciliation env now org entry_row lifecycle_id classification score evidence conflicts st =
     (let row = \<lparr>rx_id = new_key env st, rx_organization_id = org, rx_account_entry_id = er_id entry_row,
                 rx_lifecycle_id = lifecycle_id, rx_classification = ARS_value classification,
                 rx_match_score = score, rx_evidence = evidence, rx_conflicts = conflicts,
                 rx_status = ''PENDING'', rx_operator = None, rx_note = None, rx_created_at = now,
                 rx_decided_at = None\<rparr> in
      st\<lparr>op_reconciliations := op_reconciliations st @ [row], op_uuids := Suc (op_uuids st)\<rparr>)"

definition account_event ::
  "string \<Rightarrow> instant \<Rightarrow> string \<Rightarrow> string \<Rightarrow> AccountEntry \<Rightarrow> AccountReport \<Rightarrow> string \<Rightarrow> PaymentLifecycleEventRow" where
  "account_event key now org lifecycle_id e report event_type =
     \<lparr>lv_id = key, lv_organization_id = org, lv_lifecycle_id = lifecycle_id, lv_event_type = event_type,
      lv_message_family = Some ''camt'', lv_message_definition = rp_message_definition report,
      lv_message_version = rp_message_version report, lv_message_id = ae_source_message_id e,
      lv_timestamp = Some now, lv_status = dget_opt (por (ae_status e) (Some ''BOOK'')),
      lv_raw_status_code = ae_status e, lv_correlation_evidence = ae_evidence e,
      lv_source_hash = ae_source_hash e, lv_created_at = now\<rparr>"

definition add_account_event ::
  "OpsEnv \<Rightarrow> instant \<Rightarrow> string \<Rightarrow> string \<Rightarrow> AccountEntry \<Rightarrow> AccountReport \<Rightarrow> string \<Rightarrow> Ops \<Rightarrow> Ops" where
  "add_account_event env now org lifecycle_id e report event_type st =
     st\<lparr>op_events := op_events st @ [account_event (new_key env st) now org lifecycle_id e report event_type],
        op_uuids := Suc (op_uuids st)\<rparr>"

definition account_case_id :: "string \<Rightarrow> string" where
  "account_case_id ihash = ''case-acct-'' @ take 16 ihash"

definition ensure_case :: "OpsEnv \<Rightarrow> instant \<Rightarrow> string \<Rightarrow> AccountEntryRow \<Rightarrow> string \<Rightarrow> Ops \<Rightarrow> unit res \<times> Ops" where
  "ensure_case env now org entry_row classification st =
     (let case_id = account_case_id (er_identity_hash entry_row) in
      if select_cases env org case_id st \<noteq> [] then (Inr (), st)
      else add_case (review_case (new_key env st) case_id org classification now)
        [audit_event (oe_uid env (op_uuids st + 1)) now (Some org) (Some case_id) ''account_exception.created'' None
          (Some [(''classification'', JStr classification), (''entry_id'', JStr (er_id entry_row))])] st)"

section \<open>Reconciling one entry\<close>

definition account_context :: "PaymentLifecycleRow \<Rightarrow> LifecycleAccountContext" where
  "account_context l =
     \<lparr>lc_message_id = lf_original_message_id l, lc_original_message_id = lf_original_message_id l,
      lc_transaction_id = lf_transaction_id l, lc_end_to_end_id = lf_end_to_end_id l,
      lc_instruction_id = lf_instruction_id l, lc_uetr = lf_uetr l, lc_account_servicer_reference = None,
      lc_reference = None, lc_amount_minor = lf_amount_minor l, lc_currency = lf_currency l,
      lc_debtor_account = lf_debtor_account l, lc_creditor_account = lf_creditor_account l\<rparr>"

definition reconcile_and_persist ::
  "OpsEnv \<Rightarrow> instant \<Rightarrow> string \<Rightarrow> AccountEntryRow \<Rightarrow> AccountEntry \<Rightarrow> AccountReport \<Rightarrow> PaymentLifecycleRow option \<Rightarrow>
     Ops \<Rightarrow> unit res \<times> Ops" where
  "reconcile_and_persist env now org entry_row e report lifecycle st =
     (case lifecycle of
        None \<Rightarrow> (Inr (), persist_reconciliation env now org entry_row None UNMATCHED_ACCOUNT_ENTRY 0 [] []
          (set_entry (er_id entry_row) (\<lambda>r. r\<lparr>er_reconciliation_status := Some (ARS_value UNMATCHED_ACCOUNT_ENTRY),
             er_evidence := [], er_conflicts := []\<rparr>) st))
      | Some l \<Rightarrow>
          (let r = reconcile_account_entry e (rp_account report) (account_context l);
               st1 = set_entry (er_id entry_row) (\<lambda>x. x\<lparr>er_reconciliation_status := Some (ARS_value (rr_classification r)),
                 er_match_score := Some (rr_match_score r), er_evidence := rr_evidence r,
                 er_conflicts := rr_conflicts r, er_lifecycle_id := Some (lf_id l)\<rparr>) st;
               st2 = persist_reconciliation env now org entry_row (Some (lf_id l)) (rr_classification r)
                 (rr_match_score r) (rr_evidence r) (rr_conflicts r) st1;
               st3 = add_account_event env now org (lf_id l) e report
                 (if ae_credit_debit e = Some DBIT then ''DEBIT_RECORDED'' else ''CREDIT_RECORDED'') st2 in
           if rr_classification r \<in> set EXCEPTION_STATUSES
           then ensure_case env now org entry_row (ARS_value (rr_classification r)) st3
           else (Inr (), st3)))"

text \<open>What an earlier entry with the same identity makes of the new one.\<close>

definition duplicate_status ::
  "OpsEnv \<Rightarrow> AccountReport \<Rightarrow> AccountReportRow \<Rightarrow> AccountEntryRow option \<Rightarrow> Ops \<Rightarrow>
     AccountReconciliationStatus option res" where
  "duplicate_status env report rrow existing st =
     (case existing of
        None \<Rightarrow> Inr None
      | Some x \<Rightarrow> bindR (report_type_of env (er_report_id x) st) (\<lambda>t.
          Inr (Some (if er_report_id x = rw_id rrow \<or> t = Some (AccountReportType_value (rp_report_type report))
                     then DUPLICATE_ACCOUNT_ENTRY else RECONCILED))))"

text \<open>An entry whose identity is known takes the lifecycle of the earlier entry.\<close>

definition mark_duplicate ::
  "OpsEnv \<Rightarrow> instant \<Rightarrow> string \<Rightarrow> AccountEntry \<Rightarrow> AccountReport \<Rightarrow> AccountEntryRow \<Rightarrow> AccountReconciliationStatus \<Rightarrow>
     string option \<Rightarrow> Ops \<Rightarrow> unit res \<times> Ops" where
  "mark_duplicate env now org e report entry_row d lid st =
     (let st2 = set_entry (er_id entry_row) (\<lambda>r. r\<lparr>er_reconciliation_status := Some (ARS_value d),
            er_evidence := (if d = RECONCILED then [''ACCOUNT_EVENT_CONFIRMED''] else [''DUPLICATE_IDENTITY'']),
            er_lifecycle_id := lid\<rparr>) st in
      if d = RECONCILED then
        (case lid of None \<Rightarrow> (Inr (), st2)
         | Some l \<Rightarrow> (Inr (), add_account_event env now org l e report ''ACCOUNT_EVENT_CONFIRMED'' st2))
      else ensure_case env now org entry_row ''DUPLICATE_ACCOUNT_ENTRY'' st2)"

definition ingest_entry ::
  "OpsEnv \<Rightarrow> instant \<Rightarrow> string \<Rightarrow> AccountReport \<Rightarrow> AccountReportRow \<Rightarrow> AccountEntry \<Rightarrow> Ops \<Rightarrow> unit res \<times> Ops" where
  "ingest_entry env now org report rrow e st =
     (let ihash = identity_hash (oe_sha256 env) e;
          existing = find_entry_by_identity env org ihash st in
      case duplicate_status env report rrow existing st of
        Inl err \<Rightarrow> (Inl err, st)
      | Inr dup \<Rightarrow>
        obind (add_entry (entry_to_row (new_key env st) org e rrow ihash now)) (\<lambda>entry_row st1.
          case dup of
            None \<Rightarrow> reconcile_and_persist env now org entry_row e report (find_lifecycle_for_entry env org e st1) st1
          | Some d \<Rightarrow> mark_duplicate env now org e report entry_row d (Option.bind existing er_lifecycle_id) st1) st)"

definition ingest_report ::
  "OpsEnv \<Rightarrow> instant \<Rightarrow> string \<Rightarrow> string option \<Rightarrow> AccountReport \<Rightarrow> Ops \<Rightarrow> AccountReportRow res \<times> Ops" where
  "ingest_report env now org iso_message_id report =
     obind (persist_report env now org report iso_message_id) (\<lambda>row.
     obind (persist_balances env now org report row) (\<lambda>_.
     obind (oeach (ingest_entry env now org report row) (rp_entries report)) (\<lambda>_ st. (Inr row, st))))"

fun ingest_account_report ::
  "OpsEnv \<Rightarrow> instant \<Rightarrow> string \<Rightarrow> string option \<Rightarrow> AccountReport list \<Rightarrow> Ops \<Rightarrow> AccountReportRow list res \<times> Ops" where
  "ingest_account_report env now org iso_message_id [] st = (Inr [], st)"
| "ingest_account_report env now org iso_message_id (r # rs) st =
     obind (ingest_report env now org iso_message_id r) (\<lambda>row.
     obind (ingest_account_report env now org iso_message_id rs) (\<lambda>rows st'. (Inr (row # rows), st'))) st"

section \<open>Missing account events\<close>

definition hours :: "int \<Rightarrow> int" where
  "hours n = minutes (60 * n)"

definition overdue :: "instant \<Rightarrow> int \<Rightarrow> string \<Rightarrow> PaymentLifecycleRow \<Rightarrow> bool" where
  "overdue now window_hours org l \<longleftrightarrow>
     lf_organization_id l = org \<and> lf_current_status l = ''ACCEPTED'' \<and> lf_created_at l < now - hours window_hours"

definition has_account_event :: "OpsEnv \<Rightarrow> string \<Rightarrow> PaymentLifecycleRow \<Rightarrow> Ops \<Rightarrow> bool" where
  "has_account_event env org l st \<longleftrightarrow>
     select_where (oe_scan env) (\<lambda>r. er_organization_id r = org \<and> er_lifecycle_id r = Some (lf_id l)) (op_entries st) \<noteq> []"

definition missing_case_id :: "PaymentLifecycleRow \<Rightarrow> string" where
  "missing_case_id l = ''case-missing-'' @ lf_lifecycle_id l"

definition flag_missing :: "OpsEnv \<Rightarrow> instant \<Rightarrow> string \<Rightarrow> PaymentLifecycleRow \<Rightarrow> Ops \<Rightarrow> string option res \<times> Ops" where
  "flag_missing env now org l st =
     (if has_account_event env org l st then (Inr None, st)
      else if select_cases env org (missing_case_id l) st \<noteq> [] then (Inr (Some (lf_lifecycle_id l)), st)
      else (case add_case (review_case (new_key env st) (missing_case_id l) org ''MISSING_ACCOUNT_EVENT'' now) [] st of
              (Inl e, st') \<Rightarrow> (Inl e, st') | (Inr _, st') \<Rightarrow> (Inr (Some (lf_lifecycle_id l)), st')))"

fun flag_all :: "OpsEnv \<Rightarrow> instant \<Rightarrow> string \<Rightarrow> PaymentLifecycleRow list \<Rightarrow> Ops \<Rightarrow> string list res \<times> Ops" where
  "flag_all env now org [] st = (Inr [], st)"
| "flag_all env now org (l # ls) st =
     obind (flag_missing env now org l) (\<lambda>x.
     obind (flag_all env now org ls) (\<lambda>xs st'. (Inr ((case x of None \<Rightarrow> [] | Some i \<Rightarrow> [i]) @ xs), st'))) st"

definition detect_missing_account_events :: "OpsEnv \<Rightarrow> instant \<Rightarrow> int \<Rightarrow> string \<Rightarrow> Ops \<Rightarrow> string list res \<times> Ops" where
  "detect_missing_account_events env now window_hours org st =
     flag_all env now org (select_where (oe_scan env) (overdue now window_hours org) (op_lifecycles st)) st"

text \<open>The worker task of the same name.\<close>

definition run_account_reconciliation ::
  "OpsEnv \<Rightarrow> instant \<Rightarrow> string \<Rightarrow> int \<Rightarrow> Ops \<Rightarrow> (string \<times> string list) res \<times> Ops" where
  "run_account_reconciliation env now org window_hours st =
     obind (detect_missing_account_events env now window_hours org) (\<lambda>flagged st'. (Inr (org, flagged), st')) st"

section \<open>Reads and decisions\<close>

definition list_account_reports ::
  "OpsEnv \<Rightarrow> string \<Rightarrow> string option \<Rightarrow> string option \<Rightarrow> nat \<Rightarrow> Ops \<Rightarrow> AccountReportRow list" where
  "list_account_reports env org report_type account limit st = take limit (order_by_desc rw_created_at
     (select_where (oe_scan env) (\<lambda>r. rw_organization_id r = org \<and>
        (\<not> truthy report_type \<or> Some (rw_report_type r) = report_type) \<and>
        (\<not> truthy account \<or> rw_account_iban r = account)) (op_reports st)))"

definition get_account_report :: "OpsEnv \<Rightarrow> string \<Rightarrow> string \<Rightarrow> Ops \<Rightarrow> AccountReportRow res" where
  "get_account_report env org report_id st =
     get_one (oe_scan env) (\<lambda>r. rw_id r = report_id \<and> rw_organization_id r = org) ''account report not found'' (op_reports st)"

definition list_account_entries ::
  "OpsEnv \<Rightarrow> string \<Rightarrow> string option \<Rightarrow> string option \<Rightarrow> string option \<Rightarrow> nat \<Rightarrow> Ops \<Rightarrow> AccountEntryRow list" where
  "list_account_entries env org report_id credit_debit status limit st = take limit (order_by_desc er_created_at
     (select_where (oe_scan env) (\<lambda>r. er_organization_id r = org \<and>
        (\<not> truthy report_id \<or> Some (er_report_id r) = report_id) \<and>
        (\<not> truthy credit_debit \<or> er_credit_debit r = credit_debit) \<and>
        (\<not> truthy status \<or> er_reconciliation_status r = status)) (op_entries st)))"

definition get_account_entry :: "OpsEnv \<Rightarrow> string \<Rightarrow> string \<Rightarrow> Ops \<Rightarrow> AccountEntryRow res" where
  "get_account_entry env org entry_id st =
     get_one (oe_scan env) (\<lambda>r. er_id r = entry_id \<and> er_organization_id r = org) ''account entry not found'' (op_entries st)"

definition list_account_reconciliations :: "OpsEnv \<Rightarrow> string \<Rightarrow> nat \<Rightarrow> Ops \<Rightarrow> AccountReconciliationRow list" where
  "list_account_reconciliations env org limit st = take limit (order_by_desc rx_created_at
     (select_where (oe_scan env) (\<lambda>r. rx_organization_id r = org) (op_reconciliations st)))"

definition get_account_reconciliation :: "OpsEnv \<Rightarrow> string \<Rightarrow> string \<Rightarrow> Ops \<Rightarrow> AccountReconciliationRow res" where
  "get_account_reconciliation env org reconciliation_id st =
     get_one (oe_scan env) (\<lambda>r. rx_id r = reconciliation_id \<and> rx_organization_id r = org)
       ''account reconciliation not found'' (op_reconciliations st)"

definition DECISION_STATUS :: "(string, string) dict" where
  "DECISION_STATUS = [(''confirm'', ''CONFIRMED''), (''reject'', ''REJECTED''), (''duplicate'', ''DUPLICATE''),
     (''review'', ''REVIEW_REQUIRED'')]"

definition decide_account_reconciliation ::
  "OpsEnv \<Rightarrow> instant \<Rightarrow> string \<Rightarrow> string \<Rightarrow> string \<Rightarrow> string option \<Rightarrow> string option \<Rightarrow> Ops \<Rightarrow>
     AccountReconciliationRow res \<times> Ops" where
  "decide_account_reconciliation env now org reconciliation_id action operator note st =
     (case get_account_reconciliation env org reconciliation_id st of
        Inl e \<Rightarrow> (Inl e, st)
      | Inr row \<Rightarrow> (case map_of DECISION_STATUS action of
          None \<Rightarrow> (Inl (ValueError (''unsupported action '' @ [CHR 0x27] @ action @ [CHR 0x27])), st)
        | Some s \<Rightarrow>
            (let f = (\<lambda>r. r\<lparr>rx_status := s, rx_operator := operator, rx_note := note, rx_decided_at := Some now\<rparr>) in
             (Inr (f row), st\<lparr>op_reconciliations :=
                update_rows (\<lambda>r. rx_id r = rx_id row) f (op_reconciliations st)\<rparr>))))"

definition reconciliation_summary :: "AccountEntryRow list \<Rightarrow> (string, nat) dict" where
  "reconciliation_summary entries = foldl (\<lambda>d e.
     (let key = dget_opt (por (er_reconciliation_status e) (Some ''PENDING'')) in
      AList.update key (dget d key 0 + 1) d)) [] entries"

text \<open>The detail of a report summarizes at most the 200 entries that the listing returns.\<close>

definition account_report_detail ::
  "OpsEnv \<Rightarrow> string \<Rightarrow> string \<Rightarrow> Ops \<Rightarrow>
     (AccountReportRow \<times> AccountBalanceRow list \<times> AccountEntryRow list \<times> (string, nat) dict) res" where
  "account_report_detail env org report_id st =
     (case get_account_report env org report_id st of
        Inl (LookupError m) \<Rightarrow> Inl (HTTPException 404 ''account report not found'')
      | Inl e \<Rightarrow> Inl e
      | Inr report \<Rightarrow>
          (let entries = list_account_entries env org (Some report_id) None None 200 st in
           Inr (report, select_where (oe_scan env) (\<lambda>b. bw_organization_id b = org \<and> bw_report_id b = report_id)
             (op_balances st), entries, reconciliation_summary entries)))"

end
