(* ===== verification/PO_IsoService.thy ===== *)
theory PO_IsoService
  imports PO_Account
begin

text \<open>
  \<open>services/iso_analysis_service.py\<close> and \<open>services/lifecycle_service.py\<close> with the routes of
  \<open>routers/iso.py\<close> that hold logic: an ISO message is analysed by the pipeline, stored once per
  message hash, and correlated with the lifecycles of the organization.
\<close>

section \<open>Message identity\<close>

definition repr_opt :: "string option \<Rightarrow> string" where
  "repr_opt x = (case x of None \<Rightarrow> ''None'' | Some s \<Rightarrow> repr_str s)"

text \<open>\<open>str\<close> of the dictionary that is hashed.\<close>

definition message_key :: "IsoAnalysisResult \<Rightarrow> string" where
  "message_key r =
     (let quoted = (\<lambda>k. CHR 0x27 # k @ [CHR 0x27] @ '': '') in
      ''{'' @ quoted ''family'' @ repr_opt (ir_message_family r) @ '', '' @
      quoted ''version'' @ repr_opt (ir_message_version r) @ '', '' @
      quoted ''message_id'' @ repr_opt (ir_message_id r) @ '', '' @
      quoted ''hash'' @ repr_opt (ir_input_hash r) @ ''}'')"

definition message_hash_from_result :: "OpsEnv \<Rightarrow> IsoAnalysisResult \<Rightarrow> string" where
  "message_hash_from_result env r = oe_sha256 env (message_key r)"

definition find_by_hash :: "OpsEnv \<Rightarrow> string \<Rightarrow> string \<Rightarrow> Ops \<Rightarrow> IsoMessage option" where
  "find_by_hash env org h st = scalars_first
     (select_where (oe_scan env) (\<lambda>m. ms_organization_id m = org \<and> ms_message_hash m = h) (op_messages st))"

definition lifecycle_id_for_message :: "OpsEnv \<Rightarrow> string \<Rightarrow> string \<Rightarrow> Ops \<Rightarrow> string option" where
  "lifecycle_id_for_message env org iso_id st = map_option lv_lifecycle_id (scalars_first
     (select_where (oe_scan env) (\<lambda>e. lv_organization_id e = org \<and> lv_message_id e = Some iso_id) (op_events st)))"

definition SERVICE_ENGINE_VERSION :: string where
  "SERVICE_ENGINE_VERSION = ''0.3.0''"

definition format_opt :: "string option \<Rightarrow> string" where
  "format_opt x = (case x of None \<Rightarrow> ''None'' | Some s \<Rightarrow> s)"

definition iso_message_row :: "string \<Rightarrow> string \<Rightarrow> instant \<Rightarrow> IsoAnalysisResult \<Rightarrow> string \<Rightarrow> IsoMessage" where
  "iso_message_row key org now r h =
     \<lparr>ms_id = key, ms_organization_id = org, ms_message_id = ir_message_id r,
      ms_message_family = dget_opt (por (ir_message_family r) (Some ''unknown'')),
      ms_message_definition = dget_opt (por (ir_message_definition r) (Some ''unknown'')),
      ms_message_version = dget_opt (por (ir_message_version r) (Some ''unknown'')),
      ms_namespace = dget_opt (por (ir_namespace r) (Some '''')),
      ms_source_adapter = format_opt (ir_message_family r) @ ''_'' @ format_opt (ir_message_version r),
      ms_adapter_version = dget_opt (por (ir_adapter_version r) (Some ''0.0.0'')),
      ms_schema_version = dget_opt (por (ir_schema_version r) (Some '''')),
      ms_schema_validation = ir_schema_validation r, ms_message_hash = h, ms_input_hash = ir_input_hash r,
      ms_canonical_model_version = ir_canonical_model_version r,
      ms_engine_version = por (ir_engine_version r) (Some SERVICE_ENGINE_VERSION), ms_status = ''ANALYZED'',
      ms_raw_status = ir_raw_status r, ms_normalized_status = ir_normalized_status r,
      ms_processed_at = dt_instant (ir_processed_at r), ms_created_at = now\<rparr>"

definition persist_iso_message ::
  "OpsEnv \<Rightarrow> instant \<Rightarrow> string \<Rightarrow> IsoAnalysisResult \<Rightarrow> string \<Rightarrow> Ops \<Rightarrow> IsoMessage \<times> Ops" where
  "persist_iso_message env now org r h st =
     (let row = iso_message_row (new_key env st) org now r h in
      (row, st\<lparr>op_messages := op_messages st @ [row], op_uuids := Suc (op_uuids st)\<rparr>))"

text \<open>Over the status texts of the entries of the reports.\<close>

definition account_correlation_status :: "AccountReport list \<Rightarrow> string" where
  "account_correlation_status reports =
     (if list_ex (\<lambda>r. list_ex (\<lambda>e. ae_reconciliation_status e = Some RECONCILED) (rp_entries r)) reports
      then ''CORRELATED'' else ''UNRESOLVED'')"

section \<open>Lifecycles\<close>

definition event_type_for :: "string option \<Rightarrow> string option \<Rightarrow> string" where
  "event_type_for version status =
     (let v = dget_opt version; s = dget_opt status in
      if starts_with ''pain'' v then ''INITIATED''
      else if starts_with ''pacs.008'' v then ''INTERBANK_TRANSFER''
      else if starts_with ''pacs.009'' v then ''FI_TRANSFER''
      else if starts_with ''pacs.002'' v then
        (if s \<in> {''ACCEPTED'', ''REJECTED'', ''PENDING'', ''PROCESSING''} then s
         else if s = ''PARTIALLY_ACCEPTED'' then ''PROCESSING'' else ''STATUS_RECEIVED'')
      else ''STATUS_RECEIVED'')"

definition profile_conditions :: "CorrelationProfile \<Rightarrow> (PaymentLifecycleRow \<Rightarrow> bool) list" where
  "profile_conditions p =
     (if truthy (cp_original_message_id p) then [\<lambda>r. lf_original_message_id r = cp_original_message_id p] else []) @
     (if truthy (cp_transaction_id p) then [\<lambda>r. lf_transaction_id r = cp_transaction_id p] else []) @
     (if truthy (cp_end_to_end_id p) then [\<lambda>r. lf_end_to_end_id r = cp_end_to_end_id p] else []) @
     (if truthy (cp_instruction_id p) then [\<lambda>r. lf_instruction_id r = cp_instruction_id p] else [])"

definition find_lifecycle :: "OpsEnv \<Rightarrow> string \<Rightarrow> CorrelationProfile \<Rightarrow> Ops \<Rightarrow> PaymentLifecycleRow option" where
  "find_lifecycle env org p st = find_lifecycle_where env org (profile_conditions p) st"

definition profile_from_lifecycle :: "PaymentLifecycleRow \<Rightarrow> CorrelationProfile" where
  "profile_from_lifecycle l =
     \<lparr>cp_message_id = None, cp_original_message_id = lf_original_message_id l,
      cp_instruction_id = lf_instruction_id l, cp_end_to_end_id = lf_end_to_end_id l,
      cp_transaction_id = lf_transaction_id l, cp_amount = lf_amount_minor l, cp_currency = lf_currency l,
      cp_reference = None, cp_account = None, cp_debtor_account = lf_debtor_account l,
      cp_creditor_account = lf_creditor_account l\<rparr>"

text \<open>Two keys of the dictionary are not read back.\<close>

definition profile_from_dict :: "CorrelationProfile \<Rightarrow> CorrelationProfile" where
  "profile_from_dict p = p\<lparr>cp_debtor_account := None, cp_creditor_account := None\<rparr>"

definition CorrelationStatus_value :: "CorrelationStatus \<Rightarrow> string" where
  "CorrelationStatus_value s = (case s of CORRELATED \<Rightarrow> ''CORRELATED'' | POSSIBLE_CORRELATION \<Rightarrow> ''POSSIBLE_CORRELATION''
     | CORR_UNRESOLVED \<Rightarrow> ''UNRESOLVED'' | CONFLICT \<Rightarrow> ''CONFLICT'' | AMBIGUOUS \<Rightarrow> ''AMBIGUOUS'')"

definition iso_event ::
  "string \<Rightarrow> instant \<Rightarrow> string \<Rightarrow> string \<Rightarrow> IsoAnalysisResult \<Rightarrow> IsoMessage \<Rightarrow> string \<Rightarrow> CorrelationResult option \<Rightarrow>
     PaymentLifecycleEventRow" where
  "iso_event key now org lifecycle_id r m event_type correlation =
     \<lparr>lv_id = key, lv_organization_id = org, lv_lifecycle_id = lifecycle_id, lv_event_type = event_type,
      lv_message_family = ir_message_family r, lv_message_definition = ir_message_definition r,
      lv_message_version = ir_message_version r, lv_message_id = Some (ms_id m),
      lv_timestamp = Some (dt_instant (ir_processed_at r)),
      lv_status = dget_opt (por (ir_normalized_status r) (Some ''UNKNOWN'')),
      lv_raw_status_code = ir_raw_status r,
      lv_correlation_evidence = (if ir_correlation_evidence r \<noteq> [] then ir_correlation_evidence r
         else (case correlation of None \<Rightarrow> [] | Some c \<Rightarrow> co_evidence c)),
      lv_source_hash = Some (ms_message_hash m), lv_created_at = now\<rparr>"

definition add_iso_event ::
  "OpsEnv \<Rightarrow> instant \<Rightarrow> string \<Rightarrow> string \<Rightarrow> IsoAnalysisResult \<Rightarrow> IsoMessage \<Rightarrow> string \<Rightarrow> CorrelationResult option \<Rightarrow> Ops \<Rightarrow> Ops" where
  "add_iso_event env now org lifecycle_id r m event_type correlation st =
     st\<lparr>op_events := op_events st @ [iso_event (new_key env st) now org lifecycle_id r m event_type correlation],
        op_uuids := Suc (op_uuids st)\<rparr>"

definition set_lifecycle :: "string \<Rightarrow> (PaymentLifecycleRow \<Rightarrow> PaymentLifecycleRow) \<Rightarrow> Ops \<Rightarrow> Ops" where
  "set_lifecycle key f st = st\<lparr>op_lifecycles := update_rows (\<lambda>l. lf_id l = key) f (op_lifecycles st)\<rparr>"

definition with_correlation :: "CorrelationResult \<Rightarrow> string \<Rightarrow> IsoAnalysisResult \<Rightarrow> IsoAnalysisResult" where
  "with_correlation c lifecycle_id r =
     r\<lparr>ir_correlation_status := Some (CorrelationStatus_value (co_status c)), ir_correlation_evidence := co_evidence c,
       ir_correlation_conflicts := co_conflicts c, ir_lifecycle_id := Some lifecycle_id\<rparr>"

text \<open>One transaction status of a status report.\<close>

definition status_step ::
  "OpsEnv \<Rightarrow> instant \<Rightarrow> string \<Rightarrow> IsoMessage \<Rightarrow> string \<Rightarrow> CorrelationProfile \<Rightarrow> IsoAnalysisResult \<times> Ops \<Rightarrow> IsoAnalysisResult \<times> Ops" where
  "status_step env now org m event_type d = (\<lambda>(r, st).
     let p = profile_from_dict d in
     case find_lifecycle env org p st of
       None \<Rightarrow> (r\<lparr>ir_correlation_status := Some ''UNRESOLVED''\<rparr>, st)
     | Some l \<Rightarrow>
         (let c = correlate_profiles p (profile_from_lifecycle l);
              r' = with_correlation c (lf_id l) r;
              st1 = add_iso_event env now org (lf_id l) r' m event_type (Some c) st in
          (r', if truthy (ir_normalized_status r')
               then set_lifecycle (lf_id l) (\<lambda>x. x\<lparr>lf_current_status := dget_opt (ir_normalized_status r'),
                      lf_updated_at := now\<rparr>) st1
               else st1)))"

definition new_lifecycle :: "OpsEnv \<Rightarrow> instant \<Rightarrow> string \<Rightarrow> CorrelationProfile \<Rightarrow> Ops \<Rightarrow> PaymentLifecycleRow" where
  "new_lifecycle env now org p st =
     \<lparr>lf_id = oe_uid env (op_uuids st + 1), lf_organization_id = org,
      lf_lifecycle_id = ''life-'' @ take 12 (remove_char CHR ''-'' (new_key env st)),
      lf_primary_reference = None, lf_end_to_end_id = cp_end_to_end_id p,
      lf_instruction_id = cp_instruction_id p, lf_transaction_id = cp_transaction_id p, lf_uetr = None,
      lf_original_message_id = cp_original_message_id p, lf_debtor_account = cp_debtor_account p,
      lf_creditor_account = cp_creditor_account p, lf_amount_minor = cp_amount p, lf_currency = cp_currency p,
      lf_current_status = ''UNKNOWN'', lf_created_at = now, lf_updated_at = now\<rparr>"

text \<open>The column \<open>lifecycle_id\<close> is unique, \<open>amount_minor\<close> has 32 bits.\<close>

definition add_lifecycle :: "PaymentLifecycleRow \<Rightarrow> Ops \<Rightarrow> unit res \<times> Ops" where
  "add_lifecycle l st =
     (if \<not> (case lf_amount_minor l of None \<Rightarrow> True | Some n \<Rightarrow> int4_ok n) then (Inl int4_error, st)
      else if lf_lifecycle_id l \<in> lf_lifecycle_id ` set (op_lifecycles st)
      then (Inl (IntegrityError ''payment_lifecycles.lifecycle_id''), st)
      else (Inr (), st\<lparr>op_lifecycles := op_lifecycles st @ [l], op_uuids := op_uuids st + 2\<rparr>))"

text \<open>One transaction of a payment message.\<close>

definition payment_step ::
  "OpsEnv \<Rightarrow> instant \<Rightarrow> string \<Rightarrow> IsoMessage \<Rightarrow> string \<Rightarrow> CorrelationProfile \<Rightarrow> IsoAnalysisResult \<Rightarrow> Ops \<Rightarrow>
     IsoAnalysisResult res \<times> Ops" where
  "payment_step env now org m event_type d r st =
     (let p = profile_from_dict d in
      case find_lifecycle env org p st of
        None \<Rightarrow>
          (let l = new_lifecycle env now org p st in
           obind (add_lifecycle l) (\<lambda>_ st1.
             let r' = r\<lparr>ir_correlation_status := Some (if truthy (cp_end_to_end_id p) then ''CORRELATED'' else ''UNRESOLVED''),
                       ir_correlation_evidence := [], ir_lifecycle_id := Some (lf_id l)\<rparr> in
             (Inr r', add_iso_event env now org (lf_id l) r' m event_type None st1)) st)
      | Some l \<Rightarrow>
          (let r' = with_correlation (correlate_profiles p (profile_from_lifecycle l)) (lf_id l) r in
           (Inr r', add_iso_event env now org (lf_id l) r' m event_type None st)))"

fun payment_steps ::
  "OpsEnv \<Rightarrow> instant \<Rightarrow> string \<Rightarrow> IsoMessage \<Rightarrow> string \<Rightarrow> CorrelationProfile list \<Rightarrow> IsoAnalysisResult \<Rightarrow> Ops \<Rightarrow>
     IsoAnalysisResult res \<times> Ops" where
  "payment_steps env now org m event_type [] r st = (Inr r, st)"
| "payment_steps env now org m event_type (d # ds) r st =
     obind (payment_step env now org m event_type d r) (payment_steps env now org m event_type ds) st"

definition update_lifecycle_status :: "instant \<Rightarrow> IsoAnalysisResult \<Rightarrow> Ops \<Rightarrow> Ops" where
  "update_lifecycle_status now r st =
     (if truthy (ir_lifecycle_id r)
      then set_lifecycle (dget_opt (ir_lifecycle_id r))
        (\<lambda>l. l\<lparr>lf_current_status := (if truthy (ir_normalized_status r) then dget_opt (ir_normalized_status r)
                                    else lf_current_status l), lf_updated_at := now\<rparr>) st
      else st)"

definition correlate_and_build_lifecycle ::
  "OpsEnv \<Rightarrow> instant \<Rightarrow> string \<Rightarrow> IsoAnalysisResult \<Rightarrow> IsoMessage \<Rightarrow> Ops \<Rightarrow> IsoAnalysisResult res \<times> Ops" where
  "correlate_and_build_lifecycle env now org r m st =
     (let event_type = event_type_for (ir_message_version r) (ir_normalized_status r) in
      if starts_with ''pacs.002'' (dget_opt (ir_message_version r))
      then (case fold (status_step env now org m event_type) (ir_correlation_profiles r) (r, st) of
              (r', st') \<Rightarrow> (Inr r', st'))
      else obind (payment_steps env now org m event_type (ir_correlation_profiles r) r)
        (\<lambda>r' st'. (Inr r', update_lifecycle_status now r' st')) st)"

text \<open>
  Everything after the pipeline. The result is that of the message stored before, with its
  lifecycle, when the hash is known.
\<close>

definition record_iso_result ::
  "OpsEnv \<Rightarrow> instant \<Rightarrow> string \<Rightarrow> IsoAnalysisResult \<Rightarrow> Ops \<Rightarrow> IsoAnalysisResult res \<times> Ops" where
  "record_iso_result env now org r st =
     (let h = message_hash_from_result env r in
      case find_by_hash env org h st of
        Some m \<Rightarrow> (Inr (r\<lparr>ir_lifecycle_id := lifecycle_id_for_message env org (ms_id m) st\<rparr>), st)
      | None \<Rightarrow>
          (case persist_iso_message env now org r h st of (m, st1) \<Rightarrow>
             if ir_account_reports r \<noteq> [] then
               obind (ingest_account_report env now org (Some (ms_id m)) (ir_account_reports r)) (\<lambda>rows st2.
                 (Inr (r\<lparr>ir_account_report_ids := map rw_id rows,
                         ir_correlation_status := Some (account_correlation_status (ir_account_reports r))\<rparr>), st2)) st1
             else correlate_and_build_lifecycle env now org r m st1))"

definition analyze_iso_message ::
  "OpsEnv \<Rightarrow> pipeline_env \<Rightarrow> 's pipeline \<Rightarrow> IsoMessageRegistry \<Rightarrow> nat \<Rightarrow> instant \<Rightarrow> string \<Rightarrow> string \<Rightarrow> 's \<times> Ops \<Rightarrow>
     IsoAnalysisResult res \<times> 's \<times> Ops" where
  "analyze_iso_message oe env p registry max_transactions now org payload = (\<lambda>(s, st).
     (case analyze_iso env p registry (Some payload) max_transactions s of
        (Inl e, s') \<Rightarrow> (Inl e, s', st)
      | (Inr r, s') \<Rightarrow> (case record_iso_result oe now org r st of (x, st') \<Rightarrow> (x, s', st'))))"

section \<open>The route\<close>

definition xml_error_response :: "py_error \<Rightarrow> py_error" where
  "xml_error_response e =
     (case e of
        UnsupportedMessageError m \<Rightarrow>
          HTTPException 422 (''unsupported ISO version: '' @ drop (length ''unsupported ISO message/version: '') m)
      | MalformedXmlError m \<Rightarrow> HTTPException 400 m
      | PayloadTooLargeError m \<Rightarrow> HTTPException 413 m
      | ProhibitedEntityError m \<Rightarrow> HTTPException 400 m
      | UnsupportedMessageTypeError m \<Rightarrow> HTTPException 422 m
      | EncodingError m \<Rightarrow> HTTPException 400 m
      | _ \<Rightarrow> e)"

text \<open>The route calls the service with its default bound of 100 transactions.\<close>

definition analyze_iso_route ::
  "OpsEnv \<Rightarrow> pipeline_env \<Rightarrow> 's pipeline \<Rightarrow> IsoMessageRegistry \<Rightarrow> instant \<Rightarrow> AuthenticatedClient \<Rightarrow> string \<Rightarrow> 's \<times> Ops \<Rightarrow>
     IsoAnalysisResult res \<times> 's \<times> Ops" where
  "analyze_iso_route oe env p registry now client payload st =
     (case analyze_iso_message oe env p registry 100 now (ac_organization_id client) payload st of
        (Inl e, st') \<Rightarrow> (Inl (xml_error_response e), st') | (Inr r, st') \<Rightarrow> (Inr r, st'))"

section \<open>Reads and decisions\<close>

definition list_iso_messages ::
  "OpsEnv \<Rightarrow> string \<Rightarrow> string option \<Rightarrow> string option \<Rightarrow> string option \<Rightarrow> string option \<Rightarrow> nat \<Rightarrow> Ops \<Rightarrow> IsoMessage list" where
  "list_iso_messages env org family def version status limit st = take limit (order_by_desc ms_created_at
     (select_where (oe_scan env) (\<lambda>m. ms_organization_id m = org \<and>
        (\<not> truthy family \<or> Some (ms_message_family m) = family) \<and>
        (\<not> truthy def \<or> Some (ms_message_definition m) = def) \<and>
        (\<not> truthy version \<or> Some (ms_message_version m) = version) \<and>
        (\<not> truthy status \<or> Some (ms_status m) = status)) (op_messages st)))"

definition get_iso_message :: "OpsEnv \<Rightarrow> string \<Rightarrow> string \<Rightarrow> Ops \<Rightarrow> IsoMessage res" where
  "get_iso_message env org message_id st =
     get_one (oe_scan env) (\<lambda>m. ms_id m = message_id \<and> ms_organization_id m = org) ''iso message not found'' (op_messages st)"

definition list_lifecycles :: "OpsEnv \<Rightarrow> string \<Rightarrow> Ops \<Rightarrow> PaymentLifecycleRow list" where
  "list_lifecycles env org st = order_by_desc lf_created_at
     (select_where (oe_scan env) (\<lambda>l. lf_organization_id l = org) (op_lifecycles st))"

definition get_lifecycle ::
  "OpsEnv \<Rightarrow> string \<Rightarrow> string \<Rightarrow> Ops \<Rightarrow> (PaymentLifecycleRow \<times> PaymentLifecycleEventRow list) res" where
  "get_lifecycle env org lifecycle_id st =
     bindR (get_one (oe_scan env) (\<lambda>l. lf_lifecycle_id l = lifecycle_id \<and> lf_organization_id l = org)
       ''lifecycle not found'' (op_lifecycles st)) (\<lambda>l.
       Inr (l, sort_key lv_created_at (select_where (oe_scan env) (\<lambda>e. lv_lifecycle_id e = lf_id l) (op_events st))))"

definition list_correlations :: "OpsEnv \<Rightarrow> string \<Rightarrow> string \<Rightarrow> Ops \<Rightarrow> MessageCorrelation list" where
  "list_correlations env org lifecycle_id st = select_where (oe_scan env) (\<lambda>c.
     list_ex (\<lambda>l. lf_id l = mx_lifecycle_id c \<and> lf_organization_id l = org \<and> lf_lifecycle_id l = lifecycle_id)
       (op_lifecycles st)) (op_correlations st)"

definition CORRELATION_DECISIONS :: "(string, string) dict" where
  "CORRELATION_DECISIONS = [(''confirm'', ''CORRELATED''), (''reject'', ''UNRESOLVED''), (''leave'', ''UNRESOLVED'')]"

definition decide_correlation ::
  "OpsEnv \<Rightarrow> instant \<Rightarrow> string \<Rightarrow> string \<Rightarrow> string \<Rightarrow> string option \<Rightarrow> string option \<Rightarrow> Ops \<Rightarrow> MessageCorrelation res \<times> Ops" where
  "decide_correlation env now org correlation_id action operator note st =
     (case get_one (oe_scan env) (\<lambda>c. mx_id c = correlation_id \<and> mx_organization_id c = org)
             ''correlation not found'' (op_correlations st) of
        Inl e \<Rightarrow> (Inl e, st)
      | Inr c \<Rightarrow> (case map_of CORRELATION_DECISIONS action of
          None \<Rightarrow> (Inl (ValueError (''unsupported action '' @ [CHR 0x27] @ action @ [CHR 0x27])), st)
        | Some s \<Rightarrow>
            (let f = (\<lambda>c. c\<lparr>mx_correlation_status := s, mx_operator := operator, mx_note := note,
                           mx_decided_at := Some now\<rparr>) in
             (Inr (f c), st\<lparr>op_correlations := update_rows (\<lambda>x. mx_id x = mx_id c) f (op_correlations st)\<rparr>))))"

end
