(* ===== verification/PO_Tenant.thy ===== *)
theory PO_Tenant
  imports PO_Cases PO_IsoService
begin

text \<open>
  Isolation of the organizations: what the services do for one organization leaves the rows of
  every other one as they are. \<open>tenant_step\<close> is the relation between a store and its successor that
  every operation satisfies; it is reflexive and transitive, so the operations are followed
  statement by statement.
\<close>

section \<open>The rows of an organization\<close>

definition own :: "string \<Rightarrow> Ops \<Rightarrow> Ops" where
  "own org st =
     \<lparr>op_cases = filter (\<lambda>r. pc_organization_id r = Some org) (op_cases st),
      op_actions = filter (\<lambda>r. ca_organization_id r = org) (op_actions st),
      op_runs = filter (\<lambda>r. an_organization_id r = Some org) (op_runs st),
      op_findings = filter (\<lambda>r. fd_organization_id r = Some org) (op_findings st),
      op_candidates = filter (\<lambda>r. rk_organization_id r = Some org) (op_candidates st),
      op_audit = filter (\<lambda>r. au_organization_id r = Some org) (op_audit st),
      op_messages = filter (\<lambda>r. ms_organization_id r = org) (op_messages st),
      op_lifecycles = filter (\<lambda>r. lf_organization_id r = org) (op_lifecycles st),
      op_events = filter (\<lambda>r. lv_organization_id r = org) (op_events st),
      op_correlations = filter (\<lambda>r. mx_organization_id r = org) (op_correlations st),
      op_reports = filter (\<lambda>r. rw_organization_id r = org) (op_reports st),
      op_entries = filter (\<lambda>r. er_organization_id r = org) (op_entries st),
      op_balances = filter (\<lambda>r. bw_organization_id r = org) (op_balances st),
      op_reconciliations = filter (\<lambda>r. rx_organization_id r = org) (op_reconciliations st),
      op_uuids = 0\<rparr>"

text \<open>Rows are changed through their primary keys, so the keys of a table are distinct.\<close>

definition ops_ok :: "OpsEnv \<Rightarrow> Ops \<Rightarrow> bool" where
  "ops_ok env st \<longleftrightarrow>
     keys_used (oe_uid env) (op_uuids st) (map pc_id (op_cases st)) \<and>
     keys_used (oe_uid env) (op_uuids st) (map lf_id (op_lifecycles st)) \<and>
     keys_used (oe_uid env) (op_uuids st) (map er_id (op_entries st)) \<and>
     keys_used (oe_uid env) (op_uuids st) (map rx_id (op_reconciliations st)) \<and>
     distinct (map mx_id (op_correlations st)) \<and> distinct (map pc_case_id (op_cases st)) \<and>
     distinct (map lf_lifecycle_id (op_lifecycles st))"

definition lifecycle_of :: "string \<Rightarrow> string \<Rightarrow> Ops \<Rightarrow> bool" where
  "lifecycle_of org k st \<longleftrightarrow> (\<exists>l\<in>set (op_lifecycles st). lf_id l = k \<and> lf_organization_id l = org)"

definition entry_of :: "string \<Rightarrow> string \<Rightarrow> Ops \<Rightarrow> bool" where
  "entry_of org k st \<longleftrightarrow> (\<exists>r\<in>set (op_entries st). er_id r = k \<and> er_organization_id r = org)"

definition tenant_step :: "OpsEnv \<Rightarrow> string \<Rightarrow> Ops \<Rightarrow> Ops \<Rightarrow> bool" where
  "tenant_step env org st st' \<longleftrightarrow>
     (ops_ok env st \<longrightarrow> ops_ok env st' \<and> (\<forall>other. other \<noteq> org \<longrightarrow> own other st' = own other st) \<and>
        (\<forall>k. lifecycle_of org k st \<longrightarrow> lifecycle_of org k st') \<and> (\<forall>k. entry_of org k st \<longrightarrow> entry_of org k st'))"

lemma tenant_refl [simp, intro]: "tenant_step env org st st"
  by (simp add: tenant_step_def)

lemma tenant_trans [trans]:
  "tenant_step env org st st1 \<Longrightarrow> tenant_step env org st1 st2 \<Longrightarrow> tenant_step env org st st2"
  by (auto simp: tenant_step_def)

interpretation tenant: step_relation "tenant_step env org" for env org
  by unfold_locales (auto intro: tenant_trans)

section \<open>Primitive changes\<close>

text \<open>Appending rows of the organization to tables whose keys no update relies on.\<close>

lemma tenant_append_free:
  assumes "\<forall>a\<in>set as. au_organization_id a = Some org \<or> au_organization_id a = None"
    and "\<forall>a\<in>set acts. ca_organization_id a = org" "\<forall>m\<in>set ms. ms_organization_id m = org"
    and "\<forall>e\<in>set es. lv_organization_id e = org" "\<forall>r\<in>set rs. rw_organization_id r = org"
    and "\<forall>b\<in>set bs. bw_organization_id b = org" "op_uuids st \<le> n"
  shows "tenant_step env org st (st\<lparr>op_audit := op_audit st @ as, op_actions := op_actions st @ acts,
    op_messages := op_messages st @ ms, op_events := op_events st @ es, op_reports := op_reports st @ rs,
    op_balances := op_balances st @ bs, op_uuids := n\<rparr>)"
  using assms by (auto simp: tenant_step_def own_def ops_ok_def lifecycle_of_def entry_of_def filter_empty_conv
      intro: keys_used_le)

lemma tenant_event:
  "lv_organization_id e = org \<Longrightarrow> tenant_step env org st (st\<lparr>op_events := op_events st @ [e], op_uuids := Suc (op_uuids st)\<rparr>)"
  using tenant_append_free[of "[]" org "[]" "[]" "[e]" "[]" "[]" st "Suc (op_uuids st)" env] by simp

lemma tenant_message:
  "ms_organization_id m = org \<Longrightarrow> tenant_step env org st (st\<lparr>op_messages := op_messages st @ [m], op_uuids := Suc (op_uuids st)\<rparr>)"
  using tenant_append_free[of "[]" org "[]" "[m]" "[]" "[]" "[]" st "Suc (op_uuids st)" env] by simp

lemma tenant_report:
  "rw_organization_id r = org \<Longrightarrow> tenant_step env org st (st\<lparr>op_reports := op_reports st @ [r], op_uuids := Suc (op_uuids st)\<rparr>)"
  using tenant_append_free[of "[]" org "[]" "[]" "[]" "[r]" "[]" st "Suc (op_uuids st)" env] by simp

lemma tenant_balances:
  "\<forall>b\<in>set bs. bw_organization_id b = org \<Longrightarrow> op_uuids st \<le> n \<Longrightarrow>
     tenant_step env org st (st\<lparr>op_balances := op_balances st @ bs, op_uuids := n\<rparr>)"
  using tenant_append_free[of "[]" org "[]" "[]" "[]" "[]" bs st n env] by simp

lemma tenant_add_case:
  assumes "inj (oe_uid env)" "pc_id c = new_key env st" "pc_organization_id c = Some org"
    and "\<forall>a\<in>set as. au_organization_id a = Some org \<or> au_organization_id a = None"
  shows "tenant_step env org st (snd (add_case c as st))"
  using assms by (auto simp: add_case_def tenant_step_def own_def ops_ok_def lifecycle_of_def entry_of_def
      filter_empty_conv new_key_def intro!: keys_used_at elim!: keys_used_le)

lemma tenant_add_entry:
  assumes "inj (oe_uid env)" "er_id r = new_key env st" "er_organization_id r = org"
  shows "tenant_step env org st (snd (add_entry r st))"
  using assms by (auto simp: add_entry_def tenant_step_def own_def ops_ok_def lifecycle_of_def entry_of_def
      new_key_def intro!: keys_used_fresh elim!: keys_used_grow)

lemma tenant_add_lifecycle:
  assumes "inj (oe_uid env)" "lf_id l = oe_uid env (op_uuids st + 1)" "lf_organization_id l = org"
  shows "tenant_step env org st (snd (add_lifecycle l st))"
  using assms by (auto simp: add_lifecycle_def tenant_step_def own_def ops_ok_def lifecycle_of_def entry_of_def
      intro!: keys_used_at[where m = "op_uuids st"] elim!: keys_used_le)

lemma tenant_reconciliation:
  assumes "inj (oe_uid env)"
  shows "tenant_step env org st (persist_reconciliation env now org er lid c s ev co st)"
  using assms by (auto simp: persist_reconciliation_def tenant_step_def own_def ops_ok_def lifecycle_of_def
      entry_of_def new_key_def Let_def intro!: keys_used_fresh elim!: keys_used_grow)

lemma update_rows_ex: "(\<And>r. Q (f r) = Q r) \<Longrightarrow> (\<exists>r\<in>set (update_rows P f rs). Q r) \<longleftrightarrow> (\<exists>r\<in>set rs. Q r)"
  by (induction rs) simp_all

lemma update_rows_all: "(\<And>r. Q (f r) = Q r) \<Longrightarrow> (\<forall>r\<in>set (update_rows P f rs). Q r) \<longleftrightarrow> (\<forall>r\<in>set rs. Q r)"
  by (induction rs) simp_all

lemma tenant_set_entry:
  assumes "entry_of org k st" "\<And>r. er_id (f r) = er_id r" "\<And>r. er_organization_id (f r) = er_organization_id r"
  shows "tenant_step env org st (set_entry k f st)"
proof -
  obtain r where r: "r \<in> set (op_entries st)" "er_id r = k" "er_organization_id r = org"
    using assms(1) by (auto simp: entry_of_def)
  have "filter (\<lambda>r. er_organization_id r = other) (update_rows (\<lambda>r. er_id r = k) f (op_entries st)) =
      filter (\<lambda>r. er_organization_id r = other) (op_entries st)"
    if "ops_ok env st" "other \<noteq> org" for other
    using that r assms(3) by (intro filter_update_by_key[where r = r]) (auto simp: ops_ok_def keys_used_def)
  moreover have "entry_of o' k' (set_entry k f st) = entry_of o' k' st" for o' k'
    using assms(2,3) by (simp add: entry_of_def set_entry_def update_rows_ex)
  ultimately show ?thesis
    using assms(2) by (simp add: tenant_step_def own_def ops_ok_def map_update_rows)
      (simp add: set_entry_def map_update_rows lifecycle_of_def)
qed

lemma tenant_set_lifecycle:
  assumes "lifecycle_of org k st" "\<And>r. lf_id (f r) = lf_id r" "\<And>r. lf_organization_id (f r) = lf_organization_id r"
    and "\<And>r. lf_lifecycle_id (f r) = lf_lifecycle_id r"
  shows "tenant_step env org st (set_lifecycle k f st)"
proof -
  obtain r where r: "r \<in> set (op_lifecycles st)" "lf_id r = k" "lf_organization_id r = org"
    using assms(1) by (auto simp: lifecycle_of_def)
  have "filter (\<lambda>r. lf_organization_id r = other) (update_rows (\<lambda>r. lf_id r = k) f (op_lifecycles st)) =
      filter (\<lambda>r. lf_organization_id r = other) (op_lifecycles st)"
    if "ops_ok env st" "other \<noteq> org" for other
    using that r assms(3) by (intro filter_update_by_key[where r = r]) (auto simp: ops_ok_def keys_used_def)
  moreover have "lifecycle_of o' k' (set_lifecycle k f st) = lifecycle_of o' k' st" for o' k'
    using assms(2,3) by (simp add: lifecycle_of_def set_lifecycle_def update_rows_ex)
  ultimately show ?thesis
    using assms(2,4) by (simp add: tenant_step_def own_def ops_ok_def map_update_rows)
      (simp add: set_lifecycle_def map_update_rows entry_of_def)
qed

section \<open>Account reports\<close>

lemma scalars_first_mem: "scalars_first xs = Some x \<Longrightarrow> x \<in> set xs"
  by (cases xs) (simp_all add: scalars_first_def)

lemma find_lifecycle_where_of:
  "scan_ok (oe_scan env) \<Longrightarrow> find_lifecycle_where env org cs st = Some l \<Longrightarrow>
     l \<in> set (op_lifecycles st) \<and> lf_organization_id l = org \<and> lifecycle_of org (lf_id l) st"
  by (auto simp: find_lifecycle_where_def lifecycle_of_def set_select_where dest!: scalars_first_mem split: if_splits)

lemma tenant_account_event: "tenant_step env org st (add_account_event env now org l e report t st)"
  unfolding add_account_event_def by (rule tenant_event) (simp add: account_event_def)

lemma tenant_ensure_case:
  "inj (oe_uid env) \<Longrightarrow> tenant_step env org st (snd (ensure_case env now org er c st))"
  by (auto simp: ensure_case_def Let_def review_case_def audit_event_def intro!: tenant_add_case)

lemma tenant_reconcile:
  assumes "inj (oe_uid env)" "entry_of org (er_id er) st" "\<And>l. lc = Some l \<Longrightarrow> lifecycle_of org (lf_id l) st"
  shows "tenant_step env org st (snd (reconcile_and_persist env now org er e report lc st))"
proof (cases lc)
  case None
  show ?thesis
    unfolding reconcile_and_persist_def None option.case snd_conv
    by (rule tenant_trans[OF tenant_set_entry[OF assms(2)] tenant_reconciliation[OF assms(1)]]) simp_all
next
  case (Some l)
  let ?r = "reconcile_account_entry e (rp_account report) (account_context l)"
  define st1 where "st1 = set_entry (er_id er) (\<lambda>x. x\<lparr>er_reconciliation_status := Some (ARS_value (rr_classification ?r)),
    er_match_score := Some (rr_match_score ?r), er_evidence := rr_evidence ?r, er_conflicts := rr_conflicts ?r,
    er_lifecycle_id := Some (lf_id l)\<rparr>) st"
  define st2 where "st2 = persist_reconciliation env now org er (Some (lf_id l)) (rr_classification ?r)
    (rr_match_score ?r) (rr_evidence ?r) (rr_conflicts ?r) st1"
  define st3 where "st3 = add_account_event env now org (lf_id l) e report
    (if ae_credit_debit e = Some DBIT then ''DEBIT_RECORDED'' else ''CREDIT_RECORDED'') st2"
  have "tenant_step env org st st1" unfolding st1_def by (rule tenant_set_entry[OF assms(2)]) simp_all
  also have "tenant_step env org st1 st2" unfolding st2_def by (rule tenant_reconciliation[OF assms(1)])
  also have "tenant_step env org st2 st3" unfolding st3_def by (rule tenant_account_event)
  finally have run: "tenant_step env org st st3" .
  have "tenant_step env org st (snd (ensure_case env now org er c st3))" for c
    by (rule tenant_trans[OF run tenant_ensure_case[OF assms(1)]])
  with run show ?thesis
    unfolding reconcile_and_persist_def Some option.case Let_def st1_def[symmetric] st2_def[symmetric] st3_def[symmetric]
    by simp
qed

lemma tenant_mark_duplicate:
  assumes "inj (oe_uid env)" "entry_of org (er_id er) st"
  shows "tenant_step env org st (snd (mark_duplicate env now org e report er d lid st))"
proof -
  define st2 where "st2 = set_entry (er_id er) (\<lambda>r. r\<lparr>er_reconciliation_status := Some (ARS_value d),
    er_evidence := (if d = RECONCILED then [''ACCOUNT_EVENT_CONFIRMED''] else [''DUPLICATE_IDENTITY'']),
    er_lifecycle_id := lid\<rparr>) st"
  have run: "tenant_step env org st st2" unfolding st2_def by (rule tenant_set_entry[OF assms(2)]) simp_all
  show ?thesis
    unfolding mark_duplicate_def Let_def st2_def[symmetric]
    using run tenant_trans[OF run tenant_ensure_case[OF assms(1)]] tenant_trans[OF run tenant_account_event]
    by (cases lid) simp_all
qed

lemma added_entry_of: "add_entry r st = (Inr x, st') \<Longrightarrow> x = r \<and> entry_of (er_organization_id r) (er_id r) st'"
  by (auto simp: add_entry_def entry_of_def split: if_splits)

lemma tenant_ingest_entry:
  assumes "inj (oe_uid env)" "scan_ok (oe_scan env)"
  shows "tenant_step env org st (snd (ingest_entry env now org report row e st))"
proof -
  let ?h = "identity_hash (oe_sha256 env) e"
  let ?x = "find_entry_by_identity env org ?h st"
  show ?thesis
  proof (cases "duplicate_status env report row ?x st")
    case (Inl err)
    then show ?thesis by (simp add: ingest_entry_def Let_def)
  next
    case (Inr dup)
    have row: "er_organization_id (entry_to_row (new_key env st) org e row ?h now) = org"
        "er_id (entry_to_row (new_key env st) org e row ?h now) = new_key env st"
      by (simp_all add: entry_to_row_def)
    show ?thesis
      unfolding ingest_entry_def Let_def Inr sum.case
    proof (rule tenant.bind_step)
      show "tenant_step env org st (snd (add_entry (entry_to_row (new_key env st) org e row ?h now) st))"
        by (rule tenant_add_entry[OF assms(1)]) (simp_all add: row)
    next
      fix er st1
      assume "add_entry (entry_to_row (new_key env st) org e row ?h now) st = (Inr er, st1)"
      from added_entry_of[OF this] have er: "entry_of org (er_id er) st1" by (simp add: row)
      have found: "lifecycle_of org (lf_id l) st1" if "find_lifecycle_for_entry env org e st1 = Some l" for l
        using find_lifecycle_where_of[OF assms(2)] that unfolding find_lifecycle_for_entry_def by blast
      show "tenant_step env org st1 (snd (case dup of
          None \<Rightarrow> reconcile_and_persist env now org er e report (find_lifecycle_for_entry env org e st1) st1
        | Some d \<Rightarrow> mark_duplicate env now org e report er d (Option.bind ?x er_lifecycle_id) st1))"
        using tenant_reconcile[OF assms(1) er found] tenant_mark_duplicate[OF assms(1) er]
        by (cases dup) simp_all
    qed
  qed
qed

lemma tenant_ingest_report:
  assumes "inj (oe_uid env)" "scan_ok (oe_scan env)"
  shows "tenant_step env org st (snd (ingest_report env now org mid report st))"
  unfolding ingest_report_def
proof (rule tenant.bind_step)
  show "tenant_step env org st (snd (persist_report env now org report mid st))"
    unfolding persist_report_def Let_def snd_conv by (rule tenant_report) (simp add: report_row_def)
next
  fix row st1
  show "tenant_step env org st1 (snd (obind (persist_balances env now org report row)
      (\<lambda>_. obind (oeach (ingest_entry env now org report row) (rp_entries report)) (\<lambda>_ st. (Inr row, st))) st1))"
  proof (rule tenant.bind_step)
    show "tenant_step env org st1 (snd (persist_balances env now org report row st1))"
      by (auto simp: persist_balances_def balance_row_def intro!: tenant_balances)
  next
    fix u st2
    show "tenant_step env org st2
        (snd (obind (oeach (ingest_entry env now org report row) (rp_entries report)) (\<lambda>_ st. (Inr row, st)) st2))"
      by (rule tenant.bind_step) (simp_all add: tenant.each_step tenant_ingest_entry assms)
  qed
qed

lemma tenant_ingest:
  assumes "inj (oe_uid env)" "scan_ok (oe_scan env)"
  shows "tenant_step env org st (snd (ingest_account_report env now org mid reports st))"
proof (induction reports arbitrary: st)
  case (Cons r rs)
  show ?case
    unfolding ingest_account_report.simps
    by (intro tenant.bind_step tenant_ingest_report assms Cons.IH) simp
qed simp

lemma tenant_detect:
  assumes "inj (oe_uid env)"
  shows "tenant_step env org st (snd (detect_missing_account_events env now w org st))"
proof -
  have flag: "tenant_step env org st (snd (flag_missing env now org l st))" for l st
    using tenant_add_case[OF assms, of "review_case (new_key env st) (missing_case_id l) org ''MISSING_ACCOUNT_EVENT'' now" st org "[]"]
    by (auto simp: flag_missing_def review_case_def split: prod.splits sum.splits)
  have "tenant_step env org st (snd (flag_all env now org ls st))" for ls st
  proof (induction ls arbitrary: st)
    case (Cons l ls)
    show ?case unfolding flag_all.simps by (intro tenant.bind_step flag Cons.IH) simp
  qed simp
  then show ?thesis by (simp add: detect_missing_account_events_def)
qed

section \<open>Messages\<close>

lemma tenant_iso_event: "tenant_step env org st (add_iso_event env now org k r m t c st)"
  unfolding add_iso_event_def by (rule tenant_event) (simp add: iso_event_def)

lemma lifecycle_of_event [simp]: "lifecycle_of o' k (add_iso_event env now org k' r m t c st) = lifecycle_of o' k st"
  by (simp add: lifecycle_of_def add_iso_event_def)

lemma tenant_status_step:
  assumes "scan_ok (oe_scan env)"
  shows "tenant_step env org st (snd (status_step env now org m t d (r, st)))"
proof (cases "find_lifecycle env org (profile_from_dict d) st")
  case None
  then show ?thesis by (simp add: status_step_def)
next
  case (Some l)
  define r' where "r' = with_correlation (correlate_profiles (profile_from_dict d) (profile_from_lifecycle l)) (lf_id l) r"
  define st1 where "st1 = add_iso_event env now org (lf_id l) r' m t
    (Some (correlate_profiles (profile_from_dict d) (profile_from_lifecycle l))) st"
  have "lifecycle_of org (lf_id l) st"
    using find_lifecycle_where_of[OF assms] Some unfolding find_lifecycle_def by blast
  then have l: "lifecycle_of org (lf_id l) st1" by (simp add: st1_def)
  have run: "tenant_step env org st st1" unfolding st1_def by (rule tenant_iso_event)
  have "tenant_step env org st1 (set_lifecycle (lf_id l) (\<lambda>x. x\<lparr>lf_current_status := s, lf_updated_at := now\<rparr>) st1)" for s
    by (rule tenant_set_lifecycle[OF l]) simp_all
  with run show ?thesis
    by (auto simp: status_step_def Let_def Some r'_def[symmetric] st1_def[symmetric] intro: tenant_trans)
qed

lemma tenant_status_steps:
  "scan_ok (oe_scan env) \<Longrightarrow> tenant_step env org st (snd (fold (status_step env now org m t) ds (r, st)))"
proof (induction ds arbitrary: r st)
  case (Cons d ds)
  obtain r' st' where d: "status_step env now org m t d (r, st) = (r', st')" by force
  with tenant_status_step[OF Cons.prems, of org st now m t d r] have "tenant_step env org st st'" by simp
  with Cons d show ?case by (auto intro: tenant_trans)
qed simp

text \<open>After a payment message the result names a lifecycle of the organization.\<close>

definition names_own :: "string \<Rightarrow> IsoAnalysisResult \<Rightarrow> Ops \<Rightarrow> bool" where
  "names_own org r st \<longleftrightarrow> (\<forall>k. ir_lifecycle_id r = Some k \<longrightarrow> lifecycle_of org k st)"

lemma tenant_payment_step:
  assumes "scan_ok (oe_scan env)" "inj (oe_uid env)"
  shows "tenant_step env org st (snd (payment_step env now org m t d r st)) \<and>
    (\<forall>r' st'. payment_step env now org m t d r st = (Inr r', st') \<longrightarrow> names_own org r' st')"
proof (cases "find_lifecycle env org (profile_from_dict d) st")
  case None
  let ?l = "new_lifecycle env now org (profile_from_dict d) st"
  have add: "tenant_step env org st (snd (add_lifecycle ?l st))"
    by (rule tenant_add_lifecycle[OF assms(2)]) (simp_all add: new_lifecycle_def)
  have own: "lifecycle_of org (lf_id ?l) st'" if "add_lifecycle ?l st = (Inr x, st')" for x st'
    using that by (auto simp: add_lifecycle_def lifecycle_of_def new_lifecycle_def split: if_splits)
  show ?thesis
    using add own
    by (cases "add_lifecycle ?l st"; cases "fst (add_lifecycle ?l st)")
      (auto simp: payment_step_def None Let_def obind_def names_own_def intro: tenant_trans tenant_iso_event)
next
  case (Some l)
  have "lifecycle_of org (lf_id l) st"
    using find_lifecycle_where_of[OF assms(1)] Some unfolding find_lifecycle_def by blast
  then show ?thesis
    by (auto simp: payment_step_def Some Let_def names_own_def with_correlation_def tenant_iso_event)
qed

lemma tenant_payment_steps:
  assumes "scan_ok (oe_scan env)" "inj (oe_uid env)"
  shows "names_own org r st \<Longrightarrow> tenant_step env org st (snd (payment_steps env now org m t ds r st)) \<and>
    (\<forall>r' st'. payment_steps env now org m t ds r st = (Inr r', st') \<longrightarrow> names_own org r' st')"
proof (induction ds arbitrary: r st)
  case (Cons d ds)
  obtain x st1 where d: "payment_step env now org m t d r st = (x, st1)" by force
  note step = tenant_payment_step[OF assms, of org st now m t d r, unfolded d]
  show ?case
  proof (cases x)
    case (Inl e)
    with step d show ?thesis by (simp add: obind_def)
  next
    case (Inr r1)
    with step have "names_own org r1 st1" by blast
    from Cons.IH[OF this] step d Inr show ?thesis by (auto simp: obind_def intro: tenant_trans)
  qed
qed simp

lemma tenant_update_status:
  assumes "names_own org r st"
  shows "tenant_step env org st (update_lifecycle_status now r st)"
proof (cases "ir_lifecycle_id r")
  case (Some k)
  with assms have "lifecycle_of org k st" by (simp add: names_own_def)
  from tenant_set_lifecycle[OF this] Some show ?thesis by (simp add: update_lifecycle_status_def dget_opt_def)
qed (simp add: update_lifecycle_status_def)

lemma tenant_correlate:
  assumes "scan_ok (oe_scan env)" "inj (oe_uid env)" "names_own org r st"
  shows "tenant_step env org st (snd (correlate_and_build_lifecycle env now org r m st))"
proof -
  let ?t = "event_type_for (ir_message_version r) (ir_normalized_status r)"
  have "tenant_step env org st (snd (obind (payment_steps env now org m ?t (ir_correlation_profiles r) r)
      (\<lambda>r' st'. (Inr r', update_lifecycle_status now r' st')) st))"
    using tenant_payment_steps[OF assms(1,2,3), of now m ?t "ir_correlation_profiles r"]
    by (intro tenant.bind_step) (auto intro: tenant_update_status)
  moreover have "tenant_step env org st (snd (fold (status_step env now org m ?t) (ir_correlation_profiles r) (r, st)))"
    by (rule tenant_status_steps[OF assms(1)])
  ultimately show ?thesis
    by (simp add: correlate_and_build_lifecycle_def Let_def split_beta)
qed

lemma tenant_record:
  assumes "scan_ok (oe_scan env)" "inj (oe_uid env)" "ir_lifecycle_id r = None"
  shows "tenant_step env org st (snd (record_iso_result env now org r st))"
proof (cases "find_by_hash env org (message_hash_from_result env r) st")
  case (Some m)
  then show ?thesis by (simp add: record_iso_result_def Let_def)
next
  case None
  obtain m st1 where p: "persist_iso_message env now org r (message_hash_from_result env r) st = (m, st1)" by force
  have "tenant_step env org st (snd (persist_iso_message env now org r (message_hash_from_result env r) st))"
    unfolding persist_iso_message_def Let_def snd_conv by (rule tenant_message) (simp add: iso_message_row_def)
  then have run: "tenant_step env org st st1" by (simp add: p)
  have ingest: "tenant_step env org st1 (snd (obind (ingest_account_report env now org (Some (ms_id m)) (ir_account_reports r))
      (\<lambda>rows st2. (Inr (r\<lparr>ir_account_report_ids := map rw_id rows,
         ir_correlation_status := Some (account_correlation_status (ir_account_reports r))\<rparr>), st2)) st1))"
    by (intro tenant.bind_step tenant_ingest assms) simp
  have "names_own org r st1" using assms(3) by (simp add: names_own_def)
  note corr = tenant_correlate[OF assms(1,2) this, of now m]
  show ?thesis
    using tenant_trans[OF run ingest] tenant_trans[OF run corr]
    by (simp add: record_iso_result_def Let_def None p)
qed

section \<open>Cases, decisions and analyses\<close>

lemma get_one_mem:
  assumes "scan_ok scan" "get_one scan P m rows = Inr r"
  shows "r \<in> set rows \<and> P r"
proof -
  have "filter P rows = [r]" by (rule iffD1[OF get_one_found[OF assms(1)] assms(2)])
  then have "r \<in> set (filter P rows)" by simp
  then show ?thesis by simp
qed

lemma tenant_transition:
  assumes "scan_ok (oe_scan env)"
  shows "tenant_step env org st (snd (transition_case env now org cid a op note st))"
proof (cases "get_case env org cid st")
  case (Inr c)
  then have c: "c \<in> set (op_cases st)" "pc_organization_id c = Some org"
    using get_one_mem[OF assms Inr[unfolded get_case_def]] by simp_all
  have upd: "filter (\<lambda>r. pc_organization_id r = Some other) (update_rows (\<lambda>r. pc_id r = pc_id c) f (op_cases st)) =
      filter (\<lambda>r. pc_organization_id r = Some other) (op_cases st)"
    if "ops_ok env st" "other \<noteq> org" "\<And>x. pc_organization_id (f x) = pc_organization_id x" for other f
    using that c by (intro filter_update_by_key[where r = c]) (auto simp: ops_ok_def keys_used_def)
  show ?thesis
  proof (cases "map_of ALLOWED_ACTIONS a")
    case (Some s)
    show ?thesis
      using upd[where f = "\<lambda>r. r\<lparr>pc_status := CaseStatus_value s\<rparr>"]
      by (auto simp: transition_case_def Inr Some Let_def tenant_step_def own_def audit_event_def lifecycle_of_def
          entry_of_def ops_ok_def map_update_rows elim: keys_used_le)
  qed (simp add: transition_case_def Inr)
qed (simp add: transition_case_def)

lemma tenant_decide_account:
  assumes "scan_ok (oe_scan env)"
  shows "tenant_step env org st (snd (decide_account_reconciliation env now org i a op note st))"
proof (cases "get_account_reconciliation env org i st")
  case (Inr c)
  then have c: "c \<in> set (op_reconciliations st)" "rx_organization_id c = org"
    using get_one_mem[OF assms Inr[unfolded get_account_reconciliation_def]] by simp_all
  have upd: "filter (\<lambda>r. rx_organization_id r = other) (update_rows (\<lambda>r. rx_id r = rx_id c) f (op_reconciliations st)) =
      filter (\<lambda>r. rx_organization_id r = other) (op_reconciliations st)"
    if "ops_ok env st" "other \<noteq> org" "\<And>x. rx_organization_id (f x) = rx_organization_id x" for other f
    using that c by (intro filter_update_by_key[where r = c]) (auto simp: ops_ok_def keys_used_def)
  show ?thesis
    by (auto simp: decide_account_reconciliation_def Inr Let_def tenant_step_def own_def upd lifecycle_of_def
        entry_of_def split: option.split) (auto simp: ops_ok_def map_update_rows)
qed (simp add: decide_account_reconciliation_def)

lemma tenant_decide_correlation:
  assumes "scan_ok (oe_scan env)"
  shows "tenant_step env org st (snd (decide_correlation env now org i a op note st))"
proof (cases "get_one (oe_scan env) (\<lambda>c. mx_id c = i \<and> mx_organization_id c = org) ''correlation not found'' (op_correlations st)")
  case (Inr c)
  then have c: "c \<in> set (op_correlations st)" "mx_organization_id c = org"
    using get_one_mem[OF assms Inr] by simp_all
  have upd: "filter (\<lambda>r. mx_organization_id r = other) (update_rows (\<lambda>r. mx_id r = mx_id c) f (op_correlations st)) =
      filter (\<lambda>r. mx_organization_id r = other) (op_correlations st)"
    if "ops_ok env st" "other \<noteq> org" "\<And>x. mx_organization_id (f x) = mx_organization_id x" for other f
    using that c by (intro filter_update_by_key[where r = c]) (auto simp: ops_ok_def)
  show ?thesis
    by (auto simp: decide_correlation_def Inr Let_def tenant_step_def own_def upd lifecycle_of_def
        entry_of_def split: option.split) (auto simp: ops_ok_def map_update_rows)
qed (simp add: decide_correlation_def)

lemma tenant_persist_analysis:
  assumes "inj (oe_uid env)"
  shows "tenant_step env org st (snd (persist_analysis env now ms (Some org) r st))"
  using assms by (auto simp: persist_analysis_def Let_def tenant_step_def own_def ops_ok_def lifecycle_of_def
      entry_of_def analysis_case_def finding_row_def audit_event_def filter_empty_conv
      intro!: keys_used_at elim!: keys_used_le)

section \<open>Runs of the services\<close>

inductive service_step :: "OpsEnv \<Rightarrow> string \<Rightarrow> Ops \<Rightarrow> Ops \<Rightarrow> bool" for env :: OpsEnv where
  step_iso: "ir_lifecycle_id r = None \<Longrightarrow> service_step env org st (snd (record_iso_result env now org r st))"
| step_missing: "service_step env org st (snd (detect_missing_account_events env now w org st))"
| step_case: "service_step env org st (snd (transition_case env now org cid a op note st))"
| step_decide: "service_step env org st (snd (decide_account_reconciliation env now org i a op note st))"
| step_correlation: "service_step env org st (snd (decide_correlation env now org i a op note st))"
| step_analysis: "service_step env org st (snd (persist_analysis env now ms (Some org) res st))"

inductive service_run :: "OpsEnv \<Rightarrow> string set \<Rightarrow> Ops \<Rightarrow> Ops \<Rightarrow> bool" for env :: OpsEnv and orgs :: "string set" where
  run_none: "service_run env orgs st st"
| run_more: "service_run env orgs st st1 \<Longrightarrow> org \<in> orgs \<Longrightarrow> service_step env org st1 st2 \<Longrightarrow> service_run env orgs st st2"

lemma service_step_tenant:
  assumes "scan_ok (oe_scan env)" "inj (oe_uid env)" "service_step env org st st'"
  shows "tenant_step env org st st'"
  using assms(3)
  by cases (simp_all add: assms tenant_record tenant_detect tenant_transition tenant_decide_account
      tenant_decide_correlation tenant_persist_analysis)

text \<open>C4: 
  Whatever the services do for some organizations, in any order and whether the operations succeed
  or raise, every row of another organization stays exactly as it is.
\<close>

theorem tenants_isolated:
  assumes "scan_ok (oe_scan env)" "inj (oe_uid env)" "ops_ok env st"
    and "service_run env orgs st st'" "other \<notin> orgs"
  shows "own other st' = own other st \<and> ops_ok env st'"
  using assms(4,3)
proof (induction rule: service_run.induct)
  case (run_more st st1 org st2)
  moreover have "other \<noteq> org" using run_more.hyps(2) assms(5) by blast
  ultimately show ?case
    using service_step_tenant[OF assms(1,2)] unfolding tenant_step_def by metis
qed simp

end
