(* ===== verification/PO_AccountProps.thy ===== *)
theory PO_AccountProps
  imports PO_Tenant
begin

text \<open>
  Results on account reports: what the storing of a report leaves in the tables, how an entry with
  a known identity is judged, and the detection of missing account events.
\<close>

section \<open>Storing appends\<close>

text \<open>Storing account reports appends rows, and changes only rows it has appended itself.\<close>

definition extends :: "Ops \<Rightarrow> Ops \<Rightarrow> bool" where
  "extends st st' \<longleftrightarrow>
     op_messages st' = op_messages st \<and> op_lifecycles st' = op_lifecycles st \<and> op_actions st' = op_actions st \<and>
     op_runs st' = op_runs st \<and> op_findings st' = op_findings st \<and> op_candidates st' = op_candidates st \<and>
     op_correlations st' = op_correlations st \<and>
     prefix (op_cases st) (op_cases st') \<and> prefix (op_audit st) (op_audit st') \<and>
     prefix (op_events st) (op_events st') \<and> prefix (op_reports st) (op_reports st') \<and>
     prefix (op_balances st) (op_balances st') \<and> prefix (op_reconciliations st) (op_reconciliations st') \<and>
     prefix (map er_id (op_entries st)) (map er_id (op_entries st')) \<and> op_uuids st \<le> op_uuids st'"

interpretation extends: step_relation extends
  by unfold_locales (auto simp: extends_def intro: prefix_order.trans order_trans)

lemma extends_add_case: "extends st (snd (add_case c as st))"
  by (simp add: extends_def add_case_def)

lemma extends_set_entry: "(\<And>r. er_id (f r) = er_id r) \<Longrightarrow> extends st (set_entry k f st)"
  by (simp add: extends_def set_entry_def map_update_rows)

lemma extends_reconciliation: "extends st (persist_reconciliation env now org er lid c s ev co st)"
  by (simp add: extends_def persist_reconciliation_def Let_def)

lemma extends_account_event: "extends st (add_account_event env now org l e report t st)"
  by (simp add: extends_def add_account_event_def)

lemma extends_ensure_case: "extends st (snd (ensure_case env now org er c st))"
  by (simp add: ensure_case_def Let_def extends_add_case extends.stay)

lemma extends_reconcile: "extends st (snd (reconcile_and_persist env now org er e report lc st))"
proof (cases lc)
  case None
  show ?thesis
    unfolding reconcile_and_persist_def None option.case snd_conv
    by (rule extends.then_[OF extends_set_entry extends_reconciliation]) simp
next
  case (Some l)
  have run: "extends st (add_account_event env now org k e report t
      (persist_reconciliation env now org er lid c s ev co (set_entry i f st)))"
    if "\<And>r. er_id (f r) = er_id r" for k t lid c s ev co i f
    by (rule extends.then_[OF extends.then_[OF extends_set_entry[OF that] extends_reconciliation] extends_account_event])
  show ?thesis
    unfolding reconcile_and_persist_def Some option.case Let_def
    using run extends.then_[OF run extends_ensure_case] by simp
qed

lemma extends_mark_duplicate: "extends st (snd (mark_duplicate env now org e report er d lid st))"
proof -
  define st2 where "st2 = set_entry (er_id er) (\<lambda>r. r\<lparr>er_reconciliation_status := Some (ARS_value d),
    er_evidence := (if d = RECONCILED then [''ACCOUNT_EVENT_CONFIRMED''] else [''DUPLICATE_IDENTITY'']),
    er_lifecycle_id := lid\<rparr>) st"
  have run: "extends st st2" unfolding st2_def by (rule extends_set_entry) simp
  show ?thesis
    unfolding mark_duplicate_def Let_def st2_def[symmetric]
    using run extends.then_[OF run extends_ensure_case] extends.then_[OF run extends_account_event]
    by (cases lid) simp_all
qed

lemma extends_add_entry: "extends st (snd (add_entry r st))"
  by (simp add: extends_def add_entry_def)

lemma extends_ingest_entry: "extends st (snd (ingest_entry env now org report row e st))"
proof -
  have tail: "extends st1 (snd (case dup of
      None \<Rightarrow> reconcile_and_persist env now org er e report lc st1
    | Some d \<Rightarrow> mark_duplicate env now org e report er d lid st1))" for st1 dup er lc lid
    by (cases dup) (simp_all add: extends_reconcile extends_mark_duplicate)
  show ?thesis
    by (auto simp: ingest_entry_def Let_def extends.stay intro!: extends.bind_step extends_add_entry tail
        split: sum.split)
qed

lemma extends_ingest_report: "extends st (snd (ingest_report env now org mid report st))"
proof -
  have "extends st (snd (persist_report env now org report mid st))"
      and "extends st (snd (persist_balances env now org report row st))" for row st
    by (simp_all add: persist_report_def persist_balances_def extends_def Let_def)
  then show ?thesis
    unfolding ingest_report_def
    by (intro extends.bind_step extends.each_step extends_ingest_entry) (simp_all add: extends.stay)
qed

lemma extends_ingest: "extends st (snd (ingest_account_report env now org mid reports st))"
proof (induction reports arbitrary: st)
  case (Cons r rs)
  show ?case
    unfolding ingest_account_report.simps
    by (intro extends.bind_step extends_ingest_report Cons.IH) (simp add: extends.stay)
qed (simp add: extends.stay)

section \<open>Every entry is judged once\<close>

definition entries_ok :: "OpsEnv \<Rightarrow> Ops \<Rightarrow> bool" where
  "entries_ok env st \<longleftrightarrow> keys_used (oe_uid env) (op_uuids st) (map er_id (op_entries st))"

lemma update_absent: "k \<notin> key ` set rows \<Longrightarrow> update_rows (\<lambda>x. key x = k) f rows = rows"
  by (induction rows) auto

lemma keys_used_new: "inj uid \<Longrightarrow> keys_used uid n ks \<Longrightarrow> uid n \<notin> set ks"
  by (auto simp: keys_used_def dest!: subsetD dest: injD)

lemma set_entry_last:
  "op_entries st = rows @ [er] \<Longrightarrow> er_id er \<notin> er_id ` set rows \<Longrightarrow> op_entries (set_entry (er_id er) f st) = rows @ [f er]"
  by (simp add: set_entry_def update_absent update_rows_def map_append)
    (metis update_absent update_rows_def)

lemma entries_frame [simp]:
  "op_entries (persist_reconciliation env now org er lid c s ev co st) = op_entries st"
  "op_entries (add_account_event env now org l e report t st) = op_entries st"
  "op_entries (snd (ensure_case env now org er t st)) = op_entries st"
  by (simp_all add: persist_reconciliation_def add_account_event_def ensure_case_def add_case_def Let_def)

text \<open>
  The last row of the table, just appended, becomes one that is judged: it has a status, with its
  score, evidence, conflicts and lifecycle, and is otherwise as it was. The other rows stay.
\<close>

definition judged :: "AccountEntryRow \<Rightarrow> AccountEntryRow \<Rightarrow> bool" where
  "judged er er' \<longleftrightarrow> (\<exists>s m ev c l. er' = er\<lparr>er_reconciliation_status := Some (ARS_value s),
     er_match_score := m, er_evidence := ev, er_conflicts := c, er_lifecycle_id := l\<rparr>)"

definition judged_row ::
  "OpsEnv \<Rightarrow> instant \<Rightarrow> string \<Rightarrow> AccountReportRow \<Rightarrow> AccountEntry \<Rightarrow> AccountEntryRow \<Rightarrow> bool" where
  "judged_row env now org row e r \<longleftrightarrow>
     (\<exists>key. judged (entry_to_row key org e row (identity_hash (oe_sha256 env) e) now) r)"

lemma judged_updates:
  "judged er (er\<lparr>er_reconciliation_status := Some (ARS_value s), er_evidence := ev, er_conflicts := c\<rparr>)"
  "judged er (er\<lparr>er_reconciliation_status := Some (ARS_value s), er_evidence := ev, er_lifecycle_id := l\<rparr>)"
  "judged er (er\<lparr>er_reconciliation_status := Some (ARS_value s), er_match_score := m, er_evidence := ev,
     er_conflicts := c, er_lifecycle_id := l\<rparr>)"
  unfolding judged_def
  by (rule exI[of _ s], rule exI[of _ "er_match_score er"], rule exI[of _ ev], rule exI[of _ c],
        rule exI[of _ "er_lifecycle_id er"], simp)
    (rule exI[of _ s], rule exI[of _ "er_match_score er"], rule exI[of _ ev], rule exI[of _ "er_conflicts er"],
        rule exI[of _ l], simp, blast)

lemma judged_id: "judged er er' \<Longrightarrow> er_id er' = er_id er"
  by (auto simp: judged_def)

lemma reconcile_entries:
  assumes "op_entries st = rows @ [er]" "er_id er \<notin> er_id ` set rows"
  shows "\<exists>er'. op_entries (snd (reconcile_and_persist env now org er e report lc st)) = rows @ [er'] \<and> judged er er'"
  by (cases lc) (simp_all add: reconcile_and_persist_def Let_def set_entry_last[OF assms] judged_updates)

lemma mark_entries:
  assumes "op_entries st = rows @ [er]" "er_id er \<notin> er_id ` set rows"
  shows "\<exists>er'. op_entries (snd (mark_duplicate env now org e report er d lid st)) = rows @ [er'] \<and> judged er er'"
proof (cases "d = RECONCILED")
  case True
  then show ?thesis
    by (cases lid) (simp_all add: mark_duplicate_def Let_def set_entry_last[OF assms] judged_updates)
next
  case False
  then show ?thesis
    by (simp add: mark_duplicate_def Let_def set_entry_last[OF assms] judged_updates)
qed

lemma entry_judged:
  assumes "inj (oe_uid env)" "entries_ok env st" "ingest_entry env now org report row e st = (Inr u, st')"
  shows "\<exists>r. op_entries st' = op_entries st @ [r] \<and> judged_row env now org row e r \<and> entries_ok env st'"
proof -
  let ?h = "identity_hash (oe_sha256 env) e"
  let ?r = "entry_to_row (new_key env st) org e row ?h now"
  obtain dup where dup: "duplicate_status env report row (find_entry_by_identity env org ?h st) st = Inr dup"
    using assms(3) by (auto simp: ingest_entry_def Let_def split: sum.splits)
  obtain st1 where add: "add_entry ?r st = (Inr ?r, st1)"
    using assms(3) by (auto simp: ingest_entry_def Let_def dup obind_def add_entry_def split: if_splits)
  have st1: "op_entries st1 = op_entries st @ [?r]" "op_uuids st1 = Suc (op_uuids st)"
    using add by (auto simp: add_entry_def split: if_splits)
  have new: "er_id ?r \<notin> er_id ` set (op_entries st)"
    using keys_used_new[OF assms(1) assms(2)[unfolded entries_ok_def]] by (simp add: entry_to_row_def new_key_def)
  define tail where "tail = (case dup of
      None \<Rightarrow> reconcile_and_persist env now org ?r e report (find_lifecycle_for_entry env org e st1) st1
    | Some d \<Rightarrow> mark_duplicate env now org e report ?r d (Option.bind (find_entry_by_identity env org ?h st) er_lifecycle_id) st1)"
  have st': "st' = snd tail"
    using assms(3) by (auto simp: ingest_entry_def Let_def dup obind_def add tail_def)
  have "\<exists>r'. op_entries st' = op_entries st @ [r'] \<and> judged ?r r'"
    unfolding st' tail_def using reconcile_entries[OF st1(1) new] mark_entries[OF st1(1) new]
    by (cases dup) simp_all
  then obtain r' where r': "op_entries st' = op_entries st @ [r']" "judged ?r r'" by blast
  have "extends st1 st'"
    unfolding st' tail_def by (cases dup) (simp_all add: extends_reconcile extends_mark_duplicate)
  then have "Suc (op_uuids st) \<le> op_uuids st'" by (simp add: extends_def st1)
  then have "entries_ok env st'"
    using assms(1,2) r'(1) judged_id[OF r'(2)] by (auto simp: entries_ok_def entry_to_row_def new_key_def intro!: keys_used_at)
  with r' show ?thesis unfolding judged_row_def by blast
qed

lemma entries_judged:
  assumes "inj (oe_uid env)"
  shows "entries_ok env st \<Longrightarrow> oeach (ingest_entry env now org report row) es st = (Inr u, st') \<Longrightarrow>
    \<exists>new. op_entries st' = op_entries st @ new \<and> list_all2 (judged_row env now org row) es new"
proof (induction es arbitrary: st)
  case (Cons e es)
  obtain u1 st1 where e: "ingest_entry env now org report row e st = (Inr u1, st1)"
      and rest: "oeach (ingest_entry env now org report row) es st1 = (Inr u, st')"
    using Cons.prems(2) by (auto split: prod.splits sum.splits)
  obtain r where r: "op_entries st1 = op_entries st @ [r]" "judged_row env now org row e r" "entries_ok env st1"
    using entry_judged[OF assms Cons.prems(1) e] by blast
  from Cons.IH[OF r(3) rest] obtain new where
    "op_entries st' = op_entries st1 @ new" "list_all2 (judged_row env now org row) es new" by blast
  with r show ?case by (intro exI[of _ "r # new"]) simp
qed simp

text \<open>C6: 
  Storing a report leaves every stored entry exactly as it is and appends one row per entry of the
  report, in its order: each is the row \<open>_entry_to_row\<close> builds for that entry, with its identity hash,
  except that it now has one of the reconciliation statuses, with the score, evidence, conflicts and
  lifecycle of the judgement. The report row is stored and counts its entries.
\<close>

theorem report_entries_all_judged:
  assumes "inj (oe_uid env)" "entries_ok env st" "ingest_report env now org mid report st = (Inr row, st')"
  shows "(\<exists>new. op_entries st' = op_entries st @ new \<and>
      list_all2 (judged_row env now org row) (rp_entries report) new) \<and>
    row \<in> set (op_reports st') \<and> rw_entry_count row = length (rp_entries report)"
proof -
  obtain st1 where p: "persist_report env now org report mid st = (Inr row, st1)"
      and pr: "row = report_row (new_key env st) org report mid now"
    using assms(3) by (auto simp: ingest_report_def obind_def persist_report_def Let_def split: prod.splits sum.splits)
  obtain u st2 where b: "persist_balances env now org report row st1 = (Inr u, st2)"
    using assms(3) by (auto simp: ingest_report_def obind_def p split: prod.splits sum.splits)
  obtain v where e: "oeach (ingest_entry env now org report row) (rp_entries report) st2 = (Inr v, st')"
    using assms(3) by (auto simp: ingest_report_def obind_def p b split: prod.splits sum.splits)
  have same: "op_entries st2 = op_entries st" "op_uuids st \<le> op_uuids st2" "row \<in> set (op_reports st2)"
    using p b by (auto simp: persist_report_def persist_balances_def Let_def split: if_splits)
  then have ok: "entries_ok env st2" using assms(2) by (auto simp: entries_ok_def elim: keys_used_le)
  have "extends st2 (snd (oeach (ingest_entry env now org report row) (rp_entries report) st2))"
    by (intro extends.each_step extends_ingest_entry)
  then have "row \<in> set (op_reports st')" using same(3) e by (auto simp: extends_def dest: set_mono_prefix)
  then show ?thesis
    using entries_judged[OF assms(1) ok e] same(1) by (simp add: pr report_row_def report_number_of_entries_def)
qed

section \<open>An entry with a known identity\<close>

definition same_identity :: "OpsEnv \<Rightarrow> string \<Rightarrow> AccountEntry \<Rightarrow> Ops \<Rightarrow> AccountEntryRow list" where
  "same_identity env org e st = filter (\<lambda>r. er_organization_id r = org \<and>
     er_identity_hash r = identity_hash (oe_sha256 env) e) (op_entries st)"

definition reports_with :: "string \<Rightarrow> Ops \<Rightarrow> AccountReportRow list" where
  "reports_with k st = filter (\<lambda>r. rw_id r = k) (op_reports st)"

definition repeat_status :: "AccountReport \<Rightarrow> AccountReportRow \<Rightarrow> AccountEntryRow \<Rightarrow> AccountReportRow \<Rightarrow>
    AccountReconciliationStatus" where
  "repeat_status report row x rp =
     (if er_report_id x = rw_id row \<or> rw_report_type rp = AccountReportType_value (rp_report_type report)
      then DUPLICATE_ACCOUNT_ENTRY else RECONCILED)"

lemma known_identity:
  assumes "scan_ok (oe_scan env)" "same_identity env org e st = [x]" "reports_with (er_report_id x) st = [rp]"
  shows "find_entry_by_identity env org (identity_hash (oe_sha256 env) e) st = Some x"
    and "duplicate_status env report row (Some x) st = Inr (Some (repeat_status report row x rp))"
proof -
  show "find_entry_by_identity env org (identity_hash (oe_sha256 env) e) st = Some x"
    using select_where_unique[OF assms(1) assms(2)[unfolded same_identity_def]]
    by (simp add: find_entry_by_identity_def scalars_first_def)
  have "report_type_of env (er_report_id x) st = Inr (Some (rw_report_type rp))"
    using select_where_unique[OF assms(1) assms(3)[unfolded reports_with_def]]
    by (simp add: report_type_of_def scalar_one_or_none_def)
  then show "duplicate_status env report row (Some x) st = Inr (Some (repeat_status report row x rp))"
    by (simp add: duplicate_status_def repeat_status_def)
qed

lemma known_entry_run:
  assumes "scan_ok (oe_scan env)" "same_identity env org e st = [x]" "reports_with (er_report_id x) st = [rp]"
  shows "ingest_entry env now org report row e st =
    obind (add_entry (entry_to_row (new_key env st) org e row (identity_hash (oe_sha256 env) e) now))
      (\<lambda>er. mark_duplicate env now org e report er (repeat_status report row x rp) (er_lifecycle_id x)) st"
  by (simp add: ingest_entry_def Let_def known_identity[OF assms] obind_def)

text \<open>
  An entry whose identity was stored before is judged by the types of the two reports alone: the
  same report or one of the same type makes it a duplicate, the other type makes it RECONCILED with
  the lifecycle of the earlier entry, whatever that entry's own status is, a mismatch or an unmatched
  entry included.
\<close>

theorem repeated_entry_judged_by_type:
  assumes "scan_ok (oe_scan env)" "inj (oe_uid env)" "entries_ok env st"
    and known: "same_identity env org e st = [x]" "reports_with (er_report_id x) st = [rp]"
    and run: "ingest_entry env now org report row e st = (Inr u, st')"
  shows "\<exists>r. op_entries st' = op_entries st @ [r] \<and> er_lifecycle_id r = er_lifecycle_id x \<and>
    er_reconciliation_status r = Some (ARS_value (if er_report_id x = rw_id row \<or>
      rw_report_type rp = AccountReportType_value (rp_report_type report) then DUPLICATE_ACCOUNT_ENTRY else RECONCILED))"
proof -
  let ?r = "entry_to_row (new_key env st) org e row (identity_hash (oe_sha256 env) e) now"
  let ?d = "repeat_status report row x rp"
  obtain st1 where add: "add_entry ?r st = (Inr ?r, st1)"
    using run by (auto simp: known_entry_run[OF assms(1) known] obind_def add_entry_def split: if_splits)
  have st1: "op_entries st1 = op_entries st @ [?r]" using add by (auto simp: add_entry_def split: if_splits)
  have new: "er_id ?r \<notin> er_id ` set (op_entries st)"
    using keys_used_new[OF assms(2) assms(3)[unfolded entries_ok_def]] by (simp add: entry_to_row_def new_key_def)
  have "st' = snd (mark_duplicate env now org e report ?r ?d (er_lifecycle_id x) st1)"
    using run by (simp add: known_entry_run[OF assms(1) known] obind_def add)
  then have "\<exists>r. op_entries st' = op_entries st @ [r] \<and> er_lifecycle_id r = er_lifecycle_id x \<and>
      er_reconciliation_status r = Some (ARS_value ?d)"
    by (cases "?d = RECONCILED"; cases "er_lifecycle_id x")
      (simp_all add: mark_duplicate_def Let_def set_entry_last[OF st1 new])
  then show ?thesis by (simp add: repeat_status_def)
qed

text \<open>
  Case ids are unique over all organizations but derived from the entry alone: when another
  organization holds the case of an entry with the same identity, a repeated entry raises and the
  rest of its report is not stored.
\<close>

theorem foreign_case_blocks_ingestion:
  assumes "scan_ok (oe_scan env)" and known: "same_identity env org e st = [x]" "reports_with (er_report_id x) st = [rp]"
    and same: "rw_report_type rp = AccountReportType_value (rp_report_type report)"
    and case_: "c \<in> set (op_cases st)" "pc_case_id c = account_case_id (identity_hash (oe_sha256 env) e)"
    and foreign: "\<forall>c\<in>set (op_cases st). pc_case_id c = account_case_id (identity_hash (oe_sha256 env) e) \<longrightarrow>
      pc_organization_id c \<noteq> Some org"
    and amount: "\<forall>a. ae_amount e = Some a \<longrightarrow> int4_ok (ma_amount_minor a)"
  shows "fst (oeach (ingest_entry env now org report row) (e # es) st) = Inl (IntegrityError ''payment_cases.case_id'') \<and>
    length (op_entries (snd (oeach (ingest_entry env now org report row) (e # es) st))) = Suc (length (op_entries st))"
proof -
  let ?h = "identity_hash (oe_sha256 env) e"
  let ?r = "entry_to_row (new_key env st) org e row ?h now"
  have dup: "repeat_status report row x rp = DUPLICATE_ACCOUNT_ENTRY" by (simp add: repeat_status_def same)
  have fits: "case er_amount_minor ?r of None \<Rightarrow> True | Some n \<Rightarrow> int4_ok n"
    using amount by (cases "ae_amount e") (simp_all add: entry_to_row_def)
  let ?st1 = "st\<lparr>op_entries := op_entries st @ [?r], op_uuids := Suc (op_uuids st)\<rparr>"
  have add: "add_entry ?r st = (Inr ?r, ?st1)" using fits by (simp add: add_entry_def)
  define st2 where "st2 = set_entry (er_id ?r) (\<lambda>r. r\<lparr>er_reconciliation_status := Some (ARS_value DUPLICATE_ACCOUNT_ENTRY),
    er_evidence := [''DUPLICATE_IDENTITY''], er_lifecycle_id := er_lifecycle_id x\<rparr>) ?st1"
  have cases2: "op_cases st2 = op_cases st" and len2: "length (op_entries st2) = Suc (length (op_entries st))"
    by (simp_all add: st2_def set_entry_def update_rows_def)
  have hash: "er_identity_hash ?r = ?h" by (simp add: entry_to_row_def)
  have "filter (\<lambda>c. pc_case_id c = account_case_id ?h \<and> pc_organization_id c = Some org) (op_cases st2) = []"
    using foreign by (auto simp: cases2 filter_empty_conv)
  then have none: "select_cases env org (account_case_id ?h) st2 = []"
    using select_where_none[OF assms(1)] by (simp add: select_cases_def)
  have taken: "account_case_id ?h \<in> pc_case_id ` set (op_cases st2)"
    using case_ by (auto simp: cases2 intro: rev_image_eqI)
  have "ingest_entry env now org report row e st = ensure_case env now org ?r ''DUPLICATE_ACCOUNT_ENTRY'' st2"
    by (simp add: known_entry_run[OF assms(1) known] obind_def add dup mark_duplicate_def Let_def st2_def)
  then have "ingest_entry env now org report row e st = (Inl (IntegrityError ''payment_cases.case_id''), st2)"
    using taken by (simp add: ensure_case_def Let_def hash none add_case_def review_case_def)
  then show ?thesis using len2 by simp
qed

section \<open>Missing account events\<close>

lemma select_cases_mono:
  "scan_ok (oe_scan env) \<Longrightarrow> prefix (op_cases st) (op_cases st') \<Longrightarrow> select_cases env org i st \<noteq> [] \<Longrightarrow> select_cases env org i st' \<noteq> []"
proof -
  assume "scan_ok (oe_scan env)" "prefix (op_cases st) (op_cases st')"
  then have "set (select_cases env org i st) \<subseteq> set (select_cases env org i st')"
    by (auto simp: select_cases_def set_select_where dest: set_mono_prefix)
  then show "select_cases env org i st \<noteq> [] \<Longrightarrow> select_cases env org i st' \<noteq> []" by auto
qed

definition flagged_with :: "OpsEnv \<Rightarrow> string \<Rightarrow> PaymentLifecycleRow \<Rightarrow> string option \<Rightarrow> Ops \<Rightarrow> bool" where
  "flagged_with env org l x st \<longleftrightarrow>
     (case x of None \<Rightarrow> has_account_event env org l st
      | Some i \<Rightarrow> \<not> has_account_event env org l st \<and> i = lf_lifecycle_id l \<and> select_cases env org (missing_case_id l) st \<noteq> [])"

definition cases_grow :: "Ops \<Rightarrow> Ops \<Rightarrow> bool" where
  "cases_grow st st' \<longleftrightarrow> op_entries st' = op_entries st \<and> op_lifecycles st' = op_lifecycles st \<and>
     prefix (op_cases st) (op_cases st')"

interpretation cases_grow: step_relation cases_grow
  by unfold_locales (auto simp: cases_grow_def intro: prefix_order.trans)

lemma flag_missing_step:
  assumes "scan_ok (oe_scan env)" "flag_missing env now org l st = (Inr x, st')"
  shows "cases_grow st st' \<and> flagged_with env org l x st'"
proof -
  let ?c = "review_case (new_key env st) (missing_case_id l) org ''MISSING_ACCOUNT_EVENT'' now"
  have "select_cases env org (missing_case_id l) (st\<lparr>op_cases := op_cases st @ [?c], op_uuids := n\<rparr>) \<noteq> []" for n
  proof -
    have "?c \<in> set (select_cases env org (missing_case_id l) (st\<lparr>op_cases := op_cases st @ [?c], op_uuids := n\<rparr>))"
      using assms(1) by (simp add: select_cases_def set_select_where review_case_def)
    then show ?thesis by auto
  qed
  then show ?thesis
    using assms(2) by (auto simp: flag_missing_def add_case_def cases_grow_def flagged_with_def has_account_event_def
        split: if_splits)
qed

lemma flag_missing_again:
  "scan_ok (oe_scan env) \<Longrightarrow> flagged_with env org l x st \<Longrightarrow> cases_grow st s \<Longrightarrow> flag_missing env now org l s = (Inr x, s)"
  using select_cases_mono[of env st s org "missing_case_id l"]
  by (auto simp: flagged_with_def flag_missing_def cases_grow_def has_account_event_def split: option.splits)

lemma flag_all_again:
  assumes "scan_ok (oe_scan env)"
  shows "flag_all env now org ls st = (Inr fs, st') \<Longrightarrow>
    cases_grow st st' \<and> (\<forall>s later. cases_grow st' s \<longrightarrow> flag_all env later org ls s = (Inr fs, s))"
proof (induction ls arbitrary: st fs)
  case (Cons l ls)
  obtain x st1 where f: "flag_missing env now org l st = (Inr x, st1)"
    using Cons.prems by (auto simp: obind_def split: prod.splits sum.splits)
  obtain gs where r: "flag_all env now org ls st1 = (Inr gs, st')"
      and fs: "fs = (case x of None \<Rightarrow> [] | Some i \<Rightarrow> [i]) @ gs"
    using Cons.prems by (auto simp: obind_def f split: prod.splits sum.splits)
  note step = flag_missing_step[OF assms f]
  note rest = Cons.IH[OF r]
  have "flag_missing env later org l s = (Inr x, s)" if "cases_grow st' s" for s later
    using flag_missing_again[OF assms conjunct2[OF step]] cases_grow.then_[OF conjunct1[OF rest] that] by blast
  with step rest show ?case
    by (auto simp: obind_def fs intro: cases_grow.then_)
qed (simp add: cases_grow.stay)

text \<open>
  Detection is stable: when it has run, running it again over the same window reports the same
  lifecycles and creates no further case.
\<close>

theorem missing_events_stable:
  assumes "scan_ok (oe_scan env)" "detect_missing_account_events env now w org st = (Inr flagged, st')"
  shows "detect_missing_account_events env now w org st' = (Inr flagged, st')"
proof -
  let ?ls = "select_where (oe_scan env) (overdue now w org) (op_lifecycles st)"
  note again = flag_all_again[OF assms(1) assms(2)[unfolded detect_missing_account_events_def]]
  then have "op_lifecycles st' = op_lifecycles st" by (simp add: cases_grow_def)
  then show ?thesis
    using again by (simp add: detect_missing_account_events_def cases_grow.stay)
qed

end
