(* ===== verification/PO_ServiceProps.thy ===== *)
theory PO_ServiceProps
  imports PO_AccountProps
begin

text \<open>
  Results on the services as a whole: messages are recorded once, what a status report changes, how
  payments share a lifecycle, what account reconciliation can never see, decisions on cases, and
  the rows of a persisted analysis.
\<close>

section \<open>Messages are recorded once\<close>

definition same_messages :: "Ops \<Rightarrow> Ops \<Rightarrow> bool" where
  "same_messages st st' \<longleftrightarrow> op_messages st' = op_messages st"

interpretation same_messages: step_relation same_messages
  by unfold_locales (simp_all add: same_messages_def)

lemma status_step_messages: "op_messages (snd (status_step env now org m t d (r, st))) = op_messages st"
  by (auto simp: status_step_def Let_def add_iso_event_def set_lifecycle_def split: option.split)

lemma status_steps_messages: "op_messages (snd (fold (status_step env now org m t) ds (r, st))) = op_messages st"
proof (induction ds arbitrary: r st)
  case (Cons d ds)
  obtain r' st' where "status_step env now org m t d (r, st) = (r', st')" by force
  then show ?case using Cons[of r' st'] status_step_messages[of env now org m t d r st] by simp
qed simp

lemma payment_step_messages: "same_messages st (snd (payment_step env now org m t d r st))"
  by (auto simp: payment_step_def Let_def same_messages_def obind_def add_lifecycle_def add_iso_event_def
      split: option.split)

lemma payment_steps_messages: "same_messages st (snd (payment_steps env now org m t ds r st))"
proof (induction ds arbitrary: r st)
  case (Cons d ds)
  show ?case
    unfolding payment_steps.simps by (intro same_messages.bind_step payment_step_messages Cons.IH)
qed (simp add: same_messages_def)

lemma correlate_messages: "same_messages st (snd (correlate_and_build_lifecycle env now org r m st))"
proof -
  have upd: "same_messages s (update_lifecycle_status now r' s)" for r' s
    by (simp add: same_messages_def update_lifecycle_status_def set_lifecycle_def)
  have "same_messages st (snd (obind (payment_steps env now org m t ds r) (\<lambda>r' st'. (Inr r', update_lifecycle_status now r' st')) st))" for t ds
    by (intro same_messages.bind_step payment_steps_messages) (simp add: upd)
  moreover have "same_messages st (snd (fold (status_step env now org m t) ds (r, st)))" for t ds
    by (simp add: same_messages_def status_steps_messages)
  ultimately show ?thesis by (simp add: correlate_and_build_lifecycle_def Let_def split_beta)
qed

lemma ingest_messages: "same_messages st (snd (ingest_account_report env now org mid reports st))"
  using extends_ingest by (simp add: extends_def same_messages_def)

lemma recorded:
  assumes "scan_ok (oe_scan env)" "record_iso_result env now org r st = (x, st')"
  shows "find_by_hash env org (message_hash_from_result env r) st' \<noteq> None"
proof (cases "find_by_hash env org (message_hash_from_result env r) st")
  case (Some m)
  then show ?thesis using assms(2) by (auto simp: record_iso_result_def Let_def)
next
  case None
  obtain m st1 where p: "persist_iso_message env now org r (message_hash_from_result env r) st = (m, st1)" by force
  then have m: "m \<in> set (op_messages st1)" "ms_organization_id m = org" "ms_message_hash m = message_hash_from_result env r"
    by (auto simp: persist_iso_message_def Let_def iso_message_row_def)
  have "same_messages st1 st'"
  proof -
    have "same_messages st1 (snd (obind (ingest_account_report env now org (Some (ms_id m)) (ir_account_reports r))
        (\<lambda>rows st2. (Inr (f rows), st2)) st1))" for f :: "AccountReportRow list \<Rightarrow> IsoAnalysisResult"
      by (intro same_messages.bind_step ingest_messages) (simp add: same_messages_def)
    then show ?thesis
      using assms(2) correlate_messages[of st1 env now org r m]
      by (auto simp: record_iso_result_def Let_def None p split: if_splits) (metis snd_conv)+
  qed
  with m have "m \<in> set (select_where (oe_scan env)
      (\<lambda>m. ms_organization_id m = org \<and> ms_message_hash m = message_hash_from_result env r) (op_messages st'))"
    using assms(1) by (simp add: set_select_where same_messages_def)
  then show ?thesis
    by (auto simp: find_by_hash_def scalars_first_def split: list.split)
qed

lemma recorded_again:
  "find_by_hash env org (message_hash_from_result env r) st \<noteq> None \<Longrightarrow>
     \<exists>m. record_iso_result env now org r st =
       (Inr (r\<lparr>ir_lifecycle_id := lifecycle_id_for_message env org m st\<rparr>), st)"
  by (auto simp: record_iso_result_def Let_def)

text \<open>C7: 
  A message is recorded once: whatever the first attempt did, a later attempt with the same hash
  changes nothing and answers with the lifecycle of an event of the recorded message.
\<close>

theorem message_recorded_once:
  assumes "scan_ok (oe_scan env)" "record_iso_result env now org r st = (x, st1)"
    and "message_hash_from_result env r2 = message_hash_from_result env r"
  shows "\<exists>m. record_iso_result env later org r2 st1 =
    (Inr (r2\<lparr>ir_lifecycle_id := lifecycle_id_for_message env org m st1\<rparr>), st1)"
  by (rule recorded_again) (simp add: assms(3) recorded[OF assms(1,2)])

text \<open>
  A report with a balance outside 32 bits raises after the message is recorded, so sending it again
  succeeds and changes nothing: its entries are never stored.
\<close>

theorem failed_report_not_retried:
  assumes "scan_ok (oe_scan env)" "find_by_hash env org (message_hash_from_result env r) st = None"
    and "ir_account_reports r = rp # rps" "b \<in> set (rp_balances rp)" "\<not> int4_ok (ma_amount_minor (ab_amount b))"
  shows "\<exists>st1. record_iso_result env now org r st = (Inl int4_error, st1) \<and> op_entries st1 = op_entries st \<and>
    (\<exists>m. record_iso_result env later org r st1 =
      (Inr (r\<lparr>ir_lifecycle_id := lifecycle_id_for_message env org m st1\<rparr>), st1))"
proof -
  obtain m st0 where p: "persist_iso_message env now org r (message_hash_from_result env r) st = (m, st0)" by force
  obtain row st1 where q: "persist_report env now org rp (Some (ms_id m)) st0 = (Inr row, st1)"
    by (auto simp: persist_report_def Let_def)
  have "\<not> list_all (\<lambda>b. int4_ok (ma_amount_minor (ab_amount b))) (rp_balances rp)"
    using assms(4,5) by (auto simp: list_all_iff)
  then have "ingest_account_report env now org (Some (ms_id m)) (rp # rps) st0 = (Inl int4_error, st1)"
    by (simp add: ingest_report_def obind_def q persist_balances_def)
  then have run: "record_iso_result env now org r st = (Inl int4_error, st1)"
    by (simp add: record_iso_result_def Let_def assms(2,3) p obind_def)
  moreover have "op_entries st1 = op_entries st"
    using p q by (auto simp: persist_iso_message_def persist_report_def Let_def)
  ultimately show ?thesis using recorded_again[OF recorded[OF assms(1) run], of later] by blast
qed

section \<open>Status reports\<close>

lemma find_lifecycle_cong:
  "op_lifecycles st' = op_lifecycles st \<Longrightarrow> find_lifecycle env org p st' = find_lifecycle env org p st"
  by (simp add: find_lifecycle_def find_lifecycle_where_def)

text \<open>What stays of a lifecycle when a message is correlated with it.\<close>

definition lifecycle_identity :: "PaymentLifecycleRow \<Rightarrow> PaymentLifecycleRow" where
  "lifecycle_identity l = l\<lparr>lf_current_status := '''', lf_updated_at := 0\<rparr>"

lemma set_lifecycle_identity:
  "(\<And>l. lifecycle_identity (f l) = lifecycle_identity l) \<Longrightarrow>
     map lifecycle_identity (op_lifecycles (set_lifecycle k f st)) = map lifecycle_identity (op_lifecycles st)"
  by (simp add: set_lifecycle_def map_update_rows)

lemma status_step_identity:
  "map lifecycle_identity (op_lifecycles (snd (status_step env now org m t d (r, st)))) =
     map lifecycle_identity (op_lifecycles st)"
  by (auto simp: status_step_def Let_def add_iso_event_def set_lifecycle_def map_update_rows lifecycle_identity_def
      split: option.split)

lemma status_steps_identity:
  "map lifecycle_identity (op_lifecycles (snd (fold (status_step env now org m t) ds (r, st)))) =
     map lifecycle_identity (op_lifecycles st)"
proof (induction ds arbitrary: r st)
  case (Cons d ds)
  obtain r' st' where "status_step env now org m t d (r, st) = (r', st')" by force
  then show ?case using Cons[of r' st'] status_step_identity[of env now org m t d r st] by simp
qed simp

text \<open>
  A status report never creates a lifecycle and never changes what identifies one: only the status
  and the time of change of existing lifecycles can differ.
\<close>

theorem status_report_creates_nothing:
  assumes "starts_with ''pacs.002'' (dget_opt (ir_message_version r))" "ir_account_reports r = []"
    and "record_iso_result env now org r st = (x, st')"
  shows "map lifecycle_identity (op_lifecycles st') = map lifecycle_identity (op_lifecycles st) \<and> (\<exists>y. x = Inr y)"
proof (cases "find_by_hash env org (message_hash_from_result env r) st")
  case (Some m)
  then show ?thesis using assms(3) by (auto simp: record_iso_result_def Let_def)
next
  case None
  obtain m st1 where p: "persist_iso_message env now org r (message_hash_from_result env r) st = (m, st1)" by force
  then have "op_lifecycles st1 = op_lifecycles st" by (auto simp: persist_iso_message_def Let_def)
  then show ?thesis
    using assms status_steps_identity[of env now org m "event_type_for (ir_message_version r) (ir_normalized_status r)"
        "ir_correlation_profiles r" r st1]
    by (auto simp: record_iso_result_def Let_def None p correlate_and_build_lifecycle_def split_beta)
qed

text \<open>
  A status report on one transaction gives the lifecycle it finds its own status, whatever the
  outcome of the correlation: also when the identifiers conflict.
\<close>

theorem status_applied_despite_conflict:
  assumes "starts_with ''pacs.002'' (dget_opt (ir_message_version r))" "ir_account_reports r = []"
    and "find_by_hash env org (message_hash_from_result env r) st = None"
    and "ir_correlation_profiles r = [d]" "find_lifecycle env org (profile_from_dict d) st = Some l"
    and "ir_normalized_status r = Some s" "s \<noteq> ''''"
  shows "\<exists>y st'. record_iso_result env now org r st = (Inr y, st') \<and>
    ir_correlation_status y = Some (CorrelationStatus_value (co_status
      (correlate_profiles (profile_from_dict d) (profile_from_lifecycle l)))) \<and>
    op_lifecycles st' = update_rows (\<lambda>x. lf_id x = lf_id l)
      (\<lambda>x. x\<lparr>lf_current_status := s, lf_updated_at := now\<rparr>) (op_lifecycles st)"
proof -
  obtain m st1 where p: "persist_iso_message env now org r (message_hash_from_result env r) st = (m, st1)" by force
  then have same: "op_lifecycles st1 = op_lifecycles st" by (auto simp: persist_iso_message_def Let_def)
  then have "find_lifecycle env org (profile_from_dict d) st1 = Some l"
    using assms(5) find_lifecycle_cong[OF same] by simp
  then show ?thesis
    using assms(1-4,6,7) same
    by (simp add: record_iso_result_def Let_def p correlate_and_build_lifecycle_def status_step_def with_correlation_def
        set_lifecycle_def add_iso_event_def dget_opt_def)
qed

section \<open>Payments\<close>

text \<open>
  Two payments with the same end-to-end id are one lifecycle, however different the other
  identifiers and the amounts are; the id may be a placeholder such as NOTPROVIDED.
\<close>

theorem payments_share_lifecycle:
  assumes "scan_ok (oe_scan env)"
    and version: "\<not> starts_with ''pacs.002'' (dget_opt (ir_message_version r))" "ir_account_reports r = []"
    and new: "find_by_hash env org (message_hash_from_result env r) st = None"
    and two: "ir_correlation_profiles r = [d1, d2]"
    and same: "cp_end_to_end_id d1 = Some i" "cp_end_to_end_id d2 = Some i" "i \<noteq> ''''"
    and unknown: "find_lifecycle env org (profile_from_dict d1) st = None" "find_lifecycle env org (profile_from_dict d2) st = None"
    and fits: "\<forall>a. cp_amount d1 = Some a \<longrightarrow> int4_ok a"
    and fresh: "\<forall>l\<in>set (op_lifecycles st). lf_lifecycle_id l \<noteq>
      ''life-'' @ take 12 (remove_char CHR ''-'' (oe_uid env (Suc (op_uuids st))))"
  shows "\<exists>y st'. \<exists>l::PaymentLifecycleRow. record_iso_result env now org r st = (Inr y, st') \<and> map lf_id (op_lifecycles st') = map lf_id (op_lifecycles st) @ [lf_id l] \<and>
    lf_amount_minor l = cp_amount d1 \<and> ir_lifecycle_id y = Some (lf_id l) \<and>
    map lv_lifecycle_id (op_events st') = map lv_lifecycle_id (op_events st) @ [lf_id l, lf_id l]"
proof -
  let ?t = "event_type_for (ir_message_version r) (ir_normalized_status r)"
  let ?p1 = "profile_from_dict d1" and ?p2 = "profile_from_dict d2"
  obtain m st1 where p: "persist_iso_message env now org r (message_hash_from_result env r) st = (m, st1)" by force
  then have st1: "op_lifecycles st1 = op_lifecycles st" "op_events st1 = op_events st" "op_uuids st1 = Suc (op_uuids st)"
    by (auto simp: persist_iso_message_def Let_def)
  let ?l = "new_lifecycle env now org ?p1 st1"
  have none: "find_lifecycle env org ?p1 st1 = None"
    using unknown(1) find_lifecycle_cong[OF st1(1)] by simp
  have res: "record_iso_result env now org r st =
      obind (payment_steps env now org m ?t [d1, d2] r) (\<lambda>r' st'. (Inr r', update_lifecycle_status now r' st')) st1"
    using version two by (simp add: record_iso_result_def Let_def new p correlate_and_build_lifecycle_def)
  have "lf_lifecycle_id ?l \<notin> lf_lifecycle_id ` set (op_lifecycles st1)"
    using fresh by (auto simp: new_lifecycle_def new_key_def st1)
  moreover have "case lf_amount_minor ?l of None \<Rightarrow> True | Some n \<Rightarrow> int4_ok n"
    using fits by (cases "cp_amount d1") (simp_all add: new_lifecycle_def profile_from_dict_def)
  ultimately obtain st0 where "add_lifecycle ?l st1 = (Inr (), st0)" by (simp add: add_lifecycle_def)
  then obtain r1 st2 where step1: "payment_step env now org m ?t d1 r st1 = (Inr r1, st2)"
    by (simp add: payment_step_def Let_def none obind_def)
  then have st2: "op_lifecycles st2 = op_lifecycles st @ [?l]" "map lv_lifecycle_id (op_events st2) = map lv_lifecycle_id (op_events st) @ [lf_id ?l]"
    by (auto simp: payment_step_def Let_def none obind_def add_lifecycle_def add_iso_event_def iso_event_def st1 split: if_splits)
  have cond: "profile_conditions ?p2 \<noteq> []" "list_ex (\<lambda>c. c ?l) (profile_conditions ?p2)"
    using same by (simp_all add: profile_conditions_def profile_from_dict_def new_lifecycle_def)
  let ?P = "\<lambda>x. lf_organization_id x = org \<and> list_ex (\<lambda>c. c x) (profile_conditions ?p2)"
  have "select_where (oe_scan env) ?P (op_lifecycles st) = []"
    using unknown(2) cond(1) by (auto simp: find_lifecycle_def find_lifecycle_where_def scalars_first_def split: list.splits)
  then have "filter ?P (op_lifecycles st) = []"
    using length_select_where[OF assms(1), of ?P "op_lifecycles st"] by simp
  moreover have "lf_organization_id ?l = org" by (simp add: new_lifecycle_def)
  ultimately have "select_where (oe_scan env) ?P (op_lifecycles st2) = [?l]"
    using cond(2) by (intro select_where_unique[OF assms(1)]) (simp add: st2)
  then have found: "find_lifecycle env org ?p2 st2 = Some ?l"
    using cond(1) by (simp add: find_lifecycle_def find_lifecycle_where_def scalars_first_def)
  obtain y st' where run: "obind (payment_steps env now org m ?t [d1, d2] r)
      (\<lambda>r' st'. (Inr r', update_lifecycle_status now r' st')) st1 = (Inr y, st')"
    by (simp add: obind_def step1 payment_step_def[of env now org m ?t d2] Let_def found)
  then have "ir_lifecycle_id y = Some (lf_id ?l) \<and> map lf_id (op_lifecycles st') = map lf_id (op_lifecycles st2) \<and>
      map lv_lifecycle_id (op_events st') = map lv_lifecycle_id (op_events st2) @ [lf_id ?l]"
    by (auto simp: obind_def step1 payment_step_def[of env now org m ?t d2] Let_def found with_correlation_def
        add_iso_event_def iso_event_def update_lifecycle_status_def set_lifecycle_def map_update_rows)
  then show ?thesis
    using st2 res run by (intro exI[of _ y] exI[of _ st'] exI[of _ ?l]) (simp add: new_lifecycle_def profile_from_dict_def)
qed

section \<open>What account reconciliation never sees\<close>

definition ACCOUNT_CODES :: "string list" where
  "ACCOUNT_CODES = [RECON_ACCOUNT_EXACT, RECON_CREDIT_DEBIT_EXPECTED, RECON_ACCOUNT_CONFLICT, RECON_CREDIT_DEBIT_CONFLICT,
     RECON_UETR_EXACT]"

text \<open>No lifecycle knows an account or a UETR, and no reconciliation rests on one.\<close>

definition blind :: "Ops \<Rightarrow> bool" where
  "blind st \<longleftrightarrow>
     (\<forall>l\<in>set (op_lifecycles st). lf_debtor_account l = None \<and> lf_creditor_account l = None \<and> lf_uetr l = None) \<and>
     (\<forall>x\<in>set (op_reconciliations st). set (rx_evidence x @ rx_conflicts x) \<inter> set ACCOUNT_CODES = {} \<and>
        rx_classification x \<noteq> ''ACCOUNT_MISMATCH'')"

definition stays_blind :: "Ops \<Rightarrow> Ops \<Rightarrow> bool" where
  "stays_blind st st' \<longleftrightarrow> (blind st \<longrightarrow> blind st')"

interpretation stays_blind: step_relation stays_blind
  by unfold_locales (simp_all add: stays_blind_def)

lemma blind_cong:
  "op_lifecycles st' = op_lifecycles st \<Longrightarrow> op_reconciliations st' = op_reconciliations st \<Longrightarrow> stays_blind st st'"
  by (simp add: stays_blind_def blind_def)

lemma account_code_distinct:
  "set [RECON_TXID_EXACT, RECON_E2E_EXACT, RECON_INSTR_EXACT, RECON_ACCOUNT_SERVICER_EXACT, RECON_AMOUNT_EXACT,
     RECON_CURRENCY_EXACT, RECON_REFERENCE_NORMALIZED_EXACT, RECON_ID_CONFLICT, RECON_AMOUNT_CONFLICT, RECON_CURRENCY_CONFLICT] \<inter>
     set ACCOUNT_CODES = {}"
  by code_simp

definition code_free :: "findings \<Rightarrow> bool" where
  "code_free f \<longleftrightarrow> set (fst f @ snd f) \<inter> set ACCOUNT_CODES = {}"

lemma code_free_simps [simp]: "code_free ([], [])"
  by (simp add: code_free_def)

lemma compare_free:
  "code_free f \<Longrightarrow> c \<notin> set ACCOUNT_CODES \<Longrightarrow> code_free (recon_compare a b c f)"
  using account_code_distinct by (cases f) (auto simp: recon_compare_def code_free_def)

lemma compare_none [simp]: "recon_compare a None c f = f"
  by (cases f) (simp add: recon_compare_def)

lemma amount_free: "code_free f \<Longrightarrow> code_free (amount_findings i lc f)"
  using account_code_distinct by (auto simp: amount_findings_def code_free_def split: option.split)

lemma currency_free: "code_free f \<Longrightarrow> code_free (currency_findings i lc f)"
  using account_code_distinct by (auto simp: currency_findings_def code_free_def)

lemma reference_free: "code_free f \<Longrightarrow> code_free (reference_findings i lc f)"
  using account_code_distinct by (auto simp: reference_findings_def code_free_def add_when_def)

lemma account_free:
  "lc_debtor_account lc = None \<Longrightarrow> lc_creditor_account lc = None \<Longrightarrow> account_findings a c lc f = f"
  by (simp add: account_findings_def expected_direction_def account_matches_def add_when_def Let_def)

lemma blind_reconcile:
  assumes "lf_debtor_account l = None" "lf_creditor_account l = None" "lf_uetr l = None"
  shows "set (rr_evidence (reconcile_account_entry e a (account_context l)) @
      rr_conflicts (reconcile_account_entry e a (account_context l))) \<inter> set ACCOUNT_CODES = {} \<and>
    rr_classification (reconcile_account_entry e a (account_context l)) \<noteq> ACCOUNT_MISMATCH"
proof -
  let ?lc = "account_context l" and ?i = "entry_identity e a"
  let ?f = "reference_findings ?i ?lc (currency_findings ?i ?lc (amount_findings ?i ?lc (identifier_findings ?i ?lc)))"
  have id_free: "code_free (identifier_findings ?i ?lc)"
    using assms account_code_distinct
    by (simp add: identifier_findings_def account_context_def compare_free)
  have free: "code_free ?f" by (intro reference_free currency_free amount_free id_free)
  have r: "reconcile_account_entry e a ?lc = \<lparr>rr_classification = recon_classify (fst ?f) (snd ?f),
      rr_evidence = fst ?f, rr_conflicts = snd ?f, rr_match_score = recon_score (fst ?f)\<rparr>"
    using assms by (simp add: reconcile_account_entry_def Let_def account_free account_context_def)
  have "RECON_ACCOUNT_CONFLICT \<notin> set (snd ?f)" using free by (auto simp: code_free_def ACCOUNT_CODES_def)
  then have "recon_classify (fst ?f) (snd ?f) \<noteq> ACCOUNT_MISMATCH" by (simp add: recon_classify_def Let_def)
  then show ?thesis using free by (simp add: r code_free_def)
qed

lemma stays_blind_reconciliation:
  assumes "set (ev @ co) \<inter> set ACCOUNT_CODES = {}" "c \<noteq> ACCOUNT_MISMATCH"
  shows "stays_blind st (persist_reconciliation env now org er lid c s ev co st)"
proof -
  have "ARS_value c \<noteq> ''ACCOUNT_MISMATCH''" using assms(2) by (cases c) (simp_all add: ARS_value_def)
  with assms(1) show ?thesis by (simp add: stays_blind_def blind_def persist_reconciliation_def Let_def)
qed

lemma stays_blind_case: "stays_blind st (snd (ensure_case env now org er c st))"
  by (rule blind_cong) (simp_all add: ensure_case_def add_case_def Let_def)

lemma stays_blind_event: "stays_blind st (add_account_event env now org l e report t st)"
  by (rule blind_cong) (simp_all add: add_account_event_def)

lemma stays_blind_set_entry: "stays_blind st (set_entry k f st)"
  by (rule blind_cong) (simp_all add: set_entry_def)

lemma stays_blind_reconcile:
  assumes "\<And>l. lc = Some l \<Longrightarrow> l \<in> set (op_lifecycles st)"
  shows "stays_blind st (snd (reconcile_and_persist env now org er e report lc st))"
proof (cases lc)
  case None
  show ?thesis
    unfolding reconcile_and_persist_def None option.case snd_conv
    by (rule stays_blind.then_[OF stays_blind_set_entry stays_blind_reconciliation]) simp_all
next
  case (Some l)
  let ?r = "reconcile_account_entry e (rp_account report) (account_context l)"
  define st1 where "st1 = set_entry (er_id er) (\<lambda>x. x\<lparr>er_reconciliation_status := Some (ARS_value (rr_classification ?r)),
    er_match_score := Some (rr_match_score ?r), er_evidence := rr_evidence ?r, er_conflicts := rr_conflicts ?r,
    er_lifecycle_id := Some (lf_id l)\<rparr>) st"
  define st2 where "st2 = persist_reconciliation env now org er (Some (lf_id l)) (rr_classification ?r)
    (rr_match_score ?r) (rr_evidence ?r) (rr_conflicts ?r) st1"
  define st3 where "st3 = add_account_event env now org (lf_id l) e report
    (if ae_credit_debit e = Some DBIT then ''DEBIT_RECORDED'' else ''CREDIT_RECORDED'') st2"
  have "stays_blind st st2"
  proof (cases "blind st")
    case True
    then have "lf_debtor_account l = None" "lf_creditor_account l = None" "lf_uetr l = None"
      using assms[OF Some] by (auto simp: blind_def)
    note r = blind_reconcile[OF this, of e "rp_account report"]
    have "stays_blind st st1" unfolding st1_def by (rule stays_blind_set_entry)
    also have "stays_blind st1 st2"
      unfolding st2_def by (rule stays_blind_reconciliation[OF conjunct1[OF r] conjunct2[OF r]])
    finally (stays_blind.then_) show ?thesis .
  qed (simp add: stays_blind_def)
  then have run: "stays_blind st st3"
    unfolding st3_def by (rule stays_blind.then_[OF _ stays_blind_event])
  show ?thesis
    unfolding reconcile_and_persist_def Some option.case Let_def st1_def[symmetric] st2_def[symmetric] st3_def[symmetric]
    using run stays_blind.then_[OF run stays_blind_case] by simp
qed

lemma stays_blind_duplicate: "stays_blind st (snd (mark_duplicate env now org e report er d lid st))"
  by (cases lid) (auto simp: mark_duplicate_def Let_def intro: stays_blind_set_entry
      stays_blind.then_[OF stays_blind_set_entry stays_blind_event] stays_blind.then_[OF stays_blind_set_entry stays_blind_case])

lemma stays_blind_ingest_entry:
  assumes "scan_ok (oe_scan env)"
  shows "stays_blind st (snd (ingest_entry env now org report row e st))"
proof -
  have add: "stays_blind s (snd (add_entry r s))" for r s
    by (rule blind_cong) (simp_all add: add_entry_def)
  have tail: "stays_blind s (snd (case dup of
      None \<Rightarrow> reconcile_and_persist env now org er e report (find_lifecycle_for_entry env org e s) s
    | Some d \<Rightarrow> mark_duplicate env now org e report er d lid s))" for s dup er lid
    using find_lifecycle_where_of[OF assms] stays_blind_duplicate
    by (cases dup) (auto simp: find_lifecycle_for_entry_def intro!: stays_blind_reconcile)
  show ?thesis
    by (auto simp: ingest_entry_def Let_def stays_blind.stay intro!: stays_blind.bind_step add tail split: sum.split)
qed

lemma stays_blind_ingest:
  assumes "scan_ok (oe_scan env)"
  shows "stays_blind st (snd (ingest_account_report env now org mid reports st))"
proof (induction reports arbitrary: st)
  case (Cons r rs)
  have report: "stays_blind s (snd (persist_report env now org r mid s))"
      "stays_blind s (snd (persist_balances env now org r row s))" for row s
    by (rule blind_cong; simp add: persist_report_def persist_balances_def Let_def)+
  have "stays_blind s (snd (ingest_report env now org mid r s))" for s
    unfolding ingest_report_def
    by (intro stays_blind.bind_step stays_blind.each_step stays_blind_ingest_entry[OF assms] report)
      (simp add: stays_blind.stay)
  then show ?case
    unfolding ingest_account_report.simps
    by (intro stays_blind.bind_step Cons.IH) (simp_all add: stays_blind.stay)
qed (simp add: stays_blind.stay)

lemma blind_set_lifecycle:
  assumes "\<And>l. lf_debtor_account (f l) = lf_debtor_account l" "\<And>l. lf_creditor_account (f l) = lf_creditor_account l"
    and "\<And>l. lf_uetr (f l) = lf_uetr l"
  shows "stays_blind st (set_lifecycle k f st)"
  using assms by (auto simp: stays_blind_def blind_def set_lifecycle_def set_update_rows)

lemma stays_blind_iso_event: "stays_blind st (add_iso_event env now org k r m t c st)"
  by (rule blind_cong) (simp_all add: add_iso_event_def)

lemma stays_blind_status_step: "stays_blind st (snd (status_step env now org m t d (r, st)))"
  by (auto simp: status_step_def Let_def stays_blind.stay split: option.split
      intro: stays_blind_iso_event stays_blind.then_[OF stays_blind_iso_event blind_set_lifecycle])

lemma stays_blind_status_steps: "stays_blind st (snd (fold (status_step env now org m t) ds (r, st)))"
proof (induction ds arbitrary: r st)
  case (Cons d ds)
  obtain r' st' where "status_step env now org m t d (r, st) = (r', st')" by force
  then show ?case
    using Cons.IH[of st' r'] stays_blind_status_step[of st env now org m t d r] by (auto intro: stays_blind.then_)
qed (simp add: stays_blind.stay)

lemma stays_blind_payment_step: "stays_blind st (snd (payment_step env now org m t d r st))"
proof -
  have "stays_blind st (snd (add_lifecycle (new_lifecycle env now org (profile_from_dict d) st) st))"
    by (auto simp: stays_blind_def blind_def add_lifecycle_def new_lifecycle_def profile_from_dict_def)
  then show ?thesis
    by (auto simp: payment_step_def Let_def intro!: stays_blind.bind_step stays_blind_iso_event split: option.split)
qed

lemma stays_blind_payment_steps: "stays_blind st (snd (payment_steps env now org m t ds r st))"
proof (induction ds arbitrary: r st)
  case (Cons d ds)
  show ?case
    unfolding payment_steps.simps by (intro stays_blind.bind_step stays_blind_payment_step Cons.IH)
qed (simp add: stays_blind.stay)

lemma stays_blind_record:
  assumes "scan_ok (oe_scan env)"
  shows "stays_blind st (snd (record_iso_result env now org r st))"
proof (cases "find_by_hash env org (message_hash_from_result env r) st")
  case (Some m)
  then show ?thesis by (simp add: record_iso_result_def Let_def stays_blind.stay)
next
  case None
  obtain m st1 where p: "persist_iso_message env now org r (message_hash_from_result env r) st = (m, st1)" by force
  then have run: "stays_blind st st1" by (intro blind_cong) (auto simp: persist_iso_message_def Let_def)
  have upd: "stays_blind s (update_lifecycle_status now r' s)" for r' s
    by (auto simp: update_lifecycle_status_def stays_blind.stay intro: blind_set_lifecycle)
  have pay: "stays_blind st1 (snd (obind (payment_steps env now org m t ds r) (\<lambda>r' st'. (Inr r', update_lifecycle_status now r' st')) st1))" for t ds
    by (intro stays_blind.bind_step stays_blind_payment_steps) (simp add: upd)
  have corr: "stays_blind st1 (snd (correlate_and_build_lifecycle env now org r m st1))"
    using pay stays_blind_status_steps by (simp add: correlate_and_build_lifecycle_def Let_def split_beta)
  have ingest: "stays_blind st1 (snd (obind (ingest_account_report env now org (Some (ms_id m)) (ir_account_reports r))
      (\<lambda>rows st2. (Inr (f rows), st2)) st1))" for f :: "AccountReportRow list \<Rightarrow> IsoAnalysisResult"
    by (intro stays_blind.bind_step stays_blind_ingest[OF assms]) (simp add: stays_blind.stay)
  show ?thesis
    using stays_blind.then_[OF run ingest] stays_blind.then_[OF run corr]
    by (simp add: record_iso_result_def Let_def None p)
qed

lemma stays_blind_step:
  assumes "scan_ok (oe_scan env)" "service_step env org st st'"
  shows "stays_blind st st'"
  using assms(2)
proof cases
  case (step_missing now w)
  have "stays_blind s (snd (flag_missing env now org l s))" for l s
    by (rule blind_cong) (auto simp: flag_missing_def add_case_def)
  then have "stays_blind s (snd (flag_all env now org ls s))" for ls s
  proof (induction ls arbitrary: s)
    case (Cons l ls)
    then show ?case unfolding flag_all.simps
      by (intro stays_blind.bind_step) (simp_all add: stays_blind.stay)
  qed (simp add: stays_blind.stay)
  then show ?thesis by (simp add: step_missing detect_missing_account_events_def)
next
  case (step_decide now i a who comment)
  then show ?thesis
    by (auto simp: decide_account_reconciliation_def Let_def stays_blind_def blind_def update_rows_all
        split: sum.split option.split)
qed (auto simp: stays_blind_record[OF assms(1)] transition_case_def decide_correlation_def persist_analysis_def Let_def
    stays_blind.stay intro!: blind_cong split: sum.split option.split)

text \<open>C8: 
  In every store the services reach from an empty one, no lifecycle carries an account or a UETR,
  and no account reconciliation has compared accounts, expected directions or UETRs: an entry on any
  account matches, and the classification ACCOUNT_MISMATCH never occurs.
\<close>

theorem accounts_never_compared:
  assumes "scan_ok (oe_scan env)" "service_run env orgs st st'" "op_lifecycles st = []" "op_reconciliations st = []"
  shows "(\<forall>l\<in>set (op_lifecycles st'). lf_debtor_account l = None \<and> lf_creditor_account l = None \<and> lf_uetr l = None) \<and>
    (\<forall>x\<in>set (op_reconciliations st'). set (rx_evidence x @ rx_conflicts x) \<inter>
        {RECON_ACCOUNT_EXACT, RECON_CREDIT_DEBIT_EXPECTED, RECON_ACCOUNT_CONFLICT, RECON_CREDIT_DEBIT_CONFLICT,
         RECON_UETR_EXACT} = {} \<and> rx_classification x \<noteq> ''ACCOUNT_MISMATCH'')"
proof -
  have "stays_blind st st'"
    using assms(2)
  proof (induction rule: service_run.induct)
    case (run_more st st1 org st2)
    then show ?case using stays_blind_step[OF assms(1)] stays_blind.then_ by blast
  qed (simp add: stays_blind.stay)
  moreover have "blind st" by (simp add: blind_def assms(3,4))
  ultimately have "blind st'" by (simp add: stays_blind_def)
  then show ?thesis by (simp add: blind_def ACCOUNT_CODES_def)
qed

section \<open>History\<close>

text \<open>What is recorded stays recorded: three tables only grow, and a decided case stays as it is.\<close>

definition history :: "Ops \<Rightarrow> Ops \<Rightarrow> bool" where
  "history st st' \<longleftrightarrow> prefix (op_audit st) (op_audit st') \<and> prefix (op_actions st) (op_actions st') \<and>
     prefix (op_events st) (op_events st') \<and>
     (\<forall>c\<in>set (op_cases st). closed_status (pc_status c) \<longrightarrow> c \<in> set (op_cases st'))"

interpretation history: step_relation history
  by unfold_locales (auto simp: history_def intro: prefix_order.trans)

lemma history_extends: "extends st st' \<Longrightarrow> history st st'"
  by (auto simp: extends_def history_def dest: set_mono_prefix)

lemma history_cong:
  "op_audit st' = op_audit st \<Longrightarrow> op_actions st' = op_actions st \<Longrightarrow> op_cases st' = op_cases st \<Longrightarrow>
     prefix (op_events st) (op_events st') \<Longrightarrow> history st st'"
  by (simp add: history_def)

lemma history_status_step: "history st (snd (status_step env now org m t d (r, st)))"
  by (rule history_cong) (auto simp: status_step_def Let_def add_iso_event_def set_lifecycle_def split: option.split)

lemma history_status_steps: "history st (snd (fold (status_step env now org m t) ds (r, st)))"
proof (induction ds arbitrary: r st)
  case (Cons d ds)
  obtain r' st' where "status_step env now org m t d (r, st) = (r', st')" by force
  then show ?case
    using Cons.IH[of st' r'] history_status_step[of st env now org m t d r] by (auto intro: history.then_)
qed (simp add: history.stay)

lemma history_payment_step: "history st (snd (payment_step env now org m t d r st))"
  by (rule history_cong) (auto simp: payment_step_def Let_def obind_def add_lifecycle_def add_iso_event_def split: option.split)

lemma history_payment_steps: "history st (snd (payment_steps env now org m t ds r st))"
proof (induction ds arbitrary: r st)
  case (Cons d ds)
  show ?case
    unfolding payment_steps.simps by (intro history.bind_step history_payment_step Cons.IH)
qed (simp add: history.stay)

lemma history_record: "history st (snd (record_iso_result env now org r st))"
proof (cases "find_by_hash env org (message_hash_from_result env r) st")
  case (Some m)
  then show ?thesis by (simp add: record_iso_result_def Let_def history.stay)
next
  case None
  obtain m st1 where p: "persist_iso_message env now org r (message_hash_from_result env r) st = (m, st1)" by force
  then have run: "history st st1" by (intro history_cong) (auto simp: persist_iso_message_def Let_def)
  have upd: "history s (update_lifecycle_status now r' s)" for r' s
    by (rule history_cong) (simp_all add: update_lifecycle_status_def set_lifecycle_def)
  have pay: "history st1 (snd (obind (payment_steps env now org m t ds r) (\<lambda>r' st'. (Inr r', update_lifecycle_status now r' st')) st1))" for t ds
    by (intro history.bind_step history_payment_steps) (simp add: upd)
  have corr: "history st1 (snd (correlate_and_build_lifecycle env now org r m st1))"
    using pay history_status_steps by (simp add: correlate_and_build_lifecycle_def Let_def split_beta)
  have ingest: "history st1 (snd (obind (ingest_account_report env now org (Some (ms_id m)) (ir_account_reports r))
      (\<lambda>rows st2. (Inr (f rows), st2)) st1))" for f :: "AccountReportRow list \<Rightarrow> IsoAnalysisResult"
    by (intro history.bind_step history_extends extends_ingest) (simp add: extends.stay)
  show ?thesis
    using history.then_[OF run ingest] history.then_[OF run corr]
    by (simp add: record_iso_result_def Let_def None p)
qed

lemma history_detect: "history st (snd (detect_missing_account_events env now w org st))"
proof -
  have "extends s (snd (flag_missing env now org l s))" for l s
    using extends_add_case[of s "review_case (new_key env s) (missing_case_id l) org ''MISSING_ACCOUNT_EVENT'' now" "[]"]
    by (auto simp: flag_missing_def extends.stay split: prod.splits sum.splits)
  then have "extends s (snd (flag_all env now org ls s))" for ls s
  proof (induction ls arbitrary: s)
    case (Cons l ls)
    then show ?case unfolding flag_all.simps by (intro extends.bind_step) (simp_all add: extends.stay)
  qed (simp add: extends.stay)
  then show ?thesis by (simp add: detect_missing_account_events_def history_extends)
qed

lemma history_transition:
  assumes "scan_ok (oe_scan env)" "distinct (map pc_id (op_cases st))"
  shows "history st (snd (transition_case env now org cid a who comment st))"
proof (cases "get_case env org cid st")
  case (Inr c)
  then have c: "c \<in> set (op_cases st)" using get_one_mem[OF assms(1) Inr[unfolded get_case_def]] by simp
  have same: "x = c" if "x \<in> set (op_cases st)" "pc_id x = pc_id c" for x
    using that c assms(2) by (metis distinct_map inj_onD)
  have "x \<in> set (update_rows (\<lambda>r. pc_id r = pc_id c) (\<lambda>r. r\<lparr>pc_status := CaseStatus_value s\<rparr>) (op_cases st))"
    if "x \<in> set (op_cases st)" "closed_status (pc_status x)"
      "\<not> (closed_status (pc_status c) \<and> pc_status c \<noteq> CaseStatus_value s)" for x s
  proof (cases "pc_id x = pc_id c")
    case True
    have "CaseStatus_value s = pc_status x" using that(2,3) same[OF that(1) True] by auto
    then have "x = x\<lparr>pc_status := CaseStatus_value s\<rparr>" by simp
    with True that(1) show ?thesis by (force simp: update_rows_def)
  qed (use that(1) in \<open>force simp: update_rows_def\<close>)
  then show ?thesis
    by (auto simp: transition_case_def Inr Let_def history_def split: option.split)
qed (simp add: transition_case_def history.stay)

lemma history_step:
  assumes "scan_ok (oe_scan env)" "ops_ok env st" "service_step env org st st'"
  shows "history st st'"
  using assms(3)
proof cases
  case (step_case now cid a who comment)
  then show ?thesis using history_transition[OF assms(1)] assms(2) by (simp add: ops_ok_def keys_used_def)
next
  case (step_analysis now ms r)
  then show ?thesis by (auto simp: persist_analysis_def Let_def history_def)
qed (auto simp: history_record history_detect decide_account_reconciliation_def decide_correlation_def Let_def
    history.stay intro!: history_cong split: sum.split option.split)

text \<open>C5: 
  In every run of the services the audit trail, the operator actions and the lifecycle events are
  only appended to, and a case that is approved, rejected or closed never changes again.
\<close>

theorem recorded_history_kept:
  assumes "scan_ok (oe_scan env)" "inj (oe_uid env)" "ops_ok env st" "service_run env orgs st st'"
  shows "prefix (op_audit st) (op_audit st') \<and> prefix (op_actions st) (op_actions st') \<and>
    prefix (op_events st) (op_events st') \<and>
    (\<forall>c\<in>set (op_cases st). pc_status c \<in> {''APPROVED'', ''REJECTED'', ''CLOSED''} \<longrightarrow> c \<in> set (op_cases st'))"
proof -
  have "history st st' \<and> ops_ok env st'"
    using assms(4,3)
  proof (induction rule: service_run.induct)
    case (run_more st st1 org st2)
    then have ok: "history st st1" "ops_ok env st1" by simp_all
    have "ops_ok env st2"
      using service_step_tenant[OF assms(1,2) run_more.hyps(3)] ok(2) by (simp add: tenant_step_def)
    then show ?case using history.then_[OF ok(1) history_step[OF assms(1) ok(2) run_more.hyps(3)]] by simp
  qed (simp add: history.stay)
  then show ?thesis by (simp add: history_def closed_status_def)
qed

section \<open>Persisted analyses\<close>

text \<open>
  Of the rows that a persisted analysis adds, only the case belongs to the organization: its
  findings, its run, its repair candidate and its audit event belong to none, so the audit trail of
  the organization does not show the analysis.
\<close>

theorem analysis_leaves_no_audit:
  assumes "persist_analysis env now ms (Some org) r st = (Inr u, st')"
  shows "map pc_case_id (op_cases (own org st')) = map pc_case_id (op_cases (own org st)) @ [ar_case_id r] \<and>
    (own o' st')\<lparr>op_cases := []\<rparr> = (own o' st)\<lparr>op_cases := []\<rparr> \<and>
    length (op_audit st') = Suc (length (op_audit st))"
proof -
  have found: "filter (\<lambda>x. fd_organization_id x = Some o') (map (\<lambda>(i, f). finding_row (k i) cid None f) fs) = []" for k cid fs
    by (auto simp: filter_empty_conv finding_row_def)
  show ?thesis
    using assms
    by (cases "truthy (ar_candidate_validation_status r)")
      (clarsimp simp: persist_analysis_def Let_def own_def analysis_case_def found audit_event_def split: if_splits)+
qed

end
