(* ===== verification/PO_UserProps.thy ===== *)
theory PO_UserProps
  imports PO_Users
begin

text \<open>
  Results on identities: a stored password verifies exactly the passwords with its digest, five
  wrong passwords lock an account for fifteen minutes and no longer, a refused login says nothing
  about the account, and a session that has ended never resolves again. The last two rest on
  \<open>id_ok\<close>, the invariant of the store, which every operation keeps (\<open>id_step\<close>).
\<close>

section \<open>Hexadecimal text\<close>

lemma hex_digits_ok:
  "list_all (\<lambda>n. hex_value (hex_digit n) = Some n \<and> \<not> is_space (hex_digit n) \<and> hex_digit n \<noteq> CHR ''$'') [0..<16]"
  by code_simp

lemma hex_digit_facts:
  "n < 16 \<Longrightarrow> hex_value (hex_digit n) = Some n" "n < 16 \<Longrightarrow> \<not> is_space (hex_digit n)"
  "n < 16 \<Longrightarrow> hex_digit n \<noteq> CHR ''$''"
  using hex_digits_ok by (auto simp: list_all_iff)

lemma byte_halves: "(of_char c :: nat) div 16 < 16" "(of_char c :: nat) mod 16 < 16"
  using nat_of_char_less_256[of c] by (auto intro: less_mult_imp_div_less)

lemma fromhex_hex: "bytes_fromhex (bytes_hex s) = Some s"
proof (induction s)
  case (Cons c s)
  have "char_of (16 * ((of_char c :: nat) div 16) + of_char c mod 16) = c" by simp
  then show ?case using Cons byte_halves[of c]
    by (simp add: bytes_hex_def hex_byte_def Let_def hex_digit_facts)
qed (simp add: bytes_hex_def)

lemma hex_no_dollar: "CHR ''$'' \<notin> set (bytes_hex s)"
proof (induction s)
  case (Cons c s)
  have "CHR ''$'' \<notin> set (hex_byte c)"
    using hex_digit_facts(3)[OF byte_halves(1), of c] hex_digit_facts(3)[OF byte_halves(2), of c]
    by (auto simp: hex_byte_def Let_def)
  with Cons show ?case by (simp add: bytes_hex_def)
qed (simp add: bytes_hex_def)

section \<open>Passwords\<close>

lemma split_max_cut: "c \<notin> set a \<Longrightarrow> split_max (Suc n) c (a @ c # b) = a # split_max n c b"
  by (induction a) auto

lemma split_max_last: "c \<notin> set a \<Longrightarrow> split_max n c a = [a]"
  by (cases n) auto

lemma stored_hash_parts:
  "split_max 3 CHR ''$'' (hash_password cr salt p) =
     [PBKDF2_ALGORITHM, show_nat PBKDF2_ITERATIONS, bytes_hex salt, bytes_hex (cr_pbkdf2 cr p salt (int PBKDF2_ITERATIONS))]"
proof -
  have d: "CHR ''$'' \<notin> set PBKDF2_ALGORITHM" by (simp add: PBKDF2_ALGORITHM_def)
  have "list_all is_digit (show_nat PBKDF2_ITERATIONS)" by (rule list_all_show_nat)
  then have n: "CHR ''$'' \<notin> set (show_nat PBKDF2_ITERATIONS)" by (auto simp: list_all_iff is_digit_def)
  have three: "(3::nat) = Suc (Suc (Suc 0))" by simp
  show ?thesis
    unfolding hash_password_def three append_Cons append_Nil split_max_cut[OF d] split_max_cut[OF n]
      split_max_cut[OF hex_no_dollar] split_max.simps(1) ..
qed

lemma int_of_iterations: "int_of_text (show_nat PBKDF2_ITERATIONS) = Some (int PBKDF2_ITERATIONS)"
  by (rule int_of_show_nat)

text \<open>
  The stored hash of a password verifies exactly the passwords with the same PBKDF2 digest under
  the stored salt: the password itself always, another one only on a digest collision.
\<close>

theorem stored_password_verifies:
  "verify_password cr p' (hash_password cr salt p) \<longleftrightarrow>
     cr_pbkdf2 cr p' salt (int PBKDF2_ITERATIONS) = cr_pbkdf2 cr p salt (int PBKDF2_ITERATIONS)"
  by (simp add: verify_password_def stored_hash_parts fromhex_hex int_of_iterations)
    (simp add: PBKDF2_ITERATIONS_def)

lemma password_verifies: "verify_password cr p (hash_password cr salt p)"
  by (simp add: verify_password_def stored_hash_parts fromhex_hex int_of_iterations)
    (simp add: PBKDF2_ITERATIONS_def)

section \<open>The store invariant\<close>

definition id_ok :: "uuids \<Rightarrow> IdStore \<Rightarrow> bool" where
  "id_ok uid st \<longleftrightarrow>
     keys_used uid (id_uuids st) (map us_id (id_users st)) \<and> distinct (map us_email (id_users st)) \<and>
     keys_used uid (id_uuids st) (map se_id (id_sessions st)) \<and> distinct (map se_token_hash (id_sessions st)) \<and>
     (\<forall>u\<in>set (id_users st). us_failed_login_count u < MAX_FAILED_LOGINS) \<and>
     (\<forall>s\<in>set (id_sessions st). se_expires_at s = se_created_at s + minutes (60 * SESSION_TTL_HOURS))"

text \<open>Changing attributes other than the keys keeps the invariant.\<close>

lemma set_user_ok:
  assumes "id_ok uid st" "\<And>u. us_id (f u) = us_id u" "\<And>u. us_email (f u) = us_email u"
    and "\<And>u. us_failed_login_count u < MAX_FAILED_LOGINS \<Longrightarrow> us_failed_login_count (f u) < MAX_FAILED_LOGINS"
  shows "id_ok uid (set_user i f st)"
  using assms by (auto simp: id_ok_def set_user_def map_update_rows set_update_rows)

lemma update_sessions_ok:
  assumes "id_ok uid st" "\<And>s. se_id (f s) = se_id s" "\<And>s. se_token_hash (f s) = se_token_hash s"
    and "\<And>s. se_expires_at (f s) = se_expires_at s" "\<And>s. se_created_at (f s) = se_created_at s"
  shows "id_ok uid (st\<lparr>id_sessions := update_rows P f (id_sessions st)\<rparr>)"
  using assms by (auto simp: id_ok_def map_update_rows set_update_rows)

lemma set_session_ok:
  assumes "id_ok uid st" "\<And>s. se_id (f s) = se_id s" "\<And>s. se_token_hash (f s) = se_token_hash s"
    and "\<And>s. se_expires_at (f s) = se_expires_at s" "\<And>s. se_created_at (f s) = se_created_at s"
  shows "id_ok uid (set_session i f st)"
  using update_sessions_ok[OF assms] by (simp add: set_session_def)

lemma failed_login_counts [simp]:
  "us_id (failed_login now u) = us_id u" "us_email (failed_login now u) = us_email u"
  "us_failed_login_count (failed_login now u) < MAX_FAILED_LOGINS"
  by (simp_all add: failed_login_def Let_def MAX_FAILED_LOGINS_def)

lemma successful_login_keys [simp]:
  "us_id (successful_login now u) = us_id u" "us_email (successful_login now u) = us_email u"
  "us_failed_login_count (successful_login now u) = 0"
  by (simp_all add: successful_login_def)

lemma max_pos [simp]: "0 < MAX_FAILED_LOGINS"
  by (simp add: MAX_FAILED_LOGINS_def)

lemma create_user_ok:
  "inj uid \<Longrightarrow> id_ok uid st \<Longrightarrow> create_user cr uid now salt org email name pass role status st = Inr (u, st') \<Longrightarrow> id_ok uid st'"
  using keys_used_fresh[of uid "id_uuids st" "map us_id (id_users st)"]
    keys_used_grow[of uid "id_uuids st" "map se_id (id_sessions st)"]
  by (auto simp: create_user_def id_ok_def Let_def split: if_splits)

lemma authenticate_ok: "id_ok uid st \<Longrightarrow> id_ok uid (snd (authenticate cr scan now email pass st))"
  by (auto simp: authenticate_def intro!: set_user_ok split: sum.splits option.splits)

lemma create_session_ok:
  "inj uid \<Longrightarrow> id_ok uid st \<Longrightarrow> id_ok uid (snd (create_session cr uid now token user st))"
  using keys_used_fresh[of uid "id_uuids st" "map se_id (id_sessions st)"]
    keys_used_grow[of uid "id_uuids st" "map us_id (id_users st)"]
  by (auto simp: create_session_def id_ok_def Let_def)

lemma resolve_session_ok: "id_ok uid st \<Longrightarrow> id_ok uid (snd (resolve_session cr scan now token st))"
  by (auto simp: resolve_session_def intro!: set_session_ok split: sum.splits option.splits)

lemma revoke_session_ok: "id_ok uid st \<Longrightarrow> id_ok uid (snd (revoke_session cr scan now token st))"
  by (auto simp: revoke_session_def intro!: set_session_ok split: sum.splits option.splits)

lemma revoke_all_ok: "id_ok uid st \<Longrightarrow> id_ok uid (snd (revoke_all_sessions now i st))"
  unfolding revoke_all_sessions_def snd_conv by (rule update_sessions_ok) simp_all

lemma add_audit_ok: "id_ok uid st \<Longrightarrow> id_ok uid (add_audit e st)"
  by (auto simp: add_audit_def id_ok_def keys_used_grow)

lemma login_ok:
  assumes "inj uid" "id_ok uid st"
  shows "id_ok uid (snd (login cr scan uid now token email pass st))"
proof (cases "authenticate cr scan now email pass st")
  case (Pair r st1)
  have ok1: "id_ok uid st1" using authenticate_ok[OF assms(2), of cr scan now email pass] Pair by simp
  show ?thesis
  proof (cases r)
    case (Inl e)
    then show ?thesis using Pair ok1 by (cases e) (simp_all add: login_def)
  next
    case (Inr user)
    show ?thesis
      using Pair Inr create_session_ok[OF assms(1) ok1, of cr now token user]
      by (auto simp: login_def add_audit_ok split: prod.splits sum.splits)
  qed
qed

lemma logout_ok: "id_ok uid st \<Longrightarrow> id_ok uid (snd (logout cr scan uid now token st))"
  using resolve_session_ok[of uid st cr scan now token] revoke_session_ok[of uid _ cr scan now token]
  by (fastforce simp: logout_def add_audit_ok split: prod.splits sum.splits option.splits)

lemma session_info_ok: "id_ok uid st \<Longrightarrow> id_ok uid (snd (session_info cr scan now token st))"
  using resolve_session_ok[of uid st cr scan now token]
  by (auto simp: session_info_def split: prod.splits sum.splits option.splits)

lemma session_info_store: "snd (session_info cr scan now token st) = snd (resolve_session cr scan now token st)"
  by (auto simp: session_info_def split: prod.splits sum.splits option.splits)

lemma set_password_ok: "id_ok uid st \<Longrightarrow> id_ok uid (set_password cr now salt i pass st)"
  unfolding set_password_def by (intro revoke_all_ok set_user_ok) simp_all

lemma set_status_ok: "id_ok uid st \<Longrightarrow> id_ok uid (set_status now i status st)"
  unfolding set_status_def Let_def by (auto intro!: revoke_all_ok set_user_ok)

lemma set_role_ok: "id_ok uid st \<Longrightarrow> id_ok uid (set_role i role st)"
  unfolding set_role_def by (intro set_user_ok) simp_all

section \<open>Steps of the store\<close>

inductive id_step :: "Crypto \<Rightarrow> scan \<Rightarrow> uuids \<Rightarrow> IdStore \<Rightarrow> IdStore \<Rightarrow> bool"
  for cr :: Crypto and scan :: scan and uid :: uuids where
  step_create_user: "create_user cr uid now salt org email name pass role status st = Inr (u, st') \<Longrightarrow> id_step cr scan uid st st'"
| step_login: "id_step cr scan uid st (snd (login cr scan uid now token email pass st))"
| step_session_info: "id_step cr scan uid st (snd (session_info cr scan now token st))"
| step_logout: "id_step cr scan uid st (snd (logout cr scan uid now token st))"
| step_set_password: "id_step cr scan uid st (set_password cr now salt i pass st)"
| step_set_status: "id_step cr scan uid st (set_status now i status st)"
| step_set_role: "id_step cr scan uid st (set_role i role st)"
| step_api_client: "id_step cr scan uid st (snd (get_api_client cr scan now cid secret st))"
| step_create_client: "id_step cr scan uid st (snd (create_client cr uid now hex secret salt org profiles st))"

lemma clients_frame:
  "id_users (snd (get_api_client cr scan now cid secret st)) = id_users st"
  "id_sessions (snd (get_api_client cr scan now cid secret st)) = id_sessions st"
  "id_uuids (snd (get_api_client cr scan now cid secret st)) = id_uuids st"
  by (auto simp: get_api_client_def split: sum.splits option.splits bool.splits)

lemma create_client_frame:
  "id_users (snd (create_client cr uid now hex secret salt org profiles st)) = id_users st"
  "id_sessions (snd (create_client cr uid now hex secret salt org profiles st)) = id_sessions st"
  "id_uuids (snd (create_client cr uid now hex secret salt org profiles st)) \<in> {id_uuids st, Suc (id_uuids st)}"
  by (auto simp: create_client_def Let_def)

lemma id_ok_cong:
  "id_ok uid st \<Longrightarrow> id_users st' = id_users st \<Longrightarrow> id_sessions st' = id_sessions st \<Longrightarrow>
     id_uuids st' \<in> {id_uuids st, Suc (id_uuids st)} \<Longrightarrow> id_ok uid st'"
  by (auto simp: id_ok_def keys_used_grow)

lemma id_step_ok:
  assumes "inj uid" "id_step cr scan uid st st'" "id_ok uid st"
  shows "id_ok uid st'"
  using assms(2,1,3)
proof (induction rule: id_step.induct)
  case (step_create_user now salt org email name pass role status st u st')
  from create_user_ok[OF step_create_user.prems step_create_user.hyps] show ?case .
next
  case (step_api_client st now cid secret)
  from step_api_client.prems(2) show ?case by (rule id_ok_cong) (simp_all add: clients_frame)
next
  case (step_create_client st now hex secret salt org profiles)
  from step_create_client.prems(2) show ?case
    by (rule id_ok_cong) (simp_all only: create_client_frame)
qed (simp_all add: login_ok session_info_ok logout_ok set_password_ok set_status_ok set_role_ok)

text \<open>What a session keeps from one store to a later one: its keys, and its end.\<close>

definition session_key :: "UserSession \<Rightarrow> string \<times> string \<times> string \<times> instant" where
  "session_key s = (se_id s, se_user_id s, se_token_hash s, se_expires_at s)"

definition session_later :: "UserSession \<Rightarrow> UserSession \<Rightarrow> bool" where
  "session_later s s' \<longleftrightarrow> session_key s' = session_key s \<and> (se_revoked_at s \<noteq> None \<longrightarrow> se_revoked_at s' = se_revoked_at s)"

definition sessions_later :: "IdStore \<Rightarrow> IdStore \<Rightarrow> bool" where
  "sessions_later st st' \<longleftrightarrow> (\<forall>s\<in>set (id_sessions st). \<exists>s'\<in>set (id_sessions st'). session_later s s')"

lemma sessions_later_refl: "id_sessions st' = id_sessions st \<Longrightarrow> sessions_later st st'"
  by (auto simp: sessions_later_def session_later_def)

lemma sessions_later_trans: "sessions_later st st1 \<Longrightarrow> sessions_later st1 st2 \<Longrightarrow> sessions_later st st2"
  unfolding sessions_later_def session_later_def by (metis (no_types, lifting))

lemma sessions_later_map:
  "(\<And>s. s \<in> set (id_sessions st) \<Longrightarrow> session_later s (f s)) \<Longrightarrow>
     sessions_later st (st\<lparr>id_sessions := map f (id_sessions st)\<rparr>)"
  by (auto simp: sessions_later_def)

lemma sessions_later_update:
  assumes "\<And>s. P s \<Longrightarrow> session_later s (f s)"
  shows "sessions_later st (st\<lparr>id_sessions := update_rows P f (id_sessions st)\<rparr>)"
  unfolding update_rows_def by (rule sessions_later_map) (use assms in \<open>simp add: session_later_def\<close>)

lemma later_set_user [simp]: "sessions_later st (set_user i f st)"
  by (rule sessions_later_refl) (simp add: set_user_def)

lemma later_authenticate [simp]: "sessions_later st (snd (authenticate cr scan now email pass st))"
  by (auto simp: authenticate_def sessions_later_refl split: sum.splits option.splits)

lemma later_create_session [simp]: "sessions_later st (snd (create_session cr uid now token user st))"
  by (auto simp: create_session_def sessions_later_def session_later_def Let_def)

lemma later_resolve [simp]: "sessions_later st (snd (resolve_session cr scan now token st))"
proof -
  have "sessions_later st (set_session i (\<lambda>s. s\<lparr>se_last_seen_at := Some now\<rparr>) st)" for i
    unfolding set_session_def by (rule sessions_later_update) (simp add: session_later_def session_key_def)
  then show ?thesis
    by (auto simp: resolve_session_def sessions_later_refl split: sum.splits option.splits)
qed

text \<open>Only the session of the token is revoked, and only when it was not revoked before.\<close>

lemma session_by_token_in:
  "scan_ok scan \<Longrightarrow> session_by_token cr scan token st = Inr (Some s) \<Longrightarrow>
     s \<in> set (id_sessions st) \<and> se_token_hash s = hash_session_token cr token"
  using set_select_where[of scan "\<lambda>s. se_token_hash s = hash_session_token cr token" "id_sessions st"]
  by (auto simp: session_by_token_def scalar_one_or_none_cases)

lemma later_revoke:
  assumes "scan_ok scan" "id_ok uid st"
  shows "sessions_later st (snd (revoke_session cr scan now token st))"
proof -
  have "sessions_later st (set_session (se_id s) (\<lambda>s. s\<lparr>se_revoked_at := Some now\<rparr>) st)"
    if "session_by_token cr scan token st = Inr (Some s)" "se_revoked_at s = None" for s
  proof -
    have s: "s \<in> set (id_sessions st)" using session_by_token_in[OF assms(1) that(1)] by simp
    have u: "t = s" if "t \<in> set (id_sessions st)" "se_id t = se_id s" for t
      using assms(2) that s by (auto simp: id_ok_def keys_used_def distinct_map inj_on_def)
    have "session_later t (if se_id t = se_id s then t\<lparr>se_revoked_at := Some now\<rparr> else t)"
      if "t \<in> set (id_sessions st)" for t
      using u[OF that] \<open>se_revoked_at s = None\<close> by (auto simp: session_later_def session_key_def)
    then show ?thesis unfolding set_session_def update_rows_def by (rule sessions_later_map)
  qed
  then show ?thesis
    by (auto simp: revoke_session_def sessions_later_refl split: sum.splits option.splits)
qed

lemma later_revoke_all [simp]: "sessions_later st (snd (revoke_all_sessions now i st))"
  unfolding revoke_all_sessions_def snd_conv
  by (rule sessions_later_update) (simp add: session_later_def session_key_def)

lemma later_add_audit [simp]: "sessions_later st (add_audit e st')  = sessions_later st st'"
  by (simp add: sessions_later_def add_audit_def)

lemma later_login: "sessions_later st (snd (login cr scan uid now token email pass st))"
proof (cases "authenticate cr scan now email pass st")
  case (Pair r st1)
  have l1: "sessions_later st st1" using later_authenticate[of st cr scan now email pass] Pair by simp
  show ?thesis
  proof (cases r)
    case (Inl e)
    then show ?thesis using Pair l1 by (cases e) (simp_all add: login_def)
  next
    case (Inr user)
    show ?thesis
      using Pair Inr sessions_later_trans[OF l1 later_create_session[of st1 cr uid now token user]]
      by (auto simp: login_def split: prod.splits sum.splits)
  qed
qed

lemma later_logout:
  assumes "scan_ok scan" "id_ok uid st"
  shows "sessions_later st (snd (logout cr scan uid now token st))"
proof (cases "resolve_session cr scan now token st")
  case (Pair r st1)
  have l1: "sessions_later st st1" and ok: "id_ok uid st1"
    using later_resolve[of st cr scan now token] resolve_session_ok[OF assms(2), of cr scan now token] Pair by simp_all
  obtain r2 st2 where rev: "revoke_session cr scan now token st1 = (r2, st2)" by fastforce
  then have l2: "sessions_later st st2"
    using sessions_later_trans[OF l1 later_revoke[OF assms(1) ok, of cr now token]] by simp
  show ?thesis
  proof (cases r)
    case (Inl e)
    with Pair l1 show ?thesis by (simp add: logout_def)
  next
    case (Inr user)
    with Pair rev l2 show ?thesis by (cases r2; cases user) (simp_all add: logout_def)
  qed
qed

lemma id_step_later:
  assumes "scan_ok scan" "id_step cr scan uid st st'" "id_ok uid st"
  shows "sessions_later st st'"
  using assms(2,1,3)
proof (induction rule: id_step.induct)
  case (step_create_user now salt org email name pass role status st u st')
  then show ?case by (intro sessions_later_refl) (auto simp: create_user_def Let_def split: if_splits)
next
  case (step_session_info st now token)
  show ?case unfolding session_info_store by (rule later_resolve)
next
  case (step_set_password st now salt i pass)
  then show ?case unfolding set_password_def using sessions_later_trans later_set_user later_revoke_all by blast
next
  case (step_set_status st now i status)
  have "sessions_later st (snd (revoke_all_sessions now i (set_user i f st)))" for f
    using sessions_later_trans[OF later_set_user later_revoke_all] .
  then show ?case by (simp add: set_status_def Let_def)
qed (auto simp: later_login later_logout set_role_def clients_frame create_client_frame intro!: sessions_later_refl)

inductive id_steps :: "Crypto \<Rightarrow> scan \<Rightarrow> uuids \<Rightarrow> IdStore \<Rightarrow> IdStore \<Rightarrow> bool"
  for cr :: Crypto and scan :: scan and uid :: uuids where
  steps_none: "id_steps cr scan uid st st"
| steps_more: "id_steps cr scan uid st st1 \<Longrightarrow> id_step cr scan uid st1 st2 \<Longrightarrow> id_steps cr scan uid st st2"

lemma id_steps_later:
  assumes "scan_ok scan" "inj uid" "id_steps cr scan uid st st'" "id_ok uid st"
  shows "sessions_later st st' \<and> id_ok uid st'"
  using assms(3,4)
proof (induction rule: id_steps.induct)
  case (steps_none st)
  then show ?case by (simp add: sessions_later_refl)
next
  case (steps_more st st1 st2)
  then show ?case
    using id_step_later[OF assms(1)] id_step_ok[OF assms(2)] sessions_later_trans by blast
qed

section \<open>Sessions end for good\<close>

lemma filter_key_unique: "distinct (map f xs) \<Longrightarrow> x \<in> set xs \<Longrightarrow> filter (\<lambda>t. f t = f x) xs = [x]"
proof (induction xs)
  case (Cons y ys)
  show ?case
  proof (cases "y = x")
    case True
    with Cons.prems have "filter (\<lambda>t. f t = f x) ys = []" by (auto simp: filter_empty_conv image_iff)
    with True show ?thesis by simp
  next
    case False
    with Cons.prems have "x \<in> set ys" "f y \<noteq> f x" by auto
    with Cons show ?thesis by simp
  qed
qed simp

lemma session_by_token_unique:
  assumes "scan_ok scan" "id_ok uid st" "s \<in> set (id_sessions st)" "se_token_hash s = hash_session_token cr token"
  shows "session_by_token cr scan token st = Inr (Some s)"
proof -
  have "filter (\<lambda>t. se_token_hash t = hash_session_token cr token) (id_sessions st) = [s]"
    using filter_key_unique[of se_token_hash "id_sessions st" s] assms(2-4) by (simp add: id_ok_def)
  from select_where_unique[OF assms(1) this] show ?thesis
    by (simp add: session_by_token_def scalar_one_or_none_def)
qed

lemma session_dead:
  assumes "scan_ok scan" "id_ok uid st" "s \<in> set (id_sessions st)" "se_token_hash s = hash_session_token cr token"
    and "\<not> session_valid now s"
  shows "resolve_session cr scan now token st = (Inr None, st)"
  using session_by_token_unique[OF assms(1-4)] assms(5) by (simp add: resolve_session_def)

text \<open>C27: 
  After a password change, or after the account is disabled, no session the user had before
  resolves again, at whatever time and after whatever further operations; and no session ever
  resolves from eight hours after its creation on.
\<close>

theorem sessions_end_for_good:
  assumes ok: "scan_ok scan" "inj uid" "id_ok uid st"
    and s: "s \<in> set (id_sessions st)" "se_user_id s = i" "se_token_hash s = hash_session_token cr token"
    and later: "id_steps cr scan uid (set_password cr now salt i pass st) st' \<or>
      id_steps cr scan uid (set_status now i DISABLED st) st' \<or>
      id_steps cr scan uid st st' \<and> se_created_at s + minutes (60 * SESSION_TTL_HOURS) \<le> t"
  shows "resolve_session cr scan t token st' = (Inr None, st')"
proof -
  have revoked: "\<exists>s'\<in>set (id_sessions (snd (revoke_all_sessions now i (set_user i f st)))).
      session_later s s' \<and> se_revoked_at s' \<noteq> None" for f
  proof -
    let ?s = "if se_revoked_at s = None then s\<lparr>se_revoked_at := Some now\<rparr> else s"
    have "?s \<in> set (id_sessions (snd (revoke_all_sessions now i (set_user i f st))))"
      using s(1,2) by (force simp: revoke_all_sessions_def set_user_def set_update_rows)
    then show ?thesis by (rule bexI[rotated]) (simp add: session_later_def session_key_def)
  qed
  have dead: "resolve_session cr scan t token st' = (Inr None, st')"
    if run: "id_steps cr scan uid st0 st'" "id_ok uid st0" "s' \<in> set (id_sessions st0)" "session_later s s'"
      and ended: "se_revoked_at s' \<noteq> None \<or> se_expires_at s \<le> t" for st0 s'
  proof -
    have l: "sessions_later st0 st'" "id_ok uid st'" using id_steps_later[OF ok(1,2) run(1,2)] by simp_all
    from l(1) run(3) obtain u where u: "u \<in> set (id_sessions st')" "session_later s' u"
      unfolding sessions_later_def by blast
    have "se_token_hash u = hash_session_token cr token" "\<not> session_valid t u"
      using u(2) run(4) ended s(3) by (auto simp: session_later_def session_key_def session_valid_def)
    then show ?thesis by (rule session_dead[OF ok(1) l(2) u(1)])
  qed
  from later consider (password) "id_steps cr scan uid (set_password cr now salt i pass st) st'"
    | (status) "id_steps cr scan uid (set_status now i DISABLED st) st'"
    | (expired) "id_steps cr scan uid st st'" "se_created_at s + minutes (60 * SESSION_TTL_HOURS) \<le> t" by blast
  then show ?thesis
  proof cases
    case password
    then show ?thesis
      using revoked dead[OF password set_password_ok[OF ok(3)]] unfolding set_password_def by blast
  next
    case status
    then show ?thesis
      using revoked dead[OF status set_status_ok[OF ok(3)]] unfolding set_status_def Let_def by auto
  next
    case expired
    have "se_expires_at s = se_created_at s + minutes (60 * SESSION_TTL_HOURS)"
      using ok(3) s(1) by (simp add: id_ok_def)
    then show ?thesis using dead[OF expired(1) ok(3) s(1)] expired(2) by (simp add: session_later_def)
  qed
qed

section \<open>Login\<close>

text \<open>The one user of a normalized address.\<close>

definition user_of :: "IdStore \<Rightarrow> string \<Rightarrow> AppUser option" where
  "user_of st email = find (\<lambda>u. us_email u = normalize_email email) (id_users st)"

lemma get_user_unique:
  assumes "scan_ok scan" "id_ok uid st"
  shows "get_user_by_email scan email st = Inr (user_of st email)"
proof (cases "user_of st email")
  case None
  then have "filter (\<lambda>u. us_email u = normalize_email email) (id_users st) = []"
    by (simp add: user_of_def find_None_iff filter_empty_conv)
  from select_where_none[OF assms(1) this] None show ?thesis
    by (simp add: get_user_by_email_def scalar_one_or_none_def)
next
  case (Some u)
  then have u: "u \<in> set (id_users st)" "us_email u = normalize_email email"
    by (auto simp: user_of_def find_Some_iff)
  have "filter (\<lambda>v. us_email v = normalize_email email) (id_users st) = [u]"
    using filter_key_unique[of us_email "id_users st" u] assms(2) u by (simp add: id_ok_def)
  from select_where_unique[OF assms(1) this] Some show ?thesis
    by (simp add: get_user_by_email_def scalar_one_or_none_def)
qed

text \<open>C29: 
  A login that is refused says nothing about the account: an unknown address, a locked account
  and a wrong password give the same answer, and only the right password of an unlocked,
  disabled account is told that the account is disabled.
\<close>

theorem login_reveals_nothing:
  assumes "scan_ok scan" "id_ok uid st"
  shows "(fst (login cr scan uid now token email pass st) = Inl (HTTPException 401 ''Invalid email or password.'') \<longleftrightarrow>
      (case user_of st email of None \<Rightarrow> True
       | Some u \<Rightarrow> is_locked now u \<or> \<not> verify_password cr pass (us_password_hash u))) \<and>
    (fst (login cr scan uid now token email pass st) =
        Inl (HTTPException 403 ''Account disabled. Contact your administrator.'') \<longleftrightarrow>
      (\<exists>u. user_of st email = Some u \<and> \<not> is_locked now u \<and> verify_password cr pass (us_password_hash u) \<and>
           us_status u = DISABLED))"
proof (cases "user_of st email")
  case None
  then show ?thesis
    by (simp add: login_def authenticate_def get_user_unique[OF assms])
next
  case (Some u)
  have session: "fst (case create_session cr uid now token v st1 of (Inl e, st2) \<Rightarrow> (Inl e, st2)
      | (Inr (tok, ex), st2) \<Rightarrow> (Inr (f tok ex), g st2)) \<noteq> Inl (HTTPException n m)" for v st1 f g n m
    by (simp add: create_session_def Let_def)
  have st: "us_status u \<noteq> ACTIVE \<longleftrightarrow> us_status u = DISABLED" by (cases "us_status u") simp_all
  show ?thesis
    using st by (simp add: login_def authenticate_def get_user_unique[OF assms] Some session)
qed

section \<open>Lockout\<close>

lemma find_update_rows:
  "(\<And>r. P (f r) = P r) \<Longrightarrow> find P (update_rows Q f rs) = map_option (\<lambda>r. if Q r then f r else r) (find P rs)"
  by (induction rs) auto

lemma user_of_set_user:
  "(\<And>v. us_email (f v) = us_email v) \<Longrightarrow> user_of st email = Some u \<Longrightarrow>
     user_of (set_user (us_id u) f st) email = Some (f u)"
  by (simp add: user_of_def set_user_def find_update_rows)

text \<open>A sequence of attempts on one address, each with its time and its password.\<close>

fun login_attempts :: "Crypto \<Rightarrow> scan \<Rightarrow> string \<Rightarrow> (instant \<times> string) list \<Rightarrow> IdStore \<Rightarrow> IdStore" where
  "login_attempts cr scan email [] st = st"
| "login_attempts cr scan email ((t, pass) # rest) st =
     login_attempts cr scan email rest (snd (authenticate cr scan t email pass st))"

definition wrong_tries :: "Crypto \<Rightarrow> AppUser \<Rightarrow> (instant \<times> string) list \<Rightarrow> bool" where
  "wrong_tries cr u tries \<longleftrightarrow> list_all (\<lambda>(t, pass). \<not> verify_password cr pass (us_password_hash u)) tries"

lemma wrong_attempt:
  assumes "scan_ok scan" "id_ok uid st" "user_of st email = Some u" "us_locked_until u = None"
    and "\<not> verify_password cr pass (us_password_hash u)"
  shows "authenticate cr scan t email pass st =
      (Inl (AuthenticationError ''invalid credentials''), set_user (us_id u) (failed_login t) st)"
    and "user_of (set_user (us_id u) (failed_login t) st) email = Some (failed_login t u)"
  using assms by (simp_all add: authenticate_def get_user_unique is_locked_def user_of_set_user)

lemma attempts_wrong:
  assumes "scan_ok scan" "id_ok uid st" "user_of st email = Some u" "us_locked_until u = None"
    and "wrong_tries cr u tries" "us_failed_login_count u < MAX_FAILED_LOGINS"
    and "length tries = MAX_FAILED_LOGINS - us_failed_login_count u"
  shows "id_ok uid (login_attempts cr scan email tries st) \<and>
    user_of (login_attempts cr scan email tries st) email =
      Some (u\<lparr>us_failed_login_count := 0, us_locked_until := Some (fst (last tries) + minutes LOCKOUT_MINUTES)\<rparr>)"
  using assms(2-)
proof (induction tries arbitrary: st u)
  case Nil
  then show ?case by simp
next
  case (Cons tp rest)
  obtain t pass where tp: "tp = (t, pass)" by force
  have wrong: "\<not> verify_password cr pass (us_password_hash u)" using Cons.prems(4) by (simp add: wrong_tries_def tp)
  note auth = wrong_attempt[OF assms(1) Cons.prems(1-3) wrong, of t]
  have ok: "id_ok uid (set_user (us_id u) (failed_login t) st)"
    by (rule set_user_ok[OF Cons.prems(1)]) simp_all
  show ?case
  proof (cases "rest = []")
    case True
    with Cons.prems(5,6) have "MAX_FAILED_LOGINS \<le> Suc (us_failed_login_count u)" by simp
    then show ?thesis using True auth ok by (simp add: tp failed_login_def)
  next
    case False
    then obtain r rs where "rest = r # rs" by (cases rest) auto
    with Cons.prems(6) have few: "Suc (us_failed_login_count u) < MAX_FAILED_LOGINS" by simp
    then have next_u: "failed_login t u = u\<lparr>us_failed_login_count := Suc (us_failed_login_count u)\<rparr>"
      by (simp add: failed_login_def Let_def)
    show ?thesis
      using Cons.IH[OF ok auth(2)] Cons.prems(3,4,6) few False
      by (simp add: tp auth(1) next_u wrong_tries_def)
  qed
qed

text \<open>C28: 
  Wrong passwords up to the limit lock the account: for fifteen minutes every attempt is refused
  and changes nothing, the right password included, and from then on the right password logs an
  active user in again.
\<close>

theorem lockout_holds_and_ends:
  assumes "scan_ok scan" "id_ok uid st" "user_of st email = Some u" "us_locked_until u = None"
    and "wrong_tries cr u tries" "length tries = MAX_FAILED_LOGINS - us_failed_login_count u"
  shows "(\<forall>now pass. now < fst (last tries) + minutes LOCKOUT_MINUTES \<longrightarrow>
      authenticate cr scan now email pass (login_attempts cr scan email tries st) =
        (Inl (AuthenticationError ''account temporarily locked''), login_attempts cr scan email tries st)) \<and>
    (\<forall>now pass. fst (last tries) + minutes LOCKOUT_MINUTES \<le> now \<and>
      verify_password cr pass (us_password_hash u) \<and> us_status u = ACTIVE \<longrightarrow>
      (\<exists>v. fst (authenticate cr scan now email pass (login_attempts cr scan email tries st)) = Inr v \<and>
           us_id v = us_id u))"
proof -
  have "u \<in> set (id_users st)" using assms(3) by (auto simp: user_of_def find_Some_iff)
  then have "us_failed_login_count u < MAX_FAILED_LOGINS" using assms(2) by (simp add: id_ok_def)
  note a = attempts_wrong[OF assms(1-5) this assms(6)]
  show ?thesis
    using a get_user_unique[OF assms(1), of uid "login_attempts cr scan email tries st" email]
    by (simp add: authenticate_def is_locked_def)
qed

section \<open>API clients\<close>

text \<open>
  Whoever calls the route that creates API clients, which takes no credentials, receives
  credentials that authenticate as a client of the organization named in the request.
\<close>

theorem created_client_authenticates:
  assumes "scan_ok scan" "create_client cr uid now hex secret salt org profiles st = (Inr (cid, key), st')"
  shows "\<exists>c. fst (get_api_client cr scan later cid key st') = Inr c \<and> ac_organization_id c = org \<and>
    ac_allowed_profiles c = profiles"
proof -
  define row where "row = \<lparr>cl_id = uid (id_uuids st), cl_client_id = generate_client_id hex,
    cl_secret_hash = hash_secret cr salt secret, cl_organization_id = org,
    cl_allowed_profiles = profiles, cl_status = ''ACTIVE'', cl_created_at = now, cl_last_used_at = None\<rparr>"
  have row: "cl_client_id row = cid" "cl_status row = ''ACTIVE''" "cl_organization_id row = org"
      "cl_allowed_profiles row = profiles" "cl_secret_hash row = hash_secret cr salt key"
    and fresh: "cid \<notin> cl_client_id ` set (id_clients st)" and st': "id_clients st' = id_clients st @ [row]"
    using assms(2) by (auto simp: create_client_def Let_def row_def split: if_splits)
  have "filter (\<lambda>c. cl_client_id c = cid) (id_clients st') = [row]"
    using fresh row(1) by (auto simp: st' filter_empty_conv intro: rev_image_eqI)
  then have sel: "select_where scan (\<lambda>c. cl_client_id c = cid) (id_clients st') = [row]"
    by (rule select_where_unique[OF assms(1)])
  have "split_max 1 CHR ''$'' (hash_secret cr salt key) =
      [bytes_hex salt, bytes_hex (cr_pbkdf2 cr key salt (int CLIENT_ITERATIONS))]"
    unfolding hash_secret_def append_Cons append_Nil One_nat_def split_max_cut[OF hex_no_dollar] split_max.simps(1) ..
  then have "verify_secret cr key (cl_secret_hash row) = Inr True"
    by (simp add: verify_secret_def row(5) fromhex_hex)
  then show ?thesis
    by (simp add: get_api_client_def sel scalar_one_or_none_def row)
qed

section \<open>Witnesses\<close>

text \<open>A digest that keeps the password, and a store with one user and one session.\<close>

definition wit_crypto :: Crypto where
  "wit_crypto = \<lparr>cr_pbkdf2 = \<lambda>p s n. p, cr_sha256 = \<lambda>s. s\<rparr>"

definition wit_uid :: uuids where
  "wit_uid n = ''k'' @ show_nat n"

definition wit_user :: AppUser where
  "wit_user = \<lparr>us_id = wit_uid 0, us_organization_id = ''org'', us_email = ''a@b'', us_display_name = ''A'',
     us_password_hash = hash_password wit_crypto ''s'' ''pass'', us_role = OPERATOR, us_status = ACTIVE,
     us_failed_login_count = 3, us_locked_until = None, us_last_login_at = None, us_created_at = 0\<rparr>"

definition wit_session :: UserSession where
  "wit_session = \<lparr>se_id = wit_uid 1, se_user_id = wit_uid 0, se_organization_id = ''org'',
     se_token_hash = ''t'', se_created_at = 0, se_expires_at = minutes (60 * SESSION_TTL_HOURS),
     se_last_seen_at = None, se_revoked_at = None\<rparr>"

definition wit_ids :: IdStore where
  "wit_ids = \<lparr>id_organizations = [''org'', ''other''], id_users = [wit_user], id_sessions = [wit_session], id_clients = [], id_audit = [], id_uuids = 2\<rparr>"

lemma wit_uid_inj2: "inj wit_uid"
  by (rule injI) (auto simp: wit_uid_def dest: arg_cong[where f = digits_val])

lemma wit_ids_ok: "id_ok wit_uid wit_ids"
  by (simp add: id_ok_def keys_used_def wit_ids_def wit_user_def wit_session_def MAX_FAILED_LOGINS_def)

lemma wit_user_of: "user_of wit_ids '' A@b '' = Some wit_user"
proof -
  have "normalize_email '' A@b '' = ''a@b''" by code_simp
  then show ?thesis by (simp add: user_of_def wit_ids_def wit_user_def)
qed

lemma wit_verify: "verify_password wit_crypto p (us_password_hash wit_user) \<longleftrightarrow> p = ''pass''"
  by (simp add: wit_user_def verify_password_def stored_hash_parts fromhex_hex int_of_iterations)
    (auto simp: wit_crypto_def PBKDF2_ITERATIONS_def)

theorem sessions_end_for_good_witness:
  "resolve_session wit_crypto heap_scan 5 ''t'' (set_password wit_crypto 1 ''s'' (wit_uid 0) ''new'' wit_ids) =
     (Inr None, set_password wit_crypto 1 ''s'' (wit_uid 0) ''new'' wit_ids)"
proof (rule sessions_end_for_good[OF heap_scan_ok wit_uid_inj2 wit_ids_ok])
  show "wit_session \<in> set (id_sessions wit_ids)" by (simp add: wit_ids_def)
  show "se_user_id wit_session = wit_uid 0" by (simp add: wit_session_def)
  show "se_token_hash wit_session = hash_session_token wit_crypto ''t''"
    by (simp add: wit_session_def hash_session_token_def wit_crypto_def)
qed (auto intro: id_steps.intros)

theorem login_reveals_nothing_witness:
  "fst (login wit_crypto heap_scan wit_uid 1 ''u'' '' A@b '' ''bad'' wit_ids) =
     Inl (HTTPException 401 ''Invalid email or password.'')"
proof -
  note l = login_reveals_nothing[OF heap_scan_ok wit_ids_ok, where cr = wit_crypto
    and now = 1 and token = "''u''" and email = "'' A@b ''" and pass = "''bad''"]
  show ?thesis using conjunct1[OF l] by (simp add: wit_user_of wit_verify)
qed

theorem lockout_holds_and_ends_witness:
  "fst (authenticate wit_crypto heap_scan 9 '' A@b '' ''pass''
      (login_attempts wit_crypto heap_scan '' A@b '' [(0, ''x''), (1, ''y'')] wit_ids)) =
     Inl (AuthenticationError ''account temporarily locked'')"
proof -
  let ?tries = "[(0::int, ''x''), (1, ''y'')]"
  have u: "us_locked_until wit_user = None" by (simp add: wit_user_def)
  have w: "wrong_tries wit_crypto wit_user ?tries" by (simp add: wrong_tries_def wit_verify)
  have n: "length ?tries = MAX_FAILED_LOGINS - us_failed_login_count wit_user"
    by (simp add: wit_user_def MAX_FAILED_LOGINS_def)
  have t: "9 < fst (last ?tries) + minutes LOCKOUT_MINUTES" by (simp add: minutes_def LOCKOUT_MINUTES_def)
  from conjunct1[OF lockout_holds_and_ends[OF heap_scan_ok wit_ids_ok wit_user_of u w n], rule_format, OF t]
  show ?thesis by (simp only: fst_conv)
qed

theorem created_client_authenticates_witness:
  "\<exists>cid key st'. create_client wit_crypto wit_uid 0 ''ab'' ''sec'' ''s'' ''other'' [] wit_ids = (Inr (cid, key), st') \<and>
     (\<exists>c. fst (get_api_client wit_crypto heap_scan 1 cid key st') = Inr c \<and> ac_organization_id c = ''other'')"
proof -
  obtain cid key st' where c:
      "create_client wit_crypto wit_uid 0 ''ab'' ''sec'' ''s'' ''other'' [] wit_ids = (Inr (cid, key), st')"
    by (simp add: create_client_def get_organization_def Let_def wit_ids_def)
  show ?thesis using created_client_authenticates[OF heap_scan_ok c, of 1] c by blast
qed

end
