(* ===== verification/PO_ServiceWits.thy ===== *)
theory PO_ServiceWits
  imports PO_ServiceProps PO_UserProps PO_CorrelationProps
begin

text \<open>
  Concrete stores on which the results about the services apply: a hash function that is constant,
  generated keys that are numbered, and small messages, reports and analyses.
\<close>

section \<open>Concrete values\<close>

definition wit_env :: OpsEnv where
  "wit_env = \<lparr>oe_scan = heap_scan, oe_uid = wit_uid, oe_sha256 = \<lambda>s. ''h''\<rparr>"

lemma wit_env_simps [simp]:
  "oe_scan wit_env = heap_scan" "oe_uid wit_env = wit_uid" "oe_sha256 wit_env s = ''h''"
  by (simp_all add: wit_env_def)

lemma wit_env_ok: "scan_ok (oe_scan wit_env)" "inj (oe_uid wit_env)"
  by (simp_all add: wit_uid_inj2)

lemma wit_uid_eq [simp]: "wit_uid m = wit_uid n \<longleftrightarrow> m = n"
  using wit_uid_inj2 by (auto dest: injD)

definition no_ops :: Ops where
  "no_ops = \<lparr>op_cases = [], op_actions = [], op_runs = [], op_findings = [], op_candidates = [], op_audit = [],
     op_messages = [], op_lifecycles = [], op_events = [], op_correlations = [], op_reports = [], op_entries = [],
     op_balances = [], op_reconciliations = [], op_uuids = 0\<rparr>"

definition wit_now :: pydatetime where
  "wit_now = \<lparr>t_date = mk_date 2024 1 2, t_hour = 0, t_minute = 0, t_second = 0, t_micro = 0, t_offset = Some 0\<rparr>"

definition wit_iso :: "string \<Rightarrow> CorrelationProfile list \<Rightarrow> AccountReport list \<Rightarrow> string option \<Rightarrow> IsoAnalysisResult" where
  "wit_iso version profiles reports status =
     \<lparr>ir_case_id = ''c'', ir_message_family = Some ''f'', ir_message_definition = Some ''d'',
      ir_message_version = Some version, ir_namespace = None, ir_message_id = Some ''m'', ir_adapter_version = None,
      ir_schema_validation = True, ir_schema_version = None, ir_original_validation_status = ''valid'',
      ir_schema_issues = [], ir_rule_findings = [], ir_address_analyses = [], ir_address_readiness = None,
      ir_address_provider_coverage = None, ir_repair_status = None, ir_candidate_diff = [],
      ir_candidate_validation_status = None, ir_canonical_model_version = None, ir_engine_version = None,
      ir_input_hash = None, ir_warnings = [], ir_lifecycle_id = None, ir_correlation_status = None,
      ir_correlation_evidence = [], ir_correlation_conflicts = [], ir_lifecycle_events = [], ir_raw_status = None,
      ir_normalized_status = status, ir_correlation_profiles = profiles, ir_account_report_type = None,
      ir_account_reports = reports, ir_account_report_ids = [], ir_account_entry_count = 0, ir_processed_at = wit_now\<rparr>"

definition wit_profile :: "string \<Rightarrow> string \<Rightarrow> int \<Rightarrow> CorrelationProfile" where
  "wit_profile e2e tx amount =
     \<lparr>cp_message_id = None, cp_original_message_id = None, cp_instruction_id = None, cp_end_to_end_id = Some e2e,
      cp_transaction_id = Some tx, cp_amount = Some amount, cp_currency = Some ''EUR'', cp_reference = None,
      cp_account = None, cp_debtor_account = Some ''D'', cp_creditor_account = Some ''C''\<rparr>"

definition wit_lifecycle :: "string \<Rightarrow> PaymentLifecycleRow" where
  "wit_lifecycle org =
     \<lparr>lf_id = wit_uid 0, lf_organization_id = org, lf_lifecycle_id = ''life-1'', lf_primary_reference = None,
      lf_end_to_end_id = Some ''E'', lf_instruction_id = None, lf_transaction_id = Some ''T'', lf_uetr = None,
      lf_original_message_id = None, lf_debtor_account = None, lf_creditor_account = None,
      lf_amount_minor = Some 100, lf_currency = Some ''EUR'', lf_current_status = ''ACCEPTED'', lf_created_at = 0,
      lf_updated_at = 0\<rparr>"

definition wit_ops :: Ops where
  "wit_ops = no_ops\<lparr>op_lifecycles := [wit_lifecycle ''A''],
     op_cases := [(review_case (wit_uid 1) ''case-B'' ''B'' ''X'' 0)\<lparr>pc_status := ''APPROVED''\<rparr>], op_uuids := 2\<rparr>"

lemma wit_ops_ok: "ops_ok wit_env wit_ops"
  by (auto simp: ops_ok_def wit_ops_def no_ops_def wit_lifecycle_def review_case_def keys_used_def)

section \<open>Isolation and history\<close>

text \<open>Organization A looks for missing events and organization B tries to close its approved case.\<close>

definition wit_st1 :: Ops where
  "wit_st1 = snd (detect_missing_account_events wit_env (minutes 10000) 48 ''A'' wit_ops)"

theorem tenants_isolated_witness: "own ''B'' wit_st1 = own ''B'' wit_ops"
proof -
  have "service_run wit_env {''A''} wit_ops wit_st1"
    unfolding wit_st1_def by (rule run_more[OF run_none singletonI step_missing])
  from tenants_isolated[OF wit_env_ok wit_ops_ok this, of "''B''"] show ?thesis by simp
qed

theorem recorded_history_kept_witness:
  "\<exists>c\<in>set (op_cases (snd (transition_case wit_env 0 ''B'' ''case-B'' ''close'' None None wit_ops))). pc_status c = ''APPROVED''"
proof -
  let ?st = "snd (transition_case wit_env 0 ''B'' ''case-B'' ''close'' None None wit_ops)"
  have "service_run wit_env {''B''} wit_ops ?st" by (rule run_more[OF run_none singletonI step_case])
  from recorded_history_kept[OF wit_env_ok wit_ops_ok this]
  have "\<forall>c\<in>set (op_cases wit_ops). pc_status c = ''APPROVED'' \<longrightarrow> c \<in> set (op_cases ?st)" by simp
  moreover have "\<exists>c\<in>set (op_cases wit_ops). pc_status c = ''APPROVED''" by (simp add: wit_ops_def)
  ultimately show ?thesis by blast
qed

theorem missing_events_stable_witness:
  "\<exists>flagged. detect_missing_account_events wit_env (minutes 10000) 48 ''A'' wit_st1 = (Inr flagged, wit_st1)"
proof -
  have "detect_missing_account_events wit_env (minutes 10000) 48 ''A'' wit_ops = (Inr [''life-1''], wit_st1)"
    by (simp add: wit_st1_def wit_ops_def no_ops_def detect_missing_account_events_def select_where_def wit_lifecycle_def
        overdue_def hours_def minutes_def flag_missing_def has_account_event_def select_cases_def obind_def add_case_def
        review_case_def missing_case_id_def)
  from missing_events_stable[OF wit_env_ok(1) this] show ?thesis by blast
qed

section \<open>Messages\<close>

theorem message_recorded_once_witness:
  "\<exists>st1 y. st1 = snd (record_iso_result wit_env 0 ''A'' (wit_iso ''pacs.008'' [wit_profile ''E'' ''T'' 5] [] None) no_ops) \<and>
     record_iso_result wit_env 9 ''A'' (wit_iso ''pacs.008'' [wit_profile ''E'' ''T'' 5] [] None) st1 = (Inr y, st1)"
proof -
  let ?r = "wit_iso ''pacs.008'' [wit_profile ''E'' ''T'' 5] [] None"
  obtain x st1 where "record_iso_result wit_env 0 ''A'' ?r no_ops = (x, st1)" by force
  from message_recorded_once[OF wit_env_ok(1) this refl, of 9] this show ?thesis by auto
qed

definition wit_report :: "AccountBalance list \<Rightarrow> AccountEntry list \<Rightarrow> AccountReport" where
  "wit_report balances entries =
     \<lparr>rp_message_family = None, rp_message_definition = None, rp_message_version = None, rp_namespace = None,
      rp_message_id = None, rp_creation_datetime = None, rp_report_type = STATEMENT, rp_account = None,
      rp_statement_id = None, rp_notification_id = None, rp_period_start = None, rp_period_end = None,
      rp_balances = balances, rp_entries = entries, rp_source_hash = None\<rparr>"

theorem failed_report_not_retried_witness:
  "\<exists>st1 y. fst (record_iso_result wit_env 0 ''A''
       (wit_iso ''camt.053'' [] [wit_report [\<lparr>ab_type = OPENING, ab_amount = \<lparr>ma_amount_minor = 3000000000, ma_currency = ''EUR''\<rparr>,
         ab_credit_debit = CRDT\<rparr>] [full_entry]] None) no_ops) = Inl int4_error \<and> op_entries st1 = [] \<and>
     record_iso_result wit_env 1 ''A''
       (wit_iso ''camt.053'' [] [wit_report [\<lparr>ab_type = OPENING, ab_amount = \<lparr>ma_amount_minor = 3000000000, ma_currency = ''EUR''\<rparr>,
         ab_credit_debit = CRDT\<rparr>] [full_entry]] None) st1 = (Inr y, st1)"
proof -
  let ?b = "\<lparr>ab_type = OPENING, ab_amount = \<lparr>ma_amount_minor = 3000000000, ma_currency = ''EUR''\<rparr>, ab_credit_debit = CRDT\<rparr>"
  let ?r = "wit_iso ''camt.053'' [] [wit_report [?b] [full_entry]] None"
  have "find_by_hash wit_env ''A'' (message_hash_from_result wit_env ?r) no_ops = None"
    by (simp add: find_by_hash_def no_ops_def select_where_def scalars_first_def)
  moreover have "ir_account_reports ?r = [wit_report [?b] [full_entry]]" by (simp add: wit_iso_def)
  moreover have "?b \<in> set (rp_balances (wit_report [?b] [full_entry]))" by (simp add: wit_report_def)
  moreover have "\<not> int4_ok (ma_amount_minor (ab_amount ?b))" by (simp add: int4_ok_def)
  ultimately obtain st1 y where "record_iso_result wit_env 0 ''A'' ?r no_ops = (Inl int4_error, st1)"
      "op_entries st1 = op_entries no_ops" "record_iso_result wit_env 1 ''A'' ?r st1 = (Inr y, st1)"
    using failed_report_not_retried[OF wit_env_ok(1), of "''A''" ?r no_ops "wit_report [?b] [full_entry]" "[]" ?b 0 1]
    by blast
  then show ?thesis by (intro exI[of _ st1] exI[of _ y]) (simp add: no_ops_def)
qed

text \<open>A status report that names the same end-to-end id and another transaction.\<close>

definition wit_status :: IsoAnalysisResult where
  "wit_status = wit_iso ''pacs.002.001.10'' [wit_profile ''E'' ''OTHER'' 7] [] (Some ''REJECTED'')"

lemma wit_status_simps:
  "starts_with ''pacs.002'' (dget_opt (ir_message_version wit_status))" "ir_account_reports wit_status = []"
  "ir_correlation_profiles wit_status = [wit_profile ''E'' ''OTHER'' 7]" "ir_normalized_status wit_status = Some ''REJECTED''"
  by (simp_all add: wit_status_def wit_iso_def starts_with_def dget_opt_def)

lemma wit_status_new: "find_by_hash wit_env ''A'' (message_hash_from_result wit_env wit_status) wit_ops = None"
  by (simp add: find_by_hash_def wit_ops_def no_ops_def select_where_def scalars_first_def)

lemma wit_status_found:
  "find_lifecycle wit_env ''A'' (profile_from_dict (wit_profile ''E'' ''OTHER'' 7)) wit_ops = Some (wit_lifecycle ''A'')"
  by (simp add: find_lifecycle_def find_lifecycle_where_def profile_conditions_def profile_from_dict_def wit_profile_def
      wit_ops_def no_ops_def select_where_def scalars_first_def wit_lifecycle_def)

theorem status_report_creates_nothing_witness:
  "map lifecycle_identity (op_lifecycles (snd (record_iso_result wit_env 3 ''A'' wit_status wit_ops))) =
     map lifecycle_identity (op_lifecycles wit_ops)"
proof -
  obtain x st' where run: "record_iso_result wit_env 3 ''A'' wit_status wit_ops = (x, st')" by force
  from status_report_creates_nothing[OF wit_status_simps(1,2) run] run show ?thesis by simp
qed

theorem status_applied_despite_conflict_witness:
  "\<exists>y st'. record_iso_result wit_env 3 ''A'' wit_status wit_ops = (Inr y, st') \<and>
     ir_correlation_status y = Some ''CONFLICT'' \<and> map lf_current_status (op_lifecycles st') = [''REJECTED'']"
proof -
  have "CorrelationStatus_value (co_status (correlate_profiles (profile_from_dict (wit_profile ''E'' ''OTHER'' 7))
      (profile_from_lifecycle (wit_lifecycle ''A'')))) = ''CONFLICT''"
    by code_simp
  then show ?thesis
    using status_applied_despite_conflict[OF wit_status_simps(1,2) wit_status_new wit_status_simps(3) wit_status_found
        wit_status_simps(4), of 3]
    by (auto simp: wit_ops_def no_ops_def)
qed

theorem payments_share_lifecycle_witness:
  "\<exists>y st'. record_iso_result wit_env 3 ''A'' (wit_iso ''pacs.008''
       [wit_profile ''NOTPROVIDED'' ''T1'' 100, wit_profile ''NOTPROVIDED'' ''T2'' 999] [] None) no_ops = (Inr y, st') \<and>
     length (op_lifecycles st') = 1"
proof -
  let ?d1 = "wit_profile ''NOTPROVIDED'' ''T1'' 100" and ?d2 = "wit_profile ''NOTPROVIDED'' ''T2'' 999"
  let ?r = "wit_iso ''pacs.008'' [?d1, ?d2] [] None"
  have none: "find_by_hash wit_env ''A'' (message_hash_from_result wit_env ?r) no_ops = None"
      "find_lifecycle wit_env ''A'' p no_ops = None" for p
    by (simp_all add: find_by_hash_def find_lifecycle_def find_lifecycle_where_def no_ops_def select_where_def scalars_first_def)
  have r: "\<not> starts_with ''pacs.002'' (dget_opt (ir_message_version ?r))" "ir_account_reports ?r = []"
      "ir_correlation_profiles ?r = [?d1, ?d2]"
    by (simp_all add: wit_iso_def starts_with_def dget_opt_def)
  have d: "cp_end_to_end_id ?d1 = Some ''NOTPROVIDED''" "cp_end_to_end_id ?d2 = Some ''NOTPROVIDED''" "''NOTPROVIDED'' \<noteq> ''''"
    by (simp_all add: wit_profile_def)
  have "\<forall>a. cp_amount ?d1 = Some a \<longrightarrow> int4_ok a" by (simp add: wit_profile_def int4_ok_def)
  moreover have "\<forall>l\<in>set (op_lifecycles no_ops). lf_lifecycle_id l \<noteq> k" for k by (simp add: no_ops_def)
  ultimately obtain y st' and l :: PaymentLifecycleRow where run: "record_iso_result wit_env 3 ''A'' ?r no_ops = (Inr y, st')"
      "map lf_id (op_lifecycles st') = map lf_id (op_lifecycles no_ops) @ [lf_id l]"
    using payments_share_lifecycle[OF wit_env_ok(1) r(1,2) none(1) r(3) d none(2) none(2), of 3] by blast
  then have "length (map lf_id (op_lifecycles st')) = 1" by (simp add: no_ops_def)
  with run show ?thesis by auto
qed

section \<open>Account reports and analyses\<close>

theorem report_entries_all_judged_witness:
  "\<exists>row st'. ingest_report wit_env 0 ''A'' None (wit_report [] [full_entry]) no_ops = (Inr row, st') \<and>
     length (op_entries st') = 1"
proof -
  have "(case fst (ingest_report wit_env 0 ''A'' None (wit_report [] [full_entry]) no_ops) of Inl _ \<Rightarrow> False | Inr _ \<Rightarrow> True)"
    by code_simp
  then obtain row st' where run: "ingest_report wit_env 0 ''A'' None (wit_report [] [full_entry]) no_ops = (Inr row, st')"
    by (cases "ingest_report wit_env 0 ''A'' None (wit_report [] [full_entry]) no_ops";
        cases "fst (ingest_report wit_env 0 ''A'' None (wit_report [] [full_entry]) no_ops)") auto
  have "entries_ok wit_env no_ops" by (simp add: entries_ok_def keys_used_def no_ops_def)
  from conjunct1[OF report_entries_all_judged[OF wit_env_ok(2) this run]]
  have "length (op_entries st') = 1" by (auto simp: no_ops_def wit_report_def dest: list_all2_lengthD)
  with run show ?thesis by auto
qed

text \<open>An entry of an earlier notification that did not match; the statement reports it again.\<close>

definition wit_earlier :: AccountEntryRow where
  "wit_earlier = (entry_to_row (wit_uid 0) ''A'' full_entry (report_row (wit_uid 1) ''A'' (wit_report [] []) None 0) ''h'' 0)
     \<lparr>er_reconciliation_status := Some ''AMOUNT_MISMATCH''\<rparr>"

definition wit_reports :: "string \<Rightarrow> Ops" where
  "wit_reports kind = no_ops\<lparr>op_entries := [wit_earlier],
     op_reports := [(report_row (wit_uid 1) ''A'' (wit_report [] []) None 0)\<lparr>rw_report_type := kind\<rparr>],
     op_cases := [review_case (wit_uid 2) (account_case_id ''h'') ''B'' ''X'' 0], op_uuids := 3\<rparr>"

lemma wit_known:
  "same_identity wit_env ''A'' full_entry (wit_reports kind) = [wit_earlier]"
  "reports_with (er_report_id wit_earlier) (wit_reports kind) =
     [(report_row (wit_uid 1) ''A'' (wit_report [] []) None 0)\<lparr>rw_report_type := kind\<rparr>]"
  by (simp_all add: same_identity_def reports_with_def wit_reports_def wit_earlier_def entry_to_row_def identity_hash_def
      report_row_def)

definition wit_row :: AccountReportRow where
  "wit_row = report_row (wit_uid 9) ''A'' (wit_report [] [full_entry]) None 0"

theorem repeated_entry_judged_by_type_witness:
  "\<exists>r u st'. ingest_entry wit_env 0 ''A'' (wit_report [] [full_entry]) wit_row full_entry (wit_reports ''NOTIFICATION'') = (Inr u, st') \<and>
     op_entries st' = op_entries (wit_reports ''NOTIFICATION'') @ [r] \<and> er_reconciliation_status r = Some ''RECONCILED''"
proof -
  let ?run = "ingest_entry wit_env 0 ''A'' (wit_report [] [full_entry]) wit_row full_entry (wit_reports ''NOTIFICATION'')"
  have "(case fst ?run of Inl _ \<Rightarrow> False | Inr _ \<Rightarrow> True)" by code_simp
  then obtain u st' where run: "?run = (Inr u, st')" by (cases ?run; cases "fst ?run") auto
  have ok: "entries_ok wit_env (wit_reports ''NOTIFICATION'')"
    by (simp add: entries_ok_def keys_used_def wit_reports_def wit_earlier_def entry_to_row_def)
  have "er_report_id wit_earlier \<noteq> rw_id wit_row"
    by (simp add: wit_earlier_def wit_row_def entry_to_row_def report_row_def)
  then obtain r where "op_entries st' = op_entries (wit_reports ''NOTIFICATION'') @ [r]" "er_reconciliation_status r = Some ''RECONCILED''"
    using repeated_entry_judged_by_type[OF wit_env_ok ok wit_known run]
    by (auto simp: report_row_def wit_report_def AccountReportType_value_def ARS_value_def)
  with run show ?thesis by blast
qed

theorem foreign_case_blocks_ingestion_witness:
  "fst (oeach (ingest_entry wit_env 0 ''A'' (wit_report [] [full_entry]) wit_row) [full_entry, full_entry] (wit_reports ''STATEMENT'')) =
     Inl (IntegrityError ''payment_cases.case_id'')"
proof -
  let ?c = "review_case (wit_uid 2) (account_case_id ''h'') ''B'' ''X'' 0"
  have c: "?c \<in> set (op_cases (wit_reports ''STATEMENT''))"
      "pc_case_id ?c = account_case_id (identity_hash (oe_sha256 wit_env) full_entry)"
      "\<forall>c\<in>set (op_cases (wit_reports ''STATEMENT'')).
         pc_case_id c = account_case_id (identity_hash (oe_sha256 wit_env) full_entry) \<longrightarrow> pc_organization_id c \<noteq> Some ''A''"
    by (simp_all add: wit_reports_def review_case_def identity_hash_def)
  have a: "\<forall>a. ae_amount full_entry = Some a \<longrightarrow> int4_ok (ma_amount_minor a)"
    by (simp add: full_entry_def int4_ok_def)
  have t: "rw_report_type ((report_row (wit_uid 1) ''A'' (wit_report [] []) None 0)\<lparr>rw_report_type := ''STATEMENT''\<rparr>) =
      AccountReportType_value (rp_report_type (wit_report [] [full_entry]))"
    by (simp add: wit_report_def AccountReportType_value_def)
  from foreign_case_blocks_ingestion[OF wit_env_ok(1) wit_known t c a, of 0 wit_row "[full_entry]"]
  show ?thesis by (rule conjunct1)
qed

theorem accounts_never_compared_witness:
  "list_all (\<lambda>l. lf_debtor_account l = None)
     (op_lifecycles (snd (record_iso_result wit_env 0 ''A'' (wit_iso ''pacs.008'' [wit_profile ''E'' ''T'' 5] [] None) no_ops)))"
proof -
  let ?st = "snd (record_iso_result wit_env 0 ''A'' (wit_iso ''pacs.008'' [wit_profile ''E'' ''T'' 5] [] None) no_ops)"
  have "ir_lifecycle_id (wit_iso ''pacs.008'' [wit_profile ''E'' ''T'' 5] [] None) = None" by (simp add: wit_iso_def)
  then have "service_run wit_env {''A''} no_ops ?st" by (intro run_more[OF run_none singletonI step_iso])
  moreover have "op_lifecycles no_ops = []" "op_reconciliations no_ops = []" by (simp_all add: no_ops_def)
  ultimately show ?thesis using accounts_never_compared[OF wit_env_ok(1)] unfolding list_all_iff by blast
qed

definition wit_analysis :: AnalysisResult where
  "wit_analysis =
     \<lparr>ar_case_id = ''case-1'', ar_message_type = None, ar_message_version = None, ar_original_validation_status = ''valid'',
      ar_schema_issues = [], ar_rule_findings = [], ar_address_analyses = [], ar_address_readiness = None,
      ar_repair_status = None, ar_candidate_diff = [], ar_candidate_validation_status = Some ''VALIDATED'',
      ar_candidate_xml = None, ar_ruleset_version = None, ar_address_provider = None,
      ar_address_provider_version = None, ar_address_provider_fallback = False, ar_address_provider_coverage = None,
      ar_input_hash = None, ar_output_hash = None, ar_warnings = [], ar_processed_at = wit_now\<rparr>"

theorem analysis_leaves_no_audit_witness:
  "op_audit (own ''A'' (snd (persist_analysis wit_env 0 5 (Some ''A'') wit_analysis no_ops))) = op_audit (own ''A'' no_ops)"
proof -
  obtain st' where run: "persist_analysis wit_env 0 5 (Some ''A'') wit_analysis no_ops = (Inr (), st')"
    by (simp add: persist_analysis_def no_ops_def Let_def)
  have "(own ''A'' st')\<lparr>op_cases := []\<rparr> = (own ''A'' no_ops)\<lparr>op_cases := []\<rparr>"
    using analysis_leaves_no_audit[OF run] by blast
  from arg_cong[where f = op_audit, OF this] run show ?thesis by simp
qed

end
