(* ===== verification/PO_Csv.thy ===== *)
theory PO_Csv
  imports PO_Text
begin

text \<open>
  What the services use of Python's \<open>csv\<close> module: \<open>csv.DictReader\<close> over a \<open>StringIO\<close>, in the
  default dialect (comma, double quote, doubled quotes, not strict). The reader is the automaton of
  the module, one step per character and one at the end of each line; \<open>StringIO\<close> gives the lines of
  the text with their line feeds. A row shorter than the header has \<open>None\<close> in its last columns, and
  the surplus of a longer one is kept under the key \<open>None\<close>: here the field \<open>cr_rest\<close>.

  The lemmas read a text back that was written from plain cells, which is what the batch service
  relies on when it joins a row again.
\<close>

section \<open>The reader\<close>

datatype csv_state = START_RECORD | START_FIELD | IN_FIELD | IN_QUOTED_FIELD | QUOTE_IN_QUOTED_FIELD | EAT_CRNL

record CsvReader =
  cs_state :: csv_state
  cs_field :: string
  cs_fields :: "string list"

definition FIELD_LIMIT :: nat where
  "FIELD_LIMIT = 131072"

definition csv_reset :: CsvReader where
  "csv_reset = \<lparr>cs_state = START_RECORD, cs_field = [], cs_fields = []\<rparr>"

definition save_field :: "csv_state \<Rightarrow> CsvReader \<Rightarrow> CsvReader" where
  "save_field s r = r\<lparr>cs_state := s, cs_field := [], cs_fields := cs_fields r @ [cs_field r]\<rparr>"

definition add_char :: "csv_state \<Rightarrow> char \<Rightarrow> CsvReader \<Rightarrow> CsvReader res" where
  "add_char s c r =
     (if FIELD_LIMIT \<le> length (cs_field r) then Inl (CsvError ''field larger than field limit (131072)'')
      else Inr (r\<lparr>cs_state := s, cs_field := cs_field r @ [c]\<rparr>))"

abbreviation LF :: char where "LF \<equiv> CHR 0x0A"
abbreviation CR :: char where "CR \<equiv> CHR 0x0D"
abbreviation QUOTE :: char where "QUOTE \<equiv> CHR 0x22"
abbreviation COMMA :: char where "COMMA \<equiv> CHR 0x2C"

definition start_field :: "char \<Rightarrow> CsvReader \<Rightarrow> CsvReader res" where
  "start_field c r =
     (if c = LF \<or> c = CR then Inr (save_field EAT_CRNL r)
      else if c = QUOTE then Inr (r\<lparr>cs_state := IN_QUOTED_FIELD\<rparr>)
      else if c = COMMA then Inr (save_field START_FIELD r)
      else add_char IN_FIELD c r)"

definition process_char :: "char \<Rightarrow> CsvReader \<Rightarrow> CsvReader res" where
  "process_char c r = (case cs_state r of
     START_RECORD \<Rightarrow> if c = LF \<or> c = CR then Inr (r\<lparr>cs_state := EAT_CRNL\<rparr>) else start_field c r
   | START_FIELD \<Rightarrow> start_field c r
   | IN_FIELD \<Rightarrow>
       if c = LF \<or> c = CR then Inr (save_field EAT_CRNL r)
       else if c = COMMA then Inr (save_field START_FIELD r)
       else add_char IN_FIELD c r
   | IN_QUOTED_FIELD \<Rightarrow>
       if c = QUOTE then Inr (r\<lparr>cs_state := QUOTE_IN_QUOTED_FIELD\<rparr>) else add_char IN_QUOTED_FIELD c r
   | QUOTE_IN_QUOTED_FIELD \<Rightarrow>
       if c = QUOTE then add_char IN_QUOTED_FIELD c r
       else if c = COMMA then Inr (save_field START_FIELD r)
       else if c = LF \<or> c = CR then Inr (save_field EAT_CRNL r)
       else add_char IN_FIELD c r
   | EAT_CRNL \<Rightarrow>
       if c = LF \<or> c = CR then Inr r else Inl (CsvError ''new-line character seen in unquoted field''))"

text \<open>The end of a line.\<close>

definition process_eol :: "CsvReader \<Rightarrow> CsvReader" where
  "process_eol r = (case cs_state r of
     START_RECORD \<Rightarrow> r
   | IN_QUOTED_FIELD \<Rightarrow> r
   | EAT_CRNL \<Rightarrow> r\<lparr>cs_state := START_RECORD\<rparr>
   | _ \<Rightarrow> save_field START_RECORD r)"

fun process_line :: "string \<Rightarrow> CsvReader \<Rightarrow> CsvReader res" where
  "process_line [] r = Inr (process_eol r)"
| "process_line (c # s) r = bindR (process_char c r) (process_line s)"

text \<open>The end of the input ends an open quoted field.\<close>

fun csv_rows :: "string list \<Rightarrow> CsvReader \<Rightarrow> string list list res" where
  "csv_rows [] r =
     Inr (if cs_field r \<noteq> [] \<or> cs_state r = IN_QUOTED_FIELD then [cs_fields r @ [cs_field r]] else [])"
| "csv_rows (l # ls) r = bindR (process_line l r) (\<lambda>r'.
     if cs_state r' = START_RECORD
     then bindR (csv_rows ls csv_reset) (\<lambda>rows. Inr (cs_fields r' # rows))
     else csv_rows ls r')"

text \<open>The lines of a \<open>StringIO\<close>, each with its line feed.\<close>

fun string_lines :: "string \<Rightarrow> string list" where
  "string_lines [] = []"
| "string_lines (c # s) =
     (if c = LF then [c] # string_lines s
      else (case string_lines s of [] \<Rightarrow> [[c]] | l # ls \<Rightarrow> (c # l) # ls))"

section \<open>Rows as dictionaries\<close>

record CsvRow =
  cr_cells :: "(string, string option) dict"
  cr_rest :: "string list option"

definition dict_row :: "string list \<Rightarrow> string list \<Rightarrow> CsvRow" where
  "dict_row header row =
     (let d = fold (\<lambda>(k, v). AList.update k (Some v)) (zip header row) [] in
      \<lparr>cr_cells = fold (\<lambda>k. AList.update k None) (drop (length row) header) d,
       cr_rest = (if length header < length row then Some (drop (length header) row) else None)\<rparr>)"

definition dict_reader :: "string \<Rightarrow> CsvRow list res" where
  "dict_reader s = bindR (csv_rows (string_lines s) csv_reset) (\<lambda>rows. Inr (case rows of
     [] \<Rightarrow> [] | header # rest \<Rightarrow> map (dict_row header) (filter (\<lambda>r. r \<noteq> []) rest)))"

section \<open>Reading back plain cells\<close>

text \<open>
  A cell that stands for itself: no comma or line break, no double quote in front, and no longer
  than the limit.
\<close>

definition plain :: "string \<Rightarrow> bool" where
  "plain w \<longleftrightarrow> COMMA \<notin> set w \<and> LF \<notin> set w \<and> CR \<notin> set w \<and> take 1 w \<noteq> [QUOTE] \<and> length w \<le> FIELD_LIMIT"

abbreviation at_state :: "csv_state \<Rightarrow> string \<Rightarrow> string list \<Rightarrow> CsvReader" where
  "at_state s w ws \<equiv> \<lparr>cs_state = s, cs_field = w, cs_fields = ws\<rparr>"

definition process_text :: "string \<Rightarrow> CsvReader \<Rightarrow> CsvReader res" where
  "process_text s r = fold (\<lambda>c m. bindR m (process_char c)) s (Inr r)"

lemma fold_bind_Inl: "fold (\<lambda>c m. bindR m (process_char c)) s (Inl e) = Inl e"
  by (induction s) auto

lemma process_text_simps [simp]:
  "process_text [] r = Inr r"
  "process_text (c # s) r = bindR (process_char c r) (process_text s)"
proof -
  show "process_text [] r = Inr r" by (simp add: process_text_def)
  show "process_text (c # s) r = bindR (process_char c r) (process_text s)"
    by (cases "process_char c r") (simp_all add: process_text_def fold_bind_Inl)
qed

lemma process_text_append: "process_text (s @ t) r = bindR (process_text s r) (process_text t)"
proof (induction s arbitrary: r)
  case (Cons c s)
  then show ?case by (cases "process_char c r") auto
qed simp

lemma process_line_text: "process_line s r = bindR (process_text s r) (\<lambda>r'. Inr (process_eol r'))"
proof (induction s arbitrary: r)
  case (Cons c s)
  then show ?case by (cases "process_char c r") auto
qed simp

lemma in_field_text:
  "COMMA \<notin> set w \<Longrightarrow> LF \<notin> set w \<Longrightarrow> CR \<notin> set w \<Longrightarrow> length u + length w \<le> FIELD_LIMIT \<Longrightarrow>
     process_text w (at_state IN_FIELD u ws) = Inr (at_state IN_FIELD (u @ w) ws)"
  by (induction w arbitrary: u) (auto simp: process_char_def add_char_def)

definition after_cell :: "csv_state \<Rightarrow> string \<Rightarrow> string list \<Rightarrow> CsvReader" where
  "after_cell s w ws = at_state (if w = [] then s else IN_FIELD) w ws"

lemma cell_text:
  assumes "plain w" "s = START_FIELD \<or> s = START_RECORD"
  shows "process_text w (at_state s [] ws) = Inr (after_cell s w ws)"
proof (cases w)
  case (Cons c v)
  with assms(1) have c: "c \<noteq> COMMA" "c \<noteq> LF" "c \<noteq> CR" "c \<noteq> QUOTE" "length v < FIELD_LIMIT"
    and v: "COMMA \<notin> set v" "LF \<notin> set v" "CR \<notin> set v"
    by (auto simp: plain_def)
  have "process_char c (at_state s [] ws) = Inr (at_state IN_FIELD [c] ws)"
    using assms(2) c by (auto simp: process_char_def start_field_def add_char_def FIELD_LIMIT_def)
  with c v show ?thesis by (simp add: Cons in_field_text after_cell_def)
qed (simp add: after_cell_def)

lemma comma_text:
  assumes "plain w" "s = START_FIELD \<or> s = START_RECORD"
  shows "process_text (w @ [COMMA]) (at_state s [] ws) = Inr (at_state START_FIELD [] (ws @ [w]))"
proof -
  have "process_text (w @ [COMMA]) (at_state s [] ws) = process_char COMMA (after_cell s w ws)"
    by (simp only: process_text_append cell_text[OF assms]) (cases "process_char COMMA (after_cell s w ws)"; simp)
  also have "\<dots> = Inr (at_state START_FIELD [] (ws @ [w]))"
    using assms(2) by (cases "w = []") (auto simp: after_cell_def process_char_def start_field_def save_field_def)
  finally show ?thesis .
qed

text \<open>A line of plain cells, from its start; a single empty cell is not told from an empty line.\<close>

lemma join_Cons2: "join [c] (w # v # ws) = (w @ [c]) @ join [c] (v # ws)"
  by simp

lemma cells_text:
  assumes "list_all plain ws" "ws \<noteq> []" "s = START_FIELD \<or> s = START_RECORD" "s = START_RECORD \<Longrightarrow> ws \<noteq> [[]]"
  shows "\<exists>s'. s' \<in> {START_FIELD, IN_FIELD} \<and>
    process_text (join [COMMA] ws) (at_state s [] us) = Inr (at_state s' (last ws) (us @ butlast ws))"
  using assms
proof (induction ws arbitrary: us s)
  case (Cons w ws)
  show ?case
  proof (cases ws)
    case Nil
    with Cons.prems show ?thesis by (auto simp: cell_text after_cell_def)
  next
    case (Cons v vs)
    have "process_text (join [COMMA] (w # ws)) (at_state s [] us) =
        process_text (join [COMMA] ws) (at_state START_FIELD [] (us @ [w]))"
      using Cons.prems comma_text[of w s us] unfolding Cons
      by (simp only: join_Cons2 process_text_append[of "w @ [COMMA]"]) simp
    moreover obtain s' where "s' \<in> {START_FIELD, IN_FIELD}"
      "process_text (join [COMMA] ws) (at_state START_FIELD [] (us @ [w])) = Inr (at_state s' (last ws) ((us @ [w]) @ butlast ws))"
      using Cons.IH[of START_FIELD "us @ [w]"] Cons.prems by (auto simp: Cons)
    ultimately show ?thesis by (auto simp: Cons)
  qed
qed simp

definition cells_ok :: "string list \<Rightarrow> bool" where
  "cells_ok ws \<longleftrightarrow> list_all plain ws \<and> ws \<noteq> [] \<and> ws \<noteq> [[]]"

lemma cells_line:
  assumes "cells_ok ws"
  shows "process_line (join [COMMA] ws @ [LF]) csv_reset = Inr (at_state START_RECORD [] ws)"
    and "process_line (join [COMMA] ws) csv_reset = Inr (at_state START_RECORD [] ws)"
proof -
  obtain s where s: "s \<in> {START_FIELD, IN_FIELD}"
    "process_text (join [COMMA] ws) csv_reset = Inr (at_state s (last ws) (butlast ws))"
    using cells_text[of ws START_RECORD "[]"] assms by (auto simp: cells_ok_def csv_reset_def)
  have ws: "butlast ws @ [last ws] = ws" using assms by (simp add: cells_ok_def)
  from s ws show "process_line (join [COMMA] ws @ [LF]) csv_reset = Inr (at_state START_RECORD [] ws)"
    by (auto simp: process_line_text process_text_append process_char_def start_field_def save_field_def process_eol_def)
  from s ws show "process_line (join [COMMA] ws) csv_reset = Inr (at_state START_RECORD [] ws)"
    by (auto simp: process_line_text save_field_def process_eol_def)
qed

lemma string_lines_line: "LF \<notin> set s \<Longrightarrow> s \<noteq> [] \<Longrightarrow> string_lines s = [s]"
proof (induction s)
  case (Cons c s)
  then show ?case by (cases "s = []") (auto split: list.splits)
qed simp

lemma string_lines_first: "LF \<notin> set s \<Longrightarrow> string_lines (s @ LF # t) = (s @ [LF]) # string_lines t"
  by (induction s) auto

lemma join_no_LF: "list_all plain ws \<Longrightarrow> LF \<notin> set (join [COMMA] ws)"
  by (induction "[COMMA]" ws rule: join.induct) (auto simp: plain_def)

lemma join_nonempty: "ws \<noteq> [] \<Longrightarrow> ws \<noteq> [[]] \<Longrightarrow> join [COMMA] ws \<noteq> []"
  by (cases ws; cases "tl ws") auto

lemma two_lines:
  assumes "cells_ok header" "cells_ok row"
  shows "csv_rows (string_lines (join [COMMA] header @ LF # join [COMMA] row)) csv_reset = Inr [header, row]"
proof -
  have l: "string_lines (join [COMMA] header @ LF # join [COMMA] row) = [join [COMMA] header @ [LF], join [COMMA] row]"
    using assms by (simp add: string_lines_first string_lines_line join_no_LF join_nonempty cells_ok_def)
  show ?thesis by (simp add: l cells_line[OF assms(1)] cells_line[OF assms(2)]) (simp add: csv_reset_def)
qed

lemma update_fresh: "k \<notin> fst ` set d \<Longrightarrow> AList.update k v d = d @ [(k, v)]"
  by (induction d) auto

lemma dict_row_exact:
  assumes "distinct header" "length header = length row"
  shows "dict_row header row = \<lparr>cr_cells = zip header (map Some row), cr_rest = None\<rparr>"
proof -
  have "fold (\<lambda>(k, v). AList.update k (Some v)) (zip hs rs) d = d @ zip hs (map Some rs)"
    if "distinct hs" "fst ` set d \<inter> set hs = {}" "length hs = length rs" for hs rs d
    using that
  proof (induction hs rs arbitrary: d rule: list_induct2')
    case (4 h hs r rs d)
    have "h \<notin> fst ` set d" using 4(3) by auto
    moreover have "fold (\<lambda>(k, v). AList.update k (Some v)) (zip hs rs) (d @ [(h, Some r)]) = (d @ [(h, Some r)]) @ zip hs (map Some rs)"
      using 4(2-4) by (intro 4(1)) auto
    ultimately show ?case by (simp add: update_fresh)
  qed auto
  from this[of header "[]" row] assms show ?thesis by (simp add: dict_row_def)
qed

lemma dict_reader_two_lines:
  assumes "cells_ok header" "cells_ok row" "distinct header" "length header = length row"
  shows "dict_reader (join [COMMA] header @ LF # join [COMMA] row) =
    Inr [\<lparr>cr_cells = zip header (map Some row), cr_rest = None\<rparr>]"
  using assms by (simp add: dict_reader_def two_lines dict_row_exact cells_ok_def)

end
