(* ===== verification/PO_Integration.thy ===== *)
theory PO_Integration
  imports PO_Cases PO_Mapper PO_Csv
begin

text \<open>
  Integration profiles: the domain model (\<open>packages/integration_profiles/models.py\<close>), the profile
  service and its routes (\<open>integration_service.py\<close>, \<open>routers/profiles.py\<close>), and the analysis of a
  payload under a profile with its persistence (\<open>integration_analysis_service.py\<close>,
  \<open>routers/integrations.py\<close>). The rules of a profile are stored as dictionaries and read back with
  \<open>RuleConfig.from_dict\<close>; the mapping column is read back as the definition that was written. An
  operation reads the clock once and commits once.
\<close>

section \<open>Domain model\<close>

datatype ProfileStatus = PS_DRAFT | PS_TESTING | PS_PUBLISHED | PS_ARCHIVED

datatype InputFormat = IF_ISO20022_XML | IF_CUSTOM_XML | IF_JSON | IF_CSV

datatype OutputFormat = OF_ANALYSIS_JSON | OF_CANONICAL_JSON | OF_CANDIDATE_XML

datatype RetentionPolicy = RP_ZERO | RP_METADATA_ONLY | RP_CONFIGURED

definition ProfileStatus_value :: "ProfileStatus \<Rightarrow> string" where
  "ProfileStatus_value s = (case s of PS_DRAFT \<Rightarrow> ''DRAFT'' | PS_TESTING \<Rightarrow> ''TESTING''
     | PS_PUBLISHED \<Rightarrow> ''PUBLISHED'' | PS_ARCHIVED \<Rightarrow> ''ARCHIVED'')"

definition InputFormat_value :: "InputFormat \<Rightarrow> string" where
  "InputFormat_value f = (case f of IF_ISO20022_XML \<Rightarrow> ''ISO20022_XML'' | IF_CUSTOM_XML \<Rightarrow> ''CUSTOM_XML''
     | IF_JSON \<Rightarrow> ''JSON'' | IF_CSV \<Rightarrow> ''CSV'')"

definition OutputFormat_value :: "OutputFormat \<Rightarrow> string" where
  "OutputFormat_value f = (case f of OF_ANALYSIS_JSON \<Rightarrow> ''ANALYSIS_JSON'' | OF_CANONICAL_JSON \<Rightarrow> ''CANONICAL_JSON''
     | OF_CANDIDATE_XML \<Rightarrow> ''CANDIDATE_XML'')"

definition RetentionPolicy_value :: "RetentionPolicy \<Rightarrow> string" where
  "RetentionPolicy_value p = (case p of RP_ZERO \<Rightarrow> ''ZERO'' | RP_METADATA_ONLY \<Rightarrow> ''METADATA_ONLY''
     | RP_CONFIGURED \<Rightarrow> ''CONFIGURED'')"

text \<open>The member of a string enumeration with a value: \<open>ProfileStatus(row.status)\<close>.\<close>

definition enum_of :: "string \<Rightarrow> ('a \<Rightarrow> string) \<Rightarrow> 'a list \<Rightarrow> string \<Rightarrow> 'a res" where
  "enum_of name val members s = (case filter (\<lambda>x. val x = s) members of
     x # _ \<Rightarrow> Inr x | [] \<Rightarrow> Inl (ValueError (quote_name s @ '' is not a valid '' @ name)))"

definition ProfileStatus_of :: "string \<Rightarrow> ProfileStatus res" where
  "ProfileStatus_of = enum_of ''ProfileStatus'' ProfileStatus_value [PS_DRAFT, PS_TESTING, PS_PUBLISHED, PS_ARCHIVED]"

definition InputFormat_of :: "string \<Rightarrow> InputFormat res" where
  "InputFormat_of = enum_of ''InputFormat'' InputFormat_value [IF_ISO20022_XML, IF_CUSTOM_XML, IF_JSON, IF_CSV]"

definition OutputFormat_of :: "string \<Rightarrow> OutputFormat res" where
  "OutputFormat_of = enum_of ''OutputFormat'' OutputFormat_value [OF_ANALYSIS_JSON, OF_CANONICAL_JSON, OF_CANDIDATE_XML]"

definition RetentionPolicy_of :: "string \<Rightarrow> RetentionPolicy res" where
  "RetentionPolicy_of = enum_of ''RetentionPolicy'' RetentionPolicy_value [RP_ZERO, RP_METADATA_ONLY, RP_CONFIGURED]"

record IntegrationProfile =
  ip_id :: "string option"
  ip_organization_id :: string
  ip_name :: string
  ip_description :: string
  ip_status :: ProfileStatus
  ip_input_format :: InputFormat
  ip_output_format :: OutputFormat
  ip_retention_policy :: RetentionPolicy
  ip_address_policy :: string
  ip_ai_policy :: string
  ip_allowed_messages :: "string list"
  ip_mapping :: MappingDefinition
  ip_rules :: "RuleConfig list"
  ip_version_number :: int
  ip_created_at :: instant
  ip_updated_at :: instant
  ip_published_at :: "instant option"

definition profile_source_format :: "IntegrationProfile \<Rightarrow> MappingFormat" where
  "profile_source_format p = (case ip_input_format p of
     IF_JSON \<Rightarrow> MF_JSON | IF_CSV \<Rightarrow> MF_CSV | IF_CUSTOM_XML \<Rightarrow> MF_CUSTOM_XML | _ \<Rightarrow> MF_JSON)"

definition mapping_version :: "IntegrationProfile \<Rightarrow> string" where
  "mapping_version p = mp_version (ip_mapping p)"

definition ruleset_version :: "IntegrationProfile \<Rightarrow> string" where
  "ruleset_version p = ''cloudnova-customer-v1''"

section \<open>Tables\<close>

record ProfileRow =
  pr_id :: string
  pr_organization_id :: string
  pr_name :: string
  pr_description :: string
  pr_status :: string
  pr_input_format :: string
  pr_output_format :: string
  pr_retention_policy :: string
  pr_address_policy :: string
  pr_ai_policy :: string
  pr_allowed_messages :: "string list"
  pr_mapping :: MappingDefinition
  pr_rules :: "(string, jval) dict list"
  pr_version_number :: int
  pr_created_at :: instant
  pr_updated_at :: instant
  pr_published_at :: "instant option"

record VersionRow =
  vr_id :: string
  vr_profile_id :: string
  vr_organization_id :: string
  vr_version_number :: int
  vr_name :: string
  vr_input_format :: string
  vr_mapping :: MappingDefinition
  vr_rules :: "(string, jval) dict list"
  vr_mapping_version :: string
  vr_ruleset_version :: string
  vr_published_at :: instant

record BatchReport =
  br_total_records :: nat
  br_ready :: nat
  br_repairable :: nat
  br_review_required :: nat
  br_unresolved :: nat
  br_failed :: nat
  br_top_rule_findings :: "(string \<times> nat) list"

record BatchJob =
  bj_id :: string
  bj_organization_id :: string
  bj_profile_id :: string
  bj_profile_version :: int
  bj_status :: string
  bj_total_records :: nat
  bj_processed_records :: nat
  bj_ready_count :: nat
  bj_repairable_count :: nat
  bj_review_required_count :: nat
  bj_unresolved_count :: nat
  bj_failed_count :: nat
  bj_report :: "BatchReport option"
  bj_created_at :: instant
  bj_started_at :: "instant option"
  bj_completed_at :: "instant option"

text \<open>
  The store of the integration services: the tables of profiles, their versions and batch jobs,
  the inputs kept in Redis, and the store of the cases. Keys are drawn from the counter of the latter.
\<close>

record Integ =
  ig_profiles :: "ProfileRow list"
  ig_versions :: "VersionRow list"
  ig_jobs :: "BatchJob list"
  ig_redis :: "(string, string) dict"
  ig_ops :: Ops

definition next_key :: "OpsEnv \<Rightarrow> Integ \<Rightarrow> string" where
  "next_key env st = new_key env (ig_ops st)"

definition draw_key :: "Integ \<Rightarrow> Integ" where
  "draw_key st = st\<lparr>ig_ops := (ig_ops st)\<lparr>op_uuids := Suc (op_uuids (ig_ops st))\<rparr>\<rparr>"

section \<open>Profiles\<close>

text \<open>\<open>asdict\<close> of a rule. The value of a rule came from a JSON body; \<open>jvalue\<close> is its JSON form.\<close>

definition rule_dict :: "(pyval \<Rightarrow> jval) \<Rightarrow> RuleConfig \<Rightarrow> (string, jval) dict" where
  "rule_dict jvalue r =
     [(''rule_id'', JStr (rc_rule_id r)), (''field'', JStr (rc_field r)), (''operator'', JStr (rc_operator r)),
      (''value'', jvalue (rc_value r)), (''severity'', JStr (Severity_value (rc_severity r))),
      (''message'', opt_json (rc_message r)), (''category'', JStr (rc_category r)),
      (''classification'', JStr (rc_classification r)), (''ruleset_version'', JStr (rc_ruleset_version r))]"

fun json_of_val :: "pyval \<Rightarrow> jval" where
  "json_of_val VNone = JNull"
| "json_of_val (VBool b) = JBool b"
| "json_of_val (VInt i) = JInt i"
| "json_of_val (VFloat x) = JFloat x"
| "json_of_val (VStr s) = JStr s"
| "json_of_val (VList xs) = JList (map json_of_val xs)"
| "json_of_val (VDict kvs) = JObj (map (\<lambda>(k, v). (k, json_of_val v)) kvs)"
| "json_of_val _ = JNull"

definition profile_to_domain :: "(pyval \<Rightarrow> string) \<Rightarrow> ProfileRow \<Rightarrow> IntegrationProfile res" where
  "profile_to_domain repr_other row =
     bindR (mapR (rule_config_from_dict repr_other) (pr_rules row)) (\<lambda>rules.
     bindR (ProfileStatus_of (pr_status row)) (\<lambda>status.
     bindR (InputFormat_of (pr_input_format row)) (\<lambda>input.
     bindR (OutputFormat_of (pr_output_format row)) (\<lambda>output.
     bindR (RetentionPolicy_of (pr_retention_policy row)) (\<lambda>retention. Inr
       \<lparr>ip_id = Some (pr_id row), ip_organization_id = pr_organization_id row, ip_name = pr_name row,
        ip_description = pr_description row, ip_status = status, ip_input_format = input,
        ip_output_format = output, ip_retention_policy = retention,
        ip_address_policy = pr_address_policy row, ip_ai_policy = pr_ai_policy row,
        ip_allowed_messages = pr_allowed_messages row, ip_mapping = pr_mapping row, ip_rules = rules,
        ip_version_number = pr_version_number row, ip_created_at = pr_created_at row,
        ip_updated_at = pr_updated_at row, ip_published_at = pr_published_at row\<rparr>)))))"

text \<open>The columns that creation and update both take from the profile of the request.\<close>

definition with_content :: "IntegrationProfile \<Rightarrow> ProfileRow \<Rightarrow> ProfileRow" where
  "with_content p row = row\<lparr>pr_name := ip_name p, pr_description := ip_description p,
     pr_input_format := InputFormat_value (ip_input_format p),
     pr_output_format := OutputFormat_value (ip_output_format p),
     pr_retention_policy := RetentionPolicy_value (ip_retention_policy p),
     pr_address_policy := ip_address_policy p, pr_ai_policy := ip_ai_policy p,
     pr_allowed_messages := ip_allowed_messages p, pr_mapping := ip_mapping p,
     pr_rules := map (rule_dict json_of_val) (ip_rules p)\<rparr>"

definition new_profile_row :: "string \<Rightarrow> string \<Rightarrow> instant \<Rightarrow> IntegrationProfile \<Rightarrow> ProfileRow" where
  "new_profile_row key org now p = with_content p
     \<lparr>pr_id = key, pr_organization_id = org, pr_name = [], pr_description = [],
      pr_status = ProfileStatus_value (ip_status p), pr_input_format = [], pr_output_format = [],
      pr_retention_policy = [], pr_address_policy = [], pr_ai_policy = [], pr_allowed_messages = [],
      pr_mapping = ip_mapping p, pr_rules = [], pr_version_number = ip_version_number p,
      pr_created_at = now, pr_updated_at = now, pr_published_at = None\<rparr>"

definition create_profile ::
  "OpsEnv \<Rightarrow> (pyval \<Rightarrow> string) \<Rightarrow> instant \<Rightarrow> string \<Rightarrow> IntegrationProfile \<Rightarrow> Integ \<Rightarrow> IntegrationProfile res \<times> Integ" where
  "create_profile env repr_other now org p st =
     (let row = new_profile_row (next_key env st) org now p in
      if \<not> int4_ok (ip_version_number p) then (Inl int4_error, st)
      else (profile_to_domain repr_other row, draw_key (st\<lparr>ig_profiles := ig_profiles st @ [row]\<rparr>)))"

definition get_profile_row :: "scan \<Rightarrow> string \<Rightarrow> string \<Rightarrow> ProfileRow list \<Rightarrow> ProfileRow res" where
  "get_profile_row scan org profile_id =
     get_one scan (\<lambda>r. pr_id r = profile_id \<and> pr_organization_id r = org) ''profile not found''"

definition get_profile ::
  "OpsEnv \<Rightarrow> (pyval \<Rightarrow> string) \<Rightarrow> string \<Rightarrow> string \<Rightarrow> Integ \<Rightarrow> IntegrationProfile res" where
  "get_profile env repr_other org profile_id st =
     bindR (get_profile_row (oe_scan env) org profile_id (ig_profiles st)) (profile_to_domain repr_other)"

text \<open>An update writes neither the status nor the version number of the request.\<close>

definition update_profile ::
  "OpsEnv \<Rightarrow> (pyval \<Rightarrow> string) \<Rightarrow> instant \<Rightarrow> string \<Rightarrow> string \<Rightarrow> IntegrationProfile \<Rightarrow> Integ \<Rightarrow>
     IntegrationProfile res \<times> Integ" where
  "update_profile env repr_other now org profile_id p st =
     (case get_profile_row (oe_scan env) org profile_id (ig_profiles st) of
        Inl e \<Rightarrow> (Inl e, st)
      | Inr row \<Rightarrow>
          if pr_status row = ''PUBLISHED''
          then (Inl (ValueError ''published profiles are immutable; create a new draft version''), st)
          else (let f = (\<lambda>r. (with_content p r)\<lparr>pr_updated_at := now\<rparr>) in
            (profile_to_domain repr_other (f row),
             st\<lparr>ig_profiles := update_rows (\<lambda>r. pr_id r = pr_id row) f (ig_profiles st)\<rparr>)))"

definition validate_profile :: "IntegrationProfile \<Rightarrow> string list" where
  "validate_profile p =
     map (\<lambda>e. ''mapping: '' @ mi_code e @ '' '' @ mi_message e) (mvn_errors (validate_mapping (ip_mapping p))) @
     concat (map (\<lambda>rc. map (\<lambda>e. ''rule '' @ rc_rule_id rc @ '': '' @ e) (validate_rule_config rc)) (ip_rules p))"

definition version_snapshot :: "string \<Rightarrow> instant \<Rightarrow> ProfileRow \<Rightarrow> IntegrationProfile \<Rightarrow> VersionRow" where
  "version_snapshot key now row p =
     \<lparr>vr_id = key, vr_profile_id = pr_id row, vr_organization_id = pr_organization_id row,
      vr_version_number = pr_version_number row, vr_name = pr_name row, vr_input_format = pr_input_format row,
      vr_mapping = pr_mapping row, vr_rules = pr_rules row, vr_mapping_version = mapping_version p,
      vr_ruleset_version = ruleset_version p, vr_published_at = now\<rparr>"

text \<open>Changing the status also sets \<open>updated_at\<close> (\<open>onupdate\<close>).\<close>

definition publish_profile ::
  "OpsEnv \<Rightarrow> (pyval \<Rightarrow> string) \<Rightarrow> instant \<Rightarrow> string \<Rightarrow> string \<Rightarrow> Integ \<Rightarrow> IntegrationProfile res \<times> Integ" where
  "publish_profile env repr_other now org profile_id st =
     (case get_profile_row (oe_scan env) org profile_id (ig_profiles st) of
        Inl e \<Rightarrow> (Inl e, st)
      | Inr row \<Rightarrow> (case profile_to_domain repr_other row of
          Inl e \<Rightarrow> (Inl e, st)
        | Inr p \<Rightarrow>
            if validate_profile p \<noteq> [] then (Inl (ValueError (join ''; '' (validate_profile p))), st)
            else (let f = (\<lambda>r. r\<lparr>pr_status := ''PUBLISHED'', pr_published_at := Some now, pr_updated_at := now\<rparr>) in
              (profile_to_domain repr_other (f row),
               draw_key (st\<lparr>ig_versions := ig_versions st @ [version_snapshot (next_key env st) now row p],
                 ig_profiles := update_rows (\<lambda>r. pr_id r = pr_id row) f (ig_profiles st)\<rparr>)))))"

definition list_profile_versions :: "OpsEnv \<Rightarrow> string \<Rightarrow> string \<Rightarrow> Integ \<Rightarrow> VersionRow list" where
  "list_profile_versions env org profile_id st = order_by_desc vr_version_number
     (select_where (oe_scan env) (\<lambda>v. vr_profile_id v = profile_id \<and> vr_organization_id v = org) (ig_versions st))"

definition list_profiles :: "OpsEnv \<Rightarrow> (pyval \<Rightarrow> string) \<Rightarrow> string \<Rightarrow> Integ \<Rightarrow> IntegrationProfile list res" where
  "list_profiles env repr_other org st = mapR (profile_to_domain repr_other)
     (select_where (oe_scan env) (\<lambda>r. pr_organization_id r = org) (ig_profiles st))"

section \<open>Profile routes\<close>

text \<open>What a route makes of a missing row and of a rejected value.\<close>

definition http_error :: "string \<Rightarrow> nat \<Rightarrow> py_error \<Rightarrow> py_error" where
  "http_error missing code e = (case e of
     LookupError _ \<Rightarrow> HTTPException 404 missing | ValueError m \<Rightarrow> HTTPException code m | _ \<Rightarrow> e)"

definition lookup_404 :: "string \<Rightarrow> py_error \<Rightarrow> py_error" where
  "lookup_404 missing e = (case e of LookupError _ \<Rightarrow> HTTPException 404 missing | _ \<Rightarrow> e)"

definition map_error :: "(py_error \<Rightarrow> py_error) \<Rightarrow> 'a res \<Rightarrow> 'a res" where
  "map_error f r = (case r of Inl e \<Rightarrow> Inl (f e) | Inr x \<Rightarrow> Inr x)"

definition route_get_profile where
  "route_get_profile env repr_other client profile_id st =
     map_error (lookup_404 ''profile not found'')
       (get_profile env repr_other (ac_organization_id client) profile_id st)"

definition route_update_profile where
  "route_update_profile env repr_other now client profile_id p st =
     apfst (map_error (http_error ''profile not found'' 409))
       (update_profile env repr_other now (ac_organization_id client) profile_id p st)"

definition route_validate_profile ::
  "OpsEnv \<Rightarrow> (pyval \<Rightarrow> string) \<Rightarrow> AuthenticatedClient \<Rightarrow> string \<Rightarrow> Integ \<Rightarrow> (bool \<times> string list) res" where
  "route_validate_profile env repr_other client profile_id st =
     bindR (route_get_profile env repr_other client profile_id st)
       (\<lambda>p. Inr (validate_profile p = [], validate_profile p))"

definition route_publish_profile ::
  "OpsEnv \<Rightarrow> (pyval \<Rightarrow> string) \<Rightarrow> instant \<Rightarrow> AuthenticatedClient \<Rightarrow> string \<Rightarrow> Integ \<Rightarrow> int res \<times> Integ" where
  "route_publish_profile env repr_other now client profile_id st =
     apfst (\<lambda>r. bindR (map_error (http_error ''profile not found'' 422) r) (\<lambda>p. Inr (ip_version_number p)))
       (publish_profile env repr_other now (ac_organization_id client) profile_id st)"

end
