(* ===== verification/PO_ProfileRun.thy ===== *)
theory PO_ProfileRun
  imports PO_Integration
begin

text \<open>
  The analysis of a payload under a profile (\<open>integration_analysis_service.py\<close>) and the routes that
  run it (\<open>routers/integrations.py\<close>, \<open>/test\<close> of \<open>routers/profiles.py\<close>). A fresh address provider is
  built for every analysis; \<open>pe_calls\<close> gives what the \<open>n\<close>-th call of a Swift provider meets, counted
  over the whole run, and the state carries that count. The JSON decoder is the parameter
  \<open>pe_json_loads\<close>; a payload is the text that the request carries.
\<close>

section \<open>Provider and rules of a profile\<close>

record ProfileEnv =
  pe_ops :: OpsEnv
  pe_pipeline :: "nat \<Rightarrow> pipeline_env"
  pe_mapping :: mapping_env
  pe_members :: members
  pe_repr :: "pyval \<Rightarrow> string"
  pe_json_loads :: "string \<Rightarrow> jval res"
  pe_registry :: IsoMessageRegistry
  pe_calls :: "nat \<Rightarrow> swift_env"
  pe_swift_address_url :: string
  pe_swift_max_retries :: int

text \<open>The state of a provider: the calls made so far, and the two wrapped providers.\<close>

type_synonym provider_state = "nat \<times> swift_state \<times> unit \<times> nat"

definition build_profile_rules :: "ProfileEnv \<Rightarrow> IntegrationProfile \<Rightarrow> RuleEngine" where
  "build_profile_rules env p = composite_engine (re_rules build_address_ruleset) RULESET_VERSION
     (Some (build_declarative_rules (pe_members env) (pe_repr env) (ip_rules p))) None"

definition uses_swift :: "ProfileEnv \<Rightarrow> string \<Rightarrow> bool" where
  "uses_swift env address_policy \<longleftrightarrow>
     address_policy = ''swift'' \<or> address_policy = ''auto'' \<and> pe_swift_address_url env \<noteq> []"

definition profile_swift_config :: "ProfileEnv \<Rightarrow> swift_config" where
  "profile_swift_config env =
     \<lparr>sw_endpoint = rev (dropWhile (\<lambda>c. c = CHR ''/'') (rev (pe_swift_address_url env))),
      sw_max_retries = pe_swift_max_retries env, sw_circuit_threshold = 3, sw_cooldown = 30\<rparr>"

definition fallback_call :: "ProfileEnv \<Rightarrow> PostalAddress \<Rightarrow> provider_state \<Rightarrow> AddressAnalysis res \<times> provider_state" where
  "fallback_call env address = (\<lambda>(n, st).
     apsnd (Pair (Suc n))
       (fallback_analyze (swift_analyze (profile_swift_config env)) cloudnova_provider (pe_calls env n, ()) address st))"

definition cloudnova_call :: "PostalAddress \<Rightarrow> provider_state \<Rightarrow> AddressAnalysis res \<times> provider_state" where
  "cloudnova_call address s = (Inr (cloudnova_analyze address), s)"

definition build_profile_provider :: "ProfileEnv \<Rightarrow> string \<Rightarrow> provider_state analyzer" where
  "build_profile_provider env address_policy =
     (if uses_swift env address_policy then fallback_call env else cloudnova_call)"

section \<open>Input\<close>

record MappedInput =
  mi_artifact :: PaymentMessage
  mi_doc :: "SecureXmlDocument option"
  mi_xsd_result :: "SchemaValidationResult option"
  mi_message_version :: string

text \<open>A column that the row does not reach is null; the surplus values stand under the key \<open>None\<close>, written as the text of one NUL.\<close>

definition cell_json :: "string option \<Rightarrow> jval" where
  "cell_json = opt_json"

definition csv_row_json :: "CsvRow \<Rightarrow> jval" where
  "csv_row_json r = JObj (map (\<lambda>(k, v). (k, cell_json v)) (cr_cells r) @
     (case cr_rest r of None \<Rightarrow> [] | Some vs \<Rightarrow> [([CHR 0x00], JList (map JStr vs))]))"

definition map_source :: "ProfileEnv \<Rightarrow> IntegrationProfile \<Rightarrow> msource \<Rightarrow> MappedInput res" where
  "map_source env p source = bindR (map_to_canonical (pe_mapping env) (ip_mapping p) source) (\<lambda>r. Inr
     \<lparr>mi_artifact = mr_message r, mi_doc = None, mi_xsd_result = None, mi_message_version = mapping_version p\<rparr>)"

definition parse_source :: "pipeline_env \<Rightarrow> string \<Rightarrow> SecureXmlDocument res" where
  "parse_source env payload = secure_parse (pv_fromstring env) (pv_docinfo env) (Some payload) DEFAULT_MAX_PAYLOAD_BYTES"

definition map_iso :: "ProfileEnv \<Rightarrow> pipeline_env \<Rightarrow> IntegrationProfile \<Rightarrow> string \<Rightarrow> MappedInput res" where
  "map_iso env pv p payload =
     bindR (parse_source pv payload) (\<lambda>doc.
     bindR (resolve_root (pe_registry env) (sd_root doc)) (\<lambda>reg.
       let version_id = mdf_version (reg_definition reg) in
       if ip_allowed_messages p \<noteq> [] \<and> version_id \<notin> set (ip_allowed_messages p)
       then Inl (ValueError (''message '' @ version_id @ '' not allowed for this profile''))
       else bindR (validate_message (rv_schemas (pv_repair pv)) (sd_root doc) version_id) (\<lambda>xsd.
            bindR (reg_adapter reg (rv_now (pv_repair pv)) (sd_root doc) (reg_version_obj reg)) (\<lambda>a. case a of
              AMessage m \<Rightarrow> Inr \<lparr>mi_artifact = m, mi_doc = Some doc, mi_xsd_result = Some xsd,
                                mi_message_version = version_id\<rparr>
            | _ \<Rightarrow> Inl (ValueError ''profile analysis supports payment messages only'')))))"

definition map_input :: "ProfileEnv \<Rightarrow> pipeline_env \<Rightarrow> IntegrationProfile \<Rightarrow> string \<Rightarrow> MappedInput res" where
  "map_input env pv p payload = (case ip_input_format p of
     IF_ISO20022_XML \<Rightarrow> map_iso env pv p payload
   | IF_JSON \<Rightarrow> bindR (pe_json_loads env payload) (\<lambda>data. map_source env p (RJson data))
   | IF_CSV \<Rightarrow> bindR (dict_reader payload) (\<lambda>rows. map_source env p (RJson (JList (map csv_row_json rows))))
   | IF_CUSTOM_XML \<Rightarrow> bindR (parse_source pv payload) (\<lambda>doc. map_source env p (RXml (sd_root doc))))"

section \<open>Geography\<close>

definition DEV_COVERAGE :: "string list" where
  "DEV_COVERAGE = [''IT'', ''IN'', ''SA'', ''GB'', ''DE'', ''FR'', ''ES'', ''NL'']"

definition covered_addresses :: "PaymentTransaction \<Rightarrow> PostalAddress list" where
  "covered_addresses tx =
     collect_some (\<lambda>p. Option.bind p py_postal_address) [tx_debtor tx, tx_creditor tx] @
     collect_some (\<lambda>a. Option.bind a fi_postal_address) [tx_debtor_agent tx, tx_creditor_agent tx]"

definition message_countries :: "PaymentMessage \<Rightarrow> string list" where
  "message_countries m = map (\<lambda>a. upper (dget_opt (pa_country a)))
     (filter (\<lambda>a. truthy (pa_country a)) (concat (map covered_addresses (pm_transactions m))))"

definition compute_coverage :: "PaymentMessage \<Rightarrow> string" where
  "compute_coverage m =
     (if message_countries m = [] then ''UNKNOWN''
      else if set (message_countries m) \<subseteq> set DEV_COVERAGE then ''SUPPORTED'' else ''UNSUPPORTED_GEOGRAPHY'')"

section \<open>Analysis under a profile\<close>

text \<open>The dictionary that \<open>analyze_profile\<close> returns: the profile's versions and the fields of the analysis.\<close>

record ProfileResult =
  pf_integration_profile_version :: string
  pf_mapping_version :: string
  pf_ruleset_version :: string
  pf_engine_version :: string
  pf_coverage :: string
  pf_result :: AnalysisResult

definition analyze_profile ::
  "ProfileEnv \<Rightarrow> pipeline_env \<Rightarrow> IntegrationProfile \<Rightarrow> string \<Rightarrow> bool \<Rightarrow> bool \<Rightarrow> nat \<Rightarrow> ProfileResult res \<times> nat" where
  "analyze_profile env pv p payload repair include_candidate_xml calls =
     (case map_input env pv p payload of
        Inl e \<Rightarrow> (Inl e, calls)
      | Inr i \<Rightarrow>
          (let pl = \<lparr>pp_analyze = build_profile_provider env (ip_address_policy p),
                     pp_rules_engine = build_profile_rules env p, pp_max_payload_bytes = DEFAULT_MAX_PAYLOAD_BYTES\<rparr>;
               coverage = compute_coverage (mi_artifact i) in
           (case analyze_message pv pl (mi_artifact i) (mi_doc i) (mi_xsd_result i)
                  (Some (InputFormat_value (ip_input_format p)))
                  (Some (dget_opt (por (Some (mi_message_version i)) (Some (mapping_version p)))))
                  repair include_candidate_xml (calls, swift_init, (), 0) of
              (Inl e, s) \<Rightarrow> (Inl e, fst s)
            | (Inr r, s) \<Rightarrow>
                (Inr \<lparr>pf_integration_profile_version = show_int (ip_version_number p),
                      pf_mapping_version = mapping_version p, pf_ruleset_version = ruleset_version p,
                      pf_engine_version = ENGINE_VERSION, pf_coverage = coverage,
                      pf_result = r\<lparr>ar_address_provider_coverage := Some coverage\<rparr>\<rparr>, fst s))))"

section \<open>The analysis route\<close>

record ProfileAnalyzeRequest =
  aq_payload :: string
  aq_do_repair :: bool
  aq_candidate_xml :: bool
  aq_idempotency_key :: "string option"

definition profile_case ::
  "string \<Rightarrow> string \<Rightarrow> instant \<Rightarrow> IntegrationProfile \<Rightarrow> ProfileResult \<Rightarrow> string option \<Rightarrow> PaymentCase" where
  "profile_case key org now p f idem = (let r = pf_result f in
     \<lparr>pc_id = key, pc_case_id = ar_case_id r, pc_organization_id = Some org,
      pc_message_type = Some (InputFormat_value (ip_input_format p)),
      pc_message_version = Some (pf_mapping_version f),
      pc_validation_status = Some (ar_original_validation_status r),
      pc_address_readiness = ar_address_readiness r, pc_repair_status = ar_repair_status r,
      pc_ruleset_version = Some (pf_ruleset_version f), pc_mapping_version = Some (pf_mapping_version f),
      pc_integration_profile_version = Some (pf_integration_profile_version f),
      pc_engine_version = Some (pf_engine_version f), pc_address_provider = ar_address_provider r,
      pc_address_provider_version = ar_address_provider_version r,
      pc_address_provider_coverage = Some (pf_coverage f), pc_input_hash = ar_input_hash r,
      pc_output_hash = ar_output_hash r,
      pc_status = (if ar_candidate_validation_status r = Some ''REVIEW_REQUIRED'' then ''REVIEW_REQUIRED''
                   else ''ANALYZED''),
      pc_idempotency_key = idem, pc_created_at = now\<rparr>)"

text \<open>The findings and the candidate carry the organization, the audit entry does not.\<close>

definition persist_profile_case ::
  "OpsEnv \<Rightarrow> instant \<Rightarrow> string \<Rightarrow> IntegrationProfile \<Rightarrow> ProfileResult \<Rightarrow> string option \<Rightarrow> Ops \<Rightarrow> PaymentCase res \<times> Ops" where
  "persist_profile_case env now org p f idem st =
     (let r = pf_result f; case_id = ar_case_id r; k = op_uuids st; n = length (ar_rule_findings r);
          c = profile_case (oe_uid env k) org now p f idem;
          found = map (\<lambda>(i, x). finding_row (oe_uid env (k + 1 + i)) case_id (Some org) x)
                    (List.enumerate 0 (ar_rule_findings r));
          cand = (if truthy (ar_candidate_validation_status r)
                  then [\<lparr>rk_id = oe_uid env (k + 1 + n), rk_organization_id = Some org, rk_case_id = case_id,
                         rk_candidate_id = ''RC-'' @ case_id,
                         rk_status = dget_opt (ar_candidate_validation_status r),
                         rk_xml_sha256 = ar_output_hash r, rk_created_at = now\<rparr>] else []);
          ev = audit_event (oe_uid env (k + 2 + n)) now None (Some case_id) ''analysis_completed'' None None in
      if case_id \<in> pc_case_id ` set (op_cases st) then (Inl (IntegrityError ''payment_cases.case_id''), st)
      else (Inr c, st\<lparr>op_cases := op_cases st @ [c], op_findings := op_findings st @ found,
              op_candidates := op_candidates st @ cand, op_audit := op_audit st @ [ev],
              op_uuids := k + 3 + n\<rparr>))"

definition find_existing_case :: "scan \<Rightarrow> string \<Rightarrow> string \<Rightarrow> PaymentCase list \<Rightarrow> PaymentCase option res" where
  "find_existing_case scan org idem rows = scalar_one_or_none
     (select_where scan (\<lambda>c. pc_organization_id c = Some org \<and> pc_idempotency_key c = Some idem) rows)"

datatype analyze_reply = Fresh ProfileResult string | Idempotent PaymentCase

definition profile_analyze ::
  "ProfileEnv \<Rightarrow> pipeline_env \<Rightarrow> instant \<Rightarrow> AuthenticatedClient \<Rightarrow> string \<Rightarrow> ProfileAnalyzeRequest \<Rightarrow> nat \<times> Integ \<Rightarrow>
     analyze_reply res \<times> nat \<times> Integ" where
  "profile_analyze env pv now client profile_id body = (\<lambda>(calls, st).
     let org = ac_organization_id client; oe = pe_ops env in
     if ac_allowed_profiles client \<noteq> [] \<and> profile_id \<notin> set (ac_allowed_profiles client)
     then (Inl (HTTPException 403 ''profile not authorized for client''), calls, st)
     else (case map_error (lookup_404 ''profile not found'') (get_profile oe (pe_repr env) org profile_id st) of
       Inl e \<Rightarrow> (Inl e, calls, st)
     | Inr p \<Rightarrow>
       if ip_status p \<noteq> PS_PUBLISHED then (Inl (HTTPException 409 ''profile not published''), calls, st)
       else (case (if truthy (aq_idempotency_key body)
                   then find_existing_case (oe_scan oe) org (dget_opt (aq_idempotency_key body)) (op_cases (ig_ops st))
                   else Inr None) of
           Inl e \<Rightarrow> (Inl e, calls, st)
         | Inr (Some c) \<Rightarrow> (Inr (Idempotent c), calls, st)
         | Inr None \<Rightarrow> (case analyze_profile env pv p (aq_payload body) (aq_do_repair body) (aq_candidate_xml body) calls of
             (Inl e, calls') \<Rightarrow> (Inl e, calls', st)
           | (Inr f, calls') \<Rightarrow> (case persist_profile_case oe now org p f (aq_idempotency_key body) (ig_ops st) of
               (Inl e, ops) \<Rightarrow> (Inl e, calls', st\<lparr>ig_ops := ops\<rparr>)
             | (Inr c, ops) \<Rightarrow> (Inr (Fresh f (pc_case_id c)), calls', st\<lparr>ig_ops := ops\<rparr>))))))"

text \<open>The test route runs a profile of any status and stores nothing.\<close>

definition test_profile ::
  "ProfileEnv \<Rightarrow> pipeline_env \<Rightarrow> AuthenticatedClient \<Rightarrow> string \<Rightarrow> string \<Rightarrow> nat \<Rightarrow> Integ \<Rightarrow> (int \<times> ProfileResult) res \<times> nat" where
  "test_profile env pv client profile_id payload calls st =
     (case route_get_profile (pe_ops env) (pe_repr env) client profile_id st of
        Inl e \<Rightarrow> (Inl e, calls)
      | Inr p \<Rightarrow> (case analyze_profile env pv p payload False False calls of
          (Inl e, calls') \<Rightarrow> (Inl e, calls')
        | (Inr f, calls') \<Rightarrow> (Inr (ip_version_number p, f), calls')))"

end
