(* ===== verification/PO_Batch.thy ===== *)
theory PO_Batch
  imports PO_ProfileRun
begin

text \<open>
  Batch jobs (\<open>services/batch_service.py\<close>, \<open>routers/batches.py\<close> and the worker task
  \<open>batch_tasks.py\<close>): a CSV text is stored for a job, the worker reads it back, analyses each row under
  the profile and counts the results. The worker's Redis client decodes its values, so an input
  comes back as the text that was stored. An exception of a row is counted; the job row is committed
  before the loop, after every 25th row and at the end, and the operation returns these commits in
  order beside its result.
\<close>

section \<open>Limits and inputs\<close>

definition MAX_FILE_BYTES :: nat where
  "MAX_FILE_BYTES = 2000000"

definition MAX_ROWS :: nat where
  "MAX_ROWS = 5000"

definition PROGRESS_INTERVAL :: nat where
  "PROGRESS_INTERVAL = 25"

text \<open>The number of bytes of a text in UTF-8; the model's characters are the code points below 256.\<close>

definition utf8_length :: "string \<Rightarrow> nat" where
  "utf8_length s = sum_list (map (\<lambda>c. if (of_char c :: nat) < 128 then 1 else 2) s)"

definition input_key :: "string \<Rightarrow> string" where
  "input_key job_id = ''paymentops:batch:'' @ job_id @ '':input''"

definition store_input :: "string \<Rightarrow> string \<Rightarrow> Integ \<Rightarrow> string \<times> Integ" where
  "store_input job_id csv_text st =
     (input_key job_id, st\<lparr>ig_redis := AList.update (input_key job_id) csv_text (ig_redis st)\<rparr>)"

definition get_input :: "string \<Rightarrow> Integ \<Rightarrow> string res" where
  "get_input key st = (case map_of (ig_redis st) key of
     None \<Rightarrow> Inl (LookupError ''batch input not found'') | Some v \<Rightarrow> Inr v)"

text \<open>The key of an input is removed after an hour, or when the job ends.\<close>

definition drop_input :: "string \<Rightarrow> Integ \<Rightarrow> Integ" where
  "drop_input key st = st\<lparr>ig_redis := filter (\<lambda>x. fst x \<noteq> key) (ig_redis st)\<rparr>"

section \<open>Jobs\<close>

definition new_job :: "string \<Rightarrow> string \<Rightarrow> string \<Rightarrow> int \<Rightarrow> instant \<Rightarrow> BatchJob" where
  "new_job key org profile_id profile_version now =
     \<lparr>bj_id = key, bj_organization_id = org, bj_profile_id = profile_id, bj_profile_version = profile_version,
      bj_status = ''QUEUED'', bj_total_records = 0, bj_processed_records = 0, bj_ready_count = 0,
      bj_repairable_count = 0, bj_review_required_count = 0, bj_unresolved_count = 0, bj_failed_count = 0,
      bj_report = None, bj_created_at = now, bj_started_at = None, bj_completed_at = None\<rparr>"

definition create_batch_job ::
  "OpsEnv \<Rightarrow> instant \<Rightarrow> string \<Rightarrow> string \<Rightarrow> int \<Rightarrow> Integ \<Rightarrow> BatchJob res \<times> Integ" where
  "create_batch_job env now org profile_id profile_version st =
     (let job = new_job (next_key env st) org profile_id profile_version now in
      if \<not> int4_ok profile_version then (Inl int4_error, st)
      else (Inr job, draw_key (st\<lparr>ig_jobs := ig_jobs st @ [job]\<rparr>)))"

definition get_job :: "scan \<Rightarrow> string \<Rightarrow> string \<Rightarrow> BatchJob list \<Rightarrow> BatchJob res" where
  "get_job scan org job_id = get_one scan (\<lambda>j. bj_id j = job_id \<and> bj_organization_id j = org) ''job not found''"

definition get_job_row :: "scan \<Rightarrow> string \<Rightarrow> BatchJob list \<Rightarrow> BatchJob res" where
  "get_job_row scan job_id = get_one scan (\<lambda>j. bj_id j = job_id) ''job not found''"

definition save_job :: "BatchJob \<Rightarrow> Integ \<Rightarrow> Integ" where
  "save_job job st = st\<lparr>ig_jobs := update_rows (\<lambda>j. bj_id j = bj_id job) (\<lambda>_. job) (ig_jobs st)\<rparr>"

section \<open>Rows\<close>

record BatchCounts =
  bc_counts :: "(string, nat) dict"
  bc_failed :: nat
  bc_top_rules :: "(string, nat) dict"

definition no_counts :: BatchCounts where
  "no_counts = \<lparr>bc_counts = [(''READY'', 0), (''REPAIRABLE'', 0), (''REVIEW_REQUIRED'', 0), (''UNRESOLVED'', 0)],
     bc_failed = 0, bc_top_rules = []\<rparr>"

text \<open>
  The row as a CSV text of its own: header and values joined with commas, not quoted. A missing
  value or the key \<open>None\<close> has no join.
\<close>

definition row_text :: "CsvRow \<Rightarrow> string res" where
  "row_text row =
     (if cr_rest row \<noteq> None \<or> list_ex (\<lambda>(k, v). v = None) (cr_cells row)
      then Inl (TypeError ''sequence item: expected str instance, NoneType found'')
      else Inr (join [COMMA] (map fst (cr_cells row)) @ LF # join [COMMA] (map (\<lambda>(k, v). dget_opt v) (cr_cells row))))"

definition count_key :: "'k \<Rightarrow> ('k, nat) dict \<Rightarrow> ('k, nat) dict" where
  "count_key k d = AList.update k (dget d k 0 + 1) d"

definition count_result :: "ProfileResult res \<Rightarrow> BatchCounts \<Rightarrow> BatchCounts" where
  "count_result r c = (case r of
     Inl _ \<Rightarrow> c\<lparr>bc_failed := Suc (bc_failed c)\<rparr>
   | Inr f \<Rightarrow> c\<lparr>bc_counts := count_key (dget_opt (por (ar_address_readiness (pf_result f)) (Some ''UNRESOLVED''))) (bc_counts c),
       bc_top_rules := fold (\<lambda>x. count_key (rf_rule_id x)) (ar_rule_findings (pf_result f)) (bc_top_rules c)\<rparr>)"

definition batch_report :: "nat \<Rightarrow> BatchCounts \<Rightarrow> BatchReport" where
  "batch_report n_rows c =
     \<lparr>br_total_records = n_rows, br_ready = dget (bc_counts c) ''READY'' 0,
      br_repairable = dget (bc_counts c) ''REPAIRABLE'' 0,
      br_review_required = dget (bc_counts c) ''REVIEW_REQUIRED'' 0,
      br_unresolved = dget (bc_counts c) ''UNRESOLVED'' 0, br_failed = bc_failed c,
      br_top_rule_findings = take 10 (sort_desc snd (bc_top_rules c))\<rparr>"

definition write_counts :: "nat \<Rightarrow> BatchCounts \<Rightarrow> BatchJob \<Rightarrow> BatchJob" where
  "write_counts n_rows c job = (let r = batch_report n_rows c in
     job\<lparr>bj_ready_count := br_ready r, bj_repairable_count := br_repairable r,
         bj_review_required_count := br_review_required r, bj_unresolved_count := br_unresolved r,
         bj_failed_count := br_failed r, bj_report := Some r\<rparr>)"

text \<open>The analysis of the \<open>i\<close>-th row, given by its text, on the state of the calls made.\<close>

type_synonym row_analyzer = "nat \<Rightarrow> string \<Rightarrow> nat \<Rightarrow> ProfileResult res \<times> nat"

definition run_row :: "row_analyzer \<Rightarrow> nat \<Rightarrow> CsvRow \<Rightarrow> nat \<Rightarrow> ProfileResult res \<times> nat" where
  "run_row run1 i row calls = (case row_text row of Inl e \<Rightarrow> (Inl e, calls) | Inr s \<Rightarrow> run1 i s calls)"

text \<open>The loop: the counts, the job, the commits so far and the calls.\<close>

fun batch_rows ::
  "row_analyzer \<Rightarrow> nat \<Rightarrow> nat \<Rightarrow> CsvRow list \<Rightarrow> BatchCounts \<Rightarrow> BatchJob \<Rightarrow> nat \<Rightarrow>
     BatchCounts \<times> BatchJob \<times> BatchJob list \<times> nat" where
  "batch_rows run1 n_rows i [] c job calls = (c, job, [], calls)"
| "batch_rows run1 n_rows i (row # rows) c job calls =
     (let (r, calls') = run_row run1 i row calls;
          c' = count_result r c;
          job' = job\<lparr>bj_processed_records := i + 1\<rparr>;
          due = ((i + 1) mod PROGRESS_INTERVAL = 0 \<or> i + 1 = n_rows);
          job'' = (if due then write_counts n_rows c' job' else job');
          (c2, job2, commits, calls2) = batch_rows run1 n_rows (i + 1) rows c' job'' calls' in
      (c2, job2, (if due then job'' # commits else commits), calls2))"

section \<open>Processing\<close>

definition no_result :: py_error where
  "no_result = LookupError ''No row was found when one was required''"

text \<open>The profile of a job, by its id alone; columns it does not pass on have their defaults.\<close>

definition load_profile :: "ProfileEnv \<Rightarrow> instant \<Rightarrow> BatchJob \<Rightarrow> Integ \<Rightarrow> IntegrationProfile res" where
  "load_profile env now job st =
     (case select_where (oe_scan (pe_ops env)) (\<lambda>r. pr_id r = bj_profile_id job) (ig_profiles st) of
        [] \<Rightarrow> Inl no_result
      | [row] \<Rightarrow> bindR (profile_to_domain (pe_repr env) row) (\<lambda>p. Inr (p\<lparr>ip_description := [],
          ip_output_format := OF_ANALYSIS_JSON, ip_retention_policy := RP_METADATA_ONLY, ip_ai_policy := ''disabled'',
          ip_allowed_messages := [], ip_created_at := now, ip_updated_at := now, ip_published_at := None\<rparr>))
      | _ \<Rightarrow> Inl MultipleResultsFound)"

definition terminal_status :: "string \<Rightarrow> bool" where
  "terminal_status s \<longleftrightarrow> s \<in> {''COMPLETED'', ''PARTIAL'', ''FAILED''}"

definition start_job :: "instant \<Rightarrow> nat \<Rightarrow> BatchJob \<Rightarrow> BatchJob" where
  "start_job now n_rows job = job\<lparr>bj_status := ''RUNNING'', bj_started_at := Some now, bj_total_records := n_rows\<rparr>"

definition finish_job :: "instant \<Rightarrow> nat \<Rightarrow> BatchCounts \<Rightarrow> BatchJob \<Rightarrow> BatchJob" where
  "finish_job now n_rows c job = write_counts n_rows c
     (job\<lparr>bj_status := (if bc_failed c = 0 then ''COMPLETED'' else ''PARTIAL''), bj_completed_at := Some now\<rparr>)"

definition fail_job :: "BatchJob \<Rightarrow> BatchJob" where
  "fail_job job = job\<lparr>bj_status := ''FAILED''\<rparr>"

text \<open>The loop over the rows of a started job, and its end; the last commit is what is stored.\<close>

definition run_job :: "row_analyzer \<Rightarrow> instant \<Rightarrow> CsvRow list \<Rightarrow> BatchJob \<Rightarrow> nat \<Rightarrow> BatchJob \<times> BatchJob list \<times> nat" where
  "run_job run1 now rows job calls =
     (let (c, job', commits, calls') = batch_rows run1 (length rows) 0 rows no_counts job calls;
          job2 = finish_job now (length rows) c job' in
      (job2, commits @ [job2], calls'))"

definition profile_rows :: "ProfileEnv \<Rightarrow> IntegrationProfile \<Rightarrow> row_analyzer" where
  "profile_rows env p i payload = analyze_profile env (pe_pipeline env i) p payload True False"

definition process_batch ::
  "ProfileEnv \<Rightarrow> instant \<Rightarrow> string \<Rightarrow> string \<Rightarrow> nat \<times> Integ \<Rightarrow>
     (BatchReport option res \<times> BatchJob list) \<times> nat \<times> Integ" where
  "process_batch env now job_id redis_key = (\<lambda>(calls, st).
     case get_job_row (oe_scan (pe_ops env)) job_id (ig_jobs st) of
       Inl e \<Rightarrow> ((Inl e, []), calls, st)
     | Inr job \<Rightarrow>
       if terminal_status (bj_status job) then ((Inr (bj_report job), []), calls, st)
       else (case get_input redis_key st of
         Inl e \<Rightarrow> ((Inl e, []), calls, st)
       | Inr csv_text \<Rightarrow>
         if MAX_FILE_BYTES < utf8_length csv_text
         then ((Inl (BatchLimitError ''batch file too large''), [fail_job job]), calls, save_job (fail_job job) st)
         else (case dict_reader csv_text of
           Inl e \<Rightarrow> ((Inl e, []), calls, st)
         | Inr rows \<Rightarrow>
           if MAX_ROWS < length rows
           then ((Inl (BatchLimitError ''too many rows''), [fail_job job]), calls, save_job (fail_job job) st)
           else (let job1 = start_job now (length rows) job; st1 = save_job job1 st in
             (case load_profile env now job1 st1 of
               Inl e \<Rightarrow> ((Inl e, [job1]), calls, st1)
             | Inr p \<Rightarrow>
               (let (job2, commits, calls') = run_job (profile_rows env p) now rows job1 calls in
                ((Inr (bj_report job2), job1 # commits), calls', drop_input redis_key (save_job job2 st1))))))))"

section \<open>Routes\<close>

record CreateBatchRequest =
  bq_profile_id :: string
  bq_csv :: string
  bq_profile_version :: int

text \<open>
  The reply names the job; the task sent to the worker has the job and the key of its input.
\<close>

definition create_batch ::
  "ProfileEnv \<Rightarrow> instant \<Rightarrow> AuthenticatedClient \<Rightarrow> CreateBatchRequest \<Rightarrow> Integ \<Rightarrow> (BatchJob \<times> string) res \<times> Integ" where
  "create_batch env now client body st =
     (let org = ac_organization_id client; oe = pe_ops env in
      if MAX_FILE_BYTES < utf8_length (bq_csv body) then (Inl (HTTPException 413 ''batch file too large''), st)
      else (case map_error (lookup_404 ''profile not found'') (get_profile oe (pe_repr env) org (bq_profile_id body) st) of
        Inl e \<Rightarrow> (Inl e, st)
      | Inr _ \<Rightarrow> (case create_batch_job oe now org (bq_profile_id body) (bq_profile_version body) st of
          (Inl e, st') \<Rightarrow> (Inl e, st')
        | (Inr job, st') \<Rightarrow> (let (key, st'') = store_input (bj_id job) (bq_csv body) st' in (Inr (job, key), st'')))))"

definition list_batches :: "OpsEnv \<Rightarrow> AuthenticatedClient \<Rightarrow> Integ \<Rightarrow> BatchJob list" where
  "list_batches env client st = order_by_desc bj_created_at
     (select_where (oe_scan env) (\<lambda>j. bj_organization_id j = ac_organization_id client) (ig_jobs st))"

definition get_batch :: "OpsEnv \<Rightarrow> AuthenticatedClient \<Rightarrow> string \<Rightarrow> Integ \<Rightarrow> BatchJob res" where
  "get_batch env client job_id st = map_error (lookup_404 ''job not found'')
     (get_job (oe_scan env) (ac_organization_id client) job_id (ig_jobs st))"

end
