(* ===== verification/PO_IntegrationProps.thy ===== *)
theory PO_IntegrationProps
  imports PO_Batch PO_Tenant
begin

text \<open>
  Integration profiles: what is written reads back, what is published stays, what is recorded
  describes what runs, and a repeated request with the same key finds its case. \<open>integ_step\<close> are the
  operations on the store of the integration services, with the organization they act for;
  \<open>integ_run\<close> are their runs.
\<close>

section \<open>Lookups of a tenant\<close>

interpretation profile_rows: tenant_get get_profile_row pr_organization_id pr_id
  by (rule get_one_tenant[where msg = "''profile not found''"]) (simp add: get_profile_row_def)

interpretation batch_jobs: tenant_get get_job bj_organization_id bj_id
  by (rule get_one_tenant[where msg = "''job not found''"]) (simp add: get_job_def)

text \<open>Primary keys of the profiles and jobs are distinct and were drawn.\<close>

definition integ_ok :: "OpsEnv \<Rightarrow> Integ \<Rightarrow> bool" where
  "integ_ok env st \<longleftrightarrow>
     keys_used (oe_uid env) (op_uuids (ig_ops st)) (map pr_id (ig_profiles st)) \<and>
     keys_used (oe_uid env) (op_uuids (ig_ops st)) (map bj_id (ig_jobs st))"

lemma drawn_key_fresh: "inj uid \<Longrightarrow> keys_used uid n ks \<Longrightarrow> uid n \<notin> set ks"
  by (force simp: keys_used_def dest: injD)

section \<open>Reading back\<close>

lemma enum_values [simp]:
  "ProfileStatus_of (ProfileStatus_value s) = Inr s" "InputFormat_of (InputFormat_value i) = Inr i"
  "OutputFormat_of (OutputFormat_value f) = Inr f" "RetentionPolicy_of (RetentionPolicy_value p) = Inr p"
proof -
  show "ProfileStatus_of (ProfileStatus_value s) = Inr s"
    by (cases s) (simp_all add: ProfileStatus_of_def enum_of_def ProfileStatus_value_def)
  show "InputFormat_of (InputFormat_value i) = Inr i"
    by (cases i) (simp_all add: InputFormat_of_def enum_of_def InputFormat_value_def)
  show "OutputFormat_of (OutputFormat_value f) = Inr f"
    by (cases f) (simp_all add: OutputFormat_of_def enum_of_def OutputFormat_value_def)
  show "RetentionPolicy_of (RetentionPolicy_value p) = Inr p"
    by (cases p) (simp_all add: RetentionPolicy_of_def enum_of_def RetentionPolicy_value_def)
qed

text \<open>Every value that can stand in a request is read back from its JSON form.\<close>

definition json_value :: "pyval \<Rightarrow> bool" where
  "json_value v \<longleftrightarrow> val_of_json (json_of_val v) = v"

lemma json_value_of_json: "json_value (val_of_json j)"
  unfolding json_value_def
  by (induction j rule: val_of_json.induct) (auto simp: o_def intro!: map_cong)

lemma rule_dict_reads_back: "json_value (rc_value r) \<Longrightarrow> rule_config_from_dict ro (rule_dict json_of_val r) = Inr r"
  by (cases r) (auto simp: rule_config_from_dict_def rule_dict_def required_text_def optional_text_def py_text_def
    Severity_roundtrip json_value_def opt_json_def split: option.splits)

definition rules_from_json :: "IntegrationProfile \<Rightarrow> bool" where
  "rules_from_json p \<longleftrightarrow> list_all (\<lambda>r. json_value (rc_value r)) (ip_rules p)"

lemma rules_read_back:
  "list_all (\<lambda>r. json_value (rc_value r)) rs \<Longrightarrow> mapR (rule_config_from_dict ro) (map (rule_dict json_of_val) rs) = Inr rs"
  by (induction rs) (auto simp: rule_dict_reads_back)

definition stored_as :: "ProfileRow \<Rightarrow> IntegrationProfile \<Rightarrow> IntegrationProfile" where
  "stored_as row p = p\<lparr>ip_id := Some (pr_id row), ip_organization_id := pr_organization_id row,
     ip_version_number := pr_version_number row,
     ip_created_at := pr_created_at row, ip_updated_at := pr_updated_at row, ip_published_at := pr_published_at row\<rparr>"

lemma content_reads_back:
  assumes "rules_from_json p" "pr_status row = ProfileStatus_value s"
  shows "profile_to_domain ro (with_content p row) = Inr (stored_as row (p\<lparr>ip_status := s\<rparr>))"
  using assms by (simp add: profile_to_domain_def with_content_def rules_read_back[of "ip_rules p"] stored_as_def rules_from_json_def)

text \<open>
  A created profile reads back as it was sent, with its own key, the organization of the
  caller, the times of the row and no publication time. This includes its status: a profile sent
  as PUBLISHED is published without validation, and no version records it.
\<close>
theorem created_profile_reads_back:
  assumes "scan_ok (oe_scan env)" "inj (oe_uid env)" "integ_ok env st" "rules_from_json p" "int4_ok (ip_version_number p)"
  shows "fst (create_profile env ro now org p st) =
      get_profile env ro org (next_key env st) (snd (create_profile env ro now org p st)) \<and>
    fst (create_profile env ro now org p st) = Inr (p\<lparr>ip_id := Some (next_key env st), ip_organization_id := org,
      ip_created_at := now, ip_updated_at := now, ip_published_at := None\<rparr>) \<and>
    ig_versions (snd (create_profile env ro now org p st)) = ig_versions st"
proof -
  let ?row = "new_profile_row (next_key env st) org now p"
  have d: "profile_to_domain ro ?row = Inr (p\<lparr>ip_id := Some (next_key env st), ip_organization_id := org,
      ip_created_at := now, ip_updated_at := now, ip_published_at := None\<rparr>)"
    using assms(4) by (simp add: new_profile_row_def content_reads_back[where s = "ip_status p"] stored_as_def)
  have k: "pr_id ?row = next_key env st" "pr_organization_id ?row = org"
    by (simp_all add: new_profile_row_def with_content_def)
  have "pr_id r \<noteq> next_key env st" if "r \<in> set (ig_profiles st)" for r
    using that drawn_key_fresh[OF assms(2), of "op_uuids (ig_ops st)" "map pr_id (ig_profiles st)"] assms(3)
    by (force simp: integ_ok_def next_key_def new_key_def)
  with profile_rows.after_insert[OF assms(1), of "ig_profiles st" ?row] k
  have "get_profile_row (oe_scan env) org (next_key env st) (ig_profiles st @ [?row]) = Inr ?row" by auto
  with assms(5) d show ?thesis
    by (simp add: create_profile_def get_profile_def draw_key_def Let_def)
qed

section \<open>Runs\<close>

inductive integ_step :: "ProfileEnv \<Rightarrow> string \<Rightarrow> nat \<times> Integ \<Rightarrow> nat \<times> Integ \<Rightarrow> bool" for env :: ProfileEnv where
  int_create: "integ_step env org (k, st) (k, snd (create_profile (pe_ops env) (pe_repr env) now org p st))"
| int_update: "integ_step env org (k, st) (k, snd (update_profile (pe_ops env) (pe_repr env) now org i p st))"
| int_publish: "integ_step env org (k, st) (k, snd (publish_profile (pe_ops env) (pe_repr env) now org i st))"
| int_analyze: "integ_step env (ac_organization_id c) s (snd (profile_analyze env pv now c i body s))"
| int_submit: "integ_step env (ac_organization_id c) (k, st) (k, snd (create_batch env now c req st))"
| int_worker: "get_job_row (oe_scan (pe_ops env)) i (ig_jobs (snd s)) = Inr job \<Longrightarrow>
    integ_step env (bj_organization_id job) s (snd (process_batch env now i (input_key i) s))"

inductive integ_run :: "ProfileEnv \<Rightarrow> string set \<Rightarrow> nat \<times> Integ \<Rightarrow> nat \<times> Integ \<Rightarrow> bool" for env :: ProfileEnv and orgs :: "string set" where
  int_none: "integ_run env orgs s s"
| int_more: "integ_run env orgs s s1 \<Longrightarrow> org \<in> orgs \<Longrightarrow> integ_step env org s1 s2 \<Longrightarrow> integ_run env orgs s s2"

text \<open>A row without the two times that publishing again would set.\<close>

definition profile_terms :: "ProfileRow \<Rightarrow> ProfileRow" where
  "profile_terms r = r\<lparr>pr_updated_at := 0, pr_published_at := None\<rparr>"

definition profiles_kept :: "Integ \<Rightarrow> Integ \<Rightarrow> bool" where
  "profiles_kept st st' \<longleftrightarrow>
     (\<forall>r\<in>set (ig_profiles st). pr_status r = ''PUBLISHED'' \<longrightarrow>
        (\<exists>r'\<in>set (ig_profiles st'). profile_terms r' = profile_terms r)) \<and>
     (\<exists>vs. ig_versions st' = ig_versions st @ vs)"

definition own_rows :: "string \<Rightarrow> Integ \<Rightarrow> ProfileRow list \<times> VersionRow list \<times> BatchJob list" where
  "own_rows org st = (filter (\<lambda>r. pr_organization_id r = org) (ig_profiles st),
     filter (\<lambda>v. vr_organization_id v = org) (ig_versions st), filter (\<lambda>j. bj_organization_id j = org) (ig_jobs st))"

definition integ_rel :: "OpsEnv \<Rightarrow> string \<Rightarrow> Integ \<Rightarrow> Integ \<Rightarrow> bool" where
  "integ_rel env org st st' \<longleftrightarrow>
     tenant_step env org (ig_ops st) (ig_ops st') \<and>
     (integ_ok env st \<longrightarrow> integ_ok env st' \<and> profiles_kept st st' \<and>
       (\<forall>other. other \<noteq> org \<longrightarrow> own_rows other st' = own_rows other st))"

lemma terms_published: "profile_terms r' = profile_terms r \<Longrightarrow> pr_status r' = pr_status r"
proof -
  assume "profile_terms r' = profile_terms r"
  then have "pr_status (profile_terms r') = pr_status (profile_terms r)" by simp
  then show ?thesis by (simp add: profile_terms_def)
qed

lemma kept_refl: "profiles_kept st st"
  by (auto simp: profiles_kept_def)

lemma kept_trans: "profiles_kept a b \<Longrightarrow> profiles_kept b c \<Longrightarrow> profiles_kept a c"
proof -
  assume ab: "profiles_kept a b" and bc: "profiles_kept b c"
  have "\<exists>r'\<in>set (ig_profiles c). profile_terms r' = profile_terms r"
    if "r \<in> set (ig_profiles a)" "pr_status r = ''PUBLISHED''" for r
  proof -
    from ab that obtain q where q: "q \<in> set (ig_profiles b)" "profile_terms q = profile_terms r"
      by (auto simp: profiles_kept_def)
    with terms_published[OF q(2)] that(2) bc obtain q' where "q' \<in> set (ig_profiles c)" "profile_terms q' = profile_terms q"
      by (auto simp: profiles_kept_def)
    with q(2) show ?thesis by auto
  qed
  with ab bc show ?thesis by (auto simp: profiles_kept_def)
qed

interpretation integ: step_relation "integ_rel env org"
proof
  show "integ_rel env org st st" for st by (simp add: integ_rel_def kept_refl)
  fix a b c
  assume "integ_rel env org a b" "integ_rel env org b c"
  then show "integ_rel env org a c"
    unfolding integ_rel_def by (auto intro: tenant_trans kept_trans)
qed

lemma integ_ops: "tenant_step env org (ig_ops st) ops \<Longrightarrow> op_uuids (ig_ops st) \<le> op_uuids ops \<Longrightarrow>
    integ_rel env org st (st\<lparr>ig_ops := ops\<rparr>)"
  by (auto simp: integ_rel_def integ_ok_def profiles_kept_def own_rows_def elim: keys_used_le)

lemma tenant_draw: "tenant_step env org st (st\<lparr>op_uuids := Suc (op_uuids st)\<rparr>)"
  using tenant_append_free[of "[]" org "[]" "[]" "[]" "[]" "[]" st "Suc (op_uuids st)" env] by simp

lemma integ_create:
  assumes "inj (oe_uid env)"
  shows "integ_rel env org st (snd (create_profile env ro now org p st))"
  using assms by (auto simp: create_profile_def Let_def integ_rel_def draw_key_def tenant_draw kept_refl integ_ok_def
      profiles_kept_def own_rows_def new_profile_row_def with_content_def next_key_def new_key_def
      intro: keys_used_fresh keys_used_grow)

text \<open>Changing a row through its key, when the row belongs to the organization.\<close>

lemma integ_set_profile:
  assumes "scan_ok (oe_scan env)" "get_profile_row (oe_scan env) org i (ig_profiles st) = Inr row"
    and f: "\<And>r. pr_id (f r) = pr_id r" "\<And>r. pr_organization_id (f r) = pr_organization_id r"
    and kept: "pr_status row = ''PUBLISHED'' \<Longrightarrow> profile_terms (f row) = profile_terms row"
  shows "integ_rel env org st (st\<lparr>ig_profiles := update_rows (\<lambda>r. pr_id r = pr_id row) f (ig_profiles st)\<rparr>)"
proof -
  let ?up = "update_rows (\<lambda>r. pr_id r = pr_id row) f"
  have row: "row \<in> set (ig_profiles st)" "pr_organization_id row = org"
    using profile_rows.own_row[OF assms(1,2)] by auto
  have one: "r = row" if "integ_ok env st" "r \<in> set (ig_profiles st)" "pr_id r = pr_id row" for r
    using that row by (auto simp: integ_ok_def keys_used_def distinct_map dest: inj_onD)
  have "\<exists>r'\<in>set (?up (ig_profiles st)). profile_terms r' = profile_terms r"
    if "integ_ok env st" "r \<in> set (ig_profiles st)" "pr_status r = ''PUBLISHED''" for r
    using that kept one[OF that(1,2)] by (cases "pr_id r = pr_id row") (force simp: set_update_rows)+
  moreover have "filter (\<lambda>r. pr_organization_id r = other) (?up (ig_profiles st)) =
      filter (\<lambda>r. pr_organization_id r = other) (ig_profiles st)" if "integ_ok env st" "other \<noteq> org" for other
    using that row by (intro filter_update_by_key) (auto simp: integ_ok_def keys_used_def f(2))
  ultimately show ?thesis
    by (auto simp: integ_rel_def integ_ok_def profiles_kept_def own_rows_def map_update_rows f)
qed

lemma content_key [simp]:
  "pr_id (with_content p r) = pr_id r" "pr_organization_id (with_content p r) = pr_organization_id r"
  by (simp_all add: with_content_def)

lemma integ_update:
  assumes "scan_ok (oe_scan env)"
  shows "integ_rel env org st (snd (update_profile env ro now org i p st))"
proof (cases "get_profile_row (oe_scan env) org i (ig_profiles st)")
  case (Inr row)
  then show ?thesis
    using integ_set_profile[OF assms Inr, of "\<lambda>r. (with_content p r)\<lparr>pr_updated_at := now\<rparr>"]
    by (simp add: update_profile_def Let_def integ.stay)
qed (simp add: update_profile_def integ.stay)

lemma integ_version:
  "vr_organization_id v = org \<Longrightarrow> integ_rel env org st (st\<lparr>ig_versions := ig_versions st @ [v]\<rparr>)"
  by (auto simp: integ_rel_def integ_ok_def profiles_kept_def own_rows_def)

lemma integ_draw: "integ_rel env org st (draw_key st)"
  unfolding draw_key_def by (rule integ_ops) (simp_all add: tenant_draw)

lemma integ_publish:
  assumes "scan_ok (oe_scan env)"
  shows "integ_rel env org st (snd (publish_profile env ro now org i st))"
proof (cases "get_profile_row (oe_scan env) org i (ig_profiles st)")
  case (Inr row)
  have step: "integ_rel env org st (draw_key (st\<lparr>ig_versions := ig_versions st @ [version_snapshot k now row p],
      ig_profiles := update_rows (\<lambda>r. pr_id r = pr_id row)
        (\<lambda>r. r\<lparr>pr_status := ''PUBLISHED'', pr_published_at := Some now, pr_updated_at := now\<rparr>) (ig_profiles st)\<rparr>))"
    for k p
  proof (rule integ.then_[OF integ.then_[OF integ_version] integ_draw])
    show "vr_organization_id (version_snapshot k now row p) = org"
      using profile_rows.own_row[OF assms Inr] by (simp add: version_snapshot_def)
  next
    let ?st1 = "st\<lparr>ig_versions := ig_versions st @ [version_snapshot k now row p]\<rparr>"
    let ?f = "\<lambda>r. r\<lparr>pr_status := ''PUBLISHED'', pr_published_at := Some now, pr_updated_at := now\<rparr>"
    have "get_profile_row (oe_scan env) org i (ig_profiles ?st1) = Inr row" using Inr by simp
    from integ_set_profile[OF assms this, of ?f]
    show "integ_rel env org ?st1 (?st1\<lparr>ig_profiles := update_rows (\<lambda>r. pr_id r = pr_id row) ?f (ig_profiles st)\<rparr>)"
      by (simp add: profile_terms_def)
  qed
  show ?thesis by (auto simp: publish_profile_def Inr Let_def integ.stay step split: sum.split)
qed (simp add: publish_profile_def integ.stay)

lemma tenant_profile_case:
  assumes "inj (oe_uid env)"
  shows "tenant_step env org st (snd (persist_profile_case env now org p f idem st))"
    and "op_uuids st \<le> op_uuids (snd (persist_profile_case env now org p f idem st))"
  using assms by (auto simp: persist_profile_case_def Let_def tenant_step_def own_def ops_ok_def lifecycle_of_def
      entry_of_def profile_case_def finding_row_def audit_event_def filter_empty_conv
      intro!: keys_used_at elim!: keys_used_le)

lemma integ_analyze:
  assumes "inj (oe_uid (pe_ops env))"
  shows "integ_rel (pe_ops env) (ac_organization_id c) (snd s) (snd (snd (profile_analyze env pv now c i body s)))"
  using integ_ops[OF tenant_profile_case[OF assms]]
  by (auto simp: profile_analyze_def Let_def integ.stay split: sum.splits option.splits prod.splits)
    (metis integ_ops[OF tenant_profile_case[OF assms]] snd_conv)+

lemma integ_redis: "integ_rel env org st (st\<lparr>ig_redis := d\<rparr>)"
  by (auto simp: integ_rel_def integ_ok_def profiles_kept_def own_rows_def)

lemma integ_job:
  assumes "inj (oe_uid env)" "bj_organization_id job = org" "bj_id job = next_key env st"
  shows "integ_rel env org st (draw_key (st\<lparr>ig_jobs := ig_jobs st @ [job]\<rparr>))"
  using assms by (auto simp: integ_rel_def draw_key_def tenant_draw kept_refl integ_ok_def
      profiles_kept_def own_rows_def next_key_def new_key_def intro: keys_used_fresh keys_used_grow)

lemma integ_submit:
  assumes "inj (oe_uid (pe_ops env))"
  shows "integ_rel (pe_ops env) (ac_organization_id c) st (snd (create_batch env now c req st))"
  using integ.then_[OF integ_job[OF assms] integ_redis]
  by (auto simp: create_batch_def create_batch_job_def store_input_def new_job_def Let_def integ.stay
      split: sum.splits if_splits)

lemma filter_replace_other:
  "\<not> P x \<Longrightarrow> (\<And>r. r \<in> set rs \<Longrightarrow> P r \<Longrightarrow> \<not> Q r) \<Longrightarrow> filter P (update_rows Q (\<lambda>_. x) rs) = filter P rs"
  by (induction rs) auto

lemma integ_save_job:
  assumes "job \<in> set (ig_jobs st)" "bj_id job' = bj_id job" "bj_organization_id job' = bj_organization_id job"
  shows "integ_rel env (bj_organization_id job) st (save_job job' st)"
proof -
  have other: "filter (\<lambda>j. bj_organization_id j = other) (ig_jobs (save_job job' st)) =
      filter (\<lambda>j. bj_organization_id j = other) (ig_jobs st)"
    if "integ_ok env st" "other \<noteq> bj_organization_id job" for other
  proof -
    have "bj_id j \<noteq> bj_id job'" if "j \<in> set (ig_jobs st)" "bj_organization_id j = other" for j
      using that \<open>integ_ok env st\<close> \<open>other \<noteq> _\<close> assms by (auto simp: integ_ok_def keys_used_def distinct_map dest: inj_onD)
    with \<open>other \<noteq> _\<close> assms(3) show ?thesis
      by (auto simp: save_job_def intro!: filter_replace_other)
  qed
  have keys: "map bj_id (ig_jobs (save_job job' st)) = map bj_id (ig_jobs st)"
    by (simp add: save_job_def update_rows_def)
  show ?thesis
    using other keys by (auto simp: integ_rel_def integ_ok_def profiles_kept_def own_rows_def)
      (auto simp: save_job_def)
qed

text \<open>The loop keeps key, organization and number of rows of the job.\<close>

definition same_job :: "BatchJob \<Rightarrow> BatchJob \<Rightarrow> bool" where
  "same_job j j' \<longleftrightarrow> bj_id j' = bj_id j \<and> bj_organization_id j' = bj_organization_id j \<and>
     bj_total_records j' = bj_total_records j"

lemma write_counts_job [simp]:
  "bj_processed_records (write_counts n c j) = bj_processed_records j"
  "bj_total_records (write_counts n c j) = bj_total_records j" "bj_status (write_counts n c j) = bj_status j"
  "bj_id (write_counts n c j) = bj_id j" "bj_organization_id (write_counts n c j) = bj_organization_id j"
  by (simp_all add: write_counts_def Let_def)

lemma batch_rows_job: "batch_rows f n i rows c job k = (c', job', commits, k') \<Longrightarrow> same_job job job'"
proof (induction rows arbitrary: i c job k c' job' commits k')
  case (Cons row rows)
  obtain r k1 where r: "run_row f i row k = (r, k1)" by force
  let ?due = "(i + 1) mod PROGRESS_INTERVAL = 0 \<or> i + 1 = n"
  let ?j0 = "job\<lparr>bj_processed_records := i + 1\<rparr>"
  let ?j = "if ?due then write_counts n (count_result r c) ?j0 else ?j0"
  obtain c2 j2 cm k2 where rec: "batch_rows f n (i + 1) rows (count_result r c) ?j k1 = (c2, j2, cm, k2)"
    by (metis prod.exhaust)
  have "job' = j2" using Cons.prems rec by (auto simp: r Let_def split: if_splits)
  moreover have "same_job job ?j" by (auto simp: same_job_def)
  ultimately show ?case using Cons.IH[OF rec] by (auto simp: same_job_def)
qed (simp add: same_job_def)

lemma run_job_same: "run_job f now rows job k = (job', commits, k') \<Longrightarrow> same_job job job'"
  using batch_rows_job[of f "length rows" 0 rows no_counts job k]
  by (auto simp: run_job_def finish_job_def Let_def same_job_def split: prod.splits)

lemma get_job_row_found:
  "scan_ok scan \<Longrightarrow> get_job_row scan i jobs = Inr job \<Longrightarrow> filter (\<lambda>j. bj_id j = i) jobs = [job] \<and> job \<in> set jobs \<and> bj_id job = i"
proof -
  assume "scan_ok scan" "get_job_row scan i jobs = Inr job"
  then have f: "filter (\<lambda>j. bj_id j = i) jobs = [job]" by (simp add: get_job_row_def get_one_found)
  have "job \<in> set (filter (\<lambda>j. bj_id j = i) jobs)" by (simp only: f) simp
  then have "job \<in> set jobs \<and> bj_id job = i" by simp
  with f show ?thesis by simp
qed

lemma save_job_found:
  "filter (\<lambda>j. bj_id j = i) (ig_jobs st) = [job] \<Longrightarrow> bj_id job' = i \<Longrightarrow>
     filter (\<lambda>j. bj_id j = i) (ig_jobs (save_job job' st)) = [job']"
proof -
  have "filter (\<lambda>j. bj_id j = i) (update_rows (\<lambda>j. bj_id j = i) (\<lambda>_. job') js) =
      map (\<lambda>_. job') (filter (\<lambda>j. bj_id j = i) js)" if "bj_id job' = i" for js
    using that by (induction js) auto
  then show "filter (\<lambda>j. bj_id j = i) (ig_jobs st) = [job] \<Longrightarrow> bj_id job' = i \<Longrightarrow>
     filter (\<lambda>j. bj_id j = i) (ig_jobs (save_job job' st)) = [job']"
    by (auto simp: save_job_def)
qed

lemma integ_worker:
  assumes ok: "scan_ok (oe_scan (pe_ops env))" and job: "get_job_row (oe_scan (pe_ops env)) i (ig_jobs st) = Inr job"
  shows "integ_rel (pe_ops env) (bj_organization_id job) st (snd (snd (process_batch env now i key (k, st))))"
proof -
  have mem: "job \<in> set (ig_jobs st)" using get_job_row_found[OF ok job] by simp
  have fail: "integ_rel (pe_ops env) (bj_organization_id job) st (save_job (fail_job job) st)"
    by (rule integ_save_job[OF mem]) (simp_all add: fail_job_def)
  have start: "integ_rel (pe_ops env) (bj_organization_id job) st (save_job (start_job now n job) st)" for n
    by (rule integ_save_job[OF mem]) (simp_all add: start_job_def)
  have finish: "integ_rel (pe_ops env) (bj_organization_id job) st
      (drop_input key (save_job job2 (save_job (start_job now n job) st)))"
    if "same_job (start_job now n job) job2" for n job2
  proof -
    have "start_job now n job \<in> set (ig_jobs (save_job (start_job now n job) st))"
      using mem by (auto simp: save_job_def update_rows_def start_job_def image_iff)
    from integ_save_job[OF this, of job2] that
    have "integ_rel (pe_ops env) (bj_organization_id job) (save_job (start_job now n job) st)
        (save_job job2 (save_job (start_job now n job) st))"
      by (simp add: same_job_def start_job_def)
    from integ.then_[OF integ.then_[OF start this] integ_redis] show ?thesis by (simp add: drop_input_def)
  qed
  show ?thesis
    using job fail start finish
    by (auto simp: process_batch_def Let_def integ.stay split: sum.splits prod.splits dest: run_job_same)
qed

lemma integ_step_rel:
  assumes "scan_ok (oe_scan (pe_ops env))" "inj (oe_uid (pe_ops env))" "integ_step env org s s'"
  shows "integ_rel (pe_ops env) org (snd s) (snd s')"
  using assms(3)
proof cases
  case (int_worker i job now)
  then show ?thesis using integ_worker[OF assms(1), of i "snd s" job now "input_key i" "fst s"] by simp
qed (simp_all add: assms integ_create integ_update integ_publish integ_analyze integ_submit)

section \<open>What runs keep\<close>

lemma integ_run_rel:
  assumes "scan_ok (oe_scan (pe_ops env))" "inj (oe_uid (pe_ops env))" "integ_ok (pe_ops env) (snd s)" "integ_run env orgs s s'"
  shows "integ_ok (pe_ops env) (snd s') \<and> profiles_kept (snd s) (snd s') \<and>
    (\<forall>other. other \<notin> orgs \<longrightarrow> own_rows other (snd s') = own_rows other (snd s) \<and>
      (ops_ok (pe_ops env) (ig_ops (snd s)) \<longrightarrow> own other (ig_ops (snd s')) = own other (ig_ops (snd s)) \<and> ops_ok (pe_ops env) (ig_ops (snd s'))))"
  using assms(4,3)
proof (induction rule: integ_run.induct)
  case (int_more s s1 org s2)
  have rel: "integ_rel (pe_ops env) org (snd s1) (snd s2)"
    by (rule integ_step_rel[OF assms(1,2) int_more.hyps(3)])
  from int_more have IH: "integ_ok (pe_ops env) (snd s1)" "profiles_kept (snd s) (snd s1)"
    "\<And>other. other \<notin> orgs \<Longrightarrow> own_rows other (snd s1) = own_rows other (snd s) \<and>
      (ops_ok (pe_ops env) (ig_ops (snd s)) \<longrightarrow> own other (ig_ops (snd s1)) = own other (ig_ops (snd s)) \<and> ops_ok (pe_ops env) (ig_ops (snd s1)))"
    by blast+
  have org: "other \<noteq> org" if "other \<notin> orgs" for other using that int_more.hyps(2) by blast
  from rel IH(1) have "integ_ok (pe_ops env) (snd s2)" "profiles_kept (snd s1) (snd s2)"
    "\<And>other. other \<noteq> org \<Longrightarrow> own_rows other (snd s2) = own_rows other (snd s1)"
    "ops_ok (pe_ops env) (ig_ops (snd s1)) \<Longrightarrow> ops_ok (pe_ops env) (ig_ops (snd s2)) \<and>
       (\<forall>other. other \<noteq> org \<longrightarrow> own other (ig_ops (snd s2)) = own other (ig_ops (snd s1)))"
    by (auto simp: integ_rel_def tenant_step_def)
  with IH org kept_trans[OF IH(2)] show ?case by simp
qed (simp add: kept_refl)

text \<open>C9: 
  A published profile is never changed again: in every run of the integration services its row
  keeps every column but the two times that publishing sets, and the list of version snapshots only
  grows.
\<close>
theorem published_profile_frozen:
  assumes "scan_ok (oe_scan (pe_ops env))" "inj (oe_uid (pe_ops env))" "integ_ok (pe_ops env) (snd s)" "integ_run env orgs s s'"
    and "r \<in> set (ig_profiles (snd s))" "pr_status r = ''PUBLISHED''"
  shows "(\<exists>r'\<in>set (ig_profiles (snd s')). r' = r\<lparr>pr_published_at := pr_published_at r', pr_updated_at := pr_updated_at r'\<rparr>) \<and>
    (\<exists>vs. ig_versions (snd s') = ig_versions (snd s) @ vs)"
proof -
  have kept: "profiles_kept (snd s) (snd s')" using integ_run_rel[OF assms(1-4)] by blast
  with assms(5,6) obtain r' where r': "r' \<in> set (ig_profiles (snd s'))" "profile_terms r' = profile_terms r"
    by (auto simp: profiles_kept_def)
  from r'(2) have "r' = r\<lparr>pr_published_at := pr_published_at r', pr_updated_at := pr_updated_at r'\<rparr>"
    by (cases r, cases r') (simp add: profile_terms_def)
  with r'(1) kept show ?thesis unfolding profiles_kept_def by blast
qed

text \<open>
  Whatever the integration services do for some organizations, the profiles, versions, jobs and
  cases of another one stay exactly as they are.
\<close>
theorem profile_tenants_isolated:
  assumes "scan_ok (oe_scan (pe_ops env))" "inj (oe_uid (pe_ops env))" "integ_ok (pe_ops env) (snd s)"
    and "ops_ok (pe_ops env) (ig_ops (snd s))" "integ_run env orgs s s'" "other \<notin> orgs"
  shows "own_rows other (snd s') = own_rows other (snd s) \<and> own other (ig_ops (snd s')) = own other (ig_ops (snd s))"
  using integ_run_rel[OF assms(1-3,5)] assms(4,6) by blast

section \<open>Snapshots\<close>

text \<open>A version that records exactly the content of a published, valid profile.\<close>

definition describes :: "(pyval \<Rightarrow> string) \<Rightarrow> VersionRow \<Rightarrow> ProfileRow \<Rightarrow> bool" where
  "describes ro v r \<longleftrightarrow> vr_profile_id v = pr_id r \<and> vr_organization_id v = pr_organization_id r \<and>
     vr_version_number v = pr_version_number r \<and> vr_name v = pr_name r \<and> vr_input_format v = pr_input_format r \<and>
     vr_mapping v = pr_mapping r \<and> vr_rules v = pr_rules r \<and> pr_status r = ''PUBLISHED'' \<and>
     (\<exists>p. profile_to_domain ro r = Inr p \<and> validate_profile p = [])"

lemma domain_of_published:
  assumes "profile_to_domain ro r = Inr p" "r' = r\<lparr>pr_status := ''PUBLISHED'', pr_published_at := a, pr_updated_at := b\<rparr>"
  shows "profile_to_domain ro r' = Inr (p\<lparr>ip_status := PS_PUBLISHED, ip_published_at := a, ip_updated_at := b\<rparr>)"
proof -
  have "ProfileStatus_of ''PUBLISHED'' = Inr PS_PUBLISHED"
    by (simp add: ProfileStatus_of_def enum_of_def ProfileStatus_value_def)
  with assms show ?thesis by (auto simp: profile_to_domain_def bindR_Inr)
qed

lemma validate_content:
  "validate_profile (p\<lparr>ip_status := s, ip_published_at := a, ip_updated_at := b\<rparr>) = validate_profile p"
  by (simp add: validate_profile_def)

lemma terms_times: "profile_terms r' = profile_terms r \<Longrightarrow> \<exists>a b. r' = r\<lparr>pr_published_at := a, pr_updated_at := b\<rparr>"
  by (cases r, cases r') (auto simp: profile_terms_def)

lemma describes_terms:
  assumes "describes ro v r" "profile_terms r' = profile_terms r"
  shows "describes ro v r'"
proof -
  obtain a b where r': "r' = r\<lparr>pr_published_at := a, pr_updated_at := b\<rparr>" using terms_times[OF assms(2)] by blast
  from assms(1) obtain p where p: "profile_to_domain ro r = Inr p" "validate_profile p = []" "pr_status r = ''PUBLISHED''"
    by (auto simp: describes_def)
  have "r' = r\<lparr>pr_status := ''PUBLISHED'', pr_published_at := a, pr_updated_at := b\<rparr>"
    using p(3) unfolding r' by (cases r) simp
  from domain_of_published[OF p(1) this] have "profile_to_domain ro r' = Inr (p\<lparr>ip_status := PS_PUBLISHED, ip_published_at := a, ip_updated_at := b\<rparr>)" .
  moreover have "validate_profile (p\<lparr>ip_status := PS_PUBLISHED, ip_published_at := a, ip_updated_at := b\<rparr>) = []"
    by (simp only: validate_content p(2))
  ultimately have "\<exists>q. profile_to_domain ro r' = Inr q \<and> validate_profile q = []" by blast
  with assms(1) show ?thesis unfolding describes_def by (simp add: r')
qed

definition versions_described :: "(pyval \<Rightarrow> string) \<Rightarrow> Integ \<Rightarrow> bool" where
  "versions_described ro st \<longleftrightarrow> (\<forall>v\<in>set (ig_versions st). \<exists>r\<in>set (ig_profiles st). describes ro v r)"

lemma versions_kept:
  assumes "versions_described ro st" "profiles_kept st st'" "ig_versions st' = ig_versions st"
  shows "versions_described ro st'"
  unfolding versions_described_def
proof
  fix v
  assume "v \<in> set (ig_versions st')"
  with assms(1,3) obtain r where r: "r \<in> set (ig_profiles st)" "describes ro v r" by (auto simp: versions_described_def)
  then have "pr_status r = ''PUBLISHED''" by (simp add: describes_def)
  with r(1) assms(2) obtain r' where "r' \<in> set (ig_profiles st')" "profile_terms r' = profile_terms r"
    by (auto simp: profiles_kept_def)
  with describes_terms[OF r(2)] show "\<exists>r\<in>set (ig_profiles st'). describes ro v r" by blast
qed

lemma publish_described:
  assumes "scan_ok (oe_scan env)" "integ_ok env st" "versions_described ro st"
  shows "versions_described ro (snd (publish_profile env ro now org i st))"
proof -
  have kept: "profiles_kept st (snd (publish_profile env ro now org i st))"
    using integ_publish[OF assms(1), of org st ro now i] assms(2) by (simp add: integ_rel_def)
  show ?thesis
  proof (cases "\<exists>row p. get_profile_row (oe_scan env) org i (ig_profiles st) = Inr row \<and> profile_to_domain ro row = Inr p \<and>
      validate_profile p = []")
    case False
    then have "ig_versions (snd (publish_profile env ro now org i st)) = ig_versions st"
      by (auto simp: publish_profile_def split: sum.split)
    with versions_kept[OF assms(3) kept] show ?thesis by simp
  next
    case True
    then obtain row p where 2: "get_profile_row (oe_scan env) org i (ig_profiles st) = Inr row"
      "profile_to_domain ro row = Inr p" "validate_profile p = []" by blast
    let ?st = "snd (publish_profile env ro now org i st)"
    let ?v = "version_snapshot (next_key env st) now row p"
    let ?r = "row\<lparr>pr_status := ''PUBLISHED'', pr_published_at := Some now, pr_updated_at := now\<rparr>"
    have st: "ig_versions ?st = ig_versions st @ [?v]" "ig_profiles ?st = update_rows (\<lambda>r. pr_id r = pr_id row)
        (\<lambda>r. r\<lparr>pr_status := ''PUBLISHED'', pr_published_at := Some now, pr_updated_at := now\<rparr>) (ig_profiles st)"
      using 2 by (simp_all add: publish_profile_def Let_def draw_key_def)
    have "row \<in> set (ig_profiles st)" using profile_rows.own_row[OF assms(1) 2(1)] by simp
    then have mem: "?r \<in> set (ig_profiles ?st)" by (auto simp: st(2) set_update_rows image_iff)
    have "describes ro ?v ?r"
      using domain_of_published[OF 2(2) refl, where a = "Some now" and b = now] 2(3)
        validate_content[where p = p and s = PS_PUBLISHED and a = "Some now" and b = now]
      by (auto simp: describes_def version_snapshot_def)
    moreover have "versions_described ro (?st\<lparr>ig_versions := ig_versions st\<rparr>)"
      by (rule versions_kept[OF assms(3)]) (use kept in \<open>auto simp: profiles_kept_def\<close>)
    ultimately show ?thesis using mem by (auto simp: versions_described_def st(1))
  qed
qed

lemma other_steps_versions:
  "ig_versions (snd (create_profile oe ro now org p st)) = ig_versions st"
  "ig_versions (snd (update_profile oe ro now org i p st)) = ig_versions st"
  "ig_versions (snd (snd (profile_analyze env pv now c i body s))) = ig_versions (snd s)"
  "ig_versions (snd (create_batch env now c req st)) = ig_versions st"
  "ig_versions (snd (snd (process_batch env now i key s))) = ig_versions (snd s)"
  by (auto simp: create_profile_def update_profile_def profile_analyze_def create_batch_def create_batch_job_def
      process_batch_def draw_key_def store_input_def save_job_def drop_input_def Let_def
      split: sum.splits prod.splits option.splits)

text \<open>C10: 
  In every run that starts without versions, each version snapshot describes a profile that is
  published now, with the same number, name, format, mapping and rules, and that passes
  validation.
\<close>
theorem snapshots_describe_profiles:
  assumes "scan_ok (oe_scan (pe_ops env))" "inj (oe_uid (pe_ops env))" "integ_ok (pe_ops env) (snd s)"
    and "ig_versions (snd s) = []" "integ_run env orgs s s'"
  shows "\<forall>v\<in>set (ig_versions (snd s')). \<exists>r\<in>set (ig_profiles (snd s')). describes (pe_repr env) v r"
proof -
  have "versions_described (pe_repr env) (snd s')"
    using assms(5,3,4)
  proof (induction rule: integ_run.induct)
    case (int_more s s1 org s2)
    then have IH: "versions_described (pe_repr env) (snd s1)" and ok: "integ_ok (pe_ops env) (snd s1)"
      using integ_run_rel[OF assms(1,2)] by blast+
    have kept: "profiles_kept (snd s1) (snd s2)"
      using integ_step_rel[OF assms(1,2) int_more.hyps(3)] ok by (simp add: integ_rel_def)
    from int_more.hyps(3) show ?case
    proof cases
      case (int_publish k st now i)
      with publish_described[OF assms(1)] ok IH show ?thesis by simp
    qed (use versions_kept[OF IH kept] in \<open>simp_all add: other_steps_versions\<close>)
  qed (simp add: versions_described_def)
  then show ?thesis by (simp add: versions_described_def)
qed

end
