(* ===== verification/PO_BatchProps.thy ===== *)
theory PO_BatchProps
  imports PO_IntegrationProps
begin

text \<open>
  Batch jobs: a row that is written again from plain cells is the row that was read, every row is
  counted once in every committed state, and a finished job is not run again.
\<close>

section \<open>Rows\<close>

text \<open>C22: 
  The text that a row is joined to reads back as exactly that row, and the profile maps
  exactly that row, when no cell needs quoting.
\<close>
theorem batch_row_reads_back:
  assumes "cells_ok (map fst (cr_cells row))" "cells_ok (map (\<lambda>(k, v). dget_opt v) (cr_cells row))"
    and "distinct (map fst (cr_cells row))" "list_all (\<lambda>(k, v). v \<noteq> None) (cr_cells row)" "cr_rest row = None"
  shows "bindR (row_text row) dict_reader = Inr [row] \<and>
    (ip_input_format p = IF_CSV \<longrightarrow>
      bindR (row_text row) (map_input env pv p) = map_source env p (RJson (JList [csv_row_json row])))"
proof -
  have some: "zip (map fst d) (map Some (map (\<lambda>(k, v). dget_opt v) d)) = d" if "list_all (\<lambda>(k, v). v \<noteq> None) d"
    for d :: "(string, string option) dict"
    using that by (induction d) (auto simp: dget_opt_def)
  have t: "row_text row = Inr (join [COMMA] (map fst (cr_cells row)) @ LF # join [COMMA] (map (\<lambda>(k, v). dget_opt v) (cr_cells row)))"
    using assms(4,5) by (auto simp: row_text_def list_ex_iff list_all_iff)
  have "dict_reader (join [COMMA] (map fst (cr_cells row)) @ LF # join [COMMA] (map (\<lambda>(k, v). dget_opt v) (cr_cells row))) = Inr [row]"
    using dict_reader_two_lines[OF assms(1,2,3)] some[OF assms(4)] assms(5) by simp
  with t show ?thesis by (simp add: map_input_def)
qed

text \<open>A quoted value does not survive the joining: its comma splits it, and the last column of the row is lost
  under the key \<open>None\<close>.\<close>
theorem quoted_value_shifts:
  "dict_reader (''a,b'' @ [LF, QUOTE] @ ''1,2'' @ [QUOTE] @ '',3'') =
     Inr [\<lparr>cr_cells = [(''a'', Some ''1,2''), (''b'', Some ''3'')], cr_rest = None\<rparr>] \<and>
   bindR (row_text \<lparr>cr_cells = [(''a'', Some ''1,2''), (''b'', Some ''3'')], cr_rest = None\<rparr>) dict_reader =
     Inr [\<lparr>cr_cells = [(''a'', Some ''1''), (''b'', Some ''2'')], cr_rest = Some [''3'']\<rparr>]"
  by (simp add: dict_reader_def dict_row_def row_text_def csv_reset_def process_char_def start_field_def add_char_def
      save_field_def process_eol_def FIELD_LIMIT_def dget_opt_def)

section \<open>Counts\<close>

definition tally :: "BatchCounts \<Rightarrow> nat" where
  "tally c = dget (bc_counts c) ''READY'' 0 + dget (bc_counts c) ''REPAIRABLE'' 0 +
     dget (bc_counts c) ''REVIEW_REQUIRED'' 0 + dget (bc_counts c) ''UNRESOLVED'' 0 + bc_failed c"

definition job_tally :: "BatchJob \<Rightarrow> nat" where
  "job_tally j = bj_ready_count j + bj_repairable_count j + bj_review_required_count j + bj_unresolved_count j + bj_failed_count j"

text \<open>An analyzer whose results have one of the four readiness values.\<close>

definition graded :: "row_analyzer \<Rightarrow> bool" where
  "graded run1 \<longleftrightarrow> (\<forall>i s k f. fst (run1 i s k) = Inr f \<longrightarrow>
     ar_address_readiness (pf_result f) \<in> Some ` {''READY'', ''REPAIRABLE'', ''REVIEW_REQUIRED'', ''UNRESOLVED''})"

lemma tally_none [simp]: "tally no_counts = 0"
  by (simp add: tally_def no_counts_def)

lemma count_result_tally:
  assumes "graded run1" "run_row run1 i row k = (r, k')"
  shows "tally (count_result r c) = Suc (tally c)"
proof (cases r)
  case (Inr f)
  with assms have "ar_address_readiness (pf_result f) \<in> Some ` {''READY'', ''REPAIRABLE'', ''REVIEW_REQUIRED'', ''UNRESOLVED''}"
    by (auto simp: run_row_def graded_def split: sum.splits) (metis fst_conv)+
  then obtain g where g: "ar_address_readiness (pf_result f) = Some g"
    "g \<in> {''READY'', ''REPAIRABLE'', ''REVIEW_REQUIRED'', ''UNRESOLVED''}" by blast
  then have "por (Some g) x = Some g" for x by auto
  with Inr g show ?thesis by (auto simp: count_result_def tally_def count_key_def dget_opt_def)
qed (simp add: count_result_def tally_def)

lemma write_counts_tally [simp]: "job_tally (write_counts n c j) = tally c"
  by (simp add: write_counts_def Let_def job_tally_def tally_def batch_report_def)

lemma batch_rows_count:
  assumes "graded run1" "batch_rows run1 n_rows i rows c job k = (c', job', commits, k')"
    and "tally c = i" "rows = [] \<Longrightarrow> bj_processed_records job = i"
  shows "tally c' = i + length rows \<and> bj_processed_records job' = i + length rows \<and> same_job job job' \<and>
    (\<forall>j\<in>set commits. job_tally j = bj_processed_records j \<and> bj_processed_records j \<le> i + length rows \<and>
       same_job job j \<and> bj_status j = bj_status job)"
  using assms(2-4)
proof (induction rows arbitrary: i c job k c' job' commits k')
  case (Cons row rows)
  obtain r k1 where r: "run_row run1 i row k = (r, k1)" by force
  let ?due = "(i + 1) mod PROGRESS_INTERVAL = 0 \<or> i + 1 = n_rows"
  let ?c = "count_result r c" and ?j0 = "job\<lparr>bj_processed_records := i + 1\<rparr>"
  let ?j = "if ?due then write_counts n_rows ?c ?j0 else ?j0"
  obtain c2 j2 cm k2 where rec: "batch_rows run1 n_rows (i + 1) rows ?c ?j k1 = (c2, j2, cm, k2)"
    by (metis prod.exhaust)
  have t: "tally ?c = i + 1" using count_result_tally[OF assms(1) r] Cons.prems(2) by simp
  have j: "bj_processed_records ?j = i + 1" "same_job job ?j" "bj_status ?j = bj_status job"
    by (auto simp: same_job_def)
  have IH: "tally c2 = i + 1 + length rows \<and> bj_processed_records j2 = i + 1 + length rows \<and> same_job ?j j2 \<and>
    (\<forall>j\<in>set cm. job_tally j = bj_processed_records j \<and> bj_processed_records j \<le> i + 1 + length rows \<and>
       same_job ?j j \<and> bj_status j = bj_status ?j)"
    using Cons.IH[OF rec t] j(1) by simp
  have eq: "c' = c2" "job' = j2" "commits = (if ?due then ?j # cm else cm)"
    using Cons.prems(1) rec by (auto simp: r Let_def split: if_splits)
  have "job_tally ?j = bj_processed_records ?j" if ?due using that t by simp
  with IH j eq t show ?case by (auto simp: same_job_def split: if_splits)
qed (simp add: same_job_def)

lemma analysis_graded: "graded (profile_rows env p)"
proof -
  have "ar_address_readiness (pf_result f) \<in> Some ` {''READY'', ''REPAIRABLE'', ''REVIEW_REQUIRED'', ''UNRESOLVED''}"
    if "fst (analyze_profile env pv p s repair x k) = Inr f" for pv s repair x k f
    using that by (auto simp: analyze_profile_def analyze_message_def analysis_result_def aggregate_readiness_def Let_def
        split: sum.splits prod.splits if_splits)
  then show ?thesis by (auto simp: graded_def profile_rows_def)
qed


section \<open>Whole jobs\<close>

text \<open>What processing does once the rows are read and within the limits.\<close>

definition job_started :: "ProfileEnv \<Rightarrow> string \<Rightarrow> string \<Rightarrow> Integ \<Rightarrow> BatchJob \<Rightarrow> CsvRow list \<Rightarrow> bool" where
  "job_started env i key st job rows \<longleftrightarrow>
     get_job_row (oe_scan (pe_ops env)) i (ig_jobs st) = Inr job \<and> \<not> terminal_status (bj_status job) \<and>
     (\<exists>csv_text. get_input key st = Inr csv_text \<and> utf8_length csv_text \<le> MAX_FILE_BYTES \<and>
        dict_reader csv_text = Inr rows) \<and> length rows \<le> MAX_ROWS"

lemma process_batch_finished:
  assumes "process_batch env now i key (k, st) = ((Inr rep, commits), k', st')"
    and "get_job_row (oe_scan (pe_ops env)) i (ig_jobs st) = Inr job" "\<not> terminal_status (bj_status job)"
  obtains rows p job2 cs where "job_started env i key st job rows"
    "load_profile env now (start_job now (length rows) job) (save_job (start_job now (length rows) job) st) = Inr p"
    "run_job (profile_rows env p) now rows (start_job now (length rows) job) k = (job2, cs, k')"
    "commits = start_job now (length rows) job # cs" "rep = bj_report job2"
    "st' = drop_input key (save_job job2 (save_job (start_job now (length rows) job) st))"
  using assms by (auto simp: process_batch_def job_started_def Let_def split: sum.splits if_splits prod.splits)

lemma run_job_count:
  assumes "graded f" "run_job f now rows job k = (job2, cs, k')" "rows = [] \<Longrightarrow> bj_processed_records job = 0"
    "bj_total_records job = length rows" "bj_status job = ''RUNNING''"
  shows "job_tally job2 = length rows \<and> bj_processed_records job2 = length rows \<and> bj_total_records job2 = length rows \<and>
    bj_status job2 = (if bj_failed_count job2 = 0 then ''COMPLETED'' else ''PARTIAL'') \<and>
    bj_report job2 = Some \<lparr>br_total_records = length rows, br_ready = bj_ready_count job2,
      br_repairable = bj_repairable_count job2, br_review_required = bj_review_required_count job2,
      br_unresolved = bj_unresolved_count job2, br_failed = bj_failed_count job2,
      br_top_rule_findings = br_top_rule_findings (the (bj_report job2))\<rparr> \<and>
    (\<forall>j\<in>set cs. job_tally j = bj_processed_records j \<and> bj_processed_records j \<le> bj_total_records j)"
proof -
  obtain c job' commits where b: "batch_rows f (length rows) 0 rows no_counts job k = (c, job', commits, k')"
    and job2: "job2 = finish_job now (length rows) c job'" "cs = commits @ [job2]"
    using assms(2) by (auto simp: run_job_def Let_def split: prod.splits)
  note B = batch_rows_count[OF assms(1) b tally_none, simplified]
  have "tally c = length rows" "bj_processed_records job' = length rows" "same_job job job'"
    "\<forall>j\<in>set commits. job_tally j = bj_processed_records j \<and> bj_processed_records j \<le> length rows \<and> same_job job j"
    using B assms(3) by auto
  then show ?thesis
    using assms(4) by (auto simp: job2 finish_job_def same_job_def) (auto simp: write_counts_def Let_def batch_report_def)
qed

text \<open>C13: 
  A finished batch accounts for every row: the four readiness counts and the failures add up to
  the rows of the input, in the stored job, in its report and, up to the rows processed, in every
  commit of the loop; the job is COMPLETED exactly when no row failed.
\<close>
theorem batch_accounts_for_every_row:
  assumes "scan_ok (oe_scan (pe_ops env))"
    and "process_batch env now i key (k, st) = ((Inr rep, commits), k', st')"
    and "get_job_row (oe_scan (pe_ops env)) i (ig_jobs st) = Inr job" "bj_status job = ''QUEUED''" "bj_processed_records job = 0"
  shows "\<exists>rows job2 r. job_started env i key st job rows \<and>
    get_job_row (oe_scan (pe_ops env)) i (ig_jobs st') = Inr job2 \<and> rep = bj_report job2 \<and> rep = Some r \<and>
    br_total_records r = length rows \<and>
    br_ready r + br_repairable r + br_review_required r + br_unresolved r + br_failed r = length rows \<and>
    bj_processed_records job2 = length rows \<and>
    bj_status job2 = (if br_failed r = 0 then ''COMPLETED'' else ''PARTIAL'') \<and>
    list_all (\<lambda>j. job_tally j = bj_processed_records j \<and> bj_processed_records j \<le> bj_total_records j) (tl commits)"
proof -
  have nt: "\<not> terminal_status (bj_status job)" using assms(4) by (simp add: terminal_status_def)
  obtain rows p job2 cs where fin: "job_started env i key st job rows"
    "run_job (profile_rows env p) now rows (start_job now (length rows) job) k = (job2, cs, k')"
    "commits = start_job now (length rows) job # cs" "rep = bj_report job2"
    "st' = drop_input key (save_job job2 (save_job (start_job now (length rows) job) st))"
    using process_batch_finished[OF assms(2,3) nt] by metis
  have count: "job_tally job2 = length rows" "bj_processed_records job2 = length rows"
    "bj_status job2 = (if bj_failed_count job2 = 0 then ''COMPLETED'' else ''PARTIAL'')"
    "bj_report job2 = Some \<lparr>br_total_records = length rows, br_ready = bj_ready_count job2,
      br_repairable = bj_repairable_count job2, br_review_required = bj_review_required_count job2,
      br_unresolved = bj_unresolved_count job2, br_failed = bj_failed_count job2,
      br_top_rule_findings = br_top_rule_findings (the (bj_report job2))\<rparr>"
    "\<forall>j\<in>set cs. job_tally j = bj_processed_records j \<and> bj_processed_records j \<le> bj_total_records j"
    using run_job_count[OF analysis_graded fin(2)] assms(5) by (simp_all add: start_job_def)
  have id: "bj_id job2 = i"
    using run_job_same[OF fin(2)] get_job_row_found[OF assms(1,3)] by (simp add: same_job_def start_job_def)
  have "filter (\<lambda>j. bj_id j = i) (ig_jobs st') = [job2]"
    unfolding fin(5) drop_input_def using get_job_row_found[OF assms(1,3)] id
    by (simp, intro save_job_found[where job = "start_job now (length rows) job"] save_job_found[where job = job])
      (simp_all add: start_job_def)
  then have "get_job_row (oe_scan (pe_ops env)) i (ig_jobs st') = Inr job2"
    by (simp add: get_job_row_def get_one_found[OF assms(1)])
  moreover have "list_all (\<lambda>j. job_tally j = bj_processed_records j \<and> bj_processed_records j \<le> bj_total_records j) (tl commits)"
    using count(5) by (simp add: fin(3) list_all_iff)
  moreover obtain x where "bj_report job2 = Some \<lparr>br_total_records = length rows, br_ready = bj_ready_count job2,
      br_repairable = bj_repairable_count job2, br_review_required = bj_review_required_count job2,
      br_unresolved = bj_unresolved_count job2, br_failed = bj_failed_count job2, br_top_rule_findings = x\<rparr>"
    using count(4) by blast
  moreover note fin(1,4) count(1-3)
  ultimately show ?thesis
    by (intro exI[of _ rows] exI[of _ job2] exI conjI) (assumption, assumption, assumption, simp, simp_all add: job_tally_def)
qed

text \<open>
  A job that has finished, or was refused for its size, is not processed again: another delivery
  of its task answers with the stored report and changes nothing.
\<close>
theorem batch_delivered_twice:
  assumes "scan_ok (oe_scan (pe_ops env))" "process_batch env now i key (k, st) = ((r, commits), k', st')"
    and "r = Inr rep \<or> commits = [j] \<and> bj_status j = ''FAILED''"
  shows "\<exists>job. get_job_row (oe_scan (pe_ops env)) i (ig_jobs st') = Inr job \<and> (r = Inr (bj_report job) \<or> job = j) \<and>
    process_batch env now' i key' (k', st') = ((Inr (bj_report job), []), k', st')"
proof -
  have refused: "get_job_row (oe_scan (pe_ops env)) i (ig_jobs (save_job (fail_job job) st)) = Inr (fail_job job)"
    if "get_job_row (oe_scan (pe_ops env)) i (ig_jobs st) = Inr job" for job
    using get_job_row_found[OF assms(1) that] save_job_found[of i st job "fail_job job"]
    by (simp add: get_job_row_def get_one_found[OF assms(1)] fail_job_def)
  have finished: "get_job_row (oe_scan (pe_ops env)) i
      (ig_jobs (drop_input key (save_job job2 (save_job (start_job now n job) st)))) = Inr job2"
    if "get_job_row (oe_scan (pe_ops env)) i (ig_jobs st) = Inr job" "same_job (start_job now n job) job2" for job job2 n
    using get_job_row_found[OF assms(1) that(1)] that(2)
      save_job_found[of i "save_job (start_job now n job) st" "start_job now n job" job2]
      save_job_found[of i st job "start_job now n job"]
    by (simp add: get_job_row_def get_one_found[OF assms(1)] start_job_def same_job_def drop_input_def)
  have ends: "terminal_status (bj_status job2)" if "run_job f now rows job k = (job2, cs, k')" for f rows job k job2 cs k'
    using that by (auto simp: run_job_def finish_job_def Let_def split: prod.splits) (auto simp: terminal_status_def)
  have again: "process_batch env now' i key' (k', st') = ((Inr (bj_report job), []), k', st')"
    if "get_job_row (oe_scan (pe_ops env)) i (ig_jobs st') = Inr job" "terminal_status (bj_status job)" for job
    using that by (simp add: process_batch_def)
  have stored: "\<exists>job. get_job_row (oe_scan (pe_ops env)) i (ig_jobs st') = Inr job \<and> terminal_status (bj_status job) \<and>
      (r = Inr (bj_report job) \<or> job = j)"
  proof (cases "get_job_row (oe_scan (pe_ops env)) i (ig_jobs st)")
    case (Inr job)
    note f = refused[OF Inr] and g = finished[OF Inr]
    show ?thesis
    proof (cases "terminal_status (bj_status job)")
      case False
      have t: "terminal_status (bj_status (fail_job job))" "bj_status (start_job now n job) \<noteq> ''FAILED''" for n
        by (simp_all add: fail_job_def terminal_status_def start_job_def)
      show ?thesis
        using assms(2,3) Inr False f t
        by (auto simp: process_batch_def Let_def split: sum.splits if_splits prod.splits)
          (metis g run_job_same ends)+
    qed (use assms(2,3) Inr in \<open>auto simp: process_batch_def\<close>)
  qed (use assms(2,3) in \<open>auto simp: process_batch_def\<close>)
  with again show ?thesis by blast
qed

end
