(* ===== verification/PO_ProfileProps.thy ===== *)
theory PO_ProfileProps
  imports PO_BatchProps
begin

text \<open>
  The analysis route of a profile: who may run it, what it stores, and what a repeated request with
  the same key gives.
\<close>

lemma persist_profile_case_Inr:
  assumes "persist_profile_case env now org p f idem st = (Inr c, st')"
  shows "op_cases st' = op_cases st @ [c] \<and> pc_organization_id c = Some org \<and> pc_case_id c = ar_case_id (pf_result f) \<and>
    pc_idempotency_key c = idem \<and> pc_case_id c \<notin> pc_case_id ` set (op_cases st)"
  using assms by (auto simp: persist_profile_case_def Let_def profile_case_def split: if_splits)

text \<open>What a fresh result says about the call.\<close>

lemma profile_analyze_Fresh:
  assumes "profile_analyze env pv now c i body (k, st) = (Inr (Fresh f cid), k', st')"
  obtains p case_row ops where
    "ac_allowed_profiles c = [] \<or> i \<in> set (ac_allowed_profiles c)"
    "get_profile (pe_ops env) (pe_repr env) (ac_organization_id c) i st = Inr p" "ip_status p = PS_PUBLISHED"
    "\<not> truthy (aq_idempotency_key body) \<or>
       find_existing_case (oe_scan (pe_ops env)) (ac_organization_id c) (dget_opt (aq_idempotency_key body)) (op_cases (ig_ops st)) = Inr None"
    "analyze_profile env pv p (aq_payload body) (aq_do_repair body) (aq_candidate_xml body) k = (Inr f, k')"
    "persist_profile_case (pe_ops env) now (ac_organization_id c) p f (aq_idempotency_key body) (ig_ops st) = (Inr case_row, ops)"
    "cid = pc_case_id case_row" "st' = st\<lparr>ig_ops := ops\<rparr>"
  using assms
  by (auto simp: profile_analyze_def map_error_def Let_def split: if_splits sum.splits option.splits prod.splits)

lemma domain_status: "profile_to_domain ro r = Inr p \<Longrightarrow> pr_status r = ProfileStatus_value (ip_status p)"
proof -
  have "ProfileStatus_of s = Inr x \<Longrightarrow> s = ProfileStatus_value x" for s x
    by (auto simp: ProfileStatus_of_def enum_of_def split: list.splits if_splits)
  then show "profile_to_domain ro r = Inr p \<Longrightarrow> pr_status r = ProfileStatus_value (ip_status p)"
    by (auto simp: profile_to_domain_def bindR_Inr)
qed

lemma persist_profile_case_Inl: "persist_profile_case oe now org p f idem ops = (Inl e, ops') \<Longrightarrow> ops' = ops"
  by (auto simp: persist_profile_case_def Let_def split: if_splits)

text \<open>Only a fresh result changes the store.\<close>

lemma analysis_without_case:
  assumes "profile_analyze env pv now c i body (k, st) = (reply, k', st')" "\<nexists>f cid. reply = Inr (Fresh f cid)"
  shows "st' = st"
proof -
  have same: "st\<lparr>ig_ops := ig_ops st\<rparr> = st" by (cases st) simp
  have "st' = st \<or> (\<exists>oe org p f idem e ops'.
      persist_profile_case oe now org p f idem (ig_ops st) = (Inl e, ops') \<and> st' = st\<lparr>ig_ops := ops'\<rparr>)"
    using assms by (simp add: profile_analyze_def Let_def split: if_splits sum.splits option.splits prod.splits) blast+
  then show ?thesis using persist_profile_case_Inl same by metis
qed

text \<open>C11: 
  A payload is analysed only under a published profile of the caller's organization that the
  client is allowed to use; the analysis adds one case of that organization with the key of the
  request, and changes no profile, version or job. A request that fails stores nothing.
\<close>
theorem analysis_needs_published_profile:
  assumes "scan_ok (oe_scan (pe_ops env))" "profile_analyze env pv now c i body (k, st) = (reply, k', st')"
  shows "(case reply of
      Inl e \<Rightarrow> st' = st
    | Inr (Idempotent x) \<Rightarrow> st' = st \<and> x \<in> set (op_cases (ig_ops st)) \<and> pc_organization_id x = Some (ac_organization_id c)
    | Inr (Fresh f cid) \<Rightarrow>
        (ac_allowed_profiles c = [] \<or> i \<in> set (ac_allowed_profiles c)) \<and>
        (\<exists>r\<in>set (ig_profiles st). pr_id r = i \<and> pr_organization_id r = ac_organization_id c \<and> pr_status r = ''PUBLISHED'') \<and>
        (\<exists>x. op_cases (ig_ops st') = op_cases (ig_ops st) @ [x] \<and> pc_organization_id x = Some (ac_organization_id c) \<and>
           pc_case_id x = cid \<and> pc_idempotency_key x = aq_idempotency_key body) \<and>
        ig_profiles st' = ig_profiles st \<and> ig_versions st' = ig_versions st \<and> ig_jobs st' = ig_jobs st)"
proof -
  have hit: "x \<in> set rows \<and> pc_organization_id x = Some org" if "find_existing_case scan org key rows = Inr (Some x)" "scan_ok scan"
    for scan org key rows x
  proof -
    have "x \<in> set (select_where scan (\<lambda>c. pc_organization_id c = Some org \<and> pc_idempotency_key c = Some key) rows)"
      using that(1) by (simp add: find_existing_case_def scalar_one_or_none_cases)
    then show ?thesis by (simp add: set_select_where[OF that(2)])
  qed
  show ?thesis
  proof (cases reply)
    case (Inl e)
    then have "st' = st" using analysis_without_case[OF assms(2)] by simp
    with Inl show ?thesis by simp
  next
    case reply: (Inr x)
    show ?thesis
    proof (cases x)
      case (Fresh f cid)
      with reply assms(2) have run: "profile_analyze env pv now c i body (k, st) = (Inr (Fresh f cid), k', st')" by simp
      obtain p case_row ops where F: "ac_allowed_profiles c = [] \<or> i \<in> set (ac_allowed_profiles c)"
        "get_profile (pe_ops env) (pe_repr env) (ac_organization_id c) i st = Inr p" "ip_status p = PS_PUBLISHED"
        "persist_profile_case (pe_ops env) now (ac_organization_id c) p f (aq_idempotency_key body) (ig_ops st) = (Inr case_row, ops)"
        "cid = pc_case_id case_row" "st' = st\<lparr>ig_ops := ops\<rparr>"
        by (rule profile_analyze_Fresh[OF run])
      from F(2) obtain r where r: "get_profile_row (oe_scan (pe_ops env)) (ac_organization_id c) i (ig_profiles st) = Inr r"
        "profile_to_domain (pe_repr env) r = Inr p" by (auto simp: get_profile_def bindR_Inr)
      have "pr_status r = ''PUBLISHED''" using domain_status[OF r(2)] F(3) by (simp add: ProfileStatus_value_def)
      with profile_rows.own_row[OF assms(1) r(1)] persist_profile_case_Inr[OF F(4)] F(1,5,6) Fresh reply
      show ?thesis by auto
    next
      case (Idempotent y)
      with reply assms have "st' = st"
        "find_existing_case (oe_scan (pe_ops env)) (ac_organization_id c) (dget_opt (aq_idempotency_key body)) (op_cases (ig_ops st)) = Inr (Some y)"
        by (auto simp: profile_analyze_def Let_def split: if_splits sum.splits option.splits prod.splits)
      with hit[OF _ assms(1)] Idempotent reply show ?thesis by simp
    qed
  qed
qed

section \<open>Repeated requests\<close>

text \<open>The case of an organization that holds a key, when exactly one does.\<close>

definition key_case :: "string \<Rightarrow> string \<Rightarrow> Integ \<Rightarrow> PaymentCase \<Rightarrow> bool" where
  "key_case org key st x \<longleftrightarrow>
     filter (\<lambda>c. pc_organization_id c = Some org \<and> pc_idempotency_key c = Some key) (op_cases (ig_ops st)) = [x]"

lemma key_case_found:
  "scan_ok scan \<Longrightarrow> key_case org key st x \<Longrightarrow> find_existing_case scan org key (op_cases (ig_ops st)) = Inr (Some x)"
  by (simp add: key_case_def find_existing_case_def select_where_unique scalar_one_or_none_def)

text \<open>Only an analysis adds cases.\<close>

lemma cases_frame:
  "op_cases (ig_ops (snd (create_profile oe ro now org p st))) = op_cases (ig_ops st)"
  "op_cases (ig_ops (snd (update_profile oe ro now org i p st))) = op_cases (ig_ops st)"
  "op_cases (ig_ops (snd (publish_profile oe ro now org i st))) = op_cases (ig_ops st)"
  "op_cases (ig_ops (snd (create_batch env now c req st))) = op_cases (ig_ops st)"
  "op_cases (ig_ops (snd (snd (process_batch env now i key s)))) = op_cases (ig_ops (snd s))"
  by (simp_all add: create_profile_def update_profile_def publish_profile_def create_batch_def create_batch_job_def
      store_input_def process_batch_def save_job_def drop_input_def draw_key_def Let_def
      split: sum.splits prod.splits)

lemma analyze_keeps_key:
  assumes ok: "scan_ok (oe_scan (pe_ops env))" and key: "key \<noteq> []" "key_case org key (snd s) x"
  shows "key_case org key (snd (snd (profile_analyze env pv now c i body s))) x"
proof -
  obtain k st where s: "s = (k, st)" by force
  obtain reply k' st' where run: "profile_analyze env pv now c i body (k, st) = (reply, k', st')" by (metis prod.exhaust)

  show ?thesis
  proof (cases "\<exists>f cid. reply = Inr (Fresh f cid)")
    case False
    with analysis_without_case[OF run] key(2) show ?thesis by (auto simp: s run)
  next
    case True
    then obtain f cid where fresh: "reply = Inr (Fresh f cid)" by blast
    obtain p y ops where F:
      "\<not> truthy (aq_idempotency_key body) \<or>
         find_existing_case (oe_scan (pe_ops env)) (ac_organization_id c) (dget_opt (aq_idempotency_key body)) (op_cases (ig_ops st)) = Inr None"
      "persist_profile_case (pe_ops env) now (ac_organization_id c) p f (aq_idempotency_key body) (ig_ops st) = (Inr y, ops)"
      "st' = st\<lparr>ig_ops := ops\<rparr>"
      by (rule profile_analyze_Fresh[OF run[unfolded fresh]]) blast
    have "\<not> (ac_organization_id c = org \<and> aq_idempotency_key body = Some key)"
      using F(1) key_case_found[OF ok key(2)] key(1) by (auto simp: s truthy_iff dget_opt_def)
    then show ?thesis
      using persist_profile_case_Inr[OF F(2)] key(2) by (auto simp: key_case_def s run F(3))
  qed
qed

lemma integ_step_key:
  assumes "scan_ok (oe_scan (pe_ops env))" "integ_step env org' s s'" "key \<noteq> []" "key_case org key (snd s) x"
  shows "key_case org key (snd s') x"
  using assms(2)
proof cases
  case (int_analyze c pv now i body)
  then show ?thesis using analyze_keeps_key[OF assms(1,3,4)] by simp
qed (use assms(4) in \<open>simp_all add: key_case_def cases_frame\<close>)

lemma integ_run_key:
  assumes "scan_ok (oe_scan (pe_ops env))" "integ_run env orgs s s'" "key \<noteq> []" "key_case org key (snd s) x"
  shows "key_case org key (snd s') x"
  using assms(2,4) by (induction rule: integ_run.induct) (auto intro: integ_step_key[OF assms(1) _ assms(3)])

text \<open>C12: 
  After an analysis with a key has stored its case, let the integration services run in any way, for
  any organizations. A later request of the same organization with that key, naming a profile that
  exists, is published and is allowed to its client, is then answered with the case of the first
  analysis and changes nothing, whatever its payload, also when it names another profile, and also when
  other requests with the key came in between.
\<close>
theorem repeated_key_returns_first_case:
  assumes "scan_ok (oe_scan (pe_ops env))" "profile_analyze env pv now c i body (k, st) = (Inr (Fresh f cid), k1, st')"
    and "truthy (aq_idempotency_key body)" "aq_idempotency_key body2 = aq_idempotency_key body"
    and "integ_run env orgs (k1, st') (k2, st2)"
    and "ac_organization_id c2 = ac_organization_id c" "ac_allowed_profiles c2 = [] \<or> i2 \<in> set (ac_allowed_profiles c2)"
    and "get_profile (pe_ops env) (pe_repr env) (ac_organization_id c2) i2 st2 = Inr p2" "ip_status p2 = PS_PUBLISHED"
  shows "\<exists>x\<in>set (op_cases (ig_ops st')). pc_case_id x = cid \<and>
    profile_analyze env pv2 now2 c2 i2 body2 (k2, st2) = (Inr (Idempotent x), k2, st2)"
proof -
  let ?org = "ac_organization_id c" and ?key = "dget_opt (aq_idempotency_key body)"
  obtain p x ops where F:
    "find_existing_case (oe_scan (pe_ops env)) ?org ?key (op_cases (ig_ops st)) = Inr None"
    "persist_profile_case (pe_ops env) now ?org p f (aq_idempotency_key body) (ig_ops st) = (Inr x, ops)"
    "cid = pc_case_id x" "st' = st\<lparr>ig_ops := ops\<rparr>"
    by (rule profile_analyze_Fresh[OF assms(2)]) (use assms(3) in blast)
  have key: "aq_idempotency_key body = Some ?key" "?key \<noteq> []" using assms(3) by (auto simp: truthy_iff dget_opt_def)
  have new: "op_cases ops = op_cases (ig_ops st) @ [x]" "pc_organization_id x = Some ?org" "pc_idempotency_key x = Some ?key"
    using persist_profile_case_Inr[OF F(2)] key(1) by auto
  have "filter (\<lambda>c. pc_organization_id c = Some ?org \<and> pc_idempotency_key c = Some ?key) (op_cases (ig_ops st)) = []"
    using F(1) set_select_where[OF assms(1), of "\<lambda>c. pc_organization_id c = Some ?org \<and> pc_idempotency_key c = Some ?key"
        "op_cases (ig_ops st)"]
    by (auto simp: find_existing_case_def scalar_one_or_none_cases filter_empty_conv)
  with new have "key_case ?org ?key st' x" by (simp add: key_case_def F(4))
  then have "key_case ?org ?key st2 x" using integ_run_key[OF assms(1,5) key(2)] by simp
  note found = key_case_found[OF assms(1) this]
  have "profile_analyze env pv2 now2 c2 i2 body2 (k2, st2) = (Inr (Idempotent x), k2, st2)"
    using found assms(3,4,6-9) by (auto simp: profile_analyze_def map_error_def Let_def)
  with new F(3,4) show ?thesis by auto
qed

text \<open>
  The batch route asks for less than the analysis route: a client may submit rows for every
  profile of its organization, also one that it is not allowed to use or that is not published,
  where the analysis route refuses it.
\<close>
theorem batch_skips_profile_checks:
  assumes "get_profile (pe_ops env) (pe_repr env) (ac_organization_id c) i st = Inr p"
    and "ac_allowed_profiles c \<noteq> [] \<and> i \<notin> set (ac_allowed_profiles c) \<or> ip_status p \<noteq> PS_PUBLISHED"
    and "utf8_length csv_text \<le> MAX_FILE_BYTES" "int4_ok n"
  shows "(\<exists>job key st'. create_batch env now c \<lparr>bq_profile_id = i, bq_csv = csv_text, bq_profile_version = n\<rparr> st = (Inr (job, key), st') \<and>
      bj_status job = ''QUEUED'' \<and> get_input key st' = Inr csv_text \<and> ig_jobs st' = ig_jobs st @ [job]) \<and>
    fst (profile_analyze env pv now c i body (k, st)) \<in>
      {Inl (HTTPException 403 ''profile not authorized for client''), Inl (HTTPException 409 ''profile not published'')}"
  using assms
  by (auto simp: create_batch_def create_batch_job_def store_input_def get_input_def draw_key_def new_job_def
      profile_analyze_def map_error_def Let_def)

end
