(* ===== verification/PO_IntegrationWits.thy ===== *)
theory PO_IntegrationWits
  imports PO_ProfileProps
begin

text \<open>
  Concrete stores of the integration services on which their results apply: generated keys that
  are numbered by their length, one JSON profile with one field, and constant parsers and hashes.
\<close>

section \<open>Concrete values\<close>

definition demo_uid :: uuids where
  "demo_uid n = replicate n CHR ''k''"

lemma demo_uid_inj: "inj demo_uid"
  by (rule injI) (metis demo_uid_def length_replicate)

definition demo_ops_env :: OpsEnv where
  "demo_ops_env = \<lparr>oe_scan = heap_scan, oe_uid = demo_uid, oe_sha256 = \<lambda>_. []\<rparr>"

definition demo_time :: pydatetime where
  "demo_time = \<lparr>t_date = mk_date 2024 1 2, t_hour = 0, t_minute = 0, t_second = 0, t_micro = 0, t_offset = Some 0\<rparr>"

definition demo_pipeline_env :: pipeline_env where
  "demo_pipeline_env = \<lparr>pv_repair = \<lparr>rv_candidate_id = ''0123456789abcdef'', rv_now = demo_time, rv_schemas = (\<lambda>_. None),
       rv_serialize = (\<lambda>_. [])\<rparr>,
     pv_case_id = ''0123456789abcdef'', pv_sha256 = (\<lambda>_. ''h''), pv_dump = (\<lambda>_. []),
     pv_fromstring = (\<lambda>_. Inl ParseValueError), pv_docinfo = (\<lambda>_. None)\<rparr>"

definition demo_env :: ProfileEnv where
  "demo_env = \<lparr>pe_ops = demo_ops_env, pe_pipeline = (\<lambda>_. demo_pipeline_env),
     pe_mapping = \<lparr>me_repr = (\<lambda>_. []), me_xpath = (\<lambda>_ _. XNumber), me_now = demo_time\<rparr>,
     pe_members = (\<lambda>_ _. None), pe_repr = (\<lambda>_. []), pe_json_loads = (\<lambda>s. Inr (JObj [(''name'', JStr s)])),
     pe_registry = empty_registry,
     pe_calls = (\<lambda>_. \<lparr>se_clock = 0, se_clock_after = 0, se_attempt = (\<lambda>_. TimesOut)\<rparr>),
     pe_swift_address_url = [], pe_swift_max_retries = 1\<rparr>"

definition demo_profile :: "ProfileStatus \<Rightarrow> IntegrationProfile" where
  "demo_profile s = \<lparr>ip_id = None, ip_organization_id = ''A'', ip_name = ''P'', ip_description = [], ip_status = s,
     ip_input_format = IF_JSON, ip_output_format = OF_ANALYSIS_JSON, ip_retention_policy = RP_METADATA_ONLY,
     ip_address_policy = ''cloudnova'', ip_ai_policy = ''disabled'', ip_allowed_messages = [],
     ip_mapping = \<lparr>mp_version = ''1'', mp_source_format = MF_JSON, mp_record_selector = None,
       mp_fields = [\<lparr>fm_source = ''name'', fm_target = ''debtor.name'', fm_required = REQUIRED, fm_transforms = [], fm_default = None\<rparr>]\<rparr>,
     ip_rules = [], ip_version_number = 1, ip_created_at = 0, ip_updated_at = 0, ip_published_at = None\<rparr>"

definition demo_ops :: Ops where
  "demo_ops = \<lparr>op_cases = [], op_actions = [], op_runs = [], op_findings = [], op_candidates = [], op_audit = [],
     op_messages = [], op_lifecycles = [], op_events = [], op_correlations = [], op_reports = [], op_entries = [],
     op_balances = [], op_reconciliations = [], op_uuids = 2\<rparr>"

definition demo_empty :: Integ where
  "demo_empty = \<lparr>ig_profiles = [], ig_versions = [], ig_jobs = [], ig_redis = [], ig_ops = demo_ops\<rparr>"

definition demo_state :: "ProfileStatus \<Rightarrow> Integ" where
  "demo_state s = demo_empty\<lparr>ig_profiles := [new_profile_row (demo_uid 0) ''A'' 0 (demo_profile s)]\<rparr>"

definition demo_client :: AuthenticatedClient where
  "demo_client = \<lparr>ac_client_id = ''c'', ac_organization_id = ''A'', ac_allowed_profiles = [], ac_client_id_guid = ''g''\<rparr>"

lemma demo_ok: "scan_ok (oe_scan demo_ops_env)" "inj (oe_uid demo_ops_env)" "pe_ops demo_env = demo_ops_env"
  by (simp_all add: demo_ops_env_def demo_env_def demo_uid_inj)

lemma demo_integ_ok: "integ_ok demo_ops_env demo_empty" "integ_ok demo_ops_env (demo_state s)"
  by (simp_all add: integ_ok_def demo_empty_def demo_state_def keys_used_def demo_ops_env_def demo_ops_def new_profile_row_def)

lemma demo_rules: "rules_from_json (demo_profile s)"
  by (simp add: rules_from_json_def demo_profile_def)

lemma demo_get: "get_profile demo_ops_env ro ''A'' (demo_uid 0) (demo_state s) =
    Inr ((demo_profile s)\<lparr>ip_id := Some (demo_uid 0)\<rparr>)"
proof -
  let ?row = "new_profile_row (demo_uid 0) ''A'' 0 (demo_profile s)"
  have k: "pr_id ?row = demo_uid 0" "pr_organization_id ?row = ''A''" by (simp_all add: new_profile_row_def)
  then have "get_profile_row heap_scan ''A'' (demo_uid 0) [?row] = Inr ?row"
    by (simp add: get_profile_row_def get_one_found[OF heap_scan_ok])
  moreover have "profile_to_domain ro ?row = Inr ((demo_profile s)\<lparr>ip_id := Some (demo_uid 0)\<rparr>)"
    unfolding new_profile_row_def
    by (subst content_reads_back[OF demo_rules, where s = s]) (simp_all add: stored_as_def demo_profile_def)
  ultimately show ?thesis by (simp add: get_profile_def demo_ops_env_def demo_state_def)
qed

section \<open>Profiles\<close>

theorem created_profile_reads_back_witness:
  "get_profile demo_ops_env (\<lambda>_. []) ''B'' (demo_uid 2) (snd (create_profile demo_ops_env (\<lambda>_. []) 5 ''B'' (demo_profile PS_PUBLISHED) demo_empty)) =
     Inr ((demo_profile PS_PUBLISHED)\<lparr>ip_id := Some (demo_uid 2), ip_organization_id := ''B'', ip_created_at := 5,
       ip_updated_at := 5, ip_published_at := None\<rparr>)"
proof -
  have k: "next_key demo_ops_env demo_empty = demo_uid 2"
    by (simp add: next_key_def new_key_def demo_ops_env_def demo_empty_def demo_ops_def)
  have "int4_ok (ip_version_number (demo_profile PS_PUBLISHED))" by (simp add: int4_ok_def demo_profile_def)
  note h = created_profile_reads_back[OF demo_ok(1,2) demo_integ_ok(1) demo_rules this, of "\<lambda>_. []" 5 "''B''", unfolded k]
  from conjunct1[OF h, symmetric] conjunct1[OF conjunct2[OF h]] show ?thesis by (rule trans)
qed

lemma demo_published_row:
  "\<exists>r\<in>set (ig_profiles (demo_state PS_PUBLISHED)). pr_status r = ''PUBLISHED'' \<and> pr_name r = ''P''"
  by (simp add: demo_state_def new_profile_row_def with_content_def demo_profile_def ProfileStatus_value_def)

lemma demo_env_simps [simp]: "pe_ops demo_env = demo_ops_env" "pe_repr demo_env = (\<lambda>_. [])"
  by (simp_all add: demo_env_def)

theorem published_profile_frozen_witness:
  "\<exists>r'\<in>set (ig_profiles (snd (update_profile demo_ops_env (\<lambda>_. []) 9 ''A'' (demo_uid 0)
     ((demo_profile PS_DRAFT)\<lparr>ip_name := ''Q''\<rparr>) (demo_state PS_PUBLISHED)))). pr_name r' = ''P''"
proof -
  let ?st = "snd (update_profile demo_ops_env (\<lambda>_. []) 9 ''A'' (demo_uid 0) ((demo_profile PS_DRAFT)\<lparr>ip_name := ''Q''\<rparr>) (demo_state PS_PUBLISHED))"
  have run: "integ_run demo_env {''A''} (0, demo_state PS_PUBLISHED) (0, ?st)"
    using int_more[OF int_none, of "''A''" "{''A''}" demo_env "(0, demo_state PS_PUBLISHED)"]
      int_update[of demo_env "''A''" 0 "demo_state PS_PUBLISHED" 9 "demo_uid 0" "(demo_profile PS_DRAFT)\<lparr>ip_name := ''Q''\<rparr>"]
    by simp
  obtain r where r: "r \<in> set (ig_profiles (demo_state PS_PUBLISHED))" "pr_status r = ''PUBLISHED''" "pr_name r = ''P''"
    using demo_published_row by blast
  obtain r' where r': "r' \<in> set (ig_profiles ?st)" "r' = r\<lparr>pr_published_at := pr_published_at r', pr_updated_at := pr_updated_at r'\<rparr>"
    using published_profile_frozen[OF _ _ _ run, of r] r demo_ok demo_integ_ok(2) by auto
  from arg_cong[OF r'(2), of pr_name] r(3) have "pr_name r' = ''P''" by simp
  with r'(1) show ?thesis by blast
qed

text \<open>A draft profile is published.\<close>

definition demo_publish :: Integ where
  "demo_publish = snd (publish_profile demo_ops_env (\<lambda>_. []) 7 ''A'' (demo_uid 0) (demo_state PS_DRAFT))"

lemma demo_valid: "validate_profile ((demo_profile s)\<lparr>ip_id := i\<rparr>) = []"
  by (simp add: validate_profile_def demo_profile_def validate_mapping_def field_errors_def ALLOWED_TARGETS_def)

lemma demo_publish_version: "ig_versions demo_publish \<noteq> []"
proof -
  obtain row where row: "get_profile_row heap_scan ''A'' (demo_uid 0) (ig_profiles (demo_state PS_DRAFT)) = Inr row"
    "profile_to_domain (\<lambda>_. []) row = Inr ((demo_profile PS_DRAFT)\<lparr>ip_id := Some (demo_uid 0)\<rparr>)"
    using demo_get[of "\<lambda>_. []" PS_DRAFT] by (auto simp: get_profile_def bindR_Inr demo_ops_env_def)
  then show ?thesis
    by (simp add: demo_publish_def publish_profile_def demo_ops_env_def demo_valid draw_key_def Let_def)
qed

lemma demo_publish_run: "integ_run demo_env {''A''} (0, demo_state PS_DRAFT) (0, demo_publish)"
  using int_more[OF int_none, of "''A''" "{''A''}" demo_env "(0, demo_state PS_DRAFT)"]
    int_publish[of demo_env "''A''" 0 "demo_state PS_DRAFT" 7 "demo_uid 0"] by (simp add: demo_publish_def)

theorem snapshots_describe_profiles_witness:
  "\<exists>r\<in>set (ig_profiles demo_publish). describes (\<lambda>_. []) (hd (ig_versions demo_publish)) r"
proof -
  have "hd (ig_versions demo_publish) \<in> set (ig_versions demo_publish)" using demo_publish_version by simp
  moreover have "ig_versions (snd (0::nat, demo_state PS_DRAFT)) = []" by (simp add: demo_state_def demo_empty_def)
  moreover have "integ_ok (pe_ops demo_env) (snd (0::nat, demo_state PS_DRAFT))" using demo_integ_ok(2) by simp
  ultimately show ?thesis
    using snapshots_describe_profiles[OF _ _ _ _ demo_publish_run] demo_ok by simp
qed

theorem profile_tenants_isolated_witness:
  "own_rows ''B'' demo_publish = ([], [], [])"
proof -
  have "ops_ok demo_ops_env (ig_ops (demo_state PS_DRAFT))"
    by (simp add: ops_ok_def demo_state_def demo_empty_def demo_ops_def keys_used_def)
  from profile_tenants_isolated[OF _ _ _ _ demo_publish_run, of "''B''"] this demo_ok demo_integ_ok(2)
  have "own_rows ''B'' demo_publish = own_rows ''B'' (demo_state PS_DRAFT)" by simp
  also have "\<dots> = ([], [], [])" by (simp add: own_rows_def demo_state_def demo_empty_def new_profile_row_def)
  finally show ?thesis .
qed

section \<open>Analyses\<close>

definition demo_body :: "string \<Rightarrow> ProfileAnalyzeRequest" where
  "demo_body s = \<lparr>aq_payload = s, aq_do_repair = True, aq_candidate_xml = False, aq_idempotency_key = Some ''key''\<rparr>"

definition demo_analysis :: "analyze_reply res \<times> nat \<times> Integ" where
  "demo_analysis = profile_analyze demo_env demo_pipeline_env 3 demo_client (demo_uid 0) (demo_body ''Bob'') (0, demo_state PS_PUBLISHED)"

lemma demo_mapped:
  "case map_to_canonical (pe_mapping demo_env) (ip_mapping (demo_profile PS_PUBLISHED)) (RJson (JObj [(''name'', JStr ''Bob'')])) of
     Inr r \<Rightarrow> concat (map addresses (pm_transactions (mr_message r))) = [] | Inl e \<Rightarrow> False"
  by code_simp

lemma demo_analyzed:
  "\<exists>f k. analyze_profile demo_env demo_pipeline_env ((demo_profile PS_PUBLISHED)\<lparr>ip_id := i\<rparr>) ''Bob'' True False 0 = (Inr f, k) \<and>
     ar_case_id (pf_result f) = ''case-0123456789abcdef''"
proof -
  obtain r where r: "map_to_canonical (pe_mapping demo_env) (ip_mapping (demo_profile PS_PUBLISHED)) (RJson (JObj [(''name'', JStr ''Bob'')])) = Inr r"
    "concat (map addresses (pm_transactions (mr_message r))) = []"
    using demo_mapped by (auto split: sum.splits)
  have j: "pe_json_loads demo_env ''Bob'' = Inr (JObj [(''name'', JStr ''Bob'')])" by (simp add: demo_env_def)
  have f: "ip_input_format (demo_profile PS_PUBLISHED) = IF_JSON" by (simp add: demo_profile_def)
  have m: "message_addresses (mr_message r) = []" by (simp add: message_addresses_def r(2))
  show ?thesis
    by (simp add: analyze_profile_def map_input_def map_source_def f j r analyze_message_def generate_candidate_def m
        analysis_result_def new_case_id_def demo_pipeline_env_def Let_def)
qed

lemma demo_analysis_fresh: "\<exists>f k st'. demo_analysis = (Inr (Fresh f ''case-0123456789abcdef''), k, st')"
proof -
  obtain f k where f: "analyze_profile demo_env demo_pipeline_env ((demo_profile PS_PUBLISHED)\<lparr>ip_id := Some (demo_uid 0)\<rparr>) ''Bob'' True False 0 = (Inr f, k)"
    "ar_case_id (pf_result f) = ''case-0123456789abcdef''" using demo_analyzed by blast
  have none: "find_existing_case heap_scan ''A'' ''key'' [] = Inr None"
    by (simp add: find_existing_case_def select_where_def scalar_one_or_none_def)
  have st: "ip_status (demo_profile PS_PUBLISHED) = PS_PUBLISHED" "op_cases (ig_ops (demo_state PS_PUBLISHED)) = []"
    by (simp_all add: demo_profile_def demo_state_def demo_empty_def demo_ops_def)
  have scan: "oe_scan demo_ops_env = heap_scan" by (simp add: demo_ops_env_def)
  show ?thesis
    by (simp add: demo_analysis_def profile_analyze_def demo_client_def demo_body_def demo_get map_error_def f none st scan
        persist_profile_case_def profile_case_def dget_opt_def Let_def)
qed

theorem analysis_needs_published_profile_witness:
  "\<exists>x. op_cases (ig_ops (snd (snd demo_analysis))) = [x] \<and> pc_organization_id x = Some ''A''"
proof -
  obtain f k st' where run: "demo_analysis = (Inr (Fresh f ''case-0123456789abcdef''), k, st')" using demo_analysis_fresh by blast
  have "op_cases (ig_ops (demo_state PS_PUBLISHED)) = []" by (simp add: demo_state_def demo_empty_def demo_ops_def)
  moreover have "ac_organization_id demo_client = ''A''" by (simp add: demo_client_def)
  moreover have "scan_ok (oe_scan (pe_ops demo_env))" using demo_ok by simp
  ultimately have "\<exists>x. op_cases (ig_ops st') = [x] \<and> pc_organization_id x = Some ''A''"
    using analysis_needs_published_profile[OF _ run[unfolded demo_analysis_def]] by auto
  moreover have "snd (snd demo_analysis) = st'" by (simp add: run)
  ultimately show ?thesis by (simp only:)
qed

text \<open>Between the two requests a batch is submitted for the profile.\<close>

definition demo_between :: Integ where
  "demo_between = snd (create_batch demo_env 3 demo_client \<lparr>bq_profile_id = demo_uid 0, bq_csv = ''a'', bq_profile_version = 1\<rparr>
     (snd (snd demo_analysis)))"

lemma demo_between_profiles: "ig_profiles demo_between = ig_profiles (snd (snd demo_analysis))"
  by (simp add: demo_between_def create_batch_def create_batch_job_def store_input_def draw_key_def Let_def
      split: sum.splits prod.splits)

lemma demo_analysis_profiles: "ig_profiles (snd (snd demo_analysis)) = ig_profiles (demo_state PS_PUBLISHED)"
proof -
  obtain f k st' where run: "demo_analysis = (Inr (Fresh f ''case-0123456789abcdef''), k, st')" using demo_analysis_fresh by blast
  show ?thesis by (rule profile_analyze_Fresh[OF run[unfolded demo_analysis_def]]) (simp add: run)
qed

lemma demo_between_get:
  "get_profile demo_ops_env (\<lambda>_. []) ''A'' (demo_uid 0) demo_between = Inr ((demo_profile PS_PUBLISHED)\<lparr>ip_id := Some (demo_uid 0)\<rparr>)"
proof -
  have "get_profile demo_ops_env (\<lambda>_. []) ''A'' (demo_uid 0) demo_between =
      get_profile demo_ops_env (\<lambda>_. []) ''A'' (demo_uid 0) (demo_state PS_PUBLISHED)"
    by (simp only: get_profile_def demo_between_profiles demo_analysis_profiles)
  then show ?thesis by (simp add: demo_get)
qed

theorem repeated_key_returns_first_case_witness:
  "\<exists>k. \<exists>x\<in>set (op_cases (ig_ops (snd (snd demo_analysis)))). pc_case_id x = ''case-0123456789abcdef'' \<and>
     profile_analyze demo_env demo_pipeline_env 4 demo_client (demo_uid 0) (demo_body ''Alice'') (k, demo_between) =
       (Inr (Idempotent x), k, demo_between)"
proof -
  obtain f k st' where run: "demo_analysis = (Inr (Fresh f ''case-0123456789abcdef''), k, st')" using demo_analysis_fresh by blast
  have s: "snd (snd demo_analysis) = st'" by (simp add: run)
  have body: "truthy (aq_idempotency_key (demo_body ''Bob''))" "aq_idempotency_key (demo_body ''Alice'') = aq_idempotency_key (demo_body ''Bob'')"
    and client: "ac_allowed_profiles demo_client = [] \<or> demo_uid 0 \<in> set (ac_allowed_profiles demo_client)" "ac_organization_id demo_client = ''A''"
    by (simp_all add: demo_body_def demo_client_def)
  have scan: "scan_ok (oe_scan (pe_ops demo_env))" using demo_ok by simp
  have between: "integ_run demo_env {''A''} (k, st') (k, demo_between)"
    unfolding demo_between_def s using int_more[OF int_none _ int_submit[of demo_env demo_client k st']] client(2) by simp
  have get: "get_profile (pe_ops demo_env) (pe_repr demo_env) (ac_organization_id demo_client) (demo_uid 0) demo_between =
      Inr ((demo_profile PS_PUBLISHED)\<lparr>ip_id := Some (demo_uid 0)\<rparr>)"
    using demo_between_get by (simp add: client(2))
  have "ip_status ((demo_profile PS_PUBLISHED)\<lparr>ip_id := Some (demo_uid 0)\<rparr>) = PS_PUBLISHED" by (simp add: demo_profile_def)
  from repeated_key_returns_first_case[OF scan run[unfolded demo_analysis_def] body between refl client(1) get this]
  show ?thesis unfolding s by blast
qed

section \<open>Batches\<close>

definition demo_csv :: string where
  "demo_csv = ''a'' @ [LF] @ ''1''"

definition demo_row :: CsvRow where
  "demo_row = \<lparr>cr_cells = [(''a'', Some ''1'')], cr_rest = None\<rparr>"

lemma demo_cells: "cells_ok [''a'']" "cells_ok [''1'']"
  by (simp_all add: cells_ok_def plain_def FIELD_LIMIT_def)

lemma demo_read: "dict_reader demo_csv = Inr [demo_row]"
  using dict_reader_two_lines[OF demo_cells] by (simp add: demo_csv_def demo_row_def)

theorem batch_row_reads_back_witness: "bindR (row_text demo_row) dict_reader = Inr [demo_row]"
proof -
  have c: "map fst (cr_cells demo_row) = [''a'']" "map (\<lambda>(k, v). dget_opt v) (cr_cells demo_row) = [''1'']"
    by (simp_all add: demo_row_def dget_opt_def)
  show ?thesis
    using batch_row_reads_back[of demo_row] demo_cells unfolding c by (simp add: demo_row_def)
qed

definition demo_request :: CreateBatchRequest where
  "demo_request = \<lparr>bq_profile_id = demo_uid 0, bq_csv = demo_csv, bq_profile_version = 1\<rparr>"

definition demo_submitted :: Integ where
  "demo_submitted = snd (create_batch demo_env 1 demo_client demo_request (demo_state PS_DRAFT))"

lemma demo_size: "utf8_length demo_csv \<le> MAX_FILE_BYTES"
  by (simp add: demo_csv_def utf8_length_def MAX_FILE_BYTES_def)

theorem batch_skips_profile_checks_witness:
  "fst (profile_analyze demo_env demo_pipeline_env 1 demo_client (demo_uid 0) (demo_body ''x'') (0, demo_state PS_DRAFT)) \<in>
      {Inl (HTTPException 403 ''profile not authorized for client''), Inl (HTTPException 409 ''profile not published'')} \<and>
   length (ig_jobs demo_submitted) = 1"
proof -
  have g: "get_profile (pe_ops demo_env) (pe_repr demo_env) (ac_organization_id demo_client) (demo_uid 0) (demo_state PS_DRAFT) =
      Inr ((demo_profile PS_DRAFT)\<lparr>ip_id := Some (demo_uid 0)\<rparr>)"
    using demo_get by (simp add: demo_client_def)
  have s: "ip_status ((demo_profile PS_DRAFT)\<lparr>ip_id := Some (demo_uid 0)\<rparr>) \<noteq> PS_PUBLISHED" by (simp add: demo_profile_def)
  have i: "int4_ok 1" by (simp add: int4_ok_def)
  have j: "ig_jobs (demo_state PS_DRAFT) = []" by (simp add: demo_state_def demo_empty_def)
  note B = batch_skips_profile_checks[OF g disjI2[OF s] demo_size i, where now = 1 and pv = demo_pipeline_env and body = "demo_body ''x''" and k = 0]
  from conjunct1[OF B] j have "length (ig_jobs demo_submitted) = 1"
    by (auto simp: demo_submitted_def demo_request_def)
  with conjunct2[OF B] show ?thesis by blast
qed

definition demo_job :: BatchJob where
  "demo_job = new_job (demo_uid 2) ''A'' (demo_uid 0) 1 1"

lemma demo_submission:
  "ig_jobs demo_submitted = [demo_job]" "ig_profiles demo_submitted = ig_profiles (demo_state PS_DRAFT)"
  "get_input (input_key (demo_uid 2)) demo_submitted = Inr demo_csv"
proof -
  have g: "get_profile demo_ops_env (\<lambda>_. []) ''A'' (demo_uid 0) (demo_state PS_DRAFT) =
      Inr ((demo_profile PS_DRAFT)\<lparr>ip_id := Some (demo_uid 0)\<rparr>)" by (rule demo_get)
  have c: "ac_organization_id demo_client = ''A''" by (simp add: demo_client_def)
  have k: "next_key demo_ops_env (demo_state PS_DRAFT) = demo_uid 2" "ig_jobs (demo_state PS_DRAFT) = []"
    by (simp_all add: next_key_def new_key_def demo_ops_env_def demo_state_def demo_empty_def demo_ops_def)
  have i: "int4_ok 1" by (simp add: int4_ok_def)
  note defs = demo_submitted_def create_batch_def create_batch_job_def demo_request_def g c k i draw_key_def
    store_input_def map_error_def demo_job_def Let_def
  show "ig_jobs demo_submitted = [demo_job]" using demo_size by (simp add: defs)
  show "ig_profiles demo_submitted = ig_profiles (demo_state PS_DRAFT)" using demo_size by (simp add: defs)
  show "get_input (input_key (demo_uid 2)) demo_submitted = Inr demo_csv"
    using demo_size by (simp add: defs get_input_def new_job_def)
qed

lemma demo_job_row: "get_job_row (oe_scan (pe_ops demo_env)) (demo_uid 2) (ig_jobs demo_submitted) = Inr demo_job"
  by (simp add: demo_submission get_job_row_def get_one_found demo_ops_env_def) (simp add: demo_job_def new_job_def)

lemma demo_load: "\<exists>p. load_profile demo_env now (start_job now n demo_job) (save_job j demo_submitted) = Inr p"
proof -
  obtain row where row: "get_profile_row heap_scan ''A'' (demo_uid 0) (ig_profiles (demo_state PS_DRAFT)) = Inr row"
    "profile_to_domain (\<lambda>_. []) row = Inr ((demo_profile PS_DRAFT)\<lparr>ip_id := Some (demo_uid 0)\<rparr>)"
    using demo_get[of "\<lambda>_. []" PS_DRAFT] by (auto simp: get_profile_def bindR_Inr demo_ops_env_def)
  have "row = new_profile_row (demo_uid 0) ''A'' 0 (demo_profile PS_DRAFT)"
    using profile_rows.own_row[OF heap_scan_ok row(1)] by (simp add: demo_state_def)
  with row(2) show ?thesis
    by (simp add: load_profile_def save_job_def demo_submission demo_ops_env_def select_where_def demo_state_def
        start_job_def demo_job_def new_job_def new_profile_row_def)
qed

lemma demo_processed:
  "\<exists>rep commits k st'. process_batch demo_env 2 (demo_uid 2) (input_key (demo_uid 2)) (0, demo_submitted) = ((Inr rep, commits), k, st')"
proof -
  have q: "\<not> terminal_status (bj_status demo_job)" by (simp add: demo_job_def new_job_def terminal_status_def)
  obtain p where "load_profile demo_env 2 (start_job 2 1 demo_job) (save_job (start_job 2 1 demo_job) demo_submitted) = Inr p"
    using demo_load by blast
  with demo_size show ?thesis
    using demo_job_row demo_submission(3)
    by (simp add: process_batch_def q demo_read MAX_ROWS_def Let_def split: prod.split)
qed

theorem batch_accounts_for_every_row_witness:
  "\<exists>r commits k st'. process_batch demo_env 2 (demo_uid 2) (input_key (demo_uid 2)) (0, demo_submitted) = ((Inr (Some r), commits), k, st') \<and>
     br_ready r + br_repairable r + br_review_required r + br_unresolved r + br_failed r = 1"
proof -
  obtain rep commits k st' where run:
    "process_batch demo_env 2 (demo_uid 2) (input_key (demo_uid 2)) (0, demo_submitted) = ((Inr rep, commits), k, st')"
    using demo_processed by blast
  have "bj_status demo_job = ''QUEUED''" "bj_processed_records demo_job = 0" by (simp_all add: demo_job_def new_job_def)
  moreover have "scan_ok (oe_scan (pe_ops demo_env))" using demo_ok by simp
  ultimately obtain rows r where r: "job_started demo_env (demo_uid 2) (input_key (demo_uid 2)) demo_submitted demo_job rows"
    "rep = Some r" "br_ready r + br_repairable r + br_review_required r + br_unresolved r + br_failed r = length rows"
    using batch_accounts_for_every_row[OF _ run demo_job_row] by blast
  from r(1) have "rows = [demo_row]" by (auto simp: job_started_def demo_submission demo_read)
  with r(2,3) run show ?thesis by auto
qed

theorem batch_delivered_twice_witness:
  "\<exists>rep commits k st'. process_batch demo_env 2 (demo_uid 2) (input_key (demo_uid 2)) (0, demo_submitted) = ((Inr rep, commits), k, st') \<and>
     process_batch demo_env 9 (demo_uid 2) ''other'' (k, st') = ((Inr rep, []), k, st')"
proof -
  obtain rep commits k st' where run:
    "process_batch demo_env 2 (demo_uid 2) (input_key (demo_uid 2)) (0, demo_submitted) = ((Inr rep, commits), k, st')"
    using demo_processed by blast
  have "scan_ok (oe_scan (pe_ops demo_env))" using demo_ok by simp
  from batch_delivered_twice[OF this run, of rep "demo_job\<lparr>bj_id := []\<rparr>" 9 "''other''"]
  obtain job where job: "get_job_row (oe_scan (pe_ops demo_env)) (demo_uid 2) (ig_jobs st') = Inr job"
    "Inr rep = (Inr (bj_report job) :: BatchReport option res) \<or> job = demo_job\<lparr>bj_id := []\<rparr>"
    "process_batch demo_env 9 (demo_uid 2) ''other'' (k, st') = ((Inr (bj_report job), []), k, st')" by blast
  have "bj_id job = demo_uid 2" using get_job_row_found[OF _ job(1)] demo_ok by simp
  then have "job \<noteq> demo_job\<lparr>bj_id := []\<rparr>" by (auto simp: demo_uid_def)
  with job run show ?thesis by auto
qed

end
