(* ===== verification/PO_Routes.thy ===== *)
theory PO_Routes
  imports PO_Integration PO_Reconcile PO_IsoService PO_Account
begin

text \<open>
  The response bodies of \<open>routers/account.py\<close>, \<open>routers/iso.py\<close> and \<open>routers/matching.py\<close>: every
  serializer as the JSON object it builds, in the order of its keys, and the routes that look up
  rows and assemble them. Timestamps are printed by \<open>isoformat\<close>. The reports in CSV are in
  \<open>PO_Reports\<close>.
\<close>

section \<open>Timestamps\<close>

text \<open>\<open>_ord2ymd\<close>: the date of an ordinal, by the cycles of 400, 100, 4 and 1 years.\<close>

definition ord_to_date :: "nat \<Rightarrow> pydate" where
  "ord_to_date n =
     (let m = n - 1; n400 = m div 146097; m = m mod 146097; n100 = m div 36524; m = m mod 36524;
          n4 = m div 1461; m = m mod 1461; n1 = m div 365; m = m mod 365;
          year = n400 * 400 + 1 + n100 * 100 + n4 * 4 + n1 in
      if n1 = 4 \<or> n100 = 4 then mk_date (year - 1) 12 31
      else (let md = month_of_yday 12 year 1 (m + 1) in mk_date year (fst md) (snd md)))"

definition utc_datetime :: "instant \<Rightarrow> pydatetime" where
  "utc_datetime t =
     (let micro = t mod 1000000; sec = t div 1000000; clock = nat (sec mod 86400) in
      \<lparr>t_date = ord_to_date (nat (sec div 86400)), t_hour = clock div 3600, t_minute = clock div 60 mod 60,
       t_second = clock mod 60, t_micro = nat micro, t_offset = Some 0\<rparr>)"

definition six_digits :: "nat \<Rightarrow> string" where
  "six_digits n = map (\<lambda>k. digit_char (n div 10 ^ k mod 10)) [5, 4, 3, 2, 1, 0]"

definition show_offset :: "int option \<Rightarrow> string" where
  "show_offset z = (case z of None \<Rightarrow> [] | Some z \<Rightarrow>
     (let n = nat \<bar>z\<bar> in (if z < 0 then ''-'' else ''+'') @ two_digits (n div 3600) @ '':'' @ two_digits (n div 60 mod 60)
        @ (if n mod 60 = 0 then [] else '':'' @ two_digits (n mod 60))))"

definition datetime_isoformat :: "pydatetime \<Rightarrow> string" where
  "datetime_isoformat t = show_date (t_date t) @ ''T'' @ two_digits (t_hour t) @ '':'' @ two_digits (t_minute t)
     @ '':'' @ two_digits (t_second t) @ (if t_micro t = 0 then [] else ''.'' @ six_digits (t_micro t))
     @ show_offset (t_offset t)"

section \<open>Values in a body\<close>

definition json_opt :: "('a \<Rightarrow> jval) \<Rightarrow> 'a option \<Rightarrow> jval" where
  "json_opt f x = (case x of None \<Rightarrow> JNull | Some v \<Rightarrow> f v)"

definition json_strings :: "string list \<Rightarrow> jval" where
  "json_strings xs = JList (map JStr xs)"

definition json_counts :: "(string, nat) dict \<Rightarrow> jval" where
  "json_counts d = JObj (map (\<lambda>(k, n). (k, JInt (int n))) d)"

definition json_date :: "pydate \<Rightarrow> jval" where
  "json_date d = JStr (show_date d)"

definition json_time :: "instant \<Rightarrow> jval" where
  "json_time t = JStr (datetime_isoformat (utc_datetime t))"

section \<open>Account reporting\<close>

definition report_dict :: "AccountReportRow \<Rightarrow> (string, jval) dict" where
  "report_dict r =
     [(''id'', JStr (rw_id r)), (''message_id'', opt_json (rw_message_id r)),
      (''message_definition'', JStr (rw_message_definition r)), (''message_version'', JStr (rw_message_version r)),
      (''report_type'', JStr (rw_report_type r)), (''account_iban'', opt_json (rw_account_iban r)),
      (''account_currency'', opt_json (rw_account_currency r)), (''statement_id'', opt_json (rw_statement_id r)),
      (''notification_id'', opt_json (rw_notification_id r)), (''period_start'', json_opt json_date (rw_period_start r)),
      (''period_end'', json_opt json_date (rw_period_end r)), (''entry_count'', JInt (int (rw_entry_count r))),
      (''created_at'', json_time (rw_created_at r))]"

definition balance_dict :: "AccountBalanceRow \<Rightarrow> (string, jval) dict" where
  "balance_dict b =
     [(''balance_type'', JStr (bw_balance_type b)), (''amount_minor'', JInt (bw_amount_minor b)),
      (''currency'', JStr (bw_currency b)), (''credit_debit'', JStr (bw_credit_debit b))]"

definition entry_dict :: "AccountEntryRow \<Rightarrow> (string, jval) dict" where
  "entry_dict e =
     [(''id'', JStr (er_id e)), (''report_id'', JStr (er_report_id e)),
      (''entry_reference'', opt_json (er_entry_reference e)),
      (''account_servicer_reference'', opt_json (er_account_servicer_reference e)),
      (''transaction_id'', opt_json (er_transaction_id e)), (''instruction_id'', opt_json (er_instruction_id e)),
      (''end_to_end_id'', opt_json (er_end_to_end_id e)), (''uetr'', opt_json (er_uetr e)),
      (''amount_minor'', json_opt JInt (er_amount_minor e)), (''currency'', opt_json (er_currency e)),
      (''credit_debit'', opt_json (er_credit_debit e)), (''booking_date'', json_opt json_date (er_booking_date e)),
      (''value_date'', json_opt json_date (er_value_date e)), (''status'', opt_json (er_status e)),
      (''bank_tx_code'', opt_json (er_bank_tx_code e)), (''bank_tx_family'', opt_json (er_bank_tx_family e)),
      (''bank_tx_sub_family'', opt_json (er_bank_tx_sub_family e)),
      (''remittance_reference'', opt_json (er_remittance_reference e)),
      (''reconciliation_status'', opt_json (er_reconciliation_status e)),
      (''match_score'', json_opt JFloat (er_match_score e)), (''lifecycle_id'', opt_json (er_lifecycle_id e)),
      (''evidence'', json_strings (er_evidence e)), (''conflicts'', json_strings (er_conflicts e)),
      (''created_at'', json_time (er_created_at e))]"

definition reconciliation_dict :: "AccountReconciliationRow \<Rightarrow> (string, jval) dict" where
  "reconciliation_dict r =
     [(''id'', JStr (rx_id r)), (''account_entry_id'', JStr (rx_account_entry_id r)),
      (''lifecycle_id'', opt_json (rx_lifecycle_id r)), (''classification'', JStr (rx_classification r)),
      (''match_score'', JFloat (rx_match_score r)), (''evidence'', json_strings (rx_evidence r)),
      (''conflicts'', json_strings (rx_conflicts r)), (''status'', JStr (rx_status r)),
      (''operator'', opt_json (rx_operator r)), (''note'', opt_json (rx_note r)),
      (''created_at'', json_time (rx_created_at r))]"

definition account_reports_route ::
  "OpsEnv \<Rightarrow> AuthenticatedClient \<Rightarrow> string option \<Rightarrow> string option \<Rightarrow> nat \<Rightarrow> Ops \<Rightarrow> (string, jval) dict list" where
  "account_reports_route env client report_type account limit st =
     map report_dict (list_account_reports env (ac_organization_id client) report_type account limit st)"

definition account_report_route ::
  "OpsEnv \<Rightarrow> AuthenticatedClient \<Rightarrow> string \<Rightarrow> Ops \<Rightarrow> (string, jval) dict res" where
  "account_report_route env client report_id st =
     bindR (account_report_detail env (ac_organization_id client) report_id st) (\<lambda>(report, balances, entries, summary).
       Inr (report_dict report @ [(''balances'', JList (map (JObj \<circ> balance_dict) balances)),
         (''entries'', JList (map (JObj \<circ> entry_dict) entries)), (''reconciliation_summary'', json_counts summary)]))"

definition account_entries_route ::
  "OpsEnv \<Rightarrow> AuthenticatedClient \<Rightarrow> string option \<Rightarrow> string option \<Rightarrow> string option \<Rightarrow> nat \<Rightarrow> Ops \<Rightarrow>
     (string, jval) dict list" where
  "account_entries_route env client report_id credit_debit status limit st =
     map entry_dict (list_account_entries env (ac_organization_id client) report_id credit_debit status limit st)"

definition account_entry_route :: "OpsEnv \<Rightarrow> AuthenticatedClient \<Rightarrow> string \<Rightarrow> Ops \<Rightarrow> (string, jval) dict res" where
  "account_entry_route env client entry_id st =
     bindR (map_error (lookup_404 ''account entry not found'')
       (get_account_entry env (ac_organization_id client) entry_id st)) (\<lambda>e. Inr (entry_dict e))"

definition account_reconciliation_run_route ::
  "OpsEnv \<Rightarrow> instant \<Rightarrow> AuthenticatedClient \<Rightarrow> int \<Rightarrow> Ops \<Rightarrow> (string, jval) dict res \<times> Ops" where
  "account_reconciliation_run_route env now client window_hours st =
     (case detect_missing_account_events env now window_hours (ac_organization_id client) st of
        (Inl e, st') \<Rightarrow> (Inl e, st')
      | (Inr flagged, st') \<Rightarrow>
          (Inr [(''missing_account_events'', json_strings flagged), (''count'', JInt (int (length flagged)))], st'))"

definition account_reconciliations_route ::
  "OpsEnv \<Rightarrow> AuthenticatedClient \<Rightarrow> nat \<Rightarrow> Ops \<Rightarrow> (string, jval) dict list" where
  "account_reconciliations_route env client limit st =
     map reconciliation_dict (list_account_reconciliations env (ac_organization_id client) limit st)"

definition account_reconciliation_route ::
  "OpsEnv \<Rightarrow> AuthenticatedClient \<Rightarrow> string \<Rightarrow> Ops \<Rightarrow> (string, jval) dict res" where
  "account_reconciliation_route env client reconciliation_id st =
     bindR (map_error (lookup_404 ''account reconciliation not found'')
       (get_account_reconciliation env (ac_organization_id client) reconciliation_id st)) (\<lambda>r. Inr (reconciliation_dict r))"

definition decide_account_route ::
  "OpsEnv \<Rightarrow> instant \<Rightarrow> AuthenticatedClient \<Rightarrow> string option \<Rightarrow> string \<Rightarrow> string \<Rightarrow> string option \<Rightarrow> string option \<Rightarrow>
     Ops \<Rightarrow> (string, jval) dict res \<times> Ops" where
  "decide_account_route env now client actor reconciliation_id action operator note st =
     (case decide_account_reconciliation env now (ac_organization_id client) reconciliation_id action
             (por actor operator) note st of
        (Inl e, st') \<Rightarrow> (Inl (http_error ''account reconciliation not found'' 409 e), st')
      | (Inr row, st') \<Rightarrow> (Inr [(''reconciliation_id'', JStr (rx_id row)), (''status'', JStr (rx_status row)),
           (''action'', JStr action)], st'))"

section \<open>ISO messages and lifecycles\<close>

text \<open>\<open>_family_of\<close>, the label of a metric.\<close>

definition family_of :: "string \<Rightarrow> string" where
  "family_of identifier = (if identifier = [] then ''unknown'' else takeWhile (\<lambda>c. c \<noteq> CHR ''.'') identifier)"

definition iso_message_dict :: "IsoMessage \<Rightarrow> (string, jval) dict" where
  "iso_message_dict r =
     [(''id'', JStr (ms_id r)), (''message_id'', opt_json (ms_message_id r)),
      (''message_family'', JStr (ms_message_family r)), (''message_definition'', JStr (ms_message_definition r)),
      (''message_version'', JStr (ms_message_version r)), (''namespace'', JStr (ms_namespace r)),
      (''schema_validation'', JBool (ms_schema_validation r)), (''status'', JStr (ms_status r)),
      (''raw_status'', opt_json (ms_raw_status r)), (''normalized_status'', opt_json (ms_normalized_status r)),
      (''created_at'', json_time (ms_created_at r))]"

definition lifecycle_dict :: "PaymentLifecycleRow \<Rightarrow> (string, jval) dict" where
  "lifecycle_dict r =
     [(''lifecycle_id'', JStr (lf_lifecycle_id r)), (''organization_id'', JStr (lf_organization_id r)),
      (''primary_reference'', opt_json (lf_primary_reference r)), (''end_to_end_id'', opt_json (lf_end_to_end_id r)),
      (''instruction_id'', opt_json (lf_instruction_id r)), (''transaction_id'', opt_json (lf_transaction_id r)),
      (''original_message_id'', opt_json (lf_original_message_id r)),
      (''amount_minor'', json_opt JInt (lf_amount_minor r)), (''currency'', opt_json (lf_currency r)),
      (''current_status'', JStr (lf_current_status r)), (''created_at'', json_time (lf_created_at r)),
      (''updated_at'', json_time (lf_updated_at r))]"

text \<open>Every event is stored with an empty list of reasons.\<close>

definition event_dict :: "PaymentLifecycleEventRow \<Rightarrow> (string, jval) dict" where
  "event_dict e =
     [(''id'', JStr (lv_id e)), (''event_type'', JStr (lv_event_type e)),
      (''message_family'', opt_json (lv_message_family e)), (''message_definition'', opt_json (lv_message_definition e)),
      (''message_version'', opt_json (lv_message_version e)), (''message_id'', opt_json (lv_message_id e)),
      (''timestamp'', json_opt json_time (lv_timestamp e)), (''status'', JStr (lv_status e)),
      (''raw_status_code'', opt_json (lv_raw_status_code e)), (''reasons'', JList []),
      (''correlation_evidence'', json_strings (lv_correlation_evidence e))]"

definition correlation_dict :: "MessageCorrelation \<Rightarrow> (string, jval) dict" where
  "correlation_dict c =
     [(''id'', JStr (mx_id c)), (''source_message_id'', opt_json (mx_source_message_id c)),
      (''candidate_message_id'', opt_json (mx_candidate_message_id c)),
      (''correlation_status'', JStr (mx_correlation_status c)), (''evidence'', json_strings (mx_evidence c)),
      (''conflicts'', json_strings (mx_conflicts c)), (''operator'', opt_json (mx_operator c)),
      (''note'', opt_json (mx_note c))]"

definition iso_messages_route ::
  "OpsEnv \<Rightarrow> AuthenticatedClient \<Rightarrow> string option \<Rightarrow> string option \<Rightarrow> string option \<Rightarrow> string option \<Rightarrow> nat \<Rightarrow> Ops \<Rightarrow>
     (string, jval) dict list" where
  "iso_messages_route env client family def version status limit st =
     map iso_message_dict (list_iso_messages env (ac_organization_id client) family def version status limit st)"

definition iso_message_route :: "OpsEnv \<Rightarrow> AuthenticatedClient \<Rightarrow> string \<Rightarrow> Ops \<Rightarrow> (string, jval) dict res" where
  "iso_message_route env client message_id st =
     bindR (map_error (lookup_404 ''iso message not found'')
       (get_iso_message env (ac_organization_id client) message_id st)) (\<lambda>r. Inr (iso_message_dict r))"

definition lifecycles_route :: "OpsEnv \<Rightarrow> AuthenticatedClient \<Rightarrow> Ops \<Rightarrow> (string, jval) dict list" where
  "lifecycles_route env client st = map lifecycle_dict (list_lifecycles env (ac_organization_id client) st)"

definition lifecycle_route :: "OpsEnv \<Rightarrow> AuthenticatedClient \<Rightarrow> string \<Rightarrow> Ops \<Rightarrow> (string, jval) dict res" where
  "lifecycle_route env client lifecycle_id st =
     bindR (map_error (lookup_404 ''lifecycle not found'')
       (get_lifecycle env (ac_organization_id client) lifecycle_id st)) (\<lambda>(row, events).
       Inr (lifecycle_dict row @ [(''events'', JList (map (JObj \<circ> event_dict) events)),
         (''correlations'', JList (map (JObj \<circ> correlation_dict)
            (list_correlations env (ac_organization_id client) lifecycle_id st)))]))"

text \<open>The lifecycle in the path is not used.\<close>

definition decide_correlation_route ::
  "OpsEnv \<Rightarrow> instant \<Rightarrow> AuthenticatedClient \<Rightarrow> string option \<Rightarrow> string \<Rightarrow> string \<Rightarrow> string \<Rightarrow> string option \<Rightarrow>
     string option \<Rightarrow> Ops \<Rightarrow> (string, jval) dict res \<times> Ops" where
  "decide_correlation_route env now client actor lifecycle_id correlation_id action operator note st =
     (case decide_correlation env now (ac_organization_id client) correlation_id action (por actor operator) note st of
        (Inl e, st') \<Rightarrow> (Inl (http_error ''correlation not found'' 409 e), st')
      | (Inr c, st') \<Rightarrow> (Inr [(''correlation_id'', JStr (mx_id c)), (''status'', JStr (mx_correlation_status c)),
           (''action'', JStr action)], st'))"

section \<open>Matching\<close>

definition MatchClassification_value :: "MatchClassification \<Rightarrow> string" where
  "MatchClassification_value c = (case c of MATCHED \<Rightarrow> ''MATCHED'' | POSSIBLE_MATCH \<Rightarrow> ''POSSIBLE_MATCH''
     | UNMATCHED \<Rightarrow> ''UNMATCHED'' | REVIEW_REQUIRED \<Rightarrow> ''REVIEW_REQUIRED''
     | DUPLICATE_CANDIDATE \<Rightarrow> ''DUPLICATE_CANDIDATE'')"

definition MatchStatus_value :: "MatchStatus \<Rightarrow> string" where
  "MatchStatus_value s = (case s of QUEUED \<Rightarrow> ''QUEUED'' | RUNNING \<Rightarrow> ''RUNNING'' | COMPLETED \<Rightarrow> ''COMPLETED''
     | PARTIAL \<Rightarrow> ''PARTIAL'' | FAILED \<Rightarrow> ''FAILED'')"

definition MatchFieldStatus_value :: "MatchFieldStatus \<Rightarrow> string" where
  "MatchFieldStatus_value s = (case s of FM_EXACT \<Rightarrow> ''EXACT'' | FM_MISMATCH \<Rightarrow> ''MISMATCH''
     | FM_MISSING \<Rightarrow> ''MISSING'' | FM_NOT_APPLICABLE \<Rightarrow> ''NOT_APPLICABLE'')"

definition ComparisonType_value :: "ComparisonType \<Rightarrow> string" where
  "ComparisonType_value t = (case t of CT_EXACT \<Rightarrow> ''EXACT'' | CT_FUZZY \<Rightarrow> ''FUZZY'' | CT_RANGE \<Rightarrow> ''RANGE''
     | CT_NONE \<Rightarrow> ''NONE'')"

definition json_nval :: "nval option \<Rightarrow> jval" where
  "json_nval v = json_opt (JStr \<circ> nval_str) v"

definition conflict_dict :: "CriticalConflict \<Rightarrow> (string, jval) dict" where
  "conflict_dict c = [(''code'', JStr (cc_code c)), (''field'', JStr (cc_field c)), (''detail'', JStr (cc_detail c))]"

definition field_result_dict :: "FieldMatchResult \<Rightarrow> (string, jval) dict" where
  "field_result_dict f =
     [(''field'', JStr (fr_field f)), (''comparison_type'', JStr (ComparisonType_value (fr_comparison_type f))),
      (''original_a'', json_nval (fr_original_a f)), (''original_b'', json_nval (fr_original_b f)),
      (''normalized_a'', json_nval (fr_normalized_a f)), (''normalized_b'', json_nval (fr_normalized_b f)),
      (''similarity'', JFloat (fr_similarity f)), (''weight'', JFloat (fr_weight f)),
      (''critical'', JBool (fr_critical f)), (''status'', JStr (MatchFieldStatus_value (fr_status f))),
      (''explanation_code'', opt_json (fr_explanation_code f))]"

definition decision_dict :: "MatchDecision \<Rightarrow> (string, jval) dict" where
  "decision_dict d =
     [(''record_a_id'', JStr (md_record_a_id d)), (''record_b_id'', JStr (md_record_b_id d)),
      (''classification'', JStr (MatchClassification_value (md_classification d))),
      (''match_score'', JFloat (md_match_score d)),
      (''critical_conflicts'', JList (map (JObj \<circ> conflict_dict) (md_critical_conflicts d))),
      (''field_results'', JList (map (JObj \<circ> field_result_dict) (md_field_results d))),
      (''explanation_codes'', json_strings (md_explanation_codes d)),
      (''policy_version'', opt_json (md_policy_version d)), (''engine_version'', opt_json (md_engine_version d))]"

definition counts_dict :: "RunCounts \<Rightarrow> (string, nat) dict" where
  "counts_dict c =
     [(''total'', ct_total c), (''matched'', ct_matched c), (''possible_match'', ct_possible_match c),
      (''review_required'', ct_review_required c), (''unmatched'', ct_unmatched c),
      (''duplicate_candidate'', ct_duplicate_candidate c), (''failed'', ct_failed c)]"

definition run_dict :: "MatchRun \<Rightarrow> (string, jval) dict" where
  "run_dict r =
     [(''run_id'', JStr (ru_id r)), (''run_type'', JStr (ru_run_type r)),
      (''status'', JStr (MatchStatus_value (ru_status r))), (''policy_version'', opt_json (ru_policy_version r))]
     @ map (\<lambda>(k, n). (k, JInt (int n))) (counts_dict (ru_counts r))
     @ [(''report'', json_opt (json_counts \<circ> counts_dict) (ru_report r)),
        (''created_at'', JStr (datetime_isoformat (ru_created_at r))),
        (''completed_at'', json_opt (JStr \<circ> datetime_isoformat) (ru_completed_at r))]"

definition candidate_dict :: "MatchCandidateRow \<Rightarrow> (string, jval) dict" where
  "candidate_dict c =
     [(''candidate_id'', JStr (mc_id c)), (''source_record_id'', JStr (mc_source_record_id c)),
      (''candidate_record_id'', JStr (mc_candidate_record_id c)), (''match_score'', JFloat (mc_match_score c)),
      (''classification'', JStr (MatchClassification_value (mc_classification c))),
      (''critical_conflicts'', JList (map (JObj \<circ> conflict_dict) (mc_critical_conflicts c))),
      (''status'', JStr (mc_status c)), (''operator'', opt_json (mc_operator c)), (''note'', opt_json (mc_note c))]"

definition create_policy_route ::
  "Db \<Rightarrow> pydatetime \<Rightarrow> AuthenticatedClient \<Rightarrow> string \<Rightarrow> MatchStore \<Rightarrow> (string, jval) dict \<times> MatchStore" where
  "create_policy_route db now client name st =
     (case create_policy db now (ac_organization_id client) name st of
        (row, st') \<Rightarrow> ([(''policy_id'', JStr (po_id row)), (''status'', JStr (po_status row))], st'))"

definition publish_policy_route ::
  "Db \<Rightarrow> pydatetime \<Rightarrow> AuthenticatedClient \<Rightarrow> string \<Rightarrow> MatchingPolicy \<Rightarrow> MatchStore \<Rightarrow>
     (string, jval) dict res \<times> MatchStore" where
  "publish_policy_route db now client policy_id policy st =
     (case publish_policy db now (ac_organization_id client) policy_id policy st of
        Inl e \<Rightarrow> (Inl (lookup_404 ''matching policy not found'' e), st)
      | Inr (pv, st') \<Rightarrow>
          (Inr [(''policy_id'', JStr policy_id), (''version'', JInt (int (pv_version_number pv)))], st'))"

definition policies_route :: "Db \<Rightarrow> AuthenticatedClient \<Rightarrow> MatchStore \<Rightarrow> (string, jval) dict list" where
  "policies_route db client st = map (\<lambda>r. [(''policy_id'', JStr (po_id r)), (''name'', JStr (po_name r)),
     (''status'', JStr (po_status r))]) (list_policies db (ac_organization_id client) st)"

definition create_record_route ::
  "Db \<Rightarrow> pydatetime \<Rightarrow> AuthenticatedClient \<Rightarrow> MatchRecord \<Rightarrow> MatchStore \<Rightarrow> (string, jval) dict res \<times> MatchStore" where
  "create_record_route db now client record_in st =
     (case create_match_record db now (ac_organization_id client) record_in st of
        Inl e \<Rightarrow> (Inl e, st)
      | Inr (row, st') \<Rightarrow> (Inr [(''record_id'', JStr (mw_record_id row)), (''id'', JStr (mw_id row))], st'))"

text \<open>The bodies of records are their domain objects; \<open>list_match_records\<close> returns at most 100.\<close>

definition records_route :: "Db \<Rightarrow> AuthenticatedClient \<Rightarrow> MatchStore \<Rightarrow> MatchRecord list res" where
  "records_route db client st = mapR row_to_domain (list_match_records db (ac_organization_id client) 100 st)"

definition record_route :: "Db \<Rightarrow> AuthenticatedClient \<Rightarrow> string \<Rightarrow> MatchStore \<Rightarrow> MatchRecord res" where
  "record_route db client record_id st = get_record_domain db (ac_organization_id client) record_id st"

definition candidates_route ::
  "scorer \<Rightarrow> Db \<Rightarrow> pydatetime \<Rightarrow> AuthenticatedClient \<Rightarrow> MatchRecord \<Rightarrow> string option \<Rightarrow> nat \<Rightarrow> MatchStore \<Rightarrow>
     CandidateMatch list res \<times> MatchStore" where
  "candidates_route fz db now client source policy_id max_candidates st =
     search_candidates fz db now (ac_organization_id client) source
       (route_policy db (ac_organization_id client) policy_id st) max_candidates st"

definition runs_route :: "Db \<Rightarrow> AuthenticatedClient \<Rightarrow> MatchStore \<Rightarrow> (string, jval) dict list" where
  "runs_route db client st = map run_dict (list_runs db (ac_organization_id client) st)"

definition run_route :: "Db \<Rightarrow> AuthenticatedClient \<Rightarrow> string \<Rightarrow> MatchStore \<Rightarrow> (string, jval) dict res" where
  "run_route db client run_id st =
     bindR (map_error (lookup_404 ''reconciliation run not found'')
       (get_run (db_scan db) (ac_organization_id client) run_id (st_runs st))) (\<lambda>run.
       Inr (run_dict run @ [(''candidates'',
         JList (map (JObj \<circ> candidate_dict) (list_run_candidates db (ac_organization_id client) run_id st)))]))"

end
