(* ===== verification/PO_CsvWrite.thy ===== *)
theory PO_CsvWrite
  imports PO_Csv
begin

text \<open>
  \<open>csv.writer\<close> over a \<open>StringIO\<close> in the default dialect (\<open>QUOTE_MINIMAL\<close>, rows ended by a carriage
  return and a line feed), as the report routes use it. \<open>written_rows_read_back\<close> is its contract
  with the reader of \<open>PO_Csv\<close>: whatever the cells hold, commas, quotes and line breaks included, the
  rows that are read are the rows that were written.
\<close>

section \<open>The writer\<close>

definition needs_quotes :: "string \<Rightarrow> bool" where
  "needs_quotes w = list_ex (\<lambda>c. c = COMMA \<or> c = QUOTE \<or> c = LF \<or> c = CR) w"

definition doubled :: "string \<Rightarrow> string" where
  "doubled w = concat (map (\<lambda>c. if c = QUOTE then [QUOTE, QUOTE] else [c]) w)"

definition write_field :: "string \<Rightarrow> string" where
  "write_field w = (if needs_quotes w then [QUOTE] @ doubled w @ [QUOTE] else w)"

text \<open>A row of one empty cell is quoted, since it would be an empty line otherwise.\<close>

definition write_row :: "string list \<Rightarrow> string" where
  "write_row ws = (if ws = [[]] then [QUOTE, QUOTE] else join [COMMA] (map write_field ws)) @ [CR, LF]"

definition write_rows :: "string list list \<Rightarrow> string" where
  "write_rows rows = concat (map write_row rows)"

definition read_rows :: "string \<Rightarrow> string list list res" where
  "read_rows s = csv_rows (string_lines s) csv_reset"

section \<open>Reading through a text\<close>

text \<open>The rows of what is left of a text, in a state of the reader.\<close>

definition rows_of :: "string \<Rightarrow> CsvReader \<Rightarrow> string list list res" where
  "rows_of s r = csv_rows (string_lines s) r"

lemma rows_of_step:
  assumes "process_char c r = Inr r'" "c = LF \<Longrightarrow> cs_state r' = IN_QUOTED_FIELD" "s \<noteq> []"
  shows "rows_of (c # s) r = rows_of s r'"
proof (cases "c = LF")
  case True
  with assms show ?thesis by (simp add: rows_of_def process_eol_def)
next
  case False
  have "string_lines s \<noteq> []" using assms(3) by (cases s) (auto split: list.split)
  then obtain l ls where "string_lines s = l # ls" by (cases "string_lines s") auto
  with assms(1) False show ?thesis by (simp add: rows_of_def)
qed

lemma rows_of_end:
  "rows_of (LF # s) (at_state EAT_CRNL [] ws) = bindR (rows_of s csv_reset) (\<lambda>rows. Inr (ws # rows))"
  by (simp add: rows_of_def process_char_def process_eol_def csv_reset_def)

text \<open>The inside of a quoted cell, up to the quote that closes it.\<close>

lemma doubled_simps [simp]:
  "doubled [] = []"
  "doubled (c # w) = (if c = QUOTE then [QUOTE, QUOTE] else [c]) @ doubled w"
  by (simp_all add: doubled_def)

lemma quoted_inside:
  assumes "length u + length w \<le> FIELD_LIMIT" "t \<noteq> []"
  shows "rows_of (doubled w @ QUOTE # t) (at_state IN_QUOTED_FIELD u ws) =
    rows_of t (at_state QUOTE_IN_QUOTED_FIELD (u @ w) ws)"
  using assms(1)
proof (induction w arbitrary: u)
  case Nil
  have "rows_of (QUOTE # t) (at_state IN_QUOTED_FIELD u ws) = rows_of t (at_state QUOTE_IN_QUOTED_FIELD u ws)"
    using assms(2) by (intro rows_of_step) (simp_all add: process_char_def)
  then show ?case by simp
next
  case (Cons c w)
  have room: "\<not> FIELD_LIMIT \<le> length u" using Cons.prems by simp
  have tail: "rows_of (doubled w @ QUOTE # t) (at_state IN_QUOTED_FIELD (u @ [c]) ws) =
      rows_of t (at_state QUOTE_IN_QUOTED_FIELD (u @ c # w) ws)"
    using Cons.IH[of "u @ [c]"] Cons.prems by simp
  show ?case
  proof (cases "c = QUOTE")
    case True
    have "rows_of (QUOTE # QUOTE # doubled w @ QUOTE # t) (at_state IN_QUOTED_FIELD u ws) =
        rows_of (QUOTE # doubled w @ QUOTE # t) (at_state QUOTE_IN_QUOTED_FIELD u ws)"
      by (rule rows_of_step) (simp_all add: process_char_def)
    also have "\<dots> = rows_of (doubled w @ QUOTE # t) (at_state IN_QUOTED_FIELD (u @ [QUOTE]) ws)"
      using room by (intro rows_of_step) (simp_all add: process_char_def add_char_def)
    finally show ?thesis using tail True by simp
  next
    case False
    have "rows_of (c # doubled w @ QUOTE # t) (at_state IN_QUOTED_FIELD u ws) =
        rows_of (doubled w @ QUOTE # t) (at_state IN_QUOTED_FIELD (u @ [c]) ws)"
      using room False by (intro rows_of_step) (simp_all add: process_char_def add_char_def)
    with tail False show ?thesis by simp
  qed
qed

text \<open>A cell that is not quoted stands for itself.\<close>

lemma unquoted_inside:
  assumes "\<not> needs_quotes w" "length u + length w \<le> FIELD_LIMIT" "t \<noteq> []"
  shows "rows_of (w @ t) (at_state IN_FIELD u ws) = rows_of t (at_state IN_FIELD (u @ w) ws)"
  using assms(1,2)
proof (induction w arbitrary: u)
  case (Cons c w)
  then have c: "c \<noteq> COMMA" "c \<noteq> LF" "c \<noteq> CR" "\<not> needs_quotes w" by (auto simp: needs_quotes_def)
  have "rows_of (c # w @ t) (at_state IN_FIELD u ws) = rows_of (w @ t) (at_state IN_FIELD (u @ [c]) ws)"
    using c Cons.prems assms(3) by (intro rows_of_step) (auto simp: process_char_def add_char_def)
  also have "\<dots> = rows_of t (at_state IN_FIELD (u @ c # w) ws)"
    using Cons.IH[of "u @ [c]"] c Cons.prems by simp
  finally show ?case by simp
qed simp

definition closed_by :: "char \<Rightarrow> csv_state" where
  "closed_by c = (if c = COMMA then START_FIELD else EAT_CRNL)"

text \<open>
  One written cell with the character that ends it, from the start of a cell, or from the start of
  a record unless it is empty and alone.
\<close>

lemma field_read:
  assumes "length w \<le> FIELD_LIMIT" "c = COMMA \<or> c = CR" "t \<noteq> []"
    and "s = START_FIELD \<or> s = START_RECORD \<and> (w \<noteq> [] \<or> c = COMMA)"
  shows "rows_of (write_field w @ c # t) (at_state s [] ws) = rows_of t (at_state (closed_by c) [] (ws @ [w]))"
proof (cases "needs_quotes w")
  case True
  have "rows_of (QUOTE # doubled w @ QUOTE # c # t) (at_state s [] ws) =
      rows_of (doubled w @ QUOTE # c # t) (at_state IN_QUOTED_FIELD [] ws)"
    using assms(4) by (intro rows_of_step) (auto simp: process_char_def start_field_def)
  also have "\<dots> = rows_of (c # t) (at_state QUOTE_IN_QUOTED_FIELD w ws)"
    using quoted_inside[of "[]" w "c # t" ws] assms(1) by simp
  also have "\<dots> = rows_of t (at_state (closed_by c) [] (ws @ [w]))"
    using assms(2,3) by (intro rows_of_step) (auto simp: process_char_def save_field_def closed_by_def)
  finally show ?thesis using True by (simp add: write_field_def)
next
  case False
  note plain_cell = False
  show ?thesis
  proof (cases w)
    case Nil
    have "rows_of (c # t) (at_state s [] ws) = rows_of t (at_state (closed_by c) [] (ws @ [[]]))"
      using assms(2,3,4) Nil
      by (intro rows_of_step) (auto simp: process_char_def start_field_def save_field_def closed_by_def)
    with plain_cell Nil show ?thesis by (simp add: write_field_def)
  next
    case (Cons d v)
    with plain_cell have d: "d \<noteq> COMMA" "d \<noteq> QUOTE" "d \<noteq> LF" "d \<noteq> CR" "\<not> needs_quotes v"
      by (auto simp: needs_quotes_def)
    have "rows_of (d # v @ c # t) (at_state s [] ws) = rows_of (v @ c # t) (at_state IN_FIELD [d] ws)"
      using assms(1,4) d Cons
      by (intro rows_of_step) (auto simp: process_char_def start_field_def add_char_def)
    also have "\<dots> = rows_of (c # t) (at_state IN_FIELD w ws)"
      using unquoted_inside[of v "[d]" "c # t" ws] assms(1) d Cons by simp
    also have "\<dots> = rows_of t (at_state (closed_by c) [] (ws @ [w]))"
      using assms(2,3) by (intro rows_of_step) (auto simp: process_char_def save_field_def closed_by_def)
    finally show ?thesis using plain_cell Cons by (simp add: write_field_def)
  qed
qed

lemma fields_read:
  assumes "list_all (\<lambda>w. length w \<le> FIELD_LIMIT) ws" "ws \<noteq> []" "t \<noteq> []"
    and "s = START_FIELD \<or> s = START_RECORD \<and> ws \<noteq> [[]]"
  shows "rows_of (join [COMMA] (map write_field ws) @ CR # t) (at_state s [] us) =
    rows_of t (at_state EAT_CRNL [] (us @ ws))"
  using assms
proof (induction ws arbitrary: us s)
  case (Cons w ws)
  show ?case
  proof (cases ws)
    case Nil
    with Cons.prems field_read[of w CR t s us] show ?thesis by (simp add: closed_by_def)
  next
    case (Cons v vs)
    have "rows_of (write_field w @ COMMA # join [COMMA] (map write_field ws) @ CR # t) (at_state s [] us) =
        rows_of (join [COMMA] (map write_field ws) @ CR # t) (at_state START_FIELD [] (us @ [w]))"
      using field_read[of w COMMA "join [COMMA] (map write_field ws) @ CR # t" s us] Cons.prems
      by (auto simp: closed_by_def)
    also have "\<dots> = rows_of t (at_state EAT_CRNL [] (us @ w # ws))"
      using Cons.IH[of START_FIELD "us @ [w]"] Cons.prems Cons by simp
    finally show ?thesis by (simp add: Cons)
  qed
qed simp

definition cells_fit :: "string list \<Rightarrow> bool" where
  "cells_fit ws \<longleftrightarrow> ws \<noteq> [] \<and> list_all (\<lambda>w. length w \<le> FIELD_LIMIT) ws"

lemma row_read:
  assumes "cells_fit ws"
  shows "rows_of (write_row ws @ t) csv_reset = bindR (rows_of t csv_reset) (\<lambda>rows. Inr (ws # rows))"
proof (cases "ws = [[]]")
  case True
  have "rows_of (QUOTE # QUOTE # CR # LF # t) csv_reset = rows_of (QUOTE # CR # LF # t) (at_state IN_QUOTED_FIELD [] [])"
    by (rule rows_of_step) (simp_all add: process_char_def start_field_def csv_reset_def)
  also have "\<dots> = rows_of (CR # LF # t) (at_state QUOTE_IN_QUOTED_FIELD [] [])"
    by (rule rows_of_step) (simp_all add: process_char_def)
  also have "\<dots> = rows_of (LF # t) (at_state EAT_CRNL [] [[]])"
    by (rule rows_of_step) (simp_all add: process_char_def save_field_def)
  finally show ?thesis using True by (simp add: write_row_def rows_of_end)
next
  case False
  with assms fields_read[of ws "LF # t" START_RECORD "[]"] show ?thesis
    by (simp add: write_row_def cells_fit_def rows_of_end csv_reset_def)
qed

theorem written_rows_read_back:
  "list_all cells_fit rows \<Longrightarrow> read_rows (write_rows rows) = Inr rows"
proof -
  have "rows_of (write_rows rows) csv_reset = Inr rows" if "list_all cells_fit rows"
    using that
  proof (induction rows)
    case Nil
    show ?case by (simp add: write_rows_def rows_of_def csv_reset_def)
  next
    case (Cons ws rows)
    then show ?case using row_read[of ws "write_rows rows"] by (simp add: write_rows_def)
  qed
  then show "list_all cells_fit rows \<Longrightarrow> read_rows (write_rows rows) = Inr rows"
    by (simp add: read_rows_def rows_of_def)
qed

end
