(* ===== verification/PO_Reports.thy ===== *)
theory PO_Reports
  imports PO_Routes PO_CsvWrite
begin

text \<open>
  The reports in CSV: \<open>reconciliation_report\<close> of \<open>routers/matching.py\<close> and
  \<open>account_reconciliation_report\<close> of \<open>routers/account.py\<close>. Text cells go through \<open>_safe_csv\<close>, numbers
  are printed as they are; how \<open>str\<close> prints a float is the parameter \<open>show_float\<close>.
\<close>

section \<open>The reports\<close>

definition MATCH_REPORT_HEADER :: "string list" where
  "MATCH_REPORT_HEADER = [''source_reference'', ''candidate_reference'', ''classification'', ''match_score'',
     ''critical_conflict'', ''review_required'']"

definition match_report_cells :: "(rat \<Rightarrow> string) \<Rightarrow> MatchCandidateRow \<Rightarrow> string list" where
  "match_report_cells show_float c =
     [safe_csv (mc_source_record_id c), safe_csv (mc_candidate_record_id c),
      safe_csv (MatchClassification_value (mc_classification c)), show_float (mc_match_score c),
      safe_csv (join '','' (map cc_field (mc_critical_conflicts c))), safe_csv (mc_status c)]"

definition match_report_route ::
  "(rat \<Rightarrow> string) \<Rightarrow> Db \<Rightarrow> AuthenticatedClient \<Rightarrow> string \<Rightarrow> MatchStore \<Rightarrow> string res" where
  "match_report_route show_float db client run_id st =
     bindR (map_error (lookup_404 ''reconciliation run not found'')
       (get_run (db_scan db) (ac_organization_id client) run_id (st_runs st))) (\<lambda>run.
       Inr (write_rows (MATCH_REPORT_HEADER #
         map (match_report_cells show_float) (list_run_candidates db (ac_organization_id client) run_id st))))"

definition ACCOUNT_REPORT_HEADER :: "string list" where
  "ACCOUNT_REPORT_HEADER = [''lifecycle_reference'', ''account_entry_reference'', ''amount'', ''currency'',
     ''credit_debit'', ''classification'', ''match_score'', ''critical_conflict'', ''review_required'']"

definition entry_by_id :: "OpsEnv \<Rightarrow> string \<Rightarrow> string \<Rightarrow> Ops \<Rightarrow> AccountEntryRow option res" where
  "entry_by_id env org entry_id st = scalar_one_or_none
     (select_where (oe_scan env) (\<lambda>e. er_id e = entry_id \<and> er_organization_id e = org) (op_entries st))"

text \<open>A cell that holds \<open>None\<close> is written as an empty one.\<close>

definition account_report_cells ::
  "(rat \<Rightarrow> string) \<Rightarrow> AccountReconciliationRow \<Rightarrow> AccountEntryRow option \<Rightarrow> string list" where
  "account_report_cells show_float row entry =
     [safe_csv (dget_opt (rx_lifecycle_id row)),
      safe_csv (dget_opt (Option.bind entry er_entry_reference)),
      (case Option.bind entry er_amount_minor of None \<Rightarrow> [] | Some n \<Rightarrow> show_int n),
      safe_csv (dget_opt (Option.bind entry er_currency)),
      safe_csv (dget_opt (Option.bind entry er_credit_debit)),
      safe_csv (rx_classification row), show_float (rx_match_score row),
      safe_csv (join '','' (rx_conflicts row)), safe_csv (rx_status row)]"

definition account_report_rows ::
  "(rat \<Rightarrow> string) \<Rightarrow> OpsEnv \<Rightarrow> string \<Rightarrow> Ops \<Rightarrow> string list list res" where
  "account_report_rows show_float env org st =
     mapR (\<lambda>row. bindR (entry_by_id env org (rx_account_entry_id row) st)
       (\<lambda>entry. Inr (account_report_cells show_float row entry))) (list_account_reconciliations env org 200 st)"

definition account_csv_route ::
  "(rat \<Rightarrow> string) \<Rightarrow> OpsEnv \<Rightarrow> AuthenticatedClient \<Rightarrow> Ops \<Rightarrow> string res" where
  "account_csv_route show_float env client st =
     bindR (account_report_rows show_float env (ac_organization_id client) st)
       (\<lambda>rows. Inr (write_rows (ACCOUNT_REPORT_HEADER # rows)))"

section \<open>What a reader of a report sees\<close>

text \<open>A cell that a spreadsheet would take for a formula.\<close>

definition formula_cell :: "string \<Rightarrow> bool" where
  "formula_cell w = (case w of [] \<Rightarrow> False | c # _ \<Rightarrow> c = CHR ''='' \<or> c = CHR ''+'' \<or> c = CHR ''-'' \<or> c = CHR ''@'')"

definition cells_at :: "nat list \<Rightarrow> string list \<Rightarrow> string list" where
  "cells_at ks ws = map (\<lambda>k. ws ! k) ks"

lemma safe_csv_no_formula [simp]: "\<not> formula_cell (safe_csv s)"
  by (auto simp: formula_cell_def safe_csv_def split: list.splits)

lemma safe_csv_value: "\<not> formula_cell s \<Longrightarrow> safe_csv s = s"
  by (auto simp: formula_cell_def safe_csv_def split: list.splits)

text \<open>Cells no longer than the field limit of the reader.\<close>

definition short_cells :: "string list \<Rightarrow> bool" where
  "short_cells ws = list_all (\<lambda>w. length w \<le> FIELD_LIMIT) ws"

lemma cells_fit_match: "cells_fit (match_report_cells f c) \<longleftrightarrow> short_cells (match_report_cells f c)"
  by (simp add: cells_fit_def short_cells_def match_report_cells_def)

lemma cells_fit_account: "cells_fit (account_report_cells f r e) \<longleftrightarrow> short_cells (account_report_cells f r e)"
  by (simp add: cells_fit_def short_cells_def account_report_cells_def)

lemma cells_fit_headers: "cells_fit MATCH_REPORT_HEADER" "cells_fit ACCOUNT_REPORT_HEADER"
  by (simp_all add: cells_fit_def MATCH_REPORT_HEADER_def ACCOUNT_REPORT_HEADER_def FIELD_LIMIT_def)

text \<open>C17: The report of a reconciliation run is what a CSV reader makes of it again: the header and one
  row per candidate of the run, in their order, with the cells that the route wrote, whatever commas,
  quotes and line breaks the references hold; and no cell of text starts a formula.\<close>

theorem match_report_reads_back:
  assumes "match_report_route show_float db client run_id st = Inr body"
    and "list_all (\<lambda>c. short_cells (match_report_cells show_float c))
           (list_run_candidates db (ac_organization_id client) run_id st)"
  shows "\<exists>rows. read_rows body = Inr (MATCH_REPORT_HEADER # rows) \<and>
    rows = map (match_report_cells show_float) (list_run_candidates db (ac_organization_id client) run_id st) \<and>
    list_all (\<lambda>ws. \<not> list_ex formula_cell (cells_at [0, 1, 2, 4, 5] ws)) rows"
proof -
  let ?rows = "map (match_report_cells show_float) (list_run_candidates db (ac_organization_id client) run_id st)"
  have body: "body = write_rows (MATCH_REPORT_HEADER # ?rows)"
    using assms(1) by (auto simp: match_report_route_def bindR_Inr)
  have "list_all cells_fit (MATCH_REPORT_HEADER # ?rows)"
    using assms(2) by (simp add: cells_fit_headers list_all_iff cells_fit_match)
  moreover have "list_all (\<lambda>ws. \<not> list_ex formula_cell (cells_at [0, 1, 2, 4, 5] ws)) ?rows"
    by (simp add: list_all_iff cells_at_def match_report_cells_def)
  ultimately show ?thesis by (simp add: body written_rows_read_back)
qed

lemma account_report_reads_back:
  assumes "account_report_rows show_float env org st = Inr rows" "list_all short_cells rows"
  shows "read_rows (write_rows (ACCOUNT_REPORT_HEADER # rows)) = Inr (ACCOUNT_REPORT_HEADER # rows) \<and>
    list_all (\<lambda>ws. \<not> list_ex formula_cell (cells_at [0, 1, 3, 4, 5, 7, 8] ws)) rows"
proof -
  have cells: "\<exists>r e. ws = account_report_cells show_float r e" if mem: "ws \<in> set rows" for ws
  proof -
    let ?cells = "\<lambda>row. bindR (entry_by_id env org (rx_account_entry_id row) st)
      (\<lambda>entry. Inr (account_report_cells show_float row entry))"
    obtain i where i: "i < length rows" "ws = rows ! i" using mem by (auto simp: in_set_conv_nth)
    have m: "mapR ?cells (list_account_reconciliations env org 200 st) = Inr rows"
      using assms(1) by (simp add: account_report_rows_def)
    have "?cells (list_account_reconciliations env org 200 st ! i) = Inr ws"
      using mapR_Inr_nth[OF m] mapR_Inr_length[OF m] i by simp
    then show ?thesis by (auto simp: bindR_Inr)
  qed
  then have "list_all cells_fit (ACCOUNT_REPORT_HEADER # rows)"
    using assms(2) cells_fit_account by (fastforce simp: cells_fit_headers list_all_iff dest: cells)
  moreover have "list_all (\<lambda>ws. \<not> list_ex formula_cell (cells_at [0, 1, 3, 4, 5, 7, 8] ws)) rows"
    by (fastforce simp: list_all_iff cells_at_def account_report_cells_def dest: cells)
  ultimately show ?thesis by (simp add: written_rows_read_back)
qed

end
