(* ===== verification/PO_Dashboard.thy ===== *)
theory PO_Dashboard
  imports PO_Integration
begin

text \<open>
  \<open>routers/dashboard.py\<close>: the summary of an organization. A \<open>group by\<close> gives one row per value of
  the column with the number of its rows; their order is not defined by the query, it is that of
  the scan. \<open>dashboard_counts_rows\<close> says what every figure counts.
\<close>

section \<open>Grouped counts\<close>

definition group_counts :: "'a list \<Rightarrow> ('a \<times> nat) list" where
  "group_counts xs = map (\<lambda>k. (k, count_list xs k)) (remdups xs)"

definition grouped :: "scan \<Rightarrow> ('r \<Rightarrow> 'k) \<Rightarrow> ('r \<Rightarrow> bool) \<Rightarrow> 'r list \<Rightarrow> ('k \<times> nat) list" where
  "grouped scan key P rows = table_rows scan (group_counts (map key (select_where scan P rows)))"

definition counts_by :: "('k \<Rightarrow> string) \<Rightarrow> ('k \<times> nat) list \<Rightarrow> (string, nat) dict" where
  "counts_by str groups = fold (\<lambda>(k, n). AList.update (str k) n) groups []"

text \<open>\<open>_count_by\<close>; \<open>str\<close> of a missing value is \<open>None\<close>.\<close>

definition count_by :: "scan \<Rightarrow> ('r \<Rightarrow> string option) \<Rightarrow> ('r \<Rightarrow> bool) \<Rightarrow> 'r list \<Rightarrow> (string, nat) dict" where
  "count_by scan key P rows = counts_by show_opt (grouped scan key P rows)"

section \<open>The summary\<close>

record Dashboard =
  da_analyzed :: nat
  da_ready :: nat
  da_repairable :: nat
  da_review_required :: nat
  da_unresolved :: nat
  da_open_cases :: nat
  da_running_batches :: nat
  da_top_findings :: "(string, nat) dict"
  da_account_entries :: nat
  da_account_reconciled :: nat
  da_missing_account_event :: nat
  da_account_mismatches :: nat
  da_unmatched_entries :: nat
  da_duplicate_entries :: nat
  da_reconciliation_rate :: rat

definition OPEN_STATUSES :: "string list" where
  "OPEN_STATUSES = [''NEW'', ''ANALYZED'', ''REPAIR_PROPOSED'', ''REVIEW_REQUIRED'']"

text \<open>\<open>round(100.0 * reconciled / total_entries, 2) if total_entries else 0.0\<close>\<close>

definition reconciliation_rate :: "nat \<Rightarrow> nat \<Rightarrow> rat" where
  "reconciliation_rate reconciled total_entries =
     (if total_entries = 0 then 0
      else fround2 (fl (fl (100 * of_nat reconciled) / of_nat total_entries)))"

definition dashboard :: "OpsEnv \<Rightarrow> string \<Rightarrow> Integ \<Rightarrow> Dashboard" where
  "dashboard env org st =
     (let ops = ig_ops st;
          readiness = count_by (oe_scan env) pc_address_readiness (\<lambda>c. pc_organization_id c = Some org) (op_cases ops);
          open_cases = length (select_where (oe_scan env)
            (\<lambda>c. pc_organization_id c = Some org \<and> List.member OPEN_STATUSES (pc_status c)) (op_cases ops));
          running_batches = length (select_where (oe_scan env)
            (\<lambda>j. bj_organization_id j = org \<and> bj_status j = ''RUNNING'') (ig_jobs st));
          top_findings = counts_by id (grouped (oe_scan env) fd_rule_id (\<lambda>f. fd_organization_id f = Some org)
            (op_findings ops));
          account = count_by (oe_scan env) er_reconciliation_status (\<lambda>e. er_organization_id e = org) (op_entries ops);
          total_entries = sum_list (map snd account);
          reconciled = dget account ''RECONCILED'' 0 in
      \<lparr>da_analyzed = sum_list (map snd readiness), da_ready = dget readiness ''READY'' 0,
       da_repairable = dget readiness ''REPAIRABLE'' 0, da_review_required = dget readiness ''REVIEW_REQUIRED'' 0,
       da_unresolved = dget readiness ''UNRESOLVED'' 0, da_open_cases = open_cases,
       da_running_batches = running_batches,
       da_top_findings = take 10 (sort_desc snd top_findings),
       da_account_entries = total_entries, da_account_reconciled = reconciled,
       da_missing_account_event = dget account ''MISSING_ACCOUNT_EVENT'' 0,
       da_account_mismatches = dget account ''ACCOUNT_MISMATCH'' 0 + dget account ''AMOUNT_MISMATCH'' 0
         + dget account ''CURRENCY_MISMATCH'' 0,
       da_unmatched_entries = dget account ''UNMATCHED_ACCOUNT_ENTRY'' 0,
       da_duplicate_entries = dget account ''DUPLICATE_ACCOUNT_ENTRY'' 0,
       da_reconciliation_rate = reconciliation_rate reconciled total_entries\<rparr>)"

definition dashboard_route :: "OpsEnv \<Rightarrow> AuthenticatedClient \<Rightarrow> Integ \<Rightarrow> Dashboard" where
  "dashboard_route env client st = dashboard env (ac_organization_id client) st"

section \<open>Counting\<close>

definition count_where :: "('r \<Rightarrow> bool) \<Rightarrow> 'r list \<Rightarrow> nat" where
  "count_where P rows = length (filter P rows)"

lemma count_list_filter: "count_list (map key rows) k = length (filter (\<lambda>r. key r = k) rows)"
  by (induction rows) auto

lemma mset_grouped:
  "scan_ok scan \<Longrightarrow> mset (grouped scan key P rows) = mset (group_counts (map key (select_where scan P rows)))"
  by (simp add: grouped_def mset_table_rows)

lemma group_keys: "map fst (group_counts xs) = remdups xs"
  by (simp add: group_counts_def comp_def)

lemma group_in: "(k, n) \<in> set (group_counts xs) \<longleftrightarrow> k \<in> set xs \<and> n = count_list xs k"
  by (auto simp: group_counts_def)

lemma group_total: "sum_list (map snd (group_counts xs)) = length xs"
proof -
  have "sum_list (map snd (group_counts xs)) = (\<Sum>k\<leftarrow>remdups xs. count_list xs k)"
    by (simp add: group_counts_def comp_def)
  also have "\<dots> = (\<Sum>k\<in>set xs. count_list xs k)"
    by (metis distinct_remdups set_remdups sum_list_distinct_conv_sum_set)
  also have "\<dots> = length xs" by (simp add: sum_count_set)
  finally show ?thesis .
qed

lemma distinct_mset: "mset xs = mset ys \<Longrightarrow> distinct xs = distinct ys"
  by (metis mset_eq_imp_distinct_iff)

text \<open>Under keys that stay distinct as text, the dictionary is the list of the groups.\<close>

lemma counts_by_exact:
  "distinct (map (str \<circ> fst) groups) \<Longrightarrow> counts_by str groups = map (\<lambda>(k, n). (str k, n)) groups"
proof -
  have "fold (\<lambda>(k, n). AList.update (str k) n) gs d = d @ map (\<lambda>(k, n). (str k, n)) gs"
    if "distinct (map (str \<circ> fst) gs)" "fst ` set d \<inter> (str \<circ> fst) ` set gs = {}" for gs d
    using that
  proof (induction gs arbitrary: d)
    case (Cons g gs)
    obtain k n where g: "g = (k, n)" by (cases g)
    have fresh: "str k \<notin> fst ` set d" using Cons.prems(2) g by auto
    then have "AList.update (str k) n d = d @ [(str k, n)]" by (induction d) auto
    moreover have "fold (\<lambda>(k, n). AList.update (str k) n) gs (d @ [(str k, n)]) =
        (d @ [(str k, n)]) @ map (\<lambda>(k, n). (str k, n)) gs"
      using Cons.prems g by (intro Cons.IH) auto
    ultimately show ?case by (simp add: g)
  qed simp
  from this[of groups "[]"] show "distinct (map (str \<circ> fst) groups) \<Longrightarrow>
      counts_by str groups = map (\<lambda>(k, n). (str k, n)) groups"
    by (simp add: counts_by_def)
qed

lemma grouped_keys:
  assumes "scan_ok scan" "inj_on str (key ` {r \<in> set rows. P r})"
  shows "distinct (map (str \<circ> fst) (grouped scan key P rows))"
proof -
  let ?g = "group_counts (map key (select_where scan P rows))"
  have "distinct (map (str \<circ> fst) ?g)"
    using assms by (simp add: map_map[symmetric] group_keys distinct_map set_select_where del: map_map)
  moreover have "mset (map (str \<circ> fst) (grouped scan key P rows)) = mset (map (str \<circ> fst) ?g)"
    unfolding mset_map by (rule arg_cong[OF mset_grouped[OF assms(1)]])
  ultimately show ?thesis using distinct_mset by blast
qed

lemma counts_by_total:
  assumes "scan_ok scan" "inj_on str (key ` {r \<in> set rows. P r})"
  shows "sum_list (map snd (counts_by str (grouped scan key P rows))) = count_where P rows"
proof -
  have "sum_list (map snd (counts_by str (grouped scan key P rows))) = sum_list (map snd (grouped scan key P rows))"
    by (simp add: counts_by_exact[OF grouped_keys[OF assms]] case_prod_beta comp_def)
  also have "\<dots> = sum_list (map snd (group_counts (map key (select_where scan P rows))))"
    using mset_grouped[OF assms(1), of key P rows] by (metis mset_map sum_mset_sum_list)
  also have "\<dots> = count_where P rows"
    using assms(1) by (simp add: group_total length_select_where count_where_def)
  finally show ?thesis .
qed

lemma counts_by_get:
  assumes "scan_ok scan" "inj_on str (key ` {r \<in> set rows. P r})"
  shows "dget (counts_by str (grouped scan key P rows)) w 0 = count_where (\<lambda>r. P r \<and> str (key r) = w) rows"
proof -
  let ?g = "grouped scan key P rows"
  have d: "distinct (map fst (counts_by str ?g))"
    using grouped_keys[OF assms] by (simp add: counts_by_exact[OF grouped_keys[OF assms]] case_prod_beta comp_def)
  have g: "set ?g = set (group_counts (map key (select_where scan P rows)))"
    by (metis mset_grouped[OF assms(1)] set_mset_mset)
  have mem: "(w, n) \<in> set (counts_by str ?g) \<longleftrightarrow>
      (\<exists>k \<in> key ` {r \<in> set rows. P r}. str k = w \<and> n = count_list (map key (select_where scan P rows)) k)" for n
    unfolding counts_by_exact[OF grouped_keys[OF assms]]
    by (force simp: g group_in set_select_where[OF assms(1)])
  show ?thesis
  proof (cases "\<exists>r \<in> set rows. P r \<and> str (key r) = w")
    case True
    then obtain r where r: "r \<in> set rows" "P r" "str (key r) = w" by auto
    let ?n = "count_list (map key (select_where scan P rows)) (key r)"
    have "(w, ?n) \<in> set (counts_by str ?g)" unfolding mem using r by blast
    then have "dget (counts_by str ?g) w 0 = ?n" using d by (simp add: dget_def)
    also have "\<dots> = length (filter (\<lambda>x. key x = key r) (select_where scan P rows))" by (rule count_list_filter)
    also have "\<dots> = length (filter (\<lambda>x. key x = key r) (filter P rows))"
      by (metis mset_select_where[OF assms(1)] mset_filter size_mset)
    also have "\<dots> = count_where (\<lambda>r. P r \<and> str (key r) = w) rows"
      unfolding count_where_def filter_filter
      by (rule arg_cong[of _ _ length], rule filter_cong) (use assms(2) r in \<open>auto dest: inj_onD\<close>)
    finally show ?thesis .
  next
    case False
    then have none: "w \<notin> fst ` set (counts_by str ?g)" using mem by force
    then have "dget (counts_by str ?g) w 0 = 0"
      by (simp add: dget_def map_of_eq_None_iff[THEN iffD2])
    moreover have "count_where (\<lambda>r. P r \<and> str (key r) = w) rows = 0"
      using False by (auto simp: count_where_def)
    ultimately show ?thesis by simp
  qed
qed

text \<open>No column holds the text that stands for a missing value.\<close>

definition no_none :: "('r \<Rightarrow> string option) \<Rightarrow> 'r list \<Rightarrow> bool" where
  "no_none key rows = list_all (\<lambda>r. key r \<noteq> Some ''None'') rows"

lemma show_opt_inj: "no_none key rows \<Longrightarrow> inj_on show_opt (key ` {r \<in> set rows. P r})"
  by (auto simp: inj_on_def no_none_def list_all_iff show_opt_def split: option.splits)

lemma show_opt_eq: "k \<noteq> ''None'' \<Longrightarrow> show_opt x = k \<longleftrightarrow> x = Some k"
  by (auto simp: show_opt_def split: option.splits)

lemma count_by_total:
  "scan_ok scan \<Longrightarrow> no_none key rows \<Longrightarrow> sum_list (map snd (count_by scan key P rows)) = count_where P rows"
  by (simp add: count_by_def counts_by_total show_opt_inj)

lemma count_by_get:
  "scan_ok scan \<Longrightarrow> no_none key rows \<Longrightarrow> w \<noteq> ''None'' \<Longrightarrow>
     dget (count_by scan key P rows) w 0 = count_where (\<lambda>r. P r \<and> key r = Some w) rows"
  by (simp add: count_by_def counts_by_get show_opt_inj show_opt_eq)

lemma count_where_mono: "(\<And>r. P r \<Longrightarrow> Q r) \<Longrightarrow> count_where P rows \<le> count_where Q rows"
  by (induction rows) (auto simp: count_where_def)

section \<open>The rate\<close>

lemma rate_near:
  assumes "0 < n" "r \<le> n"
  shows "0 \<le> fl (fl (100 * of_nat r) / of_nat n)" and "fl (fl (100 * of_nat r) / of_nat n) < 100 + 1 / 200"
    and "r = n \<Longrightarrow> 100 - 1 / 200 < fl (fl (100 * of_nat r) / of_nat n)"
proof -
  let ?u = "1 / 2 ^ 53 :: rat" and ?q = "fl (100 * of_nat r) / of_nat n"
  have b: "(1 - ?u) * (100 * of_nat r) \<le> fl (100 * of_nat r) \<and> fl (100 * of_nat r) \<le> (1 + ?u) * (100 * of_nat r)"
    by (rule flr.rnd_bounds) simp
  have q: "0 \<le> ?q" using flr.rnd_nonneg[of "100 * of_nat r"] by simp
  show "0 \<le> fl ?q" by (rule flr.rnd_nonneg[OF q])
  have "(1 + ?u) * (100 * of_nat r) \<le> (1 + ?u) * 100 * of_nat n" using assms(2) by simp
  with b have "?q \<le> (1 + ?u) * 100" using assms(1) by (simp add: divide_le_eq)
  then have "fl ?q \<le> (1 + ?u) * ((1 + ?u) * 100)"
    using flr.rnd_bounds[OF q] by (meson mult_left_mono order_trans zero_le_divide_1_iff add_nonneg_nonneg zero_le_one zero_le_power zero_le_numeral)
  also have "\<dots> < 100 + 1 / 200" by (simp add: field_simps)
  finally show "fl ?q < 100 + 1 / 200" .
  show "100 - 1 / 200 < fl ?q" if "r = n"
  proof -
    have "(1 - ?u) * 100 \<le> ?q" using b assms(1) that by (simp add: le_divide_eq)
    then have "(1 - ?u) * ((1 - ?u) * 100) \<le> (1 - ?u) * ?q" by (intro mult_left_mono) simp_all
    then have "(1 - ?u) * ((1 - ?u) * 100) \<le> fl ?q" using flr.rnd_bounds[OF q] by linarith
    moreover have "100 - 1 / 200 < (1 - ?u) * ((1 - ?u) * 100)" by (simp add: field_simps)
    ultimately show ?thesis by linarith
  qed
qed

lemma rate_range: "r \<le> n \<Longrightarrow> 0 \<le> reconciliation_rate r n \<and> reconciliation_rate r n \<le> 100"
  using rate_near[of n r] by (cases "n = 0") (simp_all add: reconciliation_rate_def fround2_nonneg fround2_le_100)

lemma rate_full: "0 < n \<Longrightarrow> reconciliation_rate n n = 100"
proof -
  assume n: "0 < n"
  let ?x = "fl (fl (100 * of_nat n) / of_nat n)"
  have "rhe (?x * 100) = 10000"
    using rate_near(2,3)[OF n order_refl] by (intro rhe_unique) (simp add: abs_if)
  then show "reconciliation_rate n n = 100" using n by (simp add: reconciliation_rate_def fround2_def)
qed

lemma rate_none: "reconciliation_rate 0 n = 0"
  by (simp add: reconciliation_rate_def flr.rnd_zero fround2_def)

section \<open>What the figures count\<close>

definition case_count :: "string \<Rightarrow> string \<Rightarrow> Integ \<Rightarrow> nat" where
  "case_count org readiness st = count_where
     (\<lambda>c. pc_organization_id c = Some org \<and> pc_address_readiness c = Some readiness) (op_cases (ig_ops st))"

definition entry_count :: "string \<Rightarrow> string \<Rightarrow> Integ \<Rightarrow> nat" where
  "entry_count org status st = count_where
     (\<lambda>e. er_organization_id e = org \<and> er_reconciliation_status e = Some status) (op_entries (ig_ops st))"

text \<open>The findings of an organization with a rule, and a list of its ten most frequent rules.\<close>

definition finding_count :: "string \<Rightarrow> string \<Rightarrow> Integ \<Rightarrow> nat" where
  "finding_count org rule st = count_where
     (\<lambda>f. fd_organization_id f = Some org \<and> fd_rule_id f = rule) (op_findings (ig_ops st))"

definition rules_found :: "string \<Rightarrow> Integ \<Rightarrow> string set" where
  "rules_found org st = fd_rule_id ` set (filter (\<lambda>f. fd_organization_id f = Some org) (op_findings (ig_ops st)))"

definition top_rules :: "string \<Rightarrow> Integ \<Rightarrow> (string, nat) dict \<Rightarrow> bool" where
  "top_rules org st ranked \<longleftrightarrow>
     distinct (map fst ranked) \<and> fst ` set ranked \<subseteq> rules_found org st \<and>
     length ranked = min 10 (card (rules_found org st)) \<and>
     list_all (\<lambda>(rule, n). n = finding_count org rule st) ranked \<and>
     sorted_wrt (\<lambda>a b. snd b \<le> snd a) ranked \<and>
     (\<forall>rule\<in>rules_found org st - fst ` set ranked. list_all (\<lambda>(_, n). finding_count org rule st \<le> n) ranked)"

lemma distinct_insort_desc: "distinct (map fst (insort_desc f x xs)) = distinct (map fst (x # xs))"
proof (induction xs)
  case (Cons y ys)
  have "fst ` set (insort_desc f x ys) = insert (fst x) (fst ` set ys)" by simp
  with Cons show ?case by auto
qed simp

lemma distinct_sort_desc: "distinct (map fst (sort_desc f xs)) = distinct (map fst xs)"
proof (induction xs)
  case (Cons x xs)
  have "fst ` set (sort_desc f xs) = fst ` set xs" by simp
  with Cons show ?case by (simp add: distinct_insort_desc)
qed simp

lemma take_sorted:
  "sorted_wrt R xs \<Longrightarrow> x \<in> set (take n xs) \<Longrightarrow> y \<in> set xs \<Longrightarrow> y \<notin> set (take n xs) \<Longrightarrow> R x y"
proof -
  assume s: "sorted_wrt R xs" and x: "x \<in> set (take n xs)" and y: "y \<in> set xs" "y \<notin> set (take n xs)"
  have "sorted_wrt R (take n xs @ drop n xs)" using s by simp
  moreover have "y \<in> set (drop n xs)" using y by (metis Un_iff append_take_drop_id set_append)
  ultimately show "R x y" using x by (auto simp: sorted_wrt_append simp del: append_take_drop_id)
qed

lemma top_findings_ranked:
  assumes "scan_ok (oe_scan env)"
  shows "top_rules org st (da_top_findings (dashboard env org st))"
proof -
  let ?P = "\<lambda>f. fd_organization_id f = Some org" and ?rows = "op_findings (ig_ops st)"
  let ?found = "select_where (oe_scan env) ?P ?rows"
  define g where "g = grouped (oe_scan env) fd_rule_id ?P ?rows"
  have keys: "distinct (map fst g)"
    using grouped_keys[OF assms, of id fd_rule_id ?rows ?P] by (simp add: g_def comp_def)
  have top: "da_top_findings (dashboard env org st) = take 10 (sort_desc snd g)"
    using counts_by_exact[of id g] keys by (simp add: dashboard_def Let_def g_def[symmetric])
  have sg: "set g = set (group_counts (map fd_rule_id ?found))"
    unfolding g_def by (metis mset_grouped[OF assms] set_mset_mset)
  have count: "count_list (map fd_rule_id ?found) k = finding_count org k st" for k
  proof -
    have "count_list (map fd_rule_id ?found) k = length (filter (\<lambda>x. fd_rule_id x = k) ?found)" by (rule count_list_filter)
    also have "\<dots> = length (filter (\<lambda>x. fd_rule_id x = k) (filter ?P ?rows))"
      by (metis mset_select_where[OF assms] mset_filter size_mset)
    finally show ?thesis by (simp add: finding_count_def count_where_def conj_commute)
  qed
  have mem: "(k, n) \<in> set g \<longleftrightarrow> k \<in> rules_found org st \<and> n = finding_count org k st" for k n
    unfolding sg group_in count by (auto simp: rules_found_def set_select_where[OF assms])
  have fst_g: "fst ` set g = rules_found org st" using mem by force
  then have card: "length g = card (rules_found org st)" using distinct_card[OF keys] by simp
  let ?s = "sort_desc snd g"
  have ds: "distinct (map fst ?s)" using keys by (simp add: distinct_sort_desc)
  have sub: "x \<in> set g" if "x \<in> set (take 10 ?s)" for x using in_set_takeD[OF that] by simp
  have rest: "finding_count org rule st \<le> snd x"
    if "rule \<in> rules_found org st" "rule \<notin> fst ` set (take 10 ?s)" "x \<in> set (take 10 ?s)" for rule x
  proof -
    have "(rule, finding_count org rule st) \<in> set ?s" using mem that(1) by simp
    moreover have "(rule, finding_count org rule st) \<notin> set (take 10 ?s)" using that(2) by force
    ultimately show ?thesis using take_sorted[OF sorted_sort_desc[of snd g] that(3)] by fastforce
  qed
  show ?thesis
    unfolding top top_rules_def
  proof (intro conjI)
    show "distinct (map fst (take 10 ?s))" using ds by (simp add: take_map[symmetric] distinct_take)
    show "fst ` set (take 10 ?s) \<subseteq> rules_found org st" using sub fst_g by auto
    show "length (take 10 ?s) = min 10 (card (rules_found org st))" using card by simp
    show "list_all (\<lambda>(rule, n). n = finding_count org rule st) (take 10 ?s)" using sub mem by (auto simp: list_all_iff)
    show "sorted_wrt (\<lambda>a b. snd b \<le> snd a) (take 10 ?s)" by (rule sorted_wrt_take[OF sorted_sort_desc])
    show "\<forall>rule\<in>rules_found org st - fst ` set (take 10 ?s). list_all (\<lambda>(_, n). finding_count org rule st \<le> n) (take 10 ?s)"
      using rest by (fastforce simp: list_all_iff)
  qed
qed

text \<open>C18: Every figure of the dashboard is the number of rows of the organization it names, in whatever order
  the database groups them; rows of other organizations count nowhere. The top findings are the ten
  rules with the most findings of the organization, or all of its rules when they are fewer, each with
  the number of its findings, the most frequent first. The reconciliation rate lies between 0 and 100,
  is 100 when every entry is reconciled and 0 when none is. No readiness and no status may be the text
  None, which \<open>str\<close> also makes of a missing one.\<close>

theorem dashboard_counts_rows:
  assumes "scan_ok (oe_scan env)" "no_none pc_address_readiness (op_cases (ig_ops st))"
    and "no_none er_reconciliation_status (op_entries (ig_ops st))"
  shows "da_analyzed (dashboard env org st) = count_where (\<lambda>c. pc_organization_id c = Some org) (op_cases (ig_ops st)) \<and>
    da_ready (dashboard env org st) = case_count org ''READY'' st \<and>
    da_repairable (dashboard env org st) = case_count org ''REPAIRABLE'' st \<and>
    da_review_required (dashboard env org st) = case_count org ''REVIEW_REQUIRED'' st \<and>
    da_unresolved (dashboard env org st) = case_count org ''UNRESOLVED'' st \<and>
    da_open_cases (dashboard env org st) = count_where
      (\<lambda>c. pc_organization_id c = Some org \<and> List.member OPEN_STATUSES (pc_status c)) (op_cases (ig_ops st)) \<and>
    da_running_batches (dashboard env org st) = count_where
      (\<lambda>j. bj_organization_id j = org \<and> bj_status j = ''RUNNING'') (ig_jobs st) \<and>
    da_account_entries (dashboard env org st) = count_where (\<lambda>e. er_organization_id e = org) (op_entries (ig_ops st)) \<and>
    da_account_reconciled (dashboard env org st) = entry_count org ''RECONCILED'' st \<and>
    da_account_mismatches (dashboard env org st) = entry_count org ''ACCOUNT_MISMATCH'' st
      + entry_count org ''AMOUNT_MISMATCH'' st + entry_count org ''CURRENCY_MISMATCH'' st \<and>
    da_unmatched_entries (dashboard env org st) = entry_count org ''UNMATCHED_ACCOUNT_ENTRY'' st \<and>
    da_missing_account_event (dashboard env org st) = entry_count org ''MISSING_ACCOUNT_EVENT'' st \<and>
    da_duplicate_entries (dashboard env org st) = entry_count org ''DUPLICATE_ACCOUNT_ENTRY'' st \<and>
    top_rules org st (da_top_findings (dashboard env org st)) \<and>
    0 \<le> da_reconciliation_rate (dashboard env org st) \<and> da_reconciliation_rate (dashboard env org st) \<le> 100 \<and>
    (entry_count org ''RECONCILED'' st = 0 \<longrightarrow> da_reconciliation_rate (dashboard env org st) = 0) \<and>
    (0 < da_account_entries (dashboard env org st) \<and>
       da_account_reconciled (dashboard env org st) = da_account_entries (dashboard env org st) \<longrightarrow>
       da_reconciliation_rate (dashboard env org st) = 100)"
proof -
  let ?n = "count_where (\<lambda>e. er_organization_id e = org) (op_entries (ig_ops st))"
  note counts = count_by_total[OF assms(1,2)] count_by_get[OF assms(1,2)] count_by_total[OF assms(1,3)]
    count_by_get[OF assms(1,3)]
  have rate: "da_reconciliation_rate (dashboard env org st) = reconciliation_rate (entry_count org ''RECONCILED'' st) ?n"
    by (simp add: dashboard_def Let_def counts entry_count_def)
  have le: "entry_count org ''RECONCILED'' st \<le> ?n"
    unfolding entry_count_def by (rule count_where_mono) simp
  have counted: "da_open_cases (dashboard env org st) = count_where
      (\<lambda>c. pc_organization_id c = Some org \<and> List.member OPEN_STATUSES (pc_status c)) (op_cases (ig_ops st))"
    "da_running_batches (dashboard env org st) = count_where
      (\<lambda>j. bj_organization_id j = org \<and> bj_status j = ''RUNNING'') (ig_jobs st)"
    by (simp_all add: dashboard_def Let_def count_where_def length_select_where[OF assms(1)])
  have entries: "da_account_entries (dashboard env org st) = ?n"
    "da_account_reconciled (dashboard env org st) = entry_count org ''RECONCILED'' st"
    "da_account_mismatches (dashboard env org st) = entry_count org ''ACCOUNT_MISMATCH'' st
      + entry_count org ''AMOUNT_MISMATCH'' st + entry_count org ''CURRENCY_MISMATCH'' st"
    "da_unmatched_entries (dashboard env org st) = entry_count org ''UNMATCHED_ACCOUNT_ENTRY'' st"
    "da_missing_account_event (dashboard env org st) = entry_count org ''MISSING_ACCOUNT_EVENT'' st"
    "da_duplicate_entries (dashboard env org st) = entry_count org ''DUPLICATE_ACCOUNT_ENTRY'' st"
    by (simp_all add: dashboard_def Let_def counts entry_count_def)
  have cases: "da_analyzed (dashboard env org st) = count_where (\<lambda>c. pc_organization_id c = Some org) (op_cases (ig_ops st))"
    "da_ready (dashboard env org st) = case_count org ''READY'' st"
    "da_repairable (dashboard env org st) = case_count org ''REPAIRABLE'' st"
    "da_review_required (dashboard env org st) = case_count org ''REVIEW_REQUIRED'' st"
    "da_unresolved (dashboard env org st) = case_count org ''UNRESOLVED'' st"
    by (simp_all add: dashboard_def Let_def counts case_count_def)
  show ?thesis
    unfolding cases counted entries rate using top_findings_ranked[OF assms(1), of org st] rate_range[OF le] rate_none[of ?n] rate_full[of ?n] by simp
qed

end
