(* ===== verification/PO_Admin.thy ===== *)
theory PO_Admin
  imports PO_UserProps
begin

text \<open>
  The administration scripts \<open>scripts/user_admin.py\<close> and \<open>scripts/bootstrap_admin.py\<close> on the store of
  \<open>PO_Users\<close>, extended by the rows of the organizations. A run gives its exit status, or the
  exception it ends with, the lines it prints and the store; a command line is what the argument
  parser makes of it, and the environment variables are arguments.
\<close>

section \<open>The store and the output\<close>

record OrganizationRow =
  og_id :: string
  og_name :: string
  og_public_id :: string

text \<open>\<open>id_organizations\<close> of the inner store is the column \<open>id\<close> of the organizations.\<close>

record AdminStore =
  ad_orgs :: "OrganizationRow list"
  ad_ids :: IdStore

definition admin_ok :: "uuids \<Rightarrow> AdminStore \<Rightarrow> bool" where
  "admin_ok uid st \<longleftrightarrow> id_ok uid (ad_ids st) \<and> distinct (map og_public_id (ad_orgs st)) \<and>
     id_organizations (ad_ids st) = map og_id (ad_orgs st)"

type_synonym outcome = "(nat res \<times> string list) \<times> AdminStore"

definition exits :: "nat \<Rightarrow> string list \<Rightarrow> AdminStore \<Rightarrow> outcome" where
  "exits code out st = ((Inr code, out), st)"

definition raises :: "py_error \<Rightarrow> string list \<Rightarrow> AdminStore \<Rightarrow> outcome" where
  "raises e out st = ((Inl e, out), st)"

definition on_ids :: "(IdStore \<Rightarrow> IdStore) \<Rightarrow> AdminStore \<Rightarrow> AdminStore" where
  "on_ids f st = st\<lparr>ad_ids := f (ad_ids st)\<rparr>"

definition find_organization :: "scan \<Rightarrow> string \<Rightarrow> AdminStore \<Rightarrow> OrganizationRow option res" where
  "find_organization scan public_id st =
     scalar_one_or_none (select_where scan (\<lambda>r. og_public_id r = public_id) (ad_orgs st))"

record AdminEnv =
  av_crypto :: Crypto
  av_scan :: scan
  av_uid :: uuids

section \<open>User administration\<close>

definition UserStatus_value :: "UserStatus \<Rightarrow> string" where
  "UserStatus_value s = (case s of ACTIVE \<Rightarrow> ''ACTIVE'' | DISABLED \<Rightarrow> ''DISABLED'')"

text \<open>The choices of \<open>--role\<close> are the roles.\<close>

datatype admin_command = ListUsers "string option"
  | CreateUser string "string option" string UserRole
  | ResetPassword string
  | DisableUser string
  | EnableUser string
  | RevokeSessions string
  | SetRole string UserRole

definition command_email :: "admin_command \<Rightarrow> string" where
  "command_email c = (case c of ListUsers _ \<Rightarrow> [] | CreateUser e _ _ _ \<Rightarrow> e | ResetPassword e \<Rightarrow> e
     | DisableUser e \<Rightarrow> e | EnableUser e \<Rightarrow> e | RevokeSessions e \<Rightarrow> e | SetRole e _ \<Rightarrow> e)"

definition password_from_env :: "string option \<Rightarrow> string option \<times> string list" where
  "password_from_env v =
     (if \<not> truthy v then (None, [])
      else if length (dget_opt v) < 12 then (None, [''PAYMENTOPS_USER_PASSWORD must be at least 12 characters.''])
      else (v, []))"

definition NEED_PASSWORD :: string where
  "NEED_PASSWORD = ''Set PAYMENTOPS_USER_PASSWORD (>=12 chars).''"

definition TAB :: string where
  "TAB = [CHR 0x09]"

definition user_line :: "AppUser \<Rightarrow> string" where
  "user_line u = us_email u @ TAB @ UserRole_value (us_role u) @ TAB @ UserStatus_value (us_status u) @ TAB
     @ us_organization_id u"

definition create_user_command ::
  "AdminEnv \<Rightarrow> instant \<Rightarrow> string \<Rightarrow> string option \<Rightarrow> string \<Rightarrow> string option \<Rightarrow> string \<Rightarrow> UserRole \<Rightarrow> AdminStore \<Rightarrow> outcome" where
  "create_user_command env now salt pass_env email name org role st =
     (case password_from_env pass_env of
        (None, out) \<Rightarrow> exits 2 (out @ [NEED_PASSWORD]) st
      | (Some password, out) \<Rightarrow>
          (case get_user_by_email (av_scan env) email (ad_ids st) of
             Inl e \<Rightarrow> raises e out st
           | Inr (Some _) \<Rightarrow> exits 1 (out @ [''A user with that email already exists.'']) st
           | Inr None \<Rightarrow>
               (case find_organization (av_scan env) org st of
                  Inl e \<Rightarrow> raises e out st
                | Inr None \<Rightarrow> exits 1 (out @ [''Organization '' @ quote_name org @ '' not found.'']) st
                | Inr (Some row) \<Rightarrow>
                    (case create_user (av_crypto env) (av_uid env) now salt (og_id row) email
                            (dget_opt (por name (Some email))) password role ACTIVE (ad_ids st) of
                       Inl e \<Rightarrow> raises e out st
                     | Inr (u, ids) \<Rightarrow> exits 0 (out @ [''Created '' @ UserRole_value role @ '' user '' @ email
                         @ '' in '' @ quote_name org @ ''.'']) (st\<lparr>ad_ids := ids\<rparr>)))))"

text \<open>The commands on a user that exists.\<close>

definition user_command ::
  "AdminEnv \<Rightarrow> instant \<Rightarrow> string \<Rightarrow> string option \<Rightarrow> admin_command \<Rightarrow> AppUser \<Rightarrow> AdminStore \<Rightarrow> outcome" where
  "user_command env now salt pass_env c user st = (case c of
     ResetPassword _ \<Rightarrow>
       (case password_from_env pass_env of
          (None, out) \<Rightarrow> exits 2 (out @ [NEED_PASSWORD]) st
        | (Some password, out) \<Rightarrow>
            exits 0 (out @ [''Password reset for '' @ us_email user @ ''; all sessions revoked.''])
              (on_ids (set_password (av_crypto env) now salt (us_id user) password) st))
   | DisableUser _ \<Rightarrow>
       exits 0 [''Disabled '' @ us_email user @ ''; sessions revoked.'']
         (on_ids (set_status now (us_id user) DISABLED) st)
   | EnableUser _ \<Rightarrow>
       exits 0 [''Enabled '' @ us_email user @ ''.''] (on_ids (set_status now (us_id user) ACTIVE) st)
   | SetRole _ role \<Rightarrow>
       exits 0 [''Set role '' @ UserRole_value role @ '' for '' @ us_email user @ ''.'']
         (on_ids (set_role (us_id user) role) st)
   | RevokeSessions _ \<Rightarrow>
       exits 0 [''Revoked '' @ show_nat (fst (revoke_all_sessions now (us_id user) (ad_ids st)))
           @ '' session(s) for '' @ us_email user @ ''.'']
         (on_ids (\<lambda>ids. snd (revoke_all_sessions now (us_id user) ids)) st)
   | _ \<Rightarrow> exits 1 [] st)"

text \<open>\<open>_run\<close>; \<open>list-users\<close> does not use its option.\<close>

definition run_admin ::
  "AdminEnv \<Rightarrow> instant \<Rightarrow> string \<Rightarrow> string option \<Rightarrow> admin_command \<Rightarrow> AdminStore \<Rightarrow> outcome" where
  "run_admin env now salt pass_env c st = (case c of
     ListUsers org \<Rightarrow> exits 0 (map user_line (list_users (av_scan env) None (ad_ids st))) st
   | CreateUser email name org role \<Rightarrow> create_user_command env now salt pass_env email name org role st
   | _ \<Rightarrow>
       (case get_user_by_email (av_scan env) (command_email c) (ad_ids st) of
          Inl e \<Rightarrow> raises e [] st
        | Inr None \<Rightarrow> exits 1 [''User not found.''] st
        | Inr (Some user) \<Rightarrow> user_command env now salt pass_env c user st))"

section \<open>The first administrator\<close>

record BootstrapEnv =
  bs_email :: "string option"
  bs_password :: "string option"
  bs_name :: "string option"
  bs_org_public_id :: "string option"
  bs_org_name :: "string option"

definition from_env :: "string option \<Rightarrow> string \<Rightarrow> string" where
  "from_env v dflt = strip (case v of None \<Rightarrow> dflt | Some s \<Rightarrow> s)"

definition bootstrap_email :: "BootstrapEnv \<Rightarrow> string" where
  "bootstrap_email b = from_env (bs_email b) []"

definition bootstrap_password :: "BootstrapEnv \<Rightarrow> string" where
  "bootstrap_password b = dget_opt (bs_password b)"

definition bootstrap_org :: "BootstrapEnv \<Rightarrow> string" where
  "bootstrap_org b = from_env (bs_org_public_id b) ''cloudnova''"

definition add_organization :: "uuids \<Rightarrow> string \<Rightarrow> string \<Rightarrow> AdminStore \<Rightarrow> OrganizationRow \<times> AdminStore" where
  "add_organization uid name public_id st =
     (let row = \<lparr>og_id = uid (id_uuids (ad_ids st)), og_name = name, og_public_id = public_id\<rparr>;
          ids = ad_ids st in
      (row, \<lparr>ad_orgs = ad_orgs st @ [row],
             ad_ids = ids\<lparr>id_organizations := id_organizations ids @ [og_id row], id_uuids := Suc (id_uuids ids)\<rparr>\<rparr>))"

definition bootstrap_user ::
  "AdminEnv \<Rightarrow> instant \<Rightarrow> string \<Rightarrow> BootstrapEnv \<Rightarrow> OrganizationRow \<Rightarrow> AdminStore \<Rightarrow> outcome" where
  "bootstrap_user env now salt b org st =
     (case create_user (av_crypto env) (av_uid env) now salt (og_id org) (bootstrap_email b)
             (from_env (bs_name b) ''CloudNova Administrator'') (bootstrap_password b) ADMIN ACTIVE (ad_ids st) of
        Inl e \<Rightarrow> raises e [] st
      | Inr (u, ids) \<Rightarrow>
          exits 0 [''Created ADMIN user '' @ bootstrap_email b @ '' in organization '' @ quote_name (bootstrap_org b) @ ''.'',
            ''Change this temporary password after first sign-in.''] (st\<lparr>ad_ids := ids\<rparr>))"

definition bootstrap :: "AdminEnv \<Rightarrow> instant \<Rightarrow> string \<Rightarrow> BootstrapEnv \<Rightarrow> AdminStore \<Rightarrow> outcome" where
  "bootstrap env now salt b st =
     (if bootstrap_email b = [] \<or> bootstrap_password b = [] then
        exits 2 [''PAYMENTOPS_BOOTSTRAP_ADMIN_EMAIL and PAYMENTOPS_BOOTSTRAP_ADMIN_PASSWORD are required.''] st
      else if length (bootstrap_password b) < 12 then
        exits 2 [''Password must be at least 12 characters.''] st
      else (case get_user_by_email (av_scan env) (bootstrap_email b) (ad_ids st) of
        Inl e \<Rightarrow> raises e [] st
      | Inr (Some u) \<Rightarrow> exits 0 [''Admin user already exists: '' @ us_email u @ '' (no change).''] st
      | Inr None \<Rightarrow>
          (case find_organization (av_scan env) (bootstrap_org b) st of
             Inl e \<Rightarrow> raises e [] st
           | Inr (Some org) \<Rightarrow> bootstrap_user env now salt b org st
           | Inr None \<Rightarrow>
               (case add_organization (av_uid env) (from_env (bs_org_name b) ''CloudNova'') (bootstrap_org b) st of
                  (org, st') \<Rightarrow> bootstrap_user env now salt b org st'))))"

section \<open>What the commands do\<close>

lemma exits_simps [simp]:
  "fst (exits n out st) = (Inr n, out)" "snd (exits n out st) = st"
  "fst (raises e out st) = (Inl e, out)" "snd (raises e out st) = st"
  by (simp_all add: exits_def raises_def)

lemma exits_eq [simp]:
  "exits n out st = ((Inr m, out'), st') \<longleftrightarrow> n = m \<and> out = out' \<and> st = st'"
  "raises e out st = ((Inr m, out'), st') \<longleftrightarrow> False"
  by (auto simp: exits_def raises_def)

definition acceptable :: "string \<Rightarrow> bool" where
  "acceptable p \<longleftrightarrow> 12 \<le> length p"

lemma password_acceptable: "acceptable p \<Longrightarrow> password_from_env (Some p) = (Some p, [])"
  by (auto simp: acceptable_def password_from_env_def truthy_iff dget_opt_def)

lemma create_user_fails_same:
  "create_user cr uid now salt org email name p role status st = Inl e \<longleftrightarrow>
     create_user cr uid now salt' org email name p' role status st = Inl e"
  by (simp add: create_user_def Let_def)

lemma organization_absent:
  assumes "scan_ok scan" "find_organization scan p st = Inr None"
  shows "p \<notin> og_public_id ` set (ad_orgs st)"
proof
  assume "p \<in> og_public_id ` set (ad_orgs st)"
  then obtain r where "r \<in> set (ad_orgs st)" "og_public_id r = p" by auto
  moreover have "select_where scan (\<lambda>r. og_public_id r = p) (ad_orgs st) = []"
    using assms(2) by (simp add: find_organization_def scalar_one_or_none_cases)
  ultimately show False using set_select_where[OF assms(1), of "\<lambda>r. og_public_id r = p" "ad_orgs st"] by auto
qed

end
