(* ===== verification/PO_AdminProps.thy ===== *)
theory PO_AdminProps
  imports PO_Admin
begin

text \<open>
  Properties of the administration scripts: what they print does not depend on the password, a
  reset of the password gives access again and ends every session, and the bootstrap creates its
  administrator once.
\<close>

section \<open>Output\<close>

text \<open>What a script may tell about a password: that it is missing or empty, too short, or neither.\<close>

datatype password_class = Missing | TooShort | Acceptable

definition password_class :: "string option \<Rightarrow> password_class" where
  "password_class v = (case v of None \<Rightarrow> Missing
     | Some p \<Rightarrow> if p = [] then Missing else if length p < 12 then TooShort else Acceptable)"

lemma password_from_env_class:
  "password_from_env v = (case password_class v of Missing \<Rightarrow> (None, [])
     | TooShort \<Rightarrow> (None, [''PAYMENTOPS_USER_PASSWORD must be at least 12 characters.'']) | Acceptable \<Rightarrow> (v, []))"
  by (auto simp: password_from_env_def password_class_def truthy_iff dget_opt_def split: option.split)

lemma acceptable_some: "password_class v = Acceptable \<Longrightarrow> \<exists>p. v = Some p"
  by (auto simp: password_class_def split: option.splits)

lemma bootstrap_user_output:
  "fst (bootstrap_user env now salt (b\<lparr>bs_password := v\<rparr>) org st) = fst (bootstrap_user env now salt' (b\<lparr>bs_password := v'\<rparr>) org st)"
  by (auto simp: bootstrap_user_def create_user_def bootstrap_email_def bootstrap_org_def Let_def split: sum.split)

lemma bootstrap_class:
  "bootstrap_password (b\<lparr>bs_password := v\<rparr>) = [] \<longleftrightarrow> password_class v = Missing"
  "length (bootstrap_password (b\<lparr>bs_password := v\<rparr>)) < 12 \<longleftrightarrow> password_class v \<noteq> Acceptable"
  by (auto simp: bootstrap_password_def password_class_def dget_opt_def split: option.split)

text \<open>C19: Neither the exit status nor anything that an administration command or the bootstrap prints, nor
  the exception it ends with, depends on the password beyond its class (missing or empty, shorter than
  twelve characters, or acceptable), nor on the salt of its hash. Two passwords of one class, refused ones
  included, give the same output: no password is ever printed, in whole or in part.\<close>

theorem admin_output_hides_password:
  assumes "password_class v = password_class v'"
  shows "fst (run_admin env now salt v c st) = fst (run_admin env now salt' v' c st) \<and>
    fst (bootstrap env now salt (b\<lparr>bs_password := v\<rparr>) st) = fst (bootstrap env now salt' (b\<lparr>bs_password := v'\<rparr>) st)"
proof
  show "fst (run_admin env now salt v c st) = fst (run_admin env now salt' v' c st)"
  proof (cases "password_class v = Acceptable")
    case True
    with assms obtain p p' where p: "v = Some p" "v' = Some p'" using acceptable_some by metis
    show ?thesis
      using True assms unfolding p
      by (cases c) (auto simp: run_admin_def create_user_command_def create_user_def user_command_def command_email_def
          password_from_env_class Let_def split: sum.split option.split)
  next
    case False
    with assms have "password_from_env v = password_from_env v'" "fst (password_from_env v) = None"
      by (auto simp: password_from_env_class split: password_class.split)
    then show ?thesis
      by (cases c) (auto simp: run_admin_def create_user_command_def user_command_def split: sum.split option.split prod.split)
  qed
  show "fst (bootstrap env now salt (b\<lparr>bs_password := v\<rparr>) st) = fst (bootstrap env now salt' (b\<lparr>bs_password := v'\<rparr>) st)"
    using assms unfolding bootstrap_def bootstrap_class
    by (auto simp: bootstrap_email_def bootstrap_org_def intro!: bootstrap_user_output
        split: sum.split option.split prod.split)
qed

theorem admin_output_hides_password_witness:
  "fst (run_admin \<lparr>av_crypto = wit_crypto, av_scan = heap_scan, av_uid = wit_uid\<rparr> 1 ''s'' (Some ''hunter2'')
      (ResetPassword ''a@b'') \<lparr>ad_orgs = [], ad_ids = wit_ids\<rparr>) =
   fst (run_admin \<lparr>av_crypto = wit_crypto, av_scan = heap_scan, av_uid = wit_uid\<rparr> 1 ''t'' (Some ''swordfish'')
      (ResetPassword ''a@b'') \<lparr>ad_orgs = [], ad_ids = wit_ids\<rparr>) \<and>
   fst (run_admin \<lparr>av_crypto = wit_crypto, av_scan = heap_scan, av_uid = wit_uid\<rparr> 1 ''s'' (Some ''correct horse'')
      (ResetPassword ''a@b'') \<lparr>ad_orgs = [], ad_ids = wit_ids\<rparr>) =
   fst (run_admin \<lparr>av_crypto = wit_crypto, av_scan = heap_scan, av_uid = wit_uid\<rparr> 1 ''t'' (Some ''battery staple'')
      (ResetPassword ''a@b'') \<lparr>ad_orgs = [], ad_ids = wit_ids\<rparr>)"
proof
  have "password_class (Some ''hunter2'') = password_class (Some ''swordfish'')" by (simp add: password_class_def)
  from admin_output_hides_password[OF this, THEN conjunct1]
  show "fst (run_admin \<lparr>av_crypto = wit_crypto, av_scan = heap_scan, av_uid = wit_uid\<rparr> 1 ''s'' (Some ''hunter2'')
      (ResetPassword ''a@b'') \<lparr>ad_orgs = [], ad_ids = wit_ids\<rparr>) =
   fst (run_admin \<lparr>av_crypto = wit_crypto, av_scan = heap_scan, av_uid = wit_uid\<rparr> 1 ''t'' (Some ''swordfish'')
      (ResetPassword ''a@b'') \<lparr>ad_orgs = [], ad_ids = wit_ids\<rparr>)" .
  have "password_class (Some ''correct horse'') = password_class (Some ''battery staple'')" by (simp add: password_class_def)
  from admin_output_hides_password[OF this, THEN conjunct1]
  show "fst (run_admin \<lparr>av_crypto = wit_crypto, av_scan = heap_scan, av_uid = wit_uid\<rparr> 1 ''s'' (Some ''correct horse'')
      (ResetPassword ''a@b'') \<lparr>ad_orgs = [], ad_ids = wit_ids\<rparr>) =
   fst (run_admin \<lparr>av_crypto = wit_crypto, av_scan = heap_scan, av_uid = wit_uid\<rparr> 1 ''t'' (Some ''battery staple'')
      (ResetPassword ''a@b'') \<lparr>ad_orgs = [], ad_ids = wit_ids\<rparr>)" .
qed

section \<open>Resetting a password\<close>

lemma user_of_sessions: "user_of (st\<lparr>id_sessions := ss\<rparr>) email = user_of st email"
  by (simp add: user_of_def)

lemma user_of_set_password:
  "user_of st email = Some u \<Longrightarrow> user_of (set_password cr now salt (us_id u) p st) email =
     Some (u\<lparr>us_password_hash := hash_password cr salt p, us_failed_login_count := 0, us_locked_until := None\<rparr>)"
proof -
  assume u: "user_of st email = Some u"
  let ?f = "\<lambda>u. u\<lparr>us_password_hash := hash_password cr salt p, us_failed_login_count := 0, us_locked_until := None\<rparr>"
  have "user_of (set_user (us_id u) ?f st) email = Some (?f u)" by (rule user_of_set_user[OF _ u]) simp
  then show "user_of (set_password cr now salt (us_id u) p st) email = Some (?f u)"
    unfolding set_password_def revoke_all_sessions_def snd_conv user_of_sessions .
qed

lemma open_sessions_revoked: "open_sessions i (snd (revoke_all_sessions now i st)) = []"
proof -
  have "filter (\<lambda>s. se_user_id s = i \<and> se_revoked_at s = None)
      (update_rows (\<lambda>s. se_user_id s = i \<and> se_revoked_at s = None) (\<lambda>s. s\<lparr>se_revoked_at := Some now\<rparr>) ss) = []" for ss
    by (induction ss) (simp_all add: update_rows_def)
  then show ?thesis by (simp add: open_sessions_def revoke_all_sessions_def)
qed

text \<open>C20: After \<open>reset-password\<close> with exit status 0 no session of the user is open, and the new password
  logs an active user in at any time, whatever lockout there was before; with a password that is too
  short or missing the command exits with 2 and changes nothing.\<close>

theorem reset_password_restores_access:
  assumes "scan_ok (av_scan env)" "id_ok uid (ad_ids st)" "user_of (ad_ids st) email = Some u"
  shows "(acceptable p \<longrightarrow> (\<exists>out st'. run_admin env now salt (Some p) (ResetPassword email) st = ((Inr 0, out), st') \<and>
      open_sessions (us_id u) (ad_ids st') = [] \<and>
      (us_status u = ACTIVE \<longrightarrow> (\<exists>v. fst (authenticate (av_crypto env) (av_scan env) t email p (ad_ids st')) = Inr v \<and>
        us_id v = us_id u)))) \<and>
    (fst (password_from_env q) = None \<longrightarrow>
      (\<exists>out. run_admin env now salt q (ResetPassword email) st = ((Inr 2, out), st)))"
proof (intro conjI impI)
  have u: "get_user_by_email (av_scan env) email (ad_ids st) = Inr (Some u)"
    by (simp add: get_user_unique[OF assms(1,2)] assms(3))
  show "\<exists>out. run_admin env now salt q (ResetPassword email) st = ((Inr 2, out), st)"
    if "fst (password_from_env q) = None"
    using that by (cases "password_from_env q") (simp add: run_admin_def command_email_def u user_command_def)
  assume p: "acceptable p"
  let ?ids = "set_password (av_crypto env) now salt (us_id u) p (ad_ids st)"
  have run: "run_admin env now salt (Some p) (ResetPassword email) st =
      ((Inr 0, [''Password reset for '' @ us_email u @ ''; all sessions revoked.'']), st\<lparr>ad_ids := ?ids\<rparr>)"
    using p by (simp add: run_admin_def command_email_def u user_command_def password_acceptable on_ids_def)
  have none: "open_sessions (us_id u) ?ids = []" by (simp add: set_password_def open_sessions_revoked)
  have "get_user_by_email (av_scan env) email ?ids = Inr (user_of ?ids email)"
    by (rule get_user_unique[OF assms(1) set_password_ok[OF assms(2)]])
  then have "us_status u = ACTIVE \<Longrightarrow> \<exists>v. fst (authenticate (av_crypto env) (av_scan env) t email p ?ids) = Inr v \<and>
      us_id v = us_id u"
    by (simp add: authenticate_def user_of_set_password[OF assms(3)] is_locked_def password_verifies)
  with run none show "\<exists>out st'. run_admin env now salt (Some p) (ResetPassword email) st = ((Inr 0, out), st') \<and>
      open_sessions (us_id u) (ad_ids st') = [] \<and>
      (us_status u = ACTIVE \<longrightarrow> (\<exists>v. fst (authenticate (av_crypto env) (av_scan env) t email p (ad_ids st')) = Inr v \<and>
        us_id v = us_id u))"
    by simp
qed

section \<open>The first administrator\<close>

lemma distinct_map_filter_le: "distinct (map f xs) \<Longrightarrow> length (filter (\<lambda>x. f x = y) xs) \<le> 1"
proof (induction xs)
  case (Cons x xs)
  then show ?case by (cases "f x = y") (auto simp: filter_empty_conv image_iff dest: sym)
qed simp

lemma admin_ok_organization:
  assumes "inj uid" "admin_ok uid st" "p \<notin> og_public_id ` set (ad_orgs st)" "add_organization uid name p st = (org, st')"
  shows "admin_ok uid st'" "id_users (ad_ids st') = id_users (ad_ids st)" "og_public_id org = p"
    "og_id org \<in> set (id_organizations (ad_ids st'))" "org \<in> set (ad_orgs st')"
  using assms by (auto simp: add_organization_def Let_def admin_ok_def id_ok_def keys_used_grow)

lemma user_of_append:
  "us_email u = normalize_email email \<Longrightarrow> user_of st email = None \<Longrightarrow>
     user_of (st\<lparr>id_users := id_users st @ [u], id_uuids := n\<rparr>) email = Some u"
proof -
  have "find P xs = None \<Longrightarrow> P u \<Longrightarrow> find P (xs @ [u]) = Some u" for P and xs :: "AppUser list"
    by (induction xs) auto
  then show "us_email u = normalize_email email \<Longrightarrow> user_of st email = None \<Longrightarrow>
      user_of (st\<lparr>id_users := id_users st @ [u], id_uuids := n\<rparr>) email = Some u"
    by (simp add: user_of_def)
qed

lemma bootstrap_user_creates:
  assumes "inj (av_uid env)" "admin_ok (av_uid env) st" "user_of (ad_ids st) (bootstrap_email b) = None"
    and "og_id org \<in> set (id_organizations (ad_ids st))"
  obtains u out ids where "bootstrap_user env now salt b org st = ((Inr 0, out), st\<lparr>ad_ids := ids\<rparr>)"
    and "admin_ok (av_uid env) (st\<lparr>ad_ids := ids\<rparr>)" "user_of ids (bootstrap_email b) = Some u"
    and "id_users ids = id_users (ad_ids st) @ [u]" "us_role u = ADMIN" "us_status u = ACTIVE"
    and "us_organization_id u = og_id org"
    and "verify_password (av_crypto env) (bootstrap_password b) (us_password_hash u)"
proof -
  let ?create = "create_user (av_crypto env) (av_uid env) now salt (og_id org) (bootstrap_email b)
    (from_env (bs_name b) ''CloudNova Administrator'') (bootstrap_password b) ADMIN ACTIVE (ad_ids st)"
  have fresh: "normalize_email (bootstrap_email b) \<notin> us_email ` set (id_users (ad_ids st))"
    using assms(3) by (auto simp: user_of_def find_None_iff)
  then obtain u where u: "?create = Inr (u, (ad_ids st)\<lparr>id_users := id_users (ad_ids st) @ [u],
        id_uuids := Suc (id_uuids (ad_ids st))\<rparr>)"
      "us_email u = normalize_email (bootstrap_email b)" "us_role u = ADMIN" "us_status u = ACTIVE"
      "us_organization_id u = og_id org" "us_password_hash u = hash_password (av_crypto env) salt (bootstrap_password b)"
    using assms(4) by (simp add: create_user_def get_organization_def Let_def)
  let ?ids = "(ad_ids st)\<lparr>id_users := id_users (ad_ids st) @ [u], id_uuids := Suc (id_uuids (ad_ids st))\<rparr>"
  have "id_ok (av_uid env) ?ids"
    using create_user_ok[OF assms(1) _ u(1)] assms(2) by (simp add: admin_ok_def)
  then have "admin_ok (av_uid env) (st\<lparr>ad_ids := ?ids\<rparr>)" using assms(2) by (simp add: admin_ok_def)
  then show thesis
    using u user_of_append[OF u(2) assms(3)] by (intro that[where ids = ?ids and u = u])
      (simp_all add: bootstrap_user_def exits_def password_verifies)
qed

text \<open>A bootstrap of a fresh address comes to create the user, in an organization it found or added.\<close>

lemma bootstrap_reaches_user:
  assumes "scan_ok (av_scan env)" "inj (av_uid env)" "admin_ok (av_uid env) st"
    and "bootstrap_email b \<noteq> []" "acceptable (bootstrap_password b)"
    and "user_of (ad_ids st) (bootstrap_email b) = None"
  obtains org st1 where "bootstrap env now salt b st = bootstrap_user env now salt b org st1"
    and "admin_ok (av_uid env) st1" "id_users (ad_ids st1) = id_users (ad_ids st)"
    and "og_id org \<in> set (id_organizations (ad_ids st1))" "org \<in> set (ad_orgs st1)" "og_public_id org = bootstrap_org b"
proof -
  have ids: "id_ok (av_uid env) (ad_ids st)" using assms(3) by (simp add: admin_ok_def)
  have p: "bootstrap_password b \<noteq> []" "\<not> length (bootstrap_password b) < 12"
    using assms(5) by (auto simp: acceptable_def)
  have start: "bootstrap env now salt b st =
      (case find_organization (av_scan env) (bootstrap_org b) st of
         Inl e \<Rightarrow> raises e [] st
       | Inr (Some org) \<Rightarrow> bootstrap_user env now salt b org st
       | Inr None \<Rightarrow>
           (case add_organization (av_uid env) (from_env (bs_org_name b) ''CloudNova'') (bootstrap_org b) st of
              (org, st') \<Rightarrow> bootstrap_user env now salt b org st'))"
    using assms(4) p by (simp add: bootstrap_def get_user_unique[OF assms(1) ids] assms(6))
  show thesis
  proof (cases "find_organization (av_scan env) (bootstrap_org b) st")
    case (Inl e)
    have "distinct (map og_public_id (ad_orgs st))" using assms(3) by (simp add: admin_ok_def)
    then have "length (select_where (av_scan env) (\<lambda>r. og_public_id r = bootstrap_org b) (ad_orgs st)) \<le> 1"
      by (simp only: length_select_where[OF assms(1)] distinct_map_filter_le)
    with Inl show ?thesis
      by (auto simp: find_organization_def scalar_one_or_none_def split: list.splits)
  next
    case (Inr found)
    show ?thesis
    proof (cases found)
      case None
      obtain org st1 where o: "add_organization (av_uid env) (from_env (bs_org_name b) ''CloudNova'') (bootstrap_org b) st = (org, st1)"
        by (cases "add_organization (av_uid env) (from_env (bs_org_name b) ''CloudNova'') (bootstrap_org b) st")
      have new: "bootstrap_org b \<notin> og_public_id ` set (ad_orgs st)"
        using organization_absent[OF assms(1)] Inr None by simp
      show ?thesis
        using that[of org st1] start Inr None o admin_ok_organization[OF assms(2,3) new o] by simp
    next
      case (Some org)
      then have "org \<in> set (ad_orgs st)" "og_public_id org = bootstrap_org b"
        using Inr set_select_where[OF assms(1), of "\<lambda>r. og_public_id r = bootstrap_org b" "ad_orgs st"]
        by (auto simp: find_organization_def scalar_one_or_none_cases)
      then show ?thesis using that[of org st] start Inr Some assms(3) by (simp add: admin_ok_def)
    qed
  qed
qed

text \<open>C21: The bootstrap of a fresh address succeeds and adds exactly one user, an active administrator of
  the organization with the given public id, whose password is the given one; the organization is
  created if there is none. Every later bootstrap of that address, in any spelling that logs in as it,
  succeeds and changes nothing, whatever its other settings.\<close>

theorem bootstrap_creates_one_admin:
  assumes "scan_ok (av_scan env)" "inj (av_uid env)" "admin_ok (av_uid env) st"
    and "bootstrap_email b \<noteq> []" "acceptable (bootstrap_password b)"
    and "user_of (ad_ids st) (bootstrap_email b) = None"
  shows "\<exists>out st' u org. bootstrap env now salt b st = ((Inr 0, out), st') \<and> admin_ok (av_uid env) st' \<and>
    id_users (ad_ids st') = id_users (ad_ids st) @ [u] \<and> us_role u = ADMIN \<and> us_status u = ACTIVE \<and>
    verify_password (av_crypto env) (bootstrap_password b) (us_password_hash u) \<and>
    org \<in> set (ad_orgs st') \<and> og_public_id org = bootstrap_org b \<and> us_organization_id u = og_id org \<and>
    (\<forall>now' salt' b'. normalize_email (bootstrap_email b') = normalize_email (bootstrap_email b) \<longrightarrow>
       bootstrap_email b' \<noteq> [] \<longrightarrow> acceptable (bootstrap_password b') \<longrightarrow>
       (\<exists>out'. bootstrap env now' salt' b' st' = ((Inr 0, out'), st')))"
proof -
  obtain org st1 where run: "bootstrap env now salt b st = bootstrap_user env now salt b org st1"
    and st1: "admin_ok (av_uid env) st1" "id_users (ad_ids st1) = id_users (ad_ids st)"
      "og_id org \<in> set (id_organizations (ad_ids st1))" "org \<in> set (ad_orgs st1)" "og_public_id org = bootstrap_org b"
    by (rule bootstrap_reaches_user[OF assms])
  have none: "user_of (ad_ids st1) (bootstrap_email b) = None" using assms(6) st1(2) by (simp add: user_of_def)
  obtain u out ids' where u: "bootstrap_user env now salt b org st1 = ((Inr 0, out), st1\<lparr>ad_ids := ids'\<rparr>)"
    "admin_ok (av_uid env) (st1\<lparr>ad_ids := ids'\<rparr>)" "user_of ids' (bootstrap_email b) = Some u"
    "id_users ids' = id_users (ad_ids st1) @ [u]" "us_role u = ADMIN" "us_status u = ACTIVE"
    "us_organization_id u = og_id org"
    "verify_password (av_crypto env) (bootstrap_password b) (us_password_hash u)"
    by (rule bootstrap_user_creates[OF assms(2) st1(1) none st1(3)])
  have again: "\<exists>out'. bootstrap env now' salt' b' (st1\<lparr>ad_ids := ids'\<rparr>) = ((Inr 0, out'), st1\<lparr>ad_ids := ids'\<rparr>)"
    if b': "normalize_email (bootstrap_email b') = normalize_email (bootstrap_email b)" "bootstrap_email b' \<noteq> []"
      "acceptable (bootstrap_password b')" for now' salt' b'
  proof -
    have "user_of ids' (bootstrap_email b') = Some u" using u(3) b'(1) by (simp add: user_of_def)
    moreover have "id_ok (av_uid env) ids'" using u(2) by (simp add: admin_ok_def)
    ultimately have "get_user_by_email (av_scan env) (bootstrap_email b') ids' = Inr (Some u)"
      by (simp add: get_user_unique[OF assms(1)])
    moreover have "bootstrap_password b' \<noteq> []" "\<not> length (bootstrap_password b') < 12"
      using b'(3) by (auto simp: acceptable_def)
    ultimately show ?thesis using b'(2) by (simp add: bootstrap_def)
  qed
  show ?thesis
    using run u st1 again by (intro exI[of _ out] exI[of _ "st1\<lparr>ad_ids := ids'\<rparr>"] exI[of _ u] exI[of _ org]) simp
qed

end
