(* ===== verification/PO_RouteWits.thy ===== *)
theory PO_RouteWits
  imports PO_Reports PO_Dashboard PO_AdminProps PO_IntegrationWits
begin

text \<open>
  Applications of the properties of \<open>PO_Reports\<close>, \<open>PO_Dashboard\<close> and \<open>PO_AdminProps\<close> at concrete
  stores: a run whose candidate has a reference with a comma, a quote and an equals sign, a
  dashboard of two organizations, and the user of \<open>PO_UserProps\<close>.
\<close>

section \<open>Reports\<close>

definition demo_db :: Db where
  "demo_db = \<lparr>db_scan = heap_scan, db_uid = demo_uid, db_numeric = Inr\<rparr>"

definition demo_counts :: RunCounts where
  "demo_counts = \<lparr>ct_total = 1, ct_matched = 1, ct_possible_match = 0, ct_review_required = 0, ct_unmatched = 0,
     ct_duplicate_candidate = 0, ct_failed = 0\<rparr>"

definition demo_run :: MatchRun where
  "demo_run = \<lparr>ru_id = ''r'', ru_organization_id = ''A'', ru_run_type = ''RECONCILIATION'', ru_status = COMPLETED,
     ru_policy_id = None, ru_policy_version = None, ru_source_dataset = [], ru_candidate_dataset = [],
     ru_counts = demo_counts, ru_report = None, ru_created_at = demo_time, ru_started_at = None,
     ru_completed_at = None\<rparr>"

definition demo_reference :: string where
  "demo_reference = [CHR ''='', QUOTE, COMMA, CHR ''1'']"

definition demo_match :: MatchCandidateRow where
  "demo_match = \<lparr>mc_id = ''m'', mc_organization_id = ''A'', mc_run_id = ''r'', mc_source_record_id = demo_reference,
     mc_candidate_record_id = ''B-1'', mc_match_score = 100, mc_classification = MATCHED,
     mc_critical_conflicts = [], mc_field_results = [], mc_explanation_codes = [], mc_policy_version = None,
     mc_engine_version = None, mc_status = ''PROPOSED'', mc_operator = None, mc_note = None,
     mc_created_at = demo_time, mc_decided_at = None\<rparr>"

definition demo_matches :: MatchStore where
  "demo_matches = \<lparr>st_policies = [], st_versions = [], st_records = [], st_runs = [demo_run],
     st_candidates = [demo_match], st_uuids = 0\<rparr>"

lemma demo_candidates: "list_run_candidates demo_db ''A'' ''r'' demo_matches = [demo_match]"
  by (simp add: list_run_candidates_def select_where_def demo_db_def demo_matches_def demo_match_def)

theorem match_report_reads_back_witness:
  "\<exists>body. match_report_route (\<lambda>_. ''100.0'') demo_db demo_client ''r'' demo_matches = Inr body \<and>
     read_rows body = Inr [MATCH_REPORT_HEADER,
       [CHR 0x27 # demo_reference, ''B-1'', ''MATCHED'', ''100.0'', [], ''PROPOSED'']]"
proof -
  have org: "ac_organization_id demo_client = ''A''" by (simp add: demo_client_def)
  obtain body where body: "match_report_route (\<lambda>_. ''100.0'') demo_db demo_client ''r'' demo_matches = Inr body"
    by (simp add: match_report_route_def org get_run_def get_one_def select_where_def demo_db_def demo_matches_def
        demo_run_def scalar_one_or_none_def map_error_def)
  have cells: "match_report_cells (\<lambda>_. ''100.0'') demo_match =
      [CHR 0x27 # demo_reference, ''B-1'', ''MATCHED'', ''100.0'', [], ''PROPOSED'']"
    by (simp add: match_report_cells_def demo_match_def safe_csv_def MatchClassification_value_def demo_reference_def)
  have "list_all (\<lambda>c. short_cells (match_report_cells (\<lambda>_. ''100.0'') c))
      (list_run_candidates demo_db (ac_organization_id demo_client) ''r'' demo_matches)"
    by (simp add: org demo_candidates cells short_cells_def FIELD_LIMIT_def demo_reference_def)
  from match_report_reads_back[OF body this] body show ?thesis by (simp add: org demo_candidates cells)
qed

section \<open>The dashboard\<close>

definition demo_entry :: "string \<Rightarrow> string option \<Rightarrow> AccountEntryRow" where
  "demo_entry org status = \<lparr>er_id = org, er_organization_id = org, er_report_id = ''r'', er_entry_reference = None,
     er_account_servicer_reference = None, er_transaction_id = None, er_instruction_id = None,
     er_end_to_end_id = None, er_uetr = None, er_amount_minor = None, er_currency = None, er_credit_debit = None,
     er_booking_date = None, er_value_date = None, er_status = None, er_bank_tx_code = None,
     er_bank_tx_family = None, er_bank_tx_sub_family = None, er_remittance_reference = None,
     er_identity_hash = [], er_reconciliation_status = status, er_match_score = None, er_lifecycle_id = None,
     er_evidence = [], er_conflicts = [], er_source_hash = None, er_created_at = 0\<rparr>"

definition demo_finding :: "string \<Rightarrow> string \<Rightarrow> RuleFindingRow" where
  "demo_finding org rule = \<lparr>fd_id = org, fd_organization_id = Some org, fd_case_id = ''c'', fd_rule_id = rule,
     fd_severity = ''ERROR'', fd_target = None, fd_message = None\<rparr>"

definition demo_board :: Integ where
  "demo_board = demo_empty\<lparr>ig_ops := demo_ops\<lparr>op_entries :=
     [demo_entry ''A'' (Some ''RECONCILED''), demo_entry ''B'' None],
     op_findings := [demo_finding ''A'' ''ADR-004'', demo_finding ''B'' ''ISO-001'']\<rparr>\<rparr>"

lemma demo_ranked: "top_rules ''A'' demo_board ranked \<Longrightarrow> ranked = [(''ADR-004'', 1)]"
proof -
  assume r: "top_rules ''A'' demo_board ranked"
  have f: "rules_found ''A'' demo_board = {''ADR-004''}" "finding_count ''A'' ''ADR-004'' demo_board = 1"
    by (auto simp: rules_found_def finding_count_def count_where_def demo_board_def demo_ops_def demo_finding_def)
  with r have "length ranked = 1" "fst ` set ranked \<subseteq> {''ADR-004''}" by (simp_all add: top_rules_def)
  then obtain x where "ranked = [x]" "fst x = ''ADR-004''" by (cases ranked) auto
  with r f show "ranked = [(''ADR-004'', 1)]" by (cases x) (simp add: top_rules_def)
qed

theorem dashboard_counts_rows_witness:
  "da_account_entries (dashboard demo_ops_env ''A'' demo_board) = 1 \<and>
   da_account_reconciled (dashboard demo_ops_env ''A'' demo_board) = 1 \<and>
   da_duplicate_entries (dashboard demo_ops_env ''A'' demo_board) = 0 \<and>
   da_top_findings (dashboard demo_ops_env ''A'' demo_board) = [(''ADR-004'', 1)] \<and>
   da_reconciliation_rate (dashboard demo_ops_env ''A'' demo_board) = 100 \<and>
   da_analyzed (dashboard demo_ops_env ''A'' demo_board) = 0"
proof -
  have ok: "no_none pc_address_readiness (op_cases (ig_ops demo_board))"
    "no_none er_reconciliation_status (op_entries (ig_ops demo_board))"
    by (simp_all add: no_none_def demo_board_def demo_ops_def demo_entry_def)
  have counts: "count_where (\<lambda>e. er_organization_id e = ''A'') (op_entries (ig_ops demo_board)) = 1"
    "entry_count ''A'' ''RECONCILED'' demo_board = 1" "entry_count ''A'' ''DUPLICATE_ACCOUNT_ENTRY'' demo_board = 0"
    "count_where (\<lambda>c. pc_organization_id c = Some ''A'') (op_cases (ig_ops demo_board)) = 0"
    by (simp_all add: count_where_def entry_count_def demo_board_def demo_ops_def demo_entry_def)
  show ?thesis
    using dashboard_counts_rows[OF demo_ok(1) ok, of "''A''"] demo_ranked by (simp add: counts)
qed

section \<open>Administration\<close>

definition demo_admin_env :: AdminEnv where
  "demo_admin_env = \<lparr>av_crypto = wit_crypto, av_scan = heap_scan, av_uid = wit_uid\<rparr>"

definition demo_admin :: AdminStore where
  "demo_admin = \<lparr>ad_orgs = [\<lparr>og_id = ''org'', og_name = ''O'', og_public_id = ''o''\<rparr>,
     \<lparr>og_id = ''other'', og_name = ''P'', og_public_id = ''p''\<rparr>], ad_ids = wit_ids\<rparr>"

definition demo_password :: string where
  "demo_password = ''correct horse''"

lemma demo_acceptable: "acceptable demo_password"
  by (simp add: acceptable_def demo_password_def)

theorem reset_password_restores_access_witness:
  "\<exists>out st'. run_admin demo_admin_env 1 ''s'' (Some demo_password) (ResetPassword '' A@b '') demo_admin = ((Inr 0, out), st') \<and>
     open_sessions (wit_uid 0) (ad_ids st') = [] \<and>
     (\<exists>v. fst (authenticate wit_crypto heap_scan 7 '' A@b '' demo_password (ad_ids st')) = Inr v)"
proof -
  have s: "scan_ok (av_scan demo_admin_env)" and i: "id_ok wit_uid (ad_ids demo_admin)"
    and u: "user_of (ad_ids demo_admin) '' A@b '' = Some wit_user"
    by (simp_all add: demo_admin_env_def demo_admin_def wit_ids_ok wit_user_of)
  have a: "us_status wit_user = ACTIVE" "us_id wit_user = wit_uid 0" by (simp_all add: wit_user_def)
  show ?thesis
    using reset_password_restores_access[OF s i u, of demo_password 1 "''s''" 7 None] demo_acceptable a
    by (auto simp: demo_admin_env_def)
qed

definition demo_bootstrap :: BootstrapEnv where
  "demo_bootstrap = \<lparr>bs_email = Some '' Root@x '', bs_password = Some demo_password, bs_name = None,
     bs_org_public_id = Some ''new'', bs_org_name = None\<rparr>"

theorem bootstrap_creates_one_admin_witness:
  "\<exists>out st'. bootstrap demo_admin_env 1 ''s'' demo_bootstrap demo_admin = ((Inr 0, out), st') \<and>
     length (id_users (ad_ids st')) = 2 \<and>
     (\<exists>out'. bootstrap demo_admin_env 9 ''t'' (demo_bootstrap\<lparr>bs_email := Some ''ROOT@x'', bs_org_public_id := None\<rparr>) st' =
        ((Inr 0, out'), st'))"
proof -
  have s: "scan_ok (av_scan demo_admin_env)" "inj (av_uid demo_admin_env)"
    by (simp_all add: demo_admin_env_def wit_uid_inj2)
  have ok: "admin_ok (av_uid demo_admin_env) demo_admin"
    by (simp add: admin_ok_def demo_admin_env_def demo_admin_def wit_ids_ok) (simp add: wit_ids_def)
  have e: "bootstrap_email demo_bootstrap = ''Root@x''"
    and e': "bootstrap_email (demo_bootstrap\<lparr>bs_email := Some ''ROOT@x'', bs_org_public_id := None\<rparr>) = ''ROOT@x''"
    and n: "normalize_email ''Root@x'' = ''root@x''" "normalize_email ''ROOT@x'' = ''root@x''"
    unfolding demo_bootstrap_def bootstrap_email_def from_env_def by code_simp+
  have p: "bootstrap_password demo_bootstrap = demo_password"
    "bootstrap_password (demo_bootstrap\<lparr>bs_email := Some ''ROOT@x'', bs_org_public_id := None\<rparr>) = demo_password"
    by (simp_all add: bootstrap_password_def demo_bootstrap_def dget_opt_def)
  have none: "user_of (ad_ids demo_admin) (bootstrap_email demo_bootstrap) = None"
    by (simp add: e n user_of_def demo_admin_def wit_ids_def wit_user_def)
  have b: "bootstrap_email demo_bootstrap \<noteq> []" "acceptable (bootstrap_password demo_bootstrap)"
    using demo_acceptable by (simp_all add: e p)
  obtain out st' u org where r: "bootstrap demo_admin_env 1 ''s'' demo_bootstrap demo_admin = ((Inr 0, out), st')"
    "id_users (ad_ids st') = id_users (ad_ids demo_admin) @ [u]"
    "\<forall>now' salt' b'. normalize_email (bootstrap_email b') = normalize_email (bootstrap_email demo_bootstrap) \<longrightarrow>
       bootstrap_email b' \<noteq> [] \<longrightarrow> acceptable (bootstrap_password b') \<longrightarrow>
       (\<exists>out'. bootstrap demo_admin_env now' salt' b' st' = ((Inr 0, out'), st'))"
    using bootstrap_creates_one_admin[OF s ok b none, of 1 "''s''"] by metis
  have "length (id_users (ad_ids st')) = 2" by (simp add: r(2) demo_admin_def wit_ids_def)
  moreover have "\<exists>out'. bootstrap demo_admin_env 9 ''t'' (demo_bootstrap\<lparr>bs_email := Some ''ROOT@x'', bs_org_public_id := None\<rparr>) st' =
      ((Inr 0, out'), st')"
    using r(3) demo_acceptable e e' n p by auto
  ultimately show ?thesis using r(1) by blast
qed

end
