(* ===== verification/PO_Schema.thy ===== *)
theory PO_Schema
  imports PO_Text
begin

text \<open>
  The database schema: the migrations of \<open>alembic/versions\<close> as lists of operations, what an operation
  does to a schema, and the tables that the classes under \<open>db/models\<close> declare. A table has its
  columns in order with type and nullability, its unique columns, its foreign keys, all of them to
  the column \<open>id\<close>, and its indexes; every primary key is \<open>id\<close>.
  The names of indexes are not checked to be new. An operation that the database refuses
  gives \<open>None\<close>. The two statements of \<open>0004_audit_event_fix\<close> in SQL are the operations
  \<open>CopyWhereNull\<close>, which changes rows only, and \<open>SetNullable\<close>. Defaults of columns concern rows and are
  left out.
\<close>

section \<open>Schemas\<close>

datatype column_type = UuidT | StringT nat | TextT | BooleanT | IntegerT | FloatT | NumericT nat nat | DateT
  | TimestampT | JsonT

record column =
  cn_name :: string
  cn_type :: column_type
  cn_nullable :: bool

record dbtable =
  tb_name :: string
  tb_columns :: "column list"
  tb_uniques :: "string list"
  tb_foreign :: "(string \<times> string) list"
  tb_indexes :: "(string \<times> string list) list"

type_synonym schema = "dbtable list"

definition required :: "string \<Rightarrow> column_type \<Rightarrow> column" where
  "required n t = \<lparr>cn_name = n, cn_type = t, cn_nullable = False\<rparr>"

definition optional :: "string \<Rightarrow> column_type \<Rightarrow> column" where
  "optional n t = \<lparr>cn_name = n, cn_type = t, cn_nullable = True\<rparr>"

lemma column_simps [simp]:
  "cn_name (required n t) = n" "cn_name (optional n t) = n"
  "(required n t)\<lparr>cn_nullable := b\<rparr> = (if b then optional n t else required n t)"
  "(optional n t)\<lparr>cn_nullable := b\<rparr> = (if b then optional n t else required n t)"
  by (simp_all add: required_def optional_def)

definition table_of :: "string \<Rightarrow> column list \<Rightarrow> string list \<Rightarrow> (string \<times> string) list \<Rightarrow> dbtable" where
  "table_of n cols uniques foreign =
     \<lparr>tb_name = n, tb_columns = cols, tb_uniques = uniques, tb_foreign = foreign, tb_indexes = []\<rparr>"

section \<open>Operations\<close>

datatype migration_op = CreateTable string "column list" "string list" "(string \<times> string) list"
  | DropTable string
  | AddColumn string column
  | DropColumn string string
  | CreateIndex string string "string list"
  | DropIndex string string
  | SetNullable string string bool
  | CopyWhereNull string string string

definition lookup_table :: "string \<Rightarrow> schema \<Rightarrow> dbtable option" where
  "lookup_table n s = find (\<lambda>t. tb_name t = n) s"

definition lookup_column :: "string \<Rightarrow> dbtable \<Rightarrow> column option" where
  "lookup_column c t = find (\<lambda>x. cn_name x = c) (tb_columns t)"

definition has_column :: "dbtable \<Rightarrow> string \<Rightarrow> bool" where
  "has_column t c = (lookup_column c t \<noteq> None)"

text \<open>An operation on a table that must exist, under a condition on it.\<close>

definition change_table :: "string \<Rightarrow> (dbtable \<Rightarrow> bool) \<Rightarrow> (dbtable \<Rightarrow> dbtable) \<Rightarrow> schema \<Rightarrow> schema option" where
  "change_table n ok f s = (case lookup_table n s of None \<Rightarrow> None
     | Some t \<Rightarrow> if ok t then Some (map (\<lambda>x. if tb_name x = n then f x else x) s) else None)"

definition drop_column :: "string \<Rightarrow> dbtable \<Rightarrow> dbtable" where
  "drop_column c t = t\<lparr>tb_columns := filter (\<lambda>x. cn_name x \<noteq> c) (tb_columns t),
     tb_uniques := filter (\<lambda>u. u \<noteq> c) (tb_uniques t), tb_foreign := filter (\<lambda>(x, _). x \<noteq> c) (tb_foreign t),
     tb_indexes := filter (\<lambda>(_, cs). \<not> List.member cs c) (tb_indexes t)\<rparr>"

definition apply_op :: "migration_op \<Rightarrow> schema \<Rightarrow> schema option" where
  "apply_op m s = (case m of
     CreateTable n cols uniques foreign \<Rightarrow>
       if lookup_table n s = None \<and> list_all (\<lambda>(_, p). lookup_table p s \<noteq> None) foreign
       then Some (s @ [table_of n cols uniques foreign]) else None
   | DropTable n \<Rightarrow>
       if lookup_table n s \<noteq> None \<and>
          list_all (\<lambda>t. tb_name t = n \<or> list_all (\<lambda>(_, p). p \<noteq> n) (tb_foreign t)) s
       then Some (filter (\<lambda>t. tb_name t \<noteq> n) s) else None
   | AddColumn n c \<Rightarrow> change_table n (\<lambda>t. \<not> has_column t (cn_name c)) (\<lambda>t. t\<lparr>tb_columns := tb_columns t @ [c]\<rparr>) s
   | DropColumn n c \<Rightarrow> change_table n (\<lambda>t. has_column t c) (drop_column c) s
   | CreateIndex i n cs \<Rightarrow>
       change_table n (\<lambda>t. list_all (has_column t) cs) (\<lambda>t. t\<lparr>tb_indexes := tb_indexes t @ [(i, cs)]\<rparr>) s
   | DropIndex i n \<Rightarrow> change_table n (\<lambda>t. list_ex (\<lambda>(j, _). j = i) (tb_indexes t))
       (\<lambda>t. t\<lparr>tb_indexes := filter (\<lambda>(j, _). j \<noteq> i) (tb_indexes t)\<rparr>) s
   | SetNullable n c b \<Rightarrow> change_table n (\<lambda>t. has_column t c) (\<lambda>t. t\<lparr>tb_columns :=
       map (\<lambda>x. if cn_name x = c then x\<lparr>cn_nullable := b\<rparr> else x) (tb_columns t)\<rparr>) s
   | CopyWhereNull n c d \<Rightarrow> change_table n (\<lambda>t. has_column t c \<and> has_column t d) (\<lambda>t. t) s)"

fun run_ops :: "migration_op list \<Rightarrow> schema \<Rightarrow> schema option" where
  "run_ops [] s = Some s"
| "run_ops (m # ms) s = (case apply_op m s of None \<Rightarrow> None | Some s' \<Rightarrow> run_ops ms s')"

record revision =
  rv_id :: string
  rv_down_revision :: "string option"
  rv_upgrade :: "migration_op list"
  rv_downgrade :: "migration_op list"

section \<open>The migrations\<close>

definition upgrade_0001_organizations :: "migration_op list" where
  "upgrade_0001_organizations =
    [CreateTable ''organizations''
       [required ''id'' UuidT, required ''name'' (StringT 255), required ''public_id'' (StringT 64),
        required ''is_active'' BooleanT, required ''created_at'' TimestampT, required ''updated_at'' TimestampT]
       [''public_id''] [],
     CreateIndex ''ix_organizations_public_id'' ''organizations'' [''public_id'']]"

definition upgrade_0001_app_metadata :: "migration_op list" where
  "upgrade_0001_app_metadata =
    [CreateTable ''app_metadata''
       [required ''id'' IntegerT, required ''key'' (StringT 128), required ''value'' (StringT 512)]
       [''key''] []]"

definition downgrade_0001 :: "migration_op list" where
  "downgrade_0001 =
    [DropTable ''app_metadata'', DropIndex ''ix_organizations_public_id'' ''organizations'',
     DropTable ''organizations'']"

definition upgrade_0001 :: "migration_op list" where
  "upgrade_0001 = upgrade_0001_organizations @ upgrade_0001_app_metadata"

definition revision_0001 :: revision where
  "revision_0001 = \<lparr>rv_id = ''0001_platform'', rv_down_revision = None,
     rv_upgrade = upgrade_0001, rv_downgrade = downgrade_0001\<rparr>"

definition upgrade_0002_payment_cases :: "migration_op list" where
  "upgrade_0002_payment_cases =
    [CreateTable ''payment_cases''
       [required ''id'' UuidT, required ''case_id'' (StringT 64), optional ''message_type'' (StringT 64),
        optional ''message_version'' (StringT 64), optional ''validation_status'' (StringT 32),
        optional ''address_readiness'' (StringT 32), optional ''repair_status'' (StringT 32),
        optional ''ruleset_version'' (StringT 64), optional ''address_provider'' (StringT 64),
        optional ''address_provider_version'' (StringT 64), optional ''input_hash'' (StringT 64),
        optional ''output_hash'' (StringT 64), required ''created_at'' TimestampT]
       [''case_id''] [],
     CreateIndex ''ix_payment_cases_case_id'' ''payment_cases'' [''case_id'']]"

definition upgrade_0002_analysis_runs :: "migration_op list" where
  "upgrade_0002_analysis_runs =
    [CreateTable ''analysis_runs''
       [required ''id'' UuidT, required ''case_id'' (StringT 64), required ''status'' (StringT 32),
        optional ''duration_ms'' IntegerT, required ''created_at'' TimestampT]
       [] [],
     CreateIndex ''ix_analysis_runs_case_id'' ''analysis_runs'' [''case_id'']]"

definition upgrade_0002_rule_findings :: "migration_op list" where
  "upgrade_0002_rule_findings =
    [CreateTable ''rule_findings''
       [required ''id'' UuidT, required ''case_id'' (StringT 64), required ''rule_id'' (StringT 32),
        required ''severity'' (StringT 16), optional ''target'' (StringT 256),
        optional ''message'' (StringT 256)]
       [] [],
     CreateIndex ''ix_rule_findings_case_id'' ''rule_findings'' [''case_id'']]"

definition upgrade_0002_repair_candidates :: "migration_op list" where
  "upgrade_0002_repair_candidates =
    [CreateTable ''repair_candidates''
       [required ''id'' UuidT, required ''case_id'' (StringT 64), required ''candidate_id'' (StringT 64),
        required ''status'' (StringT 32), optional ''xml_sha256'' (StringT 64),
        required ''created_at'' TimestampT]
       [] [],
     CreateIndex ''ix_repair_candidates_case_id'' ''repair_candidates'' [''case_id'']]"

definition upgrade_0002_audit_events :: "migration_op list" where
  "upgrade_0002_audit_events =
    [CreateTable ''audit_events''
       [required ''id'' UuidT, required ''case_id'' (StringT 64), required ''event'' (StringT 64),
        required ''created_at'' TimestampT]
       [] [],
     CreateIndex ''ix_audit_events_case_id'' ''audit_events'' [''case_id'']]"

definition downgrade_0002 :: "migration_op list" where
  "downgrade_0002 =
    [DropTable ''audit_events'', DropTable ''repair_candidates'', DropTable ''rule_findings'',
     DropTable ''analysis_runs'', DropIndex ''ix_payment_cases_case_id'' ''payment_cases'',
     DropTable ''payment_cases'']"

definition upgrade_0002 :: "migration_op list" where
  "upgrade_0002 = upgrade_0002_payment_cases @ upgrade_0002_analysis_runs @ upgrade_0002_rule_findings @
     upgrade_0002_repair_candidates @ upgrade_0002_audit_events"

definition revision_0002 :: revision where
  "revision_0002 = \<lparr>rv_id = ''0002_analysis'', rv_down_revision = Some ''0001_platform'',
     rv_upgrade = upgrade_0002, rv_downgrade = downgrade_0002\<rparr>"

definition upgrade_0003_payment_cases :: "migration_op list" where
  "upgrade_0003_payment_cases =
    [AddColumn ''payment_cases'' (optional ''organization_id'' UuidT),
     AddColumn ''payment_cases'' (optional ''mapping_version'' (StringT 64)),
     AddColumn ''payment_cases'' (optional ''integration_profile_version'' (StringT 64)),
     AddColumn ''payment_cases'' (optional ''engine_version'' (StringT 64)),
     AddColumn ''payment_cases'' (optional ''address_provider_coverage'' (StringT 32)),
     AddColumn ''payment_cases'' (required ''status'' (StringT 32)),
     AddColumn ''payment_cases'' (optional ''idempotency_key'' (StringT 128)),
     CreateIndex ''ix_payment_cases_organization_id'' ''payment_cases'' [''organization_id''],
     CreateIndex ''ix_payment_cases_idempotency_key'' ''payment_cases'' [''idempotency_key'']]"

definition upgrade_0003_analysis_runs :: "migration_op list" where
  "upgrade_0003_analysis_runs =
    [AddColumn ''analysis_runs'' (optional ''organization_id'' UuidT),
     CreateIndex ''ix_analysis_runs_organization_id'' ''analysis_runs'' [''organization_id'']]"

definition upgrade_0003_rule_findings :: "migration_op list" where
  "upgrade_0003_rule_findings =
    [AddColumn ''rule_findings'' (optional ''organization_id'' UuidT),
     CreateIndex ''ix_rule_findings_organization_id'' ''rule_findings'' [''organization_id'']]"

definition upgrade_0003_repair_candidates :: "migration_op list" where
  "upgrade_0003_repair_candidates =
    [AddColumn ''repair_candidates'' (optional ''organization_id'' UuidT),
     CreateIndex ''ix_repair_candidates_organization_id'' ''repair_candidates'' [''organization_id'']]"

definition upgrade_0003_audit_events :: "migration_op list" where
  "upgrade_0003_audit_events =
    [AddColumn ''audit_events'' (optional ''organization_id'' UuidT),
     AddColumn ''audit_events'' (optional ''profile_id'' (StringT 64)),
     AddColumn ''audit_events'' (optional ''profile_version'' (StringT 64)),
     AddColumn ''audit_events'' (optional ''mapping_version'' (StringT 64)),
     AddColumn ''audit_events'' (optional ''ruleset_version'' (StringT 64)),
     AddColumn ''audit_events'' (optional ''event_type'' (StringT 64)),
     AddColumn ''audit_events'' (optional ''user_identity'' (StringT 128)),
     AddColumn ''audit_events'' (optional ''input_hash'' (StringT 64)),
     AddColumn ''audit_events'' (optional ''output_hash'' (StringT 64)),
     AddColumn ''audit_events'' (optional ''action_metadata'' JsonT),
     CreateIndex ''ix_audit_events_organization_id'' ''audit_events'' [''organization_id'']]"

definition upgrade_0003_integration_profiles :: "migration_op list" where
  "upgrade_0003_integration_profiles =
    [CreateTable ''integration_profiles''
       [required ''id'' UuidT, required ''organization_id'' UuidT, required ''name'' (StringT 128),
        required ''description'' TextT, required ''status'' (StringT 32),
        required ''input_format'' (StringT 32), required ''output_format'' (StringT 32),
        required ''retention_policy'' (StringT 32), required ''address_policy'' (StringT 32),
        required ''ai_policy'' (StringT 32), required ''mapping'' JsonT, required ''rules'' JsonT,
        required ''version_number'' IntegerT, required ''created_at'' TimestampT,
        required ''updated_at'' TimestampT, optional ''published_at'' TimestampT]
       [] [(''organization_id'', ''organizations'')],
     CreateIndex ''ix_integration_profiles_organization_id'' ''integration_profiles'' [''organization_id'']]"

definition upgrade_0003_integration_profile_versions :: "migration_op list" where
  "upgrade_0003_integration_profile_versions =
    [CreateTable ''integration_profile_versions''
       [required ''id'' UuidT, required ''profile_id'' UuidT, required ''organization_id'' UuidT,
        required ''version_number'' IntegerT, required ''name'' (StringT 128),
        required ''input_format'' (StringT 32), required ''mapping'' JsonT, required ''rules'' JsonT,
        required ''mapping_version'' (StringT 64), required ''ruleset_version'' (StringT 64),
        required ''published_at'' TimestampT]
       [] [(''profile_id'', ''integration_profiles'')],
     CreateIndex ''ix_integration_profile_versions_profile_id'' ''integration_profile_versions'' [''profile_id''],
     CreateIndex ''ix_integration_profile_versions_organization_id'' ''integration_profile_versions'' [''organization_id'']]"

definition upgrade_0003_api_clients :: "migration_op list" where
  "upgrade_0003_api_clients =
    [CreateTable ''api_clients''
       [required ''id'' UuidT, required ''client_id'' (StringT 64), required ''secret_hash'' (StringT 256),
        required ''organization_id'' UuidT, required ''allowed_profiles'' JsonT,
        required ''status'' (StringT 32), required ''created_at'' TimestampT,
        optional ''last_used_at'' TimestampT]
       [''client_id''] [(''organization_id'', ''organizations'')],
     CreateIndex ''ix_api_clients_organization_id'' ''api_clients'' [''organization_id'']]"

definition upgrade_0003_batch_jobs :: "migration_op list" where
  "upgrade_0003_batch_jobs =
    [CreateTable ''batch_jobs''
       [required ''id'' UuidT, required ''organization_id'' UuidT, required ''profile_id'' UuidT,
        required ''profile_version'' IntegerT, required ''status'' (StringT 32),
        required ''total_records'' IntegerT, required ''processed_records'' IntegerT,
        required ''ready_count'' IntegerT, required ''repairable_count'' IntegerT,
        required ''review_required_count'' IntegerT, required ''unresolved_count'' IntegerT,
        required ''failed_count'' IntegerT, optional ''report'' JsonT, required ''created_at'' TimestampT,
        optional ''started_at'' TimestampT, optional ''completed_at'' TimestampT]
       [] [(''organization_id'', ''organizations'')],
     CreateIndex ''ix_batch_jobs_organization_id'' ''batch_jobs'' [''organization_id'']]"

definition upgrade_0003_case_actions :: "migration_op list" where
  "upgrade_0003_case_actions =
    [CreateTable ''case_actions''
       [required ''id'' UuidT, required ''organization_id'' UuidT, required ''case_id'' (StringT 64),
        required ''action'' (StringT 32), optional ''operator'' (StringT 128), optional ''note'' TextT,
        required ''created_at'' TimestampT]
       [] [],
     CreateIndex ''ix_case_actions_organization_id'' ''case_actions'' [''organization_id''],
     CreateIndex ''ix_case_actions_case_id'' ''case_actions'' [''case_id'']]"

definition downgrade_0003 :: "migration_op list" where
  "downgrade_0003 =
    [DropTable ''case_actions'', DropTable ''batch_jobs'', DropTable ''api_clients'',
     DropTable ''integration_profile_versions'', DropTable ''integration_profiles'',
     DropColumn ''audit_events'' ''action_metadata'', DropColumn ''audit_events'' ''output_hash'',
     DropColumn ''audit_events'' ''input_hash'', DropColumn ''audit_events'' ''user_identity'',
     DropColumn ''audit_events'' ''event_type'', DropColumn ''audit_events'' ''ruleset_version'',
     DropColumn ''audit_events'' ''mapping_version'', DropColumn ''audit_events'' ''profile_version'',
     DropColumn ''audit_events'' ''profile_id'',
     DropIndex ''ix_audit_events_organization_id'' ''audit_events'',
     DropColumn ''audit_events'' ''organization_id'', DropColumn ''repair_candidates'' ''organization_id'',
     DropColumn ''rule_findings'' ''organization_id'', DropColumn ''analysis_runs'' ''organization_id'',
     DropIndex ''ix_payment_cases_idempotency_key'' ''payment_cases'',
     DropColumn ''payment_cases'' ''idempotency_key'', DropColumn ''payment_cases'' ''status'',
     DropColumn ''payment_cases'' ''address_provider_coverage'',
     DropColumn ''payment_cases'' ''engine_version'',
     DropColumn ''payment_cases'' ''integration_profile_version'',
     DropColumn ''payment_cases'' ''mapping_version'',
     DropIndex ''ix_payment_cases_organization_id'' ''payment_cases'',
     DropColumn ''payment_cases'' ''organization_id'']"

definition upgrade_0003 :: "migration_op list" where
  "upgrade_0003 = upgrade_0003_payment_cases @ upgrade_0003_analysis_runs @ upgrade_0003_rule_findings @
     upgrade_0003_repair_candidates @ upgrade_0003_audit_events @ upgrade_0003_integration_profiles @
     upgrade_0003_integration_profile_versions @ upgrade_0003_api_clients @ upgrade_0003_batch_jobs @
     upgrade_0003_case_actions"

definition revision_0003 :: revision where
  "revision_0003 = \<lparr>rv_id = ''0003_week3'', rv_down_revision = Some ''0002_analysis'',
     rv_upgrade = upgrade_0003, rv_downgrade = downgrade_0003\<rparr>"

definition upgrade_0004 :: "migration_op list" where
  "upgrade_0004 =
    [CopyWhereNull ''audit_events'' ''event_type'' ''event'',
     DropColumn ''audit_events'' ''event'',
     SetNullable ''audit_events'' ''event_type'' False]"

definition downgrade_0004 :: "migration_op list" where
  "downgrade_0004 =
    [SetNullable ''audit_events'' ''event_type'' True,
     AddColumn ''audit_events'' (optional ''event'' (StringT 64))]"

definition revision_0004 :: revision where
  "revision_0004 = \<lparr>rv_id = ''0004_audit_event_fix'', rv_down_revision = Some ''0003_week3'',
     rv_upgrade = upgrade_0004, rv_downgrade = downgrade_0004\<rparr>"

definition upgrade_0005_match_records :: "migration_op list" where
  "upgrade_0005_match_records =
    [CreateTable ''match_records''
       [required ''id'' UuidT, required ''organization_id'' UuidT, required ''record_id'' (StringT 128),
        required ''record_type'' (StringT 32), optional ''profile_id'' (StringT 64),
        optional ''source_system'' (StringT 64), optional ''message_type'' (StringT 64),
        optional ''instruction_id'' (StringT 128), optional ''end_to_end_id'' (StringT 128),
        optional ''transaction_id'' (StringT 128), optional ''amount'' (NumericT 24 6),
        optional ''currency'' (StringT 3), optional ''booking_date'' DateT, optional ''value_date'' DateT,
        optional ''debtor_name'' (StringT 256), optional ''creditor_name'' (StringT 256),
        optional ''debtor_account'' (StringT 128), optional ''creditor_account'' (StringT 128),
        optional ''debtor_agent'' (StringT 64), optional ''creditor_agent'' (StringT 64),
        optional ''remittance_reference'' (StringT 256), optional ''external_reference'' (StringT 256),
        optional ''country'' (StringT 2), optional ''source_hash'' (StringT 64),
        required ''metadata_json'' JsonT, required ''created_at'' TimestampT]
       [] [(''organization_id'', ''organizations'')],
     CreateIndex ''ix_match_records_organization_id'' ''match_records'' [''organization_id''],
     CreateIndex ''ix_match_records_record_id'' ''match_records'' [''record_id''],
     CreateIndex ''ix_match_records_org_type'' ''match_records'' [''organization_id'', ''record_type'']]"

definition upgrade_0005_matching_policies :: "migration_op list" where
  "upgrade_0005_matching_policies =
    [CreateTable ''matching_policies''
       [required ''id'' UuidT, required ''organization_id'' UuidT, required ''name'' (StringT 128),
        required ''status'' (StringT 32), required ''created_at'' TimestampT,
        required ''updated_at'' TimestampT, optional ''published_at'' TimestampT]
       [] [(''organization_id'', ''organizations'')],
     CreateIndex ''ix_matching_policies_organization_id'' ''matching_policies'' [''organization_id'']]"

definition upgrade_0005_matching_policy_versions :: "migration_op list" where
  "upgrade_0005_matching_policy_versions =
    [CreateTable ''matching_policy_versions''
       [required ''id'' UuidT, required ''policy_id'' UuidT, required ''organization_id'' UuidT,
        required ''version_number'' IntegerT, required ''name'' (StringT 128),
        required ''field_weights'' JsonT, required ''thresholds'' JsonT, required ''date_tolerances'' JsonT,
        required ''amount_tolerances'' JsonT, required ''critical_fields'' JsonT,
        required ''fuzzy_algorithms'' JsonT, required ''published_at'' TimestampT]
       [] [(''policy_id'', ''matching_policies'')],
     CreateIndex ''ix_matching_policy_versions_policy_id'' ''matching_policy_versions'' [''policy_id''],
     CreateIndex ''ix_matching_policy_versions_organization_id'' ''matching_policy_versions'' [''organization_id'']]"

definition upgrade_0005_match_runs :: "migration_op list" where
  "upgrade_0005_match_runs =
    [CreateTable ''match_runs''
       [required ''id'' UuidT, required ''organization_id'' UuidT, required ''run_type'' (StringT 32),
        required ''status'' (StringT 32), optional ''policy_id'' UuidT,
        optional ''policy_version'' (StringT 64), required ''source_dataset'' JsonT,
        required ''candidate_dataset'' JsonT, required ''total'' IntegerT, required ''matched'' IntegerT,
        required ''possible_match'' IntegerT, required ''review_required'' IntegerT,
        required ''unmatched'' IntegerT, required ''duplicate_candidate'' IntegerT,
        required ''failed'' IntegerT, optional ''report'' JsonT, required ''created_at'' TimestampT,
        optional ''started_at'' TimestampT, optional ''completed_at'' TimestampT]
       [] [(''organization_id'', ''organizations'')],
     CreateIndex ''ix_match_runs_organization_id'' ''match_runs'' [''organization_id'']]"

definition upgrade_0005_match_candidates :: "migration_op list" where
  "upgrade_0005_match_candidates =
    [CreateTable ''match_candidates''
       [required ''id'' UuidT, required ''organization_id'' UuidT, required ''run_id'' UuidT,
        required ''source_record_id'' (StringT 128), required ''candidate_record_id'' (StringT 128),
        required ''match_score'' FloatT, required ''classification'' (StringT 32),
        required ''critical_conflicts'' JsonT, required ''field_results'' JsonT,
        required ''explanation_codes'' JsonT, optional ''policy_version'' (StringT 64),
        optional ''engine_version'' (StringT 64), required ''status'' (StringT 32),
        optional ''operator'' (StringT 128), optional ''note'' TextT, required ''created_at'' TimestampT,
        optional ''decided_at'' TimestampT]
       [] [(''organization_id'', ''organizations''), (''run_id'', ''match_runs'')],
     CreateIndex ''ix_match_candidates_organization_id'' ''match_candidates'' [''organization_id''],
     CreateIndex ''ix_match_candidates_run_id'' ''match_candidates'' [''run_id''],
     CreateIndex ''ix_match_candidates_source_record_id'' ''match_candidates'' [''source_record_id'']]"

definition downgrade_0005 :: "migration_op list" where
  "downgrade_0005 =
    [DropTable ''match_candidates'', DropTable ''match_runs'', DropTable ''matching_policy_versions'',
     DropTable ''matching_policies'', DropTable ''match_records'']"

definition upgrade_0005 :: "migration_op list" where
  "upgrade_0005 = upgrade_0005_match_records @ upgrade_0005_matching_policies @ upgrade_0005_matching_policy_versions @
     upgrade_0005_match_runs @ upgrade_0005_match_candidates"

definition revision_0005 :: revision where
  "revision_0005 = \<lparr>rv_id = ''0005_matching'', rv_down_revision = Some ''0004_audit_event_fix'',
     rv_upgrade = upgrade_0005, rv_downgrade = downgrade_0005\<rparr>"

definition upgrade_0006_iso_messages :: "migration_op list" where
  "upgrade_0006_iso_messages =
    [CreateTable ''iso_messages''
       [required ''id'' UuidT, required ''organization_id'' UuidT, optional ''message_id'' (StringT 128),
        required ''message_family'' (StringT 16), required ''message_definition'' (StringT 64),
        required ''message_version'' (StringT 32), required ''namespace'' (StringT 128),
        required ''source_adapter'' (StringT 64), required ''adapter_version'' (StringT 16),
        required ''schema_version'' (StringT 32), required ''schema_validation'' BooleanT,
        required ''message_hash'' (StringT 64), optional ''input_hash'' (StringT 64),
        optional ''canonical_model_version'' (StringT 64), optional ''engine_version'' (StringT 32),
        required ''status'' (StringT 32), optional ''raw_status'' (StringT 32),
        optional ''normalized_status'' (StringT 32), required ''processed_at'' TimestampT,
        required ''created_at'' TimestampT]
       [] [(''organization_id'', ''organizations'')],
     CreateIndex ''ix_iso_messages_organization_id'' ''iso_messages'' [''organization_id''],
     CreateIndex ''ix_iso_messages_message_hash'' ''iso_messages'' [''message_hash'']]"

definition upgrade_0006_payment_lifecycles :: "migration_op list" where
  "upgrade_0006_payment_lifecycles =
    [CreateTable ''payment_lifecycles''
       [required ''id'' UuidT, required ''organization_id'' UuidT, required ''lifecycle_id'' (StringT 64),
        optional ''primary_reference'' (StringT 128), optional ''end_to_end_id'' (StringT 128),
        optional ''instruction_id'' (StringT 128), optional ''transaction_id'' (StringT 128),
        optional ''uetr'' (StringT 64), optional ''original_message_id'' (StringT 128),
        optional ''amount_minor'' IntegerT, optional ''currency'' (StringT 3),
        required ''current_status'' (StringT 32), required ''created_at'' TimestampT,
        required ''updated_at'' TimestampT]
       [] [(''organization_id'', ''organizations'')],
     CreateIndex ''ix_payment_lifecycles_organization_id'' ''payment_lifecycles'' [''organization_id''],
     CreateIndex ''ix_payment_lifecycles_lifecycle_id'' ''payment_lifecycles'' [''lifecycle_id'']]"

definition upgrade_0006_payment_lifecycle_events :: "migration_op list" where
  "upgrade_0006_payment_lifecycle_events =
    [CreateTable ''payment_lifecycle_events''
       [required ''id'' UuidT, required ''organization_id'' UuidT, required ''lifecycle_id'' UuidT,
        required ''event_type'' (StringT 32), optional ''message_family'' (StringT 16),
        optional ''message_definition'' (StringT 64), optional ''message_version'' (StringT 32),
        optional ''message_id'' (StringT 128), optional ''timestamp'' TimestampT,
        required ''status'' (StringT 32), optional ''raw_status_code'' (StringT 32),
        required ''reasons'' JsonT, required ''correlation_evidence'' JsonT,
        optional ''source_hash'' (StringT 64), required ''created_at'' TimestampT]
       [] [(''organization_id'', ''organizations''), (''lifecycle_id'', ''payment_lifecycles'')],
     CreateIndex ''ix_payment_lifecycle_events_organization_id'' ''payment_lifecycle_events'' [''organization_id''],
     CreateIndex ''ix_payment_lifecycle_events_lifecycle_id'' ''payment_lifecycle_events'' [''lifecycle_id'']]"

definition upgrade_0006_message_correlations :: "migration_op list" where
  "upgrade_0006_message_correlations =
    [CreateTable ''message_correlations''
       [required ''id'' UuidT, required ''organization_id'' UuidT, required ''lifecycle_id'' UuidT,
        optional ''source_message_id'' (StringT 128), optional ''candidate_message_id'' (StringT 128),
        required ''correlation_status'' (StringT 32), required ''evidence'' JsonT,
        required ''conflicts'' JsonT, optional ''operator'' (StringT 128), optional ''note'' TextT,
        required ''created_at'' TimestampT, optional ''decided_at'' TimestampT]
       [] [(''organization_id'', ''organizations''), (''lifecycle_id'', ''payment_lifecycles'')],
     CreateIndex ''ix_message_correlations_organization_id'' ''message_correlations'' [''organization_id''],
     CreateIndex ''ix_message_correlations_lifecycle_id'' ''message_correlations'' [''lifecycle_id'']]"

definition downgrade_0006 :: "migration_op list" where
  "downgrade_0006 =
    [DropTable ''message_correlations'', DropTable ''payment_lifecycle_events'',
     DropTable ''payment_lifecycles'', DropTable ''iso_messages'']"

definition upgrade_0006 :: "migration_op list" where
  "upgrade_0006 = upgrade_0006_iso_messages @ upgrade_0006_payment_lifecycles @ upgrade_0006_payment_lifecycle_events @
     upgrade_0006_message_correlations"

definition revision_0006 :: revision where
  "revision_0006 = \<lparr>rv_id = ''0006_lifecycle'', rv_down_revision = Some ''0005_matching'',
     rv_upgrade = upgrade_0006, rv_downgrade = downgrade_0006\<rparr>"

definition upgrade_0007 :: "migration_op list" where
  "upgrade_0007 =
    [AddColumn ''integration_profiles'' (required ''allowed_messages'' JsonT)]"

definition downgrade_0007 :: "migration_op list" where
  "downgrade_0007 =
    [DropColumn ''integration_profiles'' ''allowed_messages'']"

definition revision_0007 :: revision where
  "revision_0007 = \<lparr>rv_id = ''0007_profile_allowed_messages'', rv_down_revision = Some ''0006_lifecycle'',
     rv_upgrade = upgrade_0007, rv_downgrade = downgrade_0007\<rparr>"

definition upgrade_0008_payment_lifecycles :: "migration_op list" where
  "upgrade_0008_payment_lifecycles =
    [AddColumn ''payment_lifecycles'' (optional ''debtor_account'' (StringT 64)),
     AddColumn ''payment_lifecycles'' (optional ''creditor_account'' (StringT 64))]"

definition upgrade_0008_account_reports :: "migration_op list" where
  "upgrade_0008_account_reports =
    [CreateTable ''account_reports''
       [required ''id'' UuidT, required ''organization_id'' UuidT, optional ''iso_message_id'' UuidT,
        optional ''message_id'' (StringT 128), required ''message_definition'' (StringT 64),
        required ''message_version'' (StringT 32), required ''report_type'' (StringT 16),
        optional ''account_iban'' (StringT 64), optional ''account_other_id'' (StringT 64),
        optional ''account_currency'' (StringT 3), optional ''servicer_bic'' (StringT 11),
        optional ''statement_id'' (StringT 64), optional ''notification_id'' (StringT 64),
        optional ''period_start'' DateT, optional ''period_end'' DateT, required ''entry_count'' IntegerT,
        optional ''source_hash'' (StringT 64), required ''created_at'' TimestampT]
       [] [(''organization_id'', ''organizations''), (''iso_message_id'', ''iso_messages'')],
     CreateIndex ''ix_account_reports_organization_id'' ''account_reports'' [''organization_id''],
     CreateIndex ''ix_account_reports_iso_message_id'' ''account_reports'' [''iso_message_id''],
     CreateIndex ''ix_account_reports_account_iban'' ''account_reports'' [''account_iban'']]"

definition upgrade_0008_account_entries :: "migration_op list" where
  "upgrade_0008_account_entries =
    [CreateTable ''account_entries''
       [required ''id'' UuidT, required ''organization_id'' UuidT, required ''report_id'' UuidT,
        optional ''entry_reference'' (StringT 64), optional ''account_servicer_reference'' (StringT 64),
        optional ''transaction_id'' (StringT 128), optional ''instruction_id'' (StringT 128),
        optional ''end_to_end_id'' (StringT 128), optional ''uetr'' (StringT 64),
        optional ''amount_minor'' IntegerT, optional ''currency'' (StringT 3),
        optional ''credit_debit'' (StringT 4), optional ''booking_date'' DateT, optional ''value_date'' DateT,
        optional ''status'' (StringT 16), optional ''bank_tx_code'' (StringT 8),
        optional ''bank_tx_family'' (StringT 8), optional ''bank_tx_sub_family'' (StringT 8),
        optional ''remittance_reference'' (StringT 256), required ''identity_hash'' (StringT 64),
        optional ''reconciliation_status'' (StringT 32), optional ''match_score'' FloatT,
        optional ''lifecycle_id'' UuidT, required ''evidence'' JsonT, required ''conflicts'' JsonT,
        optional ''source_hash'' (StringT 64), required ''created_at'' TimestampT]
       [] [(''organization_id'', ''organizations''), (''report_id'', ''account_reports''), (''lifecycle_id'', ''payment_lifecycles'')],
     CreateIndex ''ix_account_entries_organization_id'' ''account_entries'' [''organization_id''],
     CreateIndex ''ix_account_entries_report_id'' ''account_entries'' [''report_id''],
     CreateIndex ''ix_account_entries_identity_hash'' ''account_entries'' [''identity_hash''],
     CreateIndex ''ix_account_entries_reconciliation_status'' ''account_entries'' [''reconciliation_status''],
     CreateIndex ''ix_account_entries_lifecycle_id'' ''account_entries'' [''lifecycle_id'']]"

definition upgrade_0008_account_balances :: "migration_op list" where
  "upgrade_0008_account_balances =
    [CreateTable ''account_balances''
       [required ''id'' UuidT, required ''organization_id'' UuidT, required ''report_id'' UuidT,
        required ''balance_type'' (StringT 8), required ''amount_minor'' IntegerT,
        required ''currency'' (StringT 3), required ''credit_debit'' (StringT 4),
        required ''created_at'' TimestampT]
       [] [(''organization_id'', ''organizations''), (''report_id'', ''account_reports'')],
     CreateIndex ''ix_account_balances_organization_id'' ''account_balances'' [''organization_id''],
     CreateIndex ''ix_account_balances_report_id'' ''account_balances'' [''report_id'']]"

definition upgrade_0008_account_reconciliations :: "migration_op list" where
  "upgrade_0008_account_reconciliations =
    [CreateTable ''account_reconciliations''
       [required ''id'' UuidT, required ''organization_id'' UuidT, required ''account_entry_id'' UuidT,
        optional ''lifecycle_id'' UuidT, required ''classification'' (StringT 32),
        required ''match_score'' FloatT, required ''evidence'' JsonT, required ''conflicts'' JsonT,
        required ''status'' (StringT 16), optional ''operator'' (StringT 128), optional ''note'' TextT,
        required ''created_at'' TimestampT, optional ''decided_at'' TimestampT]
       [] [(''organization_id'', ''organizations''), (''account_entry_id'', ''account_entries''), (''lifecycle_id'', ''payment_lifecycles'')],
     CreateIndex ''ix_account_reconciliations_organization_id'' ''account_reconciliations'' [''organization_id''],
     CreateIndex ''ix_account_reconciliations_account_entry_id'' ''account_reconciliations'' [''account_entry_id''],
     CreateIndex ''ix_account_reconciliations_lifecycle_id'' ''account_reconciliations'' [''lifecycle_id''],
     CreateIndex ''ix_account_reconciliations_classification'' ''account_reconciliations'' [''classification'']]"

definition downgrade_0008 :: "migration_op list" where
  "downgrade_0008 =
    [DropTable ''account_reconciliations'', DropTable ''account_balances'', DropTable ''account_entries'',
     DropTable ''account_reports'', DropColumn ''payment_lifecycles'' ''creditor_account'',
     DropColumn ''payment_lifecycles'' ''debtor_account'']"

definition upgrade_0008 :: "migration_op list" where
  "upgrade_0008 = upgrade_0008_payment_lifecycles @ upgrade_0008_account_reports @ upgrade_0008_account_entries @
     upgrade_0008_account_balances @ upgrade_0008_account_reconciliations"

definition revision_0008 :: revision where
  "revision_0008 = \<lparr>rv_id = ''0008_account'', rv_down_revision = Some ''0007_profile_allowed_messages'',
     rv_upgrade = upgrade_0008, rv_downgrade = downgrade_0008\<rparr>"

definition upgrade_0009_app_users :: "migration_op list" where
  "upgrade_0009_app_users =
    [CreateTable ''app_users''
       [required ''id'' UuidT, required ''organization_id'' UuidT, required ''email'' (StringT 255),
        required ''display_name'' (StringT 255), required ''password_hash'' (StringT 256),
        required ''role'' (StringT 16), required ''status'' (StringT 16),
        required ''failed_login_count'' IntegerT, optional ''locked_until'' TimestampT,
        optional ''last_login_at'' TimestampT, required ''created_at'' TimestampT,
        required ''updated_at'' TimestampT]
       [''email''] [(''organization_id'', ''organizations'')],
     CreateIndex ''ix_app_users_organization_id'' ''app_users'' [''organization_id''],
     CreateIndex ''ix_app_users_email'' ''app_users'' [''email'']]"

definition upgrade_0009_user_sessions :: "migration_op list" where
  "upgrade_0009_user_sessions =
    [CreateTable ''user_sessions''
       [required ''id'' UuidT, required ''user_id'' UuidT, required ''organization_id'' UuidT,
        required ''token_hash'' (StringT 64), required ''created_at'' TimestampT,
        required ''expires_at'' TimestampT, optional ''last_seen_at'' TimestampT,
        optional ''revoked_at'' TimestampT]
       [''token_hash''] [(''user_id'', ''app_users''), (''organization_id'', ''organizations'')],
     CreateIndex ''ix_user_sessions_user_id'' ''user_sessions'' [''user_id''],
     CreateIndex ''ix_user_sessions_organization_id'' ''user_sessions'' [''organization_id''],
     CreateIndex ''ix_user_sessions_token_hash'' ''user_sessions'' [''token_hash'']]"

definition downgrade_0009 :: "migration_op list" where
  "downgrade_0009 =
    [DropTable ''user_sessions'', DropTable ''app_users'']"

definition upgrade_0009 :: "migration_op list" where
  "upgrade_0009 = upgrade_0009_app_users @ upgrade_0009_user_sessions"

definition revision_0009 :: revision where
  "revision_0009 = \<lparr>rv_id = ''0009_users_sessions'', rv_down_revision = Some ''0008_account'',
     rv_upgrade = upgrade_0009, rv_downgrade = downgrade_0009\<rparr>"

definition upgrade_0010 :: "migration_op list" where
  "upgrade_0010 =
    [SetNullable ''audit_events'' ''case_id'' True]"

definition downgrade_0010 :: "migration_op list" where
  "downgrade_0010 =
    [SetNullable ''audit_events'' ''case_id'' False]"

definition revision_0010 :: revision where
  "revision_0010 = \<lparr>rv_id = ''0010_audit_case_nullable'', rv_down_revision = Some ''0009_users_sessions'',
     rv_upgrade = upgrade_0010, rv_downgrade = downgrade_0010\<rparr>"

definition revisions :: "revision list" where
  "revisions = [revision_0001, revision_0002, revision_0003, revision_0004, revision_0005, revision_0006, revision_0007,
     revision_0008, revision_0009, revision_0010]"

section \<open>The declared tables\<close>

definition declared_organizations :: dbtable where
  "declared_organizations = table_of ''organizations''
     [required ''id'' UuidT, required ''name'' (StringT 255), required ''public_id'' (StringT 64),
      required ''is_active'' BooleanT, required ''created_at'' TimestampT, required ''updated_at'' TimestampT]
     [''public_id''] []"

definition declared_app_metadata :: dbtable where
  "declared_app_metadata = table_of ''app_metadata''
     [required ''id'' IntegerT, required ''key'' (StringT 128), required ''value'' (StringT 512)]
     [''key''] []"

definition declared_payment_cases :: dbtable where
  "declared_payment_cases = table_of ''payment_cases''
     [required ''id'' UuidT, required ''case_id'' (StringT 64), optional ''organization_id'' UuidT,
      optional ''message_type'' (StringT 64), optional ''message_version'' (StringT 64),
      optional ''validation_status'' (StringT 32), optional ''address_readiness'' (StringT 32),
      optional ''repair_status'' (StringT 32), optional ''ruleset_version'' (StringT 64),
      optional ''mapping_version'' (StringT 64), optional ''integration_profile_version'' (StringT 64),
      optional ''engine_version'' (StringT 64), optional ''address_provider'' (StringT 64),
      optional ''address_provider_version'' (StringT 64), optional ''address_provider_coverage'' (StringT 32),
      optional ''input_hash'' (StringT 64), optional ''output_hash'' (StringT 64),
      required ''status'' (StringT 32), optional ''idempotency_key'' (StringT 128),
      required ''created_at'' TimestampT]
     [''case_id''] [(''organization_id'', ''organizations'')]"

definition declared_analysis_runs :: dbtable where
  "declared_analysis_runs = table_of ''analysis_runs''
     [required ''id'' UuidT, optional ''organization_id'' UuidT, required ''case_id'' (StringT 64),
      required ''status'' (StringT 32), optional ''duration_ms'' IntegerT, required ''created_at'' TimestampT]
     [] []"

definition declared_rule_findings :: dbtable where
  "declared_rule_findings = table_of ''rule_findings''
     [required ''id'' UuidT, optional ''organization_id'' UuidT, required ''case_id'' (StringT 64),
      required ''rule_id'' (StringT 32), required ''severity'' (StringT 16), optional ''target'' (StringT 256),
      optional ''message'' (StringT 256)]
     [] []"

definition declared_repair_candidates :: dbtable where
  "declared_repair_candidates = table_of ''repair_candidates''
     [required ''id'' UuidT, optional ''organization_id'' UuidT, required ''case_id'' (StringT 64),
      required ''candidate_id'' (StringT 64), required ''status'' (StringT 32),
      optional ''xml_sha256'' (StringT 64), required ''created_at'' TimestampT]
     [] []"

definition declared_audit_events :: dbtable where
  "declared_audit_events = table_of ''audit_events''
     [required ''id'' UuidT, optional ''organization_id'' UuidT, optional ''case_id'' (StringT 64),
      optional ''profile_id'' (StringT 64), optional ''profile_version'' (StringT 64),
      optional ''mapping_version'' (StringT 64), optional ''ruleset_version'' (StringT 64),
      required ''event_type'' (StringT 64), optional ''user_identity'' (StringT 128),
      optional ''input_hash'' (StringT 64), optional ''output_hash'' (StringT 64),
      optional ''action_metadata'' JsonT, required ''created_at'' TimestampT]
     [] []"

definition declared_integration_profiles :: dbtable where
  "declared_integration_profiles = table_of ''integration_profiles''
     [required ''id'' UuidT, required ''organization_id'' UuidT, required ''name'' (StringT 128),
      required ''description'' TextT, required ''status'' (StringT 32), required ''input_format'' (StringT 32),
      required ''output_format'' (StringT 32), required ''retention_policy'' (StringT 32),
      required ''address_policy'' (StringT 32), required ''ai_policy'' (StringT 32),
      required ''allowed_messages'' JsonT, required ''mapping'' JsonT, required ''rules'' JsonT,
      required ''version_number'' IntegerT, required ''created_at'' TimestampT,
      required ''updated_at'' TimestampT, optional ''published_at'' TimestampT]
     [] [(''organization_id'', ''organizations'')]"

definition declared_integration_profile_versions :: dbtable where
  "declared_integration_profile_versions = table_of ''integration_profile_versions''
     [required ''id'' UuidT, required ''profile_id'' UuidT, required ''organization_id'' UuidT,
      required ''version_number'' IntegerT, required ''name'' (StringT 128),
      required ''input_format'' (StringT 32), required ''mapping'' JsonT, required ''rules'' JsonT,
      required ''mapping_version'' (StringT 64), required ''ruleset_version'' (StringT 64),
      required ''published_at'' TimestampT]
     [] [(''profile_id'', ''integration_profiles'')]"

definition declared_api_clients :: dbtable where
  "declared_api_clients = table_of ''api_clients''
     [required ''id'' UuidT, required ''client_id'' (StringT 64), required ''secret_hash'' (StringT 256),
      required ''organization_id'' UuidT, required ''allowed_profiles'' JsonT,
      required ''status'' (StringT 32), required ''created_at'' TimestampT, optional ''last_used_at'' TimestampT]
     [''client_id''] [(''organization_id'', ''organizations'')]"

definition declared_batch_jobs :: dbtable where
  "declared_batch_jobs = table_of ''batch_jobs''
     [required ''id'' UuidT, required ''organization_id'' UuidT, required ''profile_id'' UuidT,
      required ''profile_version'' IntegerT, required ''status'' (StringT 32),
      required ''total_records'' IntegerT, required ''processed_records'' IntegerT,
      required ''ready_count'' IntegerT, required ''repairable_count'' IntegerT,
      required ''review_required_count'' IntegerT, required ''unresolved_count'' IntegerT,
      required ''failed_count'' IntegerT, optional ''report'' JsonT, required ''created_at'' TimestampT,
      optional ''started_at'' TimestampT, optional ''completed_at'' TimestampT]
     [] [(''organization_id'', ''organizations'')]"

definition declared_case_actions :: dbtable where
  "declared_case_actions = table_of ''case_actions''
     [required ''id'' UuidT, required ''organization_id'' UuidT, required ''case_id'' (StringT 64),
      required ''action'' (StringT 32), optional ''operator'' (StringT 128), optional ''note'' TextT,
      required ''created_at'' TimestampT]
     [] []"

definition declared_match_records :: dbtable where
  "declared_match_records = table_of ''match_records''
     [required ''id'' UuidT, required ''organization_id'' UuidT, required ''record_id'' (StringT 128),
      required ''record_type'' (StringT 32), optional ''profile_id'' (StringT 64),
      optional ''source_system'' (StringT 64), optional ''message_type'' (StringT 64),
      optional ''instruction_id'' (StringT 128), optional ''end_to_end_id'' (StringT 128),
      optional ''transaction_id'' (StringT 128), optional ''amount'' (NumericT 24 6),
      optional ''currency'' (StringT 3), optional ''booking_date'' DateT, optional ''value_date'' DateT,
      optional ''debtor_name'' (StringT 256), optional ''creditor_name'' (StringT 256),
      optional ''debtor_account'' (StringT 128), optional ''creditor_account'' (StringT 128),
      optional ''debtor_agent'' (StringT 64), optional ''creditor_agent'' (StringT 64),
      optional ''remittance_reference'' (StringT 256), optional ''external_reference'' (StringT 256),
      optional ''country'' (StringT 2), optional ''source_hash'' (StringT 64),
      required ''metadata_json'' JsonT, required ''created_at'' TimestampT]
     [] [(''organization_id'', ''organizations'')]"

definition declared_matching_policies :: dbtable where
  "declared_matching_policies = table_of ''matching_policies''
     [required ''id'' UuidT, required ''organization_id'' UuidT, required ''name'' (StringT 128),
      required ''status'' (StringT 32), required ''created_at'' TimestampT, required ''updated_at'' TimestampT,
      optional ''published_at'' TimestampT]
     [] [(''organization_id'', ''organizations'')]"

definition declared_matching_policy_versions :: dbtable where
  "declared_matching_policy_versions = table_of ''matching_policy_versions''
     [required ''id'' UuidT, required ''policy_id'' UuidT, required ''organization_id'' UuidT,
      required ''version_number'' IntegerT, required ''name'' (StringT 128), required ''field_weights'' JsonT,
      required ''thresholds'' JsonT, required ''date_tolerances'' JsonT, required ''amount_tolerances'' JsonT,
      required ''critical_fields'' JsonT, required ''fuzzy_algorithms'' JsonT,
      required ''published_at'' TimestampT]
     [] [(''policy_id'', ''matching_policies'')]"

definition declared_match_runs :: dbtable where
  "declared_match_runs = table_of ''match_runs''
     [required ''id'' UuidT, required ''organization_id'' UuidT, required ''run_type'' (StringT 32),
      required ''status'' (StringT 32), optional ''policy_id'' UuidT, optional ''policy_version'' (StringT 64),
      required ''source_dataset'' JsonT, required ''candidate_dataset'' JsonT, required ''total'' IntegerT,
      required ''matched'' IntegerT, required ''possible_match'' IntegerT,
      required ''review_required'' IntegerT, required ''unmatched'' IntegerT,
      required ''duplicate_candidate'' IntegerT, required ''failed'' IntegerT, optional ''report'' JsonT,
      required ''created_at'' TimestampT, optional ''started_at'' TimestampT,
      optional ''completed_at'' TimestampT]
     [] [(''organization_id'', ''organizations'')]"

definition declared_match_candidates :: dbtable where
  "declared_match_candidates = table_of ''match_candidates''
     [required ''id'' UuidT, required ''organization_id'' UuidT, required ''run_id'' UuidT,
      required ''source_record_id'' (StringT 128), required ''candidate_record_id'' (StringT 128),
      required ''match_score'' FloatT, required ''classification'' (StringT 32),
      required ''critical_conflicts'' JsonT, required ''field_results'' JsonT,
      required ''explanation_codes'' JsonT, optional ''policy_version'' (StringT 64),
      optional ''engine_version'' (StringT 64), required ''status'' (StringT 32),
      optional ''operator'' (StringT 128), optional ''note'' TextT, required ''created_at'' TimestampT,
      optional ''decided_at'' TimestampT]
     [] [(''organization_id'', ''organizations''), (''run_id'', ''match_runs'')]"

definition declared_iso_messages :: dbtable where
  "declared_iso_messages = table_of ''iso_messages''
     [required ''id'' UuidT, required ''organization_id'' UuidT, optional ''message_id'' (StringT 128),
      required ''message_family'' (StringT 16), required ''message_definition'' (StringT 64),
      required ''message_version'' (StringT 32), required ''namespace'' (StringT 128),
      required ''source_adapter'' (StringT 64), required ''adapter_version'' (StringT 16),
      required ''schema_version'' (StringT 32), required ''schema_validation'' BooleanT,
      required ''message_hash'' (StringT 64), optional ''input_hash'' (StringT 64),
      optional ''canonical_model_version'' (StringT 64), optional ''engine_version'' (StringT 32),
      required ''status'' (StringT 32), optional ''raw_status'' (StringT 32),
      optional ''normalized_status'' (StringT 32), required ''processed_at'' TimestampT,
      required ''created_at'' TimestampT]
     [] [(''organization_id'', ''organizations'')]"

definition declared_payment_lifecycles :: dbtable where
  "declared_payment_lifecycles = table_of ''payment_lifecycles''
     [required ''id'' UuidT, required ''organization_id'' UuidT, required ''lifecycle_id'' (StringT 64),
      optional ''primary_reference'' (StringT 128), optional ''end_to_end_id'' (StringT 128),
      optional ''instruction_id'' (StringT 128), optional ''transaction_id'' (StringT 128),
      optional ''uetr'' (StringT 64), optional ''original_message_id'' (StringT 128),
      optional ''debtor_account'' (StringT 64), optional ''creditor_account'' (StringT 64),
      optional ''amount_minor'' IntegerT, optional ''currency'' (StringT 3),
      required ''current_status'' (StringT 32), required ''created_at'' TimestampT,
      required ''updated_at'' TimestampT]
     [''lifecycle_id''] [(''organization_id'', ''organizations'')]"

definition declared_payment_lifecycle_events :: dbtable where
  "declared_payment_lifecycle_events = table_of ''payment_lifecycle_events''
     [required ''id'' UuidT, required ''organization_id'' UuidT, required ''lifecycle_id'' UuidT,
      required ''event_type'' (StringT 32), optional ''message_family'' (StringT 16),
      optional ''message_definition'' (StringT 64), optional ''message_version'' (StringT 32),
      optional ''message_id'' (StringT 128), optional ''timestamp'' TimestampT,
      required ''status'' (StringT 32), optional ''raw_status_code'' (StringT 32), required ''reasons'' JsonT,
      required ''correlation_evidence'' JsonT, optional ''source_hash'' (StringT 64),
      required ''created_at'' TimestampT]
     [] [(''organization_id'', ''organizations''), (''lifecycle_id'', ''payment_lifecycles'')]"

definition declared_message_correlations :: dbtable where
  "declared_message_correlations = table_of ''message_correlations''
     [required ''id'' UuidT, required ''organization_id'' UuidT, required ''lifecycle_id'' UuidT,
      optional ''source_message_id'' (StringT 128), optional ''candidate_message_id'' (StringT 128),
      required ''correlation_status'' (StringT 32), required ''evidence'' JsonT, required ''conflicts'' JsonT,
      optional ''operator'' (StringT 128), optional ''note'' TextT, required ''created_at'' TimestampT,
      optional ''decided_at'' TimestampT]
     [] [(''organization_id'', ''organizations''), (''lifecycle_id'', ''payment_lifecycles'')]"

definition declared_account_reports :: dbtable where
  "declared_account_reports = table_of ''account_reports''
     [required ''id'' UuidT, required ''organization_id'' UuidT, optional ''iso_message_id'' UuidT,
      optional ''message_id'' (StringT 128), required ''message_definition'' (StringT 64),
      required ''message_version'' (StringT 32), required ''report_type'' (StringT 16),
      optional ''account_iban'' (StringT 64), optional ''account_other_id'' (StringT 64),
      optional ''account_currency'' (StringT 3), optional ''servicer_bic'' (StringT 11),
      optional ''statement_id'' (StringT 64), optional ''notification_id'' (StringT 64),
      optional ''period_start'' DateT, optional ''period_end'' DateT, required ''entry_count'' IntegerT,
      optional ''source_hash'' (StringT 64), required ''created_at'' TimestampT]
     [] [(''organization_id'', ''organizations''), (''iso_message_id'', ''iso_messages'')]"

definition declared_account_entries :: dbtable where
  "declared_account_entries = table_of ''account_entries''
     [required ''id'' UuidT, required ''organization_id'' UuidT, required ''report_id'' UuidT,
      optional ''entry_reference'' (StringT 64), optional ''account_servicer_reference'' (StringT 64),
      optional ''transaction_id'' (StringT 128), optional ''instruction_id'' (StringT 128),
      optional ''end_to_end_id'' (StringT 128), optional ''uetr'' (StringT 64),
      optional ''amount_minor'' IntegerT, optional ''currency'' (StringT 3),
      optional ''credit_debit'' (StringT 4), optional ''booking_date'' DateT, optional ''value_date'' DateT,
      optional ''status'' (StringT 16), optional ''bank_tx_code'' (StringT 8),
      optional ''bank_tx_family'' (StringT 8), optional ''bank_tx_sub_family'' (StringT 8),
      optional ''remittance_reference'' (StringT 256), required ''identity_hash'' (StringT 64),
      optional ''reconciliation_status'' (StringT 32), optional ''match_score'' FloatT,
      optional ''lifecycle_id'' UuidT, required ''evidence'' JsonT, required ''conflicts'' JsonT,
      optional ''source_hash'' (StringT 64), required ''created_at'' TimestampT]
     [] [(''organization_id'', ''organizations''), (''report_id'', ''account_reports''), (''lifecycle_id'', ''payment_lifecycles'')]"

definition declared_account_balances :: dbtable where
  "declared_account_balances = table_of ''account_balances''
     [required ''id'' UuidT, required ''organization_id'' UuidT, required ''report_id'' UuidT,
      required ''balance_type'' (StringT 8), required ''amount_minor'' IntegerT,
      required ''currency'' (StringT 3), required ''credit_debit'' (StringT 4),
      required ''created_at'' TimestampT]
     [] [(''organization_id'', ''organizations''), (''report_id'', ''account_reports'')]"

definition declared_account_reconciliations :: dbtable where
  "declared_account_reconciliations = table_of ''account_reconciliations''
     [required ''id'' UuidT, required ''organization_id'' UuidT, required ''account_entry_id'' UuidT,
      optional ''lifecycle_id'' UuidT, required ''classification'' (StringT 32),
      required ''match_score'' FloatT, required ''evidence'' JsonT, required ''conflicts'' JsonT,
      required ''status'' (StringT 16), optional ''operator'' (StringT 128), optional ''note'' TextT,
      required ''created_at'' TimestampT, optional ''decided_at'' TimestampT]
     [] [(''organization_id'', ''organizations''), (''account_entry_id'', ''account_entries''), (''lifecycle_id'', ''payment_lifecycles'')]"

definition declared_app_users :: dbtable where
  "declared_app_users = table_of ''app_users''
     [required ''id'' UuidT, required ''organization_id'' UuidT, required ''email'' (StringT 255),
      required ''display_name'' (StringT 255), required ''password_hash'' (StringT 256),
      required ''role'' (StringT 16), required ''status'' (StringT 16),
      required ''failed_login_count'' IntegerT, optional ''locked_until'' TimestampT,
      optional ''last_login_at'' TimestampT, required ''created_at'' TimestampT,
      required ''updated_at'' TimestampT]
     [''email''] [(''organization_id'', ''organizations'')]"

definition declared_user_sessions :: dbtable where
  "declared_user_sessions = table_of ''user_sessions''
     [required ''id'' UuidT, required ''user_id'' UuidT, required ''organization_id'' UuidT,
      required ''token_hash'' (StringT 64), required ''created_at'' TimestampT,
      required ''expires_at'' TimestampT, optional ''last_seen_at'' TimestampT,
      optional ''revoked_at'' TimestampT]
     [''token_hash''] [(''user_id'', ''app_users''), (''organization_id'', ''organizations'')]"

definition declared_tables :: "dbtable list" where
  "declared_tables =
    [declared_organizations, declared_app_metadata, declared_payment_cases, declared_analysis_runs,
     declared_rule_findings, declared_repair_candidates, declared_audit_events, declared_integration_profiles,
     declared_integration_profile_versions, declared_api_clients, declared_batch_jobs, declared_case_actions,
     declared_match_records, declared_matching_policies, declared_matching_policy_versions,
     declared_match_runs, declared_match_candidates, declared_iso_messages, declared_payment_lifecycles,
     declared_payment_lifecycle_events, declared_message_correlations, declared_account_reports,
     declared_account_entries, declared_account_balances, declared_account_reconciliations, declared_app_users,
     declared_user_sessions]"

end
