(* ===== verification/PO_SchemaStates.thy ===== *)
theory PO_SchemaStates
  imports PO_Schema
begin

text \<open>
  The schemas that the migrations leave, table by table: \<open>t_k\<close> is table \<open>t\<close> after the revision
  \<open>k\<close> that last changed it, \<open>schema_k\<close> the whole schema. The lemmas \<open>upgrade_step\<close> and
  \<open>downgrade_step\<close> evaluate every migration between them.
\<close>

section \<open>The tables\<close>

definition organizations_0001 :: dbtable where
  "organizations_0001 = (table_of ''organizations''
     [required ''id'' UuidT, required ''name'' (StringT 255), required ''public_id'' (StringT 64),
      required ''is_active'' BooleanT, required ''created_at'' TimestampT, required ''updated_at'' TimestampT]
     [''public_id''] [])
     \<lparr>tb_indexes := [(''ix_organizations_public_id'', [''public_id''])]\<rparr>"

definition app_metadata_0001 :: dbtable where
  "app_metadata_0001 = (table_of ''app_metadata''
     [required ''id'' IntegerT, required ''key'' (StringT 128), required ''value'' (StringT 512)]
     [''key''] [])
     \<lparr>tb_indexes := []\<rparr>"

definition payment_cases_0002 :: dbtable where
  "payment_cases_0002 = (table_of ''payment_cases''
     [required ''id'' UuidT, required ''case_id'' (StringT 64), optional ''message_type'' (StringT 64),
      optional ''message_version'' (StringT 64), optional ''validation_status'' (StringT 32),
      optional ''address_readiness'' (StringT 32), optional ''repair_status'' (StringT 32),
      optional ''ruleset_version'' (StringT 64), optional ''address_provider'' (StringT 64),
      optional ''address_provider_version'' (StringT 64), optional ''input_hash'' (StringT 64),
      optional ''output_hash'' (StringT 64), required ''created_at'' TimestampT]
     [''case_id''] [])
     \<lparr>tb_indexes := [(''ix_payment_cases_case_id'', [''case_id''])]\<rparr>"

definition analysis_runs_0002 :: dbtable where
  "analysis_runs_0002 = (table_of ''analysis_runs''
     [required ''id'' UuidT, required ''case_id'' (StringT 64), required ''status'' (StringT 32),
      optional ''duration_ms'' IntegerT, required ''created_at'' TimestampT]
     [] [])
     \<lparr>tb_indexes := [(''ix_analysis_runs_case_id'', [''case_id''])]\<rparr>"

definition rule_findings_0002 :: dbtable where
  "rule_findings_0002 = (table_of ''rule_findings''
     [required ''id'' UuidT, required ''case_id'' (StringT 64), required ''rule_id'' (StringT 32),
      required ''severity'' (StringT 16), optional ''target'' (StringT 256), optional ''message'' (StringT 256)]
     [] [])
     \<lparr>tb_indexes := [(''ix_rule_findings_case_id'', [''case_id''])]\<rparr>"

definition repair_candidates_0002 :: dbtable where
  "repair_candidates_0002 = (table_of ''repair_candidates''
     [required ''id'' UuidT, required ''case_id'' (StringT 64), required ''candidate_id'' (StringT 64),
      required ''status'' (StringT 32), optional ''xml_sha256'' (StringT 64), required ''created_at'' TimestampT]
     [] [])
     \<lparr>tb_indexes := [(''ix_repair_candidates_case_id'', [''case_id''])]\<rparr>"

definition audit_events_0002 :: dbtable where
  "audit_events_0002 = (table_of ''audit_events''
     [required ''id'' UuidT, required ''case_id'' (StringT 64), required ''event'' (StringT 64),
      required ''created_at'' TimestampT]
     [] [])
     \<lparr>tb_indexes := [(''ix_audit_events_case_id'', [''case_id''])]\<rparr>"

definition payment_cases_0003 :: dbtable where
  "payment_cases_0003 = (table_of ''payment_cases''
     [required ''id'' UuidT, required ''case_id'' (StringT 64), optional ''message_type'' (StringT 64),
      optional ''message_version'' (StringT 64), optional ''validation_status'' (StringT 32),
      optional ''address_readiness'' (StringT 32), optional ''repair_status'' (StringT 32),
      optional ''ruleset_version'' (StringT 64), optional ''address_provider'' (StringT 64),
      optional ''address_provider_version'' (StringT 64), optional ''input_hash'' (StringT 64),
      optional ''output_hash'' (StringT 64), required ''created_at'' TimestampT,
      optional ''organization_id'' UuidT, optional ''mapping_version'' (StringT 64),
      optional ''integration_profile_version'' (StringT 64), optional ''engine_version'' (StringT 64),
      optional ''address_provider_coverage'' (StringT 32), required ''status'' (StringT 32),
      optional ''idempotency_key'' (StringT 128)]
     [''case_id''] [])
     \<lparr>tb_indexes := [(''ix_payment_cases_case_id'', [''case_id'']),
      (''ix_payment_cases_organization_id'', [''organization_id'']),
      (''ix_payment_cases_idempotency_key'', [''idempotency_key''])]\<rparr>"

definition analysis_runs_0003 :: dbtable where
  "analysis_runs_0003 = (table_of ''analysis_runs''
     [required ''id'' UuidT, required ''case_id'' (StringT 64), required ''status'' (StringT 32),
      optional ''duration_ms'' IntegerT, required ''created_at'' TimestampT, optional ''organization_id'' UuidT]
     [] [])
     \<lparr>tb_indexes := [(''ix_analysis_runs_case_id'', [''case_id'']),
      (''ix_analysis_runs_organization_id'', [''organization_id''])]\<rparr>"

definition rule_findings_0003 :: dbtable where
  "rule_findings_0003 = (table_of ''rule_findings''
     [required ''id'' UuidT, required ''case_id'' (StringT 64), required ''rule_id'' (StringT 32),
      required ''severity'' (StringT 16), optional ''target'' (StringT 256),
      optional ''message'' (StringT 256), optional ''organization_id'' UuidT]
     [] [])
     \<lparr>tb_indexes := [(''ix_rule_findings_case_id'', [''case_id'']),
      (''ix_rule_findings_organization_id'', [''organization_id''])]\<rparr>"

definition repair_candidates_0003 :: dbtable where
  "repair_candidates_0003 = (table_of ''repair_candidates''
     [required ''id'' UuidT, required ''case_id'' (StringT 64), required ''candidate_id'' (StringT 64),
      required ''status'' (StringT 32), optional ''xml_sha256'' (StringT 64),
      required ''created_at'' TimestampT, optional ''organization_id'' UuidT]
     [] [])
     \<lparr>tb_indexes := [(''ix_repair_candidates_case_id'', [''case_id'']),
      (''ix_repair_candidates_organization_id'', [''organization_id''])]\<rparr>"

definition audit_events_0003 :: dbtable where
  "audit_events_0003 = (table_of ''audit_events''
     [required ''id'' UuidT, required ''case_id'' (StringT 64), required ''event'' (StringT 64),
      required ''created_at'' TimestampT, optional ''organization_id'' UuidT,
      optional ''profile_id'' (StringT 64), optional ''profile_version'' (StringT 64),
      optional ''mapping_version'' (StringT 64), optional ''ruleset_version'' (StringT 64),
      optional ''event_type'' (StringT 64), optional ''user_identity'' (StringT 128),
      optional ''input_hash'' (StringT 64), optional ''output_hash'' (StringT 64),
      optional ''action_metadata'' JsonT]
     [] [])
     \<lparr>tb_indexes := [(''ix_audit_events_case_id'', [''case_id'']), (''ix_audit_events_organization_id'', [''organization_id''])]\<rparr>"

definition integration_profiles_0003 :: dbtable where
  "integration_profiles_0003 = (table_of ''integration_profiles''
     [required ''id'' UuidT, required ''organization_id'' UuidT, required ''name'' (StringT 128),
      required ''description'' TextT, required ''status'' (StringT 32), required ''input_format'' (StringT 32),
      required ''output_format'' (StringT 32), required ''retention_policy'' (StringT 32),
      required ''address_policy'' (StringT 32), required ''ai_policy'' (StringT 32),
      required ''mapping'' JsonT, required ''rules'' JsonT, required ''version_number'' IntegerT,
      required ''created_at'' TimestampT, required ''updated_at'' TimestampT,
      optional ''published_at'' TimestampT]
     [] [(''organization_id'', ''organizations'')])
     \<lparr>tb_indexes := [(''ix_integration_profiles_organization_id'', [''organization_id''])]\<rparr>"

definition integration_profile_versions_0003 :: dbtable where
  "integration_profile_versions_0003 = (table_of ''integration_profile_versions''
     [required ''id'' UuidT, required ''profile_id'' UuidT, required ''organization_id'' UuidT,
      required ''version_number'' IntegerT, required ''name'' (StringT 128),
      required ''input_format'' (StringT 32), required ''mapping'' JsonT, required ''rules'' JsonT,
      required ''mapping_version'' (StringT 64), required ''ruleset_version'' (StringT 64),
      required ''published_at'' TimestampT]
     [] [(''profile_id'', ''integration_profiles'')])
     \<lparr>tb_indexes := [(''ix_integration_profile_versions_profile_id'', [''profile_id'']),
      (''ix_integration_profile_versions_organization_id'', [''organization_id''])]\<rparr>"

definition api_clients_0003 :: dbtable where
  "api_clients_0003 = (table_of ''api_clients''
     [required ''id'' UuidT, required ''client_id'' (StringT 64), required ''secret_hash'' (StringT 256),
      required ''organization_id'' UuidT, required ''allowed_profiles'' JsonT,
      required ''status'' (StringT 32), required ''created_at'' TimestampT, optional ''last_used_at'' TimestampT]
     [''client_id''] [(''organization_id'', ''organizations'')])
     \<lparr>tb_indexes := [(''ix_api_clients_organization_id'', [''organization_id''])]\<rparr>"

definition batch_jobs_0003 :: dbtable where
  "batch_jobs_0003 = (table_of ''batch_jobs''
     [required ''id'' UuidT, required ''organization_id'' UuidT, required ''profile_id'' UuidT,
      required ''profile_version'' IntegerT, required ''status'' (StringT 32),
      required ''total_records'' IntegerT, required ''processed_records'' IntegerT,
      required ''ready_count'' IntegerT, required ''repairable_count'' IntegerT,
      required ''review_required_count'' IntegerT, required ''unresolved_count'' IntegerT,
      required ''failed_count'' IntegerT, optional ''report'' JsonT, required ''created_at'' TimestampT,
      optional ''started_at'' TimestampT, optional ''completed_at'' TimestampT]
     [] [(''organization_id'', ''organizations'')])
     \<lparr>tb_indexes := [(''ix_batch_jobs_organization_id'', [''organization_id''])]\<rparr>"

definition case_actions_0003 :: dbtable where
  "case_actions_0003 = (table_of ''case_actions''
     [required ''id'' UuidT, required ''organization_id'' UuidT, required ''case_id'' (StringT 64),
      required ''action'' (StringT 32), optional ''operator'' (StringT 128), optional ''note'' TextT,
      required ''created_at'' TimestampT]
     [] [])
     \<lparr>tb_indexes := [(''ix_case_actions_organization_id'', [''organization_id'']), (''ix_case_actions_case_id'', [''case_id''])]\<rparr>"

definition audit_events_0004 :: dbtable where
  "audit_events_0004 = (table_of ''audit_events''
     [required ''id'' UuidT, required ''case_id'' (StringT 64), required ''created_at'' TimestampT,
      optional ''organization_id'' UuidT, optional ''profile_id'' (StringT 64),
      optional ''profile_version'' (StringT 64), optional ''mapping_version'' (StringT 64),
      optional ''ruleset_version'' (StringT 64), required ''event_type'' (StringT 64),
      optional ''user_identity'' (StringT 128), optional ''input_hash'' (StringT 64),
      optional ''output_hash'' (StringT 64), optional ''action_metadata'' JsonT]
     [] [])
     \<lparr>tb_indexes := [(''ix_audit_events_case_id'', [''case_id'']), (''ix_audit_events_organization_id'', [''organization_id''])]\<rparr>"

definition match_records_0005 :: dbtable where
  "match_records_0005 = (table_of ''match_records''
     [required ''id'' UuidT, required ''organization_id'' UuidT, required ''record_id'' (StringT 128),
      required ''record_type'' (StringT 32), optional ''profile_id'' (StringT 64),
      optional ''source_system'' (StringT 64), optional ''message_type'' (StringT 64),
      optional ''instruction_id'' (StringT 128), optional ''end_to_end_id'' (StringT 128),
      optional ''transaction_id'' (StringT 128), optional ''amount'' (NumericT 24 6),
      optional ''currency'' (StringT 3), optional ''booking_date'' DateT, optional ''value_date'' DateT,
      optional ''debtor_name'' (StringT 256), optional ''creditor_name'' (StringT 256),
      optional ''debtor_account'' (StringT 128), optional ''creditor_account'' (StringT 128),
      optional ''debtor_agent'' (StringT 64), optional ''creditor_agent'' (StringT 64),
      optional ''remittance_reference'' (StringT 256), optional ''external_reference'' (StringT 256),
      optional ''country'' (StringT 2), optional ''source_hash'' (StringT 64),
      required ''metadata_json'' JsonT, required ''created_at'' TimestampT]
     [] [(''organization_id'', ''organizations'')])
     \<lparr>tb_indexes := [(''ix_match_records_organization_id'', [''organization_id'']),
      (''ix_match_records_record_id'', [''record_id'']),
      (''ix_match_records_org_type'', [''organization_id'', ''record_type''])]\<rparr>"

definition matching_policies_0005 :: dbtable where
  "matching_policies_0005 = (table_of ''matching_policies''
     [required ''id'' UuidT, required ''organization_id'' UuidT, required ''name'' (StringT 128),
      required ''status'' (StringT 32), required ''created_at'' TimestampT, required ''updated_at'' TimestampT,
      optional ''published_at'' TimestampT]
     [] [(''organization_id'', ''organizations'')])
     \<lparr>tb_indexes := [(''ix_matching_policies_organization_id'', [''organization_id''])]\<rparr>"

definition matching_policy_versions_0005 :: dbtable where
  "matching_policy_versions_0005 = (table_of ''matching_policy_versions''
     [required ''id'' UuidT, required ''policy_id'' UuidT, required ''organization_id'' UuidT,
      required ''version_number'' IntegerT, required ''name'' (StringT 128), required ''field_weights'' JsonT,
      required ''thresholds'' JsonT, required ''date_tolerances'' JsonT, required ''amount_tolerances'' JsonT,
      required ''critical_fields'' JsonT, required ''fuzzy_algorithms'' JsonT,
      required ''published_at'' TimestampT]
     [] [(''policy_id'', ''matching_policies'')])
     \<lparr>tb_indexes := [(''ix_matching_policy_versions_policy_id'', [''policy_id'']),
      (''ix_matching_policy_versions_organization_id'', [''organization_id''])]\<rparr>"

definition match_runs_0005 :: dbtable where
  "match_runs_0005 = (table_of ''match_runs''
     [required ''id'' UuidT, required ''organization_id'' UuidT, required ''run_type'' (StringT 32),
      required ''status'' (StringT 32), optional ''policy_id'' UuidT, optional ''policy_version'' (StringT 64),
      required ''source_dataset'' JsonT, required ''candidate_dataset'' JsonT, required ''total'' IntegerT,
      required ''matched'' IntegerT, required ''possible_match'' IntegerT,
      required ''review_required'' IntegerT, required ''unmatched'' IntegerT,
      required ''duplicate_candidate'' IntegerT, required ''failed'' IntegerT, optional ''report'' JsonT,
      required ''created_at'' TimestampT, optional ''started_at'' TimestampT,
      optional ''completed_at'' TimestampT]
     [] [(''organization_id'', ''organizations'')])
     \<lparr>tb_indexes := [(''ix_match_runs_organization_id'', [''organization_id''])]\<rparr>"

definition match_candidates_0005 :: dbtable where
  "match_candidates_0005 = (table_of ''match_candidates''
     [required ''id'' UuidT, required ''organization_id'' UuidT, required ''run_id'' UuidT,
      required ''source_record_id'' (StringT 128), required ''candidate_record_id'' (StringT 128),
      required ''match_score'' FloatT, required ''classification'' (StringT 32),
      required ''critical_conflicts'' JsonT, required ''field_results'' JsonT,
      required ''explanation_codes'' JsonT, optional ''policy_version'' (StringT 64),
      optional ''engine_version'' (StringT 64), required ''status'' (StringT 32),
      optional ''operator'' (StringT 128), optional ''note'' TextT, required ''created_at'' TimestampT,
      optional ''decided_at'' TimestampT]
     [] [(''organization_id'', ''organizations''), (''run_id'', ''match_runs'')])
     \<lparr>tb_indexes := [(''ix_match_candidates_organization_id'', [''organization_id'']),
      (''ix_match_candidates_run_id'', [''run_id'']),
      (''ix_match_candidates_source_record_id'', [''source_record_id''])]\<rparr>"

definition iso_messages_0006 :: dbtable where
  "iso_messages_0006 = (table_of ''iso_messages''
     [required ''id'' UuidT, required ''organization_id'' UuidT, optional ''message_id'' (StringT 128),
      required ''message_family'' (StringT 16), required ''message_definition'' (StringT 64),
      required ''message_version'' (StringT 32), required ''namespace'' (StringT 128),
      required ''source_adapter'' (StringT 64), required ''adapter_version'' (StringT 16),
      required ''schema_version'' (StringT 32), required ''schema_validation'' BooleanT,
      required ''message_hash'' (StringT 64), optional ''input_hash'' (StringT 64),
      optional ''canonical_model_version'' (StringT 64), optional ''engine_version'' (StringT 32),
      required ''status'' (StringT 32), optional ''raw_status'' (StringT 32),
      optional ''normalized_status'' (StringT 32), required ''processed_at'' TimestampT,
      required ''created_at'' TimestampT]
     [] [(''organization_id'', ''organizations'')])
     \<lparr>tb_indexes := [(''ix_iso_messages_organization_id'', [''organization_id'']),
      (''ix_iso_messages_message_hash'', [''message_hash''])]\<rparr>"

definition payment_lifecycles_0006 :: dbtable where
  "payment_lifecycles_0006 = (table_of ''payment_lifecycles''
     [required ''id'' UuidT, required ''organization_id'' UuidT, required ''lifecycle_id'' (StringT 64),
      optional ''primary_reference'' (StringT 128), optional ''end_to_end_id'' (StringT 128),
      optional ''instruction_id'' (StringT 128), optional ''transaction_id'' (StringT 128),
      optional ''uetr'' (StringT 64), optional ''original_message_id'' (StringT 128),
      optional ''amount_minor'' IntegerT, optional ''currency'' (StringT 3),
      required ''current_status'' (StringT 32), required ''created_at'' TimestampT,
      required ''updated_at'' TimestampT]
     [] [(''organization_id'', ''organizations'')])
     \<lparr>tb_indexes := [(''ix_payment_lifecycles_organization_id'', [''organization_id'']),
      (''ix_payment_lifecycles_lifecycle_id'', [''lifecycle_id''])]\<rparr>"

definition payment_lifecycle_events_0006 :: dbtable where
  "payment_lifecycle_events_0006 = (table_of ''payment_lifecycle_events''
     [required ''id'' UuidT, required ''organization_id'' UuidT, required ''lifecycle_id'' UuidT,
      required ''event_type'' (StringT 32), optional ''message_family'' (StringT 16),
      optional ''message_definition'' (StringT 64), optional ''message_version'' (StringT 32),
      optional ''message_id'' (StringT 128), optional ''timestamp'' TimestampT,
      required ''status'' (StringT 32), optional ''raw_status_code'' (StringT 32), required ''reasons'' JsonT,
      required ''correlation_evidence'' JsonT, optional ''source_hash'' (StringT 64),
      required ''created_at'' TimestampT]
     [] [(''organization_id'', ''organizations''), (''lifecycle_id'', ''payment_lifecycles'')])
     \<lparr>tb_indexes := [(''ix_payment_lifecycle_events_organization_id'', [''organization_id'']),
      (''ix_payment_lifecycle_events_lifecycle_id'', [''lifecycle_id''])]\<rparr>"

definition message_correlations_0006 :: dbtable where
  "message_correlations_0006 = (table_of ''message_correlations''
     [required ''id'' UuidT, required ''organization_id'' UuidT, required ''lifecycle_id'' UuidT,
      optional ''source_message_id'' (StringT 128), optional ''candidate_message_id'' (StringT 128),
      required ''correlation_status'' (StringT 32), required ''evidence'' JsonT, required ''conflicts'' JsonT,
      optional ''operator'' (StringT 128), optional ''note'' TextT, required ''created_at'' TimestampT,
      optional ''decided_at'' TimestampT]
     [] [(''organization_id'', ''organizations''), (''lifecycle_id'', ''payment_lifecycles'')])
     \<lparr>tb_indexes := [(''ix_message_correlations_organization_id'', [''organization_id'']),
      (''ix_message_correlations_lifecycle_id'', [''lifecycle_id''])]\<rparr>"

definition integration_profiles_0007 :: dbtable where
  "integration_profiles_0007 = (table_of ''integration_profiles''
     [required ''id'' UuidT, required ''organization_id'' UuidT, required ''name'' (StringT 128),
      required ''description'' TextT, required ''status'' (StringT 32), required ''input_format'' (StringT 32),
      required ''output_format'' (StringT 32), required ''retention_policy'' (StringT 32),
      required ''address_policy'' (StringT 32), required ''ai_policy'' (StringT 32),
      required ''mapping'' JsonT, required ''rules'' JsonT, required ''version_number'' IntegerT,
      required ''created_at'' TimestampT, required ''updated_at'' TimestampT,
      optional ''published_at'' TimestampT, required ''allowed_messages'' JsonT]
     [] [(''organization_id'', ''organizations'')])
     \<lparr>tb_indexes := [(''ix_integration_profiles_organization_id'', [''organization_id''])]\<rparr>"

definition payment_lifecycles_0008 :: dbtable where
  "payment_lifecycles_0008 = (table_of ''payment_lifecycles''
     [required ''id'' UuidT, required ''organization_id'' UuidT, required ''lifecycle_id'' (StringT 64),
      optional ''primary_reference'' (StringT 128), optional ''end_to_end_id'' (StringT 128),
      optional ''instruction_id'' (StringT 128), optional ''transaction_id'' (StringT 128),
      optional ''uetr'' (StringT 64), optional ''original_message_id'' (StringT 128),
      optional ''amount_minor'' IntegerT, optional ''currency'' (StringT 3),
      required ''current_status'' (StringT 32), required ''created_at'' TimestampT,
      required ''updated_at'' TimestampT, optional ''debtor_account'' (StringT 64),
      optional ''creditor_account'' (StringT 64)]
     [] [(''organization_id'', ''organizations'')])
     \<lparr>tb_indexes := [(''ix_payment_lifecycles_organization_id'', [''organization_id'']),
      (''ix_payment_lifecycles_lifecycle_id'', [''lifecycle_id''])]\<rparr>"

definition account_reports_0008 :: dbtable where
  "account_reports_0008 = (table_of ''account_reports''
     [required ''id'' UuidT, required ''organization_id'' UuidT, optional ''iso_message_id'' UuidT,
      optional ''message_id'' (StringT 128), required ''message_definition'' (StringT 64),
      required ''message_version'' (StringT 32), required ''report_type'' (StringT 16),
      optional ''account_iban'' (StringT 64), optional ''account_other_id'' (StringT 64),
      optional ''account_currency'' (StringT 3), optional ''servicer_bic'' (StringT 11),
      optional ''statement_id'' (StringT 64), optional ''notification_id'' (StringT 64),
      optional ''period_start'' DateT, optional ''period_end'' DateT, required ''entry_count'' IntegerT,
      optional ''source_hash'' (StringT 64), required ''created_at'' TimestampT]
     [] [(''organization_id'', ''organizations''), (''iso_message_id'', ''iso_messages'')])
     \<lparr>tb_indexes := [(''ix_account_reports_organization_id'', [''organization_id'']),
      (''ix_account_reports_iso_message_id'', [''iso_message_id'']),
      (''ix_account_reports_account_iban'', [''account_iban''])]\<rparr>"

definition account_entries_0008 :: dbtable where
  "account_entries_0008 = (table_of ''account_entries''
     [required ''id'' UuidT, required ''organization_id'' UuidT, required ''report_id'' UuidT,
      optional ''entry_reference'' (StringT 64), optional ''account_servicer_reference'' (StringT 64),
      optional ''transaction_id'' (StringT 128), optional ''instruction_id'' (StringT 128),
      optional ''end_to_end_id'' (StringT 128), optional ''uetr'' (StringT 64),
      optional ''amount_minor'' IntegerT, optional ''currency'' (StringT 3),
      optional ''credit_debit'' (StringT 4), optional ''booking_date'' DateT, optional ''value_date'' DateT,
      optional ''status'' (StringT 16), optional ''bank_tx_code'' (StringT 8),
      optional ''bank_tx_family'' (StringT 8), optional ''bank_tx_sub_family'' (StringT 8),
      optional ''remittance_reference'' (StringT 256), required ''identity_hash'' (StringT 64),
      optional ''reconciliation_status'' (StringT 32), optional ''match_score'' FloatT,
      optional ''lifecycle_id'' UuidT, required ''evidence'' JsonT, required ''conflicts'' JsonT,
      optional ''source_hash'' (StringT 64), required ''created_at'' TimestampT]
     [] [(''organization_id'', ''organizations''), (''report_id'', ''account_reports''), (''lifecycle_id'', ''payment_lifecycles'')])
     \<lparr>tb_indexes := [(''ix_account_entries_organization_id'', [''organization_id'']),
      (''ix_account_entries_report_id'', [''report_id'']),
      (''ix_account_entries_identity_hash'', [''identity_hash'']),
      (''ix_account_entries_reconciliation_status'', [''reconciliation_status'']),
      (''ix_account_entries_lifecycle_id'', [''lifecycle_id''])]\<rparr>"

definition account_balances_0008 :: dbtable where
  "account_balances_0008 = (table_of ''account_balances''
     [required ''id'' UuidT, required ''organization_id'' UuidT, required ''report_id'' UuidT,
      required ''balance_type'' (StringT 8), required ''amount_minor'' IntegerT,
      required ''currency'' (StringT 3), required ''credit_debit'' (StringT 4),
      required ''created_at'' TimestampT]
     [] [(''organization_id'', ''organizations''), (''report_id'', ''account_reports'')])
     \<lparr>tb_indexes := [(''ix_account_balances_organization_id'', [''organization_id'']),
      (''ix_account_balances_report_id'', [''report_id''])]\<rparr>"

definition account_reconciliations_0008 :: dbtable where
  "account_reconciliations_0008 = (table_of ''account_reconciliations''
     [required ''id'' UuidT, required ''organization_id'' UuidT, required ''account_entry_id'' UuidT,
      optional ''lifecycle_id'' UuidT, required ''classification'' (StringT 32),
      required ''match_score'' FloatT, required ''evidence'' JsonT, required ''conflicts'' JsonT,
      required ''status'' (StringT 16), optional ''operator'' (StringT 128), optional ''note'' TextT,
      required ''created_at'' TimestampT, optional ''decided_at'' TimestampT]
     [] [(''organization_id'', ''organizations''), (''account_entry_id'', ''account_entries''), (''lifecycle_id'', ''payment_lifecycles'')])
     \<lparr>tb_indexes := [(''ix_account_reconciliations_organization_id'', [''organization_id'']),
      (''ix_account_reconciliations_account_entry_id'', [''account_entry_id'']),
      (''ix_account_reconciliations_lifecycle_id'', [''lifecycle_id'']),
      (''ix_account_reconciliations_classification'', [''classification''])]\<rparr>"

definition app_users_0009 :: dbtable where
  "app_users_0009 = (table_of ''app_users''
     [required ''id'' UuidT, required ''organization_id'' UuidT, required ''email'' (StringT 255),
      required ''display_name'' (StringT 255), required ''password_hash'' (StringT 256),
      required ''role'' (StringT 16), required ''status'' (StringT 16),
      required ''failed_login_count'' IntegerT, optional ''locked_until'' TimestampT,
      optional ''last_login_at'' TimestampT, required ''created_at'' TimestampT,
      required ''updated_at'' TimestampT]
     [''email''] [(''organization_id'', ''organizations'')])
     \<lparr>tb_indexes := [(''ix_app_users_organization_id'', [''organization_id'']), (''ix_app_users_email'', [''email''])]\<rparr>"

definition user_sessions_0009 :: dbtable where
  "user_sessions_0009 = (table_of ''user_sessions''
     [required ''id'' UuidT, required ''user_id'' UuidT, required ''organization_id'' UuidT,
      required ''token_hash'' (StringT 64), required ''created_at'' TimestampT,
      required ''expires_at'' TimestampT, optional ''last_seen_at'' TimestampT,
      optional ''revoked_at'' TimestampT]
     [''token_hash''] [(''user_id'', ''app_users''), (''organization_id'', ''organizations'')])
     \<lparr>tb_indexes := [(''ix_user_sessions_user_id'', [''user_id'']),
      (''ix_user_sessions_organization_id'', [''organization_id'']),
      (''ix_user_sessions_token_hash'', [''token_hash''])]\<rparr>"

definition audit_events_0010 :: dbtable where
  "audit_events_0010 = (table_of ''audit_events''
     [required ''id'' UuidT, optional ''case_id'' (StringT 64), required ''created_at'' TimestampT,
      optional ''organization_id'' UuidT, optional ''profile_id'' (StringT 64),
      optional ''profile_version'' (StringT 64), optional ''mapping_version'' (StringT 64),
      optional ''ruleset_version'' (StringT 64), required ''event_type'' (StringT 64),
      optional ''user_identity'' (StringT 128), optional ''input_hash'' (StringT 64),
      optional ''output_hash'' (StringT 64), optional ''action_metadata'' JsonT]
     [] [])
     \<lparr>tb_indexes := [(''ix_audit_events_case_id'', [''case_id'']), (''ix_audit_events_organization_id'', [''organization_id''])]\<rparr>"

text \<open>The names, foreign keys and indexes of the tables.\<close>

lemma table_facts:
  "tb_name organizations_0001 = ''organizations''"
  "tb_foreign organizations_0001 = []"
  "tb_indexes organizations_0001 =
    [(''ix_organizations_public_id'', [''public_id''])]"
  "tb_name app_metadata_0001 = ''app_metadata''"
  "tb_foreign app_metadata_0001 = []"
  "tb_indexes app_metadata_0001 =
    []"
  "tb_name payment_cases_0002 = ''payment_cases''"
  "tb_foreign payment_cases_0002 = []"
  "tb_indexes payment_cases_0002 =
    [(''ix_payment_cases_case_id'', [''case_id''])]"
  "tb_name analysis_runs_0002 = ''analysis_runs''"
  "tb_foreign analysis_runs_0002 = []"
  "tb_indexes analysis_runs_0002 =
    [(''ix_analysis_runs_case_id'', [''case_id''])]"
  "tb_name rule_findings_0002 = ''rule_findings''"
  "tb_foreign rule_findings_0002 = []"
  "tb_indexes rule_findings_0002 =
    [(''ix_rule_findings_case_id'', [''case_id''])]"
  "tb_name repair_candidates_0002 = ''repair_candidates''"
  "tb_foreign repair_candidates_0002 = []"
  "tb_indexes repair_candidates_0002 =
    [(''ix_repair_candidates_case_id'', [''case_id''])]"
  "tb_name audit_events_0002 = ''audit_events''"
  "tb_foreign audit_events_0002 = []"
  "tb_indexes audit_events_0002 =
    [(''ix_audit_events_case_id'', [''case_id''])]"
  "tb_name payment_cases_0003 = ''payment_cases''"
  "tb_foreign payment_cases_0003 = []"
  "tb_indexes payment_cases_0003 =
    [(''ix_payment_cases_case_id'', [''case_id'']),
     (''ix_payment_cases_organization_id'', [''organization_id'']),
     (''ix_payment_cases_idempotency_key'', [''idempotency_key''])]"
  "tb_name analysis_runs_0003 = ''analysis_runs''"
  "tb_foreign analysis_runs_0003 = []"
  "tb_indexes analysis_runs_0003 =
    [(''ix_analysis_runs_case_id'', [''case_id'']),
     (''ix_analysis_runs_organization_id'', [''organization_id''])]"
  "tb_name rule_findings_0003 = ''rule_findings''"
  "tb_foreign rule_findings_0003 = []"
  "tb_indexes rule_findings_0003 =
    [(''ix_rule_findings_case_id'', [''case_id'']),
     (''ix_rule_findings_organization_id'', [''organization_id''])]"
  "tb_name repair_candidates_0003 = ''repair_candidates''"
  "tb_foreign repair_candidates_0003 = []"
  "tb_indexes repair_candidates_0003 =
    [(''ix_repair_candidates_case_id'', [''case_id'']),
     (''ix_repair_candidates_organization_id'', [''organization_id''])]"
  "tb_name audit_events_0003 = ''audit_events''"
  "tb_foreign audit_events_0003 = []"
  "tb_indexes audit_events_0003 =
    [(''ix_audit_events_case_id'', [''case_id'']), (''ix_audit_events_organization_id'', [''organization_id''])]"
  "tb_name integration_profiles_0003 = ''integration_profiles''"
  "tb_foreign integration_profiles_0003 = [(''organization_id'', ''organizations'')]"
  "tb_indexes integration_profiles_0003 =
    [(''ix_integration_profiles_organization_id'', [''organization_id''])]"
  "tb_name integration_profile_versions_0003 = ''integration_profile_versions''"
  "tb_foreign integration_profile_versions_0003 = [(''profile_id'', ''integration_profiles'')]"
  "tb_indexes integration_profile_versions_0003 =
    [(''ix_integration_profile_versions_profile_id'', [''profile_id'']),
     (''ix_integration_profile_versions_organization_id'', [''organization_id''])]"
  "tb_name api_clients_0003 = ''api_clients''"
  "tb_foreign api_clients_0003 = [(''organization_id'', ''organizations'')]"
  "tb_indexes api_clients_0003 =
    [(''ix_api_clients_organization_id'', [''organization_id''])]"
  "tb_name batch_jobs_0003 = ''batch_jobs''"
  "tb_foreign batch_jobs_0003 = [(''organization_id'', ''organizations'')]"
  "tb_indexes batch_jobs_0003 =
    [(''ix_batch_jobs_organization_id'', [''organization_id''])]"
  "tb_name case_actions_0003 = ''case_actions''"
  "tb_foreign case_actions_0003 = []"
  "tb_indexes case_actions_0003 =
    [(''ix_case_actions_organization_id'', [''organization_id'']), (''ix_case_actions_case_id'', [''case_id''])]"
  "tb_name audit_events_0004 = ''audit_events''"
  "tb_foreign audit_events_0004 = []"
  "tb_indexes audit_events_0004 =
    [(''ix_audit_events_case_id'', [''case_id'']), (''ix_audit_events_organization_id'', [''organization_id''])]"
  "tb_name match_records_0005 = ''match_records''"
  "tb_foreign match_records_0005 = [(''organization_id'', ''organizations'')]"
  "tb_indexes match_records_0005 =
    [(''ix_match_records_organization_id'', [''organization_id'']),
     (''ix_match_records_record_id'', [''record_id'']),
     (''ix_match_records_org_type'', [''organization_id'', ''record_type''])]"
  "tb_name matching_policies_0005 = ''matching_policies''"
  "tb_foreign matching_policies_0005 = [(''organization_id'', ''organizations'')]"
  "tb_indexes matching_policies_0005 =
    [(''ix_matching_policies_organization_id'', [''organization_id''])]"
  "tb_name matching_policy_versions_0005 = ''matching_policy_versions''"
  "tb_foreign matching_policy_versions_0005 = [(''policy_id'', ''matching_policies'')]"
  "tb_indexes matching_policy_versions_0005 =
    [(''ix_matching_policy_versions_policy_id'', [''policy_id'']),
     (''ix_matching_policy_versions_organization_id'', [''organization_id''])]"
  "tb_name match_runs_0005 = ''match_runs''"
  "tb_foreign match_runs_0005 = [(''organization_id'', ''organizations'')]"
  "tb_indexes match_runs_0005 =
    [(''ix_match_runs_organization_id'', [''organization_id''])]"
  "tb_name match_candidates_0005 = ''match_candidates''"
  "tb_foreign match_candidates_0005 = [(''organization_id'', ''organizations''), (''run_id'', ''match_runs'')]"
  "tb_indexes match_candidates_0005 =
    [(''ix_match_candidates_organization_id'', [''organization_id'']),
     (''ix_match_candidates_run_id'', [''run_id'']),
     (''ix_match_candidates_source_record_id'', [''source_record_id''])]"
  "tb_name iso_messages_0006 = ''iso_messages''"
  "tb_foreign iso_messages_0006 = [(''organization_id'', ''organizations'')]"
  "tb_indexes iso_messages_0006 =
    [(''ix_iso_messages_organization_id'', [''organization_id'']),
     (''ix_iso_messages_message_hash'', [''message_hash''])]"
  "tb_name payment_lifecycles_0006 = ''payment_lifecycles''"
  "tb_foreign payment_lifecycles_0006 = [(''organization_id'', ''organizations'')]"
  "tb_indexes payment_lifecycles_0006 =
    [(''ix_payment_lifecycles_organization_id'', [''organization_id'']),
     (''ix_payment_lifecycles_lifecycle_id'', [''lifecycle_id''])]"
  "tb_name payment_lifecycle_events_0006 = ''payment_lifecycle_events''"
  "tb_foreign payment_lifecycle_events_0006 = [(''organization_id'', ''organizations''), (''lifecycle_id'', ''payment_lifecycles'')]"
  "tb_indexes payment_lifecycle_events_0006 =
    [(''ix_payment_lifecycle_events_organization_id'', [''organization_id'']),
     (''ix_payment_lifecycle_events_lifecycle_id'', [''lifecycle_id''])]"
  "tb_name message_correlations_0006 = ''message_correlations''"
  "tb_foreign message_correlations_0006 = [(''organization_id'', ''organizations''), (''lifecycle_id'', ''payment_lifecycles'')]"
  "tb_indexes message_correlations_0006 =
    [(''ix_message_correlations_organization_id'', [''organization_id'']),
     (''ix_message_correlations_lifecycle_id'', [''lifecycle_id''])]"
  "tb_name integration_profiles_0007 = ''integration_profiles''"
  "tb_foreign integration_profiles_0007 = [(''organization_id'', ''organizations'')]"
  "tb_indexes integration_profiles_0007 =
    [(''ix_integration_profiles_organization_id'', [''organization_id''])]"
  "tb_name payment_lifecycles_0008 = ''payment_lifecycles''"
  "tb_foreign payment_lifecycles_0008 = [(''organization_id'', ''organizations'')]"
  "tb_indexes payment_lifecycles_0008 =
    [(''ix_payment_lifecycles_organization_id'', [''organization_id'']),
     (''ix_payment_lifecycles_lifecycle_id'', [''lifecycle_id''])]"
  "tb_name account_reports_0008 = ''account_reports''"
  "tb_foreign account_reports_0008 = [(''organization_id'', ''organizations''), (''iso_message_id'', ''iso_messages'')]"
  "tb_indexes account_reports_0008 =
    [(''ix_account_reports_organization_id'', [''organization_id'']),
     (''ix_account_reports_iso_message_id'', [''iso_message_id'']),
     (''ix_account_reports_account_iban'', [''account_iban''])]"
  "tb_name account_entries_0008 = ''account_entries''"
  "tb_foreign account_entries_0008 = [(''organization_id'', ''organizations''), (''report_id'', ''account_reports''), (''lifecycle_id'', ''payment_lifecycles'')]"
  "tb_indexes account_entries_0008 =
    [(''ix_account_entries_organization_id'', [''organization_id'']),
     (''ix_account_entries_report_id'', [''report_id'']),
     (''ix_account_entries_identity_hash'', [''identity_hash'']),
     (''ix_account_entries_reconciliation_status'', [''reconciliation_status'']),
     (''ix_account_entries_lifecycle_id'', [''lifecycle_id''])]"
  "tb_name account_balances_0008 = ''account_balances''"
  "tb_foreign account_balances_0008 = [(''organization_id'', ''organizations''), (''report_id'', ''account_reports'')]"
  "tb_indexes account_balances_0008 =
    [(''ix_account_balances_organization_id'', [''organization_id'']),
     (''ix_account_balances_report_id'', [''report_id''])]"
  "tb_name account_reconciliations_0008 = ''account_reconciliations''"
  "tb_foreign account_reconciliations_0008 = [(''organization_id'', ''organizations''), (''account_entry_id'', ''account_entries''), (''lifecycle_id'', ''payment_lifecycles'')]"
  "tb_indexes account_reconciliations_0008 =
    [(''ix_account_reconciliations_organization_id'', [''organization_id'']),
     (''ix_account_reconciliations_account_entry_id'', [''account_entry_id'']),
     (''ix_account_reconciliations_lifecycle_id'', [''lifecycle_id'']),
     (''ix_account_reconciliations_classification'', [''classification''])]"
  "tb_name app_users_0009 = ''app_users''"
  "tb_foreign app_users_0009 = [(''organization_id'', ''organizations'')]"
  "tb_indexes app_users_0009 =
    [(''ix_app_users_organization_id'', [''organization_id'']), (''ix_app_users_email'', [''email''])]"
  "tb_name user_sessions_0009 = ''user_sessions''"
  "tb_foreign user_sessions_0009 = [(''user_id'', ''app_users''), (''organization_id'', ''organizations'')]"
  "tb_indexes user_sessions_0009 =
    [(''ix_user_sessions_user_id'', [''user_id'']),
     (''ix_user_sessions_organization_id'', [''organization_id'']),
     (''ix_user_sessions_token_hash'', [''token_hash''])]"
  "tb_name audit_events_0010 = ''audit_events''"
  "tb_foreign audit_events_0010 = []"
  "tb_indexes audit_events_0010 =
    [(''ix_audit_events_case_id'', [''case_id'']), (''ix_audit_events_organization_id'', [''organization_id''])]"
  by (simp_all add: table_of_def organizations_0001_def app_metadata_0001_def payment_cases_0002_def analysis_runs_0002_def
      rule_findings_0002_def repair_candidates_0002_def audit_events_0002_def payment_cases_0003_def
      analysis_runs_0003_def rule_findings_0003_def repair_candidates_0003_def audit_events_0003_def
      integration_profiles_0003_def integration_profile_versions_0003_def api_clients_0003_def
      batch_jobs_0003_def case_actions_0003_def audit_events_0004_def match_records_0005_def
      matching_policies_0005_def matching_policy_versions_0005_def match_runs_0005_def
      match_candidates_0005_def iso_messages_0006_def payment_lifecycles_0006_def
      payment_lifecycle_events_0006_def message_correlations_0006_def integration_profiles_0007_def
      payment_lifecycles_0008_def account_reports_0008_def account_entries_0008_def
      account_balances_0008_def account_reconciliations_0008_def app_users_0009_def user_sessions_0009_def
      audit_events_0010_def)

section \<open>The schemas\<close>

definition schema_0000 :: schema where
  "schema_0000 =
    []"

definition schema_0001 :: schema where
  "schema_0001 =
    [organizations_0001, app_metadata_0001]"

definition schema_0002 :: schema where
  "schema_0002 =
    [organizations_0001, app_metadata_0001, payment_cases_0002, analysis_runs_0002, rule_findings_0002,
     repair_candidates_0002, audit_events_0002]"

definition schema_0003 :: schema where
  "schema_0003 =
    [organizations_0001, app_metadata_0001, payment_cases_0003, analysis_runs_0003, rule_findings_0003,
     repair_candidates_0003, audit_events_0003, integration_profiles_0003, integration_profile_versions_0003,
     api_clients_0003, batch_jobs_0003, case_actions_0003]"

definition schema_0004 :: schema where
  "schema_0004 =
    [organizations_0001, app_metadata_0001, payment_cases_0003, analysis_runs_0003, rule_findings_0003,
     repair_candidates_0003, audit_events_0004, integration_profiles_0003, integration_profile_versions_0003,
     api_clients_0003, batch_jobs_0003, case_actions_0003]"

definition schema_0005 :: schema where
  "schema_0005 =
    [organizations_0001, app_metadata_0001, payment_cases_0003, analysis_runs_0003, rule_findings_0003,
     repair_candidates_0003, audit_events_0004, integration_profiles_0003, integration_profile_versions_0003,
     api_clients_0003, batch_jobs_0003, case_actions_0003, match_records_0005, matching_policies_0005,
     matching_policy_versions_0005, match_runs_0005, match_candidates_0005]"

definition schema_0006 :: schema where
  "schema_0006 =
    [organizations_0001, app_metadata_0001, payment_cases_0003, analysis_runs_0003, rule_findings_0003,
     repair_candidates_0003, audit_events_0004, integration_profiles_0003, integration_profile_versions_0003,
     api_clients_0003, batch_jobs_0003, case_actions_0003, match_records_0005, matching_policies_0005,
     matching_policy_versions_0005, match_runs_0005, match_candidates_0005, iso_messages_0006,
     payment_lifecycles_0006, payment_lifecycle_events_0006, message_correlations_0006]"

definition schema_0007 :: schema where
  "schema_0007 =
    [organizations_0001, app_metadata_0001, payment_cases_0003, analysis_runs_0003, rule_findings_0003,
     repair_candidates_0003, audit_events_0004, integration_profiles_0007, integration_profile_versions_0003,
     api_clients_0003, batch_jobs_0003, case_actions_0003, match_records_0005, matching_policies_0005,
     matching_policy_versions_0005, match_runs_0005, match_candidates_0005, iso_messages_0006,
     payment_lifecycles_0006, payment_lifecycle_events_0006, message_correlations_0006]"

definition schema_0008 :: schema where
  "schema_0008 =
    [organizations_0001, app_metadata_0001, payment_cases_0003, analysis_runs_0003, rule_findings_0003,
     repair_candidates_0003, audit_events_0004, integration_profiles_0007, integration_profile_versions_0003,
     api_clients_0003, batch_jobs_0003, case_actions_0003, match_records_0005, matching_policies_0005,
     matching_policy_versions_0005, match_runs_0005, match_candidates_0005, iso_messages_0006,
     payment_lifecycles_0008, payment_lifecycle_events_0006, message_correlations_0006, account_reports_0008,
     account_entries_0008, account_balances_0008, account_reconciliations_0008]"

definition schema_0009 :: schema where
  "schema_0009 =
    [organizations_0001, app_metadata_0001, payment_cases_0003, analysis_runs_0003, rule_findings_0003,
     repair_candidates_0003, audit_events_0004, integration_profiles_0007, integration_profile_versions_0003,
     api_clients_0003, batch_jobs_0003, case_actions_0003, match_records_0005, matching_policies_0005,
     matching_policy_versions_0005, match_runs_0005, match_candidates_0005, iso_messages_0006,
     payment_lifecycles_0008, payment_lifecycle_events_0006, message_correlations_0006, account_reports_0008,
     account_entries_0008, account_balances_0008, account_reconciliations_0008, app_users_0009,
     user_sessions_0009]"

definition schema_0010 :: schema where
  "schema_0010 =
    [organizations_0001, app_metadata_0001, payment_cases_0003, analysis_runs_0003, rule_findings_0003,
     repair_candidates_0003, audit_events_0010, integration_profiles_0007, integration_profile_versions_0003,
     api_clients_0003, batch_jobs_0003, case_actions_0003, match_records_0005, matching_policies_0005,
     matching_policy_versions_0005, match_runs_0005, match_candidates_0005, iso_messages_0006,
     payment_lifecycles_0008, payment_lifecycle_events_0006, message_correlations_0006, account_reports_0008,
     account_entries_0008, account_balances_0008, account_reconciliations_0008, app_users_0009,
     user_sessions_0009]"

section \<open>Evaluating the operations\<close>

lemma run_ops_append: "run_ops (a @ b) s = Option.bind (run_ops a s) (run_ops b)"
  by (induction a arbitrary: s) (auto split: option.splits)

lemmas op_defs = apply_op_def change_table_def lookup_table_def lookup_column_def has_column_def drop_column_def table_of_def

lemma upgrade_0001_organizations_step:
  "run_ops upgrade_0001_organizations
    [] =
   Some [organizations_0001]"
  by (simp add: upgrade_0001_organizations_def op_defs table_facts organizations_0001_def)

lemma upgrade_0001_app_metadata_step:
  "run_ops upgrade_0001_app_metadata
    [organizations_0001] =
   Some [organizations_0001, app_metadata_0001]"
  by (simp add: upgrade_0001_app_metadata_def op_defs table_facts app_metadata_0001_def)

lemma upgrade_step_0001: "run_ops upgrade_0001 schema_0000 = Some schema_0001"
  by (simp only: upgrade_0001_def schema_0000_def schema_0001_def run_ops_append bind.bind_lunit append_Nil
      upgrade_0001_organizations_step upgrade_0001_app_metadata_step)

lemma downgrade_step_0001: "run_ops downgrade_0001 schema_0001 = Some schema_0000"
  by (simp add: downgrade_0001_def schema_0000_def schema_0001_def op_defs
      table_facts app_metadata_0001_def organizations_0001_def)

lemma upgrade_0002_payment_cases_step:
  "run_ops upgrade_0002_payment_cases
    [organizations_0001, app_metadata_0001] =
   Some [organizations_0001, app_metadata_0001, payment_cases_0002]"
  by (simp add: upgrade_0002_payment_cases_def op_defs table_facts payment_cases_0002_def)

lemma upgrade_0002_analysis_runs_step:
  "run_ops upgrade_0002_analysis_runs
    [organizations_0001, app_metadata_0001, payment_cases_0002] =
   Some [organizations_0001, app_metadata_0001, payment_cases_0002, analysis_runs_0002]"
  by (simp add: upgrade_0002_analysis_runs_def op_defs table_facts analysis_runs_0002_def)

lemma upgrade_0002_rule_findings_step:
  "run_ops upgrade_0002_rule_findings
    [organizations_0001, app_metadata_0001, payment_cases_0002, analysis_runs_0002] =
   Some [organizations_0001, app_metadata_0001, payment_cases_0002, analysis_runs_0002, rule_findings_0002]"
  by (simp add: upgrade_0002_rule_findings_def op_defs table_facts rule_findings_0002_def)

lemma upgrade_0002_repair_candidates_step:
  "run_ops upgrade_0002_repair_candidates
    [organizations_0001, app_metadata_0001, payment_cases_0002, analysis_runs_0002, rule_findings_0002] =
   Some [organizations_0001, app_metadata_0001, payment_cases_0002, analysis_runs_0002, rule_findings_0002,
     repair_candidates_0002]"
  by (simp add: upgrade_0002_repair_candidates_def op_defs table_facts repair_candidates_0002_def)

lemma upgrade_0002_audit_events_step:
  "run_ops upgrade_0002_audit_events
    [organizations_0001, app_metadata_0001, payment_cases_0002, analysis_runs_0002, rule_findings_0002,
     repair_candidates_0002] =
   Some [organizations_0001, app_metadata_0001, payment_cases_0002, analysis_runs_0002, rule_findings_0002,
     repair_candidates_0002, audit_events_0002]"
  by (simp add: upgrade_0002_audit_events_def op_defs table_facts audit_events_0002_def)

lemma upgrade_step_0002: "run_ops upgrade_0002 schema_0001 = Some schema_0002"
  by (simp only: upgrade_0002_def schema_0001_def schema_0002_def run_ops_append bind.bind_lunit append_Nil
      upgrade_0002_payment_cases_step upgrade_0002_analysis_runs_step upgrade_0002_rule_findings_step
      upgrade_0002_repair_candidates_step upgrade_0002_audit_events_step)

lemma downgrade_step_0002: "run_ops downgrade_0002 schema_0002 = Some schema_0001"
  by (simp add: downgrade_0002_def schema_0001_def schema_0002_def op_defs
      table_facts analysis_runs_0002_def audit_events_0002_def payment_cases_0002_def
      repair_candidates_0002_def rule_findings_0002_def)

lemma upgrade_0003_payment_cases_step:
  "run_ops upgrade_0003_payment_cases
    [organizations_0001, app_metadata_0001, payment_cases_0002, analysis_runs_0002, rule_findings_0002,
     repair_candidates_0002, audit_events_0002] =
   Some [organizations_0001, app_metadata_0001, payment_cases_0003, analysis_runs_0002, rule_findings_0002,
     repair_candidates_0002, audit_events_0002]"
  by (simp add: upgrade_0003_payment_cases_def op_defs table_facts payment_cases_0002_def payment_cases_0003_def)

lemma upgrade_0003_analysis_runs_step:
  "run_ops upgrade_0003_analysis_runs
    [organizations_0001, app_metadata_0001, payment_cases_0003, analysis_runs_0002, rule_findings_0002,
     repair_candidates_0002, audit_events_0002] =
   Some [organizations_0001, app_metadata_0001, payment_cases_0003, analysis_runs_0003, rule_findings_0002,
     repair_candidates_0002, audit_events_0002]"
  by (simp add: upgrade_0003_analysis_runs_def op_defs table_facts analysis_runs_0002_def analysis_runs_0003_def)

lemma upgrade_0003_rule_findings_step:
  "run_ops upgrade_0003_rule_findings
    [organizations_0001, app_metadata_0001, payment_cases_0003, analysis_runs_0003, rule_findings_0002,
     repair_candidates_0002, audit_events_0002] =
   Some [organizations_0001, app_metadata_0001, payment_cases_0003, analysis_runs_0003, rule_findings_0003,
     repair_candidates_0002, audit_events_0002]"
  by (simp add: upgrade_0003_rule_findings_def op_defs table_facts rule_findings_0002_def rule_findings_0003_def)

lemma upgrade_0003_repair_candidates_step:
  "run_ops upgrade_0003_repair_candidates
    [organizations_0001, app_metadata_0001, payment_cases_0003, analysis_runs_0003, rule_findings_0003,
     repair_candidates_0002, audit_events_0002] =
   Some [organizations_0001, app_metadata_0001, payment_cases_0003, analysis_runs_0003, rule_findings_0003,
     repair_candidates_0003, audit_events_0002]"
  by (simp add: upgrade_0003_repair_candidates_def op_defs table_facts repair_candidates_0002_def repair_candidates_0003_def)

lemma upgrade_0003_audit_events_step:
  "run_ops upgrade_0003_audit_events
    [organizations_0001, app_metadata_0001, payment_cases_0003, analysis_runs_0003, rule_findings_0003,
     repair_candidates_0003, audit_events_0002] =
   Some [organizations_0001, app_metadata_0001, payment_cases_0003, analysis_runs_0003, rule_findings_0003,
     repair_candidates_0003, audit_events_0003]"
  by (simp add: upgrade_0003_audit_events_def op_defs table_facts audit_events_0002_def audit_events_0003_def)

lemma upgrade_0003_integration_profiles_step:
  "run_ops upgrade_0003_integration_profiles
    [organizations_0001, app_metadata_0001, payment_cases_0003, analysis_runs_0003, rule_findings_0003,
     repair_candidates_0003, audit_events_0003] =
   Some [organizations_0001, app_metadata_0001, payment_cases_0003, analysis_runs_0003, rule_findings_0003,
     repair_candidates_0003, audit_events_0003, integration_profiles_0003]"
  by (simp add: upgrade_0003_integration_profiles_def op_defs table_facts integration_profiles_0003_def)

lemma upgrade_0003_integration_profile_versions_step:
  "run_ops upgrade_0003_integration_profile_versions
    [organizations_0001, app_metadata_0001, payment_cases_0003, analysis_runs_0003, rule_findings_0003,
     repair_candidates_0003, audit_events_0003, integration_profiles_0003] =
   Some [organizations_0001, app_metadata_0001, payment_cases_0003, analysis_runs_0003, rule_findings_0003,
     repair_candidates_0003, audit_events_0003, integration_profiles_0003, integration_profile_versions_0003]"
  by (simp add: upgrade_0003_integration_profile_versions_def op_defs table_facts integration_profile_versions_0003_def)

lemma upgrade_0003_api_clients_step:
  "run_ops upgrade_0003_api_clients
    [organizations_0001, app_metadata_0001, payment_cases_0003, analysis_runs_0003, rule_findings_0003,
     repair_candidates_0003, audit_events_0003, integration_profiles_0003, integration_profile_versions_0003] =
   Some [organizations_0001, app_metadata_0001, payment_cases_0003, analysis_runs_0003, rule_findings_0003,
     repair_candidates_0003, audit_events_0003, integration_profiles_0003, integration_profile_versions_0003,
     api_clients_0003]"
  by (simp add: upgrade_0003_api_clients_def op_defs table_facts api_clients_0003_def)

lemma upgrade_0003_batch_jobs_step:
  "run_ops upgrade_0003_batch_jobs
    [organizations_0001, app_metadata_0001, payment_cases_0003, analysis_runs_0003, rule_findings_0003,
     repair_candidates_0003, audit_events_0003, integration_profiles_0003, integration_profile_versions_0003,
     api_clients_0003] =
   Some [organizations_0001, app_metadata_0001, payment_cases_0003, analysis_runs_0003, rule_findings_0003,
     repair_candidates_0003, audit_events_0003, integration_profiles_0003, integration_profile_versions_0003,
     api_clients_0003, batch_jobs_0003]"
  by (simp add: upgrade_0003_batch_jobs_def op_defs table_facts batch_jobs_0003_def)

lemma upgrade_0003_case_actions_step:
  "run_ops upgrade_0003_case_actions
    [organizations_0001, app_metadata_0001, payment_cases_0003, analysis_runs_0003, rule_findings_0003,
     repair_candidates_0003, audit_events_0003, integration_profiles_0003, integration_profile_versions_0003,
     api_clients_0003, batch_jobs_0003] =
   Some [organizations_0001, app_metadata_0001, payment_cases_0003, analysis_runs_0003, rule_findings_0003,
     repair_candidates_0003, audit_events_0003, integration_profiles_0003, integration_profile_versions_0003,
     api_clients_0003, batch_jobs_0003, case_actions_0003]"
  by (simp add: upgrade_0003_case_actions_def op_defs table_facts case_actions_0003_def)

lemma upgrade_step_0003: "run_ops upgrade_0003 schema_0002 = Some schema_0003"
  by (simp only: upgrade_0003_def schema_0002_def schema_0003_def run_ops_append bind.bind_lunit append_Nil
      upgrade_0003_payment_cases_step upgrade_0003_analysis_runs_step upgrade_0003_rule_findings_step
      upgrade_0003_repair_candidates_step upgrade_0003_audit_events_step
      upgrade_0003_integration_profiles_step upgrade_0003_integration_profile_versions_step
      upgrade_0003_api_clients_step upgrade_0003_batch_jobs_step upgrade_0003_case_actions_step)

lemma downgrade_0003_step_0:
  "run_ops (DropTable ''case_actions'' # DropTable ''batch_jobs'' # DropTable ''api_clients'' #
     DropTable ''integration_profile_versions'' # DropTable ''integration_profiles'' # ms)
    [organizations_0001, app_metadata_0001, payment_cases_0003, analysis_runs_0003, rule_findings_0003,
     repair_candidates_0003, audit_events_0003, integration_profiles_0003, integration_profile_versions_0003,
     api_clients_0003, batch_jobs_0003, case_actions_0003] =
   run_ops ms [organizations_0001, app_metadata_0001, payment_cases_0003, analysis_runs_0003, rule_findings_0003,
     repair_candidates_0003, audit_events_0003]"
  by (simp add: op_defs table_facts)

lemma downgrade_0003_step_1:
  "run_ops (DropColumn ''audit_events'' ''action_metadata'' # DropColumn ''audit_events'' ''output_hash'' #
     DropColumn ''audit_events'' ''input_hash'' # DropColumn ''audit_events'' ''user_identity'' #
     DropColumn ''audit_events'' ''event_type'' # DropColumn ''audit_events'' ''ruleset_version'' #
     DropColumn ''audit_events'' ''mapping_version'' # DropColumn ''audit_events'' ''profile_version'' #
     DropColumn ''audit_events'' ''profile_id'' #
     DropIndex ''ix_audit_events_organization_id'' ''audit_events'' #
     DropColumn ''audit_events'' ''organization_id'' # ms)
    [organizations_0001, app_metadata_0001, payment_cases_0003, analysis_runs_0003, rule_findings_0003,
     repair_candidates_0003, audit_events_0003] =
   run_ops ms [organizations_0001, app_metadata_0001, payment_cases_0003, analysis_runs_0003, rule_findings_0003,
     repair_candidates_0003, audit_events_0002]"
  by (simp add: op_defs table_facts audit_events_0003_def audit_events_0002_def)

lemma downgrade_0003_step_2:
  "run_ops (DropColumn ''repair_candidates'' ''organization_id'' # ms)
    [organizations_0001, app_metadata_0001, payment_cases_0003, analysis_runs_0003, rule_findings_0003,
     repair_candidates_0003, audit_events_0002] =
   run_ops ms [organizations_0001, app_metadata_0001, payment_cases_0003, analysis_runs_0003, rule_findings_0003,
     repair_candidates_0002, audit_events_0002]"
  by (simp add: op_defs table_facts repair_candidates_0003_def repair_candidates_0002_def)

lemma downgrade_0003_step_3:
  "run_ops (DropColumn ''rule_findings'' ''organization_id'' # ms)
    [organizations_0001, app_metadata_0001, payment_cases_0003, analysis_runs_0003, rule_findings_0003,
     repair_candidates_0002, audit_events_0002] =
   run_ops ms [organizations_0001, app_metadata_0001, payment_cases_0003, analysis_runs_0003, rule_findings_0002,
     repair_candidates_0002, audit_events_0002]"
  by (simp add: op_defs table_facts rule_findings_0003_def rule_findings_0002_def)

lemma downgrade_0003_step_4:
  "run_ops (DropColumn ''analysis_runs'' ''organization_id'' # ms)
    [organizations_0001, app_metadata_0001, payment_cases_0003, analysis_runs_0003, rule_findings_0002,
     repair_candidates_0002, audit_events_0002] =
   run_ops ms [organizations_0001, app_metadata_0001, payment_cases_0003, analysis_runs_0002, rule_findings_0002,
     repair_candidates_0002, audit_events_0002]"
  by (simp add: op_defs table_facts analysis_runs_0003_def analysis_runs_0002_def)

lemma downgrade_0003_step_5:
  "run_ops (DropIndex ''ix_payment_cases_idempotency_key'' ''payment_cases'' #
     DropColumn ''payment_cases'' ''idempotency_key'' # DropColumn ''payment_cases'' ''status'' #
     DropColumn ''payment_cases'' ''address_provider_coverage'' #
     DropColumn ''payment_cases'' ''engine_version'' #
     DropColumn ''payment_cases'' ''integration_profile_version'' #
     DropColumn ''payment_cases'' ''mapping_version'' #
     DropIndex ''ix_payment_cases_organization_id'' ''payment_cases'' #
     DropColumn ''payment_cases'' ''organization_id'' # ms)
    [organizations_0001, app_metadata_0001, payment_cases_0003, analysis_runs_0002, rule_findings_0002,
     repair_candidates_0002, audit_events_0002] =
   run_ops ms [organizations_0001, app_metadata_0001, payment_cases_0002, analysis_runs_0002, rule_findings_0002,
     repair_candidates_0002, audit_events_0002]"
  by (simp add: op_defs table_facts payment_cases_0003_def payment_cases_0002_def)

lemma downgrade_step_0003: "run_ops downgrade_0003 schema_0003 = Some schema_0002"
  by (simp only: downgrade_0003_def schema_0002_def schema_0003_def run_ops.simps(1)
      downgrade_0003_step_0 downgrade_0003_step_1 downgrade_0003_step_2 downgrade_0003_step_3 downgrade_0003_step_4 downgrade_0003_step_5)

lemma upgrade_step_0004: "run_ops upgrade_0004 schema_0003 = Some schema_0004"
  by (simp add: upgrade_0004_def schema_0003_def schema_0004_def op_defs
      table_facts audit_events_0003_def audit_events_0004_def)

lemma upgrade_0005_match_records_step:
  "run_ops upgrade_0005_match_records
    [organizations_0001, app_metadata_0001, payment_cases_0003, analysis_runs_0003, rule_findings_0003,
     repair_candidates_0003, audit_events_0004, integration_profiles_0003, integration_profile_versions_0003,
     api_clients_0003, batch_jobs_0003, case_actions_0003] =
   Some [organizations_0001, app_metadata_0001, payment_cases_0003, analysis_runs_0003, rule_findings_0003,
     repair_candidates_0003, audit_events_0004, integration_profiles_0003, integration_profile_versions_0003,
     api_clients_0003, batch_jobs_0003, case_actions_0003, match_records_0005]"
  by (simp add: upgrade_0005_match_records_def op_defs table_facts match_records_0005_def)

lemma upgrade_0005_matching_policies_step:
  "run_ops upgrade_0005_matching_policies
    [organizations_0001, app_metadata_0001, payment_cases_0003, analysis_runs_0003, rule_findings_0003,
     repair_candidates_0003, audit_events_0004, integration_profiles_0003, integration_profile_versions_0003,
     api_clients_0003, batch_jobs_0003, case_actions_0003, match_records_0005] =
   Some [organizations_0001, app_metadata_0001, payment_cases_0003, analysis_runs_0003, rule_findings_0003,
     repair_candidates_0003, audit_events_0004, integration_profiles_0003, integration_profile_versions_0003,
     api_clients_0003, batch_jobs_0003, case_actions_0003, match_records_0005, matching_policies_0005]"
  by (simp add: upgrade_0005_matching_policies_def op_defs table_facts matching_policies_0005_def)

lemma upgrade_0005_matching_policy_versions_step:
  "run_ops upgrade_0005_matching_policy_versions
    [organizations_0001, app_metadata_0001, payment_cases_0003, analysis_runs_0003, rule_findings_0003,
     repair_candidates_0003, audit_events_0004, integration_profiles_0003, integration_profile_versions_0003,
     api_clients_0003, batch_jobs_0003, case_actions_0003, match_records_0005, matching_policies_0005] =
   Some [organizations_0001, app_metadata_0001, payment_cases_0003, analysis_runs_0003, rule_findings_0003,
     repair_candidates_0003, audit_events_0004, integration_profiles_0003, integration_profile_versions_0003,
     api_clients_0003, batch_jobs_0003, case_actions_0003, match_records_0005, matching_policies_0005,
     matching_policy_versions_0005]"
  by (simp add: upgrade_0005_matching_policy_versions_def op_defs table_facts matching_policy_versions_0005_def)

lemma upgrade_0005_match_runs_step:
  "run_ops upgrade_0005_match_runs
    [organizations_0001, app_metadata_0001, payment_cases_0003, analysis_runs_0003, rule_findings_0003,
     repair_candidates_0003, audit_events_0004, integration_profiles_0003, integration_profile_versions_0003,
     api_clients_0003, batch_jobs_0003, case_actions_0003, match_records_0005, matching_policies_0005,
     matching_policy_versions_0005] =
   Some [organizations_0001, app_metadata_0001, payment_cases_0003, analysis_runs_0003, rule_findings_0003,
     repair_candidates_0003, audit_events_0004, integration_profiles_0003, integration_profile_versions_0003,
     api_clients_0003, batch_jobs_0003, case_actions_0003, match_records_0005, matching_policies_0005,
     matching_policy_versions_0005, match_runs_0005]"
  by (simp add: upgrade_0005_match_runs_def op_defs table_facts match_runs_0005_def)

lemma upgrade_0005_match_candidates_step:
  "run_ops upgrade_0005_match_candidates
    [organizations_0001, app_metadata_0001, payment_cases_0003, analysis_runs_0003, rule_findings_0003,
     repair_candidates_0003, audit_events_0004, integration_profiles_0003, integration_profile_versions_0003,
     api_clients_0003, batch_jobs_0003, case_actions_0003, match_records_0005, matching_policies_0005,
     matching_policy_versions_0005, match_runs_0005] =
   Some [organizations_0001, app_metadata_0001, payment_cases_0003, analysis_runs_0003, rule_findings_0003,
     repair_candidates_0003, audit_events_0004, integration_profiles_0003, integration_profile_versions_0003,
     api_clients_0003, batch_jobs_0003, case_actions_0003, match_records_0005, matching_policies_0005,
     matching_policy_versions_0005, match_runs_0005, match_candidates_0005]"
  by (simp add: upgrade_0005_match_candidates_def op_defs table_facts match_candidates_0005_def)

lemma upgrade_step_0005: "run_ops upgrade_0005 schema_0004 = Some schema_0005"
  by (simp only: upgrade_0005_def schema_0004_def schema_0005_def run_ops_append bind.bind_lunit append_Nil
      upgrade_0005_match_records_step upgrade_0005_matching_policies_step
      upgrade_0005_matching_policy_versions_step upgrade_0005_match_runs_step
      upgrade_0005_match_candidates_step)

lemma downgrade_step_0005: "run_ops downgrade_0005 schema_0005 = Some schema_0004"
  by (simp add: downgrade_0005_def schema_0004_def schema_0005_def op_defs table_facts)

lemma upgrade_0006_iso_messages_step:
  "run_ops upgrade_0006_iso_messages
    [organizations_0001, app_metadata_0001, payment_cases_0003, analysis_runs_0003, rule_findings_0003,
     repair_candidates_0003, audit_events_0004, integration_profiles_0003, integration_profile_versions_0003,
     api_clients_0003, batch_jobs_0003, case_actions_0003, match_records_0005, matching_policies_0005,
     matching_policy_versions_0005, match_runs_0005, match_candidates_0005] =
   Some [organizations_0001, app_metadata_0001, payment_cases_0003, analysis_runs_0003, rule_findings_0003,
     repair_candidates_0003, audit_events_0004, integration_profiles_0003, integration_profile_versions_0003,
     api_clients_0003, batch_jobs_0003, case_actions_0003, match_records_0005, matching_policies_0005,
     matching_policy_versions_0005, match_runs_0005, match_candidates_0005, iso_messages_0006]"
  by (simp add: upgrade_0006_iso_messages_def op_defs table_facts iso_messages_0006_def)

lemma upgrade_0006_payment_lifecycles_step:
  "run_ops upgrade_0006_payment_lifecycles
    [organizations_0001, app_metadata_0001, payment_cases_0003, analysis_runs_0003, rule_findings_0003,
     repair_candidates_0003, audit_events_0004, integration_profiles_0003, integration_profile_versions_0003,
     api_clients_0003, batch_jobs_0003, case_actions_0003, match_records_0005, matching_policies_0005,
     matching_policy_versions_0005, match_runs_0005, match_candidates_0005, iso_messages_0006] =
   Some [organizations_0001, app_metadata_0001, payment_cases_0003, analysis_runs_0003, rule_findings_0003,
     repair_candidates_0003, audit_events_0004, integration_profiles_0003, integration_profile_versions_0003,
     api_clients_0003, batch_jobs_0003, case_actions_0003, match_records_0005, matching_policies_0005,
     matching_policy_versions_0005, match_runs_0005, match_candidates_0005, iso_messages_0006,
     payment_lifecycles_0006]"
  by (simp add: upgrade_0006_payment_lifecycles_def op_defs table_facts payment_lifecycles_0006_def)

lemma upgrade_0006_payment_lifecycle_events_step:
  "run_ops upgrade_0006_payment_lifecycle_events
    [organizations_0001, app_metadata_0001, payment_cases_0003, analysis_runs_0003, rule_findings_0003,
     repair_candidates_0003, audit_events_0004, integration_profiles_0003, integration_profile_versions_0003,
     api_clients_0003, batch_jobs_0003, case_actions_0003, match_records_0005, matching_policies_0005,
     matching_policy_versions_0005, match_runs_0005, match_candidates_0005, iso_messages_0006,
     payment_lifecycles_0006] =
   Some [organizations_0001, app_metadata_0001, payment_cases_0003, analysis_runs_0003, rule_findings_0003,
     repair_candidates_0003, audit_events_0004, integration_profiles_0003, integration_profile_versions_0003,
     api_clients_0003, batch_jobs_0003, case_actions_0003, match_records_0005, matching_policies_0005,
     matching_policy_versions_0005, match_runs_0005, match_candidates_0005, iso_messages_0006,
     payment_lifecycles_0006, payment_lifecycle_events_0006]"
  by (simp add: upgrade_0006_payment_lifecycle_events_def op_defs table_facts payment_lifecycle_events_0006_def)

lemma upgrade_0006_message_correlations_step:
  "run_ops upgrade_0006_message_correlations
    [organizations_0001, app_metadata_0001, payment_cases_0003, analysis_runs_0003, rule_findings_0003,
     repair_candidates_0003, audit_events_0004, integration_profiles_0003, integration_profile_versions_0003,
     api_clients_0003, batch_jobs_0003, case_actions_0003, match_records_0005, matching_policies_0005,
     matching_policy_versions_0005, match_runs_0005, match_candidates_0005, iso_messages_0006,
     payment_lifecycles_0006, payment_lifecycle_events_0006] =
   Some [organizations_0001, app_metadata_0001, payment_cases_0003, analysis_runs_0003, rule_findings_0003,
     repair_candidates_0003, audit_events_0004, integration_profiles_0003, integration_profile_versions_0003,
     api_clients_0003, batch_jobs_0003, case_actions_0003, match_records_0005, matching_policies_0005,
     matching_policy_versions_0005, match_runs_0005, match_candidates_0005, iso_messages_0006,
     payment_lifecycles_0006, payment_lifecycle_events_0006, message_correlations_0006]"
  by (simp add: upgrade_0006_message_correlations_def op_defs table_facts message_correlations_0006_def)

lemma upgrade_step_0006: "run_ops upgrade_0006 schema_0005 = Some schema_0006"
  by (simp only: upgrade_0006_def schema_0005_def schema_0006_def run_ops_append bind.bind_lunit append_Nil
      upgrade_0006_iso_messages_step upgrade_0006_payment_lifecycles_step
      upgrade_0006_payment_lifecycle_events_step upgrade_0006_message_correlations_step)

lemma downgrade_step_0006: "run_ops downgrade_0006 schema_0006 = Some schema_0005"
  by (simp add: downgrade_0006_def schema_0005_def schema_0006_def op_defs table_facts)

lemma upgrade_step_0007: "run_ops upgrade_0007 schema_0006 = Some schema_0007"
  by (simp add: upgrade_0007_def schema_0006_def schema_0007_def op_defs
      table_facts integration_profiles_0003_def integration_profiles_0007_def)

lemma downgrade_step_0007: "run_ops downgrade_0007 schema_0007 = Some schema_0006"
  by (simp add: downgrade_0007_def schema_0006_def schema_0007_def op_defs
      table_facts integration_profiles_0003_def integration_profiles_0007_def)

lemma upgrade_0008_payment_lifecycles_step:
  "run_ops upgrade_0008_payment_lifecycles
    [organizations_0001, app_metadata_0001, payment_cases_0003, analysis_runs_0003, rule_findings_0003,
     repair_candidates_0003, audit_events_0004, integration_profiles_0007, integration_profile_versions_0003,
     api_clients_0003, batch_jobs_0003, case_actions_0003, match_records_0005, matching_policies_0005,
     matching_policy_versions_0005, match_runs_0005, match_candidates_0005, iso_messages_0006,
     payment_lifecycles_0006, payment_lifecycle_events_0006, message_correlations_0006] =
   Some [organizations_0001, app_metadata_0001, payment_cases_0003, analysis_runs_0003, rule_findings_0003,
     repair_candidates_0003, audit_events_0004, integration_profiles_0007, integration_profile_versions_0003,
     api_clients_0003, batch_jobs_0003, case_actions_0003, match_records_0005, matching_policies_0005,
     matching_policy_versions_0005, match_runs_0005, match_candidates_0005, iso_messages_0006,
     payment_lifecycles_0008, payment_lifecycle_events_0006, message_correlations_0006]"
  by (simp add: upgrade_0008_payment_lifecycles_def op_defs table_facts payment_lifecycles_0006_def payment_lifecycles_0008_def)

lemma upgrade_0008_account_reports_step:
  "run_ops upgrade_0008_account_reports
    [organizations_0001, app_metadata_0001, payment_cases_0003, analysis_runs_0003, rule_findings_0003,
     repair_candidates_0003, audit_events_0004, integration_profiles_0007, integration_profile_versions_0003,
     api_clients_0003, batch_jobs_0003, case_actions_0003, match_records_0005, matching_policies_0005,
     matching_policy_versions_0005, match_runs_0005, match_candidates_0005, iso_messages_0006,
     payment_lifecycles_0008, payment_lifecycle_events_0006, message_correlations_0006] =
   Some [organizations_0001, app_metadata_0001, payment_cases_0003, analysis_runs_0003, rule_findings_0003,
     repair_candidates_0003, audit_events_0004, integration_profiles_0007, integration_profile_versions_0003,
     api_clients_0003, batch_jobs_0003, case_actions_0003, match_records_0005, matching_policies_0005,
     matching_policy_versions_0005, match_runs_0005, match_candidates_0005, iso_messages_0006,
     payment_lifecycles_0008, payment_lifecycle_events_0006, message_correlations_0006, account_reports_0008]"
  by (simp add: upgrade_0008_account_reports_def op_defs table_facts account_reports_0008_def)

lemma upgrade_0008_account_entries_step:
  "run_ops upgrade_0008_account_entries
    [organizations_0001, app_metadata_0001, payment_cases_0003, analysis_runs_0003, rule_findings_0003,
     repair_candidates_0003, audit_events_0004, integration_profiles_0007, integration_profile_versions_0003,
     api_clients_0003, batch_jobs_0003, case_actions_0003, match_records_0005, matching_policies_0005,
     matching_policy_versions_0005, match_runs_0005, match_candidates_0005, iso_messages_0006,
     payment_lifecycles_0008, payment_lifecycle_events_0006, message_correlations_0006, account_reports_0008] =
   Some [organizations_0001, app_metadata_0001, payment_cases_0003, analysis_runs_0003, rule_findings_0003,
     repair_candidates_0003, audit_events_0004, integration_profiles_0007, integration_profile_versions_0003,
     api_clients_0003, batch_jobs_0003, case_actions_0003, match_records_0005, matching_policies_0005,
     matching_policy_versions_0005, match_runs_0005, match_candidates_0005, iso_messages_0006,
     payment_lifecycles_0008, payment_lifecycle_events_0006, message_correlations_0006, account_reports_0008,
     account_entries_0008]"
  by (simp add: upgrade_0008_account_entries_def op_defs table_facts account_entries_0008_def)

lemma upgrade_0008_account_balances_step:
  "run_ops upgrade_0008_account_balances
    [organizations_0001, app_metadata_0001, payment_cases_0003, analysis_runs_0003, rule_findings_0003,
     repair_candidates_0003, audit_events_0004, integration_profiles_0007, integration_profile_versions_0003,
     api_clients_0003, batch_jobs_0003, case_actions_0003, match_records_0005, matching_policies_0005,
     matching_policy_versions_0005, match_runs_0005, match_candidates_0005, iso_messages_0006,
     payment_lifecycles_0008, payment_lifecycle_events_0006, message_correlations_0006, account_reports_0008,
     account_entries_0008] =
   Some [organizations_0001, app_metadata_0001, payment_cases_0003, analysis_runs_0003, rule_findings_0003,
     repair_candidates_0003, audit_events_0004, integration_profiles_0007, integration_profile_versions_0003,
     api_clients_0003, batch_jobs_0003, case_actions_0003, match_records_0005, matching_policies_0005,
     matching_policy_versions_0005, match_runs_0005, match_candidates_0005, iso_messages_0006,
     payment_lifecycles_0008, payment_lifecycle_events_0006, message_correlations_0006, account_reports_0008,
     account_entries_0008, account_balances_0008]"
  by (simp add: upgrade_0008_account_balances_def op_defs table_facts account_balances_0008_def)

lemma upgrade_0008_account_reconciliations_step:
  "run_ops upgrade_0008_account_reconciliations
    [organizations_0001, app_metadata_0001, payment_cases_0003, analysis_runs_0003, rule_findings_0003,
     repair_candidates_0003, audit_events_0004, integration_profiles_0007, integration_profile_versions_0003,
     api_clients_0003, batch_jobs_0003, case_actions_0003, match_records_0005, matching_policies_0005,
     matching_policy_versions_0005, match_runs_0005, match_candidates_0005, iso_messages_0006,
     payment_lifecycles_0008, payment_lifecycle_events_0006, message_correlations_0006, account_reports_0008,
     account_entries_0008, account_balances_0008] =
   Some [organizations_0001, app_metadata_0001, payment_cases_0003, analysis_runs_0003, rule_findings_0003,
     repair_candidates_0003, audit_events_0004, integration_profiles_0007, integration_profile_versions_0003,
     api_clients_0003, batch_jobs_0003, case_actions_0003, match_records_0005, matching_policies_0005,
     matching_policy_versions_0005, match_runs_0005, match_candidates_0005, iso_messages_0006,
     payment_lifecycles_0008, payment_lifecycle_events_0006, message_correlations_0006, account_reports_0008,
     account_entries_0008, account_balances_0008, account_reconciliations_0008]"
  by (simp add: upgrade_0008_account_reconciliations_def op_defs table_facts account_reconciliations_0008_def)

lemma upgrade_step_0008: "run_ops upgrade_0008 schema_0007 = Some schema_0008"
  by (simp only: upgrade_0008_def schema_0007_def schema_0008_def run_ops_append bind.bind_lunit append_Nil
      upgrade_0008_payment_lifecycles_step upgrade_0008_account_reports_step
      upgrade_0008_account_entries_step upgrade_0008_account_balances_step
      upgrade_0008_account_reconciliations_step)

lemma downgrade_step_0008: "run_ops downgrade_0008 schema_0008 = Some schema_0007"
  by (simp add: downgrade_0008_def schema_0007_def schema_0008_def op_defs table_facts
      payment_lifecycles_0006_def payment_lifecycles_0008_def)

lemma upgrade_0009_app_users_step:
  "run_ops upgrade_0009_app_users
    [organizations_0001, app_metadata_0001, payment_cases_0003, analysis_runs_0003, rule_findings_0003,
     repair_candidates_0003, audit_events_0004, integration_profiles_0007, integration_profile_versions_0003,
     api_clients_0003, batch_jobs_0003, case_actions_0003, match_records_0005, matching_policies_0005,
     matching_policy_versions_0005, match_runs_0005, match_candidates_0005, iso_messages_0006,
     payment_lifecycles_0008, payment_lifecycle_events_0006, message_correlations_0006, account_reports_0008,
     account_entries_0008, account_balances_0008, account_reconciliations_0008] =
   Some [organizations_0001, app_metadata_0001, payment_cases_0003, analysis_runs_0003, rule_findings_0003,
     repair_candidates_0003, audit_events_0004, integration_profiles_0007, integration_profile_versions_0003,
     api_clients_0003, batch_jobs_0003, case_actions_0003, match_records_0005, matching_policies_0005,
     matching_policy_versions_0005, match_runs_0005, match_candidates_0005, iso_messages_0006,
     payment_lifecycles_0008, payment_lifecycle_events_0006, message_correlations_0006, account_reports_0008,
     account_entries_0008, account_balances_0008, account_reconciliations_0008, app_users_0009]"
  by (simp add: upgrade_0009_app_users_def op_defs table_facts app_users_0009_def)

lemma upgrade_0009_user_sessions_step:
  "run_ops upgrade_0009_user_sessions
    [organizations_0001, app_metadata_0001, payment_cases_0003, analysis_runs_0003, rule_findings_0003,
     repair_candidates_0003, audit_events_0004, integration_profiles_0007, integration_profile_versions_0003,
     api_clients_0003, batch_jobs_0003, case_actions_0003, match_records_0005, matching_policies_0005,
     matching_policy_versions_0005, match_runs_0005, match_candidates_0005, iso_messages_0006,
     payment_lifecycles_0008, payment_lifecycle_events_0006, message_correlations_0006, account_reports_0008,
     account_entries_0008, account_balances_0008, account_reconciliations_0008, app_users_0009] =
   Some [organizations_0001, app_metadata_0001, payment_cases_0003, analysis_runs_0003, rule_findings_0003,
     repair_candidates_0003, audit_events_0004, integration_profiles_0007, integration_profile_versions_0003,
     api_clients_0003, batch_jobs_0003, case_actions_0003, match_records_0005, matching_policies_0005,
     matching_policy_versions_0005, match_runs_0005, match_candidates_0005, iso_messages_0006,
     payment_lifecycles_0008, payment_lifecycle_events_0006, message_correlations_0006, account_reports_0008,
     account_entries_0008, account_balances_0008, account_reconciliations_0008, app_users_0009,
     user_sessions_0009]"
  by (simp add: upgrade_0009_user_sessions_def op_defs table_facts user_sessions_0009_def)

lemma upgrade_step_0009: "run_ops upgrade_0009 schema_0008 = Some schema_0009"
  by (simp only: upgrade_0009_def schema_0008_def schema_0009_def run_ops_append bind.bind_lunit append_Nil
      upgrade_0009_app_users_step upgrade_0009_user_sessions_step)

lemma downgrade_step_0009: "run_ops downgrade_0009 schema_0009 = Some schema_0008"
  by (simp add: downgrade_0009_def schema_0008_def schema_0009_def op_defs
      table_facts app_users_0009_def user_sessions_0009_def)

lemma upgrade_step_0010: "run_ops upgrade_0010 schema_0009 = Some schema_0010"
  by (simp add: upgrade_0010_def schema_0009_def schema_0010_def op_defs
      table_facts audit_events_0004_def audit_events_0010_def)

lemma downgrade_step_0010: "run_ops downgrade_0010 schema_0010 = Some schema_0009"
  by (simp add: downgrade_0010_def schema_0009_def schema_0010_def op_defs
      table_facts audit_events_0004_def audit_events_0010_def)

end
