(* ===== verification/PO_SchemaProps.thy ===== *)
theory PO_SchemaProps
  imports PO_SchemaStates
begin

text \<open>
  What the migrations give: the revisions form one chain, each applies to the schema its
  predecessor leaves, each downgrade but one undoes its upgrade, and the schema they end with is
  the one the models declare, up to two constraints.
\<close>

section \<open>The chain of revisions\<close>

definition linear_chain :: "revision list \<Rightarrow> bool" where
  "linear_chain rs \<longleftrightarrow> map rv_down_revision rs = None # map (Some \<circ> rv_id) (butlast rs)"

definition upgraded :: "nat \<Rightarrow> schema option" where
  "upgraded n = foldl (\<lambda>s r. Option.bind s (run_ops (rv_upgrade r))) (Some []) (take n revisions)"

text \<open>The schema after a revision is applied and taken back.\<close>

definition taken_back :: "nat \<Rightarrow> schema option" where
  "taken_back n = Option.bind (upgraded (Suc n)) (run_ops (rv_downgrade (revisions ! n)))"

lemma revision_facts:
  "length revisions = 10"
  "map rv_upgrade revisions = [upgrade_0001, upgrade_0002, upgrade_0003, upgrade_0004, upgrade_0005, upgrade_0006,
     upgrade_0007, upgrade_0008, upgrade_0009, upgrade_0010]"
  "map rv_downgrade revisions = [downgrade_0001, downgrade_0002, downgrade_0003, downgrade_0004, downgrade_0005,
     downgrade_0006, downgrade_0007, downgrade_0008, downgrade_0009, downgrade_0010]"
  by (simp_all add: revisions_def revision_0001_def revision_0002_def revision_0003_def revision_0004_def
      revision_0005_def revision_0006_def revision_0007_def revision_0008_def revision_0009_def revision_0010_def)

lemma upgraded_Suc:
  "n < 10 \<Longrightarrow> upgraded (Suc n) = Option.bind (upgraded n) (run_ops (map rv_upgrade revisions ! n))"
  using revision_facts(1) by (simp add: upgraded_def take_Suc_conv_app_nth)

lemma upgraded_steps:
  "upgraded 0 = Some schema_0000" "upgraded 1 = Some schema_0001" "upgraded 2 = Some schema_0002"
  "upgraded 3 = Some schema_0003" "upgraded 4 = Some schema_0004" "upgraded 5 = Some schema_0005"
  "upgraded 6 = Some schema_0006" "upgraded 7 = Some schema_0007" "upgraded 8 = Some schema_0008"
  "upgraded 9 = Some schema_0009" "upgraded 10 = Some schema_0010"
proof -
  show 0: "upgraded 0 = Some schema_0000" by (simp add: upgraded_def schema_0000_def)
  show 1: "upgraded 1 = Some schema_0001" using upgraded_Suc[of 0] by (simp add: revision_facts 0 upgrade_step_0001)
  show 2: "upgraded 2 = Some schema_0002" using upgraded_Suc[of 1] 1 by (simp add: revision_facts upgrade_step_0002 numeral_2_eq_2)
  show 3: "upgraded 3 = Some schema_0003" using upgraded_Suc[of 2] by (simp add: revision_facts 2 upgrade_step_0003)
  show 4: "upgraded 4 = Some schema_0004" using upgraded_Suc[of 3] by (simp add: revision_facts 3 upgrade_step_0004)
  show 5: "upgraded 5 = Some schema_0005" using upgraded_Suc[of 4] by (simp add: revision_facts 4 upgrade_step_0005)
  show 6: "upgraded 6 = Some schema_0006" using upgraded_Suc[of 5] by (simp add: revision_facts 5 upgrade_step_0006)
  show 7: "upgraded 7 = Some schema_0007" using upgraded_Suc[of 6] by (simp add: revision_facts 6 upgrade_step_0007)
  show 8: "upgraded 8 = Some schema_0008" using upgraded_Suc[of 7] by (simp add: revision_facts 7 upgrade_step_0008)
  show 9: "upgraded 9 = Some schema_0009" using upgraded_Suc[of 8] by (simp add: revision_facts 8 upgrade_step_0009)
  show "upgraded 10 = Some schema_0010" using upgraded_Suc[of 9] by (simp add: revision_facts 9 upgrade_step_0010)
qed

text \<open>Taking back \<open>0004_audit_event_fix\<close> restores the column it dropped as an optional one, at the end.\<close>

definition with_optional_event :: "schema \<Rightarrow> schema" where
  "with_optional_event s = map (\<lambda>t. if tb_name t = ''audit_events''
     then t\<lparr>tb_columns := filter (\<lambda>c. cn_name c \<noteq> ''event'') (tb_columns t) @ [optional ''event'' (StringT 64)]\<rparr>
     else t) s"

lemma downgrade_step_0004: "run_ops downgrade_0004 schema_0004 = Some (with_optional_event schema_0003)"
  by (simp add: downgrade_0004_def schema_0003_def schema_0004_def with_optional_event_def op_defs table_facts
      audit_events_0004_def audit_events_0003_def)

text \<open>C14: The revisions form one chain from the empty database; every upgrade applies to the schema its
  predecessor leaves, and every downgrade gives that schema back, with one exception: after
  \<open>0004_audit_event_fix\<close> is taken back, the dropped column \<open>event\<close> is optional.\<close>

theorem migrations_reversible:
  "linear_chain revisions \<and> upgraded 10 \<noteq> None \<and>
   map taken_back [0, 1, 2, 4, 5, 6, 7, 8, 9] = map upgraded [0, 1, 2, 4, 5, 6, 7, 8, 9] \<and>
   taken_back 3 = map_option with_optional_event (upgraded 3) \<and> taken_back 3 \<noteq> upgraded 3"
proof -
  have nth: "rv_downgrade (revisions ! n) = map rv_downgrade revisions ! n" if "n < 10" for n
    using that revision_facts(1) by simp
  have tb: "taken_back n = Option.bind (upgraded (Suc n)) (run_ops (map rv_downgrade revisions ! n))" if "n < 10" for n
    using nth[OF that] by (simp add: taken_back_def)
  have chain: "linear_chain revisions"
    by (simp add: linear_chain_def revisions_def revision_0001_def revision_0002_def revision_0003_def
        revision_0004_def revision_0005_def revision_0006_def revision_0007_def revision_0008_def
        revision_0009_def revision_0010_def)
  have "with_optional_event schema_0003 \<noteq> schema_0003"
    by (simp add: with_optional_event_def schema_0003_def table_facts audit_events_0003_def table_of_def required_def optional_def)
  then have exc: "taken_back 3 = map_option with_optional_event (upgraded 3) \<and> taken_back 3 \<noteq> upgraded 3"
    by (simp add: tb revision_facts upgraded_steps downgrade_step_0004)
  have two: "upgraded (Suc (Suc 0)) = Some schema_0002"
    using upgraded_steps(3) by (simp add: numeral_2_eq_2)
  have undo: "map taken_back [0, 1, 2, 4, 5, 6, 7, 8, 9] = map upgraded [0, 1, 2, 4, 5, 6, 7, 8, 9]"
    using upgraded_steps(2) by (simp add: tb two revision_facts upgraded_steps downgrade_step_0001 downgrade_step_0002
        downgrade_step_0003 downgrade_step_0005 downgrade_step_0006 downgrade_step_0007 downgrade_step_0008
        downgrade_step_0009 downgrade_step_0010)
  show ?thesis using chain exc undo upgraded_steps(11) by (metis option.distinct(1))
qed

section \<open>The declared tables\<close>

datatype drift = UndeclaredTable string | MissingTable string
  | ColumnDiffers string string
  | UniqueDiffers string string
  | ForeignDiffers string string

definition sym_diff :: "'a list \<Rightarrow> 'a list \<Rightarrow> 'a list" where
  "sym_diff xs ys = filter (\<lambda>x. x \<notin> set ys) xs @ filter (\<lambda>y. y \<notin> set xs) ys"

text \<open>
  What differs between a declared table and the table of the database: a column that only one of
  them has with this type and nullability, a unique column, a foreign key.
\<close>

definition table_drift :: "dbtable \<Rightarrow> dbtable \<Rightarrow> drift list" where
  "table_drift d t =
     map (\<lambda>c. ColumnDiffers (tb_name d) (cn_name c)) (sym_diff (tb_columns d) (tb_columns t)) @
     map (UniqueDiffers (tb_name d)) (sym_diff (tb_uniques d) (tb_uniques t)) @
     map (\<lambda>f. ForeignDiffers (tb_name d) (fst f)) (sym_diff (tb_foreign d) (tb_foreign t))"

definition schema_drift :: "dbtable list \<Rightarrow> schema \<Rightarrow> drift list" where
  "schema_drift ds s =
     concat (map (\<lambda>d. case lookup_table (tb_name d) s of None \<Rightarrow> [MissingTable (tb_name d)]
       | Some t \<Rightarrow> table_drift d t) ds) @
     map (\<lambda>t. UndeclaredTable (tb_name t)) (filter (\<lambda>t. lookup_table (tb_name t) ds = None) s)"

lemma sym_diff_same: "set xs = set ys \<Longrightarrow> sym_diff xs ys = []"
  by (simp add: sym_diff_def filter_empty_conv)

lemma declared_names:
  "tb_name declared_organizations = ''organizations''"
  "tb_name declared_app_metadata = ''app_metadata''"
  "tb_name declared_payment_cases = ''payment_cases''"
  "tb_name declared_analysis_runs = ''analysis_runs''"
  "tb_name declared_rule_findings = ''rule_findings''"
  "tb_name declared_repair_candidates = ''repair_candidates''"
  "tb_name declared_audit_events = ''audit_events''"
  "tb_name declared_integration_profiles = ''integration_profiles''"
  "tb_name declared_integration_profile_versions = ''integration_profile_versions''"
  "tb_name declared_api_clients = ''api_clients''"
  "tb_name declared_batch_jobs = ''batch_jobs''"
  "tb_name declared_case_actions = ''case_actions''"
  "tb_name declared_match_records = ''match_records''"
  "tb_name declared_matching_policies = ''matching_policies''"
  "tb_name declared_matching_policy_versions = ''matching_policy_versions''"
  "tb_name declared_match_runs = ''match_runs''"
  "tb_name declared_match_candidates = ''match_candidates''"
  "tb_name declared_iso_messages = ''iso_messages''"
  "tb_name declared_payment_lifecycles = ''payment_lifecycles''"
  "tb_name declared_payment_lifecycle_events = ''payment_lifecycle_events''"
  "tb_name declared_message_correlations = ''message_correlations''"
  "tb_name declared_account_reports = ''account_reports''"
  "tb_name declared_account_entries = ''account_entries''"
  "tb_name declared_account_balances = ''account_balances''"
  "tb_name declared_account_reconciliations = ''account_reconciliations''"
  "tb_name declared_app_users = ''app_users''"
  "tb_name declared_user_sessions = ''user_sessions''"
  by (simp_all add: table_of_def declared_organizations_def declared_app_metadata_def declared_payment_cases_def
      declared_analysis_runs_def declared_rule_findings_def declared_repair_candidates_def
      declared_audit_events_def declared_integration_profiles_def declared_integration_profile_versions_def
      declared_api_clients_def declared_batch_jobs_def declared_case_actions_def declared_match_records_def
      declared_matching_policies_def declared_matching_policy_versions_def declared_match_runs_def
      declared_match_candidates_def declared_iso_messages_def declared_payment_lifecycles_def
      declared_payment_lifecycle_events_def declared_message_correlations_def declared_account_reports_def
      declared_account_entries_def declared_account_balances_def declared_account_reconciliations_def
      declared_app_users_def declared_user_sessions_def)

text \<open>The tables whose columns are declared in the order in which they are created.\<close>

lemma same_tables:
  "table_drift declared_organizations organizations_0001 = []"
  "table_drift declared_app_metadata app_metadata_0001 = []"
  "table_drift declared_integration_profile_versions integration_profile_versions_0003 = []"
  "table_drift declared_api_clients api_clients_0003 = []"
  "table_drift declared_batch_jobs batch_jobs_0003 = []"
  "table_drift declared_case_actions case_actions_0003 = []"
  "table_drift declared_match_records match_records_0005 = []"
  "table_drift declared_matching_policies matching_policies_0005 = []"
  "table_drift declared_matching_policy_versions matching_policy_versions_0005 = []"
  "table_drift declared_match_runs match_runs_0005 = []"
  "table_drift declared_match_candidates match_candidates_0005 = []"
  "table_drift declared_iso_messages iso_messages_0006 = []"
  "table_drift declared_payment_lifecycle_events payment_lifecycle_events_0006 = []"
  "table_drift declared_message_correlations message_correlations_0006 = []"
  "table_drift declared_account_reports account_reports_0008 = []"
  "table_drift declared_account_entries account_entries_0008 = []"
  "table_drift declared_account_balances account_balances_0008 = []"
  "table_drift declared_account_reconciliations account_reconciliations_0008 = []"
  "table_drift declared_app_users app_users_0009 = []"
  "table_drift declared_user_sessions user_sessions_0009 = []"
  by (simp_all add: table_drift_def sym_diff_same table_of_def
      declared_organizations_def organizations_0001_def declared_app_metadata_def app_metadata_0001_def
      declared_integration_profile_versions_def integration_profile_versions_0003_def
      declared_api_clients_def api_clients_0003_def declared_batch_jobs_def batch_jobs_0003_def
      declared_case_actions_def case_actions_0003_def declared_match_records_def match_records_0005_def
      declared_matching_policies_def matching_policies_0005_def
      declared_matching_policy_versions_def matching_policy_versions_0005_def
      declared_match_runs_def match_runs_0005_def declared_match_candidates_def match_candidates_0005_def
      declared_iso_messages_def iso_messages_0006_def
      declared_payment_lifecycle_events_def payment_lifecycle_events_0006_def
      declared_message_correlations_def message_correlations_0006_def
      declared_account_reports_def account_reports_0008_def
      declared_account_entries_def account_entries_0008_def
      declared_account_balances_def account_balances_0008_def
      declared_account_reconciliations_def account_reconciliations_0008_def
      declared_app_users_def app_users_0009_def declared_user_sessions_def user_sessions_0009_def)

text \<open>The tables to which a later revision added columns.\<close>

lemma payment_cases_columns: "set (tb_columns declared_payment_cases) = set (tb_columns payment_cases_0003)"
  by (simp add: declared_payment_cases_def payment_cases_0003_def table_of_def insert_commute)

lemma analysis_runs_columns: "set (tb_columns declared_analysis_runs) = set (tb_columns analysis_runs_0003)"
  by (simp add: declared_analysis_runs_def analysis_runs_0003_def table_of_def insert_commute)

lemma rule_findings_columns: "set (tb_columns declared_rule_findings) = set (tb_columns rule_findings_0003)"
  by (simp add: declared_rule_findings_def rule_findings_0003_def table_of_def insert_commute)

lemma repair_candidates_columns: "set (tb_columns declared_repair_candidates) = set (tb_columns repair_candidates_0003)"
  by (simp add: declared_repair_candidates_def repair_candidates_0003_def table_of_def insert_commute)

lemma audit_events_columns: "set (tb_columns declared_audit_events) = set (tb_columns audit_events_0010)"
  by (simp add: declared_audit_events_def audit_events_0010_def table_of_def insert_commute)

lemma integration_profiles_columns: "set (tb_columns declared_integration_profiles) = set (tb_columns integration_profiles_0007)"
  by (simp add: declared_integration_profiles_def integration_profiles_0007_def table_of_def insert_commute)

lemma payment_lifecycles_columns: "set (tb_columns declared_payment_lifecycles) = set (tb_columns payment_lifecycles_0008)"
  by (simp add: declared_payment_lifecycles_def payment_lifecycles_0008_def table_of_def insert_commute)

lemma extended_tables:
  "table_drift declared_analysis_runs analysis_runs_0003 = []"
  "table_drift declared_rule_findings rule_findings_0003 = []"
  "table_drift declared_repair_candidates repair_candidates_0003 = []"
  "table_drift declared_audit_events audit_events_0010 = []"
  "table_drift declared_integration_profiles integration_profiles_0007 = []"
  "table_drift declared_payment_cases payment_cases_0003 = [ForeignDiffers ''payment_cases'' ''organization_id'']"
  "table_drift declared_payment_lifecycles payment_lifecycles_0008 =
     [UniqueDiffers ''payment_lifecycles'' ''lifecycle_id'']"
  unfolding table_drift_def
  by (simp_all add: sym_diff_same[OF payment_cases_columns] sym_diff_same[OF analysis_runs_columns] sym_diff_same[OF rule_findings_columns] sym_diff_same[OF repair_candidates_columns] sym_diff_same[OF audit_events_columns] sym_diff_same[OF integration_profiles_columns] sym_diff_same[OF payment_lifecycles_columns]
      sym_diff_same declared_names)
    (simp_all add: sym_diff_def table_of_def declared_payment_cases_def payment_cases_0003_def declared_analysis_runs_def analysis_runs_0003_def declared_rule_findings_def rule_findings_0003_def declared_repair_candidates_def repair_candidates_0003_def declared_audit_events_def audit_events_0010_def declared_integration_profiles_def integration_profiles_0007_def declared_payment_lifecycles_def payment_lifecycles_0008_def)

text \<open>C15: The schema after all migrations is the one the models declare, table by table and column by column
  with types and nullability, unique columns and foreign keys, up to two constraints the models declare
  and no migration creates: the foreign key of \<open>payment_cases.organization_id\<close> and the uniqueness of
  \<open>payment_lifecycles.lifecycle_id\<close>.\<close>

theorem models_match_migrations:
  "map_option (schema_drift declared_tables) (upgraded 10) =
     Some [ForeignDiffers ''payment_cases'' ''organization_id'', UniqueDiffers ''payment_lifecycles'' ''lifecycle_id'']"
  by (simp add: upgraded_steps schema_drift_def schema_0010_def declared_tables_def lookup_table_def declared_names
      table_facts same_tables extended_tables)

end
