(* ===== verification/PO_Reset.thy ===== *)
theory PO_Reset
  imports PO_SchemaProps PO_Prelude PO_Store "HOL-Library.List_Lexorder" "HOL-Library.Char_ord"
begin

text \<open>
  \<open>scripts/reset_demo.py\<close>, which deletes the rows of one organization from every table that has the
  column \<open>organization_id\<close>, children before the tables they refer to. The graph of the tables is
  read from the catalogue of the database, here from a schema of \<open>PO_Schema\<close>. Rows are modelled as
  far as the script and the foreign keys see them: table, key, organization and references.

  \<open>deletion_order_total\<close> says that the order exists for every graph and does not depend on how the
  catalogue lists it, \<open>deletion_order_safe\<close> that it puts every table after the tables that refer to it when
  the references have no cycle, and \<open>reset_removes_tenant_only\<close> what a run does to the rows.
\<close>

section \<open>The order of deletion\<close>

definition PROTECTED :: "string list" where
  "PROTECTED = [''organizations'', ''api_clients'', ''app_users'', ''user_sessions'']"

definition catalogue_tables :: "schema \<Rightarrow> string list" where
  "catalogue_tables s = map tb_name (filter (\<lambda>t. has_column t ''organization_id'') s)"

text \<open>The pairs of a table and a table it refers to.\<close>

definition catalogue_edges :: "schema \<Rightarrow> (string \<times> string) list" where
  "catalogue_edges s = concat (map (\<lambda>t. map (\<lambda>f. (tb_name t, snd f)) (tb_foreign t)) s)"

definition children_of :: "string list \<Rightarrow> (string \<times> string) list \<Rightarrow> string \<Rightarrow> string list" where
  "children_of tables edges parent = map fst (filter (\<lambda>(c, p). c \<in> set tables \<and> p \<in> set tables \<and> c \<noteq> p \<and> p = parent) edges)"

text \<open>One round: the tables without a remaining child, or all of them when there is a cycle.\<close>

definition ready_tables :: "(string \<Rightarrow> string list) \<Rightarrow> string list \<Rightarrow> string list" where
  "ready_tables children remaining =
     (let ready = sort (filter (\<lambda>t. \<not> list_ex (\<lambda>c. c \<in> set remaining) (children t)) remaining) in
      if ready = [] then sort remaining else ready)"

lemma ready_subset: "set (ready_tables children remaining) \<subseteq> set remaining"
  by (auto simp: ready_tables_def Let_def)

lemma ready_some: "remaining \<noteq> [] \<Longrightarrow> ready_tables children remaining \<noteq> []"
  by (simp add: ready_tables_def Let_def) (metis set_empty set_sort)

function deletion_rounds :: "(string \<Rightarrow> string list) \<Rightarrow> string list \<Rightarrow> string list" where
  "deletion_rounds children remaining =
     (if remaining = [] then []
      else ready_tables children remaining @
        deletion_rounds children (filter (\<lambda>t. t \<notin> set (ready_tables children remaining)) remaining))"
  by pat_completeness auto

termination
proof (relation "measure (\<lambda>(_, remaining). length remaining)")
  fix children :: "string \<Rightarrow> string list" and remaining :: "string list"
  assume "remaining \<noteq> []"
  then have "hd (ready_tables children remaining) \<in> set (ready_tables children remaining)" by (simp add: ready_some)
  moreover from this have "hd (ready_tables children remaining) \<in> set remaining" using ready_subset by blast
  ultimately show "((children, filter (\<lambda>t. t \<notin> set (ready_tables children remaining)) remaining), children, remaining)
      \<in> measure (\<lambda>(_, remaining). length remaining)"
    by (auto intro: length_filter_less)
qed simp

declare deletion_rounds.simps [simp del]

definition deletion_order :: "string list \<Rightarrow> (string \<times> string) list \<Rightarrow> string list" where
  "deletion_order tables edges = deletion_rounds (children_of tables edges) tables"

section \<open>The rows\<close>

record dbrow =
  dr_table :: string
  dr_key :: string
  dr_org :: "string option"
  dr_refs :: "(string \<times> string) list"

definition refers_to :: "dbrow \<Rightarrow> dbrow \<Rightarrow> bool" where
  "refers_to r d \<longleftrightarrow> (dr_table d, dr_key d) \<in> set (dr_refs r)"

text \<open>\<open>DELETE FROM table WHERE organization_id = :org\<close> is refused while a row that stays refers to a deleted one.\<close>

definition delete_rows :: "string \<Rightarrow> string \<Rightarrow> dbrow list \<Rightarrow> dbrow list res" where
  "delete_rows org table rows =
     (let gone = filter (\<lambda>r. dr_table r = table \<and> dr_org r = Some org) rows;
          kept = filter (\<lambda>r. \<not> (dr_table r = table \<and> dr_org r = Some org)) rows in
      if list_ex (\<lambda>r. list_ex (refers_to r) gone) kept then Inl (IntegrityError table) else Inr kept)"

fun delete_tables :: "string \<Rightarrow> string list \<Rightarrow> dbrow list \<Rightarrow> dbrow list res" where
  "delete_tables org [] rows = Inr rows"
| "delete_tables org (t # ts) rows = bindR (delete_rows org t rows) (delete_tables org ts)"

text \<open>
  \<open>_reset\<close> for an organization that was found or not: the deletions are one transaction, so an
  error leaves the rows as they were.
\<close>

definition reset_targets :: "bool \<Rightarrow> schema \<Rightarrow> string list" where
  "reset_targets delete_users s = filter (\<lambda>t. delete_users \<or> t \<notin> set PROTECTED) (catalogue_tables s)"

definition reset_demo :: "schema \<Rightarrow> bool \<Rightarrow> string option \<Rightarrow> dbrow list \<Rightarrow> nat res \<times> dbrow list" where
  "reset_demo s delete_users org rows = (case org of
     None \<Rightarrow> (Inr 1, rows)
   | Some o_id \<Rightarrow>
       (case delete_tables o_id (deletion_order (reset_targets delete_users s) (catalogue_edges s)) rows of
          Inl e \<Rightarrow> (Inl e, rows) | Inr rows' \<Rightarrow> (Inr 0, rows')))"

text \<open>Without \<open>--yes\<close> nothing is deleted.\<close>

definition reset_main :: "bool \<Rightarrow> schema \<Rightarrow> bool \<Rightarrow> string option \<Rightarrow> dbrow list \<Rightarrow> nat res \<times> dbrow list" where
  "reset_main yes s delete_users org rows = (if \<not> yes then (Inr 2, rows) else reset_demo s delete_users org rows)"

section \<open>The order is safe\<close>

lemma set_deletion_rounds: "set (deletion_rounds children remaining) = set remaining"
proof (induction children remaining rule: deletion_rounds.induct)
  case (1 children remaining)
  then show ?case using ready_subset[of children remaining]
    by (subst deletion_rounds.simps) auto
qed

lemma distinct_deletion_rounds: "distinct remaining \<Longrightarrow> distinct (deletion_rounds children remaining)"
proof (induction children remaining rule: deletion_rounds.induct)
  case (1 children remaining)
  have "distinct (ready_tables children remaining)" using 1(2) by (auto simp: ready_tables_def Let_def)
  then show ?case using 1 by (subst deletion_rounds.simps) (auto simp: set_deletion_rounds)
qed

lemma set_children_of: "c \<in> set (children_of tables edges p) \<longleftrightarrow>
    (c, p) \<in> set edges \<and> c \<in> set tables \<and> p \<in> set tables \<and> c \<noteq> p"
  by (force simp: children_of_def)

text \<open>The references between tables, without those of a table to itself.\<close>

definition table_refs :: "string list \<Rightarrow> (string \<times> string) list \<Rightarrow> (string \<times> string) set" where
  "table_refs tables edges = {(c, p). c \<in> set (children_of tables edges p)}"

lemma ready_minimal:
  assumes "acyclic (table_refs tables edges)" "remaining \<noteq> []" "t \<in> set (ready_tables (children_of tables edges) remaining)"
  shows "set (children_of tables edges t) \<inter> set remaining = {}"
proof -
  let ?R = "table_refs tables edges"
  have "?R \<subseteq> set edges" by (auto simp: table_refs_def set_children_of)
  then have "wf ?R" using assms(1) by (meson List.finite_set finite_acyclic_wf finite_subset)
  moreover have "hd remaining \<in> set remaining" using assms(2) by simp
  ultimately obtain m where m: "m \<in> set remaining" "\<And>c. (c, m) \<in> ?R \<Longrightarrow> c \<notin> set remaining"
    by (metis wfE_min)
  then have "m \<in> set (filter (\<lambda>t. \<not> list_ex (\<lambda>c. c \<in> set remaining) (children_of tables edges t)) remaining)"
    by (auto simp: list_ex_iff table_refs_def)
  then have "sort (filter (\<lambda>t. \<not> list_ex (\<lambda>c. c \<in> set remaining) (children_of tables edges t)) remaining) \<noteq> []"
    by (metis empty_iff set_empty set_sort)
  with assms(3) show ?thesis by (auto simp: ready_tables_def Let_def list_ex_iff)
qed

text \<open>Whatever the order deletes before a table, all remaining children of the table are among it.\<close>

lemma rounds_children_first:
  assumes "acyclic (table_refs tables edges)"
  shows "deletion_rounds (children_of tables edges) remaining = before @ p # later \<Longrightarrow>
    set (children_of tables edges p) \<inter> set remaining \<subseteq> set before"
proof (induction "length remaining" arbitrary: remaining before rule: less_induct)
  case less
  let ?ch = "children_of tables edges" and ?rest = "filter (\<lambda>t. t \<notin> set (ready_tables (children_of tables edges) remaining)) remaining"
  show ?case
  proof (cases "remaining = []")
    case False
    have shorter: "length ?rest < length remaining"
      using False ready_some[OF False, of ?ch] ready_subset[of ?ch remaining]
      by (metis (no_types, lifting) hd_in_set length_filter_less subsetD)
    have eq: "ready_tables ?ch remaining @ deletion_rounds ?ch ?rest = before @ p # later"
      using less.prems False by (subst (asm) deletion_rounds.simps) simp
    then consider (now) "p \<in> set (ready_tables ?ch remaining)"
      | (later) ys where "before = ready_tables ?ch remaining @ ys" "deletion_rounds ?ch ?rest = ys @ p # later"
      by (auto simp: append_eq_append_conv2 append_eq_Cons_conv)
    then show ?thesis
    proof cases
      case now
      then show ?thesis using ready_minimal[OF assms False] by simp
    next
      case later
      have "set (?ch p) \<inter> set ?rest \<subseteq> set ys" by (rule less.hyps[OF shorter later(2)])
      then show ?thesis using later(1) by auto
    qed
  qed simp
qed

lemma deletion_order_safe:
  assumes "acyclic (table_refs tables edges)" "deletion_order tables edges = before @ p # later"
    and "(c, p) \<in> set edges" "c \<in> set tables" "p \<in> set tables" "c \<noteq> p"
  shows "c \<in> set before"
  using rounds_children_first[OF assms(1), of tables before p later] assms(2-)
  by (auto simp: deletion_order_def set_children_of)

text \<open>The catalogue may list tables and references in any order.\<close>

lemma ready_tables_any_order:
  assumes "mset remaining = mset remaining'" "\<And>t. set (ch t) = set (ch' t)"
  shows "ready_tables ch remaining = ready_tables ch' remaining'"
proof -
  have s: "set remaining = set remaining'" using assms(1) by (rule mset_eq_setD)
  have "list_ex (\<lambda>c. c \<in> set remaining) (ch t) = list_ex (\<lambda>c. c \<in> set remaining') (ch' t)" for t
    by (simp add: list_ex_iff assms(2) s)
  then have "mset (filter (\<lambda>t. \<not> list_ex (\<lambda>c. c \<in> set remaining) (ch t)) remaining) =
      mset (filter (\<lambda>t. \<not> list_ex (\<lambda>c. c \<in> set remaining') (ch' t)) remaining')"
    by (simp add: assms(1) mset_filter)
  then have "sort (filter (\<lambda>t. \<not> list_ex (\<lambda>c. c \<in> set remaining) (ch t)) remaining) =
      sort (filter (\<lambda>t. \<not> list_ex (\<lambda>c. c \<in> set remaining') (ch' t)) remaining')"
    by (intro properties_for_sort) simp_all
  moreover have "sort remaining = sort remaining'" using assms(1) by (intro properties_for_sort) simp_all
  ultimately show ?thesis by (simp add: ready_tables_def Let_def)
qed

lemma rounds_any_order:
  assumes "\<And>t. set (ch t) = set (ch' t)"
  shows "mset remaining = mset remaining' \<Longrightarrow> deletion_rounds ch remaining = deletion_rounds ch' remaining'"
proof (induction "length remaining" arbitrary: remaining remaining' rule: less_induct)
  case less
  let ?ready = "ready_tables ch remaining"
  have r: "ready_tables ch' remaining' = ?ready" using ready_tables_any_order[OF less.prems, of ch ch'] assms by simp
  show ?case
  proof (cases "remaining = []")
    case True
    then have "remaining' = []" using less.prems by simp
    with True show ?thesis by (simp add: deletion_rounds.simps)
  next
    case False
    then have ne: "remaining' \<noteq> []" using less.prems by auto
    have shorter: "length (filter (\<lambda>t. t \<notin> set ?ready) remaining) < length remaining"
      using False ready_some[OF False, of ch] ready_subset[of ch remaining]
      by (metis (no_types, lifting) hd_in_set length_filter_less subsetD)
    have "mset (filter (\<lambda>t. t \<notin> set ?ready) remaining) = mset (filter (\<lambda>t. t \<notin> set ?ready) remaining')"
      by (simp add: mset_filter less.prems)
    from less.hyps[OF shorter this] show ?thesis
      using False ne r by (subst (1 2) deletion_rounds.simps) simp
  qed
qed

lemma deletion_order_any_order:
  assumes "distinct tables" "distinct tables'" "set tables' = set tables" "set edges' = set edges"
  shows "deletion_order tables' edges' = deletion_order tables edges"
proof -
  have "set (children_of tables' edges' t) = set (children_of tables edges t)" for t
    using assms(3,4) by (auto simp: set_children_of)
  moreover have "mset tables' = mset tables" using assms(1-3) by (simp add: set_eq_iff_mset_eq_distinct)
  ultimately show ?thesis unfolding deletion_order_def by (rule rounds_any_order)
qed

text \<open>C34: The computation of the deletion order ends for every graph of references, cyclic ones included, and
  its result is a permutation of the given tables. It is determined by the sets of tables and of
  references, in whatever order the catalogue lists them. Where the references between different
  tables have no cycle, every table stands after each table that refers to it; with a cycle only the
  permutation remains.\<close>

theorem deletion_order_total:
  assumes "distinct tables" "distinct tables'" "set tables' = set tables" "set edges' = set edges"
  shows "distinct (deletion_order tables edges) \<and> set (deletion_order tables edges) = set tables \<and>
    deletion_order tables' edges' = deletion_order tables edges \<and>
    (acyclic (table_refs tables edges) \<longrightarrow> (\<forall>(c, p)\<in>table_refs tables edges.
       \<exists>before between later. deletion_order tables edges = before @ c # between @ p # later))"
proof -
  have d: "distinct (deletion_order tables edges)" "set (deletion_order tables edges) = set tables"
    using assms(1) by (simp_all add: deletion_order_def distinct_deletion_rounds set_deletion_rounds)
  have "\<exists>before between later. deletion_order tables edges = before @ c # between @ p # later"
    if a: "acyclic (table_refs tables edges)" and cp: "(c, p) \<in> table_refs tables edges" for c p
  proof -
    have e: "(c, p) \<in> set edges" "c \<in> set tables" "p \<in> set tables" "c \<noteq> p"
      using cp by (auto simp: table_refs_def set_children_of)
    then obtain xs later where p: "deletion_order tables edges = xs @ p # later" by (metis d(2) split_list)
    from deletion_order_safe[OF a p e] obtain before between where "xs = before @ c # between" by (metis split_list)
    with p show ?thesis by auto
  qed
  with d deletion_order_any_order[OF assms] show ?thesis by blast
qed

section \<open>What a run deletes\<close>

text \<open>References follow the foreign keys, and whatever refers to a row to be deleted is to be deleted too.\<close>

definition refs_declared :: "(string \<times> string) list \<Rightarrow> dbrow list \<Rightarrow> bool" where
  "refs_declared edges rows = list_all (\<lambda>r. list_all (\<lambda>(p, _). (dr_table r, p) \<in> set edges) (dr_refs r)) rows"

definition tenant_closed :: "string \<Rightarrow> string list \<Rightarrow> dbrow list \<Rightarrow> bool" where
  "tenant_closed org targets rows = list_all (\<lambda>d. list_all (\<lambda>r. refers_to r d \<and> dr_table d \<in> set targets \<and> dr_org d = Some org
     \<longrightarrow> dr_table r \<in> set targets \<and> dr_org r = Some org) rows) rows"

definition outside :: "string \<Rightarrow> string list \<Rightarrow> dbrow \<Rightarrow> bool" where
  "outside org tables r \<longleftrightarrow> \<not> (dr_table r \<in> set tables \<and> dr_org r = Some org)"

lemma delete_tables_rest:
  assumes "acyclic (table_refs targets edges)" "refs_declared edges rows" "tenant_closed org targets rows"
  shows "deletion_order targets edges = before @ ts \<Longrightarrow>
    delete_tables org ts (filter (outside org before) rows) = Inr (filter (outside org (before @ ts)) rows)"
proof (induction ts arbitrary: before)
  case (Cons t ts)
  let ?rows = "filter (outside org before) rows"
  have t: "t \<in> set targets"
    using Cons.prems set_deletion_rounds[of "children_of targets edges" targets] by (auto simp: deletion_order_def)
  have "\<not> refers_to r d" if r: "r \<in> set ?rows" "\<not> (dr_table r = t \<and> dr_org r = Some org)"
    and d: "d \<in> set ?rows" "dr_table d = t \<and> dr_org d = Some org" for r d
  proof
    assume ref: "refers_to r d"
    then have c: "dr_table r \<in> set targets" "dr_org r = Some org"
      using assms(3) r d t by (auto simp: tenant_closed_def list_all_iff)
    have e: "(dr_table r, t) \<in> set edges" using assms(2) r d ref by (fastforce simp: refs_declared_def list_all_iff refers_to_def)
    have "dr_table r \<in> set before"
      using deletion_order_safe[OF assms(1) Cons.prems e c(1) t] r(2) c(2) by blast
    with r(1) c(2) show False by (simp add: outside_def)
  qed
  then have "delete_rows org t ?rows = Inr (filter (\<lambda>r. \<not> (dr_table r = t \<and> dr_org r = Some org)) ?rows)"
    by (auto simp: delete_rows_def Let_def list_ex_iff)
  also have "filter (\<lambda>r. \<not> (dr_table r = t \<and> dr_org r = Some org)) ?rows = filter (outside org (before @ [t])) rows"
    unfolding filter_filter by (rule filter_cong) (auto simp: outside_def)
  finally show ?case using Cons.IH[of "before @ [t]"] Cons.prems by simp
qed simp

text \<open>C16: A confirmed reset of an organization deletes exactly its rows in the tables it covers, the protected
  ones only on request, and leaves every row of every other organization, provided references between
  tables have no cycle, follow the foreign keys and stay within the organization; without confirmation, or for an
  unknown organization, nothing is deleted.\<close>

theorem reset_removes_tenant_only:
  assumes "acyclic (table_refs (reset_targets users s) (catalogue_edges s))"
    and "refs_declared (catalogue_edges s) rows" "tenant_closed org (reset_targets users s) rows"
  shows "reset_main True s users (Some org) rows = (Inr 0, filter (outside org (reset_targets users s)) rows) \<and>
    (dr_org r \<noteq> Some org \<or> \<not> users \<and> dr_table r \<in> set PROTECTED \<longrightarrow> outside org (reset_targets users s) r) \<and>
    reset_main False s users (Some org) rows = (Inr 2, rows) \<and> reset_main True s users None rows = (Inr 1, rows)"
proof -
  let ?order = "deletion_order (reset_targets users s) (catalogue_edges s)"
  have set: "set ?order = set (reset_targets users s)" by (simp add: deletion_order_def set_deletion_rounds)
  have none: "outside org [] = (\<lambda>_. True)" by (simp add: outside_def fun_eq_iff)
  have "delete_tables org ?order rows = Inr (filter (outside org ?order) rows)"
    using delete_tables_rest[OF assms, of "[]" ?order] by (simp add: none)
  moreover have "outside org ?order = outside org (reset_targets users s)" by (simp add: outside_def set fun_eq_iff)
  ultimately show ?thesis
    by (auto simp: reset_main_def reset_demo_def outside_def reset_targets_def)
qed

section \<open>The reset of the migrated schema\<close>

lemma head_edges_down:
  "list_all (\<lambda>(c, p). length (takeWhile (\<lambda>n. n \<noteq> p) (map tb_name schema_0010)) <
     length (takeWhile (\<lambda>n. n \<noteq> c) (map tb_name schema_0010))) (catalogue_edges schema_0010)"
  by (simp add: schema_0010_def catalogue_edges_def table_facts)

lemma head_refs_acyclic: "acyclic (table_refs tables (catalogue_edges schema_0010))"
proof -
  let ?rank = "\<lambda>t. length (takeWhile (\<lambda>n. n \<noteq> t) (map tb_name schema_0010))"
  have "table_refs tables (catalogue_edges schema_0010) \<subseteq> (measure ?rank)\<inverse>"
    using head_edges_down by (auto simp: table_refs_def set_children_of list_all_iff)
  moreover have "acyclic ((measure ?rank)\<inverse>)" by (simp add: acyclic_converse wf_acyclic)
  ultimately show ?thesis by (rule acyclic_subset[rotated])
qed

text \<open>Two tables of a cycle, and one that refers to neither.\<close>

theorem deletion_order_total_witness:
  "set (deletion_order [''a'', ''b'', ''c''] [(''a'', ''b''), (''b'', ''a'')]) = {''a'', ''b'', ''c''} \<and>
   deletion_order [''c'', ''b'', ''a''] [(''b'', ''a''), (''a'', ''b'')] = deletion_order [''a'', ''b'', ''c''] [(''a'', ''b''), (''b'', ''a'')]"
  using deletion_order_total[of "[''a'', ''b'', ''c'']" "[''c'', ''b'', ''a'']" "[(''b'', ''a''), (''a'', ''b'')]" "[(''a'', ''b''), (''b'', ''a'')]"]
  by auto

definition demo_rows :: "dbrow list" where
  "demo_rows =
     [\<lparr>dr_table = ''organizations'', dr_key = ''A'', dr_org = None, dr_refs = []\<rparr>,
      \<lparr>dr_table = ''match_runs'', dr_key = ''1'', dr_org = Some ''A'', dr_refs = [(''organizations'', ''A'')]\<rparr>,
      \<lparr>dr_table = ''match_candidates'', dr_key = ''2'', dr_org = Some ''A'', dr_refs = [(''match_runs'', ''1''), (''organizations'', ''A'')]\<rparr>,
      \<lparr>dr_table = ''app_users'', dr_key = ''3'', dr_org = Some ''A'', dr_refs = [(''organizations'', ''A'')]\<rparr>,
      \<lparr>dr_table = ''match_runs'', dr_key = ''4'', dr_org = Some ''B'', dr_refs = []\<rparr>]"

lemma reset_targetI:
  "t \<in> set s \<Longrightarrow> has_column t ''organization_id'' \<Longrightarrow> tb_name t \<notin> set PROTECTED \<Longrightarrow> tb_name t \<in> set (reset_targets False s)"
  by (auto simp: reset_targets_def catalogue_tables_def)

lemma demo_tables:
  "match_runs_0005 \<in> set schema_0010" "match_candidates_0005 \<in> set schema_0010"
  "tb_name match_runs_0005 = ''match_runs''" "tb_name match_candidates_0005 = ''match_candidates''"
  "has_column match_runs_0005 ''organization_id''" "has_column match_candidates_0005 ''organization_id''"
  by (simp_all add: schema_0010_def table_facts has_column_def lookup_column_def required_def optional_def
      match_runs_0005_def match_candidates_0005_def table_of_def)

lemma demo_targets:
  "''match_runs'' \<in> set (reset_targets False schema_0010)" "''match_candidates'' \<in> set (reset_targets False schema_0010)"
  "''organizations'' \<notin> set (reset_targets False schema_0010)" "''app_users'' \<notin> set (reset_targets False schema_0010)"
  using reset_targetI[OF demo_tables(1) demo_tables(5)] reset_targetI[OF demo_tables(2) demo_tables(6)]
  by (simp_all add: demo_tables PROTECTED_def) (simp_all add: reset_targets_def PROTECTED_def)

theorem reset_removes_tenant_only_witness:
  "reset_main True schema_0010 False (Some ''A'') demo_rows =
     (Inr 0, [demo_rows ! 0, demo_rows ! 3, demo_rows ! 4])"
proof -
  have refs: "refs_declared (catalogue_edges schema_0010) demo_rows"
    by (simp add: refs_declared_def demo_rows_def catalogue_edges_def schema_0010_def table_facts)
  have closed: "tenant_closed ''A'' (reset_targets False schema_0010) demo_rows"
    using demo_targets by (simp add: tenant_closed_def demo_rows_def refers_to_def)
  show ?thesis
    using reset_removes_tenant_only[OF head_refs_acyclic refs closed] demo_targets
    by (simp add: demo_rows_def outside_def)
qed

end
