(* ===== verification/PO_App.thy ===== *)
theory PO_App
  imports PO_AddressProps PO_Xml
begin

text \<open>
  The set-up of the API: \<open>settings.py\<close>, the choice of the address provider and of the allowed origins
  in \<open>app/factory.py\<close>, the metering provider of \<open>observability.py\<close>, the middleware, the exception
  handlers of \<open>errors.py\<close> and the probes of \<open>dependencies.py\<close> and \<open>routers/health.py\<close>. Settings
  that are only handed to a library are left out. A middleware is a function on the rest of the
  application; names of headers are in lower case; a generated id is an argument.
\<close>

section \<open>Settings\<close>

datatype AppEnvironment = ENV_DEVELOPMENT | ENV_TEST | ENV_DEMO | ENV_PRODUCTION

definition AppEnvironment_value :: "AppEnvironment \<Rightarrow> string" where
  "AppEnvironment_value e = (case e of ENV_DEVELOPMENT \<Rightarrow> ''development'' | ENV_TEST \<Rightarrow> ''test''
     | ENV_DEMO \<Rightarrow> ''demo'' | ENV_PRODUCTION \<Rightarrow> ''production'')"

datatype AIProvider = AI_NONE | AI_OLLAMA | AI_VLLM | AI_CUSTOM

definition AIProvider_value :: "AIProvider \<Rightarrow> string" where
  "AIProvider_value p = (case p of AI_NONE \<Rightarrow> ''none'' | AI_OLLAMA \<Rightarrow> ''ollama'' | AI_VLLM \<Rightarrow> ''vllm''
     | AI_CUSTOM \<Rightarrow> ''custom'')"

record Settings =
  cf_app_version :: string
  cf_build_sha :: string
  cf_build_date :: string
  cf_app_environment :: AppEnvironment
  cf_api_title :: string
  cf_cors_allowed_origins :: "string list"
  cf_allowed_hosts :: "string list"
  cf_ai_enabled :: bool
  cf_ai_provider :: AIProvider
  cf_database_host :: string
  cf_database_port :: int
  cf_database_name :: string
  cf_database_user :: string
  cf_database_password :: string
  cf_redis_host :: string
  cf_redis_password :: "string option"
  cf_metrics_enabled :: bool
  cf_ready_checks :: "string list"
  cf_zero_retention_enabled :: bool
  cf_address_provider :: string
  cf_swift_address_url :: string
  cf_swift_address_max_retries :: int

definition default_settings :: Settings where
  "default_settings =
     \<lparr>cf_app_version = ''0.1.0-eval'', cf_build_sha = ''unknown'', cf_build_date = ''unknown'',
      cf_app_environment = ENV_DEVELOPMENT, cf_api_title = ''CloudNova PaymentOps'',
      cf_cors_allowed_origins = [''http://localhost:3000''], cf_allowed_hosts = [''localhost''],
      cf_ai_enabled = False, cf_ai_provider = AI_NONE,
      cf_database_host = ''localhost'', cf_database_port = 5432, cf_database_name = ''paymentops'',
      cf_database_user = ''paymentops'', cf_database_password = ''replace-me'',
      cf_redis_host = ''localhost'', cf_redis_password = None, cf_metrics_enabled = True,
      cf_ready_checks = [''database'', ''redis''], cf_zero_retention_enabled = True,
      cf_address_provider = ''auto'', cf_swift_address_url = [], cf_swift_address_max_retries = 1\<rparr>"

text \<open>\<open>_split_comma\<close>: a list setting is given as a list, or as one text with commas.\<close>

datatype raw_setting = RawText string | RawList "string list"

definition split_comma :: "raw_setting \<Rightarrow> string list" where
  "split_comma v = (case v of RawText s \<Rightarrow> filter (\<lambda>w. w \<noteq> []) (map strip (split_char (CHR '','') s)) | RawList ws \<Rightarrow> ws)"

definition is_production :: "Settings \<Rightarrow> bool" where
  "is_production cf \<longleftrightarrow> cf_app_environment cf = ENV_PRODUCTION"

definition dsn_with :: "string \<Rightarrow> Settings \<Rightarrow> string" where
  "dsn_with driver cf = ''postgresql+'' @ driver @ ''://'' @ cf_database_user cf @ '':'' @ cf_database_password cf
     @ ''@'' @ cf_database_host cf @ '':'' @ show_int (cf_database_port cf) @ ''/'' @ cf_database_name cf"

definition sqlalchemy_dsn :: "Settings \<Rightarrow> string" where
  "sqlalchemy_dsn cf = dsn_with ''psycopg2'' cf"

definition async_sqlalchemy_dsn :: "Settings \<Rightarrow> string" where
  "async_sqlalchemy_dsn cf = dsn_with ''asyncpg'' cf"

definition safe_info :: "Settings \<Rightarrow> (string, jval) dict" where
  "safe_info cf =
     [(''product'', JStr (cf_api_title cf)), (''release'', JStr ''v1 Evaluation Release''),
      (''version'', JStr (cf_app_version cf)), (''build_sha'', JStr (cf_build_sha cf)),
      (''build_date'', JStr (cf_build_date cf)), (''environment'', JStr (AppEnvironment_value (cf_app_environment cf))),
      (''ai_enabled'', JBool (cf_ai_enabled cf)),
      (''ai_provider'', JStr (if cf_ai_enabled cf then AIProvider_value (cf_ai_provider cf) else ''none'')),
      (''zero_retention_enabled'', JBool (cf_zero_retention_enabled cf)),
      (''database_configured'', JBool (cf_database_host cf \<noteq> [])), (''redis_configured'', JBool (cf_redis_host cf \<noteq> []))]"

text \<open>The information that is public does not depend on any credential.\<close>

lemma safe_info_no_credentials:
  "safe_info (cf\<lparr>cf_database_password := p, cf_database_user := u, cf_redis_password := r\<rparr>) = safe_info cf"
  by (simp add: safe_info_def)

lemma split_comma_items: "w \<in> set (split_comma (RawText s)) \<Longrightarrow> w \<noteq> [] \<and> strip w = w"
  by (auto simp: split_comma_def strip_idem)

section \<open>Allowed origins\<close>

definition cors_origins :: "Settings \<Rightarrow> string list" where
  "cors_origins cf = (if is_production cf
     then filter (\<lambda>origin. origin \<notin> {''http://localhost:3000'', ''*''}) (cf_cors_allowed_origins cf)
     else cf_cors_allowed_origins cf)"

lemma production_origins: "is_production cf \<Longrightarrow> ''*'' \<notin> set (cors_origins cf)"
  by (simp add: cors_origins_def)

section \<open>The address provider\<close>

definition selects_swift :: "Settings \<Rightarrow> bool" where
  "selects_swift cf \<longleftrightarrow> cf_address_provider cf = ''swift''
     \<or> cf_address_provider cf = ''auto'' \<and> cf_swift_address_url cf \<noteq> []"

definition app_swift_config :: "Settings \<Rightarrow> swift_config" where
  "app_swift_config cf =
     \<lparr>sw_endpoint = rev (dropWhile (\<lambda>c. c = CHR ''/'') (rev (cf_swift_address_url cf))),
      sw_max_retries = cf_swift_address_max_retries cf, sw_circuit_threshold = 3, sw_cooldown = 30\<rparr>"

text \<open>Both choices at the type of the fallback; the deterministic provider leaves its state alone.\<close>

type_synonym app_env = "swift_env \<times> unit"
type_synonym app_state = "swift_state \<times> unit \<times> nat"

definition build_address_provider :: "Settings \<Rightarrow> (app_env, app_state) provider" where
  "build_address_provider cf = (if selects_swift cf
     then fallback_analyze (swift_analyze (app_swift_config cf)) cloudnova_provider
     else (\<lambda>e a s. (Inr (cloudnova_analyze a), s)))"

text \<open>\<open>MetricAddressProvider\<close>: the counters that a request raises, with their labels.\<close>

datatype metric_event = ProviderRequest string string | ProviderFallback string | ProviderFailure string

definition metric_analyze :: "string \<Rightarrow> ('e, 's) provider \<Rightarrow> ('e, 's \<times> metric_event list) provider" where
  "metric_analyze label inner env address st = (case st of (s, events) \<Rightarrow>
     (case inner env address s of
        (Inr r, s') \<Rightarrow> (Inr r, (s', events @ ProviderRequest label (if aa_fallback r then ''fallback'' else ''ok'')
          # (if aa_fallback r then [ProviderFallback label] else [])))
      | (Inl e, s') \<Rightarrow> (Inl e, (s', events @ [ProviderRequest label ''error'', ProviderFailure label]))))"

definition metric_label :: "Settings \<Rightarrow> string" where
  "metric_label cf = (if selects_swift cf then ''swift_derived'' else ''cloudnova'')"

definition app_provider :: "Settings \<Rightarrow> (app_env, app_state \<times> metric_event list) provider" where
  "app_provider cf = metric_analyze (metric_label cf) (build_address_provider cf)"

lemma metric_transparent:
  "fst (metric_analyze label inner e a (s, events)) = fst (inner e a s)"
  "fst (snd (metric_analyze label inner e a (s, events))) = snd (inner e a s)"
  by (simp_all add: metric_analyze_def split: prod.split sum.split)

lemma metric_counts_request:
  "\<exists>status more_events. snd (snd (metric_analyze label inner e a (s, events))) =
     events @ ProviderRequest label status # more_events \<and> status \<in> {''ok'', ''fallback'', ''error''}"
  by (simp add: metric_analyze_def split: prod.split sum.split)

locale metered = inner: address_provider inner for inner :: "('e, 's) provider"
begin

lemma metered_result:
  "fst (metric_analyze label inner e a st) = Inr r \<Longrightarrow> fst (inner e a (fst st)) = Inr r"
  using metric_transparent(1)[of label inner e a "fst st" "snd st"] by simp

end

sublocale metered \<subseteq> outer: address_provider "metric_analyze label inner" for label
proof unfold_locales
  fix e a st r
  assume "fst (metric_analyze label inner e a st) = Inr r"
  note r = metered_result[OF this]
  show "aa_normalized_fields r = resolved_fields (aa_country_code r) (aa_town_name r)"
    by (rule inner.fields_resolved[OF r])
  show "aa_readiness r = READY \<Longrightarrow> truthy (aa_country_code r) \<and> truthy (aa_town_name r)"
    by (rule inner.ready_resolved[OF r])
  show "\<not> aa_available r \<Longrightarrow> \<not> truthy (aa_country_code r) \<and> \<not> truthy (aa_town_name r)"
    by (rule inner.unavailable_empty[OF r])
qed

lemma fallback_or_cloudnova: "address_provider (build_address_provider cf)"
proof (cases "selects_swift cf")
  case True
  then show ?thesis by (simp add: build_address_provider_def swift_or_cloudnova.composed.address_provider_axioms)
next
  case False
  have "address_provider (\<lambda>(e :: app_env) a (s :: app_state). (Inr (cloudnova_analyze a), s))"
    using cloudnova.fields_resolved cloudnova.ready_resolved cloudnova.unavailable_empty
    by unfold_locales (auto simp: cloudnova_provider_def)
  with False show ?thesis by (simp add: build_address_provider_def)
qed

interpretation app: metered "build_address_provider cf" for cf
  by (intro metered.intro fallback_or_cloudnova)

text \<open>What the application's provider calls READY is resolved, whatever the settings choose.\<close>

lemma app_ready_resolved:
  "fst (app_provider cf e a s) = Inr r \<Longrightarrow> aa_readiness r = READY \<Longrightarrow>
     map_of (aa_normalized_fields r) ''country'' = aa_country_code r \<and>
     map_of (aa_normalized_fields r) ''town_name'' = aa_town_name r \<and> aa_available r"
  unfolding app_provider_def by (rule app.outer.ready_has_both_fields)

section \<open>Requests and responses\<close>

record http_request =
  hq_method :: string
  hq_headers :: "(string, string) dict"
  hq_correlation_id :: "string option"

record http_response =
  hr_status :: nat
  hr_headers :: "(string, string) dict"
  hr_body :: jval

type_synonym handler = "http_request \<Rightarrow> http_response res"

definition set_header :: "string \<Rightarrow> string \<Rightarrow> http_response \<Rightarrow> http_response" where
  "set_header k v r = r\<lparr>hr_headers := AList.update k v (hr_headers r)\<rparr>"

definition set_default_header :: "string \<times> string \<Rightarrow> http_response \<Rightarrow> http_response" where
  "set_default_header kv r = (if map_of (hr_headers r) (fst kv) = None then set_header (fst kv) (snd kv) r else r)"

section \<open>Middleware\<close>

definition CORRELATION_HEADER :: string where
  "CORRELATION_HEADER = ''x-correlation-id''"

definition request_cid :: "string \<Rightarrow> http_request \<Rightarrow> string" where
  "request_cid new_id req = dget_opt (por (map_of (hq_headers req) CORRELATION_HEADER) (Some new_id))"

definition correlation_middleware :: "string \<Rightarrow> handler \<Rightarrow> handler" where
  "correlation_middleware new_id call_next req =
     (let cid = request_cid new_id req in
      bindR (call_next (req\<lparr>hq_correlation_id := Some cid\<rparr>)) (\<lambda>r. Inr (set_header CORRELATION_HEADER cid r)))"

definition SECURITY_HEADERS :: "(string \<times> string) list" where
  "SECURITY_HEADERS =
     [(''x-content-type-options'', ''nosniff''), (''x-frame-options'', ''DENY''),
      (''content-security-policy'',
        ''default-src '' @ quote_name ''self'' @ ''; img-src '' @ quote_name ''self'' @ '' data:; style-src ''
          @ quote_name ''self'' @ '' '' @ quote_name ''unsafe-inline''),
      (''referrer-policy'', ''no-referrer''), (''permissions-policy'', ''camera=(), microphone=(), geolocation=()'')]"

definition security_middleware :: "handler \<Rightarrow> handler" where
  "security_middleware call_next req =
     bindR (call_next req) (\<lambda>r. Inr (fold set_default_header SECURITY_HEADERS r))"

text \<open>The labels of a counted request; an exception passes uncounted.\<close>

definition status_bucket :: "nat \<Rightarrow> string" where
  "status_bucket n = show_nat (n div 100 * 100)"

definition metrics_middleware ::
  "Settings \<Rightarrow> handler \<Rightarrow> http_request \<Rightarrow> http_response res \<times> (string \<times> string \<times> string \<times> string) list" where
  "metrics_middleware cf call_next req =
     (if \<not> cf_metrics_enabled cf then (call_next req, [])
      else (case call_next req of
        Inl e \<Rightarrow> (Inl e, [])
      | Inr r \<Rightarrow> (Inr r, [(''paymentops-api'', hq_method req, status_bucket (hr_status r), cf_app_version cf)])))"

text \<open>
  The order of \<open>create_app\<close>: the middleware added last is the outermost. The CORS middleware is a
  library's, given as a function on handlers; \<open>routes\<close> includes the handlers of declared exceptions.
\<close>

definition app_stack ::
  "Settings \<Rightarrow> (handler \<Rightarrow> handler) \<Rightarrow> string \<Rightarrow> handler \<Rightarrow> http_request
     \<Rightarrow> http_response res \<times> (string \<times> string \<times> string \<times> string) list" where
  "app_stack cf cors new_id routes req =
     metrics_middleware cf (cors (security_middleware (correlation_middleware new_id routes))) req"

section \<open>Exception handlers\<close>

definition handler_cid :: "string \<Rightarrow> http_request \<Rightarrow> string" where
  "handler_cid new_id req = dget_opt (por (hq_correlation_id req) (Some new_id))"

definition error_body :: "(string, jval) dict \<Rightarrow> string \<Rightarrow> jval" where
  "error_body err cid = JObj [(''error'', JObj err), (''correlation_id'', JStr cid)]"

definition xml_error_dict :: "string \<Rightarrow> string \<Rightarrow> string option \<Rightarrow> (string, jval) dict" where
  "xml_error_dict code message detail =
     [(''code'', JStr code), (''message'', JStr message)]
     @ (if truthy detail then [(''detail'', JStr (dget_opt detail))] else [])"

text \<open>\<open>PaymentOpsError\<close> and its subclasses carry message, status and code; an XML error its detail.\<close>

datatype app_exception = XmlFailure py_error string "string option" | PaymentOpsError string nat string | Unhandled py_error

definition ValidationFailure :: "string \<Rightarrow> app_exception" where
  "ValidationFailure m = PaymentOpsError m 422 ''validation_failure''"

definition NotFoundError :: "string \<Rightarrow> app_exception" where
  "NotFoundError m = PaymentOpsError m 404 ''not_found''"

definition handle_exception :: "string \<Rightarrow> http_request \<Rightarrow> app_exception \<Rightarrow> nat \<times> jval" where
  "handle_exception new_id req exc =
     (let cid = handler_cid new_id req in
      case exc of
        XmlFailure e message detail \<Rightarrow>
          (let (code, status) = (case xml_error_code e of None \<Rightarrow> (''XML-000'', 400) | Some cs \<Rightarrow> cs) in
           (status, error_body (xml_error_dict code message detail) cid))
      | PaymentOpsError message status code \<Rightarrow>
          (status, error_body [(''code'', JStr code), (''message'', JStr message)] cid)
      | Unhandled e \<Rightarrow>
          (500, error_body [(''code'', JStr ''internal_error''), (''message'', JStr ''Internal server error.'')] cid))"

lemma unhandled_hides_exception: "handle_exception i req (Unhandled e) = handle_exception i req (Unhandled e')"
  by (simp add: handle_exception_def)

section \<open>Readiness\<close>

record Dependency =
  dp_name :: string
  dp_ok :: bool
  dp_detail :: string

text \<open>The outcome of a ping: an exception is \<open>None\<close>; the database answers or raises.\<close>

definition check_database :: "bool option \<Rightarrow> Dependency" where
  "check_database ping = (case ping of
     None \<Rightarrow> \<lparr>dp_name = ''database'', dp_ok = False, dp_detail = ''unavailable''\<rparr>
   | Some _ \<Rightarrow> \<lparr>dp_name = ''database'', dp_ok = True, dp_detail = ''ok''\<rparr>)"

definition check_redis :: "bool option \<Rightarrow> Dependency" where
  "check_redis ping = (case ping of
     None \<Rightarrow> \<lparr>dp_name = ''redis'', dp_ok = False, dp_detail = ''unavailable''\<rparr>
   | Some pong \<Rightarrow> \<lparr>dp_name = ''redis'', dp_ok = pong, dp_detail = ''ok''\<rparr>)"

definition check_dependencies :: "bool option \<Rightarrow> bool option \<Rightarrow> Settings \<Rightarrow> Dependency list" where
  "check_dependencies db redis cf = map (\<lambda>n.
     if n = ''database'' then check_database db else if n = ''redis'' then check_redis redis
     else \<lparr>dp_name = n, dp_ok = True, dp_detail = ''skipped''\<rparr>) (cf_ready_checks cf)"

definition readiness_body :: "Dependency list \<Rightarrow> (string, jval) dict" where
  "readiness_body deps =
     [(''status'', JStr (if list_all dp_ok deps then ''ready'' else ''not_ready'')),
      (''checks'', JList (map (\<lambda>d. JObj [(''name'', JStr (dp_name d)), (''ok'', JBool (dp_ok d)),
         (''detail'', JStr (dp_detail d))]) deps))]"

definition ready_route :: "bool option \<Rightarrow> bool option \<Rightarrow> Settings \<Rightarrow> nat \<times> (string, jval) dict" where
  "ready_route db redis cf =
     (let deps = check_dependencies db redis cf; body = readiness_body deps in
      (if map_of body ''status'' = Some (JStr ''ready'') then 200 else 503, body))"

definition health_route :: "(string, jval) dict" where
  "health_route = [(''status'', JStr ''ok'')]"

text \<open>A name that is not known counts as up.\<close>

lemma ready_iff:
  "fst (ready_route db redis cf) = 200 \<longleftrightarrow>
     (''database'' \<in> set (cf_ready_checks cf) \<longrightarrow> db \<noteq> None) \<and>
     (''redis'' \<in> set (cf_ready_checks cf) \<longrightarrow> redis = Some True)"
proof -
  have "fst (ready_route db redis cf) = 200 \<longleftrightarrow> list_all dp_ok (check_dependencies db redis cf)"
    by (simp add: ready_route_def Let_def readiness_body_def)
  also have "\<dots> \<longleftrightarrow> list_all (\<lambda>n. (n = ''database'' \<longrightarrow> db \<noteq> None) \<and> (n = ''redis'' \<longrightarrow> redis = Some True)) (cf_ready_checks cf)"
    unfolding check_dependencies_def list.pred_map
    by (rule list.pred_cong) (auto simp: check_database_def check_redis_def split: option.splits)
  also have "\<dots> \<longleftrightarrow> (''database'' \<in> set (cf_ready_checks cf) \<longrightarrow> db \<noteq> None) \<and>
      (''redis'' \<in> set (cf_ready_checks cf) \<longrightarrow> redis = Some True)"
    by (auto simp: list_all_iff)
  finally show ?thesis .
qed

section \<open>What every response carries\<close>

lemma header_set: "map_of (hr_headers (set_header k v r)) k' = (if k' = k then Some v else map_of (hr_headers r) k')"
  by (simp add: set_header_def update_conv')

lemma header_set_default: "map_of (hr_headers (set_default_header kv r)) k =
    (if k = fst kv \<and> map_of (hr_headers r) k = None then Some (snd kv) else map_of (hr_headers r) k)"
  by (auto simp: set_default_header_def header_set)

lemma default_header_kept:
  "map_of (hr_headers r) k = Some v \<Longrightarrow> map_of (hr_headers (fold set_default_header kvs r)) k = Some v"
  by (induction kvs arbitrary: r) (auto simp: header_set_default)

lemma default_header_there:
  "(k, v) \<in> set kvs \<Longrightarrow> map_of (hr_headers (fold set_default_header kvs r)) k \<noteq> None"
proof (induction kvs arbitrary: r)
  case (Cons kv kvs)
  show ?case
  proof (cases "kv = (k, v)")
    case True
    then obtain w where "map_of (hr_headers (set_default_header kv r)) k = Some w"
      by (cases "map_of (hr_headers r) k") (simp_all add: header_set_default)
    then show ?thesis by (simp add: default_header_kept)
  next
    case False
    then show ?thesis using Cons by simp
  qed
qed simp

lemma default_headers_status:
  "hr_status (fold set_default_header kvs r) = hr_status r" "hr_body (fold set_default_header kvs r) = hr_body r"
  by (induction kvs arbitrary: r) (simp_all add: set_default_header_def set_header_def)

text \<open>
  A request that the library's middleware passes on: it answers what the application answers and
  keeps its headers. A preflight request is none; the middleware answers it itself.
\<close>

definition keeps_headers :: "(handler \<Rightarrow> handler) \<Rightarrow> http_request \<Rightarrow> bool" where
  "keeps_headers cors req \<longleftrightarrow> (\<forall>h r. cors h req = Inr r \<longrightarrow> (\<exists>r'. h req = Inr r' \<and> hr_status r = hr_status r' \<and>
     (\<forall>k v. map_of (hr_headers r') k = Some v \<longrightarrow> map_of (hr_headers r) k = Some v)))"

lemma responses_tagged:
  assumes "keeps_headers cors req" "fst (app_stack cf cors new_id routes req) = Inr r"
  shows "map_of (hr_headers r) CORRELATION_HEADER = Some (request_cid new_id req) \<and>
    list_all (\<lambda>(k, _). map_of (hr_headers r) k \<noteq> None) SECURITY_HEADERS \<and>
    (\<exists>r'. routes (req\<lparr>hq_correlation_id := Some (request_cid new_id req)\<rparr>) = Inr r' \<and> hr_status r = hr_status r') \<and>
    snd (app_stack cf cors new_id routes req) = (if cf_metrics_enabled cf
      then [(''paymentops-api'', hq_method req, status_bucket (hr_status r), cf_app_version cf)] else [])"
proof -
  let ?inner = "security_middleware (correlation_middleware new_id routes)"
  have c: "cors ?inner req = Inr r"
    using assms(2) by (auto simp: app_stack_def metrics_middleware_def split: if_splits sum.splits)
  obtain r1 where r1: "?inner req = Inr r1" "hr_status r = hr_status r1"
    "\<And>k v. map_of (hr_headers r1) k = Some v \<Longrightarrow> map_of (hr_headers r) k = Some v"
    using assms(1) c unfolding keeps_headers_def by blast
  obtain r0 where r0: "routes (req\<lparr>hq_correlation_id := Some (request_cid new_id req)\<rparr>) = Inr r0"
    "r1 = fold set_default_header SECURITY_HEADERS (set_header CORRELATION_HEADER (request_cid new_id req) r0)"
    using r1(1) by (auto simp: security_middleware_def correlation_middleware_def Let_def bindR_Inr)
  have "map_of (hr_headers r1) CORRELATION_HEADER = Some (request_cid new_id req)"
    unfolding r0(2) by (rule default_header_kept) (simp add: header_set)
  moreover have "map_of (hr_headers r) k \<noteq> None" if mem: "(k, v) \<in> set SECURITY_HEADERS" for k v
    using default_header_there[OF mem] r1(3)[of k] unfolding r0(2) by fastforce
  moreover have "hr_status r1 = hr_status r0" by (simp add: r0(2) default_headers_status set_header_def)
  ultimately show ?thesis
    using c r1 r0(1) by (auto simp: list_all_iff app_stack_def metrics_middleware_def)
qed

end
