(* ===== verification/PO_Structuring.thy ===== *)
theory PO_Structuring
  imports PO_App
begin

text \<open>
  \<open>apps/address-structuring\<close>, the service behind the Swift-derived provider: \<open>service/provider.py\<close>,
  \<open>service/main.py\<close> and the request that the client of \<open>PO_Address\<close> sends it. The upstream pipeline
  is not part of the repository: whether it can be built (\<open>init\<close>, with the name of the exception
  when not) and what it answers to one sample (\<open>run\<close>) are arguments; a confidence is whatever it
  reports, a float or not. \<open>client_reads_best_match\<close> composes client and service.
\<close>

section \<open>The upstream pipeline\<close>

record AddressSample =
  sm_text :: string
  sm_suggested_country :: "string option"
  sm_force :: bool

text \<open>The best match for town and country: value, confidence, raw text.\<close>

record UpstreamResult =
  up_country :: "string option \<times> jval \<times> string option"
  up_town :: "string option \<times> jval \<times> string option"
  up_suggested_country :: "string option"
  up_force :: bool

type_synonym 'p upstream_run = "'p \<Rightarrow> AddressSample list \<Rightarrow> UpstreamResult list res"

text \<open>\<open>ListReader.read\<close> yields the samples it was given.\<close>

definition read_samples :: "AddressSample list \<Rightarrow> AddressSample list" where
  "read_samples samples = samples"

section \<open>The provider\<close>

record StructureResult =
  sx_town :: "string option"
  sx_country :: "string option"
  sx_town_confidence :: "rat option"
  sx_country_confidence :: "rat option"
  sx_town_raw :: "string option"
  sx_country_raw :: "string option"
  sx_suggested_country :: "string option"
  sx_force_suggested_country :: bool
  sx_diagnostics :: "(string, jval) dict"

record 'p SwiftStructureProvider =
  sv_pipeline :: "'p option"
  sv_reason :: "string option"

definition try_init :: "string + 'p \<Rightarrow> 'p SwiftStructureProvider \<Rightarrow> 'p SwiftStructureProvider" where
  "try_init init sv = (case init of
     Inr p \<Rightarrow> sv\<lparr>sv_pipeline := Some p\<rparr>
   | Inl reason \<Rightarrow> sv\<lparr>sv_pipeline := None, sv_reason := Some reason\<rparr>)"

definition ensure_ready :: "string + 'p \<Rightarrow> 'p SwiftStructureProvider \<Rightarrow> 'p SwiftStructureProvider" where
  "ensure_ready init sv = (if sv_pipeline sv = None then try_init init sv else sv)"

definition new_provider :: "string + 'p \<Rightarrow> 'p SwiftStructureProvider" where
  "new_provider init = try_init init \<lparr>sv_pipeline = None, sv_reason = None\<rparr>"

definition float_confidence :: "jval \<Rightarrow> rat option" where
  "float_confidence v = (case v of JFloat x \<Rightarrow> Some x | _ \<Rightarrow> None)"

definition opt_str :: "string option \<Rightarrow> jval" where
  "opt_str v = (case v of None \<Rightarrow> JNull | Some s \<Rightarrow> JStr s)"

definition result_of_upstream :: "UpstreamResult \<Rightarrow> StructureResult" where
  "result_of_upstream r =
     (case (up_country r, up_town r) of ((country, country_conf, country_raw), (town, town_conf, town_raw)) \<Rightarrow>
        \<lparr>sx_town = town, sx_country = country, sx_town_confidence = float_confidence town_conf,
         sx_country_confidence = float_confidence country_conf, sx_town_raw = town_raw, sx_country_raw = country_raw,
         sx_suggested_country = up_suggested_country r, sx_force_suggested_country = up_force r,
         sx_diagnostics = [(''suggested_country'', opt_str (up_suggested_country r)),
           (''force_suggested_country'', JBool (up_force r)),
           (''country_confidence'', country_conf), (''town_confidence'', town_conf)]\<rparr>)"

definition no_result :: "AddressSample \<Rightarrow> StructureResult" where
  "no_result sample =
     \<lparr>sx_town = None, sx_country = None, sx_town_confidence = None, sx_country_confidence = None,
      sx_town_raw = None, sx_country_raw = None, sx_suggested_country = sm_suggested_country sample,
      sx_force_suggested_country = sm_force sample, sx_diagnostics = []\<rparr>"

datatype structure_error = ProviderNotReadyError string | InferenceError py_error

definition provider_structure ::
  "'p upstream_run \<Rightarrow> string + 'p \<Rightarrow> AddressSample \<Rightarrow> 'p SwiftStructureProvider
     \<Rightarrow> (structure_error + StructureResult) \<times> 'p SwiftStructureProvider" where
  "provider_structure run init sample sv =
     (let sv' = ensure_ready init sv in
      case sv_pipeline sv' of
        None \<Rightarrow> (Inl (ProviderNotReadyError (dget_opt (por (sv_reason sv') (Some ''provider not initialised'')))), sv')
      | Some p \<Rightarrow> ((case run p (read_samples [sample]) of
            Inl e \<Rightarrow> Inl (InferenceError e)
          | Inr [] \<Rightarrow> Inr (no_result sample)
          | Inr (r # _) \<Rightarrow> Inr (result_of_upstream r)), sv'))"

section \<open>The routes\<close>

definition structure_dict :: "StructureResult \<Rightarrow> (string, jval) dict" where
  "structure_dict r =
     [(''town'', opt_str (sx_town r)), (''country'', opt_str (sx_country r)),
      (''town_confidence'', (case sx_town_confidence r of None \<Rightarrow> JNull | Some x \<Rightarrow> JFloat x)),
      (''country_confidence'', (case sx_country_confidence r of None \<Rightarrow> JNull | Some x \<Rightarrow> JFloat x)),
      (''town_raw'', opt_str (sx_town_raw r)), (''country_raw'', opt_str (sx_country_raw r)),
      (''suggested_country'', opt_str (sx_suggested_country r)),
      (''force_suggested_country'', JBool (sx_force_suggested_country r)), (''diagnostics'', JObj (sx_diagnostics r))]"

definition structuring_ready ::
  "string + 'p \<Rightarrow> 'p SwiftStructureProvider \<Rightarrow> (nat \<times> (string, jval) dict) \<times> 'p SwiftStructureProvider" where
  "structuring_ready init sv =
     (let sv' = ensure_ready init sv in
      (if sv_pipeline sv' = None then (503, [(''status'', JStr ''not_ready''), (''reason'', opt_str (sv_reason sv'))])
       else (200, [(''status'', JStr ''ready'')]), sv'))"

text \<open>A request with an empty text does not reach the provider.\<close>

definition structure_route ::
  "'p upstream_run \<Rightarrow> string + 'p \<Rightarrow> AddressSample \<Rightarrow> 'p SwiftStructureProvider
     \<Rightarrow> (string, jval) dict res \<times> 'p SwiftStructureProvider" where
  "structure_route run init sample sv =
     (if sm_text sample = [] then (Inl (HTTPException 422 ''string_too_short''), sv)
      else let sv' = ensure_ready init sv in
        if sv_pipeline sv' = None then (Inl (HTTPException 503 ''address-structuring provider not ready''), sv')
        else (case provider_structure run init sample sv' of
            (Inl (ProviderNotReadyError m), sv'') \<Rightarrow> (Inl (HTTPException 503 m), sv'')
          | (Inl (InferenceError e), sv'') \<Rightarrow> (Inl (HTTPException 500 ''inference failed''), sv'')
          | (Inr r, sv'') \<Rightarrow> (Inr (structure_dict r), sv'')))"

section \<open>Client and service\<close>

text \<open>The payload of \<open>SwiftDerivedAddressProvider.analyze\<close>.\<close>

definition client_sample :: "PostalAddress \<Rightarrow> AddressSample" where
  "client_sample a = \<lparr>sm_text = join [CHR 0x0A] (swift_lines a), sm_suggested_country = fst (swift_suggestion a),
     sm_force = snd (swift_suggestion a)\<rparr>"

text \<open>What the client reads of a body: texts, and confidences that are floats.\<close>

definition body_text :: "string \<Rightarrow> (string, jval) dict \<Rightarrow> string option" where
  "body_text k d = (case map_of d k of Some (JStr s) \<Rightarrow> Some s | _ \<Rightarrow> None)"

definition body_float :: "string \<Rightarrow> (string, jval) dict \<Rightarrow> rat option" where
  "body_float k d = (case map_of d k of Some (JFloat x) \<Rightarrow> Some x | _ \<Rightarrow> None)"

definition attempt_of :: "(string, jval) dict res \<Rightarrow> attempt" where
  "attempt_of reply = (case reply of
     Inr d \<Rightarrow> Responds \<lparr>sr_town = body_text ''town'' d, sr_country = body_text ''country'' d,
       sr_town_confidence = body_float ''town_confidence'' d, sr_country_confidence = body_float ''country_confidence'' d\<rparr>
   | Inl _ \<Rightarrow> ErrorStatus)"

definition best_match :: "UpstreamResult list \<Rightarrow> StructureResponse" where
  "best_match rs = (case rs of [] \<Rightarrow> \<lparr>sr_town = None, sr_country = None, sr_town_confidence = None, sr_country_confidence = None\<rparr>
     | r # _ \<Rightarrow> \<lparr>sr_town = fst (up_town r), sr_country = fst (up_country r),
         sr_town_confidence = float_confidence (fst (snd (up_town r))),
         sr_country_confidence = float_confidence (fst (snd (up_country r)))\<rparr>)"

lemma opt_str_JStr [simp]: "(case opt_str v of JStr s \<Rightarrow> Some s | _ \<Rightarrow> None) = v"
  by (simp add: opt_str_def split: option.splits)

lemma attempt_of_result:
  "attempt_of (Inr (structure_dict r)) = Responds \<lparr>sr_town = sx_town r, sr_country = sx_country r,
     sr_town_confidence = sx_town_confidence r, sr_country_confidence = sx_country_confidence r\<rparr>"
  by (simp add: attempt_of_def structure_dict_def body_text_def body_float_def split: option.splits)

lemma route_attempt:
  "attempt_of (fst (structure_route run init sample sv)) =
     (if sm_text sample = [] then ErrorStatus
      else case sv_pipeline (ensure_ready init sv) of
        None \<Rightarrow> ErrorStatus
      | Some p \<Rightarrow> (case run p [sample] of Inl e \<Rightarrow> ErrorStatus | Inr rs \<Rightarrow> Responds (best_match rs)))"
  by (auto simp: structure_route_def provider_structure_def Let_def read_samples_def attempt_of_result no_result_def result_of_upstream_def
      best_match_def ensure_ready_def attempt_of_def[of "Inl e" for e] split: option.splits sum.splits list.splits prod.splits)

text \<open>The composition: with a reachable service the client never raises; it takes over the best match exactly
  when there is a text, the pipeline is there and it answers, and otherwise reports itself unavailable
  and counts a failure.\<close>

lemma client_reads_best_match:
  assumes "sw_endpoint cfg \<noteq> []" "\<not> circuit_open (se_clock env) s" "0 \<le> sw_max_retries cfg" "swift_lines a \<noteq> []"
    and "se_attempt env 0 = attempt_of (fst (structure_route run init (client_sample a) sv))"
  shows "swift_analyze cfg env a s =
    (case sv_pipeline (ensure_ready init sv) of
       Some p \<Rightarrow> (case run p [client_sample a] of
           Inr rs \<Rightarrow> if join [CHR 0x0A] (swift_lines a) \<noteq> [] then (Inr (swift_build (best_match rs)), record_success s)
             else (Inr (swift_unavailable ''provider call failed or timed out''), record_failure cfg (se_clock_after env) s)
         | Inl e \<Rightarrow> (Inr (swift_unavailable ''provider call failed or timed out''), record_failure cfg (se_clock_after env) s))
     | None \<Rightarrow> (Inr (swift_unavailable ''provider call failed or timed out''), record_failure cfg (se_clock_after env) s))"
proof -
  obtain n where n: "nat (sw_max_retries cfg + 1) = Suc n"
    using assms(3) by (metis Suc_nat_eq_nat_zadd1 add.commute)
  have sent: "sm_text (client_sample a) = join [CHR 0x0A] (swift_lines a)" by (simp add: client_sample_def)
  show ?thesis
    using assms(1,2,4) unfolding swift_analyze_def swift_post_def n
    by (auto simp: assms(5) route_attempt sent split: option.splits sum.splits)
qed

text \<open>An address whose only line is empty is refused by the service and counts as a failure of it.\<close>

lemma empty_line_counts_as_failure:
  assumes "sw_endpoint cfg \<noteq> []" "\<not> circuit_open (se_clock env) s" "0 \<le> sw_max_retries cfg"
    and "pa_address_lines a = [[]]"
    and "se_attempt env 0 = attempt_of (fst (structure_route run init (client_sample a) sv))"
  shows "snd (swift_analyze cfg env a s) = record_failure cfg (se_clock_after env) s"
proof -
  have "swift_lines a = [[]]" using assms(4) by (simp add: swift_lines_def)
  then show ?thesis
    using client_reads_best_match[OF assms(1-3) _ assms(5)] by (simp split: option.splits sum.splits)
qed

end
