(* ===== verification/Spec2Isabelle.thy ===== *)
theory Spec2Isabelle
  imports PO_MatchProps PO_IsoProps PO_CorrelationProps PO_AddressProps PO_RulesProps PO_PipelineProps PO_Resubmit PO_ServiceWits
    PO_IntegrationWits PO_RouteWits PO_Reset PO_Structuring
begin

text \<open>
  A verification development for PaymentOps, a payment operations platform in Python. \<open>packages/\<close>
  holds the engines, which are functions on canonical payment objects; \<open>apps/api\<close> holds the services
  that keep their results in a database and the routes that expose them; \<open>apps/worker\<close> runs the
  long operations. An ISO 20022 message goes through ingestion, identification, schema validation, an
  adapter to the canonical model, rules, address analysis and a repair candidate; its result is
  recorded with the lifecycle of the payment it belongs to, and account reports are reconciled with
  those lifecycles. Payments of other formats are first mapped by a declarative mapping, and records
  of two systems are compared by the matching engine.

  Base. \<open>PO_Prelude\<close> has exceptions as values of \<open>py_error\<close>, results as sums, dictionaries as
  association lists in insertion order, and the stable descending sort. \<open>PO_Text\<close>, \<open>PO_Date\<close>,
  \<open>PO_Num\<close>, \<open>PO_Decimal\<close> and \<open>PO_Csv\<close> model what the sources use of Python's strings, dates, binary
  floats (\<open>fl\<close> is rounding to 53 bits; its exponent has no bounds), decimals (28 digits) and \<open>csv\<close>
  module, whose writer is in \<open>PO_CsvWrite\<close>. \<open>PO_Xml\<close>
  has element trees and bounded parsing. \<open>PO_Store\<close> has what the services use of a database session,
  and the locale \<open>tenant_get\<close>, the contract of a lookup in the rows of one organization.

  Engines. \<open>PO_Domain\<close>: \<open>packages/payment_domain\<close>. \<open>PO_MatchModels\<close>, \<open>PO_Matcher\<close>:
  \<open>matching_engine\<close>; \<open>PO_MatchFloat\<close> computes its score with the exponents of a machine double.
  \<open>PO_Iso\<close>, \<open>PO_Parties\<close>, \<open>PO_Camt\<close>: \<open>iso_engine\<close>, its six adapters and the
  registry. \<open>PO_Correlation\<close>: lifecycle correlation and account reconciliation. \<open>PO_Address\<close>:
  \<open>address_engine\<close> with the circuit breaker of the Swift provider and the fallback, under the locale
  \<open>address_provider\<close>. \<open>PO_Rules\<close>, \<open>PO_Declarative\<close>: \<open>rules_engine\<close>, under \<open>rule_contract\<close> and
  \<open>rule_set\<close>. \<open>PO_Repair\<close>: \<open>repair_engine\<close>. \<open>PO_Mapping\<close>, \<open>PO_Mapper\<close>: \<open>mapping_engine\<close>.
  \<open>PO_Pipeline\<close>: \<open>analysis/pipeline.py\<close>, which composes them.

  Services. \<open>PO_MatchService\<close>, \<open>PO_Reconcile\<close>: matching policies, records, reconciliation runs and
  their worker task. \<open>PO_Audit\<close>, \<open>PO_Users\<close>: log redaction, audit rows, passwords, sessions and API
  clients. \<open>PO_Ops\<close> is the store of the analysis services, a record with one list of rows per table;
  \<open>PO_Cases\<close>, \<open>PO_IsoService\<close> and \<open>PO_Account\<close> are the operations on it: cases and their actions,
  recorded messages with lifecycles and correlations, account reports with entries, reconciliations
  and exceptions. \<open>PO_Integration\<close>, \<open>PO_ProfileRun\<close> and \<open>PO_Batch\<close> add integration profiles with
  their versions, the analysis of a payload under a profile, and batch jobs. \<open>PO_Routes\<close> has the
  response bodies of the account, ISO and matching routers, \<open>PO_Reports\<close> their CSV reports,
  \<open>PO_Dashboard\<close> the summary of an organization, and \<open>PO_Admin\<close> the scripts that administer users.

  Application. \<open>PO_App\<close> has the settings, the choice and metering of the address provider (locale
  \<open>metered\<close>), middleware, exception handlers and readiness; \<open>PO_Structuring\<close> the internal service under
  \<open>apps/address-structuring\<close>, with its composition with the client: \<open>client_reads_best_match\<close>.

  Schema. \<open>PO_Schema\<close> has the migrations of \<open>alembic/versions\<close> as lists of operations on schemas and
  the tables that the models declare, \<open>PO_SchemaStates\<close> the schema after each revision, and
  \<open>PO_Reset\<close> the script that deletes the rows of one organization in an order read from the schema.

  Correspondence. A row of a table is a record with the columns of its class under \<open>db/models\<close>. An
  operation is a function from a store to a result and a store: the store it returns is the last one
  committed, also when it raises. The locale \<open>step_relation\<close> of \<open>PO_Ops\<close> carries a relation between
  stores from statements to services; \<open>PO_Tenant\<close> defines the steps \<open>service_step\<close> and the runs
  \<open>service_run\<close> of these operations. The services are modelled under the constraints that the models
  declare; \<open>models_match_migrations\<close> names the two that the migrated database lacks.

  Results. \<open>PO_MatchProps\<close>, \<open>PO_IsoProps\<close>, \<open>PO_CorrelationProps\<close>, \<open>PO_AddressProps\<close>,
  \<open>PO_RulesProps\<close>, \<open>PO_MapProps\<close>, \<open>PO_RepairProps\<close> and \<open>PO_PipelineProps\<close> are about the engines:
  score bounds, symmetry, what a verdict means, exactness of amounts, dispatch by version, the
  circuit breaker, the exact conditions for every finding, what a mapping stores and reports, what
  a validated candidate has passed, and that both entry points of the pipeline agree. \<open>PO_MatchStoreProps\<close>,
  \<open>PO_ReconcileProps\<close>, \<open>PO_Resubmit\<close>, \<open>PO_UserProps\<close>, \<open>PO_AccountProps\<close>, \<open>PO_ServiceProps\<close>,
  \<open>PO_Tenant\<close>, \<open>PO_IntegrationProps\<close>, \<open>PO_ProfileProps\<close> and \<open>PO_BatchProps\<close> are about the services: refinement of an
  append-only list of published policies, one-to-one matching, counters that describe their rows,
  lockout and the end of sessions, isolation of organizations in every run, the history that is
  only added to, idempotent recording and analysis, frozen profiles, complete batch reports.
  \<open>PO_SchemaProps\<close> compares migrations, their downgrades and the declared tables; \<open>PO_Reports\<close>,
  \<open>PO_Dashboard\<close>, \<open>PO_AdminProps\<close> and \<open>PO_Reset\<close> state what a reader of a report gets, what every figure
  counts, what the scripts print and change, and what a reset deletes. \<open>PO_ServiceWits\<close>,
  \<open>PO_IntegrationWits\<close> and \<open>PO_RouteWits\<close> apply them at concrete stores.

  Parameters. The order in which a query without \<open>order_by\<close> returns rows (\<open>scan_ok\<close>: every row
  once), the generated keys (\<open>inj\<close>: no two equal), the hash functions, PBKDF2 and random tokens, the
  NUMERIC column, lxml (parsing, XPath, compiled schemas, serialization), RapidFuzz, the outcome of
  HTTP calls, \<open>json.loads\<close>, \<open>repr\<close> of floats and containers, and the clock, which an operation reads
  once. Hypotheses on them are stated where they are used.

  Bounds. Integer columns are 32 bits wide and refuse other values (\<open>int4_ok\<close>); ingestion is
  bounded by 1048576 bytes, a batch by 2000000 bytes and 5000 rows, a CSV field by 131072 characters.
  The functions are total; the loops recurse over lists, and \<open>post_loop\<close> over the number of
  attempts. Text is a list of code points below 256, and statements about case and compatibility
  forms cover ASCII.

  The score of a pair is exact for weights up to two to the power of 400, as \<open>match_score_bounded\<close> states;
  the other floats of the code, rates and scores with constant weights, stay far from overflow.

  Not modelled. Lengths of VARCHAR columns and column defaults; concurrent transactions; the JSON
  of domain objects (\<open>model_dump\<close>); counters and histograms other than those of the address provider
  and of requests, tracing and log set-up; reading the environment, the routing table and the CORS
  middleware, which are libraries'; the connection to the database, the Celery set-up and the queue
  client; the configuration of Alembic and the seeding script; \<open>packages/ai_gateway\<close> and
  \<open>packages/audit\<close>, which are interfaces without an implementation; the vendored engine under
  \<open>third_party\<close>; benchmarks and tools; the web console, which is TypeScript.
\<close>

end
